(* ===== verification/Prelude.thy ===== *)
theory Prelude
  imports Main "HOL-Library.Multiset" "HOL-Library.Word" "HOL-Library.Signed_Division"
    "HOL-Library.Char_ord"
begin

text \<open>
  Shared vocabulary of the development: Go's panics as values of a sum type, the
  wrap-around of \<open>int64\<close> and \<open>uint64\<close> arithmetic, the decimal and hexadecimal verbs of
  \<open>fmt.Sprintf\<close>, \<open>strconv.ParseInt\<close>, the \<open>float64\<close> operations the sources use, and the
  generic list lemmas the components share.
\<close>

named_theorems go_simps \<open>equations that run Go control flow (panics, returns, loops)\<close>
named_theorems wf_intros \<open>preservation lemmas for well-formedness invariants\<close>

section \<open>Names\<close>

type_synonym NaraName = string
type_synonym NaraID = string

section \<open>Panics\<close>

text \<open>
  A Go function that may panic returns \<open>go_panic + 'a\<close>: \<open>Inl\<close> is the panic, \<open>Inr\<close> the
  returned value. Only the panics that the modelled code can raise are listed. \<open>BadKeyLength\<close> is
  the panic of \<open>ed25519.Verify\<close> on a key that is not 32 bytes long; \<open>Deadlock\<close> is no panic but a
  call that never returns, because it locks a mutex that it holds itself; \<open>ExplicitPanic\<close> a call of \<open>panic\<close>.
\<close>

datatype go_panic = NilDereference | IndexOutOfRange | NegativeMakeLen | NilMapAssignment | BadKeyLength | Deadlock | ExplicitPanic

type_synonym 'a go = "go_panic + 'a"

definition go_bind :: "'a go \<Rightarrow> ('a \<Rightarrow> 'b go) \<Rightarrow> 'b go" where
  "go_bind m f = (case m of Inl p \<Rightarrow> Inl p | Inr x \<Rightarrow> f x)"

lemma go_bind_Inl [simp, go_simps]: "go_bind (Inl p) f = Inl p"
  by (simp add: go_bind_def)

lemma go_bind_Inr [simp, go_simps]: "go_bind (Inr x) f = f x"
  by (simp add: go_bind_def)

lemma go_bind_eq_Inr: "go_bind m f = Inr y \<longleftrightarrow> (\<exists>x. m = Inr x \<and> f x = Inr y)"
  by (cases m) auto

lemma go_bind_split_asm:
  "P (go_bind m f) = (\<not> ((\<exists>p. m = Inl p \<and> \<not> P (Inl p)) \<or> (\<exists>x. m = Inr x \<and> \<not> P (f x))))"
  by (cases m) auto

text \<open>Reading through a pointer that may be nil.\<close>

definition deref :: "'a option \<Rightarrow> 'a go" where
  "deref p = (case p of None \<Rightarrow> Inl NilDereference | Some x \<Rightarrow> Inr x)"

lemma deref_None [simp]: "deref None = Inl NilDereference"
  by (simp add: deref_def)

lemma deref_Some [simp]: "deref (Some x) = Inr x"
  by (simp add: deref_def)

lemma deref_eq_Inr: "deref p = Inr x \<longleftrightarrow> p = Some x"
  by (cases p) auto

text \<open>A loop that appends the elements passing a test which may itself panic.\<close>

fun go_filter :: "('a \<Rightarrow> bool go) \<Rightarrow> 'a list \<Rightarrow> 'a list go" where
  "go_filter P [] = Inr []"
| "go_filter P (x # xs) =
     go_bind (P x) (\<lambda>b. go_bind (go_filter P xs) (\<lambda>ys. Inr (if b then x # ys else ys)))"

lemma go_filter_eq:
  "(\<And>x. x \<in> set xs \<Longrightarrow> P x = Inr (p x)) \<Longrightarrow> go_filter P xs = Inr (filter p xs)"
  by (induction xs) auto

lemma go_filter_InrD: "go_filter P xs = Inr ys \<Longrightarrow> ys = filter (\<lambda>x. P x = Inr True) xs"
proof (induction xs arbitrary: ys)
  case (Cons x xs)
  then obtain b zs where "P x = Inr b" and "go_filter P xs = Inr zs"
    and "ys = (if b then x # zs else zs)"
    by (auto simp: go_bind_eq_Inr)
  with Cons.IH show ?case by auto
qed simp

section \<open>Machine integers\<close>

text \<open>
  \<open>int64\<close> values are \<open>int\<close>s; every addition, subtraction and multiplication of the code is
  written with the wrap-around \<open>i64\<close>. Unsigned 64-bit values are \<open>nat\<close>s with \<open>u64\<close>.
  Division and remainder truncate towards zero (\<open>sdiv\<close>, \<open>smod\<close>).
\<close>

definition in_i64 :: "int \<Rightarrow> bool" where
  "in_i64 x \<longleftrightarrow> - (2 ^ 63) \<le> x \<and> x < 2 ^ 63"

definition i64 :: "int \<Rightarrow> int" where
  "i64 x = (x + 2 ^ 63) mod 2 ^ 64 - 2 ^ 63"

definition u64 :: "nat \<Rightarrow> nat" where
  "u64 n = n mod 2 ^ 64"

lemma i64_id [simp]: "in_i64 x \<Longrightarrow> i64 x = x"
  by (simp add: in_i64_def i64_def)

lemma in_i64_i64 [simp]: "in_i64 (i64 x)"
proof -
  have "0 \<le> (x + 2 ^ 63) mod 2 ^ 64" and "(x + 2 ^ 63) mod 2 ^ 64 < 2 ^ 64"
    by simp_all
  then show ?thesis unfolding in_i64_def i64_def by simp
qed

lemma i64_i64 [simp]: "i64 (i64 x) = i64 x"
  by simp

lemma in_i64_mono: "in_i64 a \<Longrightarrow> in_i64 b \<Longrightarrow> a \<le> x \<Longrightarrow> x \<le> b \<Longrightarrow> in_i64 x"
  by (simp add: in_i64_def)

lemma i64_add_left [simp]: "i64 (i64 a + b) = i64 (a + b)"
  unfolding i64_def by (simp add: mod_simps algebra_simps)

lemma i64_add_right [simp]: "i64 (a + i64 b) = i64 (a + b)"
  using i64_add_left [of b a] by (simp add: add.commute)

lemma u64_id [simp]: "n < 2 ^ 64 \<Longrightarrow> u64 n = n"
  by (simp add: u64_def)

lemma u64_less [simp]: "u64 n < 2 ^ 64"
  by (simp add: u64_def)

section \<open>Formatting\<close>

text \<open>\<open>%d\<close> on integers, and \<open>%x\<close> on a byte slice.\<close>

definition digit_char :: "nat \<Rightarrow> char" where
  "digit_char d = char_of (48 + d)"

fun fmt_nat :: "nat \<Rightarrow> string" where
  "fmt_nat n = (if n < 10 then [digit_char n] else fmt_nat (n div 10) @ [digit_char (n mod 10)])"

declare fmt_nat.simps [simp del]

definition fmt_int :: "int \<Rightarrow> string" where
  "fmt_int x = (if x < 0 then CHR ''-'' # fmt_nat (nat (- x)) else fmt_nat (nat x))"

definition hex_digit :: "nat \<Rightarrow> char" where
  "hex_digit d = (if d < 10 then char_of (48 + d) else char_of (87 + d))"

definition fmt_hex :: "string \<Rightarrow> string" where
  "fmt_hex bs = concat (map (\<lambda>c. [hex_digit (of_char c div 16), hex_digit (of_char c mod 16)]) bs)"

text \<open>\<open>strconv.ParseInt(s, 10, 64)\<close>: optional sign, decimal digits, range check.\<close>

definition char_digit :: "char \<Rightarrow> nat option" where
  "char_digit c = (if 48 \<le> (of_char c :: nat) \<and> (of_char c :: nat) \<le> 57
                   then Some (of_char c - 48) else None)"

fun parse_digits :: "nat \<Rightarrow> string \<Rightarrow> nat option" where
  "parse_digits acc [] = Some acc"
| "parse_digits acc (c # cs) =
     (case char_digit c of None \<Rightarrow> None | Some d \<Rightarrow> parse_digits (acc * 10 + d) cs)"

definition parse_nat :: "string \<Rightarrow> nat option" where
  "parse_nat cs = (if cs = [] then None else parse_digits 0 cs)"

definition ParseInt :: "string \<Rightarrow> int option" where
  "ParseInt s =
     (let (neg, ds) = (case s of
          [] \<Rightarrow> (False, [])
        | c # cs \<Rightarrow> if c = CHR ''-'' then (True, cs) else if c = CHR ''+'' then (False, cs)
                   else (False, s))
      in case parse_nat ds of
           None \<Rightarrow> None
         | Some n \<Rightarrow> let x = (if neg then - int n else int n)
                     in if in_i64 x then Some x else None)"

lemma of_char_digit: "d < 10 \<Longrightarrow> (of_char (digit_char d) :: nat) = 48 + d"
  by (simp add: digit_char_def)

lemma char_digit_digit_char [simp]: "d < 10 \<Longrightarrow> char_digit (digit_char d) = Some d"
  by (simp add: char_digit_def of_char_digit)

lemma parse_digits_append:
  "parse_digits acc (xs @ ys) =
     (case parse_digits acc xs of None \<Rightarrow> None | Some a \<Rightarrow> parse_digits a ys)"
  by (induction xs arbitrary: acc) (auto split: option.splits)

lemma fmt_nat_nonempty [simp]: "fmt_nat n \<noteq> []"
  by (subst fmt_nat.simps) simp

lemma parse_digits_fmt_nat: "parse_digits 0 (fmt_nat n) = Some n"
proof (induction n rule: fmt_nat.induct)
  case (1 n)
  show ?case
  proof (cases "n < 10")
    case True
    then show ?thesis by (subst fmt_nat.simps) simp
  next
    case False
    with "1.IH" have "parse_digits 0 (fmt_nat (n div 10)) = Some (n div 10)" by simp
    with False show ?thesis
      by (subst fmt_nat.simps) (simp add: parse_digits_append)
  qed
qed

lemma fmt_nat_digits: "c \<in> set (fmt_nat n) \<Longrightarrow> \<exists>d < 10. c = digit_char d"
proof (induction n rule: fmt_nat.induct)
  case (1 n)
  show ?case
  proof (cases "n < 10")
    case True
    with "1.prems" show ?thesis by (auto simp: fmt_nat.simps [of n])
  next
    case False
    with "1.prems" consider "c \<in> set (fmt_nat (n div 10))" | "c = digit_char (n mod 10)"
      by (auto simp: fmt_nat.simps [of n])
    then show ?thesis
    proof cases
      case 1
      with False "1.IH" show ?thesis by simp
    next
      case 2
      then show ?thesis by (intro exI [of _ "n mod 10"]) simp
    qed
  qed
qed

lemma digit_char_not_sign:
  assumes "d < 10"
  shows "digit_char d \<noteq> CHR ''-''" and "digit_char d \<noteq> CHR ''+''"
proof -
  have v: "(of_char (digit_char d) :: nat) = 48 + d" using assms by (rule of_char_digit)
  have m: "(of_char (CHR ''-'') :: nat) = 45" and p: "(of_char (CHR ''+'') :: nat) = 43"
    by simp_all
  show "digit_char d \<noteq> CHR ''-''"
  proof
    assume "digit_char d = CHR ''-''"
    with v m have "45 = 48 + d" by metis
    then show False by simp
  qed
  show "digit_char d \<noteq> CHR ''+''"
  proof
    assume "digit_char d = CHR ''+''"
    with v p have "43 = 48 + d" by metis
    then show False by simp
  qed
qed

lemma hd_fmt_nat_not_sign: "hd (fmt_nat n) \<noteq> CHR ''-''" "hd (fmt_nat n) \<noteq> CHR ''+''"
proof -
  obtain d where "d < 10" and "hd (fmt_nat n) = digit_char d"
    using fmt_nat_digits [of "hd (fmt_nat n)" n] by auto
  then show "hd (fmt_nat n) \<noteq> CHR ''-''" "hd (fmt_nat n) \<noteq> CHR ''+''"
    using digit_char_not_sign by metis+
qed

lemma parse_nat_fmt_nat [simp]: "parse_nat (fmt_nat n) = Some n"
  by (simp add: parse_nat_def parse_digits_fmt_nat)

lemma ParseInt_minus: "in_i64 (- int n) \<Longrightarrow> ParseInt (CHR ''-'' # fmt_nat n) = Some (- int n)"
  by (simp only: ParseInt_def Let_def list.case prod.case if_True refl parse_nat_fmt_nat option.case)

theorem ParseInt_fmt_int: "in_i64 x \<Longrightarrow> ParseInt (fmt_int x) = Some x"
proof (cases "x < 0")
  case True
  assume r: "in_i64 x"
  from True have x: "x = - int (nat (- x))" by simp
  have "fmt_int x = CHR ''-'' # fmt_nat (nat (- x))"
    using True by (simp only: fmt_int_def if_True)
  with ParseInt_minus [of "nat (- x)"] r x show ?thesis by metis
next
  case False
  assume r: "in_i64 x"
  obtain c cs where c: "fmt_nat (nat x) = c # cs"
    using fmt_nat_nonempty [of "nat x"] by (cases "fmt_nat (nat x)") auto
  with hd_fmt_nat_not_sign [of "nat x"] have "c \<noteq> CHR ''-''" and "c \<noteq> CHR ''+''"
    by auto
  moreover have "fmt_int x = c # cs"
    using False c by (simp only: fmt_int_def if_False)
  moreover have "parse_nat (c # cs) = Some (nat x)"
    using parse_nat_fmt_nat [of "nat x"] c by simp
  ultimately show ?thesis
    using False r by (simp add: ParseInt_def)
qed

section \<open>float64\<close>

text \<open>
  A \<open>float64\<close> is its 64-bit pattern. The ledger code uses two things of it: the test
  \<open>x > 0\<close> and the verb \<open>%.1f\<close>, which rounds the exact value to one decimal, ties to even.
\<close>

type_synonym float64 = "64 word"

definition f64_exp :: "float64 \<Rightarrow> nat" where
  "f64_exp w = (unat w div 2 ^ 52) mod 2 ^ 11"

definition f64_frac :: "float64 \<Rightarrow> nat" where
  "f64_frac w = unat w mod 2 ^ 52"

definition f64_neg :: "float64 \<Rightarrow> bool" where
  "f64_neg w \<longleftrightarrow> 2 ^ 63 \<le> unat w"

definition f64_gt_zero :: "float64 \<Rightarrow> bool" where
  \<comment> \<open>sign clear, not zero, not a NaN\<close>
  "f64_gt_zero w \<longleftrightarrow> 0 < unat w \<and> unat w \<le> 2047 * 2 ^ 52"

definition round_half_even :: "nat \<Rightarrow> nat \<Rightarrow> nat" where
  \<comment> \<open>the quotient \<open>a / d\<close> rounded to the nearest natural number, ties to even\<close>
  "round_half_even a d =
     (let q = a div d; r = a mod d
      in if 2 * r < d then q else if d < 2 * r then q + 1 else if even q then q else q + 1)"

definition f64_tenths :: "float64 \<Rightarrow> nat" where
  \<comment> \<open>\<open>|w| * 10\<close> rounded, for finite \<open>w\<close>\<close>
  "f64_tenths w =
     (let e = f64_exp w; m = (if e = 0 then f64_frac w else 2 ^ 52 + f64_frac w);
          k = (if e = 0 then 1 else e)
      in if 1075 \<le> k then m * 10 * 2 ^ (k - 1075) else round_half_even (m * 10) (2 ^ (1075 - k)))"

definition fmt_f1 :: "float64 \<Rightarrow> string" where
  "fmt_f1 w =
     (if f64_exp w = 2047
      then if f64_frac w \<noteq> 0 then ''NaN'' else if f64_neg w then ''-Inf'' else ''+Inf''
      else (if f64_neg w then ''-'' else []) @ fmt_nat (f64_tenths w div 10) @ ''.'' @
           fmt_nat (f64_tenths w mod 10))"

section \<open>Lists\<close>

text \<open>The loop that copies a slice without one index.\<close>

fun remove_index :: "nat \<Rightarrow> 'a list \<Rightarrow> 'a list" where
  "remove_index i [] = []"
| "remove_index 0 (x # xs) = xs"
| "remove_index (Suc i) (x # xs) = x # remove_index i xs"

lemma mset_remove_index:
  "i < length xs \<Longrightarrow> add_mset (xs ! i) (mset (remove_index i xs)) = mset xs"
  by (induction i xs rule: remove_index.induct) (auto simp: add_mset_commute)

lemma length_remove_index [simp]: "i < length xs \<Longrightarrow> length (remove_index i xs) = length xs - 1"
  by (induction i xs rule: remove_index.induct) auto

lemma set_remove_index_subset: "set (remove_index i xs) \<subseteq> set xs"
  by (induction i xs rule: remove_index.induct) auto

lemma in_set_remove_indexD [dest]: "x \<in> set (remove_index i xs) \<Longrightarrow> x \<in> set xs"
  using set_remove_index_subset by fast

lemma remove_index_map: "map f (remove_index i xs) = remove_index i (map f xs)"
  by (induction i xs rule: remove_index.induct) auto

lemma distinct_remove_index: "distinct xs \<Longrightarrow> distinct (remove_index i xs)"
  by (induction i xs rule: remove_index.induct) auto

lemma set_remove_index_distinct:
  assumes "distinct xs" and "i < length xs"
  shows "set (remove_index i xs) = set xs - {xs ! i}"
proof -
  have m: "mset (xs ! i # remove_index i xs) = mset xs"
    using mset_remove_index [OF assms(2)] by simp
  then have "distinct (xs ! i # remove_index i xs)"
    using assms(1) mset_eq_imp_distinct_iff by blast
  moreover have "set (xs ! i # remove_index i xs) = set xs"
    using m by (rule mset_eq_setD)
  ultimately show ?thesis by auto
qed

lemma filter_remove_index_not:
  "i < length xs \<Longrightarrow> \<not> P (xs ! i) \<Longrightarrow> filter P (remove_index i xs) = filter P xs"
  by (induction i xs rule: remove_index.induct) auto

lemma length_filter_remove_index:
  assumes "i < length xs" and "P (xs ! i)"
  shows "length (filter P (remove_index i xs)) = length (filter P xs) - 1"
proof -
  have "mset (filter P (xs ! i # remove_index i xs)) = mset (filter P xs)"
    using mset_remove_index [OF assms(1)] by (simp only: mset_filter mset.simps)
  then have "length (filter P (xs ! i # remove_index i xs)) = length (filter P xs)"
    by (rule mset_eq_length)
  with assms(2) show ?thesis by simp
qed

lemma map_filter_append: "List.map_filter f (xs @ ys) = List.map_filter f xs @ List.map_filter f ys"
  by (simp add: List.map_filter_def)

lemma in_map_filter: "y \<in> set (List.map_filter f xs) \<longleftrightarrow> (\<exists>x \<in> set xs. f x = Some y)"
  by (force simp: List.map_filter_def)

lemma map_filter_single: "List.map_filter f [x] = (case f x of None \<Rightarrow> [] | Some y \<Rightarrow> [y])"
  by (simp add: List.map_filter_def split: option.splits)

end
