(* ===== verification/Go_Sort.thy ===== *)
theory Go_Sort
  imports Prelude
begin

text \<open>
  \<open>sort.Slice(xs, less)\<close> of Go's standard library. It is not stable, and which of several
  sorted permutations it returns is not documented, so the algorithm is a parameter: a
  function from the length and the comparison of positions to the resulting permutation of
  positions. The locale \<open>sort_algorithm\<close> is the documented contract; the interpretation
  shows that insertion sort, which Go itself uses for short slices, meets it.
\<close>

type_synonym sorter = "(nat \<Rightarrow> nat \<Rightarrow> bool) \<Rightarrow> nat \<Rightarrow> nat list"

definition sort_slice :: "sorter \<Rightarrow> ('a \<Rightarrow> 'a \<Rightarrow> bool) \<Rightarrow> 'a list \<Rightarrow> 'a list" where
  "sort_slice srt lt xs =
     map (\<lambda>i. xs ! i) (srt (\<lambda>i j. lt (xs ! i) (xs ! j)) (length xs))"

text \<open>The condition under which \<open>sort.Slice\<close> promises a sorted result.\<close>

definition weak_order_on :: "'a set \<Rightarrow> ('a \<Rightarrow> 'a \<Rightarrow> bool) \<Rightarrow> bool" where
  "weak_order_on A lt \<longleftrightarrow>
     (\<forall>x\<in>A. \<forall>y\<in>A. lt x y \<longrightarrow> \<not> lt y x) \<and>
     (\<forall>x\<in>A. \<forall>y\<in>A. \<forall>z\<in>A. lt x z \<longrightarrow> lt x y \<or> lt y z)"

lemma weak_order_on_key [simp, intro]: "weak_order_on A (\<lambda>x y. (f x :: 'b :: linorder) < f y)"
  by (auto simp: weak_order_on_def)

lemma weak_order_on_key_desc [simp, intro]:
  "weak_order_on A (\<lambda>x y. (f y :: 'b :: linorder) < f x)"
  by (auto simp: weak_order_on_def)

lemma weak_order_on_subset: "weak_order_on A lt \<Longrightarrow> B \<subseteq> A \<Longrightarrow> weak_order_on B lt"
  unfolding weak_order_on_def by blast

text \<open>Comparing by one key and breaking ties by another, as the sources' comparators do.\<close>

definition lex_less :: "('a \<Rightarrow> 'a \<Rightarrow> bool) \<Rightarrow> ('a \<Rightarrow> 'a \<Rightarrow> bool) \<Rightarrow> 'a \<Rightarrow> 'a \<Rightarrow> bool" where
  "lex_less r s x y \<longleftrightarrow> r x y \<or> \<not> r y x \<and> s x y"

lemma weak_order_on_lex:
  assumes "weak_order_on A r" and "weak_order_on A s"
  shows "weak_order_on A (lex_less r s)"
  using assms unfolding weak_order_on_def lex_less_def by metis

locale sort_algorithm =
  fixes srt :: sorter
  assumes srt_perm: "mset (srt lt n) = mset [0..<n]"
    and srt_sorted: "weak_order_on {..<n} lt \<Longrightarrow> sorted_wrt (\<lambda>i j. \<not> lt j i) (srt lt n)"
begin

lemma mset_sort_slice [simp]: "mset (sort_slice srt lt xs) = mset xs"
proof -
  have "mset (sort_slice srt lt xs) = image_mset (\<lambda>i. xs ! i) (mset [0..<length xs])"
    by (simp add: sort_slice_def srt_perm)
  also have "\<dots> = mset (map (\<lambda>i. xs ! i) [0..<length xs])" by simp
  also have "\<dots> = mset xs" by (simp only: map_nth)
  finally show ?thesis .
qed

lemma set_sort_slice [simp]: "set (sort_slice srt lt xs) = set xs"
  by (rule mset_eq_setD) simp

lemma length_sort_slice [simp]: "length (sort_slice srt lt xs) = length xs"
  by (rule mset_eq_length) simp

lemma distinct_map_sort_slice [simp]:
  "distinct (map f (sort_slice srt lt xs)) \<longleftrightarrow> distinct (map f xs)"
proof -
  have "mset (map f (sort_slice srt lt xs)) = mset (map f xs)" by simp
  then show ?thesis using mset_eq_imp_distinct_iff by blast
qed

lemma sorted_sort_slice:
  assumes "weak_order_on (set xs) lt"
  shows "sorted_wrt (\<lambda>x y. \<not> lt y x) (sort_slice srt lt xs)"
proof -
  let ?q = "\<lambda>i j. lt (xs ! i) (xs ! j)"
  have "weak_order_on {..<length xs} ?q"
    using assms unfolding weak_order_on_def by (meson lessThan_iff nth_mem)
  then have "sorted_wrt (\<lambda>i j. \<not> ?q j i) (srt ?q (length xs))"
    by (rule srt_sorted)
  then show ?thesis by (simp add: sort_slice_def sorted_wrt_map)
qed

lemma sorted_sort_slice_key:
  fixes f :: "'a \<Rightarrow> 'b :: linorder"
  shows "sorted (map f (sort_slice srt (\<lambda>x y. f x < f y) xs))"
  using sorted_sort_slice [of xs "\<lambda>x y. f x < f y"]
  by (simp add: sorted_map not_less)

lemma sorted_sort_slice_key_desc:
  fixes f :: "'a \<Rightarrow> 'b :: linorder"
  shows "sorted_wrt (\<ge>) (map f (sort_slice srt (\<lambda>x y. f y < f x) xs))"
  using sorted_sort_slice [of xs "\<lambda>x y. f y < f x"]
  by (simp add: sorted_wrt_map not_less)

text \<open>Where the keys are the elements themselves the result does not depend on the algorithm.\<close>

lemma sort_slice_eq_sort:
  fixes xs :: "'b :: linorder list"
  shows "sort_slice srt (<) xs = sort xs"
proof (rule properties_for_sort [symmetric])
  show "mset (sort_slice srt (<) xs) = mset xs" by simp
  show "sorted (sort_slice srt (<) xs)"
    using sorted_sort_slice_key [of "\<lambda>x. x" xs] by simp
qed

text \<open>With distinct keys, too, there is only one sorted arrangement.\<close>

lemma sort_slice_key_eq:
  fixes f :: "'a \<Rightarrow> 'b :: linorder"
  assumes "inj_on f (set xs)"
  shows "sort_slice srt (\<lambda>x y. f x < f y) xs = sort_key f xs"
proof -
  have "sorted (map f (sort_slice srt (\<lambda>x y. f x < f y) xs))"
    by (rule sorted_sort_slice_key)
  moreover have "mset (sort_slice srt (\<lambda>x y. f x < f y) xs) = mset (sort_key f xs)" by simp
  moreover have "sorted (map f (sort_key f xs))" by simp
  moreover have "inj_on f (set (sort_slice srt (\<lambda>x y. f x < f y) xs) \<union> set (sort_key f xs))"
    using assms by simp
  ultimately have e: "map f (sort_slice srt (\<lambda>x y. f x < f y) xs) = map f (sort_key f xs)"
    by (metis mset_map properties_for_sort)
  show ?thesis
    by (rule map_inj_on [OF e]) (use assms in simp)
qed

end

section \<open>Insertion sort meets the contract\<close>

text \<open>
  Go's \<open>insertionSort\<close>: element \<open>n\<close> moves left past the sorted prefix while it is smaller
  than its neighbour. The prefix is kept reversed, so the neighbour is the head.
\<close>

fun insert_left :: "(nat \<Rightarrow> nat \<Rightarrow> bool) \<Rightarrow> nat \<Rightarrow> nat list \<Rightarrow> nat list" where
  "insert_left lt x [] = [x]"
| "insert_left lt x (y # ys) = (if lt x y then y # insert_left lt x ys else x # y # ys)"

fun insertion_prefix :: "(nat \<Rightarrow> nat \<Rightarrow> bool) \<Rightarrow> nat \<Rightarrow> nat list" where
  "insertion_prefix lt 0 = []"
| "insertion_prefix lt (Suc n) = insert_left lt n (insertion_prefix lt n)"

definition insertion_sorter :: sorter where
  "insertion_sorter lt n = rev (insertion_prefix lt n)"

lemma mset_insert_left [simp]: "mset (insert_left lt x ys) = add_mset x (mset ys)"
  by (induction ys) (auto simp: add_mset_commute)

lemma set_insert_left [simp]: "set (insert_left lt x ys) = insert x (set ys)"
  using mset_eq_setD [of "insert_left lt x ys" "x # ys"] by simp

lemma mset_insertion_prefix: "mset (insertion_prefix lt n) = mset [0..<n]"
  by (induction n) simp_all

lemma set_insertion_prefix [simp]: "set (insertion_prefix lt n) = {..<n}"
proof -
  have "set (insertion_prefix lt n) = set [0..<n]"
    by (rule mset_eq_setD) (rule mset_insertion_prefix)
  then show ?thesis by (simp add: lessThan_atLeast0)
qed

lemma sorted_insert_left:
  assumes "weak_order_on (insert x (set ys)) lt" and "sorted_wrt (\<lambda>i j. \<not> lt i j) ys"
  shows "sorted_wrt (\<lambda>i j. \<not> lt i j) (insert_left lt x ys)"
  using assms
proof (induction ys)
  case (Cons y ys)
  have "weak_order_on (insert x (set ys)) lt"
    using Cons.prems(1) by (rule weak_order_on_subset) auto
  with Cons.IH Cons.prems(2) have IH: "sorted_wrt (\<lambda>i j. \<not> lt i j) (insert_left lt x ys)"
    by simp
  have "\<not> lt y x" if "lt x y"
    using that Cons.prems(1) unfolding weak_order_on_def by (meson insertCI list.set_intros(1))
  moreover have "\<not> lt x z" if "\<not> lt x y" and "z \<in> set ys" for z
  proof
    assume "lt x z"
    with that(2) Cons.prems(1) have "lt x y \<or> lt y z"
      unfolding weak_order_on_def by (meson insertCI list.set_intros)
    with that Cons.prems(2) show False by auto
  qed
  ultimately show ?case using IH Cons.prems(2) by auto
qed simp

lemma sorted_insertion_prefix:
  "weak_order_on {..<n} lt \<Longrightarrow> sorted_wrt (\<lambda>i j. \<not> lt i j) (insertion_prefix lt n)"
proof (induction n)
  case (Suc n)
  have "weak_order_on {..<n} lt"
    using Suc.prems by (rule weak_order_on_subset) auto
  with Suc show ?case
    by (auto intro!: sorted_insert_left elim: weak_order_on_subset)
qed simp

interpretation isort: sort_algorithm insertion_sorter
proof (unfold_locales, goal_cases)
  case (1 lt n)
  show ?case by (simp add: insertion_sorter_def mset_insertion_prefix)
next
  case (2 n lt)
  then have "sorted_wrt (\<lambda>i j. \<not> lt i j) (insertion_prefix lt n)"
    by (rule sorted_insertion_prefix)
  then show ?case by (simp add: insertion_sorter_def sorted_wrt_rev)
qed

lemma sort_algorithm_insertion: "sort_algorithm insertion_sorter"
  by (rule isort.sort_algorithm_axioms)

end
