(* ===== verification/Crypto.thy ===== *)
theory Crypto
  imports Go_Sort
begin

text \<open>
  \<open>identity/crypto.go\<close>: signing and verification on top of Go's \<open>crypto/ed25519\<close>,
  \<open>crypto/sha256\<close> and \<open>encoding/base64\<close>. The primitives of those packages are the fields
  of the record \<open>go_env\<close>, a parameter of everything that uses them; what the code relies on
  is the predicate \<open>crypto_ok\<close> (base64 round trip, signature size) and, per keypair,
  \<open>valid_keypair\<close> (a signature made with the private key verifies under the public key).
  \<open>sort_perm\<close> is the algorithm behind \<open>sort.Slice\<close>. Byte slices are strings.
\<close>

record go_env =
  sha256 :: "string \<Rightarrow> string"
  base64_Encode :: "string \<Rightarrow> string"
  base64_Decode :: "string \<Rightarrow> string option"
  ed25519_Sign :: "string \<Rightarrow> string \<Rightarrow> string"
  ed25519_Verify :: "string \<Rightarrow> string \<Rightarrow> string \<Rightarrow> bool"
  sort_perm :: sorter

record NaraKeypair =
  PrivateKey :: string
  PublicKey :: string

definition PublicKeySize :: nat where "PublicKeySize = 32"
definition SignatureSize :: nat where "SignatureSize = 64"

definition crypto_ok :: "go_env \<Rightarrow> bool" where
  "crypto_ok G \<longleftrightarrow>
     (\<forall>bs. base64_Decode G (base64_Encode G bs) = Some bs) \<and>
     (\<forall>bs. bs \<noteq> [] \<longrightarrow> base64_Encode G bs \<noteq> []) \<and>
     (\<forall>sk m. length (ed25519_Sign G sk m) = SignatureSize)"

definition valid_keypair :: "go_env \<Rightarrow> NaraKeypair \<Rightarrow> bool" where
  "valid_keypair G kp \<longleftrightarrow>
     length (PublicKey kp) = PublicKeySize \<and>
     (\<forall>m. ed25519_Verify G (PublicKey kp) m (ed25519_Sign G (PrivateKey kp) m))"

definition KeypairSign :: "go_env \<Rightarrow> NaraKeypair \<Rightarrow> string \<Rightarrow> string" where
  "KeypairSign G kp message = ed25519_Sign G (PrivateKey kp) message"

definition SignBase64 :: "go_env \<Rightarrow> NaraKeypair \<Rightarrow> string \<Rightarrow> string" where
  "SignBase64 G kp message = base64_Encode G (KeypairSign G kp message)"

definition FormatPublicKey :: "go_env \<Rightarrow> string \<Rightarrow> string" where
  "FormatPublicKey G pub = base64_Encode G pub"

definition ParsePublicKey :: "go_env \<Rightarrow> string \<Rightarrow> string option" where
  \<comment> \<open>\<open>None\<close> is the error return\<close>
  "ParsePublicKey G s =
     (case base64_Decode G s of
        None \<Rightarrow> None
      | Some data \<Rightarrow> if length data \<noteq> PublicKeySize then None else Some data)"

definition VerifySignature :: "go_env \<Rightarrow> string \<Rightarrow> string \<Rightarrow> string \<Rightarrow> bool" where
  "VerifySignature G publicKey message signature =
     (if length publicKey \<noteq> PublicKeySize then False
      else if length signature \<noteq> SignatureSize then False
      else ed25519_Verify G publicKey message signature)"

definition VerifySignatureBase64 :: "go_env \<Rightarrow> string \<Rightarrow> string \<Rightarrow> string \<Rightarrow> bool" where
  "VerifySignatureBase64 G publicKey message signatureBase64 =
     (case base64_Decode G signatureBase64 of
        None \<Rightarrow> False
      | Some signature \<Rightarrow> VerifySignature G publicKey message signature)"

text \<open>
  \<open>SignContent\<close> and \<open>VerifyContent\<close> take the \<open>SignableContent()\<close> string of the signed value.
\<close>

definition SignContent :: "go_env \<Rightarrow> string \<Rightarrow> NaraKeypair \<Rightarrow> string" where
  "SignContent G content kp = SignBase64 G kp content"

definition VerifyContent :: "go_env \<Rightarrow> string \<Rightarrow> string \<Rightarrow> string \<Rightarrow> bool" where
  "VerifyContent G content publicKey signature = VerifySignatureBase64 G publicKey content signature"

lemma base64_roundtrip [simp]: "crypto_ok G \<Longrightarrow> base64_Decode G (base64_Encode G bs) = Some bs"
  by (simp add: crypto_ok_def)

lemma SignBase64_nonempty [simp]: "crypto_ok G \<Longrightarrow> SignBase64 G kp m \<noteq> []"
proof -
  assume c: "crypto_ok G"
  then have "KeypairSign G kp m \<noteq> []"
    by (metis KeypairSign_def SignatureSize_def crypto_ok_def list.size(3) zero_neq_numeral)
  with c show "SignBase64 G kp m \<noteq> []" by (simp add: SignBase64_def crypto_ok_def)
qed

lemma VerifySignature_KeypairSign [simp]:
  "crypto_ok G \<Longrightarrow> valid_keypair G kp \<Longrightarrow> VerifySignature G (PublicKey kp) m (KeypairSign G kp m)"
  by (simp add: VerifySignature_def KeypairSign_def crypto_ok_def valid_keypair_def)

lemma VerifySignatureBase64_SignBase64 [simp]:
  "crypto_ok G \<Longrightarrow> valid_keypair G kp \<Longrightarrow>
   VerifySignatureBase64 G (PublicKey kp) m (SignBase64 G kp m)"
  by (simp add: VerifySignatureBase64_def SignBase64_def)

lemma ParsePublicKey_FormatPublicKey [simp]:
  "crypto_ok G \<Longrightarrow> length pub = PublicKeySize \<Longrightarrow> ParsePublicKey G (FormatPublicKey G pub) = Some pub"
  by (simp add: ParsePublicKey_def FormatPublicKey_def)

section \<open>A concrete environment\<close>

text \<open>
  The contracts can hold together: an environment that evaluates, used by the witnesses.
  Its signature of \<open>m\<close> under key \<open>k\<close> is \<open>k @ m\<close> cut or padded to 64 bytes.
\<close>

definition pad64 :: "string \<Rightarrow> string" where
  "pad64 s = take 64 (s @ replicate 64 CHR ''.'')"

lemma length_pad64 [simp]: "length (pad64 s) = 64"
  by (simp add: pad64_def del: take_append)

definition demo_env :: go_env where
  "demo_env = \<lparr>sha256 = (\<lambda>s. s), base64_Encode = (\<lambda>s. s), base64_Decode = Some,
     ed25519_Sign = (\<lambda>k m. pad64 (k @ m)),
     ed25519_Verify = (\<lambda>k m s. s = pad64 (k @ m)), sort_perm = insertion_sorter\<rparr>"

definition demo_keypair :: "char \<Rightarrow> NaraKeypair" where
  "demo_keypair c = \<lparr>PrivateKey = replicate 32 c, PublicKey = replicate 32 c\<rparr>"

lemma demo_env_simps [simp]:
  "sha256 demo_env s = s" "base64_Encode demo_env s = s" "base64_Decode demo_env s = Some s"
  "ed25519_Sign demo_env k m = pad64 (k @ m)"
  "ed25519_Verify demo_env k m s \<longleftrightarrow> s = pad64 (k @ m)"
  "sort_perm demo_env = insertion_sorter"
  by (simp_all add: demo_env_def)

lemma crypto_ok_demo: "crypto_ok demo_env"
  by (simp add: crypto_ok_def SignatureSize_def)

lemma valid_keypair_demo: "valid_keypair demo_env (demo_keypair c)"
  by (simp add: valid_keypair_def demo_keypair_def PublicKeySize_def)

lemma sort_algorithm_demo: "sort_algorithm (sort_perm demo_env)"
  by (simp add: sort_algorithm_insertion)

end
