(* ===== verification/Payloads.thy ===== *)
theory Payloads
  imports Crypto
begin

text \<open>
  The payload types of a \<open>SyncEvent\<close> (\<open>sync_event.go\<close>, \<open>checkpoint_types.go\<close>,
  \<open>presence_heythere.go\<close>, \<open>presence_chau.go\<close>, \<open>neighbourhood_observations.go\<close>), the legacy
  \<open>SocialEvent\<close> (\<open>social.go\<close>) and the \<open>Attestation\<close> (\<open>identity_attestation.go\<close>), with the
  methods of the \<open>Payload\<close> interface on values: content string, validity, actor, target.
  Record fields carry a prefix for their struct, since Isabelle's field names are global.
\<close>

text \<open>\<open>fmt.Sprintf("%s:%s:...")\<close>: the arguments joined by colons.\<close>

fun colons :: "string list \<Rightarrow> string" where
  "colons [] = []"
| "colons [s] = s"
| "colons (s # t # ts) = s @ '':'' @ colons (t # ts)"

section \<open>Social events\<close>

record SocialEventPayload =
  sp_Type :: string
  sp_Actor :: NaraName
  sp_ActorID :: NaraID
  sp_Target :: NaraName
  sp_TargetID :: NaraID
  sp_Reason :: string
  sp_Witness :: NaraName

definition social_ContentString :: "SocialEventPayload \<Rightarrow> string" where
  "social_ContentString p = colons [sp_Type p, sp_Actor p, sp_Target p, sp_Reason p, sp_Witness p]"

definition social_types :: "string list" where
  "social_types = [''tease'', ''observed'', ''gossip'', ''observation'', ''service'']"

definition social_IsValid :: "SocialEventPayload \<Rightarrow> bool" where
  "social_IsValid p \<longleftrightarrow> sp_Type p \<in> set social_types \<and> sp_Actor p \<noteq> [] \<and> sp_Target p \<noteq> []"

text \<open>The legacy event of \<open>social.go\<close>, with its own validity and ID.\<close>

record SocialEvent =
  soc_ID :: string
  soc_Timestamp :: int
  soc_Type :: string
  soc_Actor :: NaraName
  soc_Target :: NaraName
  soc_Reason :: string
  soc_Witness :: NaraName
  soc_Signature :: string

definition legacy_SignableContent :: "SocialEvent \<Rightarrow> string" where
  "legacy_SignableContent e =
     colons [fmt_int (soc_Timestamp e), soc_Type e, soc_Actor e, soc_Target e, soc_Reason e, soc_Witness e]"

definition legacy_Sign :: "go_env \<Rightarrow> NaraKeypair \<Rightarrow> SocialEvent \<Rightarrow> SocialEvent" where
  "legacy_Sign G kp e = e\<lparr>soc_Signature := SignContent G (legacy_SignableContent e) kp\<rparr>"

definition legacy_Verify :: "go_env \<Rightarrow> SocialEvent \<Rightarrow> string \<Rightarrow> bool" where
  "legacy_Verify G e publicKey =
     (if soc_Signature e = [] then False
      else VerifyContent G (legacy_SignableContent e) publicKey (soc_Signature e))"

definition legacy_ComputeID :: "go_env \<Rightarrow> SocialEvent \<Rightarrow> SocialEvent" where
  "legacy_ComputeID G e =
     e\<lparr>soc_ID := fmt_hex (take 16 (sha256 G
        (colons [fmt_int (soc_Timestamp e), soc_Type e, soc_Actor e, soc_Target e, soc_Reason e, soc_Witness e])))\<rparr>"

definition legacy_IsValid :: "SocialEvent \<Rightarrow> bool" where
  "legacy_IsValid e \<longleftrightarrow> soc_Type e \<in> set social_types"

section \<open>Pings, sightings, presence announcements\<close>

record PingObservation =
  pi_Observer :: NaraName
  pi_ObserverID :: NaraID
  pi_Target :: NaraName
  pi_TargetID :: NaraID
  pi_RTT :: float64

definition ping_ContentString :: "PingObservation \<Rightarrow> string" where
  "ping_ContentString p = colons [pi_Observer p, pi_Target p, fmt_f1 (pi_RTT p)]"

definition ping_IsValid :: "PingObservation \<Rightarrow> bool" where
  "ping_IsValid p \<longleftrightarrow> pi_Observer p \<noteq> [] \<and> pi_Target p \<noteq> [] \<and> f64_gt_zero (pi_RTT p)"

record SeenEvent =
  se_Observer :: NaraName
  se_ObserverID :: NaraID
  se_Subject :: NaraName
  se_SubjectID :: NaraID
  se_Via :: string

definition seen_ContentString :: "SeenEvent \<Rightarrow> string" where
  "seen_ContentString s = colons [''seen'', se_Observer s, se_Subject s, se_Via s]"

definition seen_IsValid :: "SeenEvent \<Rightarrow> bool" where
  "seen_IsValid s \<longleftrightarrow> se_Observer s \<noteq> [] \<and> se_Subject s \<noteq> [] \<and> se_Via s \<noteq> []"

record HeyThereEvent =
  ht_From :: NaraName
  ht_PublicKey :: string
  ht_MeshIP :: string
  ht_ID :: NaraID
  ht_Signature :: string

text \<open>The branch that adds the ID is switched off in the code (\<open>h.ID != "" && false\<close>).\<close>

definition heythere_signatureMessage :: "HeyThereEvent \<Rightarrow> string" where
  "heythere_signatureMessage h =
     (if ht_ID h \<noteq> [] \<and> False
      then colons [''hey_there'', ht_From h, ht_PublicKey h, ht_MeshIP h, ht_ID h]
      else colons [''hey_there'', ht_From h, ht_PublicKey h, ht_MeshIP h])"

definition heythere_IsValid :: "HeyThereEvent \<Rightarrow> bool" where
  "heythere_IsValid h \<longleftrightarrow> ht_From h \<noteq> [] \<and> ht_PublicKey h \<noteq> []"

definition heythere_Sign :: "go_env \<Rightarrow> NaraKeypair \<Rightarrow> HeyThereEvent \<Rightarrow> HeyThereEvent" where
  "heythere_Sign G kp h = h\<lparr>ht_Signature := SignBase64 G kp (heythere_signatureMessage h)\<rparr>"

definition heythere_Verify :: "go_env \<Rightarrow> HeyThereEvent \<Rightarrow> bool" where
  "heythere_Verify G h =
     (if ht_PublicKey h = [] \<or> ht_Signature h = [] then False
      else case ParsePublicKey G (ht_PublicKey h) of
             None \<Rightarrow> False
           | Some pubKey \<Rightarrow>
               if VerifySignatureBase64 G pubKey (heythere_signatureMessage h) (ht_Signature h) then True
               else if ht_ID h \<noteq> []
                    then VerifySignatureBase64 G pubKey
                           (colons [''hey_there'', ht_From h, ht_PublicKey h, ht_MeshIP h]) (ht_Signature h)
                    else False)"

record ChauEvent =
  ch_From :: NaraName
  ch_PublicKey :: string
  ch_ID :: NaraID
  ch_Signature :: string

definition chau_signatureMessage :: "ChauEvent \<Rightarrow> string" where
  "chau_signatureMessage c =
     (if ch_ID c \<noteq> [] \<and> False then colons [''chau'', ch_From c, ch_PublicKey c, ch_ID c]
      else colons [''chau'', ch_From c, ch_PublicKey c])"

definition chau_IsValid :: "ChauEvent \<Rightarrow> bool" where
  "chau_IsValid c \<longleftrightarrow> ch_From c \<noteq> []"

definition chau_Sign :: "go_env \<Rightarrow> NaraKeypair \<Rightarrow> ChauEvent \<Rightarrow> ChauEvent" where
  "chau_Sign G kp c = c\<lparr>ch_Signature := SignBase64 G kp (chau_signatureMessage c)\<rparr>"

definition chau_Verify :: "go_env \<Rightarrow> ChauEvent \<Rightarrow> bool" where
  "chau_Verify G c =
     (if ch_PublicKey c = [] \<or> ch_Signature c = [] then False
      else case ParsePublicKey G (ch_PublicKey c) of
             None \<Rightarrow> False
           | Some pubKey \<Rightarrow>
               if VerifySignatureBase64 G pubKey (chau_signatureMessage c) (ch_Signature c) then True
               else if ch_ID c \<noteq> []
                    then VerifySignatureBase64 G pubKey (colons [''chau'', ch_From c, ch_PublicKey c])
                           (ch_Signature c)
                    else False)"

section \<open>Observations\<close>

definition ImportanceCasual :: int where "ImportanceCasual = 1"
definition ImportanceNormal :: int where "ImportanceNormal = 2"
definition ImportanceCritical :: int where "ImportanceCritical = 3"

record ObservationEventPayload =
  ob_Observer :: NaraName
  ob_ObserverID :: NaraID
  ob_Subject :: NaraName
  ob_SubjectID :: NaraID
  ob_Type :: string
  ob_Importance :: int
  ob_IsBackfill :: bool
  ob_StartTime :: int
  ob_RestartNum :: int
  ob_LastRestart :: int
  ob_OnlineState :: string
  ob_ClusterName :: string
  ob_ObserverUptime :: nat

definition observation_ContentString :: "ObservationEventPayload \<Rightarrow> string" where
  "observation_ContentString p =
     (if ob_Type p = ''restart''
      then colons [ob_Subject p, ''restart'', fmt_int (ob_RestartNum p), fmt_int (ob_StartTime p)]
      else colons [ob_Observer p, ob_Subject p, ob_Type p, ob_OnlineState p,
                   fmt_int (ob_StartTime p), fmt_int (ob_RestartNum p)])"

definition observation_IsValid :: "ObservationEventPayload \<Rightarrow> bool" where
  "observation_IsValid p =
     (if ob_Observer p = [] \<or> ob_Subject p = [] \<or> ob_Type p = [] then False
      else if ob_Type p \<notin> {''restart'', ''first-seen'', ''status-change''} then False
      else if ob_Importance p < ImportanceCasual \<or> ob_Importance p > ImportanceCritical then False
      else if ob_Type p = ''restart'' then ob_StartTime p > 0 \<and> ob_RestartNum p \<ge> 0
      else if ob_Type p = ''first-seen'' then ob_StartTime p > 0
      else if ob_Type p = ''status-change''
           then ob_OnlineState p \<in> {''ONLINE'', ''OFFLINE'', ''MISSING''}
      else True)"

section \<open>Checkpoints and attestations\<close>

record NaraObservation =
  no_Restarts :: int
  no_TotalUptime :: int
  no_StartTime :: int
  no_Online :: string
  no_LastSeen :: int
  no_LastRestart :: int
  no_ClusterName :: string
  no_ClusterEmoji :: string
  no_LastPingRTT :: float64
  no_AvgPingRTT :: float64
  no_LastPingTime :: int

text \<open>The zero value of the struct.\<close>

definition zero_observation :: NaraObservation where
  "zero_observation = \<lparr>no_Restarts = 0, no_TotalUptime = 0, no_StartTime = 0, no_Online = [],
     no_LastSeen = 0, no_LastRestart = 0, no_ClusterName = [], no_ClusterEmoji = [],
     no_LastPingRTT = 0, no_AvgPingRTT = 0, no_LastPingTime = 0\<rparr>"

definition isOnline :: "NaraObservation \<Rightarrow> bool" where
  "isOnline obs \<longleftrightarrow> no_Online obs = ''ONLINE''"

record CheckpointEventPayload =
  cp_Version :: int
  cp_Subject :: NaraName
  cp_SubjectID :: NaraID
  cp_PreviousCheckpointID :: string
  cp_Observation :: NaraObservation
  cp_AsOfTime :: int
  cp_Round :: int
  cp_VoterIDs :: "NaraID list"
  cp_Signatures :: "string list"

definition checkpoint_ContentString :: "CheckpointEventPayload \<Rightarrow> string" where
  "checkpoint_ContentString p =
     (let id = (if cp_SubjectID p = [] then cp_Subject p else cp_SubjectID p)
      in if cp_Version p = 0 \<or> cp_Version p = 1
         then colons [''checkpoint'', id, fmt_int (cp_AsOfTime p), fmt_int (no_StartTime (cp_Observation p)),
                      fmt_int (no_Restarts (cp_Observation p)), fmt_int (no_TotalUptime (cp_Observation p))]
         else colons [''checkpoint'', ''v2'', id, fmt_int (cp_AsOfTime p),
                      fmt_int (no_StartTime (cp_Observation p)), fmt_int (no_Restarts (cp_Observation p)),
                      fmt_int (no_TotalUptime (cp_Observation p)), cp_PreviousCheckpointID p])"

definition checkpoint_IsValid :: "CheckpointEventPayload \<Rightarrow> bool" where
  "checkpoint_IsValid p =
     (if cp_Subject p = [] then False
      else if cp_AsOfTime p \<le> 0 then False
      else if no_Restarts (cp_Observation p) < 0 then False
      else if no_TotalUptime (cp_Observation p) < 0 then False
      else if length (cp_VoterIDs p) \<noteq> length (cp_Signatures p) then False
      else True)"

record Attestation =
  at_Version :: int
  at_Subject :: NaraName
  at_SubjectID :: NaraID
  at_Observation :: NaraObservation
  at_Attester :: NaraName
  at_AttesterID :: NaraID
  at_LastSeenCheckpointID :: string
  at_AsOfTime :: int
  at_Signature :: string

definition IsSelfAttestation :: "Attestation \<Rightarrow> bool" where
  "IsSelfAttestation a \<longleftrightarrow> at_AttesterID a = at_SubjectID a"

definition attestation_SignableContent :: "Attestation \<Rightarrow> string" where
  "attestation_SignableContent a =
     (let version = (if at_Version a = 0 then 1 else at_Version a);
          common = [''v'' @ fmt_int version, at_AttesterID a, at_SubjectID a, fmt_int (at_AsOfTime a),
                    fmt_int (no_Restarts (at_Observation a)), fmt_int (no_TotalUptime (at_Observation a)),
                    fmt_int (no_StartTime (at_Observation a))]
      in if version = 1 then colons (''attestation'' # common)
         else colons (''attestation'' # common @ [at_LastSeenCheckpointID a]))"

text \<open>
  \<open>VerifySignatureWithCounts\<close>. A public key lookup returns \<open>None\<close> for a nil key; the lookup
  function itself may be nil.
\<close>

type_synonym PublicKeyLookup = "NaraID \<Rightarrow> NaraName \<Rightarrow> string option"

definition MinCheckpointSignatures :: int where "MinCheckpointSignatures = 2"

record CheckpointVerificationResult =
  vr_Valid :: bool
  vr_ValidCount :: int
  vr_KnownCount :: int
  vr_TotalCount :: int

definition voter_attestation :: "CheckpointEventPayload \<Rightarrow> NaraID \<Rightarrow> Attestation" where
  "voter_attestation p voterID =
     (let version = (if cp_Version p = 0 then 1 else cp_Version p)
      in \<lparr>at_Version = version, at_Subject = cp_Subject p, at_SubjectID = cp_SubjectID p,
          at_Observation = cp_Observation p, at_Attester = [], at_AttesterID = voterID,
          at_LastSeenCheckpointID = (if version \<ge> 2 then cp_PreviousCheckpointID p else []),
          at_AsOfTime = cp_AsOfTime p, at_Signature = []\<rparr>)"

definition voter_verifies ::
  "go_env \<Rightarrow> CheckpointEventPayload \<Rightarrow> NaraID \<Rightarrow> string \<Rightarrow> string \<Rightarrow> bool" where
  "voter_verifies G p voterID signature pubKey =
     VerifySignatureBase64 G pubKey (attestation_SignableContent (voter_attestation p voterID)) signature"

fun count_voters ::
  "go_env \<Rightarrow> PublicKeyLookup \<Rightarrow> CheckpointEventPayload \<Rightarrow> (NaraID \<times> string) list \<Rightarrow> int \<times> int \<Rightarrow> int \<times> int" where
  "count_voters G lookup p [] (known, valid) = (known, valid)"
| "count_voters G lookup p ((voterID, signature) # vs) (known, valid) =
     (case lookup voterID [] of
        None \<Rightarrow> count_voters G lookup p vs (known, valid)
      | Some pubKey \<Rightarrow>
          count_voters G lookup p vs
            (known + 1, if voter_verifies G p voterID signature pubKey then valid + 1 else valid))"

definition VerifySignatureWithCounts ::
  "go_env \<Rightarrow> PublicKeyLookup option \<Rightarrow> CheckpointEventPayload \<Rightarrow> CheckpointVerificationResult" where
  "VerifySignatureWithCounts G lookup p =
     (case lookup of
        None \<Rightarrow> \<lparr>vr_Valid = False, vr_ValidCount = 0, vr_KnownCount = 0,
                 vr_TotalCount = int (length (cp_VoterIDs p))\<rparr>
      | Some look \<Rightarrow>
          if length (cp_VoterIDs p) \<noteq> length (cp_Signatures p)
          then \<lparr>vr_Valid = False, vr_ValidCount = 0, vr_KnownCount = 0,
                vr_TotalCount = int (length (cp_VoterIDs p))\<rparr>
          else let (known, valid) = count_voters G look p (zip (cp_VoterIDs p) (cp_Signatures p)) (0, 0)
               in \<lparr>vr_Valid = (valid \<ge> MinCheckpointSignatures), vr_ValidCount = valid,
                   vr_KnownCount = known, vr_TotalCount = int (length (cp_VoterIDs p))\<rparr>)"

section \<open>Facts about payloads\<close>

lemma observation_IsValid_types:
  "observation_IsValid p \<Longrightarrow> ob_Type p \<in> {''restart'', ''first-seen'', ''status-change''}"
  by (auto simp: observation_IsValid_def split: if_splits)

lemma heythere_signatureMessage_eq:
  "heythere_signatureMessage h = colons [''hey_there'', ht_From h, ht_PublicKey h, ht_MeshIP h]"
  by (simp add: heythere_signatureMessage_def)

lemma chau_signatureMessage_eq:
  "chau_signatureMessage c = colons [''chau'', ch_From c, ch_PublicKey c]"
  by (simp add: chau_signatureMessage_def)

definition voter_known :: "PublicKeyLookup \<Rightarrow> NaraID \<times> string \<Rightarrow> bool" where
  "voter_known lookup v \<longleftrightarrow> lookup (fst v) [] \<noteq> None"

definition voter_valid :: "go_env \<Rightarrow> PublicKeyLookup \<Rightarrow> CheckpointEventPayload \<Rightarrow> NaraID \<times> string \<Rightarrow> bool" where
  "voter_valid G lookup p v \<longleftrightarrow>
     (case lookup (fst v) [] of None \<Rightarrow> False | Some k \<Rightarrow> voter_verifies G p (fst v) (snd v) k)"

lemma count_voters_eq:
  "count_voters G lookup p vs (known, valid) =
     (known + int (length (filter (voter_known lookup) vs)),
      valid + int (length (filter (voter_valid G lookup p) vs)))"
proof (induction vs arbitrary: known valid)
  case (Cons v vs)
  obtain i s where v: "v = (i, s)" by fastforce
  show ?case
  proof (cases "lookup i []")
    case None
    then have "\<not> voter_known lookup v" and "\<not> voter_valid G lookup p v"
      by (simp_all add: v voter_known_def voter_valid_def)
    with None Cons.IH show ?thesis by (simp add: v)
  next
    case (Some k)
    then have "voter_known lookup v" and "voter_valid G lookup p v = voter_verifies G p i s k"
      by (simp_all add: v voter_known_def voter_valid_def)
    with Some Cons.IH show ?thesis by (simp add: v)
  qed
qed simp

lemma voter_valid_known: "voter_valid G lookup p v \<Longrightarrow> voter_known lookup v"
  by (auto simp: voter_valid_def voter_known_def split: option.splits)

end
