(* ===== verification/Sync_Event.thy ===== *)
theory Sync_Event
  imports Payloads
begin

text \<open>
  \<open>sync_event.go\<close>: the container \<open>SyncEvent\<close>, its ID, validity, signature, actor and target,
  the constructors and the conversion from and to the legacy \<open>SocialEvent\<close>. The payload
  pointers are options. \<open>Payload()\<close> returns a Go interface: for a known service it is never
  nil, but it may hold a nil pointer, and a method that reads a field through that pointer
  panics. The model keeps this: a \<open>payload\<close> value holds an option, and its methods return
  \<open>go\<close> results.
\<close>

definition ServiceSocial :: string where "ServiceSocial = ''social''"
definition ServicePing :: string where "ServicePing = ''ping''"
definition ServiceObservation :: string where "ServiceObservation = ''observation''"
definition ServiceHeyThere :: string where "ServiceHeyThere = ''hey-there''"
definition ServiceChau :: string where "ServiceChau = ''chau''"
definition ServiceSeen :: string where "ServiceSeen = ''seen''"
definition ServiceCheckpoint :: string where "ServiceCheckpoint = ''checkpoint''"

lemmas service_defs = ServiceSocial_def ServicePing_def ServiceObservation_def ServiceHeyThere_def
  ServiceChau_def ServiceSeen_def ServiceCheckpoint_def

lemma services_neq:
  "ServiceSocial \<noteq> ServicePing" "ServiceSocial \<noteq> ServiceObservation"
  "ServiceSocial \<noteq> ServiceHeyThere" "ServiceSocial \<noteq> ServiceChau"
  "ServiceSocial \<noteq> ServiceSeen" "ServiceSocial \<noteq> ServiceCheckpoint"
  "ServicePing \<noteq> ServiceObservation" "ServicePing \<noteq> ServiceHeyThere"
  "ServicePing \<noteq> ServiceChau" "ServicePing \<noteq> ServiceSeen"
  "ServicePing \<noteq> ServiceCheckpoint" "ServiceObservation \<noteq> ServiceHeyThere"
  "ServiceObservation \<noteq> ServiceChau" "ServiceObservation \<noteq> ServiceSeen"
  "ServiceObservation \<noteq> ServiceCheckpoint" "ServiceHeyThere \<noteq> ServiceChau"
  "ServiceHeyThere \<noteq> ServiceSeen" "ServiceHeyThere \<noteq> ServiceCheckpoint"
  "ServiceChau \<noteq> ServiceSeen" "ServiceChau \<noteq> ServiceCheckpoint"
  "ServiceSeen \<noteq> ServiceCheckpoint"
  by (simp_all only: service_defs list.inject char.inject list.distinct simp_thms)

lemmas services_distinct [simp] = services_neq services_neq [symmetric]

lemma services_nonempty [simp]:
  "ServiceSocial \<noteq> []"
  "ServicePing \<noteq> []"
  "ServiceObservation \<noteq> []"
  "ServiceHeyThere \<noteq> []"
  "ServiceChau \<noteq> []"
  "ServiceSeen \<noteq> []"
  "ServiceCheckpoint \<noteq> []"
  by (simp_all only: service_defs list.distinct simp_thms)

lemmas services_nonempty_sym [simp] = services_nonempty [symmetric]

definition CheckpointCutoffTime :: int where "CheckpointCutoffTime = 1768774453"

record SyncEvent =
  ID :: string
  Timestamp :: int
  Service :: string
  Emitter :: NaraName
  EmitterID :: NaraID
  Signature :: string
  Social :: "SocialEventPayload option"
  Ping :: "PingObservation option"
  Observation :: "ObservationEventPayload option"
  HeyThere :: "HeyThereEvent option"
  Chau :: "ChauEvent option"
  Seen :: "SeenEvent option"
  Checkpoint :: "CheckpointEventPayload option"

text \<open>The zero value, from which the composite literals of the constructors start.\<close>

definition zero_event :: SyncEvent where
  "zero_event = \<lparr>ID = [], Timestamp = 0, Service = [], Emitter = [], EmitterID = [], Signature = [],
     Social = None, Ping = None, Observation = None, HeyThere = None, Chau = None, Seen = None,
     Checkpoint = None\<rparr>"

section \<open>The Payload interface\<close>

datatype payload =
    PSocial "SocialEventPayload option"
  | PPing "PingObservation option"
  | PObservation "ObservationEventPayload option"
  | PHeyThere "HeyThereEvent option"
  | PChau "ChauEvent option"
  | PSeen "SeenEvent option"
  | PCheckpoint "CheckpointEventPayload option"

definition Payload :: "SyncEvent \<Rightarrow> payload option" where
  "Payload e =
     (if Service e = ServiceSocial then Some (PSocial (Social e))
      else if Service e = ServicePing then Some (PPing (Ping e))
      else if Service e = ServiceObservation then Some (PObservation (Observation e))
      else if Service e = ServiceHeyThere then Some (PHeyThere (HeyThere e))
      else if Service e = ServiceChau then Some (PChau (Chau e))
      else if Service e = ServiceSeen then Some (PSeen (Seen e))
      else if Service e = ServiceCheckpoint then Some (PCheckpoint (Checkpoint e))
      else None)"

definition via_pointer :: "'a option \<Rightarrow> ('a \<Rightarrow> 'b) \<Rightarrow> 'b go" where
  "via_pointer p f = go_bind (deref p) (\<lambda>x. Inr (f x))"

lemma via_pointer_simps [simp]:
  "via_pointer None f = Inl NilDereference" "via_pointer (Some x) f = Inr (f x)"
  by (simp_all add: via_pointer_def)

fun payload_ContentString :: "payload \<Rightarrow> string go" where
  "payload_ContentString (PSocial p) = via_pointer p social_ContentString"
| "payload_ContentString (PPing p) = via_pointer p ping_ContentString"
| "payload_ContentString (PObservation p) = via_pointer p observation_ContentString"
| "payload_ContentString (PHeyThere p) = via_pointer p heythere_signatureMessage"
| "payload_ContentString (PChau p) = via_pointer p chau_signatureMessage"
| "payload_ContentString (PSeen p) = via_pointer p seen_ContentString"
| "payload_ContentString (PCheckpoint p) = via_pointer p checkpoint_ContentString"

fun payload_IsValid :: "payload \<Rightarrow> bool go" where
  "payload_IsValid (PSocial p) = via_pointer p social_IsValid"
| "payload_IsValid (PPing p) = via_pointer p ping_IsValid"
| "payload_IsValid (PObservation p) = via_pointer p observation_IsValid"
| "payload_IsValid (PHeyThere p) = via_pointer p heythere_IsValid"
| "payload_IsValid (PChau p) = via_pointer p chau_IsValid"
| "payload_IsValid (PSeen p) = via_pointer p seen_IsValid"
| "payload_IsValid (PCheckpoint p) = via_pointer p checkpoint_IsValid"

text \<open>A checkpoint's \<open>GetActor\<close> returns the constant "" and never reads its receiver.\<close>

fun payload_GetActor :: "payload \<Rightarrow> NaraName go" where
  "payload_GetActor (PSocial p) = via_pointer p sp_Actor"
| "payload_GetActor (PPing p) = via_pointer p pi_Observer"
| "payload_GetActor (PObservation p) = via_pointer p ob_Observer"
| "payload_GetActor (PHeyThere p) = via_pointer p ht_From"
| "payload_GetActor (PChau p) = via_pointer p ch_From"
| "payload_GetActor (PSeen p) = via_pointer p se_Observer"
| "payload_GetActor (PCheckpoint p) = Inr []"

fun payload_GetTarget :: "payload \<Rightarrow> NaraName go" where
  "payload_GetTarget (PSocial p) = via_pointer p sp_Target"
| "payload_GetTarget (PPing p) = via_pointer p pi_Target"
| "payload_GetTarget (PObservation p) = via_pointer p ob_Subject"
| "payload_GetTarget (PHeyThere p) = via_pointer p ht_From"
| "payload_GetTarget (PChau p) = via_pointer p ch_From"
| "payload_GetTarget (PSeen p) = via_pointer p se_Subject"
| "payload_GetTarget (PCheckpoint p) = via_pointer p cp_Subject"

section \<open>ID, validity, signature\<close>

text \<open>The bytes that follow the prefix in both hashes: the content string, if there is a payload.\<close>

definition payload_bytes :: "SyncEvent \<Rightarrow> string go" where
  "payload_bytes e = (case Payload e of None \<Rightarrow> Inr [] | Some p \<Rightarrow> payload_ContentString p)"

definition id_input :: "SyncEvent \<Rightarrow> string go" where
  "id_input e = go_bind (payload_bytes e)
     (\<lambda>c. Inr (fmt_int (Timestamp e) @ '':'' @ Service e @ '':'' @ c))"

definition ComputeID :: "go_env \<Rightarrow> SyncEvent \<Rightarrow> SyncEvent go" where
  "ComputeID G e = go_bind (id_input e) (\<lambda>s. Inr (e\<lparr>ID := fmt_hex (take 16 (sha256 G s))\<rparr>))"

definition event_IsValid :: "SyncEvent \<Rightarrow> bool go" where
  "event_IsValid e =
     (if Service e = [] \<or> Timestamp e = 0 then Inr False
      else case Payload e of None \<Rightarrow> Inr False | Some p \<Rightarrow> payload_IsValid p)"

definition IsSigned :: "SyncEvent \<Rightarrow> bool" where
  "IsSigned e \<longleftrightarrow> Emitter e \<noteq> [] \<and> Signature e \<noteq> []"

definition signableData :: "go_env \<Rightarrow> SyncEvent \<Rightarrow> string go" where
  "signableData G e = go_bind (payload_bytes e)
     (\<lambda>c. Inr (sha256 G (ID e @ '':'' @ fmt_int (Timestamp e) @ '':'' @ Service e @ '':'' @
                        Emitter e @ '':'' @ c)))"

definition event_Sign :: "go_env \<Rightarrow> NaraName \<Rightarrow> NaraKeypair \<Rightarrow> SyncEvent \<Rightarrow> SyncEvent go" where
  "event_Sign G emitter keypair e =
     (let e1 = e\<lparr>Emitter := emitter\<rparr>
      in go_bind (signableData G e1) (\<lambda>d. Inr (e1\<lparr>Signature := SignBase64 G keypair d\<rparr>)))"

definition VerifyWithKey :: "go_env \<Rightarrow> SyncEvent \<Rightarrow> string option \<Rightarrow> bool go" where
  "VerifyWithKey G e publicKey =
     (case publicKey of
        None \<Rightarrow> Inr False
      | Some key \<Rightarrow>
          if \<not> IsSigned e then Inr False
          else case base64_Decode G (Signature e) of
                 None \<Rightarrow> Inr False
               | Some sig \<Rightarrow> go_bind (signableData G e) (\<lambda>d. Inr (VerifySignature G key d sig)))"

definition DefaultVerifySignature :: "go_env \<Rightarrow> SyncEvent \<Rightarrow> PublicKeyLookup option \<Rightarrow> bool go" where
  "DefaultVerifySignature G e lookup =
     (case lookup of None \<Rightarrow> Inr False
      | Some look \<Rightarrow> VerifyWithKey G e (look (EmitterID e) (Emitter e)))"

text \<open>\<open>hey_there\<close> and \<open>chau\<close> events carry the key their signature is checked against.\<close>

definition embedded_key_verify :: "go_env \<Rightarrow> string \<Rightarrow> SyncEvent \<Rightarrow> bool go" where
  "embedded_key_verify G pk e =
     (if pk = [] then Inr False
      else case ParsePublicKey G pk of None \<Rightarrow> Inr False | Some k \<Rightarrow> VerifyWithKey G e (Some k))"

fun payload_VerifySignature ::
  "go_env \<Rightarrow> payload \<Rightarrow> SyncEvent \<Rightarrow> PublicKeyLookup option \<Rightarrow> bool go" where
  "payload_VerifySignature G (PSocial p) e lookup = DefaultVerifySignature G e lookup"
| "payload_VerifySignature G (PPing p) e lookup = DefaultVerifySignature G e lookup"
| "payload_VerifySignature G (PObservation p) e lookup = DefaultVerifySignature G e lookup"
| "payload_VerifySignature G (PHeyThere p) e lookup =
     go_bind (deref p) (\<lambda>h. embedded_key_verify G (ht_PublicKey h) e)"
| "payload_VerifySignature G (PChau p) e lookup =
     go_bind (deref p) (\<lambda>c. embedded_key_verify G (ch_PublicKey c) e)"
| "payload_VerifySignature G (PSeen p) e lookup = DefaultVerifySignature G e lookup"
| "payload_VerifySignature G (PCheckpoint p) e lookup =
     go_bind (deref p) (\<lambda>c. Inr (vr_Valid (VerifySignatureWithCounts G lookup c)))"

definition event_Verify :: "go_env \<Rightarrow> SyncEvent \<Rightarrow> PublicKeyLookup option \<Rightarrow> bool go" where
  "event_Verify G e lookup =
     (if \<not> IsSigned e then Inr False
      else case Payload e of None \<Rightarrow> Inr False | Some p \<Rightarrow> payload_VerifySignature G p e lookup)"

definition GetActor :: "SyncEvent \<Rightarrow> NaraName go" where
  "GetActor e = (case Payload e of None \<Rightarrow> Inr [] | Some p \<Rightarrow> payload_GetActor p)"

definition GetTarget :: "SyncEvent \<Rightarrow> NaraName go" where
  "GetTarget e = (case Payload e of None \<Rightarrow> Inr [] | Some p \<Rightarrow> payload_GetTarget p)"

section \<open>Constructors\<close>

text \<open>
  \<open>now\<close> is \<open>time.Now().UnixNano()\<close>, \<open>nowSec\<close> is \<open>time.Now().Unix()\<close>. A composite literal
  leaves the fields it does not name at their zero value.
\<close>

definition zero_social :: SocialEventPayload where
  "zero_social = \<lparr>sp_Type = [], sp_Actor = [], sp_ActorID = [], sp_Target = [], sp_TargetID = [],
     sp_Reason = [], sp_Witness = []\<rparr>"

definition zero_obs :: ObservationEventPayload where
  "zero_obs = \<lparr>ob_Observer = [], ob_ObserverID = [], ob_Subject = [], ob_SubjectID = [], ob_Type = [],
     ob_Importance = 0, ob_IsBackfill = False, ob_StartTime = 0, ob_RestartNum = 0, ob_LastRestart = 0,
     ob_OnlineState = [], ob_ClusterName = [], ob_ObserverUptime = 0\<rparr>"

definition NewSocialSyncEvent ::
  "go_env \<Rightarrow> int \<Rightarrow> string \<Rightarrow> NaraName \<Rightarrow> NaraName \<Rightarrow> string \<Rightarrow> NaraName \<Rightarrow> SyncEvent go" where
  "NewSocialSyncEvent G now eventType actor target reason witness =
     ComputeID G (zero_event\<lparr>Timestamp := now, Service := ServiceSocial,
       Social := Some (zero_social\<lparr>sp_Type := eventType, sp_Actor := actor, sp_Target := target,
                                   sp_Reason := reason, sp_Witness := witness\<rparr>)\<rparr>)"

definition NewPingSyncEvent :: "go_env \<Rightarrow> int \<Rightarrow> NaraName \<Rightarrow> NaraName \<Rightarrow> float64 \<Rightarrow> SyncEvent go" where
  "NewPingSyncEvent G now observer target rtt =
     ComputeID G (zero_event\<lparr>Timestamp := now, Service := ServicePing,
       Ping := Some \<lparr>pi_Observer = observer, pi_ObserverID = [], pi_Target = target,
                     pi_TargetID = [], pi_RTT = rtt\<rparr>\<rparr>)"

definition NewSignedSocialSyncEvent ::
  "go_env \<Rightarrow> int \<Rightarrow> string \<Rightarrow> NaraName \<Rightarrow> NaraName \<Rightarrow> string \<Rightarrow> NaraName \<Rightarrow> NaraName \<Rightarrow> NaraKeypair
   \<Rightarrow> SyncEvent go" where
  "NewSignedSocialSyncEvent G now eventType actor target reason witness emitter keypair =
     go_bind (NewSocialSyncEvent G now eventType actor target reason witness) (event_Sign G emitter keypair)"

definition NewSignedPingSyncEvent ::
  "go_env \<Rightarrow> int \<Rightarrow> NaraName \<Rightarrow> NaraName \<Rightarrow> float64 \<Rightarrow> NaraName \<Rightarrow> NaraKeypair \<Rightarrow> SyncEvent go" where
  "NewSignedPingSyncEvent G now observer target rtt emitter keypair =
     go_bind (NewPingSyncEvent G now observer target rtt) (event_Sign G emitter keypair)"

definition observation_event :: "go_env \<Rightarrow> int \<Rightarrow> ObservationEventPayload \<Rightarrow> SyncEvent go" where
  "observation_event G now p =
     ComputeID G (zero_event\<lparr>Timestamp := now, Service := ServiceObservation, Observation := Some p\<rparr>)"

definition NewRestartObservationEvent ::
  "go_env \<Rightarrow> int \<Rightarrow> int \<Rightarrow> NaraName \<Rightarrow> NaraName \<Rightarrow> int \<Rightarrow> int \<Rightarrow> SyncEvent go" where
  "NewRestartObservationEvent G now nowSec observer subject startTime restartNum =
     observation_event G now
       (zero_obs\<lparr>ob_Observer := observer, ob_Subject := subject, ob_Type := ''restart'',
          ob_Importance := ImportanceCritical, ob_StartTime := startTime, ob_RestartNum := restartNum,
          ob_LastRestart := nowSec\<rparr>)"

definition NewRestartObservationEventWithUptime ::
  "go_env \<Rightarrow> int \<Rightarrow> int \<Rightarrow> NaraName \<Rightarrow> NaraName \<Rightarrow> int \<Rightarrow> int \<Rightarrow> nat \<Rightarrow> SyncEvent go" where
  "NewRestartObservationEventWithUptime G now nowSec observer subject startTime restartNum observerUptime =
     observation_event G now
       (zero_obs\<lparr>ob_Observer := observer, ob_Subject := subject, ob_Type := ''restart'',
          ob_Importance := ImportanceCritical, ob_StartTime := startTime, ob_RestartNum := restartNum,
          ob_LastRestart := nowSec, ob_ObserverUptime := observerUptime\<rparr>)"

definition NewFirstSeenObservationEvent ::
  "go_env \<Rightarrow> int \<Rightarrow> NaraName \<Rightarrow> NaraName \<Rightarrow> int \<Rightarrow> SyncEvent go" where
  "NewFirstSeenObservationEvent G now observer subject startTime =
     observation_event G now
       (zero_obs\<lparr>ob_Observer := observer, ob_Subject := subject, ob_Type := ''first-seen'',
          ob_Importance := ImportanceCritical, ob_StartTime := startTime\<rparr>)"

definition NewStatusChangeObservationEvent ::
  "go_env \<Rightarrow> int \<Rightarrow> NaraName \<Rightarrow> NaraName \<Rightarrow> string \<Rightarrow> SyncEvent go" where
  "NewStatusChangeObservationEvent G now observer subject onlineState =
     observation_event G now
       (zero_obs\<lparr>ob_Observer := observer, ob_Subject := subject, ob_Type := ''status-change'',
          ob_Importance := ImportanceNormal, ob_OnlineState := onlineState\<rparr>)"

definition NewRestartObservationEventWithIDs ::
  "go_env \<Rightarrow> int \<Rightarrow> int \<Rightarrow> NaraName \<Rightarrow> NaraID \<Rightarrow> NaraName \<Rightarrow> NaraID \<Rightarrow> int \<Rightarrow> int \<Rightarrow> SyncEvent go" where
  "NewRestartObservationEventWithIDs G now nowSec observer observerID subject subjectID startTime restartNum =
     observation_event G now
       (zero_obs\<lparr>ob_Observer := observer, ob_ObserverID := observerID, ob_Subject := subject,
          ob_SubjectID := subjectID, ob_Type := ''restart'', ob_Importance := ImportanceCritical,
          ob_StartTime := startTime, ob_RestartNum := restartNum, ob_LastRestart := nowSec\<rparr>)"

definition NewFirstSeenObservationEventWithIDs ::
  "go_env \<Rightarrow> int \<Rightarrow> NaraName \<Rightarrow> NaraID \<Rightarrow> NaraName \<Rightarrow> NaraID \<Rightarrow> int \<Rightarrow> SyncEvent go" where
  "NewFirstSeenObservationEventWithIDs G now observer observerID subject subjectID startTime =
     observation_event G now
       (zero_obs\<lparr>ob_Observer := observer, ob_ObserverID := observerID, ob_Subject := subject,
          ob_SubjectID := subjectID, ob_Type := ''first-seen'', ob_Importance := ImportanceCritical,
          ob_StartTime := startTime\<rparr>)"

definition NewStatusChangeObservationEventWithIDs ::
  "go_env \<Rightarrow> int \<Rightarrow> NaraName \<Rightarrow> NaraID \<Rightarrow> NaraName \<Rightarrow> NaraID \<Rightarrow> string \<Rightarrow> SyncEvent go" where
  "NewStatusChangeObservationEventWithIDs G now observer observerID subject subjectID onlineState =
     observation_event G now
       (zero_obs\<lparr>ob_Observer := observer, ob_ObserverID := observerID, ob_Subject := subject,
          ob_SubjectID := subjectID, ob_Type := ''status-change'', ob_Importance := ImportanceNormal,
          ob_OnlineState := onlineState\<rparr>)"

definition NewBackfillObservationEvent ::
  "go_env \<Rightarrow> int \<Rightarrow> NaraName \<Rightarrow> NaraName \<Rightarrow> int \<Rightarrow> int \<Rightarrow> int \<Rightarrow> SyncEvent go" where
  "NewBackfillObservationEvent G now observer subject startTime restartNum lastRestart =
     observation_event G now
       (zero_obs\<lparr>ob_Observer := observer, ob_Subject := subject, ob_Type := ''restart'',
          ob_Importance := ImportanceCritical, ob_IsBackfill := True, ob_StartTime := startTime,
          ob_RestartNum := restartNum, ob_LastRestart := lastRestart\<rparr>)"

definition NewSeenSyncEventWithIDs ::
  "go_env \<Rightarrow> int \<Rightarrow> NaraName \<Rightarrow> NaraID \<Rightarrow> NaraName \<Rightarrow> NaraID \<Rightarrow> string \<Rightarrow> NaraKeypair \<Rightarrow> SyncEvent go" where
  "NewSeenSyncEventWithIDs G now observer observerID subject subjectID via keypair =
     go_bind (ComputeID G (zero_event\<lparr>Timestamp := now, Service := ServiceSeen,
                Seen := Some \<lparr>se_Observer = observer, se_ObserverID = observerID, se_Subject = subject,
                              se_SubjectID = subjectID, se_Via = via\<rparr>\<rparr>))
       (event_Sign G observer keypair)"

definition NewSeenSyncEvent ::
  "go_env \<Rightarrow> int \<Rightarrow> NaraName \<Rightarrow> NaraName \<Rightarrow> string \<Rightarrow> NaraKeypair \<Rightarrow> SyncEvent go" where
  "NewSeenSyncEvent G now observer subject via keypair =
     go_bind (ComputeID G (zero_event\<lparr>Timestamp := now, Service := ServiceSeen,
                Seen := Some \<lparr>se_Observer = observer, se_ObserverID = [], se_Subject = subject,
                              se_SubjectID = [], se_Via = via\<rparr>\<rparr>))
       (event_Sign G observer keypair)"

definition NewTeaseSyncEventWithIDs ::
  "go_env \<Rightarrow> int \<Rightarrow> NaraName \<Rightarrow> NaraID \<Rightarrow> NaraName \<Rightarrow> NaraID \<Rightarrow> string \<Rightarrow> NaraKeypair \<Rightarrow> SyncEvent go" where
  "NewTeaseSyncEventWithIDs G now actor actorID target targetID reason keypair =
     go_bind (ComputeID G (zero_event\<lparr>Timestamp := now, Service := ServiceSocial,
                Social := Some (zero_social\<lparr>sp_Type := ''tease'', sp_Actor := actor, sp_ActorID := actorID,
                                sp_Target := target, sp_TargetID := targetID, sp_Reason := reason\<rparr>)\<rparr>))
       (event_Sign G actor keypair)"

definition NewHeyThereSyncEvent ::
  "go_env \<Rightarrow> int \<Rightarrow> NaraName \<Rightarrow> string \<Rightarrow> string \<Rightarrow> NaraID \<Rightarrow> NaraKeypair \<Rightarrow> SyncEvent go" where
  "NewHeyThereSyncEvent G now name publicKey meshIP naraID keypair =
     go_bind (ComputeID G (zero_event\<lparr>Timestamp := now, Service := ServiceHeyThere,
                HeyThere := Some \<lparr>ht_From = name, ht_PublicKey = publicKey, ht_MeshIP = meshIP,
                                  ht_ID = naraID, ht_Signature = []\<rparr>\<rparr>))
       (event_Sign G name keypair)"

definition NewChauSyncEvent ::
  "go_env \<Rightarrow> int \<Rightarrow> NaraName \<Rightarrow> string \<Rightarrow> NaraID \<Rightarrow> NaraKeypair \<Rightarrow> SyncEvent go" where
  "NewChauSyncEvent G now name publicKey naraID keypair =
     go_bind (ComputeID G (zero_event\<lparr>Timestamp := now, Service := ServiceChau,
                Chau := Some \<lparr>ch_From = name, ch_PublicKey = publicKey, ch_ID = naraID,
                              ch_Signature = []\<rparr>\<rparr>))
       (event_Sign G name keypair)"

definition NewTeaseSyncEvent ::
  "go_env \<Rightarrow> int \<Rightarrow> NaraName \<Rightarrow> NaraName \<Rightarrow> string \<Rightarrow> NaraKeypair \<Rightarrow> SyncEvent go" where
  "NewTeaseSyncEvent G now actor target reason keypair =
     NewSignedSocialSyncEvent G now ''tease'' actor target reason [] actor keypair"

definition NewObservationSocialSyncEvent ::
  "go_env \<Rightarrow> int \<Rightarrow> NaraName \<Rightarrow> NaraName \<Rightarrow> string \<Rightarrow> NaraKeypair \<Rightarrow> SyncEvent go" where
  "NewObservationSocialSyncEvent G now actor target reason keypair =
     NewSignedSocialSyncEvent G now ''observation'' actor target reason [] actor keypair"

text \<open>The journey ID is a parameter that the body does not use.\<close>

definition NewJourneyObservationSyncEvent ::
  "go_env \<Rightarrow> int \<Rightarrow> NaraName \<Rightarrow> NaraName \<Rightarrow> string \<Rightarrow> string \<Rightarrow> NaraKeypair \<Rightarrow> SyncEvent go" where
  "NewJourneyObservationSyncEvent G now observer journeyOriginator reason journeyID keypair =
     NewSignedSocialSyncEvent G now ''observation'' observer journeyOriginator reason [] observer keypair"

definition SyncEventFromSocialEvent :: "go_env \<Rightarrow> SocialEvent \<Rightarrow> SyncEvent go" where
  "SyncEventFromSocialEvent G se =
     ComputeID G (zero_event\<lparr>Timestamp := soc_Timestamp se, Service := ServiceSocial,
       Social := Some (zero_social\<lparr>sp_Type := soc_Type se, sp_Actor := soc_Actor se,
                        sp_Target := soc_Target se, sp_Reason := soc_Reason se,
                        sp_Witness := soc_Witness se\<rparr>)\<rparr>)"

definition ToSocialEvent :: "SyncEvent \<Rightarrow> SocialEvent option" where
  "ToSocialEvent e =
     (if Service e \<noteq> ServiceSocial then None
      else case Social e of
             None \<Rightarrow> None
           | Some p \<Rightarrow> Some \<lparr>soc_ID = ID e, soc_Timestamp = Timestamp e, soc_Type = sp_Type p,
                             soc_Actor = sp_Actor p, soc_Target = sp_Target p, soc_Reason = sp_Reason p,
                             soc_Witness = sp_Witness p, soc_Signature = []\<rparr>)"

section \<open>Events whose payload is present\<close>

text \<open>
  \<open>has_payload e\<close>: the service is one of the seven and its pointer is not nil, or the service
  is unknown, so no method panics.
\<close>

fun payload_present :: "payload \<Rightarrow> bool" where
  "payload_present (PSocial p) \<longleftrightarrow> p \<noteq> None"
| "payload_present (PPing p) \<longleftrightarrow> p \<noteq> None"
| "payload_present (PObservation p) \<longleftrightarrow> p \<noteq> None"
| "payload_present (PHeyThere p) \<longleftrightarrow> p \<noteq> None"
| "payload_present (PChau p) \<longleftrightarrow> p \<noteq> None"
| "payload_present (PSeen p) \<longleftrightarrow> p \<noteq> None"
| "payload_present (PCheckpoint p) \<longleftrightarrow> p \<noteq> None"

definition has_payload :: "SyncEvent \<Rightarrow> bool" where
  "has_payload e \<longleftrightarrow> (case Payload e of None \<Rightarrow> True | Some p \<Rightarrow> payload_present p)"

lemma payload_ContentString_total: "payload_present p \<Longrightarrow> \<exists>s. payload_ContentString p = Inr s"
  by (cases p) auto

lemma payload_IsValid_total: "payload_present p \<Longrightarrow> \<exists>b. payload_IsValid p = Inr b"
  by (cases p) auto

lemma payload_IsValid_present: "payload_IsValid p = Inr b \<Longrightarrow> payload_present p"
  by (cases p) (auto simp: via_pointer_def go_bind_eq_Inr deref_eq_Inr)

lemma payload_ContentString_nil:
  "\<not> payload_present p \<Longrightarrow> payload_ContentString p = Inl NilDereference"
  by (cases p) auto

lemma payload_IsValid_nil: "\<not> payload_present p \<Longrightarrow> payload_IsValid p = Inl NilDereference"
  by (cases p) auto

lemma payload_bytes_total: "has_payload e \<Longrightarrow> \<exists>s. payload_bytes e = Inr s"
  using payload_ContentString_total by (auto simp: has_payload_def payload_bytes_def split: option.splits)

lemma GetActor_total: "has_payload e \<Longrightarrow> \<exists>s. GetActor e = Inr s"
proof -
  have "payload_present p \<Longrightarrow> \<exists>s. payload_GetActor p = Inr s" for p by (cases p) auto
  then show "has_payload e \<Longrightarrow> \<exists>s. GetActor e = Inr s"
    by (auto simp: has_payload_def GetActor_def split: option.splits)
qed

lemma GetTarget_total: "has_payload e \<Longrightarrow> \<exists>s. GetTarget e = Inr s"
proof -
  have "payload_present p \<Longrightarrow> \<exists>s. payload_GetTarget p = Inr s" for p by (cases p) auto
  then show "has_payload e \<Longrightarrow> \<exists>s. GetTarget e = Inr s"
    by (auto simp: has_payload_def GetTarget_def split: option.splits)
qed

lemma event_IsValid_total: "has_payload e \<Longrightarrow> \<exists>b. event_IsValid e = Inr b"
  using payload_IsValid_total by (auto simp: has_payload_def event_IsValid_def split: option.splits)

lemma event_IsValid_has_payload: "event_IsValid e = Inr True \<Longrightarrow> has_payload e"
  using payload_IsValid_present
  by (auto simp: event_IsValid_def has_payload_def split: if_splits option.splits)

text \<open>Fields that the envelope operations leave alone.\<close>

lemma Payload_update [simp]:
  "Payload (e\<lparr>ID := i\<rparr>) = Payload e" "Payload (e\<lparr>Emitter := n\<rparr>) = Payload e"
  "Payload (e\<lparr>Signature := s\<rparr>) = Payload e"
  by (simp_all add: Payload_def)

lemma payload_bytes_update [simp]:
  "payload_bytes (e\<lparr>ID := i\<rparr>) = payload_bytes e" "payload_bytes (e\<lparr>Emitter := n\<rparr>) = payload_bytes e"
  "payload_bytes (e\<lparr>Signature := s\<rparr>) = payload_bytes e"
  by (simp_all add: payload_bytes_def)

lemma event_IsValid_ID [simp]: "event_IsValid (e\<lparr>ID := i\<rparr>) = event_IsValid e"
  by (simp add: event_IsValid_def)

lemma signableData_Signature [simp]: "signableData G (e\<lparr>Signature := s\<rparr>) = signableData G e"
  by (simp add: signableData_def)

lemma ComputeID_Inr:
  "ComputeID G e = Inr e' \<longleftrightarrow>
   (\<exists>s. id_input e = Inr s \<and> e' = e\<lparr>ID := fmt_hex (take 16 (sha256 G s))\<rparr>)"
  by (auto simp: ComputeID_def go_bind_eq_Inr)

lemma ComputeID_total: "has_payload e \<Longrightarrow> \<exists>e'. ComputeID G e = Inr e'"
  using payload_bytes_total by (fastforce simp: ComputeID_def id_input_def)

end
