(* ===== verification/Rate_Limit.thy ===== *)
theory Rate_Limit
  imports Sync_Event
begin

text \<open>
  \<open>ObservationRateLimit\<close> of \<open>sync_ledger.go\<close>: per subject, the timestamps (in seconds) of the
  observation events that were let through, and the test that allows at most \<open>MaxEvents\<close> of
  them in a window of \<open>WindowSec\<close> seconds. The lemmas show that the limit holds for every
  window when a subject's timestamps do not go back, and that \<open>Cleanup\<close> changes no decision.
\<close>

record ObservationRateLimit =
  SubjectCounts :: "NaraName \<rightharpoonup> int list"
  WindowSec :: int
  rl_MaxEvents :: int

definition NewObservationRateLimit :: ObservationRateLimit where
  "NewObservationRateLimit = \<lparr>SubjectCounts = Map.empty, WindowSec = 300, rl_MaxEvents = 10\<rparr>"

definition map_lookup_list :: "('k \<rightharpoonup> 'v list) \<Rightarrow> 'k \<Rightarrow> 'v list" where
  \<comment> \<open>reading a missing key of a Go map of slices gives the nil slice\<close>
  "map_lookup_list m k = (case m k of None \<Rightarrow> [] | Some xs \<Rightarrow> xs)"

lemma map_lookup_list_upd [simp]:
  "map_lookup_list (m(k \<mapsto> v)) k' = (if k' = k then v else map_lookup_list m k')"
  "map_lookup_list Map.empty k = []"
  by (simp_all add: map_lookup_list_def)

definition CheckAndAdd ::
  "ObservationRateLimit \<Rightarrow> NaraName \<Rightarrow> int \<Rightarrow> bool \<times> ObservationRateLimit" where
  "CheckAndAdd r subject timestamp =
     (let windowStart = i64 (timestamp - WindowSec r);
          timestamps = map_lookup_list (SubjectCounts r) subject;
          validTimestamps = filter (\<lambda>ts. ts \<ge> windowStart) timestamps
      in if int (length validTimestamps) \<ge> rl_MaxEvents r then (False, r)
         else (True, r\<lparr>SubjectCounts :=
                 (SubjectCounts r)(subject \<mapsto> validTimestamps @ [timestamp])\<rparr>))"

definition Cleanup :: "int \<Rightarrow> ObservationRateLimit \<Rightarrow> ObservationRateLimit" where
  "Cleanup now r =
     (let windowStart = i64 (now - WindowSec r)
      in r\<lparr>SubjectCounts := (\<lambda>subject. case SubjectCounts r subject of
              None \<Rightarrow> None
            | Some timestamps \<Rightarrow>
                let valid = filter (\<lambda>ts. ts \<ge> windowStart) timestamps
                in if length valid = 0 then None else Some valid)\<rparr>)"

section \<open>Runs of the limiter\<close>

text \<open>The calls that are allowed, in order, when the limiter sees a sequence of calls.\<close>

fun allowed :: "ObservationRateLimit \<Rightarrow> (NaraName \<times> int) list \<Rightarrow> (NaraName \<times> int) list" where
  "allowed r [] = []"
| "allowed r ((s, t) # calls) =
     (case CheckAndAdd r s t of (ok, r') \<Rightarrow>
        if ok then (s, t) # allowed r' calls else allowed r' calls)"

definition times_of :: "NaraName \<Rightarrow> (NaraName \<times> int) list \<Rightarrow> int list" where
  "times_of s calls = map snd (filter (\<lambda>c. fst c = s) calls)"

lemma times_of_simps [simp]:
  "times_of s [] = []"
  "times_of s ((s', t) # calls) = (if s' = s then t # times_of s calls else times_of s calls)"
  by (simp_all add: times_of_def)

lemma CheckAndAdd_params:
  "CheckAndAdd r s t = (ok, r') \<Longrightarrow> WindowSec r' = WindowSec r"
  "CheckAndAdd r s t = (ok, r') \<Longrightarrow> rl_MaxEvents r' = rl_MaxEvents r"
  by (auto simp: CheckAndAdd_def Let_def split: if_splits)

lemma CheckAndAdd_other:
  "CheckAndAdd r s t = (ok, r') \<Longrightarrow> s' \<noteq> s \<Longrightarrow>
   map_lookup_list (SubjectCounts r') s' = map_lookup_list (SubjectCounts r) s'"
  by (auto simp: CheckAndAdd_def Let_def split: if_splits)

text \<open>
  The window a call sees: the stored timestamps are the suffix of the allowed history \<open>A\<close>
  above some bound \<open>lo\<close> that no later window reaches below.
\<close>

definition window_count :: "int \<Rightarrow> int \<Rightarrow> int list \<Rightarrow> nat" where
  "window_count W t xs = length (filter (\<lambda>x. t - W \<le> x \<and> x \<le> t) xs)"

lemma window_count_append: "window_count W t (xs @ ys) = window_count W t xs + window_count W t ys"
  by (simp add: window_count_def)

lemma length_filter_imp: "(\<And>x. x \<in> set xs \<Longrightarrow> P x \<Longrightarrow> Q x) \<Longrightarrow> length (filter P xs) \<le> length (filter Q xs)"
  by (induction xs) auto

lemma window_count_snoc:
  assumes le: "\<And>x. x \<in> set A \<Longrightarrow> x \<le> t0"
    and old: "\<And>t. window_count W t A \<le> n"
    and new: "length (filter (\<lambda>x. t0 - W \<le> x) A) < n"
  shows "window_count W t (A @ [t0]) \<le> n"
proof (cases "t - W \<le> t0 \<and> t0 \<le> t")
  case True
  have "window_count W t A \<le> length (filter (\<lambda>x. t0 - W \<le> x) A)"
    unfolding window_count_def using True by (intro length_filter_imp) auto
  with new show ?thesis by (simp add: window_count_append window_count_def)
next
  case False
  then show ?thesis using old [of t] by (auto simp: window_count_append window_count_def)
qed

lemma filter_suffix:
  "(\<And>x. x \<in> set A \<Longrightarrow> P x \<Longrightarrow> Q x) \<Longrightarrow> filter P (filter Q A) = filter P A"
  by (induction A) auto

lemma allowed_window_aux:
  assumes "0 \<le> WindowSec r"
    and "map_lookup_list (SubjectCounts r) s = filter (\<lambda>x. lo \<le> x) A"
    and "\<And>t. t \<in> set (times_of s calls) \<Longrightarrow>
           lo \<le> t - WindowSec r \<and> in_i64 (t - WindowSec r) \<and> (\<forall>x\<in>set A. x \<le> t)"
    and "sorted (times_of s calls)"
    and "\<And>t. window_count (WindowSec r) t A \<le> nat (rl_MaxEvents r)"
  shows "window_count (WindowSec r) t (A @ times_of s (allowed r calls)) \<le> nat (rl_MaxEvents r)"
  using assms
proof (induction calls arbitrary: r A lo)
  case (Cons c calls)
  obtain s' t0 where c: "c = (s', t0)" by fastforce
  obtain ok r' where r': "CheckAndAdd r s' t0 = (ok, r')" by fastforce
  note params = CheckAndAdd_params [OF r']
  show ?case
  proof (cases "s' = s")
    case False
    have "window_count (WindowSec r') t (A @ times_of s (allowed r' calls)) \<le> nat (rl_MaxEvents r')"
      by (rule Cons.IH [of r' lo A])
        (use Cons.prems False c params CheckAndAdd_other [OF r', of s] in auto)
    with False r' params c show ?thesis by simp
  next
    case True
    let ?V = "filter (\<lambda>x. t0 - WindowSec r \<le> x) A"
    from Cons.prems(3) [of t0] True c
    have t0: "lo \<le> t0 - WindowSec r" "in_i64 (t0 - WindowSec r)" "\<And>x. x \<in> set A \<Longrightarrow> x \<le> t0"
      by auto
    then have V: "filter (\<lambda>ts. i64 (t0 - WindowSec r) \<le> ts) (map_lookup_list (SubjectCounts r) s) = ?V"
      using Cons.prems(2) by (simp add: filter_suffix del: filter_filter)
    have le: "t0 \<le> u" if "u \<in> set (times_of s calls)" for u
      using that Cons.prems(4) True c by simp
    show ?thesis
    proof (cases "int (length ?V) \<ge> rl_MaxEvents r")
      case full: True
      then have "ok = False" and "r' = r"
        using r' V True by (auto simp: CheckAndAdd_def)
      moreover have "window_count (WindowSec r) t (A @ times_of s (allowed r calls)) \<le> nat (rl_MaxEvents r)"
        by (rule Cons.IH [of r lo A]) (use Cons.prems True c in auto)
      ultimately show ?thesis using c r' by simp
    next
      case room: False
      then have ok: "ok = True" and S: "map_lookup_list (SubjectCounts r') s = ?V @ [t0]"
        using r' V True by (auto simp: CheckAndAdd_def)
      have "window_count (WindowSec r') t ((A @ [t0]) @ times_of s (allowed r' calls)) \<le> nat (rl_MaxEvents r')"
      proof (rule Cons.IH [of r' "t0 - WindowSec r"])
        show "map_lookup_list (SubjectCounts r') s = filter (\<lambda>x. t0 - WindowSec r \<le> x) (A @ [t0])"
          using S Cons.prems(1) by simp
        show "window_count (WindowSec r') u (A @ [t0]) \<le> nat (rl_MaxEvents r')" for u
          using window_count_snoc [OF t0(3) Cons.prems(5)] room params by auto
        show "t0 - WindowSec r \<le> u - WindowSec r' \<and> in_i64 (u - WindowSec r') \<and> (\<forall>x\<in>set (A @ [t0]). x \<le> u)"
          if "u \<in> set (times_of s calls)" for u
          using that le [of u] Cons.prems(3) [of u] params c True by auto
      qed (use Cons.prems True c params in auto)
      with ok True r' params c show ?thesis by simp
    qed
  qed
qed simp

lemma Cleanup_lookup:
  "map_lookup_list (SubjectCounts (Cleanup now r)) s =
   filter (\<lambda>ts. i64 (now - WindowSec r) \<le> ts) (map_lookup_list (SubjectCounts r) s)"
  by (auto simp: Cleanup_def Let_def map_lookup_list_def split: option.split)

lemma Cleanup_params [simp]:
  "WindowSec (Cleanup now r) = WindowSec r" "rl_MaxEvents (Cleanup now r) = rl_MaxEvents r"
  by (simp_all add: Cleanup_def Let_def)

lemma CheckAndAdd_cases:
  "fst (CheckAndAdd r s t) \<longleftrightarrow>
     int (length (filter (\<lambda>x. i64 (t - WindowSec r) \<le> x) (map_lookup_list (SubjectCounts r) s))) < rl_MaxEvents r"
  "fst (CheckAndAdd r s t) \<Longrightarrow>
     map_lookup_list (SubjectCounts (snd (CheckAndAdd r s t))) s =
       filter (\<lambda>x. i64 (t - WindowSec r) \<le> x) (map_lookup_list (SubjectCounts r) s) @ [t]"
  by (auto simp: CheckAndAdd_def Let_def)

section \<open>Properties\<close>



text \<open>
  \<open>Cleanup\<close> is invisible. After a cleanup at a time not later than the next call's, that
  call gets the same answer, and the subject's stored timestamps afterwards are the same.
\<close>

theorem rate_limit_cleanup_transparent:
  assumes "now \<le> t" and "in_i64 (now - WindowSec r)" and "in_i64 (t - WindowSec r)"
  shows "fst (CheckAndAdd (Cleanup now r) s t) = fst (CheckAndAdd r s t) \<and>
         (fst (CheckAndAdd r s t) \<longrightarrow>
            map_lookup_list (SubjectCounts (snd (CheckAndAdd (Cleanup now r) s t))) s =
            map_lookup_list (SubjectCounts (snd (CheckAndAdd r s t))) s)"
proof -
  let ?L = "map_lookup_list (SubjectCounts r) s"
  have "filter (\<lambda>x. t - WindowSec r \<le> x) (filter (\<lambda>x. now - WindowSec r \<le> x) ?L) =
        filter (\<lambda>x. t - WindowSec r \<le> x) ?L"
    using assms(1) by (intro filter_suffix) simp
  then show ?thesis
    using assms by (auto simp: CheckAndAdd_cases Cleanup_lookup)
qed

theorem rate_limit_cleanup_transparent_witness:
  "fst (CheckAndAdd (Cleanup 500 NewObservationRateLimit) ''a'' 600) =
   fst (CheckAndAdd NewObservationRateLimit ''a'' 600)"
  using rate_limit_cleanup_transparent [of 500 600 NewObservationRateLimit "''a''"]
  by (simp add: NewObservationRateLimit_def in_i64_def)

end
