(* ===== verification/Sync_Ledger.thy ===== *)
theory Sync_Ledger
  imports Rate_Limit
begin

text \<open>
  \<open>SyncLedger\<close> of \<open>sync_ledger.go\<close>: the state, every operation that changes it, and the
  well-formedness invariant they keep. The map \<open>eventIDs\<close> only ever holds \<open>true\<close> and is a
  set here. Listeners are callbacks; they are opaque handles, and an addition returns the
  calls that \<open>notifyListeners\<close> makes. Each operation runs under the ledger's mutex and is
  one atomic step. The result of an addition is the returned bool, the ledger, the calls;
  \<open>Inl\<close> is a panic.
\<close>

record SyncLedger =
  Events :: "SyncEvent list"
  MaxEvents :: int
  eventIDs :: "string set"
  observationRL :: ObservationRateLimit
  version :: int
  isUnknownNara :: "(NaraName \<Rightarrow> bool) option"
  listeners :: "nat list"

record NaraPersonality =
  Agreeableness :: int
  Sociability :: int
  Chill :: int

type_synonym add_result = "(bool \<times> SyncLedger \<times> (nat \<times> SyncEvent) list) go"

definition NewSyncLedger :: "int \<Rightarrow> SyncLedger" where
  "NewSyncLedger maxEvents = \<lparr>Events = [], MaxEvents = maxEvents, eventIDs = {},
     observationRL = NewObservationRateLimit, version = 0, isUnknownNara = None, listeners = []\<rparr>"

definition AddListener :: "nat \<Rightarrow> SyncLedger \<Rightarrow> SyncLedger" where
  "AddListener h l = l\<lparr>listeners := listeners l @ [h]\<rparr>"

definition notifyListeners :: "SyncLedger \<Rightarrow> SyncEvent \<Rightarrow> (nat \<times> SyncEvent) list" where
  "notifyListeners l e = map (\<lambda>h. (h, e)) (listeners l)"

definition SetUnknownNaraChecker :: "(NaraName \<Rightarrow> bool) \<Rightarrow> SyncLedger \<Rightarrow> SyncLedger" where
  "SetUnknownNaraChecker checker l = l\<lparr>isUnknownNara := Some checker\<rparr>"

section \<open>Reading events\<close>

definition event_names :: "SyncEvent \<Rightarrow> NaraName list" where
  "event_names e =
     (if Service e = ServiceHeyThere then (case HeyThere e of None \<Rightarrow> [] | Some h \<Rightarrow> [ht_From h])
      else if Service e = ServiceChau then (case Chau e of None \<Rightarrow> [] | Some c \<Rightarrow> [ch_From c])
      else if Service e = ServiceObservation
        then (case Observation e of None \<Rightarrow> [] | Some p \<Rightarrow> [ob_Observer p, ob_Subject p])
      else if Service e = ServiceSocial
        then (case Social e of None \<Rightarrow> []
              | Some p \<Rightarrow> [sp_Actor p] @ (if sp_Target p \<noteq> [] then [sp_Target p] else []) @
                         (if sp_Witness p \<noteq> [] then [sp_Witness p] else []))
      else if Service e = ServicePing
        then (case Ping e of None \<Rightarrow> [] | Some p \<Rightarrow> [pi_Observer p, pi_Target p])
      else if Service e = ServiceSeen
        then (case Seen e of None \<Rightarrow> [] | Some s \<Rightarrow> [se_Observer s, se_Subject s])
      else [])"

definition isEventFromUnknownNara :: "SyncLedger \<Rightarrow> SyncEvent \<Rightarrow> bool" where
  "isEventFromUnknownNara l e =
     (case isUnknownNara l of
        None \<Rightarrow> False
      | Some checker \<Rightarrow> list_ex (\<lambda>name. name \<noteq> [] \<and> checker name) (event_names e))"

definition shouldFilterCheckpoint :: "SyncEvent \<Rightarrow> bool" where
  "shouldFilterCheckpoint e =
     (if Service e \<noteq> ServiceCheckpoint then False
      else case Checkpoint e of
             None \<Rightarrow> False
           | Some c \<Rightarrow> cp_AsOfTime c \<le> CheckpointCutoffTime \<and> cp_Subject c = ''r2d2'')"

definition FilterEventsForIngestion :: "SyncEvent list \<Rightarrow> SyncEvent list" where
  "FilterEventsForIngestion evs = filter (\<lambda>e. \<not> shouldFilterCheckpoint e) evs"

definition eventPruningPriority :: "SyncEvent \<Rightarrow> nat" where
  "eventPruningPriority e =
     (let obs = (if Service e = ServiceObservation then Observation e else None)
      in if Service e = ServiceCheckpoint then 0
         else if (case obs of None \<Rightarrow> False | Some p \<Rightarrow> ob_Type p = ''restart'' \<or> ob_Type p = ''first-seen'')
              then 0
         else if (case obs of None \<Rightarrow> False | Some p \<Rightarrow> ob_Type p = ''status-change'') then 1
         else if Service e = ServiceHeyThere \<or> Service e = ServiceChau then 1
         else if Service e = ServiceSocial then 2
         else if Service e = ServiceSeen then 3
         else if Service e = ServicePing then 4
         else 2)"

definition is_observation :: "SyncEvent \<Rightarrow> bool" where
  "is_observation e \<longleftrightarrow> Service e = ServiceObservation \<and> Observation e \<noteq> None"

definition obs_of :: "SyncEvent \<Rightarrow> (ObservationEventPayload \<Rightarrow> bool) \<Rightarrow> bool" where
  \<comment> \<open>the recurring test \<open>e.Service == ServiceObservation && e.Observation != nil && P(e.Observation)\<close>\<close>
  "obs_of e P \<longleftrightarrow> Service e = ServiceObservation \<and> (case Observation e of None \<Rightarrow> False | Some p \<Rightarrow> P p)"

definition is_ping_to :: "NaraName \<Rightarrow> SyncEvent \<Rightarrow> bool" where
  "is_ping_to target e \<longleftrightarrow>
     Service e = ServicePing \<and> (case Ping e of None \<Rightarrow> False | Some p \<Rightarrow> pi_Target p = target)"

definition is_checkpoint_for :: "NaraName \<Rightarrow> SyncEvent \<Rightarrow> bool" where
  "is_checkpoint_for subject e \<longleftrightarrow>
     Service e = ServiceCheckpoint \<and> (case Checkpoint e of None \<Rightarrow> False | Some c \<Rightarrow> cp_Subject c = subject)"

section \<open>Scanning for the oldest element\<close>

text \<open>
  The loop \<open>if oldestIdx == -1 || ts < oldestTs { oldest = this }\<close>: the first element with
  the smallest key.
\<close>

definition oldest_step :: "('a \<Rightarrow> int) \<Rightarrow> 'a option \<Rightarrow> 'a \<Rightarrow> 'a option" where
  "oldest_step key best x =
     (case best of None \<Rightarrow> Some x | Some b \<Rightarrow> if key x < key b then Some x else Some b)"

definition oldest_by :: "('a \<Rightarrow> int) \<Rightarrow> 'a list \<Rightarrow> 'a option" where
  "oldest_by key xs = foldl (oldest_step key) None xs"

lemma foldl_oldest_step:
  "\<exists>c. foldl (oldest_step key) (Some b) xs = Some c \<and> c \<in> insert b (set xs) \<and>
       (\<forall>x \<in> insert b (set xs). key c \<le> key x)"
proof (induction xs arbitrary: b)
  case (Cons x xs)
  show ?case
    using Cons.IH [of x] Cons.IH [of b] by (cases "key x < key b") (auto simp: oldest_step_def)
qed simp

lemma oldest_by_None [simp]: "oldest_by key xs = None \<longleftrightarrow> xs = []"
proof (cases xs)
  case (Cons x xs')
  then show ?thesis
    using foldl_oldest_step [of key x xs'] by (auto simp: oldest_by_def oldest_step_def)
qed (simp add: oldest_by_def)

lemma oldest_by_Nil [simp]: "oldest_by key [] = None"
  by simp

lemma oldest_by_SomeD:
  "oldest_by key xs = Some b \<Longrightarrow> b \<in> set xs \<and> (\<forall>x \<in> set xs. key b \<le> key x)"
proof (cases xs)
  case (Cons x xs')
  then show "oldest_by key xs = Some b \<Longrightarrow> ?thesis"
    using foldl_oldest_step [of key x xs'] by (auto simp: oldest_by_def oldest_step_def)
qed (simp add: oldest_by_def)

lemma oldest_by_SomeI: "xs \<noteq> [] \<Longrightarrow> \<exists>b. oldest_by key xs = Some b"
  by (metis not_None_eq oldest_by_None)

text \<open>Positions of the events that pass a test, as the code's indexed range loops give them.\<close>

definition indexed :: "(SyncEvent \<Rightarrow> bool) \<Rightarrow> SyncEvent list \<Rightarrow> (nat \<times> SyncEvent) list" where
  "indexed P evs = filter (\<lambda>(i, x). P x) (enumerate 0 evs)"

lemma in_indexed: "(i, x) \<in> set (indexed P evs) \<longleftrightarrow> i < length evs \<and> x = evs ! i \<and> P x"
  by (auto simp: indexed_def in_set_enumerate_eq)

lemma length_indexed: "length (indexed P evs) = length (filter P evs)"
proof -
  have "length (filter (\<lambda>(i, x). P x) (enumerate n evs)) = length (filter P evs)" for n
    by (induction evs arbitrary: n) auto
  then show ?thesis by (simp add: indexed_def)
qed

section \<open>Pruning\<close>

definition prune_less :: "SyncLedger \<Rightarrow> SyncEvent \<Rightarrow> SyncEvent \<Rightarrow> bool" where
  "prune_less l x y =
     (let unknownI = isEventFromUnknownNara l x; unknownJ = isEventFromUnknownNara l y
      in if unknownI \<noteq> unknownJ then unknownI
         else let pi = eventPruningPriority x; pj = eventPruningPriority y
              in if pi \<noteq> pj then pi > pj else Timestamp x < Timestamp y)"

definition older :: "SyncEvent \<Rightarrow> SyncEvent \<Rightarrow> bool" where
  "older x y \<longleftrightarrow> Timestamp x < Timestamp y"

text \<open>The loop counts at most \<open>toRemove\<close> events from the front and breaks at a critical one.\<close>

fun count_removable :: "nat \<Rightarrow> SyncEvent list \<Rightarrow> nat" where
  "count_removable 0 evs = 0"
| "count_removable (Suc n) [] = 0"
| "count_removable (Suc n) (e # evs) =
     (if eventPruningPriority e = 0 then 0 else Suc (count_removable n evs))"

definition pruneUnlocked :: "go_env \<Rightarrow> SyncLedger \<Rightarrow> SyncLedger" where
  "pruneUnlocked G l =
     (if int (length (Events l)) \<le> MaxEvents l then l
      else let sorted = sort_slice (sort_perm G) (prune_less l) (Events l);
               toRemove = int (length sorted) - MaxEvents l;
               actualRemoved = count_removable (nat toRemove) sorted
           in if actualRemoved = 0 then l\<lparr>Events := sorted\<rparr>
              else let removed = take actualRemoved sorted;
                       kept = drop actualRemoved sorted
                   in l\<lparr>Events := sort_slice (sort_perm G) older kept,
                        eventIDs := eventIDs l - set (map ID removed),
                        version := i64 (version l + 1)\<rparr>)"

definition Prune :: "go_env \<Rightarrow> SyncLedger \<Rightarrow> SyncLedger" where
  "Prune G l = pruneUnlocked G l"

section \<open>Adding observations\<close>

definition MaxObservationsPerPair :: nat where "MaxObservationsPerPair = 20"

definition same_restart :: "ObservationEventPayload \<Rightarrow> ObservationEventPayload \<Rightarrow> bool" where
  "same_restart p q \<longleftrightarrow> ob_Type p = ''restart'' \<and> ob_Type q = ''restart'' \<and> ob_Subject q = ob_Subject p \<and>
     ob_RestartNum q = ob_RestartNum p \<and> ob_StartTime q = ob_StartTime p"

definition same_first_seen :: "ObservationEventPayload \<Rightarrow> ObservationEventPayload \<Rightarrow> bool" where
  "same_first_seen p q \<longleftrightarrow> ob_Type p = ''first-seen'' \<and> ob_Type q = ''first-seen'' \<and>
     ob_Observer q = ob_Observer p \<and> ob_Subject q = ob_Subject p"

definition duplicate_observation :: "ObservationEventPayload \<Rightarrow> SyncEvent list \<Rightarrow> bool" where
  "duplicate_observation p evs = list_ex (\<lambda>x. obs_of x (\<lambda>q. same_restart p q \<or> same_first_seen p q)) evs"

definition same_pair :: "ObservationEventPayload \<Rightarrow> ObservationEventPayload \<Rightarrow> bool" where
  "same_pair p q \<longleftrightarrow> ob_Observer q = ob_Observer p \<and> ob_Subject q = ob_Subject p"

text \<open>
  Which event of the pair a full pair gives up: its oldest event that is not a restart, else its
  oldest event if the subject has a checkpoint, else none.
\<close>

definition compaction_victim :: "ObservationEventPayload \<Rightarrow> SyncEvent list \<Rightarrow> (nat \<times> SyncEvent) option" where
  "compaction_victim p evs =
     (let existingObs = indexed (\<lambda>x. obs_of x (same_pair p)) evs
      in if length existingObs \<ge> MaxObservationsPerPair
         then let hasCheckpoint = list_ex (is_checkpoint_for (ob_Subject p)) evs;
                  ts = (\<lambda>(i, x). Timestamp x);
                  oldestNonRestart =
                    oldest_by ts (filter (\<lambda>(i, x). obs_of x (\<lambda>q. ob_Type q \<noteq> ''restart'')) existingObs);
                  oldestAny = oldest_by ts existingObs
              in (case oldestNonRestart of
                    Some r \<Rightarrow> Some r
                  | None \<Rightarrow> if hasCheckpoint then oldestAny else None)
         else None)"

definition compact_pair :: "ObservationEventPayload \<Rightarrow> SyncLedger \<Rightarrow> SyncLedger" where
  "compact_pair p l =
     (case compaction_victim p (Events l) of
        None \<Rightarrow> l
      | Some (idx, x) \<Rightarrow>
          l\<lparr>Events := remove_index idx (Events l), eventIDs := eventIDs l - {ID x},
            version := i64 (version l + 1)\<rparr>)"

definition with_id :: "go_env \<Rightarrow> SyncEvent \<Rightarrow> SyncEvent go" where
  "with_id G e = (if ID e = [] then ComputeID G e else Inr e)"

definition append_event :: "SyncEvent \<Rightarrow> SyncLedger \<Rightarrow> SyncLedger" where
  "append_event e l = l\<lparr>Events := Events l @ [e], eventIDs := insert (ID e) (eventIDs l)\<rparr>"

definition validate_and_append :: "go_env \<Rightarrow> SyncEvent \<Rightarrow> SyncLedger \<Rightarrow> add_result" where
  "validate_and_append G e0 l =
     go_bind (with_id G e0) (\<lambda>e. go_bind (event_IsValid e) (\<lambda>valid.
       if \<not> valid then Inr (False, l, [])
       else if ID e \<in> eventIDs l then Inr (False, l, [])
       else Inr (True, append_event e l, notifyListeners l e)))"

text \<open>
  With a nil \<open>e.Observation\<close> (which \<open>AddEventWithDedup\<close> does not exclude) the counting loop
  reads \<open>e.Observation.Observer\<close> as soon as the ledger holds one observation, and panics.
\<close>

definition addObservationWithCompaction ::
  "go_env \<Rightarrow> SyncEvent \<Rightarrow> bool \<Rightarrow> SyncLedger \<Rightarrow> add_result" where
  "addObservationWithCompaction G e withDedup l =
     (case Observation e of
        None \<Rightarrow> if list_ex is_observation (Events l) then Inl NilDereference
                else validate_and_append G e l
      | Some p \<Rightarrow>
          if withDedup \<and> duplicate_observation p (Events l) then Inr (False, l, [])
          else validate_and_append G e (compact_pair p l))"

section \<open>Adding events\<close>

definition MaxPingsPerTarget :: nat where "MaxPingsPerTarget = 5"

text \<open>
  Room for a ping: \<open>None\<close> when the new ping is not newer than the oldest of a full target,
  otherwise the ledger, with that oldest ping dropped if the target is full.
\<close>

definition make_room_for_ping :: "SyncEvent \<Rightarrow> SyncLedger \<Rightarrow> SyncLedger option" where
  "make_room_for_ping e l =
     (case (if Service e = ServicePing then Ping e else None) of
        None \<Rightarrow> Some l
      | Some p \<Rightarrow>
          let pings = indexed (is_ping_to (pi_Target p)) (Events l)
          in if length pings \<ge> MaxPingsPerTarget
             then (case oldest_by (\<lambda>(i, x). Timestamp x) pings of
                     None \<Rightarrow> Some l
                   | Some (oldestIdx, oldest) \<Rightarrow>
                       if Timestamp e \<le> Timestamp oldest then None
                       else Some (l\<lparr>Events := remove_index oldestIdx (Events l),
                                    eventIDs := eventIDs l - {ID oldest},
                                    version := i64 (version l + 1)\<rparr>))
             else Some l)"

definition prune_if_over :: "go_env \<Rightarrow> SyncLedger \<Rightarrow> SyncLedger" where
  "prune_if_over G l =
     (if MaxEvents l > 0 \<and> int (length (Events l)) > MaxEvents l then pruneUnlocked G l else l)"

definition AddEvent :: "go_env \<Rightarrow> SyncEvent \<Rightarrow> SyncLedger \<Rightarrow> add_result" where
  "AddEvent G e0 l =
     (if is_observation e0 then addObservationWithCompaction G e0 False l
      else go_bind (with_id G e0) (\<lambda>e. go_bind (event_IsValid e) (\<lambda>valid.
             if \<not> valid then Inr (False, l, [])
             else if shouldFilterCheckpoint e then Inr (False, l, [])
             else if ID e \<in> eventIDs l then Inr (False, l, [])
             else case make_room_for_ping e l of
                    None \<Rightarrow> Inr (False, l, [])
                  | Some l1 \<Rightarrow> Inr (True, prune_if_over G (append_event e l1), notifyListeners l e))))"

definition AddEventWithDedup :: "go_env \<Rightarrow> SyncEvent \<Rightarrow> SyncLedger \<Rightarrow> add_result" where
  "AddEventWithDedup G e l = addObservationWithCompaction G e True l"

definition AddEventFiltered :: "go_env \<Rightarrow> SyncEvent \<Rightarrow> NaraPersonality \<Rightarrow> SyncLedger \<Rightarrow> add_result" where
  "AddEventFiltered G e personality l =
     (case (if Service e = ServiceObservation then Observation e else None) of
        Some p \<Rightarrow>
          if ob_Importance p = ImportanceCritical then AddEvent G e l
          else if ob_Importance p = ImportanceNormal
               then (if Chill personality > 85 then Inr (False, l, []) else AddEvent G e l)
          else AddEvent G e l
      | None \<Rightarrow> AddEvent G e l)"

definition AddEventWithRateLimit :: "go_env \<Rightarrow> SyncEvent \<Rightarrow> SyncLedger \<Rightarrow> add_result" where
  "AddEventWithRateLimit G e l =
     (case (if Service e = ServiceObservation then Observation e else None) of
        Some p \<Rightarrow>
          let timestamp = Timestamp e sdiv 1000000000;
              (ok, rl) = CheckAndAdd (observationRL l) (ob_Subject p) timestamp
          in if \<not> ok then Inr (False, l\<lparr>observationRL := rl\<rparr>, [])
             else AddEvent G e (l\<lparr>observationRL := rl\<rparr>)
      | None \<Rightarrow> AddEvent G e l)"

text \<open>A loop that adds every event of a slice and counts the additions.\<close>

fun add_each ::
  "(SyncEvent \<Rightarrow> SyncLedger \<Rightarrow> add_result) \<Rightarrow> SyncEvent list \<Rightarrow> int \<Rightarrow> SyncLedger
   \<Rightarrow> (int \<times> SyncLedger \<times> (nat \<times> SyncEvent) list) go" where
  "add_each add [] added l = Inr (added, l, [])"
| "add_each add (e # evs) added l =
     go_bind (add e l) (\<lambda>(ok, l', calls).
       go_bind (add_each add evs (if ok then added + 1 else added) l') (\<lambda>(n, l'', calls').
         Inr (n, l'', calls @ calls')))"

definition MergeEvents ::
  "go_env \<Rightarrow> SyncEvent list \<Rightarrow> SyncLedger \<Rightarrow> (int \<times> SyncLedger \<times> (nat \<times> SyncEvent) list) go" where
  "MergeEvents G evs l = add_each (AddEvent G) (FilterEventsForIngestion evs) 0 l"

section \<open>Personality filter for social events\<close>

definition ReasonHighRestarts :: string where "ReasonHighRestarts = ''high-restarts''"
definition ReasonComeback :: string where "ReasonComeback = ''comeback''"
definition ReasonTrendAbandon :: string where "ReasonTrendAbandon = ''trend-abandon''"
definition ReasonRandom :: string where "ReasonRandom = ''random''"
definition ReasonNiceNumber :: string where "ReasonNiceNumber = ''nice-number''"
definition ReasonOnline :: string where "ReasonOnline = ''online''"
definition ReasonOffline :: string where "ReasonOffline = ''offline''"
definition ReasonJourneyPass :: string where "ReasonJourneyPass = ''journey-pass''"
definition ReasonJourneyComplete :: string where "ReasonJourneyComplete = ''journey-complete''"
definition ReasonJourneyTimeout :: string where "ReasonJourneyTimeout = ''journey-timeout''"

lemmas reason_defs = ReasonHighRestarts_def ReasonComeback_def ReasonTrendAbandon_def ReasonRandom_def
  ReasonNiceNumber_def ReasonOnline_def ReasonOffline_def ReasonJourneyPass_def
  ReasonJourneyComplete_def ReasonJourneyTimeout_def

definition socialEventIsMeaningful :: "SocialEventPayload option \<Rightarrow> NaraPersonality \<Rightarrow> bool" where
  "socialEventIsMeaningful payload personality =
     (case payload of
        None \<Rightarrow> False
      | Some p \<Rightarrow>
          if Chill personality > 70 \<and> sp_Reason p = ReasonRandom then False
          else if sp_Type p = ''observation'' then
            (if sp_Reason p = ReasonJourneyTimeout then True
             else if Chill personality > 85 \<and> (sp_Reason p = ReasonOnline \<or> sp_Reason p = ReasonOffline)
                  then False
             else if Sociability personality < 30 \<and>
                     (sp_Reason p = ReasonJourneyPass \<or> sp_Reason p = ReasonJourneyComplete) then False
             else True)
          else if Chill personality > 85 \<and> sp_Reason p \<noteq> ReasonComeback \<and> sp_Reason p \<noteq> ReasonHighRestarts
               then False
          else if Agreeableness personality > 80 \<and> sp_Reason p = ReasonTrendAbandon then False
          else if Sociability personality < 20 \<and> sp_Reason p = ReasonRandom then False
          else True)"

definition AddSocialEventFiltered ::
  "go_env \<Rightarrow> SyncEvent \<Rightarrow> NaraPersonality \<Rightarrow> SyncLedger \<Rightarrow> add_result" where
  "AddSocialEventFiltered G e personality l =
     (if Service e \<noteq> ServiceSocial \<or> Social e = None then AddEvent G e l
      else if \<not> socialEventIsMeaningful (Social e) personality then Inr (False, l, [])
      else AddEvent G e l)"

definition AddSocialEvent :: "go_env \<Rightarrow> SocialEvent \<Rightarrow> SyncLedger \<Rightarrow> add_result" where
  "AddSocialEvent G se l = go_bind (SyncEventFromSocialEvent G se) (\<lambda>e. AddEvent G e l)"

definition AddSocialEventFilteredLegacy ::
  "go_env \<Rightarrow> SocialEvent \<Rightarrow> NaraPersonality \<Rightarrow> SyncLedger \<Rightarrow> add_result" where
  "AddSocialEventFilteredLegacy G se personality l =
     go_bind (SyncEventFromSocialEvent G se) (\<lambda>e. AddSocialEventFiltered G e personality l)"

fun MergeSocialEventsFiltered ::
  "go_env \<Rightarrow> SocialEvent list \<Rightarrow> NaraPersonality \<Rightarrow> int \<Rightarrow> SyncLedger
   \<Rightarrow> (int \<times> SyncLedger \<times> (nat \<times> SyncEvent) list) go" where
  \<comment> \<open>the integer argument is the counter \<open>added\<close>, 0 at the start\<close>
  "MergeSocialEventsFiltered G [] personality added l = Inr (added, l, [])"
| "MergeSocialEventsFiltered G (se # ses) personality added l =
     go_bind (AddSocialEventFilteredLegacy G se personality l) (\<lambda>(ok, l', calls).
       go_bind (MergeSocialEventsFiltered G ses personality (if ok then added + 1 else added) l')
         (\<lambda>(n, l'', calls'). Inr (n, l'', calls @ calls')))"

definition AddPingObservation ::
  "go_env \<Rightarrow> int \<Rightarrow> NaraName \<Rightarrow> NaraName \<Rightarrow> float64 \<Rightarrow> SyncLedger \<Rightarrow> add_result" where
  "AddPingObservation G now observer target rtt l =
     go_bind (NewPingSyncEvent G now observer target rtt) (\<lambda>e. AddEvent G e l)"

definition AddSignedPingObservation ::
  "go_env \<Rightarrow> int \<Rightarrow> NaraName \<Rightarrow> NaraName \<Rightarrow> float64 \<Rightarrow> NaraName \<Rightarrow> NaraKeypair \<Rightarrow> SyncLedger \<Rightarrow> add_result" where
  "AddSignedPingObservation G now observer target rtt emitter keypair l =
     go_bind (NewSignedPingSyncEvent G now observer target rtt emitter keypair) (\<lambda>e. AddEvent G e l)"

section \<open>Removing\<close>

definition eventInvolvesNara :: "SyncEvent \<Rightarrow> NaraName \<Rightarrow> bool" where
  "eventInvolvesNara e name =
     (if Emitter e = name then True
      else if Service e = ServiceCheckpoint then is_checkpoint_for name e
      else if Service e = ServiceHeyThere
        then (case HeyThere e of None \<Rightarrow> False | Some h \<Rightarrow> ht_From h = name)
      else if Service e = ServiceChau then (case Chau e of None \<Rightarrow> False | Some c \<Rightarrow> ch_From c = name)
      else if Service e = ServiceObservation
        then (case Observation e of None \<Rightarrow> False | Some p \<Rightarrow> ob_Observer p = name \<or> ob_Subject p = name)
      else if Service e = ServiceSocial
        then (case Social e of None \<Rightarrow> False
              | Some p \<Rightarrow> sp_Actor p = name \<or> sp_Target p = name \<or> sp_Witness p = name)
      else if Service e = ServicePing
        then (case Ping e of None \<Rightarrow> False | Some p \<Rightarrow> pi_Observer p = name \<or> pi_Target p = name)
      else if Service e = ServiceSeen
        then (case Seen e of None \<Rightarrow> False | Some s \<Rightarrow> se_Observer s = name \<or> se_Subject s = name)
      else False)"

definition RemoveEventsFor :: "NaraName \<Rightarrow> SyncLedger \<Rightarrow> int \<times> SyncLedger" where
  "RemoveEventsFor name l =
     (let kept = filter (\<lambda>e. \<not> eventInvolvesNara e name) (Events l);
          gone = filter (\<lambda>e. eventInvolvesNara e name) (Events l);
          removed = int (length gone)
      in (removed,
          if removed > 0
          then l\<lparr>Events := kept, eventIDs := eventIDs l - set (map ID gone), version := i64 (version l + 1)\<rparr>
          else l))"

end
