(* ===== verification/Ledger_Invariants.thy ===== *)
theory Ledger_Invariants
  imports Sync_Ledger
begin

text \<open>
  The invariants of the ledger and the operations that keep them. \<open>ledger_wf\<close>: the ID index
  is exactly the IDs of the stored events, no ID is stored twice, every stored event is valid
  (so no method on it panics). \<open>pings_bounded\<close>: at most \<open>MaxPingsPerTarget\<close> pings per target.
  The locale \<open>ledger_adder\<close> is the contract that all the adding operations share; the lemmas
  about batches are proved once in it and it is interpreted for each operation.
\<close>

definition ledger_wf :: "SyncLedger \<Rightarrow> bool" where
  "ledger_wf l \<longleftrightarrow> eventIDs l = ID ` set (Events l) \<and> distinct (map ID (Events l)) \<and>
     (\<forall>e \<in> set (Events l). event_IsValid e = Inr True)"

definition pings_bounded :: "SyncLedger \<Rightarrow> bool" where
  "pings_bounded l \<longleftrightarrow> (\<forall>target. length (filter (is_ping_to target) (Events l)) \<le> MaxPingsPerTarget)"

lemma ledger_wf_new [simp]: "ledger_wf (NewSyncLedger n)"
  by (simp add: ledger_wf_def NewSyncLedger_def)

lemma pings_bounded_new [simp]: "pings_bounded (NewSyncLedger n)"
  by (simp add: pings_bounded_def NewSyncLedger_def)

lemma ledger_wf_has_payload: "ledger_wf l \<Longrightarrow> e \<in> set (Events l) \<Longrightarrow> has_payload e"
  by (simp add: ledger_wf_def event_IsValid_has_payload)

lemma ledger_wf_upd [simp]:
  "ledger_wf (l\<lparr>observationRL := r\<rparr>) = ledger_wf l"
  "ledger_wf (l\<lparr>isUnknownNara := c\<rparr>) = ledger_wf l"
  "ledger_wf (l\<lparr>listeners := ls\<rparr>) = ledger_wf l"
  "ledger_wf (l\<lparr>version := v\<rparr>) = ledger_wf l"
  by (simp_all add: ledger_wf_def)

lemma pings_bounded_upd [simp]:
  "pings_bounded (l\<lparr>observationRL := r\<rparr>) = pings_bounded l"
  "pings_bounded (l\<lparr>isUnknownNara := c\<rparr>) = pings_bounded l"
  "pings_bounded (l\<lparr>listeners := ls\<rparr>) = pings_bounded l"
  "pings_bounded (l\<lparr>version := v\<rparr>) = pings_bounded l"
  by (simp_all add: pings_bounded_def)

section \<open>Dropping events\<close>

text \<open>
  Every operation that drops events leaves a sub-multiset of them and takes exactly the
  dropped IDs out of the index: \<open>shrinks l l'\<close>.
\<close>

definition shrinks :: "SyncLedger \<Rightarrow> SyncLedger \<Rightarrow> bool" where
  "shrinks l l' \<longleftrightarrow> mset (Events l') \<subseteq># mset (Events l) \<and>
     (ledger_wf l \<longrightarrow> eventIDs l' = ID ` set (Events l'))"

lemma shrinks_refl [simp]: "shrinks l l"
  by (simp add: shrinks_def ledger_wf_def)

lemma shrinks_set: "shrinks l l' \<Longrightarrow> set (Events l') \<subseteq> set (Events l)"
  by (metis mset_subset_eqD set_mset_mset shrinks_def subsetI)

lemma shrinks_filter: "shrinks l l' \<Longrightarrow> length (filter P (Events l')) \<le> length (filter P (Events l))"
  unfolding shrinks_def by (metis mset_filter multiset_filter_mono size_mset size_mset_mono)

lemma mset_subset_distinct: "mset xs \<subseteq># mset ys \<Longrightarrow> distinct ys \<Longrightarrow> distinct xs"
proof -
  assume s: "mset xs \<subseteq># mset ys" and d: "distinct ys"
  have "count (mset xs) a = (if a \<in> set xs then 1 else 0)" for a
  proof -
    have "count (mset xs) a \<le> count (mset ys) a"
      using s by (rule mset_subset_eq_count)
    also have "\<dots> \<le> 1" using d by (simp add: distinct_count_atmost_1)
    finally have "count (mset xs) a \<le> 1" .
    moreover have "count (mset xs) a = 0 \<longleftrightarrow> a \<notin> set xs" by (simp add: count_eq_zero_iff)
    ultimately show ?thesis by (cases "a \<in> set xs") (simp_all add: le_Suc_eq)
  qed
  then show "distinct xs" by (simp add: distinct_count_atmost_1)
qed

lemma mset_subset_distinct_map:
  assumes "mset xs \<subseteq># mset ys" and "distinct (map f ys)"
  shows "distinct (map f xs)"
proof (rule mset_subset_distinct)
  show "mset (map f xs) \<subseteq># mset (map f ys)"
    using assms(1) by (simp add: image_mset_subseteq_mono)
qed (rule assms(2))

lemma shrinks_wf [wf_intros]: "shrinks l l' \<Longrightarrow> ledger_wf l \<Longrightarrow> ledger_wf l'"
proof -
  assume s: "shrinks l l'" and w: "ledger_wf l"
  have "distinct (map ID (Events l'))"
    by (rule mset_subset_distinct_map [of _ "Events l"]) (use s w in \<open>simp_all add: shrinks_def ledger_wf_def\<close>)
  moreover have "eventIDs l' = ID ` set (Events l')" using s w by (simp add: shrinks_def)
  moreover have "\<forall>e \<in> set (Events l'). event_IsValid e = Inr True"
    using w shrinks_set [OF s] by (auto simp: ledger_wf_def)
  ultimately show ?thesis by (simp add: ledger_wf_def)
qed

lemma shrinks_pings: "shrinks l l' \<Longrightarrow> pings_bounded l \<Longrightarrow> pings_bounded l'"
  unfolding pings_bounded_def using shrinks_filter le_trans by blast

lemma shrinks_remove_index:
  assumes "i < length (Events l)"
  shows "shrinks l (l\<lparr>Events := remove_index i (Events l), eventIDs := eventIDs l - {ID (Events l ! i)},
                     version := v\<rparr>)"
proof -
  have "mset (remove_index i (Events l)) \<subseteq># mset (Events l)"
    using mset_remove_index [OF assms] by (metis add_mset_remove_trivial diff_subset_eq_self)
  moreover have "eventIDs l - {ID (Events l ! i)} = ID ` set (remove_index i (Events l))"
    if "ledger_wf l"
  proof -
    have "set (map ID (remove_index i (Events l))) = set (map ID (Events l)) - {map ID (Events l) ! i}"
      using that assms unfolding remove_index_map by (intro set_remove_index_distinct) (simp_all add: ledger_wf_def)
    with that assms show ?thesis by (simp add: ledger_wf_def)
  qed
  ultimately show ?thesis by (simp add: shrinks_def)
qed

definition is_restart :: "SyncEvent \<Rightarrow> bool" where
  "is_restart e \<longleftrightarrow> obs_of e (\<lambda>q. ob_Type q = ''restart'')"

text \<open>
  The victim is an event of the pair, the pair is full, and the victim is not a restart or the
  subject has a checkpoint.
\<close>

lemma compaction_victim_SomeD:
  assumes "compaction_victim p evs = Some (i, x)"
  shows "i < length evs" "x = evs ! i" "obs_of x (same_pair p)"
    "MaxObservationsPerPair \<le> length (filter (\<lambda>x. obs_of x (same_pair p)) evs)"
    "\<not> is_restart x \<or> list_ex (is_checkpoint_for (ob_Subject p)) evs"
proof -
  let ?ex = "indexed (\<lambda>x. obs_of x (same_pair p)) evs"
  let ?ts = "\<lambda>(i :: nat, x). Timestamp x"
  let ?P = "\<lambda>(i :: nat, x). obs_of x (\<lambda>q. ob_Type q \<noteq> ''restart'')"
  have full: "MaxObservationsPerPair \<le> length ?ex"
    using assms by (auto simp: compaction_victim_def Let_def split: if_splits)
  have "(i, x) \<in> set ?ex \<and> (\<not> is_restart x \<or> list_ex (is_checkpoint_for (ob_Subject p)) evs)"
  proof (cases "oldest_by ?ts (filter ?P ?ex)")
    case None
    then have "list_ex (is_checkpoint_for (ob_Subject p)) evs" and "oldest_by ?ts ?ex = Some (i, x)"
      using assms full by (simp_all add: compaction_victim_def Let_def del: oldest_by_None split: if_splits)
    then show ?thesis using oldest_by_SomeD [of ?ts ?ex "(i, x)"] by simp
  next
    case (Some r)
    then have "r = (i, x)" using assms full by (simp add: compaction_victim_def Let_def)
    then have "(i, x) \<in> set (filter ?P ?ex)" using oldest_by_SomeD [OF Some] by simp
    then show ?thesis by (auto simp: is_restart_def obs_of_def split: option.splits)
  qed
  then show "i < length evs" "x = evs ! i" "obs_of x (same_pair p)"
    "MaxObservationsPerPair \<le> length (filter (\<lambda>x. obs_of x (same_pair p)) evs)"
    "\<not> is_restart x \<or> list_ex (is_checkpoint_for (ob_Subject p)) evs"
    using full by (auto simp: in_indexed length_indexed)
qed

lemma compact_pair_cases:
  obtains (keep) "compaction_victim p (Events l) = None" "compact_pair p l = l"
  | (drop) i where "compaction_victim p (Events l) = Some (i, Events l ! i)" "i < length (Events l)"
      "compact_pair p l = l\<lparr>Events := remove_index i (Events l),
         eventIDs := eventIDs l - {ID (Events l ! i)}, version := i64 (version l + 1)\<rparr>"
proof (cases "compaction_victim p (Events l)")
  case None
  then show ?thesis using keep by (simp add: compact_pair_def)
next
  case (Some r)
  obtain i x where "r = (i, x)" by fastforce
  with Some compaction_victim_SomeD(1,2) [of p "Events l" i x] show ?thesis
    by (intro drop [of i]) (simp_all add: compact_pair_def)
qed

lemma shrinks_compact_pair: "shrinks l (compact_pair p l)"
  by (cases rule: compact_pair_cases [of p l]) (simp_all add: shrinks_remove_index)

lemma make_room_cases:
  assumes "make_room_for_ping e l = Some l'"
  shows "l' = l \<or> (\<exists>i < length (Events l). is_ping_to (pi_Target (the (Ping e))) (Events l ! i) \<and>
           l' = l\<lparr>Events := remove_index i (Events l), eventIDs := eventIDs l - {ID (Events l ! i)},
                  version := i64 (version l + 1)\<rparr>)"
proof (cases "if Service e = ServicePing then Ping e else None")
  case None
  then show ?thesis using assms by (simp add: make_room_for_ping_def)
next
  case (Some p)
  then have p: "Ping e = Some p" by (simp split: if_splits)
  let ?pings = "indexed (is_ping_to (pi_Target p)) (Events l)"
  let ?o = "oldest_by (\<lambda>(i :: nat, x). Timestamp x) ?pings"
  show ?thesis
  proof (cases "length ?pings \<ge> MaxPingsPerTarget \<and> ?o \<noteq> None")
    case True
    then obtain r where "?o = Some r" by (cases ?o) simp_all
    then obtain i x where o: "?o = Some (i, x)" by (cases r) simp
    then have "(i, x) \<in> set ?pings" using oldest_by_SomeD [OF o] by simp
    then have "i < length (Events l)" "x = Events l ! i" "is_ping_to (pi_Target p) (Events l ! i)"
      by (auto simp: in_indexed)
    then show ?thesis
      using assms True Some o p by (auto simp: make_room_for_ping_def Let_def split: if_splits)
  next
    case False
    then show ?thesis using assms Some by (auto simp: make_room_for_ping_def Let_def split: if_splits)
  qed
qed

lemma shrinks_make_room: "make_room_for_ping e l = Some l' \<Longrightarrow> shrinks l l'"
  using make_room_cases shrinks_remove_index by fastforce

lemma count_removable_le: "count_removable n evs \<le> n" "count_removable n evs \<le> length evs"
  by (induction n evs rule: count_removable.induct) auto

text \<open>What pruning does, once and for all: sort, split, keep the tail, sort again.\<close>

lemma pruneUnlocked_cases:
  assumes "sort_algorithm (sort_perm G)"
  obtains (under) "int (length (Events l)) \<le> MaxEvents l" "pruneUnlocked G l = l"
  | (over) removed kept where "int (length (Events l)) > MaxEvents l"
      "mset (removed @ kept) = mset (Events l)"
      "removed @ kept = sort_slice (sort_perm G) (prune_less l) (Events l)"
      "length removed = count_removable (nat (int (length (Events l)) - MaxEvents l)) (removed @ kept)"
      "mset (Events (pruneUnlocked G l)) = mset kept"
      "eventIDs (pruneUnlocked G l) = eventIDs l - ID ` set removed"
      "version (pruneUnlocked G l) = (if removed = [] then version l else i64 (version l + 1))"
proof (cases "int (length (Events l)) \<le> MaxEvents l")
  case True
  then show ?thesis using under by (simp add: pruneUnlocked_def)
next
  case False
  let ?s = "sort_slice (sort_perm G) (prune_less l) (Events l)"
  let ?n = "count_removable (nat (int (length (Events l)) - MaxEvents l)) ?s"
  have ms: "mset (sort_slice (sort_perm G) lt xs) = mset xs" for lt and xs :: "SyncEvent list"
    by (rule sort_algorithm.mset_sort_slice [OF assms])
  have len: "length ?s = length (Events l)" using ms by (rule mset_eq_length)
  have n: "?n \<le> length ?s" by (rule count_removable_le)
  show ?thesis
  proof (rule over [of "take ?n ?s" "drop ?n ?s"])
    show "length (take ?n ?s) = count_removable (nat (int (length (Events l)) - MaxEvents l)) (take ?n ?s @ drop ?n ?s)"
      using n by simp
    show "mset (Events (pruneUnlocked G l)) = mset (drop ?n ?s)"
      using False ms len by (simp add: pruneUnlocked_def Let_def)
    show "eventIDs (pruneUnlocked G l) = eventIDs l - ID ` set (take ?n ?s)"
      using False len by (simp add: pruneUnlocked_def Let_def)
    show "version (pruneUnlocked G l) = (if take ?n ?s = [] then version l else i64 (version l + 1))"
      using False len n by (auto simp: pruneUnlocked_def Let_def)
  qed (use False ms in simp_all)
qed

lemma pruneUnlocked_frame [simp]:
  "MaxEvents (pruneUnlocked G l) = MaxEvents l" "isUnknownNara (pruneUnlocked G l) = isUnknownNara l"
  "listeners (pruneUnlocked G l) = listeners l" "observationRL (pruneUnlocked G l) = observationRL l"
  by (simp_all add: pruneUnlocked_def Let_def)

lemma shrinks_pruneUnlocked:
  assumes "sort_algorithm (sort_perm G)"
  shows "shrinks l (pruneUnlocked G l)"
proof (cases rule: pruneUnlocked_cases [OF assms, of l])
  case 1
  then show ?thesis by simp
next
  case (2 removed kept)
  have "mset kept \<subseteq># mset (Events l)"
    using 2(2) by (metis mset_append mset_subset_eq_add_right)
  moreover have "eventIDs l - ID ` set removed = ID ` set kept" if "ledger_wf l"
  proof -
    have "distinct (map ID (removed @ kept))"
      by (rule mset_subset_distinct_map [of _ "Events l"])
        (use that 2(2) in \<open>simp_all add: ledger_wf_def\<close>)
    moreover have "eventIDs l = ID ` set (removed @ kept)"
      using that mset_eq_setD [OF 2(2)] by (simp add: ledger_wf_def)
    ultimately show ?thesis by auto
  qed
  moreover have "set (Events (pruneUnlocked G l)) = set kept"
    using 2(5) by (rule mset_eq_setD)
  ultimately show ?thesis using 2(5,6) by (simp add: shrinks_def)
qed

lemma shrinks_prune_if_over: "sort_algorithm (sort_perm G) \<Longrightarrow> shrinks l (prune_if_over G l)"
  by (simp add: prune_if_over_def shrinks_pruneUnlocked)

lemma shrinks_RemoveEventsFor: "RemoveEventsFor name l = (n, l') \<Longrightarrow> shrinks l l'"
proof -
  assume r: "RemoveEventsFor name l = (n, l')"
  let ?P = "\<lambda>e. eventInvolvesNara e name"
  have "ID ` set (Events l) - ID ` set (filter ?P (Events l)) = ID ` set (filter (\<lambda>e. \<not> ?P e) (Events l))"
    if "ledger_wf l"
  proof -
    have "inj_on ID (set (Events l))" using that by (simp add: ledger_wf_def distinct_map)
    then show ?thesis by (auto dest: inj_onD)
  qed
  moreover have "mset (filter Q (Events l)) \<subseteq># mset (Events l)" for Q
    by (simp add: mset_filter)
  ultimately show "shrinks l l'"
    using r by (auto simp: RemoveEventsFor_def Let_def shrinks_def ledger_wf_def split: if_splits)
qed

end
