(* ===== verification/Ledger_Queries.thy ===== *)
theory Ledger_Queries
  imports Ledger_Invariants
begin

text \<open>
  The read side of the ledger: lookups, counts, the event selections of the sync protocol
  (\<open>GetEventsForSync\<close>, \<open>GetEventsPage\<close>, \<open>GetRecentEvents\<close>, \<open>SampleEvents\<close>), the request
  handler that routes between them, the signed response, and the client loop that walks the
  pages. A selection that reads the actor or the target of an event with a nil payload panics.
\<close>

section \<open>Scanning for the latest element\<close>

text \<open>The loop \<open>if ts > latestTs { latestTs = ts; latest = e }\<close> that starts at zero.\<close>

definition latest_step :: "('a \<Rightarrow> int) \<Rightarrow> 'a option \<times> int \<Rightarrow> 'a \<Rightarrow> 'a option \<times> int" where
  "latest_step key s x = (if key x > snd s then (Some x, key x) else s)"

definition latest_by :: "('a \<Rightarrow> int) \<Rightarrow> 'a list \<Rightarrow> 'a option" where
  "latest_by key xs = fst (foldl (latest_step key) (None, 0) xs)"

lemma latest_by_fold:
  "case foldl (latest_step key) (b, t) xs of (b', t') \<Rightarrow>
     t \<le> t' \<and> (\<forall>x \<in> set xs. key x \<le> t') \<and>
     (b' = b \<and> t' = t \<or> (\<exists>x \<in> set xs. b' = Some x \<and> key x = t' \<and> t < t'))"
proof (induction xs arbitrary: b t)
  case (Cons x xs)
  show ?case
  proof (cases "key x > t")
    case True
    then show ?thesis using Cons.IH [where b = "Some x" and t = "key x"] by (auto simp: latest_step_def split: prod.splits)
  next
    case False
    then show ?thesis using Cons.IH [where b = b and t = t] by (auto simp: latest_step_def split: prod.splits)
  qed
qed simp

lemma latest_by_SomeD:
  assumes "latest_by key xs = Some b"
  shows "b \<in> set xs" "0 < key b" "\<forall>x \<in> set xs. key x \<le> key b"
  using latest_by_fold [where key = key and b = None and t = 0 and xs = xs] assms by (auto simp: latest_by_def split: prod.splits)

lemma latest_by_None: "latest_by key xs = None \<longleftrightarrow> (\<forall>x \<in> set xs. key x \<le> 0)"
  using latest_by_fold [where key = key and b = None and t = 0 and xs = xs] by (auto simp: latest_by_def split: prod.splits)

section \<open>Lookups and counts\<close>

definition HasEvent :: "SyncLedger \<Rightarrow> string \<Rightarrow> bool" where
  "HasEvent l i \<longleftrightarrow> i \<in> eventIDs l"

definition EventCount :: "SyncLedger \<Rightarrow> int" where
  "EventCount l = int (length (Events l))"

definition GetEventsByService :: "SyncLedger \<Rightarrow> string \<Rightarrow> SyncEvent list" where
  "GetEventsByService l service = filter (\<lambda>e. Service e = service) (Events l)"

definition ping_of :: "SyncEvent \<Rightarrow> PingObservation option" where
  "ping_of e = (if Service e = ServicePing then Ping e else None)"

definition GetPingObservations :: "SyncLedger \<Rightarrow> PingObservation list" where
  "GetPingObservations l = List.map_filter ping_of (Events l)"

definition GetEventsInvolving :: "SyncLedger \<Rightarrow> NaraName \<Rightarrow> SyncEvent list go" where
  "GetEventsInvolving l name =
     go_filter (\<lambda>e. go_bind (GetActor e) (\<lambda>a. if a = name then Inr True
                      else go_bind (GetTarget e) (\<lambda>t. Inr (t = name)))) (Events l)"

definition GetAllEvents :: "SyncLedger \<Rightarrow> SyncEvent list" where
  "GetAllEvents l = Events l"

definition GetEventsSince :: "SyncLedger \<Rightarrow> int \<Rightarrow> (SyncEvent list \<times> int \<times> int) go" where
  "GetEventsSince l position =
     (let total = int (length (Events l))
      in if position \<ge> total then Inr ([], total, version l)
         else if position < 0 then Inl IndexOutOfRange
         else Inr (drop (nat position) (Events l), total, version l))"

definition GetVersion :: "SyncLedger \<Rightarrow> int" where
  "GetVersion l = version l"

definition GetObservationEventsAbout :: "SyncLedger \<Rightarrow> NaraName \<Rightarrow> SyncEvent list" where
  "GetObservationEventsAbout l subject = filter (\<lambda>e. obs_of e (\<lambda>q. ob_Subject q = subject)) (Events l)"

definition GetBackfillEvent :: "SyncLedger \<Rightarrow> NaraName \<Rightarrow> ObservationEventPayload option" where
  "GetBackfillEvent l subject =
     (case find (\<lambda>e. obs_of e (\<lambda>q. ob_Subject q = subject \<and> ob_IsBackfill q)) (Events l) of
        None \<Rightarrow> None | Some e \<Rightarrow> Observation e)"

definition checkpoint_time :: "SyncEvent \<Rightarrow> int" where
  "checkpoint_time e = (case Checkpoint e of None \<Rightarrow> 0 | Some c \<Rightarrow> cp_AsOfTime c)"

definition GetLatestCheckpointID :: "SyncLedger \<Rightarrow> NaraName \<Rightarrow> string" where
  "GetLatestCheckpointID l subject =
     (case latest_by checkpoint_time (filter (is_checkpoint_for subject) (Events l)) of
        None \<Rightarrow> [] | Some e \<Rightarrow> ID e)"

definition GetEventHashes :: "SyncLedger \<Rightarrow> string list" where
  "GetEventHashes l = map ID (Events l)"

definition GetLatestPingTo :: "SyncLedger \<Rightarrow> NaraName \<Rightarrow> PingObservation option" where
  "GetLatestPingTo l target =
     (case latest_by Timestamp (filter (is_ping_to target) (Events l)) of
        None \<Rightarrow> None | Some e \<Rightarrow> Ping e)"

definition GetPingsBetween :: "SyncLedger \<Rightarrow> NaraName \<Rightarrow> NaraName \<Rightarrow> PingObservation list" where
  "GetPingsBetween l a b =
     filter (\<lambda>p. (pi_Observer p = a \<and> pi_Target p = b) \<or> (pi_Observer p = b \<and> pi_Target p = a))
       (GetPingObservations l)"

definition social_of :: "SyncEvent \<Rightarrow> (SocialEventPayload \<Rightarrow> bool) \<Rightarrow> bool" where
  "social_of e P \<longleftrightarrow> Service e = ServiceSocial \<and> (case Social e of None \<Rightarrow> False | Some p \<Rightarrow> P p)"

text \<open>\<open>counts[key]++\<close> on a Go map: a missing key counts as zero.\<close>

definition count_key :: "('a \<rightharpoonup> int) \<Rightarrow> 'a \<Rightarrow> ('a \<rightharpoonup> int)" where
  "count_key m k = m(k \<mapsto> (case m k of None \<Rightarrow> 0 | Some n \<Rightarrow> n) + 1)"

definition count_keys :: "'a list \<Rightarrow> ('a \<rightharpoonup> int)" where
  "count_keys ks = foldl count_key Map.empty ks"

definition tease_payloads :: "SyncLedger \<Rightarrow> SocialEventPayload list" where
  "tease_payloads l = List.map_filter Social (filter (\<lambda>e. social_of e (\<lambda>p. sp_Type p = ''tease'')) (Events l))"

definition GetTeaseCounts :: "SyncLedger \<Rightarrow> (NaraName \<rightharpoonup> int)" where
  "GetTeaseCounts l = count_keys (map sp_Actor (tease_payloads l))"

definition GetTeaseCountsReceived :: "SyncLedger \<Rightarrow> (NaraName \<rightharpoonup> int)" where
  "GetTeaseCountsReceived l = count_keys (map sp_Target (tease_payloads l))"

definition GetEventCountsByService :: "SyncLedger \<Rightarrow> (string \<rightharpoonup> int)" where
  "GetEventCountsByService l = count_keys (map Service (Events l))"

definition GetCriticalEventCount :: "SyncLedger \<Rightarrow> int" where
  "GetCriticalEventCount l = int (length (filter (\<lambda>e. eventPruningPriority e = 0) (Events l)))"

definition newer :: "SyncEvent \<Rightarrow> SyncEvent \<Rightarrow> bool" where
  "newer x y \<longleftrightarrow> Timestamp x > Timestamp y"

definition GetRecentSocialEvents :: "go_env \<Rightarrow> SyncLedger \<Rightarrow> int \<Rightarrow> SyncEvent list go" where
  "GetRecentSocialEvents G l n =
     (let social = sort_slice (sort_perm G) newer (filter (\<lambda>e. Service e = ServiceSocial) (Events l));
          n' = (if n > int (length social) then int (length social) else n)
      in if n' < 0 then Inl IndexOutOfRange else Inr (take (nat n') social))"

definition GetSocialEventsAbout :: "SyncLedger \<Rightarrow> NaraName \<Rightarrow> SyncEvent list" where
  "GetSocialEventsAbout l name = filter (\<lambda>e. social_of e (\<lambda>p. sp_Target p = name)) (Events l)"

definition GetSocialEventsForSubjects :: "SyncLedger \<Rightarrow> NaraName list \<Rightarrow> SocialEvent list" where
  "GetSocialEventsForSubjects l subjects =
     List.map_filter ToSocialEvent
       (filter (\<lambda>e. social_of e (\<lambda>p. sp_Actor p \<in> set subjects \<or> sp_Target p \<in> set subjects)) (Events l))"

section \<open>Selections of the sync protocol\<close>

text \<open>The service and subject filters, empty lists meaning no filter.\<close>

definition wanted :: "string list \<Rightarrow> NaraName list \<Rightarrow> SyncEvent \<Rightarrow> bool go" where
  "wanted services subjects e =
     (if services \<noteq> [] \<and> Service e \<notin> set services then Inr False
      else if subjects = [] then Inr True
      else go_bind (GetActor e) (\<lambda>a. if a \<in> set subjects then Inr True
             else go_bind (GetTarget e) (\<lambda>t. Inr (t \<in> set subjects))))"

definition take_slice :: "int \<Rightarrow> int \<Rightarrow> 'a list \<Rightarrow> 'a list" where
  "take_slice sliceIndex sliceTotal xs =
     (if sliceTotal > 1 \<and> sliceIndex \<ge> 0 \<and> sliceIndex < sliceTotal
      then map snd (filter (\<lambda>(i, e). int i mod sliceTotal = sliceIndex) (enumerate 0 xs)) else xs)"

definition GetEventsForSync ::
  "go_env \<Rightarrow> SyncLedger \<Rightarrow> string list \<Rightarrow> NaraName list \<Rightarrow> int \<Rightarrow> int \<Rightarrow> int \<Rightarrow> int \<Rightarrow> SyncEvent list go" where
  "GetEventsForSync G l services subjects sinceTime sliceIndex sliceTotal maxEvents =
     go_bind (go_filter (\<lambda>e. if sinceTime > 0 \<and> Timestamp e \<le> sinceTime then Inr False
                             else wanted services subjects e) (Events l))
       (\<lambda>filtered.
          let sliced = take_slice sliceIndex sliceTotal (sort_slice (sort_perm G) older filtered)
          in Inr (if maxEvents > 0 \<and> int (length sliced) > maxEvents
                  then drop (nat (int (length sliced) - maxEvents)) sliced else sliced))"

definition cursor_time :: "string \<Rightarrow> int" where
  "cursor_time cursor =
     (if cursor \<noteq> [] then (case ParseInt cursor of Some t \<Rightarrow> t | None \<Rightarrow> 0) else 0)"

definition GetEventsPage ::
  "go_env \<Rightarrow> SyncLedger \<Rightarrow> string \<Rightarrow> int \<Rightarrow> string list \<Rightarrow> NaraName list \<Rightarrow> (SyncEvent list \<times> string) go" where
  "GetEventsPage G l cursor pageSize services subjects =
     go_bind (go_filter (\<lambda>e. if Timestamp e \<le> cursor_time cursor then Inr False
                             else wanted services subjects e) (Events l))
       (\<lambda>filtered.
          let sorted = sort_slice (sort_perm G) older filtered;
              hasMore = (pageSize > 0 \<and> int (length sorted) > pageSize);
              page = (if hasMore then take (nat pageSize) sorted else sorted);
              nextCursor = (if hasMore \<or> (pageSize > 0 \<and> int (length page) = pageSize)
                            then fmt_int (Timestamp (last page)) else [])
          in Inr (page, nextCursor))"

definition GetRecentEvents ::
  "go_env \<Rightarrow> SyncLedger \<Rightarrow> int \<Rightarrow> string list \<Rightarrow> NaraName list \<Rightarrow> SyncEvent list go" where
  "GetRecentEvents G l limit services subjects =
     go_bind (go_filter (wanted services subjects) (Events l))
       (\<lambda>filtered.
          let sorted = sort_slice (sort_perm G) newer filtered
          in Inr (if limit > 0 \<and> int (length sorted) > limit then take (nat limit) sorted else sorted))"

section \<open>Sampling\<close>

text \<open>
  \<open>weightedRandomSample\<close> ranks the candidates by a random key \<open>random^(1/weight)\<close>. The weight
  and the random number are floating point; here the key of candidate number \<open>i\<close> is the
  parameter \<open>key i\<close>, an integer of the same order.
\<close>

definition isCriticalEvent :: "SyncEvent \<Rightarrow> bool" where
  "isCriticalEvent e \<longleftrightarrow>
     Service e \<in> {ServiceCheckpoint, ServiceHeyThere, ServiceChau} \<or>
     obs_of e (\<lambda>q. ob_Importance q = ImportanceCritical)"

definition weightedRandomSample :: "go_env \<Rightarrow> (nat \<Rightarrow> int) \<Rightarrow> SyncEvent list \<Rightarrow> int \<Rightarrow> SyncEvent list" where
  "weightedRandomSample G key candidates n =
     (if n \<le> 0 \<or> candidates = [] then []
      else if n \<ge> int (length candidates) then candidates
      else take (nat n) (map snd (sort_slice (sort_perm G) (\<lambda>(k, _) (k', _). k > k')
             (map (\<lambda>(i, e). (key i, e)) (enumerate 0 candidates)))))"

definition SampleEvents ::
  "go_env \<Rightarrow> (nat \<Rightarrow> int) \<Rightarrow> SyncLedger \<Rightarrow> int \<Rightarrow> string list \<Rightarrow> NaraName list \<Rightarrow> SyncEvent list go" where
  "SampleEvents G key l sampleSize services subjects =
     (if sampleSize \<le> 0 then Inr []
      else go_bind (go_filter (wanted services subjects) (Events l)) (\<lambda>matching.
        let critical = filter isCriticalEvent matching;
            candidates = filter (\<lambda>e. \<not> isCriticalEvent e) matching
        in if int (length critical) \<ge> sampleSize
           then Inr (take (nat sampleSize) (sort_slice (sort_perm G) older critical))
           else Inr (sort_slice (sort_perm G) older
                  (critical @ weightedRandomSample G key candidates (sampleSize - int (length critical))))))"

section \<open>Requests and responses\<close>

record SyncRequest =
  rq_From :: NaraName
  rq_Services :: "string list"
  rq_Subjects :: "NaraName list"
  rq_Mode :: string
  rq_SampleSize :: int
  rq_Cursor :: string
  rq_PageSize :: int
  rq_Limit :: int
  rq_SinceTime :: int
  rq_SliceIndex :: int
  rq_SliceTotal :: int
  rq_MaxEvents :: int

record SyncResponse =
  rs_From :: NaraName
  rs_Events :: "SyncEvent list"
  rs_NextCursor :: string
  rs_Timestamp :: int
  rs_Signature :: string

definition response_signingData :: "go_env \<Rightarrow> SyncResponse \<Rightarrow> string" where
  "response_signingData G r =
     sha256 G (rs_From r @ '':'' @ fmt_int (rs_Timestamp r) @ '':'' @ concat (map ID (rs_Events r)))"

definition response_sign :: "go_env \<Rightarrow> NaraKeypair \<Rightarrow> SyncResponse \<Rightarrow> SyncResponse" where
  "response_sign G keypair r =
     (if length (PrivateKey keypair) = 0 then r
      else r\<lparr>rs_Signature := SignBase64 G keypair (response_signingData G r)\<rparr>)"

definition NewSignedSyncResponse ::
  "go_env \<Rightarrow> int \<Rightarrow> NaraName \<Rightarrow> SyncEvent list \<Rightarrow> NaraKeypair \<Rightarrow> SyncResponse" where
  "NewSignedSyncResponse G nowSec frm events keypair =
     response_sign G keypair \<lparr>rs_From = frm, rs_Events = events, rs_NextCursor = [],
       rs_Timestamp = nowSec, rs_Signature = []\<rparr>"

definition response_VerifySignature :: "go_env \<Rightarrow> SyncResponse \<Rightarrow> string \<Rightarrow> bool" where
  "response_VerifySignature G r publicKey =
     (if rs_Signature r = [] then False
      else case base64_Decode G (rs_Signature r) of
             None \<Rightarrow> False
           | Some sigBytes \<Rightarrow> VerifySignature G publicKey (response_signingData G r) sigBytes)"

text \<open>
  The routing of \<open>httpEventsSyncHandler\<close> once the request is decoded. \<open>None\<close> is the 400
  answer to an empty \<open>From\<close>.
\<close>

definition clamp :: "int \<Rightarrow> int \<Rightarrow> int \<Rightarrow> int" where
  "clamp n most dflt = (if n \<le> 0 \<or> n > most then dflt else n)"

definition select_for_request ::
  "go_env \<Rightarrow> (nat \<Rightarrow> int) \<Rightarrow> SyncLedger option \<Rightarrow> SyncRequest \<Rightarrow> (SyncEvent list \<times> string) go" where
  "select_for_request G key ledger req =
     (case ledger of
        None \<Rightarrow> Inr ([], [])
      | Some l \<Rightarrow>
          if rq_Mode req = ''sample''
          then go_bind (SampleEvents G key l (clamp (rq_SampleSize req) 5000 5000) (rq_Services req) (rq_Subjects req))
                 (\<lambda>evs. Inr (evs, []))
          else if rq_Mode req = ''page''
          then GetEventsPage G l (rq_Cursor req) (clamp (rq_PageSize req) 5000 5000) (rq_Services req) (rq_Subjects req)
          else if rq_Mode req = ''recent''
          then go_bind (GetRecentEvents G l (clamp (rq_Limit req) 5000 100) (rq_Services req) (rq_Subjects req))
                 (\<lambda>evs. Inr (evs, []))
          else let sliceTotal = (if rq_SliceTotal req < 1 then 1 else rq_SliceTotal req);
                   sliceIndex = (if rq_SliceIndex req < 0 \<or> rq_SliceIndex req \<ge> sliceTotal then 0
                                 else rq_SliceIndex req)
               in go_bind (GetEventsForSync G l (rq_Services req) (rq_Subjects req) (rq_SinceTime req)
                             sliceIndex sliceTotal (clamp (rq_MaxEvents req) 5000 5000))
                    (\<lambda>evs. Inr (evs, [])))"

definition httpEventsSyncHandler ::
  "go_env \<Rightarrow> (nat \<Rightarrow> int) \<Rightarrow> int \<Rightarrow> NaraName \<Rightarrow> NaraKeypair \<Rightarrow> SyncLedger option \<Rightarrow> SyncRequest
   \<Rightarrow> SyncResponse option go" where
  "httpEventsSyncHandler G key nowSec me keypair ledger req =
     (if rq_From req = [] then Inr None
      else go_bind (select_for_request G key ledger req) (\<lambda>(events, nextCursor).
        Inr (Some ((NewSignedSyncResponse G nowSec me events keypair)\<lparr>rs_NextCursor := nextCursor\<rparr>))))"

text \<open>
  The client loop of \<open>fetchCheckpointsViaUnifiedAPI\<close> and of \<open>BackupMesh.FetchEvents\<close>: ask for
  the page after the cursor until the answer has none. \<open>fetch\<close> is one HTTP exchange, \<open>None\<close>
  an error, which ends the loop without a result. The loop is not bounded by the code: fuel.
\<close>

datatype 'a fetch_result = Fetched 'a | FetchFailed | OutOfFuel

fun fetch_pages ::
  "nat \<Rightarrow> (string \<Rightarrow> (SyncEvent list \<times> string) option) \<Rightarrow> string \<Rightarrow> SyncEvent list \<Rightarrow> SyncEvent list fetch_result" where
  "fetch_pages 0 fetch cursor allEvents = OutOfFuel"
| "fetch_pages (Suc n) fetch cursor allEvents =
     (case fetch cursor of
        None \<Rightarrow> FetchFailed
      | Some (events, nextCursor) \<Rightarrow>
          if nextCursor = [] then Fetched (allEvents @ events)
          else fetch_pages n fetch nextCursor (allEvents @ events))"

section \<open>Lemmas\<close>

definition matching :: "string list \<Rightarrow> NaraName list \<Rightarrow> SyncEvent list \<Rightarrow> SyncEvent list" where
  "matching services subjects evs = filter (\<lambda>e. wanted services subjects e = Inr True) evs"

lemma wanted_total: "has_payload e \<Longrightarrow> \<exists>b. wanted services subjects e = Inr b"
proof -
  assume h: "has_payload e"
  obtain a t where a: "GetActor e = Inr a" and t: "GetTarget e = Inr t"
    using GetActor_total [OF h] GetTarget_total [OF h] by blast
  show "\<exists>b. wanted services subjects e = Inr b"
    unfolding wanted_def a t go_bind_Inr by metis
qed

lemma go_filter_wanted:
  assumes "\<forall>e \<in> set evs. has_payload e"
  shows "go_filter (wanted services subjects) evs = Inr (matching services subjects evs)"
    "go_filter (\<lambda>e. if P e then Inr False else wanted services subjects e) evs =
       Inr (filter (\<lambda>e. \<not> P e) (matching services subjects evs))"
proof -
  have w: "wanted services subjects e = Inr (wanted services subjects e = Inr True)" if "e \<in> set evs" for e
    using wanted_total [of e services subjects] assms that by fastforce
  show "go_filter (wanted services subjects) evs = Inr (matching services subjects evs)"
    unfolding matching_def by (rule go_filter_eq) (rule w)
  have "go_filter (\<lambda>e. if P e then Inr False else wanted services subjects e) evs =
      Inr (filter (\<lambda>e. \<not> P e \<and> wanted services subjects e = Inr True) evs)"
    by (rule go_filter_eq) (use w in simp)
  then show "go_filter (\<lambda>e. if P e then Inr False else wanted services subjects e) evs =
       Inr (filter (\<lambda>e. \<not> P e) (matching services subjects evs))"
    by (simp add: matching_def conj_commute)
qed

lemma filter_after_page:
  fixes f :: "'a \<Rightarrow> 'b :: linorder"
  assumes "sorted_wrt (<) (map f R)" and "0 < p" and "p \<le> length R"
  shows "filter (\<lambda>e. f (last (take p R)) < f e) R = drop p R"
proof -
  have t: "take p R \<noteq> []" using assms(2,3) by auto
  have s: "sorted_wrt (<) (map f (take p R) @ map f (drop p R))"
    using assms(1) by (simp flip: map_append)
  have "\<not> f (last (take p R)) < f x" if "x \<in> set (take p R)" for x
  proof -
    have split: "take p R = butlast (take p R) @ [last (take p R)]" using t by simp
    have "sorted_wrt (<) (map f (take p R))" using s by (simp add: sorted_wrt_append)
    then have "sorted_wrt (<) (map f (butlast (take p R) @ [last (take p R)]))" using t by simp
    then have "\<forall>y \<in> set (butlast (take p R)). f y < f (last (take p R))"
      unfolding map_append sorted_wrt_append by simp
    moreover have "x \<in> set (butlast (take p R) @ [last (take p R)])" using that split by metis
    then have "x \<in> set (butlast (take p R)) \<or> x = last (take p R)"
      by (simp only: set_append list.set Un_iff insert_iff empty_iff simp_thms)
    ultimately show ?thesis by auto
  qed
  then have 1: "filter (\<lambda>e. f (last (take p R)) < f e) (take p R) = []" by (simp add: filter_empty_conv)
  have "f (last (take p R)) < f y" if "y \<in> set (drop p R)" for y
    using s t that unfolding sorted_wrt_append by (metis imageI last_in_set set_map)
  then have 2: "filter (\<lambda>e. f (last (take p R)) < f e) (drop p R) = drop p R" by (simp add: filter_id_conv)
  have "filter (\<lambda>e. f (last (take p R)) < f e) (take p R @ drop p R) = drop p R"
    by (simp only: filter_append 1 2 append_Nil)
  then show ?thesis by simp
qed

text \<open>What a page holds when timestamps are distinct.\<close>

lemma fmt_int_nonempty [simp]: "fmt_int x \<noteq> []"
  by (simp add: fmt_int_def)

lemma cursor_time_fmt [simp]: "in_i64 t \<Longrightarrow> cursor_time (fmt_int t) = t"
  by (simp add: cursor_time_def ParseInt_fmt_int)

lemma GetEventsPage_eq:
  assumes srt: "sort_algorithm (sort_perm G)" and "\<forall>e \<in> set (Events l). has_payload e"
    and d: "distinct (map Timestamp (matching services subjects (Events l)))" and "0 < p"
    and "S = sort_key Timestamp (matching services subjects (Events l))"
    and "R = filter (\<lambda>e. cursor_time cursor < Timestamp e) S"
  shows "GetEventsPage G l cursor (int p) services subjects =
           Inr (take p R, if p \<le> length R then fmt_int (Timestamp (last (take p R))) else [])"
proof -
  let ?M = "filter (\<lambda>e. \<not> Timestamp e \<le> cursor_time cursor) (matching services subjects (Events l))"
  have "inj_on Timestamp (set ?M)"
    using d by (auto simp: distinct_map inj_on_def)
  then have "sort_slice (sort_perm G) older ?M = sort_key Timestamp ?M"
    unfolding older_def [abs_def] by (rule sort_algorithm.sort_slice_key_eq [OF srt])
  also have "\<dots> = R" using assms(5,6) by (simp add: filter_sort not_le)
  finally have s: "sort_slice (sort_perm G) older ?M = R" .
  show ?thesis
    unfolding GetEventsPage_def go_filter_wanted(2) [OF assms(2)] go_bind_Inr s Let_def
    using assms(4) by auto
qed

definition page_source ::
  "go_env \<Rightarrow> SyncLedger \<Rightarrow> int \<Rightarrow> string list \<Rightarrow> NaraName list \<Rightarrow> string \<Rightarrow> (SyncEvent list \<times> string) option" where
  \<comment> \<open>a responder that answers page requests from an unchanging ledger; a panic is a failed request\<close>
  "page_source G l pageSize services subjects cursor =
     (case GetEventsPage G l cursor pageSize services subjects of Inl _ \<Rightarrow> None | Inr r \<Rightarrow> Some r)"

lemma fetch_pages_complete:
  assumes srt: "sort_algorithm (sort_perm G)" and h: "\<forall>e \<in> set (Events l). has_payload e"
    and d: "distinct (map Timestamp (matching services subjects (Events l)))"
    and i: "\<forall>e \<in> set (Events l). in_i64 (Timestamp e)" and p: "0 < p"
    and S: "S = sort_key Timestamp (matching services subjects (Events l))"
  shows "length (filter (\<lambda>e. cursor_time cursor < Timestamp e) S) < n \<Longrightarrow>
         fetch_pages n (page_source G l (int p) services subjects) cursor acc =
           Fetched (acc @ filter (\<lambda>e. cursor_time cursor < Timestamp e) S)"
proof (induction n arbitrary: cursor acc)
  case (Suc n)
  let ?R = "filter (\<lambda>e. cursor_time cursor < Timestamp e) S"
  have page: "page_source G l (int p) services subjects cursor =
      Some (take p ?R, if p \<le> length ?R then fmt_int (Timestamp (last (take p ?R))) else [])"
    unfolding page_source_def GetEventsPage_eq [OF srt h d p S refl] by simp
  show ?case
  proof (cases "p \<le> length ?R")
    case False
    then show ?thesis using page by simp
  next
    case True
    let ?t = "Timestamp (last (take p ?R))"
    have ne: "take p ?R \<noteq> []" using True p by auto
    then have "last (take p ?R) \<in> set ?R" by (meson in_set_takeD last_in_set)
    then have t: "last (take p ?R) \<in> set (Events l)" "cursor_time cursor < ?t"
      using S by (auto simp: matching_def)
    then have ct: "cursor_time (fmt_int ?t) = ?t" using i by simp
    have "sorted (map Timestamp S) \<and> distinct (map Timestamp S)"
      using d S by (simp add: distinct_map)
    then have "sorted_wrt (<) (map Timestamp S)" using strict_sorted_iff by blast
    then have so: "sorted_wrt (<) (map Timestamp ?R)" by (simp add: sorted_wrt_map sorted_wrt_filter)
    have "filter (\<lambda>e. ?t < Timestamp e) S = filter (\<lambda>e. ?t < Timestamp e) ?R"
      unfolding filter_filter using t(2) by (intro filter_cong) auto
    also have "\<dots> = drop p ?R" using so p True by (rule filter_after_page)
    finally have rest: "filter (\<lambda>e. cursor_time (fmt_int ?t) < Timestamp e) S = drop p ?R" unfolding ct .
    have fuel: "length (drop p ?R) < n" using Suc.prems True p by simp
    have "fetch_pages (Suc n) (page_source G l (int p) services subjects) cursor acc =
        fetch_pages n (page_source G l (int p) services subjects) (fmt_int ?t) (acc @ take p ?R)"
      using page True by simp
    also have "\<dots> = Fetched ((acc @ take p ?R) @ drop p ?R)"
      using Suc.IH [of "fmt_int ?t" "acc @ take p ?R"] fuel unfolding rest by blast
    finally show ?thesis by simp
  qed
qed simp

text \<open>Slicing.\<close>

lemma sum_slices:
  assumes "1 < n"
  shows "(\<Sum>j \<in> {0..<n}. mset (take_slice j n xs)) = mset xs"
proof -
  let ?f = "\<lambda>k j xs. mset (map snd (filter (\<lambda>(i :: nat, e). int i mod n = j) (enumerate k xs)))"
  have "(\<Sum>j \<in> {0..<n}. ?f k j xs) = mset xs" for k
  proof (induction xs arbitrary: k)
    case (Cons x xs)
    have "?f k j (x # xs) = (if int k mod n = j then {#x#} else {#}) + ?f (Suc k) j xs" for j by simp
    then have "(\<Sum>j \<in> {0..<n}. ?f k j (x # xs)) =
        (\<Sum>j \<in> {0..<n}. if int k mod n = j then {#x#} else {#}) + (\<Sum>j \<in> {0..<n}. ?f (Suc k) j xs)"
      by (simp only: sum.distrib)
    also have "(\<Sum>j \<in> {0..<n}. if int k mod n = j then {#x#} else {#}) = {#x#}"
      using assms by (simp add: sum.delta)
    finally show ?case using Cons.IH by simp
  qed simp
  moreover have "mset (take_slice j n xs) = ?f 0 j xs" if "j \<in> {0..<n}" for j
    using that assms by (simp add: take_slice_def)
  ultimately show ?thesis by simp
qed

lemma take_slice_sorted: "sorted_wrt P xs \<Longrightarrow> sorted_wrt P (take_slice j n xs)"
proof -
  assume s: "sorted_wrt P xs"
  have "map snd (filter Q (enumerate k ys)) = [] \<or> True" for Q and k :: nat and ys :: "'a list" by simp
  have "sorted_wrt P (map snd (filter Q (enumerate k xs)))" for Q and k :: nat
  proof -
    have "sorted_wrt (\<lambda>a b. P (snd a) (snd b)) (enumerate k xs)"
      using s by (metis map_snd_enumerate sorted_wrt_map)
    then show ?thesis by (simp add: sorted_wrt_map sorted_wrt_filter)
  qed
  with s show "sorted_wrt P (take_slice j n xs)" by (simp add: take_slice_def)
qed

end
