(* ===== verification/Ledger_Safety.thy ===== *)
theory Ledger_Safety
  imports Ledger_Invariants
begin

text \<open>
  What every addition does to the ledger (\<open>addition\<close>), the contract of an adding operation
  (locale \<open>ledger_adder\<close>) with the lemmas about batches, its interpretations, the step
  relation of the ledger and its reachable states, and the properties of single operations:
  duplicates, filters, the ping bound, pruning and pair compaction.
\<close>

section \<open>The outcome of an addition\<close>

lemma with_id_InrD: "with_id G e0 = Inr e \<Longrightarrow> \<exists>i. e = e0\<lparr>ID := i\<rparr>"
  by (auto simp: with_id_def ComputeID_Inr split: if_splits) (metis SyncEvent.surjective SyncEvent.update_convs(1))

definition addition ::
  "go_env \<Rightarrow> SyncEvent \<Rightarrow> SyncLedger \<Rightarrow> bool \<Rightarrow> SyncLedger \<Rightarrow> (nat \<times> SyncEvent) list \<Rightarrow> bool" where
  \<comment> \<open>either refused, silently and at most dropping events, or one valid event with a new ID is
      stored between two droppings, and the listeners of the ledger are called with it\<close>
  "addition G e0 l ok l' calls \<longleftrightarrow>
     (\<not> ok \<and> calls = [] \<and> shrinks l l') \<or>
     (ok \<and> (\<exists>e l1. with_id G e0 = Inr e \<and> event_IsValid e = Inr True \<and> ID e \<notin> eventIDs l1 \<and>
                   shrinks l l1 \<and> shrinks (append_event e l1) l' \<and> calls = notifyListeners l e))"

lemma ledger_wf_append:
  "ledger_wf l \<Longrightarrow> event_IsValid e = Inr True \<Longrightarrow> ID e \<notin> eventIDs l \<Longrightarrow> ledger_wf (append_event e l)"
  by (auto simp: ledger_wf_def append_event_def)

lemma addition_wf: "addition G e0 l ok l' calls \<Longrightarrow> ledger_wf l \<Longrightarrow> ledger_wf l'"
  by (auto simp: addition_def intro: shrinks_wf ledger_wf_append)

lemma addition_events:
  assumes "addition G e0 l ok l' calls" and "x \<in> set (Events l')"
  shows "x \<in> set (Events l) \<or> (ok \<and> with_id G e0 = Inr x)"
  using assms by (fastforce simp: addition_def append_event_def dest!: shrinks_set)

lemma validate_and_append_cases:
  assumes "validate_and_append G e0 l = Inr (ok, l', calls)"
  obtains (refused) "\<not> ok" "l' = l" "calls = []"
  | (stored) e where "ok" "with_id G e0 = Inr e" "event_IsValid e = Inr True" "ID e \<notin> eventIDs l"
      "l' = append_event e l" "calls = notifyListeners l e"
  using assms by (auto simp: validate_and_append_def go_bind_eq_Inr split: if_splits)

lemma notify_compact_pair [simp]: "listeners (compact_pair p l) = listeners l"
  by (cases rule: compact_pair_cases [of p l]) simp_all

lemma compact_pair_frame [simp]:
  "MaxEvents (compact_pair p l) = MaxEvents l" "isUnknownNara (compact_pair p l) = isUnknownNara l"
  by (cases rule: compact_pair_cases [of p l]; simp)+

lemma notifyListeners_cong: "listeners l = listeners l' \<Longrightarrow> notifyListeners l e = notifyListeners l' e"
  by (simp add: notifyListeners_def)

lemma addition_validate_and_append:
  assumes "validate_and_append G e0 l1 = Inr (ok, l', calls)" and "shrinks l l1" and "listeners l1 = listeners l"
  shows "addition G e0 l ok l' calls"
  using assms(1)
proof (cases rule: validate_and_append_cases)
  case refused
  then show ?thesis using assms(2) by (simp add: addition_def)
next
  case (stored e)
  then show ?thesis
    using assms(2,3) notifyListeners_cong [OF assms(3)] unfolding addition_def
    by (metis shrinks_refl)
qed

lemma addition_observation:
  assumes "addObservationWithCompaction G e d l = Inr (ok, l', calls)"
  shows "addition G e l ok l' calls"
proof (cases "Observation e")
  case None
  then show ?thesis
    using assms by (auto simp: addObservationWithCompaction_def split: if_splits intro: addition_validate_and_append)
next
  case (Some p)
  show ?thesis
  proof (cases "d \<and> duplicate_observation p (Events l)")
    case True
    then show ?thesis using assms Some by (auto simp: addObservationWithCompaction_def addition_def)
  next
    case False
    then have "validate_and_append G e (compact_pair p l) = Inr (ok, l', calls)"
      using assms Some by (auto simp: addObservationWithCompaction_def)
    then show ?thesis by (rule addition_validate_and_append) (simp_all add: shrinks_compact_pair)
  qed
qed

text \<open>The branches of \<open>AddEvent\<close>.\<close>

lemma AddEvent_cases:
  assumes "AddEvent G e0 l = Inr (ok, l', calls)"
  obtains (observation) "is_observation e0" "addObservationWithCompaction G e0 False l = Inr (ok, l', calls)"
  | (refused) "\<not> is_observation e0" "\<not> ok" "l' = l" "calls = []"
  | (stored) e l1 where "\<not> is_observation e0" "ok" "with_id G e0 = Inr e" "event_IsValid e = Inr True"
      "\<not> shouldFilterCheckpoint e" "ID e \<notin> eventIDs l" "make_room_for_ping e l = Some l1"
      "l' = prune_if_over G (append_event e l1)" "calls = notifyListeners l e"
  using assms by (auto simp: AddEvent_def go_bind_eq_Inr split: if_splits option.splits)

lemma shrinks_IDs: "ledger_wf l \<Longrightarrow> shrinks l l' \<Longrightarrow> eventIDs l' \<subseteq> eventIDs l"
  using shrinks_set [of l l'] by (auto simp: shrinks_def ledger_wf_def)

lemma addition_AddEvent:
  assumes srt: "sort_algorithm (sort_perm G)" and wf: "ledger_wf l"
    and "AddEvent G e0 l = Inr (ok, l', calls)"
  shows "addition G e0 l ok l' calls"
  using assms(3)
proof (cases rule: AddEvent_cases)
  case observation
  then show ?thesis by (intro addition_observation)
next
  case refused
  then show ?thesis by (simp add: addition_def)
next
  case (stored e l1)
  have s: "shrinks l l1" using stored by (intro shrinks_make_room)
  then have "ID e \<notin> eventIDs l1" using shrinks_IDs [OF wf] stored by auto
  moreover have "shrinks (append_event e l1) l'" using srt stored by (simp add: shrinks_prune_if_over)
  ultimately show ?thesis using s stored by (auto simp: addition_def)
qed

text \<open>Pings: after room is made, a target holds less than \<open>MaxPingsPerTarget\<close> of them.\<close>

lemma is_ping_to_iff: "is_ping_to t e \<longleftrightarrow> Service e = ServicePing \<and> (\<exists>p. Ping e = Some p \<and> pi_Target p = t)"
  by (auto simp: is_ping_to_def split: option.splits)

lemma make_room_bound:
  assumes "make_room_for_ping e l = Some l1" and "pings_bounded l" and "is_ping_to t e"
  shows "length (filter (is_ping_to t) (Events l1)) < MaxPingsPerTarget"
proof -
  obtain p where p: "Service e = ServicePing" "Ping e = Some p" "pi_Target p = t"
    using assms(3) by (auto simp: is_ping_to_iff)
  let ?pings = "indexed (is_ping_to t) (Events l)"
  have bound: "length ?pings \<le> MaxPingsPerTarget"
    using assms(2) by (simp add: pings_bounded_def length_indexed)
  show ?thesis
  proof (cases "length ?pings \<ge> MaxPingsPerTarget")
    case False
    then have "l1 = l" using assms(1) p by (simp add: make_room_for_ping_def Let_def)
    then show ?thesis using False by (simp add: length_indexed)
  next
    case True
    then have "?pings \<noteq> []" by (auto simp: MaxPingsPerTarget_def)
    then obtain r where "oldest_by (\<lambda>(i, x). Timestamp x) ?pings = Some r"
      using oldest_by_SomeI by blast
    then obtain i x where o: "oldest_by (\<lambda>(i, x). Timestamp x) ?pings = Some (i, x)" by (cases r) simp
    then have i: "i < length (Events l)" "is_ping_to t (Events l ! i)"
      using oldest_by_SomeD [OF o] by (auto simp: in_indexed)
    have "Events l1 = remove_index i (Events l)"
      using assms(1) p True o by (auto simp: make_room_for_ping_def Let_def split: if_splits)
    then show ?thesis
      using bound True i by (simp add: length_filter_remove_index length_indexed MaxPingsPerTarget_def)
  qed
qed

lemma make_room_not_ping: "Service e \<noteq> ServicePing \<Longrightarrow> make_room_for_ping e l = Some l"
  by (simp add: make_room_for_ping_def)

lemma is_ping_to_ID [simp]: "is_ping_to t (e\<lparr>ID := i\<rparr>) = is_ping_to t e"
  by (simp add: is_ping_to_def)

lemma is_observation_not_ping: "is_observation e \<Longrightarrow> \<not> is_ping_to t e"
  by (simp add: is_observation_def is_ping_to_def)

lemma pings_bounded_append:
  assumes "\<And>t. is_ping_to t e \<Longrightarrow> length (filter (is_ping_to t) (Events l)) < MaxPingsPerTarget"
    and "pings_bounded l"
  shows "pings_bounded (append_event e l)"
  using assms by (auto simp: pings_bounded_def append_event_def Suc_le_eq)

lemma pings_observation:
  assumes "is_observation e" and "addObservationWithCompaction G e d l = Inr (ok, l', calls)" and "pings_bounded l"
  shows "pings_bounded l'"
proof -
  have "addition G e l ok l' calls" using assms(2) by (rule addition_observation)
  then consider "shrinks l l'"
    | e' l1 where "with_id G e = Inr e'" "shrinks l l1" "shrinks (append_event e' l1) l'"
    by (auto simp: addition_def)
  then show ?thesis
  proof cases
    case 1
    then show ?thesis using assms(3) by (rule shrinks_pings)
  next
    case (2 e' l1)
    then have "\<not> is_ping_to t e'" for t
      using is_observation_not_ping [OF assms(1)] with_id_InrD [of G e e'] by auto
    then have "pings_bounded (append_event e' l1)"
      using shrinks_pings [OF 2(2) assms(3)] by (intro pings_bounded_append) simp_all
    with 2(3) show ?thesis by (rule shrinks_pings)
  qed
qed

lemma pings_AddEvent:
  assumes srt: "sort_algorithm (sort_perm G)" and "pings_bounded l"
    and "AddEvent G e0 l = Inr (ok, l', calls)"
  shows "pings_bounded l'"
  using assms(3)
proof (cases rule: AddEvent_cases)
  case observation
  then show ?thesis using assms(2) pings_observation by blast
next
  case refused
  then show ?thesis using assms(2) by simp
next
  case (stored e l1)
  have "pings_bounded (append_event e l1)"
  proof (rule pings_bounded_append)
    show "length (filter (is_ping_to t) (Events l1)) < MaxPingsPerTarget" if "is_ping_to t e" for t
      using make_room_bound stored(7) assms(2) that by blast
    show "pings_bounded l1" using shrinks_make_room [OF stored(7)] assms(2) by (rule shrinks_pings)
  qed
  then show ?thesis
    unfolding stored(8) using shrinks_prune_if_over [OF srt] shrinks_pings by blast
qed

text \<open>
  Observations: at most \<open>MaxObservationsPerPair\<close> of a pair are not restarts (the restarts of a
  subject without a checkpoint are history and are never given up, so they are not bounded).
\<close>

definition plain_obs :: "ObservationEventPayload \<Rightarrow> SyncEvent \<Rightarrow> bool" where
  "plain_obs p x \<longleftrightarrow> obs_of x (\<lambda>q. same_pair p q \<and> ob_Type q \<noteq> ''restart'')"

definition pairs_bounded :: "SyncLedger \<Rightarrow> bool" where
  "pairs_bounded l \<longleftrightarrow> (\<forall>p. length (filter (plain_obs p) (Events l)) \<le> MaxObservationsPerPair)"

lemma pairs_bounded_new [simp]: "pairs_bounded (NewSyncLedger n)"
  by (simp add: pairs_bounded_def NewSyncLedger_def)

lemma pairs_bounded_upd [simp]:
  "pairs_bounded (l\<lparr>observationRL := r\<rparr>) = pairs_bounded l"
  "pairs_bounded (l\<lparr>isUnknownNara := c\<rparr>) = pairs_bounded l"
  "pairs_bounded (l\<lparr>listeners := ls\<rparr>) = pairs_bounded l"
  by (simp_all add: pairs_bounded_def)

lemma shrinks_pairs: "shrinks l l' \<Longrightarrow> pairs_bounded l \<Longrightarrow> pairs_bounded l'"
  unfolding pairs_bounded_def using shrinks_filter le_trans by blast

lemma obs_of_iff: "obs_of e P \<longleftrightarrow> Service e = ServiceObservation \<and> (\<exists>q. Observation e = Some q \<and> P q)"
  by (auto simp: obs_of_def split: option.splits)

lemma obs_of_ID [simp]: "obs_of (e\<lparr>ID := i\<rparr>) P = obs_of e P"
  by (simp add: obs_of_def)

lemma plain_obs_same_pair: "same_pair p q \<Longrightarrow> plain_obs p = plain_obs q"
  by (auto simp: plain_obs_def same_pair_def fun_eq_iff)

lemma full_pair_victim:
  assumes "plain_obs p x" and "x \<in> set evs"
    and "MaxObservationsPerPair \<le> length (filter (\<lambda>x. obs_of x (same_pair p)) evs)"
  shows "\<exists>i. compaction_victim p evs = Some (i, evs ! i) \<and> i < length evs \<and> plain_obs p (evs ! i)"
proof -
  let ?ex = "indexed (\<lambda>x. obs_of x (same_pair p)) evs"
  let ?P = "\<lambda>(i :: nat, x). obs_of x (\<lambda>q. ob_Type q \<noteq> ''restart'')"
  obtain j where j: "j < length evs" "x = evs ! j" using assms(2) by (metis in_set_conv_nth)
  then have "(j, x) \<in> set (filter ?P ?ex)"
    using assms(1) by (auto simp: in_indexed plain_obs_def obs_of_iff)
  then have "filter ?P ?ex \<noteq> []" by (metis empty_iff empty_set)
  then obtain r where r: "oldest_by (\<lambda>(i, x). Timestamp x) (filter ?P ?ex) = Some r"
    using oldest_by_SomeI by blast
  obtain i y where iy: "r = (i, y)" by fastforce
  have "(i, y) \<in> set (filter ?P ?ex)" using oldest_by_SomeD [OF r] iy by simp
  then have "i < length evs" "y = evs ! i" "plain_obs p y"
    by (auto simp: in_indexed plain_obs_def obs_of_iff)
  moreover have "compaction_victim p evs = Some r"
    using assms(3) r by (simp add: compaction_victim_def Let_def length_indexed)
  ultimately show ?thesis using iy by auto
qed

lemma compact_pair_bound:
  assumes "pairs_bounded l"
  shows "length (filter (plain_obs p) (Events (compact_pair p l))) < MaxObservationsPerPair"
proof (cases "\<exists>x \<in> set (Events l). plain_obs p x")
  case False
  then have "filter (plain_obs p) (Events l) = []" by (simp add: filter_empty_conv)
  then have "length (filter (plain_obs p) (Events (compact_pair p l))) = 0"
    using shrinks_filter [OF shrinks_compact_pair [of l p], of "plain_obs p"] by simp
  then show ?thesis by (simp add: MaxObservationsPerPair_def)
next
  case True
  then obtain x where x: "x \<in> set (Events l)" "plain_obs p x" by blast
  let ?n = "length (filter (\<lambda>x. obs_of x (same_pair p)) (Events l))"
  have b: "length (filter (plain_obs p) (Events l)) \<le> MaxObservationsPerPair"
    using assms by (simp add: pairs_bounded_def)
  show ?thesis
  proof (cases "MaxObservationsPerPair \<le> ?n")
    case full: True
    obtain i where i: "compaction_victim p (Events l) = Some (i, Events l ! i)" "i < length (Events l)"
        "plain_obs p (Events l ! i)"
      using full_pair_victim [OF x(2,1) full] by blast
    then have "Events (compact_pair p l) = remove_index i (Events l)" by (simp add: compact_pair_def)
    then show ?thesis
      using b i by (simp add: length_filter_remove_index MaxObservationsPerPair_def)
  next
    case False
    have "length (filter (plain_obs p) (Events l)) \<le> ?n"
      by (rule length_filter_imp) (auto simp: plain_obs_def obs_of_iff)
    then show ?thesis
      using False shrinks_filter [OF shrinks_compact_pair [of l p], of "plain_obs p"] by linarith
  qed
qed

lemma pairs_bounded_append:
  assumes "\<And>p. plain_obs p e \<Longrightarrow> length (filter (plain_obs p) (Events l)) < MaxObservationsPerPair"
    and "pairs_bounded l"
  shows "pairs_bounded (append_event e l)"
  using assms by (auto simp: pairs_bounded_def append_event_def Suc_le_eq)

lemma plain_obs_ID [simp]: "plain_obs p (e\<lparr>ID := i\<rparr>) = plain_obs p e"
  by (simp add: plain_obs_def)

lemma pairs_observation:
  assumes "is_observation e" and "addObservationWithCompaction G e d l = Inr (ok, l', calls)" and "pairs_bounded l"
  shows "pairs_bounded l'"
proof -
  obtain p where p: "Observation e = Some p" using assms(1) by (auto simp: is_observation_def)
  let ?l = "compact_pair p l"
  have b: "pairs_bounded ?l" using shrinks_compact_pair assms(3) by (rule shrinks_pairs)
  consider "l' = l" | "validate_and_append G e ?l = Inr (ok, l', calls)"
    using assms(2) p by (auto simp: addObservationWithCompaction_def split: if_splits)
  then show ?thesis
  proof cases
    case 1
    then show ?thesis using assms(3) by simp
  next
    case 2
    then show ?thesis
    proof (cases rule: validate_and_append_cases)
      case (stored e')
      have "length (filter (plain_obs q) (Events ?l)) < MaxObservationsPerPair" if "plain_obs q e'" for q
      proof -
        have "plain_obs q e" using that with_id_InrD [OF stored(2)] by auto
        then have "same_pair q p" using p by (auto simp: plain_obs_def obs_of_iff)
        then show ?thesis using compact_pair_bound [OF assms(3), of p] plain_obs_same_pair by metis
      qed
      with b show ?thesis unfolding stored(5) by (intro pairs_bounded_append)
    qed (use b in simp)
  qed
qed

lemma valid_observation:
  "event_IsValid e = Inr True \<Longrightarrow> Service e = ServiceObservation \<Longrightarrow> Observation e \<noteq> None"
  by (auto dest!: event_IsValid_has_payload simp: has_payload_def Payload_def)

lemma pairs_AddEvent:
  assumes srt: "sort_algorithm (sort_perm G)" and "pairs_bounded l"
    and "AddEvent G e0 l = Inr (ok, l', calls)"
  shows "pairs_bounded l'"
  using assms(3)
proof (cases rule: AddEvent_cases)
  case observation
  then show ?thesis using assms(2) pairs_observation by blast
next
  case refused
  then show ?thesis using assms(2) by simp
next
  case (stored e l1)
  have "Service e \<noteq> ServiceObservation"
    using stored(1) valid_observation [OF stored(4)] with_id_InrD [OF stored(3)] by (auto simp: is_observation_def)
  then have "\<not> plain_obs p e" for p by (simp add: plain_obs_def obs_of_iff)
  then have "pairs_bounded (append_event e l1)"
    using shrinks_make_room [OF stored(7)] assms(2) by (intro pairs_bounded_append) (auto intro: shrinks_pairs)
  then show ?thesis
    unfolding stored(8) using shrinks_prune_if_over [OF srt] shrinks_pairs by blast
qed

text \<open>What no addition changes.\<close>

definition same_config :: "SyncLedger \<Rightarrow> SyncLedger \<Rightarrow> bool" where
  "same_config l l' \<longleftrightarrow> MaxEvents l' = MaxEvents l \<and> listeners l' = listeners l \<and> isUnknownNara l' = isUnknownNara l"

lemma same_config_trans: "same_config l l1 \<Longrightarrow> same_config l1 l2 \<Longrightarrow> same_config l l2"
  by (simp add: same_config_def)

lemma same_config_refl [simp]: "same_config l l"
  by (simp add: same_config_def)

lemma same_config_validate:
  "validate_and_append G e l = Inr (ok, l', calls) \<Longrightarrow> same_config l l'"
  by (erule validate_and_append_cases) (simp_all add: same_config_def append_event_def)

lemma same_config_compact: "same_config l (compact_pair p l)"
  by (simp add: same_config_def)

lemma same_config_observation:
  assumes "addObservationWithCompaction G e d l = Inr (ok, l', calls)"
  shows "same_config l l'"
proof (cases "Observation e")
  case None
  then show ?thesis
    using assms by (auto simp: addObservationWithCompaction_def split: if_splits intro: same_config_validate)
next
  case (Some p)
  consider "d \<and> duplicate_observation p (Events l)" "l' = l"
    | "validate_and_append G e (compact_pair p l) = Inr (ok, l', calls)"
    using assms Some by (auto simp: addObservationWithCompaction_def split: if_splits)
  then show ?thesis
    by cases (auto intro: same_config_trans [OF same_config_compact] same_config_validate)
qed

lemma same_config_AddEvent: "AddEvent G e l = Inr (ok, l', calls) \<Longrightarrow> same_config l l'"
proof (erule AddEvent_cases)
  fix e' l1
  assume "make_room_for_ping e' l = Some l1" and "l' = prune_if_over G (append_event e' l1)"
  moreover from this(1) have "same_config l l1" using make_room_cases by (fastforce simp: same_config_def)
  ultimately show "same_config l l'" by (simp add: same_config_def append_event_def prune_if_over_def)
qed (auto intro: same_config_observation)

section \<open>The contract of an adding operation\<close>

locale ledger_adder =
  fixes add :: "SyncEvent \<Rightarrow> SyncLedger \<Rightarrow> add_result"
    and accepts :: "SyncEvent \<Rightarrow> bool"
  assumes adds_wf: "accepts e \<Longrightarrow> ledger_wf l \<Longrightarrow> add e l = Inr (ok, l', calls) \<Longrightarrow> ledger_wf l'"
    and adds_pings: "accepts e \<Longrightarrow> pings_bounded l \<Longrightarrow> add e l = Inr (ok, l', calls) \<Longrightarrow> pings_bounded l'"
    and adds_pairs: "accepts e \<Longrightarrow> pairs_bounded l \<Longrightarrow> add e l = Inr (ok, l', calls) \<Longrightarrow> pairs_bounded l'"
    and adds_config: "add e l = Inr (ok, l', calls) \<Longrightarrow> same_config l l'"
    and adds_calls: "accepts e \<Longrightarrow> ledger_wf l \<Longrightarrow> add e l = Inr (ok, l', calls) \<Longrightarrow>
       length calls = (if ok then length (listeners l) else 0)"
begin

lemma batch:
  assumes "add_each add evs n l = Inr (m, l', calls)" and "\<forall>e \<in> set evs. accepts e"
    and "ledger_wf l" and "pings_bounded l" and "pairs_bounded l"
  shows "ledger_wf l' \<and> pings_bounded l' \<and> pairs_bounded l' \<and> same_config l l' \<and> n \<le> m \<and> m \<le> n + int (length evs) \<and>
         int (length calls) = (m - n) * int (length (listeners l))"
  using assms
proof (induction evs arbitrary: n l calls)
  case (Cons e evs)
  obtain ok l1 c1 where a: "add e l = Inr (ok, l1, c1)" and
    b: "\<exists>c2. add_each add evs (if ok then n + 1 else n) l1 = Inr (m, l', c2) \<and> calls = c1 @ c2"
    using Cons.prems(1) by (auto simp: go_bind_eq_Inr)
  then obtain c2 where b: "add_each add evs (if ok then n + 1 else n) l1 = Inr (m, l', c2)" "calls = c1 @ c2"
    by blast
  have acc: "accepts e" using Cons.prems(2) by simp
  have cfg: "same_config l l1" using a by (rule adds_config)
  have ih: "ledger_wf l' \<and> pings_bounded l' \<and> pairs_bounded l' \<and> same_config l1 l' \<and> (if ok then n + 1 else n) \<le> m \<and>
      m \<le> (if ok then n + 1 else n) + int (length evs) \<and>
      int (length c2) = (m - (if ok then n + 1 else n)) * int (length (listeners l1))"
    using b(1) Cons.prems(2) adds_wf [OF acc Cons.prems(3) a] adds_pings [OF acc Cons.prems(4) a]
      adds_pairs [OF acc Cons.prems(5) a]
    by (intro Cons.IH) simp_all
  have c1: "int (length c1) = (if ok then 1 else 0) * int (length (listeners l))"
    using adds_calls [OF acc Cons.prems(3) a] by simp
  have "int (length calls) = (m - n) * int (length (listeners l))"
    using ih c1 b(2) cfg by (cases ok) (simp_all add: same_config_def algebra_simps)
  then show ?case
    using ih cfg same_config_trans by (auto split: if_splits)
qed simp

end

lemma length_notifyListeners [simp]: "length (notifyListeners l e) = length (listeners l)"
  by (simp add: notifyListeners_def)

lemma addition_calls:
  "addition G e l ok l' calls \<Longrightarrow> length calls = (if ok then length (listeners l) else 0)"
  by (auto simp: addition_def)

interpretation add_event: ledger_adder "AddEvent G" "\<lambda>e. sort_algorithm (sort_perm G)" for G
proof unfold_locales
  fix e l ok l' calls
  assume a: "AddEvent G e l = Inr (ok, l', calls)"
  show "same_config l l'" using a by (rule same_config_AddEvent)
  assume s: "sort_algorithm (sort_perm G)"
  show "ledger_wf l' " if "ledger_wf l"
    using addition_AddEvent [OF s that a] that by (rule addition_wf)
  show "pings_bounded l'" if "pings_bounded l"
    using s that a by (rule pings_AddEvent)
  show "pairs_bounded l'" if "pairs_bounded l"
    using s that a by (rule pairs_AddEvent)
  show "length calls = (if ok then length (listeners l) else 0)" if "ledger_wf l"
    using addition_AddEvent [OF s that a] by (rule addition_calls)
qed

interpretation add_dedup: ledger_adder "AddEventWithDedup G" is_observation for G
proof unfold_locales
  fix e l ok l' calls
  assume "AddEventWithDedup G e l = Inr (ok, l', calls)"
  then have a: "addObservationWithCompaction G e True l = Inr (ok, l', calls)"
    by (simp add: AddEventWithDedup_def)
  show "same_config l l'" using a by (rule same_config_observation)
  show "ledger_wf l'" if "ledger_wf l" using addition_observation [OF a] that by (rule addition_wf)
  show "length calls = (if ok then length (listeners l) else 0)"
    using addition_observation [OF a] by (rule addition_calls)
  show "pings_bounded l'" if "is_observation e" "pings_bounded l"
    using that(1) a that(2) by (rule pings_observation)
  show "pairs_bounded l'" if "is_observation e" "pairs_bounded l"
    using that(1) a that(2) by (rule pairs_observation)
qed

text \<open>
  The filtered additions either refuse the event or call \<open>AddEvent\<close>, with at most a new rate
  limiter in the ledger; so they keep the contract.
\<close>

lemma ledger_adder_guarded:
  assumes "ledger_adder add accepts"
    and guard: "\<And>e l. \<exists>rl. add' e l = add e (l\<lparr>observationRL := rl\<rparr>) \<or>
                       add' e l = Inr (False, l\<lparr>observationRL := rl\<rparr>, [])"
  shows "ledger_adder add' accepts"
proof -
  have "\<exists>rl. add e (l\<lparr>observationRL := rl\<rparr>) = Inr (ok, l', calls) \<or>
             (\<not> ok \<and> l' = l\<lparr>observationRL := rl\<rparr> \<and> calls = [])"
    if "add' e l = Inr (ok, l', calls)" for e l ok l' calls
    using guard [of e l] that by (metis Inr_inject Pair_inject)
  note c = this
  note d = ledger_adder.adds_wf [OF assms(1)] ledger_adder.adds_pings [OF assms(1)]
    ledger_adder.adds_config [OF assms(1)] ledger_adder.adds_calls [OF assms(1)]
    ledger_adder.adds_pairs [OF assms(1)]
  show ?thesis
  proof unfold_locales
    fix e l ok l' calls
    assume "add' e l = Inr (ok, l', calls)"
    then obtain rl where "add e (l\<lparr>observationRL := rl\<rparr>) = Inr (ok, l', calls) \<or>
             (\<not> ok \<and> l' = l\<lparr>observationRL := rl\<rparr> \<and> calls = [])" using c by blast
    then consider (added) "add e (l\<lparr>observationRL := rl\<rparr>) = Inr (ok, l', calls)"
      | (refused) "\<not> ok" "l' = l\<lparr>observationRL := rl\<rparr>" "calls = []" by blast
    note k = this
    show "same_config l l'"
      using k by cases (auto dest: d(3) simp: same_config_def)
    assume a: "accepts e"
    show "ledger_wf l'" if "ledger_wf l"
      using k by cases (use that in \<open>auto dest: d(1) [OF a, rotated]\<close>)
    show "pings_bounded l'" if "pings_bounded l"
      using k by cases (use that in \<open>auto dest: d(2) [OF a, rotated]\<close>)
    show "pairs_bounded l'" if "pairs_bounded l"
      using k by cases (use that in \<open>auto dest: d(5) [OF a, rotated]\<close>)
    show "length calls = (if ok then length (listeners l) else 0)" if "ledger_wf l"
      using k by cases (use that in \<open>auto dest: d(4) [OF a, rotated]\<close>)
  qed
qed

lemma AddEventFiltered_cases:
  "AddEventFiltered G e p l = AddEvent G e l \<or> AddEventFiltered G e p l = Inr (False, l, [])"
  unfolding AddEventFiltered_def
  by (cases "if Service e = ServiceObservation then Observation e else None")
    (simp_all only: option.case if_split simp_thms, auto)

lemma AddSocialEventFiltered_cases:
  "AddSocialEventFiltered G e p l = AddEvent G e l \<or> AddSocialEventFiltered G e p l = Inr (False, l, [])"
  by (simp add: AddSocialEventFiltered_def)

lemma same_limiter [simp]: "l\<lparr>observationRL := observationRL l\<rparr> = l"
  by simp

lemma AddEventWithRateLimit_cases:
  "\<exists>rl. AddEventWithRateLimit G e l = AddEvent G e (l\<lparr>observationRL := rl\<rparr>) \<or>
        AddEventWithRateLimit G e l = Inr (False, l\<lparr>observationRL := rl\<rparr>, [])"
proof (cases "if Service e = ServiceObservation then Observation e else None")
  case None
  then have "AddEventWithRateLimit G e l = AddEvent G e l"
    by (simp only: AddEventWithRateLimit_def option.case)
  then show ?thesis by (intro exI [of _ "observationRL l"]) simp
next
  case (Some p)
  obtain ok rl where r: "CheckAndAdd (observationRL l) (ob_Subject p) (Timestamp e sdiv 1000000000) = (ok, rl)"
    by fastforce
  have "AddEventWithRateLimit G e l =
      (if \<not> ok then Inr (False, l\<lparr>observationRL := rl\<rparr>, []) else AddEvent G e (l\<lparr>observationRL := rl\<rparr>))"
    by (simp only: AddEventWithRateLimit_def option.case Some Let_def r prod.case)
  then show ?thesis by (intro exI [of _ rl]) simp
qed

lemma ledger_adder_AddEvent: "ledger_adder (AddEvent G) (\<lambda>e. sort_algorithm (sort_perm G))"
  by (rule add_event.ledger_adder_axioms)

interpretation add_filtered: ledger_adder "\<lambda>e. AddEventFiltered G e p" "\<lambda>e. sort_algorithm (sort_perm G)" for G p
  by (rule ledger_adder_guarded [OF ledger_adder_AddEvent]) (metis AddEventFiltered_cases same_limiter)

interpretation add_social: ledger_adder "\<lambda>e. AddSocialEventFiltered G e p" "\<lambda>e. sort_algorithm (sort_perm G)" for G p
  by (rule ledger_adder_guarded [OF ledger_adder_AddEvent]) (metis AddSocialEventFiltered_cases same_limiter)

interpretation add_limited: ledger_adder "AddEventWithRateLimit G" "\<lambda>e. sort_algorithm (sort_perm G)" for G
  by (rule ledger_adder_guarded [OF ledger_adder_AddEvent]) (rule AddEventWithRateLimit_cases)

end
