(* ===== verification/Ledger_Properties.thy ===== *)
theory Ledger_Properties
  imports Ledger_Safety
begin

text \<open>
  The ledger as a state machine: every exported operation that changes it is a step, and the
  states reached from \<open>NewSyncLedger\<close> are well-formed and bounded. Then the properties of the
  single operations: totality, duplicates, filters, pruning, compaction, removal.
\<close>

inductive ledger_step :: "go_env \<Rightarrow> SyncLedger \<Rightarrow> SyncLedger \<Rightarrow> bool" for G where
  step_add: "AddEvent G e l = Inr (ok, l', calls) \<Longrightarrow> ledger_step G l l'"
| step_dedup: "is_observation e \<Longrightarrow> AddEventWithDedup G e l = Inr (ok, l', calls) \<Longrightarrow> ledger_step G l l'"
| step_filtered: "AddEventFiltered G e p l = Inr (ok, l', calls) \<Longrightarrow> ledger_step G l l'"
| step_limited: "AddEventWithRateLimit G e l = Inr (ok, l', calls) \<Longrightarrow> ledger_step G l l'"
| step_social: "AddSocialEventFiltered G e p l = Inr (ok, l', calls) \<Longrightarrow> ledger_step G l l'"
| step_merge: "MergeEvents G evs l = Inr (n, l', calls) \<Longrightarrow> ledger_step G l l'"
| step_merge_social: "MergeSocialEventsFiltered G ses p 0 l = Inr (n, l', calls) \<Longrightarrow> ledger_step G l l'"
| step_prune: "ledger_step G l (Prune G l)"
| step_remove: "RemoveEventsFor name l = (n, l') \<Longrightarrow> ledger_step G l l'"
| step_listener: "ledger_step G l (AddListener h l)"
| step_checker: "ledger_step G l (SetUnknownNaraChecker c l)"
| step_cleanup: "ledger_step G l (l\<lparr>observationRL := Cleanup now (observationRL l)\<rparr>)"

inductive_cases ledger_stepE: "ledger_step G l l'"

inductive reachable :: "go_env \<Rightarrow> int \<Rightarrow> SyncLedger \<Rightarrow> bool" for G cap where
  reach_new: "reachable G cap (NewSyncLedger cap)"
| reach_step: "reachable G cap l \<Longrightarrow> ledger_step G l l' \<Longrightarrow> reachable G cap l'"

definition ledger_safe :: "SyncLedger \<Rightarrow> bool" where
  "ledger_safe l \<longleftrightarrow> ledger_wf l \<and> pings_bounded l \<and> pairs_bounded l"

lemma ledger_safe_new [simp]: "ledger_safe (NewSyncLedger n)"
  by (simp add: ledger_safe_def)

lemma ledger_safe_upd [simp]:
  "ledger_safe (l\<lparr>observationRL := r\<rparr>) = ledger_safe l"
  "ledger_safe (l\<lparr>isUnknownNara := c\<rparr>) = ledger_safe l"
  "ledger_safe (l\<lparr>listeners := ls\<rparr>) = ledger_safe l"
  by (simp_all add: ledger_safe_def)

lemma ledger_safe_shrinks: "shrinks l l' \<Longrightarrow> ledger_safe l \<Longrightarrow> ledger_safe l'"
  by (simp add: ledger_safe_def shrinks_wf shrinks_pings shrinks_pairs)

context ledger_adder
begin

lemma adds_safe: "accepts e \<Longrightarrow> add e l = Inr (ok, l', calls) \<Longrightarrow> ledger_safe l \<Longrightarrow> ledger_safe l'"
  unfolding ledger_safe_def using adds_wf adds_pings adds_pairs by blast

lemma batch_safe:
  assumes "add_each add evs n l = Inr (m, l', calls)" and "\<forall>e \<in> set evs. accepts e" and "ledger_safe l"
  shows "ledger_safe l'"
  using batch [OF assms(1,2)] assms(3) unfolding ledger_safe_def by blast

end

text \<open>Merging legacy events is adding the converted events.\<close>

lemma zero_event_fields [simp]:
  "Social zero_event = None" "Ping zero_event = None" "Observation zero_event = None"
  "HeyThere zero_event = None" "Chau zero_event = None" "Seen zero_event = None" "Checkpoint zero_event = None"
  "ID zero_event = []" "Emitter zero_event = []" "EmitterID zero_event = []" "Signature zero_event = []"
  by (simp_all add: zero_event_def)

lemma SyncEventFromSocialEvent_total: "\<exists>e. SyncEventFromSocialEvent G se = Inr e"
  unfolding SyncEventFromSocialEvent_def
  by (rule ComputeID_total) (simp add: has_payload_def Payload_def)

lemma MergeSocialEventsFiltered_eq:
  "MergeSocialEventsFiltered G ses p n l =
     add_each (\<lambda>e. AddSocialEventFiltered G e p) (map (\<lambda>se. projr (SyncEventFromSocialEvent G se)) ses) n l"
proof (induction ses arbitrary: n l)
  case (Cons se ses)
  obtain e where e: "SyncEventFromSocialEvent G se = Inr e" using SyncEventFromSocialEvent_total by blast
  have ih: "MergeSocialEventsFiltered G ses p = add_each (\<lambda>e. AddSocialEventFiltered G e p)
      (map (\<lambda>se. projr (SyncEventFromSocialEvent G se)) ses)"
    by (intro ext Cons.IH)
  show ?case
    by (simp only: MergeSocialEventsFiltered.simps AddSocialEventFilteredLegacy_def e go_bind_Inr ih
        list.map add_each.simps sum.sel)
qed simp

lemma ledger_step_safe:
  assumes "sort_algorithm (sort_perm G)" and "ledger_step G l l'" and "ledger_safe l"
  shows "ledger_safe l'"
  using assms(2)
proof cases
  case (step_prune)
  then show ?thesis using ledger_safe_shrinks [OF shrinks_pruneUnlocked [OF assms(1)] assms(3)] by (simp add: Prune_def)
next
  case (step_remove name n)
  then show ?thesis using ledger_safe_shrinks [OF shrinks_RemoveEventsFor assms(3)] by simp
next
  case (step_merge evs n calls)
  then show ?thesis
    unfolding MergeEvents_def by (rule add_event.batch_safe) (use assms in simp_all)
next
  case (step_merge_social ses p n calls)
  then show ?thesis
    unfolding MergeSocialEventsFiltered_eq by (rule add_social.batch_safe) (use assms in simp_all)
qed (use assms(1,3) in \<open>auto simp: AddListener_def SetUnknownNaraChecker_def
      intro: add_event.adds_safe add_dedup.adds_safe add_filtered.adds_safe add_limited.adds_safe
        add_social.adds_safe\<close>)

lemma reachable_safe:
  assumes "sort_algorithm (sort_perm G)" and "reachable G cap l"
  shows "ledger_safe l"
  using assms(2) by (induction rule: reachable.induct) (use assms(1) in \<open>auto intro: ledger_step_safe\<close>)

section \<open>Lemmas on single operations\<close>

lemma has_payload_ID [simp]: "has_payload (e\<lparr>ID := i\<rparr>) = has_payload e"
  by (simp add: has_payload_def)

lemma with_id_total: "has_payload e \<Longrightarrow> \<exists>i. with_id G e = Inr (e\<lparr>ID := i\<rparr>)"
  using ComputeID_total [of e G] with_id_InrD [of G e] by (fastforce simp: with_id_def)

lemma with_id_nil: "\<not> has_payload e \<Longrightarrow> with_id G e = (if ID e = [] then Inl NilDereference else Inr e)"
  by (auto simp: with_id_def ComputeID_def id_input_def payload_bytes_def has_payload_def
      payload_ContentString_nil split: option.splits)

lemma event_IsValid_nil:
  "\<not> has_payload e \<Longrightarrow> event_IsValid e = (if Service e = [] \<or> Timestamp e = 0 then Inr False else Inl NilDereference)"
  by (auto simp: event_IsValid_def has_payload_def payload_IsValid_nil split: option.splits)

lemma no_payload_service: "\<not> has_payload e \<Longrightarrow> Service e \<noteq> []"
  by (auto simp: has_payload_def Payload_def)

lemma is_observation_has_payload: "is_observation e \<Longrightarrow> has_payload e"
  by (auto simp: is_observation_def has_payload_def Payload_def)

lemma validate_and_append_total: "has_payload e \<Longrightarrow> \<exists>r. validate_and_append G e l = Inr r"
proof -
  assume h: "has_payload e"
  then obtain i where i: "with_id G e = Inr (e\<lparr>ID := i\<rparr>)" using with_id_total by blast
  obtain b where b: "event_IsValid (e\<lparr>ID := i\<rparr>) = Inr b" using event_IsValid_total h by simp blast
  show "\<exists>r. validate_and_append G e l = Inr r"
    unfolding validate_and_append_def i b go_bind_Inr by metis
qed

lemma AddEvent_present: "has_payload e \<Longrightarrow> \<exists>r. AddEvent G e l = Inr r"
proof -
  assume h: "has_payload e"
  then obtain i where i: "with_id G e = Inr (e\<lparr>ID := i\<rparr>)" using with_id_total by blast
  obtain b where b: "event_IsValid (e\<lparr>ID := i\<rparr>) = Inr b" using event_IsValid_total h by simp blast
  show "\<exists>r. AddEvent G e l = Inr r"
  proof (cases "is_observation e")
    case True
    then show ?thesis
      using validate_and_append_total [OF h]
      by (auto simp: AddEvent_def addObservationWithCompaction_def is_observation_def)
  next
    case False
    then show ?thesis
      unfolding AddEvent_def i b go_bind_Inr
      by (cases "make_room_for_ping (e\<lparr>ID := i\<rparr>) l") (simp_all only: option.case if_False if_True if_cancel, metis+)
  qed
qed

lemma AddEvent_absent:
  "\<not> has_payload e \<Longrightarrow>
   AddEvent G e l = (if ID e = [] \<or> Timestamp e \<noteq> 0 then Inl NilDereference else Inr (False, l, []))"
  using is_observation_has_payload [of e] no_payload_service [of e]
  by (auto simp: AddEvent_def with_id_nil event_IsValid_nil)

text \<open>Pruning takes non-critical events from the front of the sorted list.\<close>

definition critical :: "SyncEvent \<Rightarrow> bool" where
  "critical e \<longleftrightarrow> eventPruningPriority e = 0"

lemma count_removable_prefix: "x \<in> set (take (count_removable n s) s) \<Longrightarrow> \<not> critical x"
  by (induction n s rule: count_removable.induct) (auto simp: critical_def split: if_splits)

lemma count_removable_sorted:
  "sorted_wrt (\<lambda>x y. eventPruningPriority y \<le> eventPruningPriority x) s \<Longrightarrow>
   count_removable n s = min n (length (filter (\<lambda>e. \<not> critical e) s))"
proof (induction n s rule: count_removable.induct)
  case (3 n e evs)
  then show ?case
    by (cases "critical e") (auto simp: critical_def filter_empty_conv)
qed simp_all

lemma weak_order_prune_less: "weak_order_on A (prune_less l)"
proof -
  let ?u = "\<lambda>x. if isEventFromUnknownNara l x then 0 else (1 :: nat)"
  have "prune_less l = lex_less (\<lambda>x y. ?u x < ?u y)
      (lex_less (\<lambda>x y. eventPruningPriority y < eventPruningPriority x) (\<lambda>x y. Timestamp x < Timestamp y))"
    by (intro ext) (auto simp: prune_less_def lex_less_def Let_def)
  then show ?thesis by (simp only: weak_order_on_lex weak_order_on_key weak_order_on_key_desc)
qed

lemma prune_sorted:
  assumes "sort_algorithm srt"
  shows "sorted_wrt (\<lambda>x y. \<not> prune_less l y x) (sort_slice srt (prune_less l) evs)"
  by (rule sort_algorithm.sorted_sort_slice [OF assms weak_order_prune_less])

lemma known_prune_less:
  assumes "\<not> isEventFromUnknownNara l x" and "\<not> isEventFromUnknownNara l y" and "\<not> prune_less l y x"
  shows "eventPruningPriority y < eventPruningPriority x \<or>
         eventPruningPriority y = eventPruningPriority x \<and> Timestamp x \<le> Timestamp y"
  using assms by (auto simp: prune_less_def Let_def split: if_splits)

text \<open>The listing of an observation addition, once its pair has been compacted.\<close>

lemma AddEvent_observation:
  assumes "Service e = ServiceObservation" and "Observation e = Some p"
  shows "AddEvent G e l = validate_and_append G e (compact_pair p l)"
    "AddEventWithDedup G e l = (if duplicate_observation p (Events l) then Inr (False, l, [])
                                else validate_and_append G e (compact_pair p l))"
  using assms by (simp_all add: AddEvent_def AddEventWithDedup_def is_observation_def addObservationWithCompaction_def)

lemma compact_pair_keeps:
  assumes "x \<in> set (Events l)" and "is_restart x" and "\<not> list_ex (is_checkpoint_for (ob_Subject p)) (Events l)"
  shows "x \<in> set (Events (compact_pair p l))"
proof (cases rule: compact_pair_cases [of p l])
  case keep
  then show ?thesis using assms(1) by simp
next
  case (drop i)
  have "\<not> is_restart (Events l ! i)" using compaction_victim_SomeD(5) [OF drop(1)] assms(3) by blast
  then have "x \<noteq> Events l ! i" using assms(2) by auto
  moreover have "set_mset (mset (Events l)) = insert (Events l ! i) (set (remove_index i (Events l)))"
    using mset_remove_index [OF drop(2)] by (metis set_mset_add_mset_insert set_mset_mset)
  ultimately show ?thesis using assms(1) drop(3) by auto
qed

section \<open>Demonstration data\<close>

definition demo_obs :: "string \<Rightarrow> int \<Rightarrow> int \<Rightarrow> SyncEvent" where
  \<comment> \<open>a status-change observation of \<open>b\<close> by \<open>a\<close>\<close>
  "demo_obs i t n = zero_event\<lparr>ID := i, Timestamp := t, Service := ServiceObservation,
     Observation := Some (zero_obs\<lparr>ob_Observer := ''a'', ob_Subject := ''b'', ob_Type := ''status-change'',
        ob_Importance := ImportanceNormal, ob_OnlineState := ''ONLINE'', ob_RestartNum := n\<rparr>)\<rparr>"

definition demo_restart :: "string \<Rightarrow> int \<Rightarrow> int \<Rightarrow> SyncEvent" where
  "demo_restart i t n = zero_event\<lparr>ID := i, Timestamp := t, Service := ServiceObservation,
     Observation := Some (zero_obs\<lparr>ob_Observer := ''a'', ob_Subject := ''b'', ob_Type := ''restart'',
        ob_Importance := ImportanceCritical, ob_StartTime := 5, ob_RestartNum := n\<rparr>)\<rparr>"

definition demo_ping :: "string \<Rightarrow> int \<Rightarrow> SyncEvent" where
  "demo_ping i t = zero_event\<lparr>ID := i, Timestamp := t, Service := ServicePing,
     Ping := Some \<lparr>pi_Observer = ''a'', pi_ObserverID = [], pi_Target = ''b'', pi_TargetID = [], pi_RTT = 1\<rparr>\<rparr>"

definition demo_ledger :: "int \<Rightarrow> SyncEvent list \<Rightarrow> SyncLedger" where
  "demo_ledger cap evs = (NewSyncLedger cap)\<lparr>Events := evs, eventIDs := set (map ID evs)\<rparr>"

lemma demo_ping_fields [simp]:
  "Service (demo_ping i t) = ServicePing" "ID (demo_ping i t) = i" "Timestamp (demo_ping i t) = t"
  "is_ping_to u (demo_ping i t) \<longleftrightarrow> u = ''b''" "\<not> is_observation (demo_ping i t)"
  "\<not> shouldFilterCheckpoint (demo_ping i t)" "has_payload (demo_ping i t)" "Observation (demo_ping i t) = None"
  "event_IsValid (demo_ping i t) = Inr (t \<noteq> 0)" "eventPruningPriority (demo_ping i t) = 4"
  "Ping (demo_ping i t) = Some \<lparr>pi_Observer = ''a'', pi_ObserverID = [], pi_Target = ''b'', pi_TargetID = [], pi_RTT = 1\<rparr>"
  by (auto simp: demo_ping_def is_ping_to_def is_observation_def shouldFilterCheckpoint_def has_payload_def
      Payload_def event_IsValid_def ping_IsValid_def f64_gt_zero_def eventPruningPriority_def Let_def)

lemma demo_obs_fields [simp]:
  "Service (demo_obs i t n) = ServiceObservation" "ID (demo_obs i t n) = i" "Timestamp (demo_obs i t n) = t"
  "is_observation (demo_obs i t n)" "has_payload (demo_obs i t n)"
  "event_IsValid (demo_obs i t n) = Inr (t \<noteq> 0)" "eventPruningPriority (demo_obs i t n) = 1"
  "Observation (demo_obs i t n) = Some (zero_obs\<lparr>ob_Observer := ''a'', ob_Subject := ''b'', ob_Type := ''status-change'',
        ob_Importance := ImportanceNormal, ob_OnlineState := ''ONLINE'', ob_RestartNum := n\<rparr>)"
  by (auto simp: demo_obs_def is_observation_def has_payload_def Payload_def event_IsValid_def
      observation_IsValid_def ImportanceNormal_def ImportanceCasual_def ImportanceCritical_def
      eventPruningPriority_def Let_def zero_obs_def)

lemma demo_restart_fields [simp]:
  "Service (demo_restart i t n) = ServiceObservation" "ID (demo_restart i t n) = i"
  "Timestamp (demo_restart i t n) = t" "is_observation (demo_restart i t n)" "has_payload (demo_restart i t n)"
  "eventPruningPriority (demo_restart i t n) = 0" "is_restart (demo_restart i t n)"
  "event_IsValid (demo_restart i t n) = Inr (t \<noteq> 0 \<and> 0 \<le> n)"
  "Observation (demo_restart i t n) = Some (zero_obs\<lparr>ob_Observer := ''a'', ob_Subject := ''b'', ob_Type := ''restart'',
        ob_Importance := ImportanceCritical, ob_StartTime := 5, ob_RestartNum := n\<rparr>)"
  by (auto simp: demo_restart_def is_observation_def has_payload_def Payload_def event_IsValid_def
      observation_IsValid_def ImportanceNormal_def ImportanceCasual_def ImportanceCritical_def
      eventPruningPriority_def Let_def zero_obs_def is_restart_def obs_of_def)

lemma demo_ledger_fields [simp]:
  "Events (demo_ledger cap evs) = evs" "eventIDs (demo_ledger cap evs) = set (map ID evs)"
  "MaxEvents (demo_ledger cap evs) = cap" "isUnknownNara (demo_ledger cap evs) = None"
  "listeners (demo_ledger cap evs) = []" "version (demo_ledger cap evs) = 0"
  by (simp_all add: demo_ledger_def NewSyncLedger_def)

lemma demo_reachable: "reachable demo_env 3 (append_event (demo_ping ''x'' 7) (NewSyncLedger 3))"
proof (rule reach_step [OF reach_new], rule step_add)
  show "AddEvent demo_env (demo_ping ''x'' 7) (NewSyncLedger 3) =
      Inr (True, append_event (demo_ping ''x'' 7) (NewSyncLedger 3), [])"
    by (simp add: AddEvent_def with_id_def make_room_for_ping_def NewSyncLedger_def indexed_def
        MaxPingsPerTarget_def prune_if_over_def append_event_def notifyListeners_def)
qed

section \<open>Properties\<close>

text \<open>
  C1: the ledger's invariant. In every state that the operations of the ledger reach from
  \<open>NewSyncLedger\<close>, in any order and with any arguments, the ID index is exactly the set of IDs
  of the stored events, no ID is stored twice, and every stored event is valid.
\<close>

theorem reachable_ledger_wf:
  assumes "sort_algorithm (sort_perm G)" and "reachable G cap l"
  shows "eventIDs l = ID ` set (Events l) \<and> distinct (map ID (Events l)) \<and>
         (\<forall>e \<in> set (Events l). event_IsValid e = Inr True)"
  using reachable_safe [OF assms] by (simp add: ledger_safe_def ledger_wf_def)

theorem reachable_ledger_wf_witness:
  "eventIDs (append_event (demo_ping ''x'' 7) (NewSyncLedger 3)) = {''x''}"
  using reachable_ledger_wf [OF sort_algorithm_demo demo_reachable]
  by (simp add: append_event_def NewSyncLedger_def)

text \<open>
  the ping diversity bound. In every reachable state no target has more than five
  (\<open>MaxPingsPerTarget\<close>) ping observations in the ledger.
\<close>

theorem reachable_ping_bound:
  assumes "sort_algorithm (sort_perm G)" and "reachable G cap l"
  shows "length (filter (is_ping_to target) (Events l)) \<le> MaxPingsPerTarget"
  using reachable_safe [OF assms] by (simp add: ledger_safe_def pings_bounded_def)

theorem reachable_ping_bound_witness:
  "length (filter (is_ping_to ''b'') (Events (append_event (demo_ping ''x'' 7) (NewSyncLedger 3)))) \<le> 5"
  using reachable_ping_bound [OF sort_algorithm_demo demo_reachable, of "''b''"]
  by (simp add: MaxPingsPerTarget_def)

text \<open>
  C3: the compaction bound. In every reachable state an observer holds at most twenty
  (\<open>MaxObservationsPerPair\<close>) observations of a subject other than restarts.
\<close>

theorem reachable_pair_bound:
  assumes "sort_algorithm (sort_perm G)" and "reachable G cap l"
  shows "length (filter (\<lambda>x. obs_of x (\<lambda>q. same_pair p q \<and> ob_Type q \<noteq> ''restart'')) (Events l))
           \<le> MaxObservationsPerPair"
  using reachable_safe [OF assms] by (simp add: ledger_safe_def pairs_bounded_def plain_obs_def [abs_def])

theorem reachable_pair_bound_witness:
  "length (filter (\<lambda>x. obs_of x (\<lambda>q. same_pair zero_obs q \<and> ob_Type q \<noteq> ''restart''))
     (Events (append_event (demo_ping ''x'' 7) (NewSyncLedger 3)))) \<le> 20"
  using reachable_pair_bound [OF sort_algorithm_demo demo_reachable, of zero_obs]
  by (simp add: MaxObservationsPerPair_def)

text \<open>
  C10: critical events survive pruning. Checkpoints, restart and first-seen observations
  (pruning priority 0) are still in the ledger after \<open>Prune\<close>, however far it is over its limit.
\<close>

theorem prune_keeps_critical:
  assumes "sort_algorithm (sort_perm G)" and "x \<in> set (Events l)" and "eventPruningPriority x = 0"
  shows "x \<in> set (Events (Prune G l))"
proof (cases rule: pruneUnlocked_cases [OF assms(1), of l])
  case 1
  then show ?thesis using assms(2) by (simp add: Prune_def)
next
  case (2 removed kept)
  have "removed = take (count_removable (nat (int (length (Events l)) - MaxEvents l)) (removed @ kept)) (removed @ kept)"
    using 2(4) by (metis append_eq_conv_conj)
  then have "x \<notin> set removed" using count_removable_prefix assms(3) by (metis critical_def)
  moreover have "x \<in> set (removed @ kept)" using mset_eq_setD [OF 2(2)] assms(2) by simp
  moreover have "set (Events (Prune G l)) = set kept" using mset_eq_setD [OF 2(5)] by (simp add: Prune_def)
  ultimately show ?thesis by auto
qed

theorem prune_keeps_critical_witness:
  "demo_restart ''r'' 1 1 \<in> set (Events (Prune demo_env
     (demo_ledger 1 [demo_restart ''r'' 1 1, demo_ping ''x'' 7, demo_ping ''y'' 8])))"
  by (rule prune_keeps_critical [OF sort_algorithm_demo]) simp_all

text \<open>
  pruning makes room. When no stored event names an unknown nara, \<open>Prune\<close> leaves exactly
  \<open>MaxEvents\<close> events, or all the critical ones if they alone are more, or everything if the
  ledger is not over its limit.
\<close>

theorem prune_size:
  assumes "sort_algorithm (sort_perm G)" and "\<forall>e \<in> set (Events l). \<not> isEventFromUnknownNara l e"
  shows "int (length (Events (Prune G l))) =
           (if int (length (Events l)) \<le> MaxEvents l then int (length (Events l))
            else max (MaxEvents l) (int (length (filter (\<lambda>e. eventPruningPriority e = 0) (Events l)))))"
proof (cases rule: pruneUnlocked_cases [OF assms(1), of l])
  case 1
  then show ?thesis by (simp add: Prune_def)
next
  case (2 removed kept)
  let ?s = "removed @ kept"
  have o: "sorted_wrt (\<lambda>x y. \<not> prune_less l y x) ?s" using prune_sorted [OF assms(1)] 2(3) by metis
  have kn: "\<not> isEventFromUnknownNara l e" if "e \<in> set ?s" for e
    using assms(2) mset_eq_setD [OF 2(2)] that by blast
  have "eventPruningPriority y \<le> eventPruningPriority x"
    if "x \<in> set ?s" "y \<in> set ?s" "\<not> prune_less l y x" for x y
    using known_prune_less [OF kn [OF that(1)] kn [OF that(2)] that(3)] by linarith
  then have "sorted_wrt (\<lambda>x y. eventPruningPriority y \<le> eventPruningPriority x) ?s"
    by (rule sorted_wrt_mono_rel [OF _ o])
  then have r: "length removed = min (nat (int (length (Events l)) - MaxEvents l)) (length (filter (\<lambda>e. \<not> critical e) ?s))"
    using count_removable_sorted 2(4) by metis
  have f: "length (filter P ?s) = length (filter P (Events l))" for P
    using 2(2) by (metis mset_filter size_mset)
  have l: "length removed + length kept = length (Events l)"
    using mset_eq_length [OF 2(2)] by simp
  have c: "length (filter critical (Events l)) + length (filter (\<lambda>e. \<not> critical e) (Events l)) = length (Events l)"
    by (rule sum_length_filter_compl)
  have k: "length (Events (Prune G l)) = length kept" using mset_eq_length [OF 2(5)] by (simp add: Prune_def)
  have "int (length removed) = min (int (length (Events l)) - MaxEvents l)
      (int (length (filter (\<lambda>e. \<not> critical e) (Events l))))"
    using r 2(1) unfolding f by simp
  then show ?thesis
    using 2(1) l c k unfolding critical_def [symmetric] by (simp add: min_def max_def split: if_splits)
qed

theorem prune_size_witness:
  "length (Events (Prune demo_env
     (demo_ledger 1 [demo_restart ''r'' 1 1, demo_ping ''x'' 7, demo_ping ''y'' 8]))) = 1"
  using prune_size [OF sort_algorithm_demo,
      of "demo_ledger 1 [demo_restart ''r'' 1 1, demo_ping ''x'' 7, demo_ping ''y'' 8]"]
  by (simp add: isEventFromUnknownNara_def)

text \<open>
  pruning order. An event that \<open>Prune\<close> drops never ranks below one that it keeps: when
  both name only known naras, the dropped one has a higher priority number, or the same and it
  is not newer; and no event of a known nara is dropped while one of an unknown nara is kept.
\<close>

theorem prune_order:
  assumes "sort_algorithm (sort_perm G)" and "x \<in> set (Events l)" and "x \<notin> set (Events (Prune G l))"
    and "y \<in> set (Events (Prune G l))"
  shows "isEventFromUnknownNara l x \<and> \<not> isEventFromUnknownNara l y \<or>
         (isEventFromUnknownNara l x = isEventFromUnknownNara l y \<and>
          (eventPruningPriority y < eventPruningPriority x \<or>
           eventPruningPriority y = eventPruningPriority x \<and> Timestamp x \<le> Timestamp y))"
proof (cases rule: pruneUnlocked_cases [OF assms(1), of l])
  case 1
  then show ?thesis using assms(2,3) by (simp add: Prune_def)
next
  case (2 removed kept)
  have k: "set (Events (Prune G l)) = set kept" using mset_eq_setD [OF 2(5)] by (simp add: Prune_def)
  moreover have "x \<in> set (removed @ kept)" using mset_eq_setD [OF 2(2)] assms(2) by simp
  ultimately have "x \<in> set removed" using assms(3) by auto
  moreover have "sorted_wrt (\<lambda>x y. \<not> prune_less l y x) (removed @ kept)"
    using prune_sorted [OF assms(1)] 2(3) by metis
  ultimately have "\<not> prune_less l y x" using k assms(4) by (simp add: sorted_wrt_append)
  then show ?thesis
    using known_prune_less [of l x y] unfolding prune_less_def Let_def
    by (cases "isEventFromUnknownNara l x"; cases "isEventFromUnknownNara l y";
        simp only: if_True if_False simp_thms split: if_split_asm) auto
qed

theorem prune_order_witness:
  "demo_ping ''x'' 7 \<notin> set (Events (Prune demo_env (demo_ledger 1 [demo_restart ''r'' 1 1, demo_ping ''x'' 7]))) \<and>
   eventPruningPriority (demo_restart ''r'' 1 1) < eventPruningPriority (demo_ping ''x'' 7)"
proof -
  let ?l = "demo_ledger 1 [demo_restart ''r'' 1 1, demo_ping ''x'' 7]"
  let ?e = "Events (Prune demo_env ?l)"
  have p: "Events (Prune demo_env ?l) = [demo_restart ''r'' 1 1]"
    by (simp add: Prune_def pruneUnlocked_def sort_slice_def insertion_sorter_def prune_less_def
        isEventFromUnknownNara_def Let_def numeral_2_eq_2)
  have "demo_ping ''x'' 7 \<noteq> demo_restart ''r'' 1 1" by (metis demo_obs_fields(1) demo_ping_fields(1) demo_restart_fields(1) services_distinct(2) services_neq(7))
  then have x: "demo_ping ''x'' 7 \<notin> set ?e" unfolding p by simp
  show ?thesis
    using prune_order [OF sort_algorithm_demo _ x, of "demo_restart ''r'' 1 1"] x unfolding p
    by (simp add: isEventFromUnknownNara_def)
qed

text \<open>A successful \<open>AddEvent\<close> into a ledger with room.\<close>

definition has_room :: "SyncEvent \<Rightarrow> SyncLedger \<Rightarrow> bool" where
  "has_room e l \<longleftrightarrow> is_observation e \<or> MaxEvents l \<le> 0 \<or> int (length (Events l)) < MaxEvents l"

lemma has_room_stored:
  assumes "has_room e0 l" and "\<not> is_observation e0" and "make_room_for_ping e l = Some l1"
  shows "prune_if_over G (append_event e l1) = append_event e l1"
proof -
  have "length (Events l1) \<le> length (Events l)"
    using shrinks_filter [OF shrinks_make_room [OF assms(3)], of "\<lambda>_. True"] by simp
  moreover have "MaxEvents l1 = MaxEvents l" using make_room_cases [OF assms(3)] by auto
  ultimately show ?thesis
    using assms(1,2) by (auto simp: has_room_def prune_if_over_def append_event_def)
qed

lemma notify_compact [simp]: "notifyListeners (compact_pair p l) e = notifyListeners l e"
  by (simp add: notifyListeners_def)

lemma addObservation_stored:
  assumes "addObservationWithCompaction G e0 d l = Inr (True, l', calls)"
  shows "\<exists>e l1. with_id G e0 = Inr e \<and> event_IsValid e = Inr True \<and> shrinks l l1 \<and> l' = append_event e l1 \<and>
           calls = notifyListeners l e"
proof -
  obtain p where "validate_and_append G e0 l = Inr (True, l', calls) \<or>
      validate_and_append G e0 (compact_pair p l) = Inr (True, l', calls)"
    using assms by (auto simp: addObservationWithCompaction_def split: option.splits if_splits)
  then show ?thesis
    using shrinks_compact_pair [of l p] shrinks_refl [of l]
    by (elim disjE validate_and_append_cases; simp only: notify_compact) (blast, blast)
qed

text \<open>
  what a successful addition does. If \<open>AddEvent\<close> returns true and the ledger had room (or
  the event is an observation, which is never followed by pruning), the event with its ID is
  the last one stored, it is valid, its ID is in the index, every listener is called once with
  it in registration order, and nothing but it was added.
\<close>

theorem AddEvent_stores:
  assumes "sort_algorithm (sort_perm G)" and "ledger_wf l" and "AddEvent G e0 l = Inr (True, l', calls)"
    and "is_observation e0 \<or> MaxEvents l \<le> 0 \<or> int (length (Events l)) < MaxEvents l"
  shows "\<exists>e. with_id G e0 = Inr e \<and> event_IsValid e = Inr True \<and> Events l' \<noteq> [] \<and> last (Events l') = e \<and>
             ID e \<in> eventIDs l' \<and> calls = map (\<lambda>h. (h, e)) (listeners l) \<and>
             set (Events l') \<subseteq> insert e (set (Events l))"
  using assms(3)
proof (cases rule: AddEvent_cases)
  case observation
  from addObservation_stored [OF observation(2)] show ?thesis
    by (auto simp: append_event_def notifyListeners_def dest: subsetD [OF shrinks_set])
next
  case (stored e l1)
  have "l' = append_event e l1"
    using has_room_stored [of e0 l e l1 G] assms(4) stored by (simp add: has_room_def)
  then show ?thesis
    using stored shrinks_set [OF shrinks_make_room [OF stored(7)]]
    by (auto simp: append_event_def notifyListeners_def)
qed simp

theorem AddEvent_stores_witness:
  "last (Events (append_event (demo_ping ''x'' 7) (NewSyncLedger 3))) = demo_ping ''x'' 7"
proof -
  have a: "AddEvent demo_env (demo_ping ''x'' 7) (NewSyncLedger 3) =
      Inr (True, append_event (demo_ping ''x'' 7) (NewSyncLedger 3), [])"
    by (simp add: AddEvent_def with_id_def make_room_for_ping_def NewSyncLedger_def indexed_def
        MaxPingsPerTarget_def prune_if_over_def append_event_def notifyListeners_def)
  show ?thesis
    using AddEvent_stores [OF sort_algorithm_demo ledger_wf_new a] by (auto simp: NewSyncLedger_def with_id_def)
qed

text \<open>
  duplicates are refused. An event that is not an observation and whose ID the ledger
  already holds is refused by \<open>AddEvent\<close>, and nothing changes, not even the version.
\<close>

theorem AddEvent_refuses_known:
  assumes "has_payload e" and "\<not> is_observation e" and "with_id G e = Inr e'" and "ID e' \<in> eventIDs l"
  shows "AddEvent G e l = Inr (False, l, [])"
proof -
  obtain b where "event_IsValid e' = Inr b"
    using event_IsValid_total [of e'] assms(1) with_id_InrD [OF assms(3)] by auto
  then show ?thesis using assms(2-4) by (simp add: AddEvent_def)
qed

theorem AddEvent_refuses_known_witness:
  "AddEvent demo_env (demo_ping ''x'' 7) (demo_ledger 3 [demo_ping ''x'' 7]) =
     Inr (False, demo_ledger 3 [demo_ping ''x'' 7], [])"
  by (rule AddEvent_refuses_known [where e' = "demo_ping ''x'' 7"]) (simp_all add: with_id_def)

text \<open>
  C13: when \<open>AddEvent\<close> panics. It dereferences a nil pointer exactly when the service of the
  event is one of the seven but its payload is nil, and the event has no ID yet or a nonzero
  timestamp; in every other case it returns. No state of the ledger can make it panic.
\<close>

theorem AddEvent_panics_iff:
  "AddEvent G e l = Inl p \<longleftrightarrow> p = NilDereference \<and> \<not> has_payload e \<and> (ID e = [] \<or> Timestamp e \<noteq> 0)"
proof (cases "has_payload e")
  case True
  then show ?thesis using AddEvent_present [OF True, of G l] by auto
next
  case False
  then show ?thesis by (auto simp: AddEvent_absent)
qed

theorem AddEvent_panics_iff_witness:
  "AddEvent demo_env (zero_event\<lparr>Service := ServicePing, Timestamp := 5\<rparr>) (demo_ledger 10 []) = Inl NilDereference"
  by (simp only: AddEvent_panics_iff) (simp add: has_payload_def Payload_def zero_event_def)

text \<open>
  restart history is kept. While the subject has no checkpoint in the ledger, adding an
  observation about it through \<open>AddEvent\<close> or \<open>AddEventWithDedup\<close> never drops a restart
  event, however full the observer's pair is.
\<close>

theorem restart_history_kept:
  assumes "Service e = ServiceObservation" and "Observation e = Some p"
    and "\<forall>c \<in> set (Events l). \<not> is_checkpoint_for (ob_Subject p) c"
    and "x \<in> set (Events l)" and "is_restart x"
    and "AddEvent G e l = Inr (ok, l', calls) \<or> AddEventWithDedup G e l = Inr (ok, l', calls)"
  shows "x \<in> set (Events l')"
proof -
  have "x \<in> set (Events (compact_pair p l))"
    using assms(3-5) by (intro compact_pair_keeps) (auto simp: list_ex_iff)
  moreover have "l' = l \<or> validate_and_append G e (compact_pair p l) = Inr (ok, l', calls)"
    using assms(6) by (auto simp: AddEvent_observation [OF assms(1,2)] split: if_splits)
  ultimately show ?thesis
    using assms(4) by (auto elim!: validate_and_append_cases simp: append_event_def)
qed

theorem restart_history_kept_witness:
  "\<exists>l'. AddEvent demo_env (demo_obs ''o'' 2 0) (demo_ledger 9 (map (\<lambda>n. demo_restart (fmt_nat n) 1 (int n)) [0..<20])) = Inr (True, l', []) \<and>
     (\<forall>n < 20. demo_restart (fmt_nat n) 1 (int n) \<in> set (Events l'))"
proof -
  let ?l = "demo_ledger 9 (map (\<lambda>n. demo_restart (fmt_nat n) 1 (int n)) [0..<20])"
  let ?e = "demo_obs ''o'' 2 0"
  obtain r where r: "AddEvent demo_env ?e ?l = Inr r" using AddEvent_present [of ?e demo_env ?l] by auto
  obtain ok l' calls where k: "r = (ok, l', calls)" by (cases r)
  have o: "''o'' \<noteq> fmt_nat n" for n
  proof
    assume "''o'' = fmt_nat n"
    then have "CHR ''o'' \<in> set (fmt_nat n)" by (metis list.set_intros(1))
    then obtain d where d: "d < 10" "CHR ''o'' = digit_char d" using fmt_nat_digits by blast
    have "(of_char (CHR ''o'') :: nat) = 48 + d" unfolding d(2) by (rule of_char_digit [OF d(1)])
    then show False using d(1) by simp
  qed
  have "ok \<and> calls = []"
  proof -
    have "''o'' \<notin> eventIDs (compact_pair p ?l)" for p
      using o shrinks_IDs [of ?l "compact_pair p ?l"] by (cases rule: compact_pair_cases [of p ?l]) auto
    then show ?thesis
      using r k by (auto simp: AddEvent_observation validate_and_append_def with_id_def notifyListeners_def)
  qed
  moreover have "demo_restart (fmt_nat n) 1 (int n) \<in> set (Events l')" if "n < 20" for n
    by (rule restart_history_kept [of ?e _ ?l _ demo_env ok l' calls])
      (use r k that in \<open>auto simp: is_checkpoint_for_def\<close>)
  ultimately show ?thesis using r k by auto
qed

text \<open>
  reports of one restart are merged. \<open>AddEventWithDedup\<close> refuses a restart that the ledger
  already knows with the same subject, restart number and start time, whoever observed it, and
  a first-seen that the same observer already reported of that subject; nothing changes.
\<close>

theorem dedup_refuses_known_fact:
  assumes "Service e = ServiceObservation" and "Observation e = Some p"
    and "x \<in> set (Events l)" and "Service x = ServiceObservation" and "Observation x = Some q"
    and "ob_Subject q = ob_Subject p" and "ob_Type q = ob_Type p"
    and "(ob_Type p = ''restart'' \<and> ob_RestartNum q = ob_RestartNum p \<and> ob_StartTime q = ob_StartTime p) \<or>
         (ob_Type p = ''first-seen'' \<and> ob_Observer q = ob_Observer p)"
  shows "AddEventWithDedup G e l = Inr (False, l, [])"
proof -
  have "same_restart p q \<or> same_first_seen p q"
    using assms(6-8) by (auto simp: same_restart_def same_first_seen_def)
  then have "duplicate_observation p (Events l)"
    using assms(3-5) by (auto simp: duplicate_observation_def list_ex_iff obs_of_def)
  then show ?thesis using assms(1,2) by (simp add: AddEvent_observation)
qed

theorem dedup_refuses_known_fact_witness:
  "AddEventWithDedup demo_env (demo_restart ''new'' 9 4) (demo_ledger 5 [demo_restart ''old'' 1 4]) =
     Inr (False, demo_ledger 5 [demo_restart ''old'' 1 4], [])"
  by (rule dedup_refuses_known_fact [OF demo_restart_fields(1) demo_restart_fields(9) _
        demo_restart_fields(1) demo_restart_fields(9)]) (simp_all add: zero_obs_def)

text \<open>
  personality never hides critical observations. \<open>AddEventFiltered\<close> treats a critical
  observation exactly as \<open>AddEvent\<close> does, for every personality, and what it drops is always an
  observation of normal importance met by a chill above 85.
\<close>

theorem filter_never_drops_critical:
  "(obs_of e (\<lambda>q. ob_Importance q = ImportanceCritical) \<longrightarrow> AddEventFiltered G e personality l = AddEvent G e l) \<and>
   (AddEventFiltered G e personality l \<noteq> AddEvent G e l \<longrightarrow>
      obs_of e (\<lambda>q. ob_Importance q = ImportanceNormal) \<and> Chill personality > 85 \<and>
      AddEventFiltered G e personality l = Inr (False, l, []))"
proof (cases "if Service e = ServiceObservation then Observation e else None")
  case None
  then show ?thesis by (auto simp: AddEventFiltered_def obs_of_iff split: if_splits)
next
  case (Some q)
  then have "Service e = ServiceObservation" "Observation e = Some q" by (simp_all split: if_splits)
  then show ?thesis by (auto simp: AddEventFiltered_def obs_of_iff ImportanceCritical_def ImportanceNormal_def)
qed

theorem filter_never_drops_critical_witness:
  "AddEventFiltered demo_env (demo_restart ''r'' 1 1) \<lparr>Agreeableness = 0, Sociability = 0, Chill = 100\<rparr> (demo_ledger 5 []) =
   AddEvent demo_env (demo_restart ''r'' 1 1) (demo_ledger 5 [])"
  using filter_never_drops_critical [of "demo_restart ''r'' 1 1" demo_env "\<lparr>Agreeableness = 0, Sociability = 0, Chill = 100\<rparr>" "demo_ledger 5 []"]
  by (simp add: obs_of_def)

text \<open>
  \<open>RemoveEventsFor\<close> removes exactly the events that involve the nara. The others stay, in
  order; the result is their number; the index loses exactly the IDs of the removed ones; the
  version changes if and only if something was removed.
\<close>

theorem RemoveEventsFor_exact:
  assumes "ledger_wf l" and "RemoveEventsFor name l = (n, l')" and "in_i64 (version l + 1)"
  shows "Events l' = filter (\<lambda>e. \<not> eventInvolvesNara e name) (Events l) \<and>
         n = int (length (Events l)) - int (length (Events l')) \<and>
         eventIDs l' = ID ` set (Events l') \<and>
         version l' = (if \<exists>e \<in> set (Events l). eventInvolvesNara e name then version l + 1 else version l)"
proof -
  let ?P = "\<lambda>e. eventInvolvesNara e name"
  have c: "length (filter ?P (Events l)) + length (filter (\<lambda>e. \<not> ?P e) (Events l)) = length (Events l)"
    by (rule sum_length_filter_compl)
  have "eventIDs l' = ID ` set (Events l')"
    using shrinks_RemoveEventsFor [OF assms(2)] assms(1) by (simp add: shrinks_def)
  moreover have "Events l' = filter (\<lambda>e. \<not> ?P e) (Events l)"
    using assms(2) by (auto simp: RemoveEventsFor_def Let_def filter_id_conv filter_empty_conv split: if_splits)
  moreover have "version l' = (if \<exists>e \<in> set (Events l). ?P e then version l + 1 else version l)"
    using assms(2,3) by (auto simp: RemoveEventsFor_def Let_def filter_empty_conv split: if_splits)
  moreover have "n = int (length (filter ?P (Events l)))"
    using assms(2) by (simp add: RemoveEventsFor_def Let_def)
  ultimately show ?thesis using c by simp
qed

theorem RemoveEventsFor_exact_witness:
  "Events (snd (RemoveEventsFor ''a'' (append_event (demo_ping ''x'' 7) (NewSyncLedger 3)))) = []"
proof -
  let ?l = "append_event (demo_ping ''x'' 7) (NewSyncLedger 3)"
  have "ledger_wf ?l" using reachable_safe [OF sort_algorithm_demo demo_reachable] by (simp add: ledger_safe_def)
  from RemoveEventsFor_exact [OF this prod.collapse [symmetric], of "''a''"] show ?thesis
    by (simp add: append_event_def NewSyncLedger_def eventInvolvesNara_def in_i64_def)
qed

text \<open>
  merging a batch. \<open>MergeEvents\<close> returns how many of the events it stored, between 0 and
  the number that pass \<open>FilterEventsForIngestion\<close>; the listeners are called exactly once per
  stored event and listener; the ledger keeps all its invariants and its configuration.
\<close>

theorem MergeEvents_batch:
  assumes "sort_algorithm (sort_perm G)" and "ledger_wf l" and "pings_bounded l" and "pairs_bounded l"
    and "MergeEvents G evs l = Inr (n, l', calls)"
  shows "0 \<le> n \<and> n \<le> int (length (filter (\<lambda>e. \<not> shouldFilterCheckpoint e) evs)) \<and>
         int (length calls) = n * int (length (listeners l)) \<and>
         ledger_wf l' \<and> pings_bounded l' \<and> pairs_bounded l' \<and>
         MaxEvents l' = MaxEvents l \<and> listeners l' = listeners l"
  using add_event.batch [OF assms(5) [unfolded MergeEvents_def], of] assms(1-4)
  by (simp add: FilterEventsForIngestion_def same_config_def)

theorem MergeEvents_batch_witness:
  "\<exists>n l' calls. MergeEvents demo_env [demo_ping ''x'' 7, demo_ping ''x'' 7] (NewSyncLedger 3) = Inr (n, l', calls) \<and>
     n \<le> 2 \<and> ledger_wf l'"
proof -
  let ?l = "append_event (demo_ping ''x'' 7) (NewSyncLedger 3)"
  have a: "AddEvent demo_env (demo_ping ''x'' 7) (NewSyncLedger 3) = Inr (True, ?l, [])"
    by (simp add: AddEvent_def with_id_def make_room_for_ping_def NewSyncLedger_def indexed_def
        MaxPingsPerTarget_def prune_if_over_def append_event_def notifyListeners_def)
  have b: "AddEvent demo_env (demo_ping ''x'' 7) ?l = Inr (False, ?l, [])"
    by (simp add: AddEvent_def with_id_def append_event_def)
  have m: "MergeEvents demo_env [demo_ping ''x'' 7, demo_ping ''x'' 7] (NewSyncLedger 3) = Inr (1, ?l, [])"
    by (simp add: MergeEvents_def FilterEventsForIngestion_def a b)
  show ?thesis
    using MergeEvents_batch [OF sort_algorithm_demo ledger_wf_new pings_bounded_new pairs_bounded_new m] m
    by (simp add: FilterEventsForIngestion_def)
qed

text \<open>
  a duplicate delivered to a full pair costs an event. \<open>AddEvent\<close> compacts the pair before
  it looks at the ID: when the pair is full, redelivering an observation that is already stored
  still evicts the pair's victim \<open>x\<close>. If \<open>x\<close> is another event, the call returns false and \<open>x\<close>
  is gone; if \<open>x\<close> is the stored copy itself, the call stores it again as if it were new.
\<close>

theorem duplicate_at_full_pair:
  assumes "ledger_wf l" and "Service e = ServiceObservation" and "Observation e = Some p"
    and "e \<in> set (Events l)" and "ID e \<noteq> []"
    and "compaction_victim p (Events l) = Some (i, x)"
  shows "\<exists>l' calls. AddEvent G e l = Inr (x = e, l', calls) \<and>
           length (Events l') = (if x = e then length (Events l) else length (Events l) - 1) \<and>
           (x \<noteq> e \<longrightarrow> x \<notin> set (Events l')) \<and> version l' = i64 (version l + 1)"
proof -
  note v = compaction_victim_SomeD [OF assms(6)]
  let ?l = "compact_pair p l"
  have l: "Events ?l = remove_index i (Events l)" "eventIDs ?l = eventIDs l - {ID x}"
    "version ?l = i64 (version l + 1)"
    using assms(6) by (simp_all add: compact_pair_def)
  have inj: "ID x = ID e \<longleftrightarrow> x = e"
    using assms(1,4) v(1,2) by (auto simp: ledger_wf_def distinct_map dest: inj_onD)
  have d: "distinct (Events l)" using assms(1) by (simp add: ledger_wf_def distinct_map)
  have r: "set (Events ?l) = set (Events l) - {x}"
    using set_remove_index_distinct [OF d v(1)] l(1) v(2) by simp
  have n: "length (Events ?l) = length (Events l) - 1" "0 < length (Events l)"
    using l(1) v(1) by auto
  have ok: "with_id G e = Inr e" "event_IsValid e = Inr True" "ID e \<in> eventIDs l"
    using assms(1,4,5) by (auto simp: with_id_def ledger_wf_def)
  show ?thesis
  proof (cases "x = e")
    case True
    then have "AddEvent G e l = Inr (True, append_event e ?l, notifyListeners l e)"
      using ok l(2) by (simp add: AddEvent_observation [OF assms(2,3)] validate_and_append_def)
    then show ?thesis using True n l(3) by (simp add: append_event_def)
  next
    case False
    then have "AddEvent G e l = Inr (False, ?l, [])"
      using ok l(2) inj by (simp add: AddEvent_observation [OF assms(2,3)] validate_and_append_def)
    then show ?thesis using False n r l(3) by simp
  qed
qed

definition full_pair :: SyncLedger where
  \<comment> \<open>twenty status changes of one pair, the first the oldest\<close>
  "full_pair = demo_ledger 100 (map (\<lambda>n. demo_obs (replicate (Suc n) CHR ''x'') (int n + 1) 0) [0..<20])"

lemma full_pair_wf: "ledger_wf full_pair"
  unfolding full_pair_def ledger_wf_def demo_ledger_fields set_map
  by (auto simp: distinct_map inj_on_def comp_def image_image)

lemma full_pair_victim_eq:
  "compaction_victim (the (Observation (demo_obs ''x'' 1 0))) (Events full_pair) = Some (0, demo_obs ''x'' 1 0)"
  by code_simp

theorem duplicate_at_full_pair_witness:
  "\<exists>l' calls. AddEvent demo_env (demo_obs ''xx'' 2 0) full_pair = Inr (False, l', calls) \<and> length (Events l') = 19 \<and>
     demo_obs ''x'' 1 0 \<notin> set (Events l')"
proof -
  have n: "demo_obs ''x'' 1 0 \<noteq> demo_obs ''xx'' 2 0" by (metis demo_obs_fields(3) numeral_One one_eq_numeral_iff semiring_norm(85))
  have m: "demo_obs ''xx'' 2 0 \<in> set (Events full_pair)"
    unfolding full_pair_def by (auto simp: numeral_2_eq_2 intro!: image_eqI [of _ _ 1])
  have "the (Observation (demo_obs ''x'' 1 0)) = the (Observation (demo_obs ''xx'' 2 0))" by simp
  then have v: "compaction_victim (the (Observation (demo_obs ''xx'' 2 0))) (Events full_pair) = Some (0, demo_obs ''x'' 1 0)"
    using full_pair_victim_eq by simp
  have "length (Events full_pair) = 20" by (simp add: full_pair_def)
  then show ?thesis
    using duplicate_at_full_pair [OF full_pair_wf _ _ m _ v, of demo_env] n by auto
qed

end
