(* ===== verification/Query_Properties.thy ===== *)
theory Query_Properties
  imports Ledger_Queries Ledger_Properties
begin

text \<open>
  Properties of the read side: complete retrieval by pages, the slices of a sync, samples,
  signed responses.
\<close>

lemma demo_ping_in [simp]: "wanted [] [] e = Inr True"
  by (simp add: wanted_def)

lemma matching_all [simp]: "matching [] [] evs = evs"
  by (simp add: matching_def)

lemma demo_pings_wf:
  "ledger_wf (demo_ledger 10 [demo_ping ''x'' 7, demo_ping ''y'' 9, demo_ping ''z'' 8])"
  by (auto simp: ledger_wf_def)

text \<open>
  C11: paging retrieves everything, once and in order. Against a well-formed ledger whose
  matching events have positive, pairwise distinct timestamps, a client that follows the
  cursors, with any page size of at least one, stops with exactly the matching events sorted by
  timestamp, after at most one request per event and one more.
\<close>

theorem paging_complete:
  assumes "sort_algorithm (sort_perm G)" and "ledger_wf l"
    and "\<forall>e \<in> set (Events l). 0 < Timestamp e \<and> in_i64 (Timestamp e)"
    and "distinct (map Timestamp (matching services subjects (Events l)))"
    and "0 < pageSize" and "length (Events l) < n"
  shows "fetch_pages n (page_source G l (int pageSize) services subjects) [] [] =
           Fetched (sort_key Timestamp (matching services subjects (Events l)))"
proof -
  let ?S = "sort_key Timestamp (matching services subjects (Events l))"
  have h: "\<forall>e \<in> set (Events l). has_payload e" using assms(2) ledger_wf_has_payload by blast
  have i: "\<forall>e \<in> set (Events l). in_i64 (Timestamp e)" using assms(3) by blast
  have f: "filter (\<lambda>e. cursor_time [] < Timestamp e) ?S = ?S"
    using assms(3) by (auto simp: filter_id_conv cursor_time_def matching_def)
  have "length ?S < n" using assms(6) by (simp add: matching_def) (meson le_less_trans length_filter_le)
  then show ?thesis
    using fetch_pages_complete [OF assms(1) h assms(4) i assms(5) refl, of "[]" n "[]"] unfolding f by simp
qed

theorem paging_complete_witness:
  "fetch_pages 4 (page_source demo_env (demo_ledger 10 [demo_ping ''x'' 7, demo_ping ''y'' 9, demo_ping ''z'' 8]) 1 [] []) [] [] =
     Fetched [demo_ping ''x'' 7, demo_ping ''z'' 8, demo_ping ''y'' 9]"
  using paging_complete [OF sort_algorithm_demo demo_pings_wf, of "[]" "[]" 1 4]
  by (simp add: in_i64_def)

text \<open>
  paging loses events that share a timestamp with the end of a page. The cursor is the
  timestamp of the last event returned and the next page starts strictly after it: of three
  events of one nanosecond, a walk with pages of two returns two and stops.
\<close>

theorem paging_skips_equal_timestamps:
  "\<exists>evs. fetch_pages n (page_source demo_env (demo_ledger 10 [demo_ping ''x'' 7, demo_ping ''y'' 7, demo_ping ''z'' 7]) 2 [] [])
           [] [] = (if n < 2 then OutOfFuel else Fetched evs) \<and> length evs = 2"
proof -
  let ?l = "demo_ledger 10 [demo_ping ''x'' 7, demo_ping ''y'' 7, demo_ping ''z'' 7]"
  let ?fetch = "page_source demo_env ?l 2 [] []"
  let ?s = "sort_slice insertion_sorter older [demo_ping ''x'' 7, demo_ping ''y'' 7, demo_ping ''z'' 7]"
  have m: "mset ?s = mset [demo_ping ''x'' 7, demo_ping ''y'' 7, demo_ping ''z'' 7]"
    by (rule sort_algorithm.mset_sort_slice [OF sort_algorithm_insertion])
  then have len: "length ?s = 3" using mset_eq_length by fastforce
  have "last (take 2 ?s) \<in> set ?s" using len by (metis in_set_takeD last_in_set list.size(3) take_eq_Nil zero_neq_numeral)
  then have t: "Timestamp (last (take 2 ?s)) = 7" using mset_eq_setD [OF m] by auto
  have p1: "?fetch [] = Some (take 2 ?s, fmt_int 7)"
    using len t by (simp add: page_source_def GetEventsPage_def cursor_time_def Let_def)
  have p2: "?fetch (fmt_int 7) = Some ([], [])"
    by (simp add: page_source_def GetEventsPage_def in_i64_def sort_slice_def insertion_sorter_def)
  have "fetch_pages n ?fetch [] [] = (if n < 2 then OutOfFuel else Fetched (take 2 ?s))"
  proof (cases n)
    case (Suc k)
    then show ?thesis using p1 p2 by (cases k) simp_all
  qed simp
  then show ?thesis using len by (intro exI [of _ "take 2 ?s"]) simp
qed

text \<open>
  the slices of a sync cover the ledger exactly. When the same ledger answers the requests
  for slices 0 to n-1 of n without a size limit, every matching event is in exactly one answer
  (counted with multiplicity), and every answer is sorted by timestamp.
\<close>

theorem sync_slices_partition:
  assumes "sort_algorithm (sort_perm G)" and "ledger_wf l" and "1 < n"
    and "\<forall>j \<in> {0..<n}. GetEventsForSync G l services subjects since j n 0 = Inr (part j)"
  shows "(\<Sum>j \<in> {0..<n}. mset (part j)) =
           mset (filter (\<lambda>e. \<not> (since > 0 \<and> Timestamp e \<le> since)) (matching services subjects (Events l))) \<and>
         (\<forall>j \<in> {0..<n}. sorted (map Timestamp (part j)))"
proof -
  let ?f = "filter (\<lambda>e. \<not> (since > 0 \<and> Timestamp e \<le> since)) (matching services subjects (Events l))"
  let ?s = "sort_slice (sort_perm G) older ?f"
  have h: "\<forall>e \<in> set (Events l). has_payload e" using assms(2) ledger_wf_has_payload by blast
  have p: "part j = take_slice j n ?s" if "j \<in> {0..<n}" for j
    using assms(4) that unfolding GetEventsForSync_def go_filter_wanted(2) [OF h] go_bind_Inr Let_def by simp
  have "(\<Sum>j \<in> {0..<n}. mset (part j)) = (\<Sum>j \<in> {0..<n}. mset (take_slice j n ?s))"
    using p by (intro sum.cong) simp_all
  also have "\<dots> = mset ?f"
    unfolding sum_slices [OF assms(3)] by (rule sort_algorithm.mset_sort_slice [OF assms(1)])
  finally have "(\<Sum>j \<in> {0..<n}. mset (part j)) = mset ?f" .
  moreover have "sorted (map Timestamp ?s)"
    unfolding older_def [abs_def] by (rule sort_algorithm.sorted_sort_slice_key [OF assms(1)])
  then have "sorted (map Timestamp (part j))" if "j \<in> {0..<n}" for j
    using p [OF that] take_slice_sorted by (metis sorted_map)
  ultimately show ?thesis by blast
qed

theorem sync_slices_partition_witness:
  "mset (projr (GetEventsForSync demo_env (demo_ledger 10 [demo_ping ''x'' 7, demo_ping ''y'' 9, demo_ping ''z'' 8]) [] [] 0 0 2 0)) +
   mset (projr (GetEventsForSync demo_env (demo_ledger 10 [demo_ping ''x'' 7, demo_ping ''y'' 9, demo_ping ''z'' 8]) [] [] 0 1 2 0)) =
   mset [demo_ping ''x'' 7, demo_ping ''y'' 9, demo_ping ''z'' 8]"
proof -
  let ?l = "demo_ledger 10 [demo_ping ''x'' 7, demo_ping ''y'' 9, demo_ping ''z'' 8]"
  have h: "\<forall>e \<in> set (Events ?l). has_payload e" by simp
  have "\<forall>j \<in> {0..<2}. GetEventsForSync demo_env ?l [] [] 0 j 2 0 = Inr (projr (GetEventsForSync demo_env ?l [] [] 0 j 2 0))"
    unfolding GetEventsForSync_def go_filter_wanted(2) [OF h] go_bind_Inr by simp
  from sync_slices_partition [OF sort_algorithm_demo demo_pings_wf _ this]
  have "(\<Sum>j \<in> {0..<2}. mset (projr (GetEventsForSync demo_env ?l [] [] 0 j 2 0))) = mset (Events ?l)" by simp
  moreover have "{0..<2} = {0, 1 :: int}" by auto
  ultimately show ?thesis by simp
qed

text \<open>The sample.\<close>

lemma sample_candidates:
  assumes "sort_algorithm (sort_perm G)"
  shows "mset (weightedRandomSample G key c n) \<subseteq># mset c"
    "length (weightedRandomSample G key c n) = min (nat n) (length c)"
proof -
  let ?k = "map (\<lambda>(i, e). (key i, e)) (enumerate 0 c)"
  let ?s = "sort_slice (sort_perm G) (\<lambda>(k, _) (k', _). k > k') ?k"
  have m: "mset ?s = mset ?k" by (rule sort_algorithm.mset_sort_slice [OF assms])
  have "map snd ?k = map snd (enumerate 0 c)" by (simp add: case_prod_unfold comp_def)
  then have e: "mset (map snd ?s) = mset c" unfolding mset_map m by (metis map_snd_enumerate mset_map)
  have ms: "mset (take j (map snd ?s)) \<subseteq># mset c" for j
    unfolding e [symmetric] by (metis append_take_drop_id mset_append mset_subset_eq_add_left)
  have l: "length (map snd ?s) = length c" using e by (rule mset_eq_length)
  then show "mset (weightedRandomSample G key c n) \<subseteq># mset c"
    unfolding weightedRandomSample_def using ms by (auto split: if_split)
  show "length (weightedRandomSample G key c n) = min (nat n) (length c)"
    using l by (auto simp: weightedRandomSample_def min_def)
qed

text \<open>
  a sample is honest. Whatever the random keys, \<open>SampleEvents\<close> of a well-formed ledger
  returns matching events only, none twice, sorted by timestamp, as many as asked for or as
  there are; and if the critical ones (checkpoints, hey-there, chau, critical observations) fit,
  all of them are in it.
\<close>

theorem sample_honest:
  assumes "sort_algorithm (sort_perm G)" and "ledger_wf l" and "0 < sampleSize"
  shows "\<exists>r. SampleEvents G key l sampleSize services subjects = Inr r \<and>
           mset r \<subseteq># mset (matching services subjects (Events l)) \<and> sorted (map Timestamp r) \<and>
           length r = min (nat sampleSize) (length (matching services subjects (Events l))) \<and>
           (int (length (filter isCriticalEvent (matching services subjects (Events l)))) \<le> sampleSize \<longrightarrow>
              set (filter isCriticalEvent (matching services subjects (Events l))) \<subseteq> set r)"
proof -
  let ?M = "matching services subjects (Events l)"
  let ?c = "filter isCriticalEvent ?M"
  let ?n = "filter (\<lambda>e. \<not> isCriticalEvent e) ?M"
  let ?sort = "sort_slice (sort_perm G) older"
  have h: "\<forall>e \<in> set (Events l). has_payload e" using assms(2) ledger_wf_has_payload by blast
  have so: "sorted (map Timestamp (?sort xs))" for xs
    unfolding older_def [abs_def] by (rule sort_algorithm.sorted_sort_slice_key [OF assms(1)])
  have ms: "mset (?sort xs) = mset xs" for xs by (rule sort_algorithm.mset_sort_slice [OF assms(1)])
  have len: "length ?c + length ?n = length ?M" by (rule sum_length_filter_compl)
  have mm: "mset ?c + mset ?n = mset ?M" by (simp only: mset_filter multiset_partition [symmetric])
  show ?thesis
  proof (cases "int (length ?c) \<ge> sampleSize")
    case True
    let ?r = "take (nat sampleSize) (?sort ?c)"
    have "mset ?r \<subseteq># mset (?sort ?c)"
      by (metis append_take_drop_id mset_append mset_subset_eq_add_left)
    then have sub: "mset ?r \<subseteq># mset ?M" unfolding ms using mm by (metis mset_subset_eq_add_left subset_mset.order_trans)
    have l: "length (?sort ?c) = length ?c" using ms by (rule mset_eq_length)
    have all: "set ?c \<subseteq> set ?r" if "int (length ?c) \<le> sampleSize"
      using that l mset_eq_setD [OF ms, of ?c] by simp
    have srt: "sorted (map Timestamp ?r)" using so [of ?c] by (simp add: sorted_wrt_take flip: take_map)
    have "length ?r = min (nat sampleSize) (length ?c)" using l by (simp only: length_take min.commute)
    moreover have "nat sampleSize \<le> length ?c" "length ?c \<le> length ?M" using True len by linarith+
    ultimately have "length ?r = min (nat sampleSize) (length ?M)" by linarith
    moreover have "SampleEvents G key l sampleSize services subjects = Inr ?r"
      using True assms(3) unfolding SampleEvents_def go_filter_wanted(1) [OF h] go_bind_Inr Let_def by simp
    ultimately show ?thesis using sub srt all by blast
  next
    case False
    let ?w = "weightedRandomSample G key ?n (sampleSize - int (length ?c))"
    let ?r = "?sort (?c @ ?w)"
    note w = sample_candidates [OF assms(1), of key ?n "sampleSize - int (length ?c)"]
    have "mset ?c + mset ?w \<subseteq># mset ?c + mset ?n" using w(1) by (simp only: mset_subset_eq_mono_add_left_cancel)
    then have sub: "mset ?r \<subseteq># mset ?M" unfolding ms mm by simp
    have "length ?r = length ?c + length ?w" using mset_eq_length [OF ms, of "?c @ ?w"] by simp
    then have l: "length ?r = min (nat sampleSize) (length ?M)" using w(2) len False by linarith
    have all: "set ?c \<subseteq> set ?r" using mset_eq_setD [OF ms, of "?c @ ?w"] by simp
    have "SampleEvents G key l sampleSize services subjects = Inr ?r"
      using False assms(3) unfolding SampleEvents_def go_filter_wanted(1) [OF h] go_bind_Inr Let_def by simp
    then show ?thesis using sub so l all by blast
  qed
qed

theorem sample_honest_witness:
  "\<exists>r. SampleEvents demo_env (\<lambda>i. int i) (demo_ledger 10 [demo_ping ''x'' 7, demo_ping ''y'' 9, demo_ping ''z'' 8]) 2 [] [] = Inr r \<and>
       length r = 2"
  using sample_honest [OF sort_algorithm_demo demo_pings_wf, of 2 "\<lambda>i. int i" "[]" "[]"] by auto

lemma select_total:
  assumes "\<forall>l. ledger = Some l \<longrightarrow> ledger_wf l"
  shows "\<exists>r. select_for_request G key ledger req = Inr r"
proof (cases ledger)
  case (Some l)
  then have h: "\<forall>e \<in> set (Events l). has_payload e" using assms ledger_wf_has_payload by blast
  have i: "\<exists>r. (if b then Inr x else Inr y) = (Inr r :: 'a go)" for b and x y :: 'a by simp
  show ?thesis
    unfolding select_for_request_def Some option.case GetEventsPage_def GetRecentEvents_def
      GetEventsForSync_def SampleEvents_def go_filter_wanted [OF h] go_bind_Inr Let_def
    by (simp add: if_distrib [of "\<lambda>x. go_bind x f" for f] cong: if_cong)
qed (simp add: select_for_request_def)

text \<open>
  a sync response verifies. On a request that names its sender, and on a well-formed ledger,
  the handler always answers, with a signature that verifies under the responder's public key,
  whatever the page cursor in the answer is changed to: the cursor is not part of what is signed.
\<close>

theorem sync_response_verifies:
  assumes "crypto_ok G" and "valid_keypair G keypair" and "PrivateKey keypair \<noteq> []"
    and "rq_From req \<noteq> []" and "\<forall>l. ledger = Some l \<longrightarrow> ledger_wf l"
  shows "\<exists>resp. httpEventsSyncHandler G key nowSec me keypair ledger req = Inr (Some resp) \<and> rs_From resp = me \<and>
           (\<forall>anyCursor. response_VerifySignature G (resp\<lparr>rs_NextCursor := anyCursor\<rparr>) (PublicKey keypair))"
proof -
  obtain events cursor where sel: "select_for_request G key ledger req = Inr (events, cursor)"
    using select_total [OF assms(5)] by (metis surj_pair)
  let ?r = "(NewSignedSyncResponse G nowSec me events keypair)\<lparr>rs_NextCursor := cursor\<rparr>"
  have "httpEventsSyncHandler G key nowSec me keypair ledger req = Inr (Some ?r)"
    using sel assms(4) by (simp add: httpEventsSyncHandler_def)
  moreover have "rs_From ?r = me" by (simp add: NewSignedSyncResponse_def response_sign_def)
  moreover have "response_VerifySignature G (?r\<lparr>rs_NextCursor := c\<rparr>) (PublicKey keypair)" for c
  proof -
    have "base64_Decode G (SignBase64 G keypair m) = Some (KeypairSign G keypair m)" for m
      using assms(1) by (simp add: SignBase64_def)
    then show ?thesis
      using assms(1-3)
      by (simp add: NewSignedSyncResponse_def response_sign_def response_VerifySignature_def
          response_signingData_def)
  qed
  ultimately show ?thesis by blast
qed

definition demo_request :: SyncRequest where
  "demo_request = \<lparr>rq_From = ''me'', rq_Services = [], rq_Subjects = [], rq_Mode = ''page'', rq_SampleSize = 0,
     rq_Cursor = [], rq_PageSize = 3, rq_Limit = 0, rq_SinceTime = 0, rq_SliceIndex = 0, rq_SliceTotal = 0, rq_MaxEvents = 0\<rparr>"

theorem sync_response_verifies_witness:
  "\<exists>resp. httpEventsSyncHandler demo_env (\<lambda>i. int i) 5 ''b'' (demo_keypair CHR ''k'')
     (Some (demo_ledger 10 [demo_ping ''x'' 7, demo_ping ''y'' 9, demo_ping ''z'' 8])) demo_request = Inr (Some resp) \<and>
     response_VerifySignature demo_env resp (PublicKey (demo_keypair CHR ''k''))"
proof -
  have "PrivateKey (demo_keypair CHR ''k'') \<noteq> []" "rq_From demo_request \<noteq> []"
    by (simp_all add: demo_keypair_def demo_request_def)
  from sync_response_verifies [OF crypto_ok_demo valid_keypair_demo this,
      of "Some (demo_ledger 10 [demo_ping ''x'' 7, demo_ping ''y'' 9, demo_ping ''z'' 8])" "\<lambda>i. int i" 5 "''b''"]
  obtain resp where r: "httpEventsSyncHandler demo_env (\<lambda>i. int i) 5 ''b'' (demo_keypair CHR ''k'')
     (Some (demo_ledger 10 [demo_ping ''x'' 7, demo_ping ''y'' 9, demo_ping ''z'' 8])) demo_request = Inr (Some resp)"
    "\<forall>c. response_VerifySignature demo_env (resp\<lparr>rs_NextCursor := c\<rparr>) (PublicKey (demo_keypair CHR ''k''))"
    using demo_pings_wf by blast
  from r(2) [rule_format, of "rs_NextCursor resp"] r(1) show ?thesis by simp
qed

end
