(* ===== verification/Checkpoint_Derive.thy ===== *)
theory Checkpoint_Derive
  imports Ledger_Queries
begin

text \<open>
  \<open>checkpoint_types.go\<close>, the part on events and ledgers: building a checkpoint event, adding
  and verifying voters, finding the latest checkpoint, and deriving a nara's restart count,
  uptime and first sighting from the checkpoint, the backfill and the events after it.
  \<open>now\<close> is \<open>time.Now().Unix()\<close>.
\<close>

section \<open>Checkpoint events\<close>

definition NewCheckpointEvent ::
  "go_env \<Rightarrow> int \<Rightarrow> NaraName \<Rightarrow> int \<Rightarrow> int \<Rightarrow> int \<Rightarrow> int \<Rightarrow> SyncEvent go" where
  "NewCheckpointEvent G nowNano subject asOfTime firstSeen restarts totalUptime =
     ComputeID G (zero_event\<lparr>Timestamp := nowNano, Service := ServiceCheckpoint,
       Checkpoint := Some \<lparr>cp_Version = 0, cp_Subject = subject, cp_SubjectID = [],
         cp_PreviousCheckpointID = [],
         cp_Observation = zero_observation\<lparr>no_Restarts := restarts, no_TotalUptime := totalUptime,
                            no_StartTime := firstSeen\<rparr>,
         cp_AsOfTime = asOfTime, cp_Round = 0, cp_VoterIDs = [], cp_Signatures = []\<rparr>\<rparr>)"

definition NewTestCheckpointEvent ::
  "go_env \<Rightarrow> int \<Rightarrow> NaraName \<Rightarrow> int \<Rightarrow> int \<Rightarrow> int \<Rightarrow> int \<Rightarrow> SyncEvent go" where
  "NewTestCheckpointEvent G nowNano subject asOfTime firstSeen restarts totalUptime =
     (let asOf = (if asOfTime \<le> CheckpointCutoffTime
                  then i64 (i64 (CheckpointCutoffTime + 1000) + asOfTime) else asOfTime)
      in NewCheckpointEvent G nowNano subject asOf firstSeen restarts totalUptime)"

definition checkpoint_signableData :: "go_env \<Rightarrow> CheckpointEventPayload \<Rightarrow> string" where
  "checkpoint_signableData G p = sha256 G (checkpoint_ContentString p)"

definition AddCheckpointVoter :: "go_env \<Rightarrow> NaraID \<Rightarrow> NaraKeypair \<Rightarrow> SyncEvent \<Rightarrow> SyncEvent go" where
  "AddCheckpointVoter G voterID keypair e =
     (case (if Service e = ServiceCheckpoint then Checkpoint e else None) of
        None \<Rightarrow> Inr e
      | Some c \<Rightarrow>
          let sig = SignBase64 G keypair (checkpoint_signableData G c)
          in ComputeID G (e\<lparr>Checkpoint := Some (c\<lparr>cp_VoterIDs := cp_VoterIDs c @ [voterID],
                                                     cp_Signatures := cp_Signatures c @ [sig]\<rparr>)\<rparr>))"

definition voter_signature_ok :: "go_env \<Rightarrow> (NaraID \<rightharpoonup> string) \<Rightarrow> string \<Rightarrow> NaraID \<times> string \<Rightarrow> bool" where
  "voter_signature_ok G publicKeys content = (\<lambda>(voterID, signature).
     (case publicKeys voterID of
        None \<Rightarrow> False
      | Some pubKeyStr \<Rightarrow>
          (case base64_Decode G pubKeyStr of
             None \<Rightarrow> False
           | Some pubKeyBytes \<Rightarrow>
               if length pubKeyBytes \<noteq> PublicKeySize then False
               else (case base64_Decode G signature of
                       None \<Rightarrow> False
                     | Some sigBytes \<Rightarrow> VerifySignature G pubKeyBytes content sigBytes))))"

text \<open>The loop stops where the shorter of the two parallel slices ends, as \<open>zip\<close> does.\<close>

definition VerifyCheckpointSignatures :: "go_env \<Rightarrow> (NaraID \<rightharpoonup> string) \<Rightarrow> SyncEvent \<Rightarrow> int" where
  "VerifyCheckpointSignatures G publicKeys e =
     (case (if Service e = ServiceCheckpoint then Checkpoint e else None) of
        None \<Rightarrow> 0
      | Some c \<Rightarrow>
          int (length (filter (voter_signature_ok G publicKeys (checkpoint_signableData G c))
                 (zip (cp_VoterIDs c) (cp_Signatures c)))))"

section \<open>The latest checkpoint\<close>

definition GetCheckpointEvent :: "SyncLedger \<Rightarrow> NaraName \<Rightarrow> SyncEvent option" where
  "GetCheckpointEvent l subject =
     latest_by checkpoint_time (filter (is_checkpoint_for subject) (Events l))"

definition GetCheckpoint :: "SyncLedger \<Rightarrow> NaraName \<Rightarrow> CheckpointEventPayload option" where
  "GetCheckpoint l subject =
     (case GetCheckpointEvent l subject of None \<Rightarrow> None | Some e \<Rightarrow> Checkpoint e)"

section \<open>Restarts\<close>

definition restart_start :: "NaraName \<Rightarrow> SyncEvent \<Rightarrow> int option" where
  \<comment> \<open>the start time of a restart event of the subject that is not a backfill\<close>
  "restart_start subject e =
     (case (if Service e = ServiceObservation then Observation e else None) of
        None \<Rightarrow> None
      | Some q \<Rightarrow>
          if ob_Subject q \<noteq> subject then None
          else if ob_Type q \<noteq> ''restart'' then None
          else if ob_IsBackfill q then None
          else Some (ob_StartTime q))"

definition countUniqueStartTimesAfter :: "SyncLedger \<Rightarrow> NaraName \<Rightarrow> int \<Rightarrow> int" where
  "countUniqueStartTimesAfter l subject afterTime =
     int (card (set (filter (\<lambda>t. \<not> (afterTime > 0 \<and> t \<le> afterTime))
                       (List.map_filter (restart_start subject) (Events l)))))"

definition countUniqueStartTimesExcluding :: "SyncLedger \<Rightarrow> NaraName \<Rightarrow> int \<Rightarrow> int" where
  "countUniqueStartTimesExcluding l subject excludeStartTime =
     int (card (set (filter (\<lambda>t. t \<noteq> excludeStartTime)
                       (List.map_filter (restart_start subject) (Events l)))))"

definition DeriveRestartCount :: "SyncLedger \<Rightarrow> NaraName \<Rightarrow> int" where
  "DeriveRestartCount l subject =
     (case GetCheckpoint l subject of
        Some c \<Rightarrow> i64 (no_Restarts (cp_Observation c) + countUniqueStartTimesAfter l subject (cp_AsOfTime c))
      | None \<Rightarrow>
          (case GetBackfillEvent l subject of
             Some b \<Rightarrow> i64 (ob_RestartNum b + countUniqueStartTimesExcluding l subject (ob_StartTime b))
           | None \<Rightarrow> countUniqueStartTimesAfter l subject 0))"

section \<open>Uptime\<close>

definition status_entry :: "NaraName \<Rightarrow> SyncEvent \<Rightarrow> (int \<times> string) option" where
  "status_entry subject e =
     (case (if Service e = ServiceObservation then Observation e else None) of
        None \<Rightarrow> None
      | Some q \<Rightarrow>
          if ob_Subject q \<noteq> subject then None
          else if ob_Type q \<noteq> ''status-change'' then None
          else Some (Timestamp e sdiv 1000000000, ob_OnlineState q))"

definition statusEvents :: "go_env \<Rightarrow> SyncLedger \<Rightarrow> NaraName \<Rightarrow> int \<Rightarrow> (int \<times> string) list" where
  "statusEvents G l subject afterTime =
     sort_slice (sort_perm G) (\<lambda>x y. fst x < fst y)
       (filter (\<lambda>se. \<not> (afterTime > 0 \<and> fst se \<le> afterTime))
          (List.map_filter (status_entry subject) (Events l)))"

fun online_step :: "int \<times> int \<Rightarrow> int \<times> string \<Rightarrow> int \<times> int" where
  \<comment> \<open>accumulated uptime and start of the open online period (0: none)\<close>
  "online_step (uptime, onlineStart) (timestamp, state) =
     (if state = ''ONLINE'' \<and> onlineStart = 0 then (uptime, timestamp)
      else if (state = ''OFFLINE'' \<or> state = ''MISSING'') \<and> onlineStart > 0
           then (i64 (uptime + i64 (timestamp - onlineStart)), 0)
      else (uptime, onlineStart))"

fun still_online :: "int \<Rightarrow> int \<times> int \<Rightarrow> int" where
  "still_online now (uptime, onlineStart) =
     (if onlineStart > 0 then i64 (uptime + i64 (now - onlineStart)) else uptime)"

definition DeriveTotalUptime :: "go_env \<Rightarrow> int \<Rightarrow> SyncLedger \<Rightarrow> NaraName \<Rightarrow> int" where
  "DeriveTotalUptime G now l subject =
     (let checkpoint = GetCheckpoint l subject;
          (baseUptime, afterTime) =
            (case checkpoint of None \<Rightarrow> (0, 0) | Some c \<Rightarrow> (no_TotalUptime (cp_Observation c), cp_AsOfTime c));
          assumeOnlineSince =
            (case checkpoint of
               Some c \<Rightarrow> 0
             | None \<Rightarrow> (case GetBackfillEvent l subject of None \<Rightarrow> 0 | Some b \<Rightarrow> ob_StartTime b));
          ses = statusEvents G l subject afterTime
      in if assumeOnlineSince > 0 \<and> length ses = 0 then i64 (now - assumeOnlineSince)
         else let onlineStart = (if assumeOnlineSince > 0 then assumeOnlineSince else 0)
              in still_online now (foldl online_step (baseUptime, onlineStart) ses))"

definition DeriveUptimeAfter :: "go_env \<Rightarrow> int \<Rightarrow> SyncLedger \<Rightarrow> NaraName \<Rightarrow> int \<Rightarrow> int" where
  "DeriveUptimeAfter G now l subject afterTime =
     still_online now (foldl online_step (0, 0) (statusEvents G l subject afterTime))"

section \<open>First sighting\<close>

definition sighting_of :: "NaraName \<Rightarrow> SyncEvent \<Rightarrow> int" where
  \<comment> \<open>the start time that the event gives the subject, 0 if none\<close>
  "sighting_of subject e =
     (if obs_of e (\<lambda>q. ob_Subject q = subject) then ob_StartTime (the (Observation e))
      else if is_checkpoint_for subject e then no_StartTime (cp_Observation (the (Checkpoint e)))
      else 0)"

definition earlier :: "int \<Rightarrow> int \<Rightarrow> int" where
  "earlier earliest t = (if t > 0 \<and> (earliest = 0 \<or> t < earliest) then t else earliest)"

definition GetFirstSeenFromEvents :: "SyncLedger \<Rightarrow> NaraName \<Rightarrow> int" where
  "GetFirstSeenFromEvents l subject = foldl earlier 0 (map (sighting_of subject) (Events l))"

section \<open>Lemmas\<close>

lemma checkpoint_for_iff:
  "is_checkpoint_for s e \<longleftrightarrow> Service e = ServiceCheckpoint \<and> (\<exists>c. Checkpoint e = Some c \<and> cp_Subject c = s)"
  by (auto simp: is_checkpoint_for_def split: option.splits)

lemma GetCheckpointEvent_SomeD:
  assumes "GetCheckpointEvent l subject = Some e"
  shows "e \<in> set (Events l)" "is_checkpoint_for subject e" "0 < checkpoint_time e"
    "\<forall>x \<in> set (Events l). is_checkpoint_for subject x \<longrightarrow> checkpoint_time x \<le> checkpoint_time e"
  using latest_by_SomeD [OF assms [unfolded GetCheckpointEvent_def]] by auto

lemma GetCheckpointEvent_None:
  "GetCheckpointEvent l subject = None \<longleftrightarrow>
   (\<forall>x \<in> set (Events l). is_checkpoint_for subject x \<longrightarrow> checkpoint_time x \<le> 0)"
  by (auto simp: GetCheckpointEvent_def latest_by_None)

lemma latest_by_append_low:
  "latest_by key xs = Some b \<Longrightarrow> key x \<le> key b \<Longrightarrow> latest_by key (xs @ [x]) = Some b"
  using latest_by_fold [where key = key and b = None and t = 0 and xs = xs]
  by (auto simp: latest_by_def latest_step_def split: prod.splits)

lemma GetCheckpointEvent_append:
  "\<not> is_checkpoint_for subject e \<Longrightarrow> GetCheckpointEvent (append_event e l) subject = GetCheckpointEvent l subject"
  by (simp add: GetCheckpointEvent_def append_event_def)

lemma find_append: "find P (xs @ ys) = (case find P xs of None \<Rightarrow> find P ys | Some x \<Rightarrow> Some x)"
  by (induction xs) auto

lemma GetBackfillEvent_append:
  "\<not> obs_of e ob_IsBackfill \<Longrightarrow> GetBackfillEvent (append_event e l) subject = GetBackfillEvent l subject"
proof -
  assume "\<not> obs_of e ob_IsBackfill"
  then have "\<not> obs_of e (\<lambda>q. ob_Subject q = subject \<and> ob_IsBackfill q)" by (auto simp: obs_of_def split: option.splits)
  then show ?thesis
    by (simp add: GetBackfillEvent_def append_event_def find_append split: option.splits)
qed

lemma online_step_shift:
  "online_step (i64 (b + u), s) x = (let (u', s') = online_step (u, s) x in (i64 (b + u'), s'))"
proof -
  obtain t st where "x = (t, st)" by fastforce
  moreover have "i64 (i64 (b + u) + d) = i64 (b + i64 (u + d))" for d
    by (simp add: add.assoc)
  ultimately show ?thesis by simp
qed

lemma online_fold_shift:
  "foldl online_step (i64 (b + u), s) ses = (let (u', s') = foldl online_step (u, s) ses in (i64 (b + u'), s'))"
proof (induction ses arbitrary: u s)
  case (Cons x ses)
  obtain u1 s1 where "online_step (u, s) x = (u1, s1)" by fastforce
  then show ?case using Cons.IH [of u1 s1] online_step_shift [of b u s x] by simp
qed simp

lemma still_online_shift: "still_online now (i64 (b + u), s) = i64 (b + still_online now (u, s))"
  by (simp add: add.assoc)

text \<open>Uptime never counts a second twice.\<close>

lemma online_fold_bounds:
  assumes "sorted (map fst ses)" and "\<forall>se \<in> set ses. tlast \<le> fst se \<and> fst se \<le> now" and "0 \<le> a" and "a \<le> tlast"
    and "0 \<le> up" and "0 \<le> start" and "start = 0 \<longrightarrow> up \<le> tlast - a" and "0 < start \<longrightarrow> start \<le> tlast \<and> up \<le> start - a"
    and "tlast \<le> now" and "now < 2 ^ 63"
  shows "0 \<le> still_online now (foldl online_step (up, start) ses) \<and>
         still_online now (foldl online_step (up, start) ses) \<le> now - a"
  using assms
proof (induction ses arbitrary: up start tlast)
  case Nil
  show ?case
  proof (cases "start = 0")
    case False
    then have "in_i64 (now - start)" "in_i64 (up + (now - start))" using Nil by (simp_all add: in_i64_def)
    then show ?thesis using Nil False by simp
  qed (use Nil in simp)
next
  case (Cons x ses)
  obtain t st where x: "x = (t, st)" by fastforce
  have t: "tlast \<le> t" "t \<le> now" using Cons.prems(2) x by auto
  have rest: "sorted (map fst ses)" "\<forall>se \<in> set ses. t \<le> fst se \<and> fst se \<le> now"
    using Cons.prems(1,2) x by auto
  obtain up' start' where step: "online_step (up, start) x = (up', start')" by fastforce
  have "0 \<le> up' \<and> 0 \<le> start' \<and> (start' = 0 \<longrightarrow> up' \<le> t - a) \<and> (0 < start' \<longrightarrow> start' \<le> t \<and> up' \<le> start' - a)"
  proof (cases "(st = ''OFFLINE'' \<or> st = ''MISSING'') \<and> start > 0")
    case True
    then have "in_i64 (t - start)" "in_i64 (up + (t - start))" using Cons.prems t by (simp_all add: in_i64_def)
    then show ?thesis using step x True Cons.prems t by auto
  next
    case False
    then show ?thesis using step x Cons.prems t by (auto split: if_splits)
  qed
  then show ?case
    using Cons.IH [of t up' start'] rest t Cons.prems(3,4,10) step by simp
qed

end
