(* ===== verification/Consensus_Math.thy ===== *)
theory Consensus_Math
  imports Go_Sort
begin

text \<open>
  The two robust averages the naras agree by: \<open>TrimmedMeanInt64\<close> (\<open>math_helpers.go\<close>), which
  drops outliers around the median, and \<open>consensusByUptime\<close> (\<open>consensus.go\<close>), which clusters
  values within a tolerance and trusts the heaviest cluster with two supporters. The int64
  arithmetic wraps as in Go; the lemmas say where it cannot.
\<close>

section \<open>The trimmed mean\<close>

definition sum_i64 :: "int list \<Rightarrow> int" where
  "sum_i64 vs = foldl (\<lambda>s v. i64 (s + v)) 0 vs"

definition trim_bounds :: "int \<Rightarrow> int \<times> int" where
  "trim_bounds median =
     (if median = 0 then (-10, 10)
      else if median > 0 then (median sdiv 5, i64 (median * 5))
      else (i64 (median * 5), median sdiv 5))"

definition TrimmedMeanInt64 :: "sorter \<Rightarrow> int list \<Rightarrow> int" where
  "TrimmedMeanInt64 srt values =
     (if length values = 0 then 0
      else if length values = 1 then values ! 0
      else let sorted = sort_slice srt (<) values;
               median = sorted ! (length sorted div 2);
               (lowerBound, upperBound) = trim_bounds median;
               filtered = filter (\<lambda>v. v \<ge> lowerBound \<and> v \<le> upperBound) sorted
           in if length filtered = 0 then median
              else sum_i64 filtered sdiv int (length filtered))"

definition TrimmedMeanPositive :: "sorter \<Rightarrow> int list \<Rightarrow> int" where
  "TrimmedMeanPositive srt values = TrimmedMeanInt64 srt (filter (\<lambda>v. v > 0) values)"

lemma sum_i64_eq: "sum_i64 vs = i64 (sum_list vs)"
proof -
  have "foldl (\<lambda>s v. i64 (s + v)) (i64 a) vs = i64 (a + sum_list vs)" for a
    by (induction vs arbitrary: a) (simp_all add: add.assoc)
  from this [of 0] show ?thesis by (simp add: sum_i64_def in_i64_def)
qed

lemma sum_list_ge: "(\<And>v. v \<in> set vs \<Longrightarrow> (m :: int) \<le> v) \<Longrightarrow> m * int (length vs) \<le> sum_list vs"
  by (induction vs) (auto simp: algebra_simps, smt (verit))

lemma sum_list_le: "(\<And>v. v \<in> set vs \<Longrightarrow> v \<le> (M :: int)) \<Longrightarrow> sum_list vs \<le> M * int (length vs)"
  by (induction vs) (auto simp: algebra_simps, smt (verit))

lemma sdiv_between:
  assumes "m * k \<le> x" and "x \<le> M * k" and "0 < (k :: int)"
  shows "m \<le> x sdiv k \<and> x sdiv k \<le> M"
proof (cases "0 \<le> x")
  case True
  then have "x sdiv k = x div k" using assms(3) by (cases "x = 0") (simp_all add: signed_divide_int_def sgn_if)
  moreover have "m \<le> x div k" using assms(1,3) by (metis nonzero_mult_div_cancel_right order_less_irrefl zdiv_mono1)
  moreover have "x div k \<le> M" using assms(2,3) by (metis nonzero_mult_div_cancel_right order_less_irrefl zdiv_mono1)
  ultimately show ?thesis by simp
next
  case False
  then have s: "x sdiv k = - ((- x) div k)" using assms(3) by (simp add: signed_divide_int_def sgn_if)
  have "- M \<le> (- x) div k" using assms(2,3) by (metis minus_le_iff minus_mult_left neg_le_iff_le nonzero_mult_div_cancel_right order_less_irrefl zdiv_mono1)
  moreover have "(- x) div k \<le> - m" using assms(1,3) by (metis minus_mult_left neg_le_iff_le nonzero_mult_div_cancel_right order_less_irrefl zdiv_mono1)
  ultimately show ?thesis using s by simp
qed

text \<open>The values that survive the trimming.\<close>

definition trimmed :: "int list \<Rightarrow> int list" where
  "trimmed values =
     (let median = sort values ! (length values div 2)
      in filter (\<lambda>v. fst (trim_bounds median) \<le> v \<and> v \<le> snd (trim_bounds median)) (sort values))"

lemma TrimmedMeanInt64_eq:
  assumes "sort_algorithm srt" and "2 \<le> length values"
  shows "TrimmedMeanInt64 srt values =
     (if trimmed values = [] then sort values ! (length values div 2)
      else i64 (sum_list (trimmed values)) sdiv int (length (trimmed values)))"
  using assms(2)
  by (auto simp: TrimmedMeanInt64_def trimmed_def sort_algorithm.sort_slice_eq_sort [OF assms(1)]
      sum_i64_eq Let_def split: prod.splits)

lemma TrimmedMeanInt64_mset:
  assumes "sort_algorithm srt" and "mset values = mset values'"
  shows "TrimmedMeanInt64 srt values = TrimmedMeanInt64 srt values'"
proof -
  have l: "length values = length values'" using assms(2) by (rule mset_eq_length)
  show ?thesis
  proof (cases "2 \<le> length values")
    case True
    have "sort values = sort values'" using assms(2) by (intro properties_for_sort) simp_all
    then show ?thesis using True l TrimmedMeanInt64_eq [OF assms(1)] by (simp add: trimmed_def)
  next
    case False
    then have "values = [] \<or> (\<exists>a. values = [a])" by (cases "values") (auto simp: Suc_le_eq)
    then have "values = values'" using assms(2) l by (cases "values'") auto
    then show ?thesis by simp
  qed
qed

section \<open>Consensus by uptime\<close>

record consensusValue =
  cv_value :: int
  cv_weight :: nat

record consensusCluster =
  cl_values :: "int list"
  cl_totalWeight :: nat

definition new_cluster :: "consensusValue \<Rightarrow> consensusCluster" where
  "new_cluster v = \<lparr>cl_values = [cv_value v], cl_totalWeight = cv_weight v\<rparr>"

lemma new_cluster_fields [simp]: "cl_values (new_cluster v) = [cv_value v]"
  by (simp add: new_cluster_def)

fun build_clusters :: "int \<Rightarrow> consensusCluster \<Rightarrow> int \<Rightarrow> consensusValue list \<Rightarrow> consensusCluster list" where
  "build_clusters tolerance current clusterStart [] = [current]"
| "build_clusters tolerance current clusterStart (v # vs) =
     (if i64 (cv_value v - clusterStart) \<le> tolerance
      then build_clusters tolerance
             \<lparr>cl_values = cl_values current @ [cv_value v],
              cl_totalWeight = u64 (cl_totalWeight current + cv_weight v)\<rparr> clusterStart vs
      else current # build_clusters tolerance (new_cluster v) (cv_value v) vs)"

definition middle :: "int list \<Rightarrow> int" where
  "middle vs = vs ! (length vs div 2)"

text \<open>\<open>coin\<close> is \<open>time.Now().UnixNano() % 2\<close>.\<close>

definition consensusByUptime ::
  "sorter \<Rightarrow> int \<Rightarrow> consensusValue list \<Rightarrow> int \<Rightarrow> bool \<Rightarrow> int" where
  "consensusByUptime srt coin values tolerance allowCoinFlip =
     (case sort_slice srt (\<lambda>x y. cv_value x < cv_value y) values of
        [] \<Rightarrow> 0
      | v # vs \<Rightarrow>
          let clusters = sort_slice srt (\<lambda>a b. cl_totalWeight a > cl_totalWeight b)
                           (build_clusters tolerance (new_cluster v) (cv_value v) vs)
          in case find (\<lambda>c. length (cl_values c) \<ge> 2) clusters of
               Some cluster \<Rightarrow> middle (cl_values cluster)
             | None \<Rightarrow>
                 let first = clusters ! 0; second = clusters ! 1;
                     threshold = u64 (cl_totalWeight first * 80) div 100
                 in if allowCoinFlip \<and> length clusters \<ge> 2 \<and> cl_totalWeight second \<ge> threshold
                    then (if coin = 0 then middle (cl_values first) else middle (cl_values second))
                    else middle (cl_values first))"

text \<open>
  The clusters are non-empty, hold the values once each, and span at most the tolerance, when
  the differences of the values do not wrap.
\<close>

lemma build_clusters_values:
  "concat (map cl_values (build_clusters t cur s vs)) = cl_values cur @ map cv_value vs"
  by (induction t cur s vs rule: build_clusters.induct) (simp_all add: new_cluster_def)

lemma build_clusters_nonempty:
  "cl_values cur \<noteq> [] \<Longrightarrow> c \<in> set (build_clusters t cur s vs) \<Longrightarrow> cl_values c \<noteq> []"
  by (induction t cur s vs rule: build_clusters.induct) (auto simp: new_cluster_def split: if_splits)

lemma build_clusters_ne: "build_clusters t cur s vs \<noteq> []"
  by (induction t cur s vs rule: build_clusters.induct) simp_all

lemma build_clusters_span:
  assumes "sorted (map cv_value vs)" and "\<forall>v \<in> set vs. s \<le> cv_value v \<and> cv_value v - s < 2 ^ 63"
    and "\<forall>v \<in> set vs. \<forall>w \<in> set vs. cv_value w - cv_value v < 2 ^ 63"
    and "\<forall>x \<in> set (cl_values cur). s \<le> x \<and> x \<le> s + t"
    and "c \<in> set (build_clusters t cur s vs)" and "x \<in> set (cl_values c)" and "y \<in> set (cl_values c)"
    and "0 \<le> t"
  shows "\<bar>x - y\<bar> \<le> t"
  using assms
proof (induction t cur s vs rule: build_clusters.induct)
  case (2 t cur s v vs)
  have w: "i64 (cv_value v - s) = cv_value v - s"
    using "2.prems"(2) by (simp add: in_i64_def)
  show ?case
  proof (cases "cv_value v - s \<le> t")
    case True
    let ?cur = "\<lparr>cl_values = cl_values cur @ [cv_value v], cl_totalWeight = u64 (cl_totalWeight cur + cv_weight v)\<rparr>"
    have h1: "sorted (map cv_value vs)" "\<forall>v \<in> set vs. s \<le> cv_value v \<and> cv_value v - s < 2 ^ 63"
      "\<forall>v \<in> set vs. \<forall>w \<in> set vs. cv_value w - cv_value v < 2 ^ 63"
      using "2.prems"(1-3) by simp_all
    have h2: "\<forall>x \<in> set (cl_values ?cur). s \<le> x \<and> x \<le> s + t" using "2.prems"(2,4) True by simp
    have h3: "c \<in> set (build_clusters t ?cur s vs)" using "2.prems"(5) True w by simp
    show ?thesis using "2.IH"(1) w True h1 h2 h3 "2.prems"(6-8) by simp
  next
    case False
    have h1: "sorted (map cv_value vs)"
      "\<forall>u \<in> set vs. cv_value v \<le> cv_value u \<and> cv_value u - cv_value v < 2 ^ 63"
      "\<forall>v \<in> set vs. \<forall>w \<in> set vs. cv_value w - cv_value v < 2 ^ 63"
      using "2.prems"(1,3) by auto
    have h2: "\<forall>x \<in> set (cl_values (new_cluster v)). cv_value v \<le> x \<and> x \<le> cv_value v + t"
      using "2.prems"(8) by (simp add: new_cluster_def)
    consider "c = cur" | "c \<in> set (build_clusters t (new_cluster v) (cv_value v) vs)"
      using "2.prems"(5) False w by auto
    then show ?thesis
    proof cases
      case 1
      then have "s \<le> x \<and> x \<le> s + t" "s \<le> y \<and> y \<le> s + t" using "2.prems"(4,6,7) by auto
      then show ?thesis by linarith
    next
      case 2
      then show ?thesis using "2.IH"(2) w False h1 h2 "2.prems"(6-8) by simp
    qed
  qed
next
  case (1 t cur s)
  then have "s \<le> x \<and> x \<le> s + t" "s \<le> y \<and> y \<le> s + t" by auto
  then show ?case by linarith
qed

lemma middle_in: "vs \<noteq> [] \<Longrightarrow> middle vs \<in> set vs"
  by (simp add: middle_def)

text \<open>When every cluster is a singleton, all values are more than the tolerance apart.\<close>

lemma build_clusters_grow:
  "2 \<le> length (cl_values cur) \<Longrightarrow> \<exists>c \<in> set (build_clusters t cur s vs). 2 \<le> length (cl_values c)"
  by (induction t cur s vs rule: build_clusters.induct) (auto split: if_splits)

lemma build_clusters_apart:
  assumes "\<forall>c \<in> set (build_clusters t cur s vs). length (cl_values c) < 2" and "cl_values cur = [s]"
    and "sorted (map cv_value vs)" and "\<forall>v \<in> set vs. s \<le> cv_value v \<and> cv_value v - s < 2 ^ 63"
    and "\<forall>v \<in> set vs. \<forall>w \<in> set vs. cv_value w - cv_value v < 2 ^ 63"
  shows "sorted_wrt (\<lambda>x y. t < y - x) (s # map cv_value vs)"
  using assms
proof (induction t cur s vs rule: build_clusters.induct)
  case (2 t cur s v vs)
  have w: "i64 (cv_value v - s) = cv_value v - s" using "2.prems"(4) by (simp add: in_i64_def)
  have far: "\<not> cv_value v - s \<le> t"
  proof
    assume c: "cv_value v - s \<le> t"
    have "\<exists>c \<in> set (build_clusters t cur s (v # vs)). 2 \<le> length (cl_values c)"
      using c w "2.prems"(2) by (simp add: build_clusters_grow)
    then show False using "2.prems"(1) by force
  qed
  have "\<forall>c \<in> set (build_clusters t (new_cluster v) (cv_value v) vs). length (cl_values c) < 2"
    using "2.prems"(1) far w by simp
  then have "sorted_wrt (\<lambda>x y. t < y - x) (cv_value v # map cv_value vs)"
    using far w "2.prems"(3,5) by (intro "2.IH"(2)) (auto simp: new_cluster_def)
  then show ?case using far "2.prems"(3) by fastforce
qed simp

lemma apart_pair:
  assumes "sorted_wrt (\<lambda>x y. t < y - x) L" and "{#x, y#} \<subseteq># mset L" and "0 \<le> (t :: int)"
  shows "t < \<bar>x - y\<bar>"
  using assms(1,2)
proof (induction L)
  case (Cons a L)
  consider "x = a" "y \<in> set L" | "y = a" "x \<in> set L" | "{#x, y#} \<subseteq># mset L"
  proof (cases "x = a \<or> y = a")
    case True
    then have "x = a \<and> {#y#} \<subseteq># mset L \<or> y = a \<and> {#x#} \<subseteq># mset L"
      using Cons.prems(2) by (auto simp: add_mset_commute)
    then show ?thesis using that by auto
  next
    case False
    then have "{#x, y#} \<subseteq># mset L"
      using Cons.prems(2) by (simp add: insert_subset_eq_iff)
    then show ?thesis using that by blast
  qed
  then show ?case using Cons assms(3) by cases auto
qed simp

lemma mset_pair_of_cluster:
  assumes "c \<in> set cs" and "2 \<le> length (f c)"
  shows "{#middle (f c), f c ! 0#} \<subseteq># mset (concat (map f cs))"
proof -
  obtain a b where ab: "f c = a # b" using assms(2) by (cases "f c") auto
  have "length (f c) div 2 = Suc (length (f c) div 2 - 1)" using assms(2) by simp
  then have "middle (f c) = b ! (length (f c) div 2 - 1)"
    by (metis ab middle_def nth_Cons_Suc)
  moreover have "length (f c) div 2 - 1 < length b" using assms(2) ab by simp
  ultimately have "middle (f c) \<in> set b" by simp
  then have "{#middle (f c), f c ! 0#} \<subseteq># mset (f c)" by (simp add: ab add_mset_commute)
  moreover obtain ys zs where "cs = ys @ c # zs" using assms(1) split_list by fastforce
  then have "mset (f c) \<subseteq># mset (concat (map f cs))" by simp
  ultimately show ?thesis by (rule subset_mset.order_trans)
qed

section \<open>Properties\<close>

text \<open>
  the trimmed mean does not depend on the order of the votes, nor on the sorting algorithm.
\<close>

theorem trimmed_mean_order:
  assumes "sort_algorithm srt" and "sort_algorithm srt'" and "mset values = mset values'"
  shows "TrimmedMeanInt64 srt values = TrimmedMeanInt64 srt' values'"
proof -
  have "TrimmedMeanInt64 srt' values' = TrimmedMeanInt64 srt values'"
    by (simp add: TrimmedMeanInt64_def sort_algorithm.sort_slice_eq_sort [OF assms(1)]
        sort_algorithm.sort_slice_eq_sort [OF assms(2)])
  then show ?thesis using TrimmedMeanInt64_mset [OF assms(1,3)] by simp
qed

theorem trimmed_mean_order_witness:
  "TrimmedMeanInt64 insertion_sorter [1, 9, 2] = TrimmedMeanInt64 insertion_sorter [9, 2, 1]"
  by (rule trimmed_mean_order [OF sort_algorithm_insertion sort_algorithm_insertion]) simp

text \<open>
  the trimmed mean lies between the smallest and the largest of the values, as long as
  their sum cannot leave int64; and when the median is positive and five times it fits in
  int64, it lies between a fifth of the median and five times the median, however extreme the
  other values are.
\<close>

theorem trimmed_mean_robust:
  assumes "sort_algorithm srt" and "values \<noteq> []"
    and "\<forall>v \<in> set values. \<bar>v\<bar> * int (length values) < 2 ^ 63"
  shows "Min (set values) \<le> TrimmedMeanInt64 srt values \<and> TrimmedMeanInt64 srt values \<le> Max (set values) \<and>
         (2 \<le> length values \<and> 0 < sort values ! (length values div 2) \<and>
          5 * (sort values ! (length values div 2)) < 2 ^ 63 \<longrightarrow>
            (sort values ! (length values div 2)) div 5 \<le> TrimmedMeanInt64 srt values \<and>
            TrimmedMeanInt64 srt values \<le> 5 * (sort values ! (length values div 2)))"
proof (cases "2 \<le> length values")
  case False
  then obtain a where "values = [a]" using assms(2) by (cases "values") (auto simp: Suc_le_eq)
  then show ?thesis by (simp add: TrimmedMeanInt64_def)
next
  case True
  let ?m = "sort values ! (length values div 2)"
  let ?T = "trimmed values"
  have "length values div 2 < length (sort values)" using assms(2) by simp
  then have m: "?m \<in> set values" by (metis nth_mem set_sort)
  have sub: "set ?T \<subseteq> set values" by (auto simp: trimmed_def Let_def)
  have len: "length ?T \<le> length values"
    unfolding trimmed_def Let_def by (rule order.trans [OF length_filter_le]) simp
  note eq = TrimmedMeanInt64_eq [OF assms(1) True]
  show ?thesis
  proof (cases "?T = []")
    case Te: True
    moreover have "m div 5 \<le> m" if "0 < m" for m :: int using that by presburger
    ultimately show ?thesis using eq m True by simp
  next
    case ne: False
    let ?k = "int (length ?T)"
    have k: "0 < ?k" using ne by simp
    define B where "B = Max (abs ` set values)"
    have B: "\<bar>v\<bar> \<le> B" if "v \<in> set values" for v using that by (simp add: B_def)
    have "B \<in> abs ` set values" unfolding B_def using assms(2) by (intro Max_in) simp_all
    then have Bl: "B * int (length values) < 2 ^ 63" "0 \<le> B" using assms(3) by auto
    have Bk: "B * ?k < 2 ^ 63" using Bl len by (meson le_less_trans mult_left_mono of_nat_mono)
    have "(- B) * ?k \<le> sum_list ?T" using B sub by (intro sum_list_ge) (fastforce simp: abs_le_iff)
    moreover have "sum_list ?T \<le> B * ?k" using B sub by (intro sum_list_le) (fastforce simp: abs_le_iff)
    ultimately have "in_i64 (sum_list ?T)" using Bk by (simp add: in_i64_def)
    then have r: "TrimmedMeanInt64 srt values = sum_list ?T sdiv ?k" using eq ne by simp
    have between: "a \<le> sum_list ?T sdiv ?k \<and> sum_list ?T sdiv ?k \<le> b" if "\<forall>v \<in> set ?T. a \<le> v \<and> v \<le> b" for a b
      using that by (intro sdiv_between k sum_list_ge sum_list_le) simp_all
    have mm: "Min (set values) \<le> TrimmedMeanInt64 srt values \<and> TrimmedMeanInt64 srt values \<le> Max (set values)"
      unfolding r using sub by (intro between) auto
    have "?m div 5 \<le> TrimmedMeanInt64 srt values \<and> TrimmedMeanInt64 srt values \<le> 5 * ?m"
      if "0 < ?m" "5 * ?m < 2 ^ 63"
      unfolding r
    proof (rule between)
      have "trim_bounds ?m = (?m div 5, 5 * ?m)"
        using that by (simp add: trim_bounds_def signed_divide_int_def sgn_if in_i64_def mult.commute)
      then show "\<forall>v \<in> set ?T. ?m div 5 \<le> v \<and> v \<le> 5 * ?m" by (simp add: trimmed_def Let_def)
    qed
    with mm show ?thesis by blast
  qed
qed

theorem trimmed_mean_robust_witness:
  "TrimmedMeanInt64 insertion_sorter [10, 12, 100000] \<le> 60 \<and> 2 \<le> TrimmedMeanInt64 insertion_sorter [10, 12, 100000]"
  using trimmed_mean_robust [OF sort_algorithm_insertion, of "[10, 12, 100000]"] by simp

text \<open>
  consensus needs support. \<open>consensusByUptime\<close> returns one of the values it was given; and
  as soon as two of the votes agree within the tolerance, the value it returns is backed by
  another vote within the tolerance, whatever the weights and the coin.
\<close>

theorem consensus_supported:
  assumes "sort_algorithm srt" and "values \<noteq> []" and "0 \<le> tolerance"
    and "\<forall>v \<in> set values. \<forall>w \<in> set values. cv_value w - cv_value v < 2 ^ 63"
  shows "consensusByUptime srt coin values tolerance flip \<in> cv_value ` set values \<and>
         ((\<exists>x y. {#x, y#} \<subseteq># image_mset cv_value (mset values) \<and> \<bar>x - y\<bar> \<le> tolerance) \<longrightarrow>
          (\<exists>y. {#consensusByUptime srt coin values tolerance flip, y#} \<subseteq># image_mset cv_value (mset values) \<and>
               \<bar>consensusByUptime srt coin values tolerance flip - y\<bar> \<le> tolerance))"
proof -
  let ?s = "sort_slice srt (\<lambda>x y. cv_value x < cv_value y) values"
  let ?r = "consensusByUptime srt coin values tolerance flip"
  have ms: "mset ?s = mset values" by (rule sort_algorithm.mset_sort_slice [OF assms(1)])
  have so: "sorted (map cv_value ?s)" by (rule sort_algorithm.sorted_sort_slice_key [OF assms(1)])
  obtain v vs where s: "?s = v # vs" using ms assms(2) by (cases ?s) auto
  let ?b = "build_clusters tolerance (new_cluster v) (cv_value v) vs"
  let ?c = "sort_slice srt (\<lambda>a b. cl_totalWeight a > cl_totalWeight b) ?b"
  have cm: "mset ?c = mset ?b" for lt by (rule sort_algorithm.mset_sort_slice [OF assms(1)])
  have set: "set (v # vs) = set values" using mset_eq_setD [OF ms] s by simp
  have conc: "concat (map cl_values ?b) = map cv_value (v # vs)"
    by (simp add: build_clusters_values new_cluster_def)
  then have cmset: "mset (concat (map cl_values ?b)) = image_mset cv_value (mset values)"
    using ms s by (metis mset_map)
  have ne: "cl_values c \<noteq> []" if "c \<in> set ?c" for c
    using that mset_eq_setD [OF cm] build_clusters_nonempty [of "new_cluster v"] by (auto simp: new_cluster_def)
  have elem: "middle (cl_values c) \<in> cv_value ` set values" if "c \<in> set ?c" for c
  proof -
    have "middle (cl_values c) \<in> set (concat (map cl_values ?b))"
      using middle_in [OF ne [OF that]] that mset_eq_setD [OF cm] by auto
    then show ?thesis unfolding conc using set by (metis set_map)
  qed
  have cne: "?c \<noteq> []" using mset_eq_length [OF cm] build_clusters_ne by (metis length_0_conv)
  have dist: "\<forall>u \<in> set vs. cv_value v \<le> cv_value u \<and> cv_value u - cv_value v < 2 ^ 63"
    "\<forall>u \<in> set vs. \<forall>w \<in> set vs. cv_value w - cv_value u < 2 ^ 63" "sorted (map cv_value vs)"
    using so assms(4) set by (auto simp: s)
  have r: "?r = (case find (\<lambda>c. length (cl_values c) \<ge> 2) ?c of
      Some c \<Rightarrow> middle (cl_values c)
    | None \<Rightarrow> if flip \<and> length ?c \<ge> 2 \<and> cl_totalWeight (?c ! 1) \<ge> u64 (cl_totalWeight (?c ! 0) * 80) div 100
              then (if coin = 0 then middle (cl_values (?c ! 0)) else middle (cl_values (?c ! 1)))
              else middle (cl_values (?c ! 0)))"
    unfolding consensusByUptime_def s Let_def by (simp only: list.case)
  show ?thesis
  proof (cases "find (\<lambda>c. length (cl_values c) \<ge> 2) ?c")
    case None
    have "?c ! 0 \<in> set ?c" "length ?c \<ge> 2 \<longrightarrow> ?c ! 1 \<in> set ?c" using cne by auto
    then have "?r \<in> cv_value ` set values" using r None elem by (auto split: if_splits)
    moreover have "\<forall>c \<in> set ?b. length (cl_values c) < 2"
      using None mset_eq_setD [OF cm] by (auto simp: find_None_iff)
    then have "sorted_wrt (\<lambda>x y. tolerance < y - x) (cv_value v # map cv_value vs)"
      using dist by (intro build_clusters_apart [of tolerance "new_cluster v"]) simp_all
    then have "tolerance < \<bar>x - y\<bar>" if "{#x, y#} \<subseteq># image_mset cv_value (mset values)" for x y
      using apart_pair [OF _ _ assms(3)] that ms s by (metis list.simps(9) mset_map)
    ultimately show ?thesis by force
  next
    case (Some c)
    then have c: "c \<in> set ?c" "2 \<le> length (cl_values c)" by (auto simp: find_Some_iff)
    then have cb: "c \<in> set ?b" using mset_eq_setD [OF cm] by blast
    have rc: "?r = middle (cl_values c)" using r Some by simp
    have pair: "{#?r, cl_values c ! 0#} \<subseteq># image_mset cv_value (mset values)"
      using mset_pair_of_cluster [where f = cl_values, OF cb c(2)] unfolding rc cmset .
    have "cl_values c ! 0 \<in> set (cl_values c)" using ne [OF c(1)] by (intro nth_mem) simp
    then have "\<bar>?r - cl_values c ! 0\<bar> \<le> tolerance"
      unfolding rc using middle_in [OF ne [OF c(1)]] dist cb assms(3)
      by (intro build_clusters_span [of vs "cv_value v" "new_cluster v" tolerance c]) simp_all
    then show ?thesis using pair elem [OF c(1)] rc by auto
  qed
qed

theorem consensus_supported_witness:
  "\<exists>y. {#consensusByUptime insertion_sorter 0 [\<lparr>cv_value = 10, cv_weight = 1\<rparr>, \<lparr>cv_value = 500, cv_weight = 99\<rparr>,
          \<lparr>cv_value = 20, cv_weight = 1\<rparr>] 60 True, y#} \<subseteq># {#10, 500, 20#}"
proof -
  have "{#10, 20#} \<subseteq># {#10, 500, 20 :: int#}" by simp
  then show ?thesis
    using consensus_supported [OF sort_algorithm_insertion, of "[\<lparr>cv_value = 10, cv_weight = 1\<rparr>, \<lparr>cv_value = 500, cv_weight = 99\<rparr>,
          \<lparr>cv_value = 20, cv_weight = 1\<rparr>]" 60 0 True] by fastforce
qed

end
