(* ===== verification/Checkpoint_Service.thy ===== *)
theory Checkpoint_Service
  imports Checkpoint_Derive Consensus_Math
begin

text \<open>
  \<open>checkpoint_service.go\<close>: proposing, voting, finding consensus, storing. Pending proposals are
  shared by pointer between the MQTT handlers and the finalizing goroutines, so they live in a
  heap (\<open>cs_pendings\<close>) and \<open>cs_myPending\<close> is a pointer into it. A method that takes several
  locks in turn is split at them: \<open>HandleVote\<close> into its checks and its append,
  \<open>finalizeProposal\<close> into reading the pointer, claiming the proposal and finishing it.
  \<open>Checkpoint_Rounds\<close> interleaves the pieces. What the rest of the program supplies is the
  environment \<open>svc_env\<close>; \<open>now\<close> is in seconds, \<open>nowNano\<close> in nanoseconds.
\<close>

definition MinVotersRequired :: int where "MinVotersRequired = 5"
definition MaxCheckpointSignatures :: int where "MaxCheckpointSignatures = 10"
definition DefaultCheckpointInterval :: int where "DefaultCheckpointInterval = 24 * 3600 * 1000000000"
definition DefaultVoteWindow :: int where "DefaultVoteWindow = 60 * 1000000000"

record CheckpointProposal =
  pr_Attestation :: Attestation
  pr_Round :: int

record CheckpointVote =
  vt_Attestation :: Attestation
  vt_ProposalTS :: int
  vt_Round :: int
  vt_Approved :: bool

record pendingProposal =
  pp_proposal :: CheckpointProposal
  pp_votes :: "CheckpointVote list"
  pp_expiresAt :: int
  pp_round :: int
  pp_finalized :: bool

record CheckpointService =
  cs_ledger :: "SyncLedger option"
  cs_pendings :: "pendingProposal list"
  cs_myPending :: "nat option"
  cs_lastCheckpointTime :: int
  cs_checkpointInterval :: int
  cs_voteWindow :: int

record svc_env =
  me_Name :: NaraName
  me_ID :: NaraID
  me_Keypair :: NaraKeypair
  getPublicKeyForNaraID :: "NaraID \<Rightarrow> string option"
  bootRecoveryComplete :: bool
  mqttConnected :: bool
  onlineCount :: int

text \<open>The zero \<open>time.Time\<close> of a new service is an instant long past.\<close>

definition NewCheckpointService :: "SyncLedger option \<Rightarrow> CheckpointService" where
  "NewCheckpointService ledger = \<lparr>cs_ledger = ledger, cs_pendings = [], cs_myPending = None,
     cs_lastCheckpointTime = 0, cs_checkpointInterval = DefaultCheckpointInterval,
     cs_voteWindow = DefaultVoteWindow\<rparr>"

definition initializeLastCheckpointTime :: "svc_env \<Rightarrow> int \<Rightarrow> CheckpointService \<Rightarrow> CheckpointService" where
  "initializeLastCheckpointTime E nowNano s =
     (case cs_ledger s of
        None \<Rightarrow> s
      | Some l \<Rightarrow>
          (case GetCheckpoint l (me_Name E) of
             Some c \<Rightarrow> s\<lparr>cs_lastCheckpointTime := cp_AsOfTime c * 1000000000\<rparr>
           | None \<Rightarrow> s\<lparr>cs_lastCheckpointTime := nowNano\<rparr>))"

section \<open>Proposing\<close>

record round2Values =
  r2_restarts :: int
  r2_totalUptime :: int
  r2_firstSeen :: int

definition signed_attestation :: "go_env \<Rightarrow> NaraKeypair \<Rightarrow> Attestation \<Rightarrow> Attestation" where
  "signed_attestation G keypair a = a\<lparr>at_Signature := SignContent G (attestation_SignableContent a) keypair\<rparr>"

definition observed_values :: "int \<Rightarrow> int \<Rightarrow> int \<Rightarrow> NaraObservation" where
  "observed_values restarts totalUptime firstSeen =
     zero_observation\<lparr>no_Restarts := restarts, no_TotalUptime := totalUptime, no_StartTime := firstSeen\<rparr>"

definition own_proposal :: "go_env \<Rightarrow> svc_env \<Rightarrow> int \<Rightarrow> int \<Rightarrow> round2Values option \<Rightarrow> SyncLedger \<Rightarrow> CheckpointProposal" where
  "own_proposal G E now round consensusValues l =
     (let observation =
            (case (if round = 2 then consensusValues else None) of
               Some v \<Rightarrow> observed_values (r2_restarts v) (r2_totalUptime v) (r2_firstSeen v)
             | None \<Rightarrow> observed_values (DeriveRestartCount l (me_Name E)) (DeriveTotalUptime G now l (me_Name E))
                        (GetFirstSeenFromEvents l (me_Name E)))
      in \<lparr>pr_Attestation = signed_attestation G (me_Keypair E)
            \<lparr>at_Version = 2, at_Subject = me_Name E, at_SubjectID = me_ID E, at_Observation = observation,
             at_Attester = me_Name E, at_AttesterID = me_ID E,
             at_LastSeenCheckpointID = GetLatestCheckpointID l (me_Name E), at_AsOfTime = now,
             at_Signature = []\<rparr>,
          pr_Round = round\<rparr>)"

text \<open>
  The result is the service, the proposal that is published, and whether a finalizing goroutine
  is scheduled. \<open>published\<close> says whether the broker takes the message: when it does not, the
  method returns before the goroutine is started.
\<close>

definition proposeCheckpointRound ::
  "go_env \<Rightarrow> svc_env \<Rightarrow> int \<Rightarrow> int \<Rightarrow> bool \<Rightarrow> int \<Rightarrow> round2Values option \<Rightarrow> CheckpointService
   \<Rightarrow> CheckpointService \<times> CheckpointProposal option \<times> bool" where
  "proposeCheckpointRound G E now nowNano published round consensusValues s =
     (if \<not> mqttConnected E then (s, None, False)
      else case cs_ledger s of
             None \<Rightarrow> (s, None, False)
           | Some l \<Rightarrow>
               let proposal = own_proposal G E now round consensusValues l;
                   pending = \<lparr>pp_proposal = proposal, pp_votes = [], pp_expiresAt = nowNano + cs_voteWindow s,
                              pp_round = round, pp_finalized = False\<rparr>;
                   s' = s\<lparr>cs_pendings := cs_pendings s @ [pending],
                          cs_myPending := Some (length (cs_pendings s))\<rparr>
               in if published then (s', Some proposal, True) else (s', None, False))"

definition ProposeCheckpoint ::
  "go_env \<Rightarrow> svc_env \<Rightarrow> int \<Rightarrow> int \<Rightarrow> bool \<Rightarrow> CheckpointService
   \<Rightarrow> CheckpointService \<times> CheckpointProposal option \<times> bool" where
  "ProposeCheckpoint G E now nowNano published s = proposeCheckpointRound G E now nowNano published 1 None s"

definition my_unfinalized :: "CheckpointService \<Rightarrow> bool" where
  "my_unfinalized s \<longleftrightarrow> (case cs_myPending s of None \<Rightarrow> False | Some p \<Rightarrow> \<not> pp_finalized (cs_pendings s ! p))"

definition checkAndPropose ::
  "go_env \<Rightarrow> svc_env \<Rightarrow> int \<Rightarrow> int \<Rightarrow> bool \<Rightarrow> CheckpointService
   \<Rightarrow> CheckpointService \<times> CheckpointProposal option \<times> bool" where
  "checkAndPropose G E now nowNano published s =
     (if \<not> bootRecoveryComplete E then (s, None, False)
      else if nowNano - cs_lastCheckpointTime s < cs_checkpointInterval s then (s, None, False)
      else if my_unfinalized s then (s, None, False)
      else if onlineCount E < MinVotersRequired + 1 then (s, None, False)
      else ProposeCheckpoint G E now nowNano published s)"

section \<open>Voting\<close>

definition valuesMatch :: "int \<Rightarrow> int \<Rightarrow> int \<Rightarrow> bool" where
  "valuesMatch a b tolerance =
     (let diff = i64 (a - b); diff' = (if diff < 0 then i64 (- diff) else diff) in diff' \<le> tolerance)"

definition attestation_verifies :: "go_env \<Rightarrow> svc_env \<Rightarrow> NaraID \<Rightarrow> Attestation \<Rightarrow> bool" where
  "attestation_verifies G E signerID a =
     (if at_Signature a = [] then False
      else case getPublicKeyForNaraID E signerID of
             None \<Rightarrow> False
           | Some pubKey \<Rightarrow> VerifyContent G (attestation_SignableContent a) pubKey (at_Signature a))"

definition verifyVoteSignature :: "go_env \<Rightarrow> svc_env \<Rightarrow> CheckpointVote \<Rightarrow> bool" where
  "verifyVoteSignature G E vote =
     attestation_verifies G E (at_AttesterID (vt_Attestation vote)) (vt_Attestation vote)"

definition verifyProposalSignature :: "go_env \<Rightarrow> svc_env \<Rightarrow> CheckpointProposal \<Rightarrow> bool" where
  "verifyProposalSignature G E proposal =
     attestation_verifies G E (at_SubjectID (pr_Attestation proposal)) (pr_Attestation proposal)"

definition protocol_version :: "Attestation \<Rightarrow> int" where
  "protocol_version a = (if at_Version a = 0 then 1 else at_Version a)"

text \<open>The vote that \<open>HandleProposal\<close> publishes (with some jitter), if any.\<close>

definition HandleProposal ::
  "go_env \<Rightarrow> svc_env \<Rightarrow> int \<Rightarrow> CheckpointProposal \<Rightarrow> CheckpointService \<Rightarrow> CheckpointVote option" where
  "HandleProposal G E now proposal s =
     (let a = pr_Attestation proposal
      in if at_Subject a = me_Name E then None
         else if \<not> bootRecoveryComplete E then None
         else case cs_ledger s of
           None \<Rightarrow> None
         | Some l \<Rightarrow>
             if \<not> verifyProposalSignature G E proposal then None
             else if protocol_version a < 2 then None
             else let ourRestarts = DeriveRestartCount l (at_Subject a);
                      ourUptime = DeriveTotalUptime G now l (at_Subject a);
                      ourFirstSeen = GetFirstSeenFromEvents l (at_Subject a);
                      approved = valuesMatch (no_Restarts (at_Observation a)) ourRestarts 5 \<and>
                                 valuesMatch (no_TotalUptime (at_Observation a)) ourUptime 60 \<and>
                                 valuesMatch (no_StartTime (at_Observation a)) ourFirstSeen 60;
                      observation = (if approved then at_Observation a
                                     else observed_values ourRestarts ourUptime ourFirstSeen);
                      attestation = signed_attestation G (me_Keypair E)
                        \<lparr>at_Version = 2, at_Subject = at_Subject a, at_SubjectID = at_SubjectID a,
                         at_Observation = observation, at_Attester = me_Name E, at_AttesterID = me_ID E,
                         at_LastSeenCheckpointID = GetLatestCheckpointID l (at_Subject a),
                         at_AsOfTime = at_AsOfTime a, at_Signature = []\<rparr>
                  in if mqttConnected E
                     then Some \<lparr>vt_Attestation = attestation, vt_ProposalTS = at_AsOfTime a,
                                vt_Round = pr_Round proposal, vt_Approved = approved\<rparr>
                     else None)"

text \<open>\<open>HandleVote\<close> up to its append: the pending proposal that the vote is for, if it is accepted.\<close>

definition HandleVote_check ::
  "go_env \<Rightarrow> svc_env \<Rightarrow> CheckpointVote \<Rightarrow> CheckpointService \<Rightarrow> nat option" where
  "HandleVote_check G E vote s =
     (if at_Subject (vt_Attestation vote) \<noteq> me_Name E then None
      else if \<not> verifyVoteSignature G E vote then None
      else if protocol_version (vt_Attestation vote) < 2 then None
      else case cs_myPending s of
             None \<Rightarrow> None
           | Some p \<Rightarrow>
               let pending = cs_pendings s ! p
               in if vt_ProposalTS vote \<noteq> at_AsOfTime (pr_Attestation (pp_proposal pending)) \<or>
                     vt_Round vote \<noteq> pp_round pending then None
                  else if pp_finalized pending then None
                  else Some p)"

definition HandleVote_append :: "nat \<Rightarrow> CheckpointVote \<Rightarrow> CheckpointService \<Rightarrow> CheckpointService \<times> bool" where
  \<comment> \<open>the bool: a finalizing goroutine is started\<close>
  "HandleVote_append p vote s =
     (let pending = cs_pendings s ! p; votes = pp_votes pending @ [vote]
      in (s\<lparr>cs_pendings := (cs_pendings s)[p := pending\<lparr>pp_votes := votes\<rparr>]\<rparr>,
          int (length votes) \<ge> MinVotersRequired))"

section \<open>Consensus\<close>

type_synonym valueKey = "int \<times> int \<times> int \<times> string"

definition value_key :: "Attestation \<Rightarrow> valueKey" where
  "value_key a = (no_Restarts (at_Observation a), no_TotalUptime (at_Observation a),
                  no_StartTime (at_Observation a), at_LastSeenCheckpointID a)"

definition vote_key :: "CheckpointVote \<Rightarrow> valueKey" where
  "vote_key v = value_key (vt_Attestation v)"

definition group_of :: "valueKey \<Rightarrow> CheckpointVote list \<Rightarrow> CheckpointVote list" where
  "group_of k votes = filter (\<lambda>v. vote_key v = k) votes"

text \<open>
  The loop over the map of groups keeps the largest group that reaches the quorum; the order in
  which Go visits the keys is not specified, so it is the parameter \<open>iter\<close>.
\<close>

definition better_group ::
  "CheckpointVote list \<Rightarrow> valueKey \<times> CheckpointVote list \<Rightarrow> valueKey \<Rightarrow> valueKey \<times> CheckpointVote list" where
  "better_group votes best k =
     (let groupVotes = group_of k votes
      in if int (length groupVotes) \<ge> MinVotersRequired \<and> length groupVotes > length (snd best)
         then (k, groupVotes) else best)"

definition zero_key :: valueKey where "zero_key = (0, 0, 0, [])"

definition choose_votes ::
  "(valueKey list \<Rightarrow> valueKey list) \<Rightarrow> CheckpointProposal \<Rightarrow> CheckpointVote list \<Rightarrow> valueKey \<times> CheckpointVote list" where
  "choose_votes iter proposal votes =
     (let best = foldl (better_group votes) (zero_key, []) (iter (remdups (map vote_key votes)));
          approvalVotes = filter vt_Approved votes
      in if int (length approvalVotes) \<ge> MinVotersRequired \<and> length approvalVotes > length (snd best)
         then (value_key (pr_Attestation proposal), approvalVotes) else best)"

definition tryFindConsensus ::
  "go_env \<Rightarrow> (valueKey list \<Rightarrow> valueKey list) \<Rightarrow> (NaraName \<Rightarrow> int) \<Rightarrow> CheckpointProposal \<Rightarrow> CheckpointVote list
   \<Rightarrow> CheckpointEventPayload option" where
  "tryFindConsensus G iter getVoterUptime proposal votes =
     (if int (length votes) < MinVotersRequired then None
      else case choose_votes iter proposal votes of (bestKey, bestVotes) \<Rightarrow>
        if int (length bestVotes) < MinVotersRequired then None
        else let a = pr_Attestation proposal;
                 sortedVotes = sort_slice (sort_perm G) (\<lambda>x y. snd x > snd y)
                   (map (\<lambda>v. (v, getVoterUptime (at_Attester (vt_Attestation v)))) bestVotes);
                 proposerIncluded = (bestKey = value_key a);
                 maxVoters = (if proposerIncluded then MaxCheckpointSignatures - 1 else MaxCheckpointSignatures);
                 chosen = map (vt_Attestation \<circ> fst) (take (nat maxVoters) sortedVotes);
                 (restarts, totalUptime, firstSeen, lastSeen) = bestKey
             in Some \<lparr>cp_Version = 2, cp_Subject = at_Subject a, cp_SubjectID = at_SubjectID a,
                      cp_PreviousCheckpointID = lastSeen,
                      cp_Observation = observed_values restarts totalUptime firstSeen,
                      cp_AsOfTime = at_AsOfTime a, cp_Round = pr_Round proposal,
                      cp_VoterIDs = (if proposerIncluded then [at_SubjectID a] else []) @ map at_AttesterID chosen,
                      cp_Signatures = (if proposerIncluded then [at_Signature a] else []) @ map at_Signature chosen\<rparr>)"

definition getVoterUptime :: "go_env \<Rightarrow> int \<Rightarrow> CheckpointService \<Rightarrow> NaraName \<Rightarrow> int" where
  "getVoterUptime G now s voterName =
     (case cs_ledger s of None \<Rightarrow> 0 | Some l \<Rightarrow> DeriveTotalUptime G now l voterName)"

definition proposeRound2 ::
  "go_env \<Rightarrow> svc_env \<Rightarrow> int \<Rightarrow> int \<Rightarrow> bool \<Rightarrow> CheckpointVote list \<Rightarrow> CheckpointService
   \<Rightarrow> CheckpointService \<times> CheckpointProposal option \<times> bool" where
  "proposeRound2 G E now nowNano published votes s =
     (if length votes = 0 then (s, None, False)
      else let vals = (\<lambda>f. map (\<lambda>v. f (at_Observation (vt_Attestation v))) votes);
               consensus = \<lparr>r2_restarts = TrimmedMeanInt64 (sort_perm G) (vals no_Restarts),
                            r2_totalUptime = TrimmedMeanInt64 (sort_perm G) (vals no_TotalUptime),
                            r2_firstSeen = TrimmedMeanInt64 (sort_perm G) (vals no_StartTime)\<rparr>
           in proposeCheckpointRound G E now nowNano published 2 (Some consensus) s)"

section \<open>Storing\<close>

definition verifyCheckpointSignatures ::
  "go_env \<Rightarrow> svc_env \<Rightarrow> CheckpointEventPayload \<Rightarrow> CheckpointVerificationResult" where
  "verifyCheckpointSignatures G E c =
     VerifySignatureWithCounts G (Some (\<lambda>i name. getPublicKeyForNaraID E i)) c"

definition checkpoint_event :: "go_env \<Rightarrow> int \<Rightarrow> CheckpointEventPayload \<Rightarrow> SyncEvent go" where
  "checkpoint_event G nowNano c =
     go_bind (NewCheckpointEvent G nowNano (cp_Subject c) (cp_AsOfTime c) (no_StartTime (cp_Observation c))
                (no_Restarts (cp_Observation c)) (no_TotalUptime (cp_Observation c)))
       (\<lambda>event. go_bind (deref (Checkpoint event)) (\<lambda>p.
          ComputeID G (event\<lparr>Checkpoint := Some (p\<lparr>cp_Version := 2, cp_VoterIDs := cp_VoterIDs c,
            cp_Signatures := cp_Signatures c, cp_SubjectID := cp_SubjectID c, cp_Round := cp_Round c,
            cp_PreviousCheckpointID := cp_PreviousCheckpointID c\<rparr>)\<rparr>)))"

text \<open>The result is the ledger and the event that is broadcast.\<close>

definition storeCheckpoint ::
  "go_env \<Rightarrow> svc_env \<Rightarrow> int \<Rightarrow> CheckpointEventPayload \<Rightarrow> SyncLedger option
   \<Rightarrow> (SyncLedger option \<times> SyncEvent option) go" where
  "storeCheckpoint G E nowNano checkpoint ledger =
     go_bind (checkpoint_event G nowNano checkpoint) (\<lambda>event.
       go_bind (deref (Checkpoint event)) (\<lambda>p.
         if \<not> vr_Valid (verifyCheckpointSignatures G E p) then Inr (ledger, None)
         else go_bind (deref ledger) (\<lambda>l. go_bind (AddEvent G event l) (\<lambda>(ok, l', calls).
                Inr (Some l', if mqttConnected E then Some event else None)))))"

definition HandleFinalCheckpoint :: "go_env \<Rightarrow> svc_env \<Rightarrow> SyncEvent \<Rightarrow> SyncLedger \<Rightarrow> SyncLedger go" where
  "HandleFinalCheckpoint G E event l =
     (case (if Service event \<noteq> ServiceCheckpoint then None else Checkpoint event) of
        None \<Rightarrow> Inr l
      | Some c \<Rightarrow>
          if cp_Subject c = me_Name E then Inr l
          else if int (length (cp_Signatures c)) < MinVotersRequired then Inr l
          else if \<not> vr_Valid (verifyCheckpointSignatures G E c) then Inr l
          else go_bind (AddEvent G event l) (\<lambda>(ok, l', calls). Inr l'))"

section \<open>Finalizing\<close>

definition finalize_claim :: "nat \<Rightarrow> CheckpointService \<Rightarrow> CheckpointService option" where
  \<comment> \<open>\<open>None\<close>: another goroutine was first, return\<close>
  "finalize_claim p s =
     (let pending = cs_pendings s ! p
      in if pp_finalized pending then None
         else Some (s\<lparr>cs_pendings := (cs_pendings s)[p := pending\<lparr>pp_finalized := True\<rparr>]\<rparr>))"

record finish_output =
  fo_checkpoint :: "CheckpointEventPayload option"
  fo_broadcast :: "SyncEvent option"
  fo_proposal :: "CheckpointProposal option"
  fo_scheduled :: bool

definition finalize_finish ::
  "go_env \<Rightarrow> (valueKey list \<Rightarrow> valueKey list) \<Rightarrow> svc_env \<Rightarrow> int \<Rightarrow> int \<Rightarrow> bool \<Rightarrow> nat \<Rightarrow> CheckpointService
   \<Rightarrow> (CheckpointService \<times> finish_output) go" where
  "finalize_finish G iter E now nowNano published p s =
     (let pending = cs_pendings s ! p; votes = pp_votes pending
      in case tryFindConsensus G iter (getVoterUptime G now s) (pp_proposal pending) votes of
           Some checkpoint \<Rightarrow>
             go_bind (storeCheckpoint G E nowNano checkpoint (cs_ledger s)) (\<lambda>(ledger', event).
               Inr (s\<lparr>cs_ledger := ledger', cs_lastCheckpointTime := nowNano\<rparr>,
                    \<lparr>fo_checkpoint = Some checkpoint, fo_broadcast = event, fo_proposal = None, fo_scheduled = False\<rparr>))
         | None \<Rightarrow>
             if pp_round pending = 1
             then (case proposeRound2 G E now nowNano published votes s of (s', prop, sched) \<Rightarrow>
                     Inr (s', \<lparr>fo_checkpoint = None, fo_broadcast = None, fo_proposal = prop, fo_scheduled = sched\<rparr>))
             else Inr (s\<lparr>cs_lastCheckpointTime := nowNano\<rparr>,
                       \<lparr>fo_checkpoint = None, fo_broadcast = None, fo_proposal = None, fo_scheduled = False\<rparr>))"

end
