(* ===== verification/Checkpoint_Properties.thy ===== *)
theory Checkpoint_Properties
  imports Checkpoint_Derive Ledger_Properties
begin

text \<open>
  Properties of the checkpoint derivations: voters, the latest checkpoint, restart counts,
  uptime and first sightings.
\<close>

section \<open>Demonstration data\<close>

definition demo_checkpoint :: "string \<Rightarrow> int \<Rightarrow> SyncEvent" where
  "demo_checkpoint i asOf = zero_event\<lparr>ID := i, Timestamp := 1, Service := ServiceCheckpoint,
     Checkpoint := Some \<lparr>cp_Version = 2, cp_Subject = ''b'', cp_SubjectID = ''b'', cp_PreviousCheckpointID = [],
        cp_Observation = zero_observation\<lparr>no_Restarts := 3, no_TotalUptime := 1000, no_StartTime := 5\<rparr>,
        cp_AsOfTime = asOf, cp_Round = 1, cp_VoterIDs = [], cp_Signatures = []\<rparr>\<rparr>"

lemma demo_checkpoint_fields [simp]:
  "Service (demo_checkpoint i t) = ServiceCheckpoint" "ID (demo_checkpoint i t) = i"
  "Checkpoint (demo_checkpoint i t) = Some \<lparr>cp_Version = 2, cp_Subject = ''b'', cp_SubjectID = ''b'', cp_PreviousCheckpointID = [],
        cp_Observation = zero_observation\<lparr>no_Restarts := 3, no_TotalUptime := 1000, no_StartTime := 5\<rparr>,
        cp_AsOfTime = t, cp_Round = 1, cp_VoterIDs = [], cp_Signatures = []\<rparr>"
  "checkpoint_time (demo_checkpoint i t) = t"
  "is_checkpoint_for s (demo_checkpoint i t) \<longleftrightarrow> s = ''b''"
  by (auto simp: demo_checkpoint_def checkpoint_time_def is_checkpoint_for_def)

lemma demo_not_checkpoint [simp]:
  "\<not> is_checkpoint_for s (demo_restart i t n)" "\<not> is_checkpoint_for s (demo_obs i t n)"
  "\<not> is_checkpoint_for s (demo_ping i t)"
  by (simp_all add: is_checkpoint_for_def)

lemma zero_observation_fields [simp]:
  "no_Restarts zero_observation = 0" "no_TotalUptime zero_observation = 0" "no_StartTime zero_observation = 0"
  by (simp_all add: zero_observation_def)

section \<open>Voters\<close>

lemma checkpoint_ContentString_voters [simp]:
  "checkpoint_ContentString (c\<lparr>cp_VoterIDs := vs, cp_Signatures := ss\<rparr>) = checkpoint_ContentString c"
  by (simp add: checkpoint_ContentString_def Let_def)

lemma VerifyCheckpointSignatures_ID [simp]:
  "VerifyCheckpointSignatures G keys (e\<lparr>ID := i\<rparr>) = VerifyCheckpointSignatures G keys e"
  by (simp add: VerifyCheckpointSignatures_def)

text \<open>
  a voter's signature is found again. Adding a voter whose public key is registered under
  its ID raises the number of valid signatures of a checkpoint with as many voters as
  signatures by exactly one; the earlier signatures stay valid, and the event keeps a
  computed ID.
\<close>

theorem voter_roundtrip:
  assumes "crypto_ok G" and "valid_keypair G keypair"
    and "Service e = ServiceCheckpoint" and "Checkpoint e = Some c"
    and "length (cp_VoterIDs c) = length (cp_Signatures c)"
    and "publicKeys voterID = Some (FormatPublicKey G (PublicKey keypair))"
  shows "\<exists>e'. AddCheckpointVoter G voterID keypair e = Inr e' \<and>
           VerifyCheckpointSignatures G publicKeys e' = VerifyCheckpointSignatures G publicKeys e + 1"
proof -
  let ?sig = "SignBase64 G keypair (checkpoint_signableData G c)"
  let ?c = "c\<lparr>cp_VoterIDs := cp_VoterIDs c @ [voterID], cp_Signatures := cp_Signatures c @ [?sig]\<rparr>"
  let ?e = "e\<lparr>Checkpoint := Some ?c\<rparr>"
  have data: "checkpoint_signableData G ?c = checkpoint_signableData G c"
    by (simp add: checkpoint_signableData_def)
  have "has_payload ?e" using assms(3) by (simp add: has_payload_def Payload_def)
  then obtain i where i: "ComputeID G ?e = Inr (?e\<lparr>ID := i\<rparr>)"
    using ComputeID_total [of ?e G] by (auto simp: ComputeID_Inr)
  have "base64_Decode G ?sig = Some (KeypairSign G keypair (checkpoint_signableData G c))"
    using assms(1) by (simp add: SignBase64_def)
  then have "voter_signature_ok G publicKeys (checkpoint_signableData G c) (voterID, ?sig)"
    using assms(1,2,6) by (simp add: voter_signature_ok_def FormatPublicKey_def valid_keypair_def)
  then have "VerifyCheckpointSignatures G publicKeys ?e = VerifyCheckpointSignatures G publicKeys e + 1"
    using assms(3-5) data by (simp add: VerifyCheckpointSignatures_def)
  moreover have "AddCheckpointVoter G voterID keypair e = Inr (?e\<lparr>ID := i\<rparr>)"
    using assms(3,4) i by (simp add: AddCheckpointVoter_def)
  ultimately show ?thesis by simp
qed

theorem voter_roundtrip_witness:
  "\<exists>e'. AddCheckpointVoter demo_env ''v'' (demo_keypair CHR ''k'') (demo_checkpoint ''c'' 9) = Inr e' \<and>
     VerifyCheckpointSignatures demo_env [''v'' \<mapsto> FormatPublicKey demo_env (PublicKey (demo_keypair CHR ''k''))] e' = 1"
  using voter_roundtrip [OF crypto_ok_demo valid_keypair_demo demo_checkpoint_fields(1) demo_checkpoint_fields(3),
      where publicKeys = "[''v'' \<mapsto> FormatPublicKey demo_env (PublicKey (demo_keypair CHR ''k''))]" and voterID = "''v''"]
  by (simp add: VerifyCheckpointSignatures_def)

section \<open>The latest checkpoint\<close>

text \<open>
  the latest checkpoint. \<open>GetCheckpointEvent\<close> finds a checkpoint of the subject exactly when
  one with a positive time is stored; what it returns is stored, is about the subject, and no
  checkpoint of the subject is later; \<open>GetLatestCheckpointID\<close> is its ID.
\<close>

theorem latest_checkpoint_correct:
  "(case GetCheckpointEvent l subject of
      None \<Rightarrow> \<not> (\<exists>x \<in> set (Events l). is_checkpoint_for subject x \<and> 0 < checkpoint_time x) \<and>
              GetLatestCheckpointID l subject = []
    | Some e \<Rightarrow> e \<in> set (Events l) \<and> is_checkpoint_for subject e \<and> 0 < checkpoint_time e \<and>
                (\<forall>x \<in> set (Events l). is_checkpoint_for subject x \<longrightarrow> checkpoint_time x \<le> checkpoint_time e) \<and>
                GetLatestCheckpointID l subject = ID e)"
proof (cases "GetCheckpointEvent l subject")
  case None
  then show ?thesis
    using GetCheckpointEvent_None [of l subject] by (auto simp: GetLatestCheckpointID_def GetCheckpointEvent_def not_less)
next
  case (Some e)
  then show ?thesis
    using GetCheckpointEvent_SomeD [OF Some] by (simp add: GetLatestCheckpointID_def GetCheckpointEvent_def)
qed

theorem latest_checkpoint_correct_witness:
  "GetLatestCheckpointID (demo_ledger 9 [demo_checkpoint ''x'' 4, demo_checkpoint ''y'' 8]) ''b'' = ''y''"
proof -
  have "GetCheckpointEvent (demo_ledger 9 [demo_checkpoint ''x'' 4, demo_checkpoint ''y'' 8]) ''b'' = Some (demo_checkpoint ''y'' 8)"
    by (simp add: GetCheckpointEvent_def latest_by_def latest_step_def)
  then show ?thesis
    using latest_checkpoint_correct [of "demo_ledger 9 [demo_checkpoint ''x'' 4, demo_checkpoint ''y'' 8]" "''b''"] by simp
qed

section \<open>Restart counts\<close>

lemma Events_append_event: "Events (append_event e l) = Events l @ [e]"
  by (simp add: append_event_def)

text \<open>The start times that the derivation counts on top of its baseline.\<close>

definition counted_starts :: "SyncLedger \<Rightarrow> NaraName \<Rightarrow> int set" where
  "counted_starts l subject =
     {t \<in> set (List.map_filter (restart_start subject) (Events l)).
        (case GetCheckpoint l subject of
           Some c \<Rightarrow> \<not> (cp_AsOfTime c > 0 \<and> t \<le> cp_AsOfTime c)
         | None \<Rightarrow> (case GetBackfillEvent l subject of Some b \<Rightarrow> t \<noteq> ob_StartTime b | None \<Rightarrow> True))}"

definition restart_baseline :: "SyncLedger \<Rightarrow> NaraName \<Rightarrow> int" where
  "restart_baseline l subject =
     (case GetCheckpoint l subject of
        Some c \<Rightarrow> no_Restarts (cp_Observation c)
      | None \<Rightarrow> (case GetBackfillEvent l subject of Some b \<Rightarrow> ob_RestartNum b | None \<Rightarrow> 0))"

lemma DeriveRestartCount_eq:
  assumes "in_i64 (restart_baseline l subject + int (card (counted_starts l subject)))"
  shows "DeriveRestartCount l subject = restart_baseline l subject + int (card (counted_starts l subject))"
  using assms
  by (auto simp: DeriveRestartCount_def restart_baseline_def counted_starts_def countUniqueStartTimesAfter_def
      countUniqueStartTimesExcluding_def split: option.splits)

lemma restart_start_iff:
  "restart_start subject e = Some t \<longleftrightarrow> obs_of e (\<lambda>q. ob_Subject q = subject \<and> ob_Type q = ''restart'' \<and>
     \<not> ob_IsBackfill q \<and> ob_StartTime q = t)"
  by (auto simp: restart_start_def obs_of_def split: option.splits if_splits)

text \<open>
  every restart counts once. Storing a restart of the subject (not a backfill, at start time
  \<open>t\<close>, after the latest checkpoint or different from the backfilled start) raises the derived
  restart count by one if no stored restart of the subject has that start time, and leaves it
  unchanged if another observer has already reported it.
\<close>

theorem restart_counted_once:
  assumes "restart_start subject e = Some t"
    and "case GetCheckpoint l subject of Some c \<Rightarrow> cp_AsOfTime c < t
         | None \<Rightarrow> (case GetBackfillEvent l subject of Some b \<Rightarrow> t \<noteq> ob_StartTime b | None \<Rightarrow> True)"
    and "in_i64 (restart_baseline l subject + int (card (counted_starts l subject)) + 1)"
    and "in_i64 (restart_baseline l subject)"
  shows "DeriveRestartCount (append_event e l) subject =
           DeriveRestartCount l subject +
             (if \<exists>x \<in> set (Events l). restart_start subject x = Some t then 0 else 1)"
proof -
  have o: "obs_of e (\<lambda>q. ob_Subject q = subject \<and> ob_Type q = ''restart'' \<and> \<not> ob_IsBackfill q \<and> ob_StartTime q = t)"
    using assms(1) by (simp add: restart_start_iff)
  have nc: "\<not> is_checkpoint_for subject e" and nb: "\<not> obs_of e ob_IsBackfill"
    using o by (auto simp: obs_of_iff is_checkpoint_for_def)
  have gc: "GetCheckpoint (append_event e l) subject = GetCheckpoint l subject"
    by (simp add: GetCheckpoint_def GetCheckpointEvent_append [OF nc])
  have gb: "GetBackfillEvent (append_event e l) subject = GetBackfillEvent l subject"
    by (rule GetBackfillEvent_append [OF nb])
  have base: "restart_baseline (append_event e l) subject = restart_baseline l subject"
    by (simp add: restart_baseline_def gc gb split: option.split)
  let ?S = "counted_starts l subject"
  have fin: "finite ?S" by (simp add: counted_starts_def)
  have "counted_starts (append_event e l) subject = insert t ?S"
    using assms(1,2)
    by (auto simp: counted_starts_def gc gb Events_append_event map_filter_append map_filter_single split: option.splits)
  moreover have "t \<in> ?S \<longleftrightarrow> (\<exists>x \<in> set (Events l). restart_start subject x = Some t)"
    using assms(2) by (auto simp: counted_starts_def in_map_filter split: option.splits)
  ultimately have card: "card (counted_starts (append_event e l) subject) =
      card ?S + (if \<exists>x \<in> set (Events l). restart_start subject x = Some t then 0 else 1)"
    using fin by (simp add: card_insert_if)
  have "in_i64 (restart_baseline l subject + int (card ?S))"
    using assms(3,4) by (simp add: in_i64_def)
  then show ?thesis
    using DeriveRestartCount_eq [of l subject] DeriveRestartCount_eq [of "append_event e l" subject] assms(3)
    by (simp add: card base algebra_simps split: if_splits)
qed

theorem restart_counted_once_witness:
  "DeriveRestartCount (append_event (demo_restart ''r'' 1 1) (demo_ledger 9 [demo_checkpoint ''x'' 4])) ''b'' = 4"
proof -
  let ?l = "demo_ledger 9 [demo_checkpoint ''x'' 4]"
  have e: "GetCheckpointEvent ?l ''b'' = Some (demo_checkpoint ''x'' 4)"
    by (simp add: GetCheckpointEvent_def latest_by_def latest_step_def)
  have s: "restart_start ''b'' (demo_restart ''r'' 1 1) = Some 5" by (simp add: restart_start_def zero_obs_def)
  have n: "restart_start ''b'' (demo_checkpoint ''x'' 4) = None" by (simp add: restart_start_def)
  have c: "counted_starts ?l ''b'' = {}" by (simp add: counted_starts_def List.map_filter_def n)
  have b: "restart_baseline ?l ''b'' = 3" by (simp add: restart_baseline_def GetCheckpoint_def e)
  have "DeriveRestartCount (append_event (demo_restart ''r'' 1 1) ?l) ''b'' = DeriveRestartCount ?l ''b'' + 1"
    using restart_counted_once [OF s, of ?l] by (simp add: GetCheckpoint_def e c b in_i64_def n)
  moreover have "DeriveRestartCount ?l ''b'' = 3"
    using DeriveRestartCount_eq [of ?l "''b''"] by (simp add: c b in_i64_def)
  ultimately show ?thesis by simp
qed

section \<open>Uptime\<close>

text \<open>
  uptime never counts a second twice. With the status changes after a time \<open>a\<close> dated
  between \<open>a\<close> and now, the derived uptime after \<open>a\<close> is between 0 and the seconds since \<open>a\<close>.
\<close>

theorem uptime_bounded:
  assumes "sort_algorithm (sort_perm G)" and "0 < a" and "a \<le> now" and "now < 2 ^ 63"
    and "\<forall>se \<in> set (List.map_filter (status_entry subject) (Events l)). fst se \<le> now"
  shows "0 \<le> DeriveUptimeAfter G now l subject a \<and> DeriveUptimeAfter G now l subject a \<le> now - a"
proof -
  let ?s = "statusEvents G l subject a"
  have so: "sorted (map fst ?s)"
    unfolding statusEvents_def by (rule sort_algorithm.sorted_sort_slice_key [OF assms(1)])
  have "set ?s = set (filter (\<lambda>se. \<not> (a > 0 \<and> fst se \<le> a)) (List.map_filter (status_entry subject) (Events l)))"
    unfolding statusEvents_def by (rule sort_algorithm.set_sort_slice [OF assms(1)])
  then have "\<forall>se \<in> set ?s. a \<le> fst se \<and> fst se \<le> now" using assms(2,5) by auto
  then show ?thesis
    unfolding DeriveUptimeAfter_def
    using online_fold_bounds [OF so, of a now a 0 0] assms(2-4) by simp
qed

theorem uptime_bounded_witness:
  "0 \<le> DeriveUptimeAfter demo_env 100 (demo_ledger 9 [demo_obs ''o'' 50000000000 0]) ''b'' 7 \<and>
   DeriveUptimeAfter demo_env 100 (demo_ledger 9 [demo_obs ''o'' 50000000000 0]) ''b'' 7 \<le> 93"
proof -
  have "status_entry ''b'' (demo_obs ''o'' 50000000000 0) = Some (50, ''ONLINE'')"
    by (simp add: status_entry_def zero_obs_def signed_divide_int_def)
  then show ?thesis
    using uptime_bounded [OF sort_algorithm_demo, of 7 100 "''b''" "demo_ledger 9 [demo_obs ''o'' 50000000000 0]"]
    by (simp add: List.map_filter_def)
qed

text \<open>
  the checkpoint is a baseline. With a checkpoint, the total uptime is the checkpoint's total
  plus the uptime derived from the status changes after it, in int64 arithmetic.
\<close>

theorem uptime_from_checkpoint:
  assumes "GetCheckpoint l subject = Some c" and "in_i64 (no_TotalUptime (cp_Observation c))"
  shows "DeriveTotalUptime G now l subject =
           i64 (no_TotalUptime (cp_Observation c) + DeriveUptimeAfter G now l subject (cp_AsOfTime c))"
proof -
  let ?b = "no_TotalUptime (cp_Observation c)"
  let ?s = "statusEvents G l subject (cp_AsOfTime c)"
  obtain u s where us: "foldl online_step (0, 0) ?s = (u, s)" by fastforce
  have "foldl online_step (?b, 0) ?s = (i64 (?b + u), s)"
    using online_fold_shift [of ?b 0 0 ?s] assms(2) us by simp
  then show ?thesis
    using still_online_shift [of now ?b u s] us assms(1) by (simp add: DeriveTotalUptime_def DeriveUptimeAfter_def)
qed

theorem uptime_from_checkpoint_witness:
  "DeriveTotalUptime demo_env 100 (demo_ledger 9 [demo_checkpoint ''x'' 4]) ''b'' =
     i64 (1000 + DeriveUptimeAfter demo_env 100 (demo_ledger 9 [demo_checkpoint ''x'' 4]) ''b'' 4)"
proof -
  have "GetCheckpoint (demo_ledger 9 [demo_checkpoint ''x'' 4]) ''b'' = Checkpoint (demo_checkpoint ''x'' 4)"
    by (simp add: GetCheckpoint_def GetCheckpointEvent_def latest_by_def latest_step_def)
  then show ?thesis
    using uptime_from_checkpoint [of "demo_ledger 9 [demo_checkpoint ''x'' 4]" "''b''"] by (simp add: in_i64_def)
qed

text \<open>
  a nara that stays online earns no uptime after its checkpoint. The derivation only counts
  online periods that open with an ONLINE change after the checkpoint: if the subject's status
  does not change after it, its total uptime stays at the checkpoint's value for ever.
\<close>

theorem uptime_frozen_after_checkpoint:
  assumes "sort_algorithm (sort_perm G)" and "GetCheckpoint l subject = Some c" and "0 < cp_AsOfTime c"
    and "\<forall>se \<in> set (List.map_filter (status_entry subject) (Events l)). fst se \<le> cp_AsOfTime c"
  shows "DeriveTotalUptime G now l subject = no_TotalUptime (cp_Observation c)"
proof -
  have "filter (\<lambda>se. \<not> (cp_AsOfTime c > 0 \<and> fst se \<le> cp_AsOfTime c)) (List.map_filter (status_entry subject) (Events l)) = []"
    using assms(3,4) by (auto simp: filter_empty_conv)
  then have "statusEvents G l subject (cp_AsOfTime c) = []"
    using sort_algorithm.length_sort_slice [OF assms(1), of _ "[]"] by (simp add: statusEvents_def)
  then show ?thesis using assms(2) by (simp add: DeriveTotalUptime_def)
qed

theorem uptime_frozen_after_checkpoint_witness:
  "DeriveTotalUptime demo_env 99999999 (demo_ledger 9 [demo_obs ''o'' 3000000000 0, demo_checkpoint ''x'' 4]) ''b'' = 1000"
proof -
  have e: "GetCheckpoint (demo_ledger 9 [demo_obs ''o'' 3000000000 0, demo_checkpoint ''x'' 4]) ''b'' = Checkpoint (demo_checkpoint ''x'' 4)"
    by (simp add: GetCheckpoint_def GetCheckpointEvent_def latest_by_def latest_step_def)
  have "status_entry ''b'' (demo_obs ''o'' 3000000000 0) = Some (3, ''ONLINE'')" "status_entry ''b'' (demo_checkpoint ''x'' 4) = None"
    by (simp_all add: status_entry_def zero_obs_def signed_divide_int_def)
  then show ?thesis
    using uptime_frozen_after_checkpoint [OF sort_algorithm_demo e [unfolded demo_checkpoint_fields]]
    by (simp add: List.map_filter_def)
qed

section \<open>First sighting\<close>

lemma foldl_earlier:
  assumes "0 \<le> a"
  shows "foldl earlier a ts = (if {t \<in> insert a (set ts). 0 < t} = {} then 0 else Min {t \<in> insert a (set ts). 0 < t})"
  using assms
proof (induction ts arbitrary: a)
  case Nil
  then have "{t. t = a \<and> 0 < t} = (if a = 0 then {} else {a})" by auto
  then show ?case by simp
next
  case (Cons t ts)
  let ?P = "\<lambda>A. {t \<in> A. (0 :: int) < t}"
  have e: "0 \<le> earlier a t" using Cons.prems by (simp add: earlier_def)
  have c: "?P (insert (earlier a t) (set ts)) = {} \<longleftrightarrow> ?P (insert a (insert t (set ts))) = {}"
    using Cons.prems by (auto simp: earlier_def split: if_splits)
  have m: "Min (?P (insert (earlier a t) (set ts))) = Min (?P (insert a (insert t (set ts))))"
    if "?P (insert a (insert t (set ts))) \<noteq> {}"
  proof (rule Min_eqI [symmetric])
    let ?B = "?P (insert (earlier a t) (set ts))"
    have ne: "?B \<noteq> {}" and fin: "finite ?B" using that c by auto
    have b: "Min ?B \<in> ?B" using fin ne by (rule Min_in)
    then show "Min ?B \<in> ?P (insert a (insert t (set ts)))" by (auto simp: earlier_def split: if_splits)
    fix y
    assume y: "y \<in> ?P (insert a (insert t (set ts)))"
    have "earlier a t \<le> y \<and> 0 < earlier a t" if "y = a \<or> y = t" using y that Cons.prems by (auto simp: earlier_def)
    then have "\<exists>z \<in> ?B. z \<le> y" using y by blast
    then show "Min ?B \<le> y" using fin by (meson Min_le order.trans)
  qed simp_all
  show ?case using Cons.IH [OF e] c m by (simp only: foldl_Cons list.set split: if_split) blast
qed

text \<open>
  the first sighting is the minimum. \<open>GetFirstSeenFromEvents\<close> is the smallest positive start
  time that any observation or checkpoint of the subject carries, and 0 when there is none; the
  order of the events does not matter.
\<close>

theorem first_seen_is_min:
  "GetFirstSeenFromEvents l subject =
     (let ts = {t \<in> sighting_of subject ` set (Events l). 0 < t} in if ts = {} then 0 else Min ts)"
proof -
  have "{t \<in> insert 0 (set (map (sighting_of subject) (Events l))). 0 < t} =
      {t \<in> sighting_of subject ` set (Events l). 0 < t}" by auto
  then show ?thesis
    unfolding GetFirstSeenFromEvents_def Let_def foldl_earlier [of 0, OF order.refl] by (simp only:)
qed

end
