(* ===== verification/Checkpoint_Consensus.thy ===== *)
theory Checkpoint_Consensus
  imports Checkpoint_Service Checkpoint_Properties
begin

text \<open>
  Properties of the checkpoint consensus: what \<open>tryFindConsensus\<close> returns, when it succeeds,
  and that what honest naras agree on verifies afterwards; tolerances; the weak spots.
\<close>

section \<open>Choosing the votes\<close>

definition iterates :: "(valueKey list \<Rightarrow> valueKey list) \<Rightarrow> bool" where
  \<comment> \<open>a Go map iteration visits every key once, in some order\<close>
  "iterates iter \<longleftrightarrow> (\<forall>ks. mset (iter ks) = mset ks)"

lemma iterates_set: "iterates iter \<Longrightarrow> set (iter ks) = set ks"
  by (simp add: iterates_def) (metis set_mset_mset)

definition quorum :: "CheckpointVote list \<Rightarrow> bool" where
  "quorum g \<longleftrightarrow> MinVotersRequired \<le> int (length g)"

lemma not_quorum_Nil: "\<not> quorum []"
  by (simp add: quorum_def MinVotersRequired_def)

definition is_best :: "CheckpointVote list \<Rightarrow> valueKey list \<Rightarrow> valueKey \<times> CheckpointVote list \<Rightarrow> bool" where
  "is_best votes ks best \<longleftrightarrow>
     (snd best = [] \<or> quorum (snd best) \<and> snd best = group_of (fst best) votes \<and> fst best \<in> set ks) \<and>
     (\<forall>k \<in> set ks. quorum (group_of k votes) \<longrightarrow> length (group_of k votes) \<le> length (snd best))"

lemma better_group_best: "is_best votes ks best \<Longrightarrow> is_best votes (ks @ [k]) (better_group votes best k)"
  by (auto simp: is_best_def better_group_def quorum_def Let_def)

lemma fold_best: "is_best votes ks best \<Longrightarrow> is_best votes (ks @ ks') (foldl (better_group votes) best ks')"
proof (induction ks' arbitrary: ks best)
  case (Cons k ks')
  then show ?case using Cons.IH [OF better_group_best [OF Cons.prems, of k]] by simp
qed simp

lemma choose_votes_spec:
  assumes "iterates iter" and "choose_votes iter proposal votes = (key, best)"
  shows "set best \<subseteq> set votes"
    "best = [] \<or> quorum best \<and> (best = group_of key votes \<or> key = value_key (pr_Attestation proposal) \<and> best = filter vt_Approved votes)"
    "quorum (group_of k votes) \<Longrightarrow> quorum best"
    "quorum (filter vt_Approved votes) \<Longrightarrow> quorum best"
proof -
  let ?ks = "iter (remdups (map vote_key votes))"
  let ?b = "foldl (better_group votes) (zero_key, []) ?ks"
  let ?a = "filter vt_Approved votes"
  obtain k0 g0 where kg: "?b = (k0, g0)" by fastforce
  have b: "is_best votes ?ks (k0, g0)"
    using fold_best [of votes "[]" "(zero_key, [])" ?ks] by (simp add: is_best_def kg)
  have q: "quorum x \<Longrightarrow> length x \<le> length y \<Longrightarrow> quorum y" for x y by (simp add: quorum_def)
  have c: "(key, best) = (if quorum ?a \<and> length ?a > length g0 then (value_key (pr_Attestation proposal), ?a) else (k0, g0))"
    using assms(2) by (simp add: choose_votes_def Let_def quorum_def kg)
  show "set best \<subseteq> set votes"
    using c b by (auto simp: is_best_def group_of_def split: if_splits)
  show "best = [] \<or> quorum best \<and> (best = group_of key votes \<or> key = value_key (pr_Attestation proposal) \<and> best = ?a)"
    using c b by (auto simp: is_best_def split: if_splits)
  show "quorum best" if g: "quorum (group_of k votes)"
  proof -
    have "group_of k votes \<noteq> []" using g by (auto simp: quorum_def MinVotersRequired_def)
    then have "k \<in> set ?ks" unfolding iterates_set [OF assms(1)] by (auto simp: group_of_def filter_empty_conv)
    then have "length (group_of k votes) \<le> length g0" using b g by (simp add: is_best_def)
    then show ?thesis using c g q by (auto split: if_splits)
  qed
  show "quorum best" if "quorum ?a"
    using c that q [OF that] by (auto split: if_splits simp: not_less)
qed

section \<open>What consensus returns\<close>

definition signer_pair :: "Attestation \<Rightarrow> NaraID \<times> string" where
  "signer_pair a = (at_AttesterID a, at_Signature a)"

text \<open>How the checkpoint is made from the winning key, the votes behind it and those chosen.\<close>

definition made_from ::
  "CheckpointProposal \<Rightarrow> CheckpointVote list \<Rightarrow> CheckpointEventPayload \<Rightarrow> valueKey \<Rightarrow> CheckpointVote list
   \<Rightarrow> Attestation list \<Rightarrow> bool" where
  "made_from proposal votes c key best chosen \<longleftrightarrow>
     (let a = pr_Attestation proposal; own = (key = value_key a)
      in quorum best \<and> set best \<subseteq> set votes \<and>
         (best = group_of key votes \<or> own \<and> best = filter vt_Approved votes) \<and>
         set chosen \<subseteq> vt_Attestation ` set best \<and> length chosen = min (length best) (if own then 9 else 10) \<and>
         cp_VoterIDs c = (if own then [at_SubjectID a] else []) @ map at_AttesterID chosen \<and>
         cp_Signatures c = (if own then [at_Signature a] else []) @ map at_Signature chosen \<and>
         (no_Restarts (cp_Observation c), no_TotalUptime (cp_Observation c), no_StartTime (cp_Observation c),
            cp_PreviousCheckpointID c) = key \<and>
         cp_Version c = 2 \<and> cp_Subject c = at_Subject a \<and> cp_SubjectID c = at_SubjectID a \<and>
         cp_AsOfTime c = at_AsOfTime a \<and> cp_Round c = pr_Round proposal)"

lemma tryFindConsensus_SomeD:
  assumes srt: "sort_algorithm (sort_perm G)" and it: "iterates iter"
    and r: "tryFindConsensus G iter upty proposal votes = Some c"
  shows "\<exists>key best chosen. made_from proposal votes c key best chosen"
proof -
  obtain key best where kb: "choose_votes iter proposal votes = (key, best)" by fastforce
  let ?a = "pr_Attestation proposal"
  let ?e = "map (\<lambda>v. (v, upty (at_Attester (vt_Attestation v)))) best"
  let ?s = "sort_slice (sort_perm G) (\<lambda>x y. snd x > snd y) ?e"
  let ?max = "if key = value_key ?a then MaxCheckpointSignatures - 1 else MaxCheckpointSignatures"
  let ?ch = "map (vt_Attestation \<circ> fst) (take (nat ?max) ?s)"
  obtain r u f z where key: "key = (r, u, f, z)" by (cases key)
  have q: "quorum best" using r kb by (auto simp: tryFindConsensus_def quorum_def Let_def split: if_splits)
  note ch = choose_votes_spec [OF it kb]
  have ms: "mset ?s = mset ?e" by (rule sort_algorithm.mset_sort_slice [OF srt])
  have len: "length ?s = length best" using mset_eq_length [OF ms] by simp
  have "set ?s = set ?e" using ms by (rule mset_eq_setD)
  then have sub: "set ?ch \<subseteq> vt_Attestation ` set best" by (auto dest!: in_set_takeD)
  have lch: "length ?ch = min (length best) (if key = value_key ?a then 9 else 10)"
    using len by (simp add: MaxCheckpointSignatures_def)
  have c: "c = \<lparr>cp_Version = 2, cp_Subject = at_Subject ?a, cp_SubjectID = at_SubjectID ?a,
      cp_PreviousCheckpointID = z, cp_Observation = observed_values r u f,
      cp_AsOfTime = at_AsOfTime ?a, cp_Round = pr_Round proposal,
      cp_VoterIDs = (if key = value_key ?a then [at_SubjectID ?a] else []) @ map at_AttesterID ?ch,
      cp_Signatures = (if key = value_key ?a then [at_Signature ?a] else []) @ map at_Signature ?ch\<rparr>"
    using r kb key unfolding tryFindConsensus_def Let_def by (auto split: if_splits)
  have "best = group_of key votes \<or> key = value_key ?a \<and> best = filter vt_Approved votes"
    using ch(2) q by (auto simp: quorum_def MinVotersRequired_def)
  then have "made_from proposal votes c key best ?ch"
    using q ch(1) sub lch unfolding made_from_def Let_def c key by (simp add: observed_values_def)
  then show ?thesis by blast
qed

lemma tryFindConsensus_iff:
  assumes "iterates iter"
  shows "tryFindConsensus G iter upty proposal votes \<noteq> None \<longleftrightarrow>
         (\<exists>k. quorum (group_of k votes)) \<or> quorum (filter vt_Approved votes)"
proof -
  obtain key best where kb: "choose_votes iter proposal votes = (key, best)" by fastforce
  note ch = choose_votes_spec [OF assms kb]
  have "length best \<le> length votes"
    if "quorum best" using ch(2) that by (auto simp: group_of_def quorum_def MinVotersRequired_def)
  then have "tryFindConsensus G iter upty proposal votes \<noteq> None \<longleftrightarrow> quorum best"
    using kb by (auto simp: tryFindConsensus_def quorum_def Let_def split: prod.split)
  also have "\<dots> \<longleftrightarrow> (\<exists>k. quorum (group_of k votes)) \<or> quorum (filter vt_Approved votes)"
    using ch(2-4) not_quorum_Nil by metis
  finally show ?thesis .
qed

lemma consensus_size:
  assumes "sort_algorithm (sort_perm G)" and "iterates iter"
    and "tryFindConsensus G iter upty proposal votes = Some c"
  shows "length (cp_VoterIDs c) = length (cp_Signatures c)" "5 \<le> length (cp_VoterIDs c)" "length (cp_VoterIDs c) \<le> 10"
proof -
  let ?a = "pr_Attestation proposal"
  obtain key best chosen where m: "made_from proposal votes c key best chosen"
    using tryFindConsensus_SomeD [OF assms] by blast
  have c: "quorum best" "length chosen = min (length best) (if key = value_key ?a then 9 else 10)"
    "cp_VoterIDs c = (if key = value_key ?a then [at_SubjectID ?a] else []) @ map at_AttesterID chosen"
    "cp_Signatures c = (if key = value_key ?a then [at_Signature ?a] else []) @ map at_Signature chosen"
    using m by (simp_all only: made_from_def Let_def)
  have "5 \<le> length best" using c(1) by (simp add: quorum_def MinVotersRequired_def)
  then show "length (cp_VoterIDs c) = length (cp_Signatures c)" "5 \<le> length (cp_VoterIDs c)" "length (cp_VoterIDs c) \<le> 10"
    using c(2-4) by auto
qed

text \<open>Who signs.\<close>

lemma consensus_signers:
  assumes "sort_algorithm (sort_perm G)" and "iterates iter"
    and "tryFindConsensus G iter upty proposal votes = Some c"
  shows "cp_Subject c = at_Subject (pr_Attestation proposal) \<and> cp_AsOfTime c = at_AsOfTime (pr_Attestation proposal) \<and>
         cp_Round c = pr_Round proposal \<and> length (cp_VoterIDs c) = length (cp_Signatures c) \<and>
         5 \<le> length (cp_VoterIDs c) \<and> length (cp_VoterIDs c) \<le> 10 \<and>
         set (zip (cp_VoterIDs c) (cp_Signatures c)) \<subseteq>
           insert (at_SubjectID (pr_Attestation proposal), at_Signature (pr_Attestation proposal))
             ((\<lambda>v. signer_pair (vt_Attestation v)) ` set votes)"
proof -
  let ?a = "pr_Attestation proposal"
  obtain key best chosen where m: "made_from proposal votes c key best chosen"
    using tryFindConsensus_SomeD [OF assms] by blast
  have c: "quorum best" "set best \<subseteq> set votes"
    "set chosen \<subseteq> vt_Attestation ` set best" "length chosen = min (length best) (if key = value_key ?a then 9 else 10)"
    "cp_VoterIDs c = (if key = value_key ?a then [at_SubjectID ?a] else []) @ map at_AttesterID chosen"
    "cp_Signatures c = (if key = value_key ?a then [at_Signature ?a] else []) @ map at_Signature chosen"
    "cp_Subject c = at_Subject ?a" "cp_AsOfTime c = at_AsOfTime ?a" "cp_Round c = pr_Round proposal"
    using m by (simp_all only: made_from_def Let_def)
  have z: "zip (map at_AttesterID chosen) (map at_Signature chosen) = map signer_pair chosen"
    by (simp add: zip_map_map zip_same_conv_map signer_pair_def comp_def)
  have "set chosen \<subseteq> vt_Attestation ` set votes" using c(2,3) by blast
  then have sp: "set (map signer_pair chosen) \<subseteq> (\<lambda>v. signer_pair (vt_Attestation v)) ` set votes" by auto
  then have "set (zip (cp_VoterIDs c) (cp_Signatures c)) \<subseteq>
      insert (at_SubjectID ?a, at_Signature ?a) ((\<lambda>v. signer_pair (vt_Attestation v)) ` set votes)"
    unfolding c(5,6) using z sp by auto
  then show ?thesis using c(7-9) consensus_size [OF assms] by blast
qed

section \<open>Signatures\<close>

text \<open>
  The content that a voter signed is the content that the verifier rebuilds from the checkpoint,
  when version, subject, time and values agree.
\<close>

definition agrees :: "CheckpointEventPayload \<Rightarrow> Attestation \<Rightarrow> bool" where
  "agrees c a \<longleftrightarrow> at_Version a = 2 \<and> at_SubjectID a = cp_SubjectID c \<and> at_AsOfTime a = cp_AsOfTime c \<and>
     value_key a = (no_Restarts (cp_Observation c), no_TotalUptime (cp_Observation c),
                    no_StartTime (cp_Observation c), cp_PreviousCheckpointID c)"

lemma agrees_content:
  "cp_Version c = 2 \<Longrightarrow> agrees c a \<Longrightarrow>
   attestation_SignableContent (voter_attestation c (at_AttesterID a)) = attestation_SignableContent a"
  by (simp add: agrees_def voter_attestation_def attestation_SignableContent_def value_key_def Let_def)

definition checkpoint_key :: "CheckpointEventPayload \<Rightarrow> valueKey" where
  "checkpoint_key c = (no_Restarts (cp_Observation c), no_TotalUptime (cp_Observation c), no_StartTime (cp_Observation c),
     cp_PreviousCheckpointID c)"

definition signed_by_known :: "go_env \<Rightarrow> svc_env \<Rightarrow> Attestation \<Rightarrow> bool" where
  \<comment> \<open>the attester's key is known and made the signature\<close>
  "signed_by_known G E a \<longleftrightarrow>
     (\<exists>kp a0. valid_keypair G kp \<and> a = signed_attestation G kp a0 \<and>
              getPublicKeyForNaraID E (at_AttesterID a) = Some (PublicKey kp))"

lemma signed_attestation_simps [simp]:
  "attestation_SignableContent (signed_attestation G kp a) = attestation_SignableContent a"
  "at_AttesterID (signed_attestation G kp a) = at_AttesterID a"
  "value_key (signed_attestation G kp a) = value_key a"
  "at_SubjectID (signed_attestation G kp a) = at_SubjectID a" "at_Version (signed_attestation G kp a) = at_Version a"
  "at_AsOfTime (signed_attestation G kp a) = at_AsOfTime a" "at_Subject (signed_attestation G kp a) = at_Subject a"
  "at_Observation (signed_attestation G kp a) = at_Observation a"
  "at_LastSeenCheckpointID (signed_attestation G kp a) = at_LastSeenCheckpointID a"
  "at_Attester (signed_attestation G kp a) = at_Attester a"
  by (simp_all add: signed_attestation_def attestation_SignableContent_def value_key_def Let_def)

lemma signed_content_verifies:
  assumes "crypto_ok G" and "valid_keypair G kp"
  shows "VerifyContent G content (PublicKey kp) (SignContent G content kp)"
  using assms by (simp add: VerifyContent_def SignContent_def)

lemma signed_voter_valid:
  assumes "crypto_ok G" and "signed_by_known G E a" and "cp_Version c = 2" and "agrees c a"
  shows "voter_valid G (\<lambda>i name. getPublicKeyForNaraID E i) c (at_AttesterID a, at_Signature a)"
proof -
  obtain kp a0 where kp: "valid_keypair G kp" "a = signed_attestation G kp a0"
    "getPublicKeyForNaraID E (at_AttesterID a) = Some (PublicKey kp)"
    using assms(2) by (auto simp: signed_by_known_def)
  have "at_Signature a = SignContent G (attestation_SignableContent a) kp"
    unfolding kp(2) signed_attestation_simps by (simp add: signed_attestation_def)
  then have "voter_verifies G c (at_AttesterID a) (at_Signature a) (PublicKey kp)"
    using signed_content_verifies [OF assms(1) kp(1)] agrees_content [OF assms(3,4)]
    by (simp add: voter_verifies_def VerifyContent_def)
  then show ?thesis using kp(3) by (simp add: voter_valid_def)
qed

lemma all_voters_valid:
  assumes "length (cp_VoterIDs c) = length (cp_Signatures c)"
    and "\<forall>v \<in> set (zip (cp_VoterIDs c) (cp_Signatures c)). voter_valid G (\<lambda>i name. getPublicKeyForNaraID E i) c v"
  shows "vr_ValidCount (verifyCheckpointSignatures G E c) = int (length (cp_VoterIDs c))"
    "vr_KnownCount (verifyCheckpointSignatures G E c) = int (length (cp_VoterIDs c))"
    "vr_TotalCount (verifyCheckpointSignatures G E c) = int (length (cp_VoterIDs c))"
    "vr_Valid (verifyCheckpointSignatures G E c) \<longleftrightarrow> MinCheckpointSignatures \<le> int (length (cp_VoterIDs c))"
proof -
  let ?z = "zip (cp_VoterIDs c) (cp_Signatures c)"
  let ?look = "\<lambda>i (name :: string). getPublicKeyForNaraID E i"
  have "filter (voter_valid G ?look c) ?z = ?z" using assms(2) by (simp add: filter_id_conv)
  moreover have "filter (voter_known ?look) ?z = ?z"
    using assms(2) voter_valid_known by (auto simp: filter_id_conv)
  ultimately have "count_voters G ?look c ?z (0, 0) = (int (length ?z), int (length ?z))"
    by (simp add: count_voters_eq)
  then show "vr_ValidCount (verifyCheckpointSignatures G E c) = int (length (cp_VoterIDs c))"
    "vr_KnownCount (verifyCheckpointSignatures G E c) = int (length (cp_VoterIDs c))"
    "vr_TotalCount (verifyCheckpointSignatures G E c) = int (length (cp_VoterIDs c))"
    "vr_Valid (verifyCheckpointSignatures G E c) \<longleftrightarrow> MinCheckpointSignatures \<le> int (length (cp_VoterIDs c))"
    using assms(1) by (simp_all add: verifyCheckpointSignatures_def VerifySignatureWithCounts_def)
qed

section \<open>Demonstration data\<close>

definition demo_attester :: "char \<Rightarrow> string \<Rightarrow> Attestation" where
  "demo_attester k lastSeen = signed_attestation demo_env (demo_keypair k)
     \<lparr>at_Version = 2, at_Subject = ''b'', at_SubjectID = ''B'', at_Observation = observed_values 3 1000 5,
      at_Attester = [k], at_AttesterID = [k], at_LastSeenCheckpointID = lastSeen, at_AsOfTime = 77, at_Signature = []\<rparr>"

definition demo_proposal :: CheckpointProposal where
  "demo_proposal = \<lparr>pr_Attestation = demo_attester CHR ''B'' [], pr_Round = 1\<rparr>"

definition demo_vote :: "char \<Rightarrow> string \<Rightarrow> CheckpointVote" where
  "demo_vote k lastSeen = \<lparr>vt_Attestation = demo_attester k lastSeen, vt_ProposalTS = 77, vt_Round = 1, vt_Approved = True\<rparr>"

definition demo_keys :: "NaraID \<Rightarrow> string option" where
  "demo_keys i = (case i of [k] \<Rightarrow> Some (PublicKey (demo_keypair k)) | _ \<Rightarrow> None)"

definition demo_svc :: "NaraName \<Rightarrow> char \<Rightarrow> svc_env" where
  "demo_svc name k = \<lparr>me_Name = name, me_ID = [k], me_Keypair = demo_keypair k, getPublicKeyForNaraID = demo_keys,
     bootRecoveryComplete = True, mqttConnected = True, onlineCount = 6\<rparr>"

lemma demo_svc_fields [simp]:
  "me_Name (demo_svc n k) = n" "me_ID (demo_svc n k) = [k]" "me_Keypair (demo_svc n k) = demo_keypair k"
  "getPublicKeyForNaraID (demo_svc n k) [x] = Some (PublicKey (demo_keypair x))"
  "bootRecoveryComplete (demo_svc n k)" "mqttConnected (demo_svc n k)" "onlineCount (demo_svc n k) = 6"
  by (simp_all add: demo_svc_def demo_keys_def)

lemma demo_attester_fields [simp]:
  "at_AttesterID (demo_attester k z) = [k]" "at_SubjectID (demo_attester k z) = ''B''"
  "at_Version (demo_attester k z) = 2" "at_AsOfTime (demo_attester k z) = 77" "at_Subject (demo_attester k z) = ''b''"
  "value_key (demo_attester k z) = (3, 1000, 5, z)" "at_LastSeenCheckpointID (demo_attester k z) = z"
  by (simp_all add: demo_attester_def value_key_def observed_values_def)

lemma demo_signed: "signed_by_known demo_env (demo_svc n x) (demo_attester k z)"
  unfolding signed_by_known_def
  by (rule exI [of _ "demo_keypair k"]) (auto simp: demo_attester_def valid_keypair_demo)

lemma demo_vote_fields [simp]:
  "vt_Attestation (demo_vote k z) = demo_attester k z" "vt_Approved (demo_vote k z)" "vote_key (demo_vote k z) = (3, 1000, 5, z)"
  by (simp_all add: demo_vote_def vote_key_def)

lemma iterates_id: "iterates (\<lambda>ks. ks)"
  by (simp add: iterates_def)

text \<open>The signers of a checkpoint who signed its values and reference point, among the proposer and the voters.\<close>

definition endorses :: "CheckpointProposal \<Rightarrow> CheckpointVote list \<Rightarrow> CheckpointEventPayload \<Rightarrow> NaraID \<times> string \<Rightarrow> bool" where
  "endorses proposal votes c s \<longleftrightarrow>
     (\<exists>a \<in> insert (pr_Attestation proposal) (vt_Attestation ` set votes). value_key a = checkpoint_key c \<and> s = signer_pair a)"

definition honest_round :: "go_env \<Rightarrow> svc_env \<Rightarrow> CheckpointProposal \<Rightarrow> CheckpointVote list \<Rightarrow> bool" where
  \<comment> \<open>the proposal and the votes are signed by keys that the verifier knows, for the proposal's subject and time\<close>
  "honest_round G E proposal votes \<longleftrightarrow>
     (\<forall>a \<in> insert (pr_Attestation proposal) (vt_Attestation ` set votes). signed_by_known G E a \<and> at_Version a = 2 \<and>
        at_SubjectID a = at_SubjectID (pr_Attestation proposal) \<and> at_AsOfTime a = at_AsOfTime (pr_Attestation proposal)) \<and>
     at_AttesterID (pr_Attestation proposal) = at_SubjectID (pr_Attestation proposal)"

lemma endorsement_valid:
  assumes "crypto_ok G" and srt: "sort_algorithm (sort_perm G)" and it: "iterates iter"
    and r: "tryFindConsensus G iter upty proposal votes = Some c" and h: "honest_round G E proposal votes" and "endorses proposal votes c s"
  shows "voter_valid G (\<lambda>i name. getPublicKeyForNaraID E i) c s"
proof -
  obtain a where a: "a \<in> insert (pr_Attestation proposal) (vt_Attestation ` set votes)" "value_key a = checkpoint_key c" "s = signer_pair a"
    using assms(6) by (auto simp: endorses_def)
  have c: "cp_Version c = 2" "cp_SubjectID c = at_SubjectID (pr_Attestation proposal)" "cp_AsOfTime c = at_AsOfTime (pr_Attestation proposal)"
    using tryFindConsensus_SomeD [OF srt it r] by (auto simp: made_from_def Let_def)
  have g: "signed_by_known G E a" "agrees c a"
    using h a(1,2) c by (auto simp: honest_round_def agrees_def checkpoint_key_def)
  show ?thesis unfolding a(3) signer_pair_def by (rule signed_voter_valid [OF assms(1) g(1) c(1) g(2)])
qed

lemma approvals_endorse:
  assumes "sort_algorithm (sort_perm G)" and "iterates iter" and "tryFindConsensus G iter upty proposal votes = Some c"
    and "honest_round G E proposal votes" and "\<forall>v \<in> set votes. vt_Approved v \<longrightarrow> vote_key v = value_key (pr_Attestation proposal)"
    and "s \<in> set (zip (cp_VoterIDs c) (cp_Signatures c))"
  shows "endorses proposal votes c s"
proof -
  let ?a = "pr_Attestation proposal"
  obtain key best chosen where m: "made_from proposal votes c key best chosen"
    using tryFindConsensus_SomeD [OF assms(1-3)] by blast
  have c: "set best \<subseteq> set votes" "best = group_of key votes \<or> key = value_key ?a \<and> best = filter vt_Approved votes"
    "set chosen \<subseteq> vt_Attestation ` set best"
    "cp_VoterIDs c = (if key = value_key ?a then [at_SubjectID ?a] else []) @ map at_AttesterID chosen"
    "cp_Signatures c = (if key = value_key ?a then [at_Signature ?a] else []) @ map at_Signature chosen" "checkpoint_key c = key"
    using m by (simp_all only: made_from_def Let_def checkpoint_key_def)
  have z: "zip (map at_AttesterID chosen) (map at_Signature chosen) = map signer_pair chosen"
    by (simp add: zip_map_map zip_same_conv_map signer_pair_def comp_def)
  have vk: "vote_key v = key" if "v \<in> set best" for v using that c(1,2) assms(5) by (auto simp: group_of_def)
  have "(at_SubjectID ?a, at_Signature ?a) = signer_pair ?a" using assms(4) by (simp add: honest_round_def signer_pair_def)
  then consider "s = signer_pair ?a" "key = value_key ?a" | a where "s = signer_pair a" "a \<in> set chosen"
    using assms(6) unfolding c(4,5) by (auto simp: z split: if_splits)
  then show ?thesis
  proof cases
    case 1
    then show ?thesis unfolding endorses_def using c(6) by (intro bexI [of _ ?a]) simp_all
  next
    case (2 a)
    then obtain v where v: "v \<in> set best" "a = vt_Attestation v" using c(3) by auto
    then have "value_key a = checkpoint_key c" using vk [OF v(1)] c(6) by (simp add: vote_key_def)
    then show ?thesis unfolding endorses_def using 2(1) v c(1) by (intro bexI [of _ a]) auto
  qed
qed

lemma honest_votes_verify:
  assumes "crypto_ok G" and "sort_algorithm (sort_perm G)" and "iterates iter"
    and "tryFindConsensus G iter upty proposal votes = Some c" and "honest_round G E proposal votes"
    and "\<forall>v \<in> set votes. vt_Approved v \<longrightarrow> vote_key v = value_key (pr_Attestation proposal)"
  shows "vr_Valid (verifyCheckpointSignatures G E c) \<and>
         vr_ValidCount (verifyCheckpointSignatures G E c) = int (length (cp_VoterIDs c))"
proof -
  note sh = consensus_size [OF assms(2-4)]
  have "\<forall>v \<in> set (zip (cp_VoterIDs c) (cp_Signatures c)). voter_valid G (\<lambda>i name. getPublicKeyForNaraID E i) c v"
    using approvals_endorse [OF assms(2-6)] endorsement_valid [OF assms(1-5)] by blast
  then show ?thesis using all_voters_valid [OF sh(1)] sh(2) by (simp add: MinCheckpointSignatures_def)
qed

lemma verified_counts:
  assumes "length (cp_VoterIDs c) = length (cp_Signatures c)"
  shows "vr_ValidCount (verifyCheckpointSignatures G E c) =
      int (length (filter (voter_valid G (\<lambda>i name. getPublicKeyForNaraID E i) c) (zip (cp_VoterIDs c) (cp_Signatures c))))"
    and "5 \<le> length (cp_VoterIDs c) \<Longrightarrow> vr_Valid (verifyCheckpointSignatures G E c) \<longleftrightarrow> 2 \<le> vr_ValidCount (verifyCheckpointSignatures G E c)"
  using assms by (auto simp: verifyCheckpointSignatures_def VerifySignatureWithCounts_def count_voters_eq MinCheckpointSignatures_def)

section \<open>Properties\<close>

text \<open>
  C14: when consensus is found. \<open>tryFindConsensus\<close> returns a checkpoint exactly when five votes
  carry the same values and reference point, or five votes approve the proposal; the order in
  which Go visits the groups does not matter for this.
\<close>

theorem consensus_exists_iff:
  assumes "iterates iter"
  shows "tryFindConsensus G iter upty proposal votes \<noteq> None \<longleftrightarrow>
         (\<exists>k. 5 \<le> length (filter (\<lambda>v. vote_key v = k) votes)) \<or> 5 \<le> length (filter vt_Approved votes)"
  using tryFindConsensus_iff [OF assms, of G upty proposal votes]
  by (simp add: quorum_def MinVotersRequired_def group_of_def)

theorem consensus_exists_iff_witness:
  "tryFindConsensus demo_env (\<lambda>ks. ks) (\<lambda>n. 0) demo_proposal (replicate 5 (demo_vote CHR ''v'' [])) \<noteq> None"
  using consensus_exists_iff [OF iterates_id, of demo_env "\<lambda>n. 0" demo_proposal "replicate 5 (demo_vote CHR ''v'' [])"]
  by simp

text \<open>
  the shape of a consensus checkpoint. It has the proposal's subject, time and round, as
  many signatures as voters, between five and ten of them, and every voter with its signature
  is the proposer or the attester of one of the votes.
\<close>

theorem consensus_shape:
  assumes "sort_algorithm (sort_perm G)" and "iterates iter"
    and "tryFindConsensus G iter upty proposal votes = Some c"
  shows "cp_Subject c = at_Subject (pr_Attestation proposal) \<and> cp_AsOfTime c = at_AsOfTime (pr_Attestation proposal) \<and>
         cp_Round c = pr_Round proposal \<and> length (cp_VoterIDs c) = length (cp_Signatures c) \<and>
         5 \<le> length (cp_VoterIDs c) \<and> length (cp_VoterIDs c) \<le> 10 \<and>
         set (zip (cp_VoterIDs c) (cp_Signatures c)) \<subseteq>
           insert (at_SubjectID (pr_Attestation proposal), at_Signature (pr_Attestation proposal))
             ((\<lambda>v. signer_pair (vt_Attestation v)) ` set votes)"
  by (rule consensus_signers [OF assms])

theorem consensus_shape_witness:
  "\<exists>c. tryFindConsensus demo_env (\<lambda>ks. ks) (\<lambda>n. 0) demo_proposal (replicate 5 (demo_vote CHR ''v'' [])) = Some c \<and>
     cp_AsOfTime c = 77 \<and> 5 \<le> length (cp_VoterIDs c)"
proof -
  obtain c where c: "tryFindConsensus demo_env (\<lambda>ks. ks) (\<lambda>n. 0) demo_proposal (replicate 5 (demo_vote CHR ''v'' [])) = Some c"
    using tryFindConsensus_iff [OF iterates_id, of demo_env "\<lambda>n. 0" demo_proposal "replicate 5 (demo_vote CHR ''v'' [])"]
    by (auto simp: quorum_def MinVotersRequired_def)
  then show ?thesis
    using consensus_shape [OF sort_algorithm_demo iterates_id c] by (simp add: demo_proposal_def)
qed

text \<open>
  C15: what honest naras agree on verifies. Let the proposal and all votes be signed by keys that the verifier knows, for the
  proposal's subject and time. In the checkpoint that \<open>tryFindConsensus\<close> returns, every signature over the values and the reference
  point of the checkpoint is valid for \<open>verifyCheckpointSignatures\<close>, and with two of them the checkpoint is accepted. If the
  approving votes carry the proposal's values and reference point, these are all its signatures; \<open>other_reference_fails\<close> shows
  what happens to the others.
\<close>

theorem consensus_verifies:
  assumes "crypto_ok G" and "sort_algorithm (sort_perm G)" and "iterates iter"
    and "tryFindConsensus G iter upty proposal votes = Some c" and "honest_round G E proposal votes"
    and "signers = zip (cp_VoterIDs c) (cp_Signatures c)"
  shows "(\<forall>s \<in> set signers. endorses proposal votes c s \<longrightarrow> voter_valid G (\<lambda>i name. getPublicKeyForNaraID E i) c s) \<and>
    int (length (filter (endorses proposal votes c) signers)) \<le> vr_ValidCount (verifyCheckpointSignatures G E c) \<and>
    (2 \<le> length (filter (endorses proposal votes c) signers) \<longrightarrow> vr_Valid (verifyCheckpointSignatures G E c)) \<and>
    ((\<forall>v \<in> set votes. vt_Approved v \<longrightarrow> vote_key v = value_key (pr_Attestation proposal)) \<longrightarrow>
       vr_Valid (verifyCheckpointSignatures G E c) \<and> vr_ValidCount (verifyCheckpointSignatures G E c) = int (length (cp_VoterIDs c)))"
proof -
  note sh = consensus_size [OF assms(2-4)] and e = endorsement_valid [OF assms(1-5)]
  let ?valid = "voter_valid G (\<lambda>i name. getPublicKeyForNaraID E i) c"
  have "filter (endorses proposal votes c) signers = filter (endorses proposal votes c) (filter ?valid signers)"
    using e by (auto intro: filter_cong)
  then have n: "length (filter (endorses proposal votes c) signers) \<le> length (filter ?valid signers)"
    using length_filter_le by metis
  have v: "vr_ValidCount (verifyCheckpointSignatures G E c) = int (length (filter ?valid signers))"
    unfolding assms(6) by (rule verified_counts(1) [OF sh(1)])
  then show ?thesis
    using e n verified_counts(2) [OF sh(1,2), of G E] honest_votes_verify [OF assms(1-5)] by auto
qed

lemma demo_honest: "honest_round demo_env (demo_svc n x) demo_proposal (map (\<lambda>k. demo_vote k z) ks)"
  by (auto simp: honest_round_def demo_proposal_def demo_signed)

theorem consensus_verifies_witness:
  "\<exists>c. tryFindConsensus demo_env (\<lambda>ks. ks) (\<lambda>n. 0) demo_proposal (map (\<lambda>k. demo_vote k []) ''vwxyz'') = Some c \<and>
     vr_Valid (verifyCheckpointSignatures demo_env (demo_svc ''q'' CHR ''q'') c)"
proof -
  let ?votes = "map (\<lambda>k. demo_vote k []) ''vwxyz''"
  obtain c where c: "tryFindConsensus demo_env (\<lambda>ks. ks) (\<lambda>n. 0) demo_proposal ?votes = Some c"
    using tryFindConsensus_iff [OF iterates_id, of demo_env "\<lambda>n. 0" demo_proposal ?votes]
    by (auto simp: quorum_def MinVotersRequired_def)
  have "vr_Valid (verifyCheckpointSignatures demo_env (demo_svc ''q'' CHR ''q'') c)"
    using consensus_verifies [OF crypto_ok_demo sort_algorithm_demo iterates_id c demo_honest refl]
    by (auto simp: demo_proposal_def)
  with c show ?thesis by blast
qed

text \<open>
  An approval with another reference point does not count. \<open>HandleProposal\<close> puts the voter's own last checkpoint of the subject into
  an approving vote, and \<open>tryFindConsensus\<close> puts the approvals together whatever theirs is, under the proposal's; the verifier then
  checks the voter's signature against another message than the one that was signed.
\<close>

lemma colons_common: "colons (xs @ [a]) = colons (xs @ [b]) \<Longrightarrow> a = b"
  by (induction xs rule: colons.induct) auto

theorem other_reference_fails:
  assumes "cp_Version c = 2" and "at_Version a = 2" and "at_SubjectID a = cp_SubjectID c" and "at_AsOfTime a = cp_AsOfTime c"
    and "value_key a = (no_Restarts (cp_Observation c), no_TotalUptime (cp_Observation c), no_StartTime (cp_Observation c), lastSeen)"
    and "lastSeen \<noteq> cp_PreviousCheckpointID c"
  shows "attestation_SignableContent (voter_attestation c (at_AttesterID a)) \<noteq> attestation_SignableContent a"
proof
  assume "attestation_SignableContent (voter_attestation c (at_AttesterID a)) = attestation_SignableContent a"
  then have "colons ([''attestation'', ''v'' @ fmt_int 2, at_AttesterID a, cp_SubjectID c, fmt_int (cp_AsOfTime c),
        fmt_int (no_Restarts (cp_Observation c)), fmt_int (no_TotalUptime (cp_Observation c)),
        fmt_int (no_StartTime (cp_Observation c))] @ [cp_PreviousCheckpointID c]) =
      colons ([''attestation'', ''v'' @ fmt_int 2, at_AttesterID a, cp_SubjectID c, fmt_int (cp_AsOfTime c),
        fmt_int (no_Restarts (cp_Observation c)), fmt_int (no_TotalUptime (cp_Observation c)),
        fmt_int (no_StartTime (cp_Observation c))] @ [lastSeen])"
    using assms(1-5) by (simp add: attestation_SignableContent_def voter_attestation_def value_key_def Let_def)
  then have "cp_PreviousCheckpointID c = lastSeen" by (rule colons_common)
  then show False using assms(6) by simp
qed

end
