(* ===== verification/Checkpoint_Voting.thy ===== *)
theory Checkpoint_Voting
  imports Checkpoint_Consensus
begin

text \<open>
  Properties of the handlers of the checkpoint service: an honest vote is accepted, what a
  final checkpoint needs to be stored, the tolerance check and its overflow, and two ways in
  which the protocol can be misled or stalled.
\<close>

lemma valuesMatch_within: "\<bar>a - b\<bar> < 2 ^ 63 \<Longrightarrow> valuesMatch a b tol \<longleftrightarrow> \<bar>a - b\<bar> \<le> tol"
  by (auto simp: valuesMatch_def Let_def in_i64_def abs_less_iff)

text \<open>
  tolerances. When the difference of the two values fits in int64, \<open>valuesMatch\<close> holds exactly
  if it is at most the tolerance, in both directions; but a claim that lies exactly \<open>2^63\<close>
  below a non-negative value overflows the negation and matches every tolerance.
\<close>

theorem valuesMatch_correct:
  "(\<bar>a - b\<bar> < 2 ^ 63 \<longrightarrow> valuesMatch a b tol = (\<bar>a - b\<bar> \<le> tol) \<and> valuesMatch a b tol = valuesMatch b a tol) \<and>
   (0 \<le> tol \<longrightarrow> valuesMatch (b - 2 ^ 63) b tol)"
proof -
  have w: "i64 (- (2 ^ 63)) = - (2 ^ 63)" "i64 (2 ^ 63) = - (2 ^ 63)" by (simp_all add: i64_def)
  have "in_i64 (a - b) \<and> in_i64 (b - a)" if "\<bar>a - b\<bar> < 2 ^ 63" using that by (auto simp: in_i64_def abs_less_iff)
  then show ?thesis using w by (auto simp: valuesMatch_def Let_def)
qed

theorem valuesMatch_correct_witness:
  "valuesMatch 100 103 5 \<and> \<not> valuesMatch 100 106 5 \<and> valuesMatch (100 - 2 ^ 63) 100 5"
  using valuesMatch_correct [of 100 103 5] valuesMatch_correct [of 100 106 5] valuesMatch_correct [of 0 100 5] by simp

section \<open>Votes\<close>

lemma honest_attestation_verifies:
  assumes "crypto_ok G" and "valid_keypair G kp"
    and "getPublicKeyForNaraID E signer = Some (PublicKey kp)"
  shows "attestation_verifies G E signer (signed_attestation G kp a)"
proof -
  have "at_Signature (signed_attestation G kp a) = SignContent G (attestation_SignableContent a) kp"
    by (simp add: signed_attestation_def)
  then show ?thesis
    using assms signed_content_verifies [OF assms(1,2)] SignBase64_nonempty [OF assms(1)]
    by (simp add: attestation_verifies_def SignContent_def)
qed

text \<open>
  C16: an honest vote counts. Let a nara propose with a pending round that is not finalized, about itself, and let another nara,
  whose key the proposer knows and who knows the proposer's, handle the proposal and vote. The proposer's \<open>HandleVote\<close> accepts the
  vote for exactly this proposal. If the differences between the proposed values and the voter's own fit in an int64 (they are claims
  of the proposer, and \<open>valuesMatch_correct\<close> shows what happens otherwise), the vote approves exactly if they are at most 5 restarts,
  60 seconds of uptime and 60 seconds of start time, and carries the proposed values then, otherwise the voter's own.
\<close>

theorem honest_vote_accepted:
  assumes "crypto_ok G" and "valid_keypair G (me_Keypair V)"
    and "getPublicKeyForNaraID P (me_ID V) = Some (PublicKey (me_Keypair V))"
    and "cs_myPending s = Some p" and "pp_proposal (cs_pendings s ! p) = proposal"
    and "pp_round (cs_pendings s ! p) = pr_Round proposal" and "\<not> pp_finalized (cs_pendings s ! p)"
    and "at_Subject (pr_Attestation proposal) = me_Name P"
    and "HandleProposal G V now proposal t = Some vote" and "cs_ledger t = Some l"
    and "o' = at_Observation (pr_Attestation proposal)" and "r = DeriveRestartCount l (me_Name P)"
    and "u = DeriveTotalUptime G now l (me_Name P)" and "f = GetFirstSeenFromEvents l (me_Name P)"
    and "\<bar>no_Restarts o' - r\<bar> < 2 ^ 63" and "\<bar>no_TotalUptime o' - u\<bar> < 2 ^ 63" and "\<bar>no_StartTime o' - f\<bar> < 2 ^ 63"
  shows "HandleVote_check G P vote s = Some p \<and>
    (vt_Approved vote \<longleftrightarrow> \<bar>no_Restarts o' - r\<bar> \<le> 5 \<and> \<bar>no_TotalUptime o' - u\<bar> \<le> 60 \<and> \<bar>no_StartTime o' - f\<bar> \<le> 60) \<and>
    at_Observation (vt_Attestation vote) = (if vt_Approved vote then o' else observed_values r u f)"
proof -
  let ?a = "pr_Attestation proposal"
  let ?ok = "valuesMatch (no_Restarts o') r 5 \<and> valuesMatch (no_TotalUptime o') u 60 \<and> valuesMatch (no_StartTime o') f 60"
  define att where "att = \<lparr>at_Version = 2, at_Subject = at_Subject ?a, at_SubjectID = at_SubjectID ?a,
     at_Observation = (if ?ok then o' else observed_values r u f), at_Attester = me_Name V,
     at_AttesterID = me_ID V, at_LastSeenCheckpointID = GetLatestCheckpointID l (at_Subject ?a),
     at_AsOfTime = at_AsOfTime ?a, at_Signature = []\<rparr>"
  have v: "vote = \<lparr>vt_Attestation = signed_attestation G (me_Keypair V) att, vt_ProposalTS = at_AsOfTime ?a,
                   vt_Round = pr_Round proposal, vt_Approved = ?ok\<rparr>"
    using assms(9) unfolding HandleProposal_def Let_def assms(10) option.case att_def assms(8,11-14) by (auto split: if_splits)
  have "verifyVoteSignature G P vote"
    unfolding verifyVoteSignature_def v
    using honest_attestation_verifies [OF assms(1,2)] assms(3) by (simp add: att_def)
  then have "HandleVote_check G P vote s = Some p"
    using assms(4-8) by (simp add: HandleVote_check_def v att_def protocol_version_def)
  moreover have "vt_Approved vote = ?ok" "at_Observation (vt_Attestation vote) = (if ?ok then o' else observed_values r u f)"
    by (simp_all add: v att_def)
  ultimately show ?thesis using valuesMatch_within assms(15-17) by simp
qed

definition demo_voter_state :: CheckpointService where
  "demo_voter_state = NewCheckpointService (Some (demo_ledger 9 [demo_checkpoint ''x'' 4]))"

definition demo_proposer_state :: CheckpointService where
  "demo_proposer_state = (NewCheckpointService (Some (demo_ledger 9 [])))\<lparr>
     cs_pendings := [\<lparr>pp_proposal = demo_proposal, pp_votes = [], pp_expiresAt = 0, pp_round = 1, pp_finalized = False\<rparr>],
     cs_myPending := Some 0\<rparr>"

lemma demo_proposal_fields: "pr_Attestation demo_proposal = demo_attester CHR ''B'' []" "pr_Round demo_proposal = 1"
  by (simp_all add: demo_proposal_def)

lemma demo_proposal_verifies: "verifyProposalSignature demo_env (demo_svc n k) demo_proposal"
  unfolding verifyProposalSignature_def demo_proposal_def
  using honest_attestation_verifies [OF crypto_ok_demo valid_keypair_demo, of "demo_svc n k" "''B''" "CHR ''B''"]
  by (simp add: demo_attester_def)

lemma demo_voter_ledger: "cs_ledger demo_voter_state = Some (demo_ledger 9 [demo_checkpoint ''x'' 4])"
  by (simp add: demo_voter_state_def NewCheckpointService_def)

theorem honest_vote_accepted_witness:
  "\<exists>vote. HandleProposal demo_env (demo_svc ''v'' CHR ''v'') 80 demo_proposal demo_voter_state = Some vote \<and>
     HandleVote_check demo_env (demo_svc ''b'' CHR ''B'') vote demo_proposer_state = Some 0 \<and> vt_Approved vote"
proof -
  have "HandleProposal demo_env (demo_svc ''v'' CHR ''v'') 80 demo_proposal demo_voter_state \<noteq> None"
    using demo_proposal_verifies [of "''v''" "CHR ''v''"]
    by (simp add: HandleProposal_def demo_voter_state_def NewCheckpointService_def protocol_version_def Let_def
        demo_proposal_fields)
  then obtain vote where v: "HandleProposal demo_env (demo_svc ''v'' CHR ''v'') 80 demo_proposal demo_voter_state = Some vote"
    by blast
  have k: "valid_keypair demo_env (me_Keypair (demo_svc ''v'' CHR ''v''))" by (simp add: valid_keypair_demo)
  have d: "DeriveRestartCount (demo_ledger 9 [demo_checkpoint ''x'' 4]) ''b'' = 3"
    "DeriveTotalUptime demo_env 80 (demo_ledger 9 [demo_checkpoint ''x'' 4]) ''b'' = 1000"
    "GetFirstSeenFromEvents (demo_ledger 9 [demo_checkpoint ''x'' 4]) ''b'' = 5" by code_simp+
  have "HandleVote_check demo_env (demo_svc ''b'' CHR ''B'') vote demo_proposer_state = Some 0 \<and> vt_Approved vote"
    using honest_vote_accepted [OF crypto_ok_demo k, of "demo_svc ''b'' CHR ''B''" demo_proposer_state 0 demo_proposal 80 demo_voter_state vote,
      OF _ _ _ _ _ _ v demo_voter_ledger refl refl refl refl]
    by (simp add: demo_proposer_state_def demo_proposal_fields d demo_attester_def observed_values_def)
  with v show ?thesis by blast
qed

section \<open>Final checkpoints\<close>

lemma final_checkpoint_cases:
  "HandleFinalCheckpoint G E event l = Inr l \<or>
   (\<exists>c. Service event = ServiceCheckpoint \<and> Checkpoint event = Some c \<and> cp_Subject c \<noteq> me_Name E \<and>
        5 \<le> length (cp_Signatures c) \<and> length (cp_VoterIDs c) = length (cp_Signatures c) \<and>
        2 \<le> length (filter (voter_valid G (\<lambda>i name. getPublicKeyForNaraID E i) c) (zip (cp_VoterIDs c) (cp_Signatures c))) \<and>
        HandleFinalCheckpoint G E event l = go_bind (AddEvent G event l) (\<lambda>(ok, l', calls). Inr l'))"
proof (cases "if Service event \<noteq> ServiceCheckpoint then None else Checkpoint event")
  case None
  then show ?thesis by (simp add: HandleFinalCheckpoint_def)
next
  case (Some c)
  then have c: "Service event = ServiceCheckpoint" "Checkpoint event = Some c" by (simp_all split: if_splits)
  let ?valid = "vr_Valid (verifyCheckpointSignatures G E c)"
  have v: "length (cp_VoterIDs c) = length (cp_Signatures c) \<and>
      2 \<le> length (filter (voter_valid G (\<lambda>i name. getPublicKeyForNaraID E i) c) (zip (cp_VoterIDs c) (cp_Signatures c)))"
    if ?valid
    using that
    by (auto simp: verifyCheckpointSignatures_def VerifySignatureWithCounts_def count_voters_eq
        MinCheckpointSignatures_def split: if_splits)
  show ?thesis
  proof (cases "cp_Subject c \<noteq> me_Name E \<and> 5 \<le> length (cp_Signatures c) \<and> ?valid")
    case True
    then have "HandleFinalCheckpoint G E event l = go_bind (AddEvent G event l) (\<lambda>(ok, l', calls). Inr l')"
      using c by (simp add: HandleFinalCheckpoint_def MinVotersRequired_def)
    then show ?thesis using True v c by blast
  next
    case False
    then have "HandleFinalCheckpoint G E event l = Inr l"
      using c by (auto simp: HandleFinalCheckpoint_def MinVotersRequired_def)
    then show ?thesis ..
  qed
qed

text \<open>
  C17: what the checkpoint service takes from others. \<open>HandleFinalCheckpoint\<close>, which gets the finished checkpoints that are published
  over MQTT, does something with the ledger only if the event is a checkpoint about somebody else, with at least five signatures of
  which at least two are valid under keys it knows; then it is \<open>AddEvent\<close>. Checkpoints that come in batches of events, from
  \<open>MergeSyncEventsWithVerification\<close>, are not checked like this (\<open>unsigned_checkpoint_merged\<close>).
\<close>

theorem final_checkpoint_guarded:
  assumes "HandleFinalCheckpoint G E event l \<noteq> Inr l"
  shows "\<exists>c. Service event = ServiceCheckpoint \<and> Checkpoint event = Some c \<and> cp_Subject c \<noteq> me_Name E \<and>
    5 \<le> length (cp_Signatures c) \<and> length (cp_VoterIDs c) = length (cp_Signatures c) \<and>
    2 \<le> length (filter (voter_valid G (\<lambda>i name. getPublicKeyForNaraID E i) c) (zip (cp_VoterIDs c) (cp_Signatures c))) \<and>
    HandleFinalCheckpoint G E event l = go_bind (AddEvent G event l) (\<lambda>(ok, l', calls). Inr l')"
  using final_checkpoint_cases [of G E event l] assms by blast

lemma checkpoint_added:
  assumes "Service e = ServiceCheckpoint" and "Checkpoint e = Some c" and "checkpoint_IsValid c" and "Timestamp e \<noteq> 0"
    and "\<not> shouldFilterCheckpoint e" and "ID e \<noteq> []" and "ID e \<notin> eventIDs l" and "has_room e l"
  shows "AddEvent G e l = Inr (True, append_event e l, notifyListeners l e)"
proof -
  have "\<not> is_observation e" "make_room_for_ping e l = Some l" "event_IsValid e = Inr True"
    using assms(1-4) by (auto simp: is_observation_def make_room_for_ping_def event_IsValid_def Payload_def service_defs)
  then show ?thesis using assms(5-8) has_room_stored [OF assms(8)] by (simp add: AddEvent_def with_id_def)
qed

definition demo_final :: "CheckpointEventPayload \<Rightarrow> SyncEvent" where
  "demo_final c = zero_event\<lparr>ID := ''f'', Timestamp := 1, Service := ServiceCheckpoint, Checkpoint := Some c\<rparr>"

theorem final_checkpoint_guarded_witness:
  "\<exists>c l'. HandleFinalCheckpoint demo_env (demo_svc ''q'' CHR ''q'') (demo_final c) (NewSyncLedger 9) = Inr l' \<and>
     Events l' = [demo_final c] \<and> 5 \<le> length (cp_Signatures c)"
proof -
  let ?votes = "map (\<lambda>k. demo_vote k []) ''vwxyz''" and ?E = "demo_svc ''q'' CHR ''q''"
  obtain c where c: "tryFindConsensus demo_env (\<lambda>ks. ks) (\<lambda>n. 0) demo_proposal ?votes = Some c"
    using tryFindConsensus_iff [OF iterates_id, of demo_env "\<lambda>n. 0" demo_proposal ?votes]
    by (auto simp: quorum_def MinVotersRequired_def)
  obtain key best chosen where m: "made_from demo_proposal ?votes c key best chosen"
    using tryFindConsensus_SomeD [OF sort_algorithm_demo iterates_id c] by blast
  note sh = consensus_size [OF sort_algorithm_demo iterates_id c]
  have a: "vr_Valid (verifyCheckpointSignatures demo_env ?E c)"
    using honest_votes_verify [OF crypto_ok_demo sort_algorithm_demo iterates_id c demo_honest] by (auto simp: demo_proposal_def)
  have "key = (3, 1000, 5, [])"
    using m by (auto simp: made_from_def Let_def demo_proposal_def quorum_def MinVotersRequired_def group_of_def split: if_splits)
  then have f: "cp_Subject c = ''b''" "cp_AsOfTime c = 77" "no_Restarts (cp_Observation c) = 3" "no_TotalUptime (cp_Observation c) = 1000"
    using m by (simp_all add: made_from_def Let_def demo_proposal_def)
  have "AddEvent demo_env (demo_final c) (NewSyncLedger 9) = Inr (True, append_event (demo_final c) (NewSyncLedger 9), notifyListeners (NewSyncLedger 9) (demo_final c))"
    by (rule checkpoint_added [where c = c])
      (use f sh(1) in \<open>auto simp: demo_final_def checkpoint_IsValid_def shouldFilterCheckpoint_def has_room_def NewSyncLedger_def\<close>)
  then have h: "HandleFinalCheckpoint demo_env ?E (demo_final c) (NewSyncLedger 9) = Inr (append_event (demo_final c) (NewSyncLedger 9))"
    using a f sh(1,2) by (simp add: HandleFinalCheckpoint_def demo_final_def MinVotersRequired_def)
  moreover have "append_event (demo_final c) (NewSyncLedger 9) \<noteq> NewSyncLedger 9" by (simp add: append_event_def NewSyncLedger_def)
  ultimately have "\<exists>c'. Checkpoint (demo_final c) = Some c' \<and> 5 \<le> length (cp_Signatures c')"
    using final_checkpoint_guarded [of demo_env ?E "demo_final c" "NewSyncLedger 9"] by auto
  moreover have "Checkpoint (demo_final c) = Some c" by (simp add: demo_final_def)
  moreover have "Events (append_event (demo_final c) (NewSyncLedger 9)) = [demo_final c]" by (simp add: append_event_def NewSyncLedger_def)
  ultimately show ?thesis using h by auto
qed

text \<open>
  A checkpoint that nobody signed gets in by a batch. Whatever its signatures are, a valid checkpoint with a new ID is stored by
  \<open>MergeEvents\<close>, which sync, zines and boot end with, while the checkpoint service would refuse it.
\<close>

theorem unsigned_checkpoint_merged:
  assumes "Service e = ServiceCheckpoint" and "Checkpoint e = Some c" and "checkpoint_IsValid c" and "Timestamp e \<noteq> 0"
    and "\<not> shouldFilterCheckpoint e" and "ID e \<noteq> []" and "ID e \<notin> eventIDs l" and "has_room e l" and "cp_Signatures c = []"
  shows "\<exists>n l' calls. MergeEvents G [e] l = Inr (n, l', calls) \<and> e \<in> set (Events l') \<and> HandleFinalCheckpoint G E e l = Inr l"
  using checkpoint_added [OF assms(1-8), of G] assms(1,2,5,9)
  by (simp add: MergeEvents_def FilterEventsForIngestion_def append_event_def HandleFinalCheckpoint_def MinVotersRequired_def)

section \<open>Weak spots\<close>

text \<open>
  one voter is a quorum. Votes are not counted per voter: the same honest vote delivered
  five times makes consensus, every signature of the resulting checkpoint counts as valid, and
  its voters are the attester, five times, and at most the proposer.
\<close>

theorem one_voter_is_quorum:
  assumes "crypto_ok G" and "sort_algorithm (sort_perm G)" and "iterates iter" and "honest_round G E proposal [v]"
    and "vt_Approved v \<longrightarrow> vote_key v = value_key (pr_Attestation proposal)"
  shows "\<exists>c. tryFindConsensus G iter upty proposal (replicate 5 v) = Some c \<and>
           vr_Valid (verifyCheckpointSignatures G E c) \<and>
           set (cp_VoterIDs c) \<subseteq> {at_SubjectID (pr_Attestation proposal), at_AttesterID (vt_Attestation v)}"
proof -
  have "quorum (group_of (vote_key v) (replicate 5 v))" by (simp add: quorum_def group_of_def MinVotersRequired_def)
  then obtain c where c: "tryFindConsensus G iter upty proposal (replicate 5 v) = Some c"
    using tryFindConsensus_iff [OF assms(3), of G upty proposal "replicate 5 v"] by blast
  obtain key best chosen where m: "made_from proposal (replicate 5 v) c key best chosen"
    using tryFindConsensus_SomeD [OF assms(2,3) c] by blast
  have "set chosen \<subseteq> {vt_Attestation v}" using m unfolding made_from_def Let_def by auto
  then have "set (cp_VoterIDs c) \<subseteq> {at_SubjectID (pr_Attestation proposal), at_AttesterID (vt_Attestation v)}"
    using m unfolding made_from_def Let_def by auto
  moreover have "vr_Valid (verifyCheckpointSignatures G E c)"
    using honest_votes_verify [OF assms(1-3) c, of E] assms(4,5) by (simp add: honest_round_def)
  ultimately show ?thesis using c by blast
qed

theorem one_voter_is_quorum_witness:
  "\<exists>c. tryFindConsensus demo_env (\<lambda>ks. ks) (\<lambda>n. 0) demo_proposal (replicate 5 (demo_vote CHR ''v'' [])) = Some c \<and>
     vr_Valid (verifyCheckpointSignatures demo_env (demo_svc ''q'' CHR ''q'') c) \<and> set (cp_VoterIDs c) \<subseteq> {''B'', ''v''}"
  using one_voter_is_quorum [OF crypto_ok_demo sort_algorithm_demo iterates_id demo_honest [of "''q''" "CHR ''q''" "[]" "''v''", simplified], of "\<lambda>n. 0"]
  by (simp add: demo_proposal_def)

text \<open>
  a lost publication stalls the service. When the broker does not take a proposal, the
  pending proposal stays and no finalizing goroutine is scheduled; from then on \<open>checkAndPropose\<close>
  does nothing, at every later time and however many naras are online.
\<close>

theorem lost_publication_stalls:
  assumes "mqttConnected E" and "cs_ledger s = Some l"
    and "ProposeCheckpoint G E now nowNano False s = (s', pub, scheduled)"
  shows "\<not> scheduled \<and> pub = None \<and> checkAndPropose G E' now' nowNano' published s' = (s', None, False)"
proof -
  have "s' = s\<lparr>cs_pendings := cs_pendings s @ [\<lparr>pp_proposal = own_proposal G E now 1 None l, pp_votes = [],
        pp_expiresAt = nowNano + cs_voteWindow s, pp_round = 1, pp_finalized = False\<rparr>],
      cs_myPending := Some (length (cs_pendings s))\<rparr>" "pub = None" "\<not> scheduled"
    using assms by (auto simp: ProposeCheckpoint_def proposeCheckpointRound_def Let_def)
  then show ?thesis by (simp add: checkAndPropose_def my_unfinalized_def)
qed

theorem lost_publication_stalls_witness:
  "\<exists>s'. ProposeCheckpoint demo_env (demo_svc ''b'' CHR ''B'') 5 5 False demo_voter_state = (s', None, False) \<and>
     checkAndPropose demo_env (demo_svc ''b'' CHR ''B'') 99 (99 * 10 ^ 15) True s' = (s', None, False)"
proof -
  obtain s' pub sched where p: "ProposeCheckpoint demo_env (demo_svc ''b'' CHR ''B'') 5 5 False demo_voter_state = (s', pub, sched)"
    by (metis surj_pair)
  from lost_publication_stalls [OF _ demo_voter_ledger p, of "demo_svc ''b'' CHR ''B''" 99 "99 * 10 ^ 15" True] p
  show ?thesis by auto
qed

end
