(* ===== verification/Checkpoint_Rounds.thy ===== *)
theory Checkpoint_Rounds
  imports Checkpoint_Voting
begin

text \<open>
  The checkpoint service as a concurrent system. MQTT handlers and finalizing goroutines run
  at the same time; between their locks anything can happen. A state holds the service, the
  votes that passed \<open>HandleVote\<close>'s checks and wait to be appended, the pointers that finalizing
  goroutines have read, the proposals they have claimed, and, as a record of what happened, the
  proposals finished and the checkpoints concluded. A finalizing goroutine may start at any time, which
  covers the timer, the fifth vote and every later vote.
\<close>

record rounds =
  svc :: CheckpointService
  voting :: "(nat \<times> CheckpointVote) list"
  reading :: "nat list"
  claimed :: "nat list"
  finished :: "nat list"
  concluded :: "(nat \<times> CheckpointEventPayload) list"

definition rounds_start :: "CheckpointService \<Rightarrow> rounds" where
  "rounds_start s = \<lparr>svc = s, voting = [], reading = [], claimed = [], finished = [], concluded = []\<rparr>"

inductive round_step ::
  "go_env \<Rightarrow> (valueKey list \<Rightarrow> valueKey list) \<Rightarrow> svc_env \<Rightarrow> rounds \<Rightarrow> rounds \<Rightarrow> bool" for G iter E where
  r_propose: "checkAndPropose G E now nowNano published (svc x) = (s', out) \<Longrightarrow>
     round_step G iter E x (x\<lparr>svc := s'\<rparr>)"
| r_vote: "HandleVote_check G E v (svc x) = Some p \<Longrightarrow>
     round_step G iter E x (x\<lparr>voting := (p, v) # voting x\<rparr>)"
| r_append: "(p, v) \<in> set (voting x) \<Longrightarrow>
     round_step G iter E x (x\<lparr>svc := fst (HandleVote_append p v (svc x)), voting := remove1 (p, v) (voting x)\<rparr>)"
| r_read: "cs_myPending (svc x) = Some p \<Longrightarrow>
     round_step G iter E x (x\<lparr>reading := p # reading x\<rparr>)"
| r_claim: "p \<in> set (reading x) \<Longrightarrow> finalize_claim p (svc x) = Some s' \<Longrightarrow>
     round_step G iter E x (x\<lparr>svc := s', reading := remove1 p (reading x), claimed := p # claimed x\<rparr>)"
| r_lost: "p \<in> set (reading x) \<Longrightarrow> finalize_claim p (svc x) = None \<Longrightarrow>
     round_step G iter E x (x\<lparr>reading := remove1 p (reading x)\<rparr>)"
| r_finish: "p \<in> set (claimed x) \<Longrightarrow> finalize_finish G iter E now nowNano published p (svc x) = Inr (s', out) \<Longrightarrow>
     round_step G iter E x (x\<lparr>svc := s', claimed := remove1 p (claimed x), finished := p # finished x,
        concluded := (case fo_checkpoint out of None \<Rightarrow> concluded x | Some c \<Rightarrow> (p, c) # concluded x)\<rparr>)"
| r_ledger: "round_step G iter E x (x\<lparr>svc := (svc x)\<lparr>cs_ledger := l\<rparr>\<rparr>)"

inductive_cases round_stepE: "round_step G iter E x y"

inductive rounds_reach ::
  "go_env \<Rightarrow> (valueKey list \<Rightarrow> valueKey list) \<Rightarrow> svc_env \<Rightarrow> SyncLedger option \<Rightarrow> rounds \<Rightarrow> bool" for G iter E ledger where
  rounds_new: "rounds_reach G iter E ledger (rounds_start (NewCheckpointService ledger))"
| rounds_next: "rounds_reach G iter E ledger x \<Longrightarrow> round_step G iter E x y \<Longrightarrow> rounds_reach G iter E ledger y"

section \<open>What the pieces do\<close>

definition fresh_pending :: "svc_env \<Rightarrow> int \<Rightarrow> pendingProposal \<Rightarrow> bool" where
  "fresh_pending E round q \<longleftrightarrow> pp_round q = round \<and> pp_votes q = [] \<and> \<not> pp_finalized q \<and>
     pr_Round (pp_proposal q) = round \<and> at_Subject (pr_Attestation (pp_proposal q)) = me_Name E"

definition proposes :: "svc_env \<Rightarrow> int \<Rightarrow> CheckpointService \<Rightarrow> CheckpointService \<Rightarrow> bool" where
  "proposes E round s s' \<longleftrightarrow> s' = s \<or>
     (\<exists>q. fresh_pending E round q \<and>
          s' = s\<lparr>cs_pendings := cs_pendings s @ [q], cs_myPending := Some (length (cs_pendings s))\<rparr>)"

lemma proposes_refl [simp]: "proposes E round s s"
  by (simp add: proposes_def)

lemma fresh_own_proposal:
  "fresh_pending E round \<lparr>pp_proposal = own_proposal G E now round consensusValues l, pp_votes = [],
     pp_expiresAt = t, pp_round = round, pp_finalized = False\<rparr>"
  by (simp add: fresh_pending_def own_proposal_def Let_def)

lemma proposeCheckpointRound_proposes:
  assumes "proposeCheckpointRound G E now nowNano published round v s = (s', out)"
  shows "proposes E round s s'"
proof (cases "mqttConnected E \<and> cs_ledger s \<noteq> None")
  case True
  then obtain l where l: "mqttConnected E" "cs_ledger s = Some l" by blast
  show ?thesis
    unfolding proposes_def
    by (rule disjI2, rule exI, rule conjI [OF fresh_own_proposal])
      (use assms l in \<open>auto simp: proposeCheckpointRound_def Let_def split: if_splits\<close>)
next
  case False
  then show ?thesis using assms by (auto simp: proposeCheckpointRound_def split: if_splits option.splits)
qed

lemma checkAndPropose_proposes: "checkAndPropose G E now nowNano published s = (s', out) \<Longrightarrow> proposes E 1 s s'"
  by (auto simp: checkAndPropose_def ProposeCheckpoint_def
      dest: proposeCheckpointRound_proposes split: if_splits)

lemma proposeRound2_proposes: "proposeRound2 G E now nowNano published votes s = (s', out) \<Longrightarrow> proposes E 2 s s'"
  by (auto simp: proposeRound2_def Let_def dest: proposeCheckpointRound_proposes split: if_splits)

lemma finalize_finish_cases:
  assumes "finalize_finish G iter E now nowNano published p s = Inr (s', out)"
  obtains (agreed) c where "fo_checkpoint out = Some c"
      "tryFindConsensus G iter (getVoterUptime G now s) (pp_proposal (cs_pendings s ! p)) (pp_votes (cs_pendings s ! p)) = Some c"
      "cs_pendings s' = cs_pendings s" "cs_myPending s' = cs_myPending s"
  | (again) "fo_checkpoint out = None" "pp_round (cs_pendings s ! p) = 1" "proposes E 2 s s'"
  | (given_up) "fo_checkpoint out = None" "pp_round (cs_pendings s ! p) \<noteq> 1"
      "cs_pendings s' = cs_pendings s" "cs_myPending s' = cs_myPending s"
proof (cases "tryFindConsensus G iter (getVoterUptime G now s) (pp_proposal (cs_pendings s ! p)) (pp_votes (cs_pendings s ! p))")
  case (Some c)
  then show ?thesis
    using assms by (intro agreed [of c]) (auto simp: finalize_finish_def Let_def go_bind_eq_Inr)
next
  case None
  show ?thesis
  proof (cases "pp_round (cs_pendings s ! p) = 1")
    case True
    obtain s1 pub sched where r: "proposeRound2 G E now nowNano published (pp_votes (cs_pendings s ! p)) s = (s1, pub, sched)"
      by (metis surj_pair)
    then have "fo_checkpoint out = None" "s' = s1"
      using assms None True by (auto simp: finalize_finish_def Let_def)
    then show ?thesis using True proposeRound2_proposes [OF r] by (intro again) simp_all
  next
    case False
    then show ?thesis using assms None by (intro given_up) (auto simp: finalize_finish_def Let_def)
  qed
qed

section \<open>The invariant\<close>

definition accepted :: "go_env \<Rightarrow> svc_env \<Rightarrow> pendingProposal \<Rightarrow> CheckpointVote \<Rightarrow> bool" where
  "accepted G E q v \<longleftrightarrow> at_Subject (vt_Attestation v) = me_Name E \<and> verifyVoteSignature G E v \<and>
     2 \<le> protocol_version (vt_Attestation v) \<and>
     vt_ProposalTS v = at_AsOfTime (pr_Attestation (pp_proposal q)) \<and> vt_Round v = pp_round q"

lemma HandleVote_check_accepted:
  "HandleVote_check G E v s = Some p \<Longrightarrow> cs_myPending s = Some p \<and> accepted G E (cs_pendings s ! p) v"
  by (auto simp: HandleVote_check_def accepted_def Let_def split: if_splits option.splits)

text \<open>Pending proposals are never removed; each keeps its proposal and round, and stays finalized.\<close>

definition same_proposal :: "pendingProposal \<Rightarrow> pendingProposal \<Rightarrow> bool" where
  "same_proposal q q' \<longleftrightarrow> pp_proposal q' = pp_proposal q \<and> pp_round q' = pp_round q \<and>
     (pp_finalized q \<longrightarrow> pp_finalized q')"

definition evolves :: "pendingProposal list \<Rightarrow> pendingProposal list \<Rightarrow> bool" where
  "evolves ps ps' \<longleftrightarrow> length ps \<le> length ps' \<and> (\<forall>i < length ps. same_proposal (ps ! i) (ps' ! i))"

lemma same_proposal_refl [simp]: "same_proposal q q"
  by (simp add: same_proposal_def)

lemma accepted_same: "same_proposal q q' \<Longrightarrow> accepted G E q' v = accepted G E q v"
  by (simp add: same_proposal_def accepted_def)

lemma evolves_refl [simp]: "evolves ps ps"
  by (simp add: evolves_def)

lemma evolves_append: "evolves ps (ps @ [q])"
  by (simp add: evolves_def nth_append)

lemma evolves_update: "same_proposal (ps ! p) q \<Longrightarrow> evolves ps (ps[p := q])"
  by (cases "p < length ps") (auto simp: evolves_def nth_list_update)

lemma evolves_accepted: "evolves ps ps' \<Longrightarrow> i < length ps \<Longrightarrow> accepted G E (ps' ! i) v = accepted G E (ps ! i) v"
  by (simp add: evolves_def accepted_same)

definition pointers :: "rounds \<Rightarrow> nat set" where
  "pointers x = set_option (cs_myPending (svc x)) \<union> fst ` set (voting x) \<union> set (reading x) \<union> set (claimed x) \<union> set (finished x)"

definition made_by ::
  "go_env \<Rightarrow> (valueKey list \<Rightarrow> valueKey list) \<Rightarrow> svc_env \<Rightarrow> pendingProposal \<Rightarrow> CheckpointEventPayload \<Rightarrow> bool" where
  "made_by G iter E q c \<longleftrightarrow> (\<exists>upty votes. tryFindConsensus G iter upty (pp_proposal q) votes = Some c \<and>
     (\<forall>v \<in> set votes. accepted G E q v))"

lemma made_by_same: "same_proposal q q' \<Longrightarrow> made_by G iter E q' c = made_by G iter E q c"
  unfolding made_by_def by (simp add: accepted_same) (simp add: same_proposal_def)

definition pendings_ok :: "go_env \<Rightarrow> svc_env \<Rightarrow> pendingProposal list \<Rightarrow> bool" where
  "pendings_ok G E ps \<longleftrightarrow> (\<forall>q \<in> set ps. at_Subject (pr_Attestation (pp_proposal q)) = me_Name E \<and>
     (\<forall>v \<in> set (pp_votes q). accepted G E q v))"

definition history_ok ::
  "go_env \<Rightarrow> (valueKey list \<Rightarrow> valueKey list) \<Rightarrow> svc_env \<Rightarrow> pendingProposal list \<Rightarrow> rounds \<Rightarrow> bool" where
  "history_ok G iter E ps x \<longleftrightarrow>
     distinct (claimed x @ finished x) \<and> (\<forall>p \<in> set (claimed x) \<union> set (finished x). pp_finalized (ps ! p)) \<and>
     distinct (map fst (concluded x)) \<and> fst ` set (concluded x) \<subseteq> set (finished x) \<and>
     (\<forall>(p, v) \<in> set (voting x). accepted G E (ps ! p) v) \<and>
     (\<forall>(p, c) \<in> set (concluded x). made_by G iter E (ps ! p) c)"

definition rounds_ok ::
  "go_env \<Rightarrow> (valueKey list \<Rightarrow> valueKey list) \<Rightarrow> svc_env \<Rightarrow> rounds \<Rightarrow> bool" where
  "rounds_ok G iter E x \<longleftrightarrow> (\<forall>p \<in> pointers x. p < length (cs_pendings (svc x))) \<and>
     pendings_ok G E (cs_pendings (svc x)) \<and> history_ok G iter E (cs_pendings (svc x)) x"

text \<open>History survives whatever the service does to its pending proposals.\<close>

lemma history_evolves:
  assumes "evolves ps ps'" and "history_ok G iter E ps x" and "\<forall>p \<in> pointers x. p < length ps"
  shows "history_ok G iter E ps' x"
proof -
  have s: "same_proposal (ps ! p) (ps' ! p)" if "p \<in> pointers x" for p
    using assms(1,3) that by (simp add: evolves_def)
  have "pp_finalized (ps' ! p)" if "p \<in> set (claimed x) \<union> set (finished x)" for p
    using s [of p] that assms(2) by (auto simp: pointers_def history_ok_def same_proposal_def)
  moreover have "accepted G E (ps' ! p) v" if "(p, v) \<in> set (voting x)" for p v
  proof -
    have "p \<in> pointers x" using that by (force simp: pointers_def)
    then show ?thesis using that assms(2) accepted_same [OF s] by (auto simp: history_ok_def)
  qed
  moreover have "made_by G iter E (ps' ! p) c" if "(p, c) \<in> set (concluded x)" for p c
  proof -
    have "p \<in> set (finished x)" using that assms(2) by (force simp: history_ok_def)
    then have "p \<in> pointers x" by (simp add: pointers_def)
    then show ?thesis using that assms(2) made_by_same [OF s] by (auto simp: history_ok_def)
  qed
  ultimately show ?thesis using assms(2) by (auto simp: history_ok_def)
qed

lemma pendings_ok_append: "pendings_ok G E ps \<Longrightarrow> fresh_pending E round q \<Longrightarrow> pendings_ok G E (ps @ [q])"
  by (auto simp: pendings_ok_def fresh_pending_def)

lemma pendings_ok_update:
  assumes "pendings_ok G E ps" and "p < length ps" and "same_proposal (ps ! p) q"
    and "\<forall>v \<in> set (pp_votes q). accepted G E (ps ! p) v"
  shows "pendings_ok G E (ps[p := q])"
proof -
  have "at_Subject (pr_Attestation (pp_proposal q)) = me_Name E"
    using assms(1-3) by (simp add: pendings_ok_def same_proposal_def)
  then show ?thesis
    using assms(1,4) accepted_same [OF assms(3)] set_update_subset_insert [of ps p q]
    unfolding pendings_ok_def by blast
qed

text \<open>A step that only proposes.\<close>

lemma proposes_evolves:
  assumes "proposes E round s s'" and "pendings_ok G E (cs_pendings s)" and "\<forall>p \<in> set_option (cs_myPending s). p < length (cs_pendings s)"
  shows "evolves (cs_pendings s) (cs_pendings s') \<and> pendings_ok G E (cs_pendings s') \<and>
         (\<forall>p \<in> set_option (cs_myPending s'). p < length (cs_pendings s'))"
proof (cases "s' = s")
  case False
  then obtain q where "fresh_pending E round q"
    and "s' = s\<lparr>cs_pendings := cs_pendings s @ [q], cs_myPending := Some (length (cs_pendings s))\<rparr>"
    using assms(1) by (auto simp: proposes_def)
  then show ?thesis using assms(2) evolves_append pendings_ok_append by simp
qed (use assms in simp)

text \<open>The invariant of a changed state, from its parts.\<close>

lemma history_ok_svc [simp]: "history_ok G iter E ps (x\<lparr>svc := s\<rparr>) = history_ok G iter E ps x"
  by (simp add: history_ok_def)

lemma rounds_ok_svc:
  assumes "rounds_ok G iter E x" and "evolves (cs_pendings (svc x)) (cs_pendings s')"
    and "pendings_ok G E (cs_pendings s')" and "\<forall>p \<in> set_option (cs_myPending s'). p < length (cs_pendings s')"
  shows "rounds_ok G iter E (x\<lparr>svc := s'\<rparr>)"
proof -
  have "\<forall>p \<in> pointers x. p < length (cs_pendings (svc x))" using assms(1) by (simp add: rounds_ok_def)
  then have "history_ok G iter E (cs_pendings s') x"
    using assms(1,2) history_evolves [of "cs_pendings (svc x)" "cs_pendings s'"] by (simp add: rounds_ok_def)
  moreover have "p < length (cs_pendings s')" if "p \<in> pointers (x\<lparr>svc := s'\<rparr>)" for p
  proof -
    have "p \<in> set_option (cs_myPending s') \<or> p \<in> pointers x" using that by (auto simp: pointers_def)
    moreover have "length (cs_pendings (svc x)) \<le> length (cs_pendings s')" using assms(2) by (simp add: evolves_def)
    ultimately show ?thesis using assms(1,4) unfolding rounds_ok_def by (meson order_less_le_trans)
  qed
  ultimately show ?thesis using assms(3) by (simp add: rounds_ok_def)
qed

lemma rounds_ok_proposes:
  assumes "rounds_ok G iter E x" and "proposes E round (svc x) s'"
  shows "rounds_ok G iter E (x\<lparr>svc := s'\<rparr>)"
proof -
  have "\<forall>p \<in> set_option (cs_myPending (svc x)). p < length (cs_pendings (svc x))"
    using assms(1) by (auto simp: rounds_ok_def pointers_def)
  then show ?thesis
    using proposes_evolves [OF assms(2)] assms(1) by (intro rounds_ok_svc) (auto simp: rounds_ok_def)
qed

lemma rounds_ok_update:
  assumes "rounds_ok G iter E x" and "p < length (cs_pendings (svc x))"
    and "same_proposal (cs_pendings (svc x) ! p) q" and "\<forall>v \<in> set (pp_votes q). accepted G E (cs_pendings (svc x) ! p) v"
  shows "rounds_ok G iter E (x\<lparr>svc := (svc x)\<lparr>cs_pendings := (cs_pendings (svc x))[p := q]\<rparr>\<rparr>)"
  using assms pendings_ok_update [OF _ assms(2-4)] evolves_update [OF assms(3)]
  by (intro rounds_ok_svc) (auto simp: rounds_ok_def pointers_def)

lemma claim_changes:
  "finalize_claim p s = Some s' \<Longrightarrow> \<not> pp_finalized (cs_pendings s ! p) \<and>
     s' = s\<lparr>cs_pendings := (cs_pendings s)[p := (cs_pendings s ! p)\<lparr>pp_finalized := True\<rparr>]\<rparr>"
  by (auto simp: finalize_claim_def Let_def split: if_splits)

lemma pending_votes_accepted:
  "pendings_ok G E ps \<Longrightarrow> p < length ps \<Longrightarrow> v \<in> set (pp_votes (ps ! p)) \<Longrightarrow> accepted G E (ps ! p) v"
  by (simp add: pendings_ok_def)

text \<open>Nothing but votes or pointers dropped.\<close>

lemma rounds_ok_less:
  assumes "rounds_ok G iter E x" and "svc y = svc x" and "pointers y \<subseteq> pointers x"
    and "claimed y = claimed x" and "finished y = finished x" and "concluded y = concluded x"
    and "set (voting y) \<subseteq> set (voting x)"
  shows "rounds_ok G iter E y"
proof -
  have "history_ok G iter E (cs_pendings (svc x)) y"
    using assms(1) subsetD [OF assms(7)] by (auto simp: rounds_ok_def history_ok_def assms(4-6))
  then show ?thesis using assms(1-3) by (auto simp: rounds_ok_def)
qed

lemma fst_remove1: "fst ` set (remove1 z xs) \<subseteq> fst ` set xs"
  by (rule image_mono) (rule set_remove1_subset)

lemma rounds_ok_drop_vote: "rounds_ok G iter E x \<Longrightarrow> rounds_ok G iter E (x\<lparr>voting := remove1 a (voting x)\<rparr>)"
  by (erule rounds_ok_less)
    (use fst_remove1 [of a "voting x"] set_remove1_subset [of a "voting x"] in \<open>simp_all add: pointers_def, blast\<close>)

lemma rounds_ok_drop_read: "rounds_ok G iter E x \<Longrightarrow> rounds_ok G iter E (x\<lparr>reading := remove1 p (reading x)\<rparr>)"
  by (erule rounds_ok_less)
    (use set_remove1_subset [of p "reading x"] in \<open>simp_all add: pointers_def, blast\<close>)

lemma rounds_ok_take:
  assumes "rounds_ok G iter E x" and "p < length (cs_pendings (svc x))" and "p \<notin> set (claimed x)" and "p \<notin> set (finished x)"
    and "pp_finalized (cs_pendings (svc x) ! p)"
  shows "rounds_ok G iter E (x\<lparr>claimed := p # claimed x\<rparr>)"
  using assms by (simp add: rounds_ok_def pointers_def history_ok_def)

lemma rounds_ok_append:
  assumes "rounds_ok G iter E x" and "(p, v) \<in> set (voting x)"
  shows "rounds_ok G iter E (x\<lparr>svc := fst (HandleVote_append p v (svc x)), voting := remove1 (p, v) (voting x)\<rparr>)"
proof -
  let ?q = "(cs_pendings (svc x) ! p)\<lparr>pp_votes := pp_votes (cs_pendings (svc x) ! p) @ [v]\<rparr>"
  have "p \<in> pointers x" using imageI [OF assms(2), of fst] by (simp add: pointers_def)
  then have p: "p < length (cs_pendings (svc x))" "accepted G E (cs_pendings (svc x) ! p) v"
    using assms by (auto simp: rounds_ok_def history_ok_def)
  have "rounds_ok G iter E (x\<lparr>svc := (svc x)\<lparr>cs_pendings := (cs_pendings (svc x))[p := ?q]\<rparr>\<rparr>)"
    by (rule rounds_ok_update [OF assms(1) p(1)])
      (use p assms(1) in \<open>auto simp: same_proposal_def rounds_ok_def dest: pending_votes_accepted\<close>)
  from rounds_ok_drop_vote [OF this, of "(p, v)"] show ?thesis by (simp add: HandleVote_append_def Let_def)
qed

lemma rounds_ok_claim:
  assumes "rounds_ok G iter E x" and "p \<in> set (reading x)" and "finalize_claim p (svc x) = Some s'"
  shows "rounds_ok G iter E (x\<lparr>svc := s', reading := remove1 p (reading x), claimed := p # claimed x\<rparr>)"
proof -
  let ?q = "(cs_pendings (svc x) ! p)\<lparr>pp_finalized := True\<rparr>"
  note c = claim_changes [OF assms(3)]
  have p: "p < length (cs_pendings (svc x))" using assms(1,2) by (simp add: rounds_ok_def pointers_def)
  have new: "p \<notin> set (claimed x)" "p \<notin> set (finished x)"
    using assms(1) c by (auto simp: rounds_ok_def history_ok_def)
  have "rounds_ok G iter E (x\<lparr>svc := (svc x)\<lparr>cs_pendings := (cs_pendings (svc x))[p := ?q]\<rparr>\<rparr>)"
    by (rule rounds_ok_update [OF assms(1) p])
      (use p assms(1) in \<open>auto simp: same_proposal_def rounds_ok_def dest: pending_votes_accepted\<close>)
  from rounds_ok_take [OF rounds_ok_drop_read [OF this, of p], of p] show ?thesis
    using c p new by simp
qed

lemma history_ok_finish:
  assumes "history_ok G iter E ps x" and "p \<in> set (claimed x)"
    and "case o' of None \<Rightarrow> True | Some c \<Rightarrow> made_by G iter E (ps ! p) c"
  shows "history_ok G iter E ps (x\<lparr>svc := s', claimed := remove1 p (claimed x), finished := p # finished x,
           concluded := (case o' of None \<Rightarrow> concluded x | Some c \<Rightarrow> (p, c) # concluded x)\<rparr>)"
proof -
  have "p \<notin> set (finished x)" "distinct (claimed x)" using assms(1,2) by (auto simp: history_ok_def)
  then show ?thesis
    using assms by (auto simp: history_ok_def split: option.splits)
qed

lemma rounds_ok_finish:
  assumes "rounds_ok G iter E x" and "p \<in> set (claimed x)"
    and f: "finalize_finish G iter E now nowNano published p (svc x) = Inr (s', out)"
  shows "rounds_ok G iter E (x\<lparr>svc := s', claimed := remove1 p (claimed x), finished := p # finished x,
           concluded := (case fo_checkpoint out of None \<Rightarrow> concluded x | Some c \<Rightarrow> (p, c) # concluded x)\<rparr>)"
    (is "rounds_ok G iter E ?y")
proof -
  have p: "p < length (cs_pendings (svc x))" using assms(1,2) by (simp add: rounds_ok_def pointers_def)
  have "rounds_ok G iter E (x\<lparr>svc := s'\<rparr>) \<and> evolves (cs_pendings (svc x)) (cs_pendings s') \<and>
      (case fo_checkpoint out of None \<Rightarrow> True | Some c \<Rightarrow> made_by G iter E (cs_pendings (svc x) ! p) c)"
    using f
  proof (cases rule: finalize_finish_cases)
    case (agreed c)
    have "rounds_ok G iter E (x\<lparr>svc := s'\<rparr>)"
      using agreed assms(1) by (auto simp: rounds_ok_def pointers_def)
    moreover have "made_by G iter E (cs_pendings (svc x) ! p) c"
      unfolding made_by_def using agreed(2) assms(1) p by (auto simp: rounds_ok_def dest: pending_votes_accepted)
    ultimately show ?thesis using agreed by simp
  next
    case again
    have "evolves (cs_pendings (svc x)) (cs_pendings s')"
      using again(3) evolves_append by (auto simp: proposes_def)
    then show ?thesis using again rounds_ok_proposes [OF assms(1) again(3)] by simp
  next
    case given_up
    then show ?thesis using assms(1) by (auto simp: rounds_ok_def pointers_def)
  qed
  then have ok: "rounds_ok G iter E (x\<lparr>svc := s'\<rparr>)"
    and m: "case fo_checkpoint out of None \<Rightarrow> True | Some c \<Rightarrow> made_by G iter E (cs_pendings s' ! p) c"
    using p by (auto simp: evolves_def made_by_same split: option.splits)
  have "history_ok G iter E (cs_pendings s') ?y"
    by (rule history_ok_finish) (use ok m assms(2) in \<open>auto simp: rounds_ok_def\<close>)
  moreover have "pointers ?y \<subseteq> pointers (x\<lparr>svc := s'\<rparr>)"
    using assms(2) by (auto simp: pointers_def dest: set_remove1_subset [THEN subsetD])
  ultimately show ?thesis using ok by (auto simp: rounds_ok_def)
qed

lemma round_step_ok:
  assumes "round_step G iter E x y" and "rounds_ok G iter E x"
  shows "rounds_ok G iter E y"
  using assms(1)
proof cases
  case (r_propose now nowNano published s' out)
  obtain a b where "out = (a, b)" by fastforce
  then show ?thesis using r_propose rounds_ok_proposes [OF assms(2)] checkAndPropose_proposes by metis
next
  case (r_vote v p)
  note a = HandleVote_check_accepted [OF r_vote(2)]
  show ?thesis using r_vote(1) a assms(2) by (auto simp: rounds_ok_def pointers_def history_ok_def)
next
  case (r_append p v)
  then show ?thesis using rounds_ok_append [OF assms(2)] by simp
next
  case (r_read p)
  then show ?thesis using assms(2) by (auto simp: rounds_ok_def pointers_def history_ok_def)
next
  case (r_claim p s')
  then show ?thesis using rounds_ok_claim [OF assms(2)] by simp
next
  case (r_lost p)
  then show ?thesis using rounds_ok_drop_read [OF assms(2)] by simp
next
  case (r_finish p now nowNano published s' out)
  then show ?thesis using rounds_ok_finish [OF assms(2)] by simp
next
  case (r_ledger l)
  then show ?thesis using assms(2) by (auto simp: rounds_ok_def pointers_def history_ok_def)
qed

lemma rounds_reach_ok: "rounds_reach G iter E ledger x \<Longrightarrow> rounds_ok G iter E x"
proof (induction rule: rounds_reach.induct)
  case rounds_new
  show ?case by (simp add: rounds_ok_def rounds_start_def NewCheckpointService_def pointers_def pendings_ok_def history_ok_def)
next
  case (rounds_next x y)
  then show ?case by (blast intro: round_step_ok)
qed

section \<open>Properties\<close>

lemma claim_once: "pp_finalized (cs_pendings s ! p) \<Longrightarrow> finalize_claim p s = None"
  by (simp add: finalize_claim_def Let_def)

text \<open>
  C20: a proposal is concluded once. Under every interleaving of proposing, voting and finalizing
  goroutines (the timer's, and one for every vote from the fifth on), no proposal is finished twice
  or concluded with two checkpoints, and a proposal that a goroutine has claimed can never be
  claimed again.
\<close>

theorem rounds_conclude_once:
  assumes "rounds_reach G iter E ledger x"
  shows "distinct (claimed x @ finished x) \<and> distinct (map fst (concluded x)) \<and>
         fst ` set (concluded x) \<subseteq> set (finished x) \<and>
         (\<forall>p \<in> set (claimed x) \<union> set (finished x). finalize_claim p (svc x) = None)"
  using rounds_reach_ok [OF assms] claim_once by (auto simp: rounds_ok_def history_ok_def)

definition demo_pending :: pendingProposal where
  "demo_pending = \<lparr>pp_proposal = own_proposal demo_env (demo_svc ''b'' CHR ''B'') 99 1 None (demo_ledger 9 []), pp_votes = [],
     pp_expiresAt = 99 * 10 ^ 15 + DefaultVoteWindow, pp_round = 1, pp_finalized = False\<rparr>"

definition demo_proposing :: CheckpointService where
  "demo_proposing = (NewCheckpointService (Some (demo_ledger 9 [])))\<lparr>cs_pendings := [demo_pending], cs_myPending := Some 0\<rparr>"

lemma demo_proposes:
  "checkAndPropose demo_env (demo_svc ''b'' CHR ''B'') 99 (99 * 10 ^ 15) True (NewCheckpointService (Some (demo_ledger 9 []))) =
     (demo_proposing, Some (pp_proposal demo_pending), True)"
  by (simp add: checkAndPropose_def my_unfinalized_def NewCheckpointService_def MinVotersRequired_def demo_proposing_def
      ProposeCheckpoint_def proposeCheckpointRound_def DefaultCheckpointInterval_def DefaultVoteWindow_def demo_pending_def Let_def)

definition demo_claimed :: rounds where
  "demo_claimed = \<lparr>svc = (NewCheckpointService (Some (demo_ledger 9 [])))
       \<lparr>cs_pendings := [demo_pending\<lparr>pp_finalized := True\<rparr>], cs_myPending := Some 0\<rparr>,
     voting = [], reading = [], claimed = [0], finished = [], concluded = []\<rparr>"

lemma demo_claimed_reach:
  "rounds_reach demo_env (\<lambda>ks. ks) (demo_svc ''b'' CHR ''B'') (Some (demo_ledger 9 [])) demo_claimed"
proof -
  let ?E = "demo_svc ''b'' CHR ''B''" and ?l = "Some (demo_ledger 9 [])"
  let ?s1 = "demo_proposing"
  let ?x0 = "rounds_start (NewCheckpointService ?l)"
  have "checkAndPropose demo_env ?E 99 (99 * 10 ^ 15) True (svc ?x0) = (?s1, Some (pp_proposal demo_pending), True)"
    using demo_proposes by (simp add: rounds_start_def)
  then have "rounds_reach demo_env (\<lambda>ks. ks) ?E ?l (?x0\<lparr>svc := ?s1\<rparr>)"
    by (intro rounds_next [OF rounds_new] r_propose)
  then have "rounds_reach demo_env (\<lambda>ks. ks) ?E ?l (?x0\<lparr>svc := ?s1, reading := [0]\<rparr>)"
    by (rule rounds_next) (use r_read [of "?x0\<lparr>svc := ?s1\<rparr>" 0] in \<open>simp add: rounds_start_def demo_proposing_def\<close>)
  then show ?thesis
    by (rule rounds_next)
      (use r_claim [of 0 "?x0\<lparr>svc := ?s1, reading := [0]\<rparr>" "svc demo_claimed"] in
        \<open>simp add: rounds_start_def demo_claimed_def finalize_claim_def demo_pending_def demo_proposing_def\<close>)
qed

theorem rounds_conclude_once_witness:
  "finalize_claim 0 (svc demo_claimed) = None \<and> claimed demo_claimed = [0]"
  using rounds_conclude_once [OF demo_claimed_reach] by (simp add: demo_claimed_def)

text \<open>
  C21: no forged votes. Under every interleaving, each vote that a pending proposal holds is about
  this nara, carries a signature that verifies under the key known for the attester, and answers
  this proposal in this round; and each checkpoint that was concluded is about this nara, and has
  five to ten signers, each of them the proposer or the attester of such a vote.
\<close>

theorem rounds_votes_genuine:
  assumes "sort_algorithm (sort_perm G)" and "iterates iter" and "rounds_reach G iter E ledger x"
  shows "(\<forall>q \<in> set (cs_pendings (svc x)). \<forall>v \<in> set (pp_votes q). accepted G E q v) \<and>
         (\<forall>(p, c) \<in> set (concluded x). let q = cs_pendings (svc x) ! p in
            q \<in> set (cs_pendings (svc x)) \<and> cp_Subject c = me_Name E \<and>
            5 \<le> length (cp_VoterIDs c) \<and> length (cp_VoterIDs c) \<le> 10 \<and>
            (\<forall>(i, s) \<in> set (zip (cp_VoterIDs c) (cp_Signatures c)).
               i = at_SubjectID (pr_Attestation (pp_proposal q)) \<and> s = at_Signature (pr_Attestation (pp_proposal q)) \<or>
               (\<exists>v. accepted G E q v \<and> i = at_AttesterID (vt_Attestation v) \<and> s = at_Signature (vt_Attestation v))))"
proof -
  note ok = rounds_reach_ok [OF assms(3)]
  have pend: "\<forall>q \<in> set (cs_pendings (svc x)). at_Subject (pr_Attestation (pp_proposal q)) = me_Name E \<and>
      (\<forall>v \<in> set (pp_votes q). accepted G E q v)"
    using ok by (simp add: rounds_ok_def pendings_ok_def)
  have "let q = cs_pendings (svc x) ! p in
            q \<in> set (cs_pendings (svc x)) \<and> cp_Subject c = me_Name E \<and>
            5 \<le> length (cp_VoterIDs c) \<and> length (cp_VoterIDs c) \<le> 10 \<and>
            (\<forall>(i, s) \<in> set (zip (cp_VoterIDs c) (cp_Signatures c)).
               i = at_SubjectID (pr_Attestation (pp_proposal q)) \<and> s = at_Signature (pr_Attestation (pp_proposal q)) \<or>
               (\<exists>v. accepted G E q v \<and> i = at_AttesterID (vt_Attestation v) \<and> s = at_Signature (vt_Attestation v)))"
    if pc: "(p, c) \<in> set (concluded x)" for p c
  proof -
    let ?q = "cs_pendings (svc x) ! p"
    have h: "history_ok G iter E (cs_pendings (svc x)) x" using ok by (simp add: rounds_ok_def)
    then have m: "made_by G iter E ?q c" using pc by (auto simp: history_ok_def)
    have "fst ` set (concluded x) \<subseteq> set (finished x)" using h by (simp add: history_ok_def)
    then have f: "p \<in> set (finished x)" using imageI [OF pc, of fst] by auto
    have "p < length (cs_pendings (svc x))" using ok f by (simp add: rounds_ok_def pointers_def)
    then have q: "?q \<in> set (cs_pendings (svc x))" by simp
    obtain upty votes where t: "tryFindConsensus G iter upty (pp_proposal ?q) votes = Some c"
      and a: "\<forall>v \<in> set votes. accepted G E ?q v"
      using m by (auto simp: made_by_def)
    let ?a = "pr_Attestation (pp_proposal ?q)"
    have c: "cp_Subject c = at_Subject ?a" "5 \<le> length (cp_VoterIDs c)" "length (cp_VoterIDs c) \<le> 10"
      "set (zip (cp_VoterIDs c) (cp_Signatures c)) \<subseteq>
         insert (at_SubjectID ?a, at_Signature ?a) ((\<lambda>v. signer_pair (vt_Attestation v)) ` set votes)"
      using consensus_signers [OF assms(1,2) t] by blast+
    have "i = at_SubjectID ?a \<and> s = at_Signature ?a \<or>
        (\<exists>v. accepted G E ?q v \<and> i = at_AttesterID (vt_Attestation v) \<and> s = at_Signature (vt_Attestation v))"
      if "(i, s) \<in> set (zip (cp_VoterIDs c) (cp_Signatures c))" for i s
      using subsetD [OF c(4) that] a by (auto simp: signer_pair_def)
    moreover have "at_Subject ?a = me_Name E" using pend q by blast
    ultimately show ?thesis unfolding Let_def using c(1-3) q by auto
  qed
  then show ?thesis using pend by blast
qed

definition demo_ballot :: CheckpointVote where
  "demo_ballot = (demo_vote CHR ''v'' [])\<lparr>vt_ProposalTS := 99\<rparr>"

lemma demo_ballot_verifies: "verifyVoteSignature demo_env (demo_svc n k) demo_ballot"
  using honest_attestation_verifies [OF crypto_ok_demo valid_keypair_demo, of "demo_svc n k" "''v''" "CHR ''v''"]
  by (simp add: verifyVoteSignature_def demo_ballot_def demo_vote_def demo_attester_def)

lemma demo_ballot_checked: "HandleVote_check demo_env (demo_svc ''b'' CHR ''B'') demo_ballot demo_proposing = Some 0"
  using demo_ballot_verifies
  by (simp add: HandleVote_check_def demo_proposing_def protocol_version_def demo_pending_def own_proposal_def Let_def
      demo_ballot_def demo_vote_def)

lemma demo_voted_reach:
  "rounds_reach demo_env (\<lambda>ks. ks) (demo_svc ''b'' CHR ''B'') (Some (demo_ledger 9 []))
     (rounds_start (fst (HandleVote_append 0 demo_ballot demo_proposing)))"
proof -
  let ?E = "demo_svc ''b'' CHR ''B''" and ?l = "Some (demo_ledger 9 [])"
  let ?x = "rounds_start demo_proposing"
  have "checkAndPropose demo_env ?E 99 (99 * 10 ^ 15) True (NewCheckpointService ?l) = (demo_proposing, Some (pp_proposal demo_pending), True)"
    by (rule demo_proposes)
  then have "round_step demo_env (\<lambda>ks. ks) ?E (rounds_start (NewCheckpointService ?l)) ?x"
    using r_propose [of demo_env ?E 99 "99 * 10 ^ 15" True "rounds_start (NewCheckpointService ?l)"] by (simp add: rounds_start_def)
  then have "rounds_reach demo_env (\<lambda>ks. ks) ?E ?l ?x"
    by (rule rounds_next [OF rounds_new])
  then have "rounds_reach demo_env (\<lambda>ks. ks) ?E ?l (?x\<lparr>voting := [(0, demo_ballot)]\<rparr>)"
    by (rule rounds_next) (use r_vote [of demo_env ?E demo_ballot ?x 0] demo_ballot_checked in \<open>simp add: rounds_start_def\<close>)
  then show ?thesis
    by (rule rounds_next)
      (use r_append [of 0 demo_ballot "?x\<lparr>voting := [(0, demo_ballot)]\<rparr>"] in \<open>simp add: rounds_start_def\<close>)
qed

theorem rounds_votes_genuine_witness:
  "accepted demo_env (demo_svc ''b'' CHR ''B'') (demo_pending\<lparr>pp_votes := [demo_ballot]\<rparr>) demo_ballot"
  using rounds_votes_genuine [OF sort_algorithm_demo iterates_id demo_voted_reach]
  by (simp add: rounds_start_def HandleVote_append_def demo_proposing_def demo_pending_def)

end
