(* ===== verification/Projections.thy ===== *)
theory Projections
  imports Ledger_Properties Checkpoint_Derive
begin

text \<open>
  \<open>projections.go\<close>: read models that follow the ledger. A \<open>Projection\<close> remembers how far it has
  read and which structural version of the ledger it has seen. When the version has changed it
  clears its state and reprocesses everything, sorted by time; otherwise it processes what was
  appended. The state that the handler closes over is the field \<open>pj_state\<close>. A run reads the
  ledger once, and a second time when it resets; the ledger may change in between, so the two
  reads are two arguments.
\<close>

record 'st Projection =
  pj_state :: 'st
  pj_position :: int
  pj_lastVersion :: int

definition NewProjection :: "'st \<Rightarrow> 'st Projection" where
  "NewProjection st = \<lparr>pj_state = st, pj_position = 0, pj_lastVersion = - 1\<rparr>"

definition Projection_Reset :: "'st Projection \<Rightarrow> 'st Projection" where
  "Projection_Reset p = p\<lparr>pj_position := 0\<rparr>"

text \<open>A handler returns the new state and whether it returned an error.\<close>

type_synonym 'st event_handler = "SyncEvent \<Rightarrow> 'st \<Rightarrow> 'st \<times> bool"

fun run_events ::
  "'st event_handler \<Rightarrow> (nat \<Rightarrow> bool) \<Rightarrow> int \<Rightarrow> nat \<Rightarrow> SyncEvent list \<Rightarrow> 'st Projection \<Rightarrow> 'st Projection \<times> bool" where
  \<comment> \<open>the bool: the loop came to its end\<close>
  "run_events h cancelled start i [] p = (p, True)"
| "run_events h cancelled start i (e # es) p =
     (if cancelled i then (p, False)
      else case h e (pj_state p) of (st', err) \<Rightarrow>
        if err then (p\<lparr>pj_state := st'\<rparr>, False)
        else run_events h cancelled start (i + 1) es (p\<lparr>pj_state := st', pj_position := start + int i + 1\<rparr>))"

definition needsReset :: "SyncLedger \<Rightarrow> 'st Projection \<Rightarrow> bool" where
  "needsReset l p \<longleftrightarrow> version l \<noteq> pj_lastVersion p \<and> pj_lastVersion p \<ge> 0"

definition events_to_process ::
  "go_env \<Rightarrow> ('st \<Rightarrow> 'st) option \<Rightarrow> SyncLedger \<Rightarrow> SyncLedger \<Rightarrow> 'st Projection
   \<Rightarrow> (SyncEvent list \<times> int \<times> 'st Projection) go" where
  "events_to_process G onReset l l2 p =
     go_bind (GetEventsSince l (pj_position p)) (\<lambda>(events, total, v).
       if needsReset l p
       then let st = (case onReset of None \<Rightarrow> pj_state p | Some f \<Rightarrow> f (pj_state p))
            in go_bind (GetEventsSince l2 0) (\<lambda>(events2, total2, v2).
                 Inr (sort_slice (sort_perm G) older events2, v2, p\<lparr>pj_position := 0, pj_state := st\<rparr>))
       else Inr (events, v, p))"

text \<open>The bools: for \<open>RunToEnd\<close>, no error; for \<open>RunOnce\<close>, whether anything was processed, and no error.\<close>

definition RunToEnd ::
  "go_env \<Rightarrow> 'st event_handler \<Rightarrow> ('st \<Rightarrow> 'st) option \<Rightarrow> (nat \<Rightarrow> bool) \<Rightarrow> SyncLedger \<Rightarrow> SyncLedger
   \<Rightarrow> 'st Projection \<Rightarrow> ('st Projection \<times> bool) go" where
  "RunToEnd G h onReset cancelled l l2 p =
     go_bind (events_to_process G onReset l l2 p) (\<lambda>(events, v, p1).
       case run_events h cancelled (pj_position p1) 0 events p1 of (p2, ok) \<Rightarrow>
         Inr (if ok then p2\<lparr>pj_lastVersion := v\<rparr> else p2, ok))"

definition RunOnce ::
  "go_env \<Rightarrow> 'st event_handler \<Rightarrow> ('st \<Rightarrow> 'st) option \<Rightarrow> SyncLedger \<Rightarrow> SyncLedger
   \<Rightarrow> 'st Projection \<Rightarrow> ('st Projection \<times> bool \<times> bool) go" where
  "RunOnce G h onReset l l2 p =
     go_bind (events_to_process G onReset l l2 p) (\<lambda>(events, v, p1).
       if length events = 0 then Inr (p1\<lparr>pj_lastVersion := v\<rparr>, False, True)
       else case run_events h (\<lambda>i. False) (pj_position p1) 0 events p1 of (p2, ok) \<Rightarrow>
         Inr (if ok then p2\<lparr>pj_lastVersion := v\<rparr> else p2, True, ok))"

section \<open>How the ledger may move under a projection\<close>

text \<open>
  The contract that the version number is for: it never decreases, and while it stays, events
  are only appended.
\<close>

definition keeps_prefix :: "SyncLedger \<Rightarrow> SyncLedger \<Rightarrow> bool" where
  "keeps_prefix l l' \<longleftrightarrow> version l \<le> version l' \<and>
     (version l' = version l \<longrightarrow> (\<exists>es. Events l' = Events l @ es))"

lemma keeps_prefix_refl [simp]: "keeps_prefix l l"
  by (simp add: keeps_prefix_def)

lemma keeps_prefix_trans: "keeps_prefix l l1 \<Longrightarrow> keeps_prefix l1 l2 \<Longrightarrow> keeps_prefix l l2"
  by (auto simp: keeps_prefix_def)

lemma keeps_prefix_newer: "version l' = i64 (version l + 1) \<Longrightarrow> in_i64 (version l + 1) \<Longrightarrow> keeps_prefix l l'"
  by (simp add: keeps_prefix_def)

lemma keeps_prefix_append [simp]: "keeps_prefix l (append_event e l)"
  by (simp add: keeps_prefix_def append_event_def)

lemma keeps_prefix_compact: "in_i64 (version l + 1) \<Longrightarrow> keeps_prefix l (compact_pair p l)"
  by (cases rule: compact_pair_cases [of p l]) (simp_all add: keeps_prefix_newer)

lemma keeps_prefix_room: "make_room_for_ping e l = Some l' \<Longrightarrow> in_i64 (version l + 1) \<Longrightarrow> keeps_prefix l l'"
  using make_room_cases [of e l l'] by (auto intro: keeps_prefix_newer)

lemma keeps_prefix_remove: "RemoveEventsFor name l = (n, l') \<Longrightarrow> in_i64 (version l + 1) \<Longrightarrow> keeps_prefix l l'"
  by (auto simp: RemoveEventsFor_def Let_def intro: keeps_prefix_newer split: if_splits)

lemma keeps_prefix_validate:
  "validate_and_append G e l1 = Inr (ok, l', calls) \<Longrightarrow> keeps_prefix l l1 \<Longrightarrow> keeps_prefix l l'"
  by (erule validate_and_append_cases) (auto intro: keeps_prefix_trans)

lemma keeps_prefix_observation:
  assumes "addObservationWithCompaction G e d l = Inr (ok, l', calls)" and "in_i64 (version l + 1)"
  shows "keeps_prefix l l'"
  using assms keeps_prefix_compact [OF assms(2)]
  by (auto simp: addObservationWithCompaction_def intro: keeps_prefix_validate split: option.splits if_splits)

text \<open>
  Pruning keeps the contract when it removes something. When the events at the front of its order
  are critical it removes nothing, and leaves the events sorted under the old version.
\<close>

lemma keeps_prefix_prune:
  assumes "sort_algorithm (sort_perm G)" and "in_i64 (version l + 1)"
    and "int (length (Events l)) \<le> MaxEvents l \<or> version (pruneUnlocked G l) \<noteq> version l"
  shows "keeps_prefix l (pruneUnlocked G l)"
proof (cases rule: pruneUnlocked_cases [OF assms(1), of l])
  case 1
  then show ?thesis by simp
next
  case (2 removed kept)
  then have "version (pruneUnlocked G l) = i64 (version l + 1)" using assms(3) by (simp split: if_splits)
  then show ?thesis using assms(2) by (rule keeps_prefix_newer)
qed

lemma keeps_prefix_AddEvent:
  assumes "sort_algorithm (sort_perm G)" and "AddEvent G e l = Inr (ok, l', calls)"
    and "in_i64 (version l + 2)" and "in_i64 (version l + 1)"
    and "MaxEvents l \<le> 0 \<or> int (length (Events l)) < MaxEvents l"
  shows "keeps_prefix l l'"
  using assms(2)
proof (cases rule: AddEvent_cases)
  case observation
  then show ?thesis using assms(4) by (intro keeps_prefix_observation)
next
  case refused
  then show ?thesis by simp
next
  case (stored e1 l1)
  have k: "keeps_prefix l l1" using stored(7) assms(4) by (rule keeps_prefix_room)
  have "length (Events l1) \<le> length (Events l)" "MaxEvents l1 = MaxEvents l"
    using make_room_cases [OF stored(7)] by auto
  then have "prune_if_over G (append_event e1 l1) = append_event e1 l1"
    using assms(5) by (auto simp: prune_if_over_def append_event_def)
  then show ?thesis using stored(8) k by (auto intro: keeps_prefix_trans)
qed

section \<open>Read models\<close>

text \<open>
  What a handler promises: \<open>explains es st\<close> says that the state is what the events \<open>es\<close> amount to,
  whatever order they came in.
\<close>

locale read_model =
  fixes handle :: "SyncEvent \<Rightarrow> 'st \<Rightarrow> 'st" and start :: 'st
    and explains :: "SyncEvent multiset \<Rightarrow> 'st \<Rightarrow> bool"
  assumes explains_start: "explains {#} start"
    and explains_step: "explains es st \<Longrightarrow> explains (add_mset e es) (handle e st)"

text \<open>The state of a projection whose ledger is now \<open>l\<close>.\<close>

definition tracks ::
  "(SyncEvent multiset \<Rightarrow> 'st \<Rightarrow> bool) \<Rightarrow> 'st \<Rightarrow> SyncLedger \<Rightarrow> 'st Projection \<Rightarrow> bool" where
  "tracks explains start l p \<longleftrightarrow>
     0 \<le> version l \<and> 0 \<le> pj_position p \<and> pj_lastVersion p \<le> version l \<and>
     (pj_lastVersion p < 0 \<longrightarrow> pj_position p = 0 \<and> pj_state p = start) \<and>
     (pj_lastVersion p = version l \<longrightarrow>
        pj_position p \<le> int (length (Events l)) \<and>
        explains (mset (take (nat (pj_position p)) (Events l))) (pj_state p))"

definition up_to_date ::
  "(SyncEvent multiset \<Rightarrow> 'st \<Rightarrow> bool) \<Rightarrow> SyncLedger \<Rightarrow> 'st Projection \<Rightarrow> bool" where
  "up_to_date explains l p \<longleftrightarrow> pj_lastVersion p = version l \<and> pj_position p = int (length (Events l)) \<and>
     explains (mset (Events l)) (pj_state p)"

lemma tracks_new: "0 \<le> version l \<Longrightarrow> tracks explains start l (NewProjection start)"
  by (simp add: tracks_def NewProjection_def)

lemma tracks_keeps:
  assumes "tracks explains start l p" and "keeps_prefix l l'"
  shows "tracks explains start l' p"
proof -
  have "pj_position p \<le> int (length (Events l')) \<and>
        explains (mset (take (nat (pj_position p)) (Events l'))) (pj_state p)"
    if h: "pj_lastVersion p = version l'"
  proof -
    have v: "version l' = version l" "pj_lastVersion p = version l"
      using assms h by (simp_all add: tracks_def keeps_prefix_def)
    then obtain es where "Events l' = Events l @ es" using assms(2) by (auto simp: keeps_prefix_def)
    then show ?thesis using assms(1) v(2) by (auto simp: tracks_def)
  qed
  then show ?thesis using assms by (auto simp: tracks_def keeps_prefix_def)
qed

lemma up_to_date_tracks: "up_to_date explains l p \<Longrightarrow> 0 \<le> version l \<Longrightarrow> tracks explains start l p"
  by (simp add: up_to_date_def tracks_def)

lemma go_filter_GetEventsSince:
  "0 \<le> pos \<Longrightarrow> GetEventsSince l pos = Inr (drop (nat pos) (Events l), int (length (Events l)), version l)"
  by (simp add: GetEventsSince_def Let_def)

definition quiet :: "(SyncEvent \<Rightarrow> 'st \<Rightarrow> 'st) \<Rightarrow> 'st event_handler" where
  "quiet handle = (\<lambda>e st. (handle e st, False))"

lemma run_events_quiet:
  "run_events (quiet h) (\<lambda>i. False) s i es p =
     (p\<lparr>pj_state := foldl (\<lambda>st e. h e st) (pj_state p) es,
        pj_position := (if es = [] then pj_position p else s + int i + int (length es))\<rparr>, True)"
  by (induction es arbitrary: i p) (auto simp: quiet_def)

context read_model
begin

lemma explains_fold:
  "explains M st \<Longrightarrow> explains (mset es + M) (foldl (\<lambda>st e. handle e st) st es)"
proof (induction es arbitrary: M st)
  case (Cons a es)
  from Cons.IH [OF explains_step [OF Cons.prems, of a]] show ?case by simp
qed simp

text \<open>The run on what the ledger held when it was last read.\<close>

lemma events_to_process_ok:
  assumes "sort_algorithm (sort_perm G)" and "tracks explains start l p" and "keeps_prefix l l2"
  shows "\<exists>events p1. events_to_process G (Some (\<lambda>st. start)) l l2 p =
           Inr (events, version (if needsReset l p then l2 else l), p1) \<and>
           pj_lastVersion p1 = pj_lastVersion p \<and>
           pj_position p1 + int (length events) = int (length (Events (if needsReset l p then l2 else l))) \<and>
           explains (mset (Events (if needsReset l p then l2 else l)))
             (foldl (\<lambda>st e. handle e st) (pj_state p1) events)"
proof (cases "needsReset l p")
  case True
  let ?es = "sort_slice (sort_perm G) older (Events l2)"
  have "mset ?es = mset (Events l2)" by (rule sort_algorithm.mset_sort_slice [OF assms(1)])
  moreover have "length ?es = length (Events l2)" by (rule sort_algorithm.length_sort_slice [OF assms(1)])
  moreover have "explains (mset ?es + {#}) (foldl (\<lambda>st e. handle e st) start ?es)"
    using explains_start by (rule explains_fold)
  ultimately show ?thesis
    using True assms(2) by (simp add: events_to_process_def go_filter_GetEventsSince tracks_def)
next
  case False
  let ?n = "nat (pj_position p)"
  have pos: "0 \<le> pj_position p" "pj_position p \<le> int (length (Events l))"
    "explains (mset (take ?n (Events l))) (pj_state p)"
    using assms(2) False explains_start by (auto simp: tracks_def needsReset_def)
  have "explains (mset (drop ?n (Events l)) + mset (take ?n (Events l)))
          (foldl (\<lambda>st e. handle e st) (pj_state p) (drop ?n (Events l)))"
    using pos(3) by (rule explains_fold)
  moreover have "mset (drop ?n (Events l)) + mset (take ?n (Events l)) = mset (Events l)"
    by (metis append_take_drop_id mset_append union_commute)
  ultimately show ?thesis
    using False pos by (simp add: events_to_process_def go_filter_GetEventsSince)
qed

lemma RunOnce_up_to_date:
  assumes "sort_algorithm (sort_perm G)" and "tracks explains start l p" and "keeps_prefix l l2"
  shows "\<exists>p' b. RunOnce G (quiet handle) (Some (\<lambda>st. start)) l l2 p = Inr (p', b, True) \<and>
           up_to_date explains (if needsReset l p then l2 else l) p'"
proof -
  obtain events p1 where e: "events_to_process G (Some (\<lambda>st. start)) l l2 p =
      Inr (events, version (if needsReset l p then l2 else l), p1)"
    "pj_position p1 + int (length events) = int (length (Events (if needsReset l p then l2 else l)))"
    "explains (mset (Events (if needsReset l p then l2 else l))) (foldl (\<lambda>st e. handle e st) (pj_state p1) events)"
    using events_to_process_ok [OF assms] by blast
  have "RunOnce G (quiet handle) (Some (\<lambda>st. start)) l l2 p = Inr
      (p1\<lparr>pj_state := foldl (\<lambda>st e. handle e st) (pj_state p1) events,
         pj_position := int (length (Events (if needsReset l p then l2 else l))),
         pj_lastVersion := version (if needsReset l p then l2 else l)\<rparr>, events \<noteq> [], True)"
    using e by (cases "events = []") (simp_all add: RunOnce_def run_events_quiet)
  then show ?thesis using e(3) by (simp add: up_to_date_def)
qed

lemma RunToEnd_up_to_date:
  assumes "sort_algorithm (sort_perm G)" and "tracks explains start l p" and "keeps_prefix l l2"
  shows "\<exists>p'. RunToEnd G (quiet handle) (Some (\<lambda>st. start)) (\<lambda>i. False) l l2 p = Inr (p', True) \<and>
           up_to_date explains (if needsReset l p then l2 else l) p'"
proof -
  obtain events p1 where e: "events_to_process G (Some (\<lambda>st. start)) l l2 p =
      Inr (events, version (if needsReset l p then l2 else l), p1)"
    "pj_position p1 + int (length events) = int (length (Events (if needsReset l p then l2 else l)))"
    "explains (mset (Events (if needsReset l p then l2 else l))) (foldl (\<lambda>st e. handle e st) (pj_state p1) events)"
    using events_to_process_ok [OF assms] by blast
  then show ?thesis by (cases "events = []") (simp_all add: RunToEnd_def run_events_quiet up_to_date_def)
qed

end

end
