(* ===== verification/Read_Models.thy ===== *)
theory Read_Models
  imports Projections Consensus_Math
begin

text \<open>
  The three read models: who is online (\<open>presence_projection.go\<close>), the social events that clout
  is computed from (\<open>projection_clout.go\<close>), and the observations that opinions are formed from
  (\<open>neighbourhood_opinion.go\<close>). For each one, its handler, the queries on it, and the relation to
  the events it has seen, which makes it an instance of \<open>read_model\<close>.
\<close>

section \<open>Online status\<close>

definition DefaultMissingThresholdNano :: int where "DefaultMissingThresholdNano = 300 * 1000000000"
definition DefaultMissingThresholdGossipNano :: int where "DefaultMissingThresholdGossipNano = 3600 * 1000000000"

record OnlineState =
  os_Status :: string
  os_LastEventTime :: int
  os_LastEventType :: string
  os_Observer :: string

type_synonym online_states = "NaraName \<rightharpoonup> OnlineState"

definition updateState ::
  "NaraName \<Rightarrow> string \<Rightarrow> int \<Rightarrow> string \<Rightarrow> NaraName \<Rightarrow> online_states \<Rightarrow> online_states" where
  "updateState name status timestamp service observer states =
     (if name = [] then states
      else if states name = None \<or> timestamp > os_LastEventTime (the (states name))
           then states(name \<mapsto> \<lparr>os_Status = status, os_LastEventTime = timestamp,
                              os_LastEventType = service, os_Observer = observer\<rparr>)
      else states)"

text \<open>Target, implied status and observer of an event, the zero strings when it implies nothing.\<close>

definition implied_status :: "SyncEvent \<Rightarrow> NaraName \<times> string \<times> NaraName" where
  "implied_status e =
     (if Service e = ServiceHeyThere
      then (case HeyThere e of None \<Rightarrow> ([], [], []) | Some h \<Rightarrow> (ht_From h, ''ONLINE'', ht_From h))
      else if Service e = ServiceChau
      then (case Chau e of None \<Rightarrow> ([], [], []) | Some c \<Rightarrow> (ch_From c, ''OFFLINE'', ch_From c))
      else if Service e = ServiceSeen
      then (case Seen e of None \<Rightarrow> ([], [], []) | Some s \<Rightarrow> (se_Subject s, ''ONLINE'', se_Observer s))
      else if Service e = ServiceObservation
      then (case Observation e of None \<Rightarrow> ([], [], [])
            | Some q \<Rightarrow> (ob_Subject q,
                (if ob_Type q = ''status-change'' then ob_OnlineState q
                 else if ob_Type q = ''restart'' \<or> ob_Type q = ''first-seen'' then ''ONLINE'' else []),
                ob_Observer q))
      else if Service e = ServiceSocial
      then (case Social e of None \<Rightarrow> ([], [], []) | Some s \<Rightarrow> (sp_Actor s, ''ONLINE'', sp_Actor s))
      else if Service e = ServicePing
      then (case Ping e of None \<Rightarrow> ([], [], []) | Some p \<Rightarrow> (pi_Target p, ''ONLINE'', pi_Observer p))
      else ([], [], []))"

definition online_handleEvent :: "SyncEvent \<Rightarrow> online_states \<Rightarrow> online_states" where
  "online_handleEvent e states =
     (let states' = (case (if Service e = ServicePing then Ping e else None) of
                       None \<Rightarrow> states
                     | Some p \<Rightarrow> updateState (pi_Observer p) ''ONLINE'' (Timestamp e) (Service e) (pi_Observer p) states)
      in case implied_status e of (targetName, newStatus, observer) \<Rightarrow>
           if targetName = [] \<or> newStatus = [] then states'
           else updateState targetName newStatus (Timestamp e) (Service e) observer states')"

definition aged_status :: "(NaraName \<Rightarrow> int) \<Rightarrow> int \<Rightarrow> NaraName \<Rightarrow> OnlineState \<Rightarrow> string" where
  "aged_status thresholdFunc now name s =
     (if os_Status s = ''ONLINE'' \<and> i64 (now - os_LastEventTime s) > thresholdFunc name
      then ''MISSING'' else os_Status s)"

definition GetStatus :: "(NaraName \<Rightarrow> int) \<Rightarrow> int \<Rightarrow> online_states \<Rightarrow> NaraName \<Rightarrow> string" where
  "GetStatus thresholdFunc now states name =
     (case states name of None \<Rightarrow> [] | Some s \<Rightarrow> aged_status thresholdFunc now name s)"

definition GetAllStatuses :: "(NaraName \<Rightarrow> int) \<Rightarrow> int \<Rightarrow> online_states \<Rightarrow> (NaraName \<rightharpoonup> string)" where
  "GetAllStatuses thresholdFunc now states =
     (\<lambda>name. map_option (aged_status thresholdFunc now name) (states name))"

text \<open>What an event says about a nara: the statuses it sets, with the observer.\<close>

definition mentions :: "SyncEvent \<Rightarrow> NaraName \<Rightarrow> (string \<times> NaraName) list" where
  "mentions e name =
     (if name = [] then []
      else (case (if Service e = ServicePing then Ping e else None) of
              None \<Rightarrow> [] | Some p \<Rightarrow> if pi_Observer p = name then [(''ONLINE'', pi_Observer p)] else []) @
           (case implied_status e of (targetName, newStatus, observer) \<Rightarrow>
              if targetName = name \<and> newStatus \<noteq> [] then [(newStatus, observer)] else []))"

definition online_explains :: "SyncEvent multiset \<Rightarrow> online_states \<Rightarrow> bool" where
  "online_explains es states \<longleftrightarrow> (\<forall>name. case states name of
       None \<Rightarrow> (\<forall>e \<in># es. mentions e name = [])
     | Some s \<Rightarrow> (\<exists>e \<in># es. (os_Status s, os_Observer s) \<in> set (mentions e name) \<and>
                    os_LastEventTime s = Timestamp e \<and> os_LastEventType s = Service e) \<and>
                 (\<forall>e \<in># es. mentions e name \<noteq> [] \<longrightarrow> Timestamp e \<le> os_LastEventTime s))"

lemma updateState_apply:
  "updateState n st t srv ob states name =
     (if name = n \<and> n \<noteq> [] \<and> (states n = None \<or> t > os_LastEventTime (the (states n)))
      then Some \<lparr>os_Status = st, os_LastEventTime = t, os_LastEventType = srv, os_Observer = ob\<rparr>
      else states name)"
  by (simp add: updateState_def)

text \<open>What one event does to one nara: nothing, or the most recent mention wins.\<close>

lemma online_handleEvent_apply:
  "online_handleEvent e states name =
     (case mentions e name of
        [] \<Rightarrow> states name
      | (st, ob) # ms \<Rightarrow>
          (if states name = None \<or> Timestamp e > os_LastEventTime (the (states name))
           then Some \<lparr>os_Status = st, os_LastEventTime = Timestamp e, os_LastEventType = Service e, os_Observer = ob\<rparr>
           else states name))"
proof (cases "if Service e = ServicePing then Ping e else None")
  case None
  obtain t n ob where i: "implied_status e = (t, n, ob)" by (metis surj_pair)
  show ?thesis using None by (auto simp: online_handleEvent_def mentions_def i updateState_apply Let_def)
next
  case (Some p)
  then have i: "implied_status e = (pi_Target p, ''ONLINE'', pi_Observer p)"
    by (simp add: implied_status_def split: if_splits)
  show ?thesis using Some by (auto simp: online_handleEvent_def mentions_def i updateState_apply Let_def)
qed

interpretation online: read_model online_handleEvent "\<lambda>name. None" online_explains
proof unfold_locales
  show "online_explains {#} (\<lambda>name. None)" by (simp add: online_explains_def)
next
  fix es states e
  assume ex: "online_explains es states"
  have "case online_handleEvent e states name of
       None \<Rightarrow> (\<forall>x \<in># add_mset e es. mentions x name = [])
     | Some s \<Rightarrow> (\<exists>x \<in># add_mset e es. (os_Status s, os_Observer s) \<in> set (mentions x name) \<and>
                    os_LastEventTime s = Timestamp x \<and> os_LastEventType s = Service x) \<and>
                 (\<forall>x \<in># add_mset e es. mentions x name \<noteq> [] \<longrightarrow> Timestamp x \<le> os_LastEventTime s)" for name
  proof (cases "mentions e name")
    case Nil
    then show ?thesis
      using ex [unfolded online_explains_def, rule_format, of name]
      by (auto simp: online_handleEvent_apply split: option.splits)
  next
    case (Cons m ms)
    obtain st ob where m: "m = (st, ob)" by fastforce
    show ?thesis
      using ex [unfolded online_explains_def, rule_format, of name] Cons
      by (fastforce simp: online_handleEvent_apply m split: option.splits)
  qed
  then show "online_explains (add_mset e es) (online_handleEvent e states)"
    unfolding online_explains_def by blast
qed

section \<open>Social events for clout\<close>

record SocialEventRecord =
  sr_ID :: string
  sr_Timestamp :: int
  sr_Type :: string
  sr_Actor :: NaraName
  sr_Target :: NaraName
  sr_Reason :: string
  sr_Witness :: NaraName

definition clout_record :: "SyncEvent \<Rightarrow> SocialEventRecord option" where
  "clout_record e =
     (case (if Service e \<noteq> ServiceSocial then None else Social e) of
        None \<Rightarrow> None
      | Some p \<Rightarrow> Some \<lparr>sr_ID = ID e, sr_Timestamp = Timestamp e, sr_Type = sp_Type p, sr_Actor = sp_Actor p,
                        sr_Target = sp_Target p, sr_Reason = sp_Reason p, sr_Witness = sp_Witness p\<rparr>)"

definition clout_handleEvent :: "SyncEvent \<Rightarrow> SocialEventRecord list \<Rightarrow> SocialEventRecord list" where
  "clout_handleEvent e events = (case clout_record e of None \<Rightarrow> events | Some r \<Rightarrow> events @ [r])"

definition clout_EventCount :: "SocialEventRecord list \<Rightarrow> int" where
  "clout_EventCount events = int (length events)"

text \<open>The records that a multiset of events gives rise to.\<close>

definition records_of :: "('e \<Rightarrow> 'r option) \<Rightarrow> 'e multiset \<Rightarrow> 'r multiset" where
  "records_of f es = image_mset (the \<circ> f) (filter_mset (\<lambda>e. f e \<noteq> None) es)"

lemma records_of_simps [simp]:
  "records_of f {#} = {#}"
  "f e = None \<Longrightarrow> records_of f (add_mset e es) = records_of f es"
  "f e = Some r \<Longrightarrow> records_of f (add_mset e es) = add_mset r (records_of f es)"
  by (simp_all add: records_of_def)

lemma records_of_mset: "records_of f (mset xs) = mset (List.map_filter f xs)"
  by (induction xs) (auto simp: List.map_filter_def records_of_def)

definition clout_explains :: "SyncEvent multiset \<Rightarrow> SocialEventRecord list \<Rightarrow> bool" where
  "clout_explains es events \<longleftrightarrow> mset events = records_of clout_record es"

interpretation clout: read_model clout_handleEvent "[]" clout_explains
proof unfold_locales
  show "clout_explains {#} []" by (simp add: clout_explains_def)
  show "clout_explains (add_mset e es) (clout_handleEvent e st)" if "clout_explains es st" for es st e
    using that by (cases "clout_record e") (simp_all add: clout_explains_def clout_handleEvent_def)
qed

end
