(* ===== verification/Opinions.thy ===== *)
theory Opinions
  imports Read_Models
begin

text \<open>
  \<open>neighbourhood_opinion.go\<close>: the restart and first-seen observations per subject, and the opinion
  derived from them: start time and restart count by trimmed mean, last restart as the maximum,
  uptime from the ledger; alternatively from the latest checkpoint and what came after it.
\<close>

record ObservationRecord =
  or_Observer :: NaraName
  or_Subject :: NaraName
  or_Type :: string
  or_StartTime :: int
  or_RestartNum :: int
  or_LastRestart :: int
  or_ObserverUptime :: nat

definition opinion_record :: "SyncEvent \<Rightarrow> ObservationRecord option" where
  "opinion_record e =
     (case (if Service e \<noteq> ServiceObservation then None else Observation e) of
        None \<Rightarrow> None
      | Some q \<Rightarrow>
          if ob_Type q \<noteq> ''restart'' \<and> ob_Type q \<noteq> ''first-seen'' then None
          else Some \<lparr>or_Observer = ob_Observer q, or_Subject = ob_Subject q, or_Type = ob_Type q,
                     or_StartTime = ob_StartTime q, or_RestartNum = ob_RestartNum q,
                     or_LastRestart = ob_LastRestart q,
                     or_ObserverUptime = (if ob_ObserverUptime q = 0 then 1 else ob_ObserverUptime q)\<rparr>)"

type_synonym opinion_state = "NaraName \<rightharpoonup> ObservationRecord list"

definition GetObservationsFor :: "opinion_state \<Rightarrow> NaraName \<Rightarrow> ObservationRecord list" where
  "GetObservationsFor st subject = (case st subject of None \<Rightarrow> [] | Some rs \<Rightarrow> rs)"

definition opinion_handleEvent :: "SyncEvent \<Rightarrow> opinion_state \<Rightarrow> opinion_state" where
  "opinion_handleEvent e st =
     (case opinion_record e of
        None \<Rightarrow> st
      | Some r \<Rightarrow> st(or_Subject r \<mapsto> GetObservationsFor st (or_Subject r) @ [r]))"

section \<open>Deriving an opinion\<close>

record OpinionData =
  od_StartTime :: int
  od_Restarts :: int
  od_LastRestart :: int
  od_TotalUptime :: int

definition deriveProjectionStartTimeConsensus :: "sorter \<Rightarrow> ObservationRecord list \<Rightarrow> int" where
  "deriveProjectionStartTimeConsensus srt obs =
     (if length obs = 0 then 0
      else let vals = filter (\<lambda>t. t > 0) (map or_StartTime obs)
           in if length vals = 0 then 0 else TrimmedMeanPositive srt vals)"

definition largest :: "int list \<Rightarrow> int" where
  \<comment> \<open>the maximum loops: start at 0, keep what is greater\<close>
  "largest vals = foldl (\<lambda>m v. if v > m then v else m) 0 vals"

definition deriveProjectionRestartsConsensus :: "sorter \<Rightarrow> ObservationRecord list \<Rightarrow> int" where
  "deriveProjectionRestartsConsensus srt obs =
     (let maxRestarts = largest (map or_RestartNum obs);
          reports = filter (\<lambda>r. or_RestartNum r > 0 \<and> or_Type r = ''restart'') obs;
          uniqueObservers = set (map or_Observer reports)
      in if card uniqueObservers \<le> 1 then maxRestarts
         else let trimmedRestarts = TrimmedMeanPositive srt (map or_RestartNum reports)
              in if trimmedRestarts = 0 then maxRestarts else trimmedRestarts)"

definition deriveProjectionLastRestartConsensus :: "ObservationRecord list \<Rightarrow> int" where
  "deriveProjectionLastRestartConsensus obs = largest (map or_LastRestart obs)"

definition opinion_from :: "go_env \<Rightarrow> int \<Rightarrow> SyncLedger \<Rightarrow> ObservationRecord list \<Rightarrow> NaraName \<Rightarrow> OpinionData" where
  "opinion_from G now l obs subject =
     (if length obs = 0
      then \<lparr>od_StartTime = 0, od_Restarts = 0, od_LastRestart = 0, od_TotalUptime = 0\<rparr>
      else \<lparr>od_StartTime = deriveProjectionStartTimeConsensus (sort_perm G) obs,
            od_Restarts = deriveProjectionRestartsConsensus (sort_perm G) obs,
            od_LastRestart = deriveProjectionLastRestartConsensus obs,
            od_TotalUptime = DeriveTotalUptime G now l subject\<rparr>)"

definition DeriveOpinion :: "go_env \<Rightarrow> int \<Rightarrow> SyncLedger \<Rightarrow> opinion_state \<Rightarrow> NaraName \<Rightarrow> OpinionData" where
  "DeriveOpinion G now l st subject = opinion_from G now l (GetObservationsFor st subject) subject"

text \<open>The result, and whether a checkpoint was used.\<close>

definition checkpoint_opinion ::
  "go_env \<Rightarrow> int \<Rightarrow> SyncLedger \<Rightarrow> ObservationRecord list \<Rightarrow> NaraName \<Rightarrow> CheckpointEventPayload \<Rightarrow> OpinionData" where
  "checkpoint_opinion G now l obs subject checkpoint =
     (let post = filter (\<lambda>r. or_Type r = ''restart'' \<and> or_StartTime r > cp_AsOfTime checkpoint) obs;
          newRestarts = int (card (set (filter (\<lambda>t. t > 0) (map or_StartTime post))));
          lastRestart = largest (map or_LastRestart post);
          lastRestart' = (if lastRestart = 0 \<and> length post > 0 then largest (map or_StartTime post) else lastRestart)
      in \<lparr>od_StartTime = no_StartTime (cp_Observation checkpoint),
          od_Restarts = i64 (no_Restarts (cp_Observation checkpoint) + (if length post > 0 then newRestarts else 0)),
          od_LastRestart = lastRestart',
          od_TotalUptime = i64 (no_TotalUptime (cp_Observation checkpoint) +
                                DeriveUptimeAfter G now l subject (cp_AsOfTime checkpoint))\<rparr>)"

definition DeriveOpinionFromCheckpoint ::
  "go_env \<Rightarrow> int \<Rightarrow> SyncLedger \<Rightarrow> opinion_state \<Rightarrow> NaraName \<Rightarrow> OpinionData \<times> bool" where
  "DeriveOpinionFromCheckpoint G now l st subject =
     (case GetCheckpoint l subject of
        None \<Rightarrow> (DeriveOpinion G now l st subject, False)
      | Some checkpoint \<Rightarrow> (checkpoint_opinion G now l (GetObservationsFor st subject) subject checkpoint, True))"

definition diverges :: "int \<Rightarrow> int \<Rightarrow> int \<Rightarrow> bool" where
  "diverges a b tolerance =
     (let diff = i64 (a - b); diff' = (if diff < 0 then i64 (- diff) else diff) in diff' > tolerance)"

text \<open>The opinion, and whether the divergence warning is logged.\<close>

definition DeriveOpinionWithValidation ::
  "go_env \<Rightarrow> int \<Rightarrow> SyncLedger \<Rightarrow> opinion_state \<Rightarrow> NaraName \<Rightarrow> OpinionData \<times> bool" where
  "DeriveOpinionWithValidation G now l st subject =
     (let obs = DeriveOpinion G now l st subject;
          (chk, usedCheckpoint) = DeriveOpinionFromCheckpoint G now l st subject
      in if \<not> usedCheckpoint then (obs, False)
         else (obs, diverges (od_Restarts obs) (od_Restarts chk) 5 \<or>
                    diverges (od_StartTime obs) (od_StartTime chk) 3600 \<or>
                    diverges (od_TotalUptime obs) (od_TotalUptime chk) 300))"

section \<open>The order of the records does not matter\<close>

lemma largest_eq: "largest vals = Max (insert 0 (set vals))"
proof -
  have "foldl (\<lambda>m v. if v > m then v else m) m vals = Max (insert m (set vals))" for m :: int
  proof (induction vals arbitrary: m)
    case (Cons v vs)
    have "Max (insert m (insert v (set vs))) = Max (insert (max m v) (set vs))"
      by (metis List.finite_set Max.insert Max_insert finite_insert insert_not_empty max.assoc set_empty Max_singleton)
    moreover have "(if v > m then v else m) = max m v" by simp
    ultimately show ?case using Cons.IH [of "max m v"] by simp
  qed simp
  then show ?thesis by (simp add: largest_def)
qed

lemma largest_mset: "mset xs = mset ys \<Longrightarrow> largest xs = largest ys"
  unfolding largest_eq by (metis mset_eq_setD)

lemma filter_map_mset:
  "mset xs = mset ys \<Longrightarrow> mset (filter P (map f xs)) = mset (filter P (map f ys))"
  by (simp add: mset_filter)

lemma TrimmedMeanPositive_mset:
  "sort_algorithm srt \<Longrightarrow> mset xs = mset ys \<Longrightarrow> TrimmedMeanPositive srt xs = TrimmedMeanPositive srt ys"
  unfolding TrimmedMeanPositive_def by (rule TrimmedMeanInt64_mset) (simp_all add: mset_filter)

lemma startTime_mset:
  assumes "sort_algorithm srt" and "mset obs = mset obs'"
  shows "deriveProjectionStartTimeConsensus srt obs = deriveProjectionStartTimeConsensus srt obs'"
proof -
  have m: "mset (filter (\<lambda>t. t > 0) (map or_StartTime obs)) = mset (filter (\<lambda>t. t > 0) (map or_StartTime obs'))"
    using assms(2) by (rule filter_map_mset)
  show ?thesis
    using mset_eq_length [OF assms(2)] mset_eq_length [OF m] TrimmedMeanPositive_mset [OF assms(1) m]
    unfolding deriveProjectionStartTimeConsensus_def by (simp only: Let_def)
qed

lemma restarts_mset:
  assumes "sort_algorithm srt" and "mset obs = mset obs'"
  shows "deriveProjectionRestartsConsensus srt obs = deriveProjectionRestartsConsensus srt obs'"
proof -
  let ?f = "filter (\<lambda>r. or_RestartNum r > 0 \<and> or_Type r = ''restart'')"
  have r: "mset (?f obs) = mset (?f obs')" using assms(2) by (simp add: mset_filter)
  have "largest (map or_RestartNum obs) = largest (map or_RestartNum obs')"
    using assms(2) by (intro largest_mset) simp
  moreover have "set (map or_Observer (?f obs)) = set (map or_Observer (?f obs'))"
    using mset_eq_setD [OF r] by simp
  moreover have "TrimmedMeanPositive srt (map or_RestartNum (?f obs)) = TrimmedMeanPositive srt (map or_RestartNum (?f obs'))"
    using r by (intro TrimmedMeanPositive_mset [OF assms(1)]) simp
  ultimately show ?thesis unfolding deriveProjectionRestartsConsensus_def by (simp only: Let_def)
qed

lemma opinion_from_mset:
  assumes "sort_algorithm (sort_perm G)" and "mset obs = mset obs'"
  shows "opinion_from G now l obs subject = opinion_from G now l obs' subject"
proof -
  have "largest (map or_LastRestart obs) = largest (map or_LastRestart obs')"
    using assms(2) by (intro largest_mset) simp
  then show ?thesis
    using mset_eq_length [OF assms(2)] startTime_mset [OF assms] restarts_mset [OF assms]
    by (simp add: opinion_from_def deriveProjectionLastRestartConsensus_def)
qed

lemma checkpoint_opinion_mset:
  assumes "mset obs = mset obs'"
  shows "checkpoint_opinion G now l obs subject c = checkpoint_opinion G now l obs' subject c"
proof -
  let ?f = "filter (\<lambda>r. or_Type r = ''restart'' \<and> or_StartTime r > cp_AsOfTime c)"
  have r: "mset (?f obs) = mset (?f obs')" using assms by (simp add: mset_filter)
  have "largest (map or_LastRestart (?f obs)) = largest (map or_LastRestart (?f obs'))"
    "largest (map or_StartTime (?f obs)) = largest (map or_StartTime (?f obs'))"
    using r by (auto intro!: largest_mset)
  moreover have "set (filter (\<lambda>t. t > 0) (map or_StartTime (?f obs))) = set (filter (\<lambda>t. t > 0) (map or_StartTime (?f obs')))"
    using mset_eq_setD [OF r] by simp
  ultimately show ?thesis
    unfolding checkpoint_opinion_def using mset_eq_length [OF r] by (simp only: Let_def)
qed

section \<open>The read model\<close>

definition about :: "NaraName \<Rightarrow> SyncEvent \<Rightarrow> ObservationRecord option" where
  "about subject e =
     (case opinion_record e of None \<Rightarrow> None | Some r \<Rightarrow> if or_Subject r = subject then Some r else None)"

definition opinion_explains :: "SyncEvent multiset \<Rightarrow> opinion_state \<Rightarrow> bool" where
  "opinion_explains es st \<longleftrightarrow> (\<forall>subject. mset (GetObservationsFor st subject) = records_of (about subject) es)"

lemma GetObservationsFor_handle:
  "GetObservationsFor (opinion_handleEvent e st) subject =
     GetObservationsFor st subject @ (case about subject e of None \<Rightarrow> [] | Some r \<Rightarrow> [r])"
  by (auto simp: GetObservationsFor_def opinion_handleEvent_def about_def split: option.splits)

interpretation opinion: read_model opinion_handleEvent "\<lambda>subject. None" opinion_explains
proof unfold_locales
  show "opinion_explains {#} (\<lambda>subject. None)" by (simp add: opinion_explains_def GetObservationsFor_def)
  show "opinion_explains (add_mset e es) (opinion_handleEvent e st)" if ex: "opinion_explains es st" for es st e
    unfolding opinion_explains_def
  proof
    fix subject
    show "mset (GetObservationsFor (opinion_handleEvent e st) subject) = records_of (about subject) (add_mset e es)"
      using ex [unfolded opinion_explains_def, rule_format, of subject]
      by (cases "about subject e") (simp_all add: GetObservationsFor_handle)
  qed
qed

end
