(* ===== verification/Projection_Properties.thy ===== *)
theory Projection_Properties
  imports Opinions Checkpoint_Properties
begin

text \<open>
  The projections against their specification: whatever is added to the ledger and removed from it between two runs and during one,
  after a run the read model is the one computed from the ledger's events in one go; unless pruning finds nothing to remove.
\<close>

section \<open>A projection and its ledger\<close>

text \<open>
  Pruning removes something when the ledger is over its limit and the first event of the pruning order is not critical. When it is
  critical, nothing goes, but the events have been sorted, and the version stays (\<open>prune_reorder_replays\<close>).
\<close>

definition prunes_some :: "go_env \<Rightarrow> SyncLedger \<Rightarrow> bool" where
  "prunes_some G l \<longleftrightarrow>
     int (length (Events l)) \<le> MaxEvents l \<or>
     (case sort_slice (sort_perm G) (prune_less l) (Events l) of [] \<Rightarrow> False | e # es \<Rightarrow> \<not> critical e)"

definition adds_cleanly :: "go_env \<Rightarrow> SyncEvent \<Rightarrow> SyncLedger \<Rightarrow> bool" where
  \<comment> \<open>if \<open>AddEvent\<close> prunes, it prunes some\<close>
  "adds_cleanly G e0 l \<longleftrightarrow>
     (MaxEvents l > 0 \<longrightarrow> (\<forall>e l1. with_id G e0 = Inr e \<longrightarrow> make_room_for_ping e l = Some l1 \<longrightarrow> prunes_some G (append_event e l1)))"

text \<open>
  The ledger changes by one event at a time, also in a batch: an addition by \<open>AddEvent\<close>, which the filtered additions end in, or
  with deduplication, pruning, a removal, or a change of what is beside the events. There are fewer than \<open>2^63\<close> versions.
\<close>

inductive ledger_move :: "go_env \<Rightarrow> SyncLedger \<Rightarrow> SyncLedger \<Rightarrow> bool" for G :: go_env where
  moved_add: "AddEvent G e l = Inr (ok, l', calls) \<Longrightarrow> adds_cleanly G e l \<Longrightarrow> 0 \<le> version l \<Longrightarrow> version l + 2 < 2 ^ 63 \<Longrightarrow> ledger_move G l l'"
| moved_dedup: "AddEventWithDedup G e l = Inr (ok, l', calls) \<Longrightarrow> 0 \<le> version l \<Longrightarrow> version l + 2 < 2 ^ 63 \<Longrightarrow> ledger_move G l l'"
| moved_prune: "prunes_some G l \<Longrightarrow> 0 \<le> version l \<Longrightarrow> version l + 2 < 2 ^ 63 \<Longrightarrow> ledger_move G l (Prune G l)"
| moved_remove: "RemoveEventsFor name l = (n, l') \<Longrightarrow> 0 \<le> version l \<Longrightarrow> version l + 2 < 2 ^ 63 \<Longrightarrow> ledger_move G l l'"
| moved_beside: "ledger_move G l (l\<lparr>observationRL := limits, isUnknownNara := checker, listeners := hs\<rparr>)"

lemma prunes_some_version:
  assumes "prunes_some G l" and "0 \<le> version l" and "version l + 1 < 2 ^ 63" and srt: "sort_algorithm (sort_perm G)"
  shows "int (length (Events l)) \<le> MaxEvents l \<or> version (pruneUnlocked G l) \<noteq> version l"
proof (cases rule: pruneUnlocked_cases [OF srt, of l])
  case (2 removed kept)
  let ?s = "sort_slice (sort_perm G) (prune_less l) (Events l)"
  obtain x xs where x: "?s = x # xs" "\<not> critical x" using assms(1) 2(1) by (auto simp: prunes_some_def split: list.splits)
  have n: "nat (int (length (Events l)) - MaxEvents l) \<noteq> 0" using 2(1) by simp
  then have "count_removable (nat (int (length (Events l)) - MaxEvents l)) ?s \<noteq> 0"
    using x n by (cases "nat (int (length (Events l)) - MaxEvents l)") (simp_all add: critical_def)
  then have "removed \<noteq> []" using 2(3,4) by auto
  moreover have "i64 (version l + 1) = version l + 1" using assms(2,3) by (intro i64_id) (simp add: in_i64_def)
  ultimately show ?thesis using 2(7) by simp
qed simp

lemma keeps_prefix_adds:
  assumes srt: "sort_algorithm (sort_perm G)" and a: "AddEvent G e l = Inr (ok, l', calls)" and c: "adds_cleanly G e l"
    and v: "0 \<le> version l" "version l + 2 < 2 ^ 63"
  shows "keeps_prefix l l'"
  using a
proof (cases rule: AddEvent_cases)
  case observation
  then show ?thesis using v by (intro keeps_prefix_observation) (simp_all add: in_i64_def)
next
  case (stored e1 l1)
  have k: "keeps_prefix l l1" using stored(7) v by (intro keeps_prefix_room) (simp_all add: in_i64_def)
  have i: "i64 (version l + 1) = version l + 1" using v by (intro i64_id) (simp add: in_i64_def)
  have l1: "0 \<le> version l1" "version l1 + 1 < 2 ^ 63" "MaxEvents l1 = MaxEvents l"
    using make_room_cases [OF stored(7)] v i by auto
  let ?l = "append_event e1 l1"
  have "keeps_prefix ?l (prune_if_over G ?l)"
  proof (cases "MaxEvents ?l > 0 \<and> int (length (Events ?l)) > MaxEvents ?l")
    case True
    then have "prunes_some G ?l" using c stored(3,7) l1(3) by (simp add: adds_cleanly_def append_event_def)
    then have "keeps_prefix ?l (pruneUnlocked G ?l)"
      using prunes_some_version [OF _ _ _ srt, of ?l] l1 by (intro keeps_prefix_prune [OF srt]) (simp_all add: append_event_def in_i64_def)
    then show ?thesis using True by (simp add: prune_if_over_def)
  qed (auto simp: prune_if_over_def)
  then show ?thesis using stored(8) k keeps_prefix_append keeps_prefix_trans by metis
qed simp

lemma ledger_move_keeps:
  assumes srt: "sort_algorithm (sort_perm G)" and "ledger_move G l l'"
  shows "keeps_prefix l l'"
  using assms(2)
proof cases
  case (moved_add e ok calls)
  then show ?thesis by (intro keeps_prefix_adds [OF srt])
next
  case (moved_dedup e ok calls)
  then show ?thesis unfolding AddEventWithDedup_def by (intro keeps_prefix_observation) (simp_all add: in_i64_def)
next
  case moved_prune
  then show ?thesis using prunes_some_version [OF moved_prune(2,3) _ srt]
    by (simp add: Prune_def) (rule keeps_prefix_prune [OF srt], simp_all add: in_i64_def)
next
  case (moved_remove name n)
  then show ?thesis by (intro keeps_prefix_remove) (simp_all add: in_i64_def)
qed (simp add: keeps_prefix_def)

lemma ledger_moves_keep:
  assumes "sort_algorithm (sort_perm G)" and "(ledger_move G)\<^sup>*\<^sup>* l l'"
  shows "keeps_prefix l l'"
  using assms(2) by induction (auto intro: keeps_prefix_trans ledger_move_keeps [OF assms(1)])

text \<open>
  A projection that starts with a new ledger, and all that happens to the two: moves of the ledger, and runs of the projection, in
  which the ledger may move between their two reads.
\<close>

inductive follows ::
  "(SyncEvent \<Rightarrow> 'st \<Rightarrow> 'st) \<Rightarrow> 'st \<Rightarrow> go_env \<Rightarrow> SyncLedger \<Rightarrow> 'st Projection \<Rightarrow> bool" for handle start G where
  follows_new: "0 \<le> version l \<Longrightarrow> follows handle start G l (NewProjection start)"
| follows_ledger: "follows handle start G l p \<Longrightarrow> ledger_move G l l' \<Longrightarrow> follows handle start G l' p"
| follows_once: "follows handle start G l p \<Longrightarrow> (ledger_move G)\<^sup>*\<^sup>* l l2 \<Longrightarrow>
     RunOnce G (quiet handle) (Some (\<lambda>st. start)) l l2 p = Inr (p', b, ok) \<Longrightarrow> follows handle start G l2 p'"
| follows_end: "follows handle start G l p \<Longrightarrow> (ledger_move G)\<^sup>*\<^sup>* l l2 \<Longrightarrow>
     RunToEnd G (quiet handle) (Some (\<lambda>st. start)) (\<lambda>i. False) l l2 p = Inr (p', ok) \<Longrightarrow> follows handle start G l2 p'"

lemma up_to_date_later:
  assumes "tracks explains start l p" and "keeps_prefix l l2" and "l0 = l \<or> l0 = l2" and "up_to_date explains l0 p'"
  shows "tracks explains start l2 p'"
proof -
  have "0 \<le> version l0" using assms(1-3) by (auto simp: tracks_def keeps_prefix_def)
  then have "tracks explains start l0 p'" using assms(4) by (intro up_to_date_tracks)
  then show ?thesis using assms(2,3) by (auto intro: tracks_keeps)
qed

context read_model
begin

lemma follows_tracks:
  assumes "sort_algorithm (sort_perm G)" and "follows handle start G l p"
  shows "tracks explains start l p"
  using assms(2)
proof (induction rule: follows.induct)
  case (follows_new l)
  then show ?case by (rule tracks_new)
next
  case (follows_ledger l p l')
  then show ?case by (blast intro: tracks_keeps ledger_move_keeps [OF assms(1)])
next
  case (follows_once l p l2 p' b ok)
  obtain p2 c where "RunOnce G (quiet handle) (Some (\<lambda>st. start)) l l2 p = Inr (p2, c, True)"
    and "up_to_date explains (if needsReset l p then l2 else l) p2"
    using RunOnce_up_to_date [OF assms(1) follows_once.IH ledger_moves_keep [OF assms(1) follows_once.hyps(2)]] by blast
  then show ?case
    using follows_once ledger_moves_keep [OF assms(1) follows_once.hyps(2)] up_to_date_later [of explains start l p l2 "if needsReset l p then l2 else l" p2] by auto
next
  case (follows_end l p l2 p' ok)
  obtain p2 where "RunToEnd G (quiet handle) (Some (\<lambda>st. start)) (\<lambda>i. False) l l2 p = Inr (p2, True)"
    and "up_to_date explains (if needsReset l p then l2 else l) p2"
    using RunToEnd_up_to_date [OF assms(1) follows_end.IH ledger_moves_keep [OF assms(1) follows_end.hyps(2)]] by blast
  then show ?case
    using follows_end ledger_moves_keep [OF assms(1) follows_end.hyps(2)] up_to_date_later [of explains start l p l2 "if needsReset l p then l2 else l" p2] by auto
qed

lemma follows_RunOnce:
  assumes "sort_algorithm (sort_perm G)" and "follows handle start G l p"
  shows "\<exists>p' b. RunOnce G (quiet handle) (Some (\<lambda>st. start)) l l p = Inr (p', b, True) \<and> up_to_date explains l p'"
  using RunOnce_up_to_date [OF assms(1) follows_tracks [OF assms] keeps_prefix_refl] by simp

end

lemma demo_follows:
  "follows handle start demo_env (demo_ledger 9 es) (NewProjection start)"
  by (rule follows_new) simp

section \<open>Properties\<close>

text \<open>
  C18: opinions refine their specification. The opinion projection maintains its records
  incrementally, resets when the ledger's version changes, and replays sorted by time. After a run, whatever additions, prunings and
  removals came before, between and during the runs, all that makes no difference: the opinion on every subject, with or without
  checkpoint, is the one computed directly from the observations now in the ledger. The condition, in \<open>ledger_move\<close>, is that every
  pruning that starts removes an event: one that finds a critical event first sorts the ledger under its old version
  (\<open>prune_reorder_replays\<close>).
\<close>

theorem opinion_refines:
  assumes "sort_algorithm (sort_perm G)" and "follows opinion_handleEvent (\<lambda>subject. None) G l p"
  shows "\<exists>p' b. RunOnce G (quiet opinion_handleEvent) (Some (\<lambda>st subject. None)) l l p = Inr (p', b, True) \<and>
     (\<forall>subject. DeriveOpinion G now l (pj_state p') subject =
          opinion_from G now l (List.map_filter (about subject) (Events l)) subject \<and>
        DeriveOpinionFromCheckpoint G now l (pj_state p') subject =
          (case GetCheckpoint l subject of
             None \<Rightarrow> (opinion_from G now l (List.map_filter (about subject) (Events l)) subject, False)
           | Some c \<Rightarrow> (checkpoint_opinion G now l (List.map_filter (about subject) (Events l)) subject c, True)))"
proof -
  obtain p' b where r: "RunOnce G (quiet opinion_handleEvent) (Some (\<lambda>st subject. None)) l l p = Inr (p', b, True)"
    and u: "up_to_date opinion_explains l p'"
    using opinion.follows_RunOnce [OF assms] by blast
  have m: "mset (GetObservationsFor (pj_state p') subject) = mset (List.map_filter (about subject) (Events l))" for subject
    using u by (simp add: up_to_date_def opinion_explains_def records_of_mset)
  have "DeriveOpinion G now l (pj_state p') subject =
      opinion_from G now l (List.map_filter (about subject) (Events l)) subject" for subject
    unfolding DeriveOpinion_def by (rule opinion_from_mset [OF assms(1) m])
  then show ?thesis
    using r checkpoint_opinion_mset [OF m, of G now l]
    by (auto simp: DeriveOpinionFromCheckpoint_def split: option.split)
qed

theorem opinion_refines_witness:
  "\<exists>p' b. RunOnce demo_env (quiet opinion_handleEvent) (Some (\<lambda>st subject. None)) (demo_ledger 9 [demo_restart ''r'' 10 1])
       (demo_ledger 9 [demo_restart ''r'' 10 1]) (NewProjection (\<lambda>subject. None)) = Inr (p', b, True) \<and>
     od_Restarts (DeriveOpinion demo_env 99 (demo_ledger 9 [demo_restart ''r'' 10 1]) (pj_state p') ''b'') = 1"
proof -
  let ?l = "demo_ledger 9 [demo_restart ''r'' 10 1]"
  have "od_Restarts (opinion_from demo_env 99 ?l (List.map_filter (about ''b'') (Events ?l)) ''b'') = 1"
    by code_simp
  then show ?thesis
    using opinion_refines [OF sort_algorithm_demo demo_follows, of "[demo_restart ''r'' 10 1]" 99] by metis
qed

text \<open>
  C19: the most recent event wins. After a run, whatever additions, prunings and removals came before, under the condition that every
  pruning that starts removes an event (\<open>ledger_move\<close>, as for opinions), the online state of a nara is absent exactly if no
  stored event says anything about it; otherwise it is the status that some stored event gives it,
  with that event's time, service and observer, and no stored event about it is newer.
\<close>

theorem online_most_recent_wins:
  assumes "sort_algorithm (sort_perm G)" and "follows online_handleEvent (\<lambda>name. None) G l p"
  shows "\<exists>p' b. RunOnce G (quiet online_handleEvent) (Some (\<lambda>st name. None)) l l p = Inr (p', b, True) \<and>
     (\<forall>name. case pj_state p' name of
         None \<Rightarrow> \<forall>e \<in> set (Events l). mentions e name = []
       | Some s \<Rightarrow> (\<exists>e \<in> set (Events l). (os_Status s, os_Observer s) \<in> set (mentions e name) \<and>
                      os_LastEventTime s = Timestamp e \<and> os_LastEventType s = Service e) \<and>
                   (\<forall>e \<in> set (Events l). mentions e name \<noteq> [] \<longrightarrow> Timestamp e \<le> os_LastEventTime s))"
proof -
  obtain p' b where "RunOnce G (quiet online_handleEvent) (Some (\<lambda>st name. None)) l l p = Inr (p', b, True)"
    and u: "up_to_date online_explains l p'"
    using online.follows_RunOnce [OF assms] by blast
  moreover have "online_explains (mset (Events l)) (pj_state p')" using u by (simp add: up_to_date_def)
  ultimately show ?thesis unfolding online_explains_def set_mset_mset by blast
qed

theorem online_most_recent_wins_witness:
  "\<exists>p' b. RunOnce demo_env (quiet online_handleEvent) (Some (\<lambda>st name. None)) (demo_ledger 9 [demo_ping ''x'' 7])
       (demo_ledger 9 [demo_ping ''x'' 7]) (NewProjection (\<lambda>name. None)) = Inr (p', b, True) \<and>
     pj_state p' ''b'' \<noteq> None \<and> pj_state p' ''c'' = None"
proof -
  let ?l = "demo_ledger 9 [demo_ping ''x'' 7]"
  have m: "mentions (demo_ping ''x'' 7) ''b'' = [(''ONLINE'', ''a'')]" "mentions (demo_ping ''x'' 7) ''c'' = []"
    by code_simp+
  obtain p' b where r: "RunOnce demo_env (quiet online_handleEvent) (Some (\<lambda>st name. None)) ?l ?l (NewProjection (\<lambda>name. None)) = Inr (p', b, True)"
    and c: "\<forall>name. case pj_state p' name of
         None \<Rightarrow> \<forall>e \<in> set (Events ?l). mentions e name = []
       | Some s \<Rightarrow> (\<exists>e \<in> set (Events ?l). (os_Status s, os_Observer s) \<in> set (mentions e name) \<and>
                      os_LastEventTime s = Timestamp e \<and> os_LastEventType s = Service e) \<and>
                   (\<forall>e \<in> set (Events ?l). mentions e name \<noteq> [] \<longrightarrow> Timestamp e \<le> os_LastEventTime s)"
    using online_most_recent_wins [OF sort_algorithm_demo demo_follows, of "[demo_ping ''x'' 7]"] by blast
  have "pj_state p' ''b'' \<noteq> None" using c [rule_format, of "''b''"] m(1) by (auto split: option.splits)
  moreover have "pj_state p' ''c'' = None" using c [rule_format, of "''c''"] m(2) by (auto split: option.splits)
  ultimately show ?thesis using r by blast
qed

text \<open>
  the events a projection never sees. Adding a critical event to a ledger that holds nothing
  but critical events beyond its capacity sorts the ledger under the old version number. A
  projection that was up to date then reads the last event a second time: here an opinion
  projection counts a restart twice and takes no notice of the event that was added.
\<close>

theorem prune_reorder_replays:
  "\<exists>l2 calls p1 p2.
     AddEvent demo_env (demo_checkpoint ''c'' 5) (demo_ledger 1 [demo_restart ''r'' 10 1]) = Inr (True, l2, calls) \<and>
     version l2 = version (demo_ledger 1 [demo_restart ''r'' 10 1]) \<and>
     RunOnce demo_env (quiet opinion_handleEvent) (Some (\<lambda>st subject. None)) (demo_ledger 1 [demo_restart ''r'' 10 1])
       (demo_ledger 1 [demo_restart ''r'' 10 1]) (NewProjection (\<lambda>subject. None)) = Inr (p1, True, True) \<and>
     RunOnce demo_env (quiet opinion_handleEvent) (Some (\<lambda>st subject. None)) l2 l2 p1 = Inr (p2, True, True) \<and>
     length (List.map_filter (about ''b'') (Events l2)) = 1 \<and>
     length (GetObservationsFor (pj_state p2) ''b'') = 2"
proof -
  let ?r = "demo_restart ''r'' 10 1" and ?c = "demo_checkpoint ''c'' 5"
  let ?run = "\<lambda>l p. RunOnce demo_env (quiet opinion_handleEvent) (Some (\<lambda>st subject. None)) l l p"
  let ?p1 = "\<lparr>pj_state = opinion_handleEvent ?r (\<lambda>subject. None), pj_position = 1, pj_lastVersion = 0\<rparr>"
  let ?p2 = "\<lparr>pj_state = opinion_handleEvent ?r (opinion_handleEvent ?r (\<lambda>subject. None)), pj_position = 2, pj_lastVersion = 0\<rparr>"
  have "case AddEvent demo_env ?c (demo_ledger 1 [?r]) of Inr (ok, l2, calls) \<Rightarrow> ok \<and> Events l2 = [?c, ?r] \<and> version l2 = 0 | Inl p \<Rightarrow> False"
    by code_simp
  then obtain l2 calls where l2: "AddEvent demo_env ?c (demo_ledger 1 [?r]) = Inr (True, l2, calls)"
    "Events l2 = [?c, ?r]" "version l2 = 0"
    by (auto split: sum.splits)
  have "?run (demo_ledger 1 [?r]) (NewProjection (\<lambda>subject. None)) = Inr (?p1, True, True)" "?run l2 ?p1 = Inr (?p2, True, True)"
    using l2(2,3) by (simp_all add: RunOnce_def events_to_process_def needsReset_def GetEventsSince_def NewProjection_def quiet_def)
  moreover have none: "GetObservationsFor (\<lambda>subject. None) ''b'' = []" by (simp add: GetObservationsFor_def)
  moreover have "about ''b'' ?r \<noteq> None" "about ''b'' ?c = None" by code_simp+
  then have "length (List.map_filter (about ''b'') (Events l2)) = 1" "length (GetObservationsFor (pj_state ?p2) ''b'') = 2"
    by (auto simp: l2(2) List.map_filter_def GetObservationsFor_handle none)
  ultimately show ?thesis using l2 by force
qed

end
