(* ===== verification/Go_Json.thy ===== *)
theory Go_Json
  imports Prelude
begin

text \<open>
  What the sources use of Go's \<open>encoding/json\<close> to build signed bytes: \<open>json.Marshal\<close> of structs
  whose fields are strings, integers and slices. A Go string is a byte string; the encoder escapes
  quotes, backslashes, control characters, the HTML characters and U+2028, U+2029, and replaces
  bytes that are not UTF-8.
\<close>

definition hi4 :: "char \<Rightarrow> nat" where "hi4 c = of_char c div 16"
definition lo4 :: "char \<Rightarrow> nat" where "lo4 c = of_char c mod 16"

text \<open>\<open>utf8.DecodeRune\<close>: the length of the sequence at the front, 0 when it is not valid.\<close>

definition continuation :: "char \<Rightarrow> bool" where
  "continuation c \<longleftrightarrow> 128 \<le> (of_char c :: nat) \<and> (of_char c :: nat) < 192"

definition second_ok :: "nat \<Rightarrow> nat \<Rightarrow> bool" where
  \<comment> \<open>the range of the second byte, by the first\<close>
  "second_ok a b \<longleftrightarrow>
     (if a = 224 then 160 \<le> b \<and> b < 192 else if a = 237 then 128 \<le> b \<and> b < 160
      else if a = 240 then 144 \<le> b \<and> b < 192 else if a = 244 then 128 \<le> b \<and> b < 144
      else 128 \<le> b \<and> b < 192)"

definition utf8_length :: "string \<Rightarrow> nat" where
  "utf8_length bs =
     (case bs of
        [] \<Rightarrow> 0
      | c # cs \<Rightarrow>
          let a = of_char c
          in if a < 128 then 1
             else if 194 \<le> a \<and> a < 224
             then (case cs of d # ds \<Rightarrow> if continuation d then 2 else 0 | _ \<Rightarrow> 0)
             else if 224 \<le> a \<and> a < 240
             then (case cs of d # e # ds \<Rightarrow> if second_ok a (of_char d) \<and> continuation e then 3 else 0 | _ \<Rightarrow> 0)
             else if 240 \<le> a \<and> a < 245
             then (case cs of d # e # f # ds \<Rightarrow>
                     if second_ok a (of_char d) \<and> continuation e \<and> continuation f then 4 else 0 | _ \<Rightarrow> 0)
             else 0)"

definition json_ascii :: "char \<Rightarrow> string" where
  "json_ascii c =
     (let b = of_char c :: nat
      in if b = 34 \<or> b = 92 then [CHR 0x5C, c]
         else if b = 8 then [CHR 0x5C, CHR ''b''] else if b = 12 then [CHR 0x5C, CHR ''f'']
         else if b = 10 then [CHR 0x5C, CHR ''n''] else if b = 13 then [CHR 0x5C, CHR ''r'']
         else if b = 9 then [CHR 0x5C, CHR ''t'']
         else if b < 32 \<or> c \<in> set ''<>&''
         then [CHR 0x5C, CHR ''u'', CHR ''0'', CHR ''0'', hex_digit (hi4 c), hex_digit (lo4 c)]
         else [c])"

fun json_chars :: "string \<Rightarrow> string" where
  "json_chars [] = []"
| "json_chars (c # cs) =
     (let n = utf8_length (c # cs)
      in if n = 1 then json_ascii c @ json_chars cs
         else if n = 0 then CHR 0x5C # ''ufffd'' @ json_chars cs
         else if n = 3 \<and> take 2 (c # cs) = [CHR 0xE2, CHR 0x80] \<and> cs ! 1 \<in> {CHR 0xA8, CHR 0xA9}
         then CHR 0x5C # ''u202'' @ [hex_digit (lo4 (cs ! 1))] @ json_chars (drop 2 cs)
         else c # take (n - 1) cs @ json_chars (drop (n - 1) cs))"

definition json_string :: "string \<Rightarrow> string" where
  "json_string s = [CHR 0x22] @ json_chars s @ [CHR 0x22]"

fun joined :: "string list \<Rightarrow> string" where
  "joined [] = []"
| "joined [x] = x"
| "joined (x # y # xs) = x @ '','' @ joined (y # xs)"

definition json_object :: "(string \<times> string) list \<Rightarrow> string" where
  \<comment> \<open>fields in the order of the struct; the keys need no escaping\<close>
  "json_object fields = ''{'' @ joined (map (\<lambda>(k, v). [CHR 0x22] @ k @ [CHR 0x22] @ '':'' @ v) fields) @ ''}''"

definition json_slice :: "string list option \<Rightarrow> string" where
  \<comment> \<open>a nil slice is \<open>null\<close>\<close>
  "json_slice xs = (case xs of None \<Rightarrow> ''null'' | Some vs \<Rightarrow> ''['' @ joined vs @ '']'')"

end
