(* ===== verification/Go_Float.thy ===== *)
theory Go_Float
  imports Prelude
begin

text \<open>
  The arithmetic of \<open>float64\<close> on bit patterns: IEEE 754 binary64, round to nearest, ties to even, each
  operation rounded on its own (no fused multiply-add, as on amd64). A finite value is a sign and
  a quotient of naturals; an operation computes the exact quotient and rounds it once. Which NaN an
  operation returns cannot be observed by the modelled code; it is the one of \<open>math.NaN()\<close>.
\<close>

section \<open>Values\<close>

definition f64_nan :: "float64 \<Rightarrow> bool" where
  "f64_nan x \<longleftrightarrow> f64_exp x = 2047 \<and> f64_frac x \<noteq> 0"

definition f64_inf :: "float64 \<Rightarrow> bool" where
  "f64_inf x \<longleftrightarrow> f64_exp x = 2047 \<and> f64_frac x = 0"

definition f64_finite :: "float64 \<Rightarrow> bool" where
  "f64_finite x \<longleftrightarrow> f64_exp x \<noteq> 2047"

definition f64_mantissa :: "float64 \<Rightarrow> nat" where
  "f64_mantissa x = (if f64_exp x = 0 then f64_frac x else 2 ^ 52 + f64_frac x)"

definition f64_scale :: "float64 \<Rightarrow> nat" where
  "f64_scale x = (if f64_exp x = 0 then 1 else f64_exp x)"

text \<open>\<open>|x|\<close> is \<open>f64_num x / f64_den x\<close>; the truncated subtractions make one of the powers 1.\<close>

definition f64_num :: "float64 \<Rightarrow> nat" where
  "f64_num x = f64_mantissa x * 2 ^ (f64_scale x - 1075)"

definition f64_den :: "float64 \<Rightarrow> nat" where
  "f64_den x = 2 ^ (1075 - f64_scale x)"

definition f64_signed :: "float64 \<Rightarrow> int" where
  "f64_signed x = (if f64_neg x then - int (f64_num x) else int (f64_num x))"

section \<open>Rounding\<close>

fun bit_length :: "nat \<Rightarrow> nat" where
  "bit_length n = (if n = 0 then 0 else Suc (bit_length (n div 2)))"

declare bit_length.simps [simp del]

definition log2_floor :: "nat \<Rightarrow> nat \<Rightarrow> int" where
  \<comment> \<open>the \<open>e\<close> with \<open>2 ^ e \<le> a / b < 2 ^ (e + 1)\<close>\<close>
  "log2_floor a b =
     (let d = int (bit_length a) - int (bit_length b)
      in if b * 2 ^ nat d \<le> a * 2 ^ nat (- d) then d else d - 1)"

definition f64_pack :: "bool \<Rightarrow> nat \<Rightarrow> float64" where
  "f64_pack neg mag = word_of_nat ((if neg then 2 ^ 63 else 0) + mag)"

definition f64_infinity :: nat where "f64_infinity = 2047 * 2 ^ 52"

definition round_scaled :: "nat \<Rightarrow> nat \<Rightarrow> nat \<Rightarrow> nat" where
  \<comment> \<open>the pattern of \<open>a / b\<close> rounded to a multiple of \<open>2 ^ (k - 1075)\<close>; a carry moves to the next exponent\<close>
  "round_scaled k a b = (k - 1) * 2 ^ 52 + round_half_even (a * 2 ^ (1075 - k)) (b * 2 ^ (k - 1075))"

definition f64_round :: "bool \<Rightarrow> nat \<Rightarrow> nat \<Rightarrow> float64" where
  "f64_round neg a b =
     (if a = 0 then f64_pack neg 0
      else f64_pack neg (min f64_infinity (round_scaled (nat (max 1 (log2_floor a b + 1023))) a b)))"

section \<open>Operations\<close>

definition f64_NaN :: float64 where "f64_NaN = 0x7FF8000000000001"

definition f64_of_quotient :: "bool \<Rightarrow> int \<Rightarrow> nat \<Rightarrow> float64" where
  \<comment> \<open>the first argument is the sign of a zero result\<close>
  "f64_of_quotient zero_neg a b = f64_round (if a = 0 then zero_neg else a < 0) (nat \<bar>a\<bar>) b"

definition f64_negate :: "float64 \<Rightarrow> float64" where
  "f64_negate x = f64_pack (\<not> f64_neg x) (unat x mod 2 ^ 63)"

definition f64_add :: "float64 \<Rightarrow> float64 \<Rightarrow> float64" where
  "f64_add x y =
     (if f64_nan x \<or> f64_nan y then f64_NaN
      else if f64_inf x then (if f64_inf y \<and> f64_neg x \<noteq> f64_neg y then f64_NaN else x)
      else if f64_inf y then y
      else f64_of_quotient (f64_neg x \<and> f64_neg y)
             (f64_signed x * int (f64_den y) + f64_signed y * int (f64_den x)) (f64_den x * f64_den y))"

definition f64_sub :: "float64 \<Rightarrow> float64 \<Rightarrow> float64" where
  "f64_sub x y = f64_add x (f64_negate y)"

definition f64_mul :: "float64 \<Rightarrow> float64 \<Rightarrow> float64" where
  "f64_mul x y =
     (let neg = (f64_neg x \<noteq> f64_neg y)
      in if f64_nan x \<or> f64_nan y then f64_NaN
         else if f64_inf x \<or> f64_inf y
         then (if f64_num x = 0 \<or> f64_num y = 0 then f64_NaN else f64_pack neg f64_infinity)
         else f64_round neg (f64_num x * f64_num y) (f64_den x * f64_den y))"

definition f64_div :: "float64 \<Rightarrow> float64 \<Rightarrow> float64" where
  "f64_div x y =
     (let neg = (f64_neg x \<noteq> f64_neg y)
      in if f64_nan x \<or> f64_nan y \<or> f64_inf x \<and> f64_inf y \<or> f64_num x = 0 \<and> f64_num y = 0 then f64_NaN
         else if f64_inf x \<or> f64_num y = 0 then f64_pack neg f64_infinity
         else if f64_inf y then f64_pack neg 0
         else f64_round neg (f64_num x * f64_den y) (f64_den x * f64_num y))"

text \<open>Comparisons. \<open>f64_key\<close> orders the values other than NaN, with the two zeros equal.\<close>

definition f64_key :: "float64 \<Rightarrow> int" where
  "f64_key x = (if f64_neg x then - int (unat x - 2 ^ 63) else int (unat x))"

definition f64_lt :: "float64 \<Rightarrow> float64 \<Rightarrow> bool" where
  "f64_lt x y \<longleftrightarrow> \<not> f64_nan x \<and> \<not> f64_nan y \<and> f64_key x < f64_key y"

definition f64_le :: "float64 \<Rightarrow> float64 \<Rightarrow> bool" where
  "f64_le x y \<longleftrightarrow> \<not> f64_nan x \<and> \<not> f64_nan y \<and> f64_key x \<le> f64_key y"

definition f64_eq :: "float64 \<Rightarrow> float64 \<Rightarrow> bool" where
  "f64_eq x y \<longleftrightarrow> \<not> f64_nan x \<and> \<not> f64_nan y \<and> f64_key x = f64_key y"

definition f64_gt :: "float64 \<Rightarrow> float64 \<Rightarrow> bool" where
  "f64_gt x y \<longleftrightarrow> \<not> f64_nan x \<and> \<not> f64_nan y \<and> f64_key x > f64_key y"

text \<open>
  Conversions. \<open>float64(n)\<close> rounds; \<open>int64(x)\<close> truncates towards zero, and what it gives outside its
  range is up to the implementation (the smallest \<open>int64\<close>, as on amd64). A constant of the source is
  a decimal quotient, rounded once.
\<close>

definition f64_of_int :: "int \<Rightarrow> float64" where
  "f64_of_int n = f64_round (n < 0) (nat \<bar>n\<bar>) 1"

definition f64_to_int :: "float64 \<Rightarrow> int" where
  "f64_to_int x =
     (let q = int (f64_num x div f64_den x); n = (if f64_neg x then - q else q)
      in if f64_finite x \<and> in_i64 n then n else - (2 ^ 63))"

definition f64_lit :: "nat \<Rightarrow> nat \<Rightarrow> float64" where
  "f64_lit a b = f64_round False a b"

definition f64_abs :: "float64 \<Rightarrow> float64" where
  "f64_abs x = f64_pack False (unat x mod 2 ^ 63)"

definition f64_floor :: "float64 \<Rightarrow> float64" where
  \<comment> \<open>\<open>math.Floor\<close>\<close>
  "f64_floor x =
     (if \<not> f64_finite x \<or> f64_num x = 0 then x
      else let q = f64_signed x div int (f64_den x) in f64_round (q < 0) (nat \<bar>q\<bar>) 1)"

text \<open>\<open>math.Sqrt\<close> is correctly rounded: an exact square root to enough bits, with a sticky bit.\<close>

definition nat_sqrt :: "nat \<Rightarrow> nat" where
  "nat_sqrt n = snd (foldl (\<lambda>(bit, r) i. let c = r + bit in (bit div 2, if c * c \<le> n then c else r))
     (2 ^ ((bit_length n + 1) div 2), 0) [0..<(bit_length n + 1) div 2 + 1])"

definition f64_sqrt :: "float64 \<Rightarrow> float64" where
  "f64_sqrt x =
     (if f64_nan x then f64_NaN
      else if f64_inf x then (if f64_neg x then f64_NaN else x)
      else if f64_num x = 0 then x
      else if f64_neg x then f64_NaN
      else let d = f64_den x * 2; \<comment> \<open>\<open>sqrt (n / d) = sqrt (n * d) / d\<close>\<close>
               n = f64_num x * 2 * d * 4 ^ 64; s = nat_sqrt n
           in f64_round False (if s * s = n then 2 * s else 2 * s + 1) (2 * d * 2 ^ 64))"


section \<open>Whole numbers are exact\<close>

lemma bit_length_1: "bit_length (Suc 0) = Suc 0"
  by (subst bit_length.simps, simp, subst bit_length.simps, simp)

lemma bit_length_bounds: "0 < n \<Longrightarrow> 2 ^ (bit_length n - 1) \<le> n \<and> n < 2 ^ bit_length n \<and> 0 < bit_length n"
proof (induction n rule: bit_length.induct)
  case (1 n)
  show ?case
  proof (cases "n = 1")
    case True
    then show ?thesis by (simp add: bit_length_1)
  next
    case False
    with "1.prems" have h: "0 < n div 2" by simp
    with "1.IH" "1.prems" have IH: "2 ^ (bit_length (n div 2) - 1) \<le> n div 2" "n div 2 < 2 ^ bit_length (n div 2)"
      "0 < bit_length (n div 2)" by auto
    have b: "bit_length n = Suc (bit_length (n div 2))" using "1.prems" by (subst bit_length.simps) simp
    have "(2::nat) ^ bit_length (n div 2) = 2 * 2 ^ (bit_length (n div 2) - 1)"
      using IH(3) by (cases "bit_length (n div 2)") simp_all
    with IH have "2 ^ bit_length (n div 2) \<le> n" by linarith
    moreover have "n < 2 ^ Suc (bit_length (n div 2))" using IH(2) by simp
    ultimately show ?thesis by (simp add: b)
  qed
qed

lemma log2_floor_whole:
  assumes "0 < n"
  shows "log2_floor n 1 = int (bit_length n - 1)"
proof -
  have b: "2 ^ (bit_length n - 1) \<le> n" "0 < bit_length n" using bit_length_bounds [OF assms] by auto
  note one = bit_length_1
  have "nat (int (bit_length n) - int (bit_length (Suc 0))) = bit_length n - 1" "nat (- (int (bit_length n) - int (bit_length (Suc 0)))) = 0"
    using b(2) by (simp_all add: one)
  then show ?thesis using b by (simp add: log2_floor_def one Let_def)
qed

lemma f64_pack_fields:
  assumes "mag < 2 ^ 63"
  shows "f64_neg (f64_pack neg mag) = neg" and "f64_exp (f64_pack neg mag) = mag div 2 ^ 52"
    and "f64_frac (f64_pack neg mag) = mag mod 2 ^ 52"
proof -
  have u: "unat (f64_pack neg mag) = (if neg then 2 ^ 63 else 0) + mag"
    using assms unfolding f64_pack_def by (subst unat_of_nat) (simp add: take_bit_eq_mod)
  show "f64_neg (f64_pack neg mag) = neg" using assms by (simp add: f64_neg_def u)
  have "((2::nat) ^ 63 + mag) div 2 ^ 52 = 2 ^ 11 + mag div 2 ^ 52" by simp
  moreover have "mag div 2 ^ 52 < 2 ^ 11" using assms by (simp add: less_mult_imp_div_less)
  ultimately show "f64_exp (f64_pack neg mag) = mag div 2 ^ 52" by (simp add: f64_exp_def u)
  have "((2::nat) ^ 63 + mag) mod 2 ^ 52 = mag mod 2 ^ 52" by (simp add: mod_add_left_eq [symmetric])
  then show "f64_frac (f64_pack neg mag) = mag mod 2 ^ 52" by (simp add: f64_frac_def u)
qed

lemma round_half_even_exact: "0 < d \<Longrightarrow> round_half_even (q * d) d = q"
  by (simp add: round_half_even_def)

lemma f64_of_int_fields:
  fixes neg :: bool
  assumes "0 < n" and "n < 2 ^ 53"
  defines "e \<equiv> bit_length n - 1" and "x \<equiv> f64_round neg n 1"
  shows "f64_neg x = neg" and "f64_num x = n * 2 ^ (52 - e)" and "f64_den x = 2 ^ (52 - e)" and "f64_finite x"
proof -
  have b: "2 ^ e \<le> n" "n < 2 ^ Suc e" using bit_length_bounds [OF assms(1)] by (auto simp: e_def)
  have e: "e \<le> 52"
  proof (rule ccontr)
    assume "\<not> e \<le> 52"
    then have "(2::nat) ^ 53 \<le> 2 ^ e" by (intro power_increasing) simp_all
    with b(1) assms(2) show False by simp
  qed
  define m where "m = n * 2 ^ (52 - e)"
  have p: "(2::nat) ^ e * 2 ^ (52 - e) = 2 ^ 52" using e by (simp flip: power_add)
  have m: "2 ^ 52 \<le> m" "m < 2 ^ 53"
    using mult_right_mono [OF b(1), of "2 ^ (52 - e)"] mult_strict_right_mono [OF b(2), of "2 ^ (52 - e)"] p
    by (simp_all add: m_def ac_simps)
  have k: "nat (max 1 (log2_floor n 1 + 1023)) = e + 1023" using log2_floor_whole [OF assms(1)] by (simp add: e_def)
  have r: "round_scaled (e + 1023) n 1 = (e + 1022) * 2 ^ 52 + m"
    using round_half_even_exact [of 1 m] e by (simp add: round_scaled_def m_def)
  have s: "(e + 1022) * 2 ^ 52 + m = (e + 1023) * 2 ^ 52 + (m - 2 ^ 52)" using m(1) by simp
  have lt: "(e + 1022) * 2 ^ 52 + m < f64_infinity"
  proof -
    have "(e + 1022) * 2 ^ 52 \<le> (1074::nat) * 2 ^ 52" using e by (intro mult_right_mono) simp_all
    with m(2) show ?thesis by (simp add: f64_infinity_def)
  qed
  have x: "x = f64_pack neg ((e + 1023) * 2 ^ 52 + (m - 2 ^ 52))"
    using assms(1) lt unfolding x_def f64_round_def k r s by simp
  have mag: "(e + 1023) * 2 ^ 52 + (m - 2 ^ 52) < 2 ^ 63" using lt s by (simp add: f64_infinity_def)
  have q: "((e + 1023) * 2 ^ 52 + (m - 2 ^ 52)) div 2 ^ 52 = e + 1023"
    "((e + 1023) * 2 ^ 52 + (m - 2 ^ 52)) mod 2 ^ 52 = m - 2 ^ 52"
    using m by (simp_all only: div_mult_self3 mod_mult_self3 div_less mod_less) (simp_all add: less_diff_conv2)
  note F = f64_pack_fields [OF mag, of neg, folded x, unfolded q]
  show "f64_neg x = neg" by (rule F(1))
  show "f64_finite x" using e by (simp add: f64_finite_def F(2))
  have "f64_mantissa x = m" using m(1) by (simp add: f64_mantissa_def F(2, 3))
  moreover have sc: "f64_scale x = e + 1023" by (simp add: f64_scale_def F(2))
  ultimately show "f64_num x = n * 2 ^ (52 - e)" using e by (simp add: f64_num_def m_def)
  show "f64_den x = 2 ^ (52 - e)" using e by (simp add: f64_den_def sc)
qed

theorem f64_to_int_of_int:
  assumes "\<bar>n\<bar> < 2 ^ 53"
  shows "f64_to_int (f64_of_int n) = n"
proof (cases "n = 0")
  case True
  have "f64_of_int 0 = 0" by (simp add: f64_of_int_def f64_round_def f64_pack_def)
  then show ?thesis using True by (simp add: f64_to_int_def f64_num_def f64_mantissa_def f64_exp_def f64_frac_def
      f64_neg_def f64_finite_def in_i64_def)
next
  case False
  define m where "m = nat \<bar>n\<bar>"
  have m: "0 < m" "m < 2 ^ 53" using False assms by (auto simp: m_def)
  note F = f64_of_int_fields [OF m, of "n < 0"]
  have "f64_num (f64_of_int n) div f64_den (f64_of_int n) = m" using F(2, 3) by (simp add: f64_of_int_def flip: m_def)
  moreover have "(if n < 0 then - int m else int m) = n" by (simp add: m_def)
  moreover have "in_i64 n" using assms by (auto simp: in_i64_def)
  ultimately show ?thesis using F(1, 4) by (simp add: f64_to_int_def f64_of_int_def Let_def flip: m_def)
qed

section \<open>Evaluation\<close>

lemma bit_length_numeral [simp]:
  "bit_length 0 = 0" "bit_length 1 = 1" "bit_length (numeral num.One) = 1"
  "bit_length (numeral (num.Bit0 k)) = Suc (bit_length (numeral k))"
  "bit_length (numeral (num.Bit1 k)) = Suc (bit_length (numeral k))"
  by (simp add: bit_length.simps [of 0], simp add: bit_length_1, simp add: bit_length_1, (subst bit_length.simps, simp)+)

lemmas f64_compute = f64_lit_def f64_of_int_def f64_round_def log2_floor_def round_scaled_def round_half_even_def
  f64_pack_def f64_infinity_def f64_nan_def f64_inf_def f64_finite_def f64_exp_def f64_frac_def f64_neg_def
  f64_of_quotient_def f64_signed_def f64_num_def f64_den_def f64_mantissa_def f64_scale_def f64_negate_def
  f64_key_def Let_def

end
