(* ===== verification/World.thy ===== *)
theory World
  imports Go_Json Go_Float Ledger_Properties
begin

text \<open>
  \<open>world.go\<close>: a world message travels from nara to nara. Every nara that receives it verifies the
  chain of signatures so far, appends a hop signed over the message and all earlier hops, and relays
  it to the nara it has most clout for among those online and not yet visited; the last one returns
  it to the originator. The network's own callbacks are in \<open>World_Network\<close>.
\<close>

section \<open>Messages\<close>

record WorldHop =
  wh_Nara :: NaraName
  wh_Timestamp :: int
  wh_Signature :: string
  wh_Stamp :: string

record WorldMessage =
  wm_ID :: string
  wm_OriginalMessage :: string
  wm_Originator :: NaraName
  wm_Hops :: "WorldHop list option"

text \<open>A nil slice of hops (\<open>None\<close>) is empty, but is encoded as \<open>null\<close>.\<close>

definition hops :: "WorldMessage \<Rightarrow> WorldHop list" where
  "hops wm = (case wm_Hops wm of None \<Rightarrow> [] | Some hs \<Rightarrow> hs)"

definition NewWorldMessage :: "go_env \<Rightarrow> int \<Rightarrow> string \<Rightarrow> NaraName \<Rightarrow> WorldMessage" where
  "NewWorldMessage G nowNano message originator =
     \<lparr>wm_ID = base64_Encode G (take 16 (sha256 G (originator @ '':'' @ message @ '':'' @ fmt_int nowNano))),
      wm_OriginalMessage = message, wm_Originator = originator, wm_Hops = Some []\<rparr>"

definition json_hop :: "WorldHop \<Rightarrow> string" where
  "json_hop h = json_object
     [(''nara'', json_string (wh_Nara h)), (''timestamp'', fmt_int (wh_Timestamp h)),
      (''signature'', json_string (wh_Signature h)), (''stamp'', json_string (wh_Stamp h))]"

definition hop_data :: "go_env \<Rightarrow> WorldMessage \<Rightarrow> WorldHop list option \<Rightarrow> NaraName \<Rightarrow> string" where
  "hop_data G wm previous nara = sha256 G (json_object
     [(''id'', json_string (wm_ID wm)), (''message'', json_string (wm_OriginalMessage wm)),
      (''originator'', json_string (wm_Originator wm)),
      (''previous_hops'', json_slice (map_option (map json_hop) previous)),
      (''current_nara'', json_string nara)])"

definition dataToSign :: "go_env \<Rightarrow> WorldMessage \<Rightarrow> NaraName \<Rightarrow> string" where
  "dataToSign G wm nara = hop_data G wm (wm_Hops wm) nara"

definition dataToSignForHop :: "go_env \<Rightarrow> WorldMessage \<Rightarrow> nat \<Rightarrow> string" where
  \<comment> \<open>called for positions of a hop only, so the slice is not nil\<close>
  "dataToSignForHop G wm hopIndex =
     hop_data G wm (Some (take hopIndex (hops wm))) (wh_Nara (hops wm ! hopIndex))"

definition AddHop :: "go_env \<Rightarrow> int \<Rightarrow> NaraName \<Rightarrow> NaraKeypair \<Rightarrow> string \<Rightarrow> WorldMessage \<Rightarrow> WorldMessage" where
  "AddHop G now nara keypair stamp wm =
     wm\<lparr>wm_Hops := Some (hops wm @ [\<lparr>wh_Nara = nara, wh_Timestamp = now,
                                       wh_Signature = SignBase64 G keypair (dataToSign G wm nara), wh_Stamp = stamp\<rparr>])\<rparr>"

definition HasVisited :: "WorldMessage \<Rightarrow> NaraName \<Rightarrow> bool" where
  "HasVisited wm nara \<longleftrightarrow> list_ex (\<lambda>h. wh_Nara h = nara) (hops wm)"

definition IsComplete :: "WorldMessage \<Rightarrow> bool" where
  "IsComplete wm \<longleftrightarrow> (if length (hops wm) = 0 then False else wh_Nara (last (hops wm)) = wm_Originator wm)"

datatype world_error =
    UnknownKey NaraName
  | BadEncoding NaraName
  | BadSignature NaraName nat
  | JourneyStuck
  | NoNaras
  | UnresolvedID NaraName
  | RelayFailed NaraName

definition check_hop :: "go_env \<Rightarrow> (NaraName \<Rightarrow> string option) \<Rightarrow> WorldMessage \<Rightarrow> nat \<Rightarrow> world_error option" where
  "check_hop G getPublicKey wm i =
     (let hop = hops wm ! i
      in case getPublicKey (wh_Nara hop) of
           None \<Rightarrow> Some (UnknownKey (wh_Nara hop))
         | Some pubKey \<Rightarrow>
             (case base64_Decode G (wh_Signature hop) of
                None \<Rightarrow> Some (BadEncoding (wh_Nara hop))
              | Some signature \<Rightarrow>
                  if \<not> VerifySignature G pubKey (dataToSignForHop G wm i) signature
                  then Some (BadSignature (wh_Nara hop) i) else None))"

text \<open>The error of the first hop that fails, or none.\<close>

definition VerifyChain :: "go_env \<Rightarrow> (NaraName \<Rightarrow> string option) \<Rightarrow> WorldMessage \<Rightarrow> world_error option" where
  "VerifyChain G getPublicKey wm =
     (case List.map_filter (check_hop G getPublicKey wm) [0..<length (hops wm)] of [] \<Rightarrow> None | e # es \<Rightarrow> Some e)"

section \<open>Routing\<close>

text \<open>The empty string is the code's \<open>""\<close>: the journey is stuck.\<close>

definition ChooseNextNara ::
  "go_env \<Rightarrow> NaraName \<Rightarrow> WorldMessage \<Rightarrow> (NaraName \<rightharpoonup> float64) option \<Rightarrow> NaraName list \<Rightarrow> NaraName" where
  "ChooseNextNara G currentNara wm myClout onlineNaras =
     (let score = (\<lambda>n. case myClout of None \<Rightarrow> 0 | Some m \<Rightarrow> (case m n of None \<Rightarrow> 0 | Some x \<Rightarrow> x));
          candidates = map (\<lambda>n. (n, score n))
            (filter (\<lambda>n. n \<noteq> currentNara \<and> n \<noteq> wm_Originator wm \<and> \<not> HasVisited wm n) onlineNaras)
      in if length candidates = 0
         then if currentNara \<noteq> wm_Originator wm \<and> wm_Originator wm \<in> set onlineNaras
              then wm_Originator wm else []
         else fst (hd (sort_slice (sort_perm G) (\<lambda>a b. f64_gt (snd a) (snd b)) candidates)))"

text \<open>The rewards are the floats 10 and 2.\<close>

definition CalculateWorldRewards :: "WorldMessage \<Rightarrow> (NaraName \<rightharpoonup> int)" where
  "CalculateWorldRewards wm =
     (if \<not> IsComplete wm then Map.empty
      else foldl (\<lambda>m h. if wh_Nara h \<noteq> wm_Originator wm then m(wh_Nara h \<mapsto> 2) else m)
             [wm_Originator wm \<mapsto> 10] (hops wm))"

section \<open>The journey handler\<close>

text \<open>
  A handler works on a state of the nara it belongs to, which its callbacks and the relay of a
  message may change, also when they panic. What \<open>getMyClout\<close> and \<open>getOnlineNaras\<close> return at a call
  are fields; \<open>wj_relay\<close> is the mesh client, its answer whether the request succeeded.
\<close>

record 'st WorldJourneyHandler =
  wj_name :: NaraName
  wj_keypair :: NaraKeypair
  wj_getMyClout :: "(NaraName \<rightharpoonup> float64) option"
  wj_getOnlineNaras :: "NaraName list"
  wj_getPublicKey :: "NaraName \<Rightarrow> string option"
  wj_resolveNaraID :: "NaraName \<Rightarrow> NaraID"
  wj_relay :: "NaraID \<Rightarrow> WorldMessage \<Rightarrow> 'st \<Rightarrow> 'st \<times> bool"
  wj_onComplete :: "(WorldMessage \<Rightarrow> 'st \<Rightarrow> 'st \<times> unit go) option"
  wj_onJourneyPass :: "(WorldMessage \<Rightarrow> 'st \<Rightarrow> 'st \<times> unit go) option"

definition defaultStamps :: "string list" where
  "defaultStamps =
     [[CHR 0xF0, CHR 0x9F, CHR 0x8C, CHR 0x9F], [CHR 0xF0, CHR 0x9F, CHR 0x8E, CHR 0x89],
      [CHR 0xF0, CHR 0x9F, CHR 0x9A, CHR 0x80], [CHR 0xF0, CHR 0x9F, CHR 0x92, CHR 0xAB],
      [CHR 0xE2, CHR 0x9C, CHR 0xA8], [CHR 0xF0, CHR 0x9F, CHR 0x8C, CHR 0x88],
      [CHR 0xF0, CHR 0x9F, CHR 0x8E, CHR 0x8A], [CHR 0xF0, CHR 0x9F, CHR 0x92, CHR 0x96],
      [CHR 0xF0, CHR 0x9F, CHR 0x8C, CHR 0xB8], [CHR 0xF0, CHR 0x9F, CHR 0x94, CHR 0xA5]]"

definition pickStamp :: "WorldMessage \<Rightarrow> string" where
  "pickStamp wm = defaultStamps ! (length (hops wm) mod length defaultStamps)"

definition chooseNext :: "go_env \<Rightarrow> 'st WorldJourneyHandler \<Rightarrow> WorldMessage \<Rightarrow> NaraName" where
  "chooseNext G h wm = ChooseNextNara G (wj_name h) wm (wj_getMyClout h) (wj_getOnlineNaras h)"

definition sendToNara ::
  "'st WorldJourneyHandler \<Rightarrow> NaraName \<Rightarrow> WorldMessage \<Rightarrow> 'st \<Rightarrow> 'st \<times> world_error option" where
  "sendToNara h name wm st =
     (let naraID = wj_resolveNaraID h name
      in if naraID = [] then (st, Some (UnresolvedID name))
         else case wj_relay h naraID wm st of (st', ok) \<Rightarrow> (st', if ok then None else Some (RelayFailed name)))"

definition StartJourney ::
  "go_env \<Rightarrow> int \<Rightarrow> 'st WorldJourneyHandler \<Rightarrow> string \<Rightarrow> 'st \<Rightarrow> 'st \<times> (world_error + WorldMessage)" where
  "StartJourney G nowNano h message st =
     (let wm = NewWorldMessage G nowNano message (wj_name h); next = chooseNext G h wm
      in if next = [] then (st, Inl NoNaras)
         else case sendToNara h next wm st of (st', err) \<Rightarrow>
                (st', case err of Some e \<Rightarrow> Inl e | None \<Rightarrow> Inr wm))"

definition run_callback ::
  "(WorldMessage \<Rightarrow> 'st \<Rightarrow> 'st \<times> unit go) option \<Rightarrow> WorldMessage \<Rightarrow> 'st \<Rightarrow> 'st \<times> unit go" where
  \<comment> \<open>a nil callback is skipped\<close>
  "run_callback cb wm st = (case cb of None \<Rightarrow> (st, Inr ()) | Some f \<Rightarrow> f wm st)"

text \<open>The message is passed by pointer; its new value is part of the result.\<close>

definition HandleIncoming ::
  "go_env \<Rightarrow> int \<Rightarrow> 'st WorldJourneyHandler \<Rightarrow> WorldMessage \<Rightarrow> 'st \<Rightarrow> 'st \<times> (WorldMessage \<times> world_error option) go" where
  "HandleIncoming G now h wm st =
     (case VerifyChain G (wj_getPublicKey h) wm of
        Some e \<Rightarrow> (st, Inr (wm, Some e))
      | None \<Rightarrow>
          let wm' = AddHop G now (wj_name h) (wj_keypair h) (pickStamp wm) wm
          in if IsComplete wm'
             then (case run_callback (wj_onComplete h) wm' st of
                     (st', Inl p) \<Rightarrow> (st', Inl p)
                   | (st', Inr u) \<Rightarrow> (st', Inr (wm', None)))
             else (case run_callback (wj_onJourneyPass h) wm' st of
                     (st', Inl p) \<Rightarrow> (st', Inl p)
                   | (st', Inr u) \<Rightarrow>
                       let next = chooseNext G h wm'
                       in if next = [] then (st', Inr (wm', Some JourneyStuck))
                          else case sendToNara h next wm' st' of (st'', err) \<Rightarrow> (st'', Inr (wm', err))))"

end
