(* ===== verification/World_Properties.thy ===== *)
theory World_Properties
  imports World
begin

text \<open>
  A world message through a whole network: signature chains that honest naras extend verify, and a
  journey started in a network that agrees on who is online visits everybody once and comes back.
\<close>

section \<open>Chains\<close>

lemma hops_Some [simp]: "wm_Hops wm = Some hs \<Longrightarrow> hops wm = hs"
  by (simp add: hops_def)

lemma VerifyChain_None:
  "VerifyChain G keys wm = None \<longleftrightarrow> (\<forall>i < length (hops wm). check_hop G keys wm i = None)"
proof -
  have "List.map_filter f is = [] \<longleftrightarrow> (\<forall>i \<in> set is. f i = None)" for f :: "nat \<Rightarrow> world_error option" and "is"
    by (induction "is") (auto simp: List.map_filter_def)
  moreover have "(case es of [] \<Rightarrow> None | e # es' \<Rightarrow> Some e) = None \<longleftrightarrow> es = []" for es :: "world_error list"
    by (cases es) simp_all
  ultimately show ?thesis by (simp add: VerifyChain_def Ball_def)
qed

lemma AddHop_fields [simp]:
  "wm_Originator (AddHop G now n kp stamp wm) = wm_Originator wm"
  "wm_ID (AddHop G now n kp stamp wm) = wm_ID wm"
  "wm_OriginalMessage (AddHop G now n kp stamp wm) = wm_OriginalMessage wm"
  by (simp_all add: AddHop_def)

lemma AddHop_hops:
  "hops (AddHop G now n kp stamp wm) = hops wm @ [\<lparr>wh_Nara = n, wh_Timestamp = now,
     wh_Signature = SignBase64 G kp (dataToSign G wm n), wh_Stamp = stamp\<rparr>]"
  by (simp add: AddHop_def hops_def)

lemma visited_AddHop [simp]:
  "map wh_Nara (hops (AddHop G now n kp stamp wm)) = map wh_Nara (hops wm) @ [n]"
  by (simp add: AddHop_hops)

lemma not_nil_AddHop [simp]: "wm_Hops (AddHop G now n kp stamp wm) \<noteq> None"
  by (simp add: AddHop_def)

lemma IsComplete_AddHop [simp]: "IsComplete (AddHop G now n kp stamp wm) \<longleftrightarrow> n = wm_Originator wm"
  by (simp add: IsComplete_def AddHop_hops)

lemma HasVisited_iff: "HasVisited wm n \<longleftrightarrow> n \<in> set (map wh_Nara (hops wm))"
  by (auto simp: HasVisited_def list_ex_iff)

lemma dataToSignForHop_AddHop:
  assumes "wm_Hops wm \<noteq> None"
  shows "i < length (hops wm) \<Longrightarrow> dataToSignForHop G (AddHop G now n kp stamp wm) i = dataToSignForHop G wm i"
    and "dataToSignForHop G (AddHop G now n kp stamp wm) (length (hops wm)) = dataToSign G wm n"
proof -
  obtain hs where "wm_Hops wm = Some hs" using assms by blast
  then have h: "hops wm = hs" "wm_Hops wm = Some hs" by simp_all
  show "i < length (hops wm) \<Longrightarrow> dataToSignForHop G (AddHop G now n kp stamp wm) i = dataToSignForHop G wm i"
    by (simp add: dataToSignForHop_def hop_data_def AddHop_hops nth_append)
  show "dataToSignForHop G (AddHop G now n kp stamp wm) (length (hops wm)) = dataToSign G wm n"
    by (simp add: dataToSignForHop_def dataToSign_def hop_data_def AddHop_hops h)
qed

lemma VerifyChain_AddHop:
  assumes "crypto_ok G" and "valid_keypair G kp" and "keys n = Some (PublicKey kp)"
    and "VerifyChain G keys wm = None" and "wm_Hops wm \<noteq> None"
  shows "VerifyChain G keys (AddHop G now n kp stamp wm) = None"
  unfolding VerifyChain_None
proof (intro allI impI)
  let ?wm = "AddHop G now n kp stamp wm"
  fix i assume "i < length (hops ?wm)"
  then consider (old) "i < length (hops wm)" | (new) "i = length (hops wm)" by (auto simp: AddHop_hops less_Suc_eq)
  then show "check_hop G keys ?wm i = None"
  proof cases
    case old
    then have "check_hop G keys wm i = None" using assms(4) by (simp add: VerifyChain_None)
    then show ?thesis
      using old dataToSignForHop_AddHop(1) [OF assms(5) old]
      by (auto simp: check_hop_def AddHop_hops nth_append Let_def split: option.splits if_splits)
  next
    case new
    have "VerifySignature G (PublicKey kp) (dataToSign G wm n) (KeypairSign G kp (dataToSign G wm n))"
      using assms(1,2) by simp
    then show ?thesis
      using new assms(1,3) dataToSignForHop_AddHop(2) [OF assms(5)]
      by (simp add: check_hop_def AddHop_hops SignBase64_def)
  qed
qed

section \<open>Routing\<close>

definition unvisited :: "NaraName set \<Rightarrow> WorldMessage \<Rightarrow> NaraName set" where
  "unvisited S wm = {n \<in> S. n \<noteq> wm_Originator wm \<and> \<not> HasVisited wm n}"

lemma finite_unvisited: "finite S \<Longrightarrow> finite (unvisited S wm)"
  by (simp add: unvisited_def)

lemma ChooseNextNara_cases:
  assumes "sort_algorithm (sort_perm G)" and "set online = S" and "n \<notin> unvisited S wm"
  obtains (visit) "ChooseNextNara G n wm clout online \<in> unvisited S wm"
  | (return) "unvisited S wm = {}" "n \<noteq> wm_Originator wm" "wm_Originator wm \<in> S"
      "ChooseNextNara G n wm clout online = wm_Originator wm"
  | (stuck) "unvisited S wm = {}" "n = wm_Originator wm \<or> wm_Originator wm \<notin> S" "ChooseNextNara G n wm clout online = []"
proof -
  let ?score = "\<lambda>n. case clout of None \<Rightarrow> 0 | Some m \<Rightarrow> (case m n of None \<Rightarrow> 0 | Some x \<Rightarrow> x)"
  let ?c = "map (\<lambda>n. (n, ?score n)) (filter (\<lambda>x. x \<noteq> n \<and> x \<noteq> wm_Originator wm \<and> \<not> HasVisited wm x) online)"
  have "fst ` set ?c = set (filter (\<lambda>x. x \<noteq> n \<and> x \<noteq> wm_Originator wm \<and> \<not> HasVisited wm x) online)"
    by (simp only: set_map image_image fst_conv image_ident)
  also have "\<dots> = unvisited S wm"
    using assms(2,3) unfolding unvisited_def set_filter by blast
  finally have u: "fst ` set ?c = unvisited S wm" .
  show thesis
  proof (cases "?c = []")
    case True
    then have e: "unvisited S wm = {}" using u by (metis image_empty list.set(1))
    show thesis
    proof (cases "n \<noteq> wm_Originator wm \<and> wm_Originator wm \<in> S")
      case True
      then show thesis using return e \<open>?c = []\<close> assms(2) by (simp add: ChooseNextNara_def)
    next
      case False
      then show thesis using stuck e \<open>?c = []\<close> assms(2) by (auto simp: ChooseNextNara_def)
    qed
  next
    case False
    define c where "c = ?c"
    let ?s = "sort_slice (sort_perm G) (\<lambda>a b. f64_gt (snd a) (snd b)) c"
    have "c \<noteq> []" unfolding c_def by (rule False)
    have uc: "fst ` set c = unvisited S wm" unfolding c_def by (rule u)
    have "length ?s = length c" and s: "set ?s = set c"
      using assms(1) by (simp_all only: sort_algorithm.length_sort_slice sort_algorithm.set_sort_slice)
    then have "?s \<noteq> []" using \<open>c \<noteq> []\<close> by (cases c) auto
    then have "hd ?s \<in> set c" using s hd_in_set by blast
    then have "fst (hd ?s) \<in> unvisited S wm" using uc by blast
    moreover have "ChooseNextNara G n wm clout online = fst (hd ?s)"
      using False unfolding c_def by (simp add: ChooseNextNara_def Let_def)
    ultimately show thesis using visit by simp
  qed
qed

section \<open>A network\<close>

text \<open>
  Every nara \<open>n\<close> has a handler \<open>net n\<close>. Its callbacks log which nara was passed or completed a
  journey, with the message; its relay hands the message to the nara that \<open>who\<close> finds behind the ID,
  and answers what that nara's handler returns. \<open>deliver\<close> has fuel, the depth of nested relays.
\<close>

type_synonym journey_log = "(NaraName \<times> bool \<times> WorldMessage) list"

definition node ::
  "(NaraID \<Rightarrow> WorldMessage \<Rightarrow> journey_log \<Rightarrow> journey_log \<times> bool) \<Rightarrow> (NaraName \<Rightarrow> journey_log WorldJourneyHandler)
   \<Rightarrow> NaraName \<Rightarrow> journey_log WorldJourneyHandler" where
  "node relay net n = (net n)\<lparr>wj_relay := relay,
     wj_onComplete := Some (\<lambda>wm log. (log @ [(n, True, wm)], Inr ())),
     wj_onJourneyPass := Some (\<lambda>wm log. (log @ [(n, False, wm)], Inr ()))\<rparr>"

primrec deliver ::
  "go_env \<Rightarrow> (NaraName \<Rightarrow> int) \<Rightarrow> (NaraName \<Rightarrow> journey_log WorldJourneyHandler) \<Rightarrow> (NaraID \<Rightarrow> NaraName option)
   \<Rightarrow> nat \<Rightarrow> NaraID \<Rightarrow> WorldMessage \<Rightarrow> journey_log \<Rightarrow> journey_log \<times> bool" where
  "deliver G clock net who 0 i wm log = (log, False)"
| "deliver G clock net who (Suc k) i wm log =
     (case who i of
        None \<Rightarrow> (log, False)
      | Some n \<Rightarrow> (case HandleIncoming G (clock n) (node (deliver G clock net who k) net n) wm log of
                    (log', Inr (wm', None)) \<Rightarrow> (log', True)
                  | (log', r) \<Rightarrow> (log', False)))"

definition agreeing_net ::
  "go_env \<Rightarrow> (NaraName \<Rightarrow> journey_log WorldJourneyHandler) \<Rightarrow> (NaraID \<Rightarrow> NaraName option)
   \<Rightarrow> (NaraName \<Rightarrow> string option) \<Rightarrow> NaraName set \<Rightarrow> bool" where
  \<comment> \<open>the members of \<open>S\<close> see each other online and can reach and verify each other\<close>
  "agreeing_net G net who keys S \<longleftrightarrow> [] \<notin> S \<and>
     (\<forall>n \<in> S. wj_name (net n) = n \<and> set (wj_getOnlineNaras (net n)) = S \<and> wj_getPublicKey (net n) = keys \<and>
        valid_keypair G (wj_keypair (net n)) \<and> keys n = Some (PublicKey (wj_keypair (net n))) \<and>
        (\<forall>m \<in> S. wj_resolveNaraID (net n) m \<noteq> [] \<and> who (wj_resolveNaraID (net n) m) = Some m))"

lemma agreeing_netD:
  assumes "agreeing_net G net who keys S" and "n \<in> S"
  shows "n \<noteq> []" "wj_name (net n) = n" "set (wj_getOnlineNaras (net n)) = S" "wj_getPublicKey (net n) = keys"
    "valid_keypair G (wj_keypair (net n))" "keys n = Some (PublicKey (wj_keypair (net n)))"
    "m \<in> S \<Longrightarrow> wj_resolveNaraID (net n) m \<noteq> []" "m \<in> S \<Longrightarrow> who (wj_resolveNaraID (net n) m) = Some m"
  using assms by (auto simp: agreeing_net_def)

lemma node_fields [simp]:
  "wj_name (node r net n) = wj_name (net n)" "wj_keypair (node r net n) = wj_keypair (net n)"
  "wj_getPublicKey (node r net n) = wj_getPublicKey (net n)"
  "wj_resolveNaraID (node r net n) = wj_resolveNaraID (net n)" "wj_relay (node r net n) = r"
  "wj_getMyClout (node r net n) = wj_getMyClout (net n)" "wj_getOnlineNaras (node r net n) = wj_getOnlineNaras (net n)"
  "run_callback (wj_onComplete (node r net n)) wm log = (log @ [(n, True, wm)], Inr ())"
  "run_callback (wj_onJourneyPass (node r net n)) wm log = (log @ [(n, False, wm)], Inr ())"
  by (simp_all add: node_def run_callback_def)

text \<open>A journey on its way: \<open>wm\<close> has been to distinct members other than the originator.\<close>

definition under_way :: "go_env \<Rightarrow> (NaraName \<Rightarrow> string option) \<Rightarrow> NaraName set \<Rightarrow> NaraName \<Rightarrow> WorldMessage \<Rightarrow> bool" where
  "under_way G keys S orig wm \<longleftrightarrow> VerifyChain G keys wm = None \<and> wm_Hops wm \<noteq> None \<and> wm_Originator wm = orig \<and>
     distinct (map wh_Nara (hops wm)) \<and> set (map wh_Nara (hops wm)) \<subseteq> S - {orig}"

text \<open>The rest of a journey: the log it adds.\<close>

definition completes ::
  "go_env \<Rightarrow> (NaraName \<Rightarrow> string option) \<Rightarrow> NaraName set \<Rightarrow> WorldMessage \<Rightarrow> journey_log \<Rightarrow> bool" where
  "completes G keys S wm log \<longleftrightarrow>
     (\<exists>passed final. log = map (\<lambda>(n, m). (n, False, m)) passed @ [(wm_Originator wm, True, final)] \<and>
        distinct (map fst passed) \<and> set (map fst passed) = unvisited S wm \<and>
        map wh_Nara (hops final) = map wh_Nara (hops wm) @ map fst passed @ [wm_Originator wm] \<and>
        VerifyChain G keys final = None \<and> wm_ID final = wm_ID wm \<and> wm_OriginalMessage final = wm_OriginalMessage wm \<and>
        wm_Originator final = wm_Originator wm)"

lemma unvisited_AddHop:
  "unvisited S (AddHop G now n kp stamp wm) = unvisited S wm - {n}"
  by (auto simp: unvisited_def HasVisited_iff)

lemma deliver_returns:
  assumes "crypto_ok G" and "agreeing_net G net who keys S" and "under_way G keys S orig wm"
    and "orig \<in> S" and "unvisited S wm = {}" and "who i = Some orig"
  shows "\<exists>L. deliver G clock net who (Suc k) i wm log = (log @ L, True) \<and> completes G keys S wm L"
proof -
  note u = assms(3) [unfolded under_way_def] and net = agreeing_netD [OF assms(2,4)]
  let ?wm = "AddHop G (clock orig) orig (wj_keypair (net orig)) (pickStamp wm) wm"
  have "VerifyChain G keys ?wm = None"
    using u by (intro VerifyChain_AddHop assms(1) net) simp_all
  then have "completes G keys S wm [(orig, True, ?wm)]"
    unfolding completes_def using u assms(5) by (intro exI [of _ "[]"] exI [of _ ?wm]) simp
  then show ?thesis
    using u net assms(6) by (intro exI [of _ "[(orig, True, ?wm)]"]) (simp add: HandleIncoming_def Let_def)
qed

lemma completes_step:
  assumes "completes G keys S (AddHop G0 now n kp stamp wm) L" and "n \<in> unvisited S wm"
  shows "completes G keys S wm ((n, False, AddHop G0 now n kp stamp wm) # L)"
proof -
  let ?wm = "AddHop G0 now n kp stamp wm"
  obtain passed final where p: "L = map (\<lambda>(n, m). (n, False, m)) passed @ [(wm_Originator wm, True, final)]"
    "distinct (map fst passed)" "set (map fst passed) = unvisited S wm - {n}"
    "map wh_Nara (hops final) = map wh_Nara (hops wm) @ n # map fst passed @ [wm_Originator wm]"
    "VerifyChain G keys final = None" "wm_ID final = wm_ID wm" "wm_OriginalMessage final = wm_OriginalMessage wm"
    "wm_Originator final = wm_Originator wm"
    using assms(1) by (auto simp: completes_def unvisited_AddHop)
  show ?thesis
    unfolding completes_def
  proof (intro exI conjI)
    show "(n, False, ?wm) # L = map (\<lambda>(n, m). (n, False, m)) ((n, ?wm) # passed) @ [(wm_Originator wm, True, final)]"
      by (simp add: p(1))
    show "distinct (map fst ((n, ?wm) # passed))" using p(2,3) by simp
    show "set (map fst ((n, ?wm) # passed)) = unvisited S wm" using p(3) assms(2) by auto
    show "map wh_Nara (hops final) = map wh_Nara (hops wm) @ map fst ((n, ?wm) # passed) @ [wm_Originator wm]"
      by (simp add: p(4))
  qed (use p in simp_all)
qed

lemma deliver_completes:
  assumes "crypto_ok G" and "sort_algorithm (sort_perm G)" and "agreeing_net G net who keys S" and "finite S" and "orig \<in> S"
  shows "under_way G keys S orig wm \<Longrightarrow> n \<in> unvisited S wm \<Longrightarrow> who i = Some n \<Longrightarrow> card (unvisited S wm) \<le> k \<Longrightarrow>
    \<exists>L. deliver G clock net who (Suc k) i wm log = (log @ L, True) \<and> completes G keys S wm L"
proof (induction k arbitrary: wm n i log)
  case 0
  then show ?case using finite_unvisited [OF assms(4), of wm] by auto
next
  case (Suc k)
  note u = Suc.prems(1) [unfolded under_way_def]
  have n: "n \<in> S" "n \<noteq> orig" "\<not> HasVisited wm n" using Suc.prems(2) u by (auto simp: unvisited_def)
  note net = agreeing_netD [OF assms(3) n(1)]
  let ?relay = "deliver G clock net who (Suc k)"
  let ?wm = "AddHop G (clock n) n (wj_keypair (net n)) (pickStamp wm) wm"
  let ?log = "log @ [(n, False, ?wm)]" and ?next = "chooseNext G (node ?relay net n) ?wm"
  have v: "VerifyChain G keys ?wm = None"
    using u by (intro VerifyChain_AddHop assms(1) net) simp_all
  then have w: "under_way G keys S orig ?wm"
    using u n by (simp add: under_way_def HasVisited_iff)
  have e: "unvisited S ?wm = unvisited S wm - {n}" by (rule unvisited_AddHop)
  have "\<exists>m. ?next = m \<and> m \<in> S \<and> (\<exists>L. ?relay (wj_resolveNaraID (net n) m) ?wm ?log = (?log @ L, True) \<and> completes G keys S ?wm L)"
  proof (rule ChooseNextNara_cases [OF assms(2) net(3), of n ?wm])
    show "n \<notin> unvisited S ?wm" by (simp add: e)
  next
    assume c: "ChooseNextNara G n ?wm (wj_getMyClout (net n)) (wj_getOnlineNaras (net n)) \<in> unvisited S ?wm"
    then have m: "?next \<in> unvisited S ?wm" using net by (simp add: chooseNext_def)
    then have mS: "?next \<in> S" by (simp add: unvisited_def)
    have "card (unvisited S ?wm) \<le> k"
      using Suc.prems(2,4) finite_unvisited [OF assms(4)] by (simp add: e)
    then show ?thesis using Suc.IH [OF w m net(8) [OF mS]] mS by blast
  next
    assume c: "unvisited S ?wm = {}" "ChooseNextNara G n ?wm (wj_getMyClout (net n)) (wj_getOnlineNaras (net n)) = wm_Originator ?wm"
    then have m: "?next = orig" using net u by (simp add: chooseNext_def)
    show ?thesis
      using deliver_returns [OF assms(1,3) w assms(5) c(1) net(8) [OF assms(5)]] assms(5) m by metis
  next
    assume "unvisited S ?wm = {}" "n = wm_Originator ?wm \<or> wm_Originator ?wm \<notin> S"
    then show ?thesis using n u assms(5) by auto
  qed
  then obtain m L where m: "?next = m" "m \<in> S" "?relay (wj_resolveNaraID (net n) m) ?wm ?log = (?log @ L, True)"
    "completes G keys S ?wm L" by blast
  have "HandleIncoming G (clock n) (node ?relay net n) wm log = (?log @ L, Inr (?wm, None))"
    using u n net m agreeing_netD(1) [OF assms(3) m(2)]
    by (simp add: HandleIncoming_def Let_def sendToNara_def)
  moreover have "completes G keys S wm ((n, False, ?wm) # L)"
    using m(4) Suc.prems(2) by (rule completes_step)
  ultimately show ?case
    using Suc.prems(3) by (intro exI [of _ "(n, False, ?wm) # L"]) simp
qed

section \<open>Rewards\<close>

lemma rewards_fold:
  "foldl (\<lambda>m h. if wh_Nara h \<noteq> orig then m(wh_Nara h \<mapsto> 2) else m) r hs n =
     (if n \<noteq> orig \<and> n \<in> wh_Nara ` set hs then Some 2 else r n)" for r :: "NaraName \<rightharpoonup> int"
  by (induction hs arbitrary: r) auto

lemma CalculateWorldRewards_eq:
  "IsComplete wm \<Longrightarrow> CalculateWorldRewards wm n =
     (if n = wm_Originator wm then Some 10 else if n \<in> set (map wh_Nara (hops wm)) then Some 2 else None)"
  by (simp add: CalculateWorldRewards_def rewards_fold)

section \<open>Properties\<close>

text \<open>
  C28: a journey ends where it began. In a network whose members see each other online, can reach
  each other and know each other's keys, whatever clout they give each other and in whatever order
  they list each other, a journey that one of them starts passes every other member exactly once
  and then completes at the originator, with nested relays no deeper than the number of members;
  its chain of hops verifies, carries the message, and rewards the originator with 10 and each of
  the others with 2.
\<close>

theorem journey_completes:
  assumes "crypto_ok G" and "sort_algorithm (sort_perm G)" and "agreeing_net G net who keys S"
    and "finite S" and "orig \<in> S" and "S \<noteq> {orig}"
  shows "\<exists>passed final.
     StartJourney G nowNano (node (deliver G clock net who (card S)) net orig) message log =
       (log @ map (\<lambda>(n, m). (n, False, m)) passed @ [(orig, True, final)], Inr (NewWorldMessage G nowNano message orig)) \<and>
     distinct (map fst passed) \<and> set (map fst passed) = S - {orig} \<and>
     map wh_Nara (hops final) = map fst passed @ [orig] \<and> VerifyChain G keys final = None \<and>
     wm_OriginalMessage final = message \<and>
     CalculateWorldRewards final = (\<lambda>n. if n = orig then Some 10 else if n \<in> S then Some 2 else None)"
proof -
  let ?wm = "NewWorldMessage G nowNano message orig" and ?h = "node (deliver G clock net who (card S)) net orig"
  note net = agreeing_netD [OF assms(3,5)]
  have wm: "hops ?wm = []" "wm_Originator ?wm = orig" "wm_OriginalMessage ?wm = message" "wm_Hops ?wm = Some []"
    by (simp_all add: NewWorldMessage_def hops_def)
  then have way: "under_way G keys S orig ?wm" and u: "unvisited S ?wm = S - {orig}"
    by (auto simp: under_way_def VerifyChain_None unvisited_def HasVisited_iff)
  have "\<exists>k. card S = Suc k \<and> card (unvisited S ?wm) \<le> k"
    using card.remove [OF assms(4,5)] by (intro exI [of _ "card (S - {orig})"]) (simp add: u)
  then obtain k where k: "card S = Suc k" "card (unvisited S ?wm) \<le> k" by blast
  have "chooseNext G ?h ?wm \<in> unvisited S ?wm"
    unfolding chooseNext_def
    by (rule ChooseNextNara_cases [OF assms(2) net(3), of orig ?wm "wj_getMyClout ?h"])
      (use assms(5,6) net u in auto)
  then obtain n where n: "chooseNext G ?h ?wm = n" "n \<in> unvisited S ?wm" "n \<in> S" by (auto simp: u)
  obtain L where L: "deliver G clock net who (Suc k) (wj_resolveNaraID (net orig) n) ?wm log = (log @ L, True)"
    "completes G keys S ?wm L"
    using deliver_completes [OF assms(1-5) way n(2) net(8) [OF n(3)] k(2)] by blast
  then obtain passed final where p: "L = map (\<lambda>(n, m). (n, False, m)) passed @ [(orig, True, final)]"
    "distinct (map fst passed)" "set (map fst passed) = S - {orig}"
    "map wh_Nara (hops final) = map fst passed @ [orig]" "VerifyChain G keys final = None"
    "wm_OriginalMessage final = message" "wm_Originator final = orig"
    unfolding completes_def u wm by auto
  have "hops final \<noteq> []" using p(4) by auto
  moreover have "last (map wh_Nara (hops final)) = orig" using p(4) by simp
  ultimately have "IsComplete final" using p(7) by (simp add: IsComplete_def last_map)
  then have "CalculateWorldRewards final m = (if m = orig then Some 10 else if m \<in> S then Some 2 else None)" for m
    using p(3,4,7) by (auto simp: CalculateWorldRewards_eq simp del: set_map)
  moreover have "StartJourney G nowNano ?h message log = (log @ L, Inr ?wm)"
    using n(1) L(1) k(1) net(2) net(7) [OF n(3)] agreeing_netD(1) [OF assms(3) n(3)]
    by (simp add: StartJourney_def sendToNara_def Let_def)
  ultimately show ?thesis
    using p by (intro exI [of _ passed] exI [of _ final]) (simp add: fun_eq_iff del: set_map)
qed

definition demo_net :: "NaraName \<Rightarrow> journey_log WorldJourneyHandler" where
  "demo_net n = \<lparr>wj_name = n, wj_keypair = demo_keypair (hd n), wj_getMyClout = None,
     wj_getOnlineNaras = [''a'', ''b''], wj_getPublicKey = (\<lambda>n. Some (PublicKey (demo_keypair (hd n)))),
     wj_resolveNaraID = (\<lambda>n. n), wj_relay = (\<lambda>i wm log. (log, False)), wj_onComplete = None, wj_onJourneyPass = None\<rparr>"

lemma demo_net_agrees:
  "agreeing_net demo_env demo_net Some (\<lambda>n. Some (PublicKey (demo_keypair (hd n)))) {''a'', ''b''}"
  by (auto simp: agreeing_net_def demo_net_def valid_keypair_demo)

theorem journey_completes_witness:
  "\<exists>m final. fst (StartJourney demo_env 5 (node (deliver demo_env (\<lambda>n. 7) demo_net Some 2) demo_net ''a'') ''hi'' []) =
     [(''b'', False, m), (''a'', True, final)] \<and> map wh_Nara (hops final) = [''b'', ''a'']"
proof -
  let ?S = "{''a'', ''b''}" and ?start = "StartJourney demo_env 5 (node (deliver demo_env (\<lambda>n. 7) demo_net Some 2) demo_net ''a'') ''hi'' []"
  have S: "card ?S = 2" "finite ?S" "''a'' \<in> ?S" "?S \<noteq> {''a''}" "?S - {''a''} = {''b''}" by auto
  note j = journey_completes [OF crypto_ok_demo sort_algorithm_demo demo_net_agrees S(2-4), where nowNano = 5 and clock = "\<lambda>n. 7"
      and message = "''hi''" and log = "[]", unfolded S(1,5)]
  obtain passed final where st: "?start = ([] @ map (\<lambda>(n, m). (n, False, m)) passed @ [(''a'', True, final)],
      Inr (NewWorldMessage demo_env 5 ''hi'' ''a''))"
    and p: "distinct (map fst passed)" "set (map fst passed) = {''b''}" "map wh_Nara (hops final) = map fst passed @ [''a'']"
    using j by blast
  have "length (map fst passed) = 1" using p(1,2) distinct_card [of "map fst passed"] by simp
  then obtain m where m: "passed = [(''b'', m)]" using p(2) by (cases passed) auto
  have "fst ?start = [(''b'', False, m), (''a'', True, final)]" unfolding st m by simp
  then show ?thesis using p(3) unfolding m by auto
qed

end
