(* ===== verification/Event_Typing.thy ===== *)
theory Event_Typing
  imports Ledger_Properties Checkpoint_Derive
begin

text \<open>
  The constructors of \<open>sync_event.go\<close> and \<open>checkpoint_types.go\<close> as typing rules: which events the
  program makes itself, that their pointers fit their service, and what signing and converting
  them preserves.
\<close>

section \<open>Well-typed events\<close>

text \<open>The pointer of the service is set, and no other.\<close>

definition well_typed :: "SyncEvent \<Rightarrow> bool" where
  "well_typed e \<longleftrightarrow>
     [Social e \<noteq> None, Ping e \<noteq> None, Observation e \<noteq> None, HeyThere e \<noteq> None, Chau e \<noteq> None,
       Seen e \<noteq> None, Checkpoint e \<noteq> None] =
     [Service e = ServiceSocial, Service e = ServicePing, Service e = ServiceObservation, Service e = ServiceHeyThere,
       Service e = ServiceChau, Service e = ServiceSeen, Service e = ServiceCheckpoint] \<and>
     Service e \<in> {ServiceSocial, ServicePing, ServiceObservation, ServiceHeyThere, ServiceChau, ServiceSeen, ServiceCheckpoint}"

text \<open>The ID is the hash of the content.\<close>

definition id_current :: "go_env \<Rightarrow> SyncEvent \<Rightarrow> bool" where
  "id_current G e \<longleftrightarrow> ComputeID G e = Inr e"

lemma ID_update_same [simp]: "ID e = i \<Longrightarrow> e\<lparr>ID := i\<rparr> = e"
  by (cases e) simp

lemma id_input_update [simp]:
  "id_input (e\<lparr>ID := i\<rparr>) = id_input e" "id_input (e\<lparr>Emitter := n\<rparr>) = id_input e"
  "id_input (e\<lparr>Signature := s\<rparr>) = id_input e"
  by (simp_all add: id_input_def)

lemma id_current_iff: "id_current G e \<longleftrightarrow> (\<exists>s. id_input e = Inr s \<and> ID e = fmt_hex (take 16 (sha256 G s)))"
proof -
  have "e = e\<lparr>ID := i\<rparr> \<longleftrightarrow> ID e = i" for i by (cases e) auto
  then show ?thesis by (auto simp: id_current_def ComputeID_Inr)
qed

lemma id_current_ComputeID: "ComputeID G e = Inr e' \<Longrightarrow> id_current G e'"
  by (auto simp: ComputeID_Inr id_current_iff)

lemma id_current_Sign: "event_Sign G emitter kp e = Inr e' \<Longrightarrow> id_current G e \<Longrightarrow> id_current G e'"
  by (auto simp: event_Sign_def Let_def go_bind_eq_Inr id_current_iff)

lemma well_typed_update [simp]:
  "well_typed (e\<lparr>ID := i\<rparr>) = well_typed e" "well_typed (e\<lparr>Emitter := n\<rparr>) = well_typed e"
  "well_typed (e\<lparr>Signature := s\<rparr>) = well_typed e"
  by (cases e, simp only: well_typed_def SyncEvent.simps)+

lemma well_typed_ComputeID: "ComputeID G e = Inr e' \<Longrightarrow> well_typed e \<Longrightarrow> well_typed e'"
  by (auto simp: ComputeID_Inr)

lemma well_typed_Sign: "event_Sign G emitter kp e = Inr e' \<Longrightarrow> well_typed e \<Longrightarrow> well_typed e'"
  by (auto simp: event_Sign_def Let_def go_bind_eq_Inr)

lemma well_typed_has_payload: "well_typed e \<Longrightarrow> has_payload e"
  by (simp add: well_typed_def has_payload_def Payload_def)

section \<open>The events the program makes\<close>

lemmas service_defs = ServiceSocial_def ServicePing_def ServiceObservation_def ServiceHeyThere_def
  ServiceChau_def ServiceSeen_def ServiceCheckpoint_def

lemma well_typed_literals:
  "well_typed (zero_event\<lparr>Timestamp := t, Service := ServiceSocial, Social := Some sp\<rparr>)"
  "well_typed (zero_event\<lparr>Timestamp := t, Service := ServicePing, Ping := Some pg\<rparr>)"
  "well_typed (zero_event\<lparr>Timestamp := t, Service := ServiceObservation, Observation := Some ob\<rparr>)"
  "well_typed (zero_event\<lparr>Timestamp := t, Service := ServiceHeyThere, HeyThere := Some ht\<rparr>)"
  "well_typed (zero_event\<lparr>Timestamp := t, Service := ServiceChau, Chau := Some ch\<rparr>)"
  "well_typed (zero_event\<lparr>Timestamp := t, Service := ServiceSeen, Seen := Some se\<rparr>)"
  "well_typed (zero_event\<lparr>Timestamp := t, Service := ServiceCheckpoint, Checkpoint := Some cp\<rparr>)"
  by (simp_all add: well_typed_def zero_event_def service_defs)

text \<open>Every call of a constructor, with what it returns.\<close>

inductive constructed :: "go_env \<Rightarrow> SyncEvent go \<Rightarrow> bool" for G where
  new_social: "constructed G (NewSocialSyncEvent G now ty actor target reason witness)"
| new_ping: "constructed G (NewPingSyncEvent G now observer target rtt)"
| new_restart: "constructed G (NewRestartObservationEvent G now nowSec observer subject start num)"
| new_restart_uptime: "constructed G (NewRestartObservationEventWithUptime G now nowSec observer subject start num up)"
| new_restart_ids: "constructed G (NewRestartObservationEventWithIDs G now nowSec observer oid subject sid start num)"
| new_first_seen: "constructed G (NewFirstSeenObservationEvent G now observer subject start)"
| new_first_seen_ids: "constructed G (NewFirstSeenObservationEventWithIDs G now observer oid subject sid start)"
| new_status: "constructed G (NewStatusChangeObservationEvent G now observer subject state)"
| new_status_ids: "constructed G (NewStatusChangeObservationEventWithIDs G now observer oid subject sid state)"
| new_backfill: "constructed G (NewBackfillObservationEvent G now observer subject start num lst)"
| new_seen: "constructed G (NewSeenSyncEvent G now observer subject via kp)"
| new_seen_ids: "constructed G (NewSeenSyncEventWithIDs G now observer oid subject sid via kp)"
| new_tease: "constructed G (NewTeaseSyncEvent G now actor target reason kp)"
| new_tease_ids: "constructed G (NewTeaseSyncEventWithIDs G now actor aid target tid reason kp)"
| new_hey_there: "constructed G (NewHeyThereSyncEvent G now name pk ip i kp)"
| new_chau: "constructed G (NewChauSyncEvent G now name pk i kp)"
| new_observation: "constructed G (NewObservationSocialSyncEvent G now actor target reason kp)"
| new_journey: "constructed G (NewJourneyObservationSyncEvent G now observer orig reason i kp)"
| new_signed_ping: "constructed G (NewSignedPingSyncEvent G now observer target rtt emitter kp)"
| new_legacy: "constructed G (SyncEventFromSocialEvent G s)"
| new_checkpoint: "constructed G (NewCheckpointEvent G now subject asof fs restarts uptime)"

inductive_cases constructedE: "constructed G r"

lemmas constructors = NewSocialSyncEvent_def NewPingSyncEvent_def observation_event_def
  NewRestartObservationEvent_def NewRestartObservationEventWithUptime_def NewRestartObservationEventWithIDs_def
  NewFirstSeenObservationEvent_def NewFirstSeenObservationEventWithIDs_def NewStatusChangeObservationEvent_def
  NewStatusChangeObservationEventWithIDs_def NewBackfillObservationEvent_def NewSeenSyncEvent_def
  NewSeenSyncEventWithIDs_def NewTeaseSyncEvent_def NewTeaseSyncEventWithIDs_def NewHeyThereSyncEvent_def
  NewChauSyncEvent_def NewObservationSocialSyncEvent_def NewJourneyObservationSyncEvent_def
  NewSignedSocialSyncEvent_def NewSignedPingSyncEvent_def SyncEventFromSocialEvent_def NewCheckpointEvent_def

text \<open>Every constructor is a literal, hashed and possibly signed.\<close>

lemma computed_typed: "well_typed e0 \<Longrightarrow> \<exists>e. ComputeID G e0 = Inr e \<and> well_typed e \<and> id_current G e"
  using ComputeID_total well_typed_has_payload id_current_ComputeID well_typed_ComputeID by blast

lemma event_Sign_total: "has_payload e \<Longrightarrow> \<exists>e'. event_Sign G emitter kp e = Inr e'"
  using payload_bytes_total [of "e\<lparr>Emitter := emitter\<rparr>"]
  by (auto simp: event_Sign_def signableData_def Let_def has_payload_def)

lemma signed_typed:
  assumes "well_typed e0"
  shows "\<exists>e. go_bind (ComputeID G e0) (event_Sign G emitter kp) = Inr e \<and> well_typed e \<and> id_current G e"
proof -
  obtain e1 where e1: "ComputeID G e0 = Inr e1" "well_typed e1" "id_current G e1"
    using computed_typed [OF assms] by blast
  obtain e where "event_Sign G emitter kp e1 = Inr e" using event_Sign_total well_typed_has_payload [OF e1(2)] by blast
  then show ?thesis using e1 by (auto intro: id_current_Sign well_typed_Sign)
qed

lemma constructed_typed: "constructed G r \<Longrightarrow> \<exists>e. r = Inr e \<and> well_typed e \<and> id_current G e"
  by (erule constructedE; simp only: constructors;
      (rule computed_typed | rule signed_typed), rule well_typed_literals)

section \<open>Properties\<close>

text \<open>
  C29: constructors are well typed. Whatever its arguments, every constructor returns; the event's
  pointers are exactly the one its service promises, its ID is the hash of its content, its actor
  and target can be read, and no ledger panics when it is added.
\<close>

theorem constructed_events_typed:
  assumes "constructed G r"
  shows "\<exists>e. r = Inr e \<and> well_typed e \<and> ComputeID G e = Inr e \<and>
     (\<exists>a t. GetActor e = Inr a \<and> GetTarget e = Inr t) \<and>
     (\<forall>l. \<exists>ok l' calls. AddEvent G e l = Inr (ok, l', calls))"
proof -
  obtain e where e: "r = Inr e" "well_typed e" "id_current G e" using constructed_typed [OF assms] by blast
  have h: "has_payload e" using e(2) by (rule well_typed_has_payload)
  have "\<exists>ok l' calls. AddEvent G e l = Inr (ok, l', calls)" for l
    using AddEvent_present [OF h, of G l] by (metis surj_pair)
  then show ?thesis
    using e GetActor_total [OF h] GetTarget_total [OF h] by (auto simp: id_current_def)
qed

theorem constructed_events_typed_witness:
  "\<exists>e. NewTeaseSyncEvent demo_env 5 ''a'' ''b'' ''random'' (demo_keypair CHR ''k'') = Inr e \<and> Service e = ServiceSocial \<and> well_typed e"
proof -
  obtain e where "NewTeaseSyncEvent demo_env 5 ''a'' ''b'' ''random'' (demo_keypair CHR ''k'') = Inr e" "well_typed e"
    using constructed_events_typed [OF new_tease [of demo_env 5 "''a''" "''b''" "''random''" "demo_keypair CHR ''k''"]] by blast
  moreover from this have "Service e = ServiceSocial"
    by (auto simp: constructors go_bind_eq_Inr ComputeID_Inr event_Sign_def Let_def)
  ultimately show ?thesis by blast
qed

text \<open>
  a signed event verifies. Signing any well-typed event returns an event whose signature
  verifies under the signer's public key; \<open>Verify\<close> accepts it when the lookup knows that key for
  the emitter, and for \<open>hey_there\<close> and \<open>chau\<close> when the event itself carries it.
\<close>

theorem signed_event_verifies:
  assumes "crypto_ok G" and "valid_keypair G kp" and "well_typed e" and "emitter \<noteq> []"
  shows "\<exists>e'. event_Sign G emitter kp e = Inr e' \<and> VerifyWithKey G e' (Some (PublicKey kp)) = Inr True \<and>
     (\<forall>lookup. Service e \<notin> {ServiceHeyThere, ServiceChau, ServiceCheckpoint} \<and>
        lookup (EmitterID e) emitter = Some (PublicKey kp) \<longrightarrow> event_Verify G e' (Some lookup) = Inr True) \<and>
     (\<forall>h lookup. Service e = ServiceHeyThere \<and> HeyThere e = Some h \<and>
        ht_PublicKey h = FormatPublicKey G (PublicKey kp) \<longrightarrow> event_Verify G e' lookup = Inr True) \<and>
     (\<forall>c lookup. Service e = ServiceChau \<and> Chau e = Some c \<and>
        ch_PublicKey c = FormatPublicKey G (PublicKey kp) \<longrightarrow> event_Verify G e' lookup = Inr True)"
proof -
  obtain e' where s: "event_Sign G emitter kp e = Inr e'"
    using event_Sign_total well_typed_has_payload [OF assms(3)] by blast
  then obtain d where e': "e' = e\<lparr>Emitter := emitter, Signature := SignBase64 G kp d\<rparr>"
    and d: "signableData G (e\<lparr>Emitter := emitter\<rparr>) = Inr d"
    by (auto simp: event_Sign_def Let_def go_bind_eq_Inr)
  have signed: "IsSigned e'" using assms(1,4) by (simp add: IsSigned_def e')
  have f: "Payload e' = Payload e" "Emitter e' = emitter" "EmitterID e' = EmitterID e"
    by (simp_all add: e')
  have v: "VerifyWithKey G e' (Some (PublicKey kp)) = Inr True"
    using assms(1,2) signed d by (simp add: VerifyWithKey_def SignBase64_def e')
  have k: "FormatPublicKey G (PublicKey kp) \<noteq> []" "ParsePublicKey G (FormatPublicKey G (PublicKey kp)) = Some (PublicKey kp)"
  proof -
    have "length (PublicKey kp) = PublicKeySize" using assms(2) by (simp add: valid_keypair_def)
    moreover from this have "PublicKey kp \<noteq> []" by (auto simp: PublicKeySize_def)
    ultimately show "FormatPublicKey G (PublicKey kp) \<noteq> []"
      "ParsePublicKey G (FormatPublicKey G (PublicKey kp)) = Some (PublicKey kp)"
      using assms(1) by (simp_all add: FormatPublicKey_def crypto_ok_def ParsePublicKey_def)
  qed
  have "event_Verify G e' (Some lookup) = Inr True"
    if "Service e \<notin> {ServiceHeyThere, ServiceChau, ServiceCheckpoint}" "lookup (EmitterID e) emitter = Some (PublicKey kp)" for lookup
  proof -
    have "Service e \<in> {ServiceSocial, ServicePing, ServiceObservation, ServiceSeen}"
      using assms(3) that(1) by (auto simp: well_typed_def)
    then obtain p where "Payload e = Some p" "payload_VerifySignature G p e' (Some lookup) = DefaultVerifySignature G e' (Some lookup)"
      by (auto simp: Payload_def service_defs)
    then show ?thesis using signed v that(2) by (simp add: event_Verify_def f DefaultVerifySignature_def)
  qed
  moreover have "event_Verify G e' lookup = Inr True"
    if "Service e = ServiceHeyThere" "HeyThere e = Some h" "ht_PublicKey h = FormatPublicKey G (PublicKey kp)" for h lookup
  proof -
    have "Payload e = Some (PHeyThere (Some h))" using that by (simp add: Payload_def service_defs)
    then show ?thesis using that k signed v by (simp add: event_Verify_def f embedded_key_verify_def)
  qed
  moreover have "event_Verify G e' lookup = Inr True"
    if "Service e = ServiceChau" "Chau e = Some c" "ch_PublicKey c = FormatPublicKey G (PublicKey kp)" for c lookup
  proof -
    have "Payload e = Some (PChau (Some c))" using that by (simp add: Payload_def service_defs)
    then show ?thesis using that k signed v by (simp add: event_Verify_def f embedded_key_verify_def)
  qed
  ultimately show ?thesis using s v by blast
qed

theorem signed_event_verifies_witness:
  "\<exists>e'. event_Sign demo_env ''a'' (demo_keypair CHR ''k'')
        (zero_event\<lparr>Timestamp := 5, Service := ServiceChau,
           Chau := Some \<lparr>ch_From = ''a'', ch_PublicKey = replicate 32 CHR ''k'', ch_ID = [], ch_Signature = []\<rparr>\<rparr>) = Inr e' \<and>
     event_Verify demo_env e' None = Inr True"
proof -
  let ?c = "\<lparr>ch_From = ''a'', ch_PublicKey = replicate 32 CHR ''k'', ch_ID = [], ch_Signature = []\<rparr>"
  let ?e = "zero_event\<lparr>Timestamp := 5, Service := ServiceChau, Chau := Some ?c\<rparr>"
  have "ch_PublicKey ?c = FormatPublicKey demo_env (PublicKey (demo_keypair CHR ''k''))"
    by (simp add: FormatPublicKey_def demo_keypair_def)
  moreover have "Service ?e = ServiceChau" "Chau ?e = Some ?c" "''a'' \<noteq> []" by simp_all
  ultimately show ?thesis
    using signed_event_verifies [OF crypto_ok_demo valid_keypair_demo well_typed_literals(5), where emitter = "''a''"] by blast
qed

text \<open>
  converting a legacy social event keeps what it says. The sync event made from it converts back
  to the same event, except that its ID is the new hash and its signature is gone.
\<close>

theorem social_event_roundtrip:
  "\<exists>e. SyncEventFromSocialEvent G s = Inr e \<and> ToSocialEvent e = Some (s\<lparr>soc_ID := ID e, soc_Signature := []\<rparr>) \<and>
     Service e = ServiceSocial \<and> \<not> IsSigned e"
  by (cases s) (simp add: SyncEventFromSocialEvent_def ComputeID_def id_input_def payload_bytes_def Payload_def
      ToSocialEvent_def IsSigned_def zero_event_def zero_social_def)

end
