(* ===== verification/Buzz.thy ===== *)
theory Buzz
  imports Prelude
begin

text \<open>The buzz counter of \<open>social_buzz.go\<close>: it goes up to 182 and down to 0.\<close>

definition BuzzMax :: int where "BuzzMax = 182"
definition BuzzMin :: int where "BuzzMin = 0"

definition newBuzz :: int where "newBuzz = 100"

definition buzz_increase :: "int \<Rightarrow> int \<Rightarrow> int" where
  "buzz_increase howMuch n = (let c = i64 (n + howMuch) in if c > BuzzMax then BuzzMax else c)"

definition buzz_decrease :: "int \<Rightarrow> int \<Rightarrow> int" where
  "buzz_decrease howMuch n = (let c = i64 (n - howMuch) in if c < BuzzMin then BuzzMin else c)"

end
