(* ===== verification/World_Network.thy ===== *)
theory World_Network
  imports World_Properties Event_Typing Buzz
begin

text \<open>
  \<open>world_network.go\<close>: what a nara does when a journey completes, passes through, is reported
  complete by another, or times out.
  The listeners that the ledger notifies are not followed here.
\<close>

record PendingJourney =
  pj_JourneyID :: string
  pj_Originator :: NaraName
  pj_SeenAt :: int
  pj_Message :: string

record JourneyCompletion =
  jc_JourneyID :: string
  jc_Originator :: NaraName
  jc_ReportedBy :: NaraName
  jc_Message :: string
  jc_Hops :: "WorldHop list"

record world_env =
  we_name :: NaraName
  we_keypair :: NaraKeypair
  we_personality :: NaraPersonality
  we_readOnly :: bool

record world_state =
  worldJourneys :: "WorldMessage list"
  pendingJourneys :: "string \<rightharpoonup> PendingJourney"
  ws_ledger :: "SyncLedger option"
  ws_buzz :: int
  ws_posted :: "JourneyCompletion list"

definition record_journey ::
  "go_env \<Rightarrow> world_env \<Rightarrow> int \<Rightarrow> NaraName \<Rightarrow> string \<Rightarrow> string \<Rightarrow> world_state \<Rightarrow> world_state \<times> unit go" where
  \<comment> \<open>the observation event about the originator, if there is a ledger\<close>
  "record_journey G E nowNano originator reason journeyID st =
     (case ws_ledger st of
        None \<Rightarrow> (st, Inr ())
      | Some l \<Rightarrow>
          (case go_bind (NewJourneyObservationSyncEvent G nowNano (we_name E) originator reason journeyID (we_keypair E))
                  (\<lambda>e. AddSocialEventFiltered G e (we_personality E) l) of
             Inl p \<Rightarrow> (st, Inl p)
           | Inr (ok, l', calls) \<Rightarrow> (st\<lparr>ws_ledger := Some l'\<rparr>, Inr ())))"

text \<open>\<open>id[:8]\<close> in a log line.\<close>

definition short_id :: "string \<Rightarrow> string go" where
  "short_id i = (if length i < 8 then Inl IndexOutOfRange else Inr (take 8 i))"

definition onWorldJourneyComplete ::
  "go_env \<Rightarrow> world_env \<Rightarrow> int \<Rightarrow> WorldMessage \<Rightarrow> world_state \<Rightarrow> world_state \<times> unit go" where
  "onWorldJourneyComplete G E nowNano wm st =
     (let js = worldJourneys st @ [wm];
          js' = (if length js > 100 then drop (length js - 100) js else js)
      in case record_journey G E nowNano (wm_Originator wm) ReasonJourneyComplete (wm_ID wm) (st\<lparr>worldJourneys := js'\<rparr>) of
           (st1, Inl p) \<Rightarrow> (st1, Inl p)
         | (st1, Inr u) \<Rightarrow>
             let st2 = st1\<lparr>pendingJourneys := (pendingJourneys st1)(wm_ID wm := None)\<rparr>;
                 st3 = (if we_readOnly E then st2
                        else st2\<lparr>ws_posted := ws_posted st2 @
                          [\<lparr>jc_JourneyID = wm_ID wm, jc_Originator = wm_Originator wm, jc_ReportedBy = we_name E,
                            jc_Message = wm_OriginalMessage wm, jc_Hops = hops wm\<rparr>]\<rparr>)
             in (st3\<lparr>ws_buzz := buzz_increase 10 (ws_buzz st3)\<rparr>, Inr ()))"

definition onWorldJourneyPassThrough ::
  "go_env \<Rightarrow> world_env \<Rightarrow> int \<Rightarrow> int \<Rightarrow> WorldMessage \<Rightarrow> world_state \<Rightarrow> world_state \<times> unit go" where
  "onWorldJourneyPassThrough G E now nowNano wm st =
     (let st1 = st\<lparr>pendingJourneys := (pendingJourneys st)(wm_ID wm \<mapsto>
                    \<lparr>pj_JourneyID = wm_ID wm, pj_Originator = wm_Originator wm, pj_SeenAt = now,
                     pj_Message = wm_OriginalMessage wm\<rparr>)\<rparr>
      in case record_journey G E nowNano (wm_Originator wm) ReasonJourneyPass (wm_ID wm) st1 of
           (st2, Inl p) \<Rightarrow> (st2, Inl p)
         | (st2, Inr u) \<Rightarrow>
             (case short_id (wm_ID wm) of
                Inl p \<Rightarrow> (st2, Inl p)
              | Inr s \<Rightarrow> (st2\<lparr>ws_buzz := buzz_increase 2 (ws_buzz st2)\<rparr>, Inr ())))"

definition handleJourneyCompletion ::
  "go_env \<Rightarrow> world_env \<Rightarrow> int \<Rightarrow> JourneyCompletion \<Rightarrow> world_state \<Rightarrow> world_state \<times> unit go" where
  "handleJourneyCompletion G E nowNano completion st =
     (case pendingJourneys st (jc_JourneyID completion) of
        None \<Rightarrow> (st, Inr ())
      | Some pending \<Rightarrow>
          let st1 = st\<lparr>pendingJourneys := (pendingJourneys st)(jc_JourneyID completion := None)\<rparr>
          in case record_journey G E nowNano (pj_Originator pending) ReasonJourneyComplete (jc_JourneyID completion) st1 of
               (st2, Inl p) \<Rightarrow> (st2, Inl p)
             | (st2, Inr u) \<Rightarrow>
                 if length (jc_Hops completion) > 0 then (st2, Inr ())
                 else (case short_id (jc_JourneyID completion) of Inl p \<Rightarrow> (st2, Inl p) | Inr s \<Rightarrow> (st2, Inr ())))"

section \<open>Timeouts\<close>

definition timed_out :: "int \<Rightarrow> PendingJourney \<Rightarrow> bool" where
  "timed_out now pending \<longleftrightarrow> i64 (now - pj_SeenAt pending) > 300"

fun record_timeouts ::
  "go_env \<Rightarrow> world_env \<Rightarrow> int \<Rightarrow> PendingJourney list \<Rightarrow> world_state \<Rightarrow> world_state \<times> unit go" where
  "record_timeouts G E nowNano [] st = (st, Inr ())"
| "record_timeouts G E nowNano (pending # ps) st =
     (case record_journey G E nowNano (pj_Originator pending) ReasonJourneyTimeout (pj_JourneyID pending) st of
        (st1, Inl p) \<Rightarrow> (st1, Inl p)
      | (st1, Inr u) \<Rightarrow>
          (case short_id (pj_JourneyID pending) of
             Inl p \<Rightarrow> (st1, Inl p) | Inr s \<Rightarrow> record_timeouts G E nowNano ps st1))"

text \<open>One tick of the maintenance loop; \<open>ids\<close> is the order in which it visits the map.\<close>

definition journeyTimeout_tick ::
  "go_env \<Rightarrow> world_env \<Rightarrow> int \<Rightarrow> int \<Rightarrow> string list \<Rightarrow> world_state \<Rightarrow> world_state \<times> unit go" where
  "journeyTimeout_tick G E now nowNano ids st =
     (let timedOut = filter (timed_out now) (List.map_filter (pendingJourneys st) ids)
      in record_timeouts G E nowNano timedOut
           (st\<lparr>pendingJourneys := (\<lambda>i. case pendingJourneys st i of
                None \<Rightarrow> None | Some p \<Rightarrow> if timed_out now p then None else Some p)\<rparr>))"

section \<open>Properties\<close>

lemma record_journey_pending [simp]:
  "record_journey G E nowNano orig reason i st = (st', r) \<Longrightarrow> pendingJourneys st' = pendingJourneys st"
  by (auto simp: record_journey_def split: option.splits sum.splits)

lemma record_timeouts_short:
  "p \<in> set ps \<Longrightarrow> length (pj_JourneyID p) < 8 \<Longrightarrow> \<exists>st' q. record_timeouts G E nowNano ps st = (st', Inl q)"
proof (induction ps arbitrary: st)
  case (Cons a ps)
  obtain st1 r where r: "record_journey G E nowNano (pj_Originator a) ReasonJourneyTimeout (pj_JourneyID a) st = (st1, r)"
    by (metis surj_pair)
  show ?case
  proof (cases "\<exists>q. r = Inl q \<or> short_id (pj_JourneyID a) = Inl q")
    case True
    then show ?thesis using r by (cases r) auto
  next
    case False
    then have "p \<in> set ps" using Cons.prems by (auto simp: short_id_def)
    then obtain st' q where "record_timeouts G E nowNano ps st1 = (st', Inl q)" using Cons by blast
    then show ?thesis using r False by (cases r; cases "short_id (pj_JourneyID a)") auto
  qed
qed simp

lemma tick_short:
  assumes "pendingJourneys st i = Some p" and "length (pj_JourneyID p) < 8" and "timed_out now p" and "i \<in> set ids"
  shows "\<exists>st' q. journeyTimeout_tick G E now nowNano ids st = (st', Inl q)"
proof -
  have "p \<in> set (List.map_filter (pendingJourneys st) ids)"
    using assms(1,4) by (auto simp: in_map_filter)
  then show ?thesis
    unfolding journeyTimeout_tick_def Let_def using assms(2,3) by (intro record_timeouts_short) simp_all
qed

text \<open>Recording a journey cannot panic: the event is built by a constructor.\<close>

lemma record_journey_total:
  "\<exists>st'. record_journey G E nowNano orig reason i st = (st', Inr ()) \<and> pendingJourneys st' = pendingJourneys st \<and>
     worldJourneys st' = worldJourneys st \<and> ws_posted st' = ws_posted st \<and> ws_buzz st' = ws_buzz st"
proof (cases "ws_ledger st")
  case (Some l)
  obtain e where e: "NewJourneyObservationSyncEvent G nowNano (we_name E) orig reason i (we_keypair E) = Inr e" "well_typed e"
    using constructed_typed [OF new_journey [of G nowNano "we_name E" orig reason i "we_keypair E"]] by blast
  obtain r where "AddEvent G e l = Inr r" using AddEvent_present [OF well_typed_has_payload [OF e(2)]] by blast
  then have "\<exists>ok l' calls. AddSocialEventFiltered G e (we_personality E) l = Inr (ok, l', calls)"
    by (cases r) (auto simp: AddSocialEventFiltered_def intro: exI [of _ False])
  then obtain ok l' calls where "AddSocialEventFiltered G e (we_personality E) l = Inr (ok, l', calls)" by blast
  then show ?thesis using Some e(1) by (simp add: record_journey_def)
qed (simp add: record_journey_def)

lemma pass_through_short:
  assumes "length (wm_ID wm) < 8"
  shows "\<exists>st'. onWorldJourneyPassThrough G E now nowNano wm st = (st', Inl IndexOutOfRange) \<and>
     pendingJourneys st' (wm_ID wm) = Some \<lparr>pj_JourneyID = wm_ID wm, pj_Originator = wm_Originator wm,
       pj_SeenAt = now, pj_Message = wm_OriginalMessage wm\<rparr>"
proof -
  let ?st1 = "st\<lparr>pendingJourneys := (pendingJourneys st)(wm_ID wm \<mapsto>
     \<lparr>pj_JourneyID = wm_ID wm, pj_Originator = wm_Originator wm, pj_SeenAt = now, pj_Message = wm_OriginalMessage wm\<rparr>)\<rparr>"
  obtain st' where "record_journey G E nowNano (wm_Originator wm) ReasonJourneyPass (wm_ID wm) ?st1 = (st', Inr ())"
    "pendingJourneys st' = pendingJourneys ?st1"
    using record_journey_total by blast
  then show ?thesis using assms by (simp add: onWorldJourneyPassThrough_def short_id_def Let_def)
qed

text \<open>
  a short journey ID is a time bomb. Nothing checks the ID of a relayed message, and the log line
  of the pass-through callback slices its first eight bytes: a message with a shorter ID makes the
  handler panic (an HTTP handler recovers), after the journey has been stored as pending. The first
  tick of the timeout loop more than 300 seconds later, in whatever order it visits the map, panics
  too, in a goroutine where nothing recovers.
\<close>

theorem short_journey_id_crashes:
  assumes "VerifyChain G (wj_getPublicKey h) wm = None" and "wm_Originator wm \<noteq> wj_name h"
    and "length (wm_ID wm) < 8" and "wj_onJourneyPass h = Some (onWorldJourneyPassThrough G E now nowNano)"
    and "now + 300 < later" and "in_i64 (later - now)"
  shows "\<exists>st'. HandleIncoming G now h wm st = (st', Inl IndexOutOfRange) \<and> wm_ID wm \<in> dom (pendingJourneys st') \<and>
     (\<forall>ids. set ids = dom (pendingJourneys st') \<longrightarrow>
        (\<exists>st'' p. journeyTimeout_tick G E later laterNano ids st' = (st'', Inl p)))"
proof -
  let ?wm = "AddHop G now (wj_name h) (wj_keypair h) (pickStamp wm) wm"
  obtain st' where st': "onWorldJourneyPassThrough G E now nowNano ?wm st = (st', Inl IndexOutOfRange)"
    "pendingJourneys st' (wm_ID wm) = Some \<lparr>pj_JourneyID = wm_ID wm, pj_Originator = wm_Originator wm,
       pj_SeenAt = now, pj_Message = wm_OriginalMessage wm\<rparr>"
    using pass_through_short [of ?wm G E now nowNano st] assms(3) by auto
  have "HandleIncoming G now h wm st = (st', Inl IndexOutOfRange)"
    using assms(1,2,4) st'(1) by (simp add: HandleIncoming_def run_callback_def Let_def)
  moreover have "\<exists>st'' p. journeyTimeout_tick G E later laterNano ids st' = (st'', Inl p)"
    if "set ids = dom (pendingJourneys st')" for ids
    using st'(2) assms(3,5,6) that by (intro tick_short [OF st'(2)]) (auto simp: timed_out_def)
  ultimately show ?thesis using st'(2) by auto
qed

definition demo_world_env :: "NaraName \<Rightarrow> world_env" where
  "demo_world_env n = \<lparr>we_name = n, we_keypair = demo_keypair CHR ''k'',
     we_personality = \<lparr>Agreeableness = 50, Sociability = 50, Chill = 50\<rparr>, we_readOnly = False\<rparr>"

definition demo_relay :: "NaraName \<Rightarrow> world_state WorldJourneyHandler" where
  "demo_relay n = \<lparr>wj_name = n, wj_keypair = demo_keypair CHR ''k'', wj_getMyClout = None, wj_getOnlineNaras = [n],
     wj_getPublicKey = (\<lambda>m. None), wj_resolveNaraID = (\<lambda>m. m), wj_relay = (\<lambda>i wm st. (st, False)),
     wj_onComplete = Some (onWorldJourneyComplete demo_env (demo_world_env n) 5),
     wj_onJourneyPass = Some (onWorldJourneyPassThrough demo_env (demo_world_env n) 5 5)\<rparr>"

definition demo_message :: "string \<Rightarrow> WorldMessage" where
  "demo_message i = \<lparr>wm_ID = i, wm_OriginalMessage = ''ha'', wm_Originator = ''a'', wm_Hops = None\<rparr>"

lemma demo_relay_fields [simp]:
  "wj_name (demo_relay n) = n" "wj_onComplete (demo_relay n) = Some (onWorldJourneyComplete demo_env (demo_world_env n) 5)"
  "wj_onJourneyPass (demo_relay n) = Some (onWorldJourneyPassThrough demo_env (demo_world_env n) 5 5)"
  "\<not> we_readOnly (demo_world_env n)" "hops (demo_message i) = []" "wm_ID (demo_message i) = i"
  "wm_Originator (demo_message i) = ''a''" "wm_OriginalMessage (demo_message i) = ''ha''"
  "VerifyChain G keys (demo_message i) = None"
  by (simp_all add: demo_relay_def demo_world_env_def demo_message_def hops_def VerifyChain_None)

definition demo_world :: world_state where
  "demo_world = \<lparr>worldJourneys = [], pendingJourneys = Map.empty, ws_ledger = None, ws_buzz = 100, ws_posted = []\<rparr>"

theorem short_journey_id_crashes_witness:
  "\<exists>st'. HandleIncoming demo_env 5 (demo_relay ''b'') (demo_message ''x'') demo_world = (st', Inl IndexOutOfRange) \<and>
     ''x'' \<in> dom (pendingJourneys st')"
proof -
  have "wm_Originator (demo_message ''x'') \<noteq> wj_name (demo_relay ''b'')" "length (wm_ID (demo_message ''x'')) < 8"
    "(5::int) + 300 < 306" "in_i64 (306 - 5)" by (simp_all add: in_i64_def)
  from short_journey_id_crashes [OF demo_relay_fields(9) this(1,2) demo_relay_fields(3) this(3,4)]
  show ?thesis by (metis demo_relay_fields(6))
qed

text \<open>
  a journey need not have begun. The originator accepts any message that names it and has no
  hops, whoever made it up, as its own completed journey: it signs, stores and announces it.
\<close>

theorem unstarted_journey_completes:
  assumes "hops wm = []" and "wm_Originator wm = wj_name h" and "\<not> we_readOnly E"
    and "wj_onComplete h = Some (onWorldJourneyComplete G E nowNano)"
  shows "\<exists>st' wm'. HandleIncoming G now h wm st = (st', Inr (wm', None)) \<and> wm' \<in> set (worldJourneys st') \<and>
     wm_ID wm' = wm_ID wm \<and> wm_OriginalMessage wm' = wm_OriginalMessage wm \<and>
     jc_JourneyID (last (ws_posted st')) = wm_ID wm \<and> CalculateWorldRewards wm' (wj_name h) = Some 10"
proof -
  let ?wm = "AddHop G now (wj_name h) (wj_keypair h) (pickStamp wm) wm"
  let ?js = "let js = worldJourneys st @ [?wm] in if length js > 100 then drop (length js - 100) js else js"
  obtain st1 where st1: "record_journey G E nowNano (wm_Originator ?wm) ReasonJourneyComplete (wm_ID ?wm) (st\<lparr>worldJourneys := ?js\<rparr>) = (st1, Inr ())"
    "worldJourneys st1 = ?js"
    using record_journey_total [of G E nowNano "wm_Originator ?wm" ReasonJourneyComplete "wm_ID ?wm" "st\<lparr>worldJourneys := ?js\<rparr>"] by auto
  have "?wm \<in> set ?js" by (simp add: Let_def)
  moreover obtain st' where st': "onWorldJourneyComplete G E nowNano ?wm st = (st', Inr ())"
    "worldJourneys st' = worldJourneys st1" "jc_JourneyID (last (ws_posted st')) = wm_ID ?wm"
    using st1(1) assms(3) by (simp add: onWorldJourneyComplete_def Let_def)
  moreover have "HandleIncoming G now h wm st = (st', Inr (?wm, None))"
    using assms(2,4) st'(1) VerifyChain_None [of G "wj_getPublicKey h" wm, unfolded assms(1)]
    by (simp add: HandleIncoming_def run_callback_def Let_def)
  moreover have "CalculateWorldRewards ?wm (wj_name h) = Some 10"
    using assms(2) by (simp add: CalculateWorldRewards_eq)
  ultimately show ?thesis using st1(2) by auto
qed

theorem unstarted_journey_completes_witness:
  "\<exists>st' wm'. HandleIncoming demo_env 5 (demo_relay ''a'') (demo_message ''forged'') demo_world = (st', Inr (wm', None)) \<and>
     wm_OriginalMessage wm' = ''ha''"
proof -
  have "wm_Originator (demo_message ''forged'') = wj_name (demo_relay ''a'')" by simp
  from unstarted_journey_completes [OF demo_relay_fields(5) this demo_relay_fields(4) demo_relay_fields(2)]
  show ?thesis by (metis demo_relay_fields(8))
qed

end
