(* ===== verification/Runtime_Messages.thy ===== *)
theory Runtime_Messages
  imports Go_Json Crypto
begin

text \<open>
  \<open>runtime/message.go\<close>, \<open>runtime/stage.go\<close>, \<open>runtime/stages_emit.go\<close>, \<open>runtime/stages_receive.go\<close>:
  the message, its ID and signed bytes, and the stages of the pipelines a message runs through.
  The payload is a type variable; \<open>json.Marshal\<close> of it, the text of a timestamp and the base58
  library are parameters. What a stage reaches through an interface (ledger, transport, gossip
  queue, identity, event bus) acts on a state of the nara, the type variable \<open>'s\<close>.
\<close>

section \<open>Messages\<close>

record 'p Message =
  m_ID :: string
  m_ContentKey :: string
  m_Kind :: string
  m_Version :: int
  m_From :: NaraName
  m_FromID :: NaraID
  m_To :: NaraName
  m_ToID :: NaraID
  m_Timestamp :: int
  m_Payload :: "'p option"
  m_Signature :: string
  m_InReplyTo :: string

text \<open>\<open>0\<close> is the zero time.\<close>

record 'p codec =
  marshal_payload :: "'p \<Rightarrow> string option"
  time_text :: "int \<Rightarrow> string"
  base58_Encode :: "string \<Rightarrow> string"

definition payload_json :: "'p codec \<Rightarrow> 'p option \<Rightarrow> string option" where
  "payload_json C p = (case p of None \<Rightarrow> Some ''null'' | Some x \<Rightarrow> marshal_payload C x)"

definition Message_ComputeID :: "go_env \<Rightarrow> 'p codec \<Rightarrow> 'p Message \<Rightarrow> string option" where
  "Message_ComputeID G C msg =
     (let h = m_Kind msg @ m_FromID msg @ time_text C (m_Timestamp msg)
      in case m_Payload msg of
           None \<Rightarrow> Some (take 16 (base58_Encode C (sha256 G h)))
         | Some p \<Rightarrow> map_option (\<lambda>bs. take 16 (base58_Encode C (sha256 G (h @ bs)))) (marshal_payload C p))"

definition SignableContent :: "'p codec \<Rightarrow> 'p Message \<Rightarrow> string option" where
  "SignableContent C m =
     map_option (\<lambda>p. json_object
         ([(''id'', json_string (m_ID m)), (''kind'', json_string (m_Kind m)), (''from_id'', json_string (m_FromID m))] @
          (if m_ToID m = [] then [] else [(''to_id'', json_string (m_ToID m))]) @
          [(''timestamp'', [CHR 0x22] @ time_text C (m_Timestamp m) @ [CHR 0x22]), (''payload'', p)]))
       (payload_json C (m_Payload m))"

definition Message_VerifySignature :: "go_env \<Rightarrow> 'p codec \<Rightarrow> 'p Message \<Rightarrow> string \<Rightarrow> bool" where
  "Message_VerifySignature G C m pubKey =
     (if length (m_Signature m) = 0 then False
      else if length pubKey \<noteq> PublicKeySize then False
      else case SignableContent C m of None \<Rightarrow> False | Some content \<Rightarrow> ed25519_Verify G pubKey content (m_Signature m))"

definition Message_Marshal :: "go_env \<Rightarrow> 'p codec \<Rightarrow> 'p Message \<Rightarrow> string option" where
  "Message_Marshal G C m =
     (let text = (\<lambda>k v. if v = [] then [] else [(k, json_string v)])
      in map_option (\<lambda>p. json_object
           ([(''id'', json_string (m_ID m))] @ text ''content_key'' (m_ContentKey m) @
            [(''kind'', json_string (m_Kind m)), (''version'', fmt_int (m_Version m))] @ text ''from'' (m_From m) @
            [(''from_id'', json_string (m_FromID m))] @ text ''to'' (m_To m) @ text ''to_id'' (m_ToID m) @
            [(''timestamp'', [CHR 0x22] @ time_text C (m_Timestamp m) @ [CHR 0x22]), (''payload'', p)] @
            text ''signature'' (if m_Signature m = [] then [] else base64_Encode G (m_Signature m)) @
            text ''in_reply_to'' (m_InReplyTo m)))
         (payload_json C (m_Payload m)))"

definition zero_message :: "'p Message" where
  "zero_message = \<lparr>m_ID = [], m_ContentKey = [], m_Kind = [], m_Version = 0, m_From = [], m_FromID = [], m_To = [],
     m_ToID = [], m_Timestamp = 0, m_Payload = None, m_Signature = [], m_InReplyTo = []\<rparr>"

definition Reply :: "'p Message \<Rightarrow> string \<Rightarrow> 'p \<Rightarrow> 'p Message" where
  "Reply m kind payload = zero_message\<lparr>m_Kind := kind, m_Version := 1, m_InReplyTo := m_ID m, m_ToID := m_FromID m,
     m_To := m_From m, m_Payload := Some payload\<rparr>"

section \<open>Stages\<close>

datatype rt_error =
    ComputeIDFailed | ContentFailed | LedgerAddFailed | NoTarget | NoTransportConfigured | MeshSendFailed
  | MarshalFailed | PublishFailed | UnknownKind | DeserializeFailed | CallTimeout

datatype 'p StageResult =
    Continue "'p Message"
  | Drop string
  | Fail rt_error

record Personality =
  rp_Agreeableness :: int
  rp_Sociability :: int
  rp_Chill :: int

record ('p, 's) LedgerInterface =
  lg_Add :: "'p Message \<Rightarrow> int \<Rightarrow> 's \<Rightarrow> 's \<times> bool"
  lg_HasID :: "string \<Rightarrow> 's \<Rightarrow> bool"
  lg_HasContentKey :: "string \<Rightarrow> 's \<Rightarrow> bool"

record ('p, 's) TransportInterface =
  tp_PublishMQTT :: "string \<Rightarrow> string \<Rightarrow> 's \<Rightarrow> 's \<times> bool"
  tp_TrySendDirect :: "NaraID \<Rightarrow> 'p Message \<Rightarrow> 's \<Rightarrow> 's \<times> bool"

text \<open>The bools of these operations: no error. A nil interface value is \<open>None\<close>.\<close>

record ('p, 's) PipelineContext =
  px_Ledger :: "('p, 's) LedgerInterface option"
  px_Transport :: "('p, 's) TransportInterface option"
  px_GossipQueue :: "('p Message \<Rightarrow> 's \<Rightarrow> 's) option"
  px_Sign :: "string \<Rightarrow> string"
  px_LookupPublicKey :: "NaraID \<Rightarrow> 's \<Rightarrow> string option"
  px_RegisterPublicKey :: "NaraID \<Rightarrow> string \<Rightarrow> 's \<Rightarrow> 's"
  px_Personality :: "Personality option"
  px_EventBus :: "('p Message \<Rightarrow> 's \<Rightarrow> 's) option"

datatype ('p, 's) stage =
    IDStage
  | DefaultSignStage
  | NoSignStage
  | NoStoreStage
  | DefaultStoreStage int
  | ContentKeyStoreStage int
  | NoGossipStage
  | GossipStage
  | NoTransportStage
  | MeshOnlyStage
  | MQTTStage string
  | MQTTPerNaraStage "NaraName \<Rightarrow> string"
  | NotifyStage
  | ContentKeyStage "('p option \<Rightarrow> string) option"
  | NoContentKeyStage
  | DefaultVerifyStage
  | SelfAttestingVerifyStage "'p option \<Rightarrow> string option"
  | CustomVerifyStage "'p Message \<Rightarrow> 's \<Rightarrow> 's \<times> 'p StageResult"
  | NoVerifyStage
  | IDDedupeStage
  | ContentKeyDedupeStage
  | RateLimitStage int int
  | ImportanceFilterStage int "('p Message \<Rightarrow> Personality \<Rightarrow> bool) option"
  | NoFilterStage

text \<open>The per-nara topic pattern is the function from the sender's name that \<open>Sprintf\<close> makes of it.\<close>

definition publish ::
  "go_env \<Rightarrow> 'p codec \<Rightarrow> ('p, 's) PipelineContext \<Rightarrow> string \<Rightarrow> 'p Message \<Rightarrow> 's \<Rightarrow> 's \<times> 'p StageResult" where
  "publish G C ctx topic msg st =
     (case px_Transport ctx of
        None \<Rightarrow> (st, Fail NoTransportConfigured)
      | Some t \<Rightarrow>
          (case Message_Marshal G C msg of
             None \<Rightarrow> (st, Fail MarshalFailed)
           | Some bytes \<Rightarrow>
               (case tp_PublishMQTT t topic bytes st of
                  (st', ok) \<Rightarrow> (st', if ok then Continue msg else Fail PublishFailed))))"

definition add_to_ledger ::
  "('p, 's) LedgerInterface \<Rightarrow> int \<Rightarrow> 'p Message \<Rightarrow> 's \<Rightarrow> 's \<times> 'p StageResult" where
  "add_to_ledger L priority msg st =
     (case lg_Add L msg priority st of (st', ok) \<Rightarrow> (st', if ok then Continue msg else Fail LedgerAddFailed))"

definition IDStage_Process ::
  "go_env \<Rightarrow> 'p codec \<Rightarrow> 'p Message \<Rightarrow> 's \<Rightarrow> 's \<times> 'p StageResult" where
  "IDStage_Process G C msg st =
     (if m_ID msg = []
      then (case Message_ComputeID G C msg of
              None \<Rightarrow> (st, Fail ComputeIDFailed) | Some i \<Rightarrow> (st, Continue (msg\<lparr>m_ID := i\<rparr>)))
      else (st, Continue msg))"

definition DefaultSignStage_Process ::
  "'p codec \<Rightarrow> ('p, 's) PipelineContext \<Rightarrow> 'p Message \<Rightarrow> 's \<Rightarrow> 's \<times> 'p StageResult" where
  "DefaultSignStage_Process C ctx msg st =
     (case SignableContent C msg of
        None \<Rightarrow> (st, Fail ContentFailed)
      | Some content \<Rightarrow> (st, Continue (msg\<lparr>m_Signature := px_Sign ctx content\<rparr>)))"

definition DefaultStoreStage_Process ::
  "('p, 's) PipelineContext \<Rightarrow> int \<Rightarrow> 'p Message \<Rightarrow> 's \<Rightarrow> 's \<times> 'p StageResult" where
  "DefaultStoreStage_Process ctx priority msg st =
     (case px_Ledger ctx of None \<Rightarrow> (st, Continue msg) | Some L \<Rightarrow> add_to_ledger L priority msg st)"

definition ContentKeyStoreStage_Process ::
  "('p, 's) PipelineContext \<Rightarrow> int \<Rightarrow> 'p Message \<Rightarrow> 's \<Rightarrow> 's \<times> 'p StageResult" where
  "ContentKeyStoreStage_Process ctx priority msg st =
     (case px_Ledger ctx of
        None \<Rightarrow> (st, Continue msg)
      | Some L \<Rightarrow> if m_ContentKey msg \<noteq> [] \<and> lg_HasContentKey L (m_ContentKey msg) st
                 then (st, Drop ''content_exists'') else add_to_ledger L priority msg st)"

definition GossipStage_Process ::
  "('p, 's) PipelineContext \<Rightarrow> 'p Message \<Rightarrow> 's \<Rightarrow> 's \<times> 'p StageResult" where
  "GossipStage_Process ctx msg st =
     (case px_GossipQueue ctx of None \<Rightarrow> (st, Continue msg) | Some add \<Rightarrow> (add msg st, Continue msg))"

definition MeshOnlyStage_Process ::
  "('p, 's) PipelineContext \<Rightarrow> 'p Message \<Rightarrow> 's \<Rightarrow> 's \<times> 'p StageResult" where
  "MeshOnlyStage_Process ctx msg st =
     (if m_ToID msg = [] then (st, Fail NoTarget)
      else case px_Transport ctx of
             None \<Rightarrow> (st, Fail NoTransportConfigured)
           | Some t \<Rightarrow> (case tp_TrySendDirect t (m_ToID msg) msg st of
                         (st', ok) \<Rightarrow> (st', if ok then Continue msg else Fail MeshSendFailed)))"

definition MQTTStage_Process ::
  "go_env \<Rightarrow> 'p codec \<Rightarrow> ('p, 's) PipelineContext \<Rightarrow> string \<Rightarrow> 'p Message \<Rightarrow> 's \<Rightarrow> 's \<times> 'p StageResult" where
  "MQTTStage_Process G C ctx topic msg st =
     publish G C ctx topic msg st"

definition MQTTPerNaraStage_Process ::
  "go_env \<Rightarrow> 'p codec \<Rightarrow> ('p, 's) PipelineContext \<Rightarrow> (NaraName \<Rightarrow> string) \<Rightarrow> 'p Message \<Rightarrow> 's \<Rightarrow> 's \<times> 'p StageResult" where
  "MQTTPerNaraStage_Process G C ctx pat msg st =
     publish G C ctx (pat (m_From msg)) msg st"

definition NotifyStage_Process ::
  "('p, 's) PipelineContext \<Rightarrow> 'p Message \<Rightarrow> 's \<Rightarrow> 's \<times> 'p StageResult" where
  "NotifyStage_Process ctx msg st =
     (case px_EventBus ctx of None \<Rightarrow> (st, Continue msg) | Some emit \<Rightarrow> (emit msg st, Continue msg))"

definition ContentKeyStage_Process ::
  "('p option \<Rightarrow> string) option \<Rightarrow> 'p Message \<Rightarrow> 's \<Rightarrow> 's \<times> 'p StageResult" where
  "ContentKeyStage_Process keyFunc msg st =
     (case keyFunc of
        Some f \<Rightarrow> if m_ContentKey msg = [] then (st, Continue (msg\<lparr>m_ContentKey := f (m_Payload msg)\<rparr>)) else (st, Continue msg)
      | None \<Rightarrow> (st, Continue msg))"

definition DefaultVerifyStage_Process ::
  "go_env \<Rightarrow> 'p codec \<Rightarrow> ('p, 's) PipelineContext \<Rightarrow> 'p Message \<Rightarrow> 's \<Rightarrow> 's \<times> 'p StageResult" where
  "DefaultVerifyStage_Process G C ctx msg st =
     (case px_LookupPublicKey ctx (m_FromID msg) st of
        None \<Rightarrow> (st, Drop ''unknown_sender'')
      | Some pubKey \<Rightarrow> (st, if \<not> Message_VerifySignature G C msg pubKey then Drop ''invalid_signature'' else Continue msg))"

definition SelfAttestingVerifyStage_Process ::
  "go_env \<Rightarrow> 'p codec \<Rightarrow> ('p, 's) PipelineContext \<Rightarrow> ('p option \<Rightarrow> string option) \<Rightarrow> 'p Message \<Rightarrow> 's \<Rightarrow> 's \<times> 'p StageResult" where
  "SelfAttestingVerifyStage_Process G C ctx extractKey msg st =
     (case extractKey (m_Payload msg) of
        None \<Rightarrow> (st, Drop ''no_public_key_in_payload'')
      | Some pubKey \<Rightarrow>
          if \<not> Message_VerifySignature G C msg pubKey then (st, Drop ''invalid_signature'')
          else (px_RegisterPublicKey ctx (m_FromID msg) pubKey st, Continue msg))"

definition IDDedupeStage_Process ::
  "('p, 's) PipelineContext \<Rightarrow> 'p Message \<Rightarrow> 's \<Rightarrow> 's \<times> 'p StageResult" where
  "IDDedupeStage_Process ctx msg st =
     (st, case px_Ledger ctx of
            None \<Rightarrow> Continue msg | Some L \<Rightarrow> if lg_HasID L (m_ID msg) st then Drop ''duplicate_id'' else Continue msg)"

definition ContentKeyDedupeStage_Process ::
  "('p, 's) PipelineContext \<Rightarrow> 'p Message \<Rightarrow> 's \<Rightarrow> 's \<times> 'p StageResult" where
  "ContentKeyDedupeStage_Process ctx msg st =
     (st, case px_Ledger ctx of
            None \<Rightarrow> Continue msg
          | Some L \<Rightarrow> if m_ContentKey msg \<noteq> [] \<and> lg_HasContentKey L (m_ContentKey msg) st
                     then Drop ''duplicate_content'' else Continue msg)"

definition ImportanceFilterStage_Process ::
  "('p, 's) PipelineContext \<Rightarrow> int \<Rightarrow> ('p Message \<Rightarrow> Personality \<Rightarrow> bool) option \<Rightarrow> 'p Message \<Rightarrow> 's \<Rightarrow> 's \<times> 'p StageResult" where
  "ImportanceFilterStage_Process ctx importance casualFilter msg st =
     (st, if importance = 3 then Continue msg
          else if importance = 2
          then (case px_Personality ctx of
                  Some p \<Rightarrow> if rp_Chill p > 85 then Drop ''filtered_by_chill'' else Continue msg
                | None \<Rightarrow> Continue msg)
          else if importance = 1
          then (case (casualFilter, px_Personality ctx) of
                  (Some f, Some p) \<Rightarrow> if \<not> f msg p then Drop ''filtered_by_personality'' else Continue msg
                | other \<Rightarrow> Continue msg)
          else Continue msg)"

lemmas stage_Process_defs [simp] =
  IDStage_Process_def DefaultSignStage_Process_def DefaultStoreStage_Process_def ContentKeyStoreStage_Process_def GossipStage_Process_def MeshOnlyStage_Process_def MQTTStage_Process_def MQTTPerNaraStage_Process_def NotifyStage_Process_def ContentKeyStage_Process_def DefaultVerifyStage_Process_def SelfAttestingVerifyStage_Process_def IDDedupeStage_Process_def ContentKeyDedupeStage_Process_def ImportanceFilterStage_Process_def

text \<open>The stages not named here (no signature, no store, ...) hand the message on.\<close>

fun Process ::
  "go_env \<Rightarrow> 'p codec \<Rightarrow> ('p, 's) PipelineContext \<Rightarrow> ('p, 's) stage \<Rightarrow> 'p Message \<Rightarrow> 's \<Rightarrow> 's \<times> 'p StageResult" where
  "Process G C ctx IDStage msg st = IDStage_Process G C msg st"
| "Process G C ctx DefaultSignStage msg st = DefaultSignStage_Process C ctx msg st"
| "Process G C ctx NoSignStage msg st = (st, Continue msg)"
| "Process G C ctx NoStoreStage msg st = (st, Continue msg)"
| "Process G C ctx (DefaultStoreStage priority) msg st = DefaultStoreStage_Process ctx priority msg st"
| "Process G C ctx (ContentKeyStoreStage priority) msg st = ContentKeyStoreStage_Process ctx priority msg st"
| "Process G C ctx NoGossipStage msg st = (st, Continue msg)"
| "Process G C ctx GossipStage msg st = GossipStage_Process ctx msg st"
| "Process G C ctx NoTransportStage msg st = (st, Continue msg)"
| "Process G C ctx MeshOnlyStage msg st = MeshOnlyStage_Process ctx msg st"
| "Process G C ctx (MQTTStage topic) msg st = MQTTStage_Process G C ctx topic msg st"
| "Process G C ctx (MQTTPerNaraStage pat) msg st = MQTTPerNaraStage_Process G C ctx pat msg st"
| "Process G C ctx NotifyStage msg st = NotifyStage_Process ctx msg st"
| "Process G C ctx (ContentKeyStage keyFunc) msg st = ContentKeyStage_Process keyFunc msg st"
| "Process G C ctx NoContentKeyStage msg st = (st, Continue msg)"
| "Process G C ctx DefaultVerifyStage msg st = DefaultVerifyStage_Process G C ctx msg st"
| "Process G C ctx (SelfAttestingVerifyStage extractKey) msg st = SelfAttestingVerifyStage_Process G C ctx extractKey msg st"
| "Process G C ctx (CustomVerifyStage f) msg st = f msg st"
| "Process G C ctx NoVerifyStage msg st = (st, Continue msg)"
| "Process G C ctx IDDedupeStage msg st = IDDedupeStage_Process ctx msg st"
| "Process G C ctx ContentKeyDedupeStage msg st = ContentKeyDedupeStage_Process ctx msg st"
| "Process G C ctx (RateLimitStage window limit) msg st = (st, Continue msg)"
| "Process G C ctx (ImportanceFilterStage importance casualFilter) msg st = ImportanceFilterStage_Process ctx importance casualFilter msg st"
| "Process G C ctx NoFilterStage msg st = (st, Continue msg)"

fun Pipeline_Run ::
  "go_env \<Rightarrow> 'p codec \<Rightarrow> ('p, 's) PipelineContext \<Rightarrow> ('p, 's) stage list \<Rightarrow> 'p Message \<Rightarrow> 's \<Rightarrow> 's \<times> 'p StageResult" where
  "Pipeline_Run G C ctx [] msg st = (st, Continue msg)"
| "Pipeline_Run G C ctx (stage # p) msg st =
     (case Process G C ctx stage msg st of
        (st', Continue msg') \<Rightarrow> Pipeline_Run G C ctx p msg' st'
      | (st', r) \<Rightarrow> (st', r))"

end
