(* ===== verification/Runtime.thy ===== *)
theory Runtime
  imports Runtime_Messages
begin

text \<open>
  \<open>runtime/behavior.go\<close>, \<open>runtime/helpers.go\<close>, \<open>runtime/runtime.go\<close> and the call registry of
  \<open>runtime/interfaces.go\<close>: behaviors and their templates, the two pipelines they stand for, \<open>Emit\<close>,
  \<open>Call\<close> and \<open>Receive\<close>. Bytes from the network come in as what \<open>json.Unmarshal\<close> makes of
  them; a behavior's payload type is its unmarshalling function.
\<close>

section \<open>Behaviors\<close>

datatype ErrorStrategy = ErrorDrop | ErrorLog | ErrorRetry | ErrorQueue | ErrorPanic

record ('p, 's) EmitBehavior =
  eb_Sign :: "('p, 's) stage option"
  eb_Store :: "('p, 's) stage option"
  eb_Gossip :: "('p, 's) stage option"
  eb_Transport :: "('p, 's) stage option"
  eb_OnError :: ErrorStrategy

record ('p, 's) ReceiveBehavior =
  rb_Verify :: "('p, 's) stage option"
  rb_Dedupe :: "('p, 's) stage option"
  rb_RateLimit :: "('p, 's) stage option"
  rb_Filter :: "('p, 's) stage option"
  rb_Store :: "('p, 's) stage option"
  rb_OnError :: ErrorStrategy

text \<open>A handler's bool: no error.\<close>

record ('p, 's) Behavior =
  b_Kind :: string
  b_Description :: string
  b_CurrentVersion :: int
  b_MinVersion :: int
  b_PayloadTypes :: "int \<rightharpoonup> (string \<Rightarrow> 'p option)"
  b_Handlers :: "int \<rightharpoonup> ('p Message \<Rightarrow> 'p \<Rightarrow> 's \<Rightarrow> 's \<times> bool)"
  b_ContentKey :: "('p option \<Rightarrow> string) option"
  b_Emit :: "('p, 's) EmitBehavior"
  b_Receive :: "('p, 's) ReceiveBehavior"

definition DefaultSign :: "('p, 's) stage" where "DefaultSign = DefaultSignStage"
definition NoSign :: "('p, 's) stage" where "NoSign = NoSignStage"
definition DefaultStore :: "int \<Rightarrow> ('p, 's) stage" where "DefaultStore priority = DefaultStoreStage priority"
definition NoStore :: "('p, 's) stage" where "NoStore = NoStoreStage"
definition Gossip :: "('p, 's) stage" where "Gossip = GossipStage"
definition NoGossip :: "('p, 's) stage" where "NoGossip = NoGossipStage"
definition NoTransport :: "('p, 's) stage" where "NoTransport = NoTransportStage"
definition MeshOnly :: "('p, 's) stage" where "MeshOnly = MeshOnlyStage"
definition MQTT :: "string \<Rightarrow> ('p, 's) stage" where "MQTT topic = MQTTStage topic"
definition DefaultVerify :: "('p, 's) stage" where "DefaultVerify = DefaultVerifyStage"
definition NoVerify :: "('p, 's) stage" where "NoVerify = NoVerifyStage"
definition IDDedupe :: "('p, 's) stage" where "IDDedupe = IDDedupeStage"
definition Critical :: "('p, 's) stage" where "Critical = ImportanceFilterStage 3 None"

text \<open>The templates: a copy of the defaults with kind, description and transport set.\<close>

definition defaults ::
  "('p, 's) stage \<Rightarrow> ('p, 's) stage \<Rightarrow> ('p, 's) stage \<Rightarrow> ('p, 's) stage option \<Rightarrow> ('p, 's) stage
   \<Rightarrow> ('p, 's) stage option \<Rightarrow> ('p, 's) Behavior" where
  "defaults sign store gossip transport verify filt =
     \<lparr>b_Kind = [], b_Description = [], b_CurrentVersion = 0, b_MinVersion = 0, b_PayloadTypes = Map.empty,
      b_Handlers = Map.empty, b_ContentKey = None,
      b_Emit = \<lparr>eb_Sign = Some sign, eb_Store = Some store, eb_Gossip = Some gossip, eb_Transport = transport,
                eb_OnError = ErrorDrop\<rparr>,
      b_Receive = \<lparr>rb_Verify = Some verify, rb_Dedupe = Some IDDedupe, rb_RateLimit = None, rb_Filter = filt,
                   rb_Store = Some store, rb_OnError = ErrorDrop\<rparr>\<rparr>"

definition EphemeralDefaults :: "('p, 's) Behavior" where
  "EphemeralDefaults = defaults NoSign NoStore NoGossip None NoVerify None"

definition ProtocolDefaults :: "('p, 's) Behavior" where
  "ProtocolDefaults = defaults DefaultSign NoStore NoGossip None DefaultVerify (Some Critical)"

definition ProtocolUnverifiedDefaults :: "('p, 's) Behavior" where
  "ProtocolUnverifiedDefaults = defaults NoSign NoStore NoGossip None NoVerify (Some Critical)"

definition StoredDefaults :: "('p, 's) Behavior" where
  "StoredDefaults = defaults DefaultSign (DefaultStore 2) Gossip (Some NoTransport) DefaultVerify None"

definition LocalDefaults :: "('p, 's) Behavior" where
  "LocalDefaults = defaults NoSign NoStore NoGossip (Some NoTransport) NoVerify None"

definition template ::
  "('p, 's) Behavior \<Rightarrow> string \<Rightarrow> string \<Rightarrow> ('p, 's) stage option \<Rightarrow> ('p, 's) Behavior" where
  \<comment> \<open>kind, description and, where the template sets one, the transport\<close>
  "template b kind desc transport =
     b\<lparr>b_Kind := kind, b_Description := desc,
       b_Emit := (case transport of None \<Rightarrow> b_Emit b | Some t \<Rightarrow> (b_Emit b)\<lparr>eb_Transport := Some t\<rparr>)\<rparr>"

definition Ephemeral :: "string \<Rightarrow> string \<Rightarrow> string \<Rightarrow> ('p, 's) Behavior" where
  "Ephemeral kind desc topic = template EphemeralDefaults kind desc (Some (MQTT topic))"

definition Protocol :: "string \<Rightarrow> string \<Rightarrow> string \<Rightarrow> ('p, 's) Behavior" where
  "Protocol kind desc topic = template ProtocolDefaults kind desc (Some (MQTT topic))"

definition ProtocolUnverified :: "string \<Rightarrow> string \<Rightarrow> string \<Rightarrow> ('p, 's) Behavior" where
  "ProtocolUnverified kind desc topic = template ProtocolUnverifiedDefaults kind desc (Some (MQTT topic))"

definition MeshRequest :: "string \<Rightarrow> string \<Rightarrow> ('p, 's) Behavior" where
  "MeshRequest kind desc = template ProtocolDefaults kind desc (Some MeshOnly)"

definition with_priority :: "int \<Rightarrow> ('p, 's) Behavior \<Rightarrow> ('p, 's) Behavior" where
  "with_priority priority b =
     b\<lparr>b_Emit := (b_Emit b)\<lparr>eb_Store := Some (DefaultStore priority)\<rparr>,
       b_Receive := (b_Receive b)\<lparr>rb_Store := Some (DefaultStore priority)\<rparr>\<rparr>"

definition StoredEvent :: "string \<Rightarrow> string \<Rightarrow> int \<Rightarrow> ('p, 's) Behavior" where
  "StoredEvent kind desc priority = with_priority priority (template StoredDefaults kind desc None)"

definition BroadcastEvent :: "string \<Rightarrow> string \<Rightarrow> int \<Rightarrow> string \<Rightarrow> ('p, 's) Behavior" where
  "BroadcastEvent kind desc priority topic = with_priority priority (template StoredDefaults kind desc (Some (MQTT topic)))"

definition Local :: "string \<Rightarrow> string \<Rightarrow> ('p, 's) Behavior" where
  "Local kind desc = template LocalDefaults kind desc None"

definition WithPayload :: "(string \<Rightarrow> 'p option) \<Rightarrow> ('p, 's) Behavior \<Rightarrow> ('p, 's) Behavior" where
  "WithPayload t b = b\<lparr>b_CurrentVersion := 1, b_MinVersion := 1, b_PayloadTypes := [1 \<mapsto> t]\<rparr>"

definition WithHandler ::
  "int \<Rightarrow> ('p Message \<Rightarrow> 'p \<Rightarrow> 's \<Rightarrow> 's \<times> bool) \<Rightarrow> ('p, 's) Behavior \<Rightarrow> ('p, 's) Behavior" where
  "WithHandler version fn b = b\<lparr>b_Handlers := (b_Handlers b)(version \<mapsto> fn)\<rparr>"

definition WithContentKey :: "('p option \<Rightarrow> string) \<Rightarrow> ('p, 's) Behavior \<Rightarrow> ('p, 's) Behavior" where
  "WithContentKey fn b = b\<lparr>b_ContentKey := Some fn\<rparr>"

definition WithFilter :: "('p, 's) stage \<Rightarrow> ('p, 's) Behavior \<Rightarrow> ('p, 's) Behavior" where
  "WithFilter stage b = b\<lparr>b_Receive := (b_Receive b)\<lparr>rb_Filter := Some stage\<rparr>\<rparr>"

definition WithRateLimit :: "('p, 's) stage \<Rightarrow> ('p, 's) Behavior \<Rightarrow> ('p, 's) Behavior" where
  "WithRateLimit stage b = b\<lparr>b_Receive := (b_Receive b)\<lparr>rb_RateLimit := Some stage\<rparr>\<rparr>"

section \<open>The runtime\<close>

record ('p, 's) Runtime =
  rt_me :: "(NaraID \<times> NaraName) option"
  rt_context :: "('p, 's) PipelineContext"
  rt_localBehaviors :: "string \<rightharpoonup> ('p, 's) Behavior"

definition RegisterBehavior :: "('p, 's) Behavior \<Rightarrow> ('p, 's) Runtime \<Rightarrow> ('p, 's) Runtime" where
  "RegisterBehavior b rt = rt\<lparr>rt_localBehaviors := (rt_localBehaviors rt)(b_Kind b \<mapsto> b)\<rparr>"

definition LookupBehavior :: "('p, 's) Runtime \<Rightarrow> string \<Rightarrow> ('p, 's) Behavior option" where
  "LookupBehavior rt kind = rt_localBehaviors rt kind"

definition MeID :: "('p, 's) Runtime \<Rightarrow> NaraID" where
  "MeID rt = (case rt_me rt of None \<Rightarrow> [] | Some (i, n) \<Rightarrow> i)"

definition stage_or :: "('p, 's) stage option \<Rightarrow> ('p, 's) stage \<Rightarrow> ('p, 's) stage list" where
  "stage_or s d = [case s of None \<Rightarrow> d | Some x \<Rightarrow> x]"

definition stage_if :: "('p, 's) stage option \<Rightarrow> ('p, 's) stage list" where
  "stage_if s = (case s of None \<Rightarrow> [] | Some x \<Rightarrow> [x])"

definition buildEmitPipeline :: "('p, 's) Behavior \<Rightarrow> ('p, 's) stage list" where
  "buildEmitPipeline b =
     [IDStage] @ (case b_ContentKey b of None \<Rightarrow> [] | Some f \<Rightarrow> [ContentKeyStage (Some f)]) @
     stage_or (eb_Sign (b_Emit b)) DefaultSign @ stage_or (eb_Store (b_Emit b)) NoStore @
     stage_or (eb_Gossip (b_Emit b)) NoGossip @ stage_if (eb_Transport (b_Emit b)) @ [NotifyStage]"

definition buildReceivePipeline :: "('p, 's) Behavior \<Rightarrow> ('p, 's) stage list" where
  "buildReceivePipeline b =
     stage_or (rb_Verify (b_Receive b)) DefaultVerify @ stage_or (rb_Dedupe (b_Receive b)) IDDedupe @
     stage_if (rb_RateLimit (b_Receive b)) @ stage_if (rb_Filter (b_Receive b)) @ stage_if (rb_Store (b_Receive b)) @
     stage_if (eb_Gossip (b_Emit b)) @ [NotifyStage]"

text \<open>Every strategy but \<open>ErrorPanic\<close>, which ends the process, only logs.\<close>

definition error_exits :: "ErrorStrategy \<Rightarrow> bool" where
  "error_exits strategy \<longleftrightarrow> strategy = ErrorPanic"

text \<open>What a call to the runtime comes to: an error or none, unless the process ended.\<close>

datatype rt_outcome = Done | Failed rt_error | Exited

definition prepared :: "('p, 's) Runtime \<Rightarrow> int \<Rightarrow> 'p Message \<Rightarrow> 'p Message" where
  \<comment> \<open>timestamp, sender ID and sender name, where not set\<close>
  "prepared rt now msg =
     (let m1 = (if m_Timestamp msg = 0 then msg\<lparr>m_Timestamp := now\<rparr> else msg);
          m2 = (if m_FromID m1 = [] then m1\<lparr>m_FromID := MeID rt\<rparr> else m1)
      in if m_From m2 = [] then (case rt_me rt of None \<Rightarrow> m2 | Some (i, n) \<Rightarrow> m2\<lparr>m_From := n\<rparr>) else m2)"

definition versioned :: "('p, 's) Behavior \<Rightarrow> 'p Message \<Rightarrow> 'p Message" where
  "versioned b msg =
     (if m_Version msg = 0 then msg\<lparr>m_Version := (if b_CurrentVersion b = 0 then 1 else b_CurrentVersion b)\<rparr> else msg)"

definition Emit ::
  "go_env \<Rightarrow> 'p codec \<Rightarrow> ('p, 's) Runtime \<Rightarrow> int \<Rightarrow> 'p Message \<Rightarrow> 's \<Rightarrow> 's \<times> rt_outcome" where
  "Emit G C rt now msg st =
     (let m = prepared rt now msg
      in case LookupBehavior rt (m_Kind m) of
           None \<Rightarrow> (st, Failed UnknownKind)
         | Some b \<Rightarrow>
             (case Pipeline_Run G C (rt_context rt) (buildEmitPipeline b) (versioned b m) st of
                (st', Fail e) \<Rightarrow> (st', if error_exits (eb_OnError (b_Emit b)) then Exited else Failed e)
              | (st', r) \<Rightarrow> (st', Done)))"

section \<open>Calls\<close>

text \<open>
  The registry maps the ID of a call to its channel, here a number, and its expiry time. A channel
  has room for one result; \<open>cr_sent\<close> are the results sent so far. The registry is the first
  component of the state, so that whatever the transport does while a message is sent, like
  receiving the answer, can change it.
\<close>

datatype 'p CallResult = Response "'p Message" | CallError rt_error

record 'p CallRegistry =
  cr_pending :: "string \<rightharpoonup> nat \<times> int"
  cr_sent :: "(nat \<times> 'p CallResult) list"

definition Call_Register :: "int \<Rightarrow> string \<Rightarrow> nat \<Rightarrow> int \<Rightarrow> 'p CallRegistry \<Rightarrow> 'p CallRegistry" where
  "Call_Register now i ch timeout r = r\<lparr>cr_pending := (cr_pending r)(i \<mapsto> (ch, now + timeout))\<rparr>"

definition Call_Resolve :: "string \<Rightarrow> 'p Message \<Rightarrow> 'p CallRegistry \<Rightarrow> 'p CallRegistry \<times> bool" where
  "Call_Resolve inReplyTo response r =
     (case cr_pending r inReplyTo of
        None \<Rightarrow> (r, False)
      | Some (ch, expires) \<Rightarrow>
          (r\<lparr>cr_pending := (cr_pending r)(inReplyTo := None), cr_sent := cr_sent r @ [(ch, Response response)]\<rparr>, True))"

definition Call_Cancel :: "string \<Rightarrow> 'p CallRegistry \<Rightarrow> 'p CallRegistry" where
  "Call_Cancel i r = r\<lparr>cr_pending := (cr_pending r)(i := None)\<rparr>"

text \<open>One tick of the reaper; \<open>ids\<close> is the order in which it visits the map.\<close>

definition Call_reap :: "int \<Rightarrow> string list \<Rightarrow> 'p CallRegistry \<Rightarrow> 'p CallRegistry" where
  "Call_reap now ids r =
     (let expired = (\<lambda>i. case cr_pending r i of None \<Rightarrow> False | Some (ch, expires) \<Rightarrow> now > expires)
      in r\<lparr>cr_pending := (\<lambda>i. if expired i then None else cr_pending r i),
           cr_sent := cr_sent r @ map (\<lambda>i. (fst (the (cr_pending r i)), CallError CallTimeout)) (filter expired ids)\<rparr>)"

text \<open>
  \<open>Call\<close> returns the channel it makes, \<open>ch\<close>. When the message cannot be emitted it sends the error
  on the channel itself, and blocks there for good if a result is already in it.
\<close>

datatype call_outcome = Returned | Blocked | ProcessExited

definition Call ::
  "go_env \<Rightarrow> 'p codec \<Rightarrow> ('p, 'p CallRegistry \<times> 's) Runtime \<Rightarrow> int \<Rightarrow> nat \<Rightarrow> 'p Message \<Rightarrow> int
   \<Rightarrow> 'p CallRegistry \<times> 's \<Rightarrow> ('p CallRegistry \<times> 's) \<times> call_outcome" where
  "Call G C rt now ch msg timeout st =
     (let m1 = (if m_Timestamp msg = 0 then msg\<lparr>m_Timestamp := now\<rparr> else msg); (r, s) = st
      in case (if m_ID m1 = [] then Message_ComputeID G C m1 else Some (m_ID m1)) of
           None \<Rightarrow> ((r\<lparr>cr_sent := cr_sent r @ [(ch, CallError ComputeIDFailed)]\<rparr>, s), Returned)
         | Some i \<Rightarrow>
             (case Emit G C rt now (m1\<lparr>m_ID := i\<rparr>) (Call_Register now i ch timeout r, s) of
                (st', Done) \<Rightarrow> (st', Returned)
              | (st', Exited) \<Rightarrow> (st', ProcessExited)
              | ((r', s'), Failed e) \<Rightarrow>
                  let r'' = Call_Cancel i r'
                  in if list_ex (\<lambda>x. fst x = ch) (cr_sent r'') then ((r'', s'), Blocked)
                     else ((r''\<lparr>cr_sent := cr_sent r'' @ [(ch, CallError e)]\<rparr>, s'), Returned)))"

section \<open>Receiving\<close>

text \<open>What \<open>json.Unmarshal\<close> makes of the bytes: the envelope, and the payload still as text.\<close>

record wire =
  w_envelope :: "unit Message"
  w_payload :: string

definition deserialize :: "('p, 's) Runtime \<Rightarrow> wire option \<Rightarrow> 'p Message option" where
  \<comment> \<open>\<open>None\<close> is the error return; \<open>None\<close> as argument is a failed \<open>json.Unmarshal\<close>\<close>
  "deserialize rt raw =
     (case raw of
        None \<Rightarrow> None
      | Some w \<Rightarrow>
          let e = w_envelope w
          in case LookupBehavior rt (m_Kind e) of
               None \<Rightarrow> None
             | Some b \<Rightarrow>
                 let version = (if m_Version e = 0 then 1 else m_Version e)
                 in if version < b_MinVersion b \<or> version > b_CurrentVersion b then None
                    else case b_PayloadTypes b version of
                           None \<Rightarrow> None
                         | Some unmarshal \<Rightarrow>
                             (case unmarshal (w_payload w) of
                                None \<Rightarrow> None
                              | Some p \<Rightarrow>
                                  Some \<lparr>m_ID = m_ID e, m_ContentKey = m_ContentKey e, m_Kind = m_Kind e,
                                        m_Version = m_Version e, m_From = m_From e, m_FromID = m_FromID e,
                                        m_To = m_To e, m_ToID = m_ToID e, m_Timestamp = m_Timestamp e,
                                        m_Payload = Some p, m_Signature = m_Signature e,
                                        m_InReplyTo = m_InReplyTo e\<rparr>))"

definition invokeHandler :: "('p, 's) Behavior \<Rightarrow> 'p Message \<Rightarrow> 's \<Rightarrow> 's \<times> rt_outcome" where
  "invokeHandler b msg st =
     (case b_Handlers b (m_Version msg) of
        None \<Rightarrow> (st, Done)
      | Some handler \<Rightarrow>
          (case handler msg (the (m_Payload msg)) st of
             (st', ok) \<Rightarrow> (st', if \<not> ok \<and> error_exits (rb_OnError (b_Receive b)) then Exited else Done)))"

definition Receive ::
  "go_env \<Rightarrow> 'p codec \<Rightarrow> ('p, 'p CallRegistry \<times> 's) Runtime \<Rightarrow> wire option
   \<Rightarrow> 'p CallRegistry \<times> 's \<Rightarrow> ('p CallRegistry \<times> 's) \<times> rt_outcome" where
  "Receive G C rt raw st =
     (case deserialize rt raw of
        None \<Rightarrow> (st, Failed DeserializeFailed)
      | Some msg \<Rightarrow>
          (case (if m_InReplyTo msg \<noteq> [] then Call_Resolve (m_InReplyTo msg) msg (fst st) else (fst st, False)) of
             (r', True) \<Rightarrow> ((r', snd st), Done)
           | (r', False) \<Rightarrow>
               (case LookupBehavior rt (m_Kind msg) of
                  None \<Rightarrow> (st, Failed UnknownKind)
                | Some b \<Rightarrow>
                    (case Pipeline_Run G C (rt_context rt) (buildReceivePipeline b) msg st of
                       (st', Fail e) \<Rightarrow> (st', if error_exits (rb_OnError (b_Receive b)) then Exited else Failed e)
                     | (st', Drop reason) \<Rightarrow> (st', Done)
                     | (st', Continue msg') \<Rightarrow> invokeHandler b msg' st'))))"

end
