(* ===== verification/Stash.thy ===== *)
theory Stash
  imports Runtime "HOL-Library.AList"
begin

text \<open>
  \<open>services/stash\<close> and \<open>messages/stash.go\<close>: a nara keeps its state encrypted with other naras,
  its confidants. The service reaches the runtime through the operations of \<open>RuntimeInterface\<close>;
  they act on the calls that wait, the service and the rest of the world, because what happens while
  a call waits can change the service too. The encryption of \<open>identity/crypto.go\<close> is on top of the parameters
  \<open>aead_Seal\<close> and \<open>aead_Open\<close>, XChaCha20-Poly1305 of \<open>golang.org/x/crypto\<close>.
\<close>

section \<open>Payloads\<close>

record StashStorePayload =
  sp_OwnerID :: NaraID
  sp_Owner :: NaraName
  sp_Nonce :: string
  sp_Ciphertext :: string
  sp_Timestamp :: int

record StashStoreAck =
  ack_OwnerID :: NaraID
  ack_StoredAt :: int
  ack_Success :: bool
  ack_Reason :: string

record StashRequestPayload =
  rq_OwnerID :: NaraID
  rq_RequestID :: string

record StashResponsePayload =
  rs_OwnerID :: NaraID
  rs_RequestID :: string
  rs_Found :: bool
  rs_Nonce :: string
  rs_Ciphertext :: string
  rs_StoredAt :: int

record StashRefreshPayload =
  rf_OwnerID :: NaraID
  rf_Owner :: NaraName

datatype stash_payload =
    StorePayload StashStorePayload
  | AckPayload StashStoreAck
  | RequestPayload StashRequestPayload
  | ResponsePayload StashResponsePayload
  | RefreshPayload StashRefreshPayload

text \<open>The error of a validation, or none.\<close>

definition StashStorePayload_Validate :: "StashStorePayload \<Rightarrow> string option" where
  "StashStorePayload_Validate p =
     (if sp_OwnerID p = [] then Some ''owner_id required''
      else if length (sp_Nonce p) \<noteq> 24 then Some ''nonce must be 24 bytes for XChaCha20-Poly1305''
      else if length (sp_Ciphertext p) = 0 then Some ''ciphertext required''
      else None)"

definition StashRequestPayload_Validate :: "StashRequestPayload \<Rightarrow> string option" where
  "StashRequestPayload_Validate p = (if rq_OwnerID p = [] then Some ''owner_id required'' else None)"

section \<open>Encryption for oneself\<close>

record aead =
  aead_Seal :: "string \<Rightarrow> string \<Rightarrow> string \<Rightarrow> string"
  aead_Open :: "string \<Rightarrow> string \<Rightarrow> string \<Rightarrow> string option"

text \<open>Key, nonce, text. \<open>NewX\<close> takes keys of 32 bytes only; \<open>None\<close> for \<open>rand.Read\<close> is its error.\<close>

definition KeySize :: nat where "KeySize = 32"
definition NonceSize :: nat where "NonceSize = 24"

definition EncryptForSelf :: "aead \<Rightarrow> string \<Rightarrow> string option \<Rightarrow> string \<Rightarrow> (string \<times> string) option" where
  "EncryptForSelf A key random plaintext =
     (if length key \<noteq> KeySize then None
      else case random of None \<Rightarrow> None | Some nonce \<Rightarrow> Some (nonce, aead_Seal A key nonce plaintext))"

definition DecryptForSelf :: "aead \<Rightarrow> string \<Rightarrow> string \<Rightarrow> string \<Rightarrow> string option" where
  "DecryptForSelf A key nonce ciphertext =
     (if length key \<noteq> KeySize then None
      else if length nonce \<noteq> NonceSize then None
      else aead_Open A key nonce ciphertext)"

section \<open>The service\<close>

record EncryptedStash =
  es_OwnerID :: NaraID
  es_Nonce :: string
  es_Ciphertext :: string
  es_StoredAt :: int

record Service =
  stored :: "(NaraID \<times> EncryptedStash) list"
  confidants :: "NaraID list"
  targetConfidants :: int
  myStashData :: string
  myStashTimestamp :: int

text \<open>The map is an association list without duplicate keys. \<open>StoredAt\<close> is in nanoseconds.\<close>

definition NewService :: Service where
  "NewService = \<lparr>stored = [], confidants = [], targetConfidants = 3, myStashData = [], myStashTimestamp = 0\<rparr>"

record PeerInfo =
  pi_ID :: NaraID
  pi_Name :: NaraName
  pi_Uptime :: int

type_synonym 's world = "stash_payload CallRegistry \<times> Service \<times> 's"

record 's RuntimeInterface =
  ri_me :: "NaraID \<times> NaraName"
  ri_MemoryMode :: string
  ri_OnlinePeers :: "'s \<Rightarrow> PeerInfo list"
  ri_Seal :: "string \<Rightarrow> 's \<Rightarrow> 's \<times> (string \<times> string) option"
  ri_Open :: "string \<Rightarrow> string \<Rightarrow> string option"
  ri_Emit :: "stash_payload Message \<Rightarrow> 's world \<Rightarrow> 's world \<times> bool"
  ri_Call :: "stash_payload Message \<Rightarrow> int \<Rightarrow> 's world \<Rightarrow> 's world \<times> stash_payload CallResult"
  ri_now :: "'s \<Rightarrow> int"

text \<open>Time is in nanoseconds; a bool of \<open>Emit\<close> is: no error.\<close>

definition seconds :: int where "seconds = 1000000000"
definition Unix :: "int \<Rightarrow> int" where "Unix t = t div seconds"

definition StorageLimit :: "'s RuntimeInterface \<Rightarrow> nat" where
  "StorageLimit rt =
     (if ri_MemoryMode rt = ''low'' then 5 else if ri_MemoryMode rt = ''medium'' then 20
      else if ri_MemoryMode rt = ''high'' then 50 else 5)"

definition HasStashFor :: "NaraID \<Rightarrow> Service \<Rightarrow> bool" where
  "HasStashFor ownerID s \<longleftrightarrow> map_of (stored s) ownerID \<noteq> None"

definition canStore :: "'s RuntimeInterface \<Rightarrow> NaraID \<Rightarrow> Service \<Rightarrow> bool" where
  "canStore rt ownerID s \<longleftrightarrow> (if map_of (stored s) ownerID \<noteq> None then True else length (stored s) < StorageLimit rt)"

definition store :: "int \<Rightarrow> NaraID \<Rightarrow> string \<Rightarrow> string \<Rightarrow> Service \<Rightarrow> Service" where
  "store now ownerID nonce ciphertext s =
     s\<lparr>stored := AList.update ownerID
         \<lparr>es_OwnerID = ownerID, es_Nonce = nonce, es_Ciphertext = ciphertext, es_StoredAt = now\<rparr> (stored s)\<rparr>"

definition GetStoredStash :: "NaraID \<Rightarrow> Service \<Rightarrow> EncryptedStash option" where
  "GetStoredStash ownerID s = map_of (stored s) ownerID"

definition StoredCount :: "Service \<Rightarrow> nat" where
  "StoredCount s = length (stored s)"

definition HasStashData :: "Service \<Rightarrow> bool" where
  "HasStashData s \<longleftrightarrow> length (myStashData s) > 0"

definition ClearMyStash :: "Service \<Rightarrow> Service" where
  "ClearMyStash s = s\<lparr>myStashData := [], myStashTimestamp := 0\<rparr>"

definition SetConfidants :: "NaraID list \<Rightarrow> Service \<Rightarrow> Service" where
  "SetConfidants confidantIDs s = s\<lparr>confidants := confidantIDs\<rparr>"

section \<open>Handlers\<close>

definition buildStashResponse :: "NaraID \<Rightarrow> string \<Rightarrow> EncryptedStash option \<Rightarrow> StashResponsePayload" where
  "buildStashResponse ownerID requestID stash =
     (case stash of
        None \<Rightarrow> \<lparr>rs_OwnerID = ownerID, rs_RequestID = requestID, rs_Found = False, rs_Nonce = [], rs_Ciphertext = [],
                 rs_StoredAt = 0\<rparr>
      | Some e \<Rightarrow> \<lparr>rs_OwnerID = ownerID, rs_RequestID = requestID, rs_Found = True, rs_Nonce = es_Nonce e,
                   rs_Ciphertext = es_Ciphertext e, rs_StoredAt = Unix (es_StoredAt e)\<rparr>)"

definition response_to_owner :: "NaraID \<Rightarrow> EncryptedStash \<Rightarrow> stash_payload Message" where
  \<comment> \<open>the message of a refresh and of a push: kind, target and payload, no version\<close>
  "response_to_owner ownerID e =
     zero_message\<lparr>m_Kind := ''stash:response'', m_ToID := ownerID,
       m_Payload := Some (ResponsePayload (buildStashResponse ownerID [] (Some e)))\<rparr>"

definition handleRefreshV1 ::
  "'s RuntimeInterface \<Rightarrow> stash_payload Message \<Rightarrow> StashRefreshPayload \<Rightarrow> 's world \<Rightarrow> 's world \<times> bool" where
  "handleRefreshV1 rt msg p st =
     (case GetStoredStash (rf_OwnerID p) (fst (snd st)) of
        None \<Rightarrow> (st, True)
      | Some e \<Rightarrow> ri_Emit rt (response_to_owner (rf_OwnerID p) e) st)"

definition store_ack :: "NaraID \<Rightarrow> int \<Rightarrow> bool \<Rightarrow> string \<Rightarrow> stash_payload" where
  "store_ack ownerID now success reason =
     AckPayload \<lparr>ack_OwnerID = ownerID, ack_StoredAt = Unix now, ack_Success = success, ack_Reason = reason\<rparr>"

text \<open>
  A request to store takes the lock of the service twice, for the check and for the change, and handlers run at the same time:
  these are two steps (\<open>stash_step\<close> in \<open>Stash_Properties\<close>). \<open>handleStoreV1\<close> is a run of them that no other handler comes
  between. A reason to refuse is \<open>Some\<close>.
\<close>

definition handleStoreV1_check :: "'s RuntimeInterface \<Rightarrow> StashStorePayload \<Rightarrow> Service \<Rightarrow> string option" where
  "handleStoreV1_check rt p s =
     (case StashStorePayload_Validate p of
        Some err \<Rightarrow> Some err
      | None \<Rightarrow> if \<not> canStore rt (sp_OwnerID p) s then Some ''storage limit reached'' else None)"

definition handleStoreV1_store :: "int \<Rightarrow> StashStorePayload \<Rightarrow> Service \<Rightarrow> Service" where
  "handleStoreV1_store now p s = store now (sp_OwnerID p) (sp_Nonce p) (sp_Ciphertext p) s"

definition handleStoreV1 ::
  "'s RuntimeInterface \<Rightarrow> stash_payload Message \<Rightarrow> StashStorePayload \<Rightarrow> 's world \<Rightarrow> 's world \<times> bool" where
  "handleStoreV1 rt msg p st =
     (let (r, s, w) = st; now = ri_now rt w;
          ack = (\<lambda>success reason. Reply msg ''stash:ack'' (store_ack (sp_OwnerID p) now success reason))
      in case handleStoreV1_check rt p s of
           Some reason \<Rightarrow> ri_Emit rt (ack False reason) (r, s, w)
         | None \<Rightarrow> ri_Emit rt (ack True []) (r, handleStoreV1_store now p s, w))"

lemmas handleStoreV1_parts = handleStoreV1_def handleStoreV1_check_def handleStoreV1_store_def

definition handleStoreAckV1 ::
  "'s RuntimeInterface \<Rightarrow> stash_payload Message \<Rightarrow> StashStoreAck \<Rightarrow> 's world \<Rightarrow> 's world \<times> bool" where
  "handleStoreAckV1 rt msg p st = (st, True)"

definition handleRequestV1 ::
  "'s RuntimeInterface \<Rightarrow> stash_payload Message \<Rightarrow> StashRequestPayload \<Rightarrow> 's world \<Rightarrow> 's world \<times> bool" where
  "handleRequestV1 rt msg p st =
     (let reply = (\<lambda>stash. Reply msg ''stash:response'' (ResponsePayload (buildStashResponse (rq_OwnerID p) (rq_RequestID p) stash)))
      in case StashRequestPayload_Validate p of
           Some err \<Rightarrow> ri_Emit rt (reply None) st
         | None \<Rightarrow>
             (case GetStoredStash (rq_OwnerID p) (fst (snd st)) of
                None \<Rightarrow> ri_Emit rt (reply None) st
              | Some e \<Rightarrow> ri_Emit rt (reply (Some e)) st))"

definition handleRecoveryPayload :: "'s RuntimeInterface \<Rightarrow> StashResponsePayload \<Rightarrow> Service \<Rightarrow> Service \<times> bool" where
  "handleRecoveryPayload rt p s =
     (case ri_Open rt (rs_Nonce p) (rs_Ciphertext p) of
        None \<Rightarrow> (s, False)
      | Some plaintext \<Rightarrow> (s\<lparr>myStashData := plaintext, myStashTimestamp := rs_StoredAt p\<rparr>, True))"

definition handleResponseV1 ::
  "'s RuntimeInterface \<Rightarrow> stash_payload Message \<Rightarrow> StashResponsePayload \<Rightarrow> 's world \<Rightarrow> 's world \<times> bool" where
  "handleResponseV1 rt msg p st =
     (let (r, s, w) = st
      in if \<not> HasStashData s \<and> rs_Found p \<and> length (rs_Ciphertext p) > 0
         then (case handleRecoveryPayload rt p s of (s', ok) \<Rightarrow> ((r, s', w), ok))
         else ((r, s, w), True))"

text \<open>
  The handlers as they are registered. A handler gets the payload type registered for its kind and
  no other, which the unmarshalling function of the kind sees to.
\<close>

record unmarshallers =
  u_refresh :: "string \<Rightarrow> StashRefreshPayload option"
  u_store :: "string \<Rightarrow> StashStorePayload option"
  u_ack :: "string \<Rightarrow> StashStoreAck option"
  u_request :: "string \<Rightarrow> StashRequestPayload option"
  u_response :: "string \<Rightarrow> StashResponsePayload option"

definition payload_of :: "('a \<Rightarrow> stash_payload) \<Rightarrow> (string \<Rightarrow> 'a option) \<Rightarrow> string \<Rightarrow> stash_payload option" where
  "payload_of con u s = map_option con (u s)"

fun stash_handler ::
  "'s RuntimeInterface \<Rightarrow> stash_payload Message \<Rightarrow> stash_payload \<Rightarrow> 's world \<Rightarrow> 's world \<times> bool" where
  "stash_handler rt msg (RefreshPayload p) st = handleRefreshV1 rt msg p st"
| "stash_handler rt msg (StorePayload p) st = handleStoreV1 rt msg p st"
| "stash_handler rt msg (AckPayload p) st = handleStoreAckV1 rt msg p st"
| "stash_handler rt msg (RequestPayload p) st = handleRequestV1 rt msg p st"
| "stash_handler rt msg (ResponsePayload p) st = handleResponseV1 rt msg p st"

text \<open>What is registered; the handler \<open>h\<close> is \<open>stash_handler\<close> of the service's runtime.\<close>

type_synonym 's stash_handlers = "stash_payload Message \<Rightarrow> stash_payload \<Rightarrow> 's world \<Rightarrow> 's world \<times> bool"

definition stash_behaviors :: "'s stash_handlers \<Rightarrow> unmarshallers \<Rightarrow> (stash_payload, 's world) Behavior list" where
  "stash_behaviors h u =
     [WithHandler 1 h (WithPayload (payload_of RefreshPayload (u_refresh u))
        (Ephemeral ''stash-refresh'' ''Trigger stash recovery from confidants'' ''nara/plaza/stash_refresh'')),
      WithHandler 1 h (WithPayload (payload_of StorePayload (u_store u))
        (MeshRequest ''stash:store'' ''Store encrypted stash with confidant'')),
      WithHandler 1 h (WithPayload (payload_of AckPayload (u_ack u))
        (MeshRequest ''stash:ack'' ''Acknowledge stash storage'')),
      WithHandler 1 h (WithPayload (payload_of RequestPayload (u_request u))
        (MeshRequest ''stash:request'' ''Request stored stash'')),
      WithHandler 1 h (WithPayload (payload_of ResponsePayload (u_response u))
        (MeshRequest ''stash:response'' ''Return stored stash''))]"

definition RegisterBehaviors ::
  "'s stash_handlers \<Rightarrow> unmarshallers \<Rightarrow> (stash_payload, 's world) Runtime \<Rightarrow> (stash_payload, 's world) Runtime" where
  "RegisterBehaviors h u rt = fold RegisterBehavior (stash_behaviors h u) rt"

section \<open>The owner's side\<close>

datatype stash_error =
    EncryptFailed | RequestFailed rt_error | UnexpectedResponse | StoreFailed string | NotFound | DecryptFailed
  | NoConfidants | NoConfidantHadIt | NoStash | EmitFailed | TooFewPeers | NoFirstConfidant | TooFewWilling
  | NoData | MinimumConfidants | DistributeFailed

text \<open>A call that stores returns its error, or none.\<close>

definition StoreWith ::
  "'s RuntimeInterface \<Rightarrow> NaraID \<Rightarrow> string \<Rightarrow> 's world \<Rightarrow> 's world \<times> stash_error option" where
  "StoreWith rt confidantID data st =
     (let (r, s, w) = st
      in case ri_Seal rt data w of
           (w', None) \<Rightarrow> ((r, s, w'), Some EncryptFailed)
         | (w', Some (nonce, ciphertext)) \<Rightarrow>
             let msg = zero_message\<lparr>m_Kind := ''stash:store'', m_Version := 1, m_ToID := confidantID,
                         m_Payload := Some (StorePayload
                           \<lparr>sp_OwnerID = fst (ri_me rt), sp_Owner = snd (ri_me rt), sp_Nonce = nonce,
                            sp_Ciphertext = ciphertext, sp_Timestamp = Unix (ri_now rt w')\<rparr>)\<rparr>
             in case ri_Call rt msg (30 * seconds) (r, s, w') of
                  (st', CallError e) \<Rightarrow> (st', Some (RequestFailed e))
                | (st', Response resp) \<Rightarrow>
                    (case m_Payload resp of
                       Some (AckPayload ack) \<Rightarrow> (st', if \<not> ack_Success ack then Some (StoreFailed (ack_Reason ack)) else None)
                     | other \<Rightarrow> (st', Some UnexpectedResponse)))"

definition RequestFrom ::
  "'s RuntimeInterface \<Rightarrow> NaraID \<Rightarrow> 's world \<Rightarrow> 's world \<times> (stash_error + string)" where
  "RequestFrom rt confidantID st =
     (let msg = zero_message\<lparr>m_Kind := ''stash:request'', m_Version := 1, m_ToID := confidantID,
                  m_Payload := Some (RequestPayload \<lparr>rq_OwnerID = fst (ri_me rt), rq_RequestID = []\<rparr>)\<rparr>
      in case ri_Call rt msg (30 * seconds) st of
           (st', CallError e) \<Rightarrow> (st', Inl (RequestFailed e))
         | (st', Response resp) \<Rightarrow>
             (case m_Payload resp of
                Some (ResponsePayload p) \<Rightarrow>
                  (st', if \<not> rs_Found p then Inl NotFound
                        else case ri_Open rt (rs_Nonce p) (rs_Ciphertext p) of
                               None \<Rightarrow> Inl DecryptFailed | Some plaintext \<Rightarrow> Inr plaintext)
              | other \<Rightarrow> (st', Inl UnexpectedResponse)))"

fun recover_loop :: "'s RuntimeInterface \<Rightarrow> NaraID list \<Rightarrow> 's world \<Rightarrow> 's world \<times> (stash_error + string)" where
  "recover_loop rt [] st = (st, Inl NoConfidantHadIt)"
| "recover_loop rt (c # cs) st =
     (case RequestFrom rt c st of
        (st', Inr data) \<Rightarrow> (st', Inr data)
      | (st', Inl e) \<Rightarrow> recover_loop rt cs st')"

definition RecoverFromAny :: "'s RuntimeInterface \<Rightarrow> 's world \<Rightarrow> 's world \<times> (stash_error + string)" where
  "RecoverFromAny rt st =
     (if length (confidants (fst (snd st))) = 0 then (st, Inl NoConfidants)
      else recover_loop rt (confidants (fst (snd st))) st)"

definition PushTo :: "'s RuntimeInterface \<Rightarrow> NaraID \<Rightarrow> 's world \<Rightarrow> 's world \<times> stash_error option" where
  "PushTo rt ownerID st =
     (case GetStoredStash ownerID (fst (snd st)) of
        None \<Rightarrow> (st, Some NoStash)
      | Some e \<Rightarrow> (case ri_Emit rt (response_to_owner ownerID e) st of (st', ok) \<Rightarrow> (st', if ok then None else Some EmitFailed)))"

section \<open>Choosing confidants\<close>

text \<open>The bubble sort by uptime, highest first.\<close>

definition bubble_step :: "nat \<Rightarrow> PeerInfo list \<Rightarrow> PeerInfo list" where
  "bubble_step j xs = (if pi_Uptime (xs ! j) < pi_Uptime (xs ! (j + 1)) then xs[j := xs ! (j + 1), j + 1 := xs ! j] else xs)"

definition bubble_pass :: "nat \<Rightarrow> PeerInfo list \<Rightarrow> PeerInfo list" where
  "bubble_pass i xs = fold bubble_step [0..<length xs - i - 1] xs"

definition bubble_sort :: "PeerInfo list \<Rightarrow> PeerInfo list" where
  "bubble_sort xs = fold bubble_pass [0..<length xs - 1] xs"

definition probe_data :: "int \<Rightarrow> string" where
  "probe_data now = json_object [(''test'', json_string ''probe''), (''timestamp'', fmt_int (Unix now))]"

fun first_confidant :: "'s RuntimeInterface \<Rightarrow> PeerInfo list \<Rightarrow> 's world \<Rightarrow> 's world \<times> NaraID option" where
  "first_confidant rt [] st = (st, None)"
| "first_confidant rt (peer # peers) st =
     (if pi_ID peer = fst (ri_me rt) then first_confidant rt peers st
      else case StoreWith rt (pi_ID peer) (probe_data (ri_now rt (snd (snd st)))) st of
             (st', Some err) \<Rightarrow> first_confidant rt peers st'
           | (st', None) \<Rightarrow> (st', Some (pi_ID peer)))"

definition remove_nth :: "nat \<Rightarrow> 'a list \<Rightarrow> 'a list" where
  "remove_nth i xs = take i xs @ drop (i + 1) xs"

lemma length_remove_nth: "i < length xs \<Longrightarrow> length (remove_nth i xs) < length xs"
  by (simp add: remove_nth_def)

lemma pick_index: "xs \<noteq> [] \<Longrightarrow> nat (t mod int (length xs)) < length xs"
  by (simp add: nat_less_iff)

function fill_confidants ::
  "'s RuntimeInterface \<Rightarrow> nat \<Rightarrow> NaraID list \<Rightarrow> PeerInfo list \<Rightarrow> 's world \<Rightarrow> 's world \<times> NaraID list" where
  "fill_confidants rt target selected remaining st =
     (if length selected < target \<and> remaining \<noteq> []
      then let idx = nat (ri_now rt (snd (snd st)) mod int (length remaining)); peer = remaining ! idx
           in case StoreWith rt (pi_ID peer) (probe_data (ri_now rt (snd (snd st)))) st of
                (st', Some err) \<Rightarrow> fill_confidants rt target selected (remove_nth idx remaining) st'
              | (st', None) \<Rightarrow> fill_confidants rt target (selected @ [pi_ID peer]) (remove_nth idx remaining) st'
      else (st, selected))"
  by pat_completeness auto
termination
  by (relation "measure (\<lambda>(rt, target, selected, remaining, st). length remaining)")
    (auto simp: length_remove_nth pick_index)

declare fill_confidants.simps [simp del]

definition SelectConfidantsAutomatically :: "'s RuntimeInterface \<Rightarrow> 's world \<Rightarrow> 's world \<times> stash_error option" where
  "SelectConfidantsAutomatically rt st =
     (let peers = ri_OnlinePeers rt (snd (snd st)); target = targetConfidants (fst (snd st))
      in if int (length peers) < target then (st, Some TooFewPeers)
         else case first_confidant rt (bubble_sort peers) st of
                (st1, None) \<Rightarrow> (st1, Some NoFirstConfidant)
              | (st1, Some c) \<Rightarrow>
                  let remaining = filter (\<lambda>p. pi_ID p \<noteq> c \<and> pi_ID p \<noteq> fst (ri_me rt)) peers
                  in case fill_confidants rt (nat target) [c] remaining st1 of
                       ((r, s, w), selected) \<Rightarrow>
                         if int (length selected) < target then ((r, s, w), Some TooFewWilling)
                         else ((r, SetConfidants selected s, w), None))"

fun distribute_loop :: "'s RuntimeInterface \<Rightarrow> string \<Rightarrow> NaraID list \<Rightarrow> 's world \<Rightarrow> 's world \<times> nat" where
  "distribute_loop rt data [] st = (st, 0)"
| "distribute_loop rt data (c # cs) st =
     (let (st1, err) = StoreWith rt c data st; (st2, n) = distribute_loop rt data cs st1
      in (st2, if err = None then n + 1 else n))"

definition DistributeToConfidants :: "'s RuntimeInterface \<Rightarrow> 's world \<Rightarrow> 's world \<times> stash_error option" where
  "DistributeToConfidants rt st =
     (let s = fst (snd st)
      in if length (myStashData s) = 0 then (st, Some NoData)
         else if length (confidants s) = 0 then (st, Some NoConfidants)
         else if int (length (confidants s)) < targetConfidants s then (st, Some MinimumConfidants)
         else let (st', successCount) = distribute_loop rt (myStashData s) (confidants s) st
              in (st', if successCount = 0 then Some DistributeFailed else None))"

definition SetStashData :: "'s RuntimeInterface \<Rightarrow> string \<Rightarrow> 's world \<Rightarrow> 's world \<times> stash_error option" where
  "SetStashData rt data st =
     (let (r, s, w) = st; s1 = s\<lparr>myStashData := data, myStashTimestamp := Unix (ri_now rt w)\<rparr>
      in if int (length (confidants s1)) < targetConfidants s1
         then (case SelectConfidantsAutomatically rt (r, SetConfidants [] s1, w) of
                 (st', Some err) \<Rightarrow> (st', Some err)
               | (st', None) \<Rightarrow> DistributeToConfidants rt st')
         else DistributeToConfidants rt (r, s1, w))"

end
