(* ===== verification/Runtime_Properties.thy ===== *)
theory Runtime_Properties
  imports Runtime
begin

text \<open>
  Properties of the runtime: what passes between two naras through \<open>Emit\<close> and \<open>Receive\<close>, what an
  unauthenticated message can change, and three places where the pipeline is left.
\<close>

section \<open>Pipelines\<close>

lemma Pipeline_Run_append:
  "Pipeline_Run G C ctx (p @ q) msg st =
     (case Pipeline_Run G C ctx p msg st of
        (st', Continue msg') \<Rightarrow> Pipeline_Run G C ctx q msg' st'
      | (st', r) \<Rightarrow> (st', r))"
  by (induction p arbitrary: msg st) (auto split: prod.splits StageResult.splits)

lemma DefaultVerify_cases:
  "Process G C ctx DefaultVerifyStage msg st =
     (if \<exists>k. px_LookupPublicKey ctx (m_FromID msg) st = Some k \<and> Message_VerifySignature G C msg k
      then (st, Continue msg)
      else (st, Drop (if px_LookupPublicKey ctx (m_FromID msg) st = None then ''unknown_sender'' else ''invalid_signature'')))"
  by (auto split: option.split)

lemmas template_defs = MeshRequest_def ProtocolDefaults_def defaults_def template_def WithPayload_def WithHandler_def
  DefaultSign_def NoStore_def NoGossip_def MeshOnly_def DefaultVerify_def IDDedupe_def Critical_def
  stage_or_def stage_if_def

definition mesh_behavior ::
  "string \<Rightarrow> string \<Rightarrow> (string \<Rightarrow> 'p option) \<Rightarrow> ('p Message \<Rightarrow> 'p \<Rightarrow> 's \<Rightarrow> 's \<times> bool) \<Rightarrow> ('p, 's) Behavior" where
  "mesh_behavior kind desc unmarshal h = WithHandler 1 h (WithPayload unmarshal (MeshRequest kind desc))"

lemma mesh_behavior_fields [simp]:
  "b_MinVersion (mesh_behavior kind desc u h) = 1" "b_CurrentVersion (mesh_behavior kind desc u h) = 1"
  "b_PayloadTypes (mesh_behavior kind desc u h) = [1 \<mapsto> u]" "b_Handlers (mesh_behavior kind desc u h) = [1 \<mapsto> h]"
  "buildEmitPipeline (mesh_behavior kind desc u h) =
     [IDStage, DefaultSignStage, NoStoreStage, NoGossipStage, MeshOnlyStage, NotifyStage]"
  "buildReceivePipeline (mesh_behavior kind desc u h) =
     [DefaultVerifyStage, IDDedupeStage, ImportanceFilterStage 3 None, NoStoreStage, NoGossipStage, NotifyStage]"
  "eb_OnError (b_Emit (mesh_behavior kind desc u h)) = ErrorDrop"
  "rb_OnError (b_Receive (mesh_behavior kind desc u h)) = ErrorDrop"
  by (simp_all add: mesh_behavior_def buildEmitPipeline_def buildReceivePipeline_def template_defs)

definition notified :: "('p, 's) PipelineContext \<Rightarrow> 'p Message \<Rightarrow> 's \<Rightarrow> 's" where
  "notified ctx msg st = (case px_EventBus ctx of None \<Rightarrow> st | Some emit \<Rightarrow> emit msg st)"

definition known_duplicate :: "('p, 's) PipelineContext \<Rightarrow> 'p Message \<Rightarrow> 's \<Rightarrow> bool" where
  "known_duplicate ctx msg st \<longleftrightarrow> (case px_Ledger ctx of None \<Rightarrow> False | Some L \<Rightarrow> lg_HasID L (m_ID msg) st)"

lemma mesh_receive_pipeline:
  assumes "px_LookupPublicKey ctx (m_FromID msg) st = Some k" and "Message_VerifySignature G C msg k"
    and "\<not> known_duplicate ctx msg st"
  shows "Pipeline_Run G C ctx (buildReceivePipeline (mesh_behavior kind desc u h)) msg st = (notified ctx msg st, Continue msg)"
  using assms by (auto simp: notified_def known_duplicate_def split: option.split)

lemma SignableContent_Signature [simp]: "SignableContent C (m\<lparr>m_Signature := x\<rparr>) = SignableContent C m"
  by (cases m) (simp only: SignableContent_def Message.simps)

lemma signed_message_verifies:
  assumes "crypto_ok G" and "valid_keypair G kp" and "SignableContent C m = Some content"
  shows "Message_VerifySignature G C (m\<lparr>m_Signature := KeypairSign G kp content\<rparr>) (PublicKey kp)"
proof -
  have "length (KeypairSign G kp content) = SignatureSize" using assms(1) by (simp add: KeypairSign_def crypto_ok_def)
  then show ?thesis
    using assms(2,3) by (auto simp: Message_VerifySignature_def valid_keypair_def KeypairSign_def SignatureSize_def)
qed

section \<open>The wire\<close>

text \<open>What the receiver's \<open>json.Unmarshal\<close> makes of a marshalled message.\<close>

definition wire_of :: "'p codec \<Rightarrow> 'p Message \<Rightarrow> wire" where
  "wire_of C m = \<lparr>w_envelope = \<lparr>m_ID = m_ID m, m_ContentKey = m_ContentKey m, m_Kind = m_Kind m, m_Version = m_Version m,
     m_From = m_From m, m_FromID = m_FromID m, m_To = m_To m, m_ToID = m_ToID m, m_Timestamp = m_Timestamp m,
     m_Payload = None, m_Signature = m_Signature m, m_InReplyTo = m_InReplyTo m\<rparr>,
     w_payload = the (payload_json C (m_Payload m))\<rparr>"

lemma deserialize_wire_of:
  assumes "LookupBehavior rt (m_Kind m) = Some b" and "m_Payload m = Some p" and "marshal_payload C p = Some s"
    and "m_Version m \<noteq> 0" and "b_MinVersion b \<le> m_Version m" and "m_Version m \<le> b_CurrentVersion b"
    and "b_PayloadTypes b (m_Version m) = Some u" and "u s = Some p"
  shows "deserialize rt (Some (wire_of C m)) = Some m"
  using assms by (cases m) (simp add: deserialize_def wire_of_def payload_json_def Let_def)

section \<open>Through the pipelines\<close>

text \<open>A mesh kind of a runtime that signs with \<open>kp\<close>, whose transport takes every message.\<close>

definition mesh_sender ::
  "go_env \<Rightarrow> NaraKeypair \<Rightarrow> NaraID \<Rightarrow> (NaraID \<Rightarrow> 'p Message \<Rightarrow> 's \<Rightarrow> 's) \<Rightarrow> ('p, 's) Runtime \<Rightarrow> bool" where
  "mesh_sender G kp me q rt \<longleftrightarrow>
     (\<exists>name. rt_me rt = Some (me, name)) \<and> px_Sign (rt_context rt) = KeypairSign G kp \<and> px_EventBus (rt_context rt) = None \<and>
     (\<exists>t. px_Transport (rt_context rt) = Some t \<and> (\<forall>to m s. tp_TrySendDirect t to m s = (q to m s, True)))"

definition emitted_message ::
  "go_env \<Rightarrow> 'p codec \<Rightarrow> ('p, 's) Runtime \<Rightarrow> ('p, 's) Behavior \<Rightarrow> int \<Rightarrow> 'p Message \<Rightarrow> 'p Message" where
  \<comment> \<open>what the emit pipeline of a mesh kind makes of \<open>msg\<close>: completed, with an ID, and signed\<close>
  "emitted_message G C rt b now msg =
     (let m1 = versioned b (prepared rt now msg);
          m2 = m1\<lparr>m_ID := if m_ID m1 = [] then the (Message_ComputeID G C m1) else m_ID m1\<rparr>
      in m2\<lparr>m_Signature := px_Sign (rt_context rt) (the (SignableContent C m2))\<rparr>)"

lemma emit_mesh_message:
  assumes "crypto_ok G" and "valid_keypair G kp" and "rt_me rt = Some (me, name)" and "px_Sign (rt_context rt) = KeypairSign G kp"
    and "px_Transport (rt_context rt) = Some t"
    and b: "LookupBehavior rt (m_Kind msg) = Some (mesh_behavior kind desc u h)"
    and msg: "m_Payload msg = Some p" "marshal_payload C p = Some enc" "m_ToID msg \<noteq> []" "m_FromID msg = []" "m_Version msg \<in> {0, 1}"
    and m: "m = emitted_message G C rt (mesh_behavior kind desc u h) now msg"
  shows "(\<forall>st. Emit G C rt now msg st =
       (case tp_TrySendDirect t (m_ToID msg) m st of
          (st', ok) \<Rightarrow> if ok then (notified (rt_context rt) m st', Done) else (st', Failed MeshSendFailed))) \<and>
     m_Kind m = m_Kind msg \<and> m_FromID m = me \<and> m_ToID m = m_ToID msg \<and> m_Payload m = Some p \<and> m_Version m = 1 \<and>
     m_InReplyTo m = m_InReplyTo msg \<and> (m_ID msg \<noteq> [] \<longrightarrow> m_ID m = m_ID msg) \<and> Message_VerifySignature G C m (PublicKey kp)"
proof -
  let ?m1 = "versioned (mesh_behavior kind desc u h) (prepared rt now msg)"
  have f: "m_Kind ?m1 = m_Kind msg" "m_Payload ?m1 = Some p" "m_FromID ?m1 = me" "m_ToID ?m1 = m_ToID msg" "m_Version ?m1 = 1"
    "m_InReplyTo ?m1 = m_InReplyTo msg" "m_ID ?m1 = m_ID msg"
    using assms(3) msg by (auto simp: versioned_def prepared_def MeID_def Let_def)
  have "\<exists>i. (if m_ID ?m1 = [] then Message_ComputeID G C ?m1 else Some (m_ID ?m1)) = Some i"
    using f(2) msg(2) by (simp add: Message_ComputeID_def Let_def)
  then obtain i where i: "(if m_ID ?m1 = [] then Message_ComputeID G C ?m1 else Some (m_ID ?m1)) = Some i" by blast
  define m2 where "m2 = ?m1\<lparr>m_ID := i\<rparr>"
  have id: "Process G C (rt_context rt) IDStage ?m1 st = (st, Continue m2)" for st
    using i by (auto simp: m2_def split: option.split if_splits)
  have f2: "m_Kind m2 = m_Kind msg" "m_Payload m2 = Some p" "m_FromID m2 = me" "m_ToID m2 = m_ToID msg" "m_Version m2 = 1"
    "m_InReplyTo m2 = m_InReplyTo msg" "m_ID msg \<noteq> [] \<longrightarrow> m_ID m2 = m_ID msg"
    using f i by (auto simp: m2_def)
  obtain content where content: "SignableContent C m2 = Some content"
    using f2(2) msg(2) by (simp add: SignableContent_def payload_json_def)
  have "m2 = ?m1\<lparr>m_ID := if m_ID ?m1 = [] then the (Message_ComputeID G C ?m1) else m_ID ?m1\<rparr>"
    unfolding m2_def using i by (metis option.sel)
  then have m_def: "m = m2\<lparr>m_Signature := KeypairSign G kp content\<rparr>"
    using content assms(4) by (simp add: m emitted_message_def Let_def)
  have v: "Message_VerifySignature G C m (PublicKey kp)"
    unfolding m_def using assms(1,2) content by (rule signed_message_verifies)
  have p: "Pipeline_Run G C (rt_context rt) (buildEmitPipeline (mesh_behavior kind desc u h)) ?m1 st =
      (case tp_TrySendDirect t (m_ToID msg) m st of
         (st', ok) \<Rightarrow> if ok then (notified (rt_context rt) m st', Continue m) else (st', Fail MeshSendFailed))" for st
    using content assms(4,5) f2(4) msg(3) by (simp only: mesh_behavior_fields Pipeline_Run.simps id)
      (auto simp: m_def notified_def split: prod.split option.split)
  have "LookupBehavior rt (m_Kind (prepared rt now msg)) = Some (mesh_behavior kind desc u h)"
    using assms(3) b by (simp add: prepared_def Let_def)
  then have "Emit G C rt now msg st =
      (case tp_TrySendDirect t (m_ToID msg) m st of
         (st', ok) \<Rightarrow> if ok then (notified (rt_context rt) m st', Done) else (st', Failed MeshSendFailed))" for st
    using p [of st] by (auto simp: Emit_def Let_def error_exits_def split: prod.split simp del: mesh_behavior_fields(5))
  then show ?thesis using f2 v by (simp add: m_def)
qed

lemma emit_mesh_any:
  assumes "crypto_ok G" and "valid_keypair G kp" and "rt_me rt = Some (me, name)" and "px_Sign (rt_context rt) = KeypairSign G kp"
    and "px_Transport (rt_context rt) = Some t"
    and b: "LookupBehavior rt (m_Kind msg) = Some (mesh_behavior kind desc u h)"
    and msg: "m_Payload msg = Some p" "marshal_payload C p = Some enc" "m_ToID msg \<noteq> []" "m_FromID msg = []" "m_Version msg \<in> {0, 1}"
  shows "\<exists>m. (\<forall>st. Emit G C rt now msg st =
       (case tp_TrySendDirect t (m_ToID msg) m st of
          (st', ok) \<Rightarrow> if ok then (notified (rt_context rt) m st', Done) else (st', Failed MeshSendFailed))) \<and>
     m_Kind m = m_Kind msg \<and> m_FromID m = me \<and> m_ToID m = m_ToID msg \<and> m_Payload m = Some p \<and> m_Version m = 1 \<and>
     m_InReplyTo m = m_InReplyTo msg \<and> (m_ID msg \<noteq> [] \<longrightarrow> m_ID m = m_ID msg) \<and> Message_VerifySignature G C m (PublicKey kp)"
  using emit_mesh_message [OF assms refl, of now] by blast

lemma emit_mesh:
  assumes "crypto_ok G" and "valid_keypair G kp" and "mesh_sender G kp me q rt"
    and b: "LookupBehavior rt (m_Kind msg) = Some (mesh_behavior kind desc u h)"
    and msg: "m_Payload msg = Some p" "marshal_payload C p = Some enc" "m_ToID msg \<noteq> []" "m_FromID msg = []" "m_Version msg \<in> {0, 1}"
  shows "\<exists>m. Emit G C rt now msg st = (q (m_ToID msg) m st, Done) \<and> m_Kind m = m_Kind msg \<and> m_FromID m = me \<and>
     m_ToID m = m_ToID msg \<and> m_Payload m = Some p \<and> m_Version m = 1 \<and> m_InReplyTo m = m_InReplyTo msg \<and>
     (m_ID msg \<noteq> [] \<longrightarrow> m_ID m = m_ID msg) \<and> Message_VerifySignature G C m (PublicKey kp)"
proof -
  obtain name t where sender: "rt_me rt = Some (me, name)" "px_Sign (rt_context rt) = KeypairSign G kp"
    "px_EventBus (rt_context rt) = None" "px_Transport (rt_context rt) = Some t" "\<And>to m s. tp_TrySendDirect t to m s = (q to m s, True)"
    using assms(3) by (auto simp: mesh_sender_def)
  show ?thesis
    using emit_mesh_any [OF assms(1,2) sender(1,2,4) b msg, of now] by (auto simp: sender(3,5) notified_def)
qed

lemma deserialize_mesh:
  assumes "LookupBehavior rt (m_Kind m) = Some (mesh_behavior kind desc u h)"
    and "m_Payload m = Some p" "marshal_payload C p = Some enc" "u enc = Some p" "m_Version m = 1"
  shows "deserialize rt (Some (wire_of C m)) = Some m"
  by (rule deserialize_wire_of [of rt m "mesh_behavior kind desc u h" p C enc u]) (use assms in simp_all)

lemma receive_mesh:
  assumes b: "LookupBehavior rt (m_Kind m) = Some (mesh_behavior kind desc u h)"
    and m: "m_Payload m = Some p" "marshal_payload C p = Some enc" "u enc = Some p" "m_Version m = 1"
    and "px_LookupPublicKey (rt_context rt) (m_FromID m) (r, s) = Some k" and "Message_VerifySignature G C m k"
    and "m_InReplyTo m \<noteq> [] \<longrightarrow> cr_pending r (m_InReplyTo m) = None"
    and "\<not> known_duplicate (rt_context rt) m (r, s)"
  shows "Receive G C rt (Some (wire_of C m)) (r, s) =
     (case h m p (notified (rt_context rt) m (r, s)) of (st', ok) \<Rightarrow> (st', Done))"
  using deserialize_mesh [OF b m] assms mesh_receive_pipeline [of "rt_context rt" m "(r, s)" k G C kind desc u h]
  by (auto simp: Receive_def Call_Resolve_def invokeHandler_def error_exits_def split: prod.split)

lemma receive_answer:
  assumes b: "LookupBehavior rt (m_Kind m) = Some (mesh_behavior kind desc u h)"
    and m: "m_Payload m = Some p" "marshal_payload C p = Some enc" "u enc = Some p" "m_Version m = 1"
    and "m_InReplyTo m \<noteq> []" and "cr_pending r (m_InReplyTo m) = Some (ch, expires)"
  shows "Receive G C rt (Some (wire_of C m)) (r, s) =
     ((r\<lparr>cr_pending := (cr_pending r)(m_InReplyTo m := None), cr_sent := cr_sent r @ [(ch, Response m)]\<rparr>, s), Done)"
  using deserialize_mesh [OF b m] assms(6,7) by (simp add: Receive_def Call_Resolve_def)

section \<open>Properties\<close>

text \<open>
  what is emitted is received. A nara emits a message on a mesh kind and a peer with the same
  kind receives it: the transport is given one message, signed and addressed; whatever the peer's
  state, if it knows the sender's key, has not stored the ID and waits for no answer under the
  message's correlation ID, its handler runs, once, on exactly this message and payload.
\<close>

theorem emit_receive_roundtrip:
  assumes "crypto_ok G" and "valid_keypair G kp"
    and sender: "rt_me rt = Some (me, name)" "LookupBehavior rt kind = Some (mesh_behavior kind desc u h)"
      "px_Sign (rt_context rt) = KeypairSign G kp" "px_Transport (rt_context rt) = Some t" "px_EventBus (rt_context rt) = None"
      "\<And>to m s. tp_TrySendDirect t to m s = (s @ [(to, m)], True)"
    and msg: "m_Kind msg = kind" "m_Payload msg = Some p" "marshal_payload C p = Some enc" "u' enc = Some p"
      "m_ToID msg \<noteq> []" "m_FromID msg = []" "m_Version msg = 1"
    and receiver: "LookupBehavior rt' kind = Some (mesh_behavior kind desc' u' h')"
      "px_LookupPublicKey (rt_context rt') me (r, s) = Some (PublicKey kp)"
      "m_InReplyTo msg \<noteq> [] \<longrightarrow> cr_pending r (m_InReplyTo msg) = None"
      "\<And>m. \<not> known_duplicate (rt_context rt') m (r, s)"
  shows "\<exists>m. Emit G C rt now msg out = (out @ [(m_ToID msg, m)], Done) \<and> m_FromID m = me \<and> m_Payload m = Some p \<and>
     m_InReplyTo m = m_InReplyTo msg \<and>
     Receive G C rt' (Some (wire_of C m)) (r, s) =
       (case h' m p (notified (rt_context rt') m (r, s)) of (st', ok) \<Rightarrow> (st', Done))"
proof -
  have "mesh_sender G kp me (\<lambda>to m out. out @ [(to, m)]) rt" using sender by (auto simp: mesh_sender_def)
  from emit_mesh [OF assms(1,2) this, of msg kind desc u h p C enc now out] sender(2) msg
  obtain m where m: "Emit G C rt now msg out = (out @ [(m_ToID msg, m)], Done)" "m_Kind m = kind" "m_FromID m = me"
    "m_Payload m = Some p" "m_Version m = 1" "m_InReplyTo m = m_InReplyTo msg" "Message_VerifySignature G C m (PublicKey kp)"
    by auto
  have "Receive G C rt' (Some (wire_of C m)) (r, s) =
      (case h' m p (notified (rt_context rt') m (r, s)) of (st', ok) \<Rightarrow> (st', Done))"
    by (rule receive_mesh [where kind = kind and desc = desc' and u = u' and enc = enc]) (use m msg receiver in auto)
  then show ?thesis using m by blast
qed

definition demo_codec :: "string codec" where
  "demo_codec = \<lparr>marshal_payload = Some, time_text = fmt_int, base58_Encode = (\<lambda>s. s)\<rparr>"

definition demo_context :: "NaraKeypair \<Rightarrow> ('p, 's) TransportInterface option \<Rightarrow> ('p, 's) PipelineContext" where
  "demo_context kp t = \<lparr>px_Ledger = None, px_Transport = t, px_GossipQueue = None, px_Sign = KeypairSign demo_env kp,
     px_LookupPublicKey = (\<lambda>i st. Some (PublicKey (demo_keypair (hd i)))), px_RegisterPublicKey = (\<lambda>i k st. st),
     px_Personality = None, px_EventBus = None\<rparr>"

definition demo_runtime ::
  "NaraID \<Rightarrow> ('p, 's) TransportInterface option \<Rightarrow> ('p, 's) Behavior \<Rightarrow> ('p, 's) Runtime" where
  "demo_runtime i t b = RegisterBehavior b
     \<lparr>rt_me = Some (i, i), rt_context = demo_context (demo_keypair (hd i)) t, rt_localBehaviors = Map.empty\<rparr>"

lemma demo_runtime_fields [simp]:
  "rt_me (demo_runtime i t b) = Some (i, i)" "LookupBehavior (demo_runtime i t b) (b_Kind b) = Some b"
  "px_Sign (rt_context (demo_runtime i t b)) = KeypairSign demo_env (demo_keypair (hd i))"
  "px_Transport (rt_context (demo_runtime i t b)) = t" "px_EventBus (rt_context (demo_runtime i t b)) = None"
  "px_LookupPublicKey (rt_context (demo_runtime i t b)) j st = Some (PublicKey (demo_keypair (hd j)))"
  "px_Ledger (rt_context (demo_runtime i t b)) = None"
  by (simp_all add: demo_runtime_def demo_context_def RegisterBehavior_def LookupBehavior_def)

lemma b_Kind_mesh [simp]: "b_Kind (mesh_behavior kind desc u h) = kind"
  by (simp add: mesh_behavior_def template_defs)

text \<open>A kind whose handler puts the payload on a list.\<close>

definition demo_mesh :: "(string, string CallRegistry \<times> string list) Behavior" where
  "demo_mesh = mesh_behavior ''k'' [] Some (\<lambda>m p (r, s). ((r, p # s), True))"

lemma lookup_demo_mesh [simp]:
  "LookupBehavior (demo_runtime i t demo_mesh) kind = (if kind = ''k'' then Some demo_mesh else None)"
  by (simp add: demo_mesh_def demo_runtime_def RegisterBehavior_def LookupBehavior_def)

lemma demo_mesh_fields [simp]:
  "b_MinVersion demo_mesh = 1" "b_CurrentVersion demo_mesh = 1" "b_PayloadTypes demo_mesh = [1 \<mapsto> Some]"
  "rb_Verify (b_Receive demo_mesh) = Some DefaultVerify"
  by (simp_all add: demo_mesh_def) (simp_all add: mesh_behavior_def template_defs)

definition demo_outbox :: "('p, (NaraID \<times> 'p Message) list) TransportInterface" where
  "demo_outbox = \<lparr>tp_PublishMQTT = (\<lambda>topic d s. (s, False)), tp_TrySendDirect = (\<lambda>to m s. (s @ [(to, m)], True))\<rparr>"

theorem emit_receive_roundtrip_witness:
  "\<exists>m. Emit demo_env demo_codec (demo_runtime ''a'' (Some demo_outbox) (mesh_behavior ''k'' [] Some (\<lambda>m p s. (s, True)))) 5
        (zero_message\<lparr>m_Kind := ''k'', m_Version := 1, m_ToID := ''b'', m_Payload := Some ''hello''\<rparr>) [] = ([(''b'', m)], Done) \<and>
     Receive demo_env demo_codec (demo_runtime ''b'' None demo_mesh)
        (Some (wire_of demo_codec m)) (\<lparr>cr_pending = Map.empty, cr_sent = []\<rparr>, []) =
       ((\<lparr>cr_pending = Map.empty, cr_sent = []\<rparr>, [''hello'']), Done)"
proof -
  let ?h = "\<lambda>(m :: string Message) (p :: string) (s :: (NaraID \<times> string Message) list). (s, True)"
  let ?h' = "\<lambda>(m :: string Message) p (r :: string CallRegistry, s :: string list). ((r, p # s), True)"
  let ?b = "mesh_behavior ''k'' [] Some ?h" and ?b' = demo_mesh
  let ?rt = "demo_runtime ''a'' (Some demo_outbox) ?b" and ?rt' = "demo_runtime ''b'' None ?b'"
  let ?msg = "zero_message\<lparr>m_Kind := ''k'', m_Version := 1, m_ToID := ''b'', m_Payload := Some ''hello''\<rparr>"
  let ?r = "\<lparr>cr_pending = Map.empty, cr_sent = []\<rparr> :: string CallRegistry"
  have "LookupBehavior ?rt ''k'' = Some ?b" "LookupBehavior ?rt' ''k'' = Some ?b'"
    using demo_runtime_fields(2) [of _ _ ?b] demo_runtime_fields(2) [of _ _ ?b'] by simp_all
  have lk: "LookupBehavior ?rt ''k'' = Some ?b" "LookupBehavior ?rt' ''k'' = Some (mesh_behavior ''k'' [] Some ?h')"
    using demo_runtime_fields(2) [of _ _ ?b] by (simp_all add: demo_mesh_def [symmetric])
  note R = emit_receive_roundtrip [OF crypto_ok_demo valid_keypair_demo demo_runtime_fields(1) lk(1) demo_runtime_fields(3,4,5),
      where msg = ?msg and C = demo_codec and r = ?r and s = "[]" and out = "[]" and now = 5 and p = "''hello''" and enc = "''hello''",
      OF _ _ _ _ _ _ _ _ lk(2)]
  have "\<exists>m. Emit demo_env demo_codec ?rt 5 ?msg [] = ([] @ [(m_ToID ?msg, m)], Done) \<and> m_FromID m = ''a'' \<and> m_Payload m = Some ''hello'' \<and>
     m_InReplyTo m = m_InReplyTo ?msg \<and>
     Receive demo_env demo_codec ?rt' (Some (wire_of demo_codec m)) (?r, []) =
       (case ?h' m ''hello'' (notified (rt_context ?rt') m (?r, [])) of (st', ok) \<Rightarrow> (st', Done))"
    by (rule R) (simp_all add: demo_outbox_def demo_codec_def zero_message_def known_duplicate_def)
  then show ?thesis by (auto simp: notified_def zero_message_def)
qed

lemma unverified_dropped:
  assumes "rb_Verify (b_Receive b) = None \<or> rb_Verify (b_Receive b) = Some DefaultVerify"
    and "\<not> (\<exists>k. px_LookupPublicKey ctx (m_FromID m) st = Some k \<and> Message_VerifySignature G C m k)"
  shows "\<exists>reason. Pipeline_Run G C ctx (buildReceivePipeline b) m st = (st, Drop reason)"
proof -
  obtain p where p: "buildReceivePipeline b = DefaultVerifyStage # p"
    using assms(1) by (auto simp: buildReceivePipeline_def stage_or_def DefaultVerify_def)
  show ?thesis
    unfolding p Pipeline_Run.simps DefaultVerify_cases using assms(2) by (simp only: if_False prod.case StageResult.case) blast
qed

lemma deserialize_payload:
  assumes "deserialize rt raw = Some m"
  obtains b v u x p where "LookupBehavior rt (m_Kind m) = Some b" and "b_PayloadTypes b v = Some u" and "u x = Some p"
    and "m_Payload m = Some p"
  using assms that by (auto simp: deserialize_def Let_def split: option.splits if_splits)

text \<open>A kind that keeps the default verification: nothing changes without a signature, but for an answer that a call waits for.\<close>

lemma unverified_changes_nothing:
  assumes "\<And>m b. deserialize rt raw = Some m \<Longrightarrow> LookupBehavior rt (m_Kind m) = Some b \<Longrightarrow>
       rb_Verify (b_Receive b) = None \<or> rb_Verify (b_Receive b) = Some DefaultVerify"
    and "Receive G C rt raw st = (st', out)" and "st' \<noteq> st"
  shows "\<exists>m. deserialize rt raw = Some m \<and>
     ((\<exists>k. px_LookupPublicKey (rt_context rt) (m_FromID m) st = Some k \<and> Message_VerifySignature G C m k) \<or>
      (m_InReplyTo m \<noteq> [] \<and> cr_pending (fst st) (m_InReplyTo m) \<noteq> None \<and> snd st' = snd st))"
proof -
  obtain m where m: "deserialize rt raw = Some m"
    using assms(2,3) by (cases "deserialize rt raw") (auto simp: Receive_def)
  show ?thesis
  proof (cases "m_InReplyTo m \<noteq> [] \<and> cr_pending (fst st) (m_InReplyTo m) \<noteq> None")
    case True
    then have "snd st' = snd st" using assms(2) m by (auto simp: Receive_def Call_Resolve_def)
    then show ?thesis using m True by blast
  next
    case False
    then have c: "(if m_InReplyTo m \<noteq> [] then Call_Resolve (m_InReplyTo m) m (fst st) else (fst st, False)) = (fst st, False)"
      by (cases "cr_pending (fst st) (m_InReplyTo m)") (auto simp: Call_Resolve_def)
    obtain b where b: "LookupBehavior rt (m_Kind m) = Some b"
      using assms(2,3) m c by (cases "LookupBehavior rt (m_Kind m)") (auto simp: Receive_def)
    then have v: "rb_Verify (b_Receive b) = None \<or> rb_Verify (b_Receive b) = Some DefaultVerify"
      using assms(1) [OF m] by blast
    have "\<exists>k. px_LookupPublicKey (rt_context rt) (m_FromID m) st = Some k \<and> Message_VerifySignature G C m k"
    proof (rule ccontr)
      assume "\<not> ?thesis"
      then obtain reason where "Pipeline_Run G C (rt_context rt) (buildReceivePipeline b) m st = (st, Drop reason)"
        using unverified_dropped [OF v, of "rt_context rt" m st G C] by blast
      then have "Receive G C rt raw st = (st, Done)" using m c b by (auto simp: Receive_def)
      then show False using assms(2,3) by simp
    qed
    then show ?thesis using m by blast
  qed
qed

text \<open>
  a message without a version is accepted and then ignored. The version counts as 1 for choosing
  the payload's type, as the comment on compatibility says, but the message keeps version 0 and has
  no handler; nothing is reported. The version is not under the signature: the same signed message
  with version 1 is handled.
\<close>

theorem unversioned_message_unhandled:
  assumes "LookupBehavior rt (m_Kind (w_envelope w)) = Some (mesh_behavior (m_Kind (w_envelope w)) desc u h)"
    and "m_Version (w_envelope w) = 0" and "m_InReplyTo (w_envelope w) = []" and "u (w_payload w) = Some p"
    and "deserialize rt (Some w) = Some m" and "px_EventBus (rt_context rt) = None" and "px_Ledger (rt_context rt) = None"
    and "px_LookupPublicKey (rt_context rt) (m_FromID m) st = Some k" and "Message_VerifySignature G C m k"
  shows "Receive G C rt (Some w) st = (st, Done) \<and>
     Receive G C rt (Some (w\<lparr>w_envelope := (w_envelope w)\<lparr>m_Version := 1\<rparr>\<rparr>)) st =
       (case h (m\<lparr>m_Version := 1\<rparr>) p st of (st', ok) \<Rightarrow> (st', Done))"
proof -
  let ?b = "mesh_behavior (m_Kind (w_envelope w)) desc u h"
  have m: "m_Version m = 0" "m_Kind m = m_Kind (w_envelope w)" "m_InReplyTo m = []" "m_Payload m = Some p"
    using assms(1-5) by (auto simp: deserialize_def Let_def)
  have d: "deserialize rt (Some (w\<lparr>w_envelope := (w_envelope w)\<lparr>m_Version := 1\<rparr>\<rparr>)) = Some (m\<lparr>m_Version := 1\<rparr>)"
    using assms(1-5) by (auto simp: deserialize_def Let_def)
  have "SignableContent C (m\<lparr>m_Version := 1\<rparr>) = SignableContent C m"
    by (cases m) (simp only: SignableContent_def Message.simps)
  then have "Message_VerifySignature G C (m\<lparr>m_Version := 1\<rparr>) k" using assms(9) by (auto simp: Message_VerifySignature_def split: option.splits if_splits)
  then have "Pipeline_Run G C (rt_context rt) (buildReceivePipeline ?b) m st = (st, Continue m)"
    "Pipeline_Run G C (rt_context rt) (buildReceivePipeline ?b) (m\<lparr>m_Version := 1\<rparr>) st = (st, Continue (m\<lparr>m_Version := 1\<rparr>))"
    using assms(6-9) by (simp_all add: mesh_receive_pipeline known_duplicate_def notified_def del: mesh_behavior_fields)
  then show ?thesis
    using assms(1,5) m d by (auto simp: Receive_def invokeHandler_def error_exits_def split: prod.split simp del: mesh_behavior_fields(5,6))
qed

theorem unversioned_message_unhandled_witness:
  "\<exists>m. Receive demo_env demo_codec (demo_runtime ''b'' None demo_mesh)
        (Some (wire_of demo_codec m)) (\<lparr>cr_pending = Map.empty, cr_sent = []\<rparr>, []) = ((\<lparr>cr_pending = Map.empty, cr_sent = []\<rparr>, []), Done) \<and>
     m_Payload m = Some ''x'' \<and> Message_VerifySignature demo_env demo_codec m (PublicKey (demo_keypair CHR ''a''))"
proof -
  let ?b = demo_mesh
  let ?rt = "demo_runtime ''b'' None ?b" and ?r = "\<lparr>cr_pending = Map.empty, cr_sent = []\<rparr> :: string CallRegistry"
  let ?m0 = "zero_message\<lparr>m_Kind := ''k'', m_FromID := ''a'', m_Payload := Some ''x''\<rparr> :: string Message"
  obtain c where c: "SignableContent demo_codec ?m0 = Some c" by (simp add: SignableContent_def payload_json_def demo_codec_def)
  define m where "m = ?m0\<lparr>m_Signature := KeypairSign demo_env (demo_keypair CHR ''a'') c\<rparr>"
  have v: "Message_VerifySignature demo_env demo_codec m (PublicKey (demo_keypair CHR ''a''))"
    unfolding m_def using crypto_ok_demo valid_keypair_demo c by (rule signed_message_verifies)
  have m: "m_Kind (w_envelope (wire_of demo_codec m)) = ''k''" "m_Version (w_envelope (wire_of demo_codec m)) = 0"
    "m_InReplyTo (w_envelope (wire_of demo_codec m)) = []" "w_payload (wire_of demo_codec m) = ''x''" "m_FromID m = ''a''"
    "deserialize ?rt (Some (wire_of demo_codec m)) = Some m" "m_Payload m = Some ''x''"
    by (simp_all add: m_def wire_of_def zero_message_def demo_codec_def payload_json_def deserialize_def Let_def)
  have "Receive demo_env demo_codec ?rt (Some (wire_of demo_codec m)) (?r, []) = ((?r, []), Done)"
    by (rule conjunct1 [OF unversioned_message_unhandled [where desc = "[]" and u = Some and p = "''x''"
          and k = "PublicKey (demo_keypair CHR ''a'')" and h = "\<lambda>m p (r, s). ((r, p # s), True)" and m = m]])
      (use m v in \<open>simp_all add: demo_mesh_def [symmetric]\<close>)
  then show ?thesis using v m(7) by blast
qed

lemma mesh_emit:
  assumes "LookupBehavior rt (m_Kind msg) = Some (mesh_behavior (m_Kind msg) desc u h)" and "m_ID msg \<noteq> []"
    and "m_ToID msg \<noteq> []" and "SignableContent C (versioned (mesh_behavior (m_Kind msg) desc u h) (prepared rt now msg)) = Some content"
    and "px_Transport (rt_context rt) = Some t"
    and "m = (versioned (mesh_behavior (m_Kind msg) desc u h) (prepared rt now msg))\<lparr>m_Signature := px_Sign (rt_context rt) content\<rparr>"
  shows "Emit G C rt now msg st =
     (case tp_TrySendDirect t (m_ToID msg) m st of
        (st', ok) \<Rightarrow> if ok then (notified (rt_context rt) m st', Done) else (st', Failed MeshSendFailed))"
proof -
  let ?b = "mesh_behavior (m_Kind msg) desc u h"
  have f: "m_Kind (prepared rt now msg) = m_Kind msg" "m_ToID (versioned ?b (prepared rt now msg)) = m_ToID msg"
    "m_ID (versioned ?b (prepared rt now msg)) = m_ID msg"
    by (auto simp: prepared_def versioned_def Let_def split: option.split)
  have "Pipeline_Run G C (rt_context rt) (buildEmitPipeline ?b) (versioned ?b (prepared rt now msg)) st =
      (case tp_TrySendDirect t (m_ToID msg) m st of
         (st', ok) \<Rightarrow> if ok then (notified (rt_context rt) m st', Continue m) else (st', Fail MeshSendFailed))"
    using assms(2-6) f by (auto simp: notified_def split: prod.split option.split)
  then show ?thesis
    using assms(1) f(1) by (auto simp: Emit_def Let_def error_exits_def split: prod.split simp del: mesh_behavior_fields(5))
qed

text \<open>
  a call can block forever. When the answer to a call comes in while its request is still being
  sent, and the sending then reports an error (as a timeout of the HTTP request does), \<open>Call\<close> puts the
  error into a channel that is already full and that nobody can read yet: it never returns.
\<close>

theorem answer_before_error_blocks:
  assumes "LookupBehavior rt (m_Kind msg) = Some (mesh_behavior (m_Kind msg) desc u h)"
    and "m_ID msg \<noteq> []" and "m_ToID msg \<noteq> []" and "m_Timestamp msg \<noteq> 0"
    and "m_Payload msg = Some p" and "marshal_payload C p = Some enc"
    and "px_Transport (rt_context rt) = Some t"
    and "\<forall>m r s. tp_TrySendDirect t (m_ToID msg) m (r, s) = ((fst (Call_Resolve (m_ID m) (answer m) r), s), False)"
  shows "\<exists>st'. Call G C rt now ch msg timeout (r, s) = (st', Blocked)"
proof -
  let ?b = "mesh_behavior (m_Kind msg) desc u h" and ?r1 = "Call_Register now (m_ID msg) ch timeout r"
  let ?m1 = "versioned ?b (prepared rt now msg)"
  have f: "m_Payload ?m1 = Some p" "m_ID ?m1 = m_ID msg"
    using assms(5) by (auto simp: prepared_def versioned_def Let_def split: option.split)
  then obtain content where c: "SignableContent C ?m1 = Some content"
    using assms(6) by (simp add: SignableContent_def payload_json_def)
  have "Emit G C rt now msg (?r1, s) =
      ((fst (Call_Resolve (m_ID msg) (answer (?m1\<lparr>m_Signature := px_Sign (rt_context rt) content\<rparr>)) ?r1), s), Failed MeshSendFailed)"
    using mesh_emit [OF assms(1-3) c assms(7) refl, of G "(?r1, s)"] assms(8) f(2) by simp
  moreover have "msg\<lparr>m_ID := m_ID msg\<rparr> = msg" by (cases msg) simp
  ultimately show ?thesis
    using assms(2,4) by (simp add: Call_def Call_Register_def Call_Resolve_def Call_Cancel_def Let_def)
qed

definition demo_race :: "(string, string CallRegistry \<times> nat) TransportInterface" where
  "demo_race = \<lparr>tp_PublishMQTT = (\<lambda>topic d s. (s, False)),
     tp_TrySendDirect = (\<lambda>to m (r, s). ((fst (Call_Resolve (m_ID m) (Reply m ''k'' ''ack'') r), s), False))\<rparr>"

theorem answer_before_error_blocks_witness:
  "\<exists>st'. Call demo_env demo_codec (demo_runtime ''a'' (Some demo_race) (mesh_behavior ''k'' [] Some (\<lambda>m p s. (s, True)))) 5 1
     (zero_message\<lparr>m_ID := ''i'', m_Kind := ''k'', m_ToID := ''b'', m_Timestamp := 5, m_Payload := Some ''x''\<rparr>) 30
     (\<lparr>cr_pending = Map.empty, cr_sent = []\<rparr>, 0) = (st', Blocked)"
proof -
  let ?b = "mesh_behavior ''k'' [] Some (\<lambda>(m :: string Message) (p :: string) (s :: string CallRegistry \<times> nat). (s, True))"
  have "LookupBehavior (demo_runtime ''a'' (Some demo_race) ?b) ''k'' = Some ?b" using demo_runtime_fields(2) [of _ _ ?b] by simp
  then show ?thesis
    by (intro answer_before_error_blocks [where t = demo_race and answer = "\<lambda>m. Reply m ''k'' ''ack''"])
      (simp_all add: zero_message_def demo_codec_def demo_race_def)
qed

end
