(* ===== verification/Stash_Network.thy ===== *)
theory Stash_Network
  imports Stash Runtime_Properties
begin

text \<open>
  The stash service of two naras on top of their runtimes: the owner's calls go through its emit
  pipeline, over the wire, through the confidant's receive pipeline and handler, and back.
\<close>

section \<open>Two naras\<close>

record nara =
  n_id :: NaraID
  n_name :: NaraName
  n_keypair :: NaraKeypair
  n_key :: string
  n_mode :: string

type_synonym queue = "(NaraID \<times> stash_payload Message) list"

text \<open>The transport queues; the state of the owner holds its queue and the world of the confidant.\<close>

definition queueing ::
  "(NaraID \<Rightarrow> stash_payload Message \<Rightarrow> 's \<Rightarrow> 's) \<Rightarrow> (stash_payload, 's world) TransportInterface" where
  "queueing add = \<lparr>tp_PublishMQTT = (\<lambda>topic d st. (st, False)), tp_TrySendDirect = (\<lambda>to m (r, s, w). ((r, s, add to m w), True))\<rparr>"

definition bare_runtime ::
  "go_env \<Rightarrow> nara \<Rightarrow> (NaraID \<rightharpoonup> string) \<Rightarrow> (NaraID \<Rightarrow> stash_payload Message \<Rightarrow> 's \<Rightarrow> 's) \<Rightarrow> (stash_payload, 's world) Runtime" where
  "bare_runtime G n keys add =
     \<lparr>rt_me = Some (n_id n, n_name n),
      rt_context = \<lparr>px_Ledger = None, px_Transport = Some (queueing add), px_GossipQueue = None,
        px_Sign = KeypairSign G (n_keypair n), px_LookupPublicKey = (\<lambda>i st. keys i), px_RegisterPublicKey = (\<lambda>i k st. st),
        px_Personality = None, px_EventBus = None\<rparr>,
      rt_localBehaviors = Map.empty\<rparr>"

text \<open>Emitting reads no handler, so a runtime with any handlers stands for the nara's in \<open>Emit\<close> and \<open>Call\<close>.\<close>

definition emitter ::
  "go_env \<Rightarrow> nara \<Rightarrow> (NaraID \<rightharpoonup> string) \<Rightarrow> (NaraID \<Rightarrow> stash_payload Message \<Rightarrow> 's \<Rightarrow> 's) \<Rightarrow> unmarshallers
   \<Rightarrow> (stash_payload, 's world) Runtime" where
  "emitter G n keys add u = RegisterBehaviors (\<lambda>m p st. (st, True)) u (bare_runtime G n keys add)"

definition emits ::
  "go_env \<Rightarrow> stash_payload codec \<Rightarrow> (stash_payload, 's world) Runtime \<Rightarrow> int \<Rightarrow> stash_payload Message \<Rightarrow> 's world
   \<Rightarrow> 's world \<times> bool" where
  "emits G C rt now m st = (case Emit G C rt now m st of (st', outcome) \<Rightarrow> (st', outcome = Done))"

text \<open>The confidant's handlers make no calls.\<close>

definition confidant_iface ::
  "go_env \<Rightarrow> stash_payload codec \<Rightarrow> aead \<Rightarrow> nara \<Rightarrow> (NaraID \<rightharpoonup> string) \<Rightarrow> unmarshallers \<Rightarrow> int \<Rightarrow> queue RuntimeInterface" where
  "confidant_iface G C A n keys u now =
     \<lparr>ri_me = (n_id n, n_name n), ri_MemoryMode = n_mode n, ri_OnlinePeers = (\<lambda>w. []),
      ri_Seal = (\<lambda>d w. (w, None)), ri_Open = DecryptForSelf A (n_key n),
      ri_Emit = emits G C (emitter G n keys (\<lambda>to m w. w @ [(to, m)]) u) now,
      ri_Call = (\<lambda>m t st. (st, CallError NoTransportConfigured)), ri_now = (\<lambda>w. now)\<rparr>"

definition confidant_runtime ::
  "go_env \<Rightarrow> stash_payload codec \<Rightarrow> aead \<Rightarrow> nara \<Rightarrow> (NaraID \<rightharpoonup> string) \<Rightarrow> unmarshallers \<Rightarrow> int
   \<Rightarrow> (stash_payload, queue world) Runtime" where
  "confidant_runtime G C A n keys u now =
     RegisterBehaviors (stash_handler (confidant_iface G C A n keys u now)) u (bare_runtime G n keys (\<lambda>to m w. w @ [(to, m)]))"

type_synonym owner_rest = "queue \<times> queue world"

definition receive_all ::
  "go_env \<Rightarrow> stash_payload codec \<Rightarrow> (stash_payload, 's world) Runtime \<Rightarrow> queue \<Rightarrow> 's world \<Rightarrow> 's world" where
  "receive_all G C rt ms st = fold (\<lambda>(to, m) st. fst (Receive G C rt (Some (wire_of C m)) st)) ms st"

text \<open>
  While a call waits, what is queued is delivered to the confidant and its answers to the owner;
  a call without an answer gets the reaper's error.
\<close>

definition deliver_and_wait ::
  "go_env \<Rightarrow> stash_payload codec \<Rightarrow> (stash_payload, owner_rest world) Runtime \<Rightarrow> (stash_payload, queue world) Runtime
   \<Rightarrow> nat \<Rightarrow> owner_rest world \<Rightarrow> owner_rest world \<times> stash_payload CallResult" where
  "deliver_and_wait G C own conf ch st =
     (let (r, s, out, cw) = st; (rc, sc, answers) = receive_all G C conf out cw;
          st' = receive_all G C own answers (r, s, [], (rc, sc, []))
      in (st', case find (\<lambda>x. fst x = ch) (cr_sent (fst st')) of None \<Rightarrow> CallError CallTimeout | Some (c, result) \<Rightarrow> result))"

text \<open>Calls are made one after the other, so the number of results so far is a new channel.\<close>

definition call_and_wait ::
  "go_env \<Rightarrow> stash_payload codec \<Rightarrow> (stash_payload, owner_rest world) Runtime \<Rightarrow> (stash_payload, queue world) Runtime \<Rightarrow> int
   \<Rightarrow> stash_payload Message \<Rightarrow> int \<Rightarrow> owner_rest world \<Rightarrow> owner_rest world \<times> stash_payload CallResult" where
  "call_and_wait G C own conf now msg timeout st =
     (let ch = length (cr_sent (fst st))
      in deliver_and_wait G C own conf ch (fst (Call G C own now ch msg timeout st)))"

definition owner_runtime :: "go_env \<Rightarrow> nara \<Rightarrow> (NaraID \<rightharpoonup> string) \<Rightarrow> unmarshallers \<Rightarrow> (stash_payload, owner_rest world) Runtime" where
  "owner_runtime G n keys u = emitter G n keys (\<lambda>to m (out, cw). (out @ [(to, m)], cw)) u"

definition owner_iface ::
  "go_env \<Rightarrow> stash_payload codec \<Rightarrow> aead \<Rightarrow> nara \<Rightarrow> nara \<Rightarrow> (NaraID \<rightharpoonup> string) \<Rightarrow> unmarshallers \<Rightarrow> int
   \<Rightarrow> (owner_rest \<Rightarrow> string option) \<Rightarrow> owner_rest RuntimeInterface" where
  "owner_iface G C A n c keys u now rand =
     \<lparr>ri_me = (n_id n, n_name n), ri_MemoryMode = n_mode n,
      ri_OnlinePeers = (\<lambda>w. [\<lparr>pi_ID = n_id c, pi_Name = n_name c, pi_Uptime = 0\<rparr>]),
      ri_Seal = (\<lambda>d w. (w, EncryptForSelf A (n_key n) (rand w) d)), ri_Open = DecryptForSelf A (n_key n),
      ri_Emit = emits G C (owner_runtime G n keys u) now,
      ri_Call = call_and_wait G C (owner_runtime G n keys u) (confidant_runtime G C A c keys u now) now, ri_now = (\<lambda>w. now)\<rparr>"

section \<open>The runtimes\<close>

lemma RegisterBehaviors_context [simp]:
  "rt_me (RegisterBehaviors h u rt) = rt_me rt" "rt_context (RegisterBehaviors h u rt) = rt_context rt"
  by (simp_all add: RegisterBehaviors_def stash_behaviors_def RegisterBehavior_def)

lemma b_Kind_ephemeral [simp]: "b_Kind (WithHandler v h (WithPayload u (Ephemeral kind desc topic))) = kind"
  by (simp add: WithHandler_def WithPayload_def Ephemeral_def template_def)

lemma RegisterBehaviors_mesh:
  "LookupBehavior (RegisterBehaviors h u rt) ''stash:store'' =
     Some (mesh_behavior ''stash:store'' ''Store encrypted stash with confidant'' (payload_of StorePayload (u_store u)) h)"
  "LookupBehavior (RegisterBehaviors h u rt) ''stash:ack'' =
     Some (mesh_behavior ''stash:ack'' ''Acknowledge stash storage'' (payload_of AckPayload (u_ack u)) h)"
  "LookupBehavior (RegisterBehaviors h u rt) ''stash:request'' =
     Some (mesh_behavior ''stash:request'' ''Request stored stash'' (payload_of RequestPayload (u_request u)) h)"
  "LookupBehavior (RegisterBehaviors h u rt) ''stash:response'' =
     Some (mesh_behavior ''stash:response'' ''Return stored stash'' (payload_of ResponsePayload (u_response u)) h)"
  by (simp_all add: RegisterBehaviors_def stash_behaviors_def RegisterBehavior_def LookupBehavior_def
      mesh_behavior_def [symmetric])

section \<open>A call and its answer\<close>

text \<open>What is relied on: payloads survive the codec, hashes have a text, keys are known and work.\<close>

definition codec_ok :: "stash_payload codec \<Rightarrow> unmarshallers \<Rightarrow> bool" where
  "codec_ok C u \<longleftrightarrow>
     (\<forall>p. \<exists>e. marshal_payload C (StorePayload p) = Some e \<and> u_store u e = Some p) \<and>
     (\<forall>p. \<exists>e. marshal_payload C (AckPayload p) = Some e \<and> u_ack u e = Some p) \<and>
     (\<forall>p. \<exists>e. marshal_payload C (RequestPayload p) = Some e \<and> u_request u e = Some p) \<and>
     (\<forall>p. \<exists>e. marshal_payload C (ResponsePayload p) = Some e \<and> u_response u e = Some p)"

definition hash_text_ok :: "go_env \<Rightarrow> stash_payload codec \<Rightarrow> bool" where
  "hash_text_ok G C \<longleftrightarrow> (\<forall>bs. base58_Encode C (sha256 G bs) \<noteq> [])"

definition nara_ok :: "go_env \<Rightarrow> (NaraID \<rightharpoonup> string) \<Rightarrow> nara \<Rightarrow> bool" where
  "nara_ok G keys n \<longleftrightarrow> valid_keypair G (n_keypair n) \<and> keys (n_id n) = Some (PublicKey (n_keypair n)) \<and> n_id n \<noteq> []"

definition channels_used :: "'p CallRegistry \<Rightarrow> bool" where
  "channels_used r \<longleftrightarrow> (\<forall>x \<in> set (cr_sent r). fst x < length (cr_sent r))"

lemma bare_runtime_context [simp]:
  "rt_me (bare_runtime G n keys add) = Some (n_id n, n_name n)"
  "px_LookupPublicKey (rt_context (bare_runtime G n keys add)) i st = keys i"
  "px_EventBus (rt_context (bare_runtime G n keys add)) = None"
  "px_Ledger (rt_context (bare_runtime G n keys add)) = None"
  by (simp_all add: bare_runtime_def)

lemma mesh_sender_emitter:
  "mesh_sender G (n_keypair n) (n_id n) (\<lambda>to m (r, s, w). (r, s, add to m w)) (emitter G n keys add u)"
  by (auto simp: mesh_sender_def emitter_def bare_runtime_def queueing_def)

text \<open>The kinds of a request and of its answer, with the payloads they carry.\<close>

definition request_kind :: "string \<Rightarrow> stash_payload \<Rightarrow> bool" where
  "request_kind kind p \<longleftrightarrow>
     (\<exists>x. kind = ''stash:store'' \<and> p = StorePayload x) \<or> (\<exists>x. kind = ''stash:request'' \<and> p = RequestPayload x)"

definition answer_kind :: "string \<Rightarrow> stash_payload \<Rightarrow> bool" where
  "answer_kind kind p \<longleftrightarrow>
     (\<exists>x. kind = ''stash:ack'' \<and> p = AckPayload x) \<or> (\<exists>x. kind = ''stash:response'' \<and> p = ResponsePayload x)"

definition stash_kinds :: "string set" where
  "stash_kinds = {''stash:store'', ''stash:ack'', ''stash:request'', ''stash:response''}"

definition desc_for :: "string \<Rightarrow> string" where
  "desc_for kind =
     (if kind = ''stash:store'' then ''Store encrypted stash with confidant''
      else if kind = ''stash:ack'' then ''Acknowledge stash storage''
      else if kind = ''stash:request'' then ''Request stored stash'' else ''Return stored stash'')"

definition unmarshal_for :: "unmarshallers \<Rightarrow> string \<Rightarrow> string \<Rightarrow> stash_payload option" where
  "unmarshal_for u kind =
     (if kind = ''stash:store'' then payload_of StorePayload (u_store u)
      else if kind = ''stash:ack'' then payload_of AckPayload (u_ack u)
      else if kind = ''stash:request'' then payload_of RequestPayload (u_request u)
      else payload_of ResponsePayload (u_response u))"

lemma desc_for_kinds:
  "desc_for ''stash:store'' = ''Store encrypted stash with confidant''" "desc_for ''stash:ack'' = ''Acknowledge stash storage''"
  "desc_for ''stash:request'' = ''Request stored stash''" "desc_for ''stash:response'' = ''Return stored stash''"
  by (simp_all add: desc_for_def)

lemma unmarshal_for_kinds:
  "unmarshal_for u ''stash:store'' = payload_of StorePayload (u_store u)"
  "unmarshal_for u ''stash:ack'' = payload_of AckPayload (u_ack u)"
  "unmarshal_for u ''stash:request'' = payload_of RequestPayload (u_request u)"
  "unmarshal_for u ''stash:response'' = payload_of ResponsePayload (u_response u)"
  by (simp_all add: unmarshal_for_def)

lemma lookup_stash_kind:
  assumes "kind \<in> stash_kinds"
  shows "LookupBehavior (RegisterBehaviors h u rt) kind = Some (mesh_behavior kind (desc_for kind) (unmarshal_for u kind) h)"
  using assms unfolding stash_kinds_def
  by (elim insertE emptyE) (simp_all only: RegisterBehaviors_mesh desc_for_kinds unmarshal_for_kinds)

lemma stash_kind_codec:
  assumes "codec_ok C u" and "request_kind kind p \<or> answer_kind kind p"
  shows "kind \<in> stash_kinds" "\<exists>enc. marshal_payload C p = Some enc \<and> unmarshal_for u kind enc = Some p"
proof -
  show "kind \<in> stash_kinds" using assms(2) unfolding request_kind_def answer_kind_def stash_kinds_def by blast
  have lift: "\<exists>e. M = Some e \<and> payload_of con f e = Some (con x)" if "\<exists>e. M = Some e \<and> f e = Some x" for M f and con :: "'a \<Rightarrow> stash_payload" and x
    using that by (auto simp: payload_of_def)
  show "\<exists>enc. marshal_payload C p = Some enc \<and> unmarshal_for u kind enc = Some p"
    using assms(2) unfolding request_kind_def answer_kind_def
    by (elim disjE exE conjE; simp only: unmarshal_for_kinds) (use assms(1) in \<open>auto simp: codec_ok_def payload_of_def\<close>)
qed

lemma emitter_sends:
  assumes "crypto_ok G" and "nara_ok G keys n"
    and "m_Kind msg \<in> stash_kinds"
    and "m_Payload msg = Some p" "marshal_payload C p = Some enc" "m_ToID msg \<noteq> []" "m_FromID msg = []" "m_Version msg \<in> {0, 1}"
  shows "\<exists>m. Emit G C (emitter G n keys add u) now msg (r, s, w) = ((r, s, add (m_ToID msg) m w), Done) \<and>
     m_Kind m = m_Kind msg \<and> m_FromID m = n_id n \<and> m_ToID m = m_ToID msg \<and> m_Payload m = Some p \<and> m_Version m = 1 \<and>
     m_InReplyTo m = m_InReplyTo msg \<and> (m_ID msg \<noteq> [] \<longrightarrow> m_ID m = m_ID msg) \<and>
     Message_VerifySignature G C m (PublicKey (n_keypair n))"
proof -
  have "LookupBehavior (emitter G n keys add u) (m_Kind msg) =
      Some (mesh_behavior (m_Kind msg) (desc_for (m_Kind msg)) (unmarshal_for u (m_Kind msg)) (\<lambda>m p st. (st, True)))"
    using lookup_stash_kind [OF assms(3)] by (simp add: emitter_def)
  from emit_mesh [OF assms(1) _ mesh_sender_emitter this assms(4-8), of now "(r, s, w)"] assms(2)
  show ?thesis by (simp add: nara_ok_def)
qed

lemma receive_all_one: "receive_all G C rt [(to, m)] st = fst (Receive G C rt (Some (wire_of C m)) st)"
  by (simp add: receive_all_def)

lemma find_after: "find P xs = None \<Longrightarrow> find P (xs @ ys) = find P ys"
  by (induction xs) (auto split: if_splits)

lemma find_new_channel:
  assumes "channels_used r"
  shows "find (\<lambda>x. fst x = length (cr_sent r)) (cr_sent r @ [(length (cr_sent r), res)]) = Some (length (cr_sent r), res)"
proof -
  have "find (\<lambda>x. fst x = length (cr_sent r)) (cr_sent r) = None"
    using assms by (auto simp: find_None_iff channels_used_def)
  then show ?thesis by (simp add: find_after)
qed

definition network_ok :: "go_env \<Rightarrow> stash_payload codec \<Rightarrow> (NaraID \<rightharpoonup> string) \<Rightarrow> unmarshallers \<Rightarrow> nara \<Rightarrow> nara \<Rightarrow> bool" where
  "network_ok G C keys u n c \<longleftrightarrow>
     crypto_ok G \<and> codec_ok C u \<and> hash_text_ok G C \<and> nara_ok G keys n \<and> nara_ok G keys c"

lemma answered_call:
  fixes n c :: nara
  assumes ok: "network_ok G C keys u n c"
    and q: "request_kind (m_Kind msg) p" "m_Payload msg = Some p" "m_ToID msg = n_id c" "m_FromID msg = []" "m_Version msg = 1"
      "m_InReplyTo msg = []" "m_ID msg = []"
    and answer: "answer_kind kind' p'"
    and handler: "\<And>m. m_Payload m = Some p \<Longrightarrow>
      stash_handler (confidant_iface G C A c keys u now) m p (rc, sc, []) =
        ri_Emit (confidant_iface G C A c keys u now) (Reply m kind' p') (rc, sc', [])"
    and r: "channels_used r"
  shows "\<exists>r' resp. call_and_wait G C (owner_runtime G n keys u) (confidant_runtime G C A c keys u now) now msg timeout
       (r, s, [], (rc, sc, [])) = ((r', s, [], (rc, sc', [])), Response resp) \<and>
     m_Payload resp = Some p' \<and> channels_used r'"
proof -
  have G: "crypto_ok G" "codec_ok C u" "nara_ok G keys n" "nara_ok G keys c" using ok by (simp_all add: network_ok_def)
  let ?own = "owner_runtime G n keys u" and ?conf = "confidant_runtime G C A c keys u now"
  define ch where "ch = length (cr_sent r)"
  obtain enc where enc: "marshal_payload C p = Some enc" "unmarshal_for u (m_Kind msg) enc = Some p" and k: "m_Kind msg \<in> stash_kinds"
    using stash_kind_codec [OF G(2)] q(1) by blast
  obtain enc' where enc': "marshal_payload C p' = Some enc'" "unmarshal_for u kind' enc' = Some p'" and k': "kind' \<in> stash_kinds"
    using stash_kind_codec [OF G(2)] answer by blast
  \<comment> \<open>the call is registered and its message queued\<close>
  define m1 where "m1 = (if m_Timestamp msg = 0 then msg\<lparr>m_Timestamp := now\<rparr> else msg)"
  have m1: "m_Kind m1 = m_Kind msg" "m_Payload m1 = Some p" "m_ToID m1 = n_id c" "m_FromID m1 = []" "m_Version m1 = 1"
    "m_InReplyTo m1 = []" "m_ID m1 = []"
    using q by (simp_all add: m1_def)
  obtain i where i: "Message_ComputeID G C m1 = Some i" "i \<noteq> []"
    using ok m1(2) enc(1) by (auto simp: Message_ComputeID_def Let_def network_ok_def hash_text_ok_def)
  define r1 where "r1 = Call_Register now i ch timeout r"
  obtain m where m: "Emit G C ?own now (m1\<lparr>m_ID := i\<rparr>) (r1, s, [], rc, sc, []) = ((r1, s, [(n_id c, m)], rc, sc, []), Done)"
    "m_Kind m = m_Kind msg" "m_FromID m = n_id n" "m_Payload m = Some p" "m_Version m = 1" "m_InReplyTo m = []" "m_ID m = i"
    "Message_VerifySignature G C m (PublicKey (n_keypair n))"
    using emitter_sends [OF G(1,3), of "m1\<lparr>m_ID := i\<rparr>" p C enc "\<lambda>to m (out, cw). (out @ [(to, m)], cw)" u now r1 s "([], rc, sc, [])"]
      k m1 enc(1) i(2) G(4)
    by (auto simp: owner_runtime_def nara_ok_def)
  have call: "fst (Call G C ?own now ch msg timeout (r, s, [], rc, sc, [])) = (r1, s, [(n_id c, m)], rc, sc, [])"
    using m(1) i(1) m1(7) by (simp add: Call_def Let_def r1_def flip: m1_def)
  \<comment> \<open>the confidant handles it and queues its answer\<close>
  have "m_FromID (Reply m kind' p') = []" "m_Version (Reply m kind' p') = 1" "m_ToID (Reply m kind' p') \<noteq> []"
    "m_Kind (Reply m kind' p') = kind'" "m_Payload (Reply m kind' p') = Some p'" "m_InReplyTo (Reply m kind' p') = i"
    using m(3,7) G(3) by (simp_all add: Reply_def zero_message_def nara_ok_def)
  note R = this
  obtain a where a: "Emit G C (emitter G c keys (\<lambda>to m w. w @ [(to, m)]) u) now (Reply m kind' p') (rc, sc', []) =
      ((rc, sc', [(m_ToID (Reply m kind' p'), a)]), Done)"
    "m_Kind a = kind'" "m_Payload a = Some p'" "m_Version a = 1" "m_InReplyTo a = i"
    using emitter_sends [OF G(1,4), of "Reply m kind' p'" p' C enc' "\<lambda>to m w. w @ [(to, m)]" u now rc sc' "[]"]
      k' R enc'(1)
    by auto
  have "Receive G C ?conf (Some (wire_of C m)) (rc, sc, []) =
      (case stash_handler (confidant_iface G C A c keys u now) m p (notified (rt_context ?conf) m (rc, sc, [])) of (st', ok) \<Rightarrow> (st', Done))"
    unfolding confidant_runtime_def
    by (rule receive_mesh [OF lookup_stash_kind m(4) enc(1) _ m(5) _ m(8)])
      (use k enc(2) m(2,3,6) G(3) in \<open>simp_all add: nara_ok_def known_duplicate_def\<close>)
  then have rec: "fst (Receive G C ?conf (Some (wire_of C m)) (rc, sc, [])) = (rc, sc', [(m_ToID (Reply m kind' p'), a)])"
    using handler [OF m(4)] a(1) by (simp add: confidant_runtime_def notified_def confidant_iface_def emits_def)
  \<comment> \<open>the answer resolves the call\<close>
  have pend: "cr_pending r1 (m_InReplyTo a) = Some (ch, now + timeout)" using a(5) by (simp add: r1_def Call_Register_def)
  have resolved: "fst (Receive G C ?own (Some (wire_of C a)) (r1, s, [], rc, sc', [])) =
      (r1\<lparr>cr_pending := (cr_pending r1)(i := None), cr_sent := cr_sent r1 @ [(ch, Response a)]\<rparr>, s, [], rc, sc', [])"
    unfolding owner_runtime_def emitter_def
    by (subst receive_answer [OF lookup_stash_kind a(3) enc'(1) _ a(4) _ pend]) (use k' a(2,5) enc'(2) i(2) in simp_all)
  have sent: "cr_sent r1 = cr_sent r" by (simp add: r1_def Call_Register_def)
  define r' where "r' = r1\<lparr>cr_pending := (cr_pending r1)(i := None), cr_sent := cr_sent r1 @ [(ch, Response a)]\<rparr>"
  have "call_and_wait G C ?own ?conf now msg timeout (r, s, [], (rc, sc, [])) = ((r', s, [], (rc, sc', [])), Response a)"
    using find_new_channel [OF r, of "Response a"]
    by (simp add: call_and_wait_def call flip: ch_def)
      (simp add: deliver_and_wait_def receive_all_one rec resolved r'_def sent ch_def)
  moreover have "channels_used r'" using r sent by (auto simp: r'_def channels_used_def ch_def)
  ultimately show ?thesis using a(3) by blast
qed

end
