(* ===== verification/Stash_Choice.thy ===== *)
theory Stash_Choice
  imports Stash
begin

text \<open>
  How a nara chooses its confidants: the bubble sort by uptime is the stable sort, and the naras
  chosen are different, among the peers, and not the chooser.
\<close>

section \<open>Bubble sort\<close>

abbreviation rank :: "PeerInfo \<Rightarrow> int" where
  "rank p \<equiv> - pi_Uptime p"

lemma split_adjacent:
  assumes "Suc j < length xs"
  obtains us x y vs where "xs = us @ x # y # vs" and "length us = j"
proof
  show "xs = take j xs @ xs ! j # xs ! Suc j # drop (Suc (Suc j)) xs"
    using assms by (metis Cons_nth_drop_Suc Suc_lessD append_take_drop_id)
  show "length (take j xs) = j" using assms by simp
qed

lemma bubble_step_append:
  "length us = j \<Longrightarrow> bubble_step j (us @ x # y # vs) = us @ (if pi_Uptime x < pi_Uptime y then [y, x] else [x, y]) @ vs"
  by (simp add: bubble_step_def nth_append list_update_append)

lemma length_bubble_step [simp]: "length (bubble_step j xs) = length xs"
  by (simp add: bubble_step_def)

lemma mset_bubble_step: "Suc j < length xs \<Longrightarrow> mset (bubble_step j xs) = mset xs"
  by (elim split_adjacent) (simp add: bubble_step_append)

lemma stable_bubble_step:
  "Suc j < length xs \<Longrightarrow> filter (\<lambda>p. rank p = k) (bubble_step j xs) = filter (\<lambda>p. rank p = k) xs"
  by (elim split_adjacent) (auto simp: bubble_step_append)

lemma drop_bubble_step: "Suc j < length xs \<Longrightarrow> drop (Suc (Suc j)) (bubble_step j xs) = drop (Suc (Suc j)) xs"
  by (elim split_adjacent) (simp add: bubble_step_append)

lemma fold_bubble_steps:
  assumes "n < length xs \<or> n = 0"
  shows "mset (fold bubble_step [0..<n] xs) = mset xs \<and> length (fold bubble_step [0..<n] xs) = length xs \<and>
    (\<forall>k. filter (\<lambda>p. rank p = k) (fold bubble_step [0..<n] xs) = filter (\<lambda>p. rank p = k) xs) \<and>
    drop (Suc n) (fold bubble_step [0..<n] xs) = drop (Suc n) xs \<and>
    (\<forall>i \<le> n. n < length xs \<longrightarrow> rank (fold bubble_step [0..<n] xs ! i) \<le> rank (fold bubble_step [0..<n] xs ! n))"
  using assms
proof (induction n)
  case 0
  then show ?case by simp
next
  case (Suc n)
  define ys where "ys = fold bubble_step [0..<n] xs"
  have n: "Suc n < length xs" using Suc.prems by simp
  note IH = Suc.IH [folded ys_def]
  have ys: "mset ys = mset xs" "length ys = length xs" "drop (Suc n) ys = drop (Suc n) xs"
    "\<forall>k. filter (\<lambda>p. rank p = k) ys = filter (\<lambda>p. rank p = k) xs" "\<forall>i \<le> n. rank (ys ! i) \<le> rank (ys ! n)"
    using IH n by auto
  have f: "fold bubble_step [0..<Suc n] xs = bubble_step n ys" by (simp add: ys_def)
  have j: "Suc n < length ys" using ys(2) n by simp
  have "drop (Suc (Suc n)) (bubble_step n ys) = drop (Suc (Suc n)) xs"
    using drop_bubble_step [OF j] arg_cong [OF ys(3), of "drop 1"] by simp
  moreover have "\<forall>i \<le> Suc n. rank (bubble_step n ys ! i) \<le> rank (bubble_step n ys ! Suc n)"
    using ys(5) j by (force simp: bubble_step_def nth_list_update le_Suc_eq)
  ultimately show ?case
    unfolding f using ys mset_bubble_step [OF j] stable_bubble_step [OF j] by simp
qed

definition sorted_from :: "nat \<Rightarrow> PeerInfo list \<Rightarrow> bool" where
  \<comment> \<open>the part from \<open>k\<close> on is sorted and nothing before it ranks above it\<close>
  "sorted_from k xs \<longleftrightarrow> sorted (map rank (drop k xs)) \<and> (\<forall>p \<in> set (take k xs). \<forall>q \<in> set (drop k xs). rank p \<le> rank q)"

lemma bubble_pass_correct:
  assumes "m < length xs" and "sorted_from (length xs - m) xs"
  shows "mset (bubble_pass m xs) = mset xs" "length (bubble_pass m xs) = length xs"
    "\<forall>k. filter (\<lambda>p. rank p = k) (bubble_pass m xs) = filter (\<lambda>p. rank p = k) xs"
    "sorted_from (length xs - Suc m) (bubble_pass m xs)"
proof -
  define k where "k = length xs - Suc m"
  have k: "k < length xs" "length xs - m = Suc k" "length xs - m - 1 = k" using assms(1) by (auto simp: k_def)
  define zs where "zs = bubble_pass m xs"
  have zs: "zs = fold bubble_step [0..<k] xs" using k(3) by (simp add: zs_def bubble_pass_def)
  note F = fold_bubble_steps [of k xs, folded zs]
  have z: "mset zs = mset xs" "length zs = length xs" "drop (Suc k) zs = drop (Suc k) xs" "\<forall>i \<le> k. rank (zs ! i) \<le> rank (zs ! k)"
    using F k(1) by auto
  have "mset (take (Suc k) zs) + mset (drop (Suc k) zs) = mset (take (Suc k) xs) + mset (drop (Suc k) xs)"
    using z(1) by (simp flip: mset_append)
  then have t: "set (take (Suc k) zs) = set (take (Suc k) xs)" using z(3) by (metis add_right_cancel set_mset_mset)
  have in_take: "zs ! k \<in> set (take (Suc k) zs)" using k(1) z(2) by (simp add: take_Suc_conv_app_nth)
  have d: "drop k zs = zs ! k # drop (Suc k) xs" using k(1) z(2,3) by (metis Cons_nth_drop_Suc)
  have S: "sorted (map rank (drop (Suc k) xs))" "\<And>p q. p \<in> set (take (Suc k) zs) \<Longrightarrow> q \<in> set (drop (Suc k) xs) \<Longrightarrow> rank p \<le> rank q"
    using assms(2) k(2) t by (auto simp: sorted_from_def)
  have "sorted (map rank (drop k zs))" using S in_take by (simp add: d)
  moreover have "rank p \<le> rank q" if p: "p \<in> set (take k zs)" and q: "q \<in> set (drop k zs)" for p q
  proof -
    have "rank p \<le> rank (zs ! k)" using p z(4) k(1) z(2) by (auto simp: in_set_conv_nth)
    moreover have "p \<in> set (take (Suc k) zs)" using p by (meson in_mono lessI less_imp_le set_take_subset_set_take)
    ultimately show ?thesis using q S(2) by (auto simp: d)
  qed
  ultimately show "sorted_from (length xs - Suc m) (bubble_pass m xs)"
    by (auto simp: sorted_from_def simp flip: k_def zs_def)
  show "mset (bubble_pass m xs) = mset xs" "length (bubble_pass m xs) = length xs"
    "\<forall>k. filter (\<lambda>p. rank p = k) (bubble_pass m xs) = filter (\<lambda>p. rank p = k) xs"
    using F k(1) by (simp_all add: zs_def)
qed

lemma bubble_passes:
  assumes "m \<le> length xs - 1"
  shows "mset (fold bubble_pass [0..<m] xs) = mset xs \<and> length (fold bubble_pass [0..<m] xs) = length xs \<and>
    (\<forall>k. filter (\<lambda>p. rank p = k) (fold bubble_pass [0..<m] xs) = filter (\<lambda>p. rank p = k) xs) \<and>
    sorted_from (length xs - m) (fold bubble_pass [0..<m] xs)"
  using assms
proof (induction m)
  case 0
  then show ?case by (simp add: sorted_from_def)
next
  case (Suc m)
  define ys where "ys = fold bubble_pass [0..<m] xs"
  have ys: "mset ys = mset xs" "length ys = length xs" "\<forall>k. filter (\<lambda>p. rank p = k) ys = filter (\<lambda>p. rank p = k) xs"
    "sorted_from (length ys - m) ys" "m < length ys"
    using Suc by (auto simp: ys_def)
  show ?case
    using bubble_pass_correct [OF ys(5,4)] ys by (simp add: ys_def)
qed

lemma bubble_sort_stable: "bubble_sort xs = sort_key rank xs"
proof (rule properties_for_sort_key [symmetric])
  note P = bubble_passes [of "length xs - 1" xs, folded bubble_sort_def, OF order_refl]
  show "mset (bubble_sort xs) = mset xs" using P by simp
  show "filter (\<lambda>x. rank k = rank x) (bubble_sort xs) = filter (\<lambda>x. rank k = rank x) xs" for k
    using P by (metis (mono_tags, lifting) filter_cong)
  show "sorted (map rank (bubble_sort xs))"
  proof (cases "bubble_sort xs")
    case (Cons y ys)
    then have "length xs - (length xs - 1) = Suc 0" using P by (cases xs) auto
    then show ?thesis using P Cons by (simp add: sorted_from_def)
  qed simp
qed

section \<open>Confidants\<close>

definition accepted :: "'s RuntimeInterface \<Rightarrow> NaraID \<Rightarrow> bool" where
  \<comment> \<open>at some point it took a probe\<close>
  "accepted rt c \<longleftrightarrow> (\<exists>t st. snd (StoreWith rt c (probe_data t) st) = None)"

lemma first_confidant_sound:
  "first_confidant rt peers st = (st', Some c) \<Longrightarrow> c \<in> pi_ID ` set peers \<and> c \<noteq> fst (ri_me rt) \<and> accepted rt c"
proof (induction peers arbitrary: st)
  case (Cons p ps)
  show ?case
  proof (cases "pi_ID p = fst (ri_me rt)")
    case False
    obtain st1 r where S: "StoreWith rt (pi_ID p) (probe_data (ri_now rt (snd (snd st)))) st = (st1, r)" by (meson surj_pair)
    show ?thesis
    proof (cases r)
      case None
      then have "accepted rt (pi_ID p)" using S unfolding accepted_def by (metis snd_conv)
      then show ?thesis using Cons.prems False S None by auto
    qed (use Cons False S in auto)
  qed (use Cons in auto)
qed simp

lemma mset_remove_nth: "i < length xs \<Longrightarrow> add_mset (xs ! i) (mset (remove_nth i xs)) = mset xs"
  by (metis (no_types, lifting) Suc_eq_plus1 id_take_nth_drop mset.simps(2) mset_append remove_nth_def union_mset_add_mset_right)

lemma fill_confidants_sound:
  "fill_confidants rt target selected remaining st = (st', res) \<Longrightarrow> length selected \<le> target \<Longrightarrow>
   \<exists>extra. res = selected @ extra \<and> mset extra \<subseteq># mset (map pi_ID remaining) \<and> length res \<le> target \<and>
     (\<forall>c \<in> set extra. accepted rt c)"
proof (induction rt target selected remaining st arbitrary: st' res rule: fill_confidants.induct)
  case (1 rt target selected remaining st)
  show ?case
  proof (cases "length selected < target \<and> remaining \<noteq> []")
    case True
    define i where "i = nat (ri_now rt (snd (snd st)) mod int (length remaining))"
    define c where "c = pi_ID (remaining ! i)"
    have i: "i < length remaining" using True pick_index [of remaining] by (auto simp: i_def)
    have M: "mset (map pi_ID remaining) = add_mset c (mset (map pi_ID (remove_nth i remaining)))"
      using arg_cong [OF mset_remove_nth [OF i], of "image_mset pi_ID"] by (simp add: c_def)
    obtain st1 r where S: "StoreWith rt c (probe_data (ri_now rt (snd (snd st)))) st = (st1, r)" by (meson surj_pair)
    note E = "1.prems"(1) [unfolded fill_confidants.simps [of rt target selected remaining st]]
    show ?thesis
    proof (cases r)
      case (Some err)
      then have "fill_confidants rt target selected (remove_nth i remaining) st1 = (st', res)"
        using E True S by (simp add: Let_def i_def c_def)
      from "1.IH"(2) [OF True i_def refl S [unfolded c_def, symmetric] Some this "1.prems"(2)]
      obtain extra where x: "res = selected @ extra" "mset extra \<subseteq># mset (map pi_ID (remove_nth i remaining))"
        "length res \<le> target" "\<forall>c \<in> set extra. accepted rt c"
        by blast
      moreover have "mset (map pi_ID (remove_nth i remaining)) \<subseteq># mset (map pi_ID remaining)" unfolding M by simp
      ultimately show ?thesis by (intro exI [of _ extra]) (meson subset_mset.order_trans)
    next
      case None
      have acc: "accepted rt c" using S None unfolding accepted_def by (metis snd_conv)
      have "fill_confidants rt target (selected @ [c]) (remove_nth i remaining) st1 = (st', res)"
        using E True S None by (simp add: Let_def i_def c_def)
      then obtain extra where "res = (selected @ [c]) @ extra" "mset extra \<subseteq># mset (map pi_ID (remove_nth i remaining))"
        "length res \<le> target" "\<forall>c \<in> set extra. accepted rt c"
        using "1.IH"(1) [OF True i_def refl S [unfolded c_def, symmetric] None, of st' res] True by (auto simp: c_def)
      then show ?thesis using acc unfolding M by (intro exI [of _ "c # extra"]) auto
    qed
  next
    case False
    then show ?thesis using "1.prems" by (auto simp: fill_confidants.simps)
  qed
qed

definition others :: "'s RuntimeInterface \<Rightarrow> 's world \<Rightarrow> PeerInfo list" where
  "others rt st = filter (\<lambda>p. pi_ID p \<noteq> fst (ri_me rt)) (ri_OnlinePeers rt (snd (snd st)))"

definition willing :: "'s RuntimeInterface \<Rightarrow> NaraID \<Rightarrow> bool" where
  "willing rt c \<longleftrightarrow> (\<forall>data st. snd (StoreWith rt c data st) = None)"

text \<open>The first confidant comes, in the order in which the peers are tried, not after the first that is willing.\<close>

lemma first_confidant_willing:
  assumes "\<exists>p \<in> set peers. pi_ID p \<noteq> fst (ri_me rt) \<and> willing rt (pi_ID p)"
  shows "\<exists>st' pre q post. first_confidant rt peers st = (st', Some (pi_ID q)) \<and> peers = pre @ q # post \<and>
    pi_ID q \<noteq> fst (ri_me rt) \<and> (\<forall>p \<in> set pre. pi_ID p \<noteq> fst (ri_me rt) \<longrightarrow> \<not> willing rt (pi_ID p))"
  using assms
proof (induction peers arbitrary: st)
  case (Cons p ps)
  obtain st1 r where S: "StoreWith rt (pi_ID p) (probe_data (ri_now rt (snd (snd st)))) st = (st1, r)" by fastforce
  show ?case
  proof (cases "pi_ID p \<noteq> fst (ri_me rt) \<and> r = None")
    case True
    then have "first_confidant rt (p # ps) st = (st1, Some (pi_ID p))" using S by simp
    then show ?thesis using True by (intro exI [of _ st1] exI [of _ "[]"] exI [of _ p] exI [of _ ps]) simp
  next
    case False
    have p: "pi_ID p \<noteq> fst (ri_me rt) \<longrightarrow> \<not> willing rt (pi_ID p)"
      using False S unfolding willing_def by (metis snd_conv)
    define st2 where "st2 = (if pi_ID p = fst (ri_me rt) then st else st1)"
    have "first_confidant rt (p # ps) st = first_confidant rt ps st2"
      using False S by (cases r) (auto simp: st2_def)
    moreover have "\<exists>p \<in> set ps. pi_ID p \<noteq> fst (ri_me rt) \<and> willing rt (pi_ID p)" using Cons.prems p by auto
    from Cons.IH [OF this, of st2] obtain st' pre q post where "first_confidant rt ps st2 = (st', Some (pi_ID q))" "ps = pre @ q # post"
      "pi_ID q \<noteq> fst (ri_me rt)" "\<forall>p \<in> set pre. pi_ID p \<noteq> fst (ri_me rt) \<longrightarrow> \<not> willing rt (pi_ID p)"
      by blast
    ultimately show ?thesis using p by (intro exI [of _ st'] exI [of _ "p # pre"] exI [of _ q] exI [of _ post]) simp
  qed
qed simp

lemma filter_remove_nth:
  "i < length xs \<Longrightarrow> length (filter P xs) = length (filter P (remove_nth i xs)) + (if P (xs ! i) then 1 else 0)"
  unfolding remove_nth_def by (subst (1) id_take_nth_drop [of i xs]) auto

lemma fill_confidants_willing:
  "length selected \<le> target \<Longrightarrow>
   min target (length selected + length (filter (\<lambda>p. willing rt (pi_ID p)) remaining)) \<le>
     length (snd (fill_confidants rt target selected remaining st))"
proof (induction rt target selected remaining st rule: fill_confidants.induct)
  case (1 rt target selected remaining st)
  show ?case
  proof (cases "length selected < target \<and> remaining \<noteq> []")
    case True
    define i where "i = nat (ri_now rt (snd (snd st)) mod int (length remaining))"
    have i: "i < length remaining" using True pick_index [of remaining] by (auto simp: i_def)
    obtain st1 r where S: "StoreWith rt (pi_ID (remaining ! i)) (probe_data (ri_now rt (snd (snd st)))) st = (st1, r)"
      by (meson surj_pair)
    note len = filter_remove_nth [OF i, of "\<lambda>p. willing rt (pi_ID p)"]
    show ?thesis
    proof (cases r)
      case None
      have "min target (length (selected @ [pi_ID (remaining ! i)]) + length (filter (\<lambda>p. willing rt (pi_ID p)) (remove_nth i remaining))) \<le>
          length (snd (fill_confidants rt target (selected @ [pi_ID (remaining ! i)]) (remove_nth i remaining) st1))"
        using True by (intro "1.IH"(1) [OF True i_def refl S [symmetric] None]) simp
      moreover have "fill_confidants rt target selected remaining st =
          fill_confidants rt target (selected @ [pi_ID (remaining ! i)]) (remove_nth i remaining) st1"
        by (subst fill_confidants.simps) (simp add: True Let_def S None flip: i_def)
      ultimately show ?thesis using len by (simp split: if_splits)
    next
      case (Some err)
      then have "\<not> willing rt (pi_ID (remaining ! i))" using S unfolding willing_def by (metis option.distinct(1) snd_conv)
      moreover have "min target (length selected + length (filter (\<lambda>p. willing rt (pi_ID p)) (remove_nth i remaining))) \<le>
          length (snd (fill_confidants rt target selected (remove_nth i remaining) st1))"
        using True by (intro "1.IH"(2) [OF True i_def refl S [symmetric] Some]) simp
      moreover have "fill_confidants rt target selected remaining st = fill_confidants rt target selected (remove_nth i remaining) st1"
        by (subst fill_confidants.simps) (simp add: True Let_def S Some flip: i_def)
      ultimately show ?thesis using len by simp
    qed
  next
    case False
    then show ?thesis using "1.prems" by (auto simp: fill_confidants.simps)
  qed
qed

lemma length_remove_key:
  "distinct (map f xs) \<Longrightarrow> q \<in> set xs \<Longrightarrow> length xs = Suc (length (filter (\<lambda>p. f p \<noteq> f q) xs))"
proof (induction xs)
  case (Cons x xs)
  show ?case
  proof (cases "x = q")
    case True
    then have "filter (\<lambda>p. f p \<noteq> f q) xs = xs" using Cons.prems(1) by (simp add: filter_id_conv) (metis imageI)
    then show ?thesis using True by simp
  next
    case False
    then have "f x \<noteq> f q" using Cons.prems by auto
    then show ?thesis using Cons False by auto
  qed
qed simp

lemma distinct_submset:
  assumes "mset xs \<subseteq># mset ys" and "distinct ys"
  shows "distinct xs"
proof -
  from assms(1) obtain zs where "mset ys = mset (xs @ zs)" by (metis ex_mset mset_append mset_subset_eq_exists_conv)
  then have "distinct (xs @ zs)" using assms(2) by (metis mset_eq_imp_distinct_iff)
  then show ?thesis by simp
qed

lemma chosen_confidants_sound_lemma:
  assumes "SelectConfidantsAutomatically rt st = (st', None)" and "targetConfidants (fst (snd st)) \<ge> 1"
    and "distinct (map pi_ID (ri_OnlinePeers rt (snd (snd st))))"
  shows "int (length (confidants (fst (snd st')))) = targetConfidants (fst (snd st)) \<and>
     distinct (confidants (fst (snd st'))) \<and>
     set (confidants (fst (snd st'))) \<subseteq> pi_ID ` set (ri_OnlinePeers rt (snd (snd st))) - {fst (ri_me rt)} \<and>
     (\<forall>c \<in> set (confidants (fst (snd st'))). accepted rt c)"
proof -
  define peers where "peers = ri_OnlinePeers rt (snd (snd st))"
  define target where "target = targetConfidants (fst (snd st))"
  note A = assms(1) [unfolded SelectConfidantsAutomatically_def Let_def, folded peers_def target_def]
  obtain st1 c where F: "first_confidant rt (bubble_sort peers) st = (st1, Some c)"
    using A by (auto split: if_splits prod.splits option.splits)
  define remaining where "remaining = filter (\<lambda>p. pi_ID p \<noteq> c \<and> pi_ID p \<noteq> fst (ri_me rt)) peers"
  obtain r s w selected where L: "fill_confidants rt (nat target) [c] remaining st1 = ((r, s, w), selected)"
    by (metis prod.exhaust)
  have T: "int (length selected) \<ge> target" and st': "confidants (fst (snd st')) = selected"
    using A F L by (auto simp: SetConfidants_def simp flip: remaining_def split: if_splits)
  have c: "c \<in> pi_ID ` set peers" "c \<noteq> fst (ri_me rt)" "accepted rt c"
    using first_confidant_sound [OF F] by (simp_all add: bubble_sort_stable)
  obtain extra where x: "selected = [c] @ extra" "mset extra \<subseteq># mset (map pi_ID remaining)" "length selected \<le> nat target"
      "\<forall>c \<in> set extra. accepted rt c"
  proof -
    have "length [c] \<le> nat target" using assms(2) by (simp add: target_def)
    from fill_confidants_sound [OF L this] show thesis using that by auto
  qed
  have "distinct (map pi_ID remaining)" using assms(3) by (simp add: remaining_def distinct_map_filter flip: peers_def)
  then have "distinct extra" using x(2) by (rule distinct_submset [rotated])
  moreover have "set extra \<subseteq> set (map pi_ID remaining)" using x(2) by (metis set_mset_mono set_mset_mset)
  ultimately show ?thesis using x c T st' by (auto simp: remaining_def simp flip: peers_def target_def)
qed

section \<open>Properties\<close>

text \<open>
  the nested loops that sort the peers compute the stable sort by decreasing uptime.
\<close>

theorem bubble_sort_is_sort: "bubble_sort peers = sort_key (\<lambda>p. - pi_Uptime p) peers"
  by (rule bubble_sort_stable)

text \<open>
  a selection of confidants that succeeds, whatever the peers answer, configures exactly the
  target number of naras: different ones, each an online peer that took a probe, never the nara
  itself.
\<close>

theorem chosen_confidants_sound:
  assumes "SelectConfidantsAutomatically rt st = (st', None)" and "targetConfidants (fst (snd st)) \<ge> 1"
    and "distinct (map pi_ID (ri_OnlinePeers rt (snd (snd st))))"
  shows "int (length (confidants (fst (snd st')))) = targetConfidants (fst (snd st)) \<and>
     distinct (confidants (fst (snd st'))) \<and>
     set (confidants (fst (snd st'))) \<subseteq> pi_ID ` set (ri_OnlinePeers rt (snd (snd st))) - {fst (ri_me rt)} \<and>
     (\<forall>c \<in> set (confidants (fst (snd st'))). accepted rt c)"
  using assms by (rule chosen_confidants_sound_lemma)

text \<open>
  C31: Enough willing peers are found. When at least as many of the peers that are online, besides the nara itself, accept whatever
  they are asked to store, as confidants are needed, the selection succeeds, whatever the other peers do; and no willing peer has a
  higher uptime than the first confidant.
\<close>

theorem confidants_found:
  assumes "targetConfidants (fst (snd st)) \<ge> 1"
    and "targetConfidants (fst (snd st)) \<le> int (length (filter (\<lambda>p. willing rt (pi_ID p)) (others rt st)))"
    and "distinct (map pi_ID (ri_OnlinePeers rt (snd (snd st))))"
  shows "\<exists>st' best. SelectConfidantsAutomatically rt st = (st', None) \<and>
     best \<in> set (others rt st) \<and> hd (confidants (fst (snd st'))) = pi_ID best \<and>
     (\<forall>p \<in> set (others rt st). willing rt (pi_ID p) \<longrightarrow> pi_Uptime p \<le> pi_Uptime best)"
proof -
  define peers where "peers = ri_OnlinePeers rt (snd (snd st))"
  define target where "target = targetConfidants (fst (snd st))"
  define other where "other = (\<lambda>p :: PeerInfo. pi_ID p \<noteq> fst (ri_me rt))"
  let ?will = "\<lambda>p. willing rt (pi_ID p)"
  have O: "others rt st = filter other peers" by (simp add: others_def other_def peers_def)
  have "filter ?will (filter other peers) \<noteq> []" using assms(1,2) by (auto simp: O)
  then have "\<exists>p \<in> set (bubble_sort peers). other p \<and> ?will p" by (auto simp: filter_empty_conv bubble_sort_stable)
  then obtain st1 pre q post where F: "first_confidant rt (bubble_sort peers) st = (st1, Some (pi_ID q))"
    and q: "bubble_sort peers = pre @ q # post" "other q" "\<forall>p \<in> set pre. other p \<longrightarrow> \<not> ?will p"
    using first_confidant_willing [of "bubble_sort peers" rt st] unfolding other_def by blast
  have set: "set (pre @ q # post) = set peers" and "sorted (map (\<lambda>p. - pi_Uptime p) (pre @ q # post))"
    unfolding q(1) [symmetric] bubble_sort_stable by simp_all
  then have best: "q \<in> set (filter other peers)" "\<forall>p \<in> set (filter other peers). ?will p \<longrightarrow> pi_Uptime p \<le> pi_Uptime q"
    using q(2,3) by (auto simp: sorted_append)
  define remaining where "remaining = filter (\<lambda>p. pi_ID p \<noteq> pi_ID q \<and> pi_ID p \<noteq> fst (ri_me rt)) peers"
  have R: "remaining = filter (\<lambda>p. pi_ID p \<noteq> pi_ID q) (filter other peers)"
    by (simp add: remaining_def other_def conj_commute)
  have d: "distinct (map pi_ID (filter other peers))" using assms(3) by (simp add: distinct_map_filter flip: peers_def)
  have "length (filter ?will (filter other peers)) \<le> Suc (length (filter ?will remaining))"
  proof (cases "?will q")
    case True
    have "length (filter ?will (filter other peers)) =
        Suc (length (filter (\<lambda>p. pi_ID p \<noteq> pi_ID q) (filter ?will (filter other peers))))"
      by (rule length_remove_key [OF distinct_map_filter [OF d]]) (use True best(1) in simp)
    also have "filter (\<lambda>p. pi_ID p \<noteq> pi_ID q) (filter ?will (filter other peers)) = filter ?will remaining"
      unfolding R filter_filter by (rule filter_cong) auto
    finally show ?thesis by simp
  next
    case False
    have "filter ?will (filter other peers) = filter ?will remaining"
      unfolding R filter_filter by (rule filter_cong) (use False in auto)
    then show ?thesis by simp
  qed
  then have N: "target \<le> 1 + int (length (filter ?will remaining))" using assms(2) by (simp add: O target_def)
  obtain r s w selected where L: "fill_confidants rt (nat target) [pi_ID q] remaining st1 = ((r, s, w), selected)"
    by (metis prod.exhaust)
  have one: "length [pi_ID q] \<le> nat target" using assms(1) by (simp add: target_def)
  have "min (nat target) (Suc (length (filter ?will remaining))) \<le> length selected"
    using fill_confidants_willing [OF one, of rt remaining st1] L by simp
  then have sel: "\<not> int (length selected) < target" using N by linarith
  from fill_confidants_sound [OF L one] obtain extra where "selected = [pi_ID q] @ extra" by blast
  moreover have "\<not> int (length peers) < target"
    using assms(2) length_filter_le [of other peers] length_filter_le [of ?will "filter other peers"] unfolding O target_def by linarith
  ultimately have "SelectConfidantsAutomatically rt st = ((r, SetConfidants selected s, w), None) \<and> hd selected = pi_ID q"
    using F L sel by (simp add: SelectConfidantsAutomatically_def Let_def flip: peers_def target_def remaining_def)
  then show ?thesis using best unfolding O by (auto simp: SetConfidants_def)
qed

section \<open>Witnesses\<close>

text \<open>A nara \<open>a\<close> with peers \<open>b\<close> to \<open>f\<close> and itself online; \<open>d\<close> declines.\<close>

definition demo_peer :: "string \<Rightarrow> int \<Rightarrow> PeerInfo" where
  "demo_peer i uptime = \<lparr>pi_ID = i, pi_Name = i, pi_Uptime = uptime\<rparr>"

definition demo_iface :: "PeerInfo list \<Rightarrow> int RuntimeInterface" where
  "demo_iface peers = \<lparr>ri_me = (''a'', ''a''), ri_MemoryMode = ''low'', ri_OnlinePeers = (\<lambda>w. peers),
     ri_Seal = (\<lambda>d w. (w + 1, Some (replicate 24 CHR ''n'', d))), ri_Open = (\<lambda>n c. Some c), ri_Emit = (\<lambda>m st. (st, True)),
     ri_Call = (\<lambda>m t st. (st, if m_ToID m = ''d'' then CallError CallTimeout
                              else Response (Reply m ''stash:ack'' (store_ack ''a'' 0 True [])))),
     ri_now = (\<lambda>w. w)\<rparr>"

definition demo_start :: "int world" where
  "demo_start = (\<lparr>cr_pending = Map.empty, cr_sent = []\<rparr>, NewService, 7)"

definition demo_peers :: "PeerInfo list" where
  "demo_peers = [demo_peer ''a'' 90, demo_peer ''b'' 10, demo_peer ''c'' 40, demo_peer ''e'' 20, demo_peer ''f'' 40]"

lemma StoreWith_demo:
  "snd (StoreWith (demo_iface peers) c data st) = (if c = ''d'' then Some (RequestFailed CallTimeout) else None)"
  by (cases st) (simp add: StoreWith_def demo_iface_def Reply_def zero_message_def store_ack_def)

lemma demo_selection:
  "snd (SelectConfidantsAutomatically (demo_iface (demo_peer ''d'' 99 # demo_peers)) demo_start) = None"
  by code_simp

theorem chosen_confidants_sound_witness:
  "let st' = fst (SelectConfidantsAutomatically (demo_iface (demo_peer ''d'' 99 # demo_peers)) demo_start)
   in length (confidants (fst (snd st'))) = 3 \<and> distinct (confidants (fst (snd st'))) \<and> ''d'' \<notin> set (confidants (fst (snd st')))"
proof -
  let ?rt = "demo_iface (demo_peer ''d'' 99 # demo_peers)"
  let ?st' = "fst (SelectConfidantsAutomatically ?rt demo_start)"
  have "int (length (confidants (fst (snd ?st')))) = targetConfidants (fst (snd demo_start)) \<and>
     distinct (confidants (fst (snd ?st'))) \<and>
     set (confidants (fst (snd ?st'))) \<subseteq> pi_ID ` set (ri_OnlinePeers ?rt (snd (snd demo_start))) - {fst (ri_me ?rt)} \<and>
     (\<forall>c \<in> set (confidants (fst (snd ?st'))). accepted ?rt c)"
  proof (rule chosen_confidants_sound)
    show "SelectConfidantsAutomatically ?rt demo_start = (?st', None)" by (metis demo_selection prod.collapse)
    show "targetConfidants (fst (snd demo_start)) \<ge> 1" by (simp add: demo_start_def NewService_def)
    show "distinct (map pi_ID (ri_OnlinePeers ?rt (snd (snd demo_start))))"
      by (simp add: demo_iface_def demo_peers_def demo_peer_def)
  qed
  moreover have "\<not> accepted ?rt ''d''" by (simp add: accepted_def StoreWith_demo)
  ultimately show ?thesis by (auto simp: Let_def demo_start_def NewService_def)
qed

text \<open>The peer with the highest uptime declines.\<close>

theorem confidants_found_witness:
  "\<exists>st'. SelectConfidantsAutomatically (demo_iface (demo_peer ''d'' 99 # demo_peers)) demo_start = (st', None)"
proof -
  let ?rt = "demo_iface (demo_peer ''d'' 99 # demo_peers)"
  have o: "others ?rt demo_start =
      [demo_peer ''d'' 99, demo_peer ''b'' 10, demo_peer ''c'' 40, demo_peer ''e'' 20, demo_peer ''f'' 40]"
    by (simp add: others_def demo_iface_def demo_peers_def demo_peer_def)
  have w: "willing ?rt i \<longleftrightarrow> i \<noteq> ''d''" for i by (simp add: willing_def StoreWith_demo)
  have "\<exists>st' best. SelectConfidantsAutomatically ?rt demo_start = (st', None) \<and> best \<in> set (others ?rt demo_start) \<and>
     hd (confidants (fst (snd st'))) = pi_ID best \<and>
     (\<forall>p \<in> set (others ?rt demo_start). willing ?rt (pi_ID p) \<longrightarrow> pi_Uptime p \<le> pi_Uptime best)"
  proof (rule confidants_found)
    show "targetConfidants (fst (snd demo_start)) \<ge> 1" by (simp add: demo_start_def NewService_def)
    show "targetConfidants (fst (snd demo_start)) \<le> int (length (filter (\<lambda>p. willing ?rt (pi_ID p)) (others ?rt demo_start)))"
      unfolding o w by (simp add: demo_start_def NewService_def demo_peer_def)
    show "distinct (map pi_ID (ri_OnlinePeers ?rt (snd (snd demo_start))))"
      by (simp add: demo_iface_def demo_peers_def demo_peer_def)
  qed
  then show ?thesis by blast
qed

end
