(* ===== verification/Stash_Properties.thy ===== *)
theory Stash_Properties
  imports Stash_Network Stash_Choice
begin

text \<open>
  Properties of the stash: what is stored comes back, the limit of a confidant, and three ways to
  lose a stash.
\<close>

section \<open>The stored stashes\<close>

lemma GetStoredStash_store [simp]:
  "GetStoredStash o' (store now own n c s) =
     (if o' = own then Some \<lparr>es_OwnerID = own, es_Nonce = n, es_Ciphertext = c, es_StoredAt = now\<rparr> else GetStoredStash o' s)"
  by (simp add: GetStoredStash_def store_def update_conv)

lemma length_update: "length (AList.update k v al) = (if map_of al k = None then Suc (length al) else length al)"
  by (induction al) auto

text \<open>What holds of the stashes a confidant keeps: one per owner, each valid.\<close>

definition stash_valid :: "NaraID \<Rightarrow> EncryptedStash \<Rightarrow> bool" where
  "stash_valid own e \<longleftrightarrow> own \<noteq> [] \<and> es_OwnerID e = own \<and> length (es_Nonce e) = 24 \<and> es_Ciphertext e \<noteq> []"

definition stashes_ok :: "Service \<Rightarrow> bool" where
  "stashes_ok s \<longleftrightarrow> distinct (map fst (stored s)) \<and> (\<forall>(own, e) \<in> set (stored s). stash_valid own e)"

definition payload_ok :: "StashStorePayload \<Rightarrow> bool" where
  "payload_ok p \<longleftrightarrow> sp_OwnerID p \<noteq> [] \<and> length (sp_Nonce p) = 24 \<and> sp_Ciphertext p \<noteq> []"

lemma stashes_ok_store:
  assumes "stashes_ok s" and "payload_ok p"
  shows "stashes_ok (handleStoreV1_store now p s)"
proof -
  let ?e = "\<lparr>es_OwnerID = sp_OwnerID p, es_Nonce = sp_Nonce p, es_Ciphertext = sp_Ciphertext p, es_StoredAt = now\<rparr>"
  let ?al = "AList.update (sp_OwnerID p) ?e (stored s)"
  have d: "distinct (map fst ?al)" using assms(1) by (simp add: stashes_ok_def distinct_update)
  moreover have "stash_valid o' e" if "(o', e) \<in> set ?al" for o' e
  proof -
    have "map_of ?al o' = Some e" using d that by simp
    then have "o' = sp_OwnerID p \<and> e = ?e \<or> (o', e) \<in> set (stored s)"
      by (auto simp: update_conv split: if_splits dest: map_of_SomeD)
    then show ?thesis using assms by (auto simp: stashes_ok_def stash_valid_def payload_ok_def)
  qed
  ultimately show ?thesis by (auto simp: stashes_ok_def handleStoreV1_store_def store_def)
qed

text \<open>The owners whose stash is stored or about to be.\<close>

definition owners :: "Service \<Rightarrow> NaraID set" where
  "owners s = dom (map_of (stored s))"

lemma owners_store: "owners (handleStoreV1_store now p s) = insert (sp_OwnerID p) (owners s)"
  by (simp add: owners_def handleStoreV1_store_def store_def update_conv')

lemma finite_owners [simp]: "finite (owners s)"
  by (simp add: owners_def finite_dom_map_of)

lemma owners_count: "stashes_ok s \<Longrightarrow> StoredCount s = card (owners s)"
  using distinct_card [of "map fst (stored s)"] by (simp add: stashes_ok_def StoredCount_def owners_def dom_map_of_conv_image_fst)

lemma check_passed:
  assumes "handleStoreV1_check rt p s = None"
  shows "payload_ok p" "sp_OwnerID p \<in> owners s \<or> StoredCount s < StorageLimit rt"
  using assms by (auto simp: handleStoreV1_check_def canStore_def StashStorePayload_Validate_def payload_ok_def StoredCount_def owners_def
      split: option.splits if_splits)

text \<open>Sending a message leaves the service alone.\<close>

definition emit_quiet :: "'s RuntimeInterface \<Rightarrow> bool" where
  "emit_quiet rt \<longleftrightarrow> (\<forall>m st. fst (snd (fst (ri_Emit rt m st))) = fst (snd st))"

lemma emit_quietD: "emit_quiet rt \<Longrightarrow> fst (snd (fst (ri_Emit rt m (r, s, w)))) = s"
  by (simp add: emit_quiet_def)

lemma handleStoreV1_cases:
  assumes "emit_quiet rt"
  shows "fst (snd (fst (handleStoreV1 rt msg p (r, s, w)))) =
     (if StashStorePayload_Validate p = None \<and> canStore rt (sp_OwnerID p) s
      then store (ri_now rt w) (sp_OwnerID p) (sp_Nonce p) (sp_Ciphertext p) s else s)"
  using emit_quietD [OF assms] by (simp add: handleStoreV1_parts Let_def split: option.split)

lemma stash_handler_stored:
  assumes "emit_quiet rt" and "\<forall>x. p \<noteq> StorePayload x"
  shows "stored (fst (snd (fst (stash_handler rt msg p (r, s, w))))) = stored s"
proof (cases p)
  case (StorePayload x)
  then show ?thesis using assms(2) by blast
qed (use emit_quietD [OF assms(1)] in \<open>auto simp: handleRefreshV1_def handleStoreAckV1_def handleRequestV1_def handleResponseV1_def
      handleRecoveryPayload_def Let_def split: option.split prod.split\<close>)

text \<open>
  What a service goes through: messages handled, calls of its owner's side. While the owner's side
  waits for a call, the service handles messages; between them only the part of the state that is
  the owner's own changes. A handler of a request to store, one of many that run at the same time, checks and stores in two steps;
  between them its payload is in flight. At most \<open>n\<close> handlers are between their steps at a time.
\<close>

inductive stash_step ::
  "'s RuntimeInterface \<Rightarrow> nat \<Rightarrow> Service \<times> StashStorePayload list \<Rightarrow> Service \<times> StashStorePayload list \<Rightarrow> bool" for rt n where
  handle: "stash_handler rt msg p (r, s, w) = ((r', s', w'), ok) \<Longrightarrow> \<forall>x. p \<noteq> StorePayload x \<Longrightarrow> stash_step rt n (s, fl) (s', fl)"
| check: "handleStoreV1_check rt p s = None \<Longrightarrow> length fl < n \<Longrightarrow> stash_step rt n (s, fl) (s, p # fl)"
| refuse: "handleStoreV1_check rt p s = Some reason \<Longrightarrow> stash_step rt n (s, fl) (s, fl)"
| put: "p \<in> set fl \<Longrightarrow> stash_step rt n (s, fl) (handleStoreV1_store now p s, remove1 p fl)"
| set_confidants: "stash_step rt n (s, fl) (SetConfidants cs s, fl)"
| clear: "stash_step rt n (s, fl) (ClearMyStash s, fl)"
| set_data: "stash_step rt n (s, fl) (s\<lparr>myStashData := data, myStashTimestamp := t\<rparr>, fl)"

definition stash_reachable :: "'s RuntimeInterface \<Rightarrow> nat \<Rightarrow> Service \<times> StashStorePayload list \<Rightarrow> bool" where
  "stash_reachable rt n x \<longleftrightarrow> (stash_step rt n)\<^sup>*\<^sup>* (NewService, []) x"

text \<open>A handler that runs alone is two of the steps.\<close>

lemma handleStoreV1_steps:
  assumes "emit_quiet rt" and "handleStoreV1 rt msg p (r, s, w) = ((r', s', w'), ok)" and "length fl < n"
  shows "(stash_step rt n)\<^sup>*\<^sup>* (s, fl) (s', fl)"
proof (cases "handleStoreV1_check rt p s")
  case None
  then have "s' = handleStoreV1_store (ri_now rt w) p s"
    using assms(2) emit_quietD [OF assms(1)] by (simp add: handleStoreV1_def Let_def) (metis fst_conv snd_conv)
  then show ?thesis
    using stash_step.check [OF None assms(3)] stash_step.put [of p "p # fl" rt n s "ri_now rt w"]
    by (auto intro: rtranclp_trans [OF r_into_rtranclp r_into_rtranclp])
next
  case (Some reason)
  then have "s' = s"
    using assms(2) emit_quietD [OF assms(1)] by (simp add: handleStoreV1_def Let_def) (metis fst_conv snd_conv)
  then show ?thesis by simp
qed

text \<open>The owners of what is stored and in flight: those of the steps of one handler count once.\<close>

definition storage_ok :: "'s RuntimeInterface \<Rightarrow> nat \<Rightarrow> Service \<times> StashStorePayload list \<Rightarrow> bool" where
  "storage_ok rt n x \<longleftrightarrow>
     (case x of (s, fl) \<Rightarrow>
        stashes_ok s \<and> list_all payload_ok fl \<and> length fl \<le> n \<and>
        card (owners s \<union> sp_OwnerID ` set fl) \<le> StorageLimit rt + (n - 1))"

lemma storage_ok_stored: "stored s' = stored s \<Longrightarrow> storage_ok rt n (s', fl) = storage_ok rt n (s, fl)"
  by (simp add: storage_ok_def stashes_ok_def owners_def)

lemma storage_ok_step:
  assumes "emit_quiet rt" and "stash_step rt n x x'" and "storage_ok rt n x"
  shows "storage_ok rt n x'"
  using assms(2)
proof cases
  case (handle msg p r s w r' s' w' ok fl)
  then have "stored s' = stored s" using stash_handler_stored [OF assms(1) handle(4), of msg r s w] by simp
  then show ?thesis using storage_ok_stored assms(3) handle(1,2) by blast
next
  case (check p s fl)
  have "card (owners s \<union> sp_OwnerID ` set (p # fl)) \<le> StorageLimit rt + (n - 1)"
  proof (cases "sp_OwnerID p \<in> owners s")
    case True
    then show ?thesis using assms(3) check(1) by (simp add: storage_ok_def insert_absorb)
  next
    case False
    then have "card (owners s) < StorageLimit rt"
      using check_passed(2) [OF check(3)] assms(3) check(1) owners_count by (auto simp: storage_ok_def)
    moreover have "card (owners s \<union> sp_OwnerID ` set (p # fl)) \<le> card (owners s) + length (p # fl)"
      by (rule order_trans [OF card_Un_le]) (metis add_left_mono card_image_le card_length finite_set order_trans)
    ultimately show ?thesis using check(4) by simp
  qed
  then show ?thesis using assms(3) check check_passed(1) [OF check(3)] by (simp add: storage_ok_def)
next
  case (put p fl s now)
  have "card (insert (sp_OwnerID p) (owners s) \<union> sp_OwnerID ` set (remove1 p fl)) \<le> card (owners s \<union> sp_OwnerID ` set fl)"
    using put(3) set_remove1_subset [of p fl] by (intro card_mono) auto
  moreover have "list_all payload_ok (remove1 p fl)" "payload_ok p"
    using assms(3) put(1,3) by (auto simp: storage_ok_def list_all_iff dest: notin_set_remove1)
  ultimately show ?thesis
    using assms(3) put(1,2,3) stashes_ok_store by (auto simp: storage_ok_def owners_store length_remove1)
qed (use assms(3) in \<open>auto simp: SetConfidants_def ClearMyStash_def storage_ok_def stashes_ok_def owners_def\<close>)

lemma storage_ok_reachable:
  assumes "emit_quiet rt" and "stash_reachable rt n x"
  shows "storage_ok rt n x"
  using assms(2) unfolding stash_reachable_def
proof induction
  case base
  then show ?case by (simp add: storage_ok_def stashes_ok_def NewService_def owners_def)
qed (use storage_ok_step [OF assms(1)] in blast)

section \<open>Properties\<close>

text \<open>
  C30: What a confidant holds is bounded. Whatever messages a confidant handles, with at most \<open>n\<close> of its handlers between the check
  of the limit and the change at a time, it holds at most \<open>n - 1\<close> stashes more than its memory mode allows, together with those in
  flight: when the handlers run one after the other (\<open>n = 1\<close>) never more than it allows. It holds at most one per owner, and each
  has an owner, a nonce of 24 bytes and a ciphertext.
\<close>

theorem confidant_storage_bounded:
  assumes "emit_quiet rt" and "stash_reachable rt n (s, fl)"
  shows "StoredCount s \<le> card (owners s \<union> sp_OwnerID ` set fl) \<and> card (owners s \<union> sp_OwnerID ` set fl) \<le> StorageLimit rt + (n - 1) \<and>
    distinct (map fst (stored s)) \<and> (\<forall>(own, e) \<in> set (stored s). stash_valid own e)"
proof -
  have ok: "storage_ok rt n (s, fl)" by (rule storage_ok_reachable [OF assms])
  then have "StoredCount s = card (owners s)" by (simp add: storage_ok_def owners_count)
  moreover have "card (owners s) \<le> card (owners s \<union> sp_OwnerID ` set fl)" by (intro card_mono) auto
  ultimately show ?thesis using ok by (simp add: storage_ok_def stashes_ok_def)
qed

text \<open>What the code relies on of XChaCha20-Poly1305: opening what was sealed, and the tag of 16 bytes.\<close>

definition aead_ok :: "aead \<Rightarrow> bool" where
  "aead_ok A \<longleftrightarrow>
     (\<forall>key nonce d. length key = KeySize \<longrightarrow> length nonce = NonceSize \<longrightarrow>
        aead_Open A key nonce (aead_Seal A key nonce d) = Some d \<and> aead_Seal A key nonce d \<noteq> [])"

lemma handleStoreV1_accepts:
  assumes "StashStorePayload_Validate p = None" and "canStore (confidant_iface G C A c keys u now) (sp_OwnerID p) sc"
  shows "handleStoreV1 (confidant_iface G C A c keys u now) m p (rc, sc, []) =
      ri_Emit (confidant_iface G C A c keys u now)
        (Reply m ''stash:ack'' (store_ack (sp_OwnerID p) now True []))
        (rc, store now (sp_OwnerID p) (sp_Nonce p) (sp_Ciphertext p) sc, [])"
  using assms by (simp add: handleStoreV1_parts Let_def) (simp add: confidant_iface_def)

lemma handleRequestV1_found:
  assumes "rq_OwnerID p \<noteq> []" and "GetStoredStash (rq_OwnerID p) sc = Some e"
  shows "handleRequestV1 rt m p (rc, sc, w) =
      ri_Emit rt (Reply m ''stash:response'' (ResponsePayload (buildStashResponse (rq_OwnerID p) (rq_RequestID p) (Some e)))) (rc, sc, w)"
  using assms by (simp add: handleRequestV1_def StashRequestPayload_Validate_def Let_def)

lemma StoreWith_network:
  assumes ok: "network_ok G C keys u n c" and "aead_ok A" and "length (n_key n) = KeySize"
    and "rand ([], (rc, sc, [])) = Some nonce" and "length nonce = 24"
    and can: "canStore (confidant_iface G C A c keys u now) (n_id n) sc" and "channels_used r"
  shows "\<exists>r'. StoreWith (owner_iface G C A n c keys u now rand) (n_id c) data (r, s, [], (rc, sc, [])) =
       ((r', s, [], (rc, store now (n_id n) nonce (aead_Seal A (n_key n) nonce data) sc, [])), None) \<and> channels_used r'"
proof -
  let ?oi = "owner_iface G C A n c keys u now rand" and ?ci = "confidant_iface G C A c keys u now"
  define ct where "ct = aead_Seal A (n_key n) nonce data"
  define p where "p = \<lparr>sp_OwnerID = n_id n, sp_Owner = n_name n, sp_Nonce = nonce, sp_Ciphertext = ct, sp_Timestamp = Unix now\<rparr>"
  define msg where "msg = zero_message\<lparr>m_Kind := ''stash:store'', m_Version := 1, m_ToID := n_id c, m_Payload := Some (StorePayload p)\<rparr>"
  have seal: "ri_Seal ?oi data ([], (rc, sc, [])) = (([], (rc, sc, [])), Some (nonce, ct))"
    using assms(3,4) by (simp add: owner_iface_def EncryptForSelf_def ct_def)
  have "ct \<noteq> []" using assms(2,3,5) by (simp add: aead_ok_def ct_def NonceSize_def)
  then have v: "StashStorePayload_Validate p = None"
    using ok assms(5) by (simp add: StashStorePayload_Validate_def p_def network_ok_def nara_ok_def)
  have h: "stash_handler ?ci m (StorePayload p) (rc, sc, []) =
      ri_Emit ?ci (Reply m ''stash:ack'' (store_ack (n_id n) now True [])) (rc, store now (n_id n) nonce ct sc, [])" for m
    using handleStoreV1_accepts [OF v] can by (simp add: p_def)
  obtain r' resp where c: "ri_Call ?oi msg (30 * seconds) (r, s, [], (rc, sc, [])) =
        ((r', s, [], (rc, store now (n_id n) nonce ct sc, [])), Response resp)"
      "m_Payload resp = Some (store_ack (n_id n) now True [])" "channels_used r'"
    using answered_call [OF ok, of msg "StorePayload p" "''stash:ack''" "store_ack (n_id n) now True []" A now rc sc
        "store now (n_id n) nonce ct sc" r "30 * seconds" s] h assms(7)
    by (auto simp: msg_def zero_message_def request_kind_def answer_kind_def store_ack_def owner_iface_def)
  have me: "fst (ri_me ?oi) = n_id n" "snd (ri_me ?oi) = n_name n" "\<And>w. ri_now ?oi w = now"
    by (simp_all add: owner_iface_def)
  have "StoreWith ?oi (n_id c) data (r, s, [], (rc, sc, [])) = ((r', s, [], (rc, store now (n_id n) nonce ct sc, [])), None)"
    unfolding StoreWith_def Let_def prod.case seal option.case me
    using c by (simp add: store_ack_def flip: p_def msg_def)
  then show ?thesis using c(3) by (simp add: ct_def)
qed

lemma RequestFrom_network:
  assumes ok: "network_ok G C keys u n c" and "GetStoredStash (n_id n) sc = Some e" and "channels_used r"
  shows "\<exists>r'. RequestFrom (owner_iface G C A n c keys u now rand) (n_id c) (r, s, [], (rc, sc, [])) =
       ((r', s, [], (rc, sc, [])),
        case DecryptForSelf A (n_key n) (es_Nonce e) (es_Ciphertext e) of None \<Rightarrow> Inl DecryptFailed | Some d \<Rightarrow> Inr d)"
proof -
  let ?oi = "owner_iface G C A n c keys u now rand" and ?ci = "confidant_iface G C A c keys u now"
  define p where "p = \<lparr>rq_OwnerID = n_id n, rq_RequestID = []\<rparr>"
  define msg where "msg = zero_message\<lparr>m_Kind := ''stash:request'', m_Version := 1, m_ToID := n_id c, m_Payload := Some (RequestPayload p)\<rparr>"
  have h: "stash_handler ?ci m (RequestPayload p) (rc, sc, []) =
      ri_Emit ?ci (Reply m ''stash:response'' (ResponsePayload (buildStashResponse (n_id n) [] (Some e)))) (rc, sc, [])" for m
    using handleRequestV1_found [of p sc e ?ci m rc "[]"] ok assms(2) by (simp add: p_def network_ok_def nara_ok_def)
  obtain r' resp where c: "ri_Call ?oi msg (30 * seconds) (r, s, [], (rc, sc, [])) = ((r', s, [], (rc, sc, [])), Response resp)"
      "m_Payload resp = Some (ResponsePayload (buildStashResponse (n_id n) [] (Some e)))"
    using answered_call [OF ok, of msg "RequestPayload p" "''stash:response''" "ResponsePayload (buildStashResponse (n_id n) [] (Some e))"
        A now rc sc sc r "30 * seconds" s] h assms(3)
    by (auto simp: msg_def zero_message_def request_kind_def answer_kind_def owner_iface_def)
  have me: "fst (ri_me ?oi) = n_id n" by (simp add: owner_iface_def)
  have op: "ri_Open ?oi = DecryptForSelf A (n_key n)" by (simp add: owner_iface_def)
  show ?thesis
    unfolding RequestFrom_def Let_def me
    using c by (simp add: buildStashResponse_def op flip: p_def msg_def)
qed

text \<open>
  C22: a stash comes back. Over the whole path (calls, signatures, both pipelines, the handlers), a
  nara that stores data with a confidant that has room is told so; the confidant then holds one
  stash for it, sealed, and all others as before; and a request later returns the data.
\<close>

theorem stash_comes_back:
  assumes "network_ok G C keys u n c" and "aead_ok A" and "length (n_key n) = KeySize"
    and "\<forall>w. \<exists>nonce. rand w = Some nonce \<and> length nonce = 24"
    and "canStore (confidant_iface G C A c keys u now) (n_id n) sc" and "channels_used r"
  shows "\<exists>r1 sc1 r2. StoreWith (owner_iface G C A n c keys u now rand) (n_id c) data (r, s, [], (rc, sc, [])) =
       ((r1, s, [], (rc, sc1, [])), None) \<and>
     (\<forall>own. own \<noteq> n_id n \<longrightarrow> GetStoredStash own sc1 = GetStoredStash own sc) \<and>
     RequestFrom (owner_iface G C A n c keys u later rand) (n_id c) (r1, s, [], (rc, sc1, [])) = ((r2, s, [], (rc, sc1, [])), Inr data)"
proof -
  obtain nonce where nonce: "rand ([], (rc, sc, [])) = Some nonce" "length nonce = 24" using assms(4) by blast
  define ct where "ct = aead_Seal A (n_key n) nonce data"
  define sc1 where "sc1 = store now (n_id n) nonce ct sc"
  obtain r1 where S: "StoreWith (owner_iface G C A n c keys u now rand) (n_id c) data (r, s, [], (rc, sc, [])) = ((r1, s, [], (rc, sc1, [])), None)"
      "channels_used r1"
    using StoreWith_network [where rand = rand and nonce = nonce and rc = rc and sc = sc and now = now and data = data and s = s, OF assms(1-3) nonce assms(5,6)] by (auto simp: sc1_def ct_def)
  have "DecryptForSelf A (n_key n) nonce ct = Some data"
    using assms(2,3) nonce(2) by (simp add: DecryptForSelf_def aead_ok_def ct_def NonceSize_def)
  then obtain r2 where "RequestFrom (owner_iface G C A n c keys u later rand) (n_id c) (r1, s, [], (rc, sc1, [])) = ((r2, s, [], (rc, sc1, [])), Inr data)"
    using RequestFrom_network [where now = later and rand = rand and A = A and s = s and rc = rc, OF assms(1) _ S(2), of sc1] by (auto simp: sc1_def)
  moreover have "\<forall>own. own \<noteq> n_id n \<longrightarrow> GetStoredStash own sc1 = GetStoredStash own sc" by (simp add: sc1_def)
  ultimately show ?thesis using S(1) by blast
qed

text \<open>
  a stash is not protected against being replaced: a store request, whoever sent it, replaces
  the stash of the owner it names, also at the limit; and what it names need not open with the
  owner's key.
\<close>

theorem anyone_replaces_a_stash:
  assumes "emit_quiet rt" and "HasStashFor own s" and "own \<noteq> []" and "length n = 24" and "c \<noteq> []"
    and "DecryptForSelf A key n c = None"
  shows "\<exists>s' e. fst (snd (fst (handleStoreV1 rt msg
        \<lparr>sp_OwnerID = own, sp_Owner = name, sp_Nonce = n, sp_Ciphertext = c, sp_Timestamp = t\<rparr> (r, s, w)))) = s' \<and>
     GetStoredStash own s' = Some e \<and> DecryptForSelf A key (es_Nonce e) (es_Ciphertext e) = None"
  using assms(2-6)
  by (simp add: handleStoreV1_cases [OF assms(1)] StashStorePayload_Validate_def canStore_def HasStashFor_def)

section \<open>The owner's side\<close>

text \<open>
  What a store that is accepted does, whatever else happens: \<open>holds c w\<close> is what the nara \<open>c\<close>
  holds for the owner, and a store changes it for the confidant asked, and only when it is accepted.
\<close>

definition confidants_keep :: "'s RuntimeInterface \<Rightarrow> (NaraID \<Rightarrow> 's \<Rightarrow> string option) \<Rightarrow> bool" where
  "confidants_keep rt holds \<longleftrightarrow>
     (\<forall>c data st st' err. StoreWith rt c data st = (st', err) \<longrightarrow>
        confidants (fst (snd st')) = confidants (fst (snd st)) \<and> myStashData (fst (snd st')) = myStashData (fst (snd st)) \<and>
        (\<forall>c'. holds c' (snd (snd st')) = (if c' = c \<and> err = None then Some data else holds c' (snd (snd st)))))"

lemma confidants_keepD:
  assumes "confidants_keep rt holds" and "StoreWith rt c data st = (st', err)"
  shows "confidants (fst (snd st')) = confidants (fst (snd st))" "myStashData (fst (snd st')) = myStashData (fst (snd st))"
    "holds c' (snd (snd st')) = (if c' = c \<and> err = None then Some data else holds c' (snd (snd st)))"
  using assms unfolding confidants_keep_def by blast+

lemma distribute_loop_holds:
  assumes K: "confidants_keep rt holds"
  shows "distribute_loop rt data cs st = (st', k) \<Longrightarrow> distinct cs \<Longrightarrow>
     confidants (fst (snd st')) = confidants (fst (snd st)) \<and> myStashData (fst (snd st')) = myStashData (fst (snd st)) \<and>
     (\<exists>S \<subseteq> set cs. card S = k \<and> (\<forall>c. holds c (snd (snd st')) = (if c \<in> S then Some data else holds c (snd (snd st)))))"
proof (induction cs arbitrary: st st' k)
  case Nil
  then show ?case by (intro conjI exI [of _ "{}"]) auto
next
  case (Cons c cs)
  obtain st1 err where S: "StoreWith rt c data st = (st1, err)" by (meson surj_pair)
  obtain st2 k2 where L: "distribute_loop rt data cs st1 = (st2, k2)" by (meson surj_pair)
  have st': "st' = st2" "k = (if err = None then k2 + 1 else k2)" using Cons.prems(1) S L by auto
  obtain T where T: "T \<subseteq> set cs" "card T = k2" "\<forall>c. holds c (snd (snd st2)) = (if c \<in> T then Some data else holds c (snd (snd st1)))"
    using Cons.IH [OF L] Cons.prems(2) by auto
  note one = confidants_keepD [OF K S]
  have fresh: "c \<notin> T" "finite T" using Cons.prems(2) T(1) by (auto intro: finite_subset)
  have "\<exists>S \<subseteq> set (c # cs). card S = k \<and> (\<forall>c. holds c (snd (snd st')) = (if c \<in> S then Some data else holds c (snd (snd st))))"
    using T one(3) st' fresh by (intro exI [of _ "if err = None then insert c T else T"]) auto
  then show ?case using Cons.IH [OF L] Cons.prems(2) one(1,2) st' by auto
qed

lemma first_confidant_holds:
  assumes K: "confidants_keep rt holds"
  shows "first_confidant rt peers st = (st', res) \<Longrightarrow>
     confidants (fst (snd st')) = confidants (fst (snd st)) \<and> myStashData (fst (snd st')) = myStashData (fst (snd st)) \<and>
     (\<forall>c. res = Some c \<longrightarrow> (\<exists>t. holds c (snd (snd st')) = Some (probe_data t)))"
proof (induction peers arbitrary: st)
  case (Cons p ps)
  show ?case
  proof (cases "pi_ID p = fst (ri_me rt)")
    case False
    obtain st1 err where S: "StoreWith rt (pi_ID p) (probe_data (ri_now rt (snd (snd st)))) st = (st1, err)" by (meson surj_pair)
    note one = confidants_keepD [OF K S]
    show ?thesis
    proof (cases err)
      case None
      then have "st' = st1" "res = Some (pi_ID p)" using Cons.prems False S by auto
      then show ?thesis using one None by auto
    next
      case (Some e)
      then have "first_confidant rt ps st1 = (st', res)" using Cons.prems False S by simp
      from Cons.IH [OF this] show ?thesis using one by simp
    qed
  next
    case True
    then have "first_confidant rt ps st = (st', res)" using Cons.prems by simp
    from Cons.IH [OF this] show ?thesis .
  qed
qed simp

lemma fill_confidants_holds:
  assumes K: "confidants_keep rt holds"
  shows "fill_confidants rt target selected remaining st = (st', res) \<Longrightarrow>
     confidants (fst (snd st')) = confidants (fst (snd st)) \<and> myStashData (fst (snd st')) = myStashData (fst (snd st)) \<and>
     (\<forall>c. c \<notin> pi_ID ` set remaining \<longrightarrow> holds c (snd (snd st')) = holds c (snd (snd st)))"
  using K
proof (induction rt target selected remaining st arbitrary: st' res rule: fill_confidants.induct)
  case (1 rt target selected remaining st)
  show ?case
  proof (cases "length selected < target \<and> remaining \<noteq> []")
    case True
    define i where "i = nat (ri_now rt (snd (snd st)) mod int (length remaining))"
    have i: "i < length remaining" using True pick_index [of remaining] by (auto simp: i_def)
    obtain st1 err where S: "StoreWith rt (pi_ID (remaining ! i)) (probe_data (ri_now rt (snd (snd st)))) st = (st1, err)"
      by (meson surj_pair)
    note one = confidants_keepD [OF "1.prems"(2) S]
    have sub: "set (remove_nth i remaining) \<subseteq> set remaining"
      by (auto simp: remove_nth_def dest: in_set_takeD in_set_dropD)
    have in_rem: "remaining ! i \<in> set remaining" using i by simp
    define selected' where "selected' = (if err = None then selected @ [pi_ID (remaining ! i)] else selected)"
    have "fill_confidants rt target selected remaining st = fill_confidants rt target selected' (remove_nth i remaining) st1"
      by (subst fill_confidants.simps) (auto simp add: True Let_def S selected'_def split: option.split simp flip: i_def)
    then have E: "fill_confidants rt target selected' (remove_nth i remaining) st1 = (st', res)" using "1.prems"(1) by simp
    have "confidants (fst (snd st')) = confidants (fst (snd st1)) \<and> myStashData (fst (snd st')) = myStashData (fst (snd st1)) \<and>
        (\<forall>c. c \<notin> pi_ID ` set (remove_nth i remaining) \<longrightarrow> holds c (snd (snd st')) = holds c (snd (snd st1)))"
    proof (cases err)
      case None
      show ?thesis using "1.IH"(1) [OF True i_def refl S [symmetric] None _ "1.prems"(2)] E None by (simp add: selected'_def)
    next
      case (Some e)
      show ?thesis using "1.IH"(2) [OF True i_def refl S [symmetric] Some _ "1.prems"(2)] E Some by (simp add: selected'_def)
    qed
    moreover have "c \<noteq> pi_ID (remaining ! i) \<and> c \<notin> pi_ID ` set (remove_nth i remaining)" if "c \<notin> pi_ID ` set remaining" for c
      using that sub in_rem by blast
    ultimately show ?thesis using one by simp
  next
    case False
    then show ?thesis using "1.prems" by (auto simp: fill_confidants.simps)
  qed
qed

lemma selection_holds:
  assumes K: "confidants_keep rt holds" and S: "SelectConfidantsAutomatically rt st = (st', err)"
  shows "myStashData (fst (snd st')) = myStashData (fst (snd st))"
    and "err = Some TooFewWilling \<Longrightarrow> confidants (fst (snd st')) = confidants (fst (snd st)) \<and>
      (\<exists>c t. c \<in> pi_ID ` set (ri_OnlinePeers rt (snd (snd st))) \<and> holds c (snd (snd st')) = Some (probe_data t))"
proof -
  define peers where "peers = ri_OnlinePeers rt (snd (snd st))"
  define target where "target = targetConfidants (fst (snd st))"
  obtain st1 found where F: "first_confidant rt (bubble_sort peers) st = (st1, found)" by (meson surj_pair)
  note first = first_confidant_holds [OF K F]
  define remaining where "remaining = (\<lambda>c. filter (\<lambda>p. pi_ID p \<noteq> c \<and> pi_ID p \<noteq> fst (ri_me rt)) peers)"
  have D: "SelectConfidantsAutomatically rt st =
     (if int (length peers) < target then (st, Some TooFewPeers)
      else case found of None \<Rightarrow> (st1, Some NoFirstConfidant)
           | Some c \<Rightarrow> (case fill_confidants rt (nat target) [c] (remaining c) st1 of
                ((r, s, w), selected) \<Rightarrow> if int (length selected) < target then ((r, s, w), Some TooFewWilling)
                   else ((r, SetConfidants selected s, w), None)))"
    by (simp add: SelectConfidantsAutomatically_def Let_def F remaining_def flip: peers_def target_def split: option.split)
  have "myStashData (fst (snd st')) = myStashData (fst (snd st)) \<and>
     (err = Some TooFewWilling \<longrightarrow> confidants (fst (snd st')) = confidants (fst (snd st)) \<and>
      (\<exists>c t. c \<in> pi_ID ` set peers \<and> holds c (snd (snd st')) = Some (probe_data t)))"
  proof (cases "int (length peers) < target \<or> found = None")
    case True
    then show ?thesis using S D first by (auto split: if_splits)
  next
    case False
    then obtain c where c: "found = Some c" by blast
    obtain r s w selected where L: "fill_confidants rt (nat target) [c] (remaining c) st1 = ((r, s, w), selected)"
      by (metis prod.exhaust)
    note fill = fill_confidants_holds [OF K L]
    have "c \<in> pi_ID ` set peers" using first_confidant_sound [OF F [unfolded c]] by (simp add: bubble_sort_stable)
    moreover have "c \<notin> pi_ID ` set (remaining c)" by (auto simp: remaining_def)
    moreover obtain t where "holds c (snd (snd st1)) = Some (probe_data t)" using first c by blast
    ultimately have "c \<in> pi_ID ` set peers \<and> holds c w = Some (probe_data t)" using fill by simp
    then have "\<exists>c t. c \<in> pi_ID ` set peers \<and> holds c w = Some (probe_data t)" by blast
    moreover have "(st', err) = (if int (length selected) < target then ((r, s, w), Some TooFewWilling) else ((r, SetConfidants selected s, w), None))"
      using S D False c L by simp
    ultimately show ?thesis using first fill by (cases "int (length selected) < target") (auto simp: SetConfidants_def)
  qed
  then show "myStashData (fst (snd st')) = myStashData (fst (snd st))"
    and "err = Some TooFewWilling \<Longrightarrow> confidants (fst (snd st')) = confidants (fst (snd st)) \<and>
      (\<exists>c t. c \<in> pi_ID ` set (ri_OnlinePeers rt (snd (snd st))) \<and> holds c (snd (snd st')) = Some (probe_data t))"
    by (simp_all add: peers_def)
qed

text \<open>
  a nara that sets its stash while it has too few confidants, and finds too few, has no
  confidants afterwards and leaves at least one peer with the probe in place of what it held.
\<close>

theorem failed_selection_leaves_probe:
  assumes "confidants_keep rt holds" and "SetStashData rt data st = (st', Some TooFewWilling)"
  shows "confidants (fst (snd st')) = [] \<and>
     (\<exists>c t. c \<in> pi_ID ` set (ri_OnlinePeers rt (snd (snd st))) \<and> holds c (snd (snd st')) = Some (probe_data t))"
proof -
  obtain r s w where st: "st = (r, s, w)" by (metis prod.exhaust)
  define s1 where "s1 = s\<lparr>myStashData := data, myStashTimestamp := Unix (ri_now rt w)\<rparr>"
  obtain st1 err where S: "SelectConfidantsAutomatically rt (r, SetConfidants [] s1, w) = (st1, err)" by (meson surj_pair)
  have "DistributeToConfidants rt x \<noteq> (st', Some TooFewWilling)" for x
    by (auto simp: DistributeToConfidants_def Let_def split: if_splits prod.splits)
  then have "err = Some TooFewWilling" "st1 = st'"
    using assms(2) S by (auto simp: SetStashData_def st s1_def Let_def split: if_splits option.splits)
  then show ?thesis using selection_holds(2) [OF assms(1) S] by (auto simp: st SetConfidants_def)
qed

text \<open>
  a nara that sets its stash without an error has enough confidants configured, all different,
  and at least one of them holds the new data; one is all that is promised.
\<close>

theorem set_stash_reaches_a_confidant:
  assumes "confidants_keep rt holds" and "SetStashData rt data st = (st', None)"
    and "targetConfidants (fst (snd st)) \<ge> 1" and "distinct (map pi_ID (ri_OnlinePeers rt (snd (snd st))))"
    and "distinct (confidants (fst (snd st)))"
  shows "data \<noteq> [] \<and> int (length (confidants (fst (snd st')))) \<ge> targetConfidants (fst (snd st)) \<and>
     distinct (confidants (fst (snd st'))) \<and> (\<exists>c \<in> set (confidants (fst (snd st'))). holds c (snd (snd st')) = Some data)"
proof -
  obtain r s w where st: "st = (r, s, w)" by (metis prod.exhaust)
  define s1 where "s1 = s\<lparr>myStashData := data, myStashTimestamp := Unix (ri_now rt w)\<rparr>"
  have distribute: "data' \<noteq> [] \<and> confidants (fst (snd st')) = confidants (fst (snd x)) \<and>
      (\<exists>c \<in> set (confidants (fst (snd x))). holds c (snd (snd st')) = Some data')"
    if "DistributeToConfidants rt x = (st', None)" "distinct (confidants (fst (snd x)))" "myStashData (fst (snd x)) = data'" for x data'
  proof -
    obtain y k where L: "distribute_loop rt data' (confidants (fst (snd x))) x = (y, k)" by (meson surj_pair)
    have k: "y = st'" "k \<noteq> 0" "data' \<noteq> []" using that L by (auto simp: DistributeToConfidants_def Let_def split: if_splits)
    note loop = distribute_loop_holds [OF assms(1) L that(2)]
    then obtain S where S: "S \<subseteq> set (confidants (fst (snd x)))" "card S = k" "\<forall>c \<in> S. holds c (snd (snd y)) = Some data'"
      by auto
    then have "S \<noteq> {}" using k(2) by auto
    then show ?thesis using S k loop by blast
  qed
  show ?thesis
  proof (cases "int (length (confidants s)) < targetConfidants s")
    case True
    obtain st1 where S: "SelectConfidantsAutomatically rt (r, SetConfidants [] s1, w) = (st1, None)" and D: "DistributeToConfidants rt st1 = (st', None)"
      using assms(2) True by (auto simp: SetStashData_def st s1_def Let_def split: option.splits prod.splits)
    have sel: "int (length (confidants (fst (snd st1)))) = targetConfidants s" "distinct (confidants (fst (snd st1)))"
      using chosen_confidants_sound_lemma [OF S] assms(3,4) by (simp_all add: st s1_def SetConfidants_def)
    have "myStashData (fst (snd st1)) = data" using selection_holds(1) [OF assms(1) S] by (simp add: s1_def SetConfidants_def)
    then show ?thesis using distribute [OF D sel(2)] sel by (simp add: st)
  next
    case False
    then have "DistributeToConfidants rt (r, s1, w) = (st', None)"
      using assms(2) by (simp add: SetStashData_def st s1_def Let_def)
    then show ?thesis using distribute [of "(r, s1, w)" data] assms(5) False by (simp add: s1_def st)
  qed
qed

section \<open>Witnesses\<close>

definition demo_store :: "string \<Rightarrow> string \<Rightarrow> StashStorePayload" where
  "demo_store own c = \<lparr>sp_OwnerID = own, sp_Owner = own, sp_Nonce = replicate 24 CHR ''n'', sp_Ciphertext = c, sp_Timestamp = 0\<rparr>"

lemma emit_quiet_demo: "emit_quiet (demo_iface peers)"
  by (simp add: emit_quiet_def demo_iface_def)

definition demo_held :: Service where
  "demo_held = store 7 ''o'' (replicate 24 CHR ''n'') ''c'' NewService"

definition demo_keeps :: "NaraID list \<Rightarrow> Service" where
  "demo_keeps os = foldr (\<lambda>own. handleStoreV1_store 7 (demo_store own ''c'')) os NewService"

lemma demo_limit: "StorageLimit (demo_iface []) = 5"
  by (simp add: StorageLimit_def demo_iface_def)

lemma demo_keeps_reachable:
  "distinct os \<Longrightarrow> [] \<notin> set os \<Longrightarrow> length os \<le> 5 \<Longrightarrow> stash_reachable (demo_iface []) (Suc n) (demo_keeps os, []) \<and>
     owners (demo_keeps os) = set os \<and> StoredCount (demo_keeps os) = length os"
proof (induction os)
  case Nil
  then show ?case by (simp add: stash_reachable_def demo_keeps_def owners_def NewService_def StoredCount_def)
next
  case (Cons own os)
  let ?p = "demo_store own ''c''"
  have "handleStoreV1_check (demo_iface []) ?p (demo_keeps os) = None"
    using Cons by (auto simp: handleStoreV1_check_def StashStorePayload_Validate_def demo_store_def canStore_def demo_limit StoredCount_def)
  then have "stash_step (demo_iface []) (Suc n) (demo_keeps os, []) (demo_keeps os, [?p])" by (rule stash_step.check) simp
  moreover have "stash_step (demo_iface []) (Suc n) (demo_keeps os, [?p]) (demo_keeps (own # os), [])"
    using stash_step.put [of ?p "[?p]"] by (simp add: demo_keeps_def)
  ultimately have "stash_reachable (demo_iface []) (Suc n) (demo_keeps (own # os), [])"
    using Cons by (auto simp: stash_reachable_def intro: rtranclp.rtrancl_into_rtrancl)
  moreover have o: "owners (demo_keeps (own # os)) = set (own # os)"
    using Cons by (simp add: demo_keeps_def owners_store) (simp add: demo_store_def)
  moreover have "stashes_ok (demo_keeps (own # os))"
    using storage_ok_reachable [OF emit_quiet_demo calculation(1)] by (simp add: storage_ok_def)
  then have "StoredCount (demo_keeps (own # os)) = length (own # os)"
    using Cons.prems(1) o owners_count distinct_card by metis
  ultimately show ?case by blast
qed

theorem confidant_storage_bounded_witness:
  "StoredCount (demo_keeps [''d'', ''e'']) = 2 \<and> StoredCount (demo_keeps [''d'', ''e'']) \<le> StorageLimit (demo_iface [])"
  using confidant_storage_bounded [OF emit_quiet_demo conjunct1 [OF demo_keeps_reachable], of "[''d'', ''e'']" 0]
    demo_keeps_reachable [of "[''d'', ''e'']" 0]
  by simp

text \<open>
  Two requests at once exceed the limit: both handlers find room for one more stash before either stores its own.
\<close>

theorem two_stores_exceed_limit:
  "\<exists>s. stash_reachable (demo_iface []) 2 (s, []) \<and> StoredCount s = StorageLimit (demo_iface []) + 1"
proof -
  let ?os = "[''a'', ''b'', ''c'', ''d'']" and ?p = "demo_store ''e'' ''c''" and ?q = "demo_store ''f'' ''c''"
  let ?s = "demo_keeps ?os" and ?t = "demo_keeps (''e'' # ?os)" and ?u = "demo_keeps (''f'' # ''e'' # ?os)"
  have r: "(stash_step (demo_iface []) 2)\<^sup>*\<^sup>* (NewService, []) (?s, [])" "owners ?s = set ?os" "StoredCount ?s = 4"
    using demo_keeps_reachable [of ?os 1] by (simp_all add: stash_reachable_def numeral_2_eq_2)
  have "canStore (demo_iface []) own ?s" for own
    using r(3) by (simp add: canStore_def demo_limit StoredCount_def)
  then have c: "handleStoreV1_check (demo_iface []) ?p ?s = None" "handleStoreV1_check (demo_iface []) ?q ?s = None"
    by (simp_all add: handleStoreV1_check_def StashStorePayload_Validate_def demo_store_def)
  have "stash_step (demo_iface []) 2 (?s, []) (?s, [?p])" using c(1) by (rule stash_step.check) simp
  note r1 = rtranclp.rtrancl_into_rtrancl [OF r(1), OF this]
  have "stash_step (demo_iface []) 2 (?s, [?p]) (?s, [?q, ?p])" using c(2) by (rule stash_step.check) simp
  note r2 = rtranclp.rtrancl_into_rtrancl [OF r1, OF this]
  have t: "?t = handleStoreV1_store 7 ?p ?s" "?u = handleStoreV1_store 7 ?q ?t" by (simp_all only: demo_keeps_def foldr.simps o_apply)
  have "stash_step (demo_iface []) 2 (?s, [?q, ?p]) (?t, remove1 ?p [?q, ?p])" unfolding t(1) by (rule stash_step.put) simp
  note r3 = rtranclp.rtrancl_into_rtrancl [OF r2, OF this]
  have "remove1 ?p [?q, ?p] = [?q]" by (simp add: demo_store_def)
  moreover have "stash_step (demo_iface []) 2 (?t, [?q]) (?u, remove1 ?q [?q])" unfolding t(2) by (rule stash_step.put) simp
  ultimately have reach: "stash_reachable (demo_iface []) 2 (?u, [])"
    using rtranclp.rtrancl_into_rtrancl [OF r3] by (simp add: stash_reachable_def)
  have "owners ?u = {''f'', ''e'', ''a'', ''b'', ''c'', ''d''}"
    unfolding t owners_store r(2) by (simp add: demo_store_def)
  moreover have "stashes_ok ?u" using storage_ok_reachable [OF emit_quiet_demo reach] by (simp add: storage_ok_def)
  ultimately have "StoredCount ?u = 6" by (simp add: owners_count)
  then show ?thesis using reach demo_limit by (intro exI [of _ ?u]) simp
qed

definition demo_aead :: aead where
  "demo_aead = \<lparr>aead_Seal = (\<lambda>key nonce d. hd key # d),
     aead_Open = (\<lambda>key nonce c. case c of [] \<Rightarrow> None | t # d \<Rightarrow> if t = hd key then Some d else None)\<rparr>"

lemma aead_ok_demo: "aead_ok demo_aead"
  by (simp add: aead_ok_def demo_aead_def)

theorem anyone_replaces_a_stash_witness:
  "\<exists>e. GetStoredStash ''o'' (fst (snd (fst (handleStoreV1 (demo_iface []) (zero_message\<lparr>m_FromID := ''m''\<rparr>)
        (demo_store ''o'' ''zz'') (fst demo_start, demo_held, 7))))) = Some e \<and>
     DecryptForSelf demo_aead (replicate 32 CHR ''k'') (es_Nonce e) (es_Ciphertext e) = None"
proof -
  have "HasStashFor ''o'' demo_held" by (simp add: HasStashFor_def demo_held_def store_def NewService_def)
  moreover have "DecryptForSelf demo_aead (replicate 32 CHR ''k'') (replicate 24 CHR ''n'') ''zz'' = None"
    by (simp add: DecryptForSelf_def demo_aead_def KeySize_def NonceSize_def numeral_eq_Suc)
  ultimately show ?thesis
    using anyone_replaces_a_stash [OF emit_quiet_demo, of "''o''" demo_held "replicate 24 CHR ''n''" "''zz''" demo_aead
        "replicate 32 CHR ''k''" "[]" "zero_message\<lparr>m_FromID := ''m''\<rparr>" "''o''" 0 "fst demo_start" 7]
    by (simp add: demo_store_def)
qed

text \<open>Peers that keep a table of what they hold; those of the first list accept.\<close>

definition table_iface :: "NaraID list \<Rightarrow> PeerInfo list \<Rightarrow> (NaraID \<Rightarrow> string option) RuntimeInterface" where
  "table_iface ok peers = \<lparr>ri_me = (''a'', ''a''), ri_MemoryMode = ''low'', ri_OnlinePeers = (\<lambda>w. peers),
     ri_Seal = (\<lambda>d w. (w, Some (replicate 24 CHR ''n'', d))), ri_Open = (\<lambda>n c. Some c), ri_Emit = (\<lambda>m st. (st, True)),
     ri_Call = (\<lambda>m t (r, s, w). case m_Payload m of
        Some (StorePayload p) \<Rightarrow>
          if m_ToID m \<in> set ok
          then ((r, s, w(m_ToID m := Some (sp_Ciphertext p))), Response (Reply m ''stash:ack'' (store_ack ''a'' 0 True [])))
          else ((r, s, w), CallError CallTimeout)
      | other \<Rightarrow> ((r, s, w), CallError CallTimeout)),
     ri_now = (\<lambda>w. 0)\<rparr>"

lemma StoreWith_table:
  "StoreWith (table_iface ok peers) c data (r, s, w) =
     (if c \<in> set ok then ((r, s, w(c := Some data)), None) else ((r, s, w), Some (RequestFailed CallTimeout)))"
  by (simp add: StoreWith_def table_iface_def Reply_def zero_message_def store_ack_def)

lemma confidants_keep_table: "confidants_keep (table_iface ok peers) (\<lambda>c w. w c)"
  unfolding confidants_keep_def by (auto simp: StoreWith_table split: if_splits)

definition table_start :: "(NaraID \<Rightarrow> string option) world" where
  "table_start = (\<lparr>cr_pending = Map.empty, cr_sent = []\<rparr>, NewService, (\<lambda>c. if c = ''c'' then Some ''old'' else None))"

lemma table_failed:
  "snd (SetStashData (table_iface [''c'', ''f''] demo_peers) ''new'' table_start) = Some TooFewWilling"
  by code_simp

lemma table_ok:
  "snd (SetStashData (table_iface [''b'', ''c'', ''f''] demo_peers) ''new'' table_start) = None"
  by code_simp

theorem failed_selection_leaves_probe_witness:
  "\<exists>c t. snd (snd (fst (SetStashData (table_iface [''c'', ''f''] demo_peers) ''new'' table_start))) c = Some (probe_data t)"
  using failed_selection_leaves_probe [OF confidants_keep_table, of "[''c'', ''f'']" demo_peers "''new''" table_start
      "fst (SetStashData (table_iface [''c'', ''f''] demo_peers) ''new'' table_start)"] table_failed
  by (metis prod.collapse)

theorem set_stash_reaches_a_confidant_witness:
  "\<exists>c. snd (snd (fst (SetStashData (table_iface [''b'', ''c'', ''f''] demo_peers) ''new'' table_start))) c = Some ''new''"
proof -
  let ?rt = "table_iface [''b'', ''c'', ''f''] demo_peers"
  let ?st' = "fst (SetStashData ?rt ''new'' table_start)"
  have "''new'' \<noteq> [] \<and> int (length (confidants (fst (snd ?st')))) \<ge> targetConfidants (fst (snd table_start)) \<and>
     distinct (confidants (fst (snd ?st'))) \<and> (\<exists>c \<in> set (confidants (fst (snd ?st'))). snd (snd ?st') c = Some ''new'')"
  proof (rule set_stash_reaches_a_confidant [OF confidants_keep_table])
    show "SetStashData ?rt ''new'' table_start = (?st', None)" by (metis table_ok prod.collapse)
    show "targetConfidants (fst (snd table_start)) \<ge> 1" by (simp add: table_start_def NewService_def)
    show "distinct (map pi_ID (ri_OnlinePeers ?rt (snd (snd table_start))))"
      by (simp add: table_iface_def demo_peers_def demo_peer_def)
    show "distinct (confidants (fst (snd table_start)))" by (simp add: table_start_def NewService_def)
  qed
  then show ?thesis by blast
qed

text \<open>A codec that keeps every payload: length-prefixed texts.\<close>

definition put_text :: "string \<Rightarrow> string" where
  "put_text s = replicate (length s) CHR ''1'' @ [CHR ''0''] @ s"

definition get_text :: "string \<Rightarrow> string \<times> string" where
  "get_text s = (let n = length (takeWhile (\<lambda>c. c = CHR ''1'') s) in (take n (drop (n + 1) s), drop (n + 1 + n) s))"

definition int_text :: "int \<Rightarrow> string" where
  "int_text i = (if i < 0 then CHR ''-'' else CHR ''+'') # replicate (nat \<bar>i\<bar>) CHR ''1''"

definition text_int :: "string \<Rightarrow> int" where
  "text_int s = (if hd s = CHR ''-'' then - int (length s - 1) else int (length s - 1))"

lemma get_put_text [simp]: "get_text (put_text s @ r) = (s, r)"
proof -
  have "takeWhile (\<lambda>c. c = CHR ''1'') (put_text s @ r) = replicate (length s) CHR ''1''"
    by (simp add: put_text_def takeWhile_append takeWhile_replicate)
  then show ?thesis by (simp add: get_text_def put_text_def Let_def)
qed

lemma text_int_text [simp]: "text_int (int_text i) = i"
  by (simp add: text_int_def int_text_def)

definition put_all :: "string list \<Rightarrow> string" where
  "put_all xs = concat (map put_text xs)"

primrec get_all :: "nat \<Rightarrow> string \<Rightarrow> string list" where
  "get_all 0 s = []"
| "get_all (Suc n) s = (let (x, r) = get_text s in x # get_all n r)"

lemma get_put_all [simp]: "get_all (length xs) (put_all xs) = xs"
  by (induction xs) (simp_all add: put_all_def)

fun demo_marshal :: "stash_payload \<Rightarrow> string option" where
  "demo_marshal (StorePayload p) =
     Some (put_all [sp_OwnerID p, sp_Owner p, sp_Nonce p, sp_Ciphertext p, int_text (sp_Timestamp p)])"
| "demo_marshal (AckPayload p) =
     Some (put_all [ack_OwnerID p, int_text (ack_StoredAt p), if ack_Success p then ''t'' else [], ack_Reason p])"
| "demo_marshal (RequestPayload p) = Some (put_all [rq_OwnerID p, rq_RequestID p])"
| "demo_marshal (ResponsePayload p) =
     Some (put_all [rs_OwnerID p, rs_RequestID p, if rs_Found p then ''t'' else [], rs_Nonce p, rs_Ciphertext p, int_text (rs_StoredAt p)])"
| "demo_marshal (RefreshPayload p) = Some (put_all [rf_OwnerID p, rf_Owner p])"

definition stash_codec :: "stash_payload codec" where
  "stash_codec = \<lparr>marshal_payload = demo_marshal, time_text = fmt_int, base58_Encode = (\<lambda>s. CHR ''x'' # s)\<rparr>"

definition stash_unmarshallers :: unmarshallers where
  "stash_unmarshallers =
     \<lparr>u_refresh = (\<lambda>s. case get_all 2 s of [a, b] \<Rightarrow> Some \<lparr>rf_OwnerID = a, rf_Owner = b\<rparr> | _ \<Rightarrow> None),
      u_store = (\<lambda>s. case get_all 5 s of
        [a, b, c, d, e] \<Rightarrow> Some \<lparr>sp_OwnerID = a, sp_Owner = b, sp_Nonce = c, sp_Ciphertext = d, sp_Timestamp = text_int e\<rparr> | _ \<Rightarrow> None),
      u_ack = (\<lambda>s. case get_all 4 s of
        [a, b, c, d] \<Rightarrow> Some \<lparr>ack_OwnerID = a, ack_StoredAt = text_int b, ack_Success = (c = ''t''), ack_Reason = d\<rparr> | _ \<Rightarrow> None),
      u_request = (\<lambda>s. case get_all 2 s of [a, b] \<Rightarrow> Some \<lparr>rq_OwnerID = a, rq_RequestID = b\<rparr> | _ \<Rightarrow> None),
      u_response = (\<lambda>s. case get_all 6 s of
        [a, b, c, d, e, f] \<Rightarrow> Some \<lparr>rs_OwnerID = a, rs_RequestID = b, rs_Found = (c = ''t''), rs_Nonce = d, rs_Ciphertext = e,
          rs_StoredAt = text_int f\<rparr> | _ \<Rightarrow> None)\<rparr>"

lemma get_all_numeral:
  "get_all 2 (put_all [a, b]) = [a, b]" "get_all 4 (put_all [a, b, c, d]) = [a, b, c, d]"
  "get_all 5 (put_all [a, b, c, d, e]) = [a, b, c, d, e]" "get_all 6 (put_all [a, b, c, d, e, f]) = [a, b, c, d, e, f]"
  using get_put_all [of "[a, b]"] get_put_all [of "[a, b, c, d]"] get_put_all [of "[a, b, c, d, e]"] get_put_all [of "[a, b, c, d, e, f]"]
  by (simp_all add: eval_nat_numeral del: get_put_all)

lemma codec_ok_demo: "codec_ok stash_codec stash_unmarshallers"
  by (simp add: codec_ok_def stash_codec_def stash_unmarshallers_def get_all_numeral)

definition demo_nara :: "char \<Rightarrow> nara" where
  "demo_nara c = \<lparr>n_id = [c], n_name = [c], n_keypair = demo_keypair c, n_key = replicate 32 c, n_mode = ''low''\<rparr>"

lemma network_ok_demo:
  "network_ok demo_env stash_codec (\<lambda>i. Some (PublicKey (demo_keypair (hd i)))) stash_unmarshallers (demo_nara a) (demo_nara b)"
proof -
  have "hash_text_ok demo_env stash_codec" by (simp add: hash_text_ok_def stash_codec_def)
  then show ?thesis by (simp add: network_ok_def crypto_ok_demo codec_ok_demo nara_ok_def demo_nara_def valid_keypair_demo)
qed

theorem stash_comes_back_witness:
  "\<exists>r1 sc1 r2. StoreWith
       (owner_iface demo_env stash_codec demo_aead (demo_nara CHR ''o'') (demo_nara CHR ''c'')
          (\<lambda>i. Some (PublicKey (demo_keypair (hd i)))) stash_unmarshallers 5 (\<lambda>w. Some (replicate 24 CHR ''n'')))
       ''c'' ''secret'' (fst demo_start, NewService, [], (fst demo_start, demo_held, [])) = ((r1, NewService, [], (fst demo_start, sc1, [])), None) \<and>
     RequestFrom
       (owner_iface demo_env stash_codec demo_aead (demo_nara CHR ''o'') (demo_nara CHR ''c'')
          (\<lambda>i. Some (PublicKey (demo_keypair (hd i)))) stash_unmarshallers 9 (\<lambda>w. Some (replicate 24 CHR ''n'')))
       ''c'' (r1, NewService, [], (fst demo_start, sc1, [])) = ((r2, NewService, [], (fst demo_start, sc1, [])), Inr ''secret'')"
proof -
  let ?n = "demo_nara CHR ''o''" and ?c = "demo_nara CHR ''c''" and ?keys = "\<lambda>i. Some (PublicKey (demo_keypair (hd i)))"
  let ?rand = "\<lambda>w. Some (replicate 24 CHR ''n'')"
  have k: "length (n_key ?n) = KeySize" "n_id ?c = ''c''" by (simp_all add: demo_nara_def KeySize_def)
  have rnd: "\<forall>w. \<exists>nonce. ?rand w = Some nonce \<and> length nonce = 24" by simp
  have can: "canStore (confidant_iface demo_env stash_codec demo_aead ?c ?keys stash_unmarshallers 5) (n_id ?n) demo_held"
    by (simp add: canStore_def demo_held_def store_def NewService_def StorageLimit_def confidant_iface_def demo_nara_def)
  have ch: "channels_used (fst demo_start)" by (simp add: channels_used_def demo_start_def)
  show ?thesis
    using stash_comes_back [where data = "''secret''" and s = NewService and rc = "fst demo_start" and later = 9,
        OF network_ok_demo aead_ok_demo k(1) rnd can ch] k(2)
    by auto
qed

end
