(* ===== verification/Keyring.thy ===== *)
theory Keyring
  imports Crypto "HOL-Library.AList"
begin

text \<open>
  \<open>utilities/keyring/keyring.go\<close>: a nara's own keypair and the public keys it knows of others. The
  locale \<open>key_directory\<close> is what the rest of the program relies on: a key that is registered is
  found, registering one leaves the others and the own key alone.
\<close>

section \<open>The keyring\<close>

record Keyring =
  kr_keypair :: NaraKeypair
  kr_myID :: NaraID
  kr_keys :: "(NaraID \<times> string) list"

datatype keyring_error = InvalidBase64 | InvalidKeySize

definition New_Keyring :: "NaraKeypair \<Rightarrow> NaraID \<Rightarrow> Keyring" where
  "New_Keyring keypair myID = \<lparr>kr_keypair = keypair, kr_myID = myID, kr_keys = []\<rparr>"

definition MyID :: "Keyring \<Rightarrow> NaraID" where
  "MyID k = kr_myID k"

definition MyPublicKey :: "Keyring \<Rightarrow> string" where
  "MyPublicKey k = PublicKey (kr_keypair k)"

definition MyPublicKeyBase64 :: "go_env \<Rightarrow> Keyring \<Rightarrow> string" where
  "MyPublicKeyBase64 G k = base64_Encode G (PublicKey (kr_keypair k))"

definition Keyring_Sign :: "go_env \<Rightarrow> Keyring \<Rightarrow> string \<Rightarrow> string" where
  "Keyring_Sign G k data = KeypairSign G (kr_keypair k) data"

definition Keyring_SignBase64 :: "go_env \<Rightarrow> Keyring \<Rightarrow> string \<Rightarrow> string" where
  "Keyring_SignBase64 G k data = base64_Encode G (Keyring_Sign G k data)"

definition Register :: "NaraID \<Rightarrow> string \<Rightarrow> Keyring \<Rightarrow> Keyring" where
  "Register i pubkey k =
     (if i = [] \<or> length pubkey = 0 then k else k\<lparr>kr_keys := AList.update i pubkey (kr_keys k)\<rparr>)"

definition RegisterBase64 :: "go_env \<Rightarrow> NaraID \<Rightarrow> string \<Rightarrow> Keyring \<Rightarrow> keyring_error option \<times> Keyring" where
  "RegisterBase64 G i pubkeyBase64 k =
     (if i = [] \<or> pubkeyBase64 = [] then (None, k)
      else case base64_Decode G pubkeyBase64 of
             None \<Rightarrow> (Some InvalidBase64, k)
           | Some pubkey \<Rightarrow>
               if length pubkey \<noteq> PublicKeySize then (Some InvalidKeySize, k)
               else (None, Register i pubkey k))"

definition Lookup :: "Keyring \<Rightarrow> NaraID \<Rightarrow> string option" where
  \<comment> \<open>\<open>None\<close> is the nil key\<close>
  "Lookup k i =
     (if i = [] then None else if i = kr_myID k then Some (PublicKey (kr_keypair k)) else map_of (kr_keys k) i)"

definition Has :: "Keyring \<Rightarrow> NaraID \<Rightarrow> bool" where
  "Has k i \<longleftrightarrow> Lookup k i \<noteq> None"

definition Keyring_Count :: "Keyring \<Rightarrow> nat" where
  "Keyring_Count k = length (kr_keys k)"

definition Keyring_Verify :: "go_env \<Rightarrow> Keyring \<Rightarrow> NaraID \<Rightarrow> string \<Rightarrow> string \<Rightarrow> bool go" where
  "Keyring_Verify G k i data signature =
     (case Lookup k i of
        None \<Rightarrow> Inr False
      | Some pubkey \<Rightarrow>
          if length signature \<noteq> SignatureSize then Inr False
          else if length pubkey \<noteq> PublicKeySize then Inl BadKeyLength
          else Inr (ed25519_Verify G pubkey data signature))"

definition VerifyBase64 :: "go_env \<Rightarrow> Keyring \<Rightarrow> NaraID \<Rightarrow> string \<Rightarrow> string \<Rightarrow> bool go" where
  "VerifyBase64 G k i data signatureBase64 =
     (case base64_Decode G signatureBase64 of
        None \<Rightarrow> Inr False
      | Some signature \<Rightarrow> Keyring_Verify G k i data signature)"

definition Keyring_VerifyWithKey :: "go_env \<Rightarrow> string \<Rightarrow> string \<Rightarrow> string \<Rightarrow> bool" where
  "Keyring_VerifyWithKey G pubkey data signature =
     (if length pubkey \<noteq> PublicKeySize \<or> length signature \<noteq> SignatureSize then False
      else ed25519_Verify G pubkey data signature)"

section \<open>A directory of keys\<close>

locale key_directory =
  fixes own :: "'s \<Rightarrow> NaraID" and find_key :: "'s \<Rightarrow> NaraID \<Rightarrow> string option"
    and put_key :: "NaraID \<Rightarrow> string \<Rightarrow> 's \<Rightarrow> 's"
  assumes own_put: "own (put_key i k s) = own s"
    and find_put: "i \<noteq> [] \<Longrightarrow> k \<noteq> [] \<Longrightarrow> i \<noteq> own s \<Longrightarrow> find_key (put_key i k s) i = Some k"
    and find_put_other: "j \<noteq> i \<Longrightarrow> find_key (put_key i k s) j = find_key s j"
    and find_put_own: "find_key (put_key i k s) (own s) = find_key s (own s)"
    and put_refused: "i = [] \<or> k = [] \<Longrightarrow> put_key i k s = s"
begin

lemma own_puts: "own (fold (\<lambda>(i, k). put_key i k) ks s) = own s"
  by (induction ks arbitrary: s) (auto simp: own_put split: prod.splits)

lemma own_key_stays: "find_key (fold (\<lambda>(i, k). put_key i k) ks s) (own s) = find_key s (own s)"
proof (induction ks arbitrary: s)
  case (Cons p ks)
  obtain i k where p: "p = (i, k)" by fastforce
  show ?case using Cons.IH [of "put_key i k s"] by (simp add: p own_put find_put_own)
qed simp

text \<open>The last key registered for an ID is the one that is found.\<close>

lemma find_puts:
  assumes "j \<noteq> own s"
  shows "find_key (fold (\<lambda>(i, k). put_key i k) ks s) j =
    (case map_of (rev (filter (\<lambda>(i, k). i \<noteq> [] \<and> k \<noteq> []) ks)) j of None \<Rightarrow> find_key s j | Some k \<Rightarrow> Some k)"
  using assms
proof (induction ks arbitrary: s)
  case (Cons p ks)
  obtain i k where p: "p = (i, k)" by fastforce
  have j: "j \<noteq> own (put_key i k s)" using Cons.prems by (simp add: own_put)
  consider "i = [] \<or> k = []" | "i \<noteq> []" "k \<noteq> []" "i = j" | "i \<noteq> []" "k \<noteq> []" "i \<noteq> j" by blast
  then show ?case
  proof cases
    case 1
    then show ?thesis using Cons.IH [OF Cons.prems] by (auto simp: p put_refused)
  next
    case 2
    then have "find_key (put_key i k s) j = Some k" using Cons.prems by (simp add: find_put)
    then show ?thesis using Cons.IH [OF j] 2 by (simp add: p map_add_Some_iff map_of_append split: option.splits)
  next
    case 3
    then have "find_key (put_key i k s) j = find_key s j" by (simp add: find_put_other)
    then show ?thesis using Cons.IH [OF j] 3 by (simp add: p map_add_def split: option.splits)
  qed
qed simp

end

lemma Lookup_Register:
  "Lookup (Register i pubkey k) j =
     (if j = i \<and> i \<noteq> [] \<and> pubkey \<noteq> [] \<and> i \<noteq> kr_myID k then Some pubkey else Lookup k j)"
  by (simp add: Lookup_def Register_def update_conv')

interpretation keyring: key_directory kr_myID Lookup Register
  by unfold_locales (auto simp: Lookup_Register, auto simp: Register_def)

section \<open>Well-formed keyrings\<close>

text \<open>Every key has the size that \<open>ed25519.Verify\<close> insists on.\<close>

definition keyring_wf :: "Keyring \<Rightarrow> bool" where
  "keyring_wf k \<longleftrightarrow>
     length (PublicKey (kr_keypair k)) = PublicKeySize \<and> distinct (map fst (kr_keys k)) \<and>
     (\<forall>(i, key) \<in> set (kr_keys k). i \<noteq> [] \<and> length key = PublicKeySize)"

lemma keyring_wf_New: "length (PublicKey kp) = PublicKeySize \<Longrightarrow> keyring_wf (New_Keyring kp i)"
  by (simp add: keyring_wf_def New_Keyring_def)

lemma set_update_subset: "set (AList.update i v xs) \<subseteq> insert (i, v) (set xs)"
  by (induction xs) auto

lemma keyring_wf_Register [wf_intros]:
  "keyring_wf k \<Longrightarrow> length key = PublicKeySize \<Longrightarrow> keyring_wf (Register i key k)"
  unfolding keyring_wf_def Register_def using set_update_subset [of i key "kr_keys k"]
  by (auto intro: distinct_update)

lemma keyring_wf_RegisterBase64 [wf_intros]: "keyring_wf k \<Longrightarrow> keyring_wf (snd (RegisterBase64 G i key k))"
  by (auto simp: RegisterBase64_def intro: keyring_wf_Register split: option.splits)

lemma RegisterBase64_identity [simp]:
  "kr_myID (snd (RegisterBase64 G i key k)) = kr_myID k" "kr_keypair (snd (RegisterBase64 G i key k)) = kr_keypair k"
  by (simp_all add: RegisterBase64_def Register_def split: option.splits)

lemma RegisterBase64_ok:
  assumes "ParsePublicKey G pk = Some key" and "pk \<noteq> []"
  shows "RegisterBase64 G i pk k = (None, Register i key k)"
  using assms by (auto simp: RegisterBase64_def Register_def ParsePublicKey_def split: option.splits if_splits)

lemma Lookup_RegisterBase64:
  "Lookup (snd (RegisterBase64 G i pk k)) j =
     (case (if pk = [] then None else ParsePublicKey G pk) of
        None \<Rightarrow> Lookup k j
      | Some key \<Rightarrow> if j = i \<and> i \<noteq> [] \<and> i \<noteq> kr_myID k then Some key else Lookup k j)"
  by (auto simp: RegisterBase64_def ParsePublicKey_def Lookup_Register PublicKeySize_def split: option.splits if_splits)

lemma Lookup_wf: "keyring_wf k \<Longrightarrow> Lookup k i = Some key \<Longrightarrow> length key = PublicKeySize"
  by (auto simp: keyring_wf_def Lookup_def split: if_splits dest!: map_of_SomeD)

lemma Keyring_Verify_total: "keyring_wf k \<Longrightarrow> \<exists>b. Keyring_Verify G k i data signature = Inr b"
  by (auto simp: Keyring_Verify_def Lookup_wf split: option.splits)

lemma Keyring_Verify_signed:
  assumes "crypto_ok G" and "valid_keypair G kp" and "Lookup k i = Some (PublicKey kp)"
  shows "VerifyBase64 G k i data (SignBase64 G kp data) = Inr True"
  using assms
  by (simp add: VerifyBase64_def Keyring_Verify_def SignBase64_def KeypairSign_def crypto_ok_def valid_keypair_def)

end
