(* ===== verification/Vivaldi.thy ===== *)
theory Vivaldi
  imports Go_Float
begin

text \<open>
  \<open>vivaldi.go\<close>: network coordinates. Cosine, sine and exponential come from the platform's \<open>math\<close> package
  and are not correctly rounded, so they are parameters, as are the random numbers; all other
  operations are those of \<open>Go_Float\<close>.
\<close>

record NetworkCoordinate =
  nc_X :: float64
  nc_Y :: float64
  nc_Height :: float64
  nc_Error :: float64

record VivaldiConfig =
  vc_Ce :: float64
  vc_Cc :: float64
  vc_MinHeight :: float64
  vc_InitialError :: float64

record math_env =
  math_Cos :: "float64 \<Rightarrow> float64"
  math_Sin :: "float64 \<Rightarrow> float64"
  math_Exp :: "float64 \<Rightarrow> float64"

definition math_Pi :: float64 where "math_Pi = 0x400921FB54442D18"
definition MaxFloat64 :: float64 where "MaxFloat64 = 0x7FEFFFFFFFFFFFFF"

definition DefaultVivaldiConfig :: VivaldiConfig where
  "DefaultVivaldiConfig = \<lparr>vc_Ce = f64_lit 25 100, vc_Cc = f64_lit 25 100, vc_MinHeight = f64_lit 1 100000,
     vc_InitialError = f64_lit 1 1\<rparr>"

text \<open>\<open>r1\<close> and \<open>r2\<close> are the two results of \<open>rand.Float64\<close>.\<close>

definition NewNetworkCoordinate :: "math_env \<Rightarrow> float64 \<Rightarrow> float64 \<Rightarrow> NetworkCoordinate" where
  "NewNetworkCoordinate M r1 r2 =
     (let angle = f64_mul (f64_mul r1 (f64_lit 2 1)) math_Pi;
          radius = f64_mul r2 (f64_lit 1 1000)
      in \<lparr>nc_X = f64_mul radius (math_Cos M angle), nc_Y = f64_mul radius (math_Sin M angle),
          nc_Height = vc_MinHeight DefaultVivaldiConfig, nc_Error = vc_InitialError DefaultVivaldiConfig\<rparr>)"

definition euclidean :: "float64 \<Rightarrow> float64 \<Rightarrow> float64" where
  "euclidean dx dy = f64_sqrt (f64_add (f64_mul dx dx) (f64_mul dy dy))"

definition DistanceTo :: "NetworkCoordinate \<Rightarrow> NetworkCoordinate option \<Rightarrow> float64" where
  "DistanceTo c other =
     (case other of
        None \<Rightarrow> MaxFloat64
      | Some p \<Rightarrow>
          f64_add (f64_add (euclidean (f64_sub (nc_X c) (nc_X p)) (f64_sub (nc_Y c) (nc_Y p))) (nc_Height c)) (nc_Height p))"

definition clamp_error :: "float64 \<Rightarrow> float64" where
  "clamp_error e =
     (let e1 = (if f64_lt e (f64_lit 1 1000) then f64_lit 1 1000 else e)
      in if f64_gt e1 (f64_lit 2 1) then f64_lit 2 1 else e1)"

text \<open>\<open>r\<close> is the result of \<open>rand.Float64\<close>, read when the two positions coincide.\<close>

definition unit_vector :: "math_env \<Rightarrow> float64 \<Rightarrow> float64 \<Rightarrow> float64 \<Rightarrow> float64 \<times> float64" where
  "unit_vector M r dx dy =
     (let dist = euclidean dx dy
      in if f64_gt dist (f64_lit 1 10000) then (f64_div dx dist, f64_div dy dist)
         else let angle = f64_mul (f64_mul r (f64_lit 2 1)) math_Pi in (math_Cos M angle, math_Sin M angle))"

definition Coordinate_Update ::
  "math_env \<Rightarrow> float64 \<Rightarrow> NetworkCoordinate \<Rightarrow> NetworkCoordinate option \<Rightarrow> float64 \<Rightarrow> VivaldiConfig
   \<Rightarrow> NetworkCoordinate \<times> float64" where
  "Coordinate_Update M r c peer rtt config =
     (case peer of
        None \<Rightarrow> (c, nc_Error c)
      | Some p \<Rightarrow>
          if f64_le rtt (f64_lit 0 1) then (c, nc_Error c)
          else
            let predicted = DistanceTo c (Some p);
                err = f64_sub rtt predicted;
                totalError = f64_add (nc_Error c) (nc_Error p);
                totalError = (if f64_eq totalError (f64_lit 0 1) then f64_lit 1 1000 else totalError);
                w = f64_div (nc_Error c) totalError;
                absErr = f64_abs err;
                e = f64_add (f64_mul (f64_mul (nc_Error c) (vc_Ce config)) w)
                      (f64_mul absErr (f64_sub (f64_lit 1 1) (f64_mul (vc_Ce config) w)));
                e = clamp_error e;
                (unitX, unitY) = unit_vector M r (f64_sub (nc_X c) (nc_X p)) (f64_sub (nc_Y c) (nc_Y p));
                delta = f64_mul (f64_mul (vc_Cc config) w) err;
                h = f64_add (nc_Height c) (f64_mul (f64_mul (f64_mul (vc_Cc config) w) err) (f64_lit 1 10));
                h = (if f64_lt h (vc_MinHeight config) then vc_MinHeight config else h)
            in (\<lparr>nc_X = f64_add (nc_X c) (f64_mul unitX delta), nc_Y = f64_add (nc_Y c) (f64_mul unitY delta),
                 nc_Height = h, nc_Error = e\<rparr>, e))"

definition Coordinate_Clone :: "NetworkCoordinate \<Rightarrow> NetworkCoordinate" where
  "Coordinate_Clone c = \<lparr>nc_X = nc_X c, nc_Y = nc_Y c, nc_Height = nc_Height c, nc_Error = nc_Error c\<rparr>"

definition Coordinate_IsValid :: "NetworkCoordinate option \<Rightarrow> bool" where
  "Coordinate_IsValid coords =
     (case coords of
        None \<Rightarrow> False
      | Some c \<Rightarrow>
          if f64_nan (nc_X c) \<or> f64_nan (nc_Y c) \<or> f64_nan (nc_Height c) \<or> f64_nan (nc_Error c) then False
          else if f64_inf (nc_X c) \<or> f64_inf (nc_Y c) \<or> f64_inf (nc_Height c) \<or> f64_inf (nc_Error c) then False
          else True)"

text \<open>Maps of names to floats are association lists, in the order of the loop.\<close>

definition ApplyProximityToClout ::
  "math_env \<Rightarrow> (string \<times> float64) list \<Rightarrow> NetworkCoordinate option \<Rightarrow> (string \<Rightarrow> NetworkCoordinate option)
   \<Rightarrow> (string \<times> float64) list" where
  "ApplyProximityToClout M baseClout myCoords getCoords =
     (case myCoords of
        None \<Rightarrow> baseClout
      | Some me \<Rightarrow>
          map (\<lambda>(name, clout).
            if \<not> Coordinate_IsValid (getCoords name) then (name, clout)
            else let distance = DistanceTo me (getCoords name);
                     proximityWeight = math_Exp M (f64_div (f64_negate distance) (f64_lit 100 1))
                 in (name, f64_add (f64_mul clout (f64_lit 7 10))
                             (f64_mul (f64_mul clout proximityWeight) (f64_lit 3 10)))) baseClout)"

definition ProximityBonus :: "NetworkCoordinate option \<Rightarrow> NetworkCoordinate option \<Rightarrow> float64" where
  "ProximityBonus myCoords peerCoords =
     (case (myCoords, peerCoords) of
        (Some me, Some p) \<Rightarrow>
          let distance = DistanceTo me (Some p);
              distance = (if f64_lt distance (f64_lit 1 1) then f64_lit 1 1 else distance)
          in f64_div (f64_lit 100 1) distance
      | _ \<Rightarrow> f64_lit 0 1)"

section \<open>Properties\<close>

lemma IsValid_finite:
  "Coordinate_IsValid (Some c) \<longleftrightarrow> f64_finite (nc_X c) \<and> f64_finite (nc_Y c) \<and> f64_finite (nc_Height c) \<and> f64_finite (nc_Error c)"
  by (auto simp: Coordinate_IsValid_def f64_nan_def f64_inf_def f64_finite_def)

lemma Clone_eq [simp]: "Coordinate_Clone c = c"
  by (simp add: Coordinate_Clone_def)

lemma f64_order_simps:
  "\<not> f64_nan x \<Longrightarrow> \<not> f64_nan y \<Longrightarrow> \<not> f64_lt x y \<longleftrightarrow> f64_le y x"
  "\<not> f64_nan x \<Longrightarrow> \<not> f64_nan y \<Longrightarrow> \<not> f64_gt x y \<longleftrightarrow> f64_le x y"
  by (auto simp: f64_lt_def f64_le_def f64_gt_def)

lemma clamp_error_bounds:
  assumes "\<not> f64_nan e"
  shows "f64_le (f64_lit 1 1000) (clamp_error e) \<and> f64_le (clamp_error e) (f64_lit 2 1)"
proof -
  have lits: "\<not> f64_nan (f64_lit 1 1000)" "\<not> f64_nan (f64_lit 2 1)" "f64_le (f64_lit 1 1000) (f64_lit 2 1)"
    "f64_le (f64_lit 1 1000) (f64_lit 1 1000)" "f64_le (f64_lit 2 1) (f64_lit 2 1)"
    by (simp_all add: f64_le_def f64_compute)
  show ?thesis
    using assms lits by (auto simp: clamp_error_def Let_def f64_order_simps)
qed

lemma clamp_error_nan: "f64_nan e \<Longrightarrow> clamp_error e = e"
  by (simp add: clamp_error_def f64_lt_def f64_gt_def)

text \<open>An update leaves the confidence between a thousandth and two, unless it is not a number.\<close>

lemma update_error_bounds_lemma:
  assumes "\<not> f64_le rtt (f64_lit 0 1)" and "Coordinate_Update M r c (Some p) rtt config = (c', e)" and "\<not> f64_nan e"
  shows "nc_Error c' = e" and "f64_le (f64_lit 1 1000) e" and "f64_le e (f64_lit 2 1)"
proof -
  obtain e0 where e: "e = clamp_error e0" "nc_Error c' = e"
    using assms(1, 2) by (auto simp: Coordinate_Update_def Let_def split: prod.splits)
  have "\<not> f64_nan e0" using assms(3) e(1) clamp_error_nan by metis
  then show "nc_Error c' = e" "f64_le (f64_lit 1 1000) e" "f64_le e (f64_lit 2 1)"
    using e clamp_error_bounds by auto
qed

lemma ApplyProximity_names [simp]: "map fst (ApplyProximityToClout M clout me coords) = map fst clout"
  by (auto simp: ApplyProximityToClout_def Let_def split: option.splits)

end
