(* ===== verification/Neighbourhood.thy ===== *)
theory Neighbourhood
  imports Sync_Ledger Keyring Vivaldi "HOL-Library.List_Lexorder"
begin

text \<open>
  \<open>nara.go\<close>, \<open>neighbourhood_tracking.go\<close>, \<open>neighbourhood_queries.go\<close> and
  \<open>neighbourhood_observations.go\<close>: the naras a nara knows. They are reached
  by name and by ID through pointers, so they live in a store, and the two maps hold references
  into it. The map by name is an association list, in the order in which a loop over it happens to
  visit it; what is proved for every list holds for every order.
\<close>

section \<open>Naras\<close>

record HostStats =
  hs_Uptime :: int
  hs_LoadAvg :: float64
  hs_MemAllocMB :: int
  hs_MemSysMB :: int
  hs_MemHeapMB :: int
  hs_MemStackMB :: int
  hs_NumGoroutines :: int
  hs_NumGC :: int
  hs_ProcCPUPercent :: float64

record Aura =
  au_Primary :: string
  au_Secondary :: string

text \<open>A nil map is \<open>None\<close>. The coordinates of others are never changed in place, so a value stands for the pointer.\<close>

record NaraStatus =
  st_LicensePlate :: string
  st_Flair :: string
  st_HostStats :: HostStats
  st_Chattiness :: int
  st_Buzz :: int
  st_Observations :: "(NaraName \<times> NaraObservation) list option"
  st_Trend :: string
  st_TrendEmoji :: string
  st_Personality :: NaraPersonality
  st_Aura :: Aura
  st_Version :: string
  st_PublicUrl :: string
  st_PublicKey :: string
  st_ID :: NaraID
  st_MeshEnabled :: bool
  st_MeshIP :: string
  st_Coordinates :: "NetworkCoordinate option"
  st_TransportMode :: string
  st_EventStoreTotal :: int
  st_EventStoreByService :: "string \<rightharpoonup> int"
  st_EventStoreCritical :: int
  st_MemoryMode :: string
  st_MemoryBudgetMB :: int
  st_MemoryMaxEvents :: int
  st_StashStored :: int
  st_StashBytes :: int
  st_StashConfidants :: int

record Nara =
  na_Name :: NaraName
  na_Hostname :: string
  na_Version :: string
  na_Status :: NaraStatus
  na_ID :: NaraID

definition zero_stats :: HostStats where
  "zero_stats = \<lparr>hs_Uptime = 0, hs_LoadAvg = 0, hs_MemAllocMB = 0, hs_MemSysMB = 0, hs_MemHeapMB = 0,
     hs_MemStackMB = 0, hs_NumGoroutines = 0, hs_NumGC = 0, hs_ProcCPUPercent = 0\<rparr>"

definition zero_status :: NaraStatus where
  "zero_status = \<lparr>st_LicensePlate = [], st_Flair = [], st_HostStats = zero_stats, st_Chattiness = 0, st_Buzz = 0,
     st_Observations = None, st_Trend = [], st_TrendEmoji = [],
     st_Personality = \<lparr>Agreeableness = 0, Sociability = 0, Chill = 0\<rparr>, st_Aura = \<lparr>au_Primary = [], au_Secondary = []\<rparr>,
     st_Version = [], st_PublicUrl = [], st_PublicKey = [], st_ID = [], st_MeshEnabled = False, st_MeshIP = [],
     st_Coordinates = None, st_TransportMode = [], st_EventStoreTotal = 0, st_EventStoreByService = (\<lambda>service. None),
     st_EventStoreCritical = 0, st_MemoryMode = [], st_MemoryBudgetMB = 0, st_MemoryMaxEvents = 0, st_StashStored = 0,
     st_StashBytes = 0, st_StashConfidants = 0\<rparr>"

definition NewNara :: "NaraName \<Rightarrow> Nara" where
  "NewNara name = \<lparr>na_Name = name, na_Hostname = [], na_Version = [],
     na_Status = zero_status\<lparr>st_Observations := Some []\<rparr>, na_ID = []\<rparr>"

definition keep_if :: "bool \<Rightarrow> 'a \<Rightarrow> 'a \<Rightarrow> 'a" where
  "keep_if b new old = (if b then new else old)"

text \<open>
  \<open>other.HostStats == HostStats{}\<close>: every field compares equal to zero. A \<open>float64\<close> does so as
  \<open>0\<close> and as \<open>-0\<close>.
\<close>

definition f64_is_zero :: "float64 \<Rightarrow> bool" where
  "f64_is_zero x \<longleftrightarrow> unat x = 0 \<or> unat x = 2 ^ 63"

definition HostStats_is_zero :: "HostStats \<Rightarrow> bool" where
  "HostStats_is_zero h \<longleftrightarrow>
     hs_Uptime h = 0 \<and> f64_is_zero (hs_LoadAvg h) \<and> hs_MemAllocMB h = 0 \<and> hs_MemSysMB h = 0 \<and>
     hs_MemHeapMB h = 0 \<and> hs_MemStackMB h = 0 \<and> hs_NumGoroutines h = 0 \<and> hs_NumGC h = 0 \<and>
     f64_is_zero (hs_ProcCPUPercent h)"

definition NaraStatus_setValuesFrom :: "NaraStatus \<Rightarrow> NaraStatus \<Rightarrow> NaraStatus go" where
  "NaraStatus_setValuesFrom ns other =
     (let merged = (\<lambda>obs. ns\<lparr>
            st_LicensePlate := st_LicensePlate other,
            st_Flair := keep_if (st_Flair other \<noteq> []) (st_Flair other) (st_Flair ns),
            st_HostStats := keep_if (\<not> HostStats_is_zero (st_HostStats other)) (st_HostStats other) (st_HostStats ns),
            st_Version := keep_if (st_Version other \<noteq> []) (st_Version other) (st_Version ns),
            st_Trend := st_Trend other, st_TrendEmoji := st_TrendEmoji other, st_Personality := st_Personality other,
            st_Aura := keep_if (au_Primary (st_Aura other) \<noteq> []) (st_Aura other) (st_Aura ns),
            st_Chattiness := st_Chattiness other, st_Buzz := st_Buzz other, st_Observations := obs,
            st_PublicUrl := keep_if (st_PublicUrl other \<noteq> []) (st_PublicUrl other) (st_PublicUrl ns),
            st_PublicKey := keep_if (st_PublicKey other \<noteq> []) (st_PublicKey other) (st_PublicKey ns),
            st_ID := keep_if (st_ID other \<noteq> []) (st_ID other) (st_ID ns),
            st_MemoryMode := keep_if (st_MemoryMode other \<noteq> []) (st_MemoryMode other) (st_MemoryMode ns),
            st_MemoryBudgetMB := keep_if (st_MemoryBudgetMB other \<noteq> 0) (st_MemoryBudgetMB other) (st_MemoryBudgetMB ns),
            st_MemoryMaxEvents := keep_if (st_MemoryMaxEvents other \<noteq> 0) (st_MemoryMaxEvents other) (st_MemoryMaxEvents ns),
            st_MeshEnabled := st_MeshEnabled other, st_MeshIP := st_MeshIP other,
            st_Coordinates := keep_if (st_Coordinates other \<noteq> None) (st_Coordinates other) (st_Coordinates ns),
            st_TransportMode := keep_if (st_TransportMode other \<noteq> []) (st_TransportMode other) (st_TransportMode ns)\<rparr>)
      in case (st_Observations other, st_Observations ns) of
           (None, old) \<Rightarrow> Inr (merged old)
         | (Some new, Some old) \<Rightarrow> Inr (merged (Some (AList.merge old new)))
         | (Some new, None) \<Rightarrow> if new = [] then Inr (merged None) else Inl NilMapAssignment)"

definition Nara_setValuesFrom :: "Nara \<Rightarrow> Nara \<Rightarrow> Nara go" where
  "Nara_setValuesFrom nara other =
     (if na_Name other = [] \<or> na_Name other \<noteq> na_Name nara then Inr nara
      else go_bind (NaraStatus_setValuesFrom (na_Status nara) (na_Status other)) (\<lambda>status.
        Inr (nara\<lparr>na_Version := keep_if (na_Version other \<noteq> []) (na_Version other) (na_Version nara), na_Status := status\<rparr>)))"

section \<open>The state\<close>

text \<open>
  A pointer to a nara is an index into \<open>nw_store\<close>; \<open>nw_Me\<close> is \<open>network.local.Me\<close>. The record is
  extended by the components that keep more state.
\<close>

record network =
  nw_store :: "Nara list"
  nw_Me :: nat
  nw_ID :: NaraID
  nw_Neighbourhood :: "(NaraName \<times> nat) list"
  nw_NeighbourhoodByID :: "NaraID \<rightharpoonup> nat"
  nw_nameToID :: "NaraName \<rightharpoonup> NaraID"
  nw_keyring :: Keyring
  nw_peers :: "NaraID \<rightharpoonup> string"
  nw_SyncLedger :: SyncLedger

definition nara_at :: "'a network_scheme \<Rightarrow> nat \<Rightarrow> Nara" where
  "nara_at net r = nw_store net ! r"

definition set_nara :: "nat \<Rightarrow> Nara \<Rightarrow> 'a network_scheme \<Rightarrow> 'a network_scheme" where
  "set_nara r nara net = net\<lparr>nw_store := (nw_store net)[r := nara]\<rparr>"

definition set_status :: "nat \<Rightarrow> (NaraStatus \<Rightarrow> NaraStatus) \<Rightarrow> 'a network_scheme \<Rightarrow> 'a network_scheme" where
  "set_status r f net = set_nara r ((nara_at net r)\<lparr>na_Status := f (na_Status (nara_at net r))\<rparr>) net"

definition alloc :: "Nara \<Rightarrow> 'a network_scheme \<Rightarrow> nat \<times> 'a network_scheme" where
  \<comment> \<open>\<open>&Nara{...}\<close>\<close>
  "alloc nara net = (length (nw_store net), net\<lparr>nw_store := nw_store net @ [nara]\<rparr>)"

definition meName :: "'a network_scheme \<Rightarrow> NaraName" where
  "meName net = na_Name (nara_at net (nw_Me net))"

section \<open>Observations\<close>

definition Nara_getObservation :: "Nara \<Rightarrow> NaraName \<Rightarrow> NaraObservation" where
  "Nara_getObservation nara name =
     (case st_Observations (na_Status nara) of
        None \<Rightarrow> zero_observation
      | Some obs \<Rightarrow> (case map_of obs name of None \<Rightarrow> zero_observation | Some ob \<Rightarrow> ob))"

definition setObservationLocked :: "NaraName \<Rightarrow> NaraObservation \<Rightarrow> Nara \<Rightarrow> Nara go" where
  "setObservationLocked name ob nara =
     (case st_Observations (na_Status nara) of
        None \<Rightarrow> Inl NilMapAssignment
      | Some obs \<Rightarrow> Inr (nara\<lparr>na_Status := (na_Status nara)\<lparr>st_Observations := Some (AList.update name ob obs)\<rparr>\<rparr>))"

definition getObservation :: "'a network_scheme \<Rightarrow> NaraName \<Rightarrow> NaraObservation" where
  "getObservation net name = Nara_getObservation (nara_at net (nw_Me net)) name"

definition setObservation :: "NaraName \<Rightarrow> NaraObservation \<Rightarrow> 'a network_scheme \<Rightarrow> 'a network_scheme go" where
  "setObservation name ob net =
     go_bind (setObservationLocked name ob (nara_at net (nw_Me net))) (\<lambda>nara. Inr (set_nara (nw_Me net) nara net))"

definition getMeObservation :: "'a network_scheme \<Rightarrow> NaraObservation" where
  "getMeObservation net = getObservation net (meName net)"

definition setMeObservation :: "NaraObservation \<Rightarrow> 'a network_scheme \<Rightarrow> 'a network_scheme go" where
  "setMeObservation ob net = setObservation (meName net) ob net"

definition uptime :: "'a network_scheme \<Rightarrow> int" where
  "uptime net = i64 (no_LastSeen (getMeObservation net) - no_LastRestart (getMeObservation net))"

definition isBooting :: "'a network_scheme \<Rightarrow> bool" where
  "isBooting net \<longleftrightarrow> uptime net < 120"

definition chattinessRate :: "'a network_scheme \<Rightarrow> int \<Rightarrow> int \<Rightarrow> int" where
  "chattinessRate net low high =
     i64 (low + i64 (i64 (high - low) * i64 (100 - st_Chattiness (na_Status (nara_at net (nw_Me net))))) sdiv 100)"

section \<open>Tracking\<close>

definition getNara :: "'a network_scheme \<Rightarrow> NaraName \<Rightarrow> nat option" where
  "getNara net name = map_of (nw_Neighbourhood net) name"

definition getNaraByID :: "'a network_scheme \<Rightarrow> NaraID \<Rightarrow> nat option" where
  "getNaraByID net i =
     (if i = [] then None
      else case nw_NeighbourhoodByID net i of
             Some r \<Rightarrow> Some r
           | None \<Rightarrow> find (\<lambda>r. st_ID (na_Status (nara_at net r)) = i \<or> na_ID (nara_at net r) = i)
                       (map snd (nw_Neighbourhood net)))"

definition getAllNarasSnapshot :: "'a network_scheme \<Rightarrow> nat list" where
  "getAllNarasSnapshot net = map snd (nw_Neighbourhood net)"

definition getOnlineNarasSnapshot :: "'a network_scheme \<Rightarrow> nat list" where
  "getOnlineNarasSnapshot net =
     filter (\<lambda>r. isOnline (getObservation net (na_Name (nara_at net r)))) (map snd (nw_Neighbourhood net))"

definition DefaultMeshPort :: int where "DefaultMeshPort = 7433"

definition buildMeshURLFromIP :: "string \<Rightarrow> string" where
  "buildMeshURLFromIP ip =
     (if ip = [] then []
      else if CHR '':'' \<in> set ip then ''http://'' @ ip
      else ''http://'' @ ip @ '':'' @ fmt_int DefaultMeshPort)"

definition RegisterPeerIP :: "NaraID \<Rightarrow> string \<Rightarrow> 'a network_scheme \<Rightarrow> 'a network_scheme" where
  "RegisterPeerIP i ip net = net\<lparr>nw_peers := (nw_peers net)(i \<mapsto> buildMeshURLFromIP ip)\<rparr>"

text \<open>
  The two cases of the map by name. \<open>importNara\<close> holds the mutex of the nara it is given, so
  updating that very nara through the map locks it a second time.
\<close>

definition import_by_name :: "nat \<Rightarrow> 'a network_scheme \<Rightarrow> 'a network_scheme go" where
  "import_by_name r net =
     (let nara = nara_at net r
      in case getNara net (na_Name nara) of
           None \<Rightarrow> Inr (net\<lparr>nw_Neighbourhood := nw_Neighbourhood net @ [(na_Name nara, r)]\<rparr>)
         | Some n \<Rightarrow> if n = r then Inl Deadlock
                    else go_bind (Nara_setValuesFrom (nara_at net n) nara) (\<lambda>merged. Inr (set_nara n merged net)))"

definition register_identity :: "go_env \<Rightarrow> NaraID \<Rightarrow> nat \<Rightarrow> 'a network_scheme \<Rightarrow> 'a network_scheme" where
  "register_identity G i r net =
     (let nara = nara_at net r;
          status = na_Status nara;
          net1 = net\<lparr>nw_NeighbourhoodByID := (nw_NeighbourhoodByID net)(i \<mapsto> r),
                     nw_nameToID := (nw_nameToID net)(na_Name nara \<mapsto> i)\<rparr>;
          net2 = (if st_PublicKey status \<noteq> []
                  then net1\<lparr>nw_keyring := snd (RegisterBase64 G i (st_PublicKey status) (nw_keyring net1))\<rparr> else net1)
      in if st_MeshIP status \<noteq> [] then RegisterPeerIP i (st_MeshIP status) net2 else net2)"

definition nara_identity :: "Nara \<Rightarrow> NaraID" where
  "nara_identity nara = (if st_ID (na_Status nara) = [] then na_ID nara else st_ID (na_Status nara))"

definition importNara :: "go_env \<Rightarrow> nat \<Rightarrow> 'a network_scheme \<Rightarrow> 'a network_scheme go" where
  "importNara G r net =
     (let naraID = nara_identity (nara_at net r)
      in go_bind (import_by_name r net) (\<lambda>net1.
           Inr (if naraID \<noteq> [] then register_identity G naraID r net1 else net1)))"

definition import_new :: "go_env \<Rightarrow> Nara \<Rightarrow> 'a network_scheme \<Rightarrow> 'a network_scheme go" where
  \<comment> \<open>\<open>importNara\<close> of a nara just built\<close>
  "import_new G nara net = (case alloc nara net of (r, net1) \<Rightarrow> importNara G r net1)"

definition getNaraIDByName :: "'a network_scheme \<Rightarrow> NaraName \<Rightarrow> NaraID" where
  "getNaraIDByName net name =
     (if name = [] then [] else if name = meName net then nw_ID net
      else case nw_nameToID net name of None \<Rightarrow> [] | Some i \<Rightarrow> i)"

section \<open>Queries\<close>

definition NeighbourhoodNames :: "'a network_scheme \<Rightarrow> NaraName list" where
  "NeighbourhoodNames net = map fst (nw_Neighbourhood net)"

definition getMeshInfoForNara :: "'a network_scheme \<Rightarrow> NaraName \<Rightarrow> string \<times> NaraID" where
  "getMeshInfoForNara net name =
     (case map_of (nw_Neighbourhood net) name of
        None \<Rightarrow> ([], [])
      | Some r \<Rightarrow> (st_MeshIP (na_Status (nara_at net r)), st_ID (na_Status (nara_at net r))))"

definition getMeshIPForNara :: "'a network_scheme \<Rightarrow> NaraName \<Rightarrow> string" where
  "getMeshIPForNara net name =
     (case map_of (nw_Neighbourhood net) name of None \<Rightarrow> [] | Some r \<Rightarrow> st_MeshIP (na_Status (nara_at net r)))"

definition NeighbourhoodOnlineNames :: "'a network_scheme \<Rightarrow> NaraName list" where
  "NeighbourhoodOnlineNames net =
     filter (\<lambda>name. isOnline (getObservation net name))
       (map (\<lambda>(name, r). na_Name (nara_at net r)) (nw_Neighbourhood net))"

definition getOnlineNaraNames :: "bool \<Rightarrow> 'a network_scheme \<Rightarrow> NaraName list" where
  "getOnlineNaraNames requireMesh net =
     meName net #
     map fst (filter (\<lambda>(name, r). no_Online (getObservation net name) = ''ONLINE'' \<and>
                        (requireMesh \<longrightarrow> st_MeshEnabled (na_Status (nara_at net r)))) (nw_Neighbourhood net))"

text \<open>
  The five searches share their loop: \<open>best\<close> starts with the nara itself and is replaced by every
  candidate that beats it. A candidate is the observed value, the key of the map, and the nara.
\<close>

type_synonym candidate = "int \<times> NaraName \<times> nat"

definition champion :: "('a \<Rightarrow> 'a \<Rightarrow> bool) \<Rightarrow> 'a \<Rightarrow> 'a list \<Rightarrow> 'a" where
  "champion beats = foldl (\<lambda>best x. if beats x best then x else best)"

definition candidates :: "(NaraObservation \<Rightarrow> int) \<Rightarrow> (NaraObservation \<Rightarrow> bool) \<Rightarrow> 'a network_scheme \<Rightarrow> candidate list" where
  "candidates f P net =
     map (\<lambda>(name, r). (f (getObservation net name), name, r))
       (filter (\<lambda>(name, r). no_Online (getObservation net name) = ''ONLINE'' \<and> P (getObservation net name))
         (nw_Neighbourhood net))"

definition older_nara :: "'a network_scheme \<Rightarrow> candidate \<Rightarrow> candidate \<Rightarrow> bool" where
  "older_nara net x best =
     (case (x, best) of ((start, name, r), (oldest, n, result)) \<Rightarrow>
        if oldest \<le> start \<and> na_Name (nara_at net result) < name then False else start > 0 \<and> start \<le> oldest)"

definition younger_nara :: "'a network_scheme \<Rightarrow> candidate \<Rightarrow> candidate \<Rightarrow> bool" where
  "younger_nara net x best =
     (case (x, best) of ((start, name, r), (youngest, n, result)) \<Rightarrow>
        if youngest \<ge> start \<and> name < na_Name (nara_at net result) then False else start > 0 \<and> start \<ge> youngest)"

definition more_restarts :: "'a network_scheme \<Rightarrow> candidate \<Rightarrow> candidate \<Rightarrow> bool" where
  "more_restarts net x best =
     (case (x, best) of ((restarts, name, r), (most, n, result)) \<Rightarrow>
        if most \<ge> restarts \<and> na_Name (nara_at net result) < name then False else restarts > 0 \<and> restarts \<ge> most)"

definition me_candidate :: "(NaraObservation \<Rightarrow> int) \<Rightarrow> 'a network_scheme \<Rightarrow> candidate" where
  "me_candidate f net = (f (getMeObservation net), meName net, nw_Me net)"

definition oldestNara :: "'a network_scheme \<Rightarrow> nat" where
  "oldestNara net =
     snd (snd (champion (older_nara net) (me_candidate no_StartTime net) (candidates no_StartTime (\<lambda>obs. True) net)))"

definition youngestNara :: "'a network_scheme \<Rightarrow> nat" where
  "youngestNara net =
     snd (snd (champion (younger_nara net) (me_candidate no_StartTime net) (candidates no_StartTime (\<lambda>obs. True) net)))"

definition mostRestarts :: "'a network_scheme \<Rightarrow> nat" where
  "mostRestarts net =
     snd (snd (champion (more_restarts net) (me_candidate no_Restarts net) (candidates no_Restarts (\<lambda>obs. True) net)))"

definition oldestNaraBarrio :: "'a network_scheme \<Rightarrow> nat" where
  "oldestNaraBarrio net =
     snd (snd (champion (older_nara net) (me_candidate no_StartTime net)
       (candidates no_StartTime (\<lambda>obs. no_ClusterName obs = no_ClusterName (getMeObservation net)) net)))"

definition youngestNaraBarrio :: "'a network_scheme \<Rightarrow> nat" where
  "youngestNaraBarrio net =
     snd (snd (champion (younger_nara net) (me_candidate no_StartTime net)
       (candidates no_StartTime (\<lambda>obs. no_ClusterName obs = no_ClusterName (getMeObservation net)) net)))"

section \<open>Keys\<close>

definition getPublicKeyForNara :: "go_env \<Rightarrow> 'a network_scheme \<Rightarrow> NaraName \<Rightarrow> string option" where
  "getPublicKeyForNara G net name =
     (if name = meName net then Some (PublicKey (kr_keypair (nw_keyring net)))
      else case getNara net name of
             None \<Rightarrow> None
           | Some r \<Rightarrow> let publicKey = st_PublicKey (na_Status (nara_at net r))
                      in if publicKey = [] then None else ParsePublicKey G publicKey)"

definition hasPublicKeyFor :: "go_env \<Rightarrow> 'a network_scheme \<Rightarrow> NaraName \<Rightarrow> bool" where
  "hasPublicKeyFor G net name \<longleftrightarrow> getPublicKeyForNara G net name \<noteq> None"

definition getPublicKeyForNaraID :: "'a network_scheme \<Rightarrow> NaraID \<Rightarrow> string option" where
  "getPublicKeyForNaraID net i = (if i = [] then None else Lookup (nw_keyring net) i)"

definition RegisterKey :: "go_env \<Rightarrow> NaraID \<Rightarrow> string \<Rightarrow> 'a network_scheme \<Rightarrow> 'a network_scheme" where
  "RegisterKey G i pubkeyBase64 net =
     (if i = [] \<or> pubkeyBase64 = [] then net
      else let net1 = net\<lparr>nw_keyring := snd (RegisterBase64 G i pubkeyBase64 (nw_keyring net))\<rparr>
           in case getNaraByID net1 i of
                None \<Rightarrow> net1
              | Some r \<Rightarrow> if st_PublicKey (na_Status (nara_at net1 r)) = []
                         then set_status r (\<lambda>s. s\<lparr>st_PublicKey := pubkeyBase64\<rparr>) net1 else net1)"

definition mergeExternalObservation :: "NaraName \<Rightarrow> NaraObservation \<Rightarrow> 'a network_scheme \<Rightarrow> 'a network_scheme go" where
  "mergeExternalObservation name external net =
     (let obs0 = getObservation net name;
          obs1 = (if no_StartTime external > 0 \<and> no_StartTime obs0 = 0
                  then obs0\<lparr>no_StartTime := no_StartTime external\<rparr> else obs0);
          obs2 = (if no_LastSeen external > no_LastSeen obs1 then obs1\<lparr>no_LastSeen := no_LastSeen external\<rparr> else obs1);
          obs3 = (if no_Restarts external > no_Restarts obs2 then obs2\<lparr>no_Restarts := no_Restarts external\<rparr> else obs2);
          obs4 = (if no_LastRestart external > no_LastRestart obs3
                  then obs3\<lparr>no_LastRestart := no_LastRestart external\<rparr> else obs3)
      in setObservation name obs4 net)"

end
