(* ===== verification/Neighbourhood_Safety.thy ===== *)
theory Neighbourhood_Safety
  imports Neighbourhood
begin

text \<open>
  The invariant of the neighbourhood, its preservation by the operations of \<open>Neighbourhood\<close>, when
  they can panic, and what the searches for the oldest, youngest and most restarted nara find.
\<close>

section \<open>The store\<close>

definition net_wf :: "'a network_scheme \<Rightarrow> bool" where
  "net_wf net \<longleftrightarrow>
     nw_Me net < length (nw_store net) \<and> st_Observations (na_Status (nara_at net (nw_Me net))) \<noteq> None \<and>
     distinct (map fst (nw_Neighbourhood net)) \<and>
     (\<forall>(name, r) \<in> set (nw_Neighbourhood net).
        r < length (nw_store net) \<and> r \<noteq> nw_Me net \<and> na_Name (nara_at net r) = name) \<and>
     (\<forall>i r. nw_NeighbourhoodByID net i = Some r \<longrightarrow> r < length (nw_store net) \<and> r \<noteq> nw_Me net) \<and>
     keyring_wf (nw_keyring net)"

lemma net_wfD:
  assumes "net_wf net"
  shows "nw_Me net < length (nw_store net)" and "\<exists>obs. st_Observations (na_Status (nara_at net (nw_Me net))) = Some obs"
    and "distinct (map fst (nw_Neighbourhood net))" and "keyring_wf (nw_keyring net)"
  using assms by (auto simp: net_wf_def)

lemma net_wf_entry:
  assumes "net_wf net" and "(name, r) \<in> set (nw_Neighbourhood net)"
  shows "r < length (nw_store net)" and "r \<noteq> nw_Me net" and "na_Name (nara_at net r) = name"
  using assms by (auto simp: net_wf_def)

lemma net_wf_getNara:
  assumes "net_wf net" and "getNara net name = Some r"
  shows "r < length (nw_store net)" and "r \<noteq> nw_Me net" and "na_Name (nara_at net r) = name"
  using net_wf_entry [OF assms(1), of name r] assms(2) by (auto simp: getNara_def dest: map_of_SomeD)

lemma net_wf_byID:
  assumes "net_wf net" and "nw_NeighbourhoodByID net i = Some r"
  shows "r < length (nw_store net)" and "r \<noteq> nw_Me net"
  using assms by (auto simp: net_wf_def)

text \<open>Naras are never taken out of the store, and keep their name: the extension order.\<close>

definition net_ext :: "'a network_scheme \<Rightarrow> 'a network_scheme \<Rightarrow> bool" where
  "net_ext net net' \<longleftrightarrow>
     nw_Me net' = nw_Me net \<and> nw_ID net' = nw_ID net \<and> length (nw_store net) \<le> length (nw_store net') \<and>
     (\<forall>r < length (nw_store net). na_Name (nara_at net' r) = na_Name (nara_at net r)) \<and>
     kr_myID (nw_keyring net') = kr_myID (nw_keyring net) \<and>
     kr_keypair (nw_keyring net') = kr_keypair (nw_keyring net)"

lemma net_ext_refl [simp]: "net_ext net net"
  by (simp add: net_ext_def)

lemma net_ext_trans: "net_ext a b \<Longrightarrow> net_ext b c \<Longrightarrow> net_ext a c"
  by (auto simp: net_ext_def)

lemma net_ext_meName: "net_ext net net' \<Longrightarrow> nw_Me net < length (nw_store net) \<Longrightarrow> meName net' = meName net"
  by (simp add: net_ext_def meName_def)

text \<open>Changing one nara in place, without changing its name or taking away its map.\<close>

lemma nara_at_set_nara:
  "nara_at (set_nara r n net) q = (if q = r \<and> r < length (nw_store net) then n else nara_at net q)"
  by (cases "r < length (nw_store net)") (auto simp: nara_at_def set_nara_def nth_list_update list_update_beyond)

lemma set_nara_simps [simp]:
  "nw_Me (set_nara r n net) = nw_Me net" "nw_ID (set_nara r n net) = nw_ID net"
  "nw_Neighbourhood (set_nara r n net) = nw_Neighbourhood net"
  "nw_NeighbourhoodByID (set_nara r n net) = nw_NeighbourhoodByID net"
  "nw_nameToID (set_nara r n net) = nw_nameToID net" "nw_keyring (set_nara r n net) = nw_keyring net"
  "nw_peers (set_nara r n net) = nw_peers net" "nw_SyncLedger (set_nara r n net) = nw_SyncLedger net"
  "length (nw_store (set_nara r n net)) = length (nw_store net)"
  "network.more (set_nara r n net) = network.more net"
  by (simp_all add: set_nara_def)

lemma net_wf_set_nara:
  assumes "net_wf net" and "na_Name n = na_Name (nara_at net r)"
    and "r = nw_Me net \<Longrightarrow> st_Observations (na_Status n) \<noteq> None"
  shows "net_wf (set_nara r n net)"
  using assms unfolding net_wf_def by (auto simp: nara_at_set_nara)

lemma net_ext_set_nara: "na_Name n = na_Name (nara_at net r) \<Longrightarrow> net_ext net (set_nara r n net)"
  by (auto simp: net_ext_def nara_at_set_nara)

lemma net_wf_set_status:
  assumes "net_wf net" and "\<And>s. st_Observations (f s) = st_Observations s"
  shows "net_wf (set_status r f net)" and "net_ext net (set_status r f net)"
  unfolding set_status_def using net_wfD(2) [OF assms(1)] assms
  by (auto intro!: net_wf_set_nara net_ext_set_nara)

section \<open>Observations\<close>

lemma setObservation_ok:
  assumes "net_wf net"
  obtains obs where "st_Observations (na_Status (nara_at net (nw_Me net))) = Some obs"
    and "setObservation name ob net = Inr (set_status (nw_Me net)
           (\<lambda>s. s\<lparr>st_Observations := Some (AList.update name ob obs)\<rparr>) net)"
proof -
  obtain obs where o: "st_Observations (na_Status (nara_at net (nw_Me net))) = Some obs"
    using net_wfD(2) [OF assms] by blast
  have "setObservation name ob net = Inr (set_status (nw_Me net)
           (\<lambda>s. s\<lparr>st_Observations := Some (AList.update name ob obs)\<rparr>) net)"
    by (simp add: setObservation_def setObservationLocked_def set_status_def o)
  with o show ?thesis by (rule that)
qed

lemma setObservation_wf:
  assumes "net_wf net"
  shows "\<exists>net'. setObservation name ob net = Inr net' \<and> net_wf net' \<and> net_ext net net' \<and>
    nw_Neighbourhood net' = nw_Neighbourhood net \<and> nw_keyring net' = nw_keyring net \<and>
    nw_NeighbourhoodByID net' = nw_NeighbourhoodByID net \<and> nw_nameToID net' = nw_nameToID net \<and>
    nw_SyncLedger net' = nw_SyncLedger net \<and> network.more net' = network.more net \<and>
    getObservation net' = (getObservation net)(name := ob) \<and>
    (\<forall>r. r \<noteq> nw_Me net \<longrightarrow> nara_at net' r = nara_at net r)"
proof -
  obtain obs where o: "st_Observations (na_Status (nara_at net (nw_Me net))) = Some obs"
    and e: "setObservation name ob net = Inr (set_status (nw_Me net)
           (\<lambda>s. s\<lparr>st_Observations := Some (AList.update name ob obs)\<rparr>) net)" (is "_ = Inr ?n")
    by (rule setObservation_ok [OF assms])
  have wf: "net_wf ?n" "net_ext net ?n"
    unfolding set_status_def using assms by (auto intro!: net_wf_set_nara net_ext_set_nara)
  have "getObservation ?n = (getObservation net)(name := ob)"
    using net_wfD(1) [OF assms] o
    by (auto simp: getObservation_def Nara_getObservation_def set_status_def nara_at_set_nara update_conv' fun_eq_iff)
  then show ?thesis using e wf by (simp add: set_status_def nara_at_set_nara)
qed

section \<open>Importing a nara\<close>

lemma AList_merge_None: "st_Observations s \<noteq> None \<or> st_Observations t = None \<Longrightarrow>
  \<exists>s'. NaraStatus_setValuesFrom s t = Inr s' \<and> (st_Observations s \<noteq> None \<longrightarrow> st_Observations s' \<noteq> None)"
  by (auto simp: NaraStatus_setValuesFrom_def split: option.splits)

lemma setValuesFrom_Name:
  "Nara_setValuesFrom n other = Inr n' \<Longrightarrow> na_Name n' = na_Name n \<and> na_ID n' = na_ID n \<and>
   (st_Observations (na_Status n) \<noteq> None \<longrightarrow> st_Observations (na_Status n') \<noteq> None)"
  by (auto simp: Nara_setValuesFrom_def NaraStatus_setValuesFrom_def go_bind_eq_Inr Let_def split: option.splits if_splits)

lemma net_wf_alloc:
  assumes "net_wf net" and "alloc nara net = (r, net1)"
  shows "net_wf net1" and "net_ext net net1" and "r = length (nw_store net)"
    and "nara_at net1 r = nara" and "\<And>q. q < length (nw_store net) \<Longrightarrow> nara_at net1 q = nara_at net q"
    and "r < length (nw_store net1)" and "r \<noteq> nw_Me net1"
    and "nw_Neighbourhood net1 = nw_Neighbourhood net" and "network.more net1 = network.more net"
proof -
  have n: "net1 = net\<lparr>nw_store := nw_store net @ [nara]\<rparr>" and r: "r = length (nw_store net)"
    using assms(2) by (simp_all add: alloc_def)
  show at: "\<And>q. q < length (nw_store net) \<Longrightarrow> nara_at net1 q = nara_at net q"
    by (simp add: n nara_at_def nth_append)
  have sel: "nw_Me net1 = nw_Me net" "nw_Neighbourhood net1 = nw_Neighbourhood net"
    "nw_NeighbourhoodByID net1 = nw_NeighbourhoodByID net" "nw_keyring net1 = nw_keyring net"
    "length (nw_store net1) = Suc (length (nw_store net))" "nw_ID net1 = nw_ID net"
    by (simp_all add: n)
  show "net_wf net1"
    using assms(1) unfolding net_wf_def sel by (auto simp: at) fastforce+
  show "net_ext net net1" by (simp add: net_ext_def sel at)
  show "r = length (nw_store net)" by (rule r)
  show "nara_at net1 r = nara" by (simp add: n r nara_at_def)
  show "r < length (nw_store net1)" by (simp add: n r)
  show "r \<noteq> nw_Me net1" using net_wfD(1) [OF assms(1)] by (simp add: n r)
  show "nw_Neighbourhood net1 = nw_Neighbourhood net" "network.more net1 = network.more net" by (simp_all add: n)
qed


lemma register_identity_simps [simp]:
  "nw_Me (register_identity G i r net) = nw_Me net" "nw_ID (register_identity G i r net) = nw_ID net"
  "nw_store (register_identity G i r net) = nw_store net"
  "nara_at (register_identity G i r net) q = nara_at net q"
  "nw_Neighbourhood (register_identity G i r net) = nw_Neighbourhood net"
  "nw_SyncLedger (register_identity G i r net) = nw_SyncLedger net"
  "nw_NeighbourhoodByID (register_identity G i r net) = (nw_NeighbourhoodByID net)(i \<mapsto> r)"
  "nw_nameToID (register_identity G i r net) = (nw_nameToID net)(na_Name (nara_at net r) \<mapsto> i)"
  "nw_keyring (register_identity G i r net) =
     (if st_PublicKey (na_Status (nara_at net r)) \<noteq> []
      then snd (RegisterBase64 G i (st_PublicKey (na_Status (nara_at net r))) (nw_keyring net)) else nw_keyring net)"
  "network.more (register_identity G i r net) = network.more net"
  by (simp_all add: register_identity_def RegisterPeerIP_def nara_at_def Let_def)

lemma net_wf_register_identity:
  assumes "net_wf net" and "r < length (nw_store net)" and "r \<noteq> nw_Me net"
  shows "net_wf (register_identity G i r net)" and "net_ext net (register_identity G i r net)"
  using assms by (auto simp: net_wf_def net_ext_def intro: keyring_wf_RegisterBase64)

text \<open>
  What \<open>importNara\<close> does with a nara just built, on each branch: it panics exactly when the known
  nara of that name has a nil map of observations and the new one brings some.
\<close>

definition nil_map_clash :: "'a network_scheme \<Rightarrow> Nara \<Rightarrow> bool" where
  "nil_map_clash net nara \<longleftrightarrow>
     (\<exists>r. getNara net (na_Name nara) = Some r \<and> na_Name nara \<noteq> [] \<and>
          st_Observations (na_Status (nara_at net r)) = None \<and>
          st_Observations (na_Status nara) \<notin> {None, Some []})"

lemma setValuesFrom_cases:
  assumes "na_Name n = na_Name other"
  shows "Nara_setValuesFrom n other = Inl NilMapAssignment \<and> na_Name other \<noteq> [] \<and>
       st_Observations (na_Status n) = None \<and> st_Observations (na_Status other) \<notin> {None, Some []} \<or>
     (\<exists>n'. Nara_setValuesFrom n other = Inr n') \<and>
       \<not> (na_Name other \<noteq> [] \<and> st_Observations (na_Status n) = None \<and>
          st_Observations (na_Status other) \<notin> {None, Some []})"
  using assms by (auto simp: Nara_setValuesFrom_def NaraStatus_setValuesFrom_def Let_def split: option.splits)

lemma import_by_name_fresh:
  assumes "net_wf net" and "alloc nara net = (r, net1)" and "\<not> nil_map_clash net nara"
  shows "\<exists>net2. import_by_name r net1 = Inr net2 \<and> net_wf net2 \<and> net_ext net1 net2 \<and> nara_at net2 r = nara \<and>
    r < length (nw_store net2) \<and> r \<noteq> nw_Me net2 \<and> nara_at net2 (nw_Me net2) = nara_at net1 (nw_Me net1) \<and>
    nw_keyring net2 = nw_keyring net1 \<and> nw_NeighbourhoodByID net2 = nw_NeighbourhoodByID net1 \<and>
    nw_nameToID net2 = nw_nameToID net1 \<and> nw_SyncLedger net2 = nw_SyncLedger net1 \<and>
    network.more net2 = network.more net1 \<and>
    nw_Neighbourhood net2 = (if getNara net (na_Name nara) = None then nw_Neighbourhood net @ [(na_Name nara, r)]
                             else nw_Neighbourhood net)"
proof -
  note al = net_wf_alloc [OF assms(1, 2)]
  have g: "getNara net1 = getNara net" by (simp add: getNara_def al(8) fun_eq_iff)
  show ?thesis
  proof (cases "getNara net (na_Name nara)")
    case None
    let ?n = "net1\<lparr>nw_Neighbourhood := nw_Neighbourhood net1 @ [(na_Name nara, r)]\<rparr>"
    have "import_by_name r net1 = Inr ?n" using None by (simp add: import_by_name_def al(4) g)
    moreover have "net_wf ?n"
      using al(1) None al(4, 6, 7, 8) unfolding net_wf_def
      by (auto simp: nara_at_def getNara_def map_of_eq_None_iff) 
    moreover have "net_ext net1 ?n" by (simp add: net_ext_def nara_at_def)
    ultimately show ?thesis using None al(4, 6, 7, 8) by (simp add: nara_at_def)
  next
    case (Some q)
    from net_wf_getNara [OF assms(1) Some] al(3, 5) have q: "q \<noteq> r" "na_Name (nara_at net1 q) = na_Name nara"
      "q \<noteq> nw_Me net1" "nara_at net1 q = nara_at net q"
      using assms(2) by (auto simp: alloc_def)
    have nc: "\<not> (na_Name nara \<noteq> [] \<and> st_Observations (na_Status (nara_at net1 q)) = None \<and>
          st_Observations (na_Status nara) \<notin> {None, Some []})"
      using assms(3) Some q(4) by (auto simp: nil_map_clash_def)
    then obtain m where m: "Nara_setValuesFrom (nara_at net1 q) nara = Inr m"
      using setValuesFrom_cases [OF q(2)] by auto
    have e: "import_by_name r net1 = Inr (set_nara q m net1)"
      using Some m q(1) by (simp add: import_by_name_def al(4) g)
    have "net_wf (set_nara q m net1)" "net_ext net1 (set_nara q m net1)"
      using setValuesFrom_Name [OF m] al(1) q(3) by (auto intro!: net_wf_set_nara net_ext_set_nara)
    then show ?thesis using e Some q(1, 3) al(4, 6, 7, 8) by (simp add: nara_at_set_nara)
  qed
qed

lemma import_new_ok:
  assumes "net_wf net" and "\<not> nil_map_clash net nara"
  defines "r \<equiv> length (nw_store net)" and "i \<equiv> nara_identity nara"
  shows "\<exists>net'. import_new G nara net = Inr net' \<and> net_wf net' \<and> net_ext net net' \<and>
    nara_at net' r = nara \<and> nara_at net' (nw_Me net) = nara_at net (nw_Me net) \<and>
    nw_Neighbourhood net' = (if getNara net (na_Name nara) = None then nw_Neighbourhood net @ [(na_Name nara, r)]
                             else nw_Neighbourhood net) \<and>
    nw_NeighbourhoodByID net' = (if i = [] then nw_NeighbourhoodByID net else (nw_NeighbourhoodByID net)(i \<mapsto> r)) \<and>
    nw_nameToID net' = (if i = [] then nw_nameToID net else (nw_nameToID net)(na_Name nara \<mapsto> i)) \<and>
    nw_keyring net' = (if i = [] \<or> st_PublicKey (na_Status nara) = [] then nw_keyring net
                       else snd (RegisterBase64 G i (st_PublicKey (na_Status nara)) (nw_keyring net))) \<and>
    nw_SyncLedger net' = nw_SyncLedger net \<and> network.more net' = network.more net"
proof -
  obtain r' net1 where a: "alloc nara net = (r', net1)" by fastforce
  note al = net_wf_alloc [OF assms(1) a]
  have keep: "nw_keyring net1 = nw_keyring net" "nw_NeighbourhoodByID net1 = nw_NeighbourhoodByID net"
    "nw_nameToID net1 = nw_nameToID net" "nw_SyncLedger net1 = nw_SyncLedger net" "nw_Me net1 = nw_Me net"
    using a by (auto simp: alloc_def)
  have me: "nara_at net1 (nw_Me net) = nara_at net (nw_Me net)"
    using net_wfD(1) [OF assms(1)] by (rule al(5))
  obtain net2 where n2: "import_by_name r' net1 = Inr net2" "net_wf net2" "net_ext net1 net2" "nara_at net2 r' = nara"
    "r' < length (nw_store net2)" "r' \<noteq> nw_Me net2" "nara_at net2 (nw_Me net2) = nara_at net1 (nw_Me net1)"
    "nw_keyring net2 = nw_keyring net1" "nw_NeighbourhoodByID net2 = nw_NeighbourhoodByID net1"
    "nw_nameToID net2 = nw_nameToID net1" "nw_SyncLedger net2 = nw_SyncLedger net1"
    "network.more net2 = network.more net1"
    "nw_Neighbourhood net2 = (if getNara net (na_Name nara) = None then nw_Neighbourhood net @ [(na_Name nara, r')]
                             else nw_Neighbourhood net)"
    using import_by_name_fresh [OF assms(1) a assms(2)] by blast
  let ?n = "if i \<noteq> [] then register_identity G i r' net2 else net2"
  have e: "import_new G nara net = Inr ?n"
    by (simp add: import_new_def a importNara_def al(4) n2(1) i_def Let_def)
  have wf: "net_wf ?n" "net_ext net2 ?n"
    using n2(2, 5, 6) by (auto intro: net_wf_register_identity)
  have ext: "net_ext net ?n"
    using net_ext_trans [OF al(2) net_ext_trans [OF n2(3) wf(2)]] .
  have m2: "nw_Me net2 = nw_Me net" using net_ext_trans [OF al(2) n2(3)] by (simp add: net_ext_def)
  have r: "r' = r" using al(3) by (simp add: r_def)
  show ?thesis
    using e wf(1) ext n2(4, 7-13) keep me m2 al(9) by (auto simp: r)
qed

lemma import_new_panics:
  assumes "net_wf net" and "nil_map_clash net nara"
  shows "import_new G nara net = Inl NilMapAssignment"
proof -
  obtain r net1 where a: "alloc nara net = (r, net1)" by fastforce
  note al = net_wf_alloc [OF assms(1) a]
  obtain q where q: "getNara net (na_Name nara) = Some q" "na_Name nara \<noteq> []"
    "st_Observations (na_Status (nara_at net q)) = None" "st_Observations (na_Status nara) \<notin> {None, Some []}"
    using assms(2) by (auto simp: nil_map_clash_def)
  have n: "q \<noteq> r" "na_Name (nara_at net1 q) = na_Name nara" "nara_at net1 q = nara_at net q"
    using net_wf_getNara [OF assms(1) q(1)] al(3, 5) by auto
  have "Nara_setValuesFrom (nara_at net1 q) nara = Inl NilMapAssignment"
    using setValuesFrom_cases [OF n(2)] q(2-4) n(3) by auto
  then show ?thesis
    using q(1) n(1) by (simp add: import_new_def a importNara_def import_by_name_def al(4, 8) getNara_def Let_def)
qed

section \<open>Keys and external observations\<close>

lemma net_wf_keyring_update:
  "net_wf net \<Longrightarrow> net_wf (net\<lparr>nw_keyring := snd (RegisterBase64 G i pk (nw_keyring net))\<rparr>)"
  "net_ext net (net\<lparr>nw_keyring := snd (RegisterBase64 G i pk (nw_keyring net))\<rparr>)"
  by (auto simp: net_wf_def net_ext_def nara_at_def intro: keyring_wf_RegisterBase64)

lemma net_wf_RegisterKey:
  assumes "net_wf net"
  shows "net_wf (RegisterKey G i pk net)" and "net_ext net (RegisterKey G i pk net)"
proof -
  let ?n = "net\<lparr>nw_keyring := snd (RegisterBase64 G i pk (nw_keyring net))\<rparr>"
  have w: "net_wf ?n" "net_ext net ?n" using net_wf_keyring_update assms by blast+
  have "net_wf (set_status r (\<lambda>s. s\<lparr>st_PublicKey := pk\<rparr>) ?n)"
    "net_ext net (set_status r (\<lambda>s. s\<lparr>st_PublicKey := pk\<rparr>) ?n)" for r
    using net_wf_set_status [OF w(1)] net_ext_trans [OF w(2)] by simp_all
  then show "net_wf (RegisterKey G i pk net)" "net_ext net (RegisterKey G i pk net)"
    using w assms by (simp_all add: RegisterKey_def Let_def split: option.splits)
qed

lemma RegisterKey_simps [simp]:
  "nw_keyring (RegisterKey G i pk net) =
     (if i = [] \<or> pk = [] then nw_keyring net else snd (RegisterBase64 G i pk (nw_keyring net)))"
  "nw_Neighbourhood (RegisterKey G i pk net) = nw_Neighbourhood net"
  "nw_NeighbourhoodByID (RegisterKey G i pk net) = nw_NeighbourhoodByID net"
  "nw_SyncLedger (RegisterKey G i pk net) = nw_SyncLedger net"
  "network.more (RegisterKey G i pk net) = network.more net"
  by (simp_all add: RegisterKey_def set_status_def Let_def split: option.splits)

lemma mergeExternalObservation_wf:
  assumes "net_wf net"
  shows "\<exists>net' ob. mergeExternalObservation name external net = Inr net' \<and> net_wf net' \<and> net_ext net net' \<and>
    nw_Neighbourhood net' = nw_Neighbourhood net \<and> nw_keyring net' = nw_keyring net \<and>
    nw_NeighbourhoodByID net' = nw_NeighbourhoodByID net \<and> nw_SyncLedger net' = nw_SyncLedger net \<and>
    network.more net' = network.more net \<and> getObservation net' = (getObservation net)(name := ob) \<and>
    no_Online ob = no_Online (getObservation net name) \<and>
    no_LastSeen ob = max (no_LastSeen external) (no_LastSeen (getObservation net name)) \<and>
    no_Restarts ob = max (no_Restarts external) (no_Restarts (getObservation net name)) \<and>
    no_LastRestart ob = max (no_LastRestart external) (no_LastRestart (getObservation net name))"
proof -
  obtain ob where "mergeExternalObservation name external net = setObservation name ob net"
    "no_Online ob = no_Online (getObservation net name)"
    "no_LastSeen ob = max (no_LastSeen external) (no_LastSeen (getObservation net name))"
    "no_Restarts ob = max (no_Restarts external) (no_Restarts (getObservation net name))"
    "no_LastRestart ob = max (no_LastRestart external) (no_LastRestart (getObservation net name))"
    by (simp add: mergeExternalObservation_def Let_def split: if_splits)
  then show ?thesis using setObservation_wf [OF assms, of name ob] by auto
qed

section \<open>The oldest, the youngest, the most restarted\<close>

text \<open>
  A preference is a total order; \<open>pref a b\<close> says that \<open>a\<close> is at least as good as \<open>b\<close>. The champion
  loop, when \<open>beats\<close> compares by it, ends with the best of the admissible candidates.
\<close>

locale preference =
  fixes pref :: "'k \<Rightarrow> 'k \<Rightarrow> bool"
  assumes pref_trans: "pref a b \<Longrightarrow> pref b c \<Longrightarrow> pref a c"
    and pref_total: "pref a b \<or> pref b a"
    and pref_antisym: "pref a b \<Longrightarrow> pref b a \<Longrightarrow> a = b"
begin

lemma champion_best:
  assumes "\<forall>b \<in> insert b0 (set xs). \<forall>x. beats x b \<longleftrightarrow> ok x \<and> pref (key x) (key b)"
  shows "(champion beats b0 xs = b0 \<or>
          champion beats b0 xs \<in> set xs \<and> ok (champion beats b0 xs) \<and> pref (key (champion beats b0 xs)) (key b0)) \<and>
    (\<forall>x \<in> set xs. ok x \<and> pref (key x) (key b0) \<longrightarrow>
       champion beats b0 xs \<in> set xs \<and> ok (champion beats b0 xs) \<and> pref (key (champion beats b0 xs)) (key x))"
  using assms
proof (induction xs rule: rev_induct)
  case Nil
  then show ?case by (simp add: champion_def)
next
  case (snoc y ys)
  let ?c = "champion beats b0 ys"
  from snoc.prems have "\<forall>b \<in> insert b0 (set ys). \<forall>x. beats x b \<longleftrightarrow> ok x \<and> pref (key x) (key b)"
    by (simp only: set_append list.set) blast
  note IH = snoc.IH [OF this]
  have c: "champion beats b0 (ys @ [y]) = (if beats y ?c then y else ?c)" by (simp add: champion_def)
  have b: "beats y ?c \<longleftrightarrow> ok y \<and> pref (key y) (key ?c)" using IH snoc.prems by auto
  show ?case
  proof (cases "beats y ?c")
    case True
    with b have y: "ok y" "pref (key y) (key ?c)" by auto
    from IH have "?c = b0 \<or> pref (key ?c) (key b0)" by blast
    with y(2) have "pref (key y) (key b0)" using pref_trans by metis
    moreover have "pref (key y) (key y)" using pref_total by blast
    moreover have "\<forall>x \<in> set ys. ok x \<and> pref (key x) (key b0) \<longrightarrow> pref (key y) (key x)"
      using IH y(2) pref_trans by blast
    ultimately show ?thesis using c True y(1) by simp
  next
    case False
    have y: "ok y \<and> pref (key y) (key b0) \<longrightarrow> ?c \<in> set ys \<and> ok ?c \<and> pref (key ?c) (key y)"
      using b False pref_total IH by metis
    then show ?thesis using c False IH by (simp del: ball_simps) blast
  qed
qed

text \<open>When keys tell the candidates apart, the order of the loop does not matter.\<close>

lemma champion_order_free:
  assumes b: "\<forall>b \<in> insert b0 (set xs). \<forall>x. beats x b \<longleftrightarrow> ok x \<and> pref (key x) (key b)"
    and s: "set ys = set xs" and inj: "inj_on key (set xs)"
  shows "champion beats b0 ys = champion beats b0 xs"
proof -
  note X = champion_best [OF b]
  from b have "\<forall>b \<in> insert b0 (set ys). \<forall>x. beats x b \<longleftrightarrow> ok x \<and> pref (key x) (key b)"
    by (simp only: s)
  note Y = champion_best [OF this, unfolded s]
  show ?thesis
  proof (cases "\<exists>x \<in> set xs. ok x \<and> pref (key x) (key b0)")
    case True
    then obtain x where x: "x \<in> set xs" "ok x" "pref (key x) (key b0)" by blast
    have c: "champion beats b0 xs \<in> set xs" "ok (champion beats b0 xs)"
      "champion beats b0 ys \<in> set xs" "ok (champion beats b0 ys)" using X Y x by blast+
    have "pref (key (champion beats b0 xs)) (key b0)" "pref (key (champion beats b0 ys)) (key b0)"
      using X Y x pref_trans by blast+
    then have "key (champion beats b0 xs) = key (champion beats b0 ys)" using X Y c pref_antisym by blast
    then show ?thesis using inj c by (metis inj_on_def)
  next
    case False
    then show ?thesis using X Y by metis
  qed
qed

end

text \<open>The three preferences of the code, on pairs of a value and a name.\<close>

definition pref_older :: "int \<times> NaraName \<Rightarrow> int \<times> NaraName \<Rightarrow> bool" where
  "pref_older a b \<longleftrightarrow> fst a < fst b \<or> fst a = fst b \<and> snd a \<le> snd b"

definition pref_younger :: "int \<times> NaraName \<Rightarrow> int \<times> NaraName \<Rightarrow> bool" where
  "pref_younger a b \<longleftrightarrow> fst a > fst b \<or> fst a = fst b \<and> snd a \<ge> snd b"

definition pref_restarts :: "int \<times> NaraName \<Rightarrow> int \<times> NaraName \<Rightarrow> bool" where
  "pref_restarts a b \<longleftrightarrow> fst a > fst b \<or> fst a = fst b \<and> snd a \<le> snd b"

interpretation pref_older: preference pref_older
  by unfold_locales (auto simp: pref_older_def prod_eq_iff)

interpretation pref_younger: preference pref_younger
  by unfold_locales (auto simp: pref_younger_def prod_eq_iff)

interpretation pref_restarts: preference pref_restarts
  by unfold_locales (auto simp: pref_restarts_def prod_eq_iff)

definition named :: "'a network_scheme \<Rightarrow> candidate \<Rightarrow> bool" where
  "named net x \<longleftrightarrow> na_Name (nara_at net (snd (snd x))) = fst (snd x)"

definition cand_key :: "candidate \<Rightarrow> int \<times> NaraName" where
  "cand_key x = (fst x, fst (snd x))"

lemma searches_compare:
  assumes "named net b"
  shows "older_nara net x b \<longleftrightarrow> fst x > 0 \<and> pref_older (cand_key x) (cand_key b)"
    and "younger_nara net x b \<longleftrightarrow> fst x > 0 \<and> pref_younger (cand_key x) (cand_key b)"
    and "more_restarts net x b \<longleftrightarrow> fst x > 0 \<and> pref_restarts (cand_key x) (cand_key b)"
  using assms
  by (auto simp: named_def cand_key_def older_nara_def younger_nara_def more_restarts_def
      pref_older_def pref_younger_def pref_restarts_def split: prod.splits)

lemma candidates_named: "net_wf net \<Longrightarrow> x \<in> set (candidates f P net) \<Longrightarrow> named net x"
  by (auto simp: candidates_def named_def net_wf_entry)

lemma me_candidate_named: "named net (me_candidate f net)"
  by (simp add: me_candidate_def named_def meName_def)

lemma candidates_inj:
  assumes "net_wf net"
  shows "inj_on cand_key (set (candidates f P net))"
proof -
  have d: "distinct (map fst (nw_Neighbourhood net))" using assms by (rule net_wfD)
  show ?thesis
  proof (rule inj_onI)
    fix x y assume "x \<in> set (candidates f P net)" and "y \<in> set (candidates f P net)" and k: "cand_key x = cand_key y"
    then obtain n m q r where "(n, q) \<in> set (nw_Neighbourhood net)" "x = (f (getObservation net n), n, q)"
      "(m, r) \<in> set (nw_Neighbourhood net)" "y = (f (getObservation net m), m, r)"
      by (auto simp: candidates_def)
    with k d show "x = y" by (auto simp: cand_key_def dest: eq_key_imp_eq_value)
  qed
qed

lemma champion_permuted:
  assumes "net_wf net" and "set ys = set (candidates f P net)"
  shows "champion (older_nara net) (me_candidate f net) ys = champion (older_nara net) (me_candidate f net) (candidates f P net)"
    and "champion (younger_nara net) (me_candidate f net) ys = champion (younger_nara net) (me_candidate f net) (candidates f P net)"
    and "champion (more_restarts net) (me_candidate f net) ys = champion (more_restarts net) (me_candidate f net) (candidates f P net)"
proof -
  have n: "named net b" if "b \<in> insert (me_candidate f net) (set (candidates f P net))" for b
    using that candidates_named [OF assms(1)] me_candidate_named by blast
  note inj = candidates_inj [OF assms(1), of f P]
  show "champion (older_nara net) (me_candidate f net) ys = champion (older_nara net) (me_candidate f net) (candidates f P net)"
    by (rule pref_older.champion_order_free [where ok = "\<lambda>x. fst x > 0", OF _ assms(2) inj]) (use searches_compare(1) n in blast)
  show "champion (younger_nara net) (me_candidate f net) ys = champion (younger_nara net) (me_candidate f net) (candidates f P net)"
    by (rule pref_younger.champion_order_free [where ok = "\<lambda>x. fst x > 0", OF _ assms(2) inj]) (use searches_compare(2) n in blast)
  show "champion (more_restarts net) (me_candidate f net) ys = champion (more_restarts net) (me_candidate f net) (candidates f P net)"
    by (rule pref_restarts.champion_order_free [where ok = "\<lambda>x. fst x > 0", OF _ assms(2) inj]) (use searches_compare(3) n in blast)
qed

lemma searches_order_free_lemma:
  assumes "net_wf net" and "mset nbh = mset (nw_Neighbourhood net)"
  defines "net' \<equiv> net\<lparr>nw_Neighbourhood := nbh\<rparr>"
  shows "oldestNara net' = oldestNara net" and "youngestNara net' = youngestNara net"
    and "mostRestarts net' = mostRestarts net" and "oldestNaraBarrio net' = oldestNaraBarrio net"
    and "youngestNaraBarrio net' = youngestNaraBarrio net"
proof -
  have [simp]: "getObservation net' = getObservation net" "meName net' = meName net" "nw_Me net' = nw_Me net"
    by (simp_all add: net'_def getObservation_def meName_def nara_at_def fun_eq_iff)
  have [simp]: "me_candidate f net' = me_candidate f net" "getMeObservation net' = getMeObservation net" for f
    by (simp_all add: me_candidate_def getMeObservation_def)
  have [simp]: "older_nara net' = older_nara net" "younger_nara net' = younger_nara net"
    "more_restarts net' = more_restarts net"
    by (simp_all add: older_nara_def younger_nara_def more_restarts_def net'_def nara_at_def fun_eq_iff)
  have s: "set (candidates f P net') = set (candidates f P net)" for f P
    using mset_eq_setD [OF assms(2)] by (simp add: candidates_def net'_def getObservation_def nara_at_def)
  note c = champion_permuted [OF assms(1) s]
  show "oldestNara net' = oldestNara net" "youngestNara net' = youngestNara net"
    "mostRestarts net' = mostRestarts net" "oldestNaraBarrio net' = oldestNaraBarrio net"
    "youngestNaraBarrio net' = youngestNaraBarrio net"
    using c by (simp_all add: oldestNara_def youngestNara_def mostRestarts_def oldestNaraBarrio_def youngestNaraBarrio_def)
qed

text \<open>The oldest nara is no younger than any online nara that was first seen before this one.\<close>

lemma oldestNara_least:
  assumes "net_wf net" and "getNara net name = Some r" and "isOnline (getObservation net name)"
    and "0 < no_StartTime (getObservation net name)"
    and "pref_older (no_StartTime (getObservation net name), name) (no_StartTime (getMeObservation net), meName net)"
  shows "\<exists>winner. getNara net winner = Some (oldestNara net) \<and> isOnline (getObservation net winner) \<and>
    pref_older (no_StartTime (getObservation net winner), winner) (no_StartTime (getObservation net name), name)"
proof -
  let ?f = no_StartTime and ?C = "candidates no_StartTime (\<lambda>obs. True) net"
  let ?m = "me_candidate no_StartTime net" and ?x = "(no_StartTime (getObservation net name), name, r)"
  have n: "named net b" if "b \<in> insert ?m (set ?C)" for b
    using that candidates_named [OF assms(1)] me_candidate_named by blast
  have in_C: "(v, nm, q) \<in> set ?C \<longleftrightarrow> (nm, q) \<in> set (nw_Neighbourhood net) \<and> isOnline (getObservation net nm) \<and>
      v = no_StartTime (getObservation net nm)" for v nm q
    by (auto simp: candidates_def isOnline_def image_iff)
  have x: "?x \<in> set ?C" using assms(2, 3) by (simp add: in_C getNara_def map_of_SomeD)
  have "fst ?x > 0 \<and> pref_older (cand_key ?x) (cand_key ?m)"
    using assms(4, 5) by (simp add: cand_key_def me_candidate_def)
  then have "champion (older_nara net) ?m ?C \<in> set ?C \<and> pref_older (cand_key (champion (older_nara net) ?m ?C)) (cand_key ?x)"
    using pref_older.champion_best [of ?m ?C "older_nara net" "\<lambda>x. fst x > 0" cand_key] searches_compare(1) n x by blast
  moreover obtain v w q where "champion (older_nara net) ?m ?C = (v, w, q)" by (metis prod_cases3)
  ultimately show ?thesis
    using net_wfD(3) [OF assms(1)] by (auto simp: oldestNara_def in_C cand_key_def getNara_def)
qed

end
