(* ===== verification/Teasing.thy ===== *)
theory Teasing
  imports Sync_Ledger Go_Float Go_Json
begin

text \<open>
  \<open>social.go\<close>: whether a tease resonates with an observer, when a nara teases another one, the cooldown
  between teases, and the partition of subjects among neighbours that boot recovery asks.
\<close>

section \<open>Resonance\<close>

definition be64 :: "string \<Rightarrow> nat" where
  \<comment> \<open>\<open>binary.BigEndian.Uint64(hash[:8])\<close>\<close>
  "be64 hash = foldl (\<lambda>n c. n * 256 + of_char c) 0 (take 8 hash)"

definition resonance_threshold :: "NaraPersonality \<Rightarrow> int" where
  "resonance_threshold p =
     (let threshold = i64 (50 + Sociability p sdiv 5);
          threshold = i64 (threshold - Chill p sdiv 10);
          threshold = i64 (threshold - Agreeableness p sdiv 20);
          threshold = (if threshold < 5 then 5 else threshold)
      in if threshold > 95 then 95 else threshold)"

definition TeaseResonates :: "go_env \<Rightarrow> string \<Rightarrow> string \<Rightarrow> NaraPersonality \<Rightarrow> bool" where
  "TeaseResonates G eventID observerSoul observerPersonality \<longleftrightarrow>
     int (be64 (sha256 G (eventID @ observerSoul)) mod 100) < resonance_threshold observerPersonality"

section \<open>When to tease\<close>

definition ShouldTeaseForRestarts :: "int \<Rightarrow> NaraObservation \<Rightarrow> NaraPersonality \<Rightarrow> bool" where
  "ShouldTeaseForRestarts now obs p =
     (let lifetime = i64 (now - no_StartTime obs)
      in if lifetime < 86400 then False
         else let restartsPerDay = f64_div (f64_of_int (no_Restarts obs)) (f64_div (f64_of_int lifetime) (f64_lit 86400 1));
                  threshold = f64_lit 2 1;
                  threshold = f64_sub threshold (f64_div (f64_of_int (Sociability p)) (f64_lit 200 1));
                  threshold = f64_add threshold (f64_div (f64_of_int (Chill p)) (f64_lit 100 1));
                  threshold = f64_add threshold (f64_div (f64_of_int (Agreeableness p)) (f64_lit 200 1));
                  threshold = (if f64_lt threshold (f64_lit 1 2) then f64_lit 1 2 else threshold)
              in f64_le threshold restartsPerDay)"

definition ShouldTeaseForComeback :: "NaraObservation \<Rightarrow> string \<Rightarrow> NaraPersonality \<Rightarrow> bool" where
  "ShouldTeaseForComeback obs previousState p =
     (if previousState \<noteq> ''MISSING'' then False
      else if no_Online obs \<noteq> ''ONLINE'' then False
      else Sociability p > 40)"

definition ShouldTeaseForTrendAbandon :: "string \<Rightarrow> string \<Rightarrow> float64 \<Rightarrow> NaraPersonality \<Rightarrow> bool" where
  "ShouldTeaseForTrendAbandon previousTrend currentTrend trendPopularity p =
     (if previousTrend = [] then False
      else if currentTrend = previousTrend then False
      else if f64_lt trendPopularity
                (f64_sub (f64_lit 3 10) (f64_div (f64_of_int (Sociability p)) (f64_lit 500 1))) then False
      else if Agreeableness p > 70 then False
      else True)"

text \<open>The loop compares the digits from both ends.\<close>

definition isPalindrome :: "int \<Rightarrow> bool" where
  "isPalindrome n =
     (if n < 0 then False
      else let s = fmt_int n in list_all (\<lambda>i. s ! i = s ! (length s - 1 - i)) [0..<length s div 2])"

definition niceNumbers :: "int list" where
  "niceNumbers = [42, 67, 69, 100, 111, 123, 200, 222, 300, 333, 365, 404, 420, 444, 500, 555, 666, 777, 888, 999,
     1000, 1234, 1337]"

definition IsNiceNumber :: "int \<Rightarrow> bool" where
  "IsNiceNumber n =
     (if n \<in> set niceNumbers then True
      else if n \<ge> 100 \<and> n smod 100 = 0 then True
      else if isPalindrome n \<and> n \<ge> 10 then True
      else False)"

definition uint64 :: "int \<Rightarrow> nat" where
  \<comment> \<open>the conversion of an \<open>int\<close>\<close>
  "uint64 n = nat (n mod 2 ^ 64)"

definition ShouldTeaseForNiceNumber :: "go_env \<Rightarrow> int \<Rightarrow> NaraPersonality \<Rightarrow> bool" where
  "ShouldTeaseForNiceNumber G restarts p =
     (if \<not> IsNiceNumber restarts then False
      else let threshold = i64 (60 + Sociability p sdiv 5);
               roll = be64 (sha256 G (''nice-'' @ fmt_int restarts)) mod 100
           in roll < uint64 threshold)"

definition ShouldRandomTeaseWithBoost ::
  "go_env \<Rightarrow> string \<Rightarrow> NaraName \<Rightarrow> int \<Rightarrow> NaraPersonality \<Rightarrow> float64 \<Rightarrow> bool" where
  "ShouldRandomTeaseWithBoost G soul target timestamp p boost =
     (let prob = be64 (sha256 G (soul @ target @ fmt_int timestamp)) mod 1000;
          threshold = f64_lit 10 1;
          threshold = f64_add threshold (f64_of_int (Sociability p sdiv 10));
          threshold = f64_sub threshold (f64_of_int (Chill p sdiv 20));
          threshold = f64_mul threshold boost;
          threshold = (if f64_lt (f64_lit 50 1) threshold then f64_lit 50 1 else threshold)
      in prob < uint64 (f64_to_int threshold))"

definition ShouldRandomTease :: "go_env \<Rightarrow> string \<Rightarrow> NaraName \<Rightarrow> int \<Rightarrow> NaraPersonality \<Rightarrow> bool" where
  "ShouldRandomTease G soul target timestamp p = ShouldRandomTeaseWithBoost G soul target timestamp p (f64_lit 1 1)"

section \<open>The cooldown\<close>

record TeaseState =
  lastTease :: "NaraName \<rightharpoonup> int"
  cooldown :: int

definition NewTeaseState :: TeaseState where
  "NewTeaseState = \<lparr>lastTease = (\<lambda>key. None), cooldown = 300\<rparr>"

definition tease_key :: "NaraName \<Rightarrow> NaraName \<Rightarrow> NaraName" where
  "tease_key actor target = actor @ '':'' @ target"

definition CanTease :: "int \<Rightarrow> NaraName \<Rightarrow> NaraName \<Rightarrow> TeaseState \<Rightarrow> bool" where
  "CanTease now actor target s =
     (case lastTease s (tease_key actor target) of None \<Rightarrow> True | Some lastTime \<Rightarrow> i64 (now - lastTime) > cooldown s)"

definition RecordTease :: "int \<Rightarrow> NaraName \<Rightarrow> NaraName \<Rightarrow> TeaseState \<Rightarrow> TeaseState" where
  "RecordTease now actor target s = s\<lparr>lastTease := (lastTease s)(tease_key actor target \<mapsto> now)\<rparr>"

definition TryTease :: "int \<Rightarrow> NaraName \<Rightarrow> NaraName \<Rightarrow> TeaseState \<Rightarrow> bool \<times> TeaseState" where
  "TryTease now actor target s =
     (case lastTease s (tease_key actor target) of
        Some lastTime \<Rightarrow>
          if i64 (now - lastTime) \<le> cooldown s then (False, s)
          else (True, s\<lparr>lastTease := (lastTease s)(tease_key actor target \<mapsto> now)\<rparr>)
      | None \<Rightarrow> (True, s\<lparr>lastTease := (lastTease s)(tease_key actor target \<mapsto> now)\<rparr>))"

definition TeaseState_Cleanup :: "int \<Rightarrow> TeaseState \<Rightarrow> TeaseState" where
  "TeaseState_Cleanup now s =
     s\<lparr>lastTease := (\<lambda>key. case lastTease s key of
        None \<Rightarrow> None
      | Some timestamp \<Rightarrow> if i64 (now - timestamp) > i64 (cooldown s * 2) then None else Some timestamp)\<rparr>"

section \<open>Partitioning subjects\<close>

text \<open>\<open>range\<close> over a string: its runes, with U+FFFD for a byte that starts no valid sequence.\<close>

definition rune_value :: "string \<Rightarrow> nat" where
  "rune_value bs =
     (let v = map of_char bs
      in if length v = 1 then v ! 0
         else if length v = 2 then (v ! 0 mod 32) * 64 + v ! 1 mod 64
         else if length v = 3 then (v ! 0 mod 16) * 4096 + (v ! 1 mod 64) * 64 + v ! 2 mod 64
         else (v ! 0 mod 8) * 262144 + (v ! 1 mod 64) * 4096 + (v ! 2 mod 64) * 64 + v ! 3 mod 64)"

fun runes :: "string \<Rightarrow> nat list" where
  "runes [] = []"
| "runes (c # cs) =
     (let n = utf8_length (c # cs)
      in if n = 0 then 65533 # runes cs else rune_value (take n (c # cs)) # runes (drop (n - 1) cs))"

definition subject_hash :: "int \<Rightarrow> NaraName \<Rightarrow> int" where
  "subject_hash n subject =
     foldl (\<lambda>hash c. i64 (i64 (i64 (hash * 31) + int c) smod n + n) smod n) 0 (runes subject)"

definition PartitionSubjects :: "NaraName list \<Rightarrow> int \<Rightarrow> NaraName list list" where
  "PartitionSubjects subjects n0 =
     (let n1 = (if n0 \<le> 0 then 1 else n0);
          n = (if n1 > int (length subjects) then int (length subjects) else n1)
      in foldl (\<lambda>partitions subject.
             let h = nat (subject_hash n subject) in partitions[h := partitions ! h @ [subject]])
           (replicate (nat n) []) subjects)"

section \<open>Properties\<close>

lemma isPalindrome_rev: "isPalindrome n \<longleftrightarrow> 0 \<le> n \<and> rev (fmt_int n) = fmt_int n"
proof (cases "n < 0")
  case False
  let ?s = "fmt_int n"
  have "(\<forall>i \<in> set [0..<length ?s div 2]. ?s ! i = ?s ! (length ?s - 1 - i)) \<longleftrightarrow> rev ?s = ?s"
  proof
    assume h: "\<forall>i \<in> set [0..<length ?s div 2]. ?s ! i = ?s ! (length ?s - 1 - i)"
    show "rev ?s = ?s"
    proof (rule nth_equalityI)
      fix i assume i: "i < length (rev ?s)"
      consider "i < length ?s div 2" | "length ?s - 1 - i < length ?s div 2" | "i = length ?s - 1 - i"
        using i by (simp add: not_less) linarith
      then show "rev ?s ! i = ?s ! i"
      proof cases
        case 1
        then show ?thesis using h i by (simp add: rev_nth)
      next
        case 2
        then have "?s ! (length ?s - 1 - i) = ?s ! (length ?s - 1 - (length ?s - 1 - i))" using h by simp
        then show ?thesis using i by (simp add: rev_nth)
      next
        case 3
        then show ?thesis using i by (metis One_nat_def diff_Suc_eq_diff_pred length_rev rev_nth)
      qed
    qed simp
  next
    assume r: "rev ?s = ?s"
    show "\<forall>i \<in> set [0..<length ?s div 2]. ?s ! i = ?s ! (length ?s - 1 - i)"
    proof
      fix i assume "i \<in> set [0..<length ?s div 2]"
      then have "i < length ?s" by auto
      then show "?s ! i = ?s ! (length ?s - 1 - i)"
        using r by (metis One_nat_def diff_Suc_eq_diff_pred rev_nth)
    qed
  qed
  then show ?thesis using False by (simp add: isPalindrome_def list_all_iff Let_def)
qed (simp add: isPalindrome_def)

text \<open>A tease is recorded exactly when it is allowed, and blocks the next one for the cooldown.\<close>

lemma TryTease_eq:
  "TryTease now actor target s =
     (if CanTease now actor target s then (True, RecordTease now actor target s) else (False, s))"
  by (auto simp: TryTease_def CanTease_def RecordTease_def split: option.splits)

text \<open>
  Forgetting old entries does not let a tease through that the cooldown would have refused, now or
  later.
\<close>

lemma cleanup_keeps_cooldown:
  assumes "0 \<le> cooldown s" and "in_i64 (cooldown s * 2)" and "now \<le> later"
    and "\<And>key t. lastTease s key = Some t \<Longrightarrow> in_i64 (now - t) \<and> in_i64 (later - t)"
  shows "CanTease later actor target (TeaseState_Cleanup now s) = CanTease later actor target s"
proof (cases "lastTease s (tease_key actor target)")
  case (Some t)
  have "i64 (now - t) = now - t" "i64 (later - t) = later - t" "i64 (cooldown s * 2) = cooldown s * 2"
    using assms(4) [OF Some] assms(2) by simp_all
  then show ?thesis using Some assms(1, 3) by (simp add: CanTease_def TeaseState_Cleanup_def)
qed (simp add: CanTease_def TeaseState_Cleanup_def)

lemma smod_bounds: "0 < n \<Longrightarrow> - n < x smod n \<and> x smod n < (n :: int)"
  using smod_int_compares(1-4) [of x n] by (cases "0 \<le> x") auto

lemma subject_hash_bounds:
  assumes "0 < n" and "n \<le> 2 ^ 62"
  shows "0 \<le> subject_hash n subject \<and> subject_hash n subject < n"
proof -
  have step: "0 \<le> i64 (x smod n + n) smod n \<and> i64 (x smod n + n) smod n < n" for x
  proof -
    have b: "- n < x smod n \<and> x smod n < n" using assms(1) by (rule smod_bounds)
    then have "in_i64 (x smod n + n)" using assms by (simp add: in_i64_def)
    then have e: "i64 (x smod n + n) = x smod n + n" by simp
    have "0 \<le> x smod n + n" using b by simp
    then show ?thesis using smod_int_compares(1, 2) [of "x smod n + n" n] assms(1) by (simp add: e)
  qed
  have "0 \<le> foldl (\<lambda>hash c. i64 (i64 (i64 (hash * 31) + int c) smod n + n) smod n) h cs \<and>
      foldl (\<lambda>hash c. i64 (i64 (i64 (hash * 31) + int c) smod n + n) smod n) h cs < n"
    if "0 \<le> h" "h < n" for h cs
    using that by (induction cs arbitrary: h) (use step in auto)
  then show ?thesis using assms(1) by (simp add: subject_hash_def)
qed

lemma mset_concat_update:
  "h < length ps \<Longrightarrow> mset (concat (ps[h := ps ! h @ [x]])) = add_mset x (mset (concat ps))"
  by (induction ps arbitrary: h) (auto split: nat.splits)

lemma foldl_partition:
  assumes "\<And>x. x \<in> set xs \<Longrightarrow> f x < length ps"
  shows "mset (concat (foldl (\<lambda>ps x. ps[f x := ps ! f x @ [x]]) ps xs)) = mset (concat ps) + mset xs \<and>
    length (foldl (\<lambda>ps x. ps[f x := ps ! f x @ [x]]) ps xs) = length ps \<and>
    (\<forall>i < length ps. set (foldl (\<lambda>ps x. ps[f x := ps ! f x @ [x]]) ps xs ! i) = set (ps ! i) \<union> {x \<in> set xs. f x = i})"
  using assms
proof (induction xs arbitrary: ps)
  case (Cons x xs)
  have "f x < length ps" using Cons.prems by simp
  moreover have "mset (concat (ps[f x := ps ! f x @ [x]])) = add_mset x (mset (concat ps))"
    using \<open>f x < length ps\<close> by (rule mset_concat_update)
  moreover note Cons.IH [of "ps[f x := ps ! f x @ [x]]"]
  ultimately show ?case using Cons.prems by (auto simp: nth_list_update)
qed simp

lemma concat_replicate_Nil: "concat (replicate n []) = []"
  by (induction n) simp_all

lemma PartitionSubjects_lemma:
  assumes "length subjects \<le> 2 ^ 62"
  shows "mset (concat (PartitionSubjects subjects n)) = mset subjects"
    and "int (length (PartitionSubjects subjects n)) = min (max 1 n) (int (length subjects))"
    and "i < length (PartitionSubjects subjects n) \<Longrightarrow> s \<in> set (PartitionSubjects subjects n ! i) \<Longrightarrow>
         j < length (PartitionSubjects subjects n) \<Longrightarrow> s \<in> set (PartitionSubjects subjects n ! j) \<Longrightarrow> i = j"
proof -
  define m where "m = min (max 1 n) (int (length subjects))"
  have P: "PartitionSubjects subjects n =
      foldl (\<lambda>ps x. ps[nat (subject_hash m x) := ps ! nat (subject_hash m x) @ [x]]) (replicate (nat m) []) subjects"
    unfolding PartitionSubjects_def Let_def m_def by (cases subjects) (auto simp: min_def max_def)
  have h: "nat (subject_hash m x) < length (replicate (nat m) [])" if "x \<in> set subjects" for x
  proof -
    have "0 < length subjects" using that by (cases subjects) auto
    then have "0 < m" "m \<le> 2 ^ 62" using assms by (auto simp: m_def)
    then show ?thesis using subject_hash_bounds [of m x] by simp
  qed
  note F = foldl_partition [of subjects "\<lambda>x. nat (subject_hash m x)", OF h, folded P]
  have m0: "0 \<le> m" by (simp add: m_def)
  show "mset (concat (PartitionSubjects subjects n)) = mset subjects"
    using F by (simp add: concat_replicate_Nil)
  show "int (length (PartitionSubjects subjects n)) = min (max 1 n) (int (length subjects))"
    using F m0 by (simp flip: m_def)
  show "i < length (PartitionSubjects subjects n) \<Longrightarrow> s \<in> set (PartitionSubjects subjects n ! i) \<Longrightarrow>
         j < length (PartitionSubjects subjects n) \<Longrightarrow> s \<in> set (PartitionSubjects subjects n ! j) \<Longrightarrow> i = j"
    using F by auto
qed

end
