(* ===== verification/Presence_State.thy ===== *)
theory Presence_State
  imports Neighbourhood_Safety Teasing Ledger_Queries Opinions Buzz
begin

text \<open>
  What \<open>Network\<close> keeps beside the neighbourhood, for the presence handlers, the social network and
  the observations: the record \<open>nara_net\<close> extends \<open>network\<close>. What a handler does to the outside
  (messages, goroutines, timers, server-sent events) is appended to \<open>nn_effects\<close>, in order. Clocks,
  random numbers and the answers of peers are the parameters \<open>clock\<close> and \<open>peers\<close>.
\<close>

section \<open>Messages\<close>

record NeighborInfo =
  ni_Name :: NaraName
  ni_PublicKey :: string
  ni_MeshIP :: string
  ni_ID :: NaraID
  ni_Observation :: NaraObservation

record HowdyEvent =
  hw_From :: NaraName
  hw_To :: NaraName
  hw_Seq :: int
  hw_You :: NaraObservation
  hw_Neighbors :: "NeighborInfo list"
  hw_Me :: NaraStatus
  hw_Signature :: string

text \<open>\<open>np_StatusJSON\<close> is empty when the raw bytes are not at hand.\<close>

record NewspaperEvent =
  np_From :: NaraName
  np_Status :: NaraStatus
  np_Signature :: string
  np_StatusJSON :: string

record LedgerRequest =
  lr_From :: NaraName
  lr_Subjects :: "NaraName list"

record LedgerResponse =
  lp_From :: NaraName
  lp_Events :: "SocialEvent list"

datatype net_effect =
    PostHowdy HowdyEvent
  | PostSyncEvent string SyncEvent
  | PostNewspaper string NewspaperEvent
  | PostLedgerRequest string LedgerRequest
  | PostLedgerResponse string LedgerResponse
  | BroadcastSSE SyncEvent
  | NotifyListeners "(nat \<times> SyncEvent) list"
  | TriggerOnline
  | AfterHowdyDelay nat
  | AfterHowdyCleanup NaraName
  | GoReportRestart NaraName int int
  | GoReportMissing NaraName
  | GoTeaseWithDelay NaraName string
  | GoPushStash NaraID
  | GoResolvePeer NaraName
  | SentDM NaraID SyncEvent

section \<open>Outside\<close>

text \<open>
  One reading of the clock per handler: nanoseconds, and the local date's year and month.
  \<open>pr_SendDM\<close> and \<open>pr_PingIP\<close> are what the mesh client returns (for a ping the round trip in
  milliseconds), \<open>pr_Query\<close> what the peer at a URL answers when asked for a target, given whom was
  asked so far: a name, a public key and a mesh IP.
\<close>

record clock =
  ck_nano :: int
  ck_year :: nat
  ck_month :: nat

definition ck_sec :: "clock \<Rightarrow> int" where
  "ck_sec T = ck_nano T sdiv 1000000000"

record PeerResponse =
  pr_Target :: NaraName
  pr_PublicKey :: string
  pr_MeshIP :: string

record peers =
  pr_SendDM :: "NaraID \<Rightarrow> SyncEvent \<Rightarrow> bool"
  pr_PingIP :: "string \<Rightarrow> float64 option"
  pr_Query :: "string \<Rightarrow> NaraName \<Rightarrow> NaraName list \<Rightarrow> PeerResponse option"

section \<open>State\<close>

record howdyCoordinator =
  hc_target :: NaraName
  hc_seen :: int
  hc_mentioned :: "NaraName set"
  hc_armed :: bool
  hc_responded :: bool

record startTimeVote =
  sv_value :: int
  sv_uptime :: nat

datatype TransportMode = TransportMQTT | TransportGossip | TransportHybrid

definition TransportMode_String :: "TransportMode \<Rightarrow> string" where
  "TransportMode_String t = (case t of TransportMQTT \<Rightarrow> ''mqtt'' | TransportGossip \<Rightarrow> ''gossip'' | TransportHybrid \<Rightarrow> ''hybrid'')"

text \<open>
  Coordinators are reached through pointers by the map and by their timers; \<open>nn_coordinators\<close> is
  their store. \<open>hc_armed\<close> says that the timer has not been stopped. \<open>nn_mesh\<close> says that
  \<open>tsnetMesh\<close> is set, \<open>nn_stashes\<close> for whom the stash service holds a stash. The ledger and the
  projections always exist after \<open>NewLocalNara\<close>.
\<close>

record nara_net = network +
  nn_Soul :: string
  nn_ReadOnly :: bool
  nn_ShortMemory :: bool
  nn_TransportMode :: TransportMode
  nn_mesh :: bool
  nn_LastHeyThere :: int
  nn_Buzz :: int
  nn_Tease :: TeaseState
  nn_coordinators :: "howdyCoordinator list"
  nn_howdyCoordinators :: "NaraName \<rightharpoonup> nat"
  nn_startTimeVotes :: "startTimeVote list"
  nn_pendingResolutions :: "NaraName \<rightharpoonup> int"
  nn_pingAttempt :: "NaraName \<rightharpoonup> int"
  nn_pingResult :: "NaraName \<rightharpoonup> bool"
  nn_stashes :: "NaraID set"
  nn_online :: "online_states Projection"
  nn_clout :: "SocialEventRecord list Projection"
  nn_opinion :: "opinion_state Projection"
  nn_effects :: "net_effect list"

definition me_status :: "'a network_scheme \<Rightarrow> NaraStatus" where
  "me_status net = na_Status (nara_at net (nw_Me net))"

definition my_keypair :: "'a network_scheme \<Rightarrow> NaraKeypair" where
  "my_keypair net = kr_keypair (nw_keyring net)"

definition effect :: "net_effect list \<Rightarrow> nara_net \<Rightarrow> nara_net" where
  "effect es net = net\<lparr>nn_effects := nn_effects net @ es\<rparr>"

text \<open>
  \<open>NewNetwork\<close> gives the ledger a checker that asks the network which naras have no public key, for
  pruning; the field holds the answers of the moment, so it is set whenever the ledger is called.
\<close>

definition linked_ledger :: "go_env \<Rightarrow> 'a network_scheme \<Rightarrow> SyncLedger" where
  "linked_ledger G net = SetUnknownNaraChecker (\<lambda>name. \<not> hasPublicKeyFor G net name) (nw_SyncLedger net)"

definition with_ledger :: "go_env \<Rightarrow> (SyncLedger \<Rightarrow> add_result) \<Rightarrow> nara_net \<Rightarrow> (bool \<times> nara_net) go" where
  "with_ledger G add net =
     go_bind (add (linked_ledger G net)) (\<lambda>(ok, l, calls).
       Inr (ok, effect [NotifyListeners calls] (net\<lparr>nw_SyncLedger := l\<rparr>)))"

definition broadcastSSE :: "SyncEvent \<Rightarrow> nara_net \<Rightarrow> nara_net" where
  "broadcastSSE e net = effect [BroadcastSSE e] net"

section \<open>Buzz\<close>

definition more_buzz :: "int \<Rightarrow> nara_net \<Rightarrow> nara_net" where
  "more_buzz howMuch net = net\<lparr>nn_Buzz := buzz_increase howMuch (nn_Buzz net)\<rparr>"

text \<open>The two loops over the neighbourhood.\<close>

definition getNetworkAverageBuzz :: "'a network_scheme \<Rightarrow> int" where
  "getNetworkAverageBuzz net =
     (let rs = map snd (filter (\<lambda>(name, r). isOnline (getObservation net name) \<and> na_Name (nara_at net r) \<noteq> meName net)
                         (nw_Neighbourhood net));
          sum = foldl (\<lambda>s r. i64 (s + st_Buzz (na_Status (nara_at net r)))) 0 rs
      in if length rs = 0 then 0 else sum sdiv int (length rs))"

definition getHighestBuzz :: "'a network_scheme \<Rightarrow> int" where
  "getHighestBuzz net =
     foldl (\<lambda>highest (name, r).
         if \<not> isOnline (getObservation net name) then highest
         else if st_Buzz (na_Status (nara_at net r)) > highest then st_Buzz (na_Status (nara_at net r)) else highest)
       (st_Buzz (me_status net)) (nw_Neighbourhood net)"

definition scaled_buzz :: "int \<Rightarrow> float64 \<Rightarrow> int" where
  "scaled_buzz level factor = f64_to_int (f64_mul (f64_of_int level) factor)"

definition weightedBuzz :: "nara_net \<Rightarrow> int" where
  "weightedBuzz net =
     (let sum = i64 (0 + scaled_buzz (nn_Buzz net) (f64_lit 5 10));
          sum = i64 (sum + scaled_buzz (getNetworkAverageBuzz net) (f64_lit 2 10));
          sum = i64 (sum + scaled_buzz (getHighestBuzz net) (f64_lit 3 10))
      in if sum > BuzzMax then BuzzMax else sum)"

definition maintenanceBuzz_tick :: "nara_net \<Rightarrow> nara_net" where
  "maintenanceBuzz_tick net =
     (let net1 = net\<lparr>nn_Buzz := buzz_decrease (3 * 10) (nn_Buzz net)\<rparr>
      in set_status (nw_Me net1) (\<lambda>s. s\<lparr>st_Buzz := weightedBuzz net1\<rparr>) net1)"

section \<open>Projections\<close>

definition opinion_RunOnce :: "go_env \<Rightarrow> nara_net \<Rightarrow> nara_net go" where
  "opinion_RunOnce G net =
     go_bind (RunOnce G (quiet opinion_handleEvent) (Some (\<lambda>st subject. None)) (nw_SyncLedger net) (nw_SyncLedger net)
               (nn_opinion net)) (\<lambda>(p, more, ok). Inr (net\<lparr>nn_opinion := p\<rparr>))"

definition clout_RunOnce :: "go_env \<Rightarrow> nara_net \<Rightarrow> nara_net go" where
  "clout_RunOnce G net =
     go_bind (RunOnce G (quiet clout_handleEvent) (Some (\<lambda>st. [])) (nw_SyncLedger net) (nw_SyncLedger net)
               (nn_clout net)) (\<lambda>(p, more, ok). Inr (net\<lparr>nn_clout := p\<rparr>))"

definition online_RunOnce :: "go_env \<Rightarrow> nara_net \<Rightarrow> nara_net go" where
  "online_RunOnce G net =
     go_bind (RunOnce G (quiet online_handleEvent) (Some (\<lambda>st name. None)) (nw_SyncLedger net) (nw_SyncLedger net)
               (nn_online net)) (\<lambda>(p, more, ok). Inr (net\<lparr>nn_online := p\<rparr>))"

text \<open>Clout and opinion run at once, the online status when its goroutine sees the signal.\<close>

definition Projections_Trigger :: "go_env \<Rightarrow> nara_net \<Rightarrow> nara_net go" where
  "Projections_Trigger G net = go_bind (clout_RunOnce G (effect [TriggerOnline] net)) (opinion_RunOnce G)"

text \<open>The threshold that \<open>LocalNara.Start\<close> installs.\<close>

definition MissingThresholdSeconds :: int where "MissingThresholdSeconds = 300"
definition MissingThresholdGossipSeconds :: int where "MissingThresholdGossipSeconds = 3600"

definition missing_threshold :: "nara_net \<Rightarrow> NaraName \<Rightarrow> int" where
  "missing_threshold net name =
     (let subjectIsGossip = (case getNara net name of
            None \<Rightarrow> False
          | Some r \<Rightarrow> na_Name (nara_at net r) \<noteq> [] \<and> st_TransportMode (na_Status (nara_at net r)) = ''gossip'');
          observerIsGossip = (nn_TransportMode net = TransportGossip);
          threshold = (if subjectIsGossip \<or> observerIsGossip then MissingThresholdGossipSeconds else MissingThresholdSeconds)
      in threshold * 1000000000)"

definition derived_status :: "clock \<Rightarrow> nara_net \<Rightarrow> NaraName \<Rightarrow> string" where
  "derived_status T net name = GetStatus (missing_threshold net) (ck_nano T) (pj_state (nn_online net)) name"

end
