(* ===== verification/Peer_Resolution.thy ===== *)
theory Peer_Resolution
  imports Presence_State
begin

text \<open>
  \<open>transport_peer_resolution.go\<close> and the URL helpers of \<open>transport_http_client.go\<close>: asking neighbours
  for the key of a nara, and answering them. The answer of a neighbour is a parameter; the
  property at the end puts the answering handler of a second nara in its place.
\<close>

section \<open>Asking\<close>

definition network_buildMeshURLFromIP :: "string \<Rightarrow> string \<Rightarrow> string" where
  "network_buildMeshURLFromIP ip path =
     (if ip = [] then []
      else let baseURL = (if CHR '':'' \<in> set ip then ''http://'' @ ip
                          else ''http://'' @ ip @ '':'' @ fmt_int DefaultMeshPort)
           in if path \<noteq> [] then baseURL @ path else baseURL)"

definition buildMeshURL :: "'a network_scheme \<Rightarrow> NaraName \<Rightarrow> string \<Rightarrow> string" where
  "buildMeshURL net name path =
     (let meshIP = getMeshIPForNara net name
      in if meshIP = [] then []
         else let baseURL = network_buildMeshURLFromIP meshIP []
              in if path \<noteq> [] then baseURL @ path else baseURL)"

definition getMeshURLForNara :: "'a network_scheme \<Rightarrow> NaraName \<Rightarrow> string" where
  "getMeshURLForNara net name = buildMeshURL net name []"

definition hasMeshConnectivity :: "'a network_scheme \<Rightarrow> NaraName \<Rightarrow> bool" where
  "hasMeshConnectivity net name \<longleftrightarrow> getMeshIPForNara net name \<noteq> []"

text \<open>
  The loop: \<open>asked\<close> is the set of names asked so far, as a list without repetitions, whose order is that
  of the request. It ends because either the queue shrinks or \<open>asked\<close> grows towards ten.
\<close>

definition peer_nara :: "NaraName \<Rightarrow> PeerResponse \<Rightarrow> Nara" where
  "peer_nara target resp =
     (let nara = NewNara target
      in nara\<lparr>na_Status := (na_Status nara)\<lparr>st_PublicKey := pr_PublicKey resp, st_MeshIP := pr_MeshIP resp,
                st_MeshEnabled := pr_MeshIP resp \<noteq> []\<rparr>\<rparr>)"

definition ask_one ::
  "peers \<Rightarrow> nara_net \<Rightarrow> NaraName \<Rightarrow> NaraName list \<Rightarrow> NaraName \<Rightarrow> NaraName list \<Rightarrow> PeerResponse + NaraName list" where
  \<comment> \<open>the answer, or the queue to go on with\<close>
  "ask_one P net target asked name rest =
     (let url = getMeshURLForNara net name
      in if url = [] then Inr rest
         else case pr_Query P url target asked of
                None \<Rightarrow> Inr rest
              | Some resp \<Rightarrow>
                  if pr_PublicKey resp \<noteq> [] then Inl resp
                  else if pr_Target resp \<noteq> [] \<and> pr_Target resp \<notin> set asked then Inr (rest @ [pr_Target resp])
                  else Inr rest)"

function ask_peers ::
  "peers \<Rightarrow> nara_net \<Rightarrow> NaraName \<Rightarrow> NaraName list \<Rightarrow> NaraName list \<Rightarrow> PeerResponse option \<times> NaraName list" where
  "ask_peers P net target asked toAsk =
     (if length asked \<ge> 10 then (None, asked)
      else case toAsk of
             [] \<Rightarrow> (None, asked)
           | name # rest \<Rightarrow>
               if name \<in> set asked then ask_peers P net target asked rest
               else case ask_one P net target (asked @ [name]) name rest of
                      Inl resp \<Rightarrow> (Some resp, asked @ [name])
                    | Inr queue \<Rightarrow> ask_peers P net target (asked @ [name]) queue)"
  by pat_completeness auto
termination
  by (relation "measures [\<lambda>(P, net, target, asked, toAsk). 10 - length asked, \<lambda>(P, net, target, asked, toAsk). length toAsk]")
     auto

declare ask_peers.simps [simp del]

definition resolvePeer :: "go_env \<Rightarrow> peers \<Rightarrow> NaraName \<Rightarrow> nara_net \<Rightarrow> (PeerResponse option \<times> nara_net) go" where
  "resolvePeer G P target net =
     (if getPublicKeyForNara G net target \<noteq> None then Inr (None, net)
      else let neighbors = NeighbourhoodOnlineNames net
           in if length neighbors = 0 then Inr (None, net)
              else case fst (ask_peers P net target [meName net] neighbors) of
                     None \<Rightarrow> Inr (None, net)
                   | Some resp \<Rightarrow> go_bind (import_new G (peer_nara target resp) net) (\<lambda>net1. Inr (Some resp, net1)))"

definition resolvePublicKeyForNara :: "go_env \<Rightarrow> peers \<Rightarrow> NaraName \<Rightarrow> nara_net \<Rightarrow> (string option \<times> nara_net) go" where
  "resolvePublicKeyForNara G P name net =
     (case getPublicKeyForNara G net name of
        Some pubKey \<Rightarrow> Inr (Some pubKey, net)
      | None \<Rightarrow>
          go_bind (resolvePeer G P name net) (\<lambda>(resp, net1).
            case resp of
              None \<Rightarrow> Inr (None, net1)
            | Some r \<Rightarrow> if pr_PublicKey r \<noteq> [] then Inr (getPublicKeyForNara G net1 name, net1) else Inr (None, net1)))"

definition resolvePeerBackground :: "clock \<Rightarrow> NaraName \<Rightarrow> nara_net \<Rightarrow> nara_net" where
  "resolvePeerBackground T target net =
     (case nn_pendingResolutions net target of
        Some lastTry \<Rightarrow>
          if i64 (ck_sec T - lastTry) < 600 then net
          else effect [GoResolvePeer target] (net\<lparr>nn_pendingResolutions := (nn_pendingResolutions net)(target \<mapsto> ck_sec T)\<rparr>)
      | None \<Rightarrow> effect [GoResolvePeer target] (net\<lparr>nn_pendingResolutions := (nn_pendingResolutions net)(target \<mapsto> ck_sec T)\<rparr>))"

section \<open>Answering\<close>

text \<open>The handler of \<open>GET /peer/query\<close>; the parameter \<open>asked\<close> has been split at its commas.\<close>

datatype peer_answer = BadTarget | Known PeerResponse | RedirectTo NaraName | PeerNotFound

definition httpPeerQueryHandler :: "go_env \<Rightarrow> nara_net \<Rightarrow> NaraName \<Rightarrow> NaraName list \<Rightarrow> peer_answer" where
  "httpPeerQueryHandler G net target asked0 =
     (if target = [] then BadTarget
      else let asked = insert (meName net) (set asked0);
               redirect = (case find (\<lambda>name. name \<notin> asked) (NeighbourhoodOnlineNames net) of
                             Some name \<Rightarrow> RedirectTo name | None \<Rightarrow> PeerNotFound)
           in if getPublicKeyForNara G net target \<noteq> None
              then (case getNara net target of
                      Some r \<Rightarrow> Known \<lparr>pr_Target = target, pr_PublicKey = st_PublicKey (na_Status (nara_at net r)),
                                      pr_MeshIP = st_MeshIP (na_Status (nara_at net r))\<rparr>
                    | None \<Rightarrow> redirect)
              else redirect)"

definition queryPeerAt :: "peer_answer \<Rightarrow> PeerResponse option" where
  \<comment> \<open>how the answer of the handler is read by the asking side\<close>
  "queryPeerAt answer =
     (case answer of
        BadTarget \<Rightarrow> None
      | Known resp \<Rightarrow> Some resp
      | RedirectTo location \<Rightarrow>
          if location \<noteq> [] then Some \<lparr>pr_Target = location, pr_PublicKey = [], pr_MeshIP = []\<rparr> else None
      | PeerNotFound \<Rightarrow> None)"

section \<open>Properties\<close>

text \<open>At most nine peers are asked, none of them twice, and never the asking nara itself.\<close>

lemma ask_peers_bound:
  assumes "length asked \<le> 10" and "distinct asked"
  shows "\<exists>new. snd (ask_peers P net target asked toAsk) = asked @ new \<and> distinct (asked @ new) \<and> length (asked @ new) \<le> 10"
  using assms
proof (induction P net target asked toAsk rule: ask_peers.induct)
  case (1 P net target asked toAsk)
  show ?case
  proof (cases "10 \<le> length asked \<or> toAsk = []")
    case True
    then show ?thesis using "1.prems" by (subst ask_peers.simps) (auto split: list.splits)
  next
    case False
    then obtain name rest where t: "toAsk = name # rest" by (cases toAsk) auto
    from False have l: "\<not> 10 \<le> length asked" by simp
    show ?thesis
    proof (cases "name \<in> set asked")
      case True
      then show ?thesis using "1.IH"(1) [OF l t True] "1.prems" l by (subst ask_peers.simps) (simp add: t)
    next
      case new: False
      have prem: "length (asked @ [name]) \<le> 10" "distinct (asked @ [name])" using new l "1.prems" by auto
      show ?thesis
      proof (cases "ask_one P net target (asked @ [name]) name rest")
        case (Inl resp)
        then show ?thesis using new l prem by (subst ask_peers.simps) (simp add: t)
      next
        case (Inr queue)
        obtain m where "snd (ask_peers P net target (asked @ [name]) queue) = (asked @ [name]) @ m"
          "distinct ((asked @ [name]) @ m)" "length ((asked @ [name]) @ m) \<le> 10"
          using "1.IH"(2) [OF l t new Inr prem] by blast
        then show ?thesis using new l Inr by (subst ask_peers.simps) (intro exI [of _ "name # m"], simp add: t)
      qed
    qed
  qed
qed

lemma net_wf_peer_nara: "\<not> nil_map_clash net (peer_nara target resp)"
  by (simp add: nil_map_clash_def peer_nara_def NewNara_def Let_def)

lemma peer_nara_simps [simp]:
  "na_Name (peer_nara target resp) = target" "nara_identity (peer_nara target resp) = []"
  "st_PublicKey (na_Status (peer_nara target resp)) = pr_PublicKey resp"
  "st_MeshIP (na_Status (peer_nara target resp)) = pr_MeshIP resp"
  by (simp_all add: peer_nara_def NewNara_def nara_identity_def zero_status_def Let_def)

lemma resolvePeer_cases:
  assumes "net_wf net"
  obtains "resolvePeer G P target net = Inr (None, net)"
    | resp net' where "resolvePeer G P target net = Inr (Some resp, net')"
      "import_new G (peer_nara target resp) net = Inr net'" "getPublicKeyForNara G net target = None"
proof (cases "getPublicKeyForNara G net target \<noteq> None \<or> length (NeighbourhoodOnlineNames net) = 0 \<or>
    fst (ask_peers P net target [meName net] (NeighbourhoodOnlineNames net)) = None")
  case True
  then have "resolvePeer G P target net = Inr (None, net)" by (auto simp: resolvePeer_def Let_def)
  then show ?thesis by (rule that(1))
next
  case False
  then obtain resp where r: "fst (ask_peers P net target [meName net] (NeighbourhoodOnlineNames net)) = Some resp" by auto
  obtain net' where i: "import_new G (peer_nara target resp) net = Inr net'"
    using import_new_ok [OF assms net_wf_peer_nara [of net target resp], of G] by blast
  then have "resolvePeer G P target net = Inr (Some resp, net')"
    using False r by (auto simp: resolvePeer_def Let_def)
  then show ?thesis using i False by (intro that(2)) auto
qed

lemma resolvePeer_wf:
  assumes "net_wf net"
  shows "\<exists>resp net'. resolvePeer G P target net = Inr (resp, net') \<and> net_wf net' \<and> net_ext net net' \<and>
    nw_keyring net' = nw_keyring net \<and> network.more net' = network.more net \<and> nw_SyncLedger net' = nw_SyncLedger net"
proof (cases rule: resolvePeer_cases [OF assms, of G P target])
  case 1
  then show ?thesis using assms by auto
next
  case (2 resp net')
  then show ?thesis using import_new_ok [OF assms net_wf_peer_nara [of net target resp], of G] by auto
qed

lemma resolvePublicKey_wf:
  assumes "net_wf net"
  shows "\<exists>k net'. resolvePublicKeyForNara G P target net = Inr (k, net') \<and> net_wf net' \<and> net_ext net net' \<and>
    nw_keyring net' = nw_keyring net \<and> network.more net' = network.more net \<and> nw_SyncLedger net' = nw_SyncLedger net"
proof (cases "getPublicKeyForNara G net target")
  case (Some k)
  then show ?thesis using assms by (simp add: resolvePublicKeyForNara_def)
next
  case None
  obtain resp net' where r: "resolvePeer G P target net = Inr (resp, net')" "net_wf net'" "net_ext net net'"
    "nw_keyring net' = nw_keyring net" "network.more net' = network.more net" "nw_SyncLedger net' = nw_SyncLedger net"
    using resolvePeer_wf [OF assms] by blast
  then show ?thesis by (auto simp: resolvePublicKeyForNara_def None split: option.splits)
qed

text \<open>
  Resolution adds the nara, with the key that was answered, under the name that was asked for, and no
  entry by ID: the answer carries none.
\<close>

lemma resolvePeer_unknown:
  assumes "net_wf net" and "getNara net target = None" and "target \<noteq> meName net"
    and "resolvePeer G P target net = Inr (Some resp, net')"
  shows "getNara net' target = Some (length (nw_store net))"
    and "st_PublicKey (na_Status (nara_at net' (length (nw_store net)))) = pr_PublicKey resp"
    and "getPublicKeyForNara G net' target = (if pr_PublicKey resp = [] then None else ParsePublicKey G (pr_PublicKey resp))"
proof -
  have g: "getPublicKeyForNara G net target = None" using assms(2, 3) by (simp add: getPublicKeyForNara_def)
  have i: "import_new G (peer_nara target resp) net = Inr net'"
    using assms(4) g by (auto simp: resolvePeer_def Let_def go_bind_eq_Inr split: option.splits if_splits)
  then have e: "nw_Neighbourhood net' = nw_Neighbourhood net @ [(target, length (nw_store net))]"
    "nara_at net' (length (nw_store net)) = peer_nara target resp" "net_ext net net'"
    using import_new_ok [OF assms(1) net_wf_peer_nara [of net target resp], of G] assms(2) by auto
  show n: "getNara net' target = Some (length (nw_store net))"
    using assms(2) e(1) by (simp add: getNara_def map_add_def)
  show k: "st_PublicKey (na_Status (nara_at net' (length (nw_store net)))) = pr_PublicKey resp" by (simp add: e(2))
  have "meName net' = meName net" using net_ext_meName [OF e(3)] net_wfD(1) [OF assms(1)] .
  then show "getPublicKeyForNara G net' target = (if pr_PublicKey resp = [] then None else ParsePublicKey G (pr_PublicKey resp))"
    using n k assms(3) by (simp add: getPublicKeyForNara_def Let_def)
qed

text \<open>A nara that knows the target answers with the key it has.\<close>

lemma handler_answers:
  assumes "getNara net target = Some r" and "getPublicKeyForNara G net target \<noteq> None" and "target \<noteq> []"
  shows "queryPeerAt (httpPeerQueryHandler G net target asked) =
    Some \<lparr>pr_Target = target, pr_PublicKey = st_PublicKey (na_Status (nara_at net r)),
          pr_MeshIP = st_MeshIP (na_Status (nara_at net r))\<rparr>"
  using assms by (auto simp: queryPeerAt_def httpPeerQueryHandler_def Let_def)

lemma handler_never_redirects_back:
  assumes "httpPeerQueryHandler G net target asked = RedirectTo name"
  shows "name \<notin> set asked" and "name \<noteq> meName net" and "name \<in> set (NeighbourhoodOnlineNames net)"
  using assms
  by (auto simp: httpPeerQueryHandler_def Let_def find_Some_iff in_set_conv_nth split: if_splits option.splits)

end
