(* ===== verification/Social_Network.thy ===== *)
theory Social_Network
  imports Peer_Resolution
begin

text \<open>
  \<open>barrios.go\<close> and \<open>social_network.go\<close>: which barrio (cluster) a nara lives in, by its coordinates or,
  without them, by a hash of its name and the month; and teasing, which an observation of another
  nara can set off.
\<close>

section \<open>Loops that may panic\<close>

fun go_fold :: "('a \<Rightarrow> 's \<Rightarrow> 's go) \<Rightarrow> 'a list \<Rightarrow> 's \<Rightarrow> 's go" where
  "go_fold f [] s = Inr s"
| "go_fold f (x # xs) s = go_bind (f x s) (go_fold f xs)"

lemma go_fold_append: "go_fold f (xs @ ys) s = go_bind (go_fold f xs s) (go_fold f ys)"
  by (induction xs arbitrary: s) (simp_all add: go_bind_def split: sum.splits)

text \<open>A loop whose body keeps an invariant and a preorder to the start never panics.\<close>

lemma go_fold_total:
  assumes "I s" and "\<And>s. R s s" and "\<And>a b c. R a b \<Longrightarrow> R b c \<Longrightarrow> R a c"
    and "\<And>x s. x \<in> set xs \<Longrightarrow> I s \<Longrightarrow> \<exists>s'. f x s = Inr s' \<and> I s' \<and> R s s'"
  shows "\<exists>s'. go_fold f xs s = Inr s' \<and> I s' \<and> R s s'"
  using assms(1, 4)
proof (induction xs arbitrary: s)
  case (Cons x xs)
  then obtain s1 where s1: "f x s = Inr s1" "I s1" "R s s1" by fastforce
  then obtain s2 where "go_fold f xs s1 = Inr s2" "I s2" "R s1 s2" using Cons by fastforce
  then show ?case using s1 assms(3) by auto
qed (use assms(2) in auto)

section \<open>Barrios\<close>

definition clusterNames :: "string list" where
  "clusterNames = [''martini'', ''sand'', ''ocean'', ''basil'', ''watermelon'', ''sorbet'', ''wizard'', ''bohemian'', ''pizza'', ''moai'', ''ufo'', ''gem'', ''fish'', ''surf'', ''peach'', ''sandwich'']"

definition BarrioEmoji :: "string list" where
  "BarrioEmoji =
    [[CHR 0xF0, CHR 0x9F, CHR 0x8D, CHR 0xB8],
     [CHR 0xF0, CHR 0x9F, CHR 0x8F, CHR 0x96],
     [CHR 0xF0, CHR 0x9F, CHR 0x8C, CHR 0x8A],
     [CHR 0xF0, CHR 0x9F, CHR 0x8C, CHR 0xBF],
     [CHR 0xF0, CHR 0x9F, CHR 0x8D, CHR 0x89],
     [CHR 0xF0, CHR 0x9F, CHR 0x8D, CHR 0xA7],
     [CHR 0xF0, CHR 0x9F, CHR 0xA7, CHR 0x99],
     [CHR 0xF0, CHR 0x9F, CHR 0x91, CHR 0xBD],
     [CHR 0xF0, CHR 0x9F, CHR 0x8D, CHR 0x95],
     [CHR 0xF0, CHR 0x9F, CHR 0x97, CHR 0xBF],
     [CHR 0xF0, CHR 0x9F, CHR 0x9B, CHR 0xB8],
     [CHR 0xF0, CHR 0x9F, CHR 0x92, CHR 0x8E],
     [CHR 0xF0, CHR 0x9F, CHR 0x90, CHR 0xA0],
     [CHR 0xF0, CHR 0x9F, CHR 0x8F, CHR 0x84],
     [CHR 0xF0, CHR 0x9F, CHR 0x8D, CHR 0x91],
     [CHR 0xF0, CHR 0x9F, CHR 0xA5, CHR 0xAA]]"

definition DefaultGridSize :: float64 where "DefaultGridSize = f64_lit 50 1"
definition MinGridSize :: float64 where "MinGridSize = f64_lit 10 1"
definition MaxGridSize :: float64 where "MaxGridSize = f64_lit 200 1"

text \<open>
  \<open>sort.Float64s\<close> sorts by value; positive floats other than NaN with equal values are equal bit for bit,
  so every sorting algorithm gives the same list.
\<close>

definition calculateGridSize :: "'a network_scheme \<Rightarrow> float64" where
  "calculateGridSize net =
     (let pings = GetPingObservations (nw_SyncLedger net);
          rtts = filter f64_gt_zero (map pi_RTT pings)
      in if length pings = 0 then DefaultGridSize
         else if length rtts = 0 then DefaultGridSize
         else let sorted = sort_key f64_key rtts;
                  mid = length sorted div 2;
                  median = (if length sorted mod 2 = 0
                            then f64_div (f64_add (sorted ! (mid - 1)) (sorted ! mid)) (f64_lit 2 1) else sorted ! mid);
                  gridSize = (if f64_lt median MinGridSize then MinGridSize else median)
              in if f64_gt gridSize MaxGridSize then MaxGridSize else gridSize)"

definition be64_bytes :: "int \<Rightarrow> string" where
  \<comment> \<open>\<open>binary.BigEndian.PutUint64\<close> of \<open>uint64(n)\<close>\<close>
  "be64_bytes n = map (\<lambda>i. char_of (uint64 n div 256 ^ (7 - i) mod 256)) [0..<8]"

definition gridCellToClusterIndex :: "go_env \<Rightarrow> int \<Rightarrow> int \<Rightarrow> int" where
  "gridCellToClusterIndex G cellX cellY =
     int (be64 (sha256 G (be64_bytes cellX @ be64_bytes cellY)) mod length clusterNames)"

definition getGridBasedCluster :: "go_env \<Rightarrow> 'a network_scheme \<Rightarrow> NaraName \<Rightarrow> float64 \<Rightarrow> int" where
  "getGridBasedCluster G net name gridSize =
     (case (if name = meName net then Some (nw_Me net) else getNara net name) of
        None \<Rightarrow> - 1
      | Some r \<Rightarrow>
          (case st_Coordinates (na_Status (nara_at net r)) of
             None \<Rightarrow> - 1
           | Some c \<Rightarrow>
               if \<not> Coordinate_IsValid (Some c) then - 1
               else gridCellToClusterIndex G (f64_to_int (f64_floor (f64_div (nc_X c) gridSize)))
                      (f64_to_int (f64_floor (f64_div (nc_Y c) gridSize)))))"

text \<open>\<open>string(rune(n))\<close>: the UTF-8 encoding of a code point.\<close>

definition rune_string :: "nat \<Rightarrow> string" where
  "rune_string n =
     (let b = (\<lambda>x. char_of (x :: nat))
      in if n < 128 then [b n]
         else if n < 2048 then [b (192 + n div 64), b (128 + n mod 64)]
         else if 1114111 < n \<or> 55296 \<le> n \<and> n < 57344 then [CHR 0xEF, CHR 0xBF, CHR 0xBD]
         else if n < 65536 then [b (224 + n div 4096), b (128 + n div 64 mod 64), b (128 + n mod 64)]
         else [b (240 + n div 262144), b (128 + n div 4096 mod 64), b (128 + n div 64 mod 64), b (128 + n mod 64)])"

definition calculateVibe :: "go_env \<Rightarrow> clock \<Rightarrow> NaraName \<Rightarrow> nat" where
  "calculateVibe G T name = be64 (sha256 G (name @ rune_string (ck_year T) @ rune_string (ck_month T)))"

definition IsInMyBarrio :: "go_env \<Rightarrow> clock \<Rightarrow> 'a network_scheme \<Rightarrow> NaraName \<Rightarrow> bool" where
  "IsInMyBarrio G T net name =
     (let gridSize = calculateGridSize net;
          myCluster = getGridBasedCluster G net (meName net) gridSize;
          theirCluster = getGridBasedCluster G net name gridSize
      in if myCluster < 0 \<or> theirCluster < 0
         then calculateVibe G T (meName net) mod length clusterNames = calculateVibe G T name mod length clusterNames
         else myCluster = theirCluster)"

definition GetMyBarrioEmoji :: "go_env \<Rightarrow> clock \<Rightarrow> 'a network_scheme \<Rightarrow> string" where
  "GetMyBarrioEmoji G T net =
     (let i = getGridBasedCluster G net (meName net) (calculateGridSize net);
          i = (if i < 0 then int (calculateVibe G T (meName net) mod length clusterNames) else i)
      in if i \<ge> 0 \<and> i < int (length BarrioEmoji) then BarrioEmoji ! nat i else [])"

definition cluster_of :: "go_env \<Rightarrow> clock \<Rightarrow> 'a network_scheme \<Rightarrow> float64 \<Rightarrow> NaraName \<Rightarrow> nat" where
  "cluster_of G T net gridSize name =
     (let i = getGridBasedCluster G net name gridSize
      in if i < 0 then calculateVibe G T name mod length clusterNames else nat i)"

definition neighbourhoodMaintenance :: "go_env \<Rightarrow> clock \<Rightarrow> 'a network_scheme \<Rightarrow> 'a network_scheme go" where
  "neighbourhoodMaintenance G T net =
     (let gridSize = calculateGridSize net
      in go_fold (\<lambda>name n.
           let observation = getObservation n name; i = cluster_of G T n gridSize name
           in setObservation name (observation\<lparr>no_ClusterName := clusterNames ! i, no_ClusterEmoji := BarrioEmoji ! i\<rparr>) n)
         (NeighbourhoodNames net @ [meName net]) net)"

section \<open>Teasing\<close>

definition handleSocialEvent :: "go_env \<Rightarrow> peers \<Rightarrow> SyncEvent \<Rightarrow> nara_net \<Rightarrow> nara_net go" where
  "handleSocialEvent G P e net =
     (case (if Service e \<noteq> ServiceSocial then None else Social e) of
        None \<Rightarrow> Inr net
      | Some social \<Rightarrow>
          if sp_Actor social = meName net then Inr net
          else go_bind (if IsSigned e
                        then go_bind (resolvePublicKeyForNara G P (Emitter e) net) (\<lambda>(pubKey, net1).
                               case pubKey of
                                 None \<Rightarrow> Inr (True, net1)
                               | Some k \<Rightarrow> go_bind (VerifyWithKey G e (Some k)) (\<lambda>ok. Inr (ok, net1)))
                        else Inr (True, net))
               (\<lambda>(accept, net1).
                 if \<not> accept then Inr net1
                 else go_bind (with_ledger G (AddSocialEventFiltered G e (st_Personality (me_status net1))) net1) (\<lambda>(added, net2).
                        Inr (if added then broadcastSSE e (more_buzz 5 net2) else net2))))"

definition SendDM :: "peers \<Rightarrow> NaraName \<Rightarrow> SyncEvent \<Rightarrow> nara_net \<Rightarrow> bool \<times> nara_net" where
  "SendDM P targetName e net =
     (let naraID = getNaraIDByName net targetName
      in if naraID = [] then (False, net) else (pr_SendDM P naraID e, effect [SentDM naraID e] net))"

definition Tease :: "go_env \<Rightarrow> peers \<Rightarrow> clock \<Rightarrow> NaraName \<Rightarrow> string \<Rightarrow> nara_net \<Rightarrow> (bool \<times> nara_net) go" where
  "Tease G P T target reason net =
     (if nn_ReadOnly net then Inr (False, net)
      else case TryTease (ck_sec T) (meName net) target (nn_Tease net) of
             (granted, ts) \<Rightarrow>
               if \<not> granted then Inr (False, net)
               else let net1 = net\<lparr>nn_Tease := ts\<rparr>
                    in go_bind (NewTeaseSyncEvent G (ck_nano T) (meName net1) target reason (my_keypair net1)) (\<lambda>e.
                       go_bind (with_ledger G (AddSocialEventFiltered G e (st_Personality (me_status net1))) net1) (\<lambda>(ok, net2).
                         let net3 = broadcastSSE e (snd (SendDM P target e net2))
                         in Inr (True, more_buzz 3 net3))))"

definition hasRecentTeaseFor :: "clock \<Rightarrow> 'a network_scheme \<Rightarrow> NaraName \<Rightarrow> string \<Rightarrow> bool" where
  "hasRecentTeaseFor T net target reason =
     (let recentCutoff = i64 (ck_nano T - 30000000000)
      in list_ex (\<lambda>e. Timestamp e > recentCutoff \<and>
           (case Social e of None \<Rightarrow> False
            | Some s \<Rightarrow> sp_Type s = ''tease'' \<and> sp_Reason s = reason \<and> sp_Actor s \<noteq> meName net))
         (GetSocialEventsAbout (nw_SyncLedger net) target))"

text \<open>What \<open>TeaseWithDelay\<close> does once it has waited; \<open>waited\<close> is false when the network is shut down.\<close>

definition TeaseWithDelay :: "go_env \<Rightarrow> peers \<Rightarrow> clock \<Rightarrow> bool \<Rightarrow> NaraName \<Rightarrow> string \<Rightarrow> nara_net \<Rightarrow> nara_net go" where
  "TeaseWithDelay G P T waited target reason net =
     (if nn_ReadOnly net then Inr net
      else if \<not> waited then Inr net
      else if hasRecentTeaseFor T net target reason then Inr net
      else go_bind (Tease G P T target reason net) (\<lambda>(ok, net1). Inr net1))"

definition trendPopularity :: "'a network_scheme \<Rightarrow> string \<Rightarrow> float64" where
  "trendPopularity net trend =
     (let onlineNaras = getOnlineNarasSnapshot net;
          following = length (filter (\<lambda>r. st_Trend (na_Status (nara_at net r)) = trend) onlineNaras)
      in if trend = [] then f64_lit 0 1
         else if length onlineNaras = 0 then f64_lit 0 1
         else f64_div (f64_of_int (int following)) (f64_of_int (int (length onlineNaras))))"

definition trend_abandoned :: "nara_net \<Rightarrow> NaraName \<Rightarrow> string \<Rightarrow> bool" where
  "trend_abandoned net name previousTrend =
     (previousTrend \<noteq> [] \<and>
      (case getNara net name of
         None \<Rightarrow> False
       | Some r \<Rightarrow> ShouldTeaseForTrendAbandon previousTrend (st_Trend (na_Status (nara_at net r)))
                    (trendPopularity net previousTrend) (st_Personality (me_status net))))"

definition checkAndTease ::
  "go_env \<Rightarrow> peers \<Rightarrow> clock \<Rightarrow> NaraName \<Rightarrow> string \<Rightarrow> string \<Rightarrow> nara_net \<Rightarrow> nara_net go" where
  "checkAndTease G P T name previousState previousTrend net =
     (if nn_ReadOnly net \<or> name = meName net then Inr net
      else let obs = getObservation net name; p = st_Personality (me_status net)
           in if ShouldTeaseForRestarts (ck_sec T) obs p
              then Inr (effect [GoTeaseWithDelay name ReasonHighRestarts] net)
              else if ShouldTeaseForNiceNumber G (no_Restarts obs) p
              then Inr (effect [GoTeaseWithDelay name ReasonNiceNumber] net)
              else if ShouldTeaseForComeback obs previousState p
              then Inr (effect [GoTeaseWithDelay name ReasonComeback] net)
              else if trend_abandoned net name previousTrend
              then Inr (effect [GoTeaseWithDelay name ReasonTrendAbandon] net)
              else let boost = (if IsInMyBarrio G T net name then f64_lit 3 1 else f64_lit 1 1)
                   in if ShouldRandomTeaseWithBoost G (nn_Soul net) name (ck_sec T) p boost
                      then go_bind (Tease G P T name ReasonRandom net) (\<lambda>(ok, net1). Inr net1)
                      else Inr net)"

end
