(* ===== verification/Presence.thy ===== *)
theory Presence
  imports Social_Network Event_Typing
begin

text \<open>
  Who is there: \<open>recordObservationOnlineNara\<close> and the handlers that call it, for howdy, hey-there,
  newspaper and chau messages (\<open>observations.go\<close>, \<open>presence_howdy.go\<close>, \<open>presence_starttime.go\<close>,
  \<open>presence_heythere.go\<close>, \<open>presence_newspaper.go\<close>, \<open>presence_chau.go\<close>). Each is cut into
  the stretches of the code, in order. Logging is left out.
\<close>

definition post :: "net_effect \<Rightarrow> nara_net \<Rightarrow> nara_net" where
  \<comment> \<open>\<open>postEvent\<close>: nothing is published in gossip mode\<close>
  "post e net = (if nn_TransportMode net = TransportGossip then net else effect [e] net)"

section \<open>Evidence that a nara is online\<close>

definition add_and_trigger :: "go_env \<Rightarrow> (SyncLedger \<Rightarrow> add_result) \<Rightarrow> nara_net \<Rightarrow> nara_net go" where
  "add_and_trigger G add net =
     go_bind (with_ledger G add net) (\<lambda>(ok, net1). if ok then Projections_Trigger G net1 else Inr net1)"

text \<open>Discovery: \<open>None\<close> when the nara is unknown and the evidence too old.\<close>

definition is_recent :: "clock \<Rightarrow> int \<Rightarrow> bool" where
  "is_recent T timestamp \<longleftrightarrow> i64 (ck_sec T - timestamp) < MissingThresholdSeconds"

definition record_discover :: "go_env \<Rightarrow> clock \<Rightarrow> NaraName \<Rightarrow> int \<Rightarrow> nara_net \<Rightarrow> nara_net option go" where
  "record_discover G T name timestamp net =
     (if getNara net name = None \<and> name \<noteq> meName net
      then if is_recent T timestamp \<or> isBooting net
           then go_bind (import_new G (NewNara name) net) (\<lambda>net1. Inr (Some net1))
           else Inr None
      else Inr (Some net))"

definition record_first_seen ::
  "go_env \<Rightarrow> clock \<Rightarrow> NaraName \<Rightarrow> int \<Rightarrow> NaraObservation \<Rightarrow> nara_net \<Rightarrow> nara_net go" where
  "record_first_seen G T name timestamp observation net =
     (if no_Online observation = [] \<and> name \<noteq> meName net
      then let net1 = more_buzz 3 net
           in if \<not> isBooting net1
              then go_bind (NewFirstSeenObservationEventWithIDs G (ck_nano T) (meName net1) (nw_ID net1) name
                              (getNaraIDByName net1 name) timestamp) (\<lambda>e.
                   go_bind (add_and_trigger G (AddEventWithDedup G e) net1) (\<lambda>net2. Inr (broadcastSSE e net2)))
              else Inr net1
      else Inr net)"

definition record_opinion ::
  "go_env \<Rightarrow> clock \<Rightarrow> NaraName \<Rightarrow> NaraObservation \<Rightarrow> nara_net \<Rightarrow> (NaraObservation \<times> nara_net) go" where
  "record_opinion G T name observation net =
     (if no_StartTime observation = 0 \<or> name = meName net
      then go_bind (opinion_RunOnce G net) (\<lambda>net1.
        let opinion = fst (DeriveOpinionWithValidation G (ck_sec T) (nw_SyncLedger net1) (pj_state (nn_opinion net1)) name);
            ob = observation;
            ob = (if no_StartTime ob = 0 \<and> od_StartTime opinion > 0 then ob\<lparr>no_StartTime := od_StartTime opinion\<rparr> else ob);
            ob = (if no_Restarts ob = 0 \<and> od_Restarts opinion > 0 then ob\<lparr>no_Restarts := od_Restarts opinion\<rparr> else ob);
            ob = (if no_LastRestart ob = 0 \<and> name \<noteq> meName net1 \<and> od_LastRestart opinion > 0
                  then ob\<lparr>no_LastRestart := od_LastRestart opinion\<rparr> else ob);
            ob = (if no_StartTime ob = 0 \<and> name = meName net1 \<and> \<not> isBooting net1
                  then ob\<lparr>no_StartTime := no_LastRestart ob\<rparr> else ob)
        in Inr (ob, net1))
      else Inr (observation, net))"

definition was_restart :: "NaraObservation \<Rightarrow> bool" where
  "was_restart observation \<longleftrightarrow> \<not> isOnline observation \<and> no_Online observation \<noteq> []"

definition record_restart ::
  "NaraName \<Rightarrow> int \<Rightarrow> NaraObservation \<Rightarrow> nara_net \<Rightarrow> NaraObservation \<times> nara_net" where
  "record_restart name timestamp observation net =
     (if was_restart observation
      then let ob = observation\<lparr>no_LastRestart := timestamp, no_Restarts := i64 (no_Restarts observation + 1)\<rparr>;
               net1 = more_buzz 3 net
           in (ob, if \<not> isBooting net1 \<and> name \<noteq> meName net1
                   then effect [GoReportRestart name (no_StartTime ob) (no_Restarts ob)] net1 else net1)
      else (observation, net))"

definition record_status_change ::
  "go_env \<Rightarrow> clock \<Rightarrow> NaraName \<Rightarrow> int \<Rightarrow> string \<Rightarrow> bool \<Rightarrow> nara_net \<Rightarrow> nara_net go" where
  "record_status_change G T name timestamp previousState wasRestart net =
     (if name \<noteq> meName net \<and> \<not> isBooting net \<and>
         is_recent T timestamp \<and> previousState \<noteq> [] \<and> previousState \<noteq> ''ONLINE'' \<and> \<not> wasRestart
      then go_bind (NewStatusChangeObservationEventWithIDs G (ck_nano T) (meName net) (nw_ID net) name
                      (getNaraIDByName net name) ''ONLINE'') (\<lambda>e.
           go_bind (add_and_trigger G (AddEventFiltered G e (st_Personality (me_status net))) net) (\<lambda>net1.
             Inr (broadcastSSE e net1)))
      else Inr net)"

definition known_trend :: "'a network_scheme \<Rightarrow> NaraName \<Rightarrow> string" where
  "known_trend net name =
     (case getNara net name of
        None \<Rightarrow> []
      | Some r \<Rightarrow> if na_Name (nara_at net r) \<noteq> [] then st_Trend (na_Status (nara_at net r)) else [])"

definition seen_as :: "clock \<Rightarrow> int \<Rightarrow> NaraObservation \<Rightarrow> NaraObservation" where
  "seen_as T timestamp ob =
     (if is_recent T timestamp then ob\<lparr>no_Online := ''ONLINE''\<rparr> else ob)\<lparr>no_LastSeen := timestamp\<rparr>"

definition record_known ::
  "go_env \<Rightarrow> peers \<Rightarrow> clock \<Rightarrow> NaraName \<Rightarrow> int \<Rightarrow> nara_net \<Rightarrow> nara_net go" where
  \<comment> \<open>what follows the discovery\<close>
  "record_known G P T name timestamp net =
     (let observation = getObservation net name; previousTrend = known_trend net name
      in go_bind (record_first_seen G T name timestamp observation net) (\<lambda>net1.
         go_bind (record_opinion G T name observation net1) (\<lambda>(ob, net2).
         case record_restart name timestamp ob net2 of (ob', net3) \<Rightarrow>
         go_bind (setObservation name (seen_as T timestamp ob') net3) (\<lambda>net4.
         go_bind (record_status_change G T name timestamp (no_Online observation) (was_restart ob) net4) (\<lambda>net5.
           if \<not> isBooting net5 \<and> name \<noteq> meName net5
           then checkAndTease G P T name (no_Online observation) previousTrend net5
           else Inr net5)))))"

definition recordObservationOnlineNara ::
  "go_env \<Rightarrow> peers \<Rightarrow> clock \<Rightarrow> NaraName \<Rightarrow> int \<Rightarrow> nara_net \<Rightarrow> nara_net go" where
  "recordObservationOnlineNara G P T name timestamp0 net =
     (let timestamp = (if timestamp0 = 0 then ck_sec T else timestamp0)
      in go_bind (record_discover G T name timestamp net) (\<lambda>known.
           case known of None \<Rightarrow> Inr net | Some net1 \<Rightarrow> record_known G P T name timestamp net1))"

section \<open>Start time votes\<close>

definition collectStartTimeVote :: "NaraObservation \<Rightarrow> nat \<Rightarrow> nara_net \<Rightarrow> nara_net" where
  "collectStartTimeVote obs senderUptime net =
     (if no_StartTime obs = 0 then net
      else net\<lparr>nn_startTimeVotes := nn_startTimeVotes net @ [\<lparr>sv_value = no_StartTime obs, sv_uptime = senderUptime\<rparr>]\<rparr>)"

text \<open>Without a coin flip the coin does not matter.\<close>

definition applyStartTimeConsensus :: "go_env \<Rightarrow> nara_net \<Rightarrow> nara_net go" where
  "applyStartTimeConsensus G net =
     (if length (nn_startTimeVotes net) = 0 then Inr net
      else let vals = map (\<lambda>v. \<lparr>cv_value = sv_value v, cv_weight = sv_uptime v\<rparr>) (nn_startTimeVotes net);
               result = consensusByUptime (sort_perm G) 0 vals 60 False
           in if result > 0
              then let obs = getMeObservation net
                   in if no_StartTime obs \<noteq> result then setMeObservation (obs\<lparr>no_StartTime := result\<rparr>) net else Inr net
              else Inr net)"

section \<open>Howdy\<close>

definition howdy_message :: "HowdyEvent \<Rightarrow> string" where
  "howdy_message h = ''howdy:'' @ hw_From h @ '':'' @ hw_To h @ '':'' @ fmt_int (hw_Seq h)"

definition howdy_Sign :: "go_env \<Rightarrow> NaraKeypair \<Rightarrow> HowdyEvent \<Rightarrow> HowdyEvent" where
  "howdy_Sign G kp h = h\<lparr>hw_Signature := SignBase64 G kp (howdy_message h)\<rparr>"

definition howdy_Verify :: "go_env \<Rightarrow> HowdyEvent \<Rightarrow> bool" where
  "howdy_Verify G h =
     (if st_PublicKey (hw_Me h) = [] \<or> hw_Signature h = [] then False
      else case ParsePublicKey G (st_PublicKey (hw_Me h)) of
             None \<Rightarrow> False
           | Some pubKey \<Rightarrow> VerifySignatureBase64 G pubKey (howdy_message h) (hw_Signature h))"

definition see_howdy :: "HowdyEvent \<Rightarrow> howdyCoordinator \<Rightarrow> howdyCoordinator" where
  "see_howdy howdy c =
     (let seen = i64 (hc_seen c + 1)
      in c\<lparr>hc_seen := seen,
           hc_mentioned := insert (hw_From howdy) (hc_mentioned c \<union> set (map ni_Name (hw_Neighbors howdy))),
           hc_armed := hc_armed c \<and> seen < 10\<rparr>)"

definition onHowdySeen :: "HowdyEvent \<Rightarrow> nara_net \<Rightarrow> nara_net" where
  "onHowdySeen howdy net =
     (case nn_howdyCoordinators net (hw_To howdy) of
        None \<Rightarrow> net
      | Some i \<Rightarrow> net\<lparr>nn_coordinators := (nn_coordinators net)[i := see_howdy howdy (nn_coordinators net ! i)]\<rparr>)"

definition startHowdyCoordinator :: "NaraName \<Rightarrow> nara_net \<Rightarrow> nara_net" where
  "startHowdyCoordinator target net =
     (if nn_ReadOnly net then net
      else let i = length (nn_coordinators net);
               coord = \<lparr>hc_target = target, hc_seen = 0, hc_mentioned = {}, hc_armed = True, hc_responded = False\<rparr>
           in effect [AfterHowdyDelay i, AfterHowdyCleanup target]
                (net\<lparr>nn_coordinators := nn_coordinators net @ [coord],
                     nn_howdyCoordinators := (nn_howdyCoordinators net)(target \<mapsto> i)\<rparr>))"

definition howdy_before :: "'a network_scheme \<Rightarrow> NaraName \<Rightarrow> NaraName \<Rightarrow> bool" where
  \<comment> \<open>the order of the candidates\<close>
  "howdy_before net a b =
     (if isOnline (getObservation net a) \<noteq> isOnline (getObservation net b) then isOnline (getObservation net a)
      else no_LastSeen (getObservation net a) < no_LastSeen (getObservation net b))"

definition neighbor_info :: "'a network_scheme \<Rightarrow> nat \<Rightarrow> NeighborInfo" where
  "neighbor_info net r =
     (let nara = nara_at net r
      in \<lparr>ni_Name = na_Name nara, ni_PublicKey = st_PublicKey (na_Status nara), ni_MeshIP = st_MeshIP (na_Status nara),
          ni_ID = st_ID (na_Status nara), ni_Observation = getObservation net (na_Name nara)\<rparr>)"

definition selectNeighborsForHowdy :: "go_env \<Rightarrow> NaraName \<Rightarrow> NaraName set \<Rightarrow> nara_net \<Rightarrow> NeighborInfo list" where
  "selectNeighborsForHowdy G exclude alreadyMentioned net =
     (let maxNeighbors = (if nn_ShortMemory net then 5 else 10 :: nat);
          candidates = filter (\<lambda>name. name \<noteq> meName net \<and> name \<noteq> exclude \<and> name \<notin> alreadyMentioned)
                         (map (\<lambda>(key, r). na_Name (nara_at net r)) (nw_Neighbourhood net));
          sorted = sort_slice (sort_perm G) (howdy_before net) candidates;
          chosen = (if length sorted > maxNeighbors then take maxNeighbors sorted else sorted)
      in List.map_filter (\<lambda>name. map_option (neighbor_info net) (getNara net name)) chosen)"

definition maybeRespondWithHowdy :: "go_env \<Rightarrow> nat \<Rightarrow> nara_net \<Rightarrow> nara_net" where
  "maybeRespondWithHowdy G i net =
     (let coord = nn_coordinators net ! i
      in if hc_responded coord \<or> hc_seen coord \<ge> 10 then net
         else let coord1 = coord\<lparr>hc_responded := True, hc_seen := i64 (hc_seen coord + 1)\<rparr>;
                  net1 = net\<lparr>nn_coordinators := (nn_coordinators net)[i := coord1]\<rparr>;
                  event = howdy_Sign G (my_keypair net1)
                    \<lparr>hw_From = meName net1, hw_To = hc_target coord1, hw_Seq = hc_seen coord1,
                     hw_You = getObservation net1 (hc_target coord1),
                     hw_Neighbors = selectNeighborsForHowdy G (hc_target coord1) (hc_mentioned coord1) net1,
                     hw_Me = me_status net1, hw_Signature = []\<rparr>
              in post (PostHowdy event) net1)"

definition neighbor_nara :: "NeighborInfo \<Rightarrow> Nara" where
  "neighbor_nara neighbor =
     (let n = NewNara (ni_Name neighbor);
          s = (na_Status n)\<lparr>st_PublicKey := ni_PublicKey neighbor, st_MeshIP := ni_MeshIP neighbor\<rparr>;
          s = (if ni_MeshIP neighbor \<noteq> [] then s\<lparr>st_MeshEnabled := True\<rparr> else s)
      in if ni_ID neighbor \<noteq> [] then n\<lparr>na_Status := s\<lparr>st_ID := ni_ID neighbor\<rparr>, na_ID := ni_ID neighbor\<rparr>
         else n\<lparr>na_Status := s\<rparr>)"

definition howdy_neighbor :: "go_env \<Rightarrow> NeighborInfo \<Rightarrow> nara_net \<Rightarrow> nara_net go" where
  "howdy_neighbor G neighbor net =
     go_bind (import_new G (neighbor_nara neighbor) net)
       (mergeExternalObservation (ni_Name neighbor) (ni_Observation neighbor))"

definition howdy_sender :: "HowdyEvent \<Rightarrow> Nara" where
  "howdy_sender howdy = (NewNara (hw_From howdy))\<lparr>na_Status := hw_Me howdy\<rparr>"

definition handleHowdyEvent :: "go_env \<Rightarrow> peers \<Rightarrow> clock \<Rightarrow> HowdyEvent \<Rightarrow> nara_net \<Rightarrow> nara_net go" where
  "handleHowdyEvent G P T howdy net =
     (let net1 = onHowdySeen howdy net
      in if \<not> howdy_Verify G howdy then Inr net1
         else go_bind (import_new G (howdy_sender howdy) net1) (\<lambda>net2.
              go_bind (recordObservationOnlineNara G P T (hw_From howdy) 0 net2) (\<lambda>net3.
              go_bind (if hw_To howdy = meName net3
                       then go_fold (howdy_neighbor G) (hw_Neighbors howdy)
                              (collectStartTimeVote (hw_You howdy) (uint64 (hs_Uptime (st_HostStats (hw_Me howdy)))) net3)
                       else Inr net3) (\<lambda>net4. Inr (more_buzz 1 net4)))))"

section \<open>Hey there\<close>

definition checkAndPushStash :: "NaraID \<Rightarrow> nara_net \<Rightarrow> nara_net" where
  "checkAndPushStash naraID net =
     (if naraID \<noteq> [] \<and> naraID \<in> nn_stashes net then effect [GoPushStash naraID] net else net)"

text \<open>\<open>hey_there\<close> events are checked against the key they carry; unsigned ones pass.\<close>

definition heythere_accepted :: "go_env \<Rightarrow> SyncEvent \<Rightarrow> HeyThereEvent \<Rightarrow> bool go" where
  "heythere_accepted G e h =
     (if IsSigned e \<and> ht_PublicKey h \<noteq> []
      then case ParsePublicKey G (ht_PublicKey h) of None \<Rightarrow> Inr False | Some pubKey \<Rightarrow> VerifyWithKey G e (Some pubKey)
      else Inr True)"

definition heythere_existing :: "go_env \<Rightarrow> HeyThereEvent \<Rightarrow> nat \<Rightarrow> nara_net \<Rightarrow> nara_net" where
  "heythere_existing G h r net =
     (let s0 = na_Status (nara_at net r);
          naraID = st_ID s0;
          new_key = (st_PublicKey s0 = [] \<and> ht_PublicKey h \<noteq> []);
          new_ip = (st_MeshIP s0 = [] \<and> ht_MeshIP h \<noteq> []);
          net1 = set_status r (\<lambda>s.
            let s1 = (if new_key then s\<lparr>st_PublicKey := ht_PublicKey h\<rparr> else s)
            in if new_ip then s1\<lparr>st_MeshIP := ht_MeshIP h, st_MeshEnabled := True\<rparr> else s1) net
      in if (new_key \<or> new_ip) \<and> naraID \<noteq> [] \<and> ht_PublicKey h \<noteq> [] then RegisterKey G naraID (ht_PublicKey h) net1
         else net1)"

definition heythere_nara :: "HeyThereEvent \<Rightarrow> Nara" where
  "heythere_nara h =
     (let n = NewNara (ht_From h)
      in n\<lparr>na_Status := (na_Status n)\<lparr>st_PublicKey := ht_PublicKey h, st_MeshIP := ht_MeshIP h,
             st_MeshEnabled := ht_MeshIP h \<noteq> []\<rparr>\<rparr>)"

definition processHeyThereSyncEvent :: "go_env \<Rightarrow> SyncEvent \<Rightarrow> nara_net \<Rightarrow> nara_net go" where
  "processHeyThereSyncEvent G e net =
     (case (if Service e \<noteq> ServiceHeyThere then None else HeyThere e) of
        None \<Rightarrow> Inr net
      | Some h \<Rightarrow>
          if ht_From h = meName net then Inr net
          else go_bind (heythere_accepted G e h) (\<lambda>accepted.
            if \<not> accepted then Inr net
            else go_bind (case getNara net (ht_From h) of
                            Some r \<Rightarrow> Inr (heythere_existing G h r net)
                          | None \<Rightarrow> import_new G (heythere_nara h) net)
                   (\<lambda>net1. Inr (checkAndPushStash (ht_ID h) net1))))"

definition processHeyThereSyncEvents :: "go_env \<Rightarrow> SyncEvent list \<Rightarrow> nara_net \<Rightarrow> nara_net go" where
  "processHeyThereSyncEvents G evs net = go_fold (processHeyThereSyncEvent G) evs net"

definition emitHeyThereSyncEvent :: "go_env \<Rightarrow> clock \<Rightarrow> nara_net \<Rightarrow> nara_net go" where
  "emitHeyThereSyncEvent G T net =
     go_bind (NewHeyThereSyncEvent G (ck_nano T) (meName net) (FormatPublicKey G (PublicKey (my_keypair net)))
                (st_MeshIP (me_status net)) (nw_ID net) (my_keypair net)) (\<lambda>e.
     go_bind (MergeEvents G [e] (linked_ledger G net)) (\<lambda>(added, l, calls).
       Projections_Trigger G (effect [NotifyListeners calls] (net\<lparr>nw_SyncLedger := l\<rparr>))))"

definition hasMoreRecentHeyThere :: "'a network_scheme \<Rightarrow> NaraName \<Rightarrow> int \<Rightarrow> bool" where
  "hasMoreRecentHeyThere net name thanTimestamp \<longleftrightarrow>
     list_ex (\<lambda>e. (case HeyThere e of None \<Rightarrow> False | Some h \<Rightarrow> ht_From h = name) \<and> Timestamp e > thanTimestamp)
       (GetEventsByService (nw_SyncLedger net) ServiceHeyThere)"

definition store_identity :: "go_env \<Rightarrow> HeyThereEvent \<Rightarrow> nara_net \<Rightarrow> nara_net" where
  "store_identity G h net =
     (if ht_PublicKey h = [] \<and> ht_MeshIP h = [] then net
      else case getNara net (ht_From h) of
             None \<Rightarrow> net
           | Some r \<Rightarrow>
               let nara = nara_at net r;
                   s = na_Status nara;
                   s = (if ht_PublicKey h \<noteq> [] then s\<lparr>st_PublicKey := ht_PublicKey h\<rparr> else s);
                   s = (if ht_MeshIP h \<noteq> [] then s\<lparr>st_MeshIP := ht_MeshIP h, st_MeshEnabled := True\<rparr> else s);
                   nara1 = (if ht_ID h \<noteq> [] then nara\<lparr>na_Status := s\<lparr>st_ID := ht_ID h\<rparr>, na_ID := ht_ID h\<rparr>
                            else nara\<lparr>na_Status := s\<rparr>);
                   naraID = st_ID (na_Status nara1);
                   meshIP = st_MeshIP (na_Status nara1);
                   net1 = set_nara r nara1 net;
                   net2 = (if naraID \<noteq> [] \<and> ht_PublicKey h \<noteq> [] then RegisterKey G naraID (ht_PublicKey h) net1 else net1)
               in if naraID \<noteq> [] \<and> meshIP \<noteq> [] then RegisterPeerIP naraID meshIP net2 else net2)"

definition handleHeyThereEvent :: "go_env \<Rightarrow> peers \<Rightarrow> clock \<Rightarrow> SyncEvent \<Rightarrow> nara_net \<Rightarrow> nara_net go" where
  "handleHeyThereEvent G P T e net =
     (case (if Service e \<noteq> ServiceHeyThere then None else HeyThere e) of
        None \<Rightarrow> Inr net
      | Some h \<Rightarrow>
          go_bind (heythere_accepted G e h) (\<lambda>accepted.
            if \<not> accepted then Inr net
            else go_bind (recordObservationOnlineNara G P T (ht_From h) (Timestamp e sdiv 1000000000) net) (\<lambda>net1.
                 go_bind (with_ledger G (AddEvent G e) net1) (\<lambda>(ok, net2).
                 go_bind (Projections_Trigger G net2) (\<lambda>net3.
                   let net4 = checkAndPushStash (ht_ID h) (broadcastSSE e net3);
                       net5 = store_identity G h net4;
                       net6 = (if \<not> nn_ReadOnly net5 then startHowdyCoordinator (ht_From h) net5 else net5)
                   in Inr (more_buzz 1 net6))))))"

definition heyThere :: "go_env \<Rightarrow> peers \<Rightarrow> clock \<Rightarrow> nara_net \<Rightarrow> nara_net go" where
  "heyThere G P T net =
     (if nn_ReadOnly net then Inr net
      else go_bind (recordObservationOnlineNara G P T (meName net) 0 net) (\<lambda>net1.
        if i64 (ck_sec T - nn_LastHeyThere net1) \<le> 5 then Inr net1
        else let net2 = net1\<lparr>nn_LastHeyThere := ck_sec T\<rparr>
             in go_bind (NewHeyThereSyncEvent G (ck_nano T) (meName net2) (st_PublicKey (me_status net2))
                           (st_MeshIP (me_status net2)) (nw_ID net2) (my_keypair net2)) (\<lambda>e.
                go_bind (with_ledger G (AddEvent G e) (post (PostSyncEvent ''nara/plaza/hey_there'' e) net2)) (\<lambda>(ok, net3).
                go_bind (Projections_Trigger G net3) (\<lambda>net4. Inr (more_buzz 2 net4))))))"

section \<open>Newspapers\<close>

text \<open>\<open>marshal\<close> is \<open>json.Marshal\<close> on a status; \<open>None\<close> is its error.\<close>

definition SignNewspaper :: "go_env \<Rightarrow> (NaraStatus \<Rightarrow> string option) \<Rightarrow> NaraStatus \<Rightarrow> nara_net \<Rightarrow> NewspaperEvent" where
  "SignNewspaper G marshal status net =
     \<lparr>np_From = meName net, np_Status = status,
      np_Signature = SignBase64 G (my_keypair net) (case marshal status of None \<Rightarrow> [] | Some json \<Rightarrow> json), np_StatusJSON = []\<rparr>"

definition newspaper_Verify :: "go_env \<Rightarrow> (NaraStatus \<Rightarrow> string option) \<Rightarrow> NewspaperEvent \<Rightarrow> string \<Rightarrow> bool" where
  "newspaper_Verify G marshal e publicKey =
     (if np_Signature e = [] then False
      else case (if length (np_StatusJSON e) = 0 then marshal (np_Status e) else Some (np_StatusJSON e)) of
             None \<Rightarrow> False
           | Some statusJSON \<Rightarrow> VerifySignatureBase64 G publicKey statusJSON (np_Signature e))"

definition announce :: "go_env \<Rightarrow> peers \<Rightarrow> clock \<Rightarrow> (NaraStatus \<Rightarrow> string option) \<Rightarrow> nara_net \<Rightarrow> nara_net go" where
  "announce G P T marshal net =
     (if nn_ReadOnly net then Inr net
      else go_bind (recordObservationOnlineNara G P T (meName net) 0 net) (\<lambda>net1.
        let slimStatus = (me_status net1)\<lparr>st_Observations := None,
              st_EventStoreByService := GetEventCountsByService (nw_SyncLedger net1),
              st_EventStoreTotal := EventCount (nw_SyncLedger net1),
              st_EventStoreCritical := GetCriticalEventCount (nw_SyncLedger net1)\<rparr>
        in Inr (post (PostNewspaper (''nara/newspaper/'' @ meName net1) (SignNewspaper G marshal slimStatus net1)) net1)))"

text \<open>
  The signature is looked at only to log a warning: a newspaper is refused when the key it carries
  does not parse, not when its signature does not verify. Looking for the key may add a nara.
\<close>

definition newspaper_key :: "go_env \<Rightarrow> peers \<Rightarrow> NewspaperEvent \<Rightarrow> nara_net \<Rightarrow> (bool \<times> nara_net) go" where
  "newspaper_key G P e net =
     (if np_Signature e = [] then Inr (True, net)
      else if st_PublicKey (np_Status e) \<noteq> []
      then Inr (ParsePublicKey G (st_PublicKey (np_Status e)) \<noteq> None, net)
      else go_bind (resolvePublicKeyForNara G P (np_From e) net) (\<lambda>(pubKey, net1). Inr (True, net1)))"

definition newspaper_known :: "NewspaperEvent \<Rightarrow> nat \<Rightarrow> nara_net \<Rightarrow> nara_net go" where
  "newspaper_known e r net =
     go_bind (NaraStatus_setValuesFrom (na_Status (nara_at net r)) (np_Status e)) (\<lambda>s.
       Inr (set_status r (\<lambda>old. s) net))"

definition newspaper_unknown :: "go_env \<Rightarrow> peers \<Rightarrow> clock \<Rightarrow> NewspaperEvent \<Rightarrow> nara_net \<Rightarrow> nara_net go" where
  "newspaper_unknown G P T e net =
     go_bind (NaraStatus_setValuesFrom (na_Status (NewNara (np_From e))) (np_Status e)) (\<lambda>s.
     go_bind (if st_Chattiness (me_status net) > 0 \<and> \<not> nn_ReadOnly net then heyThere G P T net else Inr net) (\<lambda>net1.
       import_new G ((NewNara (np_From e))\<lparr>na_Status := s\<rparr>) net1))"

definition handleNewspaperEvent :: "go_env \<Rightarrow> peers \<Rightarrow> clock \<Rightarrow> NewspaperEvent \<Rightarrow> nara_net \<Rightarrow> nara_net go" where
  "handleNewspaperEvent G P T e net =
     go_bind (newspaper_key G P e net) (\<lambda>(ok, net1).
       if \<not> ok then Inr net1
       else go_bind (case getNara net1 (np_From e) of
                       Some r \<Rightarrow> newspaper_known e r net1
                     | None \<Rightarrow> newspaper_unknown G P T e net1)
              (recordObservationOnlineNara G P T (np_From e) 0))"

section \<open>Chau\<close>

definition chau_accepted :: "go_env \<Rightarrow> peers \<Rightarrow> SyncEvent \<Rightarrow> ChauEvent \<Rightarrow> nara_net \<Rightarrow> (bool \<times> nara_net) go" where
  "chau_accepted G P e c net =
     (if \<not> IsSigned e then Inr (True, net)
      else if ch_PublicKey c \<noteq> []
      then (case ParsePublicKey G (ch_PublicKey c) of
              None \<Rightarrow> Inr (False, net)
            | Some pubKey \<Rightarrow> go_bind (VerifyWithKey G e (Some pubKey)) (\<lambda>ok. Inr (ok, net)))
      else go_bind (resolvePublicKeyForNara G P (ch_From c) net) (\<lambda>(pubKey, net1).
             case pubKey of
               None \<Rightarrow> Inr (True, net1)
             | Some k \<Rightarrow> go_bind (VerifyWithKey G e (Some k)) (\<lambda>ok. Inr (ok, net1))))"

definition chau_identity :: "go_env \<Rightarrow> ChauEvent \<Rightarrow> nara_net \<Rightarrow> nara_net" where
  "chau_identity G c net =
     (case getNara net (ch_From c) of
        None \<Rightarrow> net
      | Some r \<Rightarrow>
          let net1 = (if ch_PublicKey c \<noteq> [] then set_status r (\<lambda>s. s\<lparr>st_PublicKey := ch_PublicKey c\<rparr>) net else net);
              net2 = (if ch_ID c \<noteq> []
                      then let n = nara_at net1 r
                           in set_nara r (n\<lparr>na_Status := (na_Status n)\<lparr>st_ID := ch_ID c\<rparr>, na_ID := ch_ID c\<rparr>) net1
                      else net1)
          in if ch_PublicKey c \<noteq> [] \<and> ch_ID c \<noteq> [] then RegisterKey G (ch_ID c) (ch_PublicKey c) net2 else net2)"

definition mark_offline :: "go_env \<Rightarrow> clock \<Rightarrow> NaraName \<Rightarrow> nara_net \<Rightarrow> nara_net go" where
  "mark_offline G T name net =
     (let observation = getObservation net name
      in go_bind (setObservation name (observation\<lparr>no_Online := ''OFFLINE'', no_LastSeen := ck_sec T\<rparr>) net) (\<lambda>net1.
         go_bind (if no_Online observation = ''ONLINE'' \<and> \<not> isBooting net1
                  then go_bind (NewObservationSocialSyncEvent G (ck_nano T) (meName net1) name ReasonOffline (my_keypair net1)) (\<lambda>e.
                       go_bind (with_ledger G (AddSocialEventFiltered G e (st_Personality (me_status net1))) net1) (\<lambda>(ok, net2).
                         Inr net2))
                  else Inr net1) (\<lambda>net2. Inr (more_buzz 2 net2))))"

definition handleChauEvent :: "go_env \<Rightarrow> peers \<Rightarrow> clock \<Rightarrow> SyncEvent \<Rightarrow> nara_net \<Rightarrow> nara_net go" where
  "handleChauEvent G P T e net =
     (case (if Service e \<noteq> ServiceChau then None else Chau e) of
        None \<Rightarrow> Inr net
      | Some c \<Rightarrow>
          if ch_From c = meName net \<or> ch_From c = [] then Inr net
          else go_bind (chau_accepted G P e c net) (\<lambda>(accepted, net1).
            if \<not> accepted then Inr net1
            else go_bind (with_ledger G (AddEvent G e) (chau_identity G c net1)) (\<lambda>(ok, net2).
                 go_bind (Projections_Trigger G net2) (\<lambda>net3.
                   mark_offline G T (ch_From c) (broadcastSSE e net3)))))"

definition emitChauSyncEvent :: "go_env \<Rightarrow> clock \<Rightarrow> nara_net \<Rightarrow> nara_net go" where
  "emitChauSyncEvent G T net =
     go_bind (NewChauSyncEvent G (ck_nano T) (meName net) (FormatPublicKey G (PublicKey (my_keypair net))) (nw_ID net)
                (my_keypair net)) (\<lambda>e.
     go_bind (MergeEvents G [e] (linked_ledger G net)) (\<lambda>(added, l, calls).
       Projections_Trigger G (effect [NotifyListeners calls] (net\<lparr>nw_SyncLedger := l\<rparr>))))"

definition Network_Chau :: "go_env \<Rightarrow> clock \<Rightarrow> nara_net \<Rightarrow> nara_net go" where
  "Network_Chau G T net =
     (if nn_ReadOnly net then Inr net
      else go_bind (setMeObservation ((getMeObservation net)\<lparr>no_Online := ''OFFLINE'', no_LastSeen := ck_sec T\<rparr>) net) (\<lambda>net1.
           go_bind (NewChauSyncEvent G (ck_nano T) (meName net1) (st_PublicKey (me_status net1)) (nw_ID net1) (my_keypair net1)) (\<lambda>e.
           go_bind (with_ledger G (AddEvent G e) (post (PostSyncEvent ''nara/plaza/chau'' e) net1)) (\<lambda>(ok, net2).
             Projections_Trigger G net2))))"

end
