(* ===== verification/Ingestion.thy ===== *)
theory Ingestion
  imports Presence
begin

text \<open>
  How a batch of events from a peer enters: \<open>MergeSyncEventsWithVerification\<close> of \<open>network.go\<close> and the
  passes it makes over the batch (discovery, hey-there, chau, emitters seen, signatures) before the
  ledger stores it; and the seen event that vouches for a quiet nara.
\<close>

section \<open>Signatures of a batch\<close>

text \<open>
  \<open>e.ID[:8]\<close>, an argument of every log line of \<open>VerifySyncEvent\<close>, evaluated whether or not the line
  is written: an ID of less than eight bytes panics.
\<close>

definition short_ID :: "SyncEvent \<Rightarrow> string go" where
  "short_ID e = (if length (ID e) < 8 then Inl IndexOutOfRange else Inr (take 8 (ID e)))"

definition VerifySyncEvent :: "go_env \<Rightarrow> clock \<Rightarrow> SyncEvent \<Rightarrow> nara_net \<Rightarrow> (bool \<times> nara_net) go" where
  "VerifySyncEvent G T e net =
     (if \<not> IsSigned e
      then go_bind (short_ID e) (\<lambda>i. go_bind (GetActor e) (\<lambda>a. Inr (True, net)))
      else case getPublicKeyForNara G net (Emitter e) of
             None \<Rightarrow>
               if \<not> isBooting net
               then go_bind (short_ID e) (\<lambda>i. Inr (False, resolvePeerBackground T (Emitter e) net))
               else Inr (False, net)
           | Some pubKey \<Rightarrow>
               go_bind (VerifyWithKey G e (Some pubKey)) (\<lambda>ok.
               go_bind (short_ID e) (\<lambda>i. Inr (ok, net))))"

section \<open>The passes over a batch\<close>

text \<open>The loops keep the names they have seen beside the network.\<close>

definition discover_name ::
  "go_env \<Rightarrow> clock \<Rightarrow> SyncEvent \<Rightarrow> NaraName \<Rightarrow> NaraName set \<times> nara_net \<Rightarrow> (NaraName set \<times> nara_net) go" where
  "discover_name G T e name = (\<lambda>(seen, net).
     if name = [] \<or> name = meName net \<or> name \<in> seen then Inr (seen, net)
     else if getNara net name = None \<and>
             (i64 (ck_sec T - Timestamp e sdiv 1000000000) < MissingThresholdSeconds \<or> isBooting net \<or>
              Service e = ServiceHeyThere)
          then go_bind (import_new G (NewNara name) net) (\<lambda>net1. Inr (insert name seen, net1))
          else Inr (insert name seen, net))"

definition discover_event ::
  "go_env \<Rightarrow> clock \<Rightarrow> SyncEvent \<Rightarrow> NaraName set \<times> nara_net \<Rightarrow> (NaraName set \<times> nara_net) go" where
  "discover_event G T e s =
     go_bind (GetActor e) (\<lambda>actor. go_bind (GetTarget e) (\<lambda>target.
       go_fold (discover_name G T e) [Emitter e, actor, target] s))"

definition discoverNarasFromEvents :: "go_env \<Rightarrow> clock \<Rightarrow> SyncEvent list \<Rightarrow> nara_net \<Rightarrow> nara_net go" where
  "discoverNarasFromEvents G T evs net =
     go_bind (go_fold (discover_event G T) evs ({}, net)) (\<lambda>(seen, net1). Inr net1)"

definition chau_offline :: "clock \<Rightarrow> NaraName \<Rightarrow> nara_net \<Rightarrow> nara_net go" where
  "chau_offline T name net =
     (let observation = getObservation net name
      in if no_Online observation = ''ONLINE''
         then go_bind (setObservation name (observation\<lparr>no_Online := ''OFFLINE'', no_LastSeen := ck_sec T\<rparr>) net)
                (\<lambda>net1. Inr (more_buzz 2 net1))
         else Inr net)"

definition processChauSyncEvent :: "go_env \<Rightarrow> clock \<Rightarrow> SyncEvent \<Rightarrow> nara_net \<Rightarrow> nara_net go" where
  "processChauSyncEvent G T e net =
     (case (if Service e \<noteq> ServiceChau then None else Chau e) of
        None \<Rightarrow> Inr net
      | Some c \<Rightarrow>
          if ch_From c = meName net then Inr net
          else go_bind (VerifySyncEvent G T e net) (\<lambda>(ok, net1).
            if \<not> ok then Inr net1
            else if hasMoreRecentHeyThere net1 (ch_From c) (Timestamp e) then Inr net1
            else chau_offline T (ch_From c) net1))"

definition processChauSyncEvents :: "go_env \<Rightarrow> clock \<Rightarrow> SyncEvent list \<Rightarrow> nara_net \<Rightarrow> nara_net go" where
  "processChauSyncEvents G T evs net =
     (if isBooting net then Inr net else go_fold (processChauSyncEvent G T) evs net)"

definition shutting_down :: "SyncEvent list \<Rightarrow> NaraName set" where
  "shutting_down evs =
     set (List.map_filter (\<lambda>e. if Service e \<noteq> ServiceChau then None
                               else case Chau e of None \<Rightarrow> None
                                    | Some c \<Rightarrow> if ch_From c \<noteq> [] then Some (ch_From c) else None) evs)"

definition mark_emitter ::
  "go_env \<Rightarrow> peers \<Rightarrow> clock \<Rightarrow> NaraName set \<Rightarrow> SyncEvent \<Rightarrow> NaraName set \<times> nara_net
   \<Rightarrow> (NaraName set \<times> nara_net) go" where
  "mark_emitter G P T leaving e = (\<lambda>(seen, net).
     if Emitter e = [] \<or> Emitter e = meName net \<or> Emitter e \<in> seen then Inr (seen, net)
     else if Service e = ServiceChau then Inr (seen, net)
     else if Emitter e \<in> leaving then Inr (seen, net)
     else if no_Online (getObservation net (Emitter e)) = ''ONLINE'' then Inr (insert (Emitter e) seen, net)
     else go_bind (recordObservationOnlineNara G P T (Emitter e) (Timestamp e sdiv 1000000000) net)
            (\<lambda>net1. Inr (insert (Emitter e) seen, net1)))"

definition markEmittersAsSeen :: "go_env \<Rightarrow> peers \<Rightarrow> clock \<Rightarrow> SyncEvent list \<Rightarrow> nara_net \<Rightarrow> nara_net go" where
  "markEmittersAsSeen G P T evs net =
     (if isBooting net then Inr net
      else go_bind (go_fold (mark_emitter G P T (shutting_down evs)) evs ({}, net)) (\<lambda>(seen, net1). Inr net1))"

section \<open>Merging\<close>

definition count_warning :: "go_env \<Rightarrow> clock \<Rightarrow> SyncEvent \<Rightarrow> int \<times> nara_net \<Rightarrow> (int \<times> nara_net) go" where
  "count_warning G T e = (\<lambda>(warned, net).
     go_bind (VerifySyncEvent G T e net) (\<lambda>(ok, net1). Inr (if ok then warned else warned + 1, net1)))"

definition MergeSyncEventsWithVerification ::
  "go_env \<Rightarrow> peers \<Rightarrow> clock \<Rightarrow> SyncEvent list \<Rightarrow> nara_net \<Rightarrow> (int \<times> int \<times> nara_net) go" where
  "MergeSyncEventsWithVerification G P T evs net =
     go_bind (discoverNarasFromEvents G T evs net) (\<lambda>net1.
     go_bind (processHeyThereSyncEvents G evs net1) (\<lambda>net2.
     go_bind (processChauSyncEvents G T evs net2) (\<lambda>net3.
     go_bind (markEmittersAsSeen G P T evs net3) (\<lambda>net4.
     go_bind (go_fold (count_warning G T) evs (0, net4)) (\<lambda>(warned, net5).
     go_bind (MergeEvents G evs (linked_ledger G net5)) (\<lambda>(added, l, calls).
       let net6 = effect [NotifyListeners calls] (net5\<lparr>nw_SyncLedger := l\<rparr>)
       in go_bind (if added > 0 then Projections_Trigger G net6 else Inr net6)
            (\<lambda>net7. Inr (added, warned, net7))))))))"

section \<open>Vouching\<close>

text \<open>
  The scan runs from the newest entry; it stops early only when both answers are known, so they
  are whether some recent event is the subject's and whether some recent one is our vouching.
\<close>

definition vouched_by_me :: "int \<Rightarrow> NaraName \<Rightarrow> NaraName \<Rightarrow> SyncEvent \<Rightarrow> bool" where
  "vouched_by_me now me subject e \<longleftrightarrow>
     i64 (now - Timestamp e) < 120000000000 \<and> Service e = ServiceSeen \<and>
     (case Seen e of None \<Rightarrow> False | Some s \<Rightarrow> se_Observer s = me \<and> se_Subject s = subject)"

fun scan_vouching :: "int \<Rightarrow> NaraName \<Rightarrow> NaraName \<Rightarrow> SyncEvent list \<Rightarrow> bool \<times> bool \<Rightarrow> bool \<times> bool" where
  "scan_vouching now me subject [] st = st"
| "scan_vouching now me subject (e # es) (silent, emitted) =
     (if i64 (now - Timestamp e) > 300000000000 then scan_vouching now me subject es (silent, emitted)
      else let silent' = (if silent \<and> Emitter e = subject then False else silent);
               emitted' = (if \<not> emitted \<and> vouched_by_me now me subject e then True else emitted)
           in if \<not> silent' \<and> emitted' then (silent', emitted') else scan_vouching now me subject es (silent', emitted'))"

definition emitSeenEvent :: "go_env \<Rightarrow> clock \<Rightarrow> NaraName \<Rightarrow> string \<Rightarrow> nara_net \<Rightarrow> nara_net go" where
  "emitSeenEvent G T subject via net =
     (if isBooting net then Inr net
      else if subject = meName net then Inr net
      else if no_Online (getObservation net subject) = ''ONLINE'' then Inr net
      else case scan_vouching (ck_nano T) (meName net) subject (rev (GetAllEvents (nw_SyncLedger net))) (True, False) of
             (subjectIsQuiet, weEmittedRecently) \<Rightarrow>
               if \<not> subjectIsQuiet then Inr net
               else if weEmittedRecently then Inr net
               else go_bind (NewSeenSyncEvent G (ck_nano T) (meName net) subject via (my_keypair net)) (\<lambda>e.
                    go_bind (with_ledger G (AddEvent G e) net) (\<lambda>(ok, net1). Projections_Trigger G net1)))"

definition InitGossipIdentity :: "go_env \<Rightarrow> clock \<Rightarrow> nara_net \<Rightarrow> nara_net go" where
  "InitGossipIdentity G T net =
     (if nn_TransportMode net = TransportGossip then emitHeyThereSyncEvent G T net else Inr net)"

end
