(* ===== verification/Souls.thy ===== *)
theory Souls
  imports Crypto Go_Json Go_Float
begin

text \<open>
  Souls, names and IDs: \<open>identity/soul.go\<close>, \<open>identity/names.go\<close> and \<open>identity/detection.go\<close>. A soul
  is a seed and a tag that bonds it to a name. Base58 and HKDF are not in \<open>src/\<close> and \<open>math/rand\<close> is
  known by its contract only: they are the record \<open>soul_env\<close>. HMAC is written out over SHA-256.
\<close>

section \<open>Outside\<close>

text \<open>
  \<open>hkdf32 secret salt info\<close> is the first 32 bytes of the HKDF stream; \<open>rand_Intn seed bounds\<close> what
  the last of a sequence of calls \<open>r.Intn(n)\<close> returns on a generator made from the seed;
  \<open>ed25519_public\<close> is the public key of a seed (a private key is the seed followed by it).
\<close>

record soul_env =
  b58_Encode :: "string \<Rightarrow> string"
  b58_Decode :: "string \<Rightarrow> string"
  hkdf32 :: "string \<Rightarrow> string \<Rightarrow> string \<Rightarrow> string"
  rand_Intn :: "int \<Rightarrow> nat list \<Rightarrow> nat"
  ed25519_public :: "string \<Rightarrow> string"

definition soul_env_ok :: "soul_env \<Rightarrow> bool" where
  "soul_env_ok S \<longleftrightarrow>
     (\<forall>bs. b58_Decode S (b58_Encode S bs) = bs) \<and>
     (\<forall>bs. b58_Encode S bs = [] \<longrightarrow> bs = []) \<and>
     (\<forall>secret salt info. length (hkdf32 S secret salt info) = 32) \<and>
     (\<forall>seed bounds n. n > 0 \<longrightarrow> rand_Intn S seed (bounds @ [n]) < n)"

definition be64_prefix :: "string \<Rightarrow> nat" where
  \<comment> \<open>\<open>binary.BigEndian.Uint64\<close> of the first eight bytes\<close>
  "be64_prefix bs = foldl (\<lambda>n c. n * 256 + of_char c) 0 (take 8 bs)"

section \<open>HMAC\<close>

text \<open>\<open>crypto/hmac\<close> over SHA-256, for keys of at most the block size of 64 bytes.\<close>

definition xor_byte :: "nat \<Rightarrow> char \<Rightarrow> char" where
  "xor_byte k c = char_of (xor (of_char c) k :: nat)"

definition hmac_sha256 :: "go_env \<Rightarrow> string \<Rightarrow> string \<Rightarrow> string" where
  "hmac_sha256 G key message =
     (let block = key @ replicate (64 - length key) (char_of (0 :: nat))
      in sha256 G (map (xor_byte 92) block @ sha256 G (map (xor_byte 54) block @ message)))"

section \<open>Souls\<close>

definition SeedLen :: nat where "SeedLen = 32"
definition TagLen :: nat where "TagLen = 8"
definition SoulLen :: nat where "SoulLen = SeedLen + TagLen"

record SoulV1 =
  Seed :: string
  Tag :: string

definition zero_soul :: SoulV1 where
  "zero_soul = \<lparr>Seed = replicate SeedLen (char_of (0 :: nat)), Tag = replicate TagLen (char_of (0 :: nat))\<rparr>"

definition soul_wf :: "SoulV1 \<Rightarrow> bool" where
  \<comment> \<open>the arrays of the struct have these lengths\<close>
  "soul_wf soul \<longleftrightarrow> length (Seed soul) = SeedLen \<and> length (Tag soul) = TagLen"

definition FormatSoul :: "soul_env \<Rightarrow> SoulV1 \<Rightarrow> string" where
  "FormatSoul S soul = b58_Encode S (Seed soul @ Tag soul)"

definition ParseSoul :: "soul_env \<Rightarrow> string \<Rightarrow> SoulV1 option" where
  "ParseSoul S s =
     (let data = b58_Decode S s
      in if length data \<noteq> SoulLen then None
         else Some \<lparr>Seed = take SeedLen data, Tag = drop SeedLen data\<rparr>)"

definition ComputeTag :: "go_env \<Rightarrow> string \<Rightarrow> NaraName \<Rightarrow> string" where
  "ComputeTag G seed name = take TagLen (hmac_sha256 G seed (''nara:name:v2:'' @ name))"

definition ValidateBond :: "go_env \<Rightarrow> SoulV1 \<Rightarrow> NaraName \<Rightarrow> bool" where
  "ValidateBond G soul name = (if name = [] then False else Tag soul = ComputeTag G (Seed soul) name)"

section \<open>Names\<close>

definition adjectives :: "string list" where
  "adjectives = [''mystic'', ''dandelion'', ''quirky'', ''glitter'', ''neon'', ''fuzzy'', ''cosmic'', ''bouncy'',
     ''mellow'', ''spicy'', ''frozen'', ''velvet'', ''salty'', ''grumpy'', ''dizzy'', ''funky'', ''electric'', ''pixel'',
     ''golden'', ''silver'', ''crimson'', ''azure'', ''emerald'', ''vivid'', ''silent'', ''noisy'', ''sparkly'', ''cyber'',
     ''brave'', ''calm'', ''wild'', ''tame'', ''fast'', ''slow'', ''heavy'', ''light'', ''clumsy'', ''fancy'', ''magical'',
     ''dreamy'', ''clover'', ''vibe'', ''chill'', ''sociable'', ''agreeable'', ''buzzing'', ''nara'', ''stretchy'', ''stinky'',
     ''wobbly'', ''tiny'', ''giga'', ''mega'', ''ultra'', ''hyper'', ''turbo'', ''digital'', ''analog'', ''shimmering'']"

definition nouns :: "string list" where
  "nouns = [''pizza'', ''burger'', ''icecream'', ''donut'', ''cupcake'', ''lollipop'', ''candy'', ''chocolate'',
     ''popcorn'', ''salt'', ''egg'', ''waffle'', ''pancake'', ''butter'', ''clover'', ''flower'',
     ''cat'', ''dog'', ''fox'', ''owl'', ''bear'', ''wolf'', ''tiger'', ''lion'', ''panda'', ''otter'', ''hamster'',
     ''robot'', ''alien'', ''ghost'', ''wizard'', ''ninja'', ''pirate'', ''zombie'', ''vampire'', ''astronaut'', ''nara'',
     ''mushroom'', ''crystal'', ''comet'', ''star'', ''moon'', ''sun'', ''planet'', ''galaxy'', ''nebula'', ''meteor'',
     ''cactus'', ''fern'', ''moss'', ''tree'', ''leaf'', ''sprout'', ''seed'', ''berry'', ''fruit'', ''veggie'']"

text \<open>\<open>%03d\<close> of a number below 1000.\<close>

definition three_digits :: "nat \<Rightarrow> string" where
  "three_digits n = replicate (3 - length (fmt_nat n)) CHR ''0'' @ fmt_nat n"

definition signed64 :: "nat \<Rightarrow> int" where
  \<comment> \<open>\<open>int64\<close> of a \<open>uint64\<close>\<close>
  "signed64 n = i64 (int n)"

definition GenerateName :: "go_env \<Rightarrow> soul_env \<Rightarrow> string \<Rightarrow> string" where
  "GenerateName G S i =
     (if i = [] then ''unnamed-nara''
      else let seed = signed64 (be64_prefix (sha256 G i));
               a = length adjectives; n = length nouns;
               adj = adjectives ! rand_Intn S seed [a];
               noun = nouns ! rand_Intn S seed [a, n];
               suffix = rand_Intn S seed [a, n, 1000]
           in adj @ ''-'' @ noun @ ''-'' @ three_digits suffix)"

definition HashBytes :: "go_env \<Rightarrow> string \<Rightarrow> string" where
  "HashBytes G data = sha256 G data"

definition HashHardware :: "go_env \<Rightarrow> string \<Rightarrow> string" where
  "HashHardware G fragments = HashBytes G fragments"

text \<open>\<open>strings.ToLower\<close> and \<open>strings.Contains\<close>, on ASCII.\<close>

definition lower :: "char \<Rightarrow> char" where
  "lower c = (let n = of_char c :: nat in if 65 \<le> n \<and> n \<le> 90 then char_of (n + 32) else c)"

definition contains :: "string \<Rightarrow> string \<Rightarrow> bool" where
  "contains s sub \<longleftrightarrow> list_ex (\<lambda>i. take (length sub) (drop i s) = sub) [0..<Suc (length s)]"

definition genericNames :: "string list" where
  "genericNames = [''localhost'', ''raspberrypi'', ''raspberry'', ''debian'', ''ubuntu'', ''nixos'', ''nara'', ''Mac'']"

text \<open>The pattern \<open>^[0-9a-f]{12,}$\<close>.\<close>

definition containerIDPattern :: "string \<Rightarrow> bool" where
  "containerIDPattern s \<longleftrightarrow> length s \<ge> 12 \<and> list_all (\<lambda>c. c \<in> set ''0123456789abcdef'') s"

definition IsGenericHostname :: "string \<Rightarrow> bool" where
  "IsGenericHostname hostname =
     (if list_ex (\<lambda>name. contains (map lower hostname) name) genericNames then True
      else containerIDPattern (map lower hostname))"

section \<open>Native souls\<close>

definition hex_lower :: "string \<Rightarrow> string" where
  \<comment> \<open>\<open>hex.EncodeToString\<close>\<close>
  "hex_lower bs = concat (map (\<lambda>c. [''0123456789abcdef'' ! (of_char c div 16), ''0123456789abcdef'' ! (of_char c mod 16)]) bs)"

definition NativeSoulCustom :: "go_env \<Rightarrow> soul_env \<Rightarrow> string \<Rightarrow> NaraName \<Rightarrow> SoulV1" where
  "NativeSoulCustom G S hwFingerprint name =
     (let seed = hkdf32 S hwFingerprint ''nara:soul:v2'' (''seed:custom:'' @ name)
      in \<lparr>Seed = seed, Tag = ComputeTag G seed name\<rparr>)"

definition NameFromSoul :: "go_env \<Rightarrow> soul_env \<Rightarrow> SoulV1 \<Rightarrow> NaraName" where
  "NameFromSoul G S soul = GenerateName G S (hex_lower (Seed soul))"

definition NativeSoulGenerated :: "go_env \<Rightarrow> soul_env \<Rightarrow> string \<Rightarrow> SoulV1" where
  "NativeSoulGenerated G S hwFingerprint =
     (let seed = hkdf32 S hwFingerprint ''nara:soul:v2'' ''seed:generated'';
          name = GenerateName G S (hex_lower seed)
      in \<lparr>Seed = seed, Tag = ComputeTag G seed name\<rparr>)"

section \<open>Keys\<close>

definition DeriveKeypair :: "soul_env \<Rightarrow> SoulV1 \<Rightarrow> NaraKeypair" where
  "DeriveKeypair S soul =
     (let publicKey = ed25519_public S (Seed soul)
      in \<lparr>PrivateKey = Seed soul @ publicKey, PublicKey = publicKey\<rparr>)"

definition DeriveEncryptionKeys :: "soul_env \<Rightarrow> string \<Rightarrow> string" where
  \<comment> \<open>the field \<open>SymmetricKey\<close>\<close>
  "DeriveEncryptionKeys S privateKey = hkdf32 S (take 32 privateKey) ''nara:stash:v1'' ''symmetric''"

section \<open>Identity\<close>

definition ComputeNaraID :: "go_env \<Rightarrow> soul_env \<Rightarrow> string \<Rightarrow> NaraName \<Rightarrow> NaraID option" where
  \<comment> \<open>\<open>None\<close> is the error return\<close>
  "ComputeNaraID G S soulBase58 name =
     (let soulBytes = b58_Decode S soulBase58
      in if length soulBytes = 0 then None
         else if length soulBytes \<noteq> SoulLen then None
         else Some (b58_Encode S (sha256 G (soulBytes @ name))))"

record IdentityResult =
  ir_Name :: NaraName
  ir_Soul :: SoulV1
  ir_ID :: NaraID
  ir_IsValidBond :: bool
  ir_IsNative :: bool

text \<open>The soul and the name to use; \<open>None\<close> when the soul given does not parse.\<close>

definition choose_soul ::
  "go_env \<Rightarrow> soul_env \<Rightarrow> string \<Rightarrow> string \<Rightarrow> string \<Rightarrow> (SoulV1 \<times> NaraName) option" where
  "choose_soul G S effectiveName soulArg hwFingerprint =
     (let generatedMode = IsGenericHostname effectiveName
      in if soulArg \<noteq> []
         then case ParseSoul S soulArg of
                None \<Rightarrow> None
              | Some soul \<Rightarrow> Some (soul, if generatedMode then NameFromSoul G S soul else effectiveName)
         else if generatedMode
         then let soul = NativeSoulGenerated G S hwFingerprint in Some (soul, NameFromSoul G S soul)
         else Some (NativeSoulCustom G S hwFingerprint effectiveName, effectiveName))"

text \<open>The panic of \<open>DetermineIdentity\<close> when no ID can be computed is \<open>ExplicitPanic\<close>.\<close>

definition DetermineIdentity ::
  "go_env \<Rightarrow> soul_env \<Rightarrow> NaraName \<Rightarrow> string \<Rightarrow> string \<Rightarrow> string \<Rightarrow> IdentityResult go" where
  "DetermineIdentity G S nameArg soulArg hostname hwFingerprint =
     (let effectiveName = (if nameArg = [] then hostname else nameArg);
          generatedMode = IsGenericHostname effectiveName
      in case choose_soul G S effectiveName soulArg hwFingerprint of
           None \<Rightarrow> Inr \<lparr>ir_Name = effectiveName, ir_Soul = zero_soul, ir_ID = [], ir_IsValidBond = False, ir_IsNative = False\<rparr>
         | Some (soul, name) \<Rightarrow>
             let expectedSoul = (if generatedMode then NativeSoulGenerated G S hwFingerprint
                                 else NativeSoulCustom G S hwFingerprint name)
             in case ComputeNaraID G S (FormatSoul S soul) name of
                  None \<Rightarrow> Inl ExplicitPanic
                | Some i \<Rightarrow> Inr \<lparr>ir_Name = name, ir_Soul = soul, ir_ID = i, ir_IsValidBond = ValidateBond G soul name,
                    ir_IsNative = (Seed soul = Seed expectedSoul \<and> Tag soul = Tag expectedSoul)\<rparr>)"

section \<open>Facts\<close>

text \<open>SHA-256 returns 32 bytes.\<close>

definition hash_size :: "go_env \<Rightarrow> bool" where
  "hash_size G \<longleftrightarrow> (\<forall>m. length (sha256 G m) = 32)"

lemma length_ComputeTag: "hash_size G \<Longrightarrow> length (ComputeTag G seed name) = TagLen"
  by (simp add: ComputeTag_def hmac_sha256_def Let_def hash_size_def TagLen_def)

lemma native_souls_wf:
  assumes "hash_size G" and "soul_env_ok S"
  shows "soul_wf (NativeSoulCustom G S hw name)" and "soul_wf (NativeSoulGenerated G S hw)"
  using assms by (simp_all add: NativeSoulCustom_def NativeSoulGenerated_def soul_wf_def length_ComputeTag
      soul_env_ok_def SeedLen_def Let_def)

lemma native_souls_bonded:
  assumes "name \<noteq> []"
  shows "ValidateBond G (NativeSoulCustom G S hw name) name"
  using assms by (simp add: ValidateBond_def NativeSoulCustom_def Let_def)

lemma generated_name_nonempty: "GenerateName G S i \<noteq> []"
  by (simp add: GenerateName_def Let_def)

lemma generated_soul_bonded:
  "ValidateBond G (NativeSoulGenerated G S hw) (NameFromSoul G S (NativeSoulGenerated G S hw))"
  by (simp add: ValidateBond_def NativeSoulGenerated_def NameFromSoul_def Let_def generated_name_nonempty)

lemma ParseSoul_FormatSoul:
  assumes "soul_env_ok S" and "soul_wf soul"
  shows "ParseSoul S (FormatSoul S soul) = Some soul"
  using assms by (cases soul) (simp add: ParseSoul_def FormatSoul_def soul_env_ok_def soul_wf_def SoulLen_def Let_def)

lemma FormatSoul_ParseSoul_wf:
  assumes "ParseSoul S s = Some soul"
  shows "soul_wf soul"
  using assms by (auto simp: ParseSoul_def soul_wf_def SoulLen_def Let_def split: if_splits)

lemma FormatSoul_nonempty:
  assumes "soul_env_ok S" and "soul_wf soul"
  shows "FormatSoul S soul \<noteq> []"
proof
  assume "FormatSoul S soul = []"
  then have "Seed soul @ Tag soul = []" using assms(1) by (simp only: soul_env_ok_def FormatSoul_def)
  then show False using assms(2) by (simp add: soul_wf_def SeedLen_def)
qed

lemma ComputeNaraID_FormatSoul:
  assumes "soul_env_ok S" and "soul_wf soul"
  shows "ComputeNaraID G S (FormatSoul S soul) name = Some (b58_Encode S (sha256 G (Seed soul @ Tag soul @ name)))"
proof -
  have "Seed soul \<noteq> []" using assms(2) by (auto simp: soul_wf_def SeedLen_def)
  then show ?thesis
    using assms by (simp add: ComputeNaraID_def FormatSoul_def soul_env_ok_def soul_wf_def SoulLen_def Let_def)
qed

lemma choose_soul_wf:
  assumes "hash_size G" and "soul_env_ok S" and "choose_soul G S effectiveName soulArg hw = Some (soul, name)"
  shows "soul_wf soul"
  using assms native_souls_wf [OF assms(1,2)] FormatSoul_ParseSoul_wf
  by (auto simp: choose_soul_def Let_def split: if_splits option.splits)

text \<open>No identity is refused with a panic.\<close>

lemma DetermineIdentity_total:
  assumes "hash_size G" and "soul_env_ok S"
  shows "\<exists>r. DetermineIdentity G S nameArg soulArg hostname hw = Inr r"
proof (cases "choose_soul G S (if nameArg = [] then hostname else nameArg) soulArg hw")
  case None
  then show ?thesis by (simp add: DetermineIdentity_def Let_def)
next
  case (Some r)
  then obtain soul name where r: "r = (soul, name)" "soul_wf soul" using choose_soul_wf [OF assms] by (cases r) auto
  show ?thesis using Some by (simp add: DetermineIdentity_def Let_def r ComputeNaraID_FormatSoul [OF assms(2) r(2)])
qed

text \<open>The lower-cased host name never contains the entry \<open>Mac\<close>.\<close>

lemma lower_not_upper: "lower c \<noteq> CHR ''M''"
proof
  assume l: "lower c = CHR ''M''"
  show False
  proof (cases "65 \<le> (of_char c :: nat) \<and> (of_char c :: nat) \<le> 90")
    case True
    then have "of_char (char_of (of_char c + 32 :: nat)) = (77 :: nat)" using l by (simp add: lower_def Let_def)
    then show False using True by (simp add: of_char_of)
  next
    case False
    then have "c = CHR ''M''" using l by (simp add: lower_def Let_def split: if_splits)
    then show False using False by simp
  qed
qed

lemma contains_set: "contains s sub \<Longrightarrow> set sub \<subseteq> set s"
  unfolding contains_def list_ex_iff by (metis (no_types, lifting) order.trans set_drop_subset set_take_subset)

lemma mac_never_matches: "\<not> contains (map lower hostname) ''Mac''"
  using contains_set [of "map lower hostname" "''Mac''"] lower_not_upper by fastforce

section \<open>Properties\<close>

text \<open>The identity that a soul and a name make.\<close>

definition identity_of :: "go_env \<Rightarrow> soul_env \<Rightarrow> SoulV1 \<Rightarrow> NaraName \<Rightarrow> bool \<Rightarrow> IdentityResult" where
  "identity_of G S soul name native =
     \<lparr>ir_Name = name, ir_Soul = soul, ir_ID = b58_Encode S (sha256 G (Seed soul @ Tag soul @ name)),
      ir_IsValidBond = ValidateBond G soul name, ir_IsNative = native\<rparr>"

lemma DetermineIdentity_native:
  assumes "hash_size G" and "soul_env_ok S"
  defines "hw_soul effective hw \<equiv>
    (if IsGenericHostname effective then NativeSoulGenerated G S hw else NativeSoulCustom G S hw effective)"
    and "hw_name effective hw \<equiv>
    (if IsGenericHostname effective then NameFromSoul G S (NativeSoulGenerated G S hw) else effective)"
  shows "DetermineIdentity G S nameArg [] hostname hw =
    Inr (identity_of G S (hw_soul (if nameArg = [] then hostname else nameArg) hw)
           (hw_name (if nameArg = [] then hostname else nameArg) hw) True)"
  using native_souls_wf [OF assms(1,2)]
  by (simp add: DetermineIdentity_def choose_soul_def Let_def ComputeNaraID_FormatSoul [OF assms(2)] identity_of_def
      hw_soul_def hw_name_def)

lemma DetermineIdentity_given:
  assumes "hash_size G" and "soul_env_ok S" and "soul_wf soul"
    and "IsGenericHostname (if nameArg = [] then hostname else nameArg) = generic"
  shows "\<exists>native. DetermineIdentity G S nameArg (FormatSoul S soul) hostname hw =
    Inr (identity_of G S soul (if generic then NameFromSoul G S soul else if nameArg = [] then hostname else nameArg) native)"
  using assms FormatSoul_nonempty [OF assms(2,3)]
  by (auto simp: DetermineIdentity_def choose_soul_def Let_def ComputeNaraID_FormatSoul [OF assms(2,3)]
      ParseSoul_FormatSoul [OF assms(2,3)] identity_of_def)

text \<open>
  C34: A nara keeps its identity when it moves. The identity that a machine makes up for a nonempty name is
  bonded and native; and its soul, written out and given to another machine with the same name, or to
  one that has no name of its own either, makes the same name, the same ID and a valid bond there.
\<close>

theorem identity_survives_move:
  assumes "hash_size G" and "soul_env_ok S"
    and "nameArg \<noteq> [] \<or> (IsGenericHostname hostname \<and> IsGenericHostname hostname')"
    and "DetermineIdentity G S nameArg [] hostname hw = Inr r"
  shows "ir_IsValidBond r \<and> ir_IsNative r \<and>
    (\<exists>r'. DetermineIdentity G S nameArg (FormatSoul S (ir_Soul r)) hostname' hw' = Inr r' \<and>
      ir_Name r' = ir_Name r \<and> ir_ID r' = ir_ID r \<and> ir_Soul r' = ir_Soul r \<and> ir_IsValidBond r')"
proof -
  let ?e = "if nameArg = [] then hostname else nameArg" and ?e' = "if nameArg = [] then hostname' else nameArg"
  let ?g = "IsGenericHostname ?e"
  define soul where "soul = (if ?g then NativeSoulGenerated G S hw else NativeSoulCustom G S hw ?e)"
  define name where "name = (if ?g then NameFromSoul G S soul else ?e)"
  have ne: "?g \<or> ?e \<noteq> []" using assms(3) by auto
  have r: "r = identity_of G S soul name True"
    using assms(4) by (simp add: DetermineIdentity_native [OF assms(1,2)] soul_def name_def split: if_splits)
  have bond: "ValidateBond G soul name"
    using ne by (auto simp: soul_def name_def native_souls_bonded generated_soul_bonded)
  have wf: "soul_wf soul" using native_souls_wf [OF assms(1,2)] by (simp add: soul_def)
  have native: "ir_IsValidBond r" "ir_IsNative r" using r bond by (simp_all add: identity_of_def)
  have g: "IsGenericHostname ?e' = ?g" using assms(3) by auto
  have n: "(if ?g then NameFromSoul G S soul else ?e') = name" using assms(3) by (auto simp: name_def)
  obtain native where "DetermineIdentity G S nameArg (FormatSoul S soul) hostname' hw' = Inr (identity_of G S soul name native)"
    using DetermineIdentity_given [OF assms(1,2) wf g, where hw = hw'] unfolding n by blast
  then show ?thesis using native bond by (simp add: r identity_of_def)
qed

definition fit :: "nat \<Rightarrow> string \<Rightarrow> string" where
  "fit n s = take n (s @ replicate n CHR ''.'')"

lemma length_fit [simp]: "length (fit n s) = n"
  by (simp add: fit_def del: take_append)

definition demo_hash_env :: go_env where
  "demo_hash_env = demo_env\<lparr>sha256 := fit 32\<rparr>"

definition demo_souls :: soul_env where
  "demo_souls = \<lparr>b58_Encode = (\<lambda>s. s), b58_Decode = (\<lambda>s. s), hkdf32 = (\<lambda>secret salt info. fit 32 (secret @ info)),
     rand_Intn = (\<lambda>seed bounds. 0), ed25519_public = (\<lambda>s. s)\<rparr>"

lemma demo_souls_ok: "hash_size demo_hash_env" "soul_env_ok demo_souls"
  by (simp_all add: hash_size_def demo_hash_env_def soul_env_ok_def demo_souls_def)

theorem identity_survives_move_witness:
  "\<exists>r r'. DetermineIdentity demo_hash_env demo_souls ''lisa'' [] ''laptop'' ''hw1'' = Inr r \<and>
     DetermineIdentity demo_hash_env demo_souls ''lisa'' (FormatSoul demo_souls (ir_Soul r)) ''server'' ''hw2'' = Inr r' \<and>
     ir_ID r' = ir_ID r \<and> ir_IsValidBond r'"
proof -
  obtain r where r: "DetermineIdentity demo_hash_env demo_souls ''lisa'' [] ''laptop'' ''hw1'' = Inr r"
    using DetermineIdentity_total [OF demo_souls_ok] by blast
  have "''lisa'' \<noteq> [] \<or> (IsGenericHostname ''laptop'' \<and> IsGenericHostname ''server'')" by simp
  from identity_survives_move [OF demo_souls_ok this r, where hw' = "''hw2''"]
  show ?thesis using r by blast
qed

end
