(* ===== verification/Aura_Colours.thy ===== *)
theory Aura_Colours
  imports Neighbourhood
begin

text \<open>
  \<open>aura.go\<close>: the two colours a nara shows, computed in OKLCH from its soul, name, personality and
  uptime. Power and logarithm come from the platform's \<open>math\<close> package, as cosine and sine do, and
  are parameters; every other operation is rounded as in \<open>Go_Float\<close>.
\<close>

section \<open>More of \<open>math\<close>\<close>

record colour_env = math_env +
  math_Pow :: "float64 \<Rightarrow> float64 \<Rightarrow> float64"
  math_Log1p :: "float64 \<Rightarrow> float64"

definition f64_Round :: "float64 \<Rightarrow> float64" where
  \<comment> \<open>\<open>math.Round\<close>: halves away from zero\<close>
  "f64_Round x =
     (if \<not> f64_finite x then x else f64_round (f64_neg x) ((2 * f64_num x + f64_den x) div (2 * f64_den x)) 1)"

definition f64_Mod :: "float64 \<Rightarrow> float64 \<Rightarrow> float64" where
  \<comment> \<open>\<open>math.Mod\<close>: exact, with the sign of the first argument\<close>
  "f64_Mod x y =
     (if f64_nan x \<or> f64_nan y \<or> f64_inf x \<or> f64_num y = 0 then f64_NaN
      else if f64_inf y then x
      else f64_round (f64_neg x) ((f64_num x * f64_den y) mod (f64_num y * f64_den x)) (f64_den x * f64_den y))"

abbreviation minus_lit :: "nat \<Rightarrow> nat \<Rightarrow> float64" where
  "minus_lit a b \<equiv> f64_negate (f64_lit a b)"

abbreviation f64_ge :: "float64 \<Rightarrow> float64 \<Rightarrow> bool" where
  "f64_ge x y \<equiv> f64_le y x"

section \<open>Small helpers\<close>

definition clamp :: "float64 \<Rightarrow> float64 \<Rightarrow> float64 \<Rightarrow> float64" where
  "clamp x lo hi = (if f64_lt x lo then lo else if f64_gt x hi then hi else x)"

definition clamp01 :: "float64 \<Rightarrow> float64" where
  "clamp01 x = clamp x (f64_lit 0 1) (f64_lit 1 1)"

definition fract :: "float64 \<Rightarrow> float64" where
  "fract x = f64_sub x (f64_floor x)"

definition wrapHue :: "float64 \<Rightarrow> float64" where
  "wrapHue h =
     (let h1 = f64_Mod h (f64_lit 360 1) in if f64_lt h1 (f64_lit 0 1) then f64_add h1 (f64_lit 360 1) else h1)"

definition inGamut01 :: "float64 \<Rightarrow> bool" where
  "inGamut01 x \<longleftrightarrow> f64_ge x (f64_lit 0 1) \<and> f64_le x (f64_lit 1 1)"

type_synonym uint32 = "32 word"

definition fnv32a :: "string \<Rightarrow> uint32" where
  \<comment> \<open>\<open>hash/fnv\<close>, 32 bits, variant 1a\<close>
  "fnv32a s = foldl (\<lambda>h c. (xor h (word_of_nat (of_char c))) * 16777619) 2166136261 s"

definition hashToUnit :: "uint32 \<Rightarrow> uint32 \<Rightarrow> float64" where
  "hashToUnit h salt =
     (let x = xor h salt;
          x = xor x (drop_bit 16 x);
          x = x * 0x7feb352d;
          x = xor x (drop_bit 15 x);
          x = x * 0x846ca68b;
          x = xor x (drop_bit 16 x)
      in f64_div (f64_of_int (uint x)) (f64_of_int (uint (- 1 :: uint32))))"

section \<open>Colours\<close>

record RGB =
  rgb_R :: "8 word"
  rgb_G :: "8 word"
  rgb_B :: "8 word"

definition Hex :: "RGB \<Rightarrow> string" where
  "Hex c =
     (let digit = (\<lambda>n :: 8 word. ''0123456789ABCDEF'' ! unat n)
      in [CHR 0x23, digit (drop_bit 4 (rgb_R c)), digit (and (rgb_R c) 0xF), digit (drop_bit 4 (rgb_G c)),
          digit (and (rgb_G c) 0xF), digit (drop_bit 4 (rgb_B c)), digit (and (rgb_B c) 0xF)])"

record Illuminant =
  il_A :: float64
  il_B :: float64

definition IllDaylight :: Illuminant where "IllDaylight = \<lparr>il_A = f64_lit 0 1, il_B = f64_lit 0 1\<rparr>"
definition IllTungsten :: Illuminant where "IllTungsten = \<lparr>il_A = f64_lit 2 100, il_B = f64_lit 6 100\<rparr>"
definition IllSodium :: Illuminant where "IllSodium = \<lparr>il_A = f64_lit 1 100, il_B = f64_lit 10 100\<rparr>"
definition IllLED :: Illuminant where "IllLED = \<lparr>il_A = minus_lit 2 100, il_B = minus_lit 3 100\<rparr>"
definition IllMoon :: Illuminant where "IllMoon = \<lparr>il_A = minus_lit 1 100, il_B = minus_lit 6 100\<rparr>"

definition toSRGB8 :: "colour_env \<Rightarrow> float64 \<Rightarrow> 8 word" where
  "toSRGB8 M x0 =
     (let x = clamp01 x0;
          y = (if f64_le x (f64_lit 31308 10000000) then f64_mul (f64_lit 1292 100) x
               else f64_sub (f64_mul (f64_lit 1055 1000) (math_Pow M x (f64_lit 5 12))) (f64_lit 55 1000));
          v = f64_to_int (f64_Round (f64_mul y (f64_lit 255 1)));
          v = (if v < 0 then 0 else if v > 255 then 255 else v)
      in word_of_int v)"

definition linearToSRGB8 :: "colour_env \<Rightarrow> float64 \<Rightarrow> float64 \<Rightarrow> float64 \<Rightarrow> RGB" where
  "linearToSRGB8 M r g b = \<lparr>rgb_R = toSRGB8 M r, rgb_G = toSRGB8 M g, rgb_B = toSRGB8 M b\<rparr>"

definition oklabToLinearSRGB :: "float64 \<Rightarrow> float64 \<Rightarrow> float64 \<Rightarrow> float64 \<times> float64 \<times> float64" where
  "oklabToLinearSRGB L a b =
     (let q = 10000000000;
          l' = f64_add (f64_add L (f64_mul (f64_lit 3963377774 q) a)) (f64_mul (f64_lit 2158037573 q) b);
          m' = f64_sub (f64_sub L (f64_mul (f64_lit 1055613458 q) a)) (f64_mul (f64_lit 638541728 q) b);
          s' = f64_sub (f64_sub L (f64_mul (f64_lit 894841775 q) a)) (f64_mul (f64_lit 12914855480 q) b);
          l = f64_mul (f64_mul l' l') l';
          m = f64_mul (f64_mul m' m') m';
          s = f64_mul (f64_mul s' s') s'
      in (f64_add (f64_sub (f64_mul (f64_lit 40767416621 q) l) (f64_mul (f64_lit 33077115913 q) m))
            (f64_mul (f64_lit 2309699292 q) s),
          f64_sub (f64_add (f64_mul (minus_lit 12684380046 q) l) (f64_mul (f64_lit 26097574011 q) m))
            (f64_mul (f64_lit 3413193965 q) s),
          f64_add (f64_sub (f64_mul (minus_lit 41960863 q) l) (f64_mul (f64_lit 7034186147 q) m))
            (f64_mul (f64_lit 17076147010 q) s)))"

text \<open>
  The loop that shrinks the chroma until the colour is in gamut: \<open>Inl\<close> is the colour returned from
  inside it, \<open>Inr\<close> the factor left after its fourteen rounds. The constant is \<open>math.Pi / 180\<close>.
\<close>

fun shrink_chroma ::
  "colour_env \<Rightarrow> nat \<Rightarrow> float64 \<Rightarrow> float64 \<Rightarrow> float64 \<Rightarrow> float64 \<Rightarrow> float64 \<Rightarrow> float64 \<Rightarrow> RGB + float64" where
  "shrink_chroma M 0 L a0 b0 shiftA shiftB k = Inr k"
| "shrink_chroma M (Suc n) L a0 b0 shiftA shiftB k =
     (case oklabToLinearSRGB L (f64_add (f64_mul k a0) shiftA) (f64_add (f64_mul k b0) shiftB) of
        (r, g, bb) \<Rightarrow>
          if inGamut01 r \<and> inGamut01 g \<and> inGamut01 bb then Inl (linearToSRGB8 M r g bb)
          else shrink_chroma M n L a0 b0 shiftA shiftB (f64_mul k (f64_lit 88 100)))"

definition degrees :: float64 where
  "degrees = f64_lit 314159265358979323846264338327950288419716939937510582097494459 (180 * 10 ^ 62)"

definition oklchToSRGBGamutMappedIlluminated ::
  "colour_env \<Rightarrow> float64 \<Rightarrow> float64 \<Rightarrow> float64 \<Rightarrow> Illuminant \<Rightarrow> float64 \<Rightarrow> RGB" where
  "oklchToSRGBGamutMappedIlluminated M L C Hdeg ill strength =
     (let hrad = f64_mul Hdeg degrees;
          a0 = f64_mul C (math_Cos M hrad);
          b0 = f64_mul C (math_Sin M hrad);
          shiftA = f64_mul (il_A ill) strength;
          shiftB = f64_mul (il_B ill) strength
      in case shrink_chroma M 14 L a0 b0 shiftA shiftB (f64_lit 1 1) of
           Inl c \<Rightarrow> c
         | Inr k \<Rightarrow>
             (case oklabToLinearSRGB L (f64_add (f64_mul k a0) shiftA) (f64_add (f64_mul k b0) shiftB) of
                (r, g, bb) \<Rightarrow> linearToSRGB8 M (clamp01 r) (clamp01 g) (clamp01 bb)))"

section \<open>Palettes\<close>

datatype PaletteModifier = ModDefault | ModWarmBias | ModCoolBias | ModNoir | ModNeon

definition choosePaletteModifier :: "NaraPersonality \<Rightarrow> PaletteModifier" where
  "choosePaletteModifier p =
     (if Sociability p > 70 \<and> Chill p < 40 then ModNeon
      else if Chill p > 70 then ModNoir
      else if Sociability p < 40 then ModCoolBias
      else if Sociability p > 60 \<and> Chill p > 40 then ModWarmBias
      else ModDefault)"

datatype harmonyMode = hAnalogous | hSplitComplement | hTriadic | hComplement

definition chooseHarmony :: "float64 \<Rightarrow> uint32 \<Rightarrow> harmonyMode" where
  "chooseHarmony agreeableness h =
     (let r = hashToUnit h 0x51ED270B
      in if f64_ge agreeableness (f64_lit 75 100)
         then if f64_lt r (f64_lit 85 100) then hAnalogous else hSplitComplement
         else if f64_ge agreeableness (f64_lit 45 100)
         then if f64_lt r (f64_lit 55 100) then hSplitComplement else hAnalogous
         else if f64_lt r (f64_lit 40 100) then hTriadic else hComplement)"

definition harmonyOffsetDegrees :: "harmonyMode \<Rightarrow> uint32 \<Rightarrow> float64" where
  "harmonyOffsetDegrees mode h =
     (let j = f64_mul (f64_sub (hashToUnit h 0xC0FFEE) (f64_lit 5 10)) (f64_lit 14 1)
      in f64_add (case mode of hAnalogous \<Rightarrow> f64_lit 28 1 | hSplitComplement \<Rightarrow> f64_lit 150 1
                  | hTriadic \<Rightarrow> f64_lit 120 1 | hComplement \<Rightarrow> f64_lit 180 1) j)"

definition adjustLightnessAway :: "float64 \<Rightarrow> float64 \<Rightarrow> float64 \<Rightarrow> uint32 \<Rightarrow> float64" where
  "adjustLightnessAway L base minDelta h =
     (let dir = (if f64_gt (hashToUnit h 0xBADC0DE) (f64_lit 5 10) then f64_lit 1 1 else minus_lit 1 1);
          lo = f64_lit 18 100; hi = f64_lit 88 100
      in if f64_ge (f64_abs (f64_sub L base)) minDelta then clamp L lo hi
         else let L1 = f64_add base (f64_mul dir minDelta);
                  L2 = (if f64_lt L1 lo \<or> f64_gt L1 hi then f64_sub base (f64_mul dir minDelta) else L1)
              in clamp L2 lo hi)"

definition uptimeFactorSeconds :: "colour_env \<Rightarrow> nat \<Rightarrow> float64" where
  "uptimeFactorSeconds M u =
     clamp01 (f64_div (math_Log1p M (f64_of_int (int u))) (math_Log1p M (f64_lit (30 * 24 * 3600) 1)))"

definition lerpIlluminant :: "Illuminant \<Rightarrow> Illuminant \<Rightarrow> float64 \<Rightarrow> Illuminant" where
  "lerpIlluminant a b t =
     \<lparr>il_A = f64_add (il_A a) (f64_mul (f64_sub (il_A b) (il_A a)) t),
      il_B = f64_add (il_B a) (f64_mul (f64_sub (il_B b) (il_B a)) t)\<rparr>"

definition trait :: "int \<Rightarrow> float64" where
  \<comment> \<open>\<open>clamp01(float64(n) / 100.0)\<close>\<close>
  "trait n = clamp01 (f64_div (f64_of_int n) (f64_lit 100 1))"

definition chooseIlluminant ::
  "colour_env \<Rightarrow> uint32 \<Rightarrow> NaraPersonality \<Rightarrow> PaletteModifier \<Rightarrow> nat \<Rightarrow> Illuminant \<times> float64" where
  "chooseIlluminant M h p mod' uptimeSeconds =
     (let a = trait (Agreeableness p); s = trait (Sociability p); c = trait (Chill p);
          u = uptimeFactorSeconds M uptimeSeconds;
          one = f64_lit 1 1;
          warm = clamp01 (f64_add (f64_add (f64_mul (f64_lit 55 100) u) (f64_mul (f64_lit 35 100) c))
                            (f64_mul (f64_lit 10 100) (f64_sub one s)));
          cool = clamp01 (f64_add (f64_add (f64_mul (f64_lit 55 100) s) (f64_mul (f64_lit 25 100) (f64_sub one c)))
                            (f64_mul (f64_lit 20 100) (f64_sub one u)));
          warm = (case mod' of ModWarmBias \<Rightarrow> clamp01 (f64_add warm (f64_lit 15 100))
                  | ModNoir \<Rightarrow> clamp01 (f64_add warm (f64_lit 8 100)) | _ \<Rightarrow> warm);
          cool = (case mod' of ModCoolBias \<Rightarrow> clamp01 (f64_add cool (f64_lit 15 100))
                  | ModNeon \<Rightarrow> clamp01 (f64_add cool (f64_lit 10 100)) | _ \<Rightarrow> cool);
          neutralPull = f64_add (f64_lit 35 100) (f64_mul (f64_lit 45 100) a);
          r = hashToUnit h 0x1A11A7ED;
          ill = (if f64_ge warm cool
                 then if f64_lt r (f64_add (f64_lit 25 100) (f64_mul (f64_lit 35 100) u)) then IllSodium else IllTungsten
                 else if f64_lt r (f64_add (f64_lit 20 100) (f64_mul (f64_lit 25 100) (f64_sub one u))) then IllMoon else IllLED);
          strength = clamp (f64_add (f64_add (f64_lit 12 100) (f64_mul (f64_lit 55 100) u))
                              (f64_mul (f64_lit 15 100) (f64_sub one c))) (f64_lit 8 100) (f64_lit 80 100);
          strength = f64_mul strength (f64_sub one (f64_mul (f64_lit 55 100) a))
      in (lerpIlluminant ill IllDaylight neutralPull, strength))"

record ColorPair =
  cp_Primary :: RGB
  cp_Secondary :: RGB

definition naraColorsCore ::
  "colour_env \<Rightarrow> uint32 \<Rightarrow> NaraPersonality \<Rightarrow> PaletteModifier \<Rightarrow> Illuminant \<Rightarrow> float64 \<Rightarrow> ColorPair" where
  "naraColorsCore M h p mod' ill illStrength =
     (let a = trait (Agreeableness p); s = trait (Sociability p); c = trait (Chill p);
          one = f64_lit 1 1;
          baseHue = f64_add (f64_of_int (uint (h mod 360)))
                      (f64_mul (fract (hashToUnit h 0xA2C2A1)) (f64_lit 13750776405003785 (10 ^ 14)));
          baseHue = wrapHue baseHue;
          L = f64_sub (f64_add (f64_lit 52 100) (f64_mul (f64_lit 18 100) c)) (f64_mul (f64_lit 6 100) s);
          C = f64_add (f64_add (f64_lit 6 100) (f64_mul (f64_lit 22 100) s)) (f64_mul (f64_lit 5 100) (f64_sub one c));
          harmony = chooseHarmony a h;
          baseHue = (case mod' of ModWarmBias \<Rightarrow> wrapHue (f64_add baseHue (f64_lit 12 1))
                     | ModCoolBias \<Rightarrow> wrapHue (f64_sub baseHue (f64_lit 12 1)) | _ \<Rightarrow> baseHue);
          L = (case mod' of ModNoir \<Rightarrow> f64_sub L (f64_lit 12 100) | ModNeon \<Rightarrow> f64_add L (f64_lit 4 100) | _ \<Rightarrow> L);
          C = (case mod' of ModNoir \<Rightarrow> f64_mul C (f64_lit 75 100) | ModNeon \<Rightarrow> f64_mul C (f64_lit 118 100) | _ \<Rightarrow> C);
          L = clamp L (f64_lit 18 100) (f64_lit 88 100);
          C = clamp C (f64_lit 2 100) (f64_lit 40 100);
          primary = oklchToSRGBGamutMappedIlluminated M L C baseHue ill illStrength;
          secondaryHue = wrapHue (f64_add baseHue (harmonyOffsetDegrees harmony h));
          secondaryC = clamp (f64_mul C (f64_add (f64_lit 78 100) (f64_mul (f64_lit 44 100) (f64_sub one s))))
                         (f64_lit 2 100) (f64_lit 38 100);
          minDeltaL = f64_add (f64_lit 10 100) (f64_mul (f64_lit 6 100) (f64_sub one c));
          minDeltaL = (if f64_gt s (f64_lit 65 100) then f64_add minDeltaL (f64_lit 3 100) else minDeltaL);
          secondaryL = adjustLightnessAway L L minDeltaL h
      in \<lparr>cp_Primary = primary,
          cp_Secondary = oklchToSRGBGamutMappedIlluminated M secondaryL secondaryC secondaryHue ill illStrength\<rparr>)"

definition NaraColorsFromHashWithUptime ::
  "colour_env \<Rightarrow> uint32 \<Rightarrow> NaraPersonality \<Rightarrow> PaletteModifier \<Rightarrow> nat \<Rightarrow> ColorPair" where
  "NaraColorsFromHashWithUptime M h p mod' uptimeSeconds =
     (case chooseIlluminant M h p mod' uptimeSeconds of (ill, strength) \<Rightarrow> naraColorsCore M h p mod' ill strength)"

definition NaraColorsFromStringWithUptime ::
  "colour_env \<Rightarrow> string \<Rightarrow> NaraPersonality \<Rightarrow> PaletteModifier \<Rightarrow> nat \<Rightarrow> ColorPair" where
  "NaraColorsFromStringWithUptime M i p mod' uptimeSeconds =
     NaraColorsFromHashWithUptime M (fnv32a i) p mod' uptimeSeconds"

definition computeAura :: "colour_env \<Rightarrow> string \<Rightarrow> 'a network_scheme \<Rightarrow> Aura" where
  \<comment> \<open>\<open>soul\<close> is \<open>ln.Soul\<close>; the uptime wraps around into a \<open>uint64\<close>\<close>
  "computeAura M soul net =
     (let me = nara_at net (nw_Me net);
          p = st_Personality (na_Status me);
          observation = getMeObservation net;
          uptime = nat (i64 (no_LastSeen observation - no_LastRestart observation) mod 2 ^ 64);
          colors = NaraColorsFromStringWithUptime M (soul @ na_Name me) p (choosePaletteModifier p) uptime
      in \<lparr>au_Primary = Hex (cp_Primary colors), au_Secondary = Hex (cp_Secondary colors)\<rparr>)"

section \<open>Facts\<close>

lemma clamp_bounds:
  assumes "f64_le lo hi" and "\<not> f64_nan x"
  shows "f64_le lo (clamp x lo hi) \<and> f64_le (clamp x lo hi) hi"
  using assms by (auto simp: clamp_def f64_le_def f64_lt_def f64_gt_def)

lemma clamp_NaN: "f64_nan x \<Longrightarrow> clamp x lo hi = x"
  by (simp add: clamp_def f64_lt_def f64_gt_def)

lemma length_Hex: "length (Hex c) = 7"
  by (simp add: Hex_def Let_def)

text \<open>\<open>Hex\<close> loses nothing.\<close>

lemma hex_digit_inj:
  "i < 16 \<Longrightarrow> j < 16 \<Longrightarrow> ''0123456789ABCDEF'' ! i = ''0123456789ABCDEF'' ! j \<longleftrightarrow> i = j"
  by (simp add: nth_eq_iff_index_eq)

lemma byte_digits:
  fixes b :: "8 word"
  shows "unat (drop_bit 4 b) = unat b div 16" and "unat (and b 0xF) = unat b mod 16"
proof -
  show "unat (drop_bit 4 b) = unat b div 16" unfolding unat_drop_bit_eq by (simp add: drop_bit_eq_div)
  have "and b (mask 4) = take_bit 4 b" by (simp add: take_bit_eq_mask and.commute)
  moreover have "(mask 4 :: 8 word) = 0xF" by (simp add: mask_eq_exp_minus_1)
  moreover have "unat (take_bit 4 b) = unat b mod 16" unfolding unsigned_take_bit_eq by (simp add: take_bit_eq_mod)
  ultimately show "unat (and b 0xF) = unat b mod 16" by simp
qed

lemma byte_eqI:
  fixes b c :: "8 word"
  assumes "unat b div 16 = unat c div 16" and "unat b mod 16 = unat c mod 16"
  shows "b = c"
  using assms by (metis div_mult_mod_eq word_unat_eq_iff)

lemma Hex_inj: "Hex c = Hex d \<Longrightarrow> c = d"
proof -
  assume h: "Hex c = Hex d"
  have b: "unat (b :: 8 word) div 16 < 16" for b using unsigned_less [of b, where 'a = nat] by simp
  show "c = d"
    using h by (cases c; cases d) (auto simp: Hex_def Let_def byte_digits hex_digit_inj b intro!: byte_eqI)
qed

end
