(* ===== verification/Appearance.thy ===== *)
theory Appearance
  imports Social_Network Souls Aura_Colours
begin

text \<open>
  What a nara shows beside its colours: the gemstone and the flair (\<open>flair.go\<close>, \<open>identity/names.go\<close>), the
  personality that its soul seeds, and the trends it joins and leaves (\<open>social_trend.go\<close>).
\<close>

definition bytes :: "nat list \<Rightarrow> string" where
  "bytes ns = map char_of ns"

section \<open>Flair\<close>

definition gemstones :: "string list" where
  "gemstones =
    [bytes [240, 159, 146, 142],
     bytes [240, 159, 148, 174],
     bytes [240, 159, 140, 136],
     bytes [240, 159, 167, 191],
     bytes [226, 155, 181, 239, 184, 143],
     bytes [240, 159, 167, 138],
     bytes [240, 159, 143, 174],
     bytes [240, 159, 144, 154],
     bytes [240, 159, 170, 153],
     bytes [240, 159, 167, 167],
     bytes [240, 159, 170, 172]]"

definition PersonalFlairPool :: "string list" where
  "PersonalFlairPool =
    [bytes [240, 159, 141, 128],
     bytes [240, 159, 140, 184],
     bytes [240, 159, 141, 149],
     bytes [240, 159, 141, 148],
     bytes [240, 159, 141, 166],
     bytes [240, 159, 141, 169],
     bytes [240, 159, 167, 129],
     bytes [240, 159, 141, 173],
     bytes [240, 159, 141, 172],
     bytes [240, 159, 141, 171],
     bytes [240, 159, 141, 191],
     bytes [240, 159, 167, 130],
     bytes [240, 159, 141, 179],
     bytes [240, 159, 167, 135],
     bytes [240, 159, 165, 158],
     bytes [240, 159, 167, 136]]"

definition Gemstone :: "go_env \<Rightarrow> string \<Rightarrow> string \<Rightarrow> string" where
  "Gemstone G name soul = gemstones ! (be64_prefix (sha256 G (name @ soul)) mod length gemstones)"

text \<open>What \<open>isRaspberryPi\<close>, \<open>isNixOs\<close> and \<open>isKubernetes\<close> found at start-up.\<close>

record host_flags =
  isRaspberryPi :: bool
  isNixOs :: bool
  isKubernetes :: bool

definition IsInHarmony :: "go_env \<Rightarrow> soul_env \<Rightarrow> Nara \<Rightarrow> string \<Rightarrow> bool" where
  "IsInHarmony G S nara soulStr =
     (if soulStr = [] then False
      else case ParseSoul S soulStr of None \<Rightarrow> False | Some soul \<Rightarrow> ValidateBond G soul (na_Name nara))"

text \<open>The generator is seeded by the name; call \<open>i\<close> draws from the pool of sixteen.\<close>

definition personal_flair :: "go_env \<Rightarrow> soul_env \<Rightarrow> Nara \<Rightarrow> string" where
  "personal_flair G S nara =
     (let flairCount = i64 (Sociability (st_Personality (na_Status nara)) sdiv 31 + 1);
          seed = signed64 (be64_prefix (sha256 G (na_Name nara)));
          n = length PersonalFlairPool
      in concat (map (\<lambda>i. PersonalFlairPool ! rand_Intn S seed (replicate (Suc i) n)) [0..<nat flairCount]))"

definition Nara_Flair :: "go_env \<Rightarrow> soul_env \<Rightarrow> host_flags \<Rightarrow> Nara \<Rightarrow> string \<Rightarrow> string" where
  "Nara_Flair G S host nara soul =
     (if IsInHarmony G S nara soul then Gemstone G (na_Name nara) soul else bytes [240, 159, 145, 164]) @
     (if na_Name nara = na_Hostname nara then bytes [240, 159, 167, 145, 226, 128, 141, 240, 159, 154, 128] else []) @
     (if isRaspberryPi host then bytes [240, 159, 141, 147] else []) @
     (if isNixOs host then bytes [226, 157, 132, 239, 184, 143] else []) @
     (if isKubernetes host then bytes [240, 159, 144, 179] else []) @
     (if st_Trend (na_Status nara) \<noteq> [] then st_TrendEmoji (na_Status nara) else []) @
     personal_flair G S nara"

definition network_flair :: "'a network_scheme \<Rightarrow> string" where
  "network_flair net =
     (let networkSize = length (nw_Neighbourhood net);
          myStartTime = no_StartTime (getMeObservation net);
          is_me = (\<lambda>r. meName net = na_Name (nara_at net r))
      in if networkSize > 2 \<and> myStartTime > 0
         then (if is_me (oldestNara net) then bytes [240, 159, 167, 147] else []) @
              (if is_me (oldestNaraBarrio net) then bytes [240, 159, 145, 145] else []) @
              (if is_me (youngestNara net) then bytes [240, 159, 144, 164] else []) @
              (if is_me (youngestNaraBarrio net) then bytes [240, 159, 144, 166] else []) @
              (if is_me (mostRestarts net) then bytes [240, 159, 148, 129] else [])
         else if networkSize > 2 \<and> myStartTime = 0 then bytes [240, 159, 164, 148] else [])"

definition status_flair :: "'a network_scheme \<Rightarrow> string" where
  "status_flair net =
     (let s = na_Status (nara_at net (nw_Me net)); load = hs_LoadAvg (st_HostStats s)
      in (if st_Chattiness s \<ge> 80 then bytes [240, 159, 146, 172] else []) @
         (if f64_le (f64_lit 8 10) load then bytes [240, 159, 147, 136] else if f64_le load (f64_lit 1 10) then bytes [240, 159, 134, 146] else []) @
         (if uptime net < 3600 * 6 then bytes [240, 159, 145, 182] else []) @
         (if isBooting net then bytes [240, 159, 147, 161] else []))"

definition Flair :: "go_env \<Rightarrow> soul_env \<Rightarrow> host_flags \<Rightarrow> nara_net \<Rightarrow> string" where
  "Flair G S host net =
     Nara_Flair G S host (nara_at net (nw_Me net)) (nn_Soul net) @ network_flair net @ status_flair net"

definition LicensePlate :: "'a network_scheme \<Rightarrow> string" where
  "LicensePlate net = no_ClusterEmoji (getMeObservation net)"

section \<open>Personality\<close>

definition seedPersonality :: "go_env \<Rightarrow> soul_env \<Rightarrow> nara_net \<Rightarrow> nara_net" where
  "seedPersonality G S net =
     (let seed = signed64 (be64_prefix (sha256 G (nn_Soul net)))
      in set_status (nw_Me net) (\<lambda>s. s\<lparr>st_Personality :=
           \<lparr>Agreeableness = int (rand_Intn S seed [100]), Sociability = int (rand_Intn S seed [100, 100]),
            Chill = int (rand_Intn S seed [100, 100, 100])\<rparr>\<rparr>) net)"

lemma seedPersonality_bounds:
  assumes "soul_env_ok S" and "nw_Me net < length (nw_store net)"
    and "p = st_Personality (me_status (seedPersonality G S net))"
  shows "Agreeableness p \<in> {0..<100} \<and> Sociability p \<in> {0..<100} \<and> Chill p \<in> {0..<100}"
proof -
  have r: "\<forall>seed bounds n. n > 0 \<longrightarrow> rand_Intn S seed (bounds @ [n]) < n" using assms(1) by (simp add: soul_env_ok_def)
  have "rand_Intn S seed [100] < 100" "rand_Intn S seed [100, 100] < 100" "rand_Intn S seed [100, 100, 100] < 100" for seed
    using r [rule_format, of 100 seed "[]"] r [rule_format, of 100 seed "[100]"] r [rule_format, of 100 seed "[100, 100]"] by simp_all
  then show ?thesis using assms(2)
    by (simp add: assms(3) me_status_def seedPersonality_def Let_def set_status_def set_nara_def nara_at_def)
qed

section \<open>Trends\<close>

definition TrendEmojis :: "string list" where
  "TrendEmojis =
    [bytes [226, 156, 168],
     bytes [240, 159, 140, 136],
     bytes [240, 159, 148, 165],
     bytes [240, 159, 146, 142],
     bytes [240, 159, 141, 132],
     bytes [226, 152, 132, 239, 184, 143],
     bytes [240, 159, 142, 168],
     bytes [240, 159, 142, 173],
     bytes [240, 159, 167, 182],
     bytes [240, 159, 142, 172],
     bytes [240, 159, 142, 164],
     bytes [240, 159, 142, 167],
     bytes [240, 159, 142, 185],
     bytes [240, 159, 142, 183],
     bytes [240, 159, 142, 184],
     bytes [240, 159, 142, 187],
     bytes [240, 159, 142, 186],
     bytes [240, 159, 165, 129]]"

definition default_emoji :: string where "default_emoji = bytes [240, 159, 149, 182, 239, 184, 143]"

text \<open>How many online neighbours follow each trend; the entries stand in the order Go visits the map.\<close>

definition online_neighbours :: "'a network_scheme \<Rightarrow> nat list" where
  "online_neighbours net =
     map snd (filter (\<lambda>(name, r). isOnline (getObservation net name)) (nw_Neighbourhood net))"

definition count_trend :: "string \<Rightarrow> (string \<times> int) list \<Rightarrow> (string \<times> int) list" where
  "count_trend trend trends =
     (case map_of trends trend of None \<Rightarrow> trends @ [(trend, 1)] | Some n \<Rightarrow> AList.update trend (n + 1) trends)"

definition followed_trends :: "'a network_scheme \<Rightarrow> (string \<times> int) list" where
  "followed_trends net =
     foldl (\<lambda>trends r. if st_Trend (na_Status (nara_at net r)) \<noteq> []
                       then count_trend (st_Trend (na_Status (nara_at net r))) trends else trends)
       [] (online_neighbours net)"

definition trend_emoji :: "'a network_scheme \<Rightarrow> string \<Rightarrow> string" where
  "trend_emoji net trend =
     (case find (\<lambda>r. st_Trend (na_Status (nara_at net r)) = trend) (map snd (nw_Neighbourhood net)) of
        None \<Rightarrow> default_emoji | Some r \<Rightarrow> st_TrendEmoji (na_Status (nara_at net r)))"

text \<open>
  The rolls of \<open>rand.Intn\<close> are parameters: \<open>join trend\<close> is below 150, \<open>start\<close> below 100, \<open>pick\<close> below the
  number of emoji, \<open>leave\<close> below 500.
\<close>

definition join_chance :: "go_env \<Rightarrow> clock \<Rightarrow> string \<Rightarrow> nara_net \<Rightarrow> int" where
  "join_chance G T trendName net =
     (let myVibe = calculateVibe G T (meName net);
          sameVibeCount = int (length (filter (\<lambda>(name, r).
              st_Trend (na_Status (nara_at net r)) = trendName \<and> calculateVibe G T name = myVibe) (nw_Neighbourhood net)));
          chance = Agreeableness (st_Personality (me_status net))
      in if sameVibeCount > 0 then i64 (chance + i64 (20 * sameVibeCount)) else chance)"

definition shouldJoinTrend :: "go_env \<Rightarrow> clock \<Rightarrow> (string \<Rightarrow> int) \<Rightarrow> string \<Rightarrow> nara_net \<Rightarrow> bool" where
  "shouldJoinTrend G T join trendName net \<longleftrightarrow> join trendName < join_chance G T trendName net"

definition start_chance :: "(string \<times> int) list \<Rightarrow> int \<Rightarrow> NaraPersonality \<Rightarrow> float64" where
  "start_chance trends onlineCount personality =
     (let numTrends = int (length trends);
          baseChance = f64_div (f64_of_int (Sociability personality)) (f64_lit 10 1);
          chance = f64_div baseChance (f64_of_int (1 + numTrends));
          maxFollowers = foldl (\<lambda>m (trend, n). if n > m then n else m) 0 trends;
          mainstreamPct = (maxFollowers * 100) sdiv onlineCount;
          contrarian = i64 (100 - Agreeableness personality);
          rebellionBoost = f64_div (f64_of_int (i64 (contrarian * (mainstreamPct - 50)))) (f64_lit 100 1)
      in if numTrends > 0 \<and> onlineCount > 0 \<and> mainstreamPct > 50
         then f64_add chance (f64_div rebellionBoost (f64_of_int (1 + numTrends))) else chance)"

definition follow_trend :: "string \<Rightarrow> string \<Rightarrow> nara_net \<Rightarrow> nara_net" where
  "follow_trend trend emoji net = set_status (nw_Me net) (\<lambda>s. s\<lparr>st_Trend := trend, st_TrendEmoji := emoji\<rparr>) net"

definition considerStartingTrend :: "(string \<times> int) list \<Rightarrow> int \<Rightarrow> int \<Rightarrow> nat \<Rightarrow> nara_net \<Rightarrow> nara_net" where
  "considerStartingTrend trends onlineCount start pick net =
     (if start < f64_to_int (start_chance trends onlineCount (st_Personality (me_status net)))
      then more_buzz 5 (follow_trend (meName net @ ''-style'') (TrendEmojis ! pick) net)
      else net)"

definition considerJoiningTrend ::
  "go_env \<Rightarrow> clock \<Rightarrow> (string \<Rightarrow> int) \<Rightarrow> int \<Rightarrow> nat \<Rightarrow> nara_net \<Rightarrow> nara_net" where
  "considerJoiningTrend G T join start pick net =
     (let trends = followed_trends net
      in case find (\<lambda>(trendName, followers). shouldJoinTrend G T join trendName net) trends of
           Some (trendName, followers) \<Rightarrow> more_buzz 3 (follow_trend trendName (trend_emoji net trendName) net)
         | None \<Rightarrow> considerStartingTrend trends (int (length (online_neighbours net))) start pick net)"

definition considerLeavingTrend :: "int \<Rightarrow> nara_net \<Rightarrow> nara_net" where
  "considerLeavingTrend leave net =
     (let chance = i64 (100 - Chill (st_Personality (me_status net)));
          othersInTrend = length (filter (\<lambda>r. st_Trend (na_Status (nara_at net r)) = st_Trend (me_status net)) (online_neighbours net));
          chance = (if othersInTrend = 0 then i64 (chance + 30) else chance)
      in if leave < chance then more_buzz 2 (follow_trend [] [] net) else net)"

definition maintenanceStep ::
  "go_env \<Rightarrow> clock \<Rightarrow> (string \<Rightarrow> int) \<Rightarrow> int \<Rightarrow> nat \<Rightarrow> int \<Rightarrow> nara_net \<Rightarrow> nara_net" where
  "maintenanceStep G T join start pick leave net =
     (if st_Trend (me_status net) = [] then considerJoiningTrend G T join start pick net
      else considerLeavingTrend leave net)"

text \<open>
  The neighbours whose company would draw a nara into a trend are those of equal vibe, all 64 bits of
  it: unless two names have the same hash there are none, and the chance is the agreeableness alone.
\<close>

lemma join_chance_agreeableness:
  assumes "\<forall>(name, r) \<in> set (nw_Neighbourhood net). calculateVibe G T name \<noteq> calculateVibe G T (meName net)"
  shows "join_chance G T trend net = Agreeableness (st_Personality (me_status net))"
proof -
  have "filter (\<lambda>(name, r). st_Trend (na_Status (nara_at net r)) = trend \<and> calculateVibe G T name = calculateVibe G T (meName net))
      (nw_Neighbourhood net) = []"
    using assms by (auto simp: filter_empty_conv)
  then show ?thesis by (simp add: join_chance_def)
qed

end
