(* ===== verification/Observation_Status.thy ===== *)
theory Observation_Status
  imports Ingestion Appearance
begin

text \<open>
  \<open>observations.go\<close>, \<open>neighbourhood_pruning.go\<close> and \<open>boot_backfill.go\<close>: how the observations a nara keeps of
  the others follow the event store, how it makes sure that a nara is gone before it says so, and
  whom it forgets. What a loop does once per tick is one operation; the waits between are not
  modelled. Maps are visited in the order of their association lists.
\<close>

section \<open>Reports of others\<close>

definition hasRecentObservationEvent ::
  "clock \<Rightarrow> 'a network_scheme \<Rightarrow> NaraName \<Rightarrow> int \<Rightarrow> (ObservationEventPayload \<Rightarrow> bool) \<Rightarrow> ObservationEventPayload option" where
  "hasRecentObservationEvent T net subject window match =
     (let recentCutoff = i64 (ck_nano T - window)
      in Option.bind
           (find (\<lambda>e. Timestamp e > recentCutoff \<and> (case Observation e of None \<Rightarrow> False | Some ob \<Rightarrow> match ob))
              (GetObservationEventsAbout (nw_SyncLedger net) subject)) Observation)"

definition reported_missing :: "NaraName \<Rightarrow> ObservationEventPayload \<Rightarrow> bool" where
  "reported_missing me ob \<longleftrightarrow> ob_Observer ob \<noteq> me \<and> ob_Type ob = ''status-change'' \<and> ob_OnlineState ob = ''MISSING''"

definition reported_restart :: "NaraName \<Rightarrow> ObservationEventPayload \<Rightarrow> bool" where
  "reported_restart me ob \<longleftrightarrow> ob_Observer ob \<noteq> me \<and> ob_Type ob = ''restart''"

section \<open>Asking the nara itself\<close>

definition markOnlineFromPing :: "go_env \<Rightarrow> clock \<Rightarrow> NaraName \<Rightarrow> float64 \<Rightarrow> nara_net \<Rightarrow> nara_net go" where
  "markOnlineFromPing G T name rttMs net =
     go_bind (setObservation name ((getObservation net name)\<lparr>no_Online := ''ONLINE'', no_LastSeen := ck_sec T,
                no_LastPingRTT := rttMs, no_LastPingTime := ck_sec T\<rparr>) net) (\<lambda>net1.
     go_bind (NewSignedPingSyncEvent G (ck_nano T) (meName net1) name rttMs (meName net1) (my_keypair net1)) (\<lambda>e.
     go_bind (with_ledger G (AddEvent G e) net1) (\<lambda>(added, net2). online_RunOnce G net2)))"

text \<open>The rate limit keeps the time of the last attempt and the last result that was written down.\<close>

definition ping_limited :: "clock \<Rightarrow> nara_net \<Rightarrow> NaraName \<Rightarrow> bool" where
  "ping_limited T net name \<longleftrightarrow>
     i64 (ck_sec T - (case nn_pingAttempt net name of None \<Rightarrow> 0 | Some t \<Rightarrow> t)) < 60"

definition verifyOnlineWithPing ::
  "go_env \<Rightarrow> peers \<Rightarrow> clock \<Rightarrow> NaraName \<Rightarrow> nara_net \<Rightarrow> (bool \<times> nara_net) go" where
  "verifyOnlineWithPing G P T name net =
     (if name = meName net then Inr (False, net)
      else if ping_limited T net name
      then Inr (case nn_pingResult net name of None \<Rightarrow> False | Some b \<Rightarrow> b, net)
      else let net1 = net\<lparr>nn_pingAttempt := (nn_pingAttempt net)(name \<mapsto> ck_sec T)\<rparr>
           in if \<not> nn_mesh net1 then Inr (False, net1)
              else case getNara net1 name of
                     None \<Rightarrow> Inr (False, net1)
                   | Some r \<Rightarrow>
                       let meshIP = st_MeshIP (na_Status (nara_at net1 r))
                       in if meshIP = [] then Inr (False, net1)
                          else case pr_PingIP P meshIP of
                                 None \<Rightarrow> Inr (False, net1\<lparr>nn_pingResult := (nn_pingResult net1)(name \<mapsto> False)\<rparr>)
                               | Some rtt \<Rightarrow>
                                   go_bind (markOnlineFromPing G T name rtt net1) (\<lambda>net2.
                                     Inr (True, net2\<lparr>nn_pingResult := (nn_pingResult net2)(name \<mapsto> True)\<rparr>)))"

section \<open>Reporting\<close>

text \<open>What the two goroutines do once they have waited; \<open>waited\<close> is false when the network is shut down.\<close>

definition reportMissingWithDelay ::
  "go_env \<Rightarrow> peers \<Rightarrow> clock \<Rightarrow> bool \<Rightarrow> NaraName \<Rightarrow> nara_net \<Rightarrow> nara_net go" where
  "reportMissingWithDelay G P T waited subject net =
     (if \<not> waited then Inr net
      else if hasRecentObservationEvent T net subject 15000000000 (reported_missing (meName net)) \<noteq> None then Inr net
      else go_bind (verifyOnlineWithPing G P T subject net) (\<lambda>(online, net1).
        if online then Inr net1
        else go_bind (NewStatusChangeObservationEventWithIDs G (ck_nano T) (meName net1) (nw_ID net1) subject
                        (getNaraIDByName net1 subject) ''MISSING'') (\<lambda>e.
             go_bind (add_and_trigger G (AddEventFiltered G e (st_Personality (me_status net1))) net1)
               (\<lambda>net2. Inr (broadcastSSE e net2)))))"

definition reportRestartWithDelay ::
  "go_env \<Rightarrow> clock \<Rightarrow> bool \<Rightarrow> NaraName \<Rightarrow> int \<Rightarrow> int \<Rightarrow> nara_net \<Rightarrow> nara_net go" where
  "reportRestartWithDelay G T waited subject startTime restartNum net =
     (if \<not> waited then Inr net
      else if hasRecentObservationEvent T net subject 15000000000 (reported_restart (meName net)) \<noteq> None then Inr net
      else go_bind (NewRestartObservationEventWithIDs G (ck_nano T) (ck_sec T) (meName net) (nw_ID net) subject
                      (getNaraIDByName net subject) startTime restartNum) (\<lambda>e.
           go_bind (add_and_trigger G (AddEventWithDedup G e) net) (\<lambda>net1. Inr (broadcastSSE e net1))))"

section \<open>Maintenance\<close>

text \<open>\<open>time.Since(time.Unix(0, t))\<close>: a duration saturates.\<close>

definition nanos_since :: "clock \<Rightarrow> int \<Rightarrow> int" where
  "nanos_since T t = max (- (2 ^ 63)) (min (2 ^ 63 - 1) (ck_nano T - t))"

definition event_age :: "clock \<Rightarrow> nara_net \<Rightarrow> NaraName \<Rightarrow> int" where
  "event_age T net name =
     (case pj_state (nn_online net) name of None \<Rightarrow> 0 | Some state \<Rightarrow> nanos_since T (os_LastEventTime state))"

text \<open>Whether a nara that the event store reports missing answers; events older than an hour are believed.\<close>

definition still_answers ::
  "go_env \<Rightarrow> peers \<Rightarrow> clock \<Rightarrow> NaraName \<Rightarrow> string \<Rightarrow> string \<Rightarrow> nara_net \<Rightarrow> (bool \<times> nara_net) go" where
  "still_answers G P T name previousState derivedStatus net =
     (if previousState = ''ONLINE'' \<and> derivedStatus = ''MISSING'' \<and> event_age T net name \<le> 3600 * 1000000000
      then verifyOnlineWithPing G P T name net else Inr (False, net))"

definition reset_cluster :: "NaraName \<Rightarrow> NaraObservation \<Rightarrow> nara_net \<Rightarrow> nara_net go" where
  "reset_cluster name observation net =
     (if \<not> isOnline observation \<and> no_ClusterName observation \<noteq> [] \<and> getNara net name \<noteq> None
      then setObservation name (observation\<lparr>no_ClusterName := [], no_ClusterEmoji := []\<rparr>) net else Inr net)"

definition status_changed ::
  "NaraName \<Rightarrow> NaraObservation \<Rightarrow> string \<Rightarrow> nara_net \<Rightarrow> nara_net go" where
  "status_changed name observation derivedStatus net =
     (if getNara net name = None then Inr net
      else let ob = observation\<lparr>no_Online := derivedStatus\<rparr>
           in go_bind (setObservation name ob net) (\<lambda>net1.
                let net2 = (if no_Online observation = ''ONLINE'' \<and> derivedStatus = ''MISSING''
                            then effect [GoReportMissing name] (more_buzz 10 net1) else net1)
                in reset_cluster name ob net2))"

definition maintain_observation ::
  "go_env \<Rightarrow> peers \<Rightarrow> clock \<Rightarrow> NaraName \<times> NaraObservation \<Rightarrow> nara_net \<Rightarrow> nara_net go" where
  "maintain_observation G P T = (\<lambda>(name, observation) net.
     if name = meName net \<or> isBooting net then Inr net
     else let derivedStatus = derived_status T net name
          in if derivedStatus \<noteq> [] \<and> derivedStatus \<noteq> no_Online observation
             then go_bind (still_answers G P T name (no_Online observation) derivedStatus net) (\<lambda>(answers, net1).
                    if answers then Inr net1 else status_changed name observation derivedStatus net1)
             else reset_cluster name observation net)"

definition show_self ::
  "go_env \<Rightarrow> soul_env \<Rightarrow> colour_env \<Rightarrow> host_flags \<Rightarrow> nara_net \<Rightarrow> nara_net" where
  "show_self G S M host net =
     (let newFlair = Flair G S host net;
          newLicensePlate = LicensePlate net;
          newAura = computeAura M (nn_Soul net) net;
          net1 = (if newFlair \<noteq> st_Flair (me_status net) then more_buzz 2 net else net)
      in set_status (nw_Me net1) (\<lambda>s. s\<lparr>st_Flair := newFlair, st_LicensePlate := newLicensePlate, st_Aura := newAura\<rparr>) net1)"

definition observationMaintenanceOnce ::
  "go_env \<Rightarrow> soul_env \<Rightarrow> colour_env \<Rightarrow> host_flags \<Rightarrow> peers \<Rightarrow> clock \<Rightarrow> nara_net \<Rightarrow> nara_net go" where
  "observationMaintenanceOnce G S M host P T net =
     (let observations = (case st_Observations (me_status net) of None \<Rightarrow> [] | Some obs \<Rightarrow> obs)
      in go_bind (if \<not> isBooting net then online_RunOnce G net else Inr net) (\<lambda>net1.
         go_bind (go_fold (maintain_observation G P T) observations net1) (\<lambda>net2.
         go_bind (neighbourhoodMaintenance G T net2) (\<lambda>net3. Inr (show_self G S M host net3)))))"

section \<open>Ghosts\<close>

definition no_data :: "NaraObservation \<Rightarrow> bool" where
  "no_data obs \<longleftrightarrow> \<not> (no_StartTime obs > 0 \<or> no_Restarts obs > 0 \<or> no_LastRestart obs > 0)"

definition isGhostNara :: "nara_net \<Rightarrow> NaraName \<Rightarrow> bool" where
  "isGhostNara net name =
     (if \<not> no_data (getObservation net name) then False
      else list_all (\<lambda>(key, r). no_data (Nara_getObservation (nara_at net r) name)) (nw_Neighbourhood net))"

definition isGhostNaraSafeToDelete :: "clock \<Rightarrow> nara_net \<Rightarrow> NaraName \<Rightarrow> bool" where
  "isGhostNaraSafeToDelete T net name =
     (let myObs = getObservation net name;
          witnesses = filter (\<lambda>(key, r). key \<noteq> name) (nw_Neighbourhood net)
      in if name = meName net then False
         else if \<not> no_data myObs then False
         else if no_Online myObs = ''ONLINE'' then False
         else if no_LastSeen myObs > 0 \<and> no_LastSeen myObs > i64 (ck_sec T - 86400) then False
         else if \<not> list_all (\<lambda>(key, r). let obs = Nara_getObservation (nara_at net r) name
                                         in no_data obs \<and> no_Online obs \<noteq> ''ONLINE'') witnesses then False
         else if length witnesses < 3 then False
         else True)"

definition forget_neighbour :: "NaraName \<Rightarrow> 'a network_scheme \<Rightarrow> 'a network_scheme" where
  "forget_neighbour name net = net\<lparr>nw_Neighbourhood := AList.delete name (nw_Neighbourhood net)\<rparr>"

definition forget_observation :: "NaraName \<Rightarrow> 'a network_scheme \<Rightarrow> 'a network_scheme" where
  "forget_observation name net =
     set_status (nw_Me net) (\<lambda>s. s\<lparr>st_Observations := map_option (AList.delete name) (st_Observations s)\<rparr>) net"

definition forget_events :: "NaraName \<Rightarrow> 'a network_scheme \<Rightarrow> 'a network_scheme" where
  "forget_events name net = net\<lparr>nw_SyncLedger := snd (RemoveEventsFor name (nw_SyncLedger net))\<rparr>"

definition garbageCollectGhostNaras :: "clock \<Rightarrow> nara_net \<Rightarrow> int \<times> nara_net" where
  "garbageCollectGhostNaras T net =
     (let toDelete = filter (isGhostNaraSafeToDelete T net) (NeighbourhoodNames net)
      in if length toDelete = 0 then (0, net)
         else let net1 = fold forget_neighbour toDelete net;
                  net2 = fold forget_observation toDelete net1;
                  net3 = fold forget_events toDelete net2
              in (int (length toDelete), net3))"

section \<open>Pruning\<close>

definition newcomerAge :: int where "newcomerAge = 2 * 86400"
definition establishedAge :: int where "establishedAge = 30 * 86400"
definition newcomerTimeout :: int where "newcomerTimeout = 24 * 3600"
definition establishedTimeout :: int where "establishedTimeout = 7 * 86400"

definition has_activity :: "NaraStatus \<Rightarrow> bool" where
  "has_activity s \<longleftrightarrow> st_Flair s \<noteq> [] \<or> st_Buzz s > 0 \<or> st_Chattiness s > 0"

definition should_prune :: "int \<Rightarrow> NaraObservation \<Rightarrow> NaraStatus \<Rightarrow> bool" where
  \<comment> \<open>the decision about one entry that is not ourselves; \<open>now\<close> is in seconds\<close>
  "should_prune now obs status =
     (let naraAge = (if no_StartTime obs > 0 then i64 (now - no_StartTime obs) else 0);
          timeSinceLastSeen = (if no_LastSeen obs > 0 then i64 (now - no_LastSeen obs) else 0)
      in if no_Online obs = ''ONLINE'' then False
         else if no_LastSeen obs = 0 \<and> no_StartTime obs > 0 \<and> i64 (now - no_StartTime obs) > 3600 then True
         else if no_LastSeen obs = 0 \<and> no_StartTime obs = 0 \<and> \<not> has_activity status then True
         else if no_LastSeen obs = 0 then False
         else if naraAge < newcomerAge then timeSinceLastSeen > newcomerTimeout
         else if naraAge < establishedAge then timeSinceLastSeen > establishedTimeout
         else False)"

definition pruned_names :: "clock \<Rightarrow> nara_net \<Rightarrow> NaraName list" where
  "pruned_names T net =
     map fst (filter (\<lambda>(name, r). name \<noteq> meName net \<and>
                        should_prune (ck_sec T) (getObservation net name) (na_Status (nara_at net r)))
                (nw_Neighbourhood net))"

definition pruneVerifyPingCache :: "NaraName list \<Rightarrow> nara_net \<Rightarrow> nara_net" where
  "pruneVerifyPingCache names net =
     net\<lparr>nn_pingAttempt := (nn_pingAttempt net) |` (- set names), nn_pingResult := (nn_pingResult net) |` (- set names)\<rparr>"

definition forget_coordinator :: "NaraName \<Rightarrow> nara_net \<Rightarrow> nara_net" where
  "forget_coordinator name net = net\<lparr>nn_howdyCoordinators := (nn_howdyCoordinators net)(name := None)\<rparr>"

definition pruneInactiveNaras :: "go_env \<Rightarrow> clock \<Rightarrow> nara_net \<Rightarrow> nara_net go" where
  "pruneInactiveNaras G T net =
     (let toRemove = pruned_names T net
      in if length toRemove = 0 then Inr net
         else let net1 = fold (\<lambda>name n. forget_coordinator name (forget_neighbour name n)) toRemove net;
                  net2 = pruneVerifyPingCache toRemove (fold forget_events toRemove net1)
              in go_bind (Projections_Trigger G net2) (\<lambda>net3. Inr (fold forget_observation toRemove net3)))"

definition socialMaintenance_tick :: "go_env \<Rightarrow> clock \<Rightarrow> nara_net \<Rightarrow> nara_net go" where
  "socialMaintenance_tick G T net =
     go_bind (pruneInactiveNaras G T net) (\<lambda>net1.
       let l = Prune G (linked_ledger G net1);
           l1 = l\<lparr>observationRL := Cleanup (ck_sec T) (observationRL l)\<rparr>
       in Inr (net1\<lparr>nw_SyncLedger := l1, nn_Tease := TeaseState_Cleanup (ck_sec T) (nn_Tease net1)\<rparr>))"

section \<open>Opinions\<close>

text \<open>What \<open>blue-jay\<close> answers; \<open>None\<close> is any failure of the request or of its decoding.\<close>

record blue_jay_nara =
  bj_Name :: NaraName
  bj_StartTime :: int
  bj_Restarts :: int
  bj_LastRestart :: int

definition adopt_opinion :: "blue_jay_nara \<Rightarrow> nara_net \<Rightarrow> nara_net go" where
  "adopt_opinion n net =
     (if bj_Name n = [] then Inr net
      else let observation = getObservation net (bj_Name n);
               ob = (if bj_StartTime n > 0 then observation\<lparr>no_StartTime := bj_StartTime n\<rparr> else observation)
           in setObservation (bj_Name n) (ob\<lparr>no_Restarts := bj_Restarts n, no_LastRestart := bj_LastRestart n\<rparr>) net)"

definition fetchOpinionsFromBlueJay :: "blue_jay_nara list option \<Rightarrow> nara_net \<Rightarrow> nara_net go" where
  "fetchOpinionsFromBlueJay answer net =
     (case answer of None \<Rightarrow> Inr net | Some naras \<Rightarrow> go_fold adopt_opinion naras net)"

definition form_opinion_about :: "go_env \<Rightarrow> clock \<Rightarrow> NaraName \<Rightarrow> nara_net \<Rightarrow> nara_net go" where
  "form_opinion_about G T name net =
     (if isGhostNara net name then Inr net
      else let observation = getObservation net name
           in go_bind (opinion_RunOnce G net) (\<lambda>net1.
             let opinion = fst (DeriveOpinionWithValidation G (ck_sec T) (nw_SyncLedger net1) (pj_state (nn_opinion net1)) name);
                 ob = (if od_StartTime opinion > 0 then observation\<lparr>no_StartTime := od_StartTime opinion\<rparr> else observation);
                 ob = (if od_Restarts opinion > 0 then ob\<lparr>no_Restarts := od_Restarts opinion\<rparr> else ob);
                 ob = (if name \<noteq> meName net1 \<and> od_LastRestart opinion > 0
                       then ob\<lparr>no_LastRestart := od_LastRestart opinion\<rparr> else ob)
             in setObservation name ob net1))"

definition has_backfill :: "'a network_scheme \<Rightarrow> NaraName \<Rightarrow> bool" where
  "has_backfill net name =
     list_ex (\<lambda>e. case Observation e of None \<Rightarrow> False | Some ob \<Rightarrow> ob_IsBackfill ob)
       (GetObservationEventsAbout (nw_SyncLedger net) name)"

definition backfill_one ::
  "go_env \<Rightarrow> clock \<Rightarrow> NaraName \<times> NaraObservation \<Rightarrow> int \<times> nara_net \<Rightarrow> (int \<times> nara_net) go" where
  "backfill_one G T = (\<lambda>(naraName, obs) (backfillCount, net).
     if naraName = meName net then Inr (backfillCount, net)
     else if has_backfill net naraName then Inr (backfillCount, net)
     else if no_StartTime obs > 0 \<and> no_Restarts obs \<ge> 0
     then go_bind (NewBackfillObservationEvent G (ck_nano T) (meName net) naraName (no_StartTime obs) (no_Restarts obs)
                     (no_LastRestart obs)) (\<lambda>e.
          go_bind (with_ledger G (AddEventWithDedup G e) net) (\<lambda>(added, net1).
            Inr (if added then backfillCount + 1 else backfillCount, net1)))
     else Inr (backfillCount, net))"

definition backfillObservations :: "go_env \<Rightarrow> clock \<Rightarrow> nara_net \<Rightarrow> nara_net go" where
  "backfillObservations G T net =
     (let observations = (case st_Observations (me_status net) of None \<Rightarrow> [] | Some obs \<Rightarrow> obs)
      in go_bind (go_fold (backfill_one G T) observations (0, net)) (\<lambda>(backfillCount, net1).
           if backfillCount > 0 then Projections_Trigger G net1 else Inr net1))"

text \<open>The count of online naras at the end of a pass is only logged.\<close>

definition runOpinionPass ::
  "go_env \<Rightarrow> clock \<Rightarrow> bool \<Rightarrow> blue_jay_nara list option \<Rightarrow> bool \<Rightarrow> nara_net \<Rightarrow> nara_net go" where
  "runOpinionPass G T fetchBlueJay answer finalPass net =
     go_bind (if fetchBlueJay then fetchOpinionsFromBlueJay answer net else Inr net) (\<lambda>net1.
     go_bind (go_fold (form_opinion_about G T) (NeighbourhoodNames net1) net1) (\<lambda>net2.
     go_bind (applyStartTimeConsensus G net2) (\<lambda>net3.
       if finalPass
       then case garbageCollectGhostNaras T net3 of
              (deleted, net4) \<Rightarrow>
                go_bind (if \<not> nn_ReadOnly net4 then backfillObservations G T net4 else Inr net4) (pruneInactiveNaras G T)
       else Inr net3)))"

text \<open>The averages that pings of the past give: by target, in the order of the ledger.\<close>

definition rtts_to :: "'a network_scheme \<Rightarrow> NaraName \<Rightarrow> float64 list" where
  "rtts_to net name =
     map pi_RTT (filter (\<lambda>p. pi_Target p = name) (GetPingObservations (nw_SyncLedger net)))"

definition seed_target :: "NaraName \<Rightarrow> nara_net \<Rightarrow> nara_net go" where
  "seed_target name net =
     (let obs = getObservation net name; rtts = rtts_to net name
      in if f64_is_zero (no_AvgPingRTT obs) \<and> length rtts > 0
         then setObservation name (obs\<lparr>no_AvgPingRTT :=
                f64_div (foldl f64_add (f64_lit 0 1) rtts) (f64_of_int (int (length rtts)))\<rparr>) net
         else Inr net)"

definition seedAvgPingRTTFromHistory :: "nara_net \<Rightarrow> nara_net go" where
  "seedAvgPingRTTFromHistory net =
     go_fold seed_target
       (remdups (filter (\<lambda>name. name \<noteq> meName net) (map pi_Target (GetPingObservations (nw_SyncLedger net))))) net"

end
