(* ===== verification/Presence_Safety.thy ===== *)
theory Presence_Safety
  imports Observation_Status
begin

text \<open>
  The handlers and the maintenance of a nara never panic on what a well-behaved network sends, and
  keep its state well formed: \<open>presence_wf\<close> is the invariant, \<open>good\<close> what a piece of code that starts
  from it does. The rules in \<open>good_intros\<close> follow the shape of the code.
\<close>

section \<open>The invariant\<close>

definition nil_free :: "'a network_scheme \<Rightarrow> bool" where
  \<comment> \<open>no neighbour has a nil map of observations\<close>
  "nil_free net \<longleftrightarrow> (\<forall>(name, r) \<in> set (nw_Neighbourhood net). st_Observations (na_Status (nara_at net r)) \<noteq> None)"

definition presence_wf :: "nara_net \<Rightarrow> bool" where
  "presence_wf net \<longleftrightarrow> net_wf net \<and> nil_free net \<and> ledger_wf (nw_SyncLedger net) \<and>
     0 \<le> pj_position (nn_online net) \<and> 0 \<le> pj_position (nn_clout net) \<and> 0 \<le> pj_position (nn_opinion net)"

lemma presence_wfD:
  assumes "presence_wf net"
  shows "net_wf net" and "nil_free net" and "ledger_wf (nw_SyncLedger net)"
    and "0 \<le> pj_position (nn_online net)" and "0 \<le> pj_position (nn_clout net)" and "0 \<le> pj_position (nn_opinion net)"
  using assms by (simp_all add: presence_wf_def)

text \<open>Fields that the invariant does not read.\<close>

lemma net_wf_more [simp]:
  "net_wf (net\<lparr>nw_SyncLedger := l\<rparr>) = net_wf net" "nil_free (net\<lparr>nw_SyncLedger := l\<rparr>) = nil_free net"
  "net_ext net' (net\<lparr>nw_SyncLedger := l\<rparr>) = net_ext net' net"
  by (simp_all add: net_wf_def nil_free_def net_ext_def nara_at_def)

lemma presence_wf_upd [simp]:
  "presence_wf (net\<lparr>nn_Buzz := b\<rparr>) = presence_wf net" "presence_wf (net\<lparr>nn_Tease := ts\<rparr>) = presence_wf net"
  "presence_wf (net\<lparr>nn_effects := es\<rparr>) = presence_wf net" "presence_wf (net\<lparr>nn_LastHeyThere := t\<rparr>) = presence_wf net"
  "presence_wf (net\<lparr>nn_coordinators := cs\<rparr>) = presence_wf net"
  "presence_wf (net\<lparr>nn_howdyCoordinators := hs\<rparr>) = presence_wf net"
  "presence_wf (net\<lparr>nn_startTimeVotes := vs\<rparr>) = presence_wf net"
  "presence_wf (net\<lparr>nn_pendingResolutions := ps\<rparr>) = presence_wf net"
  "presence_wf (net\<lparr>nn_pingAttempt := pa\<rparr>) = presence_wf net" "presence_wf (net\<lparr>nn_pingResult := pr\<rparr>) = presence_wf net"
  by (simp_all add: presence_wf_def net_wf_def nil_free_def nara_at_def)

lemma presence_wf_peers [simp]:
  "presence_wf (net\<lparr>nw_peers := p\<rparr>) = presence_wf net" "net_ext m (net\<lparr>nw_peers := p\<rparr>) = net_ext m net"
  by (simp_all add: presence_wf_def net_wf_def nil_free_def nara_at_def net_ext_def)

lemma net_ext_upd [simp]:
  "net_ext m (net\<lparr>nn_Buzz := b\<rparr>) = net_ext m net" "net_ext m (net\<lparr>nn_Tease := ts\<rparr>) = net_ext m net"
  "net_ext m (net\<lparr>nn_effects := es\<rparr>) = net_ext m net" "net_ext m (net\<lparr>nn_LastHeyThere := t\<rparr>) = net_ext m net"
  "net_ext m (net\<lparr>nn_coordinators := cs\<rparr>) = net_ext m net"
  "net_ext m (net\<lparr>nn_howdyCoordinators := hs\<rparr>) = net_ext m net"
  "net_ext m (net\<lparr>nn_startTimeVotes := vs\<rparr>) = net_ext m net"
  "net_ext m (net\<lparr>nn_pendingResolutions := ps\<rparr>) = net_ext m net"
  "net_ext m (net\<lparr>nn_pingAttempt := pa\<rparr>) = net_ext m net" "net_ext m (net\<lparr>nn_pingResult := pr\<rparr>) = net_ext m net"
  "net_ext m (net\<lparr>nn_online := po\<rparr>) = net_ext m net" "net_ext m (net\<lparr>nn_clout := pc\<rparr>) = net_ext m net"
  "net_ext m (net\<lparr>nn_opinion := pp\<rparr>) = net_ext m net"
  by (simp_all add: net_ext_def nara_at_def)

lemma small_steps [simp]:
  "presence_wf (effect es net) = presence_wf net" "net_ext m (effect es net) = net_ext m net"
  "presence_wf (broadcastSSE e net) = presence_wf net" "net_ext m (broadcastSSE e net) = net_ext m net"
  "presence_wf (more_buzz n net) = presence_wf net" "net_ext m (more_buzz n net) = net_ext m net"
  by (simp_all add: effect_def broadcastSSE_def more_buzz_def)

section \<open>Good code\<close>

text \<open>\<open>sel\<close> finds the network in what the code returns.\<close>

definition good :: "('r \<Rightarrow> nara_net) \<Rightarrow> nara_net \<Rightarrow> 'r go \<Rightarrow> bool" where
  "good sel net m \<longleftrightarrow> (\<exists>r. m = Inr r \<and> presence_wf (sel r) \<and> net_ext net (sel r))"

abbreviation good_net :: "nara_net \<Rightarrow> nara_net go \<Rightarrow> bool" where
  "good_net \<equiv> good (\<lambda>n. n)"

named_theorems good_intros \<open>rules for code that starts from a well-formed network\<close>

lemma goodI: "presence_wf (sel r) \<Longrightarrow> net_ext net (sel r) \<Longrightarrow> good sel net (Inr r)"
  by (simp add: good_def)

lemma goodE:
  assumes "good sel net m"
  obtains r where "m = Inr r" "presence_wf (sel r)" "net_ext net (sel r)"
  using assms by (auto simp: good_def)

lemma good_start: "net_ext net net1 \<Longrightarrow> good sel net1 m \<Longrightarrow> good sel net m"
  by (auto simp: good_def intro: net_ext_trans)

lemma good_bind:
  assumes "good sel net m" and "\<And>r. m = Inr r \<Longrightarrow> presence_wf (sel r) \<Longrightarrow> good sel' (sel r) (f r)"
  shows "good sel' net (go_bind m f)"
  using assms(1) by (rule goodE) (use assms(2) in \<open>auto intro: good_start\<close>)

lemma good_bind_net:
  assumes "good_net net m" and "\<And>n. presence_wf n \<Longrightarrow> net_ext net n \<Longrightarrow> good sel' n (f n)"
  shows "good sel' net (go_bind m f)"
  using assms(1) by (rule goodE) (use assms(2) in \<open>auto intro: good_start\<close>)

lemma good_bind_pair:
  assumes "good snd net m" and "\<And>x n. presence_wf n \<Longrightarrow> net_ext net n \<Longrightarrow> good sel' n (f (x, n))"
  shows "good sel' net (go_bind m f)"
proof -
  obtain r where r: "m = Inr r" "presence_wf (snd r)" "net_ext net (snd r)" using assms(1) by (rule goodE)
  then have "good sel' (snd r) (f (fst r, snd r))" using assms(2) by blast
  then show ?thesis using r by (auto intro: good_start)
qed

text \<open>Code that reads or builds something before it goes on.\<close>

lemma good_bind_pure:
  assumes "\<exists>x. m = Inr x \<and> P x" and "\<And>x. m = Inr x \<Longrightarrow> P x \<Longrightarrow> good sel net (f x)"
  shows "good sel net (go_bind m f)"
  using assms by auto

lemma good_fold:
  assumes "presence_wf net" and "\<And>x n. x \<in> set xs \<Longrightarrow> presence_wf n \<Longrightarrow> net_ext net n \<Longrightarrow> good_net n (f x n)"
  shows "good_net net (go_fold f xs net)"
  using assms
proof (induction xs arbitrary: net)
  case (Cons x xs)
  have "good_net net (f x net)" using Cons.prems by simp
  then show ?case
    unfolding go_fold.simps
  proof (rule good_bind_net)
    fix n assume n: "presence_wf n" "net_ext net n"
    show "good_net n (go_fold f xs n)"
      by (rule Cons.IH [OF n(1)]) (use Cons.prems(2) n(2) in \<open>auto intro: net_ext_trans\<close>)
  qed
qed (simp add: good_def)

text \<open>The same for loops that carry something beside the network.\<close>

lemma good_fold_pair:
  assumes "presence_wf net" and "\<And>x a n. x \<in> set xs \<Longrightarrow> presence_wf n \<Longrightarrow> net_ext net n \<Longrightarrow> good snd n (f x (a, n))"
  shows "good snd net (go_fold f xs (a, net))"
  using assms
proof (induction xs arbitrary: a net)
  case (Cons x xs)
  have "good snd net (f x (a, net))" using Cons.prems by simp
  then show ?case
    unfolding go_fold.simps
  proof (rule good_bind_pair)
    fix b n assume n: "presence_wf n" "net_ext net n"
    show "good snd n (go_fold f xs (b, n))"
      by (rule Cons.IH [OF n(1)]) (use Cons.prems(2) n(2) in \<open>auto intro: net_ext_trans\<close>)
  qed
qed (simp add: good_def)

section \<open>The neighbourhood\<close>

lemma nil_freeD: "nil_free net \<Longrightarrow> getNara net name = Some r \<Longrightarrow> st_Observations (na_Status (nara_at net r)) \<noteq> None"
  by (auto simp: nil_free_def getNara_def dest!: map_of_SomeD)

lemma nil_freeI: "(\<And>name r. (name, r) \<in> set (nw_Neighbourhood net) \<Longrightarrow> st_Observations (na_Status (nara_at net r)) \<noteq> None) \<Longrightarrow> nil_free net"
  by (auto simp: nil_free_def)

lemma nil_free_entry: "nil_free net \<Longrightarrow> (name, r) \<in> set (nw_Neighbourhood net) \<Longrightarrow> st_Observations (na_Status (nara_at net r)) \<noteq> None"
  by (auto simp: nil_free_def)

lemma nil_free_no_clash: "nil_free net \<Longrightarrow> \<not> nil_map_clash net nara"
  by (auto simp: nil_map_clash_def dest: nil_freeD)

lemma nil_free_set_nara:
  assumes "nil_free net" and "st_Observations (na_Status (nara_at net r)) \<noteq> None \<Longrightarrow> st_Observations (na_Status n) \<noteq> None"
  shows "nil_free (set_nara r n net)"
  using assms by (fastforce simp: nil_free_def nara_at_set_nara)

lemma nil_free_import:
  assumes "net_wf net" and "nil_free net" and "st_Observations (na_Status nara) \<noteq> None"
    and "import_new G nara net = Inr net'"
  shows "nil_free net'"
proof -
  obtain r net1 where a: "alloc nara net = (r, net1)" by fastforce
  note al = net_wf_alloc [OF assms(1) a]
  have n1: "nil_free net1"
    by (rule nil_freeI) (use nil_free_entry [OF assms(2)] net_wf_entry(1) [OF assms(1)] al(5, 8) in fastforce)
  obtain net2 where n2: "import_by_name r net1 = Inr net2"
    and n': "net' = (if nara_identity nara = [] then net2 else register_identity G (nara_identity nara) r net2)"
    using assms(4) by (auto simp: import_new_def a importNara_def Let_def al(4) go_bind_eq_Inr split: if_splits)
  have "nil_free net2"
  proof (cases "getNara net1 (na_Name nara)")
    case None
    then have "net2 = net1\<lparr>nw_Neighbourhood := nw_Neighbourhood net1 @ [(na_Name nara, r)]\<rparr>"
      using n2 by (simp add: import_by_name_def al(4))
    then show ?thesis using n1 assms(3) al(4) by (auto simp: nil_free_def nara_at_def)
  next
    case (Some q)
    have "q \<noteq> r" using net_wf_getNara(1) [OF assms(1), of "na_Name nara" q] Some al(3, 8) by (auto simp: getNara_def)
    then obtain m where m: "Nara_setValuesFrom (nara_at net1 q) nara = Inr m" "net2 = set_nara q m net1"
      using n2 Some by (auto simp: import_by_name_def al(4) go_bind_eq_Inr)
    show ?thesis unfolding m(2)
      by (rule nil_free_set_nara [OF n1]) (use setValuesFrom_Name [OF m(1)] in simp)
  qed
  then show ?thesis using n' by (simp add: nil_free_def)
qed

lemma presence_wf_same_more:
  assumes "presence_wf net" and "net_wf net'" and "nil_free net'" and "nw_SyncLedger net' = nw_SyncLedger net"
    and "network.more net' = network.more net"
  shows "presence_wf net'"
proof -
  have "nn_online net' = nn_online net" "nn_clout net' = nn_clout net" "nn_opinion net' = nn_opinion net"
    using assms(5) by (cases net; cases net'; simp)+
  then show ?thesis using assms by (simp add: presence_wf_def)
qed

lemma good_import [good_intros]:
  assumes "presence_wf net" and "st_Observations (na_Status nara) \<noteq> None"
  shows "good_net net (import_new G nara net)"
proof -
  note w = presence_wfD(1,2) [OF assms(1)]
  obtain net' where n: "import_new G nara net = Inr net'" "net_wf net'" "net_ext net net'"
    "nw_SyncLedger net' = nw_SyncLedger net" "network.more net' = network.more net"
    using import_new_ok [OF w(1) nil_free_no_clash [OF w(2)]] by blast
  have "presence_wf net'"
    using assms(1) n(2) nil_free_import [OF w assms(2) n(1)] n(4,5) by (rule presence_wf_same_more)
  then show ?thesis using n by (simp add: good_def)
qed

lemma good_set_status:
  assumes "presence_wf net" and "\<And>s. st_Observations (f s) = st_Observations s"
  shows "presence_wf (set_status r f net)" and "net_ext net (set_status r f net)"
proof -
  note w = presence_wfD(1,2) [OF assms(1)]
  have "nil_free (set_status r f net)"
    unfolding set_status_def by (rule nil_free_set_nara [OF w(2)]) (simp add: assms(2))
  then show "presence_wf (set_status r f net)"
    using net_wf_set_status [OF w(1) assms(2)] by (intro presence_wf_same_more [OF assms(1)]) (simp_all add: set_status_def)
  show "net_ext net (set_status r f net)" using net_wf_set_status [OF w(1) assms(2)] by blast
qed

lemma good_RegisterKey:
  assumes "presence_wf net"
  shows "presence_wf (RegisterKey G i pk net)" and "net_ext net (RegisterKey G i pk net)"
proof -
  note w = presence_wfD(1,2) [OF assms(1)]
  have k: "nil_free (net\<lparr>nw_keyring := k\<rparr>)" for k using w(2) by (simp add: nil_free_def nara_at_def)
  then have "nil_free (set_status r (\<lambda>s. s\<lparr>st_PublicKey := pk\<rparr>) (net\<lparr>nw_keyring := k\<rparr>))" for r k
    unfolding set_status_def by (rule nil_free_set_nara) simp
  then have "nil_free (RegisterKey G i pk net)"
    using w(2) k by (simp add: RegisterKey_def Let_def split: option.splits)
  then show "presence_wf (RegisterKey G i pk net)"
    using net_wf_RegisterKey [OF w(1)] by (intro presence_wf_same_more [OF assms]) simp_all
  show "net_ext net (RegisterKey G i pk net)" using net_wf_RegisterKey [OF w(1)] by blast
qed

lemma nil_free_frame:
  assumes "nil_free net" and "net_wf net" and "nw_Neighbourhood net' = nw_Neighbourhood net"
    and "\<forall>r. r \<noteq> nw_Me net \<longrightarrow> nara_at net' r = nara_at net r"
  shows "nil_free net'"
  by (rule nil_freeI) (use nil_free_entry [OF assms(1)] net_wf_entry(2) [OF assms(2)] assms(3,4) in fastforce)

lemma good_setObservation [good_intros]:
  assumes "presence_wf net"
  shows "good_net net (setObservation name ob net)"
proof -
  note w = presence_wfD(1,2) [OF assms(1)]
  obtain net' where n: "setObservation name ob net = Inr net'" "net_wf net'" "net_ext net net'"
    "nw_Neighbourhood net' = nw_Neighbourhood net" "nw_SyncLedger net' = nw_SyncLedger net"
    "network.more net' = network.more net" "\<forall>r. r \<noteq> nw_Me net \<longrightarrow> nara_at net' r = nara_at net r"
    using setObservation_wf [OF w(1)] by metis
  have "nil_free net'" by (rule nil_free_frame [OF w(2) w(1) n(4,7)])
  then show ?thesis using presence_wf_same_more [OF assms n(2) _ n(5,6)] n by (simp add: good_def)
qed

lemma good_setMeObservation [good_intros]: "presence_wf net \<Longrightarrow> good_net net (setMeObservation ob net)"
  by (simp add: setMeObservation_def good_setObservation)

lemma good_mergeExternalObservation [good_intros]:
  "presence_wf net \<Longrightarrow> good_net net (mergeExternalObservation name external net)"
  by (simp add: mergeExternalObservation_def Let_def good_setObservation)

lemma good_resolvePeer [good_intros]:
  assumes "presence_wf net"
  shows "good snd net (resolvePeer G P target net)"
proof -
  have "good snd net (go_bind (import_new G (peer_nara target resp) net) (\<lambda>net1. Inr (Some resp, net1)))" for resp
    by (rule good_bind_net [OF good_import [OF assms]]) (simp_all add: peer_nara_def NewNara_def Let_def good_def)
  then show ?thesis using assms by (auto simp: resolvePeer_def Let_def good_def split: option.splits)
qed

lemma good_resolvePublicKey [good_intros]:
  assumes "presence_wf net"
  shows "good snd net (resolvePublicKeyForNara G P target net)"
proof (cases "getPublicKeyForNara G net target")
  case None
  show ?thesis
    unfolding resolvePublicKeyForNara_def None option.case
    by (rule good_bind_pair [OF good_resolvePeer [OF assms]]) (simp_all add: good_def split: option.splits)
qed (use assms in \<open>simp add: resolvePublicKeyForNara_def good_def\<close>)

section \<open>The ledger and the projections\<close>

lemma linked_ledger_wf [simp]: "ledger_wf (linked_ledger G net) = ledger_wf (nw_SyncLedger net)"
  by (simp add: linked_ledger_def SetUnknownNaraChecker_def)

definition good_add :: "(SyncLedger \<Rightarrow> add_result) \<Rightarrow> bool" where
  "good_add add \<longleftrightarrow> (\<forall>l. ledger_wf l \<longrightarrow> (\<exists>ok l' calls. add l = Inr (ok, l', calls) \<and> ledger_wf l'))"

lemma good_add_intros:
  assumes "sort_algorithm (sort_perm G)" and "has_payload e"
  shows "good_add (AddEvent G e)" and "good_add (AddEventFiltered G e p)" and "good_add (AddSocialEventFiltered G e p)"
    and "is_observation e \<Longrightarrow> good_add (AddEventWithDedup G e)"
proof -
  have total: "\<exists>ok l' calls. AddEvent G e l = Inr (ok, l', calls)" for l
    using AddEvent_present [OF assms(2), of G l] by (metis surj_pair)
  show a: "good_add (AddEvent G e)"
    unfolding good_add_def using total add_event.adds_wf [OF assms(1)] by metis
  then show "good_add (AddEventFiltered G e p)" "good_add (AddSocialEventFiltered G e p)"
    by (auto simp: good_add_def AddEventFiltered_def AddSocialEventFiltered_def split: option.splits if_splits)
  assume o: "is_observation e"
  have v: "\<exists>ok l' calls. validate_and_append G e l = Inr (ok, l', calls)" for l
    using validate_and_append_total [OF assms(2), of G l] by (metis surj_pair)
  have "\<exists>ok l' calls. AddEventWithDedup G e l = Inr (ok, l', calls)" for l
    using o v by (auto simp: AddEventWithDedup_def addObservationWithCompaction_def is_observation_def)
  then show "good_add (AddEventWithDedup G e)"
    unfolding good_add_def using add_dedup.adds_wf [OF o] by metis
qed

lemma good_with_ledger:
  assumes "presence_wf net" and "good_add add"
  shows "good snd net (with_ledger G add net)"
proof -
  have "ledger_wf (linked_ledger G net)" using presence_wfD(3) [OF assms(1)] by simp
  then obtain ok l' calls where a: "add (linked_ledger G net) = Inr (ok, l', calls)" "ledger_wf l'"
    using assms(2) unfolding good_add_def by blast
  moreover have "presence_wf (net\<lparr>nw_SyncLedger := l'\<rparr>)" using assms(1) a(2) by (simp add: presence_wf_def)
  ultimately show ?thesis by (simp add: with_ledger_def good_def)
qed

lemma RunOnce_total:
  assumes "0 \<le> pj_position p"
  shows "\<exists>p' more ok. RunOnce G (quiet h) reset l l2 p = Inr (p', more, ok) \<and> 0 \<le> pj_position p'"
  using assms
  by (auto simp: RunOnce_def events_to_process_def go_filter_GetEventsSince run_events_quiet Let_def)

lemma good_RunOnce [good_intros]:
  assumes "presence_wf net"
  shows "good_net net (opinion_RunOnce G net)" and "good_net net (clout_RunOnce G net)" and "good_net net (online_RunOnce G net)"
proof -
  note p = presence_wfD(4-6) [OF assms]
  obtain po m ok where "RunOnce G (quiet opinion_handleEvent) (Some (\<lambda>st subject. None)) (nw_SyncLedger net)
      (nw_SyncLedger net) (nn_opinion net) = Inr (po, m, ok)" "0 \<le> pj_position po"
    using RunOnce_total [OF p(3)] by blast
  then show "good_net net (opinion_RunOnce G net)"
    using assms by (simp add: opinion_RunOnce_def good_def presence_wf_def net_wf_def nil_free_def nara_at_def)
  obtain pc m ok where "RunOnce G (quiet clout_handleEvent) (Some (\<lambda>st. [])) (nw_SyncLedger net)
      (nw_SyncLedger net) (nn_clout net) = Inr (pc, m, ok)" "0 \<le> pj_position pc"
    using RunOnce_total [OF p(2)] by blast
  then show "good_net net (clout_RunOnce G net)"
    using assms by (simp add: clout_RunOnce_def good_def presence_wf_def net_wf_def nil_free_def nara_at_def)
  obtain pl m ok where "RunOnce G (quiet online_handleEvent) (Some (\<lambda>st name. None)) (nw_SyncLedger net)
      (nw_SyncLedger net) (nn_online net) = Inr (pl, m, ok)" "0 \<le> pj_position pl"
    using RunOnce_total [OF p(1)] by blast
  then show "good_net net (online_RunOnce G net)"
    using assms by (simp add: online_RunOnce_def good_def presence_wf_def net_wf_def nil_free_def nara_at_def)
qed

lemma good_Trigger [good_intros]: "presence_wf net \<Longrightarrow> good_net net (Projections_Trigger G net)"
  unfolding Projections_Trigger_def
  by (rule good_bind_net, rule good_start [of net "effect [TriggerOnline] net"]) (simp_all add: good_RunOnce)

lemma good_add_and_trigger:
  assumes "presence_wf net" and "good_add add"
  shows "good_net net (add_and_trigger G add net)"
  unfolding add_and_trigger_def
  by (rule good_bind_pair [OF good_with_ledger [OF assms]]) (auto intro: good_Trigger goodI)

end
