(* ===== verification/Presence_Runs.thy ===== *)
theory Presence_Runs
  imports Presence_Safety
begin

text \<open>
  Every handler of the presence protocol, of social events and of event batches, and every
  maintenance operation, is good in the sense of \<open>Presence_Safety\<close>.
\<close>

section \<open>Building events\<close>

lemma built: "constructed G r \<Longrightarrow> \<exists>e. r = Inr e \<and> has_payload e"
  using constructed_typed well_typed_has_payload by blast

lemma built_observation:
  "\<exists>e. NewFirstSeenObservationEventWithIDs G now observer oid subject sid start = Inr e \<and> is_observation e"
  "\<exists>e. NewRestartObservationEventWithIDs G now nowSec observer oid subject sid start num = Inr e \<and> is_observation e"
  "\<exists>e. NewBackfillObservationEvent G now observer subject start num lst = Inr e \<and> is_observation e"
proof -
  have "ComputeID G (zero_event\<lparr>Timestamp := now, Service := ServiceObservation, Observation := Some p\<rparr>) = Inr e \<Longrightarrow>
      is_observation e" for p e
    by (auto simp: ComputeID_Inr is_observation_def)
  then have o: "observation_event G now p = Inr e \<Longrightarrow> is_observation e" for p e by (simp add: observation_event_def)
  show "\<exists>e. NewFirstSeenObservationEventWithIDs G now observer oid subject sid start = Inr e \<and> is_observation e"
    using built [OF new_first_seen_ids] o unfolding NewFirstSeenObservationEventWithIDs_def by blast
  show "\<exists>e. NewRestartObservationEventWithIDs G now nowSec observer oid subject sid start num = Inr e \<and> is_observation e"
    using built [OF new_restart_ids] o unfolding NewRestartObservationEventWithIDs_def by blast
  show "\<exists>e. NewBackfillObservationEvent G now observer subject start num lst = Inr e \<and> is_observation e"
    using built [OF new_backfill] o unfolding NewBackfillObservationEvent_def by blast
qed

lemmas good_built = good_bind_pure [OF built]
lemmas good_built_observation = built_observation [THEN good_bind_pure]

section \<open>Teasing\<close>

lemma SendDM_net [simp]:
  "presence_wf (snd (SendDM P target e net)) = presence_wf net" "net_ext m (snd (SendDM P target e net)) = net_ext m net"
  by (simp_all add: SendDM_def Let_def)

lemma good_Tease:
  assumes srt: "sort_algorithm (sort_perm G)" and wf: "presence_wf net"
  shows "good snd net (Tease G P T target reason net)"
proof -
  have "good snd net (go_bind (NewTeaseSyncEvent G now actor target reason kp) (\<lambda>e.
      go_bind (with_ledger G (AddSocialEventFiltered G e p) (net\<lparr>nn_Tease := ts\<rparr>)) (\<lambda>(ok, net2).
        let net3 = broadcastSSE e (snd (SendDM P target e net2)) in Inr (True, more_buzz 3 net3))))" for now actor kp p ts
    by (rule good_built [OF new_tease], rule good_start [of net "net\<lparr>nn_Tease := ts\<rparr>"], simp,
        rule good_bind_pair, rule good_with_ledger)
       (use wf good_add_intros [OF srt] in \<open>simp_all add: Let_def goodI\<close>)
  then show ?thesis using wf by (simp add: Tease_def Let_def goodI split: prod.splits)
qed

lemma good_checkAndTease:
  assumes "sort_algorithm (sort_perm G)" and "presence_wf net"
  shows "good_net net (checkAndTease G P T name previousState previousTrend net)"
proof -
  have "good_net net (go_bind (Tease G P T name ReasonRandom net) (\<lambda>(ok, net1). Inr net1))"
    by (rule good_bind_pair [OF good_Tease [OF assms]]) (simp add: goodI)
  then show ?thesis using assms(2) by (simp add: checkAndTease_def Let_def goodI)
qed

lemma good_TeaseWithDelay:
  assumes "sort_algorithm (sort_perm G)" and "presence_wf net"
  shows "good_net net (TeaseWithDelay G P T waited target reason net)"
proof -
  have "good_net net (go_bind (Tease G P T target reason net) (\<lambda>(ok, net1). Inr net1))"
    by (rule good_bind_pair [OF good_Tease [OF assms]]) (simp add: goodI)
  then show ?thesis using assms(2) by (simp add: TeaseWithDelay_def goodI)
qed

section \<open>Evidence that a nara is online\<close>

lemma NewNara_observations [simp]: "st_Observations (na_Status (NewNara name)) = Some []"
  by (simp add: NewNara_def)

lemma good_record_first_seen:
  assumes srt: "sort_algorithm (sort_perm G)" and wf: "presence_wf net"
  shows "good_net net (record_first_seen G T name timestamp observation net)"
proof -
  have "good_net net (go_bind (NewFirstSeenObservationEventWithIDs G now me mid name sid timestamp) (\<lambda>e.
      go_bind (add_and_trigger G (AddEventWithDedup G e) (more_buzz 3 net)) (\<lambda>net2. Inr (broadcastSSE e net2))))" for now me mid sid
    by (rule good_built_observation(1), rule good_start [of net "more_buzz 3 net"], simp,
        rule good_bind_net, rule good_add_and_trigger)
       (use wf good_add_intros(4) [OF srt is_observation_has_payload] in \<open>simp_all add: goodI\<close>)
  then show ?thesis using wf by (simp add: record_first_seen_def Let_def goodI)
qed

lemma good_record_opinion:
  assumes "presence_wf net"
  shows "good snd net (record_opinion G T name observation net)"
proof (cases "no_StartTime observation = 0 \<or> name = meName net")
  case True
  show ?thesis
    unfolding record_opinion_def if_P [OF True] Let_def
    by (rule good_bind_net [OF good_RunOnce(1) [OF assms]], rule goodI) simp_all
qed (use assms in \<open>simp add: record_opinion_def goodI\<close>)

lemma record_restart_net [simp]:
  "presence_wf (snd (record_restart name timestamp ob net)) = presence_wf net"
  "net_ext m (snd (record_restart name timestamp ob net)) = net_ext m net"
  by (simp_all add: record_restart_def Let_def)

lemma good_record_status_change:
  assumes srt: "sort_algorithm (sort_perm G)" and wf: "presence_wf net"
  shows "good_net net (record_status_change G T name timestamp previousState wasRestart net)"
proof -
  have "good_net net (go_bind (NewStatusChangeObservationEventWithIDs G now me mid name sid ''ONLINE'') (\<lambda>e.
      go_bind (add_and_trigger G (AddEventFiltered G e p) net) (\<lambda>net1. Inr (broadcastSSE e net1))))" for now me mid sid p
    by (rule good_built [OF new_status_ids], rule good_bind_net, rule good_add_and_trigger)
       (use wf good_add_intros(2) [OF srt] in \<open>simp_all add: goodI\<close>)
  then show ?thesis using wf by (simp add: record_status_change_def goodI)
qed

lemma good_record_known:
  assumes srt: "sort_algorithm (sort_perm G)" and wf: "presence_wf net"
  shows "good_net net (record_known G P T name timestamp net)"
  unfolding record_known_def Let_def
proof (rule good_bind_net [OF good_record_first_seen [OF srt wf]],
    rule good_bind_pair [OF good_record_opinion], assumption)
  fix n1 ob n2
  assume n2: "presence_wf n2"
  obtain ob' n3 where r: "record_restart name timestamp ob n2 = (ob', n3)" by fastforce
  then have n3: "presence_wf n3" "net_ext n2 n3"
    using n2 record_restart_net [where name = name and timestamp = timestamp and ob = ob and net = n2] by auto
  have "good_net n3 (go_bind (setObservation name (seen_as T timestamp ob') n3) (\<lambda>net4.
      go_bind (record_status_change G T name timestamp (no_Online (getObservation net name)) (was_restart ob) net4) (\<lambda>net5.
        if \<not> isBooting net5 \<and> name \<noteq> meName net5
        then checkAndTease G P T name (no_Online (getObservation net name)) (known_trend net name) net5 else Inr net5)))"
    by (rule good_bind_net [OF good_setObservation [OF n3(1)]], rule good_bind_net [OF good_record_status_change [OF srt]],
        assumption) (simp add: good_checkAndTease [OF srt] goodI)
  then show "good_net n2 (case (ob, n2) of (ob, net2) \<Rightarrow> case record_restart name timestamp ob net2 of
      (ob', net3) \<Rightarrow> go_bind (setObservation name (seen_as T timestamp ob') net3) (\<lambda>net4.
        go_bind (record_status_change G T name timestamp (no_Online (getObservation net name)) (was_restart ob) net4) (\<lambda>net5.
          if \<not> isBooting net5 \<and> name \<noteq> meName net5
          then checkAndTease G P T name (no_Online (getObservation net name)) (known_trend net name) net5 else Inr net5)))"
    using r good_start [OF n3(2)] by simp
qed

lemma good_recordObservation:
  assumes srt: "sort_algorithm (sort_perm G)" and wf: "presence_wf net"
  shows "good_net net (recordObservationOnlineNara G P T name timestamp net)"
proof -
  let ?t = "if timestamp = 0 then ck_sec T else timestamp"
  have "good_net net (go_bind (import_new G (NewNara name) net) (\<lambda>net1. record_known G P T name ?t net1))"
    by (rule good_bind_net [OF good_import [OF wf]]) (simp_all add: good_record_known [OF srt])
  then have "good_net net (go_bind (go_bind (import_new G (NewNara name) net) (\<lambda>net1. Inr (Some net1)))
      (\<lambda>known. case known of None \<Rightarrow> Inr net | Some net1 \<Rightarrow> record_known G P T name ?t net1))"
    by (cases "import_new G (NewNara name) net") simp_all
  then show ?thesis
    using wf good_record_known [OF srt wf]
    by (auto simp: recordObservationOnlineNara_def record_discover_def Let_def goodI)
qed

section \<open>Howdy\<close>

lemma howdy_net [simp]:
  "presence_wf (onHowdySeen h net) = presence_wf net" "net_ext m (onHowdySeen h net) = net_ext m net"
  "presence_wf (startHowdyCoordinator t net) = presence_wf net" "net_ext m (startHowdyCoordinator t net) = net_ext m net"
  "presence_wf (collectStartTimeVote obs u net) = presence_wf net" "net_ext m (collectStartTimeVote obs u net) = net_ext m net"
  "presence_wf (maybeRespondWithHowdy G i net) = presence_wf net" "net_ext m (maybeRespondWithHowdy G i net) = net_ext m net"
  "presence_wf (checkAndPushStash j net) = presence_wf net" "net_ext m (checkAndPushStash j net) = net_ext m net"
  "presence_wf (post e net) = presence_wf net" "net_ext m (post e net) = net_ext m net"
  by (simp_all add: onHowdySeen_def startHowdyCoordinator_def collectStartTimeVote_def maybeRespondWithHowdy_def
      checkAndPushStash_def post_def Let_def split: option.splits)

lemma good_howdy_neighbor:
  assumes "presence_wf net"
  shows "good_net net (howdy_neighbor G neighbor net)"
  unfolding howdy_neighbor_def
  by (rule good_bind_net [OF good_import [OF assms] good_mergeExternalObservation])
     (simp_all add: neighbor_nara_def Let_def)

lemma good_handleHowdyEvent:
  assumes srt: "sort_algorithm (sort_perm G)" and wf: "presence_wf net"
    and "st_Observations (hw_Me howdy) \<noteq> None"
  shows "good_net net (handleHowdyEvent G P T howdy net)"
proof -
  let ?net = "onHowdySeen howdy net"
  have tail: "good_net n (go_bind (if hw_To howdy = meName n
      then go_fold (howdy_neighbor G) (hw_Neighbors howdy) (collectStartTimeVote (hw_You howdy) u n) else Inr n)
      (\<lambda>net4. Inr (more_buzz 1 net4)))" if "presence_wf n" for n u
  proof (rule good_bind_net)
    have "good_net (collectStartTimeVote (hw_You howdy) u n)
        (go_fold (howdy_neighbor G) (hw_Neighbors howdy) (collectStartTimeVote (hw_You howdy) u n))"
      by (rule good_fold) (simp_all add: that good_howdy_neighbor)
    then show "good_net n (if hw_To howdy = meName n
      then go_fold (howdy_neighbor G) (hw_Neighbors howdy) (collectStartTimeVote (hw_You howdy) u n) else Inr n)"
      using that by (auto intro: goodI good_start [of n "collectStartTimeVote (hw_You howdy) u n"])
  qed (simp add: goodI)
  have "good_net ?net (go_bind (import_new G (howdy_sender howdy) ?net) (\<lambda>net2.
      go_bind (recordObservationOnlineNara G P T (hw_From howdy) 0 net2) (\<lambda>net3.
      go_bind (if hw_To howdy = meName net3
               then go_fold (howdy_neighbor G) (hw_Neighbors howdy) (collectStartTimeVote (hw_You howdy) u net3)
               else Inr net3) (\<lambda>net4. Inr (more_buzz 1 net4)))))" for u
    by (rule good_bind_net [OF good_import], simp add: wf, use assms(3) in \<open>simp add: howdy_sender_def\<close>,
        rule good_bind_net [OF good_recordObservation [OF srt]], assumption, rule tail, assumption)
  then have "good_net net (go_bind (import_new G (howdy_sender howdy) ?net) (\<lambda>net2.
      go_bind (recordObservationOnlineNara G P T (hw_From howdy) 0 net2) (\<lambda>net3.
      go_bind (if hw_To howdy = meName net3
               then go_fold (howdy_neighbor G) (hw_Neighbors howdy) (collectStartTimeVote (hw_You howdy) u net3)
               else Inr net3) (\<lambda>net4. Inr (more_buzz 1 net4)))))" for u
    by (rule good_start [of net ?net, rotated]) simp
  then show ?thesis using wf by (simp add: handleHowdyEvent_def Let_def goodI)
qed

section \<open>Signatures\<close>

lemma VerifyWithKey_total:
  assumes "has_payload e"
  shows "\<exists>b. VerifyWithKey G e k = Inr b"
proof -
  obtain s where "payload_bytes e = Inr s" using payload_bytes_total [OF assms] by blast
  then show ?thesis by (auto simp: VerifyWithKey_def signableData_def Let_def split: option.splits)
qed

lemma heythere_payload: "(if Service e \<noteq> ServiceHeyThere then None else HeyThere e) = Some h \<Longrightarrow> has_payload e"
  by (auto simp: has_payload_def Payload_def split: if_splits)

lemma chau_payload: "(if Service e \<noteq> ServiceChau then None else Chau e) = Some c \<Longrightarrow> has_payload e"
  by (auto simp: has_payload_def Payload_def split: if_splits)

lemma social_payload: "(if Service e \<noteq> ServiceSocial then None else Social e) = Some c \<Longrightarrow> has_payload e"
  by (auto simp: has_payload_def Payload_def split: if_splits)

lemma heythere_accepted_total:
  assumes "has_payload e"
  shows "\<exists>b. heythere_accepted G e h = Inr b"
  using VerifyWithKey_total [OF assms, of G] by (auto simp: heythere_accepted_def split: option.splits)

text \<open>Checking against a key that has to be looked for.\<close>

lemma good_verify_resolved:
  assumes wf: "presence_wf net" and "has_payload e"
  shows "good snd net (go_bind (resolvePublicKeyForNara G P name net) (\<lambda>(pubKey, net1).
    case pubKey of None \<Rightarrow> Inr (True, net1) | Some k \<Rightarrow> go_bind (VerifyWithKey G e (Some k)) (\<lambda>ok. Inr (ok, net1))))"
proof (rule good_bind_pair [OF good_resolvePublicKey [OF wf]])
  fix k n
  assume "presence_wf n"
  then show "good snd n (case (k, n) of (pubKey, net1) \<Rightarrow>
      case pubKey of None \<Rightarrow> Inr (True, net1) | Some k \<Rightarrow> go_bind (VerifyWithKey G e (Some k)) (\<lambda>ok. Inr (ok, net1)))"
    using VerifyWithKey_total [OF assms(2), of G k] by (cases k) (auto simp: goodI)
qed

section \<open>Hey there\<close>

lemma heythere_existing_net:
  assumes "presence_wf net"
  shows "presence_wf (heythere_existing G h r net)" and "net_ext net (heythere_existing G h r net)"
proof -
  define f :: "NaraStatus \<Rightarrow> NaraStatus" where "f = (\<lambda>s. let s1 = (if st_PublicKey (na_Status (nara_at net r)) = [] \<and> ht_PublicKey h \<noteq> []
            then s\<lparr>st_PublicKey := ht_PublicKey h\<rparr> else s)
      in if st_MeshIP (na_Status (nara_at net r)) = [] \<and> ht_MeshIP h \<noteq> []
         then s1\<lparr>st_MeshIP := ht_MeshIP h, st_MeshEnabled := True\<rparr> else s1)"
  have w: "presence_wf (set_status r f net)" "net_ext net (set_status r f net)"
    by (rule good_set_status [OF assms], simp add: f_def Let_def)+
  note k = good_RegisterKey [OF w(1)]
  have "heythere_existing G h r net = set_status r f net \<or>
      (\<exists>i pk. heythere_existing G h r net = RegisterKey G i pk (set_status r f net))"
    unfolding heythere_existing_def Let_def f_def by auto
  then show "presence_wf (heythere_existing G h r net)" "net_ext net (heythere_existing G h r net)"
    using w k net_ext_trans [OF w(2)] by auto
qed

lemma good_processHeyThereSyncEvent:
  assumes wf: "presence_wf net"
  shows "good_net net (processHeyThereSyncEvent G e net)"
proof (cases "if Service e \<noteq> ServiceHeyThere then None else HeyThere e")
  case None
  then show ?thesis using wf by (simp add: processHeyThereSyncEvent_def goodI)
next
  case (Some h)
  obtain b where b: "heythere_accepted G e h = Inr b" using heythere_accepted_total [OF heythere_payload [OF Some]] by blast
  have n: "st_Observations (na_Status (heythere_nara h)) \<noteq> None" by (simp add: heythere_nara_def Let_def)
  have "good_net net (case getNara net (ht_From h) of Some r \<Rightarrow> Inr (heythere_existing G h r net)
      | None \<Rightarrow> import_new G (heythere_nara h) net)"
    using good_import [OF wf n] heythere_existing_net [OF wf] by (simp add: goodI split: option.splits)
  then have "good_net net (go_bind (case getNara net (ht_From h) of Some r \<Rightarrow> Inr (heythere_existing G h r net)
      | None \<Rightarrow> import_new G (heythere_nara h) net) (\<lambda>net1. Inr (checkAndPushStash (ht_ID h) net1)))"
    by (rule good_bind_net) (simp add: goodI)
  then show ?thesis unfolding processHeyThereSyncEvent_def Some using wf b by (simp add: goodI)
qed

lemma good_processHeyThereSyncEvents: "presence_wf net \<Longrightarrow> good_net net (processHeyThereSyncEvents G evs net)"
  unfolding processHeyThereSyncEvents_def by (rule good_fold) (simp_all add: good_processHeyThereSyncEvent)

lemma store_identity_net:
  assumes wf: "presence_wf net"
  shows "presence_wf (store_identity G h net) \<and> net_ext net (store_identity G h net)"
proof (cases "getNara net (ht_From h)")
  case None
  then show ?thesis using wf by (simp add: store_identity_def)
next
  case (Some r)
  have step: "presence_wf (set_nara r n net) \<and> net_ext net (set_nara r n net)"
    if "na_Name n = na_Name (nara_at net r)" "st_Observations (na_Status n) = st_Observations (na_Status (nara_at net r))" for n
  proof -
    note w = presence_wfD(1,2) [OF wf]
    have "net_wf (set_nara r n net)"
      using net_wf_set_nara [OF w(1) that(1)] net_wf_getNara(2) [OF w(1) Some] by blast
    then show ?thesis
      using nil_free_set_nara [OF w(2), of r n] that net_ext_set_nara [OF that(1)]
      by (auto intro: presence_wf_same_more [OF wf])
  qed
  have reg: "presence_wf (RegisterKey G i pk n) \<and> net_ext net (RegisterKey G i pk n)"
    if "presence_wf n \<and> net_ext net n" for i pk n
    using that good_RegisterKey net_ext_trans by blast
  have peer: "presence_wf (RegisterPeerIP i ip n) \<and> net_ext net (RegisterPeerIP i ip n)"
    if "presence_wf n \<and> net_ext net n" for i ip n
    using that by (simp add: RegisterPeerIP_def)
  show ?thesis
    unfolding store_identity_def Some option.case Let_def using wf
    by (auto intro!: peer reg step step [THEN conjunct1] step [THEN conjunct2])
qed

lemma good_handleHeyThereEvent:
  assumes srt: "sort_algorithm (sort_perm G)" and wf: "presence_wf net"
  shows "good_net net (handleHeyThereEvent G P T e net)"
proof (cases "if Service e \<noteq> ServiceHeyThere then None else HeyThere e")
  case None
  then show ?thesis using wf by (simp add: handleHeyThereEvent_def goodI)
next
  case (Some h)
  note p = heythere_payload [OF Some]
  obtain b where b: "heythere_accepted G e h = Inr b" using heythere_accepted_total [OF p] by blast
  have tail: "good_net n (let net4 = checkAndPushStash (ht_ID h) (broadcastSSE e n); net5 = store_identity G h net4;
      net6 = (if \<not> nn_ReadOnly net5 then startHowdyCoordinator (ht_From h) net5 else net5) in Inr (more_buzz 1 net6))"
    if "presence_wf n" for n
  proof -
    have "presence_wf (checkAndPushStash (ht_ID h) (broadcastSSE e n))" using that by simp
    from store_identity_net [OF this, of G h]
    have s: "presence_wf (store_identity G h (checkAndPushStash (ht_ID h) (broadcastSSE e n)))"
      "net_ext n (store_identity G h (checkAndPushStash (ht_ID h) (broadcastSSE e n)))"
      by (auto intro: net_ext_trans [of n "checkAndPushStash (ht_ID h) (broadcastSSE e n)"])
    then show ?thesis by (simp add: Let_def goodI)
  qed
  have "good_net net (go_bind (recordObservationOnlineNara G P T (ht_From h) (Timestamp e sdiv 1000000000) net) (\<lambda>net1.
      go_bind (with_ledger G (AddEvent G e) net1) (\<lambda>(ok, net2). go_bind (Projections_Trigger G net2) (\<lambda>net3.
        let net4 = checkAndPushStash (ht_ID h) (broadcastSSE e net3); net5 = store_identity G h net4;
          net6 = (if \<not> nn_ReadOnly net5 then startHowdyCoordinator (ht_From h) net5 else net5) in Inr (more_buzz 1 net6)))))"
    by (rule good_bind_net [OF good_recordObservation [OF srt wf]],
        rule good_bind_pair [OF good_with_ledger [OF _ good_add_intros(1) [OF srt p]]], assumption,
        unfold prod.case, rule good_bind_net [OF good_Trigger], assumption, rule tail, assumption)
  then show ?thesis unfolding handleHeyThereEvent_def Some using wf b by (simp add: goodI)
qed

lemma good_heyThere:
  assumes srt: "sort_algorithm (sort_perm G)" and wf: "presence_wf net"
  shows "good_net net (heyThere G P T net)"
proof -
  have "good_net n (go_bind (NewHeyThereSyncEvent G now me pk ip i kp) (\<lambda>e.
      go_bind (with_ledger G (AddEvent G e) (post (PostSyncEvent topic e) (n\<lparr>nn_LastHeyThere := t\<rparr>))) (\<lambda>(ok, net3).
      go_bind (Projections_Trigger G net3) (\<lambda>net4. Inr (more_buzz 2 net4)))))"
    if "presence_wf n" for n now me pk ip i kp topic t
  proof (rule good_built [OF new_hey_there])
    fix e :: SyncEvent
    assume e: "has_payload e"
    show "good_net n (go_bind (with_ledger G (AddEvent G e) (post (PostSyncEvent topic e) (n\<lparr>nn_LastHeyThere := t\<rparr>)))
        (\<lambda>(ok, net3). go_bind (Projections_Trigger G net3) (\<lambda>net4. Inr (more_buzz 2 net4))))"
      by (rule good_start [of n "post (PostSyncEvent topic e) (n\<lparr>nn_LastHeyThere := t\<rparr>)"], simp,
          rule good_bind_pair [OF good_with_ledger [OF _ good_add_intros(1) [OF srt e]]], use that in simp,
          unfold prod.case, rule good_bind_net [OF good_Trigger], assumption) (simp add: goodI)
  qed
  then have "good_net net (go_bind (recordObservationOnlineNara G P T (meName net) 0 net) (\<lambda>net1.
      if i64 (ck_sec T - nn_LastHeyThere net1) \<le> 5 then Inr net1
      else go_bind (NewHeyThereSyncEvent G (ck_nano T) (meName (net1\<lparr>nn_LastHeyThere := ck_sec T\<rparr>))
               (st_PublicKey (me_status (net1\<lparr>nn_LastHeyThere := ck_sec T\<rparr>))) (st_MeshIP (me_status (net1\<lparr>nn_LastHeyThere := ck_sec T\<rparr>)))
               (nw_ID (net1\<lparr>nn_LastHeyThere := ck_sec T\<rparr>)) (my_keypair (net1\<lparr>nn_LastHeyThere := ck_sec T\<rparr>))) (\<lambda>e.
           go_bind (with_ledger G (AddEvent G e) (post (PostSyncEvent ''nara/plaza/hey_there'' e) (net1\<lparr>nn_LastHeyThere := ck_sec T\<rparr>)))
             (\<lambda>(ok, net3). go_bind (Projections_Trigger G net3) (\<lambda>net4. Inr (more_buzz 2 net4))))))"
    by (intro good_bind_net [OF good_recordObservation [OF srt wf]]) (simp add: goodI)
  then show ?thesis using wf unfolding heyThere_def Let_def by (auto intro: goodI)
qed

section \<open>Newspapers\<close>

lemma good_newspaper_key:
  assumes "presence_wf net"
  shows "good snd net (newspaper_key G P e net)"
proof -
  have "good snd net (go_bind (resolvePublicKeyForNara G P (np_From e) net) (\<lambda>(pubKey, net1). Inr (True, net1)))"
    by (rule good_bind_pair [OF good_resolvePublicKey [OF assms]]) (simp add: goodI)
  then show ?thesis using assms by (simp add: newspaper_key_def goodI)
qed

lemma good_newspaper_known:
  assumes wf: "presence_wf net" and "getNara net name = Some r"
  shows "good_net net (newspaper_known e r net)"
proof -
  note w = presence_wfD(1,2) [OF wf]
  have o: "st_Observations (na_Status (nara_at net r)) \<noteq> None" using nil_freeD [OF w(2) assms(2)] .
  obtain s where s: "NaraStatus_setValuesFrom (na_Status (nara_at net r)) (np_Status e) = Inr s" "st_Observations s \<noteq> None"
    using AList_merge_None o by blast
  have "net_wf (set_status r (\<lambda>old. s) net)" "net_ext net (set_status r (\<lambda>old. s) net)" "nil_free (set_status r (\<lambda>old. s) net)"
    unfolding set_status_def using s(2) net_wf_getNara(2) [OF w(1) assms(2)] w
    by (auto intro!: net_wf_set_nara net_ext_set_nara nil_free_set_nara)
  then show ?thesis
    using s(1) presence_wf_same_more [OF wf] by (simp add: newspaper_known_def set_status_def good_def)
qed

lemma good_newspaper_unknown:
  assumes srt: "sort_algorithm (sort_perm G)" and wf: "presence_wf net"
  shows "good_net net (newspaper_unknown G P T e net)"
proof -
  obtain s where s: "NaraStatus_setValuesFrom (na_Status (NewNara (np_From e))) (np_Status e) = Inr s" "st_Observations s \<noteq> None"
    using AList_merge_None [of "na_Status (NewNara (np_From e))" "np_Status e"] by auto
  have "good_net net (if st_Chattiness (me_status net) > 0 \<and> \<not> nn_ReadOnly net then heyThere G P T net else Inr net)"
    using good_heyThere [OF srt wf] wf by (simp add: goodI)
  then have "good_net net (go_bind (if st_Chattiness (me_status net) > 0 \<and> \<not> nn_ReadOnly net then heyThere G P T net else Inr net)
      (\<lambda>net1. import_new G ((NewNara (np_From e))\<lparr>na_Status := s\<rparr>) net1))"
    by (rule good_bind_net) (simp add: good_import s(2))
  then show ?thesis by (simp add: newspaper_unknown_def s(1))
qed

lemma good_handleNewspaperEvent:
  assumes srt: "sort_algorithm (sort_perm G)" and wf: "presence_wf net"
  shows "good_net net (handleNewspaperEvent G P T e net)"
  unfolding handleNewspaperEvent_def
proof (rule good_bind_pair [OF good_newspaper_key [OF wf]])
  fix ok n
  assume n: "presence_wf n"
  have "good_net n (case getNara n (np_From e) of Some r \<Rightarrow> newspaper_known e r n | None \<Rightarrow> newspaper_unknown G P T e n)"
    using good_newspaper_known [OF n] good_newspaper_unknown [OF srt n] by (simp split: option.splits)
  then have "good_net n (go_bind (case getNara n (np_From e) of Some r \<Rightarrow> newspaper_known e r n
      | None \<Rightarrow> newspaper_unknown G P T e n) (recordObservationOnlineNara G P T (np_From e) 0))"
    by (rule good_bind_net) (rule good_recordObservation [OF srt])
  then show "good_net n (case (ok, n) of (ok, net1) \<Rightarrow> if \<not> ok then Inr net1
      else go_bind (case getNara net1 (np_From e) of Some r \<Rightarrow> newspaper_known e r net1
        | None \<Rightarrow> newspaper_unknown G P T e net1) (recordObservationOnlineNara G P T (np_From e) 0))"
    using n by (simp add: goodI)
qed

section \<open>Chau\<close>

lemma good_set_identity:
  assumes wf: "presence_wf net" and "getNara net name = Some r"
    and "na_Name n = na_Name (nara_at net r)" and "st_Observations (na_Status n) = st_Observations (na_Status (nara_at net r))"
  shows "presence_wf (set_nara r n net)" and "net_ext net (set_nara r n net)"
proof -
  note w = presence_wfD(1,2) [OF wf]
  have "net_wf (set_nara r n net)"
    using net_wf_set_nara [OF w(1) assms(3)] assms(4) net_wf_getNara(2) [OF w(1) assms(2)] by blast
  then show "presence_wf (set_nara r n net)"
    using nil_free_set_nara [OF w(2), of r n] assms(4) by (auto intro: presence_wf_same_more [OF wf])
  show "net_ext net (set_nara r n net)" by (rule net_ext_set_nara [OF assms(3)])
qed

lemma chau_identity_net:
  assumes wf: "presence_wf net"
  shows "presence_wf (chau_identity G c net) \<and> net_ext net (chau_identity G c net)"
proof (cases "getNara net (ch_From c)")
  case None
  then show ?thesis using wf by (simp add: chau_identity_def)
next
  case (Some r)
  let ?net1 = "if ch_PublicKey c \<noteq> [] then set_status r (\<lambda>s. s\<lparr>st_PublicKey := ch_PublicKey c\<rparr>) net else net"
  have n1: "presence_wf ?net1 \<and> net_ext net ?net1"
    using wf good_set_status [OF wf, of "\<lambda>s. s\<lparr>st_PublicKey := ch_PublicKey c\<rparr>" r] by simp
  have s1: "getNara ?net1 (ch_From c) = Some r" using Some by (simp add: getNara_def set_status_def)
  define net2 where "net2 = (if ch_ID c \<noteq> []
      then set_nara r ((nara_at ?net1 r)\<lparr>na_Status := (na_Status (nara_at ?net1 r))\<lparr>st_ID := ch_ID c\<rparr>, na_ID := ch_ID c\<rparr>) ?net1
      else ?net1)"
  have n2: "presence_wf net2 \<and> net_ext net net2"
    using n1 good_set_identity [OF conjunct1 [OF n1] s1,
      of "(nara_at ?net1 r)\<lparr>na_Status := (na_Status (nara_at ?net1 r))\<lparr>st_ID := ch_ID c\<rparr>, na_ID := ch_ID c\<rparr>"]
    unfolding net2_def by (auto intro: net_ext_trans)
  have "chau_identity G c net = (if ch_PublicKey c \<noteq> [] \<and> ch_ID c \<noteq> [] then RegisterKey G (ch_ID c) (ch_PublicKey c) net2 else net2)"
    by (simp add: chau_identity_def Some net2_def Let_def)
  then show ?thesis
    using n2 good_RegisterKey [OF conjunct1 [OF n2]] net_ext_trans [OF conjunct2 [OF n2]] by auto
qed

lemma good_chau_accepted:
  assumes wf: "presence_wf net" and p: "has_payload e"
  shows "good snd net (chau_accepted G P e c net)"
proof -
  have "good snd net (case ParsePublicKey G (ch_PublicKey c) of None \<Rightarrow> Inr (False, net)
      | Some pubKey \<Rightarrow> go_bind (VerifyWithKey G e (Some pubKey)) (\<lambda>ok. Inr (ok, net)))"
  proof (cases "ParsePublicKey G (ch_PublicKey c)")
    case (Some k)
    then show ?thesis using wf VerifyWithKey_total [OF p, of G "Some k"] by (auto simp: goodI)
  qed (simp add: wf goodI)
  then show ?thesis
    using good_verify_resolved [OF assms] wf by (simp add: chau_accepted_def goodI)
qed

lemma good_mark_offline:
  assumes srt: "sort_algorithm (sort_perm G)" and wf: "presence_wf net"
  shows "good_net net (mark_offline G T name net)"
proof -
  have tail: "good_net n (go_bind (if no_Online observation = ''ONLINE'' \<and> \<not> isBooting n
        then go_bind (NewObservationSocialSyncEvent G (ck_nano T) (meName n) name ReasonOffline (my_keypair n)) (\<lambda>e.
             go_bind (with_ledger G (AddSocialEventFiltered G e (st_Personality (me_status n))) n) (\<lambda>(ok, net2). Inr net2))
        else Inr n) (\<lambda>net2. Inr (more_buzz 2 net2)))"
    if n: "presence_wf n" for n observation
  proof -
    have "good_net n (go_bind (NewObservationSocialSyncEvent G (ck_nano T) (meName n) name ReasonOffline (my_keypair n)) (\<lambda>e.
             go_bind (with_ledger G (AddSocialEventFiltered G e (st_Personality (me_status n))) n) (\<lambda>(ok, net2). Inr net2)))"
    proof (rule good_built [OF new_observation])
      fix e :: SyncEvent
      assume e: "has_payload e"
      show "good_net n (go_bind (with_ledger G (AddSocialEventFiltered G e (st_Personality (me_status n))) n) (\<lambda>(ok, net2). Inr net2))"
        by (rule good_bind_pair [OF good_with_ledger [OF n good_add_intros(3) [OF srt e]]]) (simp add: goodI)
    qed
    then have "good_net n (if no_Online observation = ''ONLINE'' \<and> \<not> isBooting n
        then go_bind (NewObservationSocialSyncEvent G (ck_nano T) (meName n) name ReasonOffline (my_keypair n)) (\<lambda>e.
             go_bind (with_ledger G (AddSocialEventFiltered G e (st_Personality (me_status n))) n) (\<lambda>(ok, net2). Inr net2))
        else Inr n)" using n by (simp add: goodI)
    then show ?thesis by (rule good_bind_net) (simp add: goodI)
  qed
  show ?thesis
    unfolding mark_offline_def Let_def by (rule good_bind_net [OF good_setObservation [OF wf]]) (rule tail)
qed

lemma good_handleChauEvent:
  assumes srt: "sort_algorithm (sort_perm G)" and wf: "presence_wf net"
  shows "good_net net (handleChauEvent G P T e net)"
proof (cases "if Service e \<noteq> ServiceChau then None else Chau e")
  case None
  then show ?thesis using wf by (simp add: handleChauEvent_def goodI)
next
  case (Some c)
  note p = chau_payload [OF Some]
  have tail: "good_net n (go_bind (with_ledger G (AddEvent G e) (chau_identity G c n)) (\<lambda>(ok, net2).
      go_bind (Projections_Trigger G net2) (\<lambda>net3. mark_offline G T (ch_From c) (broadcastSSE e net3))))"
    if n: "presence_wf n" for n
  proof (rule good_start)
    note i = chau_identity_net [OF n, of G c]
    show "net_ext n (chau_identity G c n)" using i by blast
    show "good_net (chau_identity G c n) (go_bind (with_ledger G (AddEvent G e) (chau_identity G c n)) (\<lambda>(ok, net2).
        go_bind (Projections_Trigger G net2) (\<lambda>net3. mark_offline G T (ch_From c) (broadcastSSE e net3))))"
    proof (rule good_bind_pair [OF good_with_ledger [OF conjunct1 [OF i] good_add_intros(1) [OF srt p]]], unfold prod.case,
        rule good_bind_net [OF good_Trigger], assumption)
      fix m :: nara_net
      assume "presence_wf m"
      then show "good_net m (mark_offline G T (ch_From c) (broadcastSSE e m))"
        by (intro good_start [OF _ good_mark_offline [OF srt]]) simp_all
    qed
  qed
  have "good_net net (go_bind (chau_accepted G P e c net) (\<lambda>(accepted, net1). if \<not> accepted then Inr net1
      else go_bind (with_ledger G (AddEvent G e) (chau_identity G c net1)) (\<lambda>(ok, net2).
        go_bind (Projections_Trigger G net2) (\<lambda>net3. mark_offline G T (ch_From c) (broadcastSSE e net3)))))"
    by (rule good_bind_pair [OF good_chau_accepted [OF wf p]]) (use tail in \<open>simp add: goodI\<close>)
  then show ?thesis unfolding handleChauEvent_def Some using wf by (simp add: goodI)
qed

lemma good_Network_Chau:
  assumes srt: "sort_algorithm (sort_perm G)" and wf: "presence_wf net"
  shows "good_net net (Network_Chau G T net)"
proof -
  have "good_net n (go_bind (NewChauSyncEvent G now me pk i kp) (\<lambda>e.
      go_bind (with_ledger G (AddEvent G e) (post (PostSyncEvent topic e) n)) (\<lambda>(ok, net2). Projections_Trigger G net2)))"
    if n: "presence_wf n" for n now me pk i kp topic
  proof (rule good_built [OF new_chau])
    fix e :: SyncEvent
    assume e: "has_payload e"
    show "good_net n (go_bind (with_ledger G (AddEvent G e) (post (PostSyncEvent topic e) n)) (\<lambda>(ok, net2). Projections_Trigger G net2))"
      by (rule good_start [of n "post (PostSyncEvent topic e) n"], simp,
          rule good_bind_pair [OF good_with_ledger [OF _ good_add_intros(1) [OF srt e]]], use n in simp)
        (simp add: good_Trigger)
  qed
  then have "good_net net (go_bind (setMeObservation ob net) (\<lambda>net1.
      go_bind (NewChauSyncEvent G (ck_nano T) (meName net1) (st_PublicKey (me_status net1)) (nw_ID net1) (my_keypair net1)) (\<lambda>e.
      go_bind (with_ledger G (AddEvent G e) (post (PostSyncEvent ''nara/plaza/chau'' e) net1)) (\<lambda>(ok, net2).
        Projections_Trigger G net2))))" for ob
    by (intro good_bind_net [OF good_setMeObservation [OF wf]])
  then show ?thesis using wf by (simp add: Network_Chau_def goodI)
qed

section \<open>Social events\<close>

lemma good_handleSocialEvent:
  assumes srt: "sort_algorithm (sort_perm G)" and wf: "presence_wf net"
  shows "good_net net (handleSocialEvent G P e net)"
proof (cases "if Service e \<noteq> ServiceSocial then None else Social e")
  case None
  then show ?thesis using wf by (simp add: handleSocialEvent_def goodI)
next
  case (Some social)
  note p = social_payload [OF Some]
  have "good snd net (if IsSigned e then go_bind (resolvePublicKeyForNara G P (Emitter e) net) (\<lambda>(pubKey, net1).
      case pubKey of None \<Rightarrow> Inr (True, net1) | Some k \<Rightarrow> go_bind (VerifyWithKey G e (Some k)) (\<lambda>ok. Inr (ok, net1)))
      else Inr (True, net))"
    using good_verify_resolved [OF wf p] wf by (simp add: goodI)
  note check = this
  have tail: "good_net n (go_bind (with_ledger G (AddSocialEventFiltered G e (st_Personality (me_status n))) n) (\<lambda>(added, net2).
      Inr (if added then broadcastSSE e (more_buzz 5 net2) else net2)))" if "presence_wf n" for n
    by (rule good_bind_pair [OF good_with_ledger [OF that good_add_intros(3) [OF srt p]]]) (simp add: goodI)
  have "good_net net (go_bind (if IsSigned e then go_bind (resolvePublicKeyForNara G P (Emitter e) net) (\<lambda>(pubKey, net1).
      case pubKey of None \<Rightarrow> Inr (True, net1) | Some k \<Rightarrow> go_bind (VerifyWithKey G e (Some k)) (\<lambda>ok. Inr (ok, net1)))
      else Inr (True, net)) (\<lambda>(accept, net1). if \<not> accept then Inr net1
      else go_bind (with_ledger G (AddSocialEventFiltered G e (st_Personality (me_status net1))) net1) (\<lambda>(added, net2).
        Inr (if added then broadcastSSE e (more_buzz 5 net2) else net2))))"
    by (rule good_bind_pair [OF check]) (use tail in \<open>simp add: goodI\<close>)
  then show ?thesis unfolding handleSocialEvent_def Some using wf by (simp add: goodI)
qed

end
