(* ===== verification/Presence_Steps.thy ===== *)
theory Presence_Steps
  imports Presence_Runs
begin

text \<open>
  The rest of what a nara does to its network: batches from peers, the checks of who is still
  there, the maintenance loops and the pruning, each shown to be good code; then all of it as
  the steps of one machine, whose runs keep the invariant of \<open>Presence_Safety\<close>.
\<close>

lemma presence_wf_ledger: "presence_wf net \<Longrightarrow> ledger_wf l \<Longrightarrow> presence_wf (net\<lparr>nw_SyncLedger := l\<rparr>)"
  by (simp add: presence_wf_def)

section \<open>Batches of events\<close>

definition sound_event :: "SyncEvent \<Rightarrow> bool" where
  \<comment> \<open>what the log lines of the ingestion rely on\<close>
  "sound_event e \<longleftrightarrow> has_payload e \<and> 8 \<le> length (ID e)"

lemma resolvePeerBackground_net [simp]:
  "presence_wf (resolvePeerBackground T t net) = presence_wf net" "net_ext m (resolvePeerBackground T t net) = net_ext m net"
  by (simp_all add: resolvePeerBackground_def split: option.splits)

lemma good_VerifySyncEvent:
  assumes "presence_wf net" and "sound_event e"
  shows "good snd net (VerifySyncEvent G T e net)"
proof -
  have e: "has_payload e" "short_ID e = Inr (take 8 (ID e))" using assms(2) by (simp_all add: sound_event_def short_ID_def)
  obtain a where a: "GetActor e = Inr a" using GetActor_total [OF e(1)] by blast
  show ?thesis
  proof (cases "getPublicKeyForNara G net (Emitter e)")
    case None
    then show ?thesis using assms(1) a e(2) by (simp add: VerifySyncEvent_def goodI)
  next
    case (Some k)
    obtain b where "VerifyWithKey G e (Some k) = Inr b" using VerifyWithKey_total [OF e(1), of G "Some k"] by blast
    then show ?thesis using assms(1) a e(2) Some by (simp add: VerifySyncEvent_def goodI)
  qed
qed

lemma good_discover:
  assumes wf: "presence_wf net" and "\<forall>e \<in> set evs. sound_event e"
  shows "good_net net (discoverNarasFromEvents G T evs net)"
proof -
  have name: "good snd n (discover_name G T e x (s, n))" if "presence_wf n" for e x s n
  proof -
    have "good snd n (go_bind (import_new G (NewNara x) n) (\<lambda>net1. Inr (insert x s, net1)))"
      by (rule good_bind_net [OF good_import [OF that]]) (simp_all add: goodI)
    then show ?thesis using that by (simp add: discover_name_def goodI)
  qed
  have ev: "good snd n (discover_event G T e (s, n))" if "presence_wf n" "e \<in> set evs" for e s n
  proof -
    have p: "has_payload e" using assms(2) that(2) by (simp add: sound_event_def)
    obtain a t where a: "GetActor e = Inr a" "GetTarget e = Inr t" using GetActor_total [OF p] GetTarget_total [OF p] by blast
    have "good snd n (go_fold (discover_name G T e) [Emitter e, a, t] (s, n))"
      by (rule good_fold_pair [OF that(1)]) (rule name)
    then show ?thesis using a by (simp add: discover_event_def)
  qed
  have "good snd net (go_fold (discover_event G T) evs ({}, net))"
    by (rule good_fold_pair [OF wf]) (rule ev)
  then show ?thesis
    unfolding discoverNarasFromEvents_def by (rule good_bind_pair) (simp add: goodI)
qed

lemma good_processChau:
  assumes wf: "presence_wf net" and "\<forall>e \<in> set evs. sound_event e"
  shows "good_net net (processChauSyncEvents G T evs net)"
proof -
  have off: "good_net n (chau_offline T name n)" if "presence_wf n" for name n
  proof -
    have "good_net n (go_bind (setObservation name ob n) (\<lambda>net1. Inr (more_buzz 2 net1)))" for ob
      by (rule good_bind_net [OF good_setObservation [OF that]]) (simp add: goodI)
    then show ?thesis using that by (simp add: chau_offline_def Let_def goodI)
  qed
  have ev: "good_net n (processChauSyncEvent G T e n)" if "presence_wf n" "e \<in> set evs" for e n
  proof (cases "if Service e \<noteq> ServiceChau then None else Chau e")
    case None
    then show ?thesis using that by (simp add: processChauSyncEvent_def goodI)
  next
    case (Some c)
    have "good_net n (go_bind (VerifySyncEvent G T e n) (\<lambda>(ok, net1).
        if \<not> ok then Inr net1 else if hasMoreRecentHeyThere net1 (ch_From c) (Timestamp e) then Inr net1
        else chau_offline T (ch_From c) net1))"
      by (rule good_bind_pair [OF good_VerifySyncEvent]) (use assms(2) that off in \<open>simp_all add: goodI\<close>)
    then show ?thesis unfolding processChauSyncEvent_def Some using that by (simp add: goodI)
  qed
  have "good_net net (go_fold (processChauSyncEvent G T) evs net)" by (rule good_fold [OF wf]) (rule ev)
  then show ?thesis using wf by (simp add: processChauSyncEvents_def goodI)
qed

lemma good_markEmitters:
  assumes srt: "sort_algorithm (sort_perm G)" and wf: "presence_wf net"
  shows "good_net net (markEmittersAsSeen G P T evs net)"
proof -
  have ev: "good snd n (mark_emitter G P T L e (s, n))" if "presence_wf n" for L e s n
  proof -
    have "good snd n (go_bind (recordObservationOnlineNara G P T (Emitter e) ts n) (\<lambda>net1. Inr (insert (Emitter e) s, net1)))" for ts
      by (rule good_bind_net [OF good_recordObservation [OF srt that]]) (simp add: goodI)
    then show ?thesis using that by (simp add: mark_emitter_def goodI)
  qed
  have "good snd net (go_fold (mark_emitter G P T (shutting_down evs)) evs ({}, net))"
    by (rule good_fold_pair [OF wf]) (rule ev)
  then have "good_net net (go_bind (go_fold (mark_emitter G P T (shutting_down evs)) evs ({}, net)) (\<lambda>(seen, net1). Inr net1))"
    by (rule good_bind_pair) (simp add: goodI)
  then show ?thesis using wf by (simp add: markEmittersAsSeen_def goodI)
qed

lemma add_each_total:
  assumes "\<And>e. e \<in> set evs \<Longrightarrow> good_add (add e)" and "ledger_wf l"
  shows "\<exists>m l' calls. add_each add evs n l = Inr (m, l', calls) \<and> ledger_wf l'"
  using assms
proof (induction evs arbitrary: n l)
  case (Cons e evs)
  obtain ok l1 c1 where a: "add e l = Inr (ok, l1, c1)" "ledger_wf l1"
    using Cons.prems unfolding good_add_def by (metis list.set_intros(1))
  obtain m l2 c2 where "add_each add evs (if ok then n + 1 else n) l1 = Inr (m, l2, c2)" "ledger_wf l2"
    using Cons.IH [OF _ a(2)] Cons.prems(1) by (metis list.set_intros(2))
  then show ?case using a by simp
qed simp

lemma good_merge:
  assumes srt: "sort_algorithm (sort_perm G)" and wf: "presence_wf net" and "\<forall>e \<in> set evs. has_payload e"
  obtains n l calls where "MergeEvents G evs (linked_ledger G net) = Inr (n, l, calls)" and "ledger_wf l"
proof -
  have "\<exists>n l calls. MergeEvents G evs (linked_ledger G net) = Inr (n, l, calls) \<and> ledger_wf l"
    unfolding MergeEvents_def
    by (rule add_each_total)
      (use assms(3) good_add_intros(1) [OF srt] presence_wfD(3) [OF wf] in \<open>auto simp: FilterEventsForIngestion_def\<close>)
  then show ?thesis using that by blast
qed

abbreviation net3 :: "'a \<times> 'b \<times> nara_net \<Rightarrow> nara_net" where "net3 r \<equiv> snd (snd r)"

lemma good_MergeSyncEvents:
  assumes srt: "sort_algorithm (sort_perm G)" and wf: "presence_wf net" and s: "\<forall>e \<in> set evs. sound_event e"
  shows "good net3 net (MergeSyncEventsWithVerification G P T evs net)"
proof -
  have warn: "good snd n (count_warning G T e (w, n))" if "presence_wf n" "e \<in> set evs" for e w n
    unfolding count_warning_def prod.case
    by (rule good_bind_pair [OF good_VerifySyncEvent]) (use that s in \<open>simp_all add: goodI\<close>)
  have count: "good snd n (go_fold (count_warning G T) evs (0, n))" if "presence_wf n" for n
    by (rule good_fold_pair [OF that]) (rule warn)
  have tail: "good net3 n (go_bind (MergeEvents G evs (linked_ledger G n)) (\<lambda>(added, l, calls).
      let net6 = effect [NotifyListeners calls] (n\<lparr>nw_SyncLedger := l\<rparr>)
      in go_bind (if added > 0 then Projections_Trigger G net6 else Inr net6) (\<lambda>net7. Inr (added, w, net7))))"
    if n: "presence_wf n" for n w
  proof -
    obtain m l calls where mg: "MergeEvents G evs (linked_ledger G n) = Inr (m, l, calls)" "ledger_wf l"
      using good_merge [OF srt n] s by (metis sound_event_def)
    let ?n = "effect [NotifyListeners calls] (n\<lparr>nw_SyncLedger := l\<rparr>)"
    have g: "presence_wf ?n" "net_ext n ?n" using presence_wf_ledger [OF n mg(2)] by simp_all
    have "good_net ?n (if m > 0 then Projections_Trigger G ?n else Inr ?n)" using g(1) good_Trigger by (simp add: goodI)
    then have "good net3 ?n (go_bind (if m > 0 then Projections_Trigger G ?n else Inr ?n) (\<lambda>net7. Inr (m, w, net7)))"
      by (rule good_bind_net) (simp add: goodI)
    then show ?thesis unfolding mg(1) go_bind_Inr prod.case Let_def by (rule good_start [OF g(2)])
  qed
  show ?thesis
    unfolding MergeSyncEventsWithVerification_def
    by (rule good_bind_net [OF good_discover [OF wf s]],
        rule good_bind_net [OF good_processHeyThereSyncEvents], assumption,
        rule good_bind_net [OF good_processChau [OF _ s]], assumption,
        rule good_bind_net [OF good_markEmitters [OF srt]], assumption,
        rule good_bind_pair [OF count], assumption) (use tail in simp)
qed

section \<open>Who is still there\<close>

lemma good_added_ping:
  assumes srt: "sort_algorithm (sort_perm G)" and n: "presence_wf n"
  shows "good_net n (go_bind (NewSignedPingSyncEvent G now me name rtt em kp) (\<lambda>e.
     go_bind (with_ledger G (AddEvent G e) n) (\<lambda>(added, net2). online_RunOnce G net2)))"
proof (rule good_built [OF new_signed_ping])
  fix e :: SyncEvent
  assume e: "has_payload e"
  show "good_net n (go_bind (with_ledger G (AddEvent G e) n) (\<lambda>(added, net2). online_RunOnce G net2))"
    by (rule good_bind_pair [OF good_with_ledger [OF n good_add_intros(1) [OF srt e]]]) (simp add: good_RunOnce)
qed

lemma good_markOnlineFromPing:
  assumes srt: "sort_algorithm (sort_perm G)" and wf: "presence_wf net"
  shows "good_net net (markOnlineFromPing G T name rtt net)"
  unfolding markOnlineFromPing_def
  by (rule good_bind_net [OF good_setObservation [OF wf]]) (rule good_added_ping [OF srt])

lemma good_verifyOnline:
  assumes srt: "sort_algorithm (sort_perm G)" and wf: "presence_wf net"
  shows "good snd net (verifyOnlineWithPing G P T name net)"
proof -
  have "good snd net (go_bind (markOnlineFromPing G T name rtt (net\<lparr>nn_pingAttempt := pa\<rparr>)) (\<lambda>net2.
      Inr (True, net2\<lparr>nn_pingResult := (nn_pingResult net2)(name \<mapsto> True)\<rparr>)))" for rtt pa
    by (rule good_start [of net "net\<lparr>nn_pingAttempt := pa\<rparr>"], simp, rule good_bind_net [OF good_markOnlineFromPing [OF srt]])
      (use wf in \<open>simp_all add: goodI\<close>)
  then show ?thesis using wf by (simp add: verifyOnlineWithPing_def Let_def goodI split: option.split)
qed

lemma good_reportMissing:
  assumes srt: "sort_algorithm (sort_perm G)" and wf: "presence_wf net"
  shows "good_net net (reportMissingWithDelay G P T waited subject net)"
proof -
  have tell: "good_net n (go_bind (NewStatusChangeObservationEventWithIDs G now me mid subject sid ''MISSING'') (\<lambda>e.
      go_bind (add_and_trigger G (AddEventFiltered G e p) n) (\<lambda>net2. Inr (broadcastSSE e net2))))"
    if n: "presence_wf n" for n now me mid sid p
  proof (rule good_built [OF new_status_ids])
    fix e :: SyncEvent
    assume e: "has_payload e"
    show "good_net n (go_bind (add_and_trigger G (AddEventFiltered G e p) n) (\<lambda>net2. Inr (broadcastSSE e net2)))"
      by (rule good_bind_net [OF good_add_and_trigger [OF n good_add_intros(2) [OF srt e]]]) (simp add: goodI)
  qed
  have "good_net net (go_bind (verifyOnlineWithPing G P T subject net) (\<lambda>(online, net1).
      if online then Inr net1
      else go_bind (NewStatusChangeObservationEventWithIDs G (ck_nano T) (meName net1) (nw_ID net1) subject
                      (getNaraIDByName net1 subject) ''MISSING'') (\<lambda>e.
           go_bind (add_and_trigger G (AddEventFiltered G e (st_Personality (me_status net1))) net1)
             (\<lambda>net2. Inr (broadcastSSE e net2)))))"
    by (rule good_bind_pair [OF good_verifyOnline [OF srt wf]]) (simp add: goodI tell)
  then show ?thesis using wf by (simp add: reportMissingWithDelay_def goodI)
qed

lemma good_reportRestart:
  assumes srt: "sort_algorithm (sort_perm G)" and wf: "presence_wf net"
  shows "good_net net (reportRestartWithDelay G T waited subject start num net)"
proof -
  have "good_net net (go_bind (NewRestartObservationEventWithIDs G now nowSec me mid subject sid start num) (\<lambda>e.
      go_bind (add_and_trigger G (AddEventWithDedup G e) net) (\<lambda>net1. Inr (broadcastSSE e net1))))" for now nowSec me mid sid
  proof (rule good_built_observation(2))
    fix e :: SyncEvent
    assume e: "is_observation e"
    then have "has_payload e" by (auto simp: is_observation_def has_payload_def Payload_def)
    then show "good_net net (go_bind (add_and_trigger G (AddEventWithDedup G e) net) (\<lambda>net1. Inr (broadcastSSE e net1)))"
      by (intro good_bind_net [OF good_add_and_trigger [OF wf good_add_intros(4) [OF srt _ e]]]) (simp_all add: goodI)
  qed
  then show ?thesis using wf by (simp add: reportRestartWithDelay_def goodI)
qed

section \<open>Maintenance\<close>

lemma good_neighbourhoodMaintenance:
  fixes net :: nara_net
  assumes "presence_wf net"
  shows "good_net net (neighbourhoodMaintenance G T net)"
  unfolding neighbourhoodMaintenance_def Let_def
  by (rule good_fold [OF assms]) (rule good_setObservation)

lemma good_reset_cluster: "presence_wf net \<Longrightarrow> good_net net (reset_cluster name ob net)"
  by (simp add: reset_cluster_def good_setObservation goodI)

lemma good_status_changed:
  assumes "presence_wf net"
  shows "good_net net (status_changed name ob st net)"
proof -
  have "good_net n (reset_cluster name ob' (if c then effect es (more_buzz 10 n) else n))" if "presence_wf n" for n c es ob'
    by (rule good_start [OF _ good_reset_cluster]) (use that in simp_all)
  then have "good_net net (go_bind (setObservation name ob1 net) (\<lambda>net1. reset_cluster name ob1 (if c then effect es (more_buzz 10 net1) else net1)))"
    for ob1 c es
    by (intro good_bind_net [OF good_setObservation [OF assms]])
  then show ?thesis using assms by (simp add: status_changed_def Let_def goodI)
qed

lemma good_maintain_observation:
  assumes srt: "sort_algorithm (sort_perm G)" and wf: "presence_wf net"
  shows "good_net net (maintain_observation G P T entry net)"
proof (cases entry)
  case (Pair name ob)
  have "good snd net (still_answers G P T name a b net)" for a b
    using good_verifyOnline [OF srt wf] wf by (simp add: still_answers_def goodI)
  then have "good_net net (go_bind (still_answers G P T name a b net) (\<lambda>(answers, net1).
      if answers then Inr net1 else status_changed name ob d net1))" for a b d
    by (rule good_bind_pair) (simp add: goodI good_status_changed)
  then show ?thesis
    using Pair wf by (simp add: maintain_observation_def Let_def goodI good_reset_cluster)
qed

lemma show_self_net:
  assumes "presence_wf net"
  shows "presence_wf (show_self G S M host net)" and "net_ext net (show_self G S M host net)"
proof -
  have "presence_wf (set_status r (\<lambda>s. s\<lparr>st_Flair := a, st_LicensePlate := b, st_Aura := c\<rparr>) n) \<and>
      net_ext net (set_status r (\<lambda>s. s\<lparr>st_Flair := a, st_LicensePlate := b, st_Aura := c\<rparr>) n)"
    if "presence_wf n" "net_ext net n" for r a b c n
    using good_set_status [OF that(1), of "\<lambda>s. s\<lparr>st_Flair := a, st_LicensePlate := b, st_Aura := c\<rparr>" r] net_ext_trans [OF that(2)]
    by simp
  then show "presence_wf (show_self G S M host net)" "net_ext net (show_self G S M host net)"
    using assms by (simp_all add: show_self_def Let_def)
qed

lemma good_observationMaintenance:
  assumes srt: "sort_algorithm (sort_perm G)" and wf: "presence_wf net"
  shows "good_net net (observationMaintenanceOnce G S M host P T net)"
proof -
  have start: "good_net net (if \<not> isBooting net then online_RunOnce G net else Inr net)"
    using good_RunOnce(3) [OF wf] wf by (simp add: goodI)
  have each: "good_net n (go_fold (maintain_observation G P T) obs n)" if "presence_wf n" for n obs
    by (rule good_fold [OF that]) (rule good_maintain_observation [OF srt])
  show ?thesis
    unfolding observationMaintenanceOnce_def Let_def
    by (rule good_bind_net [OF start], rule good_bind_net [OF each], assumption,
        rule good_bind_net [OF good_neighbourhoodMaintenance], assumption, rule goodI) (simp_all add: show_self_net)
qed

section \<open>Forgetting\<close>

lemma forget_net [simp]:
  "presence_wf (forget_coordinator name net) = presence_wf net" "net_ext m (forget_coordinator name net) = net_ext m net"
  "presence_wf (pruneVerifyPingCache names net) = presence_wf net" "net_ext m (pruneVerifyPingCache names net) = net_ext m net"
  by (simp_all add: forget_coordinator_def pruneVerifyPingCache_def)

lemma forget_neighbour_net:
  assumes "presence_wf net"
  shows "presence_wf (forget_neighbour name net)" and "net_ext net (forget_neighbour name net)"
proof -
  note w = presence_wfD(1,2) [OF assms]
  have sub: "set (AList.delete name (nw_Neighbourhood net)) \<subseteq> set (nw_Neighbourhood net)"
    by (auto simp: AList.delete_eq)
  have d: "distinct (map fst (AList.delete name (nw_Neighbourhood net)))"
    using net_wfD(3) [OF w(1)] by (rule distinct_delete)
  have wf: "net_wf (forget_neighbour name net)"
    using w(1) sub d unfolding net_wf_def forget_neighbour_def nara_at_def by (simp, blast)
  have nf: "nil_free (forget_neighbour name net)"
    using w(2) sub unfolding nil_free_def forget_neighbour_def nara_at_def by (simp, blast)
  show "presence_wf (forget_neighbour name net)"
    by (rule presence_wf_same_more [OF assms wf nf]) (simp_all add: forget_neighbour_def)
  show "net_ext net (forget_neighbour name net)" by (simp add: forget_neighbour_def net_ext_def nara_at_def)
qed

lemma forget_observation_net:
  assumes "presence_wf net"
  shows "presence_wf (forget_observation name net)" and "net_ext net (forget_observation name net)"
proof -
  note w = presence_wfD(1,2) [OF assms]
  let ?f = "\<lambda>s :: NaraStatus. s\<lparr>st_Observations := map_option (AList.delete name) (st_Observations s)\<rparr>"
  have nm: "na_Name ((nara_at net r)\<lparr>na_Status := x\<rparr>) = na_Name (nara_at net r)" for r x by simp
  have wf: "net_wf (forget_observation name net)"
    unfolding forget_observation_def set_status_def
    by (rule net_wf_set_nara [OF w(1) nm]) (use net_wfD(2) [OF w(1)] in auto)
  have nf: "nil_free (forget_observation name net)"
    unfolding forget_observation_def set_status_def by (rule nil_free_set_nara [OF w(2)]) simp
  show "presence_wf (forget_observation name net)"
    by (rule presence_wf_same_more [OF assms wf nf]) (simp_all add: forget_observation_def set_status_def)
  show "net_ext net (forget_observation name net)"
    unfolding forget_observation_def set_status_def by (rule net_ext_set_nara [OF nm])
qed

lemma forget_events_net:
  assumes "presence_wf net"
  shows "presence_wf (forget_events name net)" and "net_ext net (forget_events name net)"
  unfolding forget_events_def
  using presence_wf_ledger [OF assms shrinks_wf [OF shrinks_RemoveEventsFor presence_wfD(3) [OF assms]]]
  by (auto simp: prod_eq_iff)

text \<open>Loops that cannot fail are folds.\<close>

lemma fold_net:
  assumes "presence_wf net" and "\<And>x n. presence_wf n \<Longrightarrow> presence_wf (f x n) \<and> net_ext n (f x n)"
  shows "presence_wf (fold f xs net) \<and> net_ext net (fold f xs net)"
  using assms(1)
proof (induction xs arbitrary: net)
  case (Cons x xs)
  note x = assms(2) [OF Cons.prems, of x]
  show ?case using Cons.IH [OF conjunct1 [OF x]] net_ext_trans [OF conjunct2 [OF x]] by auto
qed simp

lemma good_fold_forget:
  assumes "presence_wf net"
  shows "presence_wf (fold forget_neighbour xs net) \<and> net_ext net (fold forget_neighbour xs net)"
    and "presence_wf (fold forget_observation xs net) \<and> net_ext net (fold forget_observation xs net)"
    and "presence_wf (fold forget_events xs net) \<and> net_ext net (fold forget_events xs net)"
    and "presence_wf (fold (\<lambda>name n. forget_coordinator name (forget_neighbour name n)) xs net) \<and>
         net_ext net (fold (\<lambda>name n. forget_coordinator name (forget_neighbour name n)) xs net)"
  by (rule fold_net [OF assms]; simp add: forget_neighbour_net forget_observation_net forget_events_net)+

lemma good_pruneInactive:
  assumes "presence_wf net"
  shows "good_net net (pruneInactiveNaras G T net)"
proof -
  have "good_net net (let net1 = fold (\<lambda>name n. forget_coordinator name (forget_neighbour name n)) xs net;
                  net2 = pruneVerifyPingCache xs (fold forget_events xs net1)
              in go_bind (Projections_Trigger G net2) (\<lambda>net3. Inr (fold forget_observation xs net3)))" for xs
  proof -
    let ?n1 = "fold (\<lambda>name n. forget_coordinator name (forget_neighbour name n)) xs net"
    let ?n2 = "pruneVerifyPingCache xs (fold forget_events xs ?n1)"
    note n1 = good_fold_forget(4) [OF assms, of xs]
    note n2 = good_fold_forget(3) [OF conjunct1 [OF n1], of xs]
    have e: "net_ext net ?n2" using net_ext_trans [OF conjunct2 [OF n1] conjunct2 [OF n2]] by simp
    have "good_net ?n2 (go_bind (Projections_Trigger G ?n2) (\<lambda>net3. Inr (fold forget_observation xs net3)))"
      by (rule good_bind_net [OF good_Trigger]) (use n2 good_fold_forget(2) in \<open>simp_all add: goodI\<close>)
    then show ?thesis unfolding Let_def by (rule good_start [OF e])
  qed
  then show ?thesis using assms by (simp add: pruneInactiveNaras_def Let_def goodI)
qed

lemma good_socialMaintenance:
  assumes srt: "sort_algorithm (sort_perm G)" and wf: "presence_wf net"
  shows "good_net net (socialMaintenance_tick G T net)"
proof -
  have tick: "presence_wf (n\<lparr>nw_SyncLedger := (Prune G (linked_ledger G n))\<lparr>observationRL := rl\<rparr>, nn_Tease := ts\<rparr>) \<and>
      net_ext n (n\<lparr>nw_SyncLedger := (Prune G (linked_ledger G n))\<lparr>observationRL := rl\<rparr>, nn_Tease := ts\<rparr>)"
    if n: "presence_wf n" for n rl ts
  proof -
    have "ledger_wf (Prune G (linked_ledger G n))"
      using shrinks_wf [OF shrinks_pruneUnlocked [OF srt], of "linked_ledger G n"] presence_wfD(3) [OF n] by (simp add: Prune_def)
    then have "ledger_wf ((Prune G (linked_ledger G n))\<lparr>observationRL := rl\<rparr>)" by (simp add: ledger_wf_def)
    then show ?thesis using presence_wf_ledger [OF n] by simp
  qed
  show ?thesis
    unfolding socialMaintenance_tick_def Let_def
    by (rule good_bind_net [OF good_pruneInactive [OF wf]], rule goodI) (simp_all only: tick)
qed

lemma garbageCollect_net:
  assumes "presence_wf net"
  shows "presence_wf (snd (garbageCollectGhostNaras T net)) \<and> net_ext net (snd (garbageCollectGhostNaras T net))"
proof -
  have "presence_wf (fold forget_events xs (fold forget_observation xs (fold forget_neighbour xs net))) \<and>
      net_ext net (fold forget_events xs (fold forget_observation xs (fold forget_neighbour xs net)))" for xs
  proof -
    note n1 = good_fold_forget(1) [OF assms, of xs]
    note n2 = good_fold_forget(2) [OF conjunct1 [OF n1], of xs]
    note n3 = good_fold_forget(3) [OF conjunct1 [OF n2], of xs]
    show ?thesis
      using conjunct1 [OF n3] net_ext_trans [OF net_ext_trans [OF conjunct2 [OF n1] conjunct2 [OF n2]] conjunct2 [OF n3]]
      by (rule conjI)
  qed
  then show ?thesis using assms by (simp add: garbageCollectGhostNaras_def Let_def)
qed

section \<open>Opinions\<close>

lemma good_fetchOpinions:
  assumes "presence_wf net"
  shows "good_net net (fetchOpinionsFromBlueJay answer net)"
proof -
  have "good_net n (adopt_opinion x n)" if "presence_wf n" for x n
    using good_setObservation [OF that] that by (simp add: adopt_opinion_def Let_def goodI)
  then have "good_net net (go_fold adopt_opinion xs net)" for xs by (intro good_fold [OF assms])
  then show ?thesis using assms by (simp add: fetchOpinionsFromBlueJay_def goodI split: option.split)
qed

lemma good_form_opinion:
  assumes "presence_wf net"
  shows "good_net net (form_opinion_about G T name net)"
proof -
  have "good_net net (go_bind (opinion_RunOnce G net) (\<lambda>net1. setObservation name (ob net1) net1))" for ob
    by (rule good_bind_net [OF good_RunOnce(1) [OF assms]]) (rule good_setObservation)
  then show ?thesis using assms by (simp add: form_opinion_about_def Let_def goodI)
qed

lemma good_backfill:
  assumes srt: "sort_algorithm (sort_perm G)" and wf: "presence_wf net"
  shows "good_net net (backfillObservations G T net)"
proof -
  have one: "good snd n (backfill_one G T entry (count, n))" if n: "presence_wf n" for entry count n
  proof (cases entry)
    case (Pair name ob)
    have "good snd n (go_bind (NewBackfillObservationEvent G now me name a b c) (\<lambda>e.
        go_bind (with_ledger G (AddEventWithDedup G e) n) (\<lambda>(added, net1). Inr (if added then count + 1 else count, net1))))"
      for now me a b c
    proof (rule good_built_observation(3))
      fix e :: SyncEvent
      assume e: "is_observation e"
      then have "has_payload e" by (auto simp: is_observation_def has_payload_def Payload_def)
      then show "good snd n (go_bind (with_ledger G (AddEventWithDedup G e) n)
          (\<lambda>(added, net1). Inr (if added then count + 1 else count, net1)))"
        by (intro good_bind_pair [OF good_with_ledger [OF n good_add_intros(4) [OF srt _ e]]]) (simp_all add: goodI)
    qed
    then show ?thesis using Pair n by (simp add: backfill_one_def goodI)
  qed
  have "good snd net (go_fold (backfill_one G T) obs (0, net))" for obs by (rule good_fold_pair [OF wf]) (rule one)
  then have "good_net net (go_bind (go_fold (backfill_one G T) obs (0, net)) (\<lambda>(backfillCount, net1).
      if backfillCount > 0 then Projections_Trigger G net1 else Inr net1))" for obs
    by (rule good_bind_pair) (simp add: goodI good_Trigger)
  then show ?thesis by (simp add: backfillObservations_def Let_def)
qed

lemma good_applyStartTime:
  assumes "presence_wf net"
  shows "good_net net (applyStartTimeConsensus G net)"
  using assms good_setMeObservation [OF assms] by (simp add: applyStartTimeConsensus_def Let_def goodI)

lemma good_runOpinionPass:
  assumes srt: "sort_algorithm (sort_perm G)" and wf: "presence_wf net"
  shows "good_net net (runOpinionPass G T fetch answer finalPass net)"
proof -
  have last_pass: "good_net n (case garbageCollectGhostNaras T n of (deleted, net4) \<Rightarrow>
      go_bind (if \<not> nn_ReadOnly net4 then backfillObservations G T net4 else Inr net4) (pruneInactiveNaras G T))"
    if n: "presence_wf n" for n
  proof (rule good_start)
    let ?n = "snd (garbageCollectGhostNaras T n)"
    note gc = garbageCollect_net [OF n, of T]
    show "net_ext n ?n" using gc by blast
    have "good_net ?n (if \<not> nn_ReadOnly ?n then backfillObservations G T ?n else Inr ?n)"
      using good_backfill [OF srt conjunct1 [OF gc]] gc by (simp add: goodI)
    then show "good_net ?n (case garbageCollectGhostNaras T n of (deleted, net4) \<Rightarrow>
        go_bind (if \<not> nn_ReadOnly net4 then backfillObservations G T net4 else Inr net4) (pruneInactiveNaras G T))"
      unfolding case_prod_beta by (rule good_bind_net) (rule good_pruneInactive)
  qed
  have fetched: "good_net net (if fetch then fetchOpinionsFromBlueJay answer net else Inr net)"
    using good_fetchOpinions [OF wf] wf by (simp add: goodI)
  have each: "good_net n (go_fold (form_opinion_about G T) names n)" if "presence_wf n" for n names
    by (rule good_fold [OF that]) (rule good_form_opinion)
  show ?thesis
    unfolding runOpinionPass_def
    by (rule good_bind_net [OF fetched], rule good_bind_net [OF each], assumption,
        rule good_bind_net [OF good_applyStartTime], assumption) (use last_pass in \<open>simp add: goodI\<close>)
qed

end
