(* ===== verification/Mesh_Auth.thy ===== *)
theory Mesh_Auth
  imports Presence_Steps
begin

text \<open>
  \<open>transport_mesh_auth.go\<close>: how naras sign the HTTP requests and answers they exchange over the mesh,
  and the middleware in front of the handlers. A header has one value, or none. Handlers are
  functions of the request and of the state; what the answer of \<open>/ping\<close> at a URL decodes to, if it is
  a 200, is the parameter \<open>ping\<close>.
\<close>

section \<open>Requests and answers\<close>

type_synonym http_header = "string \<rightharpoonup> string"

record 'b http_request =
  hq_Method :: string
  hq_Path :: string
  hq_Header :: http_header
  hq_RemoteAddr :: string
  hq_Body :: 'b

text \<open>\<open>hp_Status\<close> is zero when the handler has set none.\<close>

record 'b http_response =
  hp_Status :: int
  hp_Header :: http_header
  hp_Body :: 'b

definition header_Get :: "http_header \<Rightarrow> string \<Rightarrow> string" where
  "header_Get h k = (case h k of None \<Rightarrow> [] | Some v \<Rightarrow> v)"

definition MeshAuthMaxAge :: int where "MeshAuthMaxAge = 30 * 1000000000"
definition HeaderNaraName :: string where "HeaderNaraName = ''X-Nara-Name''"
definition HeaderNaraTimestamp :: string where "HeaderNaraTimestamp = ''X-Nara-Timestamp''"
definition HeaderNaraSignature :: string where "HeaderNaraSignature = ''X-Nara-Signature''"

lemmas header_names = HeaderNaraName_def HeaderNaraTimestamp_def HeaderNaraSignature_def

definition unix_milli :: "clock \<Rightarrow> int" where
  \<comment> \<open>\<open>time.Now().UnixMilli()\<close>\<close>
  "unix_milli T = ck_nano T div 1000000"

definition request_message :: "string \<Rightarrow> int \<Rightarrow> string \<Rightarrow> string \<Rightarrow> string" where
  "request_message name timestamp method path = name @ fmt_int timestamp @ method @ path"

definition response_message :: "go_env \<Rightarrow> string \<Rightarrow> int \<Rightarrow> string \<Rightarrow> string" where
  "response_message G name timestamp body = name @ fmt_int timestamp @ base64_Encode G (sha256 G body)"

definition auth_headers :: "string \<Rightarrow> int \<Rightarrow> string \<Rightarrow> http_header" where
  "auth_headers name timestamp signature =
     [HeaderNaraName \<mapsto> name, HeaderNaraTimestamp \<mapsto> fmt_int timestamp, HeaderNaraSignature \<mapsto> signature]"

definition MeshAuthRequest :: "go_env \<Rightarrow> clock \<Rightarrow> NaraName \<Rightarrow> NaraKeypair \<Rightarrow> string \<Rightarrow> string \<Rightarrow> http_header" where
  "MeshAuthRequest G T name keypair method path =
     (let timestamp = unix_milli T;
          message = request_message name timestamp method path
      in auth_headers name timestamp (SignBase64 G keypair message))"

definition MeshAuthResponse :: "go_env \<Rightarrow> clock \<Rightarrow> NaraName \<Rightarrow> NaraKeypair \<Rightarrow> string \<Rightarrow> http_header" where
  "MeshAuthResponse G T name keypair body =
     (let timestamp = unix_milli T;
          message = response_message G name timestamp body
      in auth_headers name timestamp (SignBase64 G keypair message))"

section \<open>Verification\<close>

datatype mesh_error =
    MissingAuthHeaders
  | InvalidTimestamp
  | StaleTimestamp int
  | UnknownSender string
  | InvalidSignatureEncoding
  | SignatureFailed

text \<open>Looking for the key may change the state: \<open>resolvePublicKeyForNara\<close> asks neighbours.\<close>

type_synonym 'n key_lookup = "NaraName \<Rightarrow> 'n \<Rightarrow> (string option \<times> 'n) go"

definition VerifyMeshRequest ::
  "go_env \<Rightarrow> clock \<Rightarrow> 'b http_request \<Rightarrow> 'n key_lookup \<Rightarrow> 'n \<Rightarrow> ((mesh_error + string) \<times> 'n) go" where
  "VerifyMeshRequest G T r getPublicKey net =
     (let name = header_Get (hq_Header r) HeaderNaraName;
          timestampStr = header_Get (hq_Header r) HeaderNaraTimestamp;
          signatureStr = header_Get (hq_Header r) HeaderNaraSignature
      in if name = [] \<or> timestampStr = [] \<or> signatureStr = [] then Inr (Inl MissingAuthHeaders, net)
         else case ParseInt timestampStr of
                None \<Rightarrow> Inr (Inl InvalidTimestamp, net)
              | Some timestamp \<Rightarrow>
                  let age = nanos_since T (timestamp * 1000000)
                  in if age > MeshAuthMaxAge \<or> age < - MeshAuthMaxAge then Inr (Inl (StaleTimestamp age), net)
                     else go_bind (getPublicKey name net) (\<lambda>(pubKey, net1).
                       Inr (case pubKey of
                              None \<Rightarrow> Inl (UnknownSender name)
                            | Some k \<Rightarrow>
                                (case base64_Decode G signatureStr of
                                   None \<Rightarrow> Inl InvalidSignatureEncoding
                                 | Some signature \<Rightarrow>
                                     if \<not> VerifySignature G k (request_message name timestamp (hq_Method r) (hq_Path r)) signature
                                     then Inl SignatureFailed else Inr name), net1)))"

definition VerifyMeshResponse ::
  "go_env \<Rightarrow> http_header \<Rightarrow> string \<Rightarrow> 'n key_lookup \<Rightarrow> 'n \<Rightarrow> ((mesh_error + NaraName) \<times> 'n) go" where
  "VerifyMeshResponse G h body getPublicKey net =
     (let name = header_Get h HeaderNaraName;
          timestampStr = header_Get h HeaderNaraTimestamp;
          signatureStr = header_Get h HeaderNaraSignature
      in if name = [] \<or> timestampStr = [] \<or> signatureStr = [] then Inr (Inl MissingAuthHeaders, net)
         else case ParseInt timestampStr of
                None \<Rightarrow> Inr (Inl InvalidTimestamp, net)
              | Some timestamp \<Rightarrow>
                  go_bind (getPublicKey name net) (\<lambda>(pubKey, net1).
                    Inr (case pubKey of
                           None \<Rightarrow> Inl (UnknownSender name)
                         | Some k \<Rightarrow>
                             (case base64_Decode G signatureStr of
                                None \<Rightarrow> Inl InvalidSignatureEncoding
                              | Some signature \<Rightarrow>
                                  if \<not> VerifySignature G k (response_message G name timestamp body) signature
                                  then Inl SignatureFailed else Inr name), net1)))"

text \<open>\<open>read\<close> is what reading the body gives, or \<open>None\<close>.\<close>

definition VerifyMeshResponseBody ::
  "go_env \<Rightarrow> peers \<Rightarrow> http_header \<Rightarrow> string option \<Rightarrow> nara_net \<Rightarrow> (string option \<times> bool \<times> nara_net) go" where
  "VerifyMeshResponseBody G P h read net =
     (case read of
        None \<Rightarrow> Inr (None, False, net)
      | Some body \<Rightarrow>
          go_bind (VerifyMeshResponse G h body (resolvePublicKeyForNara G P) net) (\<lambda>(verified, net1).
            case verified of Inl err \<Rightarrow> Inr (Some body, False, net1) | Inr name \<Rightarrow> Inr (Some body, True, net1)))"

section \<open>Unknown senders\<close>

record ping_answer =
  pi_From :: NaraName
  pi_PublicKey :: string
  pi_MeshIP :: string

definition before_last_colon :: "string \<Rightarrow> string" where
  "before_last_colon addr =
     (if CHR '':'' \<in> set addr then rev (List.tl (dropWhile (\<lambda>c. c \<noteq> CHR '':'') (rev addr))) else addr)"

definition has_prefix :: "string \<Rightarrow> string \<Rightarrow> bool" where
  "has_prefix s p \<longleftrightarrow> take (length p) s = p"

definition discovered_nara :: "NaraName \<Rightarrow> ping_answer \<Rightarrow> Nara" where
  "discovered_nara name pingResp =
     (let nara = NewNara name
      in nara\<lparr>na_Status := (na_Status nara)\<lparr>st_PublicKey := pi_PublicKey pingResp, st_MeshIP := pi_MeshIP pingResp,
                st_MeshEnabled := True\<rparr>\<rparr>)"

definition tryDiscoverUnknownSender ::
  "go_env \<Rightarrow> (string \<Rightarrow> ping_answer option) \<Rightarrow> NaraName \<Rightarrow> string \<Rightarrow> nara_net \<Rightarrow> (bool \<times> nara_net) go" where
  "tryDiscoverUnknownSender G ping name remoteAddr net =
     (let ip = before_last_colon remoteAddr
      in if \<not> has_prefix ip ''100.64.'' then Inr (False, net)
         else if \<not> nn_mesh net then Inr (False, net)
         else case ping (network_buildMeshURLFromIP ip ''/ping'') of
                None \<Rightarrow> Inr (False, net)
              | Some pingResp \<Rightarrow>
                  if pi_From pingResp \<noteq> name then Inr (False, net)
                  else if pi_PublicKey pingResp = [] then Inr (False, net)
                  else go_bind (import_new G (discovered_nara name pingResp) net) (\<lambda>net1. Inr (True, net1)))"

section \<open>The middleware\<close>

text \<open>
  \<open>authenticate\<close> is the first half: the sender, or the error of the last verification. The clock is read
  once for both. The second half runs the handler on the request with the verified sender in its
  headers and signs what it wrote; \<open>encode\<close> gives the bytes of a body.
\<close>

definition authenticate ::
  "go_env \<Rightarrow> peers \<Rightarrow> clock \<Rightarrow> (string \<Rightarrow> ping_answer option) \<Rightarrow> 'b http_request \<Rightarrow> nara_net
   \<Rightarrow> ((mesh_error + string) \<times> nara_net) go" where
  "authenticate G P T ping r net =
     go_bind (VerifyMeshRequest G T r (resolvePublicKeyForNara G P) net) (\<lambda>(result, net1).
       case result of
         Inl (UnknownSender n) \<Rightarrow>
           let senderName = header_Get (hq_Header r) HeaderNaraName
           in go_bind (if senderName \<noteq> [] then tryDiscoverUnknownSender G ping senderName (hq_RemoteAddr r) net1
                       else Inr (False, net1)) (\<lambda>(found, net2).
                if found then VerifyMeshRequest G T r (resolvePublicKeyForNara G P) net2 else Inr (result, net2))
       | other \<Rightarrow> Inr (result, net1))"

definition finalize ::
  "go_env \<Rightarrow> clock \<Rightarrow> ('c \<Rightarrow> string) \<Rightarrow> 'c http_response \<Rightarrow> nara_net \<Rightarrow> 'c http_response" where
  "finalize G T encode sw net =
     sw\<lparr>hp_Header := hp_Header sw ++ MeshAuthResponse G T (meName net) (my_keypair net) (encode (hp_Body sw))\<rparr>"

datatype 'c answer = Unauthorized mesh_error | Answered "'c http_response"

type_synonym ('b, 'c) http_handler = "'b http_request \<Rightarrow> nara_net \<Rightarrow> ('c http_response \<times> nara_net) go"

definition meshAuthMiddleware ::
  "go_env \<Rightarrow> peers \<Rightarrow> clock \<Rightarrow> (string \<Rightarrow> ping_answer option) \<Rightarrow> ('c \<Rightarrow> string) \<Rightarrow> string \<Rightarrow> ('b, 'c) http_handler
   \<Rightarrow> 'b http_request \<Rightarrow> nara_net \<Rightarrow> ('c answer \<times> nara_net) go" where
  "meshAuthMiddleware G P T ping encode path handler r net =
     (if path = ''/ping'' then go_bind (handler r net) (\<lambda>(w, net1). Inr (Answered w, net1))
      else go_bind (authenticate G P T ping r net) (\<lambda>(result, net1).
        case result of
          Inl err \<Rightarrow> Inr (Unauthorized err, net1)
        | Inr sender \<Rightarrow>
            go_bind (handler (r\<lparr>hq_Header := (hq_Header r)(''X-Nara-Verified'' \<mapsto> sender)\<rparr>) net1) (\<lambda>(sw, net2).
              Inr (Answered (finalize G T encode sw net2), net2))))"

text \<open>
  Bodies travel as the values they encode: \<open>None\<close> is a body that does not decode, or the text of
  \<open>http.Error\<close>. \<open>on_the_wire\<close> is what the other side sees of an answer.
\<close>

definition http_error :: "int \<Rightarrow> 'c option http_response" where
  "http_error code = \<lparr>hp_Status = code, hp_Header = Map.empty, hp_Body = None\<rparr>"

definition http_json :: "'c \<Rightarrow> 'c option http_response" where
  "http_json c = \<lparr>hp_Status = 0, hp_Header = [''Content-Type'' \<mapsto> ''application/json; charset=utf-8''], hp_Body = Some c\<rparr>"

definition on_the_wire :: "'c option answer \<Rightarrow> int \<times> 'c option" where
  "on_the_wire a =
     (case a of Unauthorized err \<Rightarrow> (401, None)
      | Answered w \<Rightarrow> (if hp_Status w = 0 then 200 else hp_Status w, hp_Body w))"

definition AddMeshAuthHeaders :: "go_env \<Rightarrow> clock \<Rightarrow> 'b http_request \<Rightarrow> nara_net \<Rightarrow> 'b http_request" where
  "AddMeshAuthHeaders G T req net =
     req\<lparr>hq_Header := hq_Header req ++ MeshAuthRequest G T (meName net) (my_keypair net) (hq_Method req) (hq_Path req)\<rparr>"

section \<open>What verification means\<close>

lemma nanos_since_window:
  "nanos_since T t > MeshAuthMaxAge \<or> nanos_since T t < - MeshAuthMaxAge \<longleftrightarrow> \<bar>ck_nano T - t\<bar> > MeshAuthMaxAge"
  by (auto simp: nanos_since_def MeshAuthMaxAge_def)

lemma header_Get_auth [simp]:
  "header_Get (h ++ auth_headers name ts sig) HeaderNaraName = name"
  "header_Get (h ++ auth_headers name ts sig) HeaderNaraTimestamp = fmt_int ts"
  "header_Get (h ++ auth_headers name ts sig) HeaderNaraSignature = sig"
  by (simp_all add: header_Get_def auth_headers_def header_names)

lemma fmt_int_not_Nil [simp]: "fmt_int x \<noteq> []"
  by (simp add: fmt_int_def)

definition request_authentic :: "go_env \<Rightarrow> clock \<Rightarrow> 'b http_request \<Rightarrow> string \<Rightarrow> bool" where
  \<comment> \<open>the request carries a signature of its method and path, made less than thirty seconds ago, under the key\<close>
  "request_authentic G T r k \<longleftrightarrow>
     header_Get (hq_Header r) HeaderNaraName \<noteq> [] \<and>
     (\<exists>ts sig. ParseInt (header_Get (hq_Header r) HeaderNaraTimestamp) = Some ts \<and>
        \<bar>ck_nano T - ts * 1000000\<bar> \<le> MeshAuthMaxAge \<and>
        base64_Decode G (header_Get (hq_Header r) HeaderNaraSignature) = Some sig \<and>
        VerifySignature G k (request_message (header_Get (hq_Header r) HeaderNaraName) ts (hq_Method r) (hq_Path r)) sig)"

lemma VerifyMeshRequest_accepts:
  assumes "VerifyMeshRequest G T r lookup net = Inr (Inr sender, net')"
  obtains k where "sender = header_Get (hq_Header r) HeaderNaraName" and "lookup sender net = Inr (Some k, net')"
    and "request_authentic G T r k"
proof -
  let ?h = "header_Get (hq_Header r)"
  have v: "VerifyMeshRequest G T r lookup net = Inr (Inr sender, net')" by (rule assms)
  have p: "\<not> (?h HeaderNaraName = [] \<or> ?h HeaderNaraTimestamp = [] \<or> ?h HeaderNaraSignature = [])"
  proof
    assume e: "?h HeaderNaraName = [] \<or> ?h HeaderNaraTimestamp = [] \<or> ?h HeaderNaraSignature = []"
    from v show False unfolding VerifyMeshRequest_def Let_def if_P [OF e] by simp
  qed
  then have h: "?h HeaderNaraName \<noteq> []" by blast
  obtain ts where ts: "ParseInt (?h HeaderNaraTimestamp) = Some ts"
    using v unfolding VerifyMeshRequest_def Let_def if_not_P [OF p] by (cases "ParseInt (?h HeaderNaraTimestamp)") auto
  have age: "\<not> (nanos_since T (ts * 1000000) > MeshAuthMaxAge \<or> nanos_since T (ts * 1000000) < - MeshAuthMaxAge)"
  proof
    assume e: "nanos_since T (ts * 1000000) > MeshAuthMaxAge \<or> nanos_since T (ts * 1000000) < - MeshAuthMaxAge"
    from v show False unfolding VerifyMeshRequest_def Let_def if_not_P [OF p] ts option.case if_P [OF e] by simp
  qed
  have step: "go_bind (lookup (?h HeaderNaraName) net) (\<lambda>(pubKey, net1).
       Inr (case pubKey of None \<Rightarrow> Inl (UnknownSender (?h HeaderNaraName))
         | Some k \<Rightarrow> (case base64_Decode G (?h HeaderNaraSignature) of None \<Rightarrow> Inl InvalidSignatureEncoding
             | Some signature \<Rightarrow>
                 if \<not> VerifySignature G k (request_message (?h HeaderNaraName) ts (hq_Method r) (hq_Path r)) signature
                 then Inl SignatureFailed else Inr (?h HeaderNaraName)), net1)) = Inr (Inr sender, net')"
    using v unfolding VerifyMeshRequest_def Let_def if_not_P [OF p] ts option.case if_not_P [OF age] .
  obtain pk net1 where l: "lookup (?h HeaderNaraName) net = Inr (pk, net1)" using step by (auto simp: go_bind_eq_Inr)
  note step1 = step [unfolded l go_bind_Inr prod.case]
  have n: "net1 = net'" using step1 by simp
  obtain k where k: "pk = Some k" using step1 by (cases pk) simp_all
  note step2 = step1 [unfolded k option.case]
  obtain sig where sg: "base64_Decode G (?h HeaderNaraSignature) = Some sig"
    using step2 by (cases "base64_Decode G (?h HeaderNaraSignature)") simp_all
  note step3 = step2 [unfolded sg option.case]
  have ok: "VerifySignature G k (request_message (?h HeaderNaraName) ts (hq_Method r) (hq_Path r)) sig"
    using step3 by (cases "VerifySignature G k (request_message (?h HeaderNaraName) ts (hq_Method r) (hq_Path r)) sig") simp_all
  have "sender = ?h HeaderNaraName" using step3 ok by simp
  then show ?thesis
    using that [of k] l h ts age sg ok k n unfolding nanos_since_window request_authentic_def not_less by blast
qed

lemma VerifyMeshRequest_authentic:
  assumes "lookup (header_Get (hq_Header r) HeaderNaraName) net = Inr (Some k, net')" and "request_authentic G T r k"
    and "header_Get (hq_Header r) HeaderNaraSignature \<noteq> []"
  shows "VerifyMeshRequest G T r lookup net = Inr (Inr (header_Get (hq_Header r) HeaderNaraName), net')"
proof -
  obtain ts sig where a: "header_Get (hq_Header r) HeaderNaraName \<noteq> []"
    "ParseInt (header_Get (hq_Header r) HeaderNaraTimestamp) = Some ts" "\<bar>ck_nano T - ts * 1000000\<bar> \<le> MeshAuthMaxAge"
    "base64_Decode G (header_Get (hq_Header r) HeaderNaraSignature) = Some sig"
    "VerifySignature G k (request_message (header_Get (hq_Header r) HeaderNaraName) ts (hq_Method r) (hq_Path r)) sig"
    using assms(2) by (auto simp: request_authentic_def)
  have "header_Get (hq_Header r) HeaderNaraTimestamp \<noteq> []" using a(2) by (auto simp: ParseInt_def parse_nat_def)
  moreover have "\<not> (nanos_since T (ts * 1000000) > MeshAuthMaxAge \<or> nanos_since T (ts * 1000000) < - MeshAuthMaxAge)"
    unfolding nanos_since_window using a(3) by simp
  ultimately show ?thesis using assms(1,3) a by (simp add: VerifyMeshRequest_def Let_def)
qed

lemma signed_request_authentic:
  assumes "crypto_ok G" and "valid_keypair G kp" and "name \<noteq> []" and "in_i64 (unix_milli T)"
    and "\<bar>ck_nano T' - unix_milli T * 1000000\<bar> \<le> MeshAuthMaxAge"
    and "hq_Header r = h ++ MeshAuthRequest G T name kp (hq_Method r) (hq_Path r)"
  shows "request_authentic G T' r (PublicKey kp)"
  unfolding request_authentic_def assms(6) MeshAuthRequest_def Let_def header_Get_auth
  using assms by (simp add: ParseInt_fmt_int SignBase64_def)

text \<open>Where the key comes from.\<close>

lemma resolved_key_known:
  assumes "resolvePublicKeyForNara G P name net = Inr (Some k, net')"
  shows "getPublicKeyForNara G net' name = Some k"
  using assms by (auto simp: resolvePublicKeyForNara_def go_bind_eq_Inr split: option.splits if_splits)

locale key_source =
  fixes lookup :: "NaraName \<Rightarrow> 'n \<Rightarrow> (string option \<times> 'n) go" and wf :: "'n \<Rightarrow> bool" and ext :: "'n \<Rightarrow> 'n \<Rightarrow> bool"
  assumes lookup_total: "wf n \<Longrightarrow> \<exists>k n'. lookup name n = Inr (k, n') \<and> wf n' \<and> ext n n'"
    and ext_refl: "ext n n"
begin

lemma request_total:
  assumes "wf n"
  shows "\<exists>res n'. VerifyMeshRequest G T r lookup n = Inr (res, n') \<and> wf n' \<and> ext n n'"
proof -
  obtain k n' where "lookup (header_Get (hq_Header r) HeaderNaraName) n = Inr (k, n')" "wf n'" "ext n n'"
    using lookup_total [OF assms] by blast
  then show ?thesis using assms ext_refl by (simp add: VerifyMeshRequest_def Let_def split: option.split)
qed

lemma response_total:
  assumes "wf n"
  shows "\<exists>res n'. VerifyMeshResponse G h body lookup n = Inr (res, n') \<and> wf n' \<and> ext n n'"
proof -
  obtain k n' where "lookup (header_Get h HeaderNaraName) n = Inr (k, n')" "wf n'" "ext n n'"
    using lookup_total [OF assms] by blast
  then show ?thesis using assms ext_refl by (simp add: VerifyMeshResponse_def Let_def split: option.split)
qed

end

interpretation resolving: key_source "resolvePublicKeyForNara G P" presence_wf net_ext
  using good_resolvePublicKey by unfold_locales (fastforce simp: good_def)+

lemma good_VerifyMeshRequest: "presence_wf net \<Longrightarrow> good snd net (VerifyMeshRequest G T r (resolvePublicKeyForNara G P) net)"
  using resolving.request_total by (fastforce simp: good_def)

lemma good_VerifyMeshResponseBody:
  assumes "presence_wf net"
  shows "good net3 net (VerifyMeshResponseBody G P h read net)"
proof -
  have v: "good snd net (VerifyMeshResponse G h body (resolvePublicKeyForNara G P) net)" for body
    using resolving.response_total [OF assms] by (fastforce simp: good_def)
  have "good net3 net (go_bind (VerifyMeshResponse G h body (resolvePublicKeyForNara G P) net) (\<lambda>(verified, net1).
      case verified of Inl err \<Rightarrow> Inr (Some body, False, net1) | Inr name \<Rightarrow> Inr (Some body, True, net1)))" for body
    by (rule good_bind_pair [OF v]) (simp add: goodI split: sum.split)
  then show ?thesis using assms by (simp add: VerifyMeshResponseBody_def goodI split: option.split)
qed

section \<open>The middleware never fails\<close>

lemma good_tryDiscover:
  assumes "presence_wf net"
  shows "good snd net (tryDiscoverUnknownSender G ping name addr net)"
proof -
  have "good snd net (go_bind (import_new G (discovered_nara name pingResp) net) (\<lambda>net1. Inr (True, net1)))" for pingResp
    by (rule good_bind_net [OF good_import [OF assms]]) (simp_all add: discovered_nara_def NewNara_def Let_def goodI)
  then show ?thesis using assms by (simp add: tryDiscoverUnknownSender_def Let_def goodI split: option.split)
qed

lemma good_authenticate:
  assumes "presence_wf net"
  shows "good snd net (authenticate G P T ping r net)"
proof -
  have again: "good snd n (go_bind (tryDiscoverUnknownSender G ping name addr n) (\<lambda>(found, net2).
      if found then VerifyMeshRequest G T r (resolvePublicKeyForNara G P) net2 else Inr (res, net2)))"
    if "presence_wf n" for n name addr res
    by (rule good_bind_pair [OF good_tryDiscover [OF that]]) (simp add: good_VerifyMeshRequest goodI)
  show ?thesis
    unfolding authenticate_def Let_def
    by (rule good_bind_pair [OF good_VerifyMeshRequest [OF assms]])
      (auto simp: goodI again split: sum.split mesh_error.split)
qed

lemma good_middleware:
  assumes "presence_wf net" and "\<And>h n. presence_wf n \<Longrightarrow> good snd n (handler (r\<lparr>hq_Header := h\<rparr>) n)"
  shows "good snd net (meshAuthMiddleware G P T ping encode path handler r net)"
proof -
  have run: "good snd n (go_bind (handler (r\<lparr>hq_Header := h\<rparr>) n) (\<lambda>(sw, net2). Inr (f sw net2, net2)))" if "presence_wf n" for n h f
    by (rule good_bind_pair [OF assms(2) [OF that]]) (simp add: goodI)
  have "good snd net (go_bind (authenticate G P T ping r net) (\<lambda>(result, net1).
        case result of
          Inl err \<Rightarrow> Inr (Unauthorized err, net1)
        | Inr sender \<Rightarrow>
            go_bind (handler (r\<lparr>hq_Header := (hq_Header r)(''X-Nara-Verified'' \<mapsto> sender)\<rparr>) net1) (\<lambda>(sw, net2).
              Inr (Answered (finalize G T encode sw net2), net2))))"
    by (rule good_bind_pair [OF good_authenticate [OF assms(1)]]) (simp add: goodI run split: sum.split)
  then show ?thesis
    using run [OF assms(1), of "hq_Header r" "\<lambda>w n. Answered w"] by (simp add: meshAuthMiddleware_def)
qed

lemma authenticate_verified:
  assumes "authenticate G P T ping r net = Inr (Inr sender, net1)"
  obtains net0 where "VerifyMeshRequest G T r (resolvePublicKeyForNara G P) net0 = Inr (Inr sender, net1)"
proof -
  obtain res n where v: "VerifyMeshRequest G T r (resolvePublicKeyForNara G P) net = Inr (res, n)"
    using assms by (auto simp: authenticate_def go_bind_eq_Inr)
  show ?thesis
  proof (cases "\<exists>name. res = Inl (UnknownSender name)")
    case False
    then have "authenticate G P T ping r net = Inr (res, n)"
      by (auto simp: authenticate_def v split: sum.split mesh_error.split)
    then show ?thesis using assms v that by simp
  next
    case True
    then show ?thesis
      using assms that by (auto simp: authenticate_def v Let_def go_bind_eq_Inr split: if_splits)
  qed
qed

lemma authenticate_accepts:
  assumes "authenticate G P T ping r net = Inr (Inr sender, net1)"
  obtains k where "sender = header_Get (hq_Header r) HeaderNaraName" and "getPublicKeyForNara G net1 sender = Some k"
    and "request_authentic G T r k"
proof -
  obtain net0 where "VerifyMeshRequest G T r (resolvePublicKeyForNara G P) net0 = Inr (Inr sender, net1)"
    using authenticate_verified [OF assms] by blast
  then show ?thesis
    by (rule VerifyMeshRequest_accepts) (use that resolved_key_known in blast)
qed

end
