(* ===== verification/Mesh_Client.thy ===== *)
theory Mesh_Client
  imports Mesh_Auth
begin

text \<open>
  \<open>mesh_client.go\<close>: the client side of the mesh. The transport is a parameter: for a URL and a request
  it gives the status and the decoded body, \<open>None\<close> when the request cannot be made or sent. The second
  half puts the sync handler of another nara, behind its middleware, in that place.
\<close>

record MeshClient =
  mc_name :: NaraName
  mc_keypair :: NaraKeypair
  mc_peers :: "NaraID \<rightharpoonup> string"
  mc_testURLs :: "NaraID \<rightharpoonup> string"

datatype client_error =
    MarshalFailed
  | PeerNotRegistered NaraID
  | RequestFailed
  | ServerReturned int
  | DecodeFailed
  | MeshIPRequired

type_synonym ('b, 'c) exchange = "string \<Rightarrow> 'b option http_request \<Rightarrow> (int \<times> 'c option) option"

section \<open>Peers\<close>

definition NewMeshClient :: "NaraName \<Rightarrow> NaraKeypair \<Rightarrow> MeshClient" where
  "NewMeshClient name keypair = \<lparr>mc_name = name, mc_keypair = keypair, mc_peers = Map.empty, mc_testURLs = Map.empty\<rparr>"

definition EnableTestMode :: "(NaraID \<rightharpoonup> string) option \<Rightarrow> MeshClient \<Rightarrow> MeshClient" where
  "EnableTestMode testURLs m = (case testURLs of None \<Rightarrow> m | Some urls \<Rightarrow> m\<lparr>mc_testURLs := urls\<rparr>)"

definition RegisterPeer :: "NaraID \<Rightarrow> string \<Rightarrow> MeshClient \<Rightarrow> MeshClient" where
  "RegisterPeer naraID baseURL m = m\<lparr>mc_peers := (mc_peers m)(naraID \<mapsto> baseURL)\<rparr>"

definition client_RegisterPeerIP :: "NaraID \<Rightarrow> string \<Rightarrow> MeshClient \<Rightarrow> MeshClient" where
  "client_RegisterPeerIP naraID ip m = m\<lparr>mc_peers := (mc_peers m)(naraID \<mapsto> buildMeshURLFromIP ip)\<rparr>"

definition UnregisterPeer :: "NaraID \<Rightarrow> MeshClient \<Rightarrow> MeshClient" where
  "UnregisterPeer naraID m = m\<lparr>mc_peers := (mc_peers m)(naraID := None)\<rparr>"

definition HasPeer :: "NaraID \<Rightarrow> MeshClient \<Rightarrow> bool" where
  "HasPeer naraID m \<longleftrightarrow> mc_peers m naraID \<noteq> None"

definition GetPeerBaseURL :: "NaraID \<Rightarrow> MeshClient \<Rightarrow> string option" where
  "GetPeerBaseURL naraID m = mc_peers m naraID"

definition buildURL :: "MeshClient \<Rightarrow> NaraID \<Rightarrow> string \<Rightarrow> client_error + string" where
  "buildURL m naraID path =
     (case (case mc_testURLs m naraID of Some baseURL \<Rightarrow> Some baseURL | None \<Rightarrow> mc_peers m naraID) of
        None \<Rightarrow> Inl (PeerNotRegistered naraID)
      | Some baseURL \<Rightarrow> Inr (baseURL @ path))"

definition BuildMeshURL :: "string \<Rightarrow> string \<Rightarrow> string" where
  "BuildMeshURL ip path = ''http://'' @ ip @ '':'' @ fmt_int DefaultMeshPort @ path"

text \<open>The client of a network: \<open>RegisterPeerIP\<close> of \<open>Neighbourhood\<close> is its registration.\<close>

definition network_client :: "'a network_scheme \<Rightarrow> MeshClient" where
  "network_client net = (NewMeshClient (meName net) (my_keypair net))\<lparr>mc_peers := nw_peers net\<rparr>"

lemma network_client_RegisterPeerIP:
  "network_client (RegisterPeerIP i ip net) = client_RegisterPeerIP i ip (network_client net)"
  by (simp add: network_client_def client_RegisterPeerIP_def RegisterPeerIP_def NewMeshClient_def meName_def nara_at_def my_keypair_def)

text \<open>The peers that the status of tsnet lists: their addresses and host name, in the order of the map.\<close>

definition backup_tool :: "string \<Rightarrow> bool" where
  "backup_tool hostName \<longleftrightarrow> length hostName \<ge> 12 \<and> take 12 hostName = ''nara-backup-''"

definition DiscoverMeshPeers :: "(string list \<times> string) list option \<Rightarrow> (string \<times> string) list option" where
  "DiscoverMeshPeers status =
     map_option (\<lambda>peers. map (\<lambda>(ips, hostName). (hostName, hd ips))
       (filter (\<lambda>(ips, hostName). \<not> (length ips = 0 \<or> hostName = []) \<and> \<not> backup_tool hostName) peers)) status"

section \<open>Requests\<close>

text \<open>
  The path of a URL, as \<open>net/url\<close> finds it between the authority and the query. Percent escapes, which no
  URL of the client has, are not decoded.
\<close>

definition URL_Path :: "string \<Rightarrow> string" where
  "URL_Path url =
     takeWhile (\<lambda>c. c \<notin> {CHR ''?'', CHR ''#''})
       (dropWhile (\<lambda>c. c \<notin> {CHR ''/'', CHR ''?'', CHR ''#''}) (if has_prefix url ''http://'' then drop 7 url else url))"

definition new_request :: "string \<Rightarrow> string \<Rightarrow> 'b option \<Rightarrow> 'b option http_request" where
  "new_request method url body =
     \<lparr>hq_Method = method, hq_Path = URL_Path url, hq_Header = Map.empty, hq_RemoteAddr = [], hq_Body = body\<rparr>"

definition set_header :: "string \<Rightarrow> string \<Rightarrow> 'b http_request \<Rightarrow> 'b http_request" where
  "set_header k v r = r\<lparr>hq_Header := (hq_Header r)(k \<mapsto> v)\<rparr>"

definition signRequest :: "go_env \<Rightarrow> clock \<Rightarrow> MeshClient \<Rightarrow> 'b http_request \<Rightarrow> 'b http_request" where
  "signRequest G T m req =
     (let timestamp = unix_milli T;
          message = request_message (mc_name m) timestamp (hq_Method req) (hq_Path req)
      in req\<lparr>hq_Header := hq_Header req ++ auth_headers (mc_name m) timestamp (SignBase64 G (mc_keypair m) message)\<rparr>)"

text \<open>The body of the five functions that post; they differ in the path and in what they make of the answer.\<close>

definition post_signed ::
  "go_env \<Rightarrow> clock \<Rightarrow> ('b, 'c) exchange \<Rightarrow> MeshClient \<Rightarrow> NaraID \<Rightarrow> string \<Rightarrow> 'b option \<Rightarrow> client_error + 'c option" where
  "post_signed G T Do m naraID path jsonBody =
     (case jsonBody of
        None \<Rightarrow> Inl MarshalFailed
      | Some body \<Rightarrow>
          (case buildURL m naraID path of
             Inl err \<Rightarrow> Inl err
           | Inr url \<Rightarrow>
               (let httpReq = set_header ''Content-Type'' ''application/json'' (new_request ''POST'' url (Some body))
                in case Do url (signRequest G T m httpReq) of
                     None \<Rightarrow> Inl RequestFailed
                   | Some (status, resp) \<Rightarrow> if status \<noteq> 200 then Inl (ServerReturned status) else Inr resp)))"

definition decoded :: "client_error + 'c option \<Rightarrow> client_error + 'c" where
  "decoded r = (case r of Inl err \<Rightarrow> Inl err | Inr None \<Rightarrow> Inl DecodeFailed | Inr (Some c) \<Rightarrow> Inr c)"

definition ignored :: "client_error + 'c option \<Rightarrow> client_error + unit" where
  "ignored r = (case r of Inl err \<Rightarrow> Inl err | Inr resp \<Rightarrow> Inr ())"

definition FetchSyncEventsWithCursor ::
  "go_env \<Rightarrow> clock \<Rightarrow> (SyncRequest, SyncResponse) exchange \<Rightarrow> MeshClient \<Rightarrow> NaraID \<Rightarrow> SyncRequest
   \<Rightarrow> client_error + SyncResponse" where
  "FetchSyncEventsWithCursor G T Do m naraID req =
     decoded (post_signed G T Do m naraID ''/events/sync'' (Some (req\<lparr>rq_From := mc_name m\<rparr>)))"

definition FetchSyncEvents ::
  "go_env \<Rightarrow> clock \<Rightarrow> (SyncRequest, SyncResponse) exchange \<Rightarrow> MeshClient \<Rightarrow> NaraID \<Rightarrow> SyncRequest
   \<Rightarrow> client_error + SyncEvent list" where
  "FetchSyncEvents G T Do m naraID req =
     (case FetchSyncEventsWithCursor G T Do m naraID req of Inl err \<Rightarrow> Inl err | Inr resp \<Rightarrow> Inr (rs_Events resp))"

definition zero_request :: SyncRequest where
  "zero_request = \<lparr>rq_From = [], rq_Services = [], rq_Subjects = [], rq_Mode = [], rq_SampleSize = 0, rq_Cursor = [],
     rq_PageSize = 0, rq_Limit = 0, rq_SinceTime = 0, rq_SliceIndex = 0, rq_SliceTotal = 0, rq_MaxEvents = 0\<rparr>"

definition FetchCheckpoints ::
  "go_env \<Rightarrow> clock \<Rightarrow> (SyncRequest, SyncResponse) exchange \<Rightarrow> MeshClient \<Rightarrow> NaraID \<Rightarrow> string \<Rightarrow> int
   \<Rightarrow> client_error + SyncResponse" where
  "FetchCheckpoints G T Do m naraID cursor pageSize0 =
     (let pageSize = (if pageSize0 \<le> 0 \<or> pageSize0 > 5000 then 1000 else pageSize0)
      in FetchSyncEventsWithCursor G T Do m naraID
           (zero_request\<lparr>rq_Mode := ''page'', rq_Services := [ServiceCheckpoint], rq_Cursor := cursor, rq_PageSize := pageSize\<rparr>))"

text \<open>\<open>marshal\<close> is \<open>json.Marshal\<close>, which fails on values JSON cannot hold.\<close>

definition RelayWorldMessage ::
  "go_env \<Rightarrow> clock \<Rightarrow> ('b, 'c) exchange \<Rightarrow> ('msg \<Rightarrow> 'b option) \<Rightarrow> MeshClient \<Rightarrow> NaraID \<Rightarrow> 'msg \<Rightarrow> client_error + unit" where
  "RelayWorldMessage G T Do marshal m naraID msg = ignored (post_signed G T Do m naraID ''/world/relay'' (marshal msg))"

definition client_SendDM ::
  "go_env \<Rightarrow> clock \<Rightarrow> ('b, 'c) exchange \<Rightarrow> ('msg \<Rightarrow> 'b option) \<Rightarrow> MeshClient \<Rightarrow> NaraID \<Rightarrow> 'msg \<Rightarrow> client_error + unit" where
  "client_SendDM G T Do marshal m naraID dm = ignored (post_signed G T Do m naraID ''/dm'' (marshal dm))"

definition PostGossipZine ::
  "go_env \<Rightarrow> clock \<Rightarrow> ('b, 'zine) exchange \<Rightarrow> ('zine \<Rightarrow> 'b option) \<Rightarrow> MeshClient \<Rightarrow> NaraID \<Rightarrow> 'zine \<Rightarrow> client_error + 'zine" where
  "PostGossipZine G T Do marshal m naraID zine = decoded (post_signed G T Do m naraID ''/gossip/zine'' (marshal zine))"

definition SendRuntimeMessage ::
  "go_env \<Rightarrow> clock \<Rightarrow> ('b, 'c) exchange \<Rightarrow> MeshClient \<Rightarrow> NaraID \<Rightarrow> 'b \<Rightarrow> client_error + unit" where
  "SendRuntimeMessage G T Do m naraID msgBytes = ignored (post_signed G T Do m naraID ''/mesh/message'' (Some msgBytes))"

text \<open>Pings are not signed; the exchange gives the status and the round trip in nanoseconds.\<close>

type_synonym ping_exchange = "string \<Rightarrow> unit option http_request \<Rightarrow> (int \<times> int) option"

definition ping_url :: "ping_exchange \<Rightarrow> MeshClient \<Rightarrow> string \<Rightarrow> client_error + int" where
  "ping_url Do m url =
     (case Do url (set_header ''X-Nara-From'' (mc_name m) (new_request ''GET'' url None)) of
        None \<Rightarrow> Inl RequestFailed
      | Some (status, rtt) \<Rightarrow> if status \<noteq> 200 then Inl (ServerReturned status) else Inr rtt)"

definition PingNara :: "ping_exchange \<Rightarrow> MeshClient \<Rightarrow> NaraID \<Rightarrow> client_error + int" where
  "PingNara Do m naraID = (case buildURL m naraID ''/ping'' of Inl err \<Rightarrow> Inl err | Inr url \<Rightarrow> ping_url Do m url)"

definition PingIP :: "ping_exchange \<Rightarrow> MeshClient \<Rightarrow> string \<Rightarrow> client_error + int" where
  "PingIP Do m meshIP = (if meshIP = [] then Inl MeshIPRequired else ping_url Do m (BuildMeshURL meshIP ''/ping''))"

section \<open>Another nara at the other end\<close>

definition sync_handler ::
  "go_env \<Rightarrow> (nat \<Rightarrow> int) \<Rightarrow> clock \<Rightarrow> (SyncRequest option, SyncResponse option) http_handler" where
  \<comment> \<open>\<open>httpEventsSyncHandler\<close> with what precedes its routing\<close>
  "sync_handler G key T r net =
     (if hq_Method r \<noteq> ''POST'' then Inr (http_error 405, net)
      else case hq_Body r of
             None \<Rightarrow> Inr (http_error 400, net)
           | Some req \<Rightarrow>
               go_bind (httpEventsSyncHandler G key (ck_sec T) (meName net) (my_keypair net) (Some (nw_SyncLedger net)) req)
                 (\<lambda>resp. Inr (case resp of None \<Rightarrow> http_error 400 | Some x \<Rightarrow> http_json x, net)))"

definition reached ::
  "string \<Rightarrow> ('b option http_request \<Rightarrow> nara_net \<Rightarrow> ('c option answer \<times> nara_net) go) \<Rightarrow> nara_net \<Rightarrow> ('b, 'c) exchange" where
  \<comment> \<open>the exchange with a server, as seen from the address; a panic of the handler closes the connection\<close>
  "reached addr server net url r =
     (case server (r\<lparr>hq_RemoteAddr := addr\<rparr>) net of Inl panic \<Rightarrow> None | Inr (a, net') \<Rightarrow> Some (on_the_wire a))"

end
