(* ===== verification/Clout.thy ===== *)
theory Clout
  imports Observation_Status
begin

text \<open>
  Clout, the subjective score a nara gives the others (\<open>projection_clout.go\<close>, \<open>EventWeight\<close> of
  \<open>sync_ledger.go\<close>, \<open>getMyClout\<close>), and the pings that keep its coordinates (\<open>coordinate_maintenance.go\<close>).
  A map of scores is an association list in the order in which its keys came.
\<close>

definition ReasonStashStored :: string where "ReasonStashStored = ''stash-stored''"

section \<open>Weights\<close>

text \<open>The two functions that weigh an event share these steps.\<close>

definition base_weight :: "NaraPersonality \<Rightarrow> float64" where
  "base_weight p =
     f64_sub (f64_add (f64_lit 1 1) (f64_div (f64_of_int (Sociability p)) (f64_lit 200 1)))
       (f64_div (f64_of_int (Chill p)) (f64_lit 400 1))"

definition reason_weight :: "string \<Rightarrow> NaraPersonality \<Rightarrow> float64 \<Rightarrow> float64" where
  "reason_weight reason p weight =
     (if reason = ReasonHighRestarts
      then if Sociability p > 70 then f64_mul weight (f64_lit 7 10) else weight
      else if reason = ReasonComeback
      then if Sociability p > 60 then f64_mul weight (f64_lit 14 10) else weight
      else if reason = ReasonTrendAbandon
      then let w = (if Agreeableness p > 70 then f64_mul weight (f64_lit 5 10) else weight)
           in if Sociability p > 60 then f64_mul w (f64_lit 12 10) else w
      else if reason = ReasonRandom
      then let w = (if Chill p > 60 then f64_mul weight (f64_lit 3 10) else weight)
           in if Agreeableness p > 70 then f64_mul w (f64_lit 6 10) else w
      else if reason = ReasonNiceNumber then f64_mul weight (f64_lit 11 10)
      else if reason = ReasonOnline \<or> reason = ReasonOffline then f64_mul weight (f64_lit 5 10)
      else if reason = ReasonJourneyPass then f64_mul weight (f64_lit 8 10)
      else if reason = ReasonJourneyComplete then f64_mul weight (f64_lit 13 10)
      else if reason = ReasonJourneyTimeout then f64_mul weight (f64_lit 12 10)
      else weight)"

definition type_weight :: "string \<Rightarrow> float64 \<Rightarrow> float64" where
  "type_weight typ weight =
     (if typ = ''observed'' then f64_mul weight (f64_lit 7 10)
      else if typ = ''gossip'' then f64_mul weight (f64_lit 4 10) else weight)"

definition decayed_weight :: "NaraPersonality \<Rightarrow> int \<Rightarrow> float64 \<Rightarrow> float64" where
  "decayed_weight p age0 weight =
     (let age = (if age0 < 0 then 7 * 24 * 60 * 60 else age0);
          chillModifier = f64_add (f64_lit 1 1) (f64_div (f64_of_int (i64 (50 - Chill p))) (f64_lit 100 1));
          socModifier = f64_add (f64_lit 1 1) (f64_div (f64_of_int (Sociability p)) (f64_lit 333 1));
          halfLife = f64_mul (f64_mul (f64_lit (24 * 60 * 60) 1) chillModifier) socModifier;
          decayFactor = f64_div (f64_lit 1 1) (f64_add (f64_lit 1 1) (f64_div (f64_of_int age) halfLife))
      in if age > 0 then f64_mul weight decayFactor else weight)"

definition at_least_tenth :: "float64 \<Rightarrow> float64" where
  "at_least_tenth weight = (if f64_lt weight (f64_lit 1 10) then f64_lit 1 10 else weight)"

definition EventWeight :: "int \<Rightarrow> SyncEvent \<Rightarrow> NaraPersonality \<Rightarrow> float64" where
  \<comment> \<open>\<open>now\<close> is \<open>time.Now().Unix()\<close>, in seconds\<close>
  "EventWeight now e p =
     (case (if Service e \<noteq> ServiceSocial then None else Social e) of
        None \<Rightarrow> f64_lit 1 1
      | Some s \<Rightarrow>
          at_least_tenth (decayed_weight p (i64 (now - Timestamp e))
            (type_weight (sp_Type s) (reason_weight (sp_Reason s) p (base_weight p)))))"

definition stash_weight :: "string \<Rightarrow> float64 \<Rightarrow> float64" where
  "stash_weight reason weight = (if reason = ReasonStashStored then f64_mul weight (f64_lit 15 10) else weight)"

definition computeCloutEventWeight :: "SocialEventRecord \<Rightarrow> NaraPersonality \<Rightarrow> int \<Rightarrow> float64" where
  "computeCloutEventWeight r p now =
     at_least_tenth (decayed_weight p (i64 (now - sr_Timestamp r sdiv 1000000000))
       (type_weight (sr_Type r) (stash_weight (sr_Reason r) (reason_weight (sr_Reason r) p (base_weight p)))))"

section \<open>Scores\<close>

type_synonym clout = "(NaraName \<times> float64) list"

definition score :: "clout \<Rightarrow> NaraName \<Rightarrow> float64" where
  "score c name = (case map_of c name of None \<Rightarrow> f64_lit 0 1 | Some x \<Rightarrow> x)"

definition gain :: "NaraName \<Rightarrow> float64 \<Rightarrow> clout \<Rightarrow> clout" where
  "gain name x c = AList.update name (f64_add (score c name) x) c"

definition lose :: "NaraName \<Rightarrow> float64 \<Rightarrow> clout \<Rightarrow> clout" where
  "lose name x c = AList.update name (f64_sub (score c name) x) c"

definition applyProjectionObservationClout :: "SocialEventRecord \<Rightarrow> float64 \<Rightarrow> clout \<Rightarrow> clout" where
  "applyProjectionObservationClout r weight c =
     (if sr_Reason r = ReasonOnline then gain (sr_Target r) (f64_mul weight (f64_lit 1 10)) c
      else if sr_Reason r = ReasonOffline then lose (sr_Target r) (f64_mul weight (f64_lit 5 100)) c
      else if sr_Reason r = ReasonJourneyPass then gain (sr_Target r) (f64_mul weight (f64_lit 2 10)) c
      else if sr_Reason r = ReasonJourneyComplete then gain (sr_Target r) (f64_mul weight (f64_lit 5 10)) c
      else if sr_Reason r = ReasonJourneyTimeout then lose (sr_Target r) (f64_mul weight (f64_lit 3 10)) c
      else c)"

definition clout_event :: "go_env \<Rightarrow> string \<Rightarrow> NaraPersonality \<Rightarrow> int \<Rightarrow> SocialEventRecord \<Rightarrow> clout \<Rightarrow> clout" where
  "clout_event G observerSoul p now r c =
     (let weight = computeCloutEventWeight r p now; resonates = TeaseResonates G (sr_ID r) observerSoul p
      in if sr_Type r = ''tease''
         then if resonates then gain (sr_Actor r) (f64_mul weight (f64_lit 1 1)) c
              else lose (sr_Actor r) (f64_mul weight (f64_lit 3 10)) c
         else if sr_Type r = ''observed''
         then if resonates then gain (sr_Actor r) (f64_mul weight (f64_lit 5 10)) c else c
         else if sr_Type r = ''gossip'' then gain (sr_Actor r) (f64_mul weight (f64_lit 1 10)) c
         else if sr_Type r = ''observation'' then applyProjectionObservationClout r weight c
         else if sr_Type r = ''service''
         then if sr_Reason r = ReasonStashStored then gain (sr_Actor r) (f64_mul weight (f64_lit 2 1)) c
              else gain (sr_Actor r) (f64_mul weight (f64_lit 5 10)) c
         else c)"

definition DeriveClout :: "go_env \<Rightarrow> int \<Rightarrow> SocialEventRecord list \<Rightarrow> string \<Rightarrow> NaraPersonality \<Rightarrow> clout" where
  "DeriveClout G now evs observerSoul p = foldl (\<lambda>c r. clout_event G observerSoul p now r c) [] evs"

definition GetAverageRTT :: "SyncLedger \<Rightarrow> NaraName \<Rightarrow> float64" where
  "GetAverageRTT l target =
     (let rtts = map pi_RTT (filter (\<lambda>p. pi_Target p = target) (GetPingObservations l))
      in if length rtts = 0 then f64_lit 0 1
         else f64_div (foldl f64_add (f64_lit 0 1) rtts) (f64_of_int (int (length rtts))))"

definition getCoordinatesForPeer :: "'a network_scheme \<Rightarrow> NaraName \<Rightarrow> NetworkCoordinate option" where
  "getCoordinatesForPeer net name =
     (case getNara net name of None \<Rightarrow> None | Some r \<Rightarrow> st_Coordinates (na_Status (nara_at net r)))"

definition getMyClout :: "go_env \<Rightarrow> math_env \<Rightarrow> clock \<Rightarrow> nara_net \<Rightarrow> clout" where
  "getMyClout G M T net =
     ApplyProximityToClout M
       (DeriveClout G (ck_sec T) (pj_state (nn_clout net)) (nn_Soul net) (st_Personality (me_status net)))
       (st_Coordinates (me_status net)) (getCoordinatesForPeer net)"

section \<open>Coordinates\<close>

text \<open>\<open>jitter name\<close> is the \<open>rand.Float64()\<close> drawn for an entry.\<close>

record pingTarget =
  pt_name :: NaraName
  pt_meshIP :: string
  pt_priority :: float64

definition ping_priority :: "clock \<Rightarrow> NaraObservation \<Rightarrow> NetworkCoordinate option \<Rightarrow> float64 \<Rightarrow> float64" where
  "ping_priority T obs coords r =
     (if no_LastPingTime obs = 0 then f64_add (f64_lit 1000 1) (f64_mul r (f64_lit 10 1))
      else let staleness = f64_of_int (i64 (ck_sec T - no_LastPingTime obs));
               errorBonus = (case coords of
                   None \<Rightarrow> f64_lit 0 1
                 | Some c \<Rightarrow> if f64_gt (nc_Error c) (f64_lit 5 10) then f64_mul (nc_Error c) (f64_lit 100 1) else f64_lit 0 1)
           in f64_add (f64_add staleness errorBonus) (f64_mul r (f64_lit 10 1)))"

definition ping_targets :: "clock \<Rightarrow> (NaraName \<Rightarrow> float64) \<Rightarrow> 'a network_scheme \<Rightarrow> pingTarget list" where
  "ping_targets T jitter net =
     List.map_filter (\<lambda>(name, r).
       let obs = getObservation net name; s = na_Status (nara_at net r)
       in if no_Online obs \<noteq> ''ONLINE'' then None
          else if st_MeshIP s = [] then None
          else Some \<lparr>pt_name = name, pt_meshIP = st_MeshIP s,
                 pt_priority = ping_priority T obs (st_Coordinates s) (jitter name)\<rparr>) (nw_Neighbourhood net)"

definition selectPingTarget :: "go_env \<Rightarrow> clock \<Rightarrow> (NaraName \<Rightarrow> float64) \<Rightarrow> 'a network_scheme \<Rightarrow> NaraName" where
  "selectPingTarget G T jitter net =
     (let targets = ping_targets T jitter net
      in if length targets = 0 then []
         else pt_name (hd (sort_slice (sort_perm G) (\<lambda>a b. f64_gt (pt_priority a) (pt_priority b)) targets)))"

definition note_ping :: "clock \<Rightarrow> float64 \<Rightarrow> NaraObservation \<Rightarrow> NaraObservation" where
  "note_ping T rttMs obs =
     obs\<lparr>no_LastPingRTT := rttMs, no_LastPingTime := ck_sec T,
         no_AvgPingRTT := (if f64_is_zero (no_AvgPingRTT obs) then rttMs
           else f64_add (f64_mul (f64_lit 3 10) rttMs) (f64_mul (f64_lit 7 10) (no_AvgPingRTT obs)))\<rparr>"

definition move_coordinates :: "math_env \<Rightarrow> float64 \<Rightarrow> NetworkCoordinate option \<Rightarrow> float64 \<Rightarrow> VivaldiConfig
    \<Rightarrow> NetworkCoordinate option \<Rightarrow> NetworkCoordinate option" where
  "move_coordinates M r peerCoords rttMs config mine =
     (case mine of
        None \<Rightarrow> None
      | Some c \<Rightarrow> if Coordinate_IsValid peerCoords then Some (fst (Coordinate_Update M r c peerCoords rttMs config)) else Some c)"

text \<open>\<open>rnd\<close> is the \<open>rand.Float64\<close> of the update.\<close>

definition pingAndUpdateCoordinates ::
  "go_env \<Rightarrow> math_env \<Rightarrow> peers \<Rightarrow> clock \<Rightarrow> float64 \<Rightarrow> NaraName \<Rightarrow> VivaldiConfig \<Rightarrow> nara_net \<Rightarrow> nara_net go" where
  "pingAndUpdateCoordinates G M P T rnd targetName config net =
     (case getNara net targetName of
        None \<Rightarrow> Inr net
      | Some r \<Rightarrow>
          let meshIP = st_MeshIP (na_Status (nara_at net r));
              peerCoords = st_Coordinates (na_Status (nara_at net r))
          in if meshIP = [] then Inr net
             else case pr_PingIP P meshIP of
                    None \<Rightarrow> Inr net
                  | Some rttMs \<Rightarrow>
                      let net1 = set_status (nw_Me net)
                                   (\<lambda>s. s\<lparr>st_Coordinates := move_coordinates M rnd peerCoords rttMs config (st_Coordinates s)\<rparr>) net
                      in go_bind (setObservation targetName (note_ping T rttMs (getObservation net1 targetName)) net1) (\<lambda>net2.
                         go_bind (NewSignedPingSyncEvent G (ck_nano T) (meName net2) targetName rttMs (meName net2) (my_keypair net2)) (\<lambda>e.
                         go_bind (with_ledger G (AddEvent G e) net2) (\<lambda>(ok, net3). Inr net3))))"

definition coordinateMaintenance_tick ::
  "go_env \<Rightarrow> math_env \<Rightarrow> peers \<Rightarrow> clock \<Rightarrow> (NaraName \<Rightarrow> float64) \<Rightarrow> float64 \<Rightarrow> nara_net \<Rightarrow> nara_net go" where
  "coordinateMaintenance_tick G M P T jitter rnd net =
     (if nn_ReadOnly net \<or> \<not> nn_mesh net then Inr net
      else let target = selectPingTarget G T jitter net
           in if target = [] then Inr net
              else pingAndUpdateCoordinates G M P T rnd target DefaultVivaldiConfig net)"

section \<open>Facts\<close>

lemma at_least_tenth_bound:
  assumes "\<not> f64_nan w"
  shows "f64_le (f64_lit 1 10) (at_least_tenth w)"
proof -
  have lits: "\<not> f64_nan (f64_lit 1 10)" "f64_le (f64_lit 1 10) (f64_lit 1 10)" by (simp_all add: f64_le_def f64_compute)
  show ?thesis using assms lits by (auto simp: at_least_tenth_def f64_order_simps)
qed

text \<open>An age that is negative counts as a week, whatever it is.\<close>

lemma decayed_weight_future: "a < 0 \<Longrightarrow> b < 0 \<Longrightarrow> decayed_weight p a w = decayed_weight p b w"
  by (simp add: decayed_weight_def)

text \<open>
  The weight of an event does not depend on its age. The code subtracts a timestamp in nanoseconds from
  the current time in seconds, so every event of the present epoch lies in the future and
  weighs what an event of a week ago should.
\<close>

theorem event_weight_ageless:
  assumes "0 \<le> now" and "now < t1" and "t1 < 2 ^ 63" and "now < t2" and "t2 < 2 ^ 63"
  shows "EventWeight now (e\<lparr>Timestamp := t1\<rparr>) p = EventWeight now (e\<lparr>Timestamp := t2\<rparr>) p"
proof -
  have "in_i64 (now - t1)" "in_i64 (now - t2)" using assms by (simp_all add: in_i64_def)
  then have "i64 (now - t1) < 0" "i64 (now - t2) < 0" using assms by simp_all
  then show ?thesis
    by (simp add: EventWeight_def decayed_weight_future [of "i64 (now - t1)" "i64 (now - t2)"] split: option.splits)
qed

definition demo_tease :: SyncEvent where
  "demo_tease = zero_event\<lparr>Service := ServiceSocial, Social := Some (zero_social\<lparr>sp_Type := ''tease''\<rparr>)\<rparr>"

theorem event_weight_ageless_witness:
  \<comment> \<open>a second and a year old, at 1.7 billion seconds\<close>
  "EventWeight 1700000000 (demo_tease\<lparr>Timestamp := 1699999999 * 1000000000\<rparr>) p =
   EventWeight 1700000000 (demo_tease\<lparr>Timestamp := 1668464000 * 1000000000\<rparr>) p"
  by (rule event_weight_ageless) simp_all

end
