(* ===== verification/Local_Nara.thy ===== *)
theory Local_Nara
  imports Appearance
begin

text \<open>
  How a nara comes to be: the memory profiles (\<open>memory.go\<close>), the readings of its host
  (\<open>sensors.go\<close>), \<open>NewLocalNara\<close> (\<open>nara.go\<close>) and what of \<open>NewNetwork\<close> (\<open>network.go\<close>) is kept in \<open>nara_net\<close>. What
  the operating system answers is a parameter.
\<close>

section \<open>Memory\<close>

datatype MemoryMode = MemoryModeAuto | MemoryModeShort | MemoryModeMedium | MemoryModeHog | MemoryModeCustom

definition MemoryMode_string :: "MemoryMode \<Rightarrow> string" where
  "MemoryMode_string m = (case m of MemoryModeAuto \<Rightarrow> ''auto'' | MemoryModeShort \<Rightarrow> ''short'' | MemoryModeMedium \<Rightarrow> ''medium''
     | MemoryModeHog \<Rightarrow> ''hog'' | MemoryModeCustom \<Rightarrow> ''custom'')"

record MemoryProfile =
  mp_Mode :: MemoryMode
  mp_BudgetMB :: int
  mp_MaxEvents :: int
  mp_EnableBackgroundSync :: bool

text \<open>
  \<open>strings.TrimSpace\<close> takes off the white space of Unicode, in UTF-8. \<open>strings.ToLower\<close> is
  \<open>lower\<close> on the letters of the modes: no other character has one of them as its lower case.
\<close>

definition white_space :: "string list" where
  "white_space = map (\<lambda>n. [char_of n]) [9, 10, 11, 12, 13, 32 :: nat] @
     map (map char_of) ([[0xC2, 0x85], [0xC2, 0xA0], [0xE1, 0x9A, 0x80], [0xE2, 0x80, 0xA8], [0xE2, 0x80, 0xA9],
        [0xE2, 0x80, 0xAF], [0xE2, 0x81, 0x9F], [0xE3, 0x80, 0x80]] @ map (\<lambda>n. [0xE2, 0x80, n]) [0x80..<0x8B :: nat])"

fun drop_space :: "(string \<Rightarrow> string) \<Rightarrow> nat \<Rightarrow> string \<Rightarrow> string" where
  \<comment> \<open>\<open>order\<close> turns an encoding the way the string is read\<close>
  "drop_space order 0 s = s"
| "drop_space order (Suc fuel) s =
     (case find (\<lambda>w. take (length w) s = order w) white_space of
        None \<Rightarrow> s
      | Some w \<Rightarrow> drop_space order fuel (drop (length w) s))"

definition TrimSpace :: "string \<Rightarrow> string" where
  "TrimSpace s =
     (let left = drop_space (\<lambda>w. w) (length s) s
      in rev (drop_space rev (length left) (rev left)))"

definition ParseMemoryMode :: "string \<Rightarrow> MemoryMode" where
  "ParseMemoryMode mode =
     (let m = map lower (TrimSpace mode)
      in if m = ''auto'' then MemoryModeAuto
         else if m = ''short'' then MemoryModeShort
         else if m = ''hog'' then MemoryModeHog
         else if m = ''custom'' then MemoryModeCustom
         else MemoryModeMedium)"

definition MemoryModeForBudget :: "int \<Rightarrow> MemoryMode" where
  "MemoryModeForBudget budgetMB =
     (if budgetMB \<le> 384 then MemoryModeShort else if budgetMB \<le> 1024 then MemoryModeMedium else MemoryModeHog)"

definition MemoryProfileForMode :: "MemoryMode \<Rightarrow> MemoryProfile" where
  "MemoryProfileForMode mode = (case mode of
       MemoryModeShort \<Rightarrow> \<lparr>mp_Mode = MemoryModeShort, mp_BudgetMB = 256, mp_MaxEvents = 20000, mp_EnableBackgroundSync = False\<rparr>
     | MemoryModeHog \<Rightarrow> \<lparr>mp_Mode = MemoryModeHog, mp_BudgetMB = 2048, mp_MaxEvents = 320000, mp_EnableBackgroundSync = True\<rparr>
     | MemoryModeCustom \<Rightarrow> \<lparr>mp_Mode = MemoryModeCustom, mp_BudgetMB = 0, mp_MaxEvents = 0, mp_EnableBackgroundSync = True\<rparr>
     | _ \<Rightarrow> \<lparr>mp_Mode = MemoryModeMedium, mp_BudgetMB = 512, mp_MaxEvents = 80000, mp_EnableBackgroundSync = True\<rparr>)"

definition DefaultMemoryProfile :: MemoryProfile where
  "DefaultMemoryProfile = MemoryProfileForMode MemoryModeMedium"

text \<open>
  Bytes are \<open>uint64\<close>. \<open>read\<close> is \<open>os.ReadFile\<close>, \<open>None\<close> its error; the result is \<open>None\<close> when the code
  returns an error.
\<close>

definition cgroup_value :: "nat \<Rightarrow> string \<Rightarrow> nat option" where
  "cgroup_value totalBytes data =
     (let raw = TrimSpace data
      in if raw = [] \<or> raw = ''max'' then Some 0
         else case parse_nat raw of
                None \<Rightarrow> None
              | Some val \<Rightarrow>
                  if val \<ge> 2 ^ 64 then None
                  else if totalBytes > 0 \<and> val > u64 (totalBytes * 2) then Some 0 else Some val)"

definition cgroupMemoryLimitBytes :: "(string \<Rightarrow> string option) \<Rightarrow> nat \<Rightarrow> nat option" where
  "cgroupMemoryLimitBytes read totalBytes =
     (case List.map_filter read [''/sys/fs/cgroup/memory.max'', ''/sys/fs/cgroup/memory/memory.limit_in_bytes''] of
        [] \<Rightarrow> None
      | data # rest \<Rightarrow> cgroup_value totalBytes data)"

definition detectMemoryBudgetMB :: "nat option \<Rightarrow> (string \<Rightarrow> string option) \<Rightarrow> (int \<times> string) option" where
  \<comment> \<open>\<open>vmem\<close> is the total of \<open>mem.VirtualMemory\<close>\<close>
  "detectMemoryBudgetMB vmem read =
     (case vmem of
        None \<Rightarrow> None
      | Some totalBytes \<Rightarrow>
          (case cgroupMemoryLimitBytes read totalBytes of
             Some limitBytes \<Rightarrow>
               if limitBytes > 0 \<and> limitBytes < totalBytes then Some (int (limitBytes div (1024 * 1024)), ''cgroup'')
               else Some (int (totalBytes div (1024 * 1024)), ''system'')
           | None \<Rightarrow> Some (int (totalBytes div (1024 * 1024)), ''system'')))"

definition AutoMemoryProfile :: "nat option \<Rightarrow> (string \<Rightarrow> string option) \<Rightarrow> MemoryProfile \<times> string \<times> bool" where
  \<comment> \<open>the last is whether there was an error\<close>
  "AutoMemoryProfile vmem read =
     (case detectMemoryBudgetMB vmem read of
        None \<Rightarrow> (DefaultMemoryProfile, ''default'', True)
      | Some (budgetMB, source) \<Rightarrow> (MemoryProfileForMode (MemoryModeForBudget budgetMB), source, False))"

section \<open>The host\<close>

text \<open>
  Bytes come from \<open>runtime.MemStats\<close>. \<open>hr_Load1\<close> is \<open>None\<close> when \<open>load.Avg\<close> fails: the code drops the error and
  reads the field of a nil pointer. \<open>hr_CPU\<close> is \<open>None\<close> when the process cannot be asked.
\<close>

record host_readings =
  hr_Uptime :: nat
  hr_Load1 :: "float64 option"
  hr_NumCPU :: int
  hr_Alloc :: nat
  hr_Sys :: nat
  hr_HeapSys :: nat
  hr_StackSys :: nat
  hr_NumGoroutine :: int
  hr_NumGC :: nat
  hr_CPU :: "float64 option"

definition two_digits :: "float64 \<Rightarrow> float64" where
  "two_digits x = f64_div (f64_of_int (f64_to_int (f64_mul x (f64_lit 100 1)))) (f64_lit 100 1)"

definition measured :: "host_readings \<Rightarrow> float64 \<Rightarrow> HostStats \<Rightarrow> HostStats" where
  "measured r loadavg hs = hs\<lparr>hs_Uptime := int (hr_Uptime r), hs_LoadAvg := two_digits loadavg,
     hs_MemAllocMB := int (hr_Alloc r div 1024 div 1024), hs_MemSysMB := int (hr_Sys r div 1024 div 1024),
     hs_MemHeapMB := int (hr_HeapSys r div 1024 div 1024), hs_MemStackMB := int (hr_StackSys r div 1024 div 1024),
     hs_NumGoroutines := hr_NumGoroutine r, hs_NumGC := int (hr_NumGC r),
     hs_ProcCPUPercent := (case hr_CPU r of None \<Rightarrow> hs_ProcCPUPercent hs | Some pct \<Rightarrow> two_digits pct)\<rparr>"

text \<open>The \<open>Chattiness = 0\<close> of a busy host is overwritten by the assignment that ends the function.\<close>

definition measured_chattiness :: "int \<Rightarrow> float64 \<Rightarrow> nara_net \<Rightarrow> int" where
  "measured_chattiness forceChattiness loadavg net =
     (let chattiness = weightedBuzz net;
          chattiness = (if forceChattiness \<ge> 0 \<and> forceChattiness \<le> 100 then forceChattiness
                        else if f64_lt loadavg (f64_lit 1 1)
                        then i64 (chattiness + f64_to_int (f64_mul (f64_sub (f64_lit 1 1) loadavg) (f64_lit 20 1)))
                        else chattiness);
          chattiness = (if chattiness > 100 then 100 else chattiness)
      in if isBooting net then 100 else chattiness)"

definition skipping :: "float64 \<Rightarrow> bool \<Rightarrow> nara_net \<Rightarrow> bool" where
  \<comment> \<open>the new value of \<open>skippingEvents\<close>; the load is the one shown, of two digits\<close>
  "skipping load skippingEvents net =
     (if isBooting net then False
      else if f64_gt load (f64_lit 8 10) \<and> \<not> skippingEvents \<and> \<not> isBooting net then True
      else if f64_lt load (f64_lit 8 10) \<and> skippingEvents then False
      else skippingEvents)"

definition updateHostStats :: "int \<Rightarrow> host_readings \<Rightarrow> bool \<Rightarrow> nara_net \<Rightarrow> (bool \<times> nara_net) go" where
  "updateHostStats forceChattiness r skippingEvents net =
     go_bind (deref (hr_Load1 r)) (\<lambda>load1.
       let loadavg = f64_div load1 (f64_of_int (hr_NumCPU r));
           l = nw_SyncLedger net;
           net1 = set_status (nw_Me net) (\<lambda>s. s\<lparr>st_HostStats := measured r loadavg (st_HostStats s),
             st_EventStoreByService := GetEventCountsByService l, st_EventStoreTotal := EventCount l,
             st_EventStoreCritical := GetCriticalEventCount l\<rparr>) net
       in Inr (skipping (two_digits loadavg) skippingEvents net1,
               set_status (nw_Me net1) (\<lambda>s. s\<lparr>st_Chattiness := measured_chattiness forceChattiness loadavg net1\<rparr>) net1))"

section \<open>A new nara\<close>

definition NaraVersion :: string where "NaraVersion = ''0.2.0''"

text \<open>The status of a new nara before its personality is seeded; \<open>r1\<close> and \<open>r2\<close> are the draws of its coordinates.\<close>

definition new_me ::
  "go_env \<Rightarrow> soul_env \<Rightarrow> colour_env \<Rightarrow> IdentityResult \<Rightarrow> MemoryProfile \<Rightarrow> float64 \<Rightarrow> float64 \<Rightarrow> Nara" where
  "new_me G S M ident profile r1 r2 =
     (let n = NewNara (ir_Name ident)
      in n\<lparr>na_Version := NaraVersion,
           na_Status := (na_Status n)\<lparr>st_Version := NaraVersion,
             st_Coordinates := Some (NewNetworkCoordinate (math_env.truncate M) r1 r2), st_ID := ir_ID ident,
             st_MemoryMode := MemoryMode_string (mp_Mode profile), st_MemoryBudgetMB := mp_BudgetMB profile,
             st_MemoryMaxEvents := mp_MaxEvents profile,
             st_PublicKey := FormatPublicKey G (PublicKey (DeriveKeypair S (ir_Soul ident)))\<rparr>\<rparr>)"

text \<open>
  \<open>NewNetwork\<close>, around the nara itself. Listener 0 of the ledger is the log service's. The checker for unknown naras is the one
  of \<open>linked_ledger\<close>.
\<close>

definition NewNetwork :: "Nara \<Rightarrow> NaraKeypair \<Rightarrow> string \<Rightarrow> MemoryProfile \<Rightarrow> nara_net" where
  "NewNetwork me keypair soulStr profile =
     \<lparr>nw_store = [me], nw_Me = 0, nw_ID = st_ID (na_Status me), nw_Neighbourhood = [], nw_NeighbourhoodByID = Map.empty,
      nw_nameToID = Map.empty, nw_keyring = New_Keyring keypair (st_ID (na_Status me)), nw_peers = Map.empty,
      nw_SyncLedger = AddListener 0 (NewSyncLedger (mp_MaxEvents profile)),
      nn_Soul = soulStr, nn_ReadOnly = False, nn_ShortMemory = (mp_Mode profile = MemoryModeShort),
      nn_TransportMode = TransportMQTT, nn_mesh = False, nn_LastHeyThere = 0, nn_Buzz = newBuzz, nn_Tease = NewTeaseState,
      nn_coordinators = [], nn_howdyCoordinators = Map.empty, nn_startTimeVotes = [], nn_pendingResolutions = Map.empty,
      nn_pingAttempt = Map.empty, nn_pingResult = Map.empty, nn_stashes = {},
      nn_online = NewProjection Map.empty, nn_clout = NewProjection [], nn_opinion = NewProjection Map.empty,
      nn_effects = []\<rparr>"

text \<open>
  The fields of the network do not depend on the personality, the aura or each other, so the network is
  built first here. \<open>hostname\<close> is \<open>None\<close> when \<open>host.Info\<close> fails.
\<close>

definition NewLocalNara ::
  "go_env \<Rightarrow> soul_env \<Rightarrow> colour_env \<Rightarrow> clock \<Rightarrow> IdentityResult \<Rightarrow> int \<Rightarrow> MemoryProfile \<Rightarrow> float64 \<Rightarrow> float64 \<Rightarrow>
   host_readings \<Rightarrow> string option \<Rightarrow> nara_net go" where
  "NewLocalNara G S M T ident forceChattiness memoryProfile r1 r2 readings hostname =
     (let profile = (if mp_MaxEvents memoryProfile \<le> 0 then DefaultMemoryProfile else memoryProfile);
          soulStr = FormatSoul S (ir_Soul ident);
          net = NewNetwork (new_me G S M ident profile r1 r2) (DeriveKeypair S (ir_Soul ident)) soulStr profile;
          net = seedPersonality G S net;
          net = set_status (nw_Me net) (\<lambda>s. s\<lparr>st_Aura := computeAura M soulStr net\<rparr>) net
      in go_bind (updateHostStats forceChattiness readings False net) (\<lambda>(skippingEvents, net1).
           let net2 = (case hostname of None \<Rightarrow> net1
                       | Some h \<Rightarrow> set_nara (nw_Me net1) ((nara_at net1 (nw_Me net1))\<lparr>na_Hostname := h\<rparr>) net1)
           in setMeObservation ((getMeObservation net2)\<lparr>no_LastRestart := ck_sec T\<rparr>) net2))"

definition LocalNara_Start :: "bool \<Rightarrow> TransportMode \<Rightarrow> nara_net \<Rightarrow> nara_net" where
  \<comment> \<open>what \<open>Start\<close> sets before its goroutines\<close>
  "LocalNara_Start readOnly transportMode net =
     set_status (nw_Me net) (\<lambda>s. s\<lparr>st_TransportMode := TransportMode_String transportMode\<rparr>)
       (net\<lparr>nn_ReadOnly := readOnly, nn_TransportMode := transportMode\<rparr>)"

section \<open>Facts\<close>

lemma set_status_Me [simp]: "nw_Me (set_status r f net) = nw_Me net" "nw_keyring (set_status r f net) = nw_keyring net"
  by (simp_all add: set_status_def)

lemma MemoryProfileForMode_positive: "mode \<noteq> MemoryModeCustom \<Longrightarrow> mp_MaxEvents (MemoryProfileForMode mode) > 0"
  by (cases mode) (simp_all add: MemoryProfileForMode_def)

lemma MemoryModeForBudget_mono: "a \<le> b \<Longrightarrow>
  mp_MaxEvents (MemoryProfileForMode (MemoryModeForBudget a)) \<le> mp_MaxEvents (MemoryProfileForMode (MemoryModeForBudget b))"
  by (auto simp: MemoryModeForBudget_def MemoryProfileForMode_def)

definition small_letter :: "char \<Rightarrow> bool" where
  "small_letter c \<longleftrightarrow> 97 \<le> (of_char c :: nat) \<and> (of_char c :: nat) \<le> 122"

lemma white_space_ends: "w \<in> set white_space \<Longrightarrow> w \<noteq> [] \<and> \<not> small_letter (hd w) \<and> \<not> small_letter (hd (rev w))"
  by (auto simp: white_space_def small_letter_def)

lemma drop_space_word:
  assumes "\<And>w. w \<in> set white_space \<Longrightarrow> w \<noteq> [] \<and> \<not> small_letter (hd (order w))" and "s \<noteq> []" and "small_letter (hd s)"
  shows "drop_space order fuel s = s"
proof (cases fuel)
  case (Suc n)
  have "take (length w) s \<noteq> order w" if "w \<in> set white_space" for w
  proof
    assume "take (length w) s = order w"
    then have "hd (order w) = hd s" using assms(1) [OF that] assms(2) by (metis hd_take length_greater_0_conv)
    then show False using assms(1) [OF that] assms(3) by simp
  qed
  then have "find (\<lambda>w. take (length w) s = order w) white_space = None" by (simp add: find_None_iff)
  then show ?thesis using Suc by simp
qed simp

lemma TrimSpace_word:
  assumes "s \<noteq> []" and "list_all small_letter s"
  shows "TrimSpace s = s"
proof -
  have "drop_space (\<lambda>w. w) (length s) s = s"
    by (rule drop_space_word) (use white_space_ends assms in \<open>auto simp: list_all_iff\<close>)
  moreover have "drop_space rev (length s) (rev s) = rev s"
    by (rule drop_space_word) (use white_space_ends assms in \<open>auto simp: list_all_iff hd_rev\<close>)
  ultimately show ?thesis by (simp add: TrimSpace_def)
qed

lemma lower_word: "small_letter c \<Longrightarrow> lower c = c"
  by (auto simp: small_letter_def lower_def)

lemma ParseMemoryMode_values:
  "ParseMemoryMode ''auto'' = MemoryModeAuto" "ParseMemoryMode ''short'' = MemoryModeShort"
  "ParseMemoryMode ''medium'' = MemoryModeMedium" "ParseMemoryMode ''hog'' = MemoryModeHog"
  "ParseMemoryMode ''custom'' = MemoryModeCustom"
  by (simp_all add: ParseMemoryMode_def TrimSpace_word lower_word small_letter_def Let_def)

lemma ParseMemoryMode_string: "ParseMemoryMode (MemoryMode_string m) = m"
  by (cases m) (simp_all add: MemoryMode_string_def ParseMemoryMode_values)

lemma updateHostStats_panics: "updateHostStats f (r\<lparr>hr_Load1 := None\<rparr>) b net = Inl NilDereference"
  by (simp add: updateHostStats_def)

end
