(* ===== verification/Gossip.thy ===== *)
theory Gossip
  imports Mesh_Client Clout Local_Nara
begin

text \<open>
  Zines and direct messages: \<open>gossip_zine.go\<close>, \<open>gossip_exchange.go\<close>, \<open>gossip_discovery.go\<close> and the handlers
  of \<open>http_mesh.go\<close>. Random choices and the order in which concurrent exchanges end are parameters: a
  permutation is a function on lists. One exchange is one step.
\<close>

section \<open>Zines\<close>

record Zine =
  zn_From :: NaraName
  zn_CreatedAt :: int
  zn_Events :: "SyncEvent list"
  zn_Signature :: string

definition zine_signingData :: "go_env \<Rightarrow> Zine \<Rightarrow> string" where
  "zine_signingData G z =
     sha256 G (zn_From z @ '':'' @ fmt_int (zn_CreatedAt z) @ '':'' @ concat (map ID (zn_Events z)))"

definition SignZine :: "go_env \<Rightarrow> Zine \<Rightarrow> NaraKeypair \<Rightarrow> string option" where
  "SignZine G z keypair =
     (if length (PrivateKey keypair) = 0 then None else Some (SignBase64 G keypair (zine_signingData G z)))"

text \<open>
  \<open>ed25519.Verify\<close> itself is called, which panics on a key of another length than 32. A signature of
  another length than 64 is one that does not verify.
\<close>

definition VerifyZine :: "go_env \<Rightarrow> Zine \<Rightarrow> string \<Rightarrow> bool go" where
  "VerifyZine G z publicKey =
     (if zn_Signature z = [] \<or> length publicKey = 0 then Inr False
      else case base64_Decode G (zn_Signature z) of
             None \<Rightarrow> Inr False
           | Some sig \<Rightarrow>
               if length publicKey \<noteq> PublicKeySize then Inl BadKeyLength
               else Inr (length sig = SignatureSize \<and> ed25519_Verify G publicKey (zine_signingData G z) sig))"

definition recent_events :: "clock \<Rightarrow> 'a network_scheme \<Rightarrow> SyncEvent list" where
  "recent_events T net =
     (let cutoff = ck_nano T - 5 * 60 * 1000000000
      in filter (\<lambda>e. Timestamp e \<ge> cutoff) (GetAllEvents (nw_SyncLedger net)))"

definition createZine :: "go_env \<Rightarrow> clock \<Rightarrow> 'a network_scheme \<Rightarrow> Zine option" where
  "createZine G T net =
     (let recentEvents = recent_events T net
      in if length recentEvents = 0 then None
         else let zine = \<lparr>zn_From = meName net, zn_CreatedAt = ck_sec T, zn_Events = recentEvents, zn_Signature = []\<rparr>
              in case SignZine G zine (my_keypair net) of None \<Rightarrow> None | Some sig \<Rightarrow> Some (zine\<lparr>zn_Signature := sig\<rparr>))"

definition zine_refused :: "go_env \<Rightarrow> Zine \<Rightarrow> string option \<Rightarrow> bool go" where
  \<comment> \<open>\<open>len(pubKey) > 0 && !VerifyZine(zine, pubKey)\<close>\<close>
  "zine_refused G z pubKey =
     (case pubKey of
        None \<Rightarrow> Inr False
      | Some k \<Rightarrow> if length k > 0 then go_bind (VerifyZine G z k) (\<lambda>ok. Inr (\<not> ok)) else Inr False)"

section \<open>Gossip rounds\<close>

definition gossipInterval :: "'a network_scheme \<Rightarrow> int" where
  "gossipInterval net = i64 (chattinessRate net 30 300 * 1000000000)"

text \<open>\<open>rand.Intn(3)\<close>, \<open>rand.Intn(2)\<close> and \<open>rand.Shuffle\<close>.\<close>

record gossip_draws =
  gd_three :: nat
  gd_two :: nat
  gd_shuffle :: "NaraName list \<Rightarrow> NaraName list"

definition selectGossipTargets :: "gossip_draws \<Rightarrow> nara_net \<Rightarrow> NaraName list" where
  "selectGossipTargets D net =
     (let meshEnabled = filter (hasMeshConnectivity net) (NeighbourhoodOnlineNames net)
      in if length meshEnabled = 0 then []
         else let targetCount = (if nn_ShortMemory net then 1 + gd_two D else 3 + gd_three D);
                  targetCount = (if targetCount > length meshEnabled then length meshEnabled else targetCount)
              in take targetCount (gd_shuffle D meshEnabled))"

definition exchangeZine ::
  "go_env \<Rightarrow> peers \<Rightarrow> clock \<Rightarrow> (NaraID \<Rightarrow> Zine \<Rightarrow> Zine option) \<Rightarrow> Zine \<Rightarrow> NaraName \<Rightarrow> nara_net \<Rightarrow> nara_net go" where
  \<comment> \<open>\<open>send\<close> is \<open>PostGossipZine\<close>, \<open>None\<close> its error\<close>
  "exchangeZine G P T send myZine targetName net =
     (let naraID = getNaraIDByName net targetName
      in if naraID = [] then Inr net
         else case send naraID myZine of
                None \<Rightarrow> Inr net
              | Some theirZine \<Rightarrow>
                  go_bind (resolvePublicKeyForNara G P targetName net) (\<lambda>(pubKey, net1).
                  go_bind (zine_refused G theirZine pubKey) (\<lambda>refused.
                    if refused then Inr net1
                    else go_bind (MergeSyncEventsWithVerification G P T (zn_Events theirZine) net1) (\<lambda>(added, warned, net2).
                         recordObservationOnlineNara G P T targetName (zn_CreatedAt theirZine) net2))))"

definition performGossipRound ::
  "go_env \<Rightarrow> peers \<Rightarrow> clock \<Rightarrow> (NaraID \<Rightarrow> Zine \<Rightarrow> Zine option) \<Rightarrow> gossip_draws \<Rightarrow> (NaraName list \<Rightarrow> NaraName list)
   \<Rightarrow> nara_net \<Rightarrow> nara_net go" where
  "performGossipRound G P T send D arrival net =
     (case createZine G T net of
        None \<Rightarrow> Inr net
      | Some zine \<Rightarrow> go_fold (exchangeZine G P T send zine) (arrival (selectGossipTargets D net)) net)"

definition gossip_tick ::
  "go_env \<Rightarrow> peers \<Rightarrow> clock \<Rightarrow> (NaraID \<Rightarrow> Zine \<Rightarrow> Zine option) \<Rightarrow> gossip_draws \<Rightarrow> (NaraName list \<Rightarrow> NaraName list)
   \<Rightarrow> nara_net \<Rightarrow> nara_net go" where
  \<comment> \<open>one turn of the loop of \<open>gossipForever\<close>\<close>
  "gossip_tick G P T send D arrival net =
     (if nn_ReadOnly net \<or> \<not> nn_mesh net then Inr net
      else if nn_TransportMode net = TransportMQTT then Inr net
      else performGossipRound G P T send D arrival net)"

section \<open>The handlers of the mesh\<close>

definition shutting_down_in :: "Zine \<Rightarrow> bool" where
  "shutting_down_in z \<longleftrightarrow>
     list_ex (\<lambda>e. Service e = ServiceChau \<and> (case Chau e of None \<Rightarrow> False | Some c \<Rightarrow> ch_From c = zn_From z)) (zn_Events z)"

definition answer_zine :: "go_env \<Rightarrow> clock \<Rightarrow> 'a network_scheme \<Rightarrow> Zine" where
  "answer_zine G T net =
     (case createZine G T net of
        Some myZine \<Rightarrow> myZine
      | None \<Rightarrow>
          let myZine = \<lparr>zn_From = meName net, zn_CreatedAt = ck_sec T, zn_Events = [], zn_Signature = []\<rparr>
          in case SignZine G myZine (my_keypair net) of None \<Rightarrow> myZine | Some sig \<Rightarrow> myZine\<lparr>zn_Signature := sig\<rparr>)"

definition httpGossipZineHandler :: "go_env \<Rightarrow> peers \<Rightarrow> clock \<Rightarrow> (Zine option, Zine option) http_handler" where
  "httpGossipZineHandler G P T r net =
     (if hq_Method r \<noteq> ''POST'' then Inr (http_error 405, net)
      else case hq_Body r of
             None \<Rightarrow> Inr (http_error 400, net)
           | Some theirZine \<Rightarrow>
               if zn_From theirZine = [] then Inr (http_error 400, net)
               else go_bind (resolvePublicKeyForNara G P (zn_From theirZine) net) (\<lambda>(pubKey, net1).
                    go_bind (zine_refused G theirZine pubKey) (\<lambda>refused.
                      if refused then Inr (http_error 403, net1)
                      else go_bind (MergeSyncEventsWithVerification G P T (zn_Events theirZine) net1) (\<lambda>(added, warned, net2).
                           go_bind (if \<not> shutting_down_in theirZine
                                    then recordObservationOnlineNara G P T (zn_From theirZine) (zn_CreatedAt theirZine) net2
                                    else Inr net2)
                             (\<lambda>net3. Inr (http_json (answer_zine G T net3), net3))))))"

record dm_answer =
  da_success :: bool
  da_from :: NaraName

definition accept_dm :: "go_env \<Rightarrow> peers \<Rightarrow> clock \<Rightarrow> SyncEvent \<Rightarrow> nara_net \<Rightarrow> (bool \<times> nara_net) go" where
  \<comment> \<open>what follows the checks\<close>
  "accept_dm G P T event net =
     go_bind (with_ledger G (if Service event = ServiceSocial
                             then AddSocialEventFiltered G event (st_Personality (me_status net))
                             else AddEvent G event) net) (\<lambda>(added, net1).
     go_bind (if added then Projections_Trigger G net1 else Inr net1) (\<lambda>net2.
       let net3 = (if added then broadcastSSE event net2 else net2)
       in go_bind (if Service event \<noteq> ServiceChau
                   then recordObservationOnlineNara G P T (Emitter event) (Timestamp event sdiv 1000000000) net3
                   else Inr net3) (\<lambda>net4. Inr (added, net4))))"

definition httpDMHandler :: "go_env \<Rightarrow> peers \<Rightarrow> clock \<Rightarrow> (SyncEvent option, dm_answer option) http_handler" where
  "httpDMHandler G P T r net =
     (if hq_Method r \<noteq> ''POST'' then Inr (http_error 405, net)
      else case hq_Body r of
             None \<Rightarrow> Inr (http_error 400, net)
           | Some event \<Rightarrow>
               if \<not> IsSigned event then Inr (http_error 400, net)
               else go_bind (resolvePublicKeyForNara G P (Emitter event) net) (\<lambda>(pubKey, net1).
                 case pubKey of
                   None \<Rightarrow> Inr (http_error 403, net1)
                 | Some k \<Rightarrow>
                     go_bind (VerifyWithKey G event (Some k)) (\<lambda>ok.
                       if \<not> ok then Inr (http_error 403, net1)
                       else go_bind (accept_dm G P T event net1) (\<lambda>(added, net2).
                            Inr (http_json \<lparr>da_success = added, da_from = meName net2\<rparr>, net2)))))"

text \<open>The answer of \<open>/ping\<close> also has a time, which nobody reads.\<close>

definition httpPingHandler :: "'a network_scheme \<Rightarrow> ping_answer" where
  "httpPingHandler net =
     \<lparr>pi_From = meName net, pi_PublicKey = st_PublicKey (me_status net), pi_MeshIP = st_MeshIP (me_status net)\<rparr>"

definition httpCoordinatesHandler :: "'a network_scheme \<Rightarrow> NaraName \<times> NetworkCoordinate option" where
  "httpCoordinatesHandler net = (meName net, st_Coordinates (me_status net))"

section \<open>Discovery\<close>

record DiscoveredPeer =
  dp_Name :: NaraName
  dp_MeshIP :: string
  dp_PublicKey :: string

text \<open>
  The ping is decoded into a map here: a field may be absent, or not a string. \<open>scan url\<close> is \<open>None\<close> when
  there is no 200 answer that decodes.
\<close>

type_synonym ping_map = "string \<Rightarrow> (string option \<times> string option) option"

definition scan_ip :: "ping_map \<Rightarrow> string \<Rightarrow> DiscoveredPeer option" where
  "scan_ip scan ip =
     (case scan (BuildMeshURL ip ''/ping'') of
        Some (Some naraName, pubKey) \<Rightarrow>
          if naraName = [] then None
          else Some \<lparr>dp_Name = naraName, dp_MeshIP = ip, dp_PublicKey = (case pubKey of None \<Rightarrow> [] | Some k \<Rightarrow> k)\<rparr>
      | _ \<Rightarrow> None)"

definition ScanForPeers ::
  "ping_map \<Rightarrow> (DiscoveredPeer list \<Rightarrow> DiscoveredPeer list) \<Rightarrow> string \<Rightarrow> DiscoveredPeer list" where
  "ScanForPeers scan arrival myIP =
     arrival (List.map_filter (scan_ip scan)
       (filter (\<lambda>ip. ip \<noteq> myIP) (map (\<lambda>i. ''100.64.0.'' @ fmt_int (int i)) [1..<255])))"

definition fetch_public_key :: "ping_map \<Rightarrow> DiscoveredPeer \<Rightarrow> DiscoveredPeer" where
  "fetch_public_key scan p =
     (if dp_PublicKey p \<noteq> [] then p
      else case scan (network_buildMeshURLFromIP (dp_MeshIP p) ''/ping'') of
             None \<Rightarrow> p
           | Some (name, pubKey) \<Rightarrow>
               (let p1 = (case name of None \<Rightarrow> p | Some n \<Rightarrow> if n \<noteq> [] then p\<lparr>dp_Name := n\<rparr> else p)
                in case pubKey of None \<Rightarrow> p1 | Some k \<Rightarrow> if k \<noteq> [] then p1\<lparr>dp_PublicKey := k\<rparr> else p1))"

definition fetchPublicKeysFromPeers :: "ping_map \<Rightarrow> DiscoveredPeer list \<Rightarrow> nara_net \<Rightarrow> DiscoveredPeer list" where
  "fetchPublicKeysFromPeers scan ps net = (if \<not> nn_mesh net then ps else map (fetch_public_key scan) ps)"

text \<open>\<open>status\<close> is what \<open>Peers\<close> of the mesh returns, host names with a suffix of five characters and addresses.\<close>

definition discovered_peers ::
  "ping_map \<Rightarrow> (string \<times> string) list option \<Rightarrow> DiscoveredPeer list option \<Rightarrow> nara_net \<Rightarrow> DiscoveredPeer list" where
  "discovered_peers scan status scanned net =
     (case status of
        None \<Rightarrow> (case scanned of None \<Rightarrow> [] | Some ps \<Rightarrow> ps)
      | Some tsnetPeers \<Rightarrow>
          fetchPublicKeysFromPeers scan
            (List.map_filter (\<lambda>(name, ip).
                if length name \<ge> 5
                then Some \<lparr>dp_Name = take (length name - 5) name, dp_MeshIP = ip, dp_PublicKey = []\<rparr> else None)
              tsnetPeers) net)"

definition discover_peer :: "go_env \<Rightarrow> peers \<Rightarrow> clock \<Rightarrow> NaraName \<Rightarrow> DiscoveredPeer \<Rightarrow> nara_net \<Rightarrow> nara_net go" where
  "discover_peer G P T myName peer net =
     (if dp_Name peer = myName then Inr net
      else case getNara net (dp_Name peer) of
             None \<Rightarrow>
               let nara = NewNara (dp_Name peer);
                   nara = nara\<lparr>na_Status := (na_Status nara)\<lparr>st_MeshIP := dp_MeshIP peer, st_MeshEnabled := True,
                                 st_PublicKey := dp_PublicKey peer\<rparr>\<rparr>
               in go_bind (import_new G nara net) (\<lambda>net1.
                  go_bind (recordObservationOnlineNara G P T (dp_Name peer) 0 net1) (\<lambda>net2.
                    emitSeenEvent G T (dp_Name peer) ''mesh'' net2))
           | Some r \<Rightarrow>
               if dp_PublicKey peer \<noteq> [] \<and> st_PublicKey (na_Status (nara_at net r)) = []
               then Inr (set_status r (\<lambda>s. s\<lparr>st_PublicKey := dp_PublicKey peer\<rparr>) net) else Inr net)"

definition discoverMeshPeers ::
  "go_env \<Rightarrow> peers \<Rightarrow> clock \<Rightarrow> ping_map \<Rightarrow> (string \<times> string) list option \<Rightarrow> DiscoveredPeer list option
   \<Rightarrow> nara_net \<Rightarrow> nara_net go" where
  "discoverMeshPeers G P T scan status scanned net =
     (if \<not> nn_mesh net then Inr net
      else go_fold (discover_peer G P T (meName net)) (discovered_peers scan status scanned net) net)"

end
