(* ===== verification/Boot.thy ===== *)
theory Boot
  imports Gossip
begin

text \<open>
  How a nara catches up: \<open>boot_recovery.go\<close>, \<open>boot_checkpoint.go\<close>, \<open>boot_sync.go\<close>, \<open>boot_ledger.go\<close> and the recovery
  of the own start time (\<open>presence_starttime.go\<close>). The waits and timers around these steps are left
  out. A \<open>fetcher\<close> is \<open>FetchSyncEvents\<close>, \<open>None\<close> its error. The record \<open>boot_world\<close> has what is outside:
  answers, the orders in which parallel requests are answered, and random choices. Orders are permutations.
\<close>

type_synonym fetcher = "NaraID \<Rightarrow> SyncRequest \<Rightarrow> SyncEvent list option"

record boot_world =
  bw_sample :: "nat \<Rightarrow> fetcher"
  bw_slice :: fetcher
  bw_retry :: fetcher
  bw_fetch :: fetcher
  bw_tasks_order :: "nat list \<Rightarrow> nat list"
  bw_slices_order :: "nat list \<Rightarrow> nat list"
  bw_retries_order :: "nat list \<Rightarrow> nat list"
  bw_shuffle :: "NaraName list \<Rightarrow> NaraName list"
  bw_shuffle_eligible :: "NaraName list \<Rightarrow> NaraName list"
  bw_two :: bool
  bw_checkpoints :: "NaraName \<Rightarrow> NaraID \<Rightarrow> SyncEvent list"

definition BootRecoveryTargetEvents :: int where "BootRecoveryTargetEvents = 50000"

section \<open>Through the plaza\<close>

definition request_topic :: "NaraName \<Rightarrow> string" where
  "request_topic neighbor = ''nara/ledger/'' @ neighbor @ ''/request''"

text \<open>An element of \<open>partitions\<close> or \<open>online\<close> is read by its index, which may be out of range.\<close>

definition request_partition :: "NaraName list \<Rightarrow> NaraName list list \<Rightarrow> nat \<Rightarrow> nara_net \<Rightarrow> nara_net go" where
  "request_partition online partitions i net =
     (if i \<ge> length online \<or> i \<ge> length partitions then Inl IndexOutOfRange
      else if length (partitions ! i) = 0 then Inr net
      else Inr (post (PostLedgerRequest (request_topic (online ! i))
                        \<lparr>lr_From = meName net, lr_Subjects = partitions ! i\<rparr>) net))"

definition bootRecoveryViaMQTT :: "NaraName list \<Rightarrow> nara_net \<Rightarrow> nara_net go" where
  "bootRecoveryViaMQTT online net =
     (let subjects = online @ [meName net];
          maxNeighbors = (if nn_ShortMemory net then 2 else 5 :: nat);
          maxNeighbors = (if length online < maxNeighbors then length online else maxNeighbors);
          partitions = PartitionSubjects subjects (int maxNeighbors)
      in go_fold (request_partition online partitions) [0..<maxNeighbors] net)"

definition RequestLedgerSync :: "NaraName \<Rightarrow> NaraName list \<Rightarrow> nara_net \<Rightarrow> nara_net" where
  "RequestLedgerSync neighbor subjects net =
     (if nn_ReadOnly net then net
      else post (PostLedgerRequest (request_topic neighbor) \<lparr>lr_From = meName net, lr_Subjects = subjects\<rparr>) net)"

definition handleLedgerRequest :: "LedgerRequest \<Rightarrow> nara_net \<Rightarrow> nara_net" where
  "handleLedgerRequest req net =
     (if nn_ReadOnly net then net
      else let evs = GetSocialEventsForSubjects (nw_SyncLedger net) (lr_Subjects req)
           in post (PostLedgerResponse (''nara/ledger/'' @ lr_From req @ ''/response'') \<lparr>lp_From = meName net, lp_Events = evs\<rparr>) net)"

definition handleLedgerResponse :: "go_env \<Rightarrow> LedgerResponse \<Rightarrow> nara_net \<Rightarrow> nara_net go" where
  "handleLedgerResponse G resp net =
     go_bind (MergeSocialEventsFiltered G (lp_Events resp) (st_Personality (me_status net)) 0 (linked_ledger G net))
       (\<lambda>(added, l, calls). Inr (effect [NotifyListeners calls] (net\<lparr>nw_SyncLedger := l\<rparr>)))"

section \<open>Through the mesh\<close>

record meshNeighbor =
  mn_name :: NaraName
  mn_id :: NaraID
  mn_ip :: string

text \<open>Neighbours that can be reached are registered with the mesh client, all of them.\<close>

definition mesh_neighbor :: "'a network_scheme \<Rightarrow> NaraName \<Rightarrow> meshNeighbor option" where
  "mesh_neighbor net name =
     (case getMeshInfoForNara net name of (ip, naraID) \<Rightarrow>
        if ip \<noteq> [] \<and> naraID \<noteq> [] then Some \<lparr>mn_name = name, mn_id = naraID, mn_ip = ip\<rparr> else None)"

definition register_neighbors :: "meshNeighbor list \<Rightarrow> 'a network_scheme \<Rightarrow> 'a network_scheme" where
  "register_neighbors ns net = fold (\<lambda>n. RegisterPeerIP (mn_id n) (mn_ip n)) ns net"

definition merge_batch :: "go_env \<Rightarrow> peers \<Rightarrow> clock \<Rightarrow> SyncEvent list \<Rightarrow> nara_net \<Rightarrow> nara_net go" where
  \<comment> \<open>\<open>MergeSyncEventsWithVerification\<close>, its counts only logged\<close>
  "merge_batch G P T evs net = go_bind (MergeSyncEventsWithVerification G P T evs net) (\<lambda>(added, warned, net1). Inr net1)"

definition sample_capacity :: "MemoryMode \<Rightarrow> nat \<times> nat" where
  "sample_capacity mode = (case mode of MemoryModeShort \<Rightarrow> (5000, 1000) | MemoryModeHog \<Rightarrow> (80000, 5000) | _ \<Rightarrow> (50000, 5000))"

definition sample_neighbor :: "meshNeighbor list \<Rightarrow> nat \<Rightarrow> meshNeighbor" where
  \<comment> \<open>whom call number \<open>i\<close> goes to\<close>
  "sample_neighbor ns i = ns ! (i mod length ns)"

definition sample_result ::
  "go_env \<Rightarrow> peers \<Rightarrow> clock \<Rightarrow> SyncEvent list option \<Rightarrow> nat \<times> nara_net \<Rightarrow> (nat \<times> nara_net) go" where
  "sample_result G P T result = (\<lambda>(failedCalls, net).
     case result of
       None \<Rightarrow> Inr (failedCalls + 1, net)
     | Some evs \<Rightarrow> go_bind (merge_batch G P T evs net) (\<lambda>net1. Inr (failedCalls, net1)))"

definition bootRecoveryViaMeshSampleMode ::
  "go_env \<Rightarrow> peers \<Rightarrow> clock \<Rightarrow> boot_world \<Rightarrow> MemoryMode \<Rightarrow> meshNeighbor list \<Rightarrow> nara_net \<Rightarrow> (bool \<times> nara_net) go" where
  "bootRecoveryViaMeshSampleMode G P T W mode meshNeighbors net =
     (case sample_capacity mode of (capacity, pageSize) \<Rightarrow>
        let callsNeeded = capacity div pageSize;
            req = zero_request\<lparr>rq_Mode := ''sample'', rq_SampleSize := int pageSize\<rparr>;
            results = map (\<lambda>i. bw_sample W i (mn_id (sample_neighbor meshNeighbors i)) req) (bw_tasks_order W [0..<callsNeeded])
        in go_bind (go_fold (sample_result G P T) results (0, net)) (\<lambda>(failedCalls, net1).
             if failedCalls > callsNeeded div 2 then Inr (False, net1)
             else go_bind (Projections_Trigger G net1) (\<lambda>net2. Inr (True, net2))))"

text \<open>
  The response is rebuilt from its events, so its signature is empty and the check of the inner
  signature never runs; the second result is \<open>verified\<close>.
\<close>

definition inner_verified :: "go_env \<Rightarrow> NaraName \<Rightarrow> SyncResponse \<Rightarrow> 'a network_scheme \<Rightarrow> bool" where
  "inner_verified G name response net =
     (if rs_Signature response \<noteq> []
      then (case getNara net name of
              None \<Rightarrow> False
            | Some r \<Rightarrow>
                let publicKey = st_PublicKey (na_Status (nara_at net r))
                in if publicKey = [] then False
                   else case ParsePublicKey G publicKey of
                          None \<Rightarrow> False | Some pubKey \<Rightarrow> response_VerifySignature G response pubKey)
      else False)"

definition fetchSyncEventsFromMesh ::
  "go_env \<Rightarrow> fetcher \<Rightarrow> NaraID \<Rightarrow> NaraName \<Rightarrow> NaraName list \<Rightarrow> int \<Rightarrow> int \<Rightarrow> int \<Rightarrow> 'a network_scheme \<Rightarrow> SyncEvent list \<times> bool" where
  "fetchSyncEventsFromMesh G fetch naraID name subjects sliceIndex sliceTotal maxEvents net =
     (case fetch naraID (zero_request\<lparr>rq_Subjects := subjects, rq_SinceTime := 0, rq_SliceIndex := sliceIndex,
                           rq_SliceTotal := sliceTotal, rq_MaxEvents := maxEvents\<rparr>) of
        None \<Rightarrow> ([], False)
      | Some evs \<Rightarrow>
          let response = \<lparr>rs_From = [], rs_Events = evs, rs_NextCursor = [], rs_Timestamp = 0, rs_Signature = []\<rparr>
          in (rs_Events response, inner_verified G name response net))"

record slice_result =
  sl_name :: NaraName
  sl_index :: nat
  sl_events :: "SyncEvent list"
  sl_success :: bool

definition fetch_slice ::
  "go_env \<Rightarrow> fetcher \<Rightarrow> NaraName list \<Rightarrow> nat \<Rightarrow> int \<Rightarrow> 'a network_scheme \<Rightarrow> nat \<times> meshNeighbor \<Rightarrow> slice_result" where
  "fetch_slice G fetch subjects totalSlices eventsPerNeighbor net = (\<lambda>(idx, n).
     case fetchSyncEventsFromMesh G fetch (mn_id n) (mn_name n) subjects (int idx) (int totalSlices) eventsPerNeighbor net of
       (evs, respVerified) \<Rightarrow>
         \<lparr>sl_name = mn_name n, sl_index = idx, sl_events = evs, sl_success = length evs > 0 \<or> respVerified\<rparr>)"

definition slice_arrived ::
  "go_env \<Rightarrow> peers \<Rightarrow> clock \<Rightarrow> slice_result \<Rightarrow> ((NaraName \<rightharpoonup> bool) \<times> nat list) \<times> nara_net
   \<Rightarrow> (((NaraName \<rightharpoonup> bool) \<times> nat list) \<times> nara_net) go" where
  "slice_arrived G P T result = (\<lambda>((responded, failedSlices), net).
     let responded1 = responded(sl_name result \<mapsto> sl_success result)
     in if length (sl_events result) > 0
        then go_bind (merge_batch G P T (sl_events result) net) (\<lambda>net1. Inr ((responded1, failedSlices), net1))
        else if \<not> sl_success result then Inr ((responded1, failedSlices @ [sl_index result]), net)
        else Inr ((responded1, failedSlices), net))"

definition retry_arrived :: "go_env \<Rightarrow> peers \<Rightarrow> clock \<Rightarrow> slice_result \<Rightarrow> nara_net \<Rightarrow> nara_net go" where
  "retry_arrived G P T result net =
     (if length (sl_events result) > 0 then merge_batch G P T (sl_events result) net else Inr net)"

definition events_per_neighbor :: "nat \<Rightarrow> int" where
  "events_per_neighbor totalSlices =
     (let n = BootRecoveryTargetEvents div int totalSlices in if n < 100 then 100 else n)"

definition retry_slices ::
  "go_env \<Rightarrow> peers \<Rightarrow> clock \<Rightarrow> boot_world \<Rightarrow> NaraName list \<Rightarrow> int \<Rightarrow> meshNeighbor list \<Rightarrow> (NaraName \<rightharpoonup> bool) \<times> nat list
   \<Rightarrow> nara_net \<Rightarrow> nara_net go" where
  "retry_slices G P T W subjects eventsPerNeighbor meshNeighbors seen net =
     (let availableNeighbors = filter (\<lambda>n. fst seen (mn_name n) = Some True) meshNeighbors;
          retries = (if length availableNeighbors > 0 then bw_retries_order W [0..<length (snd seen)] else []);
          retryResults = map (\<lambda>i. fetch_slice G (bw_retry W) subjects (length meshNeighbors) eventsPerNeighbor net
                                (snd seen ! i, availableNeighbors ! (i mod length availableNeighbors))) retries
      in go_fold (retry_arrived G P T) retryResults net)"

definition bootRecoveryViaMeshLegacy ::
  "go_env \<Rightarrow> peers \<Rightarrow> clock \<Rightarrow> boot_world \<Rightarrow> NaraName list \<Rightarrow> meshNeighbor list \<Rightarrow> nara_net \<Rightarrow> nara_net go" where
  \<comment> \<open>each of the two rounds of requests is made from the network as it is when the round begins\<close>
  "bootRecoveryViaMeshLegacy G P T W online meshNeighbors net =
     (let subjects = online @ [meName net];
          totalSlices = length meshNeighbors;
          eventsPerNeighbor = events_per_neighbor totalSlices;
          results = map (\<lambda>i. fetch_slice G (bw_slice W) subjects totalSlices eventsPerNeighbor net (i, meshNeighbors ! i))
                      (bw_slices_order W [0..<totalSlices])
      in go_bind (go_fold (slice_arrived G P T) results ((Map.empty, []), net)) (\<lambda>(seen, net1).
           go_bind (retry_slices G P T W subjects eventsPerNeighbor meshNeighbors seen net1) seedAvgPingRTTFromHistory))"

definition bootRecoveryViaMesh ::
  "go_env \<Rightarrow> peers \<Rightarrow> clock \<Rightarrow> boot_world \<Rightarrow> MemoryMode \<Rightarrow> NaraName list \<Rightarrow> nara_net \<Rightarrow> nara_net go" where
  "bootRecoveryViaMesh G P T W mode online net =
     (let reachable = List.map_filter (mesh_neighbor net) online;
          maxMeshNeighbors = (if nn_ShortMemory net then 4 else length online);
          net1 = register_neighbors reachable net;
          meshNeighbors = (if length reachable > maxMeshNeighbors then take maxMeshNeighbors reachable else reachable)
      in if length meshNeighbors = 0 then bootRecoveryViaMQTT online net1
         else go_bind (bootRecoveryViaMeshSampleMode G P T W mode meshNeighbors net1) (\<lambda>(success, net2).
                if success then Inr net2 else bootRecoveryViaMeshLegacy G P T W online meshNeighbors net2))"

section \<open>Checkpoints\<close>

text \<open>
  The first way is \<open>fetch_pages\<close> over \<open>FetchCheckpoints\<close>; an error gives nothing. The second walks
  \<open>/api/checkpoints/all\<close> by offset and keeps what it has when a request fails. \<open>get\<close> is one such request:
  the checkpoints of the answer, nil entries dropped, and whether there are more. Neither loop is
  bounded; without fuel left the result is \<open>None\<close>.
\<close>

definition fetchCheckpointsViaUnifiedAPI ::
  "nat \<Rightarrow> (string \<Rightarrow> int \<Rightarrow> client_error + SyncResponse) \<Rightarrow> SyncEvent list option" where
  "fetchCheckpointsViaUnifiedAPI fuel fetchCheckpoints =
     (case fetch_pages fuel (\<lambda>cursor. case fetchCheckpoints cursor 1000 of
             Inl err \<Rightarrow> None | Inr resp \<Rightarrow> Some (rs_Events resp, rs_NextCursor resp)) [] [] of
        Fetched evs \<Rightarrow> Some evs | FetchFailed \<Rightarrow> Some [] | OutOfFuel \<Rightarrow> None)"

fun legacy_pages ::
  "nat \<Rightarrow> (int \<Rightarrow> int \<Rightarrow> (SyncEvent list \<times> bool) option) \<Rightarrow> int \<Rightarrow> SyncEvent list \<Rightarrow> SyncEvent list option" where
  "legacy_pages 0 get offset allCheckpoints = None"
| "legacy_pages (Suc n) get offset allCheckpoints =
     (case get 1000 offset of
        None \<Rightarrow> Some allCheckpoints
      | Some (checkpoints, hasMore) \<Rightarrow>
          if \<not> hasMore then Some (allCheckpoints @ checkpoints)
          else legacy_pages n get (i64 (offset + 1000)) (allCheckpoints @ checkpoints))"

definition fetchCheckpointsViaLegacyAPI ::
  "nat \<Rightarrow> (string \<Rightarrow> int \<Rightarrow> int \<Rightarrow> (SyncEvent list \<times> bool) option) \<Rightarrow> NaraName \<Rightarrow> NaraID \<Rightarrow> nara_net \<Rightarrow> SyncEvent list option" where
  \<comment> \<open>the base URL is the registered one, or built from the mesh address\<close>
  "fetchCheckpointsViaLegacyAPI fuel get naraName naraID net =
     (if \<not> nn_mesh net then Some []
      else let baseURL = (case GetPeerBaseURL naraID (network_client net) of Some u \<Rightarrow> u | None \<Rightarrow> buildMeshURL net naraName [])
           in if baseURL = [] then Some [] else legacy_pages fuel (get baseURL) 0 [])"

definition fetchAllCheckpointsFromNara ::
  "nat \<Rightarrow> (NaraID \<Rightarrow> string \<Rightarrow> int \<Rightarrow> client_error + SyncResponse) \<Rightarrow> (string \<Rightarrow> int \<Rightarrow> int \<Rightarrow> (SyncEvent list \<times> bool) option)
   \<Rightarrow> NaraName \<Rightarrow> NaraID \<Rightarrow> nara_net \<Rightarrow> SyncEvent list option" where
  "fetchAllCheckpointsFromNara fuel fetchCheckpoints get naraName naraID net =
     (if \<not> nn_mesh net then Some []
      else case fetchCheckpointsViaUnifiedAPI fuel (fetchCheckpoints naraID) of
             None \<Rightarrow> None
           | Some checkpoints \<Rightarrow>
               if length checkpoints > 0 then Some checkpoints else fetchCheckpointsViaLegacyAPI fuel get naraName naraID net)"

text \<open>The other side of the second way, once the parameters of the query are taken from the URL.\<close>

definition page_param :: "string \<Rightarrow> int option" where
  "page_param s = (if s = [] then None else ParseInt s)"

definition httpCheckpointsAllHandler :: "string \<Rightarrow> string \<Rightarrow> 'a network_scheme \<Rightarrow> SyncEvent list \<times> bool" where
  \<comment> \<open>the checkpoints of the page, and \<open>has_more\<close>\<close>
  "httpCheckpointsAllHandler limitStr offsetStr net =
     (let limit = (case page_param limitStr of
                     Some parsed \<Rightarrow> if parsed > 0 then (if parsed > 10000 then 10000 else parsed) else 1000 | None \<Rightarrow> 1000);
          offset = (case page_param offsetStr of Some parsed \<Rightarrow> if parsed \<ge> 0 then parsed else 0 | None \<Rightarrow> 0);
          allCheckpoints = filter (\<lambda>e. Service e = ServiceCheckpoint \<and> Checkpoint e \<noteq> None) (Events (nw_SyncLedger net));
          total = int (length allCheckpoints);
          end0 = i64 (offset + limit);
          (start, stop) = (if offset \<ge> total then (total, total) else if end0 > total then (offset, total) else (offset, end0))
      in (take (nat (stop - start)) (drop (nat start) allCheckpoints), stop < total))"

text \<open>
  Naras are tried in a shuffled order until five have sent checkpoints. \<open>fetch_all\<close> is
  \<open>fetchAllCheckpointsFromNara\<close>.
\<close>

fun sync_checkpoints ::
  "go_env \<Rightarrow> peers \<Rightarrow> clock \<Rightarrow> (NaraName \<Rightarrow> NaraID \<Rightarrow> SyncEvent list) \<Rightarrow> NaraName list \<Rightarrow> nat \<Rightarrow> nara_net
   \<Rightarrow> nara_net go" where
  "sync_checkpoints G P T fetch_all [] successfulFetches net = Inr net"
| "sync_checkpoints G P T fetch_all (naraName # rest) successfulFetches net =
     (if successfulFetches \<ge> 5 then Inr net
      else case mesh_neighbor net naraName of
             None \<Rightarrow> sync_checkpoints G P T fetch_all rest successfulFetches net
           | Some n \<Rightarrow>
               let net1 = RegisterPeerIP (mn_id n) (mn_ip n) net;
                   checkpoints = fetch_all naraName (mn_id n)
               in if length checkpoints = 0 then sync_checkpoints G P T fetch_all rest successfulFetches net1
                  else go_bind (merge_batch G P T checkpoints net1)
                         (sync_checkpoints G P T fetch_all rest (successfulFetches + 1)))"

definition syncCheckpointsFromNetwork ::
  "go_env \<Rightarrow> peers \<Rightarrow> clock \<Rightarrow> boot_world \<Rightarrow> NaraName list \<Rightarrow> nara_net \<Rightarrow> nara_net go" where
  "syncCheckpointsFromNetwork G P T W online net =
     (if length online = 0 then Inr net else sync_checkpoints G P T (bw_checkpoints W) (bw_shuffle W online) 0 net)"

section \<open>Booting\<close>

definition getNeighborsForBootRecovery ::
  "go_env \<Rightarrow> peers \<Rightarrow> clock \<Rightarrow> ping_map \<Rightarrow> (string \<times> string) list option \<Rightarrow> DiscoveredPeer list option
   \<Rightarrow> nara_net \<Rightarrow> (NaraName list \<times> nara_net) go" where
  "getNeighborsForBootRecovery G P T scan status scanned net =
     (let online = NeighbourhoodOnlineNames net
      in if length online = 0 \<and> nn_TransportMode net = TransportGossip \<and> nn_mesh net
         then go_bind (discoverMeshPeers G P T scan status scanned net) (\<lambda>net1. Inr (NeighbourhoodOnlineNames net1, net1))
         else Inr (online, net))"

definition bootRecovery_found ::
  "go_env \<Rightarrow> peers \<Rightarrow> clock \<Rightarrow> boot_world \<Rightarrow> MemoryMode \<Rightarrow> NaraName list \<Rightarrow> nara_net \<Rightarrow> nara_net go" where
  \<comment> \<open>\<open>bootRecovery\<close>, once it has waited for neighbours\<close>
  "bootRecovery_found G P T W mode online net =
     (if length online = 0 then Inr net
      else go_bind (if nn_mesh net then bootRecoveryViaMesh G P T W mode online net
                    else bootRecoveryViaMQTT online net) (\<lambda>net1.
             if nn_mesh net1 then syncCheckpointsFromNetwork G P T W online net1 else Inr net1))"

section \<open>The own start time\<close>

definition about_me :: "NaraName \<Rightarrow> SyncEvent \<Rightarrow> bool" where
  "about_me me e \<longleftrightarrow>
     Service e = ServiceObservation \<and> (case Observation e of None \<Rightarrow> False | Some ob \<Rightarrow> ob_Subject ob = me)"

definition ask_start_time ::
  "go_env \<Rightarrow> peers \<Rightarrow> clock \<Rightarrow> fetcher \<Rightarrow> NaraName \<Rightarrow> int \<times> nara_net \<Rightarrow> (int \<times> nara_net) go" where
  "ask_start_time G P T fetch neighbor = (\<lambda>(totalAdded, net).
     case mesh_neighbor net neighbor of
       None \<Rightarrow> Inr (totalAdded, net)
     | Some n \<Rightarrow>
         let net1 = RegisterPeerIP (mn_id n) (mn_ip n) net;
             evs = fst (fetchSyncEventsFromMesh G fetch (mn_id n) neighbor [meName net1] 0 1 500 net1);
             filtered = filter (about_me (meName net1)) evs
         in if length filtered = 0 then Inr (totalAdded, net1)
            else go_bind (MergeSyncEventsWithVerification G P T filtered net1) (\<lambda>(added, warned, net2).
                   Inr (i64 (totalAdded + added), net2)))"

definition adopt_start_time :: "go_env \<Rightarrow> clock \<Rightarrow> nara_net \<Rightarrow> nara_net go" where
  "adopt_start_time G T net =
     (let updated = getMeObservation net; before = no_StartTime updated
      in go_bind (opinion_RunOnce G net) (\<lambda>net1.
           let opinion = fst (DeriveOpinionWithValidation G (ck_sec T) (nw_SyncLedger net1) (pj_state (nn_opinion net1)) (meName net1));
               updated1 = (if no_StartTime updated = 0 \<and> od_StartTime opinion > 0
                           then updated\<lparr>no_StartTime := od_StartTime opinion\<rparr> else updated)
           in if no_StartTime updated1 > 0 \<and> no_StartTime updated1 \<noteq> before
              then setObservation (meName net1) updated1 net1 else Inr net1))"

definition recoverSelfStartTimeFromMesh ::
  "go_env \<Rightarrow> peers \<Rightarrow> clock \<Rightarrow> boot_world \<Rightarrow> nara_net \<Rightarrow> nara_net go" where
  "recoverSelfStartTimeFromMesh G P T W net =
     (if \<not> nn_mesh net \<or> isBooting net then Inr net
      else if no_StartTime (getMeObservation net) > 0 then Inr net
      else let online = NeighbourhoodOnlineNames net
           in if length online = 0 then Inr net
              else let targetCount = (if length online > 3 then 3 else length online)
                   in go_bind (go_fold (ask_start_time G P T (bw_fetch W)) (take targetCount (bw_shuffle W online)) (0, net)) (\<lambda>(totalAdded, net1).
                        if totalAdded = 0 then Inr net1 else adopt_start_time G T net1))"

section \<open>Background sync\<close>

definition neighborSupportsBackgroundSync :: "'a network_scheme \<Rightarrow> NaraName \<Rightarrow> bool" where
  "neighborSupportsBackgroundSync net name =
     (case getNara net name of
        None \<Rightarrow> True
      | Some r \<Rightarrow>
          if na_Name (nara_at net r) = [] then True
          else st_MemoryMode (na_Status (nara_at net r)) \<noteq> MemoryMode_string MemoryModeShort)"

text \<open>The counters are whether anything was added, and whether a ping was.\<close>

definition background_event ::
  "go_env \<Rightarrow> int \<Rightarrow> SyncEvent \<Rightarrow> (bool \<times> bool) \<times> nara_net \<Rightarrow> ((bool \<times> bool) \<times> nara_net) go" where
  "background_event G cutoff event = (\<lambda>((added, hasPing), net).
     if (Service event = ServiceObservation \<or> Service event = ServiceSocial) \<and> Timestamp event \<ge> cutoff
     then go_bind (with_ledger G (AddEventFiltered G event (st_Personality (me_status net))) net)
            (\<lambda>(ok, net1). Inr ((added \<or> ok, hasPing), net1))
     else if Service event = ServicePing
     then go_bind (with_ledger G (AddEvent G event) net) (\<lambda>(ok, net1). Inr ((added \<or> ok, hasPing \<or> ok), net1))
     else Inr ((added, hasPing), net))"

definition performBackgroundSyncViaMesh :: "go_env \<Rightarrow> clock \<Rightarrow> fetcher \<Rightarrow> NaraID \<Rightarrow> nara_net \<Rightarrow> nara_net go" where
  "performBackgroundSyncViaMesh G T fetch naraID net =
     (case fetch naraID (zero_request\<lparr>rq_Mode := ''recent'', rq_Limit := 100\<rparr>) of
        None \<Rightarrow> Inr net
      | Some evs \<Rightarrow>
          let cutoff = ck_nano T - 24 * 3600 * 1000000000
          in go_bind (go_fold (background_event G cutoff) evs ((False, False), net)) (\<lambda>((added, hasPing), net1).
               if added
               then go_bind (if hasPing then seedAvgPingRTTFromHistory net1 else Inr net1) (Projections_Trigger G)
               else Inr net1))"

definition background_neighbor :: "go_env \<Rightarrow> clock \<Rightarrow> fetcher \<Rightarrow> NaraName \<Rightarrow> nara_net \<Rightarrow> nara_net go" where
  "background_neighbor G T fetch neighbor net =
     (if nn_mesh net
      then (case mesh_neighbor net neighbor of
              None \<Rightarrow> Inr net
            | Some n \<Rightarrow> performBackgroundSyncViaMesh G T fetch (mn_id n) (RegisterPeerIP (mn_id n) (mn_ip n) net))
      else Inr net)"

text \<open>\<open>bw_two\<close> is \<open>rand.Float64() > 0.5\<close>.\<close>

definition performBackgroundSync :: "go_env \<Rightarrow> peers \<Rightarrow> clock \<Rightarrow> boot_world \<Rightarrow> nara_net \<Rightarrow> nara_net go" where
  "performBackgroundSync G P T W net =
     go_bind (recoverSelfStartTimeFromMesh G P T W net) (\<lambda>net1.
       let online = NeighbourhoodOnlineNames net1
       in if length online = 0 then Inr net1
          else let eligible = filter (neighborSupportsBackgroundSync net1) online
               in if length eligible = 0 then Inr net1
                  else let numNeighbors = (if length eligible > 1 \<and> bw_two W then 2 else 1)
                       in go_fold (background_neighbor G T (bw_fetch W)) (take numNeighbors (bw_shuffle_eligible W eligible)) net1)"

end
