(* ===== verification/Gossip_Safety.thy ===== *)
theory Gossip_Safety
  imports Gossip
begin

text \<open>
  Gossip and the handlers of the mesh are good code in the sense of \<open>Presence_Safety\<close>, as long as the
  events that peers send have a payload and an ID of at least eight bytes.
\<close>

section \<open>Keys\<close>

lemma public_key_length:
  assumes "net_wf net" and "getPublicKeyForNara G net name = Some k"
  shows "length k = PublicKeySize"
  using assms
  by (auto simp: getPublicKeyForNara_def net_wf_def keyring_wf_def ParsePublicKey_def Let_def split: if_splits option.splits)

lemma resolved_key_length:
  assumes "presence_wf net" and "resolvePublicKeyForNara G P name net = Inr (Some k, net')"
  shows "length k = PublicKeySize"
proof -
  have "net_wf net'" using good_resolvePublicKey [OF assms(1), of G P name] assms(2) by (auto simp: good_def presence_wf_def)
  then show ?thesis using resolved_key_known [OF assms(2)] by (rule public_key_length)
qed

lemma VerifyZine_total: "length k = PublicKeySize \<Longrightarrow> \<exists>b. VerifyZine G z k = Inr b"
  by (simp add: VerifyZine_def ex_bool_eq split: option.split)

lemma zine_refused_total:
  assumes "\<And>k. pubKey = Some k \<Longrightarrow> length k = PublicKeySize"
  shows "\<exists>b. zine_refused G z pubKey = Inr b"
proof (cases pubKey)
  case (Some k)
  obtain b where "VerifyZine G z k = Inr b" using VerifyZine_total [OF assms [OF Some]] by blast
  then show ?thesis using Some by (simp add: zine_refused_def ex_bool_eq)
qed (simp add: zine_refused_def ex_bool_eq)

text \<open>The key of a sender is looked up, then its zine is checked against it.\<close>

lemma good_zine_check:
  assumes wf: "presence_wf net" and "\<And>b n. presence_wf n \<Longrightarrow> good sel n (f b n)"
  shows "good sel net (go_bind (resolvePublicKeyForNara G P name net) (\<lambda>(pubKey, net1).
     go_bind (zine_refused G z pubKey) (\<lambda>refused. f refused net1)))"
proof -
  obtain k n where r: "resolvePublicKeyForNara G P name net = Inr (k, n)" "presence_wf n" "net_ext net n"
    using good_resolvePublicKey [OF wf, of G P name] by (auto simp: good_def)
  obtain b where "zine_refused G z k = Inr b"
    using zine_refused_total [of k G z] resolved_key_length [OF wf] r(1) by blast
  then show ?thesis using r assms(2) by (auto intro: good_start)
qed

section \<open>Exchanges\<close>

definition sound_zine :: "Zine \<Rightarrow> bool" where
  "sound_zine z \<longleftrightarrow> (\<forall>e \<in> set (zn_Events z). sound_event e)"

lemma good_merge_zine:
  assumes srt: "sort_algorithm (sort_perm G)" and wf: "presence_wf net" and "sound_zine z"
    and "\<And>a w n. presence_wf n \<Longrightarrow> good sel n (f a w n)"
  shows "good sel net (go_bind (MergeSyncEventsWithVerification G P T (zn_Events z) net) (\<lambda>(added, warned, net2). f added warned net2))"
  by (rule good_bind [OF good_MergeSyncEvents [OF srt wf]]) (use assms(3,4) in \<open>auto simp: sound_zine_def\<close>)

lemma good_exchangeZine:
  assumes srt: "sort_algorithm (sort_perm G)" and wf: "presence_wf net" and "\<And>i z z'. send i z = Some z' \<Longrightarrow> sound_zine z'"
  shows "good_net net (exchangeZine G P T send myZine name net)"
proof -
  have "good_net net (go_bind (resolvePublicKeyForNara G P name net) (\<lambda>(pubKey, net1).
      go_bind (zine_refused G z pubKey) (\<lambda>refused. if refused then Inr net1
        else go_bind (MergeSyncEventsWithVerification G P T (zn_Events z) net1) (\<lambda>(added, warned, net2).
               recordObservationOnlineNara G P T name (zn_CreatedAt z) net2))))" if "sound_zine z" for z
  proof (rule good_zine_check [OF wf])
    fix b n assume n: "presence_wf n"
    have "good_net n (go_bind (MergeSyncEventsWithVerification G P T (zn_Events z) n) (\<lambda>(added, warned, net2).
        recordObservationOnlineNara G P T name (zn_CreatedAt z) net2))"
      by (rule good_merge_zine [OF srt n that]) (rule good_recordObservation [OF srt])
    then show "good_net n (if b then Inr n else go_bind (MergeSyncEventsWithVerification G P T (zn_Events z) n)
        (\<lambda>(added, warned, net2). recordObservationOnlineNara G P T name (zn_CreatedAt z) net2))"
      using n by (simp add: goodI)
  qed
  then show ?thesis using assms(3) wf by (auto simp: exchangeZine_def Let_def goodI split: option.split)
qed

lemma good_gossip_tick:
  assumes srt: "sort_algorithm (sort_perm G)" and wf: "presence_wf net" and s: "\<And>i z z'. send i z = Some z' \<Longrightarrow> sound_zine z'"
  shows "good_net net (gossip_tick G P T send D arrival net)"
proof -
  have "good_net net (go_fold (exchangeZine G P T send zine) names net)" for zine names
    by (rule good_fold [OF wf]) (rule good_exchangeZine [OF srt _ s])
  then show ?thesis using wf by (simp add: gossip_tick_def performGossipRound_def goodI split: option.split)
qed

section \<open>Handlers\<close>

lemma good_zine_handler:
  assumes srt: "sort_algorithm (sort_perm G)" and wf: "presence_wf net" and "\<And>z. hq_Body r = Some z \<Longrightarrow> sound_zine z"
  shows "good snd net (httpGossipZineHandler G P T r net)"
proof -
  have last: "good snd n (go_bind (if c then recordObservationOnlineNara G P T name ts n else Inr n)
      (\<lambda>net3. Inr (http_json (answer_zine G T net3), net3)))" if "presence_wf n" for n c name ts
    by (rule good_bind_net [of n]) (use that good_recordObservation [OF srt that] in \<open>simp_all add: goodI\<close>)
  have "good snd net (go_bind (resolvePublicKeyForNara G P (zn_From z) net) (\<lambda>(pubKey, net1).
      go_bind (zine_refused G z pubKey) (\<lambda>refused. if refused then Inr (http_error 403, net1)
        else go_bind (MergeSyncEventsWithVerification G P T (zn_Events z) net1) (\<lambda>(added, warned, net2).
             go_bind (if \<not> shutting_down_in z then recordObservationOnlineNara G P T (zn_From z) (zn_CreatedAt z) net2 else Inr net2)
               (\<lambda>net3. Inr (http_json (answer_zine G T net3), net3))))))" if "sound_zine z" for z
  proof (rule good_zine_check [OF wf])
    fix b n assume n: "presence_wf n"
    have "good snd n (go_bind (MergeSyncEventsWithVerification G P T (zn_Events z) n) (\<lambda>(added, warned, net2).
        go_bind (if \<not> shutting_down_in z then recordObservationOnlineNara G P T (zn_From z) (zn_CreatedAt z) net2 else Inr net2)
          (\<lambda>net3. Inr (http_json (answer_zine G T net3), net3))))"
      by (rule good_merge_zine [OF srt n that]) (rule last)
    then show "good snd n (if b then Inr (http_error 403, n)
        else go_bind (MergeSyncEventsWithVerification G P T (zn_Events z) n) (\<lambda>(added, warned, net2).
          go_bind (if \<not> shutting_down_in z then recordObservationOnlineNara G P T (zn_From z) (zn_CreatedAt z) net2 else Inr net2)
            (\<lambda>net3. Inr (http_json (answer_zine G T net3), net3))))"
      using n by (simp add: goodI)
  qed
  then show ?thesis using assms(3) wf by (auto simp: httpGossipZineHandler_def goodI split: option.split)
qed

lemma good_accept_dm:
  assumes srt: "sort_algorithm (sort_perm G)" and wf: "presence_wf net" and p: "has_payload event"
  shows "good snd net (accept_dm G P T event net)"
proof -
  have tail: "good snd n (go_bind (if c then recordObservationOnlineNara G P T name ts n else Inr n) (\<lambda>net4. Inr (a, net4)))"
    if "presence_wf n" for n c name ts a
    by (rule good_bind_net [of n]) (use that good_recordObservation [OF srt that] in \<open>simp_all add: goodI\<close>)
  have mid: "good snd n (go_bind (if a then Projections_Trigger G n else Inr n) (\<lambda>net2.
      let net3 = (if a then broadcastSSE event net2 else net2)
      in go_bind (if c then recordObservationOnlineNara G P T name ts net3 else Inr net3) (\<lambda>net4. Inr (a, net4))))"
    if n: "presence_wf n" for n a c name ts
  proof (rule good_bind_net [of n])
    show "good_net n (if a then Projections_Trigger G n else Inr n)" using good_Trigger [OF n] n by (simp add: goodI)
    fix n' assume n': "presence_wf n'" "net_ext n n'"
    let ?m = "if a then broadcastSSE event n' else n'"
    have "presence_wf ?m" "net_ext n' ?m" using n'(1) by simp_all
    then show "good snd n' (let net3 = ?m
        in go_bind (if c then recordObservationOnlineNara G P T name ts net3 else Inr net3) (\<lambda>net4. Inr (a, net4)))"
      unfolding Let_def by (intro good_start [OF _ tail])
  qed
  show ?thesis
    unfolding accept_dm_def
    by (rule good_bind_pair [OF good_with_ledger [OF wf]])
      (use good_add_intros(1,3) [OF srt p] mid in simp_all)
qed

lemma good_dm_handler:
  assumes srt: "sort_algorithm (sort_perm G)" and wf: "presence_wf net" and "\<And>e. hq_Body r = Some e \<Longrightarrow> has_payload e"
  shows "good snd net (httpDMHandler G P T r net)"
proof -
  have acc: "good snd n (go_bind (accept_dm G P T event n) (\<lambda>(added, net2). Inr (http_json \<lparr>da_success = added, da_from = meName net2\<rparr>, net2)))"
    if "presence_wf n" "has_payload event" for n event
    by (rule good_bind_pair [OF good_accept_dm [OF srt that]]) (simp add: goodI)
  have ver: "good snd n (go_bind (VerifyWithKey G event (Some k)) (\<lambda>ok.
      if \<not> ok then Inr (http_error 403, n)
      else go_bind (accept_dm G P T event n) (\<lambda>(added, net2). Inr (http_json \<lparr>da_success = added, da_from = meName net2\<rparr>, net2))))"
    if n: "presence_wf n" "has_payload event" for n event k
  proof -
    obtain b where "VerifyWithKey G event (Some k) = Inr b" using VerifyWithKey_total [OF n(2)] by blast
    then show ?thesis using acc [OF n] n(1) by (simp add: goodI)
  qed
  have "good snd net (go_bind (resolvePublicKeyForNara G P (Emitter event) net) (\<lambda>(pubKey, net1).
      case pubKey of None \<Rightarrow> Inr (http_error 403, net1)
      | Some k \<Rightarrow> go_bind (VerifyWithKey G event (Some k)) (\<lambda>ok.
          if \<not> ok then Inr (http_error 403, net1)
          else go_bind (accept_dm G P T event net1) (\<lambda>(added, net2).
            Inr (http_json \<lparr>da_success = added, da_from = meName net2\<rparr>, net2)))))" if "has_payload event" for event
    by (rule good_bind_pair [OF good_resolvePublicKey [OF wf]]) (use ver that in \<open>simp add: goodI split: option.split\<close>)
  then show ?thesis using assms(3) wf by (auto simp: httpDMHandler_def goodI split: option.split)
qed

section \<open>Discovery\<close>

lemma good_emitSeen:
  assumes srt: "sort_algorithm (sort_perm G)" and wf: "presence_wf net"
  shows "good_net net (emitSeenEvent G T subject via net)"
proof -
  have "good_net net (go_bind (NewSeenSyncEvent G now me subject via kp) (\<lambda>e.
      go_bind (with_ledger G (AddEvent G e) net) (\<lambda>(ok, net1). Projections_Trigger G net1)))" for now me kp
  proof (rule good_built [OF new_seen])
    fix e :: SyncEvent
    assume e: "has_payload e"
    show "good_net net (go_bind (with_ledger G (AddEvent G e) net) (\<lambda>(ok, net1). Projections_Trigger G net1))"
      by (rule good_bind_pair [OF good_with_ledger [OF wf good_add_intros(1) [OF srt e]]]) (simp add: good_Trigger)
  qed
  then show ?thesis using wf by (simp add: emitSeenEvent_def goodI split: prod.split)
qed

lemma good_discover_peer:
  assumes srt: "sort_algorithm (sort_perm G)" and wf: "presence_wf net"
  shows "good_net net (discover_peer G P T myName peer net)"
proof -
  have "good_net net (go_bind (import_new G nara net) (\<lambda>net1.
      go_bind (recordObservationOnlineNara G P T name 0 net1) (emitSeenEvent G T name via)))"
    if "st_Observations (na_Status nara) \<noteq> None" for nara name via
    by (rule good_bind_net [OF good_import [OF wf that]], rule good_bind_net [OF good_recordObservation [OF srt]], assumption,
        rule good_emitSeen [OF srt])
  moreover have "presence_wf (set_status r (\<lambda>s. s\<lparr>st_PublicKey := k\<rparr>) net)" "net_ext net (set_status r (\<lambda>s. s\<lparr>st_PublicKey := k\<rparr>) net)" for r k
    using good_set_status [OF wf, of "\<lambda>s. s\<lparr>st_PublicKey := k\<rparr>"] by simp_all
  ultimately show ?thesis using wf by (simp add: discover_peer_def Let_def NewNara_def goodI split: option.split)
qed

lemma good_discoverMeshPeers:
  assumes srt: "sort_algorithm (sort_perm G)" and wf: "presence_wf net"
  shows "good_net net (discoverMeshPeers G P T scan status scanned net)"
proof -
  have "good_net net (go_fold (discover_peer G P T name) ps net)" for name ps
    by (rule good_fold [OF wf]) (rule good_discover_peer [OF srt])
  then show ?thesis using wf by (simp add: discoverMeshPeers_def goodI)
qed

end
