(* ===== verification/Boot_Safety.thy ===== *)
theory Boot_Safety
  imports Boot Gossip_Safety
begin

text \<open>
  Catching up is good code in the sense of \<open>Presence_Safety\<close>, whatever the order in which answers come,
  as long as the events in them have a payload and an ID of at least eight bytes.
\<close>

definition sound_world :: "boot_world \<Rightarrow> bool" where
  "sound_world W \<longleftrightarrow>
     (\<forall>i n r evs. bw_sample W i n r = Some evs \<longrightarrow> (\<forall>e \<in> set evs. sound_event e)) \<and>
     (\<forall>n r evs. bw_slice W n r = Some evs \<longrightarrow> (\<forall>e \<in> set evs. sound_event e)) \<and>
     (\<forall>n r evs. bw_retry W n r = Some evs \<longrightarrow> (\<forall>e \<in> set evs. sound_event e)) \<and>
     (\<forall>n r evs. bw_fetch W n r = Some evs \<longrightarrow> (\<forall>e \<in> set evs. sound_event e)) \<and>
     (\<forall>name n. \<forall>e \<in> set (bw_checkpoints W name n). sound_event e)"

definition sound_fetcher :: "fetcher \<Rightarrow> bool" where
  "sound_fetcher f \<longleftrightarrow> (\<forall>n r evs. f n r = Some evs \<longrightarrow> (\<forall>e \<in> set evs. sound_event e))"

lemma sound_worldD:
  assumes "sound_world W"
  shows "sound_fetcher (bw_sample W i)" and "sound_fetcher (bw_slice W)" and "sound_fetcher (bw_retry W)"
    and "sound_fetcher (bw_fetch W)" and "\<forall>e \<in> set (bw_checkpoints W name n). sound_event e"
  using assms by (auto simp: sound_world_def sound_fetcher_def)

section \<open>Through the plaza\<close>

lemma post_net [simp]:
  "presence_wf (post e net) = presence_wf net" "net_ext m (post e net) = net_ext m net"
  by (simp_all add: post_def)

lemma RegisterPeerIP_net [simp]:
  "presence_wf (RegisterPeerIP i ip net) = presence_wf net" "net_ext m (RegisterPeerIP i ip net) = net_ext m net"
  by (simp_all add: RegisterPeerIP_def)

lemma register_neighbors_net [simp]:
  "presence_wf (register_neighbors ns net) = presence_wf net" "net_ext m (register_neighbors ns net) = net_ext m net"
  by (induction ns arbitrary: net) (simp_all add: register_neighbors_def)

lemma length_partitions:
  "length (foldl (\<lambda>ps s. let h = f s in ps[h := ps ! h @ [s]]) ps ss) = length ps"
  by (induction ss arbitrary: ps) (simp_all add: Let_def)

lemma length_PartitionSubjects: "length (PartitionSubjects ss n) = nat (min (max 1 n) (int (length ss)))"
  by (cases ss) (simp_all add: PartitionSubjects_def Let_def length_partitions [unfolded Let_def] min_def max_def)

text \<open>The indices of the loop are in range: there are as many partitions as neighbours.\<close>

lemma good_bootRecoveryViaMQTT:
  assumes "presence_wf net"
  shows "good_net net (bootRecoveryViaMQTT online net)"
proof -
  define mx where "mx = (if length online < (if nn_ShortMemory net then 2 else 5 :: nat) then length online
      else (if nn_ShortMemory net then 2 else 5))"
  define ps where "ps = PartitionSubjects (online @ [meName net]) (int mx)"
  have "mx \<le> length online" by (simp add: mx_def)
  moreover have "length ps = nat (min (max 1 (int mx)) (int (length online) + 1))"
    unfolding ps_def by (simp add: length_PartitionSubjects)
  ultimately have range: "mx \<le> length online" "mx \<le> length ps" by linarith+
  have "good_net net (go_fold (request_partition online ps) [0..<mx] net)"
    by (rule good_fold [OF assms]) (use range in \<open>simp add: request_partition_def goodI\<close>)
  then show ?thesis by (simp add: bootRecoveryViaMQTT_def Let_def mx_def ps_def)
qed

lemma handleLedgerRequest_net:
  "presence_wf net \<Longrightarrow> presence_wf (handleLedgerRequest req net) \<and> net_ext net (handleLedgerRequest req net)"
  "presence_wf net \<Longrightarrow> presence_wf (RequestLedgerSync n ss net) \<and> net_ext net (RequestLedgerSync n ss net)"
  by (simp_all add: handleLedgerRequest_def RequestLedgerSync_def Let_def)

lemma good_add_legacy:
  assumes "sort_algorithm (sort_perm G)"
  shows "good_add (AddSocialEventFilteredLegacy G se p)"
proof -
  obtain e where "SyncEventFromSocialEvent G se = Inr e" "has_payload e" using built [OF new_legacy] by blast
  then show ?thesis
    using good_add_intros(3) [OF assms] by (simp add: good_add_def AddSocialEventFilteredLegacy_def)
qed

lemma merge_social_total:
  assumes srt: "sort_algorithm (sort_perm G)" and "ledger_wf l"
  shows "\<exists>m l' calls. MergeSocialEventsFiltered G ses p n l = Inr (m, l', calls) \<and> ledger_wf l'"
  using assms(2)
proof (induction ses arbitrary: n l)
  case (Cons se ses)
  obtain ok l1 c1 where a: "AddSocialEventFilteredLegacy G se p l = Inr (ok, l1, c1)" "ledger_wf l1"
    using good_add_legacy [OF srt] Cons.prems unfolding good_add_def by blast
  obtain m l2 c2 where "MergeSocialEventsFiltered G ses p (if ok then n + 1 else n) l1 = Inr (m, l2, c2)" "ledger_wf l2"
    using Cons.IH [OF a(2)] by blast
  then show ?case using a by simp
qed simp

lemma good_handleLedgerResponse:
  assumes srt: "sort_algorithm (sort_perm G)" and wf: "presence_wf net"
  shows "good_net net (handleLedgerResponse G resp net)"
proof -
  obtain m l calls where "MergeSocialEventsFiltered G (lp_Events resp) (st_Personality (me_status net)) 0 (linked_ledger G net) =
      Inr (m, l, calls)" "ledger_wf l"
    using merge_social_total [OF srt, of "linked_ledger G net"] presence_wfD(3) [OF wf] by (metis linked_ledger_wf)
  then show ?thesis using presence_wf_ledger [OF wf] by (simp add: handleLedgerResponse_def goodI)
qed

section \<open>Through the mesh\<close>

lemma good_merge_batch:
  assumes "sort_algorithm (sort_perm G)" and "presence_wf net" and "\<forall>e \<in> set evs. sound_event e"
  shows "good_net net (merge_batch G P T evs net)"
  unfolding merge_batch_def by (rule good_bind [OF good_MergeSyncEvents [OF assms]]) (auto intro: goodI)

lemma good_seed:
  assumes "presence_wf net"
  shows "good_net net (seedAvgPingRTTFromHistory net)"
proof -
  have "good_net n (seed_target name n)" if "presence_wf n" for name n
    using good_setObservation [OF that] that by (simp add: seed_target_def Let_def goodI)
  then show ?thesis unfolding seedAvgPingRTTFromHistory_def by (intro good_fold [OF assms])
qed

lemma good_SampleMode:
  assumes srt: "sort_algorithm (sort_perm G)" and wf: "presence_wf net" and W: "sound_world W"
  shows "good snd net (bootRecoveryViaMeshSampleMode G P T W mode ns net)"
proof -
  have result: "good snd n (sample_result G P T r (k, n))" if "presence_wf n" "\<forall>evs. r = Some evs \<longrightarrow> (\<forall>e \<in> set evs. sound_event e)" for r k n
  proof (cases r)
    case (Some evs)
    have "good snd n (go_bind (merge_batch G P T evs n) (\<lambda>net1. Inr (k, net1)))"
      by (rule good_bind_net [OF good_merge_batch [OF srt that(1)]]) (use that(2) Some in \<open>simp_all add: goodI\<close>)
    then show ?thesis by (simp add: sample_result_def Some)
  qed (use that in \<open>simp add: sample_result_def goodI\<close>)
  have all: "good snd net (go_fold (sample_result G P T) (map (\<lambda>i. bw_sample W i (nb i) req) is) (0, net))" for nb req "is"
    by (rule good_fold_pair [OF wf], rule result, assumption)
      (use sound_worldD(1) [OF W] in \<open>auto simp: sound_fetcher_def\<close>)
  have last: "good snd n (if c then Inr (False, n) else go_bind (Projections_Trigger G n) (\<lambda>net2. Inr (True, net2)))"
    if "presence_wf n" for c n
  proof -
    have "good snd n (go_bind (Projections_Trigger G n) (\<lambda>net2. Inr (True, net2)))"
      by (rule good_bind_net [OF good_Trigger [OF that]]) (simp add: goodI)
    then show ?thesis using that by (simp add: goodI)
  qed
  show ?thesis
    unfolding bootRecoveryViaMeshSampleMode_def case_prod_beta Let_def
    by (rule good_bind_pair [OF all]) (simp only: fst_conv snd_conv last)
qed

lemma fetch_slice_sound:
  assumes "sound_fetcher f"
  shows "\<forall>e \<in> set (sl_events (fetch_slice G f ss t n net x)). sound_event e"
  using assms
  by (auto simp: fetch_slice_def fetchSyncEventsFromMesh_def Let_def sound_fetcher_def split: prod.splits option.splits)

lemma good_Legacy:
  assumes srt: "sort_algorithm (sort_perm G)" and wf: "presence_wf net" and W: "sound_world W"
  shows "good_net net (bootRecoveryViaMeshLegacy G P T W online ns net)"
proof -
  have arrived: "good snd n (slice_arrived G P T r (a, n))" if "presence_wf n" "\<forall>e \<in> set (sl_events r). sound_event e" for r a n
  proof -
    have "good snd n (go_bind (merge_batch G P T (sl_events r) n) (\<lambda>net1. Inr (b, net1)))" for b :: "(NaraName \<rightharpoonup> bool) \<times> nat list"
      by (rule good_bind_net [OF good_merge_batch [OF srt that]]) (simp add: goodI)
    then show ?thesis using that(1) by (cases a) (simp add: slice_arrived_def Let_def goodI)
  qed
  have first_round: "good snd n (go_fold (slice_arrived G P T) (map (\<lambda>i. fetch_slice G (bw_slice W) ss t k m (x i)) is) (a, n))"
    if "presence_wf n" for ss t k m x "is" a n
    by (rule good_fold_pair [OF that], rule arrived, assumption) (auto simp: fetch_slice_sound [OF sound_worldD(2) [OF W], rule_format])
  have retried: "good_net n (retry_slices G P T W ss k nb seen n)" if "presence_wf n" for ss k nb seen n
    unfolding retry_slices_def Let_def
  proof (rule good_fold [OF that])
    fix r n'
    assume r: "r \<in> set (map (\<lambda>i. fetch_slice G (bw_retry W) ss (length nb) k n (snd seen ! i,
        filter (\<lambda>n. fst seen (mn_name n) = Some True) nb ! (i mod length (filter (\<lambda>n. fst seen (mn_name n) = Some True) nb))))
        (if length (filter (\<lambda>n. fst seen (mn_name n) = Some True) nb) > 0 then bw_retries_order W [0..<length (snd seen)] else []))"
      "presence_wf n'"
    then obtain x where "r = fetch_slice G (bw_retry W) ss (length nb) k n x" by auto
    then have "\<forall>e \<in> set (sl_events r). sound_event e" using fetch_slice_sound [OF sound_worldD(3) [OF W]] by simp
    then show "good_net n' (retry_arrived G P T r n')"
      using good_merge_batch [OF srt r(2)] r(2) by (simp add: retry_arrived_def goodI)
  qed
  show ?thesis
    unfolding bootRecoveryViaMeshLegacy_def Let_def
  proof (rule good_bind_pair [OF first_round [OF wf]])
    fix seen n assume n: "presence_wf n"
    show "good_net n (case (seen, n) of (seen, net1) \<Rightarrow>
        go_bind (retry_slices G P T W (online @ [meName net]) (events_per_neighbor (length ns)) ns seen net1) seedAvgPingRTTFromHistory)"
      unfolding prod.case by (rule good_bind_net [OF retried [OF n]]) (rule good_seed)
  qed
qed

lemma good_bootRecoveryViaMesh:
  assumes srt: "sort_algorithm (sort_perm G)" and wf: "presence_wf net" and W: "sound_world W"
  shows "good_net net (bootRecoveryViaMesh G P T W mode online net)"
proof -
  have mesh: "good_net n (go_bind (bootRecoveryViaMeshSampleMode G P T W mode ns n) (\<lambda>(success, net2).
      if success then Inr net2 else bootRecoveryViaMeshLegacy G P T W online ns net2))" if "presence_wf n" for n ns
    by (rule good_bind_pair [OF good_SampleMode [OF srt that W]]) (simp add: goodI good_Legacy [OF srt _ W])
  have w: "presence_wf (register_neighbors r net)" "net_ext net (register_neighbors r net)" for r using wf by simp_all
  have "good_net net (bootRecoveryViaMQTT online (register_neighbors r net))" for r
    by (rule good_start [OF w(2) good_bootRecoveryViaMQTT [OF w(1)]])
  moreover have "good_net net (go_bind (bootRecoveryViaMeshSampleMode G P T W mode ns (register_neighbors r net)) (\<lambda>(success, net2).
      if success then Inr net2 else bootRecoveryViaMeshLegacy G P T W online ns net2))" for r ns
    by (rule good_start [OF w(2) mesh [OF w(1)]])
  ultimately show ?thesis by (simp add: bootRecoveryViaMesh_def Let_def)
qed

section \<open>Checkpoints, booting\<close>

lemma good_sync_checkpoints:
  assumes srt: "sort_algorithm (sort_perm G)" and F: "\<And>name i e. e \<in> set (fetch_all name i) \<Longrightarrow> sound_event e"
  shows "presence_wf net \<Longrightarrow> good_net net (sync_checkpoints G P T fetch_all names k net)"
proof (induction names arbitrary: k net)
  case (Cons name names)
  show ?case
  proof (cases "k \<ge> 5 \<or> mesh_neighbor net name = None")
    case True
    then show ?thesis using Cons by (auto simp: goodI)
  next
    case False
    then obtain n where n: "mesh_neighbor net name = Some n" by blast
    let ?n = "RegisterPeerIP (mn_id n) (mn_ip n) net" and ?cs = "fetch_all name (mn_id n)"
    have w: "presence_wf ?n" "net_ext net ?n" using Cons.prems by simp_all
    have "good_net ?n (go_bind (merge_batch G P T ?cs ?n) (sync_checkpoints G P T fetch_all names (k + 1)))"
      by (rule good_bind_net [OF good_merge_batch [OF srt w(1)]]) (use F Cons.IH in auto)
    then have "good_net ?n (if length ?cs = 0 then sync_checkpoints G P T fetch_all names k ?n
        else go_bind (merge_batch G P T ?cs ?n) (sync_checkpoints G P T fetch_all names (k + 1)))"
      using Cons.IH [OF w(1)] by simp
    then have "good_net net (if length ?cs = 0 then sync_checkpoints G P T fetch_all names k ?n
        else go_bind (merge_batch G P T ?cs ?n) (sync_checkpoints G P T fetch_all names (k + 1)))"
      by (rule good_start [OF w(2)])
    then show ?thesis using False n by (simp add: Let_def)
  qed
qed (simp add: goodI)

lemma good_syncCheckpoints:
  assumes "sort_algorithm (sort_perm G)" and "presence_wf net" and "sound_world W"
  shows "good_net net (syncCheckpointsFromNetwork G P T W online net)"
  using good_sync_checkpoints [OF assms(1) _ assms(2), of "bw_checkpoints W"] sound_worldD(5) [OF assms(3)] assms(2)
  by (simp add: syncCheckpointsFromNetwork_def goodI)

lemma good_bootRecovery:
  assumes srt: "sort_algorithm (sort_perm G)" and wf: "presence_wf net" and W: "sound_world W"
  shows "good_net net (bootRecovery_found G P T W mode online net)"
proof -
  have "good_net net (if nn_mesh net then bootRecoveryViaMesh G P T W mode online net else bootRecoveryViaMQTT online net)"
    using good_bootRecoveryViaMesh [OF assms] good_bootRecoveryViaMQTT [OF wf] by simp
  moreover have "good_net n (if nn_mesh n then syncCheckpointsFromNetwork G P T W online n else Inr n)" if "presence_wf n" for n
    using good_syncCheckpoints [OF srt that W] that by (simp add: goodI)
  ultimately have "good_net net (go_bind (if nn_mesh net then bootRecoveryViaMesh G P T W mode online net
      else bootRecoveryViaMQTT online net) (\<lambda>n. if nn_mesh n then syncCheckpointsFromNetwork G P T W online n else Inr n))"
    by (rule good_bind_net)
  then show ?thesis using wf by (simp add: bootRecovery_found_def goodI)
qed

lemma good_getNeighbors:
  assumes srt: "sort_algorithm (sort_perm G)" and wf: "presence_wf net"
  shows "good snd net (getNeighborsForBootRecovery G P T scan status scanned net)"
proof -
  have "good snd net (go_bind (discoverMeshPeers G P T scan status scanned net) (\<lambda>net1. Inr (NeighbourhoodOnlineNames net1, net1)))"
    by (rule good_bind_net [OF good_discoverMeshPeers [OF assms]]) (simp add: goodI)
  then show ?thesis using wf by (simp add: getNeighborsForBootRecovery_def Let_def goodI)
qed

section \<open>The own start time and the background sync\<close>

lemma good_ask_start_time:
  assumes srt: "sort_algorithm (sort_perm G)" and wf: "presence_wf net" and f: "sound_fetcher f"
  shows "good snd net (ask_start_time G P T f neighbor (k, net))"
proof (cases "mesh_neighbor net neighbor")
  case (Some n)
  let ?n = "RegisterPeerIP (mn_id n) (mn_ip n) net"
  have w: "presence_wf ?n" "net_ext net ?n" using wf by simp_all
  have s: "\<forall>e \<in> set (filter (about_me me) (fst (fetchSyncEventsFromMesh G f i name ss a b c ?n))). sound_event e" for i name ss a b c me
    using f by (auto simp: fetchSyncEventsFromMesh_def sound_fetcher_def Let_def split: option.splits)
  have "good snd ?n (go_bind (MergeSyncEventsWithVerification G P T
      (filter (about_me me) (fst (fetchSyncEventsFromMesh G f i name ss a b c ?n))) ?n)
      (\<lambda>(added, warned, net2). Inr (i64 (k + added), net2)))" for i name ss a b c me
    by (rule good_bind [OF good_MergeSyncEvents [OF srt w(1) s]]) (auto intro: goodI)
  then have "good snd net (go_bind (MergeSyncEventsWithVerification G P T
      (filter (about_me me) (fst (fetchSyncEventsFromMesh G f i name ss a b c ?n))) ?n)
      (\<lambda>(added, warned, net2). Inr (i64 (k + added), net2)))" for i name ss a b c me
    by (rule good_start [OF w(2)])
  then show ?thesis using Some w wf by (simp add: ask_start_time_def Let_def goodI)
qed (use wf in \<open>simp add: ask_start_time_def goodI\<close>)

lemma good_adopt_start_time:
  assumes "presence_wf net"
  shows "good_net net (adopt_start_time G T net)"
  unfolding adopt_start_time_def Let_def
  by (rule good_bind_net [OF good_RunOnce(1) [OF assms]]) (auto intro: goodI good_setObservation)

lemma good_recoverSelfStartTime:
  assumes srt: "sort_algorithm (sort_perm G)" and wf: "presence_wf net" and W: "sound_world W"
  shows "good_net net (recoverSelfStartTimeFromMesh G P T W net)"
proof -
  have "good snd net (go_fold (ask_start_time G P T (bw_fetch W)) names (0, net))" for names
    by (rule good_fold_pair [OF wf]) (rule good_ask_start_time [OF srt _ sound_worldD(4) [OF W]])
  then have "good_net net (go_bind (go_fold (ask_start_time G P T (bw_fetch W)) names (0, net)) (\<lambda>(totalAdded, net1).
      if totalAdded = 0 then Inr net1 else adopt_start_time G T net1))" for names
    by (rule good_bind_pair) (simp add: goodI good_adopt_start_time)
  then show ?thesis using wf by (simp add: recoverSelfStartTimeFromMesh_def Let_def goodI)
qed

lemma good_background_event:
  assumes srt: "sort_algorithm (sort_perm G)" and wf: "presence_wf net" and e: "has_payload e"
  shows "good snd net (background_event G cutoff e (flags, net))"
proof -
  have filtered: "good snd net (go_bind (with_ledger G (AddEventFiltered G e p) net) (\<lambda>(ok, net1). Inr (fl ok, net1)))"
    for p and fl :: "bool \<Rightarrow> bool \<times> bool"
    by (rule good_bind_pair [OF good_with_ledger [OF wf good_add_intros(2) [OF srt e]]]) (simp add: goodI)
  have plain: "good snd net (go_bind (with_ledger G (AddEvent G e) net) (\<lambda>(ok, net1). Inr (fl ok, net1)))"
    for fl :: "bool \<Rightarrow> bool \<times> bool"
    by (rule good_bind_pair [OF good_with_ledger [OF wf good_add_intros(1) [OF srt e]]]) (simp add: goodI)
  obtain a h where "flags = (a, h)" by fastforce
  then show ?thesis
    using filtered [of _ "\<lambda>ok. (a \<or> ok, h)"] plain [of "\<lambda>ok. (a \<or> ok, h \<or> ok)"] wf by (simp add: background_event_def goodI)
qed

lemma good_backgroundViaMesh:
  assumes srt: "sort_algorithm (sort_perm G)" and wf: "presence_wf net" and f: "sound_fetcher f"
  shows "good_net net (performBackgroundSyncViaMesh G T f i net)"
proof (cases "f i (zero_request\<lparr>rq_Mode := ''recent'', rq_Limit := 100\<rparr>)")
  case (Some evs)
  have p: "has_payload e" if "e \<in> set evs" for e using f Some that by (auto simp: sound_fetcher_def sound_event_def)
  have each: "good snd net (go_fold (background_event G c) evs (fl, net))" for c fl
    by (rule good_fold_pair [OF wf]) (use good_background_event [OF srt _ p] in auto)
  have tail: "good_net n (go_bind (if h then seedAvgPingRTTFromHistory n else Inr n) (Projections_Trigger G))" if "presence_wf n" for h n
    by (rule good_bind_net [of n]) (use good_seed [OF that] that in \<open>simp_all add: goodI good_Trigger\<close>)
  have "good_net net (go_bind (go_fold (background_event G c) evs (fl, net)) (\<lambda>((added, hasPing), net1).
      if added then go_bind (if hasPing then seedAvgPingRTTFromHistory net1 else Inr net1) (Projections_Trigger G)
      else Inr net1))" for c fl
  proof (rule good_bind_pair [OF each])
    fix x :: "bool \<times> bool" and n assume n: "presence_wf n"
    obtain a h where x: "x = (a, h)" by fastforce
    show "good_net n ((\<lambda>((added, hasPing), net1).
        if added then go_bind (if hasPing then seedAvgPingRTTFromHistory net1 else Inr net1) (Projections_Trigger G) else Inr net1) (x, n))"
      unfolding x prod.case by (cases a) (simp_all only: if_True if_False tail [OF n], simp add: goodI n)
  qed
  then show ?thesis by (simp add: performBackgroundSyncViaMesh_def Some Let_def)
qed (use wf in \<open>simp add: performBackgroundSyncViaMesh_def goodI\<close>)

lemma good_performBackgroundSync:
  assumes srt: "sort_algorithm (sort_perm G)" and wf: "presence_wf net" and W: "sound_world W"
  shows "good_net net (performBackgroundSync G P T W net)"
proof -
  have one: "good_net n (background_neighbor G T (bw_fetch W) name n)" if "presence_wf n" for name n
  proof (cases "mesh_neighbor n name")
    case (Some m)
    have "presence_wf (RegisterPeerIP (mn_id m) (mn_ip m) n)" "net_ext n (RegisterPeerIP (mn_id m) (mn_ip m) n)"
      using that by simp_all
    then have "good_net n (performBackgroundSyncViaMesh G T (bw_fetch W) (mn_id m) (RegisterPeerIP (mn_id m) (mn_ip m) n))"
      by (intro good_start [OF _ good_backgroundViaMesh [OF srt _ sound_worldD(4) [OF W]]])
    then show ?thesis using that Some by (simp add: background_neighbor_def goodI)
  qed (use that in \<open>simp add: background_neighbor_def goodI\<close>)
  have all: "good_net n (go_fold (background_neighbor G T (bw_fetch W)) names n)" if "presence_wf n" for names n
    by (rule good_fold [OF that]) (rule one)
  show ?thesis
    unfolding performBackgroundSync_def Let_def
    by (rule good_bind_net [OF good_recoverSelfStartTime [OF assms]]) (simp add: goodI all)
qed

section \<open>Verified answers\<close>

text \<open>
  The answer is rebuilt from its events alone, so its signature is empty and is never checked: an answer
  counts as a success exactly if it has events, and an empty slice is asked for again.
\<close>

theorem empty_slice_failed:
  "sl_success (fetch_slice G fetch subjects totalSlices eventsPerNeighbor net x) \<longleftrightarrow>
   sl_events (fetch_slice G fetch subjects totalSlices eventsPerNeighbor net x) \<noteq> []"
  by (cases x) (simp add: fetch_slice_def fetchSyncEventsFromMesh_def inner_verified_def split: option.split)

end
