(* ===== verification/Backup.thy ===== *)
theory Backup
  imports Boot
begin

text \<open>
  The backup of events: the tool that dumps the events of all peers and restores them
  (\<open>cmd/nara-backup/\<close>), and the import handler it restores to (\<open>http_import.go\<close>). Lines are byte strings
  without their end; \<open>json.Unmarshal\<close> and the exchange of one request are parameters. \<open>logrus.Fatalf\<close> ends the
  tool: an error is its last value.
\<close>

section \<open>Import\<close>

record EventImportRequest =
  im_Events :: "SyncEvent list"
  im_Timestamp :: int
  im_Signature :: string

text \<open>The text of an error is left out of the response.\<close>

record EventImportResponse =
  ei_Success :: bool
  ei_Imported :: int
  ei_Duplicates :: int
  ei_Warnings :: int

definition import_SigningData :: "go_env \<Rightarrow> EventImportRequest \<Rightarrow> string" where
  "import_SigningData G r = sha256 G (fmt_int (im_Timestamp r) @ '':'' @ concat (map ID (im_Events r)))"

datatype soul_error = SoulTimestamp | SoulEncoding | SoulSignature

definition verifySoulAuth :: "go_env \<Rightarrow> clock \<Rightarrow> EventImportRequest \<Rightarrow> 'a network_scheme \<Rightarrow> soul_error option" where
  "verifySoulAuth G T req net =
     (let age = nanos_since T (im_Timestamp req * 1000000000)
      in if age > 5 * 60 * 1000000000 \<or> age < - (5 * 60 * 1000000000) then Some SoulTimestamp
         else let data = import_SigningData G req
              in case base64_Decode G (im_Signature req) of
                   None \<Rightarrow> Some SoulEncoding
                 | Some sig \<Rightarrow>
                     if \<not> VerifySignature G (PublicKey (my_keypair net)) data sig then Some SoulSignature else None)"

definition sendJSONError :: "int \<Rightarrow> EventImportResponse option http_response" where
  "sendJSONError statusCode =
     \<lparr>hp_Status = statusCode, hp_Header = [''Content-Type'' \<mapsto> ''application/json''],
      hp_Body = Some \<lparr>ei_Success = False, ei_Imported = 0, ei_Duplicates = 0, ei_Warnings = 0\<rparr>\<rparr>"

definition httpEventsImportHandler ::
  "go_env \<Rightarrow> peers \<Rightarrow> clock \<Rightarrow> (EventImportRequest option, EventImportResponse option) http_handler" where
  "httpEventsImportHandler G P T r net =
     (if hq_Method r \<noteq> ''POST'' then Inr (http_error 405, net)
      else case hq_Body r of
             None \<Rightarrow> Inr (sendJSONError 400, net)
           | Some req \<Rightarrow>
               (case verifySoulAuth G T req net of
                  Some err \<Rightarrow> Inr (sendJSONError 403, net)
                | None \<Rightarrow>
                    go_bind (MergeSyncEventsWithVerification G P T (im_Events req) net) (\<lambda>(imported, warned, net1).
                      Inr (\<lparr>hp_Status = 0, hp_Header = [''Content-Type'' \<mapsto> ''application/json''],
                            hp_Body = Some \<lparr>ei_Success = True, ei_Imported = imported,
                              ei_Duplicates = i64 (int (length (im_Events req)) - imported), ei_Warnings = warned\<rparr>\<rparr>, net1))))"

section \<open>Restore\<close>

definition drop_cr :: "string \<Rightarrow> string" where
  \<comment> \<open>what \<open>bufio.ScanLines\<close> does to a line\<close>
  "drop_cr l = (if l \<noteq> [] \<and> List.last l = CHR 0x0D then butlast l else l)"

datatype backup_error = LineTooLong | BadLine nat | BadSoul | NoPeers | BatchFailed client_error | ImportFailed

text \<open>A scanner without a buffer of its own takes lines of up to 64 KB.\<close>

fun read_events :: "(string \<Rightarrow> SyncEvent option) \<Rightarrow> nat \<Rightarrow> string list \<Rightarrow> backup_error + SyncEvent list" where
  "read_events unmarshal lineNum [] = Inr []"
| "read_events unmarshal lineNum (l # ls) =
     (if length l \<ge> 64 * 1024 then Inl LineTooLong
      else if length (drop_cr l) = 0 then read_events unmarshal (lineNum + 1) ls
      else case unmarshal (drop_cr l) of
             None \<Rightarrow> Inl (BadLine (lineNum + 1))
           | Some event \<Rightarrow>
               (case read_events unmarshal (lineNum + 1) ls of Inl err \<Rightarrow> Inl err | Inr evs \<Rightarrow> Inr (event # evs)))"

definition import_request :: "go_env \<Rightarrow> clock \<Rightarrow> NaraKeypair \<Rightarrow> SyncEvent list \<Rightarrow> EventImportRequest" where
  "import_request G T keypair batch =
     (let request = \<lparr>im_Events = batch, im_Timestamp = ck_sec T, im_Signature = []\<rparr>
      in request\<lparr>im_Signature := SignBase64 G keypair (import_SigningData G request)\<rparr>)"

text \<open>\<open>Do\<close> posts to the nara, in its state, and gives the status and the decoded body, or \<open>None\<close>.\<close>

type_synonym 'n import_exchange = "EventImportRequest \<Rightarrow> 'n \<Rightarrow> (int \<times> EventImportResponse option) option \<times> 'n"

definition postImportRequest ::
  "'n import_exchange \<Rightarrow> EventImportRequest \<Rightarrow> 'n \<Rightarrow> (backup_error + int \<times> int \<times> int) \<times> 'n" where
  "postImportRequest Do req net =
     (case Do req net of (result, net1) \<Rightarrow>
        ((case result of
            None \<Rightarrow> Inl (BatchFailed RequestFailed)
          | Some (status, body) \<Rightarrow>
              if status \<noteq> 200 then Inl (BatchFailed (ServerReturned status))
              else case body of
                     None \<Rightarrow> Inl (BatchFailed DecodeFailed)
                   | Some resp \<Rightarrow>
                       if \<not> ei_Success resp then Inl ImportFailed
                       else Inr (ei_Imported resp, ei_Duplicates resp, ei_Warnings resp)), net1))"

definition add_totals :: "int \<times> int \<times> int \<Rightarrow> int \<times> int \<times> int \<Rightarrow> int \<times> int \<times> int" where
  "add_totals = (\<lambda>(imported, duplicates, warnings) (i, d, w). (i64 (imported + i), i64 (duplicates + d), i64 (warnings + w)))"

text \<open>\<open>b\<close> is the number of the batch; the clock is read for every batch and the exchange may differ.\<close>

function restore_batches ::
  "go_env \<Rightarrow> (nat \<Rightarrow> clock) \<Rightarrow> NaraKeypair \<Rightarrow> (nat \<Rightarrow> 'n import_exchange) \<Rightarrow> nat \<Rightarrow> SyncEvent list \<Rightarrow> int \<times> int \<times> int \<Rightarrow> 'n
   \<Rightarrow> (backup_error + int \<times> int \<times> int) \<times> 'n" where
  "restore_batches G C keypair Do b evs totals net =
     (if evs = [] then (Inr totals, net)
      else case postImportRequest (Do b) (import_request G (C b) keypair (take 2000 evs)) net of
             (Inl err, net1) \<Rightarrow> (Inl err, net1)
           | (Inr counts, net1) \<Rightarrow> restore_batches G C keypair Do (b + 1) (drop 2000 evs) (add_totals totals counts) net1)"
  by pat_completeness auto
termination
  by (relation "measure (\<lambda>(G, C, keypair, Do, b, evs, totals, net). length evs)") auto

declare restore_batches.simps [simp del]

definition restoreEventsCmd ::
  "go_env \<Rightarrow> soul_env \<Rightarrow> (nat \<Rightarrow> clock) \<Rightarrow> (string \<Rightarrow> SyncEvent option) \<Rightarrow> (nat \<Rightarrow> 'n import_exchange) \<Rightarrow> string \<Rightarrow> string list \<Rightarrow> 'n
   \<Rightarrow> (backup_error + int \<times> int \<times> int) \<times> 'n" where
  "restoreEventsCmd G S C unmarshal Do soulStr stdin net =
     (case ParseSoul S soulStr of
        None \<Rightarrow> (Inl BadSoul, net)
      | Some soul \<Rightarrow>
          (case read_events unmarshal 0 stdin of
             Inl err \<Rightarrow> (Inl err, net)
           | Inr evs \<Rightarrow> restore_batches G C (DeriveKeypair S soul) Do 0 evs (0, 0, 0) net))"

section \<open>Dump\<close>

definition NewBackupMesh :: "soul_env \<Rightarrow> NaraName \<Rightarrow> SoulV1 \<Rightarrow> MeshClient" where
  "NewBackupMesh S naraName naraSoul = NewMeshClient naraName (DeriveKeypair S naraSoul)"

definition backup_peer_id :: "string \<Rightarrow> NaraID" where
  "backup_peer_id peerName = (if length peerName > 5 then take (length peerName - 5) peerName else peerName)"

text \<open>Without fuel left the result is \<open>OutOfFuel\<close>; the loop of the code is not bounded. Every request has its time.\<close>

definition FetchEvents ::
  "nat \<Rightarrow> go_env \<Rightarrow> (string \<Rightarrow> clock) \<Rightarrow> (string \<Rightarrow> (SyncRequest, SyncResponse) exchange) \<Rightarrow> MeshClient \<Rightarrow> string \<Rightarrow> string
   \<Rightarrow> SyncEvent list fetch_result" where
  "FetchEvents fuel G C Do m peerIP peerName =
     (let peerID = backup_peer_id peerName;
          m1 = client_RegisterPeerIP peerID peerIP m
      in fetch_pages fuel (\<lambda>cursor.
           case FetchSyncEventsWithCursor G (C cursor) (Do cursor) m1 peerID
                  (zero_request\<lparr>rq_Mode := ''page'', rq_PageSize := 5000, rq_Cursor := cursor\<rparr>) of
             Inl err \<Rightarrow> None | Inr resp \<Rightarrow> Some (rs_Events resp, rs_NextCursor resp)) [] [])"

text \<open>The IDs in a file, with their number. The lines may have up to a megabyte here.\<close>

fun loadEventIDsFromFile ::
  "(string \<Rightarrow> string option) \<Rightarrow> string list \<Rightarrow> string set \<times> int \<Rightarrow> backup_error + (string set \<times> int)" where
  "loadEventIDsFromFile unmarshal [] st = Inr st"
| "loadEventIDsFromFile unmarshal (l # ls) (seenIDs, n) =
     (if length l \<ge> 1024 * 1024 then Inl LineTooLong
      else case unmarshal (drop_cr l) of
             None \<Rightarrow> loadEventIDsFromFile unmarshal ls (seenIDs, n)
           | Some i \<Rightarrow> loadEventIDsFromFile unmarshal ls (if i \<noteq> [] then (insert i seenIDs, i64 (n + 1)) else (seenIDs, n)))"

fun dump_new :: "SyncEvent list \<Rightarrow> string set \<Rightarrow> SyncEvent list \<times> string set" where
  "dump_new [] seenIDs = ([], seenIDs)"
| "dump_new (event # evs) seenIDs =
     (if ID event = [] \<or> ID event \<in> seenIDs then dump_new evs seenIDs
      else case dump_new evs (insert (ID event) seenIDs) of (out, seen) \<Rightarrow> (event # out, seen))"

fun dump_results :: "SyncEvent list option list \<Rightarrow> string set \<Rightarrow> SyncEvent list \<times> string set" where
  \<comment> \<open>the results of the workers in the order in which they arrive\<close>
  "dump_results [] seenIDs = ([], seenIDs)"
| "dump_results (None # results) seenIDs = dump_results results seenIDs"
| "dump_results (Some evs # results) seenIDs =
     (case dump_new evs seenIDs of (out, seen) \<Rightarrow>
      case dump_results results seen of (out', seen') \<Rightarrow> (out @ out', seen'))"

text \<open>
  \<open>fetch\<close> is \<open>FetchEvents\<close> within its time, \<open>arrival\<close> the order of the results, \<open>ids_from\<close> the lines of the file named by
  the option, if it is given; a file that does not exist has none. What is written to the output is the result.
\<close>

definition dumpEventsCmd ::
  "soul_env \<Rightarrow> (MeshClient \<Rightarrow> string \<Rightarrow> string \<Rightarrow> SyncEvent list option) \<Rightarrow> (string \<Rightarrow> string option)
   \<Rightarrow> (SyncEvent list option list \<Rightarrow> SyncEvent list option list) \<Rightarrow> (string \<times> string) list option
   \<Rightarrow> string list \<Rightarrow> NaraName \<Rightarrow> string \<Rightarrow> backup_error + SyncEvent list" where
  "dumpEventsCmd S fetch unmarshal arrival discovered ids_from name soulStr =
     (case ParseSoul S soulStr of
        None \<Rightarrow> Inl BadSoul
      | Some soul \<Rightarrow>
          (let mesh = NewBackupMesh S name soul
           in case discovered of
                None \<Rightarrow> Inl NoPeers
              | Some peers \<Rightarrow>
                  if length peers = 0 then Inr []
                  else case loadEventIDsFromFile unmarshal ids_from ({}, 0) of
                         Inl err \<Rightarrow> Inl err
                       | Inr (seenIDs, loaded) \<Rightarrow>
                           Inr (fst (dump_results (arrival (map (\<lambda>(hostName, ip). fetch mesh ip hostName) peers)) seenIDs))))"

section \<open>The handler never fails\<close>

lemma good_import_handler:
  assumes srt: "sort_algorithm (sort_perm G)" and wf: "presence_wf net"
    and "\<And>req. hq_Body r = Some req \<Longrightarrow> \<forall>e \<in> set (im_Events req). sound_event e"
  shows "good snd net (httpEventsImportHandler G P T r net)"
proof -
  have "good snd net (go_bind (MergeSyncEventsWithVerification G P T evs net) (\<lambda>(imported, warned, net1). Inr (f imported warned, net1)))"
    if "\<forall>e \<in> set evs. sound_event e" for evs f
    by (rule good_bind [OF good_MergeSyncEvents [OF srt wf that]]) (auto intro: goodI)
  then show ?thesis using assms(3) wf by (auto simp: httpEventsImportHandler_def goodI split: option.split)
qed

end
