(* ===== verification/Nara_Machine.thy ===== *)
theory Nara_Machine
  imports Boot_Safety Backup Checkpoint_Service World_Network
begin

text \<open>
  A nara as a machine: the messages it receives, the goroutines that wake up and the loops that
  tick are the steps, each one atomic, and \<open>nara_reaches\<close> are its runs. What the steps need to know of the
  outside (peers, clock, random draws, answers of other services) is free in every step. \<open>net_step\<close> has the steps on the network,
  \<open>nara_step\<close> those and the ones on the world journeys that a nara has seen.
\<close>

section \<open>Checkpoints\<close>

text \<open>
  What \<open>checkpoint_service.go\<close> reads of the network. Its proposals and votes are the state of \<open>Checkpoint_Rounds\<close>; here are its two
  operations on the ledger, storing a checkpoint that others agreed on and one of our own.
\<close>

definition checkpoint_svc :: "bool \<Rightarrow> bool \<Rightarrow> int \<Rightarrow> nara_net \<Rightarrow> svc_env" where
  "checkpoint_svc booted connected online net = \<lparr>me_Name = meName net, me_ID = nw_ID net, me_Keypair = my_keypair net,
     svc_env.getPublicKeyForNaraID = Neighbourhood.getPublicKeyForNaraID net, bootRecoveryComplete = booted, mqttConnected = connected,
     onlineCount = online\<rparr>"

definition store_final_checkpoint :: "go_env \<Rightarrow> svc_env \<Rightarrow> SyncEvent \<Rightarrow> nara_net \<Rightarrow> nara_net go" where
  "store_final_checkpoint G E e net =
     go_bind (HandleFinalCheckpoint G E e (linked_ledger G net)) (\<lambda>l. Inr (net\<lparr>nw_SyncLedger := l\<rparr>))"

definition store_own_checkpoint :: "go_env \<Rightarrow> svc_env \<Rightarrow> int \<Rightarrow> CheckpointEventPayload \<Rightarrow> nara_net \<Rightarrow> nara_net go" where
  "store_own_checkpoint G E nowNano c net =
     go_bind (storeCheckpoint G E nowNano c (Some (linked_ledger G net))) (\<lambda>(ledger, event).
       go_bind (deref ledger) (\<lambda>l. Inr (net\<lparr>nw_SyncLedger := l\<rparr>)))"

section \<open>Steps\<close>

inductive net_step :: "go_env \<Rightarrow> nara_net \<Rightarrow> nara_net go \<Rightarrow> bool" for G :: go_env where
  on_howdy: "st_Observations (hw_Me h) \<noteq> None \<Longrightarrow> net_step G net (handleHowdyEvent G P T h net)"
| on_hey_there: "net_step G net (handleHeyThereEvent G P T e net)"
| on_newspaper: "net_step G net (handleNewspaperEvent G P T n net)"
| on_chau: "net_step G net (handleChauEvent G P T e net)"
| on_social: "net_step G net (handleSocialEvent G P e net)"
| on_batch: "\<forall>e \<in> set evs. sound_event e \<Longrightarrow>
    net_step G net (go_bind (MergeSyncEventsWithVerification G P T evs net) (\<lambda>(added, warned, net1). Inr net1))"
| say_hello: "net_step G net (heyThere G P T net)"
| say_goodbye: "net_step G net (Network_Chau G T net)"
| publish: "net_step G net (announce G P T marshal net)"
| answer_hello: "i < length (nn_coordinators net) \<Longrightarrow> net_step G net (Inr (maybeRespondWithHowdy G i net))"
| vouch: "net_step G net (emitSeenEvent G T subject via net)"
| tease_later: "net_step G net (TeaseWithDelay G P T waited target reason net)"
| report_missing: "net_step G net (reportMissingWithDelay G P T waited subject net)"
| report_restart: "net_step G net (reportRestartWithDelay G T waited subject start num net)"
| tick_observations: "net_step G net (observationMaintenanceOnce G S M host P T net)"
| tick_social: "net_step G net (socialMaintenance_tick G T net)"
| tick_trend: "net_step G net (Inr (maintenanceStep G T join start pick leave net))"
| tick_coordinates: "net_step G net (coordinateMaintenance_tick G V P T jitter rnd net)"
| on_zine: "(\<And>z. hq_Body r = Some z \<Longrightarrow> sound_zine z) \<Longrightarrow>
    net_step G net (go_bind (meshAuthMiddleware G P T ping encode path (httpGossipZineHandler G P T) r net) (\<lambda>(w, net1). Inr net1))"
| on_dm: "(\<And>e. hq_Body r = Some e \<Longrightarrow> has_payload e) \<Longrightarrow>
    net_step G net (go_bind (meshAuthMiddleware G P T ping encode path (httpDMHandler G P T) r net) (\<lambda>(w, net1). Inr net1))"
| on_import: "(\<And>q. hq_Body r = Some q \<Longrightarrow> \<forall>e \<in> set (im_Events q). sound_event e) \<Longrightarrow>
    net_step G net (go_bind (httpEventsImportHandler G P T r net) (\<lambda>(w, net1). Inr net1))"
| on_ledger_request: "net_step G net (Inr (handleLedgerRequest q net))"
| on_ledger_response: "net_step G net (handleLedgerResponse G a net)"
| tick_gossip: "(\<And>i z z'. send i z = Some z' \<Longrightarrow> sound_zine z') \<Longrightarrow> net_step G net (gossip_tick G P T send D arrival net)"
| tick_discovery: "net_step G net (discoverMeshPeers G P T scan status scanned net)"
| tick_background: "sound_world W \<Longrightarrow> net_step G net (performBackgroundSync G P T W net)"
| boot_recovery: "sound_world W \<Longrightarrow> net_step G net (bootRecovery_found G P T W memory online net)"
| boot_opinions: "net_step G net (runOpinionPass G T fetch answer finalPass net)"
| tick_host: "hr_Load1 readings \<noteq> None \<Longrightarrow>
    net_step G net (go_bind (updateHostStats force readings skippingEvents net) (\<lambda>(skipping, net1). Inr net1))"
| tick_buzz: "net_step G net (Inr (maintenanceBuzz_tick net))"
| project: "net_step G net (Projections_Trigger G net)"
| project_online: "net_step G net (online_RunOnce G net)"
| look_up: "net_step G net (go_bind (resolvePublicKeyForNara G P name net) (\<lambda>(pubKey, net1). Inr net1))"
| serve_reader: "net_step G net (go_bind (meshAuthMiddleware G P T ping (encode :: string \<Rightarrow> string) path
    (\<lambda>q n. Inr (reply q n, n)) (r :: string http_request) net) (\<lambda>(w, net1). Inr net1))"
| say_who: "net_step G net (InitGossipIdentity G T net)"
| say_bye: "net_step G net (emitChauSyncEvent G T net)"
| on_checkpoint: "net_step G net (store_final_checkpoint G (checkpoint_svc booted connected online net) e net)"
| own_checkpoint: "net_step G net (store_own_checkpoint G (checkpoint_svc booted connected online net) nowNano c net)"

section \<open>World journeys\<close>

text \<open>
  The part of a nara that \<open>world_network.go\<close> keeps, beside the network. Its functions act on a \<open>world_state\<close>, whose ledger and buzz
  are the network's.
\<close>

record journeys =
  jn_completed :: "WorldMessage list"
  jn_pending :: "string \<rightharpoonup> PendingJourney"
  jn_posted :: "JourneyCompletion list"

definition no_journeys :: journeys where
  "no_journeys = \<lparr>jn_completed = [], jn_pending = Map.empty, jn_posted = []\<rparr>"

definition world_of :: "go_env \<Rightarrow> nara_net \<Rightarrow> journeys \<Rightarrow> world_state" where
  "world_of G net J = \<lparr>worldJourneys = jn_completed J, pendingJourneys = jn_pending J, ws_ledger = Some (linked_ledger G net),
     ws_buzz = nn_Buzz net, ws_posted = jn_posted J\<rparr>"

definition world_me :: "nara_net \<Rightarrow> world_env" where
  "world_me net = \<lparr>we_name = meName net, we_keypair = my_keypair net, we_personality = st_Personality (me_status net),
     we_readOnly = nn_ReadOnly net\<rparr>"

definition into_net :: "world_state \<Rightarrow> nara_net \<Rightarrow> nara_net \<times> journeys" where
  "into_net st net =
     ((case ws_ledger st of None \<Rightarrow> net | Some l \<Rightarrow> net\<lparr>nw_SyncLedger := l\<rparr>)\<lparr>nn_Buzz := ws_buzz st\<rparr>,
      \<lparr>jn_completed = worldJourneys st, jn_pending = pendingJourneys st, jn_posted = ws_posted st\<rparr>)"

definition in_world :: "go_env \<Rightarrow> (world_state \<Rightarrow> world_state \<times> 'a go) \<Rightarrow> nara_net \<times> journeys \<Rightarrow> (nara_net \<times> journeys) go" where
  "in_world G f x = (case f (world_of G (fst x) (snd x)) of
     (st, Inl p) \<Rightarrow> Inl p
   | (st, Inr a) \<Rightarrow> Inr (into_net st (fst x)))"

text \<open>
  \<open>InitWorldJourney\<close>. The keys that verify a chain are looked up by a step of its own, \<open>look_up\<close>, as the look-up may ask peers; what it
  finds (\<open>keys\<close>), the clout and whether the next nara takes the message are free here.
\<close>

definition journey_handler ::
  "go_env \<Rightarrow> int \<Rightarrow> int \<Rightarrow> (NaraName \<Rightarrow> string option) \<Rightarrow> (NaraName \<rightharpoonup> float64) option \<Rightarrow> (NaraID \<Rightarrow> WorldMessage \<Rightarrow> bool) \<Rightarrow> bool \<Rightarrow> nara_net
   \<Rightarrow> world_state WorldJourneyHandler" where
  "journey_handler G now nowNano keys clout sent gossip net = \<lparr>wj_name = meName net, wj_keypair = my_keypair net, wj_getMyClout = clout,
     wj_getOnlineNaras = getOnlineNaraNames gossip net, wj_getPublicKey = keys, wj_resolveNaraID = getNaraIDByName net,
     wj_relay = (\<lambda>i wm st. (st, sent i wm)),
     wj_onComplete = Some (onWorldJourneyComplete G (world_me net) nowNano),
     wj_onJourneyPass = Some (onWorldJourneyPassThrough G (world_me net) now nowNano)\<rparr>"

inductive nara_step :: "go_env \<Rightarrow> nara_net \<times> journeys \<Rightarrow> (nara_net \<times> journeys) go \<Rightarrow> bool" for G :: go_env where
  on_net: "net_step G net r \<Longrightarrow> nara_step G (net, J) (go_bind r (\<lambda>net1. Inr (net1, J)))"
| relayed: "8 \<le> length (wm_ID wm) \<Longrightarrow>
    nara_step G (net, J) (in_world G (HandleIncoming G now (journey_handler G now nowNano keys clout sent gossip net) wm) (net, J))"
| journey_done: "nara_step G (net, J) (in_world G (handleJourneyCompletion G (world_me net) nowNano c) (net, J))"
| tick_journeys: "nara_step G (net, J) (in_world G (journeyTimeout_tick G (world_me net) now nowNano ids) (net, J))"

inductive nara_reaches :: "go_env \<Rightarrow> nara_net \<Rightarrow> nara_net \<times> journeys \<Rightarrow> bool" for G :: go_env and net0 :: nara_net where
  here: "nara_reaches G net0 (net0, no_journeys)"
| step: "nara_reaches G net0 x \<Longrightarrow> nara_step G x (Inr y) \<Longrightarrow> nara_reaches G net0 y"

section \<open>The steps not yet covered\<close>

lemma good_announce:
  assumes srt: "sort_algorithm (sort_perm G)" and wf: "presence_wf net"
  shows "good_net net (announce G P T marshal net)"
proof -
  have "good_net net (go_bind (recordObservationOnlineNara G P T (meName net) 0 net) (\<lambda>net1. Inr (post (pb net1) net1)))" for pb
    by (rule good_bind_net [OF good_recordObservation [OF srt wf]]) (simp add: goodI)
  then show ?thesis using wf by (simp add: announce_def Let_def goodI)
qed

lemma trend_net:
  assumes "presence_wf net"
  shows "presence_wf (maintenanceStep G T join start pick leave net) \<and>
    net_ext net (maintenanceStep G T join start pick leave net)"
proof -
  have "presence_wf (follow_trend t em net) \<and> net_ext net (follow_trend t em net)" for t em
    unfolding follow_trend_def using good_set_status [OF assms, of "\<lambda>s. s\<lparr>st_Trend := t, st_TrendEmoji := em\<rparr>"] by simp
  then show ?thesis
    using assms by (simp add: maintenanceStep_def considerLeavingTrend_def considerJoiningTrend_def considerStartingTrend_def
        Let_def split: option.split)
qed

lemma good_pingAndUpdate:
  assumes srt: "sort_algorithm (sort_perm G)" and wf: "presence_wf net"
  shows "good_net net (pingAndUpdateCoordinates G V P T rnd target config net)"
proof -
  have ping: "good_net n (go_bind (NewSignedPingSyncEvent G now me target rtt em kp) (\<lambda>e.
      go_bind (with_ledger G (AddEvent G e) n) (\<lambda>(ok, net3). Inr net3)))" if n: "presence_wf n" for n now me rtt em kp
  proof (rule good_built [OF new_signed_ping])
    fix e :: SyncEvent
    assume e: "has_payload e"
    show "good_net n (go_bind (with_ledger G (AddEvent G e) n) (\<lambda>(ok, net3). Inr net3))"
      by (rule good_bind_pair [OF good_with_ledger [OF n good_add_intros(1) [OF srt e]]]) (simp add: goodI)
  qed
  have "good_net net (let net1 = set_status (nw_Me net) (\<lambda>s. s\<lparr>st_Coordinates := co s\<rparr>) net
      in go_bind (setObservation target ob net1) (\<lambda>net2.
         go_bind (NewSignedPingSyncEvent G (ck_nano T) (meName net2) target rtt (meName net2) (my_keypair net2)) (\<lambda>e.
         go_bind (with_ledger G (AddEvent G e) net2) (\<lambda>(ok, net3). Inr net3))))" for co ob rtt
  proof -
    note s = good_set_status [OF wf, of "\<lambda>s. s\<lparr>st_Coordinates := co s\<rparr>" "nw_Me net"]
    show ?thesis
      unfolding Let_def
      by (rule good_start [OF s(2)], simp, rule good_bind_net [OF good_setObservation], rule s(1), simp, rule ping)
  qed
  then show ?thesis using wf by (simp add: pingAndUpdateCoordinates_def Let_def goodI split: option.split)
qed

lemma good_coordinates:
  assumes "sort_algorithm (sort_perm G)" and "presence_wf net"
  shows "good_net net (coordinateMaintenance_tick G V P T jitter rnd net)"
  using good_pingAndUpdate [OF assms] assms(2) by (simp add: coordinateMaintenance_tick_def Let_def goodI)

lemmas good_handlers = good_handleHowdyEvent good_handleHeyThereEvent good_handleNewspaperEvent good_handleChauEvent
  good_handleSocialEvent good_heyThere good_Network_Chau good_announce good_emitSeen good_TeaseWithDelay good_reportMissing
  good_reportRestart good_observationMaintenance good_socialMaintenance good_coordinates good_runOpinionPass
  good_handleLedgerResponse good_gossip_tick good_discoverMeshPeers good_performBackgroundSync good_bootRecovery

text \<open>A request passes the middleware before its handler sees it, with another header.\<close>

lemma good_served:
  assumes "presence_wf net" and "\<And>h n. presence_wf n \<Longrightarrow> good snd n (handler (r\<lparr>hq_Header := h\<rparr>) n)"
  shows "good_net net (go_bind (meshAuthMiddleware G P T ping encode path handler r net) (\<lambda>(w, net1). Inr net1))"
  by (rule good_bind_pair [OF good_middleware [where handler = handler and r = r, OF assms]]) (auto intro: goodI)

lemma good_updateHostStats:
  assumes wf: "presence_wf net" and "hr_Load1 r = Some l"
  shows "good snd net (updateHostStats force r b net)"
proof -
  define n where "n = set_status (nw_Me net) (\<lambda>s. s\<lparr>st_HostStats := measured r (f64_div l (f64_of_int (hr_NumCPU r))) (st_HostStats s),
      st_EventStoreByService := GetEventCountsByService (nw_SyncLedger net), st_EventStoreTotal := EventCount (nw_SyncLedger net),
      st_EventStoreCritical := GetCriticalEventCount (nw_SyncLedger net)\<rparr>) net"
  have n: "presence_wf n" "net_ext net n" unfolding n_def by (rule good_set_status [OF wf], simp)+
  have "presence_wf (set_status k (\<lambda>s. s\<lparr>st_Chattiness := c\<rparr>) n)" "net_ext net (set_status k (\<lambda>s. s\<lparr>st_Chattiness := c\<rparr>) n)" for k c
    using good_set_status [OF n(1), of "\<lambda>s. s\<lparr>st_Chattiness := c\<rparr>" k] net_ext_trans [OF n(2)] by auto
  then show ?thesis using assms(2) by (simp add: updateHostStats_def Let_def n_def [symmetric] goodI)
qed

lemma good_merge_own:
  assumes srt: "sort_algorithm (sort_perm G)" and wf: "presence_wf net" and e: "has_payload e"
  shows "good_net net (go_bind (MergeEvents G [e] (linked_ledger G net)) (\<lambda>(added, l, calls).
    Projections_Trigger G (effect [NotifyListeners calls] (net\<lparr>nw_SyncLedger := l\<rparr>))))"
proof -
  obtain m l calls where m: "MergeEvents G [e] (linked_ledger G net) = Inr (m, l, calls)" "ledger_wf l"
    using good_merge [OF srt wf] e by (metis set_ConsD empty_iff empty_set)
  have "presence_wf (effect [NotifyListeners calls] (net\<lparr>nw_SyncLedger := l\<rparr>))" "net_ext net (effect [NotifyListeners calls] (net\<lparr>nw_SyncLedger := l\<rparr>))"
    using presence_wf_ledger [OF wf m(2)] by simp_all
  then show ?thesis unfolding m(1) go_bind_Inr prod.case by (rule good_start [OF _ good_Trigger, rotated])
qed

lemma good_emitted:
  assumes "sort_algorithm (sort_perm G)" and wf: "presence_wf net"
  shows "good_net net (InitGossipIdentity G T net)" and "good_net net (emitChauSyncEvent G T net)"
proof -
  have "good_net net (emitHeyThereSyncEvent G T net)"
    unfolding emitHeyThereSyncEvent_def by (rule good_built [OF new_hey_there]) (rule good_merge_own [OF assms])
  then show "good_net net (InitGossipIdentity G T net)" using wf by (simp add: InitGossipIdentity_def goodI)
  show "good_net net (emitChauSyncEvent G T net)"
    unfolding emitChauSyncEvent_def by (rule good_built [OF new_chau]) (rule good_merge_own [OF assms])
qed

lemma good_tick_buzz:
  assumes "presence_wf net"
  shows "presence_wf (maintenanceBuzz_tick net)" and "net_ext net (maintenanceBuzz_tick net)"
proof -
  let ?n = "net\<lparr>nn_Buzz := buzz_decrease (3 * 10) (nn_Buzz net)\<rparr>"
  have n: "presence_wf ?n" "net_ext net ?n" using assms by simp_all
  show "presence_wf (maintenanceBuzz_tick net)" "net_ext net (maintenanceBuzz_tick net)"
    using good_set_status [OF n(1), of "\<lambda>s. s\<lparr>st_Buzz := weightedBuzz ?n\<rparr>" "nw_Me ?n"] net_ext_trans [OF n(2)]
    by (simp_all add: maintenanceBuzz_tick_def Let_def)
qed

lemma good_store_final:
  assumes srt: "sort_algorithm (sort_perm G)" and wf: "presence_wf net"
  shows "good_net net (store_final_checkpoint G E e net)"
proof -
  have l: "ledger_wf (linked_ledger G net)" using presence_wfD(3) [OF wf] by simp
  have "\<exists>l'. HandleFinalCheckpoint G E e (linked_ledger G net) = Inr l' \<and> ledger_wf l'"
  proof (cases "if Service e \<noteq> ServiceCheckpoint then None else Checkpoint e")
    case (Some c)
    then have "has_payload e" by (auto simp: has_payload_def Payload_def service_defs split: if_splits)
    then obtain ok l' calls where "AddEvent G e (linked_ledger G net) = Inr (ok, l', calls)" "ledger_wf l'"
      using good_add_intros(1) [OF srt, of e] l unfolding good_add_def by blast
    then show ?thesis using l Some by (simp add: HandleFinalCheckpoint_def)
  qed (use l in \<open>simp add: HandleFinalCheckpoint_def\<close>)
  then show ?thesis using presence_wf_ledger [OF wf] by (auto simp: store_final_checkpoint_def good_def)
qed

lemma checkpoint_event_total: "\<exists>e p. checkpoint_event G nowNano c = Inr e \<and> Checkpoint e = Some p \<and> has_payload e"
proof -
  obtain e where e: "NewCheckpointEvent G nowNano (cp_Subject c) (cp_AsOfTime c) (no_StartTime (cp_Observation c))
      (no_Restarts (cp_Observation c)) (no_TotalUptime (cp_Observation c)) = Inr e" "has_payload e"
    using built [OF new_checkpoint] by blast
  have s: "Service e = ServiceCheckpoint" "\<exists>p. Checkpoint e = Some p"
    using e(1) by (auto simp: NewCheckpointEvent_def ComputeID_Inr)
  then obtain p where p: "Checkpoint e = Some p" by blast
  have "\<exists>e'. checkpoint_event G nowNano c = Inr e' \<and> Service e' = ServiceCheckpoint \<and> Checkpoint e' \<noteq> None"
  proof -
    let ?e = "e\<lparr>Checkpoint := Some (p\<lparr>cp_Version := 2, cp_VoterIDs := cp_VoterIDs c, cp_Signatures := cp_Signatures c,
      cp_SubjectID := cp_SubjectID c, cp_Round := cp_Round c, cp_PreviousCheckpointID := cp_PreviousCheckpointID c\<rparr>)\<rparr>"
    have "has_payload ?e" using s(1) by (simp add: has_payload_def Payload_def service_defs)
    then obtain e' where "ComputeID G ?e = Inr e'" using ComputeID_total by blast
    then show ?thesis using e(1) p s(1) by (auto simp: checkpoint_event_def ComputeID_Inr)
  qed
  then show ?thesis by (auto simp: has_payload_def Payload_def service_defs)
qed

lemma good_store_own:
  assumes srt: "sort_algorithm (sort_perm G)" and wf: "presence_wf net"
  shows "good_net net (store_own_checkpoint G E nowNano c net)"
proof -
  have l: "ledger_wf (linked_ledger G net)" using presence_wfD(3) [OF wf] by simp
  obtain e p where e: "checkpoint_event G nowNano c = Inr e" "Checkpoint e = Some p" "has_payload e"
    using checkpoint_event_total by blast
  obtain ok l' calls where a: "AddEvent G e (linked_ledger G net) = Inr (ok, l', calls)" "ledger_wf l'"
    using good_add_intros(1) [OF srt e(3)] l unfolding good_add_def by blast
  have "\<exists>l' b. storeCheckpoint G E nowNano c (Some (linked_ledger G net)) = Inr (Some l', b) \<and> ledger_wf l'"
    using l a e(1,2) by (auto simp: storeCheckpoint_def)
  then show ?thesis using presence_wf_ledger [OF wf] by (auto simp: store_own_checkpoint_def good_def)
qed

lemma good_step:
  assumes srt: "sort_algorithm (sort_perm G)" and wf: "presence_wf net" and "net_step G net r"
  shows "good_net net r"
  using assms(3)
proof cases
  case (on_batch evs P T)
  show ?thesis unfolding on_batch(1)
    by (rule good_bind [OF good_MergeSyncEvents [OF srt wf on_batch(2)]]) (auto intro: goodI)
next
  case (on_zine q P T ping encode path)
  show ?thesis unfolding on_zine(1) by (rule good_served [OF wf good_zine_handler [OF srt]]) (use on_zine(2) in auto)
next
  case (on_dm q P T ping encode path)
  show ?thesis unfolding on_dm(1) by (rule good_served [OF wf good_dm_handler [OF srt]]) (use on_dm(2) in auto)
next
  case (on_import q P T)
  show ?thesis unfolding on_import(1)
    by (rule good_bind_pair [OF good_import_handler [OF srt wf on_import(2)]]) (auto intro: goodI)
next
  case (tick_host readings force skippingEvents)
  then obtain load where "hr_Load1 readings = Some load" by blast
  then show ?thesis unfolding tick_host(1) using good_updateHostStats [OF wf] by (intro good_bind_pair) (auto intro: goodI)
next
  case (look_up P name)
  show ?thesis unfolding look_up(1) by (rule good_bind_pair [OF good_resolvePublicKey [OF wf]]) (auto intro: goodI)
next
  case (serve_reader P T ping encode path reply r)
  show ?thesis unfolding serve_reader(1) by (rule good_served [OF wf]) (simp add: goodI)
qed (use good_handlers [OF srt wf] good_emitted [OF srt wf] good_tick_buzz [OF wf] good_RunOnce [OF wf] good_Trigger [OF wf]
       good_store_final [OF srt wf] good_store_own [OF srt wf] trend_net [OF wf] handleLedgerRequest_net [OF wf] wf in \<open>auto intro: goodI\<close>)

text \<open>Pending journeys have IDs whose first eight bytes can be logged.\<close>

definition pending_ok :: "(string \<rightharpoonup> PendingJourney) \<Rightarrow> bool" where
  "pending_ok pending \<longleftrightarrow> (\<forall>i p. pending i = Some p \<longrightarrow> 8 \<le> length i \<and> pj_JourneyID p = i)"

definition world_ok :: "world_state \<Rightarrow> bool" where
  "world_ok st \<longleftrightarrow> pending_ok (pendingJourneys st) \<and> (\<exists>l. ws_ledger st = Some l \<and> ledger_wf l)"

definition sound_run :: "world_state \<times> 'a go \<Rightarrow> bool" where
  "sound_run x \<longleftrightarrow> (\<exists>st a. x = (st, Inr a) \<and> world_ok st)"

lemma sound_runE:
  assumes "sound_run x"
  obtains st a where "x = (st, Inr a)" "world_ok st"
  using assms by (auto simp: sound_run_def)

lemma record_journey_ok:
  assumes srt: "sort_algorithm (sort_perm G)" and ok: "world_ok st"
  shows "sound_run (record_journey G E nowNano originator reason i st)"
proof -
  obtain l where l: "ws_ledger st = Some l" "ledger_wf l" using ok by (auto simp: world_ok_def)
  obtain e where e: "NewJourneyObservationSyncEvent G nowNano (we_name E) originator reason i (we_keypair E) = Inr e" "has_payload e"
    using built [OF new_journey] by blast
  obtain b l' calls where "AddSocialEventFiltered G e (we_personality E) l = Inr (b, l', calls)" "ledger_wf l'"
    using good_add_intros(3) [OF srt e(2)] l(2) unfolding good_add_def by blast
  then show ?thesis using ok l(1) e(1) by (simp add: record_journey_def sound_run_def world_ok_def)
qed

lemma onWorldJourneyComplete_ok:
  assumes srt: "sort_algorithm (sort_perm G)" and ok: "world_ok st"
  shows "sound_run (onWorldJourneyComplete G E nowNano wm st)"
proof -
  let ?st = "st\<lparr>worldJourneys := (if length (worldJourneys st @ [wm]) > 100
    then drop (length (worldJourneys st @ [wm]) - 100) (worldJourneys st @ [wm]) else worldJourneys st @ [wm])\<rparr>"
  have "world_ok ?st" using ok by (simp add: world_ok_def)
  then obtain st1 u where "record_journey G E nowNano (wm_Originator wm) ReasonJourneyComplete (wm_ID wm) ?st = (st1, Inr u)" "world_ok st1"
    using record_journey_ok [OF srt] sound_runE by blast
  then show ?thesis by (auto simp: onWorldJourneyComplete_def Let_def sound_run_def world_ok_def pending_ok_def)
qed

lemma onWorldJourneyPassThrough_ok:
  assumes srt: "sort_algorithm (sort_perm G)" and ok: "world_ok st" and "8 \<le> length (wm_ID wm)"
  shows "sound_run (onWorldJourneyPassThrough G E now nowNano wm st)"
proof -
  let ?st = "st\<lparr>pendingJourneys := (pendingJourneys st)(wm_ID wm \<mapsto> \<lparr>pj_JourneyID = wm_ID wm, pj_Originator = wm_Originator wm,
    pj_SeenAt = now, pj_Message = wm_OriginalMessage wm\<rparr>)\<rparr>"
  have "world_ok ?st" using ok assms(3) by (simp add: world_ok_def pending_ok_def)
  then obtain st1 u where "record_journey G E nowNano (wm_Originator wm) ReasonJourneyPass (wm_ID wm) ?st = (st1, Inr u)" "world_ok st1"
    using record_journey_ok [OF srt] sound_runE by blast
  then show ?thesis using assms(3) by (simp add: onWorldJourneyPassThrough_def Let_def short_id_def sound_run_def world_ok_def)
qed

lemma HandleIncoming_ok:
  assumes srt: "sort_algorithm (sort_perm G)" and ok: "world_ok st" and "8 \<le> length (wm_ID wm)"
  shows "sound_run (HandleIncoming G now (journey_handler G now nowNano keys clout sent gossip net) wm st)"
proof (cases "VerifyChain G keys wm")
  case None
  let ?wm = "AddHop G now (meName net) (my_keypair net) (pickStamp wm) wm"
  have i: "8 \<le> length (wm_ID ?wm)" using assms(3) by simp
  have "sound_run (onWorldJourneyComplete G (world_me net) nowNano ?wm st)" by (rule onWorldJourneyComplete_ok [OF srt ok])
  moreover have "sound_run (onWorldJourneyPassThrough G (world_me net) now nowNano ?wm st)"
    by (rule onWorldJourneyPassThrough_ok [OF srt ok i])
  ultimately show ?thesis
    using None by (auto simp: HandleIncoming_def journey_handler_def run_callback_def sendToNara_def Let_def sound_run_def)
qed (use ok in \<open>auto simp: HandleIncoming_def journey_handler_def sound_run_def\<close>)

lemma handleJourneyCompletion_ok:
  assumes srt: "sort_algorithm (sort_perm G)" and ok: "world_ok st"
  shows "sound_run (handleJourneyCompletion G E nowNano c st)"
proof (cases "pendingJourneys st (jc_JourneyID c)")
  case (Some p)
  let ?st = "st\<lparr>pendingJourneys := (pendingJourneys st)(jc_JourneyID c := None)\<rparr>"
  have i: "8 \<le> length (jc_JourneyID c)" using ok Some by (auto simp: world_ok_def pending_ok_def)
  have "world_ok ?st" using ok by (simp add: world_ok_def pending_ok_def)
  then obtain st1 u where "record_journey G E nowNano (pj_Originator p) ReasonJourneyComplete (jc_JourneyID c) ?st = (st1, Inr u)" "world_ok st1"
    using record_journey_ok [OF srt] sound_runE by blast
  then show ?thesis using Some i by (simp add: handleJourneyCompletion_def Let_def short_id_def sound_run_def)
qed (use ok in \<open>simp add: handleJourneyCompletion_def sound_run_def\<close>)

lemma record_timeouts_ok:
  assumes srt: "sort_algorithm (sort_perm G)"
  shows "world_ok st \<Longrightarrow> \<forall>p \<in> set ps. 8 \<le> length (pj_JourneyID p) \<Longrightarrow> sound_run (record_timeouts G E nowNano ps st)"
proof (induction ps arbitrary: st)
  case (Cons p ps)
  obtain st1 u where r: "record_journey G E nowNano (pj_Originator p) ReasonJourneyTimeout (pj_JourneyID p) st = (st1, Inr u)" "world_ok st1"
    using record_journey_ok [OF srt Cons.prems(1)] sound_runE by blast
  then show ?case using Cons.IH [OF r(2)] Cons.prems(2) by (simp add: short_id_def)
qed (simp add: sound_run_def)

lemma journeyTimeout_ok:
  assumes srt: "sort_algorithm (sort_perm G)" and ok: "world_ok st"
  shows "sound_run (journeyTimeout_tick G E now nowNano ids st)"
  unfolding journeyTimeout_tick_def Let_def
  using ok by (intro record_timeouts_ok [OF srt]) (fastforce simp: world_ok_def pending_ok_def in_map_filter split: option.splits if_splits)+

definition nara_ok :: "nara_net \<times> journeys \<Rightarrow> bool" where
  "nara_ok x \<longleftrightarrow> presence_wf (fst x) \<and> pending_ok (jn_pending (snd x))"

lemma in_world_ok:
  assumes x: "nara_ok x" and f: "world_ok (world_of G (fst x) (snd x)) \<Longrightarrow> sound_run (f (world_of G (fst x) (snd x)))"
  shows "\<exists>y. in_world G f x = Inr y \<and> nara_ok y \<and> net_ext (fst x) (fst y)"
proof -
  have "world_ok (world_of G (fst x) (snd x))" using x presence_wfD(3) by (simp add: nara_ok_def world_of_def world_ok_def)
  then obtain st a where s: "f (world_of G (fst x) (snd x)) = (st, Inr a)" "world_ok st" using f sound_runE by blast
  then obtain l where l: "ws_ledger st = Some l" "ledger_wf l" by (auto simp: world_ok_def)
  then have "presence_wf ((fst x)\<lparr>nw_SyncLedger := l\<rparr>)" "net_ext (fst x) ((fst x)\<lparr>nw_SyncLedger := l\<rparr>)"
    using presence_wf_ledger [of "fst x" l] x by (simp_all add: nara_ok_def)
  then show ?thesis using s l(1) by (simp add: in_world_def into_net_def nara_ok_def world_ok_def)
qed

lemma nara_step_ok:
  assumes srt: "sort_algorithm (sort_perm G)" and x: "nara_ok x" and "nara_step G x r"
  shows "\<exists>y. r = Inr y \<and> nara_ok y \<and> net_ext (fst x) (fst y)"
  using assms(3)
proof cases
  case (on_net net r1 J)
  have "good_net net r1" using good_step [OF srt _ on_net(3)] x on_net(1) by (simp add: nara_ok_def)
  then show ?thesis using on_net(1,2) x by (auto simp: good_def nara_ok_def)
next
  case (relayed wm now nowNano keys clout sent gossip net J)
  show ?thesis unfolding relayed(2) using x unfolding relayed(1)
    by (rule in_world_ok) (rule HandleIncoming_ok [OF srt _ relayed(3)])
next
  case (journey_done nowNano c net J)
  show ?thesis unfolding journey_done(2) using x unfolding journey_done(1)
    by (rule in_world_ok) (rule handleJourneyCompletion_ok [OF srt])
next
  case (tick_journeys now nowNano ids net J)
  show ?thesis unfolding tick_journeys(2) using x unfolding tick_journeys(1)
    by (rule in_world_ok) (rule journeyTimeout_ok [OF srt])
qed

lemma nara_reaches_ok:
  assumes "sort_algorithm (sort_perm G)" and "nara_reaches G net0 x" and "presence_wf net0"
  shows "nara_ok x \<and> net_ext net0 (fst x)"
  using assms(2)
proof induction
  case (step x y)
  then show ?case using nara_step_ok [OF assms(1) _ step.hyps(2)] by (auto intro: net_ext_trans)
qed (simp add: assms(3) nara_ok_def no_journeys_def pending_ok_def)

section \<open>The start\<close>

lemma NewNetwork_wf:
  assumes "st_Observations (na_Status me) \<noteq> None" and "length (PublicKey keypair) = PublicKeySize"
  shows "presence_wf (NewNetwork me keypair soulStr profile)"
  using assms
  by (simp add: presence_wf_def net_wf_def nil_free_def NewNetwork_def nara_at_def New_Keyring_def keyring_wf_def
      NewProjection_def AddListener_def ledger_wf_def NewSyncLedger_def)

lemma set_hostname_net:
  assumes wf: "presence_wf net"
  shows "presence_wf (set_nara (nw_Me net) ((nara_at net (nw_Me net))\<lparr>na_Hostname := h\<rparr>) net)"
    and "net_ext net (set_nara (nw_Me net) ((nara_at net (nw_Me net))\<lparr>na_Hostname := h\<rparr>) net)"
proof -
  note w = presence_wfD(1,2) [OF wf]
  have nm: "na_Name ((nara_at net (nw_Me net))\<lparr>na_Hostname := h\<rparr>) = na_Name (nara_at net (nw_Me net))" by simp
  show "presence_wf (set_nara (nw_Me net) ((nara_at net (nw_Me net))\<lparr>na_Hostname := h\<rparr>) net)"
    using net_wf_set_nara [OF w(1) nm] nil_free_set_nara [OF w(2)] net_wfD(2) [OF w(1)]
    by (intro presence_wf_same_more [OF wf]) auto
  show "net_ext net (set_nara (nw_Me net) ((nara_at net (nw_Me net))\<lparr>na_Hostname := h\<rparr>) net)" by (rule net_ext_set_nara [OF nm])
qed

lemma NewLocalNara_good:
  assumes "hr_Load1 readings \<noteq> None" and "\<And>seed. length (ed25519_public S seed) = PublicKeySize"
  shows "good_net (NewNetwork (new_me G S M ident (if mp_MaxEvents profile \<le> 0 then DefaultMemoryProfile else profile) r1 r2)
      (DeriveKeypair S (ir_Soul ident)) (FormatSoul S (ir_Soul ident)) (if mp_MaxEvents profile \<le> 0 then DefaultMemoryProfile else profile))
    (NewLocalNara G S M T ident force profile r1 r2 readings hostname)"
proof -
  let ?p = "if mp_MaxEvents profile \<le> 0 then DefaultMemoryProfile else profile"
  define net0 where "net0 = NewNetwork (new_me G S M ident ?p r1 r2) (DeriveKeypair S (ir_Soul ident)) (FormatSoul S (ir_Soul ident)) ?p"
  define net1 where "net1 = seedPersonality G S net0"
  define net2 where "net2 = set_status (nw_Me net1) (\<lambda>s. s\<lparr>st_Aura := computeAura M (FormatSoul S (ir_Soul ident)) net1\<rparr>) net1"
  have n0: "presence_wf net0" unfolding net0_def by (rule NewNetwork_wf) (simp_all add: new_me_def Let_def DeriveKeypair_def assms(2))
  have n1: "presence_wf net1" "net_ext net0 net1"
    unfolding net1_def seedPersonality_def Let_def by (rule good_set_status [OF n0], simp)+
  have n2: "presence_wf net2" "net_ext net1 net2" unfolding net2_def by (rule good_set_status [OF n1(1)], simp)+
  obtain l where l: "hr_Load1 readings = Some l" using assms(1) by blast
  have tail: "good_net n (setMeObservation (ob n') n')"
    if "presence_wf n" "n' = (case hostname of None \<Rightarrow> n | Some h \<Rightarrow> set_nara (nw_Me n) ((nara_at n (nw_Me n))\<lparr>na_Hostname := h\<rparr>) n)" for n n' ob
    using that set_hostname_net [OF that(1)]
    by (cases hostname) (auto intro: good_start [OF _ good_setMeObservation] good_setMeObservation)
  have "good_net net2 (go_bind (updateHostStats force readings False net2) (\<lambda>(sk, n).
      let n' = (case hostname of None \<Rightarrow> n | Some h \<Rightarrow> set_nara (nw_Me n) ((nara_at n (nw_Me n))\<lparr>na_Hostname := h\<rparr>) n)
      in setMeObservation ((getMeObservation n')\<lparr>no_LastRestart := ck_sec T\<rparr>) n'))"
    by (rule good_bind_pair [OF good_updateHostStats [OF n2(1) l]], unfold prod.case Let_def, rule tail [OF _ refl], assumption)
  then have "good_net net0 (go_bind (updateHostStats force readings False net2) (\<lambda>(sk, n).
      let n' = (case hostname of None \<Rightarrow> n | Some h \<Rightarrow> set_nara (nw_Me n) ((nara_at n (nw_Me n))\<lparr>na_Hostname := h\<rparr>) n)
      in setMeObservation ((getMeObservation n')\<lparr>no_LastRestart := ck_sec T\<rparr>) n'))"
    by (rule good_start [OF net_ext_trans [OF n1(2) n2(2)]])
  then show ?thesis unfolding NewLocalNara_def Let_def net2_def net1_def net0_def .
qed

lemma net_ext_identity:
  assumes "presence_wf net0" and "net_ext net0 net"
  shows "meName net = meName net0" and "nw_ID net = nw_ID net0" and "my_keypair net = my_keypair net0"
  using assms(2) net_wfD(1) [OF presence_wfD(1) [OF assms(1)]]
  by (simp_all add: net_ext_def meName_def my_keypair_def)

end
