(* ===== verification/Presence_Properties.thy ===== *)
theory Presence_Properties
  imports Nara_Machine
begin

text \<open>
  What holds in every run of a nara (\<open>nara_never_panics\<close>), and properties of the handlers that change the
  neighbourhood: what pruning forgets and whom it
  spares, what an unsigned farewell does, how a howdy without observations breaks its receiver.
\<close>

section \<open>Runs\<close>

text \<open>
  C2: A nara keeps running as who it is. The steps are the messages of the plaza and of the mesh, the imports of events, the
  storing of checkpoints, the answers of peers, the journeys that pass through, end and time out, and the loops and delayed
  goroutines of the nara, in any order and with any clock, random draws and peers. As long as howdys carry a map of observations,
  the events in batches, zines, direct messages, imports and answers of peers have a payload and an ID of at least eight bytes,
  relayed journeys have an ID of at least eight bytes and the load average of the host can be read, the next step ends without a
  panic, with a ledger that is well formed, and with the name, the ID and the keys that the nara was created with. The proposals
  and votes of the checkpoint service, the message runtime and the log service keep a state of their own and are not steps here,
  nor are the pages of the UI.
\<close>

theorem nara_never_panics:
  assumes "sort_algorithm (sort_perm G)" and "\<forall>seed. length (ed25519_public S seed) = PublicKeySize"
    and "NewLocalNara G S M T ident force profile r1 r2 readings hostname = Inr net0"
    and "nara_reaches G (LocalNara_Start readOnly mode net0) x" and "nara_step G x r"
  shows "\<exists>net' J'. r = Inr (net', J') \<and> ledger_wf (nw_SyncLedger net') \<and> meName net' = ir_Name ident \<and> nw_ID net' = ir_ID ident \<and>
    my_keypair net' = DeriveKeypair S (ir_Soul ident)"
proof -
  have l: "hr_Load1 readings \<noteq> None" using assms(3) by (cases "hr_Load1 readings") (auto simp: NewLocalNara_def updateHostStats_def Let_def)
  define start where "start = NewNetwork (new_me G S M ident (if mp_MaxEvents profile \<le> 0 then DefaultMemoryProfile else profile) r1 r2)
      (DeriveKeypair S (ir_Soul ident)) (FormatSoul S (ir_Soul ident)) (if mp_MaxEvents profile \<le> 0 then DefaultMemoryProfile else profile)"
  have s: "presence_wf start" unfolding start_def by (rule NewNetwork_wf) (simp_all add: new_me_def Let_def DeriveKeypair_def assms(2))
  have me: "meName start = ir_Name ident" "nw_ID start = ir_ID ident" "my_keypair start = DeriveKeypair S (ir_Soul ident)"
    by (simp_all add: start_def NewNetwork_def meName_def my_keypair_def nara_at_def new_me_def NewNara_def New_Keyring_def Let_def)
  have n0: "presence_wf net0" "net_ext start net0"
    using NewLocalNara_good [OF l assms(2) [rule_format], of G M ident profile r1 r2 T force hostname] assms(3)
    unfolding start_def good_def by auto
  let ?n = "net0\<lparr>nn_ReadOnly := readOnly, nn_TransportMode := mode\<rparr>"
  have u: "presence_wf ?n" "net_ext net0 ?n" using n0(1) by (simp_all add: presence_wf_def net_wf_def nil_free_def nara_at_def net_ext_def)
  have n1: "presence_wf (LocalNara_Start readOnly mode net0)" "net_ext ?n (LocalNara_Start readOnly mode net0)"
    using good_set_status [OF u(1), of "\<lambda>s. s\<lparr>st_TransportMode := TransportMode_String mode\<rparr>"] by (simp_all add: LocalNara_Start_def)
  have n: "nara_ok x" "net_ext (LocalNara_Start readOnly mode net0) (fst x)"
    using nara_reaches_ok [OF assms(1,4) n1(1)] by blast+
  obtain net' J' where n': "r = Inr (net', J')" "nara_ok (net', J')" "net_ext (fst x) net'"
    using nara_step_ok [OF assms(1) n(1) assms(5)] by auto
  have "net_ext start net'" using n0(2) u(2) n1(2) n(2) n'(3) net_ext_trans by metis
  then show ?thesis using n'(1,2) net_ext_identity [OF s] me by (simp add: nara_ok_def presence_wf_def)
qed

section \<open>What stays as it is\<close>

definition naras :: "'a network_scheme \<Rightarrow> Nara list \<times> nat \<times> (NaraName \<times> nat) list \<times> (NaraID \<rightharpoonup> nat) \<times> Keyring" where
  "naras net = (nw_store net, nw_Me net, nw_Neighbourhood net, nw_NeighbourhoodByID net, nw_keyring net)"

lemma naras_eqD:
  assumes "naras net' = naras net"
  shows "getNara net' name = getNara net name" and "getObservation net' name = getObservation net name"
    and "nw_NeighbourhoodByID net' = nw_NeighbourhoodByID net" and "nw_keyring net' = nw_keyring net"
    and "nara_at net' r = nara_at net r" and "nw_Me net' = nw_Me net" and "nw_Neighbourhood net' = nw_Neighbourhood net"
  using assms by (simp_all add: naras_def getNara_def getObservation_def nara_at_def)

lemma naras_small [simp]:
  "naras (net\<lparr>nw_SyncLedger := l\<rparr>) = naras net" "naras (effect es net) = naras net"
  "naras (broadcastSSE e net) = naras net" "naras (more_buzz n net) = naras net"
  "naras (pruneVerifyPingCache names net) = naras net" "naras (forget_coordinator name net) = naras net"
  "naras (forget_events name net) = naras net"
  by (simp_all add: naras_def effect_def broadcastSSE_def more_buzz_def pruneVerifyPingCache_def forget_coordinator_def
      forget_events_def)

lemma naras_with_ledger: "with_ledger G add net = Inr (ok, net') \<Longrightarrow> naras net' = naras net"
  by (auto simp: with_ledger_def go_bind_eq_Inr)

lemma naras_Trigger: "Projections_Trigger G net = Inr net' \<Longrightarrow> naras net' = naras net"
  by (auto simp: Projections_Trigger_def clout_RunOnce_def opinion_RunOnce_def go_bind_eq_Inr naras_def effect_def)

section \<open>Pruning\<close>

lemma naras_fold:
  assumes "\<And>x n. naras (f x n) = naras n"
  shows "naras (fold f xs net) = naras net"
  by (induction xs arbitrary: net) (simp_all add: assms)

lemma AList_delete_fold: "map_of (fold AList.delete names al) key = (if key \<in> set names then None else map_of al key)"
  by (induction names arbitrary: al) (auto simp: delete_conv')

lemma forget_neighbours_naras:
  "naras (fold (\<lambda>name n. forget_coordinator name (forget_neighbour name n)) names net) =
   naras (net\<lparr>nw_Neighbourhood := fold AList.delete names (nw_Neighbourhood net)\<rparr>)"
proof (induction names arbitrary: net)
  case (Cons name names)
  then show ?case by (simp add: naras_def forget_coordinator_def forget_neighbour_def)
qed simp

lemma forget_observations:
  assumes "net_wf net"
  shows "getObservation (fold forget_observation names net) key =
      (if key \<in> set names then zero_observation else getObservation net key)"
    and "nw_Neighbourhood (fold forget_observation names net) = nw_Neighbourhood net"
    and "nw_NeighbourhoodByID (fold forget_observation names net) = nw_NeighbourhoodByID net"
    and "nw_keyring (fold forget_observation names net) = nw_keyring net"
proof -
  have "net_wf n \<Longrightarrow> net_wf (forget_observation name n) \<and> nw_Neighbourhood (forget_observation name n) = nw_Neighbourhood n \<and>
      nw_NeighbourhoodByID (forget_observation name n) = nw_NeighbourhoodByID n \<and>
      nw_keyring (forget_observation name n) = nw_keyring n \<and>
      getObservation (forget_observation name n) k = (if k = name then zero_observation else getObservation n k)" for name n k
  proof -
    assume w: "net_wf n"
    obtain obs where o: "st_Observations (na_Status (nara_at n (nw_Me n))) = Some obs" using net_wfD(2) [OF w] by blast
    have nm: "na_Name ((nara_at n r)\<lparr>na_Status := x\<rparr>) = na_Name (nara_at n r)" for r x by simp
    have "net_wf (forget_observation name n)"
      unfolding forget_observation_def set_status_def by (rule net_wf_set_nara [OF w nm]) (simp add: o)
    then show ?thesis using net_wfD(1) [OF w] o
      by (simp add: forget_observation_def set_status_def getObservation_def nara_at_set_nara Nara_getObservation_def delete_conv')
  qed
  note one = this
  have "net_wf n \<Longrightarrow> getObservation (fold forget_observation names n) key =
      (if key \<in> set names then zero_observation else getObservation n key) \<and>
      nw_Neighbourhood (fold forget_observation names n) = nw_Neighbourhood n \<and>
      nw_NeighbourhoodByID (fold forget_observation names n) = nw_NeighbourhoodByID n \<and>
      nw_keyring (fold forget_observation names n) = nw_keyring n" for n
    by (induction names arbitrary: n) (simp_all add: one)
  then show "getObservation (fold forget_observation names net) key =
      (if key \<in> set names then zero_observation else getObservation net key)"
    "nw_Neighbourhood (fold forget_observation names net) = nw_Neighbourhood net"
    "nw_NeighbourhoodByID (fold forget_observation names net) = nw_NeighbourhoodByID net"
    "nw_keyring (fold forget_observation names net) = nw_keyring net" using assms by blast+
qed

lemma prune_result:
  assumes wf: "presence_wf net" and p: "pruneInactiveNaras G T net = Inr net'"
  shows "getNara net' name = (if name \<in> set (pruned_names T net) then None else getNara net name) \<and>
    getObservation net' name = (if name \<in> set (pruned_names T net) then zero_observation else getObservation net name) \<and>
    nw_NeighbourhoodByID net' = nw_NeighbourhoodByID net \<and> nw_keyring net' = nw_keyring net"
proof (cases "pruned_names T net = []")
  case True
  then show ?thesis using p by (simp add: pruneInactiveNaras_def)
next
  case False
  define names where "names = pruned_names T net"
  define net1 where "net1 = fold (\<lambda>name n. forget_coordinator name (forget_neighbour name n)) names net"
  define net2 where "net2 = pruneVerifyPingCache names (fold forget_events names net1)"
  obtain net3 where t: "Projections_Trigger G net2 = Inr net3" "net' = fold forget_observation names net3"
    using p False by (auto simp: pruneInactiveNaras_def Let_def go_bind_eq_Inr names_def net1_def net2_def)
  have "naras net2 = naras net1" unfolding net2_def using naras_fold [where f = forget_events and xs = names and net = net1] by simp
  then have n3: "naras net3 = naras (net\<lparr>nw_Neighbourhood := fold AList.delete names (nw_Neighbourhood net)\<rparr>)"
    using naras_Trigger [OF t(1)] forget_neighbours_naras [of names net] by (simp add: net1_def)
  have w2: "presence_wf net2" unfolding net2_def net1_def using good_fold_forget [OF wf] good_fold_forget by simp
  have w3: "net_wf net3" using good_Trigger [OF w2, of G] t(1) by (auto simp: good_def presence_wf_def)
  show ?thesis
    using forget_observations [OF w3, of names] naras_eqD [OF n3] t(2)
    by (simp add: names_def [symmetric] getNara_def getObservation_def nara_at_def AList_delete_fold)
qed

text \<open>
  What pruning forgets. After \<open>pruneInactiveNaras\<close> exactly the naras that it chose are gone from the
  neighbourhood and from our observations, and the others are where they were. The index by ID and the keys are untouched,
  so a pruned nara is still found by its ID and its signatures still verify.
\<close>

theorem pruning_forgets:
  assumes "presence_wf net" and "pruneInactiveNaras G T net = Inr net'"
  shows "getNara net' name = (if name \<in> set (pruned_names T net) then None else getNara net name) \<and>
    getObservation net' name = (if name \<in> set (pruned_names T net) then zero_observation else getObservation net name) \<and>
    nw_NeighbourhoodByID net' = nw_NeighbourhoodByID net \<and> nw_keyring net' = nw_keyring net"
  using assms by (rule prune_result)

lemma pruned_names_iff:
  assumes "net_wf net"
  shows "name \<in> set (pruned_names T net) \<longleftrightarrow> (\<exists>r. getNara net name = Some r \<and> name \<noteq> meName net \<and>
     should_prune (ck_sec T) (getObservation net name) (na_Status (nara_at net r)))"
  using net_wfD(3) [OF assms] by (force simp: pruned_names_def getNara_def dest: map_of_SomeD)

lemma veteran_spared:
  assumes "no_LastSeen ob > 0" and "no_StartTime ob > 0" and "now \<ge> no_StartTime ob + 30 * 86400" and "in_i64 now"
  shows "\<not> should_prune now ob status"
proof -
  have "in_i64 (now - no_StartTime ob)" using assms by (simp add: in_i64_def)
  then show ?thesis using assms by (simp add: should_prune_def newcomerAge_def establishedAge_def Let_def)
qed

text \<open>
  C35: Whom pruning spares. A nara that is online, and a nara that was ever seen and started at least thirty days ago,
  stays in the neighbourhood with its observation, however long it has been away.
\<close>

theorem pruning_spares:
  assumes "presence_wf net" and "pruneInactiveNaras G T net = Inr net'"
    and "ob = getObservation net name" and "in_i64 (ck_sec T)"
    and "no_Online ob = ''ONLINE'' \<or> (0 < no_LastSeen ob \<and> 0 < no_StartTime ob \<and> no_StartTime ob + 30 * 86400 \<le> ck_sec T)"
  shows "getNara net' name = getNara net name \<and> getObservation net' name = ob"
proof -
  have "\<not> should_prune (ck_sec T) ob status" for status
    using assms(5)
  proof
    assume "no_Online ob = ''ONLINE''"
    then show ?thesis by (simp add: should_prune_def)
  next
    assume "0 < no_LastSeen ob \<and> 0 < no_StartTime ob \<and> no_StartTime ob + 30 * 86400 \<le> ck_sec T"
    then show ?thesis using veteran_spared [of ob "ck_sec T" status] assms(4) by simp
  qed
  then have "name \<notin> set (pruned_names T net)"
    using pruned_names_iff [OF presence_wfD(1) [OF assms(1)]] assms(3) by blast
  then show ?thesis using prune_result [OF assms(1,2), of name] assms(3) by simp
qed

section \<open>Farewells\<close>

lemma getObservation_setObservation:
  assumes "net_wf net"
  shows "\<exists>net'. setObservation name ob net = Inr net' \<and> getObservation net' name = ob"
proof -
  obtain obs where o: "st_Observations (na_Status (nara_at net (nw_Me net))) = Some obs" using net_wfD(2) [OF assms] by blast
  then show ?thesis using net_wfD(1) [OF assms]
    by (simp add: setObservation_def setObservationLocked_def getObservation_def nara_at_set_nara Nara_getObservation_def update_conv')
qed

lemma mark_offline_result:
  assumes wf: "net_wf net" and "mark_offline G T name net = Inr net'"
  shows "no_Online (getObservation net' name) = ''OFFLINE''"
proof -
  define ob where "ob = (getObservation net name)\<lparr>no_Online := ''OFFLINE'', no_LastSeen := ck_sec T\<rparr>"
  obtain net1 where n1: "setObservation name ob net = Inr net1" "getObservation net1 name = ob"
    using getObservation_setObservation [OF wf] by blast
  have "naras net' = naras net1"
    using assms(2) n1(1)
    by (auto simp: mark_offline_def Let_def ob_def [symmetric] go_bind_eq_Inr split: if_splits dest: naras_with_ledger)
  then show ?thesis using naras_eqD(2) [of net' net1 name] n1(2) by (simp add: ob_def)
qed

text \<open>
  Anyone can say goodbye for another. An unsigned \<open>chau\<close> is accepted as it is: whoever is named in it, ourselves
  apart, is marked offline, whatever is known of its key.
\<close>

theorem unsigned_chau_believed:
  assumes "sort_algorithm (sort_perm G)" and "presence_wf net"
    and "Service e = ServiceChau" and "Chau e = Some c" and "\<not> IsSigned e"
    and "ch_From c \<noteq> meName net" and "ch_From c \<noteq> []"
  shows "\<exists>net'. handleChauEvent G P T e net = Inr net' \<and> no_Online (getObservation net' (ch_From c)) = ''OFFLINE''"
proof -
  obtain net' where h: "handleChauEvent G P T e net = Inr net'" using good_handleChauEvent [OF assms(1,2), of P T e] by (auto simp: good_def)
  note i = chau_identity_net [OF assms(2), of G c]
  have p: "has_payload e" using assms(3,4) by (auto simp: has_payload_def Payload_def service_defs)
  obtain ok net2 net3 where s: "with_ledger G (AddEvent G e) (chau_identity G c net) = Inr (ok, net2)"
    "Projections_Trigger G net2 = Inr net3" "mark_offline G T (ch_From c) (broadcastSSE e net3) = Inr net'"
    using h assms(3-7) by (auto simp: handleChauEvent_def chau_accepted_def go_bind_eq_Inr)
  have "presence_wf net2" using good_with_ledger [OF conjunct1 [OF i] good_add_intros(1) [OF assms(1) p], of G] s(1) by (auto simp: good_def)
  then have "presence_wf (broadcastSSE e net3)" using good_Trigger [of net2 G] s(2) by (auto simp: good_def)
  then show ?thesis using h mark_offline_result [OF presence_wfD(1) s(3)] by blast
qed

section \<open>Howdys without observations\<close>

text \<open>
  A howdy whose status has no observations (a missing or null field in the message) leaves its sender in
  the neighbourhood with a nil map; the next howdy of that sender that does carry some panics its receiver.
\<close>

theorem howdy_plants_nil_map:
  assumes "presence_wf net" and "getNara net (hw_From h) = None" and "st_Observations (hw_Me h) = None"
    and "howdy_Verify G h'" and "hw_From h' = hw_From h" and "st_Observations (hw_Me h') = Some (ob # obs)"
    and "hw_From h \<noteq> []"
  shows "\<exists>net1. import_new G (howdy_sender h) net = Inr net1 \<and> handleHowdyEvent G P T h' net1 = Inl NilMapAssignment"
proof -
  note w = presence_wfD(1) [OF assms(1)]
  have name: "na_Name (howdy_sender h) = hw_From h" "na_Name (howdy_sender h') = hw_From h"
    using assms(5) by (simp_all add: howdy_sender_def NewNara_def)
  have "\<not> nil_map_clash net (howdy_sender h)" using assms(2) name by (simp add: nil_map_clash_def)
  then obtain net1 where n1: "import_new G (howdy_sender h) net = Inr net1" "net_wf net1"
    "nara_at net1 (length (nw_store net)) = howdy_sender h"
    "nw_Neighbourhood net1 = nw_Neighbourhood net @ [(hw_From h, length (nw_store net))]"
    using import_new_ok [OF w, of "howdy_sender h" G] assms(2) name by auto
  let ?n = "onHowdySeen h' net1"
  have same: "naras ?n = naras net1" by (simp add: naras_def onHowdySeen_def split: option.split)
  have "getNara net1 (hw_From h) = Some (length (nw_store net))"
    using n1(4) assms(2) by (simp add: getNara_def map_add_def)
  then have "getNara ?n (hw_From h) = Some (length (nw_store net))" "nara_at ?n (length (nw_store net)) = howdy_sender h"
    using naras_eqD [OF same] n1(3) by simp_all
  then have clash: "nil_map_clash ?n (howdy_sender h')"
    using name assms(3,6,7) by (simp add: nil_map_clash_def howdy_sender_def)
  have "net_wf ?n" using n1(2) by (simp add: net_wf_def onHowdySeen_def nara_at_def split: option.split)
  then have "import_new G (howdy_sender h') ?n = Inl NilMapAssignment" using import_new_panics clash by blast
  then show ?thesis using n1(1) assms(4) by (auto simp: handleHowdyEvent_def Let_def)
qed

section \<open>Examples\<close>

definition demo_clock :: clock where
  "demo_clock = \<lparr>ck_nano = 3000000 * 1000000000, ck_year = 1970, ck_month = 2\<rparr>"

definition demo_me :: Nara where
  \<comment> \<open>bart was here thirty-four days ago; of the ghost it is only said that it started\<close>
  "demo_me = (NewNara ''lisa'')\<lparr>na_Status := (na_Status (NewNara ''lisa''))\<lparr>st_Observations := Some
     [(''bart'', zero_observation\<lparr>no_Online := ''MISSING'', no_StartTime := 1, no_LastSeen := 2\<rparr>),
      (''ghost'', zero_observation\<lparr>no_StartTime := 1\<rparr>)]\<rparr>\<rparr>"

definition demo_net :: nara_net where
  "demo_net = (NewNetwork demo_me (demo_keypair CHR ''l'') ''soul'' DefaultMemoryProfile)
     \<lparr>nw_store := [demo_me, NewNara ''bart'', NewNara ''ghost''],
      nw_Neighbourhood := [(''bart'', 1), (''ghost'', 2)]\<rparr>"

lemma demo_net_wf: "presence_wf demo_net"
  by (simp add: presence_wf_def net_wf_def nil_free_def demo_net_def NewNetwork_def nara_at_def New_Keyring_def keyring_wf_def
      NewProjection_def AddListener_def ledger_wf_def NewSyncLedger_def demo_me_def NewNara_def demo_keypair_def PublicKeySize_def)

lemma demo_time: "ck_sec demo_clock = 3000000"
  by (simp add: ck_sec_def demo_clock_def)

lemma demo_observations:
  "getObservation demo_net ''bart'' = zero_observation\<lparr>no_Online := ''MISSING'', no_StartTime := 1, no_LastSeen := 2\<rparr>"
  "getObservation demo_net ''ghost'' = zero_observation\<lparr>no_StartTime := 1\<rparr>"
  "getNara demo_net ''bart'' = Some 1" "getNara demo_net ''ghost'' = Some 2" "getNara demo_net ''krusty'' = None"
  "meName demo_net = ''lisa''"
  by (simp_all add: getObservation_def demo_net_def NewNetwork_def nara_at_def demo_me_def Nara_getObservation_def getNara_def
      meName_def NewNara_def)

lemma ghost_pruned: "''ghost'' \<in> set (pruned_names demo_clock demo_net)"
  by (simp add: pruned_names_iff [OF presence_wfD(1) [OF demo_net_wf]] demo_observations demo_time should_prune_def
      zero_observation_def in_i64_def)

theorem pruning_forgets_witness:
  "\<exists>net'. pruneInactiveNaras demo_env demo_clock demo_net = Inr net' \<and> getNara net' ''ghost'' = None \<and>
     getObservation net' ''ghost'' = zero_observation"
proof -
  obtain net' where p: "pruneInactiveNaras demo_env demo_clock demo_net = Inr net'"
    using good_pruneInactive [OF demo_net_wf] by (auto simp: good_def)
  show ?thesis using pruning_forgets [OF demo_net_wf p, of "''ghost''"] ghost_pruned p by simp
qed

theorem pruning_spares_witness:
  "\<exists>net'. pruneInactiveNaras demo_env demo_clock demo_net = Inr net' \<and> getNara net' ''bart'' = Some 1"
proof -
  obtain net' where p: "pruneInactiveNaras demo_env demo_clock demo_net = Inr net'"
    using good_pruneInactive [OF demo_net_wf] by (auto simp: good_def)
  show ?thesis
    using pruning_spares [OF demo_net_wf p, of "getObservation demo_net ''bart''" "''bart''"] p
    by (simp add: demo_observations demo_time in_i64_def)
qed

definition demo_quiet_peers :: peers where
  "demo_quiet_peers = \<lparr>pr_SendDM = (\<lambda>target e. False), pr_PingIP = (\<lambda>ip. None), pr_Query = (\<lambda>url target asked. None)\<rparr>"

definition demo_goodbye :: SyncEvent where
  "demo_goodbye = zero_event\<lparr>Service := ServiceChau, Chau := Some \<lparr>ch_From = ''bart'', ch_PublicKey = [], ch_ID = [], ch_Signature = []\<rparr>\<rparr>"

theorem unsigned_chau_believed_witness:
  "\<exists>net'. handleChauEvent demo_env demo_quiet_peers demo_clock demo_goodbye demo_net = Inr net' \<and>
     no_Online (getObservation net' ''bart'') = ''OFFLINE''"
  using unsigned_chau_believed [OF sort_algorithm_demo demo_net_wf, of demo_goodbye "\<lparr>ch_From = ''bart'', ch_PublicKey = [], ch_ID = [], ch_Signature = []\<rparr>"
      demo_quiet_peers demo_clock]
  by (simp add: demo_goodbye_def demo_observations IsSigned_def zero_event_def)

definition demo_howdy :: "(NaraName \<times> NaraObservation) list option \<Rightarrow> HowdyEvent" where
  "demo_howdy obs = howdy_Sign demo_env (demo_keypair CHR ''k'')
     \<lparr>hw_From = ''krusty'', hw_To = ''bart'', hw_Seq = 1, hw_You = zero_observation, hw_Neighbors = [],
      hw_Me = zero_status\<lparr>st_Observations := obs, st_PublicKey := FormatPublicKey demo_env (PublicKey (demo_keypair CHR ''k''))\<rparr>,
      hw_Signature = []\<rparr>"

lemma howdy_Sign_Verify:
  assumes "crypto_ok G" and "valid_keypair G kp" and "st_PublicKey (hw_Me h) = FormatPublicKey G (PublicKey kp)"
  shows "howdy_Verify G (howdy_Sign G kp h)"
proof -
  have "PublicKey kp \<noteq> []" using assms(2) by (auto simp: valid_keypair_def PublicKeySize_def)
  then have "FormatPublicKey G (PublicKey kp) \<noteq> []" using assms(1) by (simp add: FormatPublicKey_def crypto_ok_def)
  then show ?thesis
    using assms by (simp add: howdy_Verify_def howdy_Sign_def howdy_message_def valid_keypair_def)
qed

lemma demo_howdy_verifies: "howdy_Verify demo_env (demo_howdy obs)"
  unfolding demo_howdy_def by (rule howdy_Sign_Verify [OF crypto_ok_demo valid_keypair_demo]) simp

theorem howdy_plants_nil_map_witness:
  "\<exists>net1. import_new demo_env (howdy_sender (demo_howdy None)) demo_net = Inr net1 \<and>
     handleHowdyEvent demo_env demo_quiet_peers demo_clock (demo_howdy (Some [(''bart'', zero_observation)])) net1 = Inl NilMapAssignment"
  using howdy_plants_nil_map [OF demo_net_wf, of "demo_howdy None" demo_env "demo_howdy (Some [(''bart'', zero_observation)])"
      "(''bart'', zero_observation)" "[]" demo_quiet_peers demo_clock] demo_howdy_verifies
  by (simp add: demo_howdy_def howdy_Sign_def demo_observations)

definition demo_colours :: colour_env where
  "demo_colours = \<lparr>math_Cos = (\<lambda>x. x), math_Sin = (\<lambda>x. x), math_Exp = (\<lambda>x. x), math_Pow = (\<lambda>x y. x), math_Log1p = (\<lambda>x. x)\<rparr>"

definition demo_readings :: host_readings where
  "demo_readings = \<lparr>hr_Uptime = 1, hr_Load1 = Some 0, hr_NumCPU = 4, hr_Alloc = 0, hr_Sys = 0, hr_HeapSys = 0,
     hr_StackSys = 0, hr_NumGoroutine = 1, hr_NumGC = 0, hr_CPU = None\<rparr>"

definition demo_souls32 :: soul_env where
  "demo_souls32 = demo_souls\<lparr>ed25519_public := fit 32\<rparr>"

definition demo_ident :: IdentityResult where
  "demo_ident = identity_of demo_hash_env demo_souls32 zero_soul ''lisa'' True"

theorem nara_never_panics_witness:
  "\<exists>net0 net'. NewLocalNara demo_env demo_souls32 demo_colours demo_clock demo_ident (- 1) DefaultMemoryProfile 0 0
       demo_readings (Some ''laptop'') = Inr net0 \<and>
     handleChauEvent demo_env demo_quiet_peers demo_clock demo_goodbye (LocalNara_Start False TransportHybrid net0) = Inr net' \<and>
     ledger_wf (nw_SyncLedger net') \<and> meName net' = ''lisa''"
proof -
  have l: "hr_Load1 demo_readings \<noteq> None" by (simp add: demo_readings_def)
  have pk: "\<forall>seed. length (ed25519_public demo_souls32 seed) = PublicKeySize" by (simp add: demo_souls32_def PublicKeySize_def)
  obtain net0 where n: "NewLocalNara demo_env demo_souls32 demo_colours demo_clock demo_ident (- 1) DefaultMemoryProfile 0 0
       demo_readings (Some ''laptop'') = Inr net0"
    using NewLocalNara_good [OF l pk [rule_format], where G = demo_env and M = demo_colours and ident = demo_ident
      and profile = DefaultMemoryProfile and ?r1.0 = 0 and ?r2.0 = 0 and T = demo_clock and force = "- 1" and hostname = "Some ''laptop''"]
    by (auto simp: good_def)
  have "ir_Name demo_ident = ''lisa''" by (simp add: demo_ident_def identity_of_def)
  then show ?thesis
    using nara_never_panics [OF sort_algorithm_demo pk n nara_reaches.here on_net [OF on_chau]] n
    by (fastforce simp: go_bind_eq_Inr)
qed

end
