(* ===== verification/Mesh_Properties.thy ===== *)
theory Mesh_Properties
  imports Presence_Properties Query_Properties Checkpoint_Properties
begin

text \<open>
  What holds between naras that talk over the mesh: whose requests and messages get in, how a newcomer is
  recognised, that a client retrieves the checkpoints of a peer, and what a zine does not protect.
\<close>

section \<open>Routes\<close>

text \<open>
  The routes of the mesh server, \<open>createHTTPMux\<close> without the UI: some handlers are behind the middleware, others are open or check
  a signature of their own. \<open>handlers\<close> has what is registered for a path; for another path the answer is 404, here \<open>None\<close>.
\<close>

definition authenticated_paths :: "string list" where
  "authenticated_paths = [''/events/sync'', ''/gossip/zine'', ''/dm'', ''/world/relay'', ''/mesh/message'']"

definition open_paths :: "string list" where
  "open_paths = [''/ping'', ''/coordinates'', ''/peer/query'', ''/api/checkpoints/all'', ''/api/events/import'']"

definition createHTTPMux ::
  "go_env \<Rightarrow> peers \<Rightarrow> clock \<Rightarrow> (string \<Rightarrow> ping_answer option) \<Rightarrow> ('c \<Rightarrow> string) \<Rightarrow> (string \<Rightarrow> ('b, 'c) http_handler)
   \<Rightarrow> 'b http_request \<Rightarrow> nara_net \<Rightarrow> ('c answer option \<times> nara_net) go" where
  "createHTTPMux G P T ping encode handlers r net =
     (let path = hq_Path r
      in if path \<in> set authenticated_paths
         then go_bind (meshAuthMiddleware G P T ping encode path (handlers path) r net) (\<lambda>(w, net1). Inr (Some w, net1))
         else if path \<in> set open_paths
         then go_bind (handlers path r net) (\<lambda>(w, net1). Inr (Some (Answered w), net1))
         else Inr (None, net))"

section \<open>Requests\<close>

lemma known_key_resolved:
  "getPublicKeyForNara G net name = Some k \<Longrightarrow> resolvePublicKeyForNara G P name net = Inr (Some k, net)"
  by (simp add: resolvePublicKeyForNara_def)

lemma authenticate_known:
  assumes "request_authentic G T r k" and "getPublicKeyForNara G net (header_Get (hq_Header r) HeaderNaraName) = Some k"
    and "header_Get (hq_Header r) HeaderNaraSignature \<noteq> []"
  shows "authenticate G P T ping r net = Inr (Inr (header_Get (hq_Header r) HeaderNaraName), net)"
  using VerifyMeshRequest_authentic [where lookup = "resolvePublicKeyForNara G P", OF known_key_resolved [OF assms(2)] assms(1,3)]
  by (simp add: authenticate_def)

lemma middleware_authentic:
  assumes "presence_wf net" and "path \<noteq> ''/ping''"
    and "meshAuthMiddleware G P T ping encode path handler r net = Inr (Answered w, net2)"
  shows "\<exists>net1 k. getPublicKeyForNara G net1 (header_Get (hq_Header r) HeaderNaraName) = Some k \<and>
    request_authentic G T r k \<and> presence_wf net1 \<and> net_ext net net1"
proof -
  obtain res net1 where a: "authenticate G P T ping r net = Inr (res, net1)" "presence_wf net1" "net_ext net net1"
    using good_authenticate [OF assms(1), of G P T ping r] by (auto simp: good_def)
  have "\<exists>sender. res = Inr sender"
    using assms(2,3) a(1) by (cases res) (auto simp: meshAuthMiddleware_def)
  then show ?thesis using a authenticate_accepts by metis
qed

text \<open>
  C4: Nobody gets past the middleware unsigned. On the mesh server, a handler other than those of \<open>/ping\<close>, \<open>/coordinates\<close>,
  \<open>/peer/query\<close>, \<open>/api/checkpoints/all\<close> and \<open>/api/events/import\<close>, which are registered without the middleware, answers only a request
  that carries, less than thirty seconds old by our clock, a signature of its method and path under the key that we hold for the
  name in its header; the keys we held before are then still ours.
\<close>

theorem mesh_request_authentic:
  assumes "presence_wf net" and "hq_Path r \<notin> set open_paths"
    and "createHTTPMux G P T ping encode handlers r net = Inr (Some (Answered w), net2)"
  shows "\<exists>net1 k. getPublicKeyForNara G net1 (header_Get (hq_Header r) HeaderNaraName) = Some k \<and>
    request_authentic G T r k \<and> presence_wf net1 \<and> net_ext net net1"
proof -
  have "hq_Path r \<noteq> ''/ping''" using assms(2) by (auto simp: open_paths_def)
  moreover have "meshAuthMiddleware G P T ping encode (hq_Path r) (handlers (hq_Path r)) r net = Inr (Answered w, net2)"
    using assms(2,3) by (auto simp: createHTTPMux_def Let_def go_bind_eq_Inr split: if_splits)
  ultimately show ?thesis by (rule middleware_authentic [OF assms(1)])
qed

section \<open>Newcomers\<close>

lemma VerifyMeshRequest_unknown:
  assumes "lookup name net = Inr (None, net')" and "name \<noteq> []" and "sig \<noteq> []" and "in_i64 ts"
    and "\<bar>ck_nano T - ts * 1000000\<bar> \<le> MeshAuthMaxAge" and "hq_Header r = h ++ auth_headers name ts sig"
  shows "VerifyMeshRequest G T r lookup net = Inr (Inl (UnknownSender name), net')"
proof -
  have "\<not> (nanos_since T (ts * 1000000) > MeshAuthMaxAge \<or> nanos_since T (ts * 1000000) < - MeshAuthMaxAge)"
    unfolding nanos_since_window using assms(5) by simp
  then show ?thesis
    using assms by (simp add: VerifyMeshRequest_def ParseInt_fmt_int)
qed

lemma import_discovered:
  assumes "presence_wf net" and "getNara net name = None" and "name \<noteq> meName net" and "pi_PublicKey a \<noteq> []"
  obtains net' where "import_new G (discovered_nara name a) net = Inr net'"
    and "getPublicKeyForNara G net' name = ParsePublicKey G (pi_PublicKey a)"
proof -
  note w = presence_wfD(1) [OF assms(1)]
  have n: "na_Name (discovered_nara name a) = name" "st_PublicKey (na_Status (discovered_nara name a)) = pi_PublicKey a"
    by (simp_all add: discovered_nara_def NewNara_def Let_def)
  have "\<not> nil_map_clash net (discovered_nara name a)" using assms(2) n(1) by (simp add: nil_map_clash_def)
  then obtain net' where i: "import_new G (discovered_nara name a) net = Inr net'" "net_ext net net'"
    "nara_at net' (length (nw_store net)) = discovered_nara name a"
    "nw_Neighbourhood net' = nw_Neighbourhood net @ [(name, length (nw_store net))]"
    using import_new_ok [OF w, of "discovered_nara name a" G] assms(2) n(1) by auto
  have "getNara net' name = Some (length (nw_store net))" using i(4) assms(2) by (simp add: getNara_def map_add_def)
  moreover have "meName net' = meName net" using net_ext_meName [OF i(2) net_wfD(1) [OF w]] .
  ultimately have "getPublicKeyForNara G net' name = ParsePublicKey G (pi_PublicKey a)"
    using i(3) n(2) assms(3,4) by (simp add: getPublicKeyForNara_def Let_def)
  then show ?thesis using i(1) that by blast
qed

text \<open>
  C6: A newcomer is recognised at once. A nara that nobody we ask knows, and that reaches us from a mesh address where
  its own \<open>/ping\<close> handler answers, gets its first signed request accepted, if the clocks agree to thirty
  seconds; from then on we hold its key.
\<close>

theorem newcomer_recognised:
  assumes "crypto_ok G" and "presence_wf net" and "nn_mesh net" and "valid_keypair G (my_keypair newcomer)"
    and "st_PublicKey (me_status newcomer) = FormatPublicKey G (PublicKey (my_keypair newcomer))"
    and "getNara net (meName newcomer) = None" and "meName newcomer \<noteq> meName net" and "meName newcomer \<noteq> []"
    and "fst (ask_peers P net (meName newcomer) [meName net] (NeighbourhoodOnlineNames net)) = None"
    and "ip = before_last_colon (hq_RemoteAddr r)" and "has_prefix ip ''100.64.''"
    and "ping (network_buildMeshURLFromIP ip ''/ping'') = Some (httpPingHandler newcomer)"
    and "hq_Header r = h ++ MeshAuthRequest G T' (meName newcomer) (my_keypair newcomer) (hq_Method r) (hq_Path r)"
    and "in_i64 (unix_milli T')" and "\<bar>ck_nano T - unix_milli T' * 1000000\<bar> \<le> MeshAuthMaxAge"
  shows "\<exists>net'. authenticate G P T ping r net = Inr (Inr (meName newcomer), net') \<and>
    getPublicKeyForNara G net' (meName newcomer) = Some (PublicKey (my_keypair newcomer))"
proof -
  let ?name = "meName newcomer" and ?kp = "my_keypair newcomer"
  have none: "getPublicKeyForNara G net ?name = None" using assms(6,7) by (simp add: getPublicKeyForNara_def)
  have r: "resolvePublicKeyForNara G P ?name net = Inr (None, net)"
    using none assms(9) by (simp add: resolvePublicKeyForNara_def resolvePeer_def Let_def)
  have hd: "hq_Header r = h ++ auth_headers ?name (unix_milli T')
      (SignBase64 G ?kp (request_message ?name (unix_milli T') (hq_Method r) (hq_Path r)))"
    using assms(13) by (simp add: MeshAuthRequest_def Let_def)
  then have get: "header_Get (hq_Header r) HeaderNaraName = ?name" "header_Get (hq_Header r) HeaderNaraSignature \<noteq> []"
    using assms(1) by simp_all
  have v: "VerifyMeshRequest G T r (resolvePublicKeyForNara G P) net = Inr (Inl (UnknownSender ?name), net)"
    by (rule VerifyMeshRequest_unknown [where lookup = "resolvePublicKeyForNara G P", OF r assms(8) _ assms(14,15) hd]) (use assms(1) in simp)
  have pk: "PublicKey ?kp \<noteq> []" "length (PublicKey ?kp) = PublicKeySize"
    using assms(4) by (auto simp: valid_keypair_def PublicKeySize_def)
  then have key: "pi_PublicKey (httpPingHandler newcomer) \<noteq> []"
    using assms(1,5) by (simp add: httpPingHandler_def FormatPublicKey_def crypto_ok_def)
  obtain net' where i: "import_new G (discovered_nara ?name (httpPingHandler newcomer)) net = Inr net'"
    "getPublicKeyForNara G net' ?name = ParsePublicKey G (pi_PublicKey (httpPingHandler newcomer))"
    by (rule import_discovered [OF assms(2,6,7) key])
  have known: "getPublicKeyForNara G net' ?name = Some (PublicKey ?kp)"
    using i(2) assms(1,5) pk(2) by (simp add: httpPingHandler_def)
  have d: "tryDiscoverUnknownSender G ping ?name (hq_RemoteAddr r) net = Inr (True, net')"
    using assms(3,10-12) i(1) key by (simp add: tryDiscoverUnknownSender_def httpPingHandler_def)
  have auth: "request_authentic G T r (PublicKey ?kp)"
    by (rule signed_request_authentic [OF assms(1,4,8,14,15,13)])
  have "VerifyMeshRequest G T r (resolvePublicKeyForNara G P) net' = Inr (Inr ?name, net')"
    using VerifyMeshRequest_authentic [where lookup = "resolvePublicKeyForNara G P" and net = net' and net' = net' and r = r]
      known_key_resolved [OF known] auth get by simp
  then have "authenticate G P T ping r net = Inr (Inr ?name, net')"
    using v d get(1) assms(8) by (simp add: authenticate_def)
  then show ?thesis using known by blast
qed

section \<open>Checkpoints over the mesh\<close>

definition sync_server ::
  "go_env \<Rightarrow> peers \<Rightarrow> (string \<Rightarrow> ping_answer option) \<Rightarrow> (SyncResponse option \<Rightarrow> string) \<Rightarrow> (nat \<Rightarrow> int) \<Rightarrow> clock
   \<Rightarrow> SyncRequest option http_request \<Rightarrow> nara_net \<Rightarrow> (SyncResponse option answer \<times> nara_net) go" where
  "sync_server G P ping encode key T = meshAuthMiddleware G P T ping encode ''/events/sync'' (sync_handler G key T)"

lemma sync_served:
  assumes "crypto_ok G" and "valid_keypair G (mc_keypair m)" and "mc_name m \<noteq> []" and "presence_wf net"
    and "getPublicKeyForNara G net (mc_name m) = Some (PublicKey (mc_keypair m))"
    and "buildURL m i ''/events/sync'' = Inr url"
    and "in_i64 (unix_milli T)" and "\<bar>ck_nano T' - unix_milli T * 1000000\<bar> \<le> MeshAuthMaxAge"
    and "select_for_request G key (Some (nw_SyncLedger net)) req = Inr (evs, cursor)"
  shows "FetchSyncEventsWithCursor G T (reached addr (sync_server G P ping encode key T') net) m i req =
    Inr ((NewSignedSyncResponse G (ck_sec T') (meName net) evs (my_keypair net))\<lparr>rs_NextCursor := cursor\<rparr>)"
proof -
  define q where "q = req\<lparr>rq_From := mc_name m\<rparr>"
  define r where "r = (signRequest G T m (set_header ''Content-Type'' ''application/json'' (new_request ''POST'' url (Some q))))\<lparr>hq_RemoteAddr := addr\<rparr>"
  have f: "hq_Method r = ''POST''" "hq_Body r = Some q"
    by (simp_all add: r_def signRequest_def set_header_def new_request_def Let_def)
  have h: "hq_Header r = [''Content-Type'' \<mapsto> ''application/json''] ++ MeshAuthRequest G T (mc_name m) (mc_keypair m) (hq_Method r) (hq_Path r)"
    by (simp add: r_def signRequest_def set_header_def new_request_def MeshAuthRequest_def Let_def)
  then have g: "header_Get (hq_Header r) HeaderNaraName = mc_name m" "header_Get (hq_Header r) HeaderNaraSignature \<noteq> []"
    using assms(1) by (simp_all add: MeshAuthRequest_def Let_def)
  have au: "request_authentic G T' r (PublicKey (mc_keypair m))"
    by (rule signed_request_authentic [OF assms(1,2,3,7,8) h])
  have a: "authenticate G P T' ping r net = Inr (Inr (mc_name m), net)"
    using authenticate_known [OF au _ g(2)] assms(5) g(1) by simp
  let ?resp = "(NewSignedSyncResponse G (ck_sec T') (meName net) evs (my_keypair net))\<lparr>rs_NextCursor := cursor\<rparr>"
  have s: "select_for_request G key (Some (nw_SyncLedger net)) q = Inr (evs, cursor)"
    unfolding assms(9) [symmetric] by (simp add: q_def select_for_request_def Let_def)
  have "sync_handler G key T' (r\<lparr>hq_Header := x\<rparr>) net = Inr (http_json ?resp, net)" for x
    using f s assms(3) by (simp add: sync_handler_def httpEventsSyncHandler_def q_def)
  then obtain w where w: "sync_server G P ping encode key T' r net = Inr (Answered w, net)" "hp_Status w = 0" "hp_Body w = Some ?resp"
    using a by (simp add: sync_server_def meshAuthMiddleware_def finalize_def http_json_def)
  then have "reached addr (sync_server G P ping encode key T') net url
      (signRequest G T m (set_header ''Content-Type'' ''application/json'' (new_request ''POST'' url (Some q)))) = Some (200, Some ?resp)"
    by (simp add: reached_def r_def [symmetric] on_the_wire_def)
  then show ?thesis
    using assms(6) by (simp add: FetchSyncEventsWithCursor_def post_signed_def decoded_def q_def [symmetric])
qed

lemma fetch_pages_cong: "(\<And>c. f c = g c) \<Longrightarrow> fetch_pages n f cursor acc = fetch_pages n g cursor acc"
  by (metis ext)

lemma pages_over_mesh:
  assumes "sort_algorithm (sort_perm G)" and "crypto_ok G" and "presence_wf net"
    and "valid_keypair G (mc_keypair m)" and "mc_name m \<noteq> []"
    and "getPublicKeyForNara G net (mc_name m) = Some (PublicKey (mc_keypair m))"
    and "HasPeer i m" and "\<And>c. in_i64 (unix_milli (C c)) \<and> \<bar>ck_nano (S c) - unix_milli (C c) * 1000000\<bar> \<le> MeshAuthMaxAge"
    and "\<forall>e \<in> set (Events (nw_SyncLedger net)). 0 < Timestamp e \<and> in_i64 (Timestamp e)"
    and "distinct (map Timestamp (matching services [] (Events (nw_SyncLedger net))))"
    and "length (Events (nw_SyncLedger net)) < fuel" and n: "0 < n" "n \<le> 5000"
  shows "fetch_pages fuel (\<lambda>c. case FetchSyncEventsWithCursor G (C c) (reached addr (sync_server G P ping encode key (S c)) net) m i
        (zero_request\<lparr>rq_Mode := ''page'', rq_Services := services, rq_Cursor := c, rq_PageSize := int n\<rparr>) of
        Inl err \<Rightarrow> None | Inr resp \<Rightarrow> Some (rs_Events resp, rs_NextCursor resp)) [] [] =
    Fetched (sort_key Timestamp (matching services [] (Events (nw_SyncLedger net))))"
proof -
  let ?l = "nw_SyncLedger net"
  let ?req = "\<lambda>c. zero_request\<lparr>rq_Mode := ''page'', rq_Services := services, rq_Cursor := c, rq_PageSize := int n\<rparr>"
  have wf: "ledger_wf ?l" by (rule presence_wfD(3) [OF assms(3)])
  obtain url where url: "buildURL m i ''/events/sync'' = Inr url"
    using assms(7) by (cases "mc_testURLs m i") (auto simp: buildURL_def HasPeer_def)
  have page: "(case FetchSyncEventsWithCursor G (C c) (reached addr (sync_server G P ping encode key (S c)) net) m i (?req c) of
      Inl err \<Rightarrow> None | Inr resp \<Rightarrow> Some (rs_Events resp, rs_NextCursor resp)) = page_source G ?l (int n) services [] c" for c
  proof -
    obtain evs cursor where sel: "select_for_request G key (Some ?l) (?req c) = Inr (evs, cursor)"
      using select_total [of "Some ?l" G key "?req c"] wf by auto
    then have p: "GetEventsPage G ?l c (int n) services [] = Inr (evs, cursor)"
      using n by (simp add: select_for_request_def zero_request_def Ledger_Queries.clamp_def)
    show ?thesis
      using sync_served [OF assms(2,4,5,3,6) url _ _ sel, of "C c" "S c"] assms(8) p
      by (simp add: page_source_def NewSignedSyncResponse_def response_sign_def)
  qed
  have S: "filter (\<lambda>e. cursor_time [] < Timestamp e) (sort_key Timestamp (matching services [] (Events ?l))) =
      sort_key Timestamp (matching services [] (Events ?l))"
    using assms(9) by (auto simp: filter_id_conv cursor_time_def matching_def)
  have "length (sort_key Timestamp (matching services [] (Events ?l))) < fuel"
    using assms(11) by (simp add: matching_def) (meson le_less_trans length_filter_le)
  then show ?thesis
    unfolding fetch_pages_cong [OF page]
    using fetch_pages_complete [OF assms(1) _ assms(10) _ _ refl, of n "[]" fuel "[]"] ledger_wf_has_payload [OF wf] assms(9) S n(1)
    by simp
qed

text \<open>
  C5: Checkpoints come over the mesh complete. A client whose key the server holds, with clocks that agree to thirty
  seconds on every request, retrieves through signed requests, the middleware, the sync handler and its pages exactly the
  checkpoint events of the server's ledger, sorted by time, if the ledger does not change meanwhile, its timestamps are positive
  and no two checkpoints share one (\<open>paging_skips_equal_timestamps\<close> shows what happens otherwise).
\<close>

theorem checkpoints_over_mesh:
  assumes "sort_algorithm (sort_perm G)" and "crypto_ok G" and "presence_wf net"
    and "valid_keypair G (mc_keypair m)" and "mc_name m \<noteq> []"
    and "getPublicKeyForNara G net (mc_name m) = Some (PublicKey (mc_keypair m))"
    and "HasPeer i m" and "\<And>c. in_i64 (unix_milli (C c)) \<and> \<bar>ck_nano (S c) - unix_milli (C c) * 1000000\<bar> \<le> MeshAuthMaxAge"
    and "\<forall>e \<in> set (Events (nw_SyncLedger net)). 0 < Timestamp e \<and> in_i64 (Timestamp e)"
    and "distinct (map Timestamp (matching [ServiceCheckpoint] [] (Events (nw_SyncLedger net))))"
    and "length (Events (nw_SyncLedger net)) < fuel"
  shows "fetchCheckpointsViaUnifiedAPI fuel
      (\<lambda>c. FetchCheckpoints G (C c) (reached addr (sync_server G P ping encode key (S c)) net) m i c) =
    Some (sort_key Timestamp (matching [ServiceCheckpoint] [] (Events (nw_SyncLedger net))))"
  using pages_over_mesh [OF assms, where n = 1000 and addr = addr and P = P and ping = ping and encode = encode and key = key]
  by (simp add: fetchCheckpointsViaUnifiedAPI_def FetchCheckpoints_def)

section \<open>The other way to the checkpoints\<close>

definition stored_checkpoints :: "'a network_scheme \<Rightarrow> SyncEvent list" where
  "stored_checkpoints net = filter (\<lambda>e. Service e = ServiceCheckpoint \<and> Checkpoint e \<noteq> None) (Events (nw_SyncLedger net))"

definition legacy_server :: "'a network_scheme \<Rightarrow> int \<Rightarrow> int \<Rightarrow> (SyncEvent list \<times> bool) option" where
  "legacy_server net limit offset = Some (httpCheckpointsAllHandler (fmt_int limit) (fmt_int offset) net)"

lemma legacy_page:
  assumes "length (stored_checkpoints net) < 2 ^ 62" and "k \<le> length (stored_checkpoints net)"
  shows "legacy_server net 1000 (int k) =
    Some (take 1000 (drop k (stored_checkpoints net)), k + 1000 < length (stored_checkpoints net))"
proof -
  have l: "page_param (fmt_int 1000) = Some 1000" by (simp add: page_param_def ParseInt_fmt_int in_i64_def)
  have o: "page_param (fmt_int (int k)) = Some (int k)"
    using assms by (simp add: page_param_def ParseInt_fmt_int in_i64_def)
  have e: "i64 (int k + 1000) = int k + 1000" using assms by (intro i64_id) (simp add: in_i64_def)
  have n: "nat (int k + 1000 - int k) = 1000" "nat (int (length (stored_checkpoints net)) - int k) = length (stored_checkpoints net) - k"
    using assms(2) by simp_all
  show ?thesis
    unfolding legacy_server_def httpCheckpointsAllHandler_def l o Let_def option.case stored_checkpoints_def [symmetric] e
    using assms(2) by (auto simp: e n)
qed

lemma legacy_complete:
  assumes "length (stored_checkpoints net) < 2 ^ 62" and "k \<le> length (stored_checkpoints net)"
    and "length (stored_checkpoints net) - k < 1000 * fuel"
  shows "legacy_pages fuel (legacy_server net) (int k) acc = Some (acc @ drop k (stored_checkpoints net))"
  using assms(2,3)
proof (induction fuel arbitrary: k acc)
  case (Suc fuel)
  note page = legacy_page [OF assms(1) Suc.prems(1)]
  show ?case
  proof (cases "k + 1000 < length (stored_checkpoints net)")
    case True
    have "i64 (int k + 1000) = int (k + 1000)" using assms(1) True by (subst i64_id) (auto simp: in_i64_def)
    moreover have "take 1000 (drop k (stored_checkpoints net)) @ drop (k + 1000) (stored_checkpoints net) = drop k (stored_checkpoints net)"
      by (metis add.commute append_take_drop_id drop_drop)
    ultimately show ?thesis
      using True Suc.IH [of "k + 1000" "acc @ take 1000 (drop k (stored_checkpoints net))"] Suc.prems page by simp
  next
    case False
    then show ?thesis using page by simp
  qed
qed simp

text \<open>
  C32: The two ways of asking for checkpoints agree. From a server whose ledger is well formed and does not change, with positive
  timestamps and no two checkpoints at the same time (\<open>paging_skips_equal_timestamps\<close> shows what happens otherwise), walking
  \<open>/api/checkpoints/all\<close> by offset and following the cursors of the page mode give the same checkpoints, up to their
  order; the walk ends after one request for every thousand of them.
\<close>

theorem checkpoint_ways_agree:
  assumes "sort_algorithm (sort_perm G)" and "ledger_wf (nw_SyncLedger net)"
    and "\<forall>e \<in> set (Events (nw_SyncLedger net)). 0 < Timestamp e \<and> in_i64 (Timestamp e)"
    and "distinct (map Timestamp (matching [ServiceCheckpoint] [] (Events (nw_SyncLedger net))))"
    and "length (Events (nw_SyncLedger net)) < 2 ^ 62" and "length (Events (nw_SyncLedger net)) < fuel"
  shows "\<exists>evs evs'. fetch_pages fuel (page_source G (nw_SyncLedger net) 1000 [ServiceCheckpoint] []) [] [] = Fetched evs \<and>
    legacy_pages fuel (legacy_server net) 0 [] = Some evs' \<and> mset evs = mset evs'"
proof -
  let ?l = "nw_SyncLedger net"
  have h: "\<forall>e \<in> set (Events ?l). has_payload e" using ledger_wf_has_payload [OF assms(2)] by blast
  have "wanted [ServiceCheckpoint] [] e = Inr True \<longleftrightarrow> Service e = ServiceCheckpoint \<and> Checkpoint e \<noteq> None"
    if "e \<in> set (Events ?l)" for e
    using h that by (auto simp: wanted_def has_payload_def Payload_def service_defs)
  then have m: "matching [ServiceCheckpoint] [] (Events ?l) = stored_checkpoints net"
    unfolding matching_def stored_checkpoints_def by (intro filter_cong) auto
  have len: "length (stored_checkpoints net) \<le> length (Events ?l)" by (simp add: stored_checkpoints_def)
  have "length (sort_key Timestamp (matching [ServiceCheckpoint] [] (Events ?l))) < fuel" using len assms(6) m by simp
  moreover have "filter (\<lambda>e. cursor_time [] < Timestamp e) (sort_key Timestamp (matching [ServiceCheckpoint] [] (Events ?l))) =
      sort_key Timestamp (matching [ServiceCheckpoint] [] (Events ?l))"
    using assms(3) by (auto simp: filter_id_conv cursor_time_def matching_def)
  ultimately have "fetch_pages fuel (page_source G ?l (int 1000) [ServiceCheckpoint] []) [] [] =
      Fetched (sort_key Timestamp (matching [ServiceCheckpoint] [] (Events ?l)))"
    using fetch_pages_complete [OF assms(1) h assms(4) _ _ refl, of 1000 "[]" fuel "[]"] assms(3) by simp
  moreover have "legacy_pages fuel (legacy_server net) (int 0) [] = Some ([] @ drop 0 (stored_checkpoints net))"
    by (rule legacy_complete) (use len assms(5,6) in linarith)+
  ultimately show ?thesis using m by simp
qed

text \<open>A server that always gives a cursor keeps the client asking.\<close>

theorem endless_cursor:
  assumes "\<And>c. \<exists>resp. fetchCheckpoints c 1000 = Inr resp \<and> rs_NextCursor resp \<noteq> []"
  shows "fetchCheckpointsViaUnifiedAPI fuel fetchCheckpoints = None"
proof -
  let ?f = "\<lambda>cursor. case fetchCheckpoints cursor 1000 of Inl err \<Rightarrow> None | Inr resp \<Rightarrow> Some (rs_Events resp, rs_NextCursor resp)"
  have "fetch_pages fuel ?f cursor acc = OutOfFuel" for cursor acc
  proof (induction fuel arbitrary: cursor acc)
    case (Suc fuel)
    obtain resp where "fetchCheckpoints cursor 1000 = Inr resp" "rs_NextCursor resp \<noteq> []" using assms by blast
    then show ?case using Suc.IH by simp
  qed simp
  then show ?thesis by (simp add: fetchCheckpointsViaUnifiedAPI_def)
qed

section \<open>Examples\<close>

definition demo_stored :: "string \<Rightarrow> int \<Rightarrow> SyncEvent" where
  "demo_stored i t = (demo_checkpoint i t)\<lparr>Timestamp := t\<rparr>"

lemma demo_stored_fields [simp]:
  "Service (demo_stored i t) = ServiceCheckpoint" "ID (demo_stored i t) = i" "Timestamp (demo_stored i t) = t"
  "Checkpoint (demo_stored i t) \<noteq> None" "wanted [ServiceCheckpoint] [] (demo_stored i t) = Inr True"
  by (simp_all add: demo_stored_def demo_checkpoint_def wanted_def)

lemma demo_stored_valid: "0 < t \<Longrightarrow> event_IsValid (demo_stored i t) = Inr True"
  by (simp add: demo_stored_def demo_checkpoint_def event_IsValid_def Payload_def service_defs checkpoint_IsValid_def)

definition demo_memory :: SyncLedger where
  "demo_memory = demo_ledger 10 [demo_stored ''y'' 9, demo_ping ''z'' 8, demo_stored ''x'' 7]"

lemma demo_memory_checkpoints:
  "ledger_wf demo_memory" "Events demo_memory = [demo_stored ''y'' 9, demo_ping ''z'' 8, demo_stored ''x'' 7]"
  "matching [ServiceCheckpoint] [] [demo_stored ''y'' 9, demo_ping ''z'' 8, demo_stored ''x'' 7] = [demo_stored ''y'' 9, demo_stored ''x'' 7]"
  "sort_key Timestamp [demo_stored ''y'' 9, demo_stored ''x'' 7] = [demo_stored ''x'' 7, demo_stored ''y'' 9]"
  by (auto simp: demo_memory_def ledger_wf_def demo_stored_valid matching_def wanted_def service_defs)

text \<open>Lisa on the mesh: of bart she has the key.\<close>

definition demo_mesh_net :: nara_net where
  "demo_mesh_net = demo_net\<lparr>nn_mesh := True, nw_SyncLedger := demo_memory,
     nw_store := [demo_me, (NewNara ''bart'')\<lparr>na_Status := (na_Status (NewNara ''bart''))\<lparr>st_PublicKey := PublicKey (demo_keypair CHR ''b'')\<rparr>\<rparr>,
       NewNara ''ghost'']\<rparr>"

lemma demo_mesh_wf: "presence_wf demo_mesh_net"
  by (simp add: presence_wf_def net_wf_def nil_free_def demo_mesh_net_def demo_net_def NewNetwork_def nara_at_def New_Keyring_def
      keyring_wf_def NewProjection_def AddListener_def demo_memory_checkpoints(1) demo_me_def NewNara_def demo_keypair_def PublicKeySize_def)

lemma demo_mesh_facts:
  "nw_SyncLedger demo_mesh_net = demo_memory" "meName demo_mesh_net = ''lisa''" "getNara demo_mesh_net ''krusty'' = None"
  "getPublicKeyForNara demo_env demo_mesh_net ''bart'' = Some (PublicKey (demo_keypair CHR ''b''))" "nn_mesh demo_mesh_net"
  "NeighbourhoodOnlineNames demo_mesh_net = []"
  by (simp_all add: demo_mesh_net_def demo_net_def NewNetwork_def nara_at_def demo_me_def getNara_def meName_def NewNara_def
      getPublicKeyForNara_def ParsePublicKey_def demo_keypair_def PublicKeySize_def Let_def NeighbourhoodOnlineNames_def
      getObservation_def Nara_getObservation_def isOnline_def zero_observation_def)

lemma demo_now: "in_i64 (unix_milli demo_clock)" "\<bar>ck_nano demo_clock - unix_milli demo_clock * 1000000\<bar> \<le> MeshAuthMaxAge"
  by (simp_all add: in_i64_def unix_milli_def demo_clock_def MeshAuthMaxAge_def)

definition demo_client :: MeshClient where
  "demo_client = RegisterPeer ''L'' ''http://100.64.0.2:9632'' (NewMeshClient ''bart'' (demo_keypair CHR ''b''))"

lemma demo_client_fields:
  "mc_name demo_client = ''bart''" "mc_keypair demo_client = demo_keypair CHR ''b''" "HasPeer ''L'' demo_client"
  by (simp_all add: demo_client_def RegisterPeer_def NewMeshClient_def HasPeer_def)

definition demo_knock :: "string \<Rightarrow> 'b option \<Rightarrow> 'b option http_request" where
  "demo_knock verb body = signRequest demo_env demo_clock demo_client (new_request verb ''http://100.64.0.2:9632/dm'' body)"

lemma demo_knock_path: "hq_Path (demo_knock verb body) = ''/dm''"
  by (simp add: demo_knock_def signRequest_def new_request_def Let_def) (simp add: URL_Path_def has_prefix_def)

lemma demo_knock_authentic:
  "request_authentic demo_env demo_clock (demo_knock verb body) (PublicKey (demo_keypair CHR ''b''))"
  "header_Get (hq_Header (demo_knock verb body)) HeaderNaraName = ''bart''"
  "header_Get (hq_Header (demo_knock verb body)) HeaderNaraSignature \<noteq> []"
  "hq_Method (demo_knock verb body) = verb" "hq_Body (demo_knock verb body) = body"
proof -
  let ?r = "demo_knock verb body"
  have h: "hq_Header ?r = Map.empty ++ MeshAuthRequest demo_env demo_clock ''bart'' (demo_keypair CHR ''b'') (hq_Method ?r) (hq_Path ?r)"
    by (simp add: demo_knock_def signRequest_def new_request_def MeshAuthRequest_def demo_client_fields Let_def)
  show "request_authentic demo_env demo_clock ?r (PublicKey (demo_keypair CHR ''b''))"
    by (rule signed_request_authentic [OF crypto_ok_demo valid_keypair_demo _ demo_now h]) simp
  show "header_Get (hq_Header ?r) HeaderNaraName = ''bart''" "header_Get (hq_Header ?r) HeaderNaraSignature \<noteq> []"
    using crypto_ok_demo by (simp_all add: h MeshAuthRequest_def Let_def del: empty_map_add)
  show "hq_Method ?r = verb" "hq_Body ?r = body" by (simp_all add: demo_knock_def signRequest_def new_request_def Let_def)
qed

lemma demo_knock_accepted:
  "authenticate demo_env demo_quiet_peers demo_clock (\<lambda>url. None) (demo_knock verb body) demo_mesh_net = Inr (Inr ''bart'', demo_mesh_net)"
  using authenticate_known [where net = demo_mesh_net, OF demo_knock_authentic(1) [of verb body] _ demo_knock_authentic(3)]
    demo_knock_authentic(2) [of verb body] demo_mesh_facts(4) by simp

theorem mesh_request_authentic_witness:
  "\<exists>w k. createHTTPMux demo_env demo_quiet_peers demo_clock (\<lambda>url. None) (\<lambda>c. [])
       (\<lambda>path. httpDMHandler demo_env demo_quiet_peers demo_clock) (demo_knock ''GET'' None) demo_mesh_net = Inr (Some (Answered w), demo_mesh_net) \<and>
     request_authentic demo_env demo_clock (demo_knock ''GET'' None :: SyncEvent option http_request) k"
proof -
  have path: "hq_Path (demo_knock ''GET'' None :: SyncEvent option http_request) = ''/dm''" by (rule demo_knock_path)
  obtain w where w: "createHTTPMux demo_env demo_quiet_peers demo_clock (\<lambda>url. None) (\<lambda>c. [])
       (\<lambda>path. httpDMHandler demo_env demo_quiet_peers demo_clock) (demo_knock ''GET'' None) demo_mesh_net = Inr (Some (Answered w), demo_mesh_net)"
    by (simp add: createHTTPMux_def path authenticated_paths_def meshAuthMiddleware_def httpDMHandler_def demo_knock_accepted
        demo_knock_authentic(4))
  show ?thesis using mesh_request_authentic [OF demo_mesh_wf _ w] w by (auto simp: path open_paths_def)
qed

definition demo_newcomer :: nara_net where
  "demo_newcomer = NewNetwork ((NewNara ''krusty'')\<lparr>na_Status := (na_Status (NewNara ''krusty''))\<lparr>st_PublicKey := PublicKey (demo_keypair CHR ''k'')\<rparr>\<rparr>)
     (demo_keypair CHR ''k'') ''soul'' DefaultMemoryProfile"

definition demo_hello :: "unit http_request" where
  "demo_hello = \<lparr>hq_Method = ''POST'', hq_Path = ''/dm'',
     hq_Header = Map.empty ++ MeshAuthRequest demo_env demo_clock ''krusty'' (demo_keypair CHR ''k'') ''POST'' ''/dm'',
     hq_RemoteAddr = ''100.64.0.9:4321'', hq_Body = ()\<rparr>"

theorem newcomer_recognised_witness:
  "\<exists>net'. authenticate demo_env demo_quiet_peers demo_clock (\<lambda>url. Some (httpPingHandler demo_newcomer)) demo_hello demo_mesh_net =
       Inr (Inr ''krusty'', net') \<and>
     getPublicKeyForNara demo_env net' ''krusty'' = Some (PublicKey (demo_keypair CHR ''k''))"
proof -
  have n: "meName demo_newcomer = ''krusty''" "my_keypair demo_newcomer = demo_keypair CHR ''k''"
    "st_PublicKey (me_status demo_newcomer) = PublicKey (demo_keypair CHR ''k'')"
    by (simp_all add: demo_newcomer_def NewNetwork_def meName_def my_keypair_def nara_at_def NewNara_def New_Keyring_def me_status_def)
  show ?thesis
    using newcomer_recognised [of demo_env demo_mesh_net demo_newcomer demo_quiet_peers "''100.64.0.9''" demo_hello
        "\<lambda>url. Some (httpPingHandler demo_newcomer)" Map.empty demo_clock demo_clock]
    by (simp add: crypto_ok_demo valid_keypair_demo demo_mesh_wf demo_mesh_facts demo_now n FormatPublicKey_def demo_hello_def
        before_last_colon_def has_prefix_def ask_peers.simps [where toAsk = "[]"] del: empty_map_add)
qed

theorem checkpoints_over_mesh_witness:
  "fetchCheckpointsViaUnifiedAPI 4 (\<lambda>c. FetchCheckpoints demo_env demo_clock
     (reached ''100.64.0.3:5000'' (sync_server demo_env demo_quiet_peers (\<lambda>url. None) (\<lambda>c. []) int demo_clock) demo_mesh_net)
     demo_client ''L'' c) = Some [demo_stored ''x'' 7, demo_stored ''y'' 9]"
  using checkpoints_over_mesh [OF sort_algorithm_demo crypto_ok_demo demo_mesh_wf, of demo_client "''L''" "\<lambda>c. demo_clock" "\<lambda>c. demo_clock" 4
      "''100.64.0.3:5000''" demo_quiet_peers "\<lambda>url. None" "\<lambda>c. []" int] demo_now
  by (simp add: demo_client_fields valid_keypair_demo demo_mesh_facts demo_memory_checkpoints in_i64_def)

theorem checkpoint_ways_agree_witness:
  "\<exists>evs evs'. fetch_pages 4 (page_source demo_env demo_memory 1000 [ServiceCheckpoint] []) [] [] = Fetched evs \<and>
     legacy_pages 4 (legacy_server demo_mesh_net) 0 [] = Some evs' \<and> mset evs = mset evs'"
  using checkpoint_ways_agree [OF sort_algorithm_demo, of demo_mesh_net 4]
  by (simp add: demo_mesh_facts demo_memory_checkpoints in_i64_def)

end
