(* ===== verification/Gossip_Properties.thy ===== *)
theory Gossip_Properties
  imports Mesh_Properties
begin

text \<open>
  What zines and direct messages guarantee and what they do not: what the signature of a zine covers, whose
  events a direct message can bring into the ledger, and that the nara never vouches for the quiet naras it finds.
\<close>

section \<open>Zines\<close>

lemma created_zine:
  assumes "createZine G T net = Some z"
  obtains evs where "zn_Events z = evs" and "zn_From z = meName net" and "zn_CreatedAt z = ck_sec T"
    and "zn_Signature z = SignBase64 G (my_keypair net) (zine_signingData G z)"
proof -
  have "zn_From z = meName net \<and> zn_CreatedAt z = ck_sec T \<and>
      zn_Signature z = SignBase64 G (my_keypair net) (zine_signingData G z)"
    using assms by (auto simp: createZine_def SignZine_def zine_signingData_def Let_def split: if_splits)
  then show ?thesis using that by blast
qed

text \<open>
  C33: The seal of a zine is on the IDs of its events alone. Whatever an event in a zine is replaced by, its
  contents, its service or its emitter, the zine still verifies under the key of the nara that made it, as long as the IDs it
  states are the same, in the same order.
\<close>

theorem zine_seals_only_ids:
  assumes "crypto_ok G" and "valid_keypair G (my_keypair net)" and "createZine G T net = Some z"
    and "map ID evs = map ID (zn_Events z)"
  shows "VerifyZine G (z\<lparr>zn_Events := evs\<rparr>) (PublicKey (my_keypair net)) = Inr True"
proof -
  have s: "zn_Signature z = SignBase64 G (my_keypair net) (zine_signingData G z)" by (rule created_zine [OF assms(3)])
  have d: "zine_signingData G (z\<lparr>zn_Events := evs\<rparr>) = zine_signingData G z"
    using assms(4) by (simp add: zine_signingData_def)
  have "length (PublicKey (my_keypair net)) = PublicKeySize" "PublicKey (my_keypair net) \<noteq> []"
    using assms(2) by (auto simp: valid_keypair_def PublicKeySize_def)
  moreover have "SignBase64 G (my_keypair net) m \<noteq> []" for m using assms(1) by simp
  ultimately show ?thesis
    using assms(1,2) s unfolding VerifyZine_def d
    by (simp add: SignBase64_def valid_keypair_def KeypairSign_def crypto_ok_def SignatureSize_def PublicKeySize_def)
qed

section \<open>Direct messages\<close>

lemma import_new_ledger: "net_wf net \<Longrightarrow> import_new G nara net = Inr net' \<Longrightarrow> nw_SyncLedger net' = nw_SyncLedger net"
  using import_new_ok [of net nara G] import_new_panics [of net nara G] by fastforce

lemma resolve_ledger:
  assumes "presence_wf net" and "resolvePublicKeyForNara G P name net = Inr (k, net')"
  shows "nw_SyncLedger net' = nw_SyncLedger net"
  using assms(2) import_new_ledger [OF presence_wfD(1) [OF assms(1)]]
  by (auto simp: resolvePublicKeyForNara_def resolvePeer_def Let_def go_bind_eq_Inr split: option.splits if_splits)

lemma request_ledger:
  assumes "presence_wf net" and "VerifyMeshRequest G T r (resolvePublicKeyForNara G P) net = Inr (res, net')"
  shows "nw_SyncLedger net' = nw_SyncLedger net"
proof (cases "ParseInt (header_Get (hq_Header r) HeaderNaraTimestamp)")
  case None
  then show ?thesis using assms(2) by (auto simp: VerifyMeshRequest_def Let_def split: if_splits)
next
  case (Some ts)
  then show ?thesis
    using assms(2) resolve_ledger [OF assms(1)]
    by (auto simp: VerifyMeshRequest_def Let_def go_bind_eq_Inr split: if_splits)
qed

lemma discover_ledger:
  assumes "presence_wf net" and "tryDiscoverUnknownSender G ping name addr net = Inr (found, net')"
  shows "nw_SyncLedger net' = nw_SyncLedger net"
  using assms(2) import_new_ledger [OF presence_wfD(1) [OF assms(1)]]
  by (auto simp: tryDiscoverUnknownSender_def Let_def go_bind_eq_Inr split: option.splits if_splits)

lemma authenticate_ledger:
  assumes "presence_wf net" and "authenticate G P T ping r net = Inr (res, net')"
  shows "nw_SyncLedger net' = nw_SyncLedger net"
proof -
  obtain result net1 where v: "VerifyMeshRequest G T r (resolvePublicKeyForNara G P) net = Inr (result, net1)" "presence_wf net1"
    using good_VerifyMeshRequest [OF assms(1), of G T r P] by (auto simp: good_def)
  note l1 = request_ledger [OF assms(1) v(1)]
  show ?thesis
  proof (cases "\<exists>n. result = Inl (UnknownSender n)")
    case False
    then have "authenticate G P T ping r net = Inr (result, net1)"
      by (auto simp: authenticate_def v(1) split: sum.split mesh_error.split)
    then show ?thesis using assms(2) l1 by simp
  next
    case True
    let ?sender = "header_Get (hq_Header r) HeaderNaraName"
    have s: "go_bind (if ?sender \<noteq> [] then tryDiscoverUnknownSender G ping ?sender (hq_RemoteAddr r) net1 else Inr (False, net1))
        (\<lambda>(found, net2). if found then VerifyMeshRequest G T r (resolvePublicKeyForNara G P) net2 else Inr (result, net2)) = Inr (res, net')"
      using assms(2) True by (auto simp: authenticate_def v(1) Let_def)
    then obtain found net2 where d: "(if ?sender \<noteq> [] then tryDiscoverUnknownSender G ping ?sender (hq_RemoteAddr r) net1
        else Inr (False, net1)) = Inr (found, net2)"
      "(if found then VerifyMeshRequest G T r (resolvePublicKeyForNara G P) net2 else Inr (result, net2)) = Inr (res, net')"
      by (auto simp: go_bind_eq_Inr simp del: if_split)
    have "presence_wf net2" "nw_SyncLedger net2 = nw_SyncLedger net1"
      using d(1) v(2) good_tryDiscover [OF v(2), of G ping ?sender "hq_RemoteAddr r"] discover_ledger [OF v(2)]
      by (auto simp: good_def split: if_splits)
    then show ?thesis using d(2) request_ledger [of net2 G T r P res net'] l1 by (auto split: if_splits)
  qed
qed

definition genuine_message :: "go_env \<Rightarrow> nara_net \<Rightarrow> SyncEvent \<Rightarrow> bool" where
  \<comment> \<open>signed under the key we hold for its emitter\<close>
  "genuine_message G net e \<longleftrightarrow>
     (\<exists>k. getPublicKeyForNara G net (Emitter e) = Some k \<and> VerifyWithKey G e (Some k) = Inr True)"

lemma dm_checked:
  assumes "presence_wf net" and "httpDMHandler G P T r net = Inr (w, net')" and "nw_SyncLedger net' \<noteq> nw_SyncLedger net"
  obtains e net1 where "hq_Body r = Some e" and "genuine_message G net1 e" and "presence_wf net1" and "net_ext net net1"
proof -
  obtain e where e: "hq_Body r = Some e" "IsSigned e"
    using assms(2,3) by (auto simp: httpDMHandler_def split: if_splits option.splits)
  obtain k net1 where k: "resolvePublicKeyForNara G P (Emitter e) net = Inr (k, net1)" "presence_wf net1" "net_ext net net1"
    using good_resolvePublicKey [OF assms(1), of G P "Emitter e"] by (auto simp: good_def)
  have l: "nw_SyncLedger net1 = nw_SyncLedger net" by (rule resolve_ledger [OF assms(1) k(1)])
  have m: "hq_Method r = ''POST''" using assms(2,3) by (auto simp: httpDMHandler_def split: if_splits)
  note h = assms(2) [unfolded httpDMHandler_def if_not_P [OF not_not [THEN iffD2, OF m]] e(1) option.case k(1) go_bind_Inr prod.case]
  show ?thesis
  proof (cases k)
    case None
    then show ?thesis using h e(2) l assms(3) by simp
  next
    case (Some key)
    have "VerifyWithKey G e (Some key) = Inr True"
      using h e(2) l assms(3) by (auto simp: Some go_bind_eq_Inr split: if_splits)
    then show ?thesis
      using that [OF e(1) _ k(2,3)] resolved_key_known [of G P "Emitter e" net key net1] k(1) Some by (auto simp: genuine_message_def)
  qed
qed

text \<open>
  C7: A direct message speaks for its author. If a request to \<open>/dm\<close> changes the ledger, its body is an event
  with a signature under the key that is held for the emitter it names, whoever delivered it, and the
  delivery itself was authenticated.
\<close>

theorem dm_authentic:
  assumes "presence_wf net" and "nw_SyncLedger net2 \<noteq> nw_SyncLedger net"
    and "meshAuthMiddleware G P T ping encode ''/dm'' (httpDMHandler G P T) r net = Inr (answer, net2)"
  shows "\<exists>e net1 k. hq_Body r = Some e \<and> genuine_message G net1 e \<and> net_ext net net1 \<and> request_authentic G T r k"
proof -
  obtain res net1 where a: "authenticate G P T ping r net = Inr (res, net1)" "presence_wf net1" "net_ext net net1"
    using good_authenticate [OF assms(1), of G P T ping r] by (auto simp: good_def)
  have l: "nw_SyncLedger net1 = nw_SyncLedger net" by (rule authenticate_ledger [OF assms(1) a(1)])
  obtain sender where s: "res = Inr sender"
    using assms(2,3) l by (cases res) (auto simp: meshAuthMiddleware_def a(1))
  obtain w where w: "httpDMHandler G P T (r\<lparr>hq_Header := (hq_Header r)(''X-Nara-Verified'' \<mapsto> sender)\<rparr>) net1 = Inr (w, net2)"
    using assms(3) by (auto simp: meshAuthMiddleware_def a(1) s go_bind_eq_Inr)
  obtain e net0 where e: "hq_Body r = Some e" "genuine_message G net0 e" "net_ext net1 net0"
    by (rule dm_checked [OF a(2) w]) (use assms(2) l in auto)
  obtain k where "request_authentic G T r k" by (rule authenticate_accepts [OF a(1) [unfolded s]])
  then show ?thesis using e net_ext_trans [OF a(3) e(3)] by blast
qed

section \<open>Vouching\<close>

lemma naras_Tease: "Tease G P T target reason net = Inr (ok, net') \<Longrightarrow> naras net' = naras net"
proof -
  have "naras (net\<lparr>nn_Tease := ts\<rparr>) = naras net" for ts by (simp add: naras_def)
  moreover have "naras (snd (SendDM P name e n)) = naras n" for name e n by (simp add: SendDM_def Let_def)
  ultimately show "Tease G P T target reason net = Inr (ok, net') \<Longrightarrow> naras net' = naras net"
    by (auto simp: Tease_def Let_def go_bind_eq_Inr split: if_splits prod.splits dest: naras_with_ledger)
qed

lemma naras_checkAndTease: "checkAndTease G P T name st trend net = Inr net' \<Longrightarrow> naras net' = naras net"
  by (auto simp: checkAndTease_def Let_def go_bind_eq_Inr split: if_splits dest: naras_Tease)

lemma naras_status_change: "record_status_change G T name ts st restart net = Inr net' \<Longrightarrow> naras net' = naras net"
  by (auto simp: record_status_change_def add_and_trigger_def go_bind_eq_Inr split: if_splits dest!: naras_with_ledger naras_Trigger)

lemma seen_as_online: "is_recent T ts \<Longrightarrow> no_Online (seen_as T ts ob) = ''ONLINE''"
  by (simp add: seen_as_def)

lemma known_online:
  assumes "sort_algorithm (sort_perm G)" and "presence_wf net" and "is_recent T ts" and "record_known G P T name ts net = Inr net'"
  shows "no_Online (getObservation net' name) = ''ONLINE''"
proof -
  obtain net1 ob net2 where n: "record_first_seen G T name ts (getObservation net name) net = Inr net1"
    "record_opinion G T name (getObservation net name) net1 = Inr (ob, net2)"
    and rest: "(case record_restart name ts ob net2 of (ob', m3) \<Rightarrow>
         go_bind (setObservation name (seen_as T ts ob') m3) (\<lambda>m4.
         go_bind (record_status_change G T name ts (no_Online (getObservation net name)) (was_restart ob) m4) (\<lambda>m5.
           if \<not> isBooting m5 \<and> name \<noteq> meName m5
           then checkAndTease G P T name (no_Online (getObservation net name)) (known_trend net name) m5
           else Inr m5))) = Inr net'"
    using assms(4) by (auto simp: record_known_def Let_def go_bind_eq_Inr)
  have "presence_wf net1" using good_record_first_seen [OF assms(1,2), of T name ts "getObservation net name"] n(1) by (auto simp: good_def)
  then have w2: "presence_wf net2"
    using good_record_opinion [of net1 G T name "getObservation net name"] n(2) by (auto simp: good_def)
  obtain ob' m3 where r: "record_restart name ts ob net2 = (ob', m3)" by fastforce
  have w3: "net_wf m3" using w2 record_restart_net(1) [of name ts ob net2] r by (simp add: presence_wfD(1))
  obtain m4 where n4: "setObservation name (seen_as T ts ob') m3 = Inr m4" "getObservation m4 name = seen_as T ts ob'"
    using getObservation_setObservation [OF w3] by blast
  have "naras net' = naras m4"
    using rest r n4(1) by (auto simp: go_bind_eq_Inr split: if_splits dest!: naras_status_change naras_checkAndTease)
  then show ?thesis using naras_eqD(2) n4(2) assms(3) by (metis (no_types) seen_as_online)
qed

lemma recorded_online:
  assumes "sort_algorithm (sort_perm G)" and "presence_wf net" and "recordObservationOnlineNara G P T name 0 net = Inr net'"
  shows "no_Online (getObservation net' name) = ''ONLINE''"
proof -
  have r: "is_recent T (ck_sec T)" by (simp add: is_recent_def MissingThresholdSeconds_def i64_id in_i64_def)
  have d: "go_bind (record_discover G T name (ck_sec T) net)
      (\<lambda>known. case known of None \<Rightarrow> Inr net | Some n \<Rightarrow> record_known G P T name (ck_sec T) n) = Inr net'"
    using assms(3) by (simp add: recordObservationOnlineNara_def Let_def)
  obtain net1 where n: "presence_wf net1" "record_known G P T name (ck_sec T) net1 = Inr net'"
  proof (cases "getNara net name = None \<and> name \<noteq> meName net")
    case True
    then have "go_bind (import_new G (NewNara name) net) (record_known G P T name (ck_sec T)) = Inr net'"
      using d r by (cases "import_new G (NewNara name) net") (simp_all add: record_discover_def)
    moreover have "good_net net (import_new G (NewNara name) net)" by (rule good_import [OF assms(2)]) simp
    ultimately show ?thesis using that by (auto simp: good_def)
  next
    case False
    then have "record_discover G T name (ck_sec T) net = Inr (Some net)" unfolding record_discover_def by (rule if_not_P)
    then show ?thesis using that [OF assms(2)] d by simp
  qed
  then show ?thesis using known_online [OF assms(1) n(1) r n(2)] by blast
qed

text \<open>
  Nobody vouches for a newcomer. \<open>emitSeenEvent\<close>, which is there for that and has its only call in the discovery of
  peers, never does anything: what happens to a peer found on the mesh is that it is imported and marked online,
  and of those online no seen event is made.
\<close>

theorem discovery_never_vouches:
  assumes "sort_algorithm (sort_perm G)" and "presence_wf net"
    and "getNara net (dp_Name peer) = None" and "dp_Name peer \<noteq> myName"
  shows "discover_peer G P T myName peer net =
    go_bind (import_new G ((NewNara (dp_Name peer))\<lparr>na_Status := (na_Status (NewNara (dp_Name peer)))\<lparr>st_MeshIP := dp_MeshIP peer,
        st_MeshEnabled := True, st_PublicKey := dp_PublicKey peer\<rparr>\<rparr>) net)
      (recordObservationOnlineNara G P T (dp_Name peer) 0)"
proof -
  let ?nara = "(NewNara (dp_Name peer))\<lparr>na_Status := (na_Status (NewNara (dp_Name peer)))\<lparr>st_MeshIP := dp_MeshIP peer,
        st_MeshEnabled := True, st_PublicKey := dp_PublicKey peer\<rparr>\<rparr>"
  obtain net1 where n1: "import_new G ?nara net = Inr net1" "presence_wf net1"
    using good_import [OF assms(2), of ?nara G] by (auto simp: good_def NewNara_def)
  obtain net2 where n2: "recordObservationOnlineNara G P T (dp_Name peer) 0 net1 = Inr net2"
    using good_recordObservation [OF assms(1) n1(2), of P T "dp_Name peer" 0] by (auto simp: good_def)
  have "emitSeenEvent G T (dp_Name peer) ''mesh'' net2 = Inr net2"
    using recorded_online [OF assms(1) n1(2) n2] by (simp add: emitSeenEvent_def)
  then show ?thesis using assms(3,4) n1(1) n2 by (simp add: discover_peer_def Let_def)
qed

section \<open>Examples\<close>

theorem zine_seals_only_ids_witness:
  "\<exists>z. createZine demo_env (demo_clock\<lparr>ck_nano := 10\<rparr>) demo_mesh_net = Some z \<and>
     VerifyZine demo_env (z\<lparr>zn_Events := [demo_ping ''y'' 1, demo_ping ''z'' 2, demo_obs ''x'' 3 4]\<rparr>) (PublicKey (my_keypair demo_mesh_net)) = Inr True"
proof -
  have k: "my_keypair demo_mesh_net = demo_keypair CHR ''l''"
    by (simp add: demo_mesh_net_def demo_net_def NewNetwork_def my_keypair_def New_Keyring_def)
  obtain z where z: "createZine demo_env (demo_clock\<lparr>ck_nano := 10\<rparr>) demo_mesh_net = Some z"
    "zn_Events z = [demo_stored ''y'' 9, demo_ping ''z'' 8, demo_stored ''x'' 7]"
    by (simp add: createZine_def recent_events_def GetAllEvents_def demo_mesh_facts demo_memory_checkpoints SignZine_def k
        demo_keypair_def Let_def)
  show ?thesis
    using zine_seals_only_ids [OF crypto_ok_demo _ z(1), of "[demo_ping ''y'' 1, demo_ping ''z'' 2, demo_obs ''x'' 3 4]"]
      valid_keypair_demo z k by simp
qed

definition demo_bye :: SyncEvent where
  "demo_bye = (let e = zero_event\<lparr>ID := ''bye'', Timestamp := 5, Service := ServiceChau, Emitter := ''bart'',
       Chau := Some \<lparr>ch_From = ''bart'', ch_PublicKey = [], ch_ID = [], ch_Signature = []\<rparr>\<rparr>
     in e\<lparr>Signature := SignBase64 demo_env (demo_keypair CHR ''b'') (case signableData demo_env e of Inl p \<Rightarrow> [] | Inr d \<Rightarrow> d)\<rparr>)"

lemma demo_bye_fields:
  "Service demo_bye = ServiceChau" "Emitter demo_bye = ''bart''" "ID demo_bye = ''bye''" "event_IsValid demo_bye = Inr True" "IsSigned demo_bye"
  "VerifyWithKey demo_env demo_bye (Some (PublicKey (demo_keypair CHR ''b''))) = Inr True" "has_payload demo_bye"
proof -
  show "Service demo_bye = ServiceChau" "Emitter demo_bye = ''bart''" "ID demo_bye = ''bye''"
    by (simp_all add: demo_bye_def Let_def)
  show "event_IsValid demo_bye = Inr True" "has_payload demo_bye"
    by (simp_all add: demo_bye_def Let_def event_IsValid_def Payload_def service_defs chau_IsValid_def has_payload_def)
  show s: "IsSigned demo_bye" using crypto_ok_demo by (simp add: IsSigned_def demo_bye_def Let_def)
  obtain d where "signableData demo_env demo_bye = Inr d" "Signature demo_bye = SignBase64 demo_env (demo_keypair CHR ''b'') d"
    by (simp add: demo_bye_def Let_def signableData_def payload_bytes_def Payload_def service_defs)
  then show "VerifyWithKey demo_env demo_bye (Some (PublicKey (demo_keypair CHR ''b''))) = Inr True"
    using s crypto_ok_demo valid_keypair_demo by (simp add: VerifyWithKey_def SignBase64_def)
qed

lemma ledger_Trigger: "Projections_Trigger G net = Inr net' \<Longrightarrow> nw_SyncLedger net' = nw_SyncLedger net"
  by (auto simp: Projections_Trigger_def clout_RunOnce_def opinion_RunOnce_def go_bind_eq_Inr effect_def)

lemma demo_bye_added:
  assumes "ID demo_bye \<notin> eventIDs l" and "int (length (Events l)) < MaxEvents l"
  shows "AddEvent demo_env demo_bye l = Inr (True, append_event demo_bye l, notifyListeners l demo_bye)"
proof -
  have "\<not> is_observation demo_bye" "\<not> shouldFilterCheckpoint demo_bye" "make_room_for_ping demo_bye l = Some l"
    by (simp_all add: is_observation_def shouldFilterCheckpoint_def make_room_for_ping_def demo_bye_fields(1) service_defs)
  moreover have "prune_if_over demo_env (append_event demo_bye l) = append_event demo_bye l"
    using assms(2) by (simp add: prune_if_over_def append_event_def)
  ultimately show ?thesis using assms(1) by (simp add: AddEvent_def with_id_def demo_bye_fields)
qed

theorem dm_authentic_witness:
  "\<exists>w net' e. meshAuthMiddleware demo_env demo_quiet_peers demo_clock (\<lambda>url. None) (\<lambda>c. []) ''/dm''
       (httpDMHandler demo_env demo_quiet_peers demo_clock) (demo_knock ''POST'' (Some demo_bye)) demo_mesh_net = Inr (Answered w, net') \<and>
     nw_SyncLedger net' \<noteq> demo_memory \<and> e = demo_bye \<and> (\<exists>net1. genuine_message demo_env net1 e)"
proof -
  let ?r = "demo_knock ''POST'' (Some demo_bye)"
  obtain net1 where l: "with_ledger demo_env (AddEvent demo_env demo_bye) demo_mesh_net = Inr (True, net1)" "Events (nw_SyncLedger net1) \<noteq> Events demo_memory"
    by (simp add: with_ledger_def demo_bye_added linked_ledger_def SetUnknownNaraChecker_def demo_mesh_facts demo_bye_fields(3)
        demo_memory_def demo_ledger_def NewSyncLedger_def append_event_def effect_def)
  have "presence_wf net1" using good_with_ledger [OF demo_mesh_wf good_add_intros(1) [OF sort_algorithm_demo demo_bye_fields(7)], of demo_env] l(1) by (auto simp: good_def)
  then obtain net2 where t: "Projections_Trigger demo_env net1 = Inr net2"
    using good_Trigger [of net1 demo_env] by (auto simp: good_def)
  let ?net' = "broadcastSSE demo_bye net2"
  have a: "accept_dm demo_env demo_quiet_peers demo_clock demo_bye demo_mesh_net = Inr (True, ?net')"
    using l(1) t demo_bye_fields(1) by (simp add: accept_dm_def service_defs)
  have h: "httpDMHandler demo_env demo_quiet_peers demo_clock (?r\<lparr>hq_Header := x\<rparr>) demo_mesh_net =
      Inr (http_json \<lparr>da_success = True, da_from = meName ?net'\<rparr>, ?net')" for x
    using known_key_resolved [OF demo_mesh_facts(4)] a by (simp add: httpDMHandler_def demo_bye_fields demo_knock_authentic(4,5))
  obtain w where w: "meshAuthMiddleware demo_env demo_quiet_peers demo_clock (\<lambda>url. None) (\<lambda>c. []) ''/dm''
       (httpDMHandler demo_env demo_quiet_peers demo_clock) ?r demo_mesh_net = Inr (Answered w, ?net')"
    using h by (simp add: meshAuthMiddleware_def demo_knock_accepted)
  have "nw_SyncLedger ?net' \<noteq> nw_SyncLedger demo_mesh_net"
    using l(2) ledger_Trigger [OF t] demo_mesh_facts(1) by (auto simp: broadcastSSE_def effect_def)
  then show ?thesis
    using dm_authentic [OF demo_mesh_wf _ w] w by (auto simp: demo_knock_authentic(5) demo_mesh_facts(1))
qed

theorem discovery_never_vouches_witness:
  "\<exists>nara. discover_peer demo_env demo_quiet_peers demo_clock ''lisa'' \<lparr>dp_Name = ''krusty'', dp_MeshIP = ''100.64.0.9'', dp_PublicKey = []\<rparr> demo_net =
     go_bind (import_new demo_env nara demo_net) (recordObservationOnlineNara demo_env demo_quiet_peers demo_clock ''krusty'' 0)"
  using discovery_never_vouches [OF sort_algorithm_demo demo_net_wf, of "\<lparr>dp_Name = ''krusty'', dp_MeshIP = ''100.64.0.9'', dp_PublicKey = []\<rparr>" "''lisa''"]
  by (auto simp: demo_observations)

end
