(* ===== verification/Backup_Properties.thy ===== *)
theory Backup_Properties
  imports Backup Gossip_Properties
begin

text \<open>
  What a backup guarantees: only the owner of the soul can import, a restore is accepted batch by batch, a dump has every event once, and a peer is read completely over the mesh.
\<close>

section \<open>Import\<close>

definition import_authentic :: "go_env \<Rightarrow> clock \<Rightarrow> EventImportRequest \<Rightarrow> string \<Rightarrow> bool" where
  \<comment> \<open>the request is signed, at most five minutes ago, under the key\<close>
  "import_authentic G T req k \<longleftrightarrow>
     \<bar>ck_nano T - im_Timestamp req * 1000000000\<bar> \<le> 300000000000 \<and>
     (\<exists>sig. base64_Decode G (im_Signature req) = Some sig \<and> VerifySignature G k (import_SigningData G req) sig)"

lemma verifySoulAuth_iff: "verifySoulAuth G T req net = None \<longleftrightarrow> import_authentic G T req (PublicKey (my_keypair net))"
  by (auto simp: verifySoulAuth_def import_authentic_def nanos_since_def Let_def split: option.split)

lemma import_request_authentic:
  assumes "crypto_ok G" and "valid_keypair G kp" and "\<bar>ck_nano T - ck_sec C * 1000000000\<bar> \<le> 300000000000"
  shows "import_authentic G T (import_request G C kp batch) (PublicKey kp)"
proof -
  have d: "import_SigningData G (import_request G C kp batch) =
      import_SigningData G \<lparr>im_Events = batch, im_Timestamp = ck_sec C, im_Signature = []\<rparr>"
    by (simp add: import_SigningData_def import_request_def)
  show ?thesis
    unfolding import_authentic_def d using assms
    by (simp add: import_request_def SignBase64_def)
qed

text \<open>
  C8: Only the owner imports. A request to import events changes the nara only if it carries a signature, at most five
  minutes old, under the key of the nara itself.
\<close>

theorem import_owner_only:
  assumes "httpEventsImportHandler G P T r net = Inr (w, net')" and "net' \<noteq> net"
  shows "\<exists>req. hq_Body r = Some req \<and> import_authentic G T req (PublicKey (my_keypair net))"
proof -
  obtain req where "hq_Body r = Some req" "verifySoulAuth G T req net = None"
    using assms by (auto simp: httpEventsImportHandler_def split: if_splits option.splits)
  then show ?thesis using verifySoulAuth_iff by blast
qed

section \<open>Restore\<close>

definition import_server :: "go_env \<Rightarrow> peers \<Rightarrow> clock \<Rightarrow> nara_net import_exchange" where
  "import_server G P T req net =
     (case httpEventsImportHandler G P T
             \<lparr>hq_Method = ''POST'', hq_Path = ''/api/events/import'', hq_Header = [''Content-Type'' \<mapsto> ''application/json''],
              hq_RemoteAddr = [], hq_Body = Some req\<rparr> net of
        Inl panic \<Rightarrow> (None, net)
      | Inr (w, net1) \<Rightarrow> (Some (on_the_wire (Answered w)), net1))"

text \<open>The nara that is restored to, with the events of the requests that it has accepted so far.\<close>

definition recorded_server :: "go_env \<Rightarrow> peers \<Rightarrow> clock \<Rightarrow> (nara_net \<times> SyncEvent list) import_exchange" where
  "recorded_server G P T req st =
     (case import_server G P T req (fst st) of (result, net1) \<Rightarrow>
        (result, (net1, if map_option fst result = Some 200 then snd st @ im_Events req else snd st)))"

lemma batch_restored:
  assumes srt: "sort_algorithm (sort_perm G)" and wf: "presence_wf net" and "crypto_ok G" and kp: "valid_keypair G (my_keypair net)"
    and "\<forall>e \<in> set batch. sound_event e" and "\<bar>ck_nano T - ck_sec C * 1000000000\<bar> \<le> 300000000000"
  obtains counts net' where "postImportRequest (recorded_server G P T) (import_request G C (my_keypair net) batch) (net, taken) =
      (Inr counts, (net', taken @ batch))" and "presence_wf net'" and "net_ext net net'"
proof -
  let ?req = "import_request G C (my_keypair net) batch"
  have ev: "im_Events ?req = batch" by (simp add: import_request_def)
  have a: "verifySoulAuth G T ?req net = None"
    unfolding verifySoulAuth_iff by (rule import_request_authentic [OF assms(3) kp assms(6)])
  obtain imported warned net' where m: "MergeSyncEventsWithVerification G P T batch net = Inr (imported, warned, net')"
    "presence_wf net'" "net_ext net net'"
    using good_MergeSyncEvents [OF srt wf assms(5), of P T] by (auto simp: good_def)
  then show ?thesis
    using that a ev by (simp add: postImportRequest_def recorded_server_def import_server_def httpEventsImportHandler_def on_the_wire_def)
qed

lemma restore_accepted:
  assumes srt: "sort_algorithm (sort_perm G)" and "crypto_ok G" and "valid_keypair G kp"
    and "\<And>b. \<bar>ck_nano (T b) - ck_sec (C b) * 1000000000\<bar> \<le> 300000000000"
    and "presence_wf net" and "my_keypair net = kp" and "\<forall>e \<in> set evs. sound_event e"
  shows "\<exists>totals' net'. restore_batches G C kp (\<lambda>b. recorded_server G P (T b)) b evs totals (net, taken) = (Inr totals', (net', taken @ evs)) \<and>
    presence_wf net' \<and> net_ext net net'"
  using assms(5-)
proof (induction "length evs" arbitrary: evs net totals b taken rule: less_induct)
  case less
  show ?case
  proof (cases "evs = []")
    case True
    then show ?thesis using less.prems by (cases totals) (simp add: restore_batches.simps)
  next
    case False
    let ?batch = "take 2000 evs" and ?rest = "drop 2000 evs"
    have s: "\<forall>e \<in> set ?batch. sound_event e" "\<forall>e \<in> set ?rest. sound_event e"
      using less.prems(3) by (auto dest: in_set_takeD in_set_dropD)
    obtain counts net1 where m: "postImportRequest (recorded_server G P (T b)) (import_request G (C b) kp ?batch) (net, taken) =
        (Inr counts, (net1, taken @ ?batch))" "presence_wf net1" "net_ext net net1"
      using batch_restored [OF srt less.prems(1) assms(2) _ s(1) assms(4)] assms(3) less.prems(2) by metis
    have k: "my_keypair net1 = kp" using net_ext_identity(3) [OF less.prems(1) m(3)] less.prems(2) by simp
    obtain totals' net' where r: "restore_batches G C kp (\<lambda>b. recorded_server G P (T b)) (b + 1) ?rest (add_totals totals counts)
          (net1, taken @ ?batch) = (Inr totals', (net', (taken @ ?batch) @ ?rest))" "presence_wf net'" "net_ext net1 net'"
      using less.hyps [OF _ m(2) k s(2)] False by fastforce
    have "restore_batches G C kp (\<lambda>b. recorded_server G P (T b)) b evs totals (net, taken) = (Inr totals', (net', taken @ evs))"
      using False m(1) r(1) by (subst restore_batches.simps) simp
    then show ?thesis using r(2,3) net_ext_trans [OF m(3) r(3)] by blast
  qed
qed

lemma read_marshalled:
  assumes "\<forall>e \<in> set evs. marshal e \<noteq> [] \<and> length (marshal e) < 65536 \<and> drop_cr (marshal e) = marshal e \<and> unmarshal (marshal e) = Some e"
  shows "read_events unmarshal n (map marshal evs) = Inr evs"
  using assms by (induction evs arbitrary: n) auto

text \<open>
  C9: A backup can be restored. With the soul of the nara and clocks that agree to five minutes at every batch, a backup whose lines
  hold one event each (with a payload and an ID of at least eight bytes, in less than 64 KB, decoded as it was written) is
  read and sent in signed batches that are all accepted: the tool ends with totals and without an error, the import handler has
  been given every event of the backup once and in order, and the nara stays well formed and keeps its identity. Which of the
  events its ledger then takes is what \<open>AddEvent\<close> decides.
\<close>

theorem restore_completes:
  assumes "sort_algorithm (sort_perm G)" and "crypto_ok G" and "ParseSoul S soulStr = Some soul"
    and "valid_keypair G (DeriveKeypair S soul)" and "presence_wf net" and "my_keypair net = DeriveKeypair S soul"
    and "\<And>b. \<bar>ck_nano (T b) - ck_sec (C b) * 1000000000\<bar> \<le> 300000000000"
    and "\<forall>e \<in> set evs. sound_event e \<and> marshal e \<noteq> [] \<and> length (marshal e) < 65536 \<and> drop_cr (marshal e) = marshal e \<and>
      unmarshal (marshal e) = Some e"
  shows "\<exists>totals net'. restoreEventsCmd G S C unmarshal (\<lambda>b. recorded_server G P (T b)) soulStr (map marshal evs) (net, []) =
      (Inr totals, (net', evs)) \<and> presence_wf net' \<and> net_ext net net'"
proof -
  have "read_events unmarshal 0 (map marshal evs) = Inr evs" using assms(8) by (intro read_marshalled) blast
  moreover have "\<exists>totals' net'. restore_batches G C (DeriveKeypair S soul) (\<lambda>b. recorded_server G P (T b)) 0 evs (0, 0, 0) (net, []) =
      (Inr totals', (net', [] @ evs)) \<and> presence_wf net' \<and> net_ext net net'"
    by (rule restore_accepted [OF assms(1,2,4,7,5,6)]) (use assms(8) in auto)
  ultimately show ?thesis using assms(3) by (simp add: restoreEventsCmd_def)
qed

section \<open>Dump\<close>

lemma dump_new_spec:
  "dump_new evs seen = (out, seen') \<Longrightarrow>
    distinct (map ID out) \<and> ID ` set out = ID ` set evs - seen - {[]} \<and> set out \<subseteq> set evs \<and> seen' = seen \<union> ID ` set out"
proof (induction evs seen arbitrary: out rule: dump_new.induct)
  case (2 event evs seenIDs)
  show ?case
  proof (cases "ID event = [] \<or> ID event \<in> seenIDs")
    case True
    then show ?thesis using 2 by auto
  next
    case False
    obtain out1 where o: "dump_new evs (insert (ID event) seenIDs) = (out1, seen')" "out = event # out1"
      using 2(3) False by (auto split: prod.splits)
    then show ?thesis using 2(2) [OF False o(1)] False by auto
  qed
qed simp

lemma dump_results_spec:
  "dump_results results seen = (out, seen') \<Longrightarrow>
    distinct (map ID out) \<and> ID ` set out = (\<Union>evs \<in> {evs. Some evs \<in> set results}. ID ` set evs) - seen - {[]} \<and>
    seen' = seen \<union> ID ` set out"
proof (induction results seen arbitrary: out seen' rule: dump_results.induct)
  case (3 evs results seenIDs)
  obtain o1 s1 o2 where d: "dump_new evs seenIDs = (o1, s1)" "dump_results results s1 = (o2, seen')" "out = o1 @ o2"
    using 3(2) by (auto split: prod.splits)
  define U where "U = (\<Union>evs \<in> {evs. Some evs \<in> set results}. ID ` set evs)"
  have n: "distinct (map ID o1)" "ID ` set o1 = ID ` set evs - seenIDs - {[]}" "s1 = seenIDs \<union> ID ` set o1"
    using dump_new_spec [OF d(1)] by blast+
  have r: "distinct (map ID o2)" "ID ` set o2 = U - s1 - {[]}" "seen' = s1 \<union> ID ` set o2"
    using 3(1) [OF d(1) [symmetric] d(2)] unfolding U_def by blast+
  have u: "(\<Union>evs \<in> {evs'. Some evs' \<in> set (Some evs # results)}. ID ` set evs) = ID ` set evs \<union> U"
    unfolding U_def by auto
  have "ID ` set o1 \<inter> ID ` set o2 = {}" unfolding r(2) n(3) by blast
  then have "distinct (map ID out)" using n(1) r(1) by (simp add: d(3))
  moreover have "ID ` set out = ID ` set evs \<union> U - seenIDs - {[]}" unfolding d(3) set_append image_Un r(2) n(2,3) by blast
  ultimately show ?case unfolding u using n(3) r(3) by (auto simp: d(3))
qed auto

text \<open>
  C40: A dump has every event once. From the answers of the peers, in whatever order they arrive, exactly the events with an
  ID that is not in the file of earlier backups are written, no ID twice.
\<close>

theorem dump_deduplicates:
  assumes "dump_results results seenIDs = (out, seenIDs')"
  shows "distinct (map ID out) \<and>
    ID ` set out = (\<Union>evs \<in> {evs. Some evs \<in> set results}. ID ` set evs) - seenIDs - {[]}"
  using dump_results_spec [OF assms] by blast

text \<open>What the tool reads from a peer over the mesh is the whole of its ledger.\<close>

theorem peer_read_completely:
  assumes "sort_algorithm (sort_perm G)" and "crypto_ok G" and "presence_wf net"
    and "valid_keypair G (DeriveKeypair S soul)" and "name \<noteq> []"
    and "getPublicKeyForNara G net name = Some (PublicKey (DeriveKeypair S soul))"
    and "\<And>c. in_i64 (unix_milli (C c)) \<and> \<bar>ck_nano (T c) - unix_milli (C c) * 1000000\<bar> \<le> MeshAuthMaxAge"
    and "\<forall>e \<in> set (Events (nw_SyncLedger net)). 0 < Timestamp e \<and> in_i64 (Timestamp e)"
    and "distinct (map Timestamp (Events (nw_SyncLedger net)))" and "length (Events (nw_SyncLedger net)) < fuel"
  shows "FetchEvents fuel G C (\<lambda>c. reached addr (sync_server G P ping encode key (T c)) net) (NewBackupMesh S name soul) ip hostName =
    Fetched (sort_key Timestamp (Events (nw_SyncLedger net)))"
proof -
  let ?m = "client_RegisterPeerIP (backup_peer_id hostName) ip (NewBackupMesh S name soul)"
  have m: "mc_name ?m = name" "mc_keypair ?m = DeriveKeypair S soul" "HasPeer (backup_peer_id hostName) ?m"
    by (simp_all add: client_RegisterPeerIP_def NewBackupMesh_def NewMeshClient_def HasPeer_def)
  have z: "zero_request\<lparr>rq_Mode := ''page'', rq_Services := [], rq_Cursor := c, rq_PageSize := int 5000\<rparr> =
      zero_request\<lparr>rq_Mode := ''page'', rq_PageSize := 5000, rq_Cursor := c\<rparr>" for c by (simp add: zero_request_def)
  show ?thesis
    using pages_over_mesh [OF assms(1-3), where m = ?m and i = "backup_peer_id hostName" and C = C and S = T and services = "[]" and fuel = fuel
      and n = 5000 and addr = addr and P = P and ping = ping and encode = encode and key = key] m assms(4-10)
    by (simp only: FetchEvents_def Let_def z matching_all) simp
qed

section \<open>Examples\<close>

text \<open>Here a private key is the seed followed by the public key, as \<open>DeriveKeypair\<close> makes it.\<close>

definition demo_seed_env :: go_env where
  "demo_seed_env = demo_env\<lparr>ed25519_Sign := \<lambda>k m. pad64 (drop 32 k @ m)\<rparr>"

definition demo_owner :: NaraKeypair where
  "demo_owner = DeriveKeypair demo_souls32 zero_soul"

definition demo_soul_text :: string where
  "demo_soul_text = replicate SoulLen (char_of (0 :: nat))"

definition demo_own_net :: nara_net where
  "demo_own_net = NewNetwork demo_me demo_owner demo_soul_text DefaultMemoryProfile"

lemma demo_owner_ok:
  "sort_algorithm (sort_perm demo_seed_env)" "crypto_ok demo_seed_env" "valid_keypair demo_seed_env demo_owner"
  "ParseSoul demo_souls32 demo_soul_text = Some zero_soul" "presence_wf demo_own_net" "my_keypair demo_own_net = demo_owner"
proof -
  have p: "length (PublicKey demo_owner) = 32" "drop 32 (PrivateKey demo_owner) = PublicKey demo_owner"
    by (simp_all add: demo_owner_def DeriveKeypair_def demo_souls32_def zero_soul_def SeedLen_def Let_def)
  show "sort_algorithm (sort_perm demo_seed_env)" "crypto_ok demo_seed_env"
    using sort_algorithm_demo crypto_ok_demo by (simp_all add: demo_seed_env_def crypto_ok_def SignatureSize_def)
  show "valid_keypair demo_seed_env demo_owner"
    using p by (simp add: valid_keypair_def demo_seed_env_def PublicKeySize_def)
  show "ParseSoul demo_souls32 demo_soul_text = Some zero_soul"
    by (simp add: ParseSoul_def demo_souls32_def demo_souls_def demo_soul_text_def zero_soul_def SoulLen_def SeedLen_def TagLen_def Let_def)
  show "presence_wf demo_own_net"
    unfolding demo_own_net_def by (rule NewNetwork_wf) (simp_all add: demo_me_def p PublicKeySize_def)
  show "my_keypair demo_own_net = demo_owner"
    by (simp add: demo_own_net_def NewNetwork_def my_keypair_def New_Keyring_def)
qed

lemma merge_nothing:
  "\<exists>net'. MergeSyncEventsWithVerification G P T [] net = Inr (0, 0, net') \<and> nn_effects net' = nn_effects net @ [NotifyListeners []]"
  by (simp add: MergeSyncEventsWithVerification_def discoverNarasFromEvents_def processHeyThereSyncEvents_def processChauSyncEvents_def
      markEmittersAsSeen_def MergeEvents_def FilterEventsForIngestion_def effect_def Let_def)

lemma demo_now_sec: "\<bar>ck_nano demo_clock - ck_sec demo_clock * 1000000000\<bar> \<le> 300000000000"
  by (simp add: demo_clock_def ck_sec_def)

theorem import_owner_only_witness:
  "\<exists>r w net'. httpEventsImportHandler demo_seed_env demo_quiet_peers demo_clock r demo_own_net = Inr (w, net') \<and>
     (\<exists>req. hq_Body r = Some req \<and> import_authentic demo_seed_env demo_clock req (PublicKey demo_owner))"
proof -
  define req where "req = import_request demo_seed_env demo_clock demo_owner []"
  define r where "r = \<lparr>hq_Method = ''POST'', hq_Path = ''/api/events/import'', hq_Header = Map.empty, hq_RemoteAddr = [], hq_Body = Some req\<rparr>"
  have a: "verifySoulAuth demo_seed_env demo_clock req demo_own_net = None"
    unfolding verifySoulAuth_iff req_def demo_owner_ok(6) by (rule import_request_authentic [OF demo_owner_ok(2,3) demo_now_sec])
  obtain net' where m: "MergeSyncEventsWithVerification demo_seed_env demo_quiet_peers demo_clock [] demo_own_net = Inr (0, 0, net')"
    "nn_effects net' = nn_effects demo_own_net @ [NotifyListeners []]"
    using merge_nothing by blast
  obtain w where w: "httpEventsImportHandler demo_seed_env demo_quiet_peers demo_clock r demo_own_net = Inr (w, net')"
    using a m(1) by (simp add: httpEventsImportHandler_def r_def req_def import_request_def)
  have "net' \<noteq> demo_own_net" using m(2) by auto
  then show ?thesis using import_owner_only [OF w] w demo_owner_ok(6) by auto
qed

definition demo_line :: "SyncEvent \<Rightarrow> string" where
  "demo_line e = ID e"

theorem restore_completes_witness:
  "\<exists>totals net'. restoreEventsCmd demo_seed_env demo_souls32 (\<lambda>b. demo_clock) (\<lambda>l. Some (demo_ping l 7))
       (\<lambda>b. recorded_server demo_seed_env demo_quiet_peers demo_clock) demo_soul_text [''ping-one'', ''ping-two''] (demo_own_net, []) =
     (Inr totals, (net', [demo_ping ''ping-one'' 7, demo_ping ''ping-two'' 7])) \<and> presence_wf net'"
proof -
  let ?evs = "[demo_ping ''ping-one'' 7, demo_ping ''ping-two'' 7]"
  have "\<exists>totals net'. restoreEventsCmd demo_seed_env demo_souls32 (\<lambda>b. demo_clock) (\<lambda>l. Some (demo_ping l 7))
       (\<lambda>b. recorded_server demo_seed_env demo_quiet_peers demo_clock) demo_soul_text (map demo_line ?evs) (demo_own_net, []) =
     (Inr totals, (net', ?evs)) \<and> presence_wf net' \<and> net_ext demo_own_net net'"
    by (rule restore_completes [OF demo_owner_ok(1,2,4) demo_owner_ok(3) [unfolded demo_owner_def] demo_owner_ok(5)
          demo_owner_ok(6) [unfolded demo_owner_def] demo_now_sec])
      (simp_all add: demo_line_def sound_event_def drop_cr_def)
  then show ?thesis by (auto simp: demo_line_def)
qed

theorem dump_deduplicates_witness:
  "\<exists>out seen. dump_results [Some [demo_ping ''x'' 1, demo_ping ''y'' 2], None, Some [demo_ping ''y'' 2, demo_ping [] 3]] {''x''} = (out, seen) \<and>
     ID ` set out = {''y''}"
proof -
  obtain out seen where d: "dump_results [Some [demo_ping ''x'' 1, demo_ping ''y'' 2], None, Some [demo_ping ''y'' 2, demo_ping [] 3]] {''x''} = (out, seen)"
    by fastforce
  have "{evs. Some evs \<in> set [Some [demo_ping ''x'' 1, demo_ping ''y'' 2], None, Some [demo_ping ''y'' 2, demo_ping [] 3]]} =
      {[demo_ping ''x'' 1, demo_ping ''y'' 2], [demo_ping ''y'' 2, demo_ping [] 3]}" by auto
  then show ?thesis using dump_deduplicates [OF d] d by (auto simp: image_def)
qed

end
