(* ===== verification/Runtime_Network.thy ===== *)
theory Runtime_Network
  imports Stash_Network Mesh_Client
begin

text \<open>
  The runtime of a nara on its network (\<open>runtime_adapters.go\<close>, \<open>runtime_integration.go\<close>,
  \<open>http_mesh_message.go\<close>, \<open>network_context.go\<close>): the adapters between the record of the network and the interfaces of
  the runtime, the runtime they make with the stash service, and the handler that messages come in by. What is outside of
  the nara, as its peers and the broker are, is a state of its own, the type variable \<open>'w\<close>, which requests act on.
\<close>

type_synonym 'w host = "nara_net \<times> 'w"

text \<open>
  \<open>he_post\<close> makes a request and gives the status of the answer, \<open>he_publish\<close> publishes on a topic and tells whether
  there was no error (\<open>None\<close> is a client that is nil), \<open>he_rand\<close> is \<open>rand.Read\<close>, and \<open>he_wait\<close> is what happens
  until the result of a call, which came through the channel, is there.
\<close>

record 'w host_env =
  he_G :: go_env
  he_S :: soul_env
  he_C :: "stash_payload codec"
  he_A :: aead
  he_u :: unmarshallers
  he_T :: clock
  he_post :: "string \<Rightarrow> string option http_request \<Rightarrow> 'w \<Rightarrow> int option \<times> 'w"
  he_publish :: "(string \<Rightarrow> string \<Rightarrow> 'w \<Rightarrow> 'w \<times> bool) option"
  he_rand :: "'w \<Rightarrow> string option"
  he_wait :: "nat \<Rightarrow> 'w host world \<Rightarrow> 'w host world \<times> stash_payload CallResult"

section \<open>Adapters\<close>

definition message_request :: "go_env \<Rightarrow> clock \<Rightarrow> MeshClient \<Rightarrow> string \<Rightarrow> string \<Rightarrow> string option http_request" where
  "message_request G T m url msgBytes =
     signRequest G T m (set_header ''Content-Type'' ''application/json'' (new_request ''POST'' url (Some msgBytes)))"

text \<open>\<open>SendRuntimeMessage\<close>, with what the request does outside.\<close>

definition send_runtime_message :: "'w host_env \<Rightarrow> MeshClient \<Rightarrow> NaraID \<Rightarrow> string \<Rightarrow> 'w \<Rightarrow> 'w \<times> bool" where
  "send_runtime_message H m naraID msgBytes w =
     (case buildURL m naraID ''/mesh/message'' of
        Inl err \<Rightarrow> (w, False)
      | Inr url \<Rightarrow> (case he_post H url (message_request (he_G H) (he_T H) m url msgBytes) w of
                     (answer, w') \<Rightarrow> (w', answer = Some 200)))"

lemma send_runtime_message_SendRuntimeMessage:
  "snd (send_runtime_message H m naraID msgBytes w) \<longleftrightarrow>
     SendRuntimeMessage (he_G H) (he_T H) (\<lambda>url r. map_option (\<lambda>status. (status, None)) (fst (he_post H url r w))) m naraID msgBytes = Inr ()"
  by (auto simp: send_runtime_message_def SendRuntimeMessage_def post_signed_def ignored_def message_request_def
      split: sum.split option.split prod.split)

text \<open>\<open>NewNetwork\<close> makes the mesh client, so the check whether it is nil never holds.\<close>

definition TrySendDirect :: "'w host_env \<Rightarrow> NaraID \<Rightarrow> stash_payload Message \<Rightarrow> 'w host \<Rightarrow> 'w host \<times> bool" where
  "TrySendDirect H targetID msg hst =
     (let (net, w) = hst
      in case Message_Marshal (he_G H) (he_C H) msg of
           None \<Rightarrow> ((net, w), False)
         | Some msgBytes \<Rightarrow>
             (case send_runtime_message H (network_client net) targetID msgBytes w of (w', ok) \<Rightarrow> ((net, w'), ok)))"

definition PublishMQTT :: "'w host_env \<Rightarrow> string \<Rightarrow> string \<Rightarrow> 'w host \<Rightarrow> 'w host \<times> bool" where
  "PublishMQTT H topic d hst =
     (let (net, w) = hst
      in case he_publish H of
           None \<Rightarrow> ((net, w), False)
         | Some pub \<Rightarrow> (case pub topic d w of (w', ok) \<Rightarrow> ((net, w'), ok)))"

definition KeypairAdapter_Sign :: "go_env \<Rightarrow> NaraKeypair \<Rightarrow> string \<Rightarrow> string" where
  "KeypairAdapter_Sign G keypair d = KeypairSign G keypair d"

text \<open>The encryption key that \<open>DeriveKeypair\<close> caches in the keypair is derived from its private key.\<close>

definition KeypairAdapter_Seal :: "soul_env \<Rightarrow> aead \<Rightarrow> NaraKeypair \<Rightarrow> string option \<Rightarrow> string \<Rightarrow> (string \<times> string) option" where
  "KeypairAdapter_Seal S A keypair random plaintext =
     EncryptForSelf A (DeriveEncryptionKeys S (PrivateKey keypair)) random plaintext"

definition KeypairAdapter_Open :: "soul_env \<Rightarrow> aead \<Rightarrow> NaraKeypair \<Rightarrow> string \<Rightarrow> string \<Rightarrow> string option" where
  "KeypairAdapter_Open S A keypair nonce ciphertext =
     DecryptForSelf A (DeriveEncryptionKeys S (PrivateKey keypair)) nonce ciphertext"

text \<open>The event bus: the handlers of every kind, in the order of their subscription.\<close>

type_synonym ('p, 's) event_bus = "string \<rightharpoonup> ('p Message \<Rightarrow> 's \<Rightarrow> 's) list"

definition NewEventBusAdapter :: "('p, 's) event_bus" where
  "NewEventBusAdapter = Map.empty"

definition bus_handlers :: "('p, 's) event_bus \<Rightarrow> string \<Rightarrow> ('p Message \<Rightarrow> 's \<Rightarrow> 's) list" where
  "bus_handlers bus kind = (case bus kind of None \<Rightarrow> [] | Some hs \<Rightarrow> hs)"

definition EventBus_Subscribe ::
  "string \<Rightarrow> ('p Message \<Rightarrow> 's \<Rightarrow> 's) \<Rightarrow> ('p, 's) event_bus \<Rightarrow> ('p, 's) event_bus" where
  "EventBus_Subscribe kind handler bus = bus(kind \<mapsto> bus_handlers bus kind @ [handler])"

definition EventBus_Emit :: "('p, 's) event_bus \<Rightarrow> 'p Message \<Rightarrow> 's \<Rightarrow> 's" where
  "EventBus_Emit bus msg st = fold (\<lambda>handler. handler msg) (bus_handlers bus (m_Kind msg)) st"

definition IdentityAdapter_LookupPublicKey :: "NaraID \<Rightarrow> nara_net \<Rightarrow> string option" where
  "IdentityAdapter_LookupPublicKey i net = getPublicKeyForNaraID net i"

definition IdentityAdapter_RegisterPublicKey :: "NaraID \<Rightarrow> string \<Rightarrow> nara_net \<Rightarrow> nara_net" where
  "IdentityAdapter_RegisterPublicKey i key net =
     (case getNaraByID net i of
        None \<Rightarrow> net
      | Some r \<Rightarrow> if st_PublicKey (na_Status (nara_at net r)) = [] then set_status r (\<lambda>s. s\<lparr>st_PublicKey := key\<rparr>) net else net)"

text \<open>The ledger and the gossip queue keep nothing and know nothing.\<close>

definition LedgerAdapter_Add :: "'p Message \<Rightarrow> int \<Rightarrow> 's \<Rightarrow> 's \<times> bool" where
  "LedgerAdapter_Add msg priority st = (st, True)"

definition LedgerAdapter_HasID :: "string \<Rightarrow> 's \<Rightarrow> bool" where
  "LedgerAdapter_HasID i st = False"

definition LedgerAdapter_HasContentKey :: "string \<Rightarrow> 's \<Rightarrow> bool" where
  "LedgerAdapter_HasContentKey contentKey st = False"

definition GossipQueueAdapter_Add :: "'p Message \<Rightarrow> 's \<Rightarrow> 's" where
  "GossipQueueAdapter_Add msg st = st"

definition peer_observation :: "nara_net \<Rightarrow> NaraName \<Rightarrow> NaraObservation option" where
  "peer_observation net name = (case st_Observations (me_status net) of None \<Rightarrow> None | Some observations \<Rightarrow> map_of observations name)"

definition peer_uptime :: "clock \<Rightarrow> NaraObservation \<Rightarrow> int" where
  "peer_uptime T obs =
     (if no_LastRestart obs > 0 then nanos_since T (no_LastRestart obs * 1000000000)
      else if no_StartTime obs > 0 then nanos_since T (no_StartTime obs * 1000000000) else 0)"

definition OnlinePeers :: "clock \<Rightarrow> nara_net \<Rightarrow> PeerInfo list" where
  "OnlinePeers T net =
     concat (map (\<lambda>(name, r).
       case peer_observation net name of
         None \<Rightarrow> []
       | Some obs \<Rightarrow> if isOnline obs
                     then [\<lparr>pi_ID = na_ID (nara_at net r), pi_Name = na_Name (nara_at net r), pi_Uptime = peer_uptime T obs\<rparr>]
                     else []) (nw_Neighbourhood net))"

definition network_MemoryMode :: "nara_net \<Rightarrow> string" where
  "network_MemoryMode net = st_MemoryMode (me_status net)"

section \<open>The runtime of a network\<close>

definition on_host :: "('h \<Rightarrow> 'h \<times> bool) \<Rightarrow> 'h world \<Rightarrow> 'h world \<times> bool" where
  "on_host f st = (let (r, s, h) = st in case f h of (h', ok) \<Rightarrow> ((r, s, h'), ok))"

text \<open>\<open>net0\<close> is the network when the runtime is made: its keys, names and personality are copied.\<close>

definition network_pipeline :: "'w host_env \<Rightarrow> nara_net \<Rightarrow> (stash_payload, 'w host world) PipelineContext" where
  "network_pipeline H net0 =
     \<lparr>px_Ledger = Some \<lparr>lg_Add = LedgerAdapter_Add, lg_HasID = LedgerAdapter_HasID, lg_HasContentKey = LedgerAdapter_HasContentKey\<rparr>,
      px_Transport = Some \<lparr>tp_PublishMQTT = (\<lambda>topic d. on_host (PublishMQTT H topic d)),
        tp_TrySendDirect = (\<lambda>targetID msg. on_host (TrySendDirect H targetID msg))\<rparr>,
      px_GossipQueue = Some GossipQueueAdapter_Add,
      px_Sign = KeypairAdapter_Sign (he_G H) (my_keypair net0),
      px_LookupPublicKey = (\<lambda>i (r, s, net, w). IdentityAdapter_LookupPublicKey i net),
      px_RegisterPublicKey = (\<lambda>i key (r, s, net, w). (r, s, IdentityAdapter_RegisterPublicKey i key net, w)),
      px_Personality = (let p = st_Personality (me_status net0)
        in Some \<lparr>rp_Agreeableness = Agreeableness p, rp_Sociability = Sociability p, rp_Chill = Chill p\<rparr>),
      px_EventBus = Some (EventBus_Emit NewEventBusAdapter)\<rparr>"

definition NewRuntime_on :: "'w host_env \<Rightarrow> nara_net \<Rightarrow> (stash_payload, 'w host world) Runtime" where
  "NewRuntime_on H net0 =
     \<lparr>rt_me = Some (nw_ID net0, meName net0), rt_context = network_pipeline H net0, rt_localBehaviors = Map.empty\<rparr>"

text \<open>As in \<open>Stash_Network\<close>, emitting reads no handler.\<close>

definition network_emitter :: "'w host_env \<Rightarrow> nara_net \<Rightarrow> (stash_payload, 'w host world) Runtime" where
  "network_emitter H net0 = RegisterBehaviors (\<lambda>m p st. (st, True)) (he_u H) (NewRuntime_on H net0)"

text \<open>What the service reaches through its runtime when the network is \<open>net\<close>.\<close>

definition network_iface :: "'w host_env \<Rightarrow> nara_net \<Rightarrow> nara_net \<Rightarrow> 'w host RuntimeInterface" where
  "network_iface H net0 net =
     \<lparr>ri_me = (nw_ID net0, meName net0), ri_MemoryMode = network_MemoryMode net,
      ri_OnlinePeers = (\<lambda>(n, w). OnlinePeers (he_T H) n),
      ri_Seal = (\<lambda>d (n, w). ((n, w), KeypairAdapter_Seal (he_S H) (he_A H) (my_keypair net0) (he_rand H w) d)),
      ri_Open = KeypairAdapter_Open (he_S H) (he_A H) (my_keypair net0),
      ri_Emit = emits (he_G H) (he_C H) (network_emitter H net0) (ck_nano (he_T H)),
      ri_Call = (\<lambda>msg timeout st. let ch = length (cr_sent (fst st))
        in he_wait H ch (fst (Call (he_G H) (he_C H) (network_emitter H net0) (ck_nano (he_T H)) ch msg timeout st))),
      ri_now = (\<lambda>h. ck_nano (he_T H))\<rparr>"

definition network_handlers :: "'w host_env \<Rightarrow> nara_net \<Rightarrow> 'w host stash_handlers" where
  "network_handlers H net0 msg p st = stash_handler (network_iface H net0 (fst (snd (snd st)))) msg p st"

definition initRuntime ::
  "'w host_env \<Rightarrow> nara_net \<Rightarrow> ((stash_payload, 'w host world) Runtime \<times> Service) option
   \<Rightarrow> (stash_payload, 'w host world) Runtime \<times> Service" where
  "initRuntime H net rt =
     (case rt of
        Some x \<Rightarrow> x
      | None \<Rightarrow> (RegisterBehaviors (network_handlers H net) (he_u H) (NewRuntime_on H net), NewService))"

text \<open>Starting the service registers its behaviors a second time.\<close>

definition startRuntime ::
  "'w host_env \<Rightarrow> nara_net \<Rightarrow> ((stash_payload, 'w host world) Runtime \<times> Service) option
   \<Rightarrow> ((stash_payload, 'w host world) Runtime \<times> Service) option" where
  "startRuntime H net0 rt = map_option (\<lambda>(x, s). (RegisterBehaviors (network_handlers H net0) (he_u H) x, s)) rt"

section \<open>Messages over HTTP\<close>

text \<open>\<open>unmarshal\<close> is \<open>json.Unmarshal\<close>. A handler can end the process: no result.\<close>

definition httpMeshMessageHandler ::
  "go_env \<Rightarrow> 'p codec \<Rightarrow> (string \<Rightarrow> wire option) \<Rightarrow> ('p, 'p CallRegistry \<times> 's) Runtime option \<Rightarrow> string option http_request
   \<Rightarrow> 'p CallRegistry \<times> 's \<Rightarrow> (unit option http_response \<times> 'p CallRegistry \<times> 's) option" where
  "httpMeshMessageHandler G C unmarshal runtime r st =
     (if hq_Method r \<noteq> ''POST'' then Some (http_error 405, st)
      else case hq_Body r of
             None \<Rightarrow> Some (http_error 400, st)
           | Some body \<Rightarrow>
               (case runtime of
                  None \<Rightarrow> Some (http_error 503, st)
                | Some rt \<Rightarrow>
                    (case Receive G C rt (unmarshal body) st of
                       (st', Exited) \<Rightarrow> None
                     | (st', outcome) \<Rightarrow> Some (\<lparr>hp_Status = 200, hp_Header = Map.empty, hp_Body = None\<rparr>, st'))))"

text \<open>The handler behind the middleware, which acts on the network inside of the state.\<close>

definition mesh_message_endpoint ::
  "'w host_env \<Rightarrow> peers \<Rightarrow> (string \<Rightarrow> ping_answer option) \<Rightarrow> (unit option \<Rightarrow> string) \<Rightarrow> (string \<Rightarrow> wire option)
   \<Rightarrow> (stash_payload, 'w host world) Runtime option \<Rightarrow> string option http_request \<Rightarrow> 'w host world
   \<Rightarrow> (unit option answer \<times> 'w host world) option go" where
  "mesh_message_endpoint H P ping encode unmarshal runtime r st =
     (let (reg, s, net, w) = st
      in go_bind (authenticate (he_G H) P (he_T H) ping r net) (\<lambda>(result, net1).
           case result of
             Inl err \<Rightarrow> Inr (Some (Unauthorized err, (reg, s, net1, w)))
           | Inr sender \<Rightarrow>
               Inr (map_option (\<lambda>(sw, st'). (Answered (finalize (he_G H) (he_T H) encode sw (fst (snd (snd st')))), st'))
                 (httpMeshMessageHandler (he_G H) (he_C H) unmarshal runtime
                    (r\<lparr>hq_Header := (hq_Header r)(''X-Nara-Verified'' \<mapsto> sender)\<rparr>) (reg, s, net1, w)))))"

end
