(* ===== verification/Runtime_Network_Properties.thy ===== *)
theory Runtime_Network_Properties
  imports Runtime_Network Mesh_Properties Stash_Properties
begin

text \<open>
  What the composition of runtime, stash service, mesh client, middleware and keyring gives: a message emitted by one
  nara runs the handler of another (\<open>message_over_mesh\<close>), what it takes to change the service of a nara over HTTP
  (\<open>stash_changed_by_signed_message\<close>), that a message can be replayed (\<open>old_stash_replayed\<close>), and which peers the
  service is told are online.
\<close>

section \<open>The runtime\<close>

lemma network_pipeline_simps [simp]:
  "rt_me (NewRuntime_on H net0) = Some (nw_ID net0, meName net0)"
  "rt_context (NewRuntime_on H net0) = network_pipeline H net0"
  "px_Sign (network_pipeline H net0) = KeypairSign (he_G H) (my_keypair net0)"
  "px_LookupPublicKey (network_pipeline H net0) i (r, s, net, w) = Neighbourhood.getPublicKeyForNaraID net i"
  "notified (network_pipeline H net0) m st = st"
  "known_duplicate (network_pipeline H net0) m st = False"
  by (simp_all add: NewRuntime_on_def network_pipeline_def KeypairAdapter_Sign_def IdentityAdapter_LookupPublicKey_def notified_def
      EventBus_Emit_def bus_handlers_def NewEventBusAdapter_def known_duplicate_def LedgerAdapter_HasID_def fun_eq_iff)

lemma initRuntime_new [simp]:
  "fst (initRuntime H net0 None) = RegisterBehaviors (network_handlers H net0) (he_u H) (NewRuntime_on H net0)"
  by (simp add: initRuntime_def)

lemma RegisterBehaviors_again: "RegisterBehaviors h u (RegisterBehaviors h u rt) = RegisterBehaviors h u rt"
  by (cases rt) (simp add: RegisterBehaviors_def stash_behaviors_def RegisterBehavior_def fun_upd_twist fun_upd_upd
      WithHandler_def WithPayload_def Ephemeral_def MeshRequest_def template_def ProtocolDefaults_def EphemeralDefaults_def defaults_def)

lemma startRuntime_new: "startRuntime H net0 (Some (initRuntime H net0 None)) = Some (initRuntime H net0 None)"
  by (simp add: startRuntime_def initRuntime_def RegisterBehaviors_again)

section \<open>Emitting\<close>

lemma on_host_simp: "on_host f (r, s, h) = ((r, s, fst (f h)), snd (f h))"
  by (simp add: on_host_def split: prod.split)

lemma TrySendDirect_simp:
  "Message_Marshal (he_G H) (he_C H) m = Some raw \<Longrightarrow>
     TrySendDirect H to m (net, w) =
       ((net, fst (send_runtime_message H (network_client net) to raw w)), snd (send_runtime_message H (network_client net) to raw w))"
  by (simp add: TrySendDirect_def split: prod.split)

lemma TrySendDirect_keeps: "fst (fst (TrySendDirect H to m (net, w))) = net"
  by (simp add: TrySendDirect_def split: prod.split option.split)

lemma network_emits:
  assumes "crypto_ok (he_G H)" and "valid_keypair (he_G H) (my_keypair net0)" and "m_Kind msg \<in> stash_kinds"
    and "m_Payload msg = Some p" "marshal_payload (he_C H) p = Some enc" "m_ToID msg \<noteq> []" "m_FromID msg = []" "m_Version msg \<in> {0, 1}"
  shows "\<exists>m. (\<forall>st. Emit (he_G H) (he_C H) (network_emitter H net0) now msg st =
       (case on_host (TrySendDirect H (m_ToID msg) m) st of (st', ok) \<Rightarrow> if ok then (st', Done) else (st', Failed MeshSendFailed))) \<and>
     m_Kind m = m_Kind msg \<and> m_FromID m = nw_ID net0 \<and> m_ToID m = m_ToID msg \<and> m_Payload m = Some p \<and> m_Version m = 1 \<and>
     m_InReplyTo m = m_InReplyTo msg \<and> (m_ID msg \<noteq> [] \<longrightarrow> m_ID m = m_ID msg) \<and>
     Message_VerifySignature (he_G H) (he_C H) m (PublicKey (my_keypair net0))"
proof -
  have b: "LookupBehavior (network_emitter H net0) (m_Kind msg) =
      Some (mesh_behavior (m_Kind msg) (desc_for (m_Kind msg)) (unmarshal_for (he_u H) (m_Kind msg)) (\<lambda>m p st. (st, True)))"
    using lookup_stash_kind [OF assms(3)] by (simp add: network_emitter_def)
  have c: "rt_me (network_emitter H net0) = Some (nw_ID net0, meName net0)"
    "px_Sign (rt_context (network_emitter H net0)) = KeypairSign (he_G H) (my_keypair net0)"
    "px_Transport (rt_context (network_emitter H net0)) =
       Some \<lparr>tp_PublishMQTT = (\<lambda>topic d. on_host (PublishMQTT H topic d)), tp_TrySendDirect = (\<lambda>targetID msg. on_host (TrySendDirect H targetID msg))\<rparr>"
    "notified (rt_context (network_emitter H net0)) m st = st" for m st
    by (simp_all add: network_emitter_def) (simp add: network_pipeline_def)
  show ?thesis
    using emit_mesh_any [OF assms(1,2) c(1,2,3) b assms(4-8), of now] unfolding c(4) by simp
qed

text \<open>Emitting changes nothing but what is outside.\<close>

fun plain_stage :: "('p, 's) stage \<Rightarrow> bool" where
  "plain_stage (SelfAttestingVerifyStage f) = False"
| "plain_stage (CustomVerifyStage f) = False"
| "plain_stage other = True"

lemma on_host_keeps:
  assumes "fst (fst (f (net, w))) = net"
  shows "\<exists>w'. on_host f (r, s, net, w) = ((r, s, net, w'), snd (f (net, w)))"
  using assms by (metis on_host_simp prod.collapse)

lemma PublishMQTT_keeps: "fst (fst (PublishMQTT H topic d (net, w))) = net"
  by (simp add: PublishMQTT_def split: prod.split option.split)

lemma transport_keeps:
  assumes "px_Transport (network_pipeline H net0) = Some t"
  shows "\<exists>w' ok. tp_TrySendDirect t to m (r, s, net, w) = ((r, s, net, w'), ok)"
    "\<exists>w' ok. tp_PublishMQTT t topic d (r, s, net, w) = ((r, s, net, w'), ok)"
  using assms on_host_keeps [where f = "TrySendDirect H to m", OF TrySendDirect_keeps, where net = net and w = w and r = r and s = s]
    on_host_keeps [where f = "PublishMQTT H topic d", OF PublishMQTT_keeps, where net = net and w = w and r = r and s = s]
  by (auto simp: network_pipeline_def)

lemma Process_keeps:
  assumes "plain_stage stage"
  shows "\<exists>w'. fst (Process G C (network_pipeline H net0) stage m (r, s, net, w)) = (r, s, net, w')"
proof -
  have d: "\<exists>t. px_Transport (network_pipeline H net0) = Some t" by (simp add: network_pipeline_def)
  then obtain t where t: "px_Transport (network_pipeline H net0) = Some t" by blast
  have p: "\<exists>w'. fst (publish G C (network_pipeline H net0) topic m (r, s, net, w)) = (r, s, net, w')" for topic
  proof (cases "Message_Marshal G C m")
    case (Some x)
    obtain w' ok where "tp_PublishMQTT t topic x (r, s, net, w) = ((r, s, net, w'), ok)" using transport_keeps(2) [OF t] by blast
    then show ?thesis using t Some by (simp add: publish_def)
  qed (simp add: publish_def t)
  obtain w' ok where "tp_TrySendDirect t (m_ToID m) m (r, s, net, w) = ((r, s, net, w'), ok)" using transport_keeps(1) [OF t] by blast
  moreover have "px_Ledger (network_pipeline H net0) =
      Some \<lparr>lg_Add = LedgerAdapter_Add, lg_HasID = LedgerAdapter_HasID, lg_HasContentKey = LedgerAdapter_HasContentKey\<rparr>"
    "px_GossipQueue (network_pipeline H net0) = Some GossipQueueAdapter_Add"
    "px_EventBus (network_pipeline H net0) = Some (EventBus_Emit NewEventBusAdapter)"
    by (simp_all add: network_pipeline_def)
  ultimately show ?thesis
    using assms t p
    by (cases stage)
      (auto simp: add_to_ledger_def LedgerAdapter_Add_def GossipQueueAdapter_Add_def EventBus_Emit_def bus_handlers_def
        NewEventBusAdapter_def LedgerAdapter_HasContentKey_def split: option.split)
qed

lemma Pipeline_Run_keeps:
  assumes "\<forall>stage \<in> set p. plain_stage stage"
  shows "\<exists>w'. fst (Pipeline_Run G C (network_pipeline H net0) p m (r, s, net, w)) = (r, s, net, w')"
  using assms
proof (induction p arbitrary: m w)
  case (Cons stage p)
  obtain w1 res where "Process G C (network_pipeline H net0) stage m (r, s, net, w) = ((r, s, net, w1), res)"
    using Process_keeps [of stage G C H net0 m r s net w] Cons.prems by (metis list.set_intros(1) prod.collapse)
  then show ?case using Cons by (cases res) auto
qed simp

lemma registered_behavior:
  "rt_localBehaviors (fold RegisterBehavior bs rt) k = Some b \<Longrightarrow> b \<in> set bs \<or> rt_localBehaviors rt k = Some b"
proof (induction bs arbitrary: rt)
  case (Cons a bs)
  then have "b \<in> set bs \<or> rt_localBehaviors (RegisterBehavior a rt) k = Some b" by simp
  then show ?case by (auto simp: RegisterBehavior_def split: if_splits)
qed simp

lemma network_behavior:
  assumes "LookupBehavior (RegisterBehaviors h u (NewRuntime_on H net0)) kind = Some b"
  shows "b \<in> set (stash_behaviors h u)"
  using assms registered_behavior [of "stash_behaviors h u" "NewRuntime_on H net0" kind b]
  by (simp add: LookupBehavior_def RegisterBehaviors_def NewRuntime_on_def)

lemma stash_behavior_plain:
  assumes "b \<in> set (stash_behaviors h u)" and "stage \<in> set (buildEmitPipeline b)"
  shows "plain_stage stage"
  using assms unfolding stash_behaviors_def
  by (auto simp: buildEmitPipeline_def template_defs Ephemeral_def EphemeralDefaults_def NoSign_def NoVerify_def MQTT_def)

lemma Emit_keeps: "\<exists>w'. fst (Emit G C (network_emitter H net0) now msg (r, s, net, w)) = (r, s, net, w')"
proof (cases "LookupBehavior (network_emitter H net0) (m_Kind (prepared (network_emitter H net0) now msg))")
  case (Some b)
  let ?m = "versioned b (prepared (network_emitter H net0) now msg)"
  have "\<forall>stage \<in> set (buildEmitPipeline b). plain_stage stage"
    using stash_behavior_plain network_behavior Some by (metis network_emitter_def)
  from Pipeline_Run_keeps [OF this, of G C H net0 ?m r s net w]
  obtain w' res where "Pipeline_Run G C (network_pipeline H net0) (buildEmitPipeline b) ?m (r, s, net, w) = ((r, s, net, w'), res)"
    by (metis prod.collapse)
  moreover have "rt_context (network_emitter H net0) = network_pipeline H net0" by (simp add: network_emitter_def)
  ultimately show ?thesis using Some by (cases res) (simp_all add: Emit_def Let_def)
qed (simp add: Emit_def Let_def)

lemma network_iface_emits: "\<exists>w'. fst (ri_Emit (network_iface H net0 n) m (r, s, net, w)) = (r, s, net, w')"
  using Emit_keeps [of "he_G H" "he_C H" H net0 "ck_nano (he_T H)" m r s net w]
  by (auto simp: network_iface_def emits_def split: prod.splits)

lemma emit_quiet_network: "emit_quiet (network_iface H net0 n)"
  unfolding emit_quiet_def
proof (intro allI)
  fix m :: "stash_payload Message" and st :: "'a host world"
  obtain r s net w where "st = (r, s, net, w)" by (cases st) auto
  then show "fst (snd (fst (ri_Emit (network_iface H net0 n) m st))) = fst (snd st)"
    using network_iface_emits [of H net0 n m r s net w] by auto
qed

text \<open>The handlers change the service and what is outside, not the registry of calls and not the network.\<close>

lemma network_handlers_keep: "\<exists>s' w'. fst (network_handlers H net0 m p (r, s, net, w)) = (r, s', net, w')"
proof -
  have e: "\<exists>s1 w'. fst (ri_Emit (network_iface H net0 net) x (r, s', net, w)) = (r, s1, net, w')" for x s'
    using network_iface_emits [of H net0 net x r s' net w] by blast
  have "\<exists>s' w'. fst (stash_handler (network_iface H net0 net) m p (r, s, net, w)) = (r, s', net, w')"
    by (cases p) (auto simp: handleRefreshV1_def handleStoreV1_parts handleRequestV1_def handleStoreAckV1_def handleResponseV1_def Let_def e
        split: option.split prod.split)
  then show ?thesis by (simp add: network_handlers_def)
qed

section \<open>Receiving\<close>

lemma network_receive:
  assumes "request_kind (m_Kind m) p \<or> answer_kind (m_Kind m) p" and "codec_ok C (he_u H)"
    and "m_Payload m = Some p" and "m_Version m = 1"
    and "Neighbourhood.getPublicKeyForNaraID net (m_FromID m) = Some k" and "Message_VerifySignature G C m k"
    and "m_InReplyTo m \<noteq> [] \<longrightarrow> cr_pending r (m_InReplyTo m) = None"
  shows "Receive G C (RegisterBehaviors (network_handlers H net0) (he_u H) (NewRuntime_on H net0)) (Some (wire_of C m)) (r, s, net, w) =
    (fst (network_handlers H net0 m p (r, s, net, w)), Done)"
proof -
  let ?rt = "RegisterBehaviors (network_handlers H net0) (he_u H) (NewRuntime_on H net0)"
  have k: "m_Kind m \<in> stash_kinds" by (rule stash_kind_codec(1) [OF assms(2,1)])
  obtain enc where e: "marshal_payload C p = Some enc" "unmarshal_for (he_u H) (m_Kind m) enc = Some p"
    using stash_kind_codec(2) [OF assms(2,1)] by blast
  show ?thesis
    using receive_mesh [where rt = ?rt and r = r and s = "(s, net, w)", OF lookup_stash_kind [OF k] assms(3) e assms(4) _ assms(6,7)] assms(5)
    by (simp split: prod.split)
qed

section \<open>Over the mesh\<close>

definition reached_runtime ::
  "string \<Rightarrow> (string option http_request \<Rightarrow> 'v \<Rightarrow> (unit option answer \<times> 'v) option go) \<Rightarrow> string \<Rightarrow> string option http_request \<Rightarrow> 'v
   \<Rightarrow> int option \<times> 'v" where
  \<comment> \<open>the exchange with a server; there is no answer when the handler panics or the process ends\<close>
  "reached_runtime addr server url r w =
     (case server (r\<lparr>hq_RemoteAddr := addr\<rparr>) w of
        Inr (Some (a, w')) \<Rightarrow> (Some (fst (on_the_wire a)), w')
      | other \<Rightarrow> (None, w))"

lemma message_request_authentic:
  assumes "crypto_ok G" and "valid_keypair G (mc_keypair m)" and "mc_name m \<noteq> []" and "in_i64 (unix_milli T)"
    and "\<bar>ck_nano T' - unix_milli T * 1000000\<bar> \<le> MeshAuthMaxAge"
    and "getPublicKeyForNara G net (mc_name m) = Some (PublicKey (mc_keypair m))"
    and "r = (message_request G T m url raw)\<lparr>hq_RemoteAddr := addr\<rparr>"
  shows "authenticate G P T' ping r net = Inr (Inr (mc_name m), net)" "hq_Method r = ''POST''" "hq_Body r = Some raw"
proof -
  show f: "hq_Method r = ''POST''" "hq_Body r = Some raw"
    using assms(7) by (simp_all add: message_request_def signRequest_def set_header_def new_request_def Let_def)
  have h: "hq_Header r = [''Content-Type'' \<mapsto> ''application/json''] ++ MeshAuthRequest G T (mc_name m) (mc_keypair m) (hq_Method r) (hq_Path r)"
    using assms(7) by (simp add: message_request_def signRequest_def set_header_def new_request_def MeshAuthRequest_def Let_def)
  then have g: "header_Get (hq_Header r) HeaderNaraName = mc_name m" "header_Get (hq_Header r) HeaderNaraSignature \<noteq> []"
    using assms(1) by (simp_all add: MeshAuthRequest_def Let_def)
  have "request_authentic G T' r (PublicKey (mc_keypair m))"
    by (rule signed_request_authentic [OF assms(1,2,3,4,5) h])
  then show "authenticate G P T' ping r net = Inr (Inr (mc_name m), net)"
    using authenticate_known [OF _ _ g(2)] assms(6) g(1) by simp
qed

lemma direct_message_over_mesh:
  assumes "crypto_ok (he_G H)" and "valid_keypair (he_G H) (my_keypair net)" and "meName net \<noteq> []"
    and "getPublicKeyForNara (he_G H) netB (meName net) = Some (PublicKey (my_keypair net))"
    and "in_i64 (unix_milli (he_T H))" and "\<bar>ck_nano (he_T HB) - unix_milli (he_T H) * 1000000\<bar> \<le> MeshAuthMaxAge"
    and "nw_peers net to = Some base" and "he_G HB = he_G H" and "he_C HB = he_C H"
    and "he_post H = reached_runtime addr
      (mesh_message_endpoint HB P ping encode unmarshal (Some (fst (initRuntime HB netB0 None))))"
    and "request_kind (m_Kind m) p \<or> answer_kind (m_Kind m) p" and "codec_ok (he_C H) (he_u HB)"
    and "m_Payload m = Some p" and "m_Version m = 1"
    and "Message_Marshal (he_G H) (he_C H) m = Some raw" and "unmarshal raw = Some (wire_of (he_C H) m)"
    and "Neighbourhood.getPublicKeyForNaraID netB (m_FromID m) = Some k" and "Message_VerifySignature (he_G H) (he_C H) m k"
    and "m_InReplyTo m \<noteq> [] \<longrightarrow> cr_pending r (m_InReplyTo m) = None"
  shows "TrySendDirect H to m (net, r, s, netB, w) = ((net, fst (network_handlers HB netB0 m p (r, s, netB, w))), True)"
proof -
  let ?c = "network_client net"
  have c: "mc_name ?c = meName net" "mc_keypair ?c = my_keypair net" "mc_peers ?c to = Some base" "mc_testURLs ?c to = None"
    using assms(7) by (simp_all add: network_client_def NewMeshClient_def)
  define url where "url = base @ ''/mesh/message''"
  define q where "q = (message_request (he_G H) (he_T H) ?c url raw)\<lparr>hq_RemoteAddr := addr\<rparr>"
  have q: "authenticate (he_G H) P (he_T HB) ping q netB = Inr (Inr (meName net), netB)" "hq_Method q = ''POST''" "hq_Body q = Some raw"
    using message_request_authentic [where m = ?c and net = netB, OF assms(1) _ _ assms(5,6) _ q_def] assms(2-4) c(1,2) by simp_all
  have "Receive (he_G H) (he_C H) (fst (initRuntime HB netB0 None)) (Some (wire_of (he_C H) m)) (r, s, netB, w) =
      (fst (network_handlers HB netB0 m p (r, s, netB, w)), Done)"
    using network_receive [OF assms(11,12,13,14,17,18,19)] by simp
  then have "he_post H url (message_request (he_G H) (he_T H) ?c url raw) (r, s, netB, w) =
      (Some 200, fst (network_handlers HB netB0 m p (r, s, netB, w)))"
    using q by (simp add: assms(8,9,10,16) reached_runtime_def q_def [symmetric] mesh_message_endpoint_def httpMeshMessageHandler_def
        finalize_def on_the_wire_def)
  then show ?thesis
    using c(3,4) assms(15) by (simp add: TrySendDirect_simp send_runtime_message_def buildURL_def url_def)
qed

lemma network_runtime_simps:
  "rt_me (fst (initRuntime H net0 None)) = Some (nw_ID net0, meName net0)"
  "rt_context (fst (initRuntime H net0 None)) = network_pipeline H net0"
  "px_Transport (network_pipeline H net0) =
     Some \<lparr>tp_PublishMQTT = (\<lambda>topic d. on_host (PublishMQTT H topic d)), tp_TrySendDirect = (\<lambda>targetID msg. on_host (TrySendDirect H targetID msg))\<rparr>"
  by simp_all (simp add: network_pipeline_def)

definition stash_message_of ::
  "'w host_env \<Rightarrow> nara_net \<Rightarrow> int \<Rightarrow> stash_payload Message \<Rightarrow> stash_payload Message" where
  \<comment> \<open>what the nara makes of a message it emits: completed with time, sender, version and ID, and signed\<close>
  "stash_message_of H net0 now msg =
     (let rt = fst (initRuntime H net0 None)
      in case LookupBehavior rt (m_Kind msg) of
           None \<Rightarrow> msg | Some b \<Rightarrow> emitted_message (he_G H) (he_C H) rt b now msg)"

text \<open>
  C24: A message reaches the handler of its receiver. When a nara emits a message of the stash to a registered peer, over the emit
  pipeline, the mesh client, the middleware, the handler of HTTP and the receive pipeline, the handler of the peer runs, once, on
  the completed and signed message and the payload, and the emission succeeds: if the clocks agree to thirty seconds, if the peer
  holds the key of the sender under its name and under its ID, if the JSON of the message is read as it was written, and if the
  message answers no call that is waiting.
\<close>

theorem message_over_mesh:
  fixes H :: "(stash_payload CallRegistry \<times> Service \<times> nara_net \<times> 'w) host_env"
  assumes "crypto_ok (he_G H)" and "valid_keypair (he_G H) (my_keypair net)" and "meName net \<noteq> []"
    and "getPublicKeyForNara (he_G H) netB (meName net) = Some (PublicKey (my_keypair net))"
    and "Neighbourhood.getPublicKeyForNaraID netB (nw_ID net) = Some (PublicKey (my_keypair net))"
    and "in_i64 (unix_milli (he_T H))" and "\<bar>ck_nano (he_T HB) - unix_milli (he_T H) * 1000000\<bar> \<le> MeshAuthMaxAge"
    and "nw_peers net (m_ToID msg) = Some base" and "m_ToID msg \<noteq> []" and "he_G HB = he_G H" and "he_C HB = he_C H"
    and "he_post H = reached_runtime addr
      (mesh_message_endpoint HB P ping encode unmarshal (Some (fst (initRuntime HB netB0 None))))"
    and "request_kind (m_Kind msg) p \<or> answer_kind (m_Kind msg) p" and "codec_ok (he_C H) (he_u HB)"
    and "m_Payload msg = Some p" and "m_Version msg \<in> {0, 1}" and "m_FromID msg = []"
    and "m_InReplyTo msg \<noteq> [] \<longrightarrow> cr_pending r (m_InReplyTo msg) = None"
    and "m = stash_message_of H net now msg"
    and "Message_Marshal (he_G H) (he_C H) m = Some raw" and "unmarshal raw = Some (wire_of (he_C H) m)"
  shows "Emit (he_G H) (he_C H) (fst (initRuntime H net None)) now msg (rA, sA, net, r, s, netB, w) =
      ((rA, sA, net, fst (network_handlers HB netB0 m p (r, s, netB, w))), Done) \<and>
    m_Kind m = m_Kind msg \<and> m_FromID m = nw_ID net \<and> m_ToID m = m_ToID msg \<and> m_Payload m = Some p \<and> m_Version m = 1 \<and>
    m_InReplyTo m = m_InReplyTo msg \<and> (m_ID msg \<noteq> [] \<longrightarrow> m_ID m = m_ID msg) \<and>
    Message_VerifySignature (he_G H) (he_C H) m (PublicKey (my_keypair net))"
proof -
  let ?rt = "fst (initRuntime H net None)"
  let ?b = "mesh_behavior (m_Kind msg) (desc_for (m_Kind msg)) (unmarshal_for (he_u H) (m_Kind msg)) (network_handlers H net)"
  have kind: "m_Kind msg \<in> stash_kinds" by (rule stash_kind_codec(1) [OF assms(14,13)])
  obtain enc where enc: "marshal_payload (he_C H) p = Some enc" using stash_kind_codec(2) [OF assms(14,13)] by blast
  have b: "LookupBehavior ?rt (m_Kind msg) = Some ?b" using lookup_stash_kind [OF kind] by simp
  have m: "m = emitted_message (he_G H) (he_C H) ?rt ?b now msg" using assms(19) b by (simp add: stash_message_of_def Let_def)
  have sign: "px_Sign (rt_context ?rt) = KeypairSign (he_G H) (my_keypair net)" by simp
  note e = emit_mesh_message [OF assms(1,2) network_runtime_simps(1) sign _ b assms(15) enc assms(9,17,16) m,
      unfolded network_runtime_simps(2), OF network_runtime_simps(3)]
  have f: "m_Kind m = m_Kind msg" "m_FromID m = nw_ID net" "m_ToID m = m_ToID msg" "m_Payload m = Some p" "m_Version m = 1"
    "m_InReplyTo m = m_InReplyTo msg" "Message_VerifySignature (he_G H) (he_C H) m (PublicKey (my_keypair net))"
    using e by blast+
  have "TrySendDirect H (m_ToID msg) m (net, r, s, netB, w) = ((net, fst (network_handlers HB netB0 m p (r, s, netB, w))), True)"
    by (rule direct_message_over_mesh [OF assms(1,2,3,4,6,7,8,10,11,12) _ assms(14) f(4,5) assms(20,21) _ f(7)])
      (use assms(5,13,18) f in simp_all)
  then show ?thesis using e by (simp add: on_host_simp)
qed

section \<open>What changes a stash\<close>

lemma stash_behavior_cases:
  assumes "b \<in> set (stash_behaviors h u)"
  shows "rb_Verify (b_Receive b) = Some DefaultVerify \<or> b_PayloadTypes b = [1 \<mapsto> payload_of RefreshPayload (u_refresh u)]"
  using assms by (auto simp: stash_behaviors_def template_defs Ephemeral_def EphemeralDefaults_def)

lemma stash_behavior_receives:
  assumes "b \<in> set (stash_behaviors h u)"
  shows "\<forall>stage \<in> set (buildReceivePipeline b). plain_stage stage" "b_Handlers b = [1 \<mapsto> h]" "\<not> error_exits (rb_OnError (b_Receive b))"
  using assms unfolding stash_behaviors_def
  by (auto simp: buildReceivePipeline_def template_defs Ephemeral_def EphemeralDefaults_def NoSign_def NoVerify_def MQTT_def error_exits_def)

lemma refresh_keeps_service: "fst (snd (fst (network_handlers H net0 m (RefreshPayload x) (r, s, net, w)))) = s"
  using emit_quietD [OF emit_quiet_network]
  by (auto simp: network_handlers_def handleRefreshV1_def split: option.split)

definition message_known :: "go_env \<Rightarrow> stash_payload codec \<Rightarrow> nara_net \<Rightarrow> stash_payload Message \<Rightarrow> bool" where
  \<comment> \<open>the message is signed under the key held for the ID of its sender\<close>
  "message_known G C net m \<longleftrightarrow> (\<exists>k. Neighbourhood.getPublicKeyForNaraID net (m_FromID m) = Some k \<and> Message_VerifySignature G C m k)"

lemma pipeline_state:
  assumes "\<forall>stage \<in> set p. plain_stage stage"
  obtains w' res where "Pipeline_Run G C (network_pipeline H net0) p m (r, s, net, w) = ((r, s, net, w'), res)"
  using Pipeline_Run_keeps [OF assms, of G C H net0 m r s net w] by (metis prod.collapse)

lemma Process_payload:
  assumes "plain_stage stage" and "Process G C ctx stage m st = (st', Continue m')"
  shows "m_Payload m' = m_Payload m"
  using assms by (cases stage) (auto simp: publish_def add_to_ledger_def split: option.splits if_splits prod.splits)

lemma Pipeline_Run_payload:
  assumes "\<forall>stage \<in> set p. plain_stage stage" and "Pipeline_Run G C ctx p m st = (st', Continue m')"
  shows "m_Payload m' = m_Payload m"
  using assms
proof (induction p arbitrary: m st)
  case (Cons stage p)
  obtain st1 res where r: "Process G C ctx stage m st = (st1, res)" by fastforce
  then obtain m1 where m1: "res = Continue m1" "Pipeline_Run G C ctx p m1 st1 = (st', Continue m')"
    using Cons.prems(2) by (cases res) auto
  then show ?case using Cons.IH [OF _ m1(2)] Process_payload [of stage G C ctx m st st1 m1] Cons.prems(1) r by simp
qed simp

lemma Receive_network:
  fixes H :: "'w host_env"
  assumes "Receive G C (RegisterBehaviors (network_handlers H net0) (he_u H) (NewRuntime_on H net0)) raw (r, s, net, w) = ((r', s', net', w'), out)"
  shows "net' = net \<and> out \<noteq> Exited \<and> (s' = s \<or> (\<exists>m. deserialize (RegisterBehaviors (network_handlers H net0) (he_u H) (NewRuntime_on H net0)) raw = Some m \<and>
    message_known G C net m))"
proof -
  let ?rt = "RegisterBehaviors (network_handlers H net0) (he_u H) (NewRuntime_on H net0)"
  show ?thesis
  proof (cases "deserialize ?rt raw")
    case None
    then show ?thesis using assms by (auto simp: Receive_def)
  next
    case (Some m)
    obtain b v u x p where b: "LookupBehavior ?rt (m_Kind m) = Some b" "b_PayloadTypes b v = Some u" "u x = Some p" "m_Payload m = Some p"
      using deserialize_payload [OF Some] by blast
    note bs = network_behavior [OF b(1)]
    show ?thesis
    proof (cases "m_InReplyTo m \<noteq> [] \<and> cr_pending r (m_InReplyTo m) \<noteq> None")
      case True
      then show ?thesis using assms Some by (auto simp: Receive_def Call_Resolve_def)
    next
      case False
      then have c: "(if m_InReplyTo m \<noteq> [] then Call_Resolve (m_InReplyTo m) m r else (r, False)) = (r, False)"
        by (cases "cr_pending r (m_InReplyTo m)") (auto simp: Call_Resolve_def)
      obtain w1 res where run: "Pipeline_Run G C (network_pipeline H net0) (buildReceivePipeline b) m (r, s, net, w) = ((r, s, net, w1), res)"
        by (rule pipeline_state [OF stash_behavior_receives(1) [OF bs]])
      have rec: "Receive G C ?rt raw (r, s, net, w) =
          (case res of Fail e \<Rightarrow> ((r, s, net, w1), Failed e) | Drop reason \<Rightarrow> ((r, s, net, w1), Done)
           | Continue msg' \<Rightarrow> invokeHandler b msg' (r, s, net, w1))"
        using Some c b(1) run stash_behavior_receives(3) [OF bs] by (auto simp: Receive_def split: StageResult.split)
      show ?thesis
      proof (cases res)
        case (Continue msg')
        have pl: "m_Payload msg' = Some p"
          using Pipeline_Run_payload [OF stash_behavior_receives(1) [OF bs] run [unfolded Continue]] b(4) by simp
        obtain s2 w2 where h: "fst (network_handlers H net0 msg' p (r, s, net, w1)) = (r, s2, net, w2)"
          using network_handlers_keep [of H net0 msg' p r s net w1] by blast
        have inv: "invokeHandler b msg' (r, s, net, w1) =
            (if m_Version msg' = 1 then (r, s2, net, w2) else (r, s, net, w1), Done)"
          using h pl stash_behavior_receives(2,3) [OF bs] by (cases "network_handlers H net0 msg' p (r, s, net, w1)") (simp add: invokeHandler_def)
        show ?thesis
        proof (cases "rb_Verify (b_Receive b) = Some DefaultVerify")
          case True
          have "message_known G C net m"
          proof (rule ccontr)
            assume "\<not> ?thesis"
            then obtain reason where "Pipeline_Run G C (network_pipeline H net0) (buildReceivePipeline b) m (r, s, net, w) = ((r, s, net, w), Drop reason)"
              using unverified_dropped [of b "network_pipeline H net0" m "(r, s, net, w)" G C] True by (auto simp: message_known_def)
            then show False using run Continue by simp
          qed
          then show ?thesis using assms rec inv Continue Some by (auto split: if_splits)
        next
          case False
          then have "b_PayloadTypes b = [1 \<mapsto> payload_of RefreshPayload (u_refresh (he_u H))]"
            using stash_behavior_cases [OF bs] by blast
          then obtain y where "p = RefreshPayload y" using b(2,3) by (auto simp: payload_of_def split: if_splits)
          then have "s2 = s" using refresh_keeps_service [of H net0 msg' y r s net w1] h by simp
          then show ?thesis using assms rec inv Continue by (auto split: if_splits)
        qed
      qed (use assms rec in auto)
    qed
  qed
qed

lemma mesh_behavior_verifies: "rb_Verify (b_Receive (mesh_behavior kind desc u h)) = Some DefaultVerify"
  by (simp add: mesh_behavior_def template_defs)

lemma network_kinds:
  assumes "LookupBehavior (RegisterBehaviors h u (NewRuntime_on H net0)) kind = Some b"
  shows "kind \<in> stash_kinds \<and> rb_Verify (b_Receive b) = Some DefaultVerify \<or>
    kind = ''stash-refresh'' \<and> b = WithHandler 1 h (WithPayload (payload_of RefreshPayload (u_refresh u))
      (Ephemeral ''stash-refresh'' ''Trigger stash recovery from confidants'' ''nara/plaza/stash_refresh''))"
proof (cases "kind \<in> stash_kinds")
  case True
  then show ?thesis using assms lookup_stash_kind [OF True, of h u "NewRuntime_on H net0"] mesh_behavior_verifies by (metis option.sel)
next
  case False
  then show ?thesis
    using assms by (simp add: RegisterBehaviors_def stash_behaviors_def RegisterBehavior_def LookupBehavior_def NewRuntime_on_def stash_kinds_def
      mesh_behavior_def [symmetric] split: if_splits)
qed

lemma refresh_received:
  assumes "deserialize (RegisterBehaviors (network_handlers H net0) (he_u H) (NewRuntime_on H net0)) raw = Some m"
    and "m_Kind m = ''stash-refresh''" and "m_InReplyTo m = [] \<or> cr_pending r (m_InReplyTo m) = None"
    and b: "LookupBehavior (RegisterBehaviors (network_handlers H net0) (he_u H) (NewRuntime_on H net0)) ''stash-refresh'' =
      Some (WithHandler 1 (network_handlers H net0) (WithPayload (payload_of RefreshPayload (u_refresh (he_u H)))
        (Ephemeral ''stash-refresh'' ''Trigger stash recovery from confidants'' ''nara/plaza/stash_refresh'')))"
    and rec: "Receive G C (RegisterBehaviors (network_handlers H net0) (he_u H) (NewRuntime_on H net0)) raw (r, s, net, w) = (st', out)"
    and "st' \<noteq> (r, s, net, w)"
  shows "\<exists>p e. m_Payload m = Some (RefreshPayload p) \<and> GetStoredStash (rf_OwnerID p) s = Some e \<and>
    st' = fst (ri_Emit (network_iface H net0 net) (response_to_owner (rf_OwnerID p) e) (r, s, net, w))"
proof -
  let ?rt = "RegisterBehaviors (network_handlers H net0) (he_u H) (NewRuntime_on H net0)"
  let ?b = "WithHandler 1 (network_handlers H net0) (WithPayload (payload_of RefreshPayload (u_refresh (he_u H)))
        (Ephemeral ''stash-refresh'' ''Trigger stash recovery from confidants'' ''nara/plaza/stash_refresh''))"
  have c: "(if m_InReplyTo m \<noteq> [] then Call_Resolve (m_InReplyTo m) m (fst (r, s, net, w)) else (fst (r, s, net, w), False)) = (r, False)"
    using assms(3) by (auto simp: Call_Resolve_def)
  have f: "buildReceivePipeline ?b = [NoVerifyStage, IDDedupeStage, NoStoreStage, NoGossipStage, NotifyStage]"
    "b_Handlers ?b = [1 \<mapsto> network_handlers H net0]" "\<not> error_exits (rb_OnError (b_Receive ?b))"
    "b_PayloadTypes ?b = [1 \<mapsto> payload_of RefreshPayload (u_refresh (he_u H))]"
    by (simp_all add: buildReceivePipeline_def stage_or_def stage_if_def template_defs Ephemeral_def EphemeralDefaults_def NoVerify_def
        IDDedupe_def NoStore_def NoGossip_def error_exits_def)
  obtain b' v u x p where p: "LookupBehavior ?rt (m_Kind m) = Some b'" "b_PayloadTypes b' v = Some u" "u x = Some p" "m_Payload m = Some p"
    using deserialize_payload [OF assms(1)] by blast
  then obtain y where y: "m_Payload m = Some (RefreshPayload y)"
    using b f(4) assms(2) by (auto simp: payload_of_def split: if_splits option.splits)
  have "Pipeline_Run G C (network_pipeline H net0) (buildReceivePipeline ?b) m (r, s, net, w) = ((r, s, net, w), Continue m)"
    unfolding f(1) by (simp add: network_pipeline_def LedgerAdapter_HasID_def EventBus_Emit_def bus_handlers_def NewEventBusAdapter_def)
  then have "st' = fst (invokeHandler ?b m (r, s, net, w))"
    using rec by (simp add: Receive_def assms(1,2) b c)
  then have "st' = fst (handleRefreshV1 (network_iface H net0 net) m y (r, s, net, w))"
    using assms(6) f(2,3) y by (auto simp: invokeHandler_def network_handlers_def split: if_splits prod.splits)
  then show ?thesis using y assms(6) by (auto simp: handleRefreshV1_def split: option.splits)
qed

text \<open>
  C23: What an unauthenticated message can do. Whatever comes over the network into the runtime that the program builds, if it changes
  anything, it is a message that is signed under the key held for the ID of its sender; or it names a call that is waiting, and then
  nothing but the registry of calls changes; or it is a \<open>stash-refresh\<close>, the one kind that is not verified, and then all that
  happens is that the stash kept for the owner it names is emitted: registry, service and network stay.
\<close>

theorem unauthenticated_changes_nothing:
  assumes "Receive G C (fst (initRuntime H net0 None)) raw (r, s, net, w) = ((r', s', net', w'), out)"
    and "(r', s', net', w') \<noteq> (r, s, net, w)"
  shows "\<exists>m. deserialize (fst (initRuntime H net0 None)) raw = Some m \<and>
     (message_known G C net m \<or>
      (m_InReplyTo m \<noteq> [] \<and> cr_pending r (m_InReplyTo m) \<noteq> None \<and> (s', net', w') = (s, net, w)) \<or>
      (m_Kind m = ''stash-refresh'' \<and> (r', s', net') = (r, s, net) \<and>
       (\<exists>p e. m_Payload m = Some (RefreshPayload p) \<and> GetStoredStash (rf_OwnerID p) s = Some e \<and>
          (r', s', net', w') = fst (ri_Emit (network_iface H net0 net) (response_to_owner (rf_OwnerID p) e) (r, s, net, w)))))"
proof -
  let ?rt = "RegisterBehaviors (network_handlers H net0) (he_u H) (NewRuntime_on H net0)"
  note rec = assms(1) [unfolded initRuntime_new]
  obtain m where m: "deserialize ?rt raw = Some m"
    using rec assms(2) by (cases "deserialize ?rt raw") (auto simp: Receive_def)
  obtain b where b: "LookupBehavior ?rt (m_Kind m) = Some b" using deserialize_payload [OF m] by blast
  consider (verified) "rb_Verify (b_Receive b) = Some DefaultVerify"
    | (answer) "m_InReplyTo m \<noteq> [] \<and> cr_pending r (m_InReplyTo m) \<noteq> None"
    | (refresh) "m_Kind m = ''stash-refresh''" "b = WithHandler 1 (network_handlers H net0) (WithPayload (payload_of RefreshPayload (u_refresh (he_u H)))
        (Ephemeral ''stash-refresh'' ''Trigger stash recovery from confidants'' ''nara/plaza/stash_refresh''))"
        "m_InReplyTo m = [] \<or> cr_pending r (m_InReplyTo m) = None"
    using network_kinds [OF b] by blast
  then show ?thesis
  proof cases
    case verified
    have "\<exists>m. deserialize ?rt raw = Some m \<and>
     ((\<exists>k. px_LookupPublicKey (rt_context ?rt) (m_FromID m) (r, s, net, w) = Some k \<and> Message_VerifySignature G C m k) \<or>
      (m_InReplyTo m \<noteq> [] \<and> cr_pending (fst (r, s, net, w)) (m_InReplyTo m) \<noteq> None \<and> snd (r', s', net', w') = snd (r, s, net, w)))"
      by (rule unverified_changes_nothing [OF _ rec assms(2)]) (use m b verified in auto)
    then show ?thesis using m by (auto simp: message_known_def)
  next
    case answer
    then show ?thesis using rec m by (auto simp: Receive_def Call_Resolve_def)
  next
    case refresh
    obtain p e where pe: "m_Payload m = Some (RefreshPayload p)" "GetStoredStash (rf_OwnerID p) s = Some e"
      "(r', s', net', w') = fst (ri_Emit (network_iface H net0 net) (response_to_owner (rf_OwnerID p) e) (r, s, net, w))"
      using refresh_received [OF m refresh(1,3) _ rec assms(2)] b refresh(1,2) by auto
    then have "(r', s', net') = (r, s, net)"
      using network_iface_emits [of H net0 net "response_to_owner (rf_OwnerID p) e" r s net w] by auto
    then show ?thesis using m refresh(1) pe by auto
  qed
qed

text \<open>
  C25: A stash is changed by signed messages only. If a request to the endpoint of messages changes what the service of a nara
  holds, it carries, less than thirty seconds old, a signature of its method and path under a key we hold for the name it
  states, and its body is a message signed under the key we hold for the ID of its sender.
\<close>

theorem stash_changed_by_signed_message:
  assumes "mesh_message_endpoint H P ping encode unmarshal (Some (fst (initRuntime H net0 None))) r (reg, s, net, w) =
      Inr (Some (a, (reg', s', net', w')))" and "s' \<noteq> s"
  shows "\<exists>raw m k. hq_Body r = Some raw \<and> deserialize (fst (initRuntime H net0 None)) (unmarshal raw) = Some m \<and>
    message_known (he_G H) (he_C H) net' m \<and>
    getPublicKeyForNara (he_G H) net' (header_Get (hq_Header r) HeaderNaraName) = Some k \<and> request_authentic (he_G H) (he_T H) r k"
proof -
  obtain res net1 where au: "authenticate (he_G H) P (he_T H) ping r net = Inr (res, net1)"
    using assms(1) by (auto simp: mesh_message_endpoint_def go_bind_eq_Inr)
  obtain sender where snd: "res = Inr sender" using assms au by (cases res) (auto simp: mesh_message_endpoint_def)
  obtain k where k: "sender = header_Get (hq_Header r) HeaderNaraName" "getPublicKeyForNara (he_G H) net1 sender = Some k"
    "request_authentic (he_G H) (he_T H) r k"
    using authenticate_accepts [OF au [unfolded snd]] by metis
  let ?rt = "fst (initRuntime H net0 None)"
  obtain raw where raw: "hq_Body r = Some raw"
    using assms au snd by (cases "hq_Body r") (auto simp: mesh_message_endpoint_def httpMeshMessageHandler_def split: if_splits)
  obtain st out where rec: "Receive (he_G H) (he_C H) ?rt (unmarshal raw) (reg, s, net1, w) = (st, out)" by fastforce
  have "(reg', s', net', w') = st \<or> (reg', s', net', w') = (reg, s, net1, w)"
    using assms au snd raw rec by (auto simp: mesh_message_endpoint_def httpMeshMessageHandler_def split: if_splits rt_outcome.splits)
  then have st: "st = (reg', s', net', w')" using assms(2) by auto
  have "net' = net1 \<and> (\<exists>m. deserialize ?rt (unmarshal raw) = Some m \<and> message_known (he_G H) (he_C H) net1 m)"
    using Receive_network [OF rec [unfolded st initRuntime_new]] assms(2) by simp
  then show ?thesis using raw k by blast
qed

section \<open>Replays\<close>

definition store_message :: "stash_payload Message \<Rightarrow> StashStorePayload \<Rightarrow> bool" where
  \<comment> \<open>a request to store what is valid, as the owner sends it\<close>
  "store_message m p \<longleftrightarrow> m_Kind m = ''stash:store'' \<and> m_Payload m = Some (StorePayload p) \<and> m_Version m = 1 \<and>
     m_InReplyTo m = [] \<and> StashStorePayload_Validate p = None"

lemma store_received:
  assumes "store_message m p" and "codec_ok C (he_u H)" and "message_known G C net m"
    and "canStore (network_iface H net0 net) (sp_OwnerID p) s"
  shows "\<exists>w'. Receive G C (fst (initRuntime H net0 None)) (Some (wire_of C m)) (r, s, net, w) =
    ((r, store (ck_nano (he_T H)) (sp_OwnerID p) (sp_Nonce p) (sp_Ciphertext p) s, net, w'), Done)"
proof -
  obtain k where k: "Neighbourhood.getPublicKeyForNaraID net (m_FromID m) = Some k" "Message_VerifySignature G C m k"
    using assms(3) by (auto simp: message_known_def)
  have kind: "request_kind (m_Kind m) (StorePayload p) \<or> answer_kind (m_Kind m) (StorePayload p)"
    using assms(1) by (simp add: store_message_def request_kind_def)
  obtain s' w' where h: "fst (network_handlers H net0 m (StorePayload p) (r, s, net, w)) = (r, s', net, w')"
    using network_handlers_keep [of H net0 m "StorePayload p" r s net w] by blast
  have "s' = fst (snd (fst (handleStoreV1 (network_iface H net0 net) m p (r, s, net, w))))"
    using h by (simp add: network_handlers_def)
  then have "s' = store (ck_nano (he_T H)) (sp_OwnerID p) (sp_Nonce p) (sp_Ciphertext p) s"
    using assms(1,4) unfolding handleStoreV1_cases [OF emit_quiet_network]
    by (simp add: store_message_def network_iface_def)
  then show ?thesis
    using network_receive [OF kind assms(2) _ _ k, where ?net0.0 = net0 and r = r and s = s and w = w] assms(1) h
    by (auto simp: store_message_def)
qed

text \<open>
  C26: An old stash can be put back. After a nara has replaced the stash it keeps with a confidant, the first message, sent
  again by anybody as it is, restores the old stash: the runtime has no memory of the messages it has seen.
\<close>

theorem old_stash_replayed:
  assumes "store_message m1 p1" and "store_message m2 p2" and "sp_OwnerID p1 = own" and "sp_OwnerID p2 = own"
    and "codec_ok C (he_u H)" and "message_known G C net m1" and "message_known G C net m2"
    and "canStore (network_iface H net0 net) own s"
  shows "\<exists>st1 st2 st3 e. Receive G C (fst (initRuntime H net0 None)) (Some (wire_of C m1)) (r, s, net, w) = (st1, Done) \<and>
    Receive G C (fst (initRuntime H net0 None)) (Some (wire_of C m2)) st1 = (st2, Done) \<and>
    Receive G C (fst (initRuntime H net0 None)) (Some (wire_of C m1)) st2 = (st3, Done) \<and>
    GetStoredStash own (fst (snd st3)) = Some e \<and> es_Nonce e = sp_Nonce p1 \<and> es_Ciphertext e = sp_Ciphertext p1"
proof -
  let ?rt = "fst (initRuntime H net0 None)" and ?now = "ck_nano (he_T H)"
  have again: "canStore (network_iface H net0 net) own (store now own n c x)" for now n c x
    by (simp add: canStore_def store_def update_conv)
  obtain w1 where 1: "Receive G C ?rt (Some (wire_of C m1)) (r, s, net, w) =
      ((r, store ?now own (sp_Nonce p1) (sp_Ciphertext p1) s, net, w1), Done)"
    using store_received [OF assms(1,5,6)] assms(3,8) by metis
  obtain w2 where 2: "Receive G C ?rt (Some (wire_of C m2)) (r, store ?now own (sp_Nonce p1) (sp_Ciphertext p1) s, net, w1) =
      ((r, store ?now own (sp_Nonce p2) (sp_Ciphertext p2) (store ?now own (sp_Nonce p1) (sp_Ciphertext p1) s), net, w2), Done)"
    using store_received [OF assms(2,5,7)] assms(4) again by metis
  obtain w3 where 3: "Receive G C ?rt (Some (wire_of C m1))
      (r, store ?now own (sp_Nonce p2) (sp_Ciphertext p2) (store ?now own (sp_Nonce p1) (sp_Ciphertext p1) s), net, w2) =
      ((r, store ?now own (sp_Nonce p1) (sp_Ciphertext p1) (store ?now own (sp_Nonce p2) (sp_Ciphertext p2)
         (store ?now own (sp_Nonce p1) (sp_Ciphertext p1) s)), net, w3), Done)"
    using store_received [OF assms(1,5,6)] assms(3) again by metis
  show ?thesis using 1 2 3 by simp
qed

section \<open>Peers\<close>

text \<open>The peers a service is told are online are the naras that are observed as online.\<close>

lemma OnlinePeers_names:
  assumes "presence_wf net"
  shows "map pi_Name (OnlinePeers T net) = map (\<lambda>r. na_Name (nara_at net r)) (getOnlineNarasSnapshot net)"
proof -
  have "map pi_Name (concat (map f ns)) = map (\<lambda>r. na_Name (nara_at net r)) (filter (\<lambda>r. isOnline (getObservation net (na_Name (nara_at net r)))) (map snd ns))"
    if "\<forall>(name, r) \<in> set ns. na_Name (nara_at net r) = name"
      and "f = (\<lambda>(name, r). case peer_observation net name of None \<Rightarrow> [] | Some obs \<Rightarrow>
        if isOnline obs then [\<lparr>pi_ID = na_ID (nara_at net r), pi_Name = na_Name (nara_at net r), pi_Uptime = peer_uptime T obs\<rparr>] else [])" for ns f
    using that
    by (induction ns) (auto simp: peer_observation_def getObservation_def Nara_getObservation_def me_status_def isOnline_def zero_observation_def
        split: option.splits)
  moreover have "\<forall>(name, r) \<in> set (nw_Neighbourhood net). na_Name (nara_at net r) = name"
    using presence_wfD(1) [OF assms] by (auto simp: net_wf_def)
  ultimately show ?thesis unfolding OnlinePeers_def getOnlineNarasSnapshot_def by blast
qed

section \<open>Examples\<close>

text \<open>Bart, who has a stash, and lisa, his confidant, with the key of bart.\<close>

definition demo_bart :: nara_net where
  "demo_bart = (NewNetwork (NewNara ''bart'') (demo_keypair CHR ''b'') ''soul'' DefaultMemoryProfile)
     \<lparr>nw_peers := [''L'' \<mapsto> ''http://100.64.0.2:7433'']\<rparr>"

definition demo_lisa :: nara_net where
  "demo_lisa = demo_mesh_net\<lparr>nw_keyring := (nw_keyring demo_mesh_net)\<lparr>kr_keys := [(''B'', PublicKey (demo_keypair CHR ''b''))]\<rparr>\<rparr>"

lemma demo_bart_facts: "meName demo_bart = ''bart''" "my_keypair demo_bart = demo_keypair CHR ''b''"
  "nw_peers demo_bart ''L'' = Some ''http://100.64.0.2:7433''"
  by (simp_all add: demo_bart_def NewNetwork_def meName_def my_keypair_def nara_at_def NewNara_def New_Keyring_def)

lemma demo_lisa_facts:
  "getPublicKeyForNara demo_env demo_lisa ''bart'' = Some (PublicKey (demo_keypair CHR ''b''))"
  "Neighbourhood.getPublicKeyForNaraID demo_lisa ''B'' = Some (PublicKey (demo_keypair CHR ''b''))"
  by (simp_all add: demo_lisa_def demo_mesh_net_def demo_net_def NewNetwork_def nara_at_def demo_me_def getNara_def meName_def NewNara_def
      getPublicKeyForNara_def ParsePublicKey_def demo_keypair_def PublicKeySize_def Let_def Neighbourhood.getPublicKeyForNaraID_def Lookup_def New_Keyring_def zero_status_def)

definition demo_host :: "(string \<Rightarrow> string option http_request \<Rightarrow> 'w \<Rightarrow> int option \<times> 'w) \<Rightarrow> 'w host_env" where
  "demo_host post' = \<lparr>he_G = demo_env, he_S = demo_souls, he_C = stash_codec, he_A = demo_aead, he_u = stash_unmarshallers, he_T = demo_clock,
     he_post = post', he_publish = None, he_rand = (\<lambda>w. None), he_wait = (\<lambda>ch st. (st, CallError CallTimeout))\<rparr>"

definition demo_offline :: "unit host_env" where
  "demo_offline = demo_host (\<lambda>url r w. (None, w))"

definition demo_letter :: "string \<Rightarrow> stash_payload Message" where
  "demo_letter c =
     (let m = zero_message\<lparr>m_ID := c, m_Kind := ''stash:store'', m_Version := 1, m_FromID := ''B'', m_ToID := ''L'', m_Timestamp := 5,
                m_Payload := Some (StorePayload (demo_store ''B'' c))\<rparr>
      in m\<lparr>m_Signature := KeypairSign demo_env (demo_keypair CHR ''b'') (the (SignableContent stash_codec m))\<rparr>)"

lemma demo_letter_facts:
  "m_Kind (demo_letter c) = ''stash:store''" "m_Payload (demo_letter c) = Some (StorePayload (demo_store ''B'' c))" "m_Version (demo_letter c) = 1"
  "m_InReplyTo (demo_letter c) = []" "m_FromID (demo_letter c) = ''B''"
  "Message_VerifySignature demo_env stash_codec (demo_letter c) (PublicKey (demo_keypair CHR ''b''))"
  "\<exists>raw. Message_Marshal demo_env stash_codec (demo_letter c) = Some raw"
proof -
  show "m_Kind (demo_letter c) = ''stash:store''" "m_Payload (demo_letter c) = Some (StorePayload (demo_store ''B'' c))" "m_Version (demo_letter c) = 1"
    "m_InReplyTo (demo_letter c) = []" "m_FromID (demo_letter c) = ''B''"
    by (simp_all add: demo_letter_def zero_message_def Let_def)
  show "\<exists>raw. Message_Marshal demo_env stash_codec (demo_letter c) = Some raw"
    by (simp add: Message_Marshal_def demo_letter_def zero_message_def payload_json_def stash_codec_def Let_def)
  let ?m = "zero_message\<lparr>m_ID := c, m_Kind := ''stash:store'', m_Version := 1, m_FromID := ''B'', m_ToID := ''L'', m_Timestamp := 5,
    m_Payload := Some (StorePayload (demo_store ''B'' c))\<rparr>"
  obtain content where content: "SignableContent stash_codec ?m = Some content"
    by (simp add: SignableContent_def zero_message_def payload_json_def stash_codec_def)
  show "Message_VerifySignature demo_env stash_codec (demo_letter c) (PublicKey (demo_keypair CHR ''b''))"
    using signed_message_verifies [OF crypto_ok_demo valid_keypair_demo content] content by (simp add: demo_letter_def Let_def)
qed

lemma demo_letter_known: "message_known demo_env stash_codec demo_lisa (demo_letter c)"
  using demo_letter_facts(5,6) demo_lisa_facts(2) by (simp add: message_known_def)

lemma demo_letter_stores: "c \<noteq> [] \<Longrightarrow> store_message (demo_letter c) (demo_store ''B'' c)"
  using demo_letter_facts by (simp add: store_message_def demo_store_def StashStorePayload_Validate_def)

lemma demo_room: "canStore (network_iface demo_offline demo_lisa demo_lisa) own NewService"
  by (simp add: canStore_def NewService_def StorageLimit_def)

definition demo_registry :: "stash_payload CallRegistry" where
  "demo_registry = \<lparr>cr_pending = Map.empty, cr_sent = []\<rparr>"

theorem old_stash_replayed_witness:
  "\<exists>st1 st2 st3 e. Receive demo_env stash_codec (fst (initRuntime demo_offline demo_lisa None)) (Some (wire_of stash_codec (demo_letter ''one'')))
      (demo_registry, NewService, demo_lisa, ()) = (st1, Done) \<and>
    Receive demo_env stash_codec (fst (initRuntime demo_offline demo_lisa None)) (Some (wire_of stash_codec (demo_letter ''two''))) st1 = (st2, Done) \<and>
    Receive demo_env stash_codec (fst (initRuntime demo_offline demo_lisa None)) (Some (wire_of stash_codec (demo_letter ''one''))) st2 = (st3, Done) \<and>
    GetStoredStash ''B'' (fst (snd st3)) = Some e \<and> es_Ciphertext e = ''one''"
  using old_stash_replayed [where H = demo_offline and ?net0.0 = demo_lisa and s = NewService and r = demo_registry and w = "()" and own = "''B''",
      OF demo_letter_stores demo_letter_stores _ _ _ demo_letter_known demo_letter_known demo_room, of "''one''" "''two''"] codec_ok_demo
  by (auto simp: demo_store_def demo_offline_def demo_host_def)

text \<open>Bart's client posts to the endpoint of lisa, who reads every body as the letter \<open>c\<close>.\<close>

definition demo_door :: "string \<Rightarrow> string option http_request \<Rightarrow> unit host world \<Rightarrow> (unit option answer \<times> unit host world) option go" where
  "demo_door c = mesh_message_endpoint demo_offline demo_quiet_peers (\<lambda>url. None) (\<lambda>b. [])
     (\<lambda>raw. Some (wire_of stash_codec (demo_letter c))) (Some (fst (initRuntime demo_offline demo_lisa None)))"

definition demo_online :: "string \<Rightarrow> unit host world host_env" where
  "demo_online c = demo_host (reached_runtime ''100.64.0.3:5000'' (demo_door c))"

lemma demo_host_fields:
  "he_G (demo_online c) = demo_env" "he_C (demo_online c) = stash_codec" "he_T (demo_online c) = demo_clock"
  "he_post (demo_online c) = reached_runtime ''100.64.0.3:5000'' (demo_door c)"
  "he_G demo_offline = demo_env" "he_C demo_offline = stash_codec" "he_T demo_offline = demo_clock" "he_u demo_offline = stash_unmarshallers"
  by (simp_all add: demo_online_def demo_offline_def demo_host_def)

definition demo_lisa_world :: "unit host world" where
  "demo_lisa_world = (demo_registry, NewService, demo_lisa, ())"

text \<open>What bart emits, and what his runtime makes of it; lisa reads every body as the latter.\<close>

definition demo_order :: "stash_payload Message" where
  "demo_order = zero_message\<lparr>m_ID := ''i'', m_Kind := ''stash:store'', m_ToID := ''L'', m_Payload := Some (StorePayload (demo_store ''B'' ''one''))\<rparr>"

definition demo_sent :: "stash_payload Message" where
  "demo_sent =
     (let m = demo_order\<lparr>m_Timestamp := 5, m_FromID := ''B'', m_From := ''bart'', m_Version := 1\<rparr>
      in m\<lparr>m_Signature := KeypairSign demo_env (demo_keypair CHR ''b'') (the (SignableContent stash_codec m))\<rparr>)"

definition demo_linked :: "unit host world host_env" where
  "demo_linked = demo_host (reached_runtime ''100.64.0.3:5000'' (mesh_message_endpoint demo_offline demo_quiet_peers (\<lambda>url. None) (\<lambda>b. [])
     (\<lambda>raw. Some (wire_of stash_codec demo_sent)) (Some (fst (initRuntime demo_offline demo_lisa None)))))"

definition demo_bart_named :: nara_net where
  "demo_bart_named = demo_bart\<lparr>nw_ID := ''B''\<rparr>"

lemma demo_bart_named_facts:
  "nw_ID demo_bart_named = ''B''" "meName demo_bart_named = ''bart''" "my_keypair demo_bart_named = demo_keypair CHR ''b''"
  "nw_peers demo_bart_named ''L'' = Some ''http://100.64.0.2:7433''"
  using demo_bart_facts by (simp_all add: demo_bart_named_def meName_def my_keypair_def nara_at_def)

lemma demo_sent_is: "demo_sent = stash_message_of demo_linked demo_bart_named 5 demo_order"
proof -
  have k: "m_Kind demo_order = ''stash:store''" by (simp add: demo_order_def)
  have h: "he_G demo_linked = demo_env" "he_C demo_linked = stash_codec" by (simp_all add: demo_linked_def demo_host_def)
  show ?thesis
    by (simp add: stash_message_of_def k RegisterBehaviors_mesh emitted_message_def versioned_def prepared_def MeID_def demo_bart_named_facts h demo_order_def zero_message_def demo_sent_def Let_def)
qed

theorem message_over_mesh_witness:
  "\<exists>r s w. Emit demo_env stash_codec (fst (initRuntime demo_linked demo_bart_named None)) 5 demo_order
       (demo_registry, NewService, demo_bart_named, demo_lisa_world) = ((demo_registry, NewService, demo_bart_named, r, s, demo_lisa, w), Done) \<and>
     GetStoredStash ''B'' s \<noteq> None"
proof -
  let ?p = "StorePayload (demo_store ''B'' ''one'')"
  have h: "he_G demo_linked = demo_env" "he_C demo_linked = stash_codec" "he_T demo_linked = demo_clock"
    "he_post demo_linked = reached_runtime ''100.64.0.3:5000'' (mesh_message_endpoint demo_offline demo_quiet_peers (\<lambda>url. None) (\<lambda>b. [])
     (\<lambda>raw. Some (wire_of stash_codec demo_sent)) (Some (fst (initRuntime demo_offline demo_lisa None))))"
    by (simp_all add: demo_linked_def demo_host_def)
  obtain raw where raw: "Message_Marshal demo_env stash_codec demo_sent = Some raw"
    by (simp add: Message_Marshal_def demo_sent_def demo_order_def zero_message_def payload_json_def stash_codec_def Let_def)
  have o: "m_Kind demo_order = ''stash:store''" "m_ToID demo_order = ''L''" "m_Payload demo_order = Some ?p" "m_Version demo_order = 0"
    "m_FromID demo_order = []" "m_InReplyTo demo_order = []"
    by (simp_all add: demo_order_def zero_message_def)
  have kind: "request_kind (m_Kind demo_order) ?p \<or> answer_kind (m_Kind demo_order) ?p"
    by (simp add: o request_kind_def)
  have "Emit demo_env stash_codec (fst (initRuntime demo_linked demo_bart_named None)) 5 demo_order
      (demo_registry, NewService, demo_bart_named, demo_registry, NewService, demo_lisa, ()) =
      ((demo_registry, NewService, demo_bart_named,
        fst (network_handlers demo_offline demo_lisa demo_sent ?p (demo_registry, NewService, demo_lisa, ()))), Done)"
    by (rule message_over_mesh [where H = demo_linked and HB = demo_offline, THEN conjunct1, unfolded h])
      (use raw kind o in \<open>simp_all add: demo_host_fields demo_bart_named_facts demo_lisa_facts crypto_ok_demo valid_keypair_demo demo_now codec_ok_demo
        demo_sent_is h del: initRuntime_new\<close>)
  moreover have "fst (snd (fst (network_handlers demo_offline demo_lisa demo_sent ?p (demo_registry, NewService, demo_lisa, ())))) =
      store (ck_nano demo_clock) ''B'' (replicate 24 CHR ''n'') ''one'' NewService"
    using handleStoreV1_cases [OF emit_quiet_network, of demo_offline demo_lisa demo_lisa demo_sent "demo_store ''B'' ''one''"
        demo_registry NewService "(demo_lisa, ())"] demo_room [of "''B''"]
    by (simp add: network_handlers_def demo_store_def StashStorePayload_Validate_def network_iface_def demo_host_fields)
  moreover obtain s' w' where "fst (network_handlers demo_offline demo_lisa demo_sent ?p (demo_registry, NewService, demo_lisa, ())) =
      (demo_registry, s', demo_lisa, w')"
    using network_handlers_keep [of demo_offline demo_lisa demo_sent ?p demo_registry NewService demo_lisa "()"] by blast
  ultimately show ?thesis by (auto simp: demo_lisa_world_def)
qed

theorem unauthenticated_changes_nothing_witness:
  "\<exists>st' m. Receive demo_env stash_codec (fst (initRuntime demo_offline demo_lisa None)) (Some (wire_of stash_codec (demo_letter ''one'')))
      demo_lisa_world = (st', Done) \<and> st' \<noteq> demo_lisa_world \<and>
     deserialize (fst (initRuntime demo_offline demo_lisa None)) (Some (wire_of stash_codec (demo_letter ''one''))) = Some m \<and>
     (message_known demo_env stash_codec demo_lisa m \<or> m_InReplyTo m \<noteq> [] \<or> m_Kind m = ''stash-refresh'')"
proof -
  let ?s = "store (ck_nano demo_clock) ''B'' (replicate 24 CHR ''n'') ''one'' NewService"
  obtain w' where w: "Receive demo_env stash_codec (fst (initRuntime demo_offline demo_lisa None)) (Some (wire_of stash_codec (demo_letter ''one'')))
      (demo_registry, NewService, demo_lisa, ()) = ((demo_registry, ?s, demo_lisa, w'), Done)"
    using store_received [where H = demo_offline, OF demo_letter_stores _ demo_letter_known demo_room, of "''one''"]
    by (auto simp: demo_host_fields codec_ok_demo demo_store_def)
  have n: "?s \<noteq> NewService" by (simp add: store_def NewService_def)
  then have "(demo_registry, ?s, demo_lisa, w') \<noteq> (demo_registry, NewService, demo_lisa, ())" by simp
  then show ?thesis using unauthenticated_changes_nothing [OF w] w unfolding demo_lisa_world_def by blast
qed

theorem stash_changed_by_signed_message_witness:
  "\<exists>r a st. demo_door ''one'' r demo_lisa_world = Inr (Some (a, st)) \<and> fst (snd st) \<noteq> NewService \<and>
     (\<exists>k. request_authentic demo_env demo_clock r k)"
proof -
  define r where "r = (message_request demo_env demo_clock (network_client demo_bart) ''http://100.64.0.2:7433/mesh/message'' ''x'')
      \<lparr>hq_RemoteAddr := ''100.64.0.3:5000''\<rparr>"
  have c: "mc_name (network_client demo_bart) = ''bart''" "mc_keypair (network_client demo_bart) = demo_keypair CHR ''b''"
    using demo_bart_facts by (simp_all add: network_client_def NewMeshClient_def)
  have r: "authenticate demo_env demo_quiet_peers demo_clock (\<lambda>url. None) r demo_lisa = Inr (Inr ''bart'', demo_lisa)"
    "hq_Method r = ''POST''" "hq_Body r = Some ''x''"
    using message_request_authentic [where m = "network_client demo_bart" and net = demo_lisa, OF crypto_ok_demo _ _ demo_now _ r_def]
      c valid_keypair_demo demo_lisa_facts(1) by simp_all
  obtain w' where w: "Receive demo_env stash_codec (fst (initRuntime demo_offline demo_lisa None)) (Some (wire_of stash_codec (demo_letter ''one'')))
      (demo_registry, NewService, demo_lisa, ()) =
      ((demo_registry, store (ck_nano demo_clock) ''B'' (replicate 24 CHR ''n'') ''one'' NewService, demo_lisa, w'), Done)"
    using store_received [where H = demo_offline, OF demo_letter_stores _ demo_letter_known demo_room, of "''one''"]
    by (auto simp: demo_host_fields codec_ok_demo demo_store_def)
  define st where "st = (demo_registry, store (ck_nano demo_clock) ''B'' (replicate 24 CHR ''n'') ''one'' NewService, demo_lisa, w')"
  obtain a where a: "demo_door ''one'' r demo_lisa_world = Inr (Some (a, st))"
    using r w by (simp add: demo_door_def mesh_message_endpoint_def httpMeshMessageHandler_def demo_host_fields demo_lisa_world_def st_def del: initRuntime_new)
  have n: "fst (snd st) \<noteq> NewService" by (simp add: st_def store_def NewService_def)
  have "\<exists>k. request_authentic demo_env demo_clock r k"
    using stash_changed_by_signed_message [OF a [unfolded demo_door_def demo_lisa_world_def st_def]] n
    by (auto simp: st_def demo_host_fields)
  then show ?thesis using a n by blast
qed

end
