(* ===== verification/Plaza.thy ===== *)
theory Plaza
  imports Nara_Machine World_Network
begin

text \<open>
  What comes in over MQTT (\<open>transport_mqtt.go\<close>): the handlers of the topics check a message and put it into an
  inbox, and a goroutine per inbox (\<open>processHowdyEvents\<close> and the like) hands it to the handler of its kind. Payloads are
  read by \<open>json.Unmarshal\<close>, a parameter. A nara is then the network with its inboxes.
\<close>

section \<open>Inboxes\<close>

datatype channel =
    HeyThereInbox | ChauInbox | HowdyInbox | SocialInbox | LedgerRequestInbox | LedgerResponseInbox | JourneyInbox | NewspaperInbox

datatype item =
    HeyThereItem SyncEvent
  | ChauItem SyncEvent
  | HowdyItem HowdyEvent
  | SocialItem SyncEvent
  | LedgerRequestItem LedgerRequest
  | LedgerResponseItem LedgerResponse
  | JourneyItem JourneyCompletion
  | NewspaperItem NewspaperEvent

fun channel_of :: "item \<Rightarrow> channel" where
  "channel_of (HeyThereItem e) = HeyThereInbox"
| "channel_of (ChauItem e) = ChauInbox"
| "channel_of (HowdyItem h) = HowdyInbox"
| "channel_of (SocialItem e) = SocialInbox"
| "channel_of (LedgerRequestItem r) = LedgerRequestInbox"
| "channel_of (LedgerResponseItem r) = LedgerResponseInbox"
| "channel_of (JourneyItem c) = JourneyInbox"
| "channel_of (NewspaperItem n) = NewspaperInbox"

type_synonym inboxes = "channel \<Rightarrow> item list"

definition inbox_size :: nat where "inbox_size = 50"

text \<open>
  Sending into a full channel blocks, and the result is \<open>None\<close>; only the handler of hey-theres gives up instead.
\<close>

definition offer :: "item \<Rightarrow> inboxes \<Rightarrow> inboxes option" where
  "offer x ib =
     (let c = channel_of x
      in if length (ib c) < inbox_size then Some (ib(c := ib c @ [x])) else if c = HeyThereInbox then Some ib else None)"

section \<open>Handlers of the topics\<close>

text \<open>The result is what goes into an inbox, if anything does. The argument is the payload, \<open>None\<close> if it does not decode.\<close>

definition heyThereHandler :: "nara_net \<Rightarrow> SyncEvent option \<Rightarrow> item option" where
  "heyThereHandler net payload =
     (case payload of
        None \<Rightarrow> None
      | Some event \<Rightarrow>
          if Service event \<noteq> ServiceHeyThere \<or> HeyThere event = None then None
          else if ht_From (the (HeyThere event)) = meName net \<or> ht_From (the (HeyThere event)) = [] then None
          else Some (HeyThereItem event))"

definition howdyHandler :: "nara_net \<Rightarrow> HowdyEvent option \<Rightarrow> item option" where
  "howdyHandler net payload =
     (case payload of
        None \<Rightarrow> None
      | Some howdy \<Rightarrow> if hw_From howdy = meName net \<or> hw_From howdy = [] then None else Some (HowdyItem howdy))"

definition chauHandler :: "nara_net \<Rightarrow> SyncEvent option \<Rightarrow> item option" where
  "chauHandler net payload =
     (case payload of
        None \<Rightarrow> None
      | Some event \<Rightarrow>
          if Service event \<noteq> ServiceChau \<or> Chau event = None then None
          else if ch_From (the (Chau event)) = meName net \<or> ch_From (the (Chau event)) = [] then None
          else Some (ChauItem event))"

definition socialHandler :: "nara_net \<Rightarrow> SyncEvent option \<Rightarrow> item option" where
  "socialHandler net payload =
     (case payload of
        None \<Rightarrow> None
      | Some event \<Rightarrow>
          if Service event \<noteq> ServiceSocial \<or> Social event = None then None
          else if sp_Actor (the (Social event)) = meName net then None
          else Some (SocialItem event))"

definition ledgerRequestHandler :: "nara_net \<Rightarrow> LedgerRequest option \<Rightarrow> item option" where
  "ledgerRequestHandler net payload =
     (case payload of
        None \<Rightarrow> None
      | Some req \<Rightarrow> if lr_From req = meName net \<or> lr_From req = [] then None else Some (LedgerRequestItem req))"

definition ledgerResponseHandler :: "nara_net \<Rightarrow> LedgerResponse option \<Rightarrow> item option" where
  "ledgerResponseHandler net payload =
     (case payload of
        None \<Rightarrow> None
      | Some resp \<Rightarrow> if lp_From resp = meName net then None else Some (LedgerResponseItem resp))"

definition journeyCompleteHandler :: "nara_net \<Rightarrow> JourneyCompletion option \<Rightarrow> item option" where
  "journeyCompleteHandler net payload =
     (case payload of
        None \<Rightarrow> None
      | Some completion \<Rightarrow>
          if jc_ReportedBy completion = meName net then None
          else if jc_JourneyID completion = [] \<or> jc_Originator completion = [] then None
          else Some (JourneyItem completion))"

text \<open>\<open>strings.Index\<close>, and the second part that \<open>strings.Split\<close> makes.\<close>

fun string_index :: "string \<Rightarrow> string \<Rightarrow> nat option" where
  "string_index s sep =
     (if has_prefix s sep then Some 0
      else case s of [] \<Rightarrow> None | c # cs \<Rightarrow> map_option Suc (string_index cs sep))"

declare string_index.simps [simp del]

definition split_second :: "string \<Rightarrow> string \<Rightarrow> string option" where
  "split_second s sep =
     (case string_index s sep of
        None \<Rightarrow> None
      | Some i \<Rightarrow>
          let rest = drop (i + length sep) s
          in Some (case string_index rest sep of None \<Rightarrow> rest | Some j \<Rightarrow> take j rest))"

text \<open>\<open>coin\<close> is \<open>rand.Intn(2)\<close>; the payload is the raw status with its signature, which \<open>parse\<close> reads.\<close>

definition newspaperHandler ::
  "bool \<Rightarrow> nat \<Rightarrow> (string \<Rightarrow> NaraStatus option) \<Rightarrow> nara_net \<Rightarrow> string \<Rightarrow> (string \<times> string) option \<Rightarrow> item option" where
  "newspaperHandler skippingEvents coin parse net topic payload =
     (if skippingEvents \<and> coin = 0 then None
      else case split_second topic ''nara/newspaper/'' of
             None \<Rightarrow> None
           | Some from1 \<Rightarrow>
               if from1 = meName net then None
               else case payload of
                      None \<Rightarrow> None
                    | Some (raw, signature) \<Rightarrow>
                        (case parse raw of
                           None \<Rightarrow> None
                         | Some status \<Rightarrow>
                             Some (NewspaperItem \<lparr>np_From = from1, np_Status = status, np_Signature = signature, np_StatusJSON = raw\<rparr>)))"

text \<open>The type assertion on the value that \<open>json.Unmarshal\<close> put there, a \<open>string\<close>, never holds; the rest only logs.\<close>

definition stashRefreshHandler :: "nara_net \<Rightarrow> 'j option \<Rightarrow> item option" where
  "stashRefreshHandler net payload = None"

section \<open>Topics\<close>

record plaza_codec =
  pc_event :: "string \<Rightarrow> SyncEvent option"
  pc_howdy :: "string \<Rightarrow> HowdyEvent option"
  pc_request :: "string \<Rightarrow> LedgerRequest option"
  pc_response :: "string \<Rightarrow> LedgerResponse option"
  pc_completion :: "string \<Rightarrow> JourneyCompletion option"
  pc_envelope :: "string \<Rightarrow> (string \<times> string) option"
  pc_status :: "string \<Rightarrow> NaraStatus option"

text \<open>
  What the subscriptions of \<open>subscribeHandlers\<close> make of a message; the broker delivers below \<open>nara/newspaper/\<close> with the topic as it was
  published. The topics of checkpoints go to the checkpoint service.
\<close>

definition subscribed_item :: "plaza_codec \<Rightarrow> bool \<Rightarrow> nat \<Rightarrow> nara_net \<Rightarrow> string \<Rightarrow> string \<Rightarrow> item option" where
  "subscribed_item K skippingEvents coin net topic payload =
     (if topic = ''nara/plaza/hey_there'' then heyThereHandler net (pc_event K payload)
      else if topic = ''nara/plaza/chau'' then chauHandler net (pc_event K payload)
      else if topic = ''nara/plaza/howdy'' then howdyHandler net (pc_howdy K payload)
      else if topic = ''nara/plaza/social'' then socialHandler net (pc_event K payload)
      else if topic = ''nara/plaza/journey_complete'' then journeyCompleteHandler net (pc_completion K payload)
      else if topic = ''nara/plaza/stash_refresh'' then stashRefreshHandler net (Some payload)
      else if has_prefix topic ''nara/newspaper/''
      then newspaperHandler skippingEvents coin (pc_status K) net topic (pc_envelope K payload)
      else if topic = ''nara/ledger/'' @ meName net @ ''/request'' then ledgerRequestHandler net (pc_request K payload)
      else if topic = ''nara/ledger/'' @ meName net @ ''/response'' then ledgerResponseHandler net (pc_response K payload)
      else None)"

text \<open>Whether a subscription succeeds, and the seconds waited, from the given attempt on; \<open>sub\<close> is \<open>Subscribe\<close>.\<close>

fun subscribe_from :: "(nat \<Rightarrow> bool) \<Rightarrow> nat list \<Rightarrow> bool \<times> nat list" where
  "subscribe_from sub [] = (False, [])"
| "subscribe_from sub (attempt # later) =
     (if sub attempt then (True, [])
      else case subscribe_from sub later of (ok, waits) \<Rightarrow> (ok, (if attempt < 3 then attempt # waits else waits)))"

definition subscribeMqtt :: "(nat \<Rightarrow> bool) \<Rightarrow> bool \<times> nat list" where
  "subscribeMqtt sub = subscribe_from sub [1, 2, 3]"

section \<open>Goroutines\<close>

text \<open>
  One turn of the loops that read the inboxes. Completed journeys act on the journeys that the nara has seen.
\<close>

definition on_network :: "(nara_net \<Rightarrow> nara_net go) \<Rightarrow> nara_net \<times> journeys \<Rightarrow> (nara_net \<times> journeys) go" where
  "on_network f s = go_bind (f (fst s)) (\<lambda>net. Inr (net, snd s))"

definition handle_item :: "go_env \<Rightarrow> peers \<Rightarrow> clock \<Rightarrow> item \<Rightarrow> nara_net \<times> journeys \<Rightarrow> (nara_net \<times> journeys) go" where
  "handle_item G P T x s =
     (case x of
        HeyThereItem e \<Rightarrow> on_network (handleHeyThereEvent G P T e) s
      | ChauItem e \<Rightarrow> on_network (handleChauEvent G P T e) s
      | HowdyItem h \<Rightarrow> on_network (handleHowdyEvent G P T h) s
      | SocialItem e \<Rightarrow> on_network (handleSocialEvent G P e) s
      | LedgerRequestItem q \<Rightarrow> on_network (\<lambda>net. Inr (handleLedgerRequest q net)) s
      | LedgerResponseItem a \<Rightarrow> on_network (handleLedgerResponse G a) s
      | JourneyItem c \<Rightarrow> in_world G (handleJourneyCompletion G (world_me (fst s)) (ck_nano T) c) s
      | NewspaperItem n \<Rightarrow> on_network (handleNewspaperEvent G P T n) s)"

inductive plaza_step ::
  "go_env \<Rightarrow> plaza_codec \<Rightarrow> (nara_net \<times> journeys) \<times> inboxes \<Rightarrow> ((nara_net \<times> journeys) \<times> inboxes) go \<Rightarrow> bool"
  for G :: go_env and K :: plaza_codec where
  arrive: "subscribed_item K skippingEvents coin (fst s) topic payload = Some x \<Longrightarrow> offer x ib = Some ib' \<Longrightarrow>
    plaza_step G K (s, ib) (Inr (s, ib'))"
| take_item: "ib c = x # xs \<Longrightarrow> plaza_step G K (s, ib) (go_bind (handle_item G P T x s) (\<lambda>s1. Inr (s1, ib(c := xs))))"
| other: "nara_step G s r \<Longrightarrow> plaza_step G K (s, ib) (go_bind r (\<lambda>s1. Inr (s1, ib)))"

inductive plaza_reaches :: "go_env \<Rightarrow> plaza_codec \<Rightarrow> nara_net \<Rightarrow> (nara_net \<times> journeys) \<times> inboxes \<Rightarrow> bool"
  for G :: go_env and K :: plaza_codec and net0 :: nara_net where
  start: "plaza_reaches G K net0 ((net0, no_journeys), \<lambda>c. [])"
| turn: "plaza_reaches G K net0 st \<Longrightarrow> plaza_step G K st (Inr st') \<Longrightarrow> plaza_reaches G K net0 st'"

end
