(* ===== verification/Plaza_Properties.thy ===== *)
theory Plaza_Properties
  imports Plaza Presence_Properties
begin

text \<open>
  The plaza in every interleaving of arriving messages, goroutines and the other steps of a nara: what is in the inboxes comes
  from others and has the form its handler expects, no inbox outgrows its channel, and no turn panics.
\<close>

section \<open>What is in an inbox\<close>

definition from_other :: "NaraName \<Rightarrow> item \<Rightarrow> bool" where
  \<comment> \<open>said by another nara than \<open>me\<close>, and of the form its handler reads\<close>
  "from_other me x \<longleftrightarrow>
     (case x of
        HeyThereItem e \<Rightarrow> Service e = ServiceHeyThere \<and> (\<exists>h. HeyThere e = Some h \<and> ht_From h \<notin> {me, []})
      | ChauItem e \<Rightarrow> Service e = ServiceChau \<and> (\<exists>c. Chau e = Some c \<and> ch_From c \<notin> {me, []})
      | HowdyItem h \<Rightarrow> hw_From h \<notin> {me, []} \<and> st_Observations (hw_Me h) \<noteq> None
      | SocialItem e \<Rightarrow> Service e = ServiceSocial \<and> (\<exists>s. Social e = Some s \<and> sp_Actor s \<noteq> me)
      | LedgerRequestItem q \<Rightarrow> lr_From q \<notin> {me, []}
      | LedgerResponseItem a \<Rightarrow> lp_From a \<noteq> me
      | JourneyItem c \<Rightarrow> jc_ReportedBy c \<noteq> me \<and> jc_JourneyID c \<noteq> [] \<and> jc_Originator c \<noteq> []
      | NewspaperItem n \<Rightarrow> np_From n \<noteq> me)"

definition inboxes_ok :: "NaraName \<Rightarrow> inboxes \<Rightarrow> bool" where
  "inboxes_ok me ib \<longleftrightarrow> (\<forall>c. length (ib c) \<le> inbox_size \<and> (\<forall>x \<in> set (ib c). channel_of x = c \<and> from_other me x))"

text \<open>A howdy with a status that has a map of observations; see \<open>howdy_plants_nil_map\<close> for the others.\<close>

definition howdys_have_maps :: "plaza_codec \<Rightarrow> bool" where
  "howdys_have_maps K \<longleftrightarrow> (\<forall>payload h. pc_howdy K payload = Some h \<longrightarrow> st_Observations (hw_Me h) \<noteq> None)"

lemma subscribed_from_other:
  assumes "howdys_have_maps K" and "subscribed_item K skippingEvents coin net topic payload = Some x"
  shows "from_other (meName net) x"
  using assms
  by (auto simp: subscribed_item_def from_other_def howdys_have_maps_def heyThereHandler_def chauHandler_def howdyHandler_def
      socialHandler_def journeyCompleteHandler_def stashRefreshHandler_def newspaperHandler_def ledgerRequestHandler_def
      ledgerResponseHandler_def split: if_splits option.splits)

lemma offer_ok:
  assumes "inboxes_ok me ib" and "from_other me x" and "offer x ib = Some ib'"
  shows "inboxes_ok me ib'"
  using assms by (auto simp: offer_def inboxes_ok_def Let_def split: if_splits)

lemma take_ok:
  assumes "inboxes_ok me ib" and "ib c = x # xs"
  shows "inboxes_ok me (ib(c := xs))" "from_other me x"
proof -
  have c: "length (ib c) \<le> inbox_size" "\<forall>y \<in> set (ib c). channel_of y = c \<and> from_other me y"
    using assms(1) by (auto simp: inboxes_ok_def)
  then show "from_other me x" using assms(2) by simp
  show "inboxes_ok me (ib(c := xs))" using assms c by (auto simp: inboxes_ok_def)
qed

lemma handle_item_ok:
  assumes srt: "sort_algorithm (sort_perm G)" and s: "nara_ok s" and x: "from_other me x"
  shows "\<exists>y. handle_item G P T x s = Inr y \<and> nara_ok y \<and> net_ext (fst s) (fst y)"
proof -
  obtain net J where s': "s = (net, J)" by fastforce
  have net: "\<exists>y. on_network f s = Inr y \<and> nara_ok y \<and> net_ext (fst s) (fst y)" if "net_step G net (f net)" for f
    using nara_step_ok [OF srt s, of "go_bind (f net) (\<lambda>net1. Inr (net1, J))"] on_net [OF that, of J] by (simp add: s' on_network_def)
  show ?thesis
  proof (cases x)
    case (HowdyItem h)
    then have "st_Observations (hw_Me h) \<noteq> None" using x by (simp add: from_other_def)
    then show ?thesis using net HowdyItem on_howdy by (simp add: handle_item_def)
  next
    case (JourneyItem c)
    show ?thesis using nara_step_ok [OF srt s] journey_done JourneyItem by (simp add: s' handle_item_def)
  next
    case (HeyThereItem e)
    then show ?thesis using net on_hey_there by (simp add: handle_item_def)
  next
    case (ChauItem e)
    then show ?thesis using net on_chau by (simp add: handle_item_def)
  next
    case (SocialItem e)
    then show ?thesis using net on_social by (simp add: handle_item_def)
  next
    case (LedgerRequestItem q)
    then show ?thesis using net on_ledger_request by (simp add: handle_item_def)
  next
    case (LedgerResponseItem a)
    then show ?thesis using net on_ledger_response by (simp add: handle_item_def)
  next
    case (NewspaperItem n)
    then show ?thesis using net on_newspaper by (simp add: handle_item_def)
  qed
qed

section \<open>Runs\<close>

definition plaza_ok :: "nara_net \<Rightarrow> (nara_net \<times> journeys) \<times> inboxes \<Rightarrow> bool" where
  "plaza_ok net0 st \<longleftrightarrow> nara_ok (fst st) \<and> net_ext net0 (fst (fst st)) \<and> inboxes_ok (meName net0) (snd st)"

lemma plaza_step_ok:
  assumes "sort_algorithm (sort_perm G)" and "presence_wf net0" and "howdys_have_maps K" and "plaza_ok net0 st" and "plaza_step G K st r"
  shows "\<exists>st'. r = Inr st' \<and> plaza_ok net0 st'"
  using assms(5)
proof cases
  case (arrive skippingEvents coin s topic payload x ib ib')
  have "meName (fst s) = meName net0"
    using assms(4) arrive(1) by (intro net_ext_identity(1) [OF assms(2)]) (simp add: plaza_ok_def)
  then have "from_other (meName net0) x" using subscribed_from_other [OF assms(3) arrive(3)] by simp
  then show ?thesis using offer_ok [OF _ _ arrive(4)] assms(4) arrive(1,2) by (auto simp: plaza_ok_def)
next
  case (take_item ib c x xs s P T)
  have o: "inboxes_ok (meName net0) ib" and w: "nara_ok s" and e: "net_ext net0 (fst s)"
    using assms(4) take_item(1) by (simp_all add: plaza_ok_def)
  obtain s1 where "handle_item G P T x s = Inr s1" "nara_ok s1" "net_ext (fst s) (fst s1)"
    using handle_item_ok [OF assms(1) w take_ok(2) [OF o take_item(3)]] by blast
  then show ?thesis using take_item(2) take_ok(1) [OF o take_item(3)] net_ext_trans [OF e] by (auto simp: plaza_ok_def)
next
  case (other s r1 ib)
  obtain s1 where "r1 = Inr s1" "nara_ok s1" "net_ext (fst s) (fst s1)"
    using nara_step_ok [OF assms(1) _ other(3)] assms(4) other(1) by (auto simp: plaza_ok_def)
  then show ?thesis using other(1,2) assms(4) net_ext_trans by (auto simp: plaza_ok_def)
qed

text \<open>
  C27: A nara is not confused by the plaza. However messages arrive over MQTT, goroutines read the inboxes and the other steps of
  the nara happen in between, every inbox stays within its channel, holds only messages of its kind that another nara said, in the
  form the handler reads, and no next turn panics, as long as howdys carry a map of observations and the other steps meet the
  conditions of \<open>nara_never_panics\<close> on batches, zines, relayed journeys and the load average. Completed journeys may carry any ID.
\<close>

theorem plaza_runs_safe:
  assumes "sort_algorithm (sort_perm G)" and "presence_wf net0" and "howdys_have_maps K" and "plaza_reaches G K net0 (s, ib)"
  shows "inboxes_ok (meName net0) ib \<and> presence_wf (fst s) \<and> (\<forall>r. plaza_step G K (s, ib) r \<longrightarrow> (\<exists>st'. r = Inr st'))"
proof -
  have "plaza_ok net0 st" if "plaza_reaches G K net0 st" for st
    using that
  proof induction
    case start
    then show ?case using assms(2) by (simp add: plaza_ok_def inboxes_ok_def nara_ok_def no_journeys_def pending_ok_def)
  next
    case (turn st st')
    then show ?case using plaza_step_ok [OF assms(1-3)] by blast
  qed
  from this [OF assms(4)] show ?thesis using plaza_step_ok [OF assms(1-3)] by (fastforce simp: plaza_ok_def nara_ok_def)
qed

section \<open>Newspapers\<close>

lemma string_index_prefix: "string_index (p @ s) p = Some 0"
  by (subst string_index.simps) (simp add: has_prefix_def)

text \<open>The topic on which \<open>announce\<close> publishes gives its sender back.\<close>

lemma newspaper_topic_roundtrip:
  assumes "string_index name ''nara/newspaper/'' = None"
  shows "split_second (''nara/newspaper/'' @ name) ''nara/newspaper/'' = Some name"
  using assms by (simp only: split_second_def string_index_prefix) simp

section \<open>Examples\<close>

definition demo_greeting :: HowdyEvent where
  "demo_greeting = \<lparr>hw_From = ''bart'', hw_To = ''lisa'', hw_Seq = 1, hw_You = zero_observation, hw_Neighbors = [],
     hw_Me = zero_status\<lparr>st_Observations := Some []\<rparr>, hw_Signature = []\<rparr>"

definition demo_reader :: plaza_codec where
  "demo_reader = \<lparr>pc_event = (\<lambda>s. None), pc_howdy = (\<lambda>s. Some demo_greeting), pc_request = (\<lambda>s. None), pc_response = (\<lambda>s. None),
     pc_completion = (\<lambda>s. None), pc_envelope = (\<lambda>s. None), pc_status = (\<lambda>s. None)\<rparr>"

definition demo_crowd :: "nara_net \<times> journeys" where
  "demo_crowd = (Presence_Properties.demo_net, no_journeys)"

theorem plaza_runs_safe_witness:
  "\<exists>ib. plaza_reaches demo_env demo_reader Presence_Properties.demo_net (demo_crowd, ib) \<and>
     ib HowdyInbox = [HowdyItem demo_greeting] \<and> inboxes_ok ''lisa'' ib"
proof -
  let ?net = Presence_Properties.demo_net and ?ib = "(\<lambda>c. [])(HowdyInbox := [HowdyItem demo_greeting])"
  have me: "meName ?net = ''lisa''"
    by (simp add: Presence_Properties.demo_net_def NewNetwork_def meName_def nara_at_def demo_me_def NewNara_def)
  have "subscribed_item demo_reader False 0 (fst demo_crowd) ''nara/plaza/howdy'' ''x'' = Some (HowdyItem demo_greeting)"
    by (simp add: subscribed_item_def demo_reader_def howdyHandler_def demo_crowd_def me) (simp add: demo_greeting_def)
  then have "plaza_step demo_env demo_reader (demo_crowd, \<lambda>c. []) (Inr (demo_crowd, ?ib))"
    by (rule plaza_step.arrive) (simp add: offer_def inbox_size_def)
  then have r: "plaza_reaches demo_env demo_reader ?net (demo_crowd, ?ib)"
    unfolding demo_crowd_def by (rule plaza_reaches.turn [OF plaza_reaches.start])
  have "howdys_have_maps demo_reader" by (simp add: howdys_have_maps_def demo_reader_def demo_greeting_def)
  then have "inboxes_ok (meName ?net) ?ib" using plaza_runs_safe [OF sort_algorithm_demo demo_net_wf _ r] by blast
  then show ?thesis using r me by (intro exI [of _ ?ib]) simp
qed

end
