(* ===== verification/Stash_Http.thy ===== *)
theory Stash_Http
  imports Runtime_Network Local_Nara
begin

text \<open>
  The handlers that show and change the stash of the nara itself (\<open>http_stash.go\<close>) and what a service may ask of the network
  (\<open>network_context.go\<close>). JSON travels as the values it encodes; \<open>parse\<close> reads the object that a stash is.
\<close>

section \<open>Status\<close>

record confidant_info =
  ci_ID :: NaraID
  ci_Name :: "NaraName option"
  ci_MemoryMode :: "string option"
  ci_Online :: "bool option"

record 'd StashStatus =
  ss_MyStash :: "(int \<times> 'd) option"
  ss_Confidants :: "confidant_info list"
  ss_TargetCount :: "int option"
  ss_StashesStored :: nat
  ss_TotalBytes :: nat
  ss_StorageLimit :: nat

text \<open>A field that is absent is \<open>None\<close>; \<open>has_stash\<close> is whether there is a stash.\<close>

definition ss_HasStash :: "'d StashStatus \<Rightarrow> bool" where
  "ss_HasStash s \<longleftrightarrow> ss_MyStash s \<noteq> None"

definition GetStashData :: "Service \<Rightarrow> string \<times> int" where
  "GetStashData s = (myStashData s, myStashTimestamp s)"

definition TargetConfidants :: "Service \<Rightarrow> int" where
  "TargetConfidants s = targetConfidants s"

text \<open>The state as JSON. Ciphertexts are byte slices, which JSON has as base64 text.\<close>

datatype json_value = JText string | JItems "json_value list"

definition MarshalState :: "go_env \<Rightarrow> Service \<Rightarrow> NaraID list \<times> (NaraID \<times> json_value) list" where
  \<comment> \<open>the confidants, and of every stored stash the field \<open>Ciphertext\<close>\<close>
  "MarshalState G s = (confidants s, map (\<lambda>(own, e). (own, JText (base64_Encode G (es_Ciphertext e)))) (stored s))"

definition confidant_details :: "nara_net \<Rightarrow> NaraID \<Rightarrow> confidant_info" where
  "confidant_details net confidantID =
     (case nw_NeighbourhoodByID net confidantID of
        None \<Rightarrow> \<lparr>ci_ID = confidantID, ci_Name = None, ci_MemoryMode = None, ci_Online = None\<rparr>
      | Some r \<Rightarrow>
          let nara = nara_at net r
          in \<lparr>ci_ID = confidantID, ci_Name = Some (na_Name nara), ci_MemoryMode = Some (st_MemoryMode (na_Status nara)),
              ci_Online = map_option isOnline (peer_observation net (na_Name nara))\<rparr>)"

definition total_bytes :: "(NaraID \<times> json_value) list \<Rightarrow> nat" where
  \<comment> \<open>the lengths of the ciphertexts that are JSON arrays\<close>
  "total_bytes xs = sum_list (map (\<lambda>(own, v). case v of JItems ys \<Rightarrow> length ys | JText t \<Rightarrow> 0) xs)"

definition httpStashStatusHandler ::
  "go_env \<Rightarrow> (string \<Rightarrow> 'd) \<Rightarrow> 's RuntimeInterface \<Rightarrow> nara_net \<Rightarrow> Service option \<Rightarrow> 'd StashStatus option http_response" where
  "httpStashStatusHandler G parse rt net stashService =
     (case stashService of
        None \<Rightarrow> http_json \<lparr>ss_MyStash = None, ss_Confidants = [], ss_TargetCount = None, ss_StashesStored = 0, ss_TotalBytes = 0, ss_StorageLimit = 5\<rparr>
      | Some s \<Rightarrow>
          let (d, timestamp) = GetStashData s; (ids, held) = MarshalState G s
          in http_json \<lparr>ss_MyStash = (if length d > 0 then Some (timestamp, parse d) else None),
               ss_Confidants = map (confidant_details net) ids, ss_TargetCount = Some (TargetConfidants s),
               ss_StashesStored = length held, ss_TotalBytes = total_bytes held, ss_StorageLimit = StorageLimit rt\<rparr>)"

definition httpStashConfidantsHandler :: "go_env \<Rightarrow> nara_net \<Rightarrow> Service option \<Rightarrow> confidant_info list option http_response" where
  "httpStashConfidantsHandler G net stashService =
     (case stashService of
        None \<Rightarrow> http_json []
      | Some s \<Rightarrow> http_json (map (confidant_details net) (fst (MarshalState G s))))"

text \<open>The metric of the bytes is always zero: a base64 text is not an array.\<close>

lemma no_bytes_counted: "total_bytes (snd (MarshalState G s)) = 0"
  by (auto simp: total_bytes_def MarshalState_def case_prod_beta)

text \<open>The service knows the modes low, medium and high; a nara states short, medium, hog or custom.\<close>

lemma hog_keeps_five:
  "ri_MemoryMode rt = MemoryMode_string m \<Longrightarrow> StorageLimit rt = (if m = MemoryModeMedium then 20 else 5)"
  by (cases m) (simp_all add: StorageLimit_def MemoryMode_string_def)

section \<open>Changes\<close>

text \<open>The body of the answer is the field \<open>success\<close>. \<open>available\<close> is whether there is a service.\<close>

definition httpStashUpdateHandler ::
  "('w host world \<Rightarrow> 'w host RuntimeInterface) \<Rightarrow> bool \<Rightarrow> string option http_request \<Rightarrow> 'w host world
   \<Rightarrow> bool option http_response \<times> 'w host world" where
  "httpStashUpdateHandler rt available r st =
     (if hq_Method r \<noteq> ''POST'' then (http_error 405, st)
      else if \<not> available then (http_error 500, st)
      else case hq_Body r of
             None \<Rightarrow> (http_error 400, st)
           | Some d \<Rightarrow> (case SetStashData (rt st) d st of (st', err) \<Rightarrow> (http_json (err = None), st')))"

text \<open>What the goroutine does that the handler starts; the last component of its result is whether it does.\<close>

definition recover_stash :: "('w host world \<Rightarrow> 'w host RuntimeInterface) \<Rightarrow> 'w host world \<Rightarrow> 'w host world" where
  "recover_stash rt st =
     (case RecoverFromAny (rt st) st of
        (st1, Inl err) \<Rightarrow> st1
      | (st1, Inr d) \<Rightarrow> fst (SetStashData (rt st1) d st1))"

definition httpStashRecoverHandler :: "bool \<Rightarrow> 'b http_request \<Rightarrow> bool option http_response \<times> bool" where
  "httpStashRecoverHandler available r =
     (if hq_Method r \<noteq> ''POST'' then (http_error 405, False)
      else if \<not> available then (http_error 500, False)
      else (http_json True, True))"

text \<open>The interface of the service of a network in its present state.\<close>

definition own_iface :: "'w host_env \<Rightarrow> nara_net \<Rightarrow> 'w host world \<Rightarrow> 'w host RuntimeInterface" where
  "own_iface H net0 st = network_iface H net0 (fst (snd (snd st)))"

text \<open>Confidants are kept in memory only: after a start, when a stash is to be recovered, there are none to ask.\<close>

lemma nothing_recovered_after_start: "recover_stash rt (r, NewService, h) = (r, NewService, h)"
  by (simp add: recover_stash_def RecoverFromAny_def NewService_def)

section \<open>The network for services\<close>

definition context_MyName :: "nara_net \<Rightarrow> NaraName" where
  "context_MyName net = meName net"

definition context_Keypair :: "nara_net \<Rightarrow> NaraKeypair" where
  "context_Keypair net = my_keypair net"

definition context_BuildMeshURL :: "nara_net \<Rightarrow> NaraName \<Rightarrow> string \<Rightarrow> string" where
  "context_BuildMeshURL net name path = buildMeshURL net name path"

definition context_AddMeshAuthHeaders :: "go_env \<Rightarrow> clock \<Rightarrow> 'b http_request \<Rightarrow> nara_net \<Rightarrow> 'b http_request" where
  "context_AddMeshAuthHeaders G T req net = AddMeshAuthHeaders G T req net"

definition context_HasMeshConnectivity :: "nara_net \<Rightarrow> NaraName \<Rightarrow> bool" where
  "context_HasMeshConnectivity net name = hasMeshConnectivity net name"

definition context_GetOnlineMeshPeers :: "nara_net \<Rightarrow> NaraName list" where
  "context_GetOnlineMeshPeers net = NeighbourhoodOnlineNames net"

definition context_GetOnlineStatus :: "nara_net \<Rightarrow> NaraName \<Rightarrow> OnlineState option" where
  "context_GetOnlineStatus net name = pj_state (nn_online net) name"

definition context_EnsureProjectionsUpdated :: "go_env \<Rightarrow> nara_net \<Rightarrow> nara_net go" where
  "context_EnsureProjectionsUpdated G net = (if \<not> isBooting net then online_RunOnce G net else Inr net)"

end
