(* ===== verification/Log_Events.thy ===== *)
theory Log_Events
  imports Appearance
begin

text \<open>
  What a nara shows of an event: the texts of the payloads for the web page and the log (\<open>UIFormat\<close>, \<open>LogFormat\<close>,
  \<open>ToLogEvent\<close> in \<open>sync_event.go\<close>, \<open>presence_heythere.go\<close>, \<open>presence_chau.go\<close> and \<open>checkpoint_types.go\<close>,
  \<open>TeaseMessage\<close> in \<open>social.go\<close>). Texts are UTF-8; the signs that are not ASCII have names.
\<close>

section \<open>Signs\<close>

definition icon_eyes :: string where "icon_eyes = bytes [240, 159, 145, 128]"
definition icon_imp :: string where "icon_imp = bytes [240, 159, 152, 136]"
definition icon_houses :: string where "icon_houses = bytes [240, 159, 143, 152, 239, 184, 143]"
definition icon_news :: string where "icon_news = bytes [240, 159, 147, 176]"
definition icon_mailbox :: string where "icon_mailbox = bytes [240, 159, 147, 172]"
definition icon_paddle :: string where "icon_paddle = bytes [240, 159, 143, 147]"
definition icon_dish :: string where "icon_dish = bytes [240, 159, 147, 161]"
definition icon_bullet :: string where "icon_bullet = bytes [226, 128, 162]"
definition icon_arrow :: string where "icon_arrow = bytes [226, 134, 146]"
definition icon_parcel :: string where "icon_parcel = bytes [240, 159, 147, 166]"
definition icon_warning :: string where "icon_warning = bytes [226, 154, 160, 239, 184, 143]"
definition icon_wave :: string where "icon_wave = bytes [240, 159, 145, 139]"
definition icon_puff :: string where "icon_puff = bytes [240, 159, 146, 168]"
definition icon_brain :: string where "icon_brain = bytes [240, 159, 167, 160]"
definition icon_gear :: string where "icon_gear = bytes [226, 154, 153, 239, 184, 143]"
definition icon_eye :: string where "icon_eye = bytes [240, 159, 145, 129, 239, 184, 143]"
definition icon_speaker :: string where "icon_speaker = bytes [240, 159, 151, 163, 239, 184, 143]"
definition icon_globe :: string where "icon_globe = bytes [240, 159, 140, 144]"
definition icon_web :: string where "icon_web = bytes [240, 159, 149, 184, 239, 184, 143]"
definition icon_cross :: string where "icon_cross = bytes [226, 157, 140]"
definition icon_balloon :: string where "icon_balloon = bytes [240, 159, 146, 172]"
definition icon_cycle :: string where "icon_cycle = bytes [240, 159, 148, 132]"
definition icon_sparkles :: string where "icon_sparkles = bytes [226, 156, 168]"
definition icon_green :: string where "icon_green = bytes [240, 159, 159, 162]"
definition icon_question :: string where "icon_question = bytes [226, 157, 147]"
definition icon_red :: string where "icon_red = bytes [240, 159, 148, 180]"
definition icon_camera :: string where "icon_camera = bytes [240, 159, 147, 184]"
definition icon_dot :: string where "icon_dot = bytes [194, 183]"

section \<open>Numbers and runes\<close>

text \<open>The verbs \<open>%.0f\<close> and \<open>%.2f\<close>, as \<open>fmt_f1\<close>: the exact value in units of \<open>1 / s\<close>, rounded with ties to even.\<close>

definition f64_units :: "nat \<Rightarrow> float64 \<Rightarrow> nat" where
  "f64_units s w =
     (let e = f64_exp w; m = (if e = 0 then f64_frac w else 2 ^ 52 + f64_frac w); k = (if e = 0 then 1 else e)
      in if 1075 \<le> k then m * s * 2 ^ (k - 1075) else round_half_even (m * s) (2 ^ (1075 - k)))"

definition fmt_special :: "float64 \<Rightarrow> string" where
  "fmt_special w = (if f64_frac w \<noteq> 0 then ''NaN'' else if f64_neg w then ''-Inf'' else ''+Inf'')"

definition fmt_f0 :: "float64 \<Rightarrow> string" where
  "fmt_f0 w = (if f64_exp w = 2047 then fmt_special w else (if f64_neg w then ''-'' else []) @ fmt_nat (f64_units 1 w))"

definition fmt_f2 :: "float64 \<Rightarrow> string" where
  "fmt_f2 w =
     (if f64_exp w = 2047 then fmt_special w
      else let u = f64_units 100 w
           in (if f64_neg w then ''-'' else []) @ fmt_nat (u div 100) @ ''.'' @ fmt_nat (u mod 100 div 10) @ fmt_nat (u mod 10))"

text \<open>The runes that \<open>range\<close> over a string gives: 65533 for a byte that starts no valid sequence.\<close>

definition rune_at :: "nat \<Rightarrow> string \<Rightarrow> nat" where
  "rune_at n s =
     (let b = (\<lambda>i. of_char (s ! i)) in
      if n = 1 then b 0
      else if n = 2 then b 0 mod 32 * 64 + b 1 mod 64
      else if n = 3 then b 0 mod 16 * 4096 + b 1 mod 64 * 64 + b 2 mod 64
      else if n = 4 then b 0 mod 8 * 262144 + b 1 mod 64 * 4096 + b 2 mod 64 * 64 + b 3 mod 64
      else 65533)"

fun runes :: "string \<Rightarrow> nat list" where
  "runes [] = []"
| "runes (c # cs) = (let n = utf8_length (c # cs) in rune_at n (c # cs) # runes (drop (n - 1) cs))"

section \<open>Teases\<close>

text \<open>A template is the text before and after the place of the target, if it has one.\<close>

datatype template = Fixed string | Around string string

definition tease_templates :: "string \<Rightarrow> template list option" where
  "tease_templates reason =
     (if reason = ReasonHighRestarts
      then Some [Around ''nice uptime there, '' [], Around [] '' keeping things exciting with all those restarts'',
        Around [] '' discovering the restart button'', Around ''persistence is key, right '' ''?'']
      else if reason = ReasonComeback
      then Some [Around ''oh look who decided to show up, '' [], Around ''welcome back '' '', we almost forgot about you'',
        Around [] '' rises from the grave'', Around ''the prodigal '' '' returns'']
      else if reason = ReasonTrendAbandon
      then Some [Around [] '' marching to their own beat now'', Around ''too cool for trends now, '' ''?'',
        Around [] '' going solo'', Around ''guess '' '' got bored'']
      else if reason = ReasonRandom then Some [Fixed ''hey'', Fixed ''sup'', Fixed ''*pokes*'', Fixed ''boop'']
      else if reason = ReasonNiceNumber
      then Some [Fixed ''nice.'', Around ''ooh, '' '' hit a good one'', Around [] '' with the satisfying numbers'',
        Around ''appreciate the aesthetics, '' []]
      else None)"

definition TeaseMessage :: "string \<Rightarrow> NaraName \<Rightarrow> NaraName \<Rightarrow> string" where
  "TeaseMessage reason actor target =
     (case tease_templates reason of
        None \<Rightarrow> []
      | Some msgs \<Rightarrow> (case msgs ! (sum_list (runes target) mod length msgs) of
                       Fixed s \<Rightarrow> s
                     | Around s t \<Rightarrow> s @ target @ t))"

section \<open>Texts for the web page\<close>

record ui_format =
  ui_icon :: string
  ui_text :: string
  ui_detail :: string

definition seen_UIFormat :: "SeenEvent \<Rightarrow> ui_format" where
  "seen_UIFormat s =
     (let via = se_Via s;
          detail = (if via = ''zine'' then ''via zine'' else if via = ''mesh'' then ''on the mesh''
                    else if via = ''ping'' then ''by ping'' else if via = ''sync'' then ''while syncing''
                    else ''via '' @ via)
      in \<lparr>ui_icon = icon_eyes, ui_text = se_Observer s @ '' spotted '' @ se_Subject s, ui_detail = detail\<rparr>)"

definition social_UIFormat :: "SocialEventPayload \<Rightarrow> ui_format" where
  "social_UIFormat p =
     (let message = TeaseMessage (sp_Reason p) (sp_Actor p) (sp_Target p);
          icon = (if sp_Type p = ''tease'' then icon_imp else if sp_Type p = ''observed'' then icon_eyes
                  else if sp_Type p = ''gossip'' then icon_speaker else icon_balloon)
      in \<lparr>ui_icon = icon, ui_text = sp_Actor p @ '' '' @ icon_arrow @ '' '' @ sp_Target p,
          ui_detail = (if message = [] then sp_Reason p else message)\<rparr>)"

definition ping_quality :: "float64 \<Rightarrow> string" where
  "ping_quality rtt =
     (if f64_lt rtt (f64_of_int 10) then ''besties''
      else if f64_lt rtt (f64_of_int 50) then ''i can see you nearby''
      else if f64_lt rtt (f64_of_int 150) then ''not too shabby''
      else if f64_lt rtt (f64_of_int 300) then ''i wouldn't wanna play counter strike with you''
      else ''where u at?'')"

definition ping_UIFormat :: "PingObservation \<Rightarrow> ui_format" where
  "ping_UIFormat p =
     \<lparr>ui_icon = icon_paddle, ui_text = pi_Observer p @ '' pinged '' @ pi_Target p,
      ui_detail = fmt_f1 (pi_RTT p) @ ''ms '' @ icon_dot @ '' '' @ ping_quality (pi_RTT p)\<rparr>"

definition observation_UIFormat :: "ObservationEventPayload \<Rightarrow> ui_format" where
  "observation_UIFormat p =
     (let subject = ob_Subject p in
      if ob_Type p = ''restart''
      then \<lparr>ui_icon = icon_cycle, ui_text = subject @ '' restarted'',
            ui_detail = (if ob_RestartNum p > 1 then ''restart #'' @ fmt_int (ob_RestartNum p) else ''first restart'')\<rparr>
      else if ob_Type p = ''first-seen''
      then \<lparr>ui_icon = icon_sparkles, ui_text = subject @ '' appeared'', ui_detail = ''new nara spotted''\<rparr>
      else if ob_Type p = ''status-change''
      then if ob_OnlineState p = ''ONLINE''
           then \<lparr>ui_icon = icon_green, ui_text = subject @ '' came online'', ui_detail = ''back!''\<rparr>
           else if ob_OnlineState p = ''MISSING''
           then \<lparr>ui_icon = icon_question, ui_text = subject @ '' went missing'', ui_detail = ''where'd they go?''\<rparr>
           else \<lparr>ui_icon = icon_red, ui_text = subject @ '' went offline'', ui_detail = ''see you later''\<rparr>
      else \<lparr>ui_icon = icon_eye, ui_text = ob_Observer p @ '' observed '' @ subject, ui_detail = ob_OnlineState p\<rparr>)"

definition heythere_UIFormat :: "HeyThereEvent \<Rightarrow> ui_format" where
  "heythere_UIFormat h =
     \<lparr>ui_icon = icon_wave, ui_text = ht_From h @ '' joined the network'',
      ui_detail = (if ht_MeshIP h \<noteq> [] then ''mesh: '' @ ht_MeshIP h else ''hey there!'')\<rparr>"

definition chau_UIFormat :: "ChauEvent \<Rightarrow> ui_format" where
  "chau_UIFormat c = \<lparr>ui_icon = icon_wave, ui_text = ch_From c @ '' left the network'', ui_detail = ''chau!''\<rparr>"

section \<open>Texts for the log\<close>

definition seen_LogFormat :: "SeenEvent \<Rightarrow> string" where
  "seen_LogFormat s = ''seen: '' @ se_Observer s @ '' saw '' @ se_Subject s @ '' via '' @ se_Via s"

definition social_LogFormat :: "SocialEventPayload \<Rightarrow> string" where
  "social_LogFormat p =
     ''social event: '' @ sp_Type p @ '' '' @ sp_Actor p @ '' '' @ icon_arrow @ '' '' @ sp_Target p @ '' (reason: '' @ sp_Reason p @ '')''"

definition ping_LogFormat :: "PingObservation \<Rightarrow> string" where
  "ping_LogFormat p = ''ping: '' @ pi_Observer p @ '' '' @ icon_arrow @ '' '' @ pi_Target p @ '' ('' @ fmt_f2 (pi_RTT p) @ ''ms)''"

definition observation_LogFormat :: "ObservationEventPayload \<Rightarrow> string" where
  "observation_LogFormat p =
     ''observation: '' @ ob_Observer p @ '' observed '' @ ob_Subject p @ '' as '' @ ob_OnlineState p @ '' (type: '' @ ob_Type p @ '')''"

definition heythere_LogFormat :: "HeyThereEvent \<Rightarrow> string" where
  "heythere_LogFormat h = ''hey-there from '' @ ht_From h @ '' (mesh: '' @ ht_MeshIP h @ '')''"

definition chau_LogFormat :: "ChauEvent \<Rightarrow> string" where
  "chau_LogFormat c = ''chau from '' @ ch_From c"

definition checkpoint_LogFormat :: "CheckpointEventPayload \<Rightarrow> string" where
  "checkpoint_LogFormat p =
     ''checkpoint: '' @ cp_Subject p @ '' as-of '' @ fmt_int (cp_AsOfTime p) @ '' (restarts: '' @
     fmt_int (no_Restarts (cp_Observation p)) @ '', uptime: '' @ fmt_int (no_TotalUptime (cp_Observation p)) @ ''s, voters: '' @
     fmt_int (int (length (cp_VoterIDs p))) @ '')''"

text \<open>Checkpoints have no format of their own; \<open>getEventUIFormat\<close> makes one.\<close>

definition getEventUIFormat :: "SyncEvent \<Rightarrow> ui_format option" where
  "getEventUIFormat e =
     (let s = Service e in
      if s = ServiceSocial then map_option social_UIFormat (Social e)
      else if s = ServicePing then map_option ping_UIFormat (Ping e)
      else if s = ServiceObservation then map_option observation_UIFormat (Observation e)
      else if s = ServiceHeyThere then map_option heythere_UIFormat (HeyThere e)
      else if s = ServiceChau then map_option chau_UIFormat (Chau e)
      else if s = ServiceSeen then map_option seen_UIFormat (Seen e)
      else if s = ServiceCheckpoint
      then map_option (\<lambda>c. \<lparr>ui_icon = icon_camera, ui_text = cp_Subject c @ '' checkpoint'', ui_detail = checkpoint_LogFormat c\<rparr>) (Checkpoint e)
      else None)"

section \<open>Log events\<close>

definition CategoryPresence :: string where "CategoryPresence = ''PRESENCE''"
definition CategoryGossip :: string where "CategoryGossip = ''GOSSIP''"
definition CategorySocial :: string where "CategorySocial = ''SOCIAL''"
definition CategoryHTTP :: string where "CategoryHTTP = ''HTTP''"
definition CategoryStash :: string where "CategoryStash = ''STASH''"
definition CategorySystem :: string where "CategorySystem = ''SYSTEM''"
definition CategoryMesh :: string where "CategoryMesh = ''MESH''"

lemmas category_defs = CategoryPresence_def CategoryGossip_def CategorySocial_def CategoryHTTP_def CategoryStash_def
  CategorySystem_def CategoryMesh_def

record LogEvent =
  le_Category :: string
  le_Type :: string
  le_Actor :: string
  le_Target :: string
  le_Count :: int
  le_Detail :: string
  le_Instant :: bool
  le_Timestamp :: int
  le_GroupFormat :: "(string \<Rightarrow> string) option"

text \<open>Time zero is the zero \<open>time.Time\<close>.\<close>

definition log_event :: "string \<Rightarrow> string \<Rightarrow> string \<Rightarrow> LogEvent" where
  "log_event category type_name actor =
     \<lparr>le_Category = category, le_Type = type_name, le_Actor = actor, le_Target = [], le_Count = 0, le_Detail = [],
      le_Instant = False, le_Timestamp = 0, le_GroupFormat = None\<rparr>"

definition social_ToLogEvent :: "SocialEventPayload \<Rightarrow> LogEvent option" where
  "social_ToLogEvent p =
     (if sp_Type p = ''tease''
      then Some ((log_event CategorySocial ''tease'' (sp_Actor p))\<lparr>le_Target := sp_Target p, le_Detail := sp_Reason p,
        le_GroupFormat := Some (\<lambda>actors. icon_imp @ '' '' @ actors @ '' teased '' @ sp_Target p @ '' ('' @ sp_Reason p @ '')'')\<rparr>)
      else if sp_Type p = ''observed''
      then Some ((log_event CategorySocial ''observed'' (sp_Actor p))\<lparr>le_Target := sp_Target p, le_Detail := sp_Reason p,
        le_GroupFormat := Some (\<lambda>actors. icon_eyes @ '' '' @ actors @ '' observed '' @ sp_Target p @ '': '' @ sp_Reason p)\<rparr>)
      else if sp_Type p = ''gossip''
      then Some ((log_event CategoryGossip ''social-gossip'' (sp_Actor p))\<lparr>le_Target := sp_Target p,
        le_GroupFormat := Some (\<lambda>actors. icon_speaker @ '' '' @ actors @ '' gossiped about '' @ sp_Target p)\<rparr>)
      else None)"

definition observation_ToLogEvent :: "ObservationEventPayload \<Rightarrow> LogEvent option" where
  "observation_ToLogEvent p =
     (if ob_Type p = ''first-seen''
      then Some ((log_event CategoryPresence ''first-seen'' (ob_Subject p))\<lparr>
        le_Detail := icon_sparkles @ '' spotted '' @ ob_Subject p @ '' for the first time'', le_Instant := True\<rparr>)
      else if ob_Type p = ''restart''
      then if ob_RestartNum p > 0 \<and> ob_RestartNum p mod 50 = 0
           then Some ((log_event CategoryPresence ''restart-milestone'' (ob_Subject p))\<lparr>
             le_Detail := icon_cycle @ '' '' @ ob_Subject p @ '' hit restart #'' @ fmt_int (ob_RestartNum p), le_Instant := True\<rparr>)
           else None
      else None)"

definition heythere_ToLogEvent :: "HeyThereEvent \<Rightarrow> LogEvent" where
  "heythere_ToLogEvent h =
     (log_event CategoryPresence ''welcome'' (ht_From h))\<lparr>le_Target := ht_From h, le_Detail := heythere_LogFormat h,
       le_GroupFormat := Some (\<lambda>actors. icon_wave @ '' '' @ actors @ '' said hey-there'')\<rparr>"

definition chau_ToLogEvent :: "ChauEvent \<Rightarrow> LogEvent" where
  "chau_ToLogEvent c =
     (log_event CategoryPresence ''goodbye'' (ch_From c))\<lparr>le_Detail := chau_LogFormat c,
       le_GroupFormat := Some (\<lambda>actors. icon_puff @ '' '' @ actors @ '' bounced'')\<rparr>"

definition seen_ToLogEvent :: "SeenEvent \<Rightarrow> LogEvent" where
  "seen_ToLogEvent s =
     (log_event CategoryPresence ''seen'' (se_Observer s))\<lparr>le_Target := se_Subject s, le_Detail := se_Via s,
       le_GroupFormat := Some (\<lambda>actors. icon_eyes @ '' '' @ actors @ '' vouched for '' @ se_Subject s @ '' ('' @ se_Via s @ '')'')\<rparr>"

definition checkpoint_ToLogEvent :: "CheckpointEventPayload \<Rightarrow> LogEvent" where
  "checkpoint_ToLogEvent p =
     (let restarts = fmt_int (no_Restarts (cp_Observation p))
      in (log_event CategoryPresence ''checkpoint'' [])\<lparr>le_Target := cp_Subject p, le_Detail := ''restarts: '' @ restarts,
           le_GroupFormat := Some (\<lambda>actors.
             if actors = [] then icon_camera @ '' checkpoint for '' @ cp_Subject p @ '' (restarts: '' @ restarts @ '')''
             else icon_camera @ '' '' @ actors @ '' created checkpoint for '' @ cp_Subject p @ '' (restarts: '' @ restarts @ '')'')\<rparr>)"

text \<open>A ping logs nothing and does not read its receiver.\<close>

fun payload_ToLogEvent :: "payload \<Rightarrow> LogEvent option go" where
  "payload_ToLogEvent (PSocial p) = via_pointer p social_ToLogEvent"
| "payload_ToLogEvent (PPing p) = Inr None"
| "payload_ToLogEvent (PObservation p) = via_pointer p observation_ToLogEvent"
| "payload_ToLogEvent (PHeyThere p) = via_pointer p (\<lambda>h. Some (heythere_ToLogEvent h))"
| "payload_ToLogEvent (PChau p) = via_pointer p (\<lambda>c. Some (chau_ToLogEvent c))"
| "payload_ToLogEvent (PSeen p) = via_pointer p (\<lambda>s. Some (seen_ToLogEvent s))"
| "payload_ToLogEvent (PCheckpoint p) = via_pointer p (\<lambda>c. Some (checkpoint_ToLogEvent c))"

section \<open>Lemmas\<close>

text \<open>A tease is one of the texts for its reason, the same on every nara, and the page never shows an empty one.\<close>

lemma tease_templates_length: "tease_templates reason = Some msgs \<Longrightarrow> length msgs = 4"
  by (auto simp: tease_templates_def split: if_splits)

lemma runes_ascii: "list_all (\<lambda>c. of_char c < (128 :: nat)) s \<Longrightarrow> runes s = map of_char s"
  by (induction s) (auto simp: utf8_length_def rune_at_def)

lemma TeaseMessage_eq_Nil:
  "TeaseMessage reason actor target = [] \<longleftrightarrow> tease_templates reason = None"
proof (cases "tease_templates reason")
  case (Some msgs)
  have "msgs ! i = t \<Longrightarrow> i < 4 \<Longrightarrow> (case t of Fixed s \<Rightarrow> s | Around s u \<Rightarrow> s @ target @ u) \<noteq> []" for i t
    using Some by (auto simp: tease_templates_def less_Suc_eq numeral_eq_Suc split: if_splits)
  moreover have "sum_list (runes target) mod length msgs < 4" using tease_templates_length [OF Some] by simp
  ultimately show ?thesis using Some by (simp add: TeaseMessage_def)
qed (simp add: TeaseMessage_def)

end
