(* ===== verification/Log_Service.thy ===== *)
theory Log_Service
  imports Log_Events
begin

text \<open>
  The log of a nara (\<open>logservice.go\<close>): events come in over a channel that drops what does not fit, and are then printed at
  once, queued for the next flush, or gathered in batches that a flush summarises; in verbose mode similar events are
  grouped until a timer fires. What is printed is the result of an operation. Ranging over a map visits the keys in any
  order: \<open>visit\<close> says in which.
\<close>

section \<open>Maps of slices\<close>

text \<open>\<open>m[k] = append(m[k], v)\<close>, with the keys in the order in which they came.\<close>

fun append_at :: "string \<Rightarrow> 'v \<Rightarrow> (string \<times> 'v list) list \<Rightarrow> (string \<times> 'v list) list" where
  "append_at k v [] = [(k, [v])]"
| "append_at k v ((k', vs) # al) = (if k' = k then (k', vs @ [v]) # al else (k', vs) # append_at k v al)"

definition slice_at :: "(string \<times> 'v list) list \<Rightarrow> string \<Rightarrow> 'v list" where
  "slice_at al k = (case map_of al k of None \<Rightarrow> [] | Some vs \<Rightarrow> vs)"

definition group_by :: "('e \<Rightarrow> string) \<Rightarrow> ('e \<Rightarrow> 'v) \<Rightarrow> 'e list \<Rightarrow> (string \<times> 'v list) list" where
  "group_by key val es = foldl (\<lambda>al e. append_at (key e) (val e) al) [] es"

definition visited :: "(string list \<Rightarrow> string list) \<Rightarrow> (string \<times> 'v) list \<Rightarrow> (string \<times> 'v) list" where
  "visited visit al = map (\<lambda>k. (k, the (map_of al k))) (visit (map fst al))"

fun unique_from :: "string set \<Rightarrow> string list \<Rightarrow> string list" where
  "unique_from seen [] = []"
| "unique_from seen (v # vs) = (if v \<in> seen then unique_from seen vs else v # unique_from (insert v seen) vs)"

definition uniqueStrings :: "string list \<Rightarrow> string list" where
  "uniqueStrings s = unique_from {} s"

text \<open>\<open>strings.Join\<close>.\<close>

fun join_strings :: "string \<Rightarrow> string list \<Rightarrow> string" where
  "join_strings sep [] = []"
| "join_strings sep [s] = s"
| "join_strings sep (s # t # ss) = s @ sep @ join_strings sep (t # ss)"

definition num :: "'a list \<Rightarrow> string" where
  "num xs = fmt_int (int (length xs))"

section \<open>State\<close>

datatype log_line = LogDebug string | LogInfo string | LogWarn string | LogError string

record verboseGroup =
  vg_eventType :: string
  vg_actors :: "string list"
  vg_target :: string
  vg_detail :: string
  vg_groupFormat :: "(string \<Rightarrow> string) option"

record LogService =
  ls_localName :: NaraName
  ls_events :: "LogEvent list"
  ls_batch :: "(string \<times> LogEvent list) list"
  ls_instantLogs :: "string list"
  ls_verbose :: bool
  ls_suppressLedgerEvents :: bool
  ls_verboseBuffer :: "string \<rightharpoonup> verboseGroup"

definition NewLogService :: "NaraName \<Rightarrow> LogService" where
  "NewLogService localName =
     \<lparr>ls_localName = localName, ls_events = [], ls_batch = [], ls_instantLogs = [], ls_verbose = False,
      ls_suppressLedgerEvents = False, ls_verboseBuffer = Map.empty\<rparr>"

definition SetVerbose :: "bool \<Rightarrow> LogService \<Rightarrow> LogService" where
  "SetVerbose verbose ls = ls\<lparr>ls_verbose := verbose\<rparr>"

definition SetSuppressLedgerEvents :: "bool \<Rightarrow> LogService \<Rightarrow> LogService" where
  "SetSuppressLedgerEvents suppress ls = ls\<lparr>ls_suppressLedgerEvents := suppress\<rparr>"

definition log_capacity :: nat where "log_capacity = 100"

definition Push :: "int \<Rightarrow> LogEvent \<Rightarrow> LogService \<Rightarrow> LogService" where
  "Push now event ls =
     (let event1 = (if le_Timestamp event = 0 then event\<lparr>le_Timestamp := now\<rparr> else event)
      in if length (ls_events ls) < log_capacity then ls\<lparr>ls_events := ls_events ls @ [event1]\<rparr> else ls)"

definition transformEvent :: "LogService \<Rightarrow> SyncEvent \<Rightarrow> LogEvent option go" where
  "transformEvent ls event =
     (case Payload event of
        None \<Rightarrow> Inr None
      | Some p \<Rightarrow>
          go_bind (payload_ToLogEvent p) (\<lambda>logEvent.
            case logEvent of
              None \<Rightarrow> Inr None
            | Some e \<Rightarrow>
                if Service event = ServiceHeyThere \<and> HeyThere event \<noteq> None \<and> ht_From (the (HeyThere event)) = ls_localName ls
                then Inr None
                else Inr (Some e)))"

text \<open>The listener that \<open>RegisterWithLedger\<close> adds to the ledger.\<close>

definition ledger_listener :: "int \<Rightarrow> SyncEvent \<Rightarrow> LogService \<Rightarrow> LogService go" where
  "ledger_listener now event ls =
     (if ls_suppressLedgerEvents ls then Inr ls
      else go_bind (transformEvent ls event) (\<lambda>logEvent.
             case logEvent of None \<Rightarrow> Inr ls | Some e \<Rightarrow> Inr (Push now e ls)))"

section \<open>Texts\<close>

definition categoryEmoji :: "string \<Rightarrow> string" where
  "categoryEmoji category =
     (if category = CategoryPresence then icon_wave else if category = CategoryGossip then icon_news
      else if category = CategorySocial then icon_imp else if category = CategoryHTTP then icon_globe
      else if category = CategoryStash then icon_parcel else if category = CategorySystem then icon_gear
      else if category = CategoryMesh then icon_web else [])"

definition emoji_or :: "string \<Rightarrow> string \<Rightarrow> string" where
  "emoji_or category other = (if categoryEmoji category = [] then other else categoryEmoji category)"

definition formatActorsList :: "string list \<Rightarrow> string go" where
  "formatActorsList actors =
     (let n = length actors in
      if n = 1 then Inr (actors ! 0)
      else if n = 2 then Inr (actors ! 0 @ '' and '' @ actors ! 1)
      else if n = 3 \<or> n = 4 then Inr (join_strings '', '' (take (n - 1) actors) @ '', and '' @ actors ! (n - 1))
      else if n < 3 then Inl IndexOutOfRange
      else Inr (join_strings '', '' (take 3 actors) @ '', and '' @ fmt_int (int n - 3) @ '' others''))"

definition formatGroupedMessage :: "string \<Rightarrow> string \<Rightarrow> string \<Rightarrow> string \<Rightarrow> string" where
  "formatGroupedMessage eventType actors target detail =
     (if eventType = ''tease'' then icon_imp @ '' '' @ actors @ '' teased '' @ target @ '' ('' @ detail @ '')''
      else if eventType = ''barrio-movement'' then icon_houses @ ''  '' @ actors @ '' moved barrio: '' @ detail
      else if eventType = ''newspaper''
      then icon_news @ '' '' @ actors @ '' posted newspapers'' @ (if detail \<noteq> [] then '' ('' @ detail @ '')'' else [])
      else if eventType = ''gossip-merge'' then icon_news @ '' merged events from '' @ actors
      else if eventType = ''howdy-for-me'' then icon_mailbox @ '' got howdy from '' @ actors
      else if eventType = ''dm-received'' then icon_mailbox @ '' got DM from '' @ actors
      else if eventType = ''ping-received'' then icon_paddle @ '' got ping from '' @ actors
      else if eventType = ''discovery'' then icon_dish @ '' discovered '' @ actors @ '' on mesh''
      else icon_bullet @ '' '' @ actors @ (if target \<noteq> [] then '' '' @ icon_arrow @ '' '' @ target else []) @ (if detail \<noteq> [] then '': '' @ detail else []))"

definition formatVerboseMessage :: "LogEvent \<Rightarrow> string" where
  "formatVerboseMessage event =
     (let t = le_Type event; actor = le_Actor event; n = fmt_int (le_Count event); target = le_Target event; detail = le_Detail event in
      if t = ''gossip-merge'' then icon_news @ '' merged '' @ n @ '' events from '' @ actor
      else if t = ''mesh-sync'' then icon_parcel @ '' synced '' @ n @ '' events from '' @ actor
      else if t = ''howdy-for-me'' then icon_mailbox @ '' got howdy from '' @ actor
      else if t = ''dm-received'' then icon_mailbox @ '' got DM from '' @ actor
      else if t = ''ping-received'' then icon_paddle @ '' got ping from '' @ actor
      else if t = ''discovery'' then icon_dish @ '' discovered '' @ actor @ '' on mesh''
      else if t = ''peer-resolution-failed'' then icon_warning @ '' couldn't resolve peer '' @ actor
      else if t = ''newspaper'' then icon_news @ '' got newspaper from '' @ actor
      else if t = ''barrio-movement'' then icon_houses @ ''  '' @ actor @ '' moved barrio: '' @ detail
      else if t = ''tease'' then icon_imp @ '' '' @ actor @ '' teased '' @ target @ (if detail \<noteq> [] then '' ('' @ detail @ '')'' else [])
      else if detail \<noteq> [] then detail
      else let emoji = emoji_or (le_Category event) icon_bullet in
           if target \<noteq> [] \<and> le_Count event > 0 then emoji @ '' '' @ actor @ '' '' @ icon_arrow @ '' '' @ target @ '' ('' @ n @ '')''
           else if target \<noteq> [] then emoji @ '' '' @ actor @ '' '' @ icon_arrow @ '' '' @ target
           else if le_Count event > 0 then emoji @ '' '' @ actor @ '' ('' @ n @ '')''
           else if actor \<noteq> [] then emoji @ '' '' @ actor
           else emoji @ '' '' @ t)"

definition instant_message :: "LogEvent \<Rightarrow> string" where
  "instant_message event =
     (let emoji = emoji_or (le_Category event) icon_bullet in
      if le_Detail event \<noteq> [] then emoji @ '' '' @ le_Detail event
      else if le_Target event \<noteq> [] then emoji @ '' '' @ le_Actor event @ '' '' @ icon_arrow @ '' '' @ le_Target event
      else emoji @ '' '' @ le_Actor event)"

section \<open>Events\<close>

definition addToBatch :: "LogEvent \<Rightarrow> LogService \<Rightarrow> LogService" where
  "addToBatch event ls = ls\<lparr>ls_batch := append_at (le_Type event) event (ls_batch ls)\<rparr>"

definition logInstant :: "LogEvent \<Rightarrow> LogService \<Rightarrow> LogService" where
  "logInstant event ls = ls\<lparr>ls_instantLogs := ls_instantLogs ls @ [instant_message event]\<rparr>"

definition verbose_key :: "LogEvent \<Rightarrow> string" where
  "verbose_key event = le_Type event @ [CHR 0x00] @ le_Target event @ [CHR 0x00] @ le_Detail event"

definition verbose_group :: "LogEvent \<Rightarrow> verboseGroup option \<Rightarrow> verboseGroup" where
  "verbose_group event known =
     (case known of
        None \<Rightarrow> \<lparr>vg_eventType = le_Type event, vg_actors = [], vg_target = le_Target event, vg_detail = le_Detail event,
                 vg_groupFormat = le_GroupFormat event\<rparr>
      | Some grp \<Rightarrow> (case (le_GroupFormat event, vg_groupFormat grp) of
                         (Some f, None) \<Rightarrow> grp\<lparr>vg_groupFormat := Some f\<rparr>
                       | _ \<Rightarrow> grp))"

definition joined_group :: "LogEvent \<Rightarrow> verboseGroup option \<Rightarrow> verboseGroup" where
  "joined_group event known =
     (let grp = verbose_group event known
      in if le_Actor event \<in> set (vg_actors grp) then grp else grp\<lparr>vg_actors := vg_actors grp @ [le_Actor event]\<rparr>)"

text \<open>The timer that flushes the group starts again.\<close>

definition logVerbose :: "LogEvent \<Rightarrow> LogService \<Rightarrow> LogService \<times> log_line list" where
  "logVerbose event ls =
     (if le_Instant event \<or> le_Actor event = [] then (ls, [LogDebug (formatVerboseMessage event)])
      else let key = verbose_key event
           in (ls\<lparr>ls_verboseBuffer := (ls_verboseBuffer ls)(key \<mapsto> joined_group event (ls_verboseBuffer ls key))\<rparr>, []))"

definition flushVerboseGroup :: "string \<Rightarrow> LogService \<Rightarrow> (LogService \<times> log_line list) go" where
  "flushVerboseGroup key ls =
     (case ls_verboseBuffer ls key of
        None \<Rightarrow> Inr (ls, [])
      | Some grp \<Rightarrow>
          let ls1 = ls\<lparr>ls_verboseBuffer := (ls_verboseBuffer ls)(key := None)\<rparr>
          in if vg_actors grp = [] then Inr (ls1, [])
             else go_bind (formatActorsList (vg_actors grp)) (\<lambda>actorsList.
                    Inr (ls1, [LogDebug (case vg_groupFormat grp of
                                           Some f \<Rightarrow> f actorsList
                                         | None \<Rightarrow> formatGroupedMessage (vg_eventType grp) actorsList (vg_target grp) (vg_detail grp))])))"

text \<open>What \<open>processEvents\<close> does with an event it has taken from the channel.\<close>

definition process_event :: "LogEvent \<Rightarrow> LogService \<Rightarrow> LogService \<times> log_line list" where
  "process_event event ls =
     (if ls_verbose ls then logVerbose event ls
      else if le_Instant event then (logInstant event ls, [])
      else (addToBatch event ls, []))"

section \<open>Batches\<close>

text \<open>A set of actors is a map to \<open>true\<close>.\<close>

definition actor_set :: "LogEvent list \<Rightarrow> string list" where
  "actor_set events = uniqueStrings (map le_Actor events)"

definition total_count :: "LogEvent list \<Rightarrow> int" where
  "total_count events = i64 (sum_list (map le_Count events))"

definition formatWelcomes :: "(string list \<Rightarrow> string list) \<Rightarrow> NaraName \<Rightarrow> LogEvent list \<Rightarrow> string list" where
  "formatWelcomes visit localName events =
     map (\<lambda>(target, welcomers).
       let unique = uniqueStrings welcomers
       in icon_wave @ '' '' @ target @ '' popped in'' @
          (if unique = [] then []
           else if length unique \<le> 3 then '' ('' @ join_strings '', '' unique @ '' waved)''
           else '' ('' @ num unique @ '' naras waved)''))
     (visited visit (group_by le_Target le_Actor (filter (\<lambda>e. le_Target e \<noteq> [] \<and> le_Target e \<noteq> localName) events)))"

definition formatGoodbyes :: "(string list \<Rightarrow> string list) \<Rightarrow> LogEvent list \<Rightarrow> string" where
  "formatGoodbyes visit events =
     (let nameList = sort (visit (actor_set events))
      in if length nameList \<le> 3 then icon_puff @ '' '' @ join_strings '', '' nameList @ '' bounced''
         else icon_puff @ '' '' @ num nameList @ '' naras bounced'')"

definition formatGossipMerges :: "LogEvent list \<Rightarrow> string" where
  "formatGossipMerges events =
     (let neighbors = actor_set events
      in icon_news @ '' swapped zines with '' @ (if length neighbors = 1 then neighbors ! 0 else num neighbors @ '' neighbors'') @
         '' ('' @ fmt_int (total_count events) @ '' events)'')"

definition formatMeshSyncs :: "LogEvent list \<Rightarrow> string" where
  "formatMeshSyncs events =
     icon_parcel @ '' caught up on '' @ fmt_int (total_count events) @ '' events from '' @ num (actor_set events) @ '' peers''"

definition formatHowdysForMe :: "(string list \<Rightarrow> string list) \<Rightarrow> LogEvent list \<Rightarrow> string" where
  "formatHowdysForMe visit events =
     (let senders = actor_set events
      in if length senders = 1 then icon_mailbox @ '' got a howdy from '' @ senders ! 0
         else if length senders \<le> 3 then icon_mailbox @ '' got howdys from '' @ join_strings '', '' (sort (visit senders))
         else icon_mailbox @ '' got howdys from '' @ num senders @ '' naras'')"

definition formatDMsReceived :: "LogEvent list \<Rightarrow> string" where
  "formatDMsReceived events =
     (let senders = actor_set events
      in if length senders = 1
         then if length events = 1 then icon_mailbox @ '' got a DM from '' @ senders ! 0
              else icon_mailbox @ '' got '' @ num events @ '' DMs from '' @ senders ! 0
         else icon_mailbox @ '' got '' @ num events @ '' DMs from '' @ num senders @ '' naras'')"

definition formatDiscoveries :: "LogEvent list \<Rightarrow> string" where
  "formatDiscoveries events =
     (let names = map le_Actor events
      in if length names = 1 then icon_dish @ '' discovered '' @ names ! 0
         else if length names \<le> 3 then icon_dish @ '' discovered '' @ join_strings '', '' names
         else icon_dish @ '' discovered '' @ num names @ '' new naras'')"

definition formatPeerResolutionFailed :: "LogEvent list \<Rightarrow> string" where
  "formatPeerResolutionFailed events =
     (let names = uniqueStrings (map le_Actor events)
      in if length names = 1 then icon_warning @ '' couldn't resolve '' @ names ! 0
         else if length names \<le> 3 then icon_warning @ '' couldn't resolve '' @ join_strings '', '' names
         else icon_warning @ '' couldn't resolve '' @ num names @ '' peers'')"

definition formatConsensus :: "LogEvent list \<Rightarrow> string" where
  "formatConsensus events = icon_brain @ '' formed consensus for '' @ num (actor_set events) @ '' naras''"

definition formatNewspapers :: "(string list \<Rightarrow> string list) \<Rightarrow> LogEvent list \<Rightarrow> string" where
  "formatNewspapers visit events =
     (let bySender = group_by le_Actor le_Detail events;
          news = (\<lambda>changes. length (filter (\<lambda>c. c \<noteq> []) changes));
          with_changes = (\<lambda>n. if n > 0 then '' ('' @ fmt_int (int n) @ '' with changes)'' else [])
      in case bySender of
           [(s, changes)] \<Rightarrow>
             if length changes = 1
             then icon_news @ '' got newspaper from '' @ s @ (if changes ! 0 \<noteq> [] then '' ('' @ changes ! 0 @ '')'' else [])
             else icon_news @ '' got '' @ num changes @ '' newspapers from '' @ s @ with_changes (news changes)
         | _ \<Rightarrow> icon_news @ '' got '' @ num events @ '' newspapers from '' @ num bySender @ '' neighbors'' @
                with_changes (sum_list (map (\<lambda>(s, changes). news changes) (visited visit bySender))))"

definition formatPingsReceived :: "(string list \<Rightarrow> string list) \<Rightarrow> LogEvent list \<Rightarrow> string" where
  "formatPingsReceived visit events =
     (let senders = actor_set events
      in if length senders \<le> 3 then icon_paddle @ '' got pings from '' @ join_strings '', '' (sort (visit senders))
         else icon_paddle @ '' got pings from '' @ num senders @ '' naras'')"

definition formatBootInfo :: "LogEvent list \<Rightarrow> string list" where
  "formatBootInfo events = map (\<lambda>e. icon_gear @ '' '' @ le_Detail e) events"

definition formatObserved :: "LogEvent list \<Rightarrow> string" where
  "formatObserved events =
     (if length events = 1 then le_Detail (events ! 0)
      else icon_eye @ '' '' @ num events @ '' observations from '' @ num (actor_set events) @ '' naras'')"

definition formatSocialGossip :: "LogEvent list \<Rightarrow> string" where
  "formatSocialGossip events =
     (if length events = 1 then le_Detail (events ! 0) else icon_speaker @ '' '' @ num events @ '' gossip exchanges'')"

definition formatTeases :: "(string list \<Rightarrow> string list) \<Rightarrow> LogEvent list \<Rightarrow> string" where
  "formatTeases visit events =
     (let pairs = map (\<lambda>(target, actors).
            let unique = uniqueStrings actors
            in (if length unique = 1 then unique ! 0
                else if length unique \<le> 3 then ''['' @ join_strings '','' unique @ '']''
                else ''['' @ num unique @ '' naras]'') @ icon_arrow @ target)
          (visited visit (group_by le_Target le_Actor events))
      in icon_imp @ '' '' @ (if length events = 1 then ''1 tease'' else num events @ '' teases'') @ '' ('' @ join_strings '', '' (sort pairs) @ '')'')"

definition formatBarrioMovements :: "LogEvent list \<Rightarrow> string" where
  "formatBarrioMovements events =
     (if length events = 1 then icon_houses @ ''  '' @ le_Actor (events ! 0) @ '' moved barrio: '' @ le_Detail (events ! 0)
      else let names = map le_Actor events
           in icon_houses @ ''  '' @ num events @ '' barrio movements'' @
              (if length names \<le> 3 then '' ('' @ join_strings '', '' names @ '')'' else []))"

text \<open>The lines for the events of one type, of which there is at least one.\<close>

definition format_type :: "(string list \<Rightarrow> string list) \<Rightarrow> NaraName \<Rightarrow> string \<Rightarrow> LogEvent list \<Rightarrow> string list" where
  "format_type visit localName t events =
     (if t = ''welcome'' then formatWelcomes visit localName events
      else if t = ''goodbye'' then [formatGoodbyes visit events]
      else if t = ''gossip-merge'' then [formatGossipMerges events]
      else if t = ''mesh-sync'' then [formatMeshSyncs events]
      else if t = ''http'' then []
      else if t = ''howdy-for-me'' then [formatHowdysForMe visit events]
      else if t = ''dm-received'' then [formatDMsReceived events]
      else if t = ''discovery'' then [formatDiscoveries events]
      else if t = ''observed-howdy''
      then if length events > 5 then [icon_eyes @ '' witnessed '' @ num events @ '' howdy exchanges''] else []
      else if t = ''peer-resolution-failed'' then [formatPeerResolutionFailed events]
      else if t = ''boot-sync-request'' \<or> t = ''mesh-verified'' \<or> t = ''seen'' then []
      else if t = ''observed'' then [formatObserved events]
      else if t = ''social-gossip'' then [formatSocialGossip events]
      else if t = ''tease'' then [formatTeases visit events]
      else if t = ''consensus'' then [formatConsensus events]
      else if t = ''newspaper'' then [formatNewspapers visit events]
      else if t = ''ping-received'' then [formatPingsReceived visit events]
      else if t = ''boot-info'' then formatBootInfo events
      else if t = ''barrio-movement'' then [formatBarrioMovements events]
      else let emoji = categoryEmoji (le_Category (events ! 0))
           in if length events = 1
              then if le_Detail (events ! 0) \<noteq> [] then [emoji @ '' '' @ le_Detail (events ! 0)] else []
              else [emoji @ '' '' @ num events @ '' '' @ t @ '' events''])"

definition formatBatchedEvents ::
  "(string list \<Rightarrow> string list) \<Rightarrow> NaraName \<Rightarrow> (string \<times> LogEvent list) list \<Rightarrow> string list" where
  "formatBatchedEvents visit localName batch =
     concat (map (\<lambda>(t, events). if events = [] then [] else format_type visit localName t events) (visited visit batch))"

text \<open>
  A flush takes the batch under one lock and the instant messages under another; the loop that takes events runs beside it. The
  batch taken is a variable of the flush in between.
\<close>

definition take_batch :: "LogService \<Rightarrow> LogService \<times> (string \<times> LogEvent list) list" where
  "take_batch ls = (ls\<lparr>ls_batch := []\<rparr>, ls_batch ls)"

definition take_instants :: "LogService \<Rightarrow> LogService \<times> string list" where
  "take_instants ls = (ls\<lparr>ls_instantLogs := []\<rparr>, ls_instantLogs ls)"

definition flush_rest ::
  "(string list \<Rightarrow> string list) \<Rightarrow> (string \<times> LogEvent list) list \<Rightarrow> LogService \<Rightarrow> LogService \<times> log_line list" where
  "flush_rest visit batch ls =
     (case take_instants ls of
        (ls', instants) \<Rightarrow> (ls', map LogInfo (instants @ formatBatchedEvents visit (ls_localName ls) batch)))"

definition flushBatch :: "(string list \<Rightarrow> string list) \<Rightarrow> LogService \<Rightarrow> LogService \<times> log_line list" where
  "flushBatch visit ls = (case take_batch ls of (ls1, batch) \<Rightarrow> flush_rest visit batch ls1)"

text \<open>Stopping ends the loops, whatever they have not yet done, and flushes once more.\<close>

definition log_Stop :: "(string list \<Rightarrow> string list) \<Rightarrow> LogService \<Rightarrow> LogService \<times> log_line list" where
  "log_Stop visit ls = flushBatch visit ls"

section \<open>Callers\<close>

text \<open>The message is what \<open>Sprintf\<close> makes of the format and its arguments.\<close>

definition log_Info :: "int \<Rightarrow> string \<Rightarrow> string \<Rightarrow> LogService \<Rightarrow> LogService" where
  "log_Info now category msg ls =
     Push now ((log_event category ''info'' [])\<lparr>le_Detail := msg, le_Instant := True\<rparr>) ls"

definition log_Warn :: "string \<Rightarrow> string \<Rightarrow> log_line" where
  "log_Warn category msg = LogWarn (emoji_or category icon_warning @ '' '' @ msg)"

definition log_Error :: "string \<Rightarrow> string \<Rightarrow> log_line" where
  "log_Error category msg = LogError (emoji_or category icon_cross @ '' '' @ msg)"

text \<open>The parameter that the source calls a method is \<open>means\<close> here.\<close>

definition BatchHTTP :: "string \<Rightarrow> string \<Rightarrow> int \<Rightarrow> log_line" where
  "BatchHTTP verb path status = LogDebug (icon_globe @ '' '' @ verb @ '' '' @ path @ '' ('' @ fmt_int status @ '')'')"

definition BatchGossipMerge :: "int \<Rightarrow> NaraName \<Rightarrow> int \<Rightarrow> LogService \<Rightarrow> LogService" where
  "BatchGossipMerge now sender eventCount ls =
     Push now ((log_event CategoryGossip ''gossip-merge'' sender)\<lparr>le_Count := eventCount,
       le_GroupFormat := Some (\<lambda>actors. icon_news @ '' merged events from '' @ actors)\<rparr>) ls"

definition BatchMeshSync :: "int \<Rightarrow> NaraName \<Rightarrow> int \<Rightarrow> LogService \<Rightarrow> LogService" where
  "BatchMeshSync now sender eventCount ls =
     Push now ((log_event CategoryMesh ''mesh-sync'' sender)\<lparr>le_Count := eventCount,
       le_GroupFormat := Some (\<lambda>actors. icon_parcel @ '' synced events from '' @ actors)\<rparr>) ls"

definition BatchHowdyForMe :: "int \<Rightarrow> NaraName \<Rightarrow> LogService \<Rightarrow> LogService" where
  "BatchHowdyForMe now sender ls =
     Push now ((log_event CategoryPresence ''howdy-for-me'' sender)\<lparr>
       le_GroupFormat := Some (\<lambda>actors. icon_mailbox @ '' got howdy from '' @ actors)\<rparr>) ls"

definition BatchDMReceived :: "int \<Rightarrow> NaraName \<Rightarrow> LogService \<Rightarrow> LogService" where
  "BatchDMReceived now sender ls =
     Push now ((log_event CategorySocial ''dm-received'' sender)\<lparr>
       le_GroupFormat := Some (\<lambda>actors. icon_mailbox @ '' got DM from '' @ actors)\<rparr>) ls"

definition BatchDiscovery :: "int \<Rightarrow> NaraName \<Rightarrow> LogService \<Rightarrow> LogService" where
  "BatchDiscovery now name ls =
     Push now ((log_event CategoryMesh ''discovery'' name)\<lparr>
       le_GroupFormat := Some (\<lambda>actors. icon_dish @ '' discovered '' @ actors @ '' on mesh'')\<rparr>) ls"

definition BatchObservedHowdy :: "int \<Rightarrow> NaraName \<Rightarrow> NaraName \<Rightarrow> LogService \<Rightarrow> LogService" where
  "BatchObservedHowdy now observer target ls =
     Push now ((log_event CategoryPresence ''observed-howdy'' observer)\<lparr>le_Target := target,
       le_GroupFormat := Some (\<lambda>actors. icon_eyes @ '' '' @ actors @ '' observed howdy from '' @ target)\<rparr>) ls"

definition BatchPeerResolutionFailed :: "int \<Rightarrow> NaraName \<Rightarrow> LogService \<Rightarrow> LogService" where
  "BatchPeerResolutionFailed now name ls =
     Push now ((log_event CategoryMesh ''peer-resolution-failed'' name)\<lparr>
       le_GroupFormat := Some (\<lambda>actors. icon_warning @ '' couldn't resolve peer '' @ actors)\<rparr>) ls"

definition BatchBootSyncRequest :: "int \<Rightarrow> NaraName \<Rightarrow> int \<Rightarrow> LogService \<Rightarrow> LogService" where
  "BatchBootSyncRequest now name eventsRequested ls =
     Push now ((log_event CategoryMesh ''boot-sync-request'' name)\<lparr>le_Count := eventsRequested\<rparr>) ls"

definition BatchMeshVerified :: "int \<Rightarrow> NaraName \<Rightarrow> LogService \<Rightarrow> LogService" where
  "BatchMeshVerified now name ls = Push now (log_event CategoryMesh ''mesh-verified'' name) ls"

definition BatchConsensus :: "int \<Rightarrow> string \<Rightarrow> string \<Rightarrow> int \<Rightarrow> int \<Rightarrow> LogService \<Rightarrow> LogService" where
  "BatchConsensus now subject consensusType observers res ls =
     Push now ((log_event CategorySystem ''consensus'' subject)\<lparr>le_Count := observers,
       le_Detail := consensusType @ '' '' @ subject @ '': '' @ fmt_int observers @ '' observers '' @ icon_arrow @ '' '' @ fmt_int res\<rparr>) ls"

definition BatchNewspaper :: "int \<Rightarrow> string \<Rightarrow> string \<Rightarrow> LogService \<Rightarrow> LogService" where
  "BatchNewspaper now sender changes ls =
     Push now ((log_event CategoryGossip ''newspaper'' sender)\<lparr>le_Detail := changes,
       le_GroupFormat := Some (\<lambda>actors.
         icon_news @ '' '' @ actors @ '' posted newspapers'' @ (if changes \<noteq> [] then '' ('' @ changes @ '')'' else []))\<rparr>) ls"

definition BatchPingsReceived :: "int \<Rightarrow> string \<Rightarrow> LogService \<Rightarrow> LogService" where
  "BatchPingsReceived now sender ls =
     Push now ((log_event CategoryMesh ''ping-received'' sender)\<lparr>
       le_GroupFormat := Some (\<lambda>actors. icon_paddle @ '' got ping from '' @ actors)\<rparr>) ls"

definition BatchBootInfo :: "int \<Rightarrow> string \<Rightarrow> string \<Rightarrow> LogService \<Rightarrow> LogService" where
  "BatchBootInfo now key val ls = Push now ((log_event CategorySystem ''boot-info'' key)\<lparr>le_Detail := val\<rparr>) ls"

definition BatchBarrioMovement ::
  "int \<Rightarrow> NaraName \<Rightarrow> string \<Rightarrow> string \<Rightarrow> string \<Rightarrow> string \<Rightarrow> float64 \<Rightarrow> LogService \<Rightarrow> LogService" where
  "BatchBarrioMovement now name oldCluster newCluster emoji means gridSize ls =
     (let detail = oldCluster @ icon_arrow @ newCluster @ '' '' @ emoji @ '' (via '' @ means @ '', grid='' @ fmt_f0 gridSize @ '')''
      in Push now ((log_event CategorySystem ''barrio-movement'' name)\<lparr>le_Target := oldCluster, le_Detail := detail,
           le_GroupFormat := Some (\<lambda>actors. icon_houses @ ''  '' @ actors @ '' moved barrio: '' @ detail)\<rparr>) ls)"

section \<open>Runs\<close>

text \<open>
  A run of the service from its start on: callers and the ledger push events, one loop takes them, another flushes on a tick, in
  two steps, timers flush groups, the switches are turned, and the service is stopped, after which callers and timers go on and the
  loops do not. Beside the service and the batch that a flush has taken, the run records what can be seen from outside: the events
  the channel has accepted, those taken from it, and the lines printed.
\<close>

definition fair :: "(string list \<Rightarrow> string list) \<Rightarrow> bool" where
  "fair visit \<longleftrightarrow> (\<forall>ks. mset (visit ks) = mset ks)"

record log_run =
  lr_service :: LogService
  lr_flush :: "(string \<times> LogEvent list) list option"
  lr_stopped :: bool
  lr_accepted :: "LogEvent list"
  lr_taken :: "LogEvent list"
  lr_out :: "log_line list"

definition log_start :: "NaraName \<Rightarrow> log_run" where
  "log_start localName = \<lparr>lr_service = NewLogService localName, lr_flush = None, lr_stopped = False, lr_accepted = [], lr_taken = [], lr_out = []\<rparr>"

inductive log_step :: "log_run \<Rightarrow> (log_run \<times> log_line list) go \<Rightarrow> bool" where
  push: "log_step r (Inr (r\<lparr>lr_service := Push now e (lr_service r),
    lr_accepted := lr_accepted r @ drop (length (ls_events (lr_service r))) (ls_events (Push now e (lr_service r)))\<rparr>, []))"
| ledger: "event_IsValid event = Inr True \<Longrightarrow>
    log_step r (go_bind (ledger_listener now event (lr_service r)) (\<lambda>ls'. Inr (r\<lparr>lr_service := ls',
      lr_accepted := lr_accepted r @ drop (length (ls_events (lr_service r))) (ls_events ls')\<rparr>, [])))"
| take_event: "\<not> lr_stopped r \<Longrightarrow> ls_events (lr_service r) = e # rest \<Longrightarrow>
    process_event e ((lr_service r)\<lparr>ls_events := rest\<rparr>) = (ls', out) \<Longrightarrow>
    log_step r (Inr (r\<lparr>lr_service := ls', lr_taken := lr_taken r @ [e]\<rparr>, out))"
| tick: "\<not> lr_stopped r \<Longrightarrow> lr_flush r = None \<Longrightarrow> take_batch (lr_service r) = (ls', batch) \<Longrightarrow>
    log_step r (Inr (r\<lparr>lr_service := ls', lr_flush := Some batch\<rparr>, []))"
| flush: "lr_flush r = Some batch \<Longrightarrow> fair visit \<Longrightarrow> flush_rest visit batch (lr_service r) = (ls', out) \<Longrightarrow>
    log_step r (Inr (r\<lparr>lr_service := ls', lr_flush := None\<rparr>, out))"
| timer: "log_step r (go_bind (flushVerboseGroup key (lr_service r)) (\<lambda>(ls', out). Inr (r\<lparr>lr_service := ls'\<rparr>, out)))"
| verbose: "log_step r (Inr (r\<lparr>lr_service := SetVerbose b (lr_service r)\<rparr>, []))"
| suppress: "log_step r (Inr (r\<lparr>lr_service := SetSuppressLedgerEvents b (lr_service r)\<rparr>, []))"
| stop: "\<not> lr_stopped r \<Longrightarrow> lr_flush r = None \<Longrightarrow> fair visit \<Longrightarrow> log_Stop visit (lr_service r) = (ls', out) \<Longrightarrow>
    log_step r (Inr (r\<lparr>lr_service := ls', lr_stopped := True\<rparr>, out))"

inductive log_reaches :: "NaraName \<Rightarrow> log_run \<Rightarrow> bool" for localName where
  start: "log_reaches localName (log_start localName)"
| turn: "log_reaches localName r \<Longrightarrow> log_step r (Inr (r', out)) \<Longrightarrow> log_reaches localName (r'\<lparr>lr_out := lr_out r @ out\<rparr>)"

end
