(* ===== verification/Log_Properties.thy ===== *)
theory Log_Properties
  imports Log_Service
begin

text \<open>
  Properties of the log: nothing that the channel accepted is lost before it is reported, in verbose mode or out of it, until the
  service is stopped; a summary does not depend on the order in which Go visits its maps; a verbose group names every actor once.
\<close>

section \<open>Maps of slices\<close>

lemma slice_at_append_at: "slice_at (append_at k v al) x = (if x = k then slice_at al k @ [v] else slice_at al x)"
  by (induction k v al rule: append_at.induct) (auto simp: slice_at_def)

lemma keys_append_at: "map fst (append_at k v al) = map fst al @ (if k \<in> fst ` set al then [] else [k])"
  by (induction k v al rule: append_at.induct) auto

lemma append_at_nonempty: "\<forall>(k, vs) \<in> set al. vs \<noteq> [] \<Longrightarrow> \<forall>(k, vs) \<in> set (append_at k v al). vs \<noteq> []"
  by (induction k v al rule: append_at.induct) auto

lemma group_by_snoc: "group_by key val (es @ [e]) = append_at (key e) (val e) (group_by key val es)"
  by (simp add: group_by_def)

lemma group_by_Nil [simp]: "group_by key val [] = []"
  by (simp add: group_by_def)

lemma slice_at_group_by: "slice_at (group_by key val es) k = map val (filter (\<lambda>e. key e = k) es)"
proof (induction es rule: rev_induct)
  case Nil
  then show ?case by (simp add: slice_at_def)
next
  case (snoc e es)
  then show ?case by (cases "k = key e") (auto simp: group_by_snoc slice_at_append_at)
qed

lemma fst_append_at: "fst ` set (append_at k v al) = insert k (fst ` set al)"
  by (induction k v al rule: append_at.induct) auto

lemma keys_group_by: "fst ` set (group_by key val es) = key ` set es"
proof (induction es rule: rev_induct)
  case (snoc e es)
  then show ?case by (simp add: group_by_snoc fst_append_at)
qed simp

lemma distinct_group_by: "distinct (map fst (group_by key val es))"
proof (induction es rule: rev_induct)
  case (snoc e es)
  then show ?case by (auto simp: group_by_snoc keys_append_at)
qed simp

lemma group_by_nonempty: "\<forall>(k, vs) \<in> set (group_by key val es). vs \<noteq> []"
proof (induction es rule: rev_induct)
  case (snoc e es)
  then show ?case unfolding group_by_snoc by (rule append_at_nonempty)
qed simp

lemma group_by_entry:
  assumes "(k, vs) \<in> set (group_by key val es)"
  shows "vs = map val (filter (\<lambda>e. key e = k) es)"
proof -
  have "map_of (group_by key val es) k = Some vs" using assms by (rule map_of_is_SomeI [OF distinct_group_by])
  then show ?thesis using slice_at_group_by [of key val es k] by (simp add: slice_at_def)
qed

section \<open>Orders of visiting\<close>

lemma fair_mset: "fair visit \<Longrightarrow> mset (visit ks) = mset ks"
  by (simp add: fair_def)

lemma mset_visited:
  assumes "fair visit" and "distinct (map fst al)"
  shows "mset (visited visit al) = mset al"
proof -
  have "(\<lambda>k. (k, the (map_of al k))) (fst p) = p" if "p \<in> set al" for p
    using map_of_is_SomeI [OF assms(2), of "fst p" "snd p"] that by simp
  then have "map (\<lambda>k. (k, the (map_of al k))) (map fst al) = al" by (simp add: map_idI)
  then show ?thesis using fair_mset [OF assms(1), of "map fst al"] unfolding visited_def by (metis mset_map)
qed

lemmas mset_visited_group = mset_visited [OF _ distinct_group_by]

lemma sort_order_free: "mset xs = mset ys \<Longrightarrow> sort xs = sort (ys :: 'a :: linorder list)"
  by (rule properties_for_sort) simp_all

lemma sum_order_free: "mset xs = mset ys \<Longrightarrow> sum_list (map f xs) = sum_list (map (f :: _ \<Rightarrow> nat) ys)"
  by (metis mset_map sum_mset_sum_list)

lemma mset_concat_order_free: "mset xs = mset ys \<Longrightarrow> mset (concat (map f xs)) = mset (concat (map f ys))"
proof -
  have "mset (concat (map f zs)) = sum_mset (image_mset (\<lambda>z. mset (f z)) (mset zs))" for zs
    by (induction zs) simp_all
  then show "mset xs = mset ys \<Longrightarrow> ?thesis" by simp
qed

lemma length_order_free: "mset xs = mset ys \<Longrightarrow> length xs = length ys"
  by (metis size_mset)

lemma fair_id: "fair (\<lambda>ks. ks)"
  by (simp add: fair_def)

lemma visits_agree:
  assumes "fair visit" "fair visit'"
  shows "mset (visit ks) = mset (visit' ks)"
  using assms by (simp add: fair_def)

lemma visited_agree:
  assumes "fair visit" "fair visit'"
  shows "mset (visited visit (group_by key val es)) = mset (visited visit' (group_by key val es))"
  using assms by (simp add: mset_visited_group)

lemma sorted_visits_agree:
  assumes "fair visit" "fair visit'"
  shows "sort (visit ks) = sort (visit' ks)"
  by (rule sort_order_free) (rule visits_agree [OF assms])

lemma formatWelcomes_agree:
  assumes "fair visit" "fair visit'"
  shows "mset (formatWelcomes visit name es) = mset (formatWelcomes visit' name es)"
  unfolding formatWelcomes_def mset_map visited_agree [OF assms] ..

lemma formatTeases_agree:
  assumes "fair visit" "fair visit'"
  shows "formatTeases visit es = formatTeases visit' es"
proof -
  have "sort (map f (visited visit (group_by le_Target le_Actor es))) =
      sort (map f (visited visit' (group_by le_Target le_Actor es)))" for f :: "_ \<Rightarrow> string"
    by (rule sort_order_free) (simp add: visited_agree [OF assms])
  then show ?thesis unfolding formatTeases_def Let_def by simp
qed

lemma formatNewspapers_agree:
  assumes "fair visit" "fair visit'"
  shows "formatNewspapers visit es = formatNewspapers visit' es"
proof -
  have "sum_list (map (\<lambda>(s, changes). length (filter (\<lambda>c. c \<noteq> []) changes)) (visited visit (group_by le_Actor le_Detail es))) =
      sum_list (map (\<lambda>(s, changes). length (filter (\<lambda>c. c \<noteq> []) changes)) (visited visit' (group_by le_Actor le_Detail es)))"
    by (rule sum_order_free) (rule visited_agree [OF assms])
  then have eq: "sum_list (map (\<lambda>(s, changes). length (filter (\<lambda>c. c \<noteq> []) changes)) (visited visit al)) =
      sum_list (map (\<lambda>(s, changes). length (filter (\<lambda>c. c \<noteq> []) changes)) (visited visit' al))"
    if "al = group_by le_Actor le_Detail es" for al
    using that by simp
  show ?thesis unfolding formatNewspapers_def Let_def eq [OF refl] ..
qed

lemma format_type_agree:
  assumes "fair visit" "fair visit'"
  shows "mset (format_type visit name t es) = mset (format_type visit' name t es)"
  unfolding format_type_def formatGoodbyes_def formatHowdysForMe_def formatPingsReceived_def sorted_visits_agree [OF assms]
    formatTeases_agree [OF assms] formatNewspapers_agree [OF assms]
  using formatWelcomes_agree [OF assms] by simp

text \<open>
  C37: A summary does not depend on the order in which Go visits its maps. Whatever events were gathered, any two orders give
  the same lines, up to their order; a line itself is the same.
\<close>

theorem summary_order_free:
  assumes "fair visit" and "fair visit'"
  shows "mset (formatBatchedEvents visit name (group_by le_Type (\<lambda>e. e) es)) =
    mset (formatBatchedEvents visit' name (group_by le_Type (\<lambda>e. e) es))"
proof -
  let ?al = "group_by le_Type (\<lambda>e. e) es"
  let ?f = "\<lambda>visit (t, events). if events = [] then [] else format_type visit name t events"
  have "mset (?f visit p) = mset (?f visit' p)" for p
    using format_type_agree [OF assms] by (cases p) simp
  then have "mset (concat (map (?f visit) ps)) = mset (concat (map (?f visit') ps))" for ps
    by (induction ps) simp_all
  moreover have "mset (concat (map (?f visit) (visited visit ?al))) = mset (concat (map (?f visit) (visited visit' ?al)))"
    by (rule mset_concat_order_free) (rule visited_agree [OF assms])
  ultimately show ?thesis unfolding formatBatchedEvents_def by simp
qed

section \<open>The service\<close>

lemma Push_simps [simp]:
  "ls_batch (Push now e ls) = ls_batch ls" "ls_instantLogs (Push now e ls) = ls_instantLogs ls"
  "ls_localName (Push now e ls) = ls_localName ls" "ls_verboseBuffer (Push now e ls) = ls_verboseBuffer ls"
  by (simp_all add: Push_def Let_def)

lemma Push_events:
  "length (ls_events ls) \<le> log_capacity \<Longrightarrow> length (ls_events (Push now e ls)) \<le> log_capacity \<and>
   ls_events (Push now e ls) = ls_events ls @ drop (length (ls_events ls)) (ls_events (Push now e ls))"
  by (simp add: Push_def Let_def)

lemma formatActorsList_ok: "actors \<noteq> [] \<Longrightarrow> \<exists>s. formatActorsList actors = Inr s"
  by (cases actors) (auto simp: formatActorsList_def Let_def numeral_eq_Suc less_Suc_eq)

lemma flushVerboseGroup_ok:
  obtains ls' out where "flushVerboseGroup key ls = Inr (ls', out)" "ls_events ls' = ls_events ls" "ls_batch ls' = ls_batch ls"
    "ls_instantLogs ls' = ls_instantLogs ls" "ls_localName ls' = ls_localName ls"
proof (cases "ls_verboseBuffer ls key")
  case (Some grp)
  then show thesis using that formatActorsList_ok [of "vg_actors grp"]
    by (cases "vg_actors grp = []") (auto simp: flushVerboseGroup_def Let_def)
qed (simp add: that flushVerboseGroup_def)

text \<open>An event that the ledger holds has its payload, so the listener reads through no nil pointer.\<close>

lemma valid_ToLogEvent: "event_IsValid e = Inr True \<Longrightarrow> Payload e = Some p \<Longrightarrow> \<exists>x. payload_ToLogEvent p = Inr x"
  by (cases p) (auto simp: event_IsValid_def via_pointer_def go_bind_eq_Inr deref_eq_Inr split: if_splits option.splits)

lemma ledger_listener_cases:
  assumes "event_IsValid e = Inr True"
  shows "ledger_listener now e ls = Inr ls \<or> (\<exists>x. ledger_listener now e ls = Inr (Push now x ls))"
proof (cases "Payload e")
  case (Some p)
  then obtain x where "payload_ToLogEvent p = Inr x" using valid_ToLogEvent [OF assms] by blast
  then show ?thesis using Some by (cases x) (auto simp: ledger_listener_def transformEvent_def)
qed (simp add: ledger_listener_def transformEvent_def)

section \<open>Verbose groups\<close>

lemma unique_from_snoc: "unique_from seen (xs @ [x]) = unique_from seen xs @ (if x \<in> seen \<or> x \<in> set xs then [] else [x])"
  by (induction seen xs rule: unique_from.induct) auto

lemma uniqueStrings_snoc: "uniqueStrings (xs @ [x]) = uniqueStrings xs @ (if x \<in> set xs then [] else [x])"
  by (simp add: uniqueStrings_def unique_from_snoc)

lemma uniqueStrings_Nil [simp]: "uniqueStrings [] = []"
  by (simp add: uniqueStrings_def)

lemma set_uniqueStrings [simp]: "set (uniqueStrings xs) = set xs"
  by (induction xs rule: rev_induct) (auto simp: uniqueStrings_snoc)

lemma uniqueStrings_eq_Nil [simp]: "uniqueStrings xs = [] \<longleftrightarrow> xs = []"
  by (metis set_uniqueStrings set_empty)

lemma distinct_uniqueStrings: "distinct (uniqueStrings xs)"
  by (induction xs rule: rev_induct) (auto simp: uniqueStrings_snoc)

fun first_format :: "LogEvent list \<Rightarrow> (string \<Rightarrow> string) option" where
  "first_format [] = None"
| "first_format (e # es) = (case le_GroupFormat e of None \<Rightarrow> first_format es | Some f \<Rightarrow> Some f)"

lemma first_format_snoc:
  "first_format (es @ [e]) = (case first_format es of None \<Rightarrow> le_GroupFormat e | Some f \<Rightarrow> Some f)"
  by (induction es) (auto split: option.split)

definition gathered :: "LogEvent list \<Rightarrow> verboseGroup" where
  "gathered es = \<lparr>vg_eventType = le_Type (hd es), vg_actors = uniqueStrings (map le_Actor es), vg_target = le_Target (hd es),
     vg_detail = le_Detail (hd es), vg_groupFormat = first_format es\<rparr>"

lemma gathered_single: "joined_group e None = gathered [e]"
  by (simp add: joined_group_def verbose_group_def gathered_def uniqueStrings_def split: option.split)

lemma gathered_snoc: "es \<noteq> [] \<Longrightarrow> joined_group e (Some (gathered es)) = gathered (es @ [e])"
  by (auto simp: joined_group_def verbose_group_def gathered_def uniqueStrings_snoc first_format_snoc Let_def split: option.split)

lemma verbose_group_gathers:
  assumes "es \<noteq> []" and "ls_verboseBuffer ls key = None"
    and "\<forall>e \<in> set es. verbose_key e = key \<and> \<not> le_Instant e \<and> le_Actor e \<noteq> []"
  shows "fold (\<lambda>e s. fst (logVerbose e s)) es ls = ls\<lparr>ls_verboseBuffer := (ls_verboseBuffer ls)(key := Some (gathered es))\<rparr>"
  using assms
proof (induction es rule: rev_nonempty_induct)
  case (single e)
  then show ?case by (simp add: logVerbose_def gathered_single) (simp add: fun_upd_def)
next
  case (snoc e es)
  have "fold (\<lambda>e s. fst (logVerbose e s)) es ls = ls\<lparr>ls_verboseBuffer := (ls_verboseBuffer ls)(key := Some (gathered es))\<rparr>"
    by (rule snoc.IH) (use snoc.prems in \<open>auto simp del: fun_upd_apply\<close>)
  then show ?case using snoc.prems by (simp add: logVerbose_def gathered_snoc [OF snoc.hyps(1)]) (simp add: fun_upd_def)
qed

text \<open>A verbose group prints one line, which names every actor once, in the order in which they came.\<close>

lemma verbose_group_lists:
  assumes "es \<noteq> []" and "ls_verboseBuffer ls key = None"
    and "\<forall>e \<in> set es. verbose_key e = key \<and> \<not> le_Instant e \<and> le_Actor e \<noteq> []"
    and "formatActorsList (uniqueStrings (map le_Actor es)) = Inr actors"
  shows "flushVerboseGroup key (fold (\<lambda>e s. fst (logVerbose e s)) es ls) =
    Inr (ls, [LogDebug (case first_format es of Some f \<Rightarrow> f actors
      | None \<Rightarrow> formatGroupedMessage (le_Type (hd es)) actors (le_Target (hd es)) (le_Detail (hd es)))])"
proof -
  have "(ls_verboseBuffer ls)(key := None) = ls_verboseBuffer ls" using assms(2) by auto
  then show ?thesis unfolding verbose_group_gathers [OF assms(1-3)]
    using assms(1,4) by (simp add: flushVerboseGroup_def gathered_def Let_def split: option.split)
qed

text \<open>The group that the events of one key make.\<close>

definition open_group :: "LogEvent list \<Rightarrow> verboseGroup option" where
  "open_group es = (if es = [] then None else Some (gathered es))"

lemma joined_open_group: "Some (joined_group e (open_group es)) = open_group (es @ [e])"
  by (simp add: open_group_def gathered_single gathered_snoc)

section \<open>What is reported\<close>

text \<open>
  What the log prints is a sequence of reports: a flush, of instant messages and a batch, in some order of visiting; a group of
  verbose mode; a single event of verbose mode.
\<close>

datatype report =
    FlushReport "string list \<Rightarrow> string list" "LogEvent list" "LogEvent list"
  | GroupReport "LogEvent list"
  | SingleReport LogEvent

fun report_events :: "report \<Rightarrow> LogEvent list" where
  "report_events (FlushReport visit instants batched) = instants @ batched"
| "report_events (GroupReport es) = es"
| "report_events (SingleReport e) = [e]"

definition group_lines :: "LogEvent list \<Rightarrow> log_line list" where
  \<comment> \<open>one line, which names every actor once, in the order in which they came\<close>
  "group_lines es =
     (case formatActorsList (uniqueStrings (map le_Actor es)) of
        Inl panic \<Rightarrow> []
      | Inr actors \<Rightarrow> [LogDebug (case first_format es of Some f \<Rightarrow> f actors
          | None \<Rightarrow> formatGroupedMessage (le_Type (hd es)) actors (le_Target (hd es)) (le_Detail (hd es)))])"

fun report_lines :: "NaraName \<Rightarrow> report \<Rightarrow> log_line list" where
  "report_lines localName (FlushReport visit instants batched) =
     map LogInfo (map instant_message instants @ formatBatchedEvents visit localName (group_by le_Type (\<lambda>e. e) batched))"
| "report_lines localName (GroupReport es) = group_lines es"
| "report_lines localName (SingleReport e) = [LogDebug (formatVerboseMessage e)]"

fun report_ok :: "report \<Rightarrow> bool" where
  "report_ok (FlushReport visit instants batched) \<longleftrightarrow>
     fair visit \<and> (\<forall>e \<in> set instants. le_Instant e) \<and> (\<forall>e \<in> set batched. \<not> le_Instant e)"
| "report_ok (GroupReport es) \<longleftrightarrow> es \<noteq> [] \<and> (\<exists>key. \<forall>e \<in> set es. verbose_key e = key) \<and> length (group_lines es) = 1"
| "report_ok (SingleReport e) \<longleftrightarrow> le_Instant e \<or> le_Actor e = []"

text \<open>
  What the service holds: \<open>bs\<close> batched, \<open>ins\<close> instant, \<open>fs\<close> taken by a flush that runs, \<open>gs\<close> in groups of verbose mode. Every event
  taken is in one of these or in one of the reports \<open>rs\<close>.
\<close>

definition log_accounts ::
  "NaraName \<Rightarrow> log_run \<Rightarrow> report list \<Rightarrow> LogEvent list \<Rightarrow> LogEvent list \<Rightarrow> LogEvent list \<Rightarrow> LogEvent list \<Rightarrow> bool" where
  "log_accounts localName r rs bs ins fs gs \<longleftrightarrow>
     lr_out r = concat (map (report_lines localName) rs) \<and> list_all report_ok rs \<and>
     mset (lr_taken r) = mset (concat (map report_events rs)) + mset bs + mset ins + mset fs + mset gs \<and>
     ls_batch (lr_service r) = group_by le_Type (\<lambda>e. e) bs \<and>
     ls_instantLogs (lr_service r) = map instant_message ins \<and>
     (case lr_flush r of None \<Rightarrow> fs = [] | Some batch \<Rightarrow> batch = group_by le_Type (\<lambda>e. e) fs) \<and>
     (\<forall>key. ls_verboseBuffer (lr_service r) key = open_group (filter (\<lambda>e. verbose_key e = key) gs)) \<and>
     (\<forall>e \<in> set bs \<union> set fs \<union> set gs. \<not> le_Instant e) \<and> (\<forall>e \<in> set ins. le_Instant e) \<and>
     (lr_stopped r \<longrightarrow> bs = [] \<and> ins = [] \<and> fs = [])"

definition log_ok :: "NaraName \<Rightarrow> log_run \<Rightarrow> bool" where
  "log_ok localName r \<longleftrightarrow>
     ls_localName (lr_service r) = localName \<and> length (ls_events (lr_service r)) \<le> log_capacity \<and>
     lr_accepted r = lr_taken r @ ls_events (lr_service r) \<and> (\<exists>rs bs ins fs gs. log_accounts localName r rs bs ins fs gs)"

lemma log_okI:
  "ls_localName (lr_service r) = localName \<Longrightarrow> length (ls_events (lr_service r)) \<le> log_capacity \<Longrightarrow>
   lr_accepted r = lr_taken r @ ls_events (lr_service r) \<Longrightarrow> log_accounts localName r rs bs ins fs gs \<Longrightarrow> log_ok localName r"
  by (simp add: log_ok_def) blast

text \<open>Steps that leave what the service holds as it ins.\<close>

lemma log_accounts_same:
  assumes "log_accounts localName r rs bs ins fs gs" and "lr_flush r' = lr_flush r" "lr_stopped r' = lr_stopped r" "lr_taken r' = lr_taken r"
    "lr_out r' = lr_out r" "ls_batch (lr_service r') = ls_batch (lr_service r)" "ls_instantLogs (lr_service r') = ls_instantLogs (lr_service r)"
    "ls_verboseBuffer (lr_service r') = ls_verboseBuffer (lr_service r)"
  shows "log_accounts localName r' rs bs ins fs gs"
  using assms by (simp add: log_accounts_def)

lemma log_ok_same:
  assumes "log_ok localName r" and "lr_flush r' = lr_flush r" "lr_stopped r' = lr_stopped r" "lr_taken r' = lr_taken r"
    "lr_out r' = lr_out r" "ls_batch (lr_service r') = ls_batch (lr_service r)" "ls_instantLogs (lr_service r') = ls_instantLogs (lr_service r)"
    "ls_verboseBuffer (lr_service r') = ls_verboseBuffer (lr_service r)" "ls_localName (lr_service r') = ls_localName (lr_service r)"
    "length (ls_events (lr_service r')) \<le> log_capacity" "lr_accepted r' = lr_taken r' @ ls_events (lr_service r')"
  shows "log_ok localName r'"
proof -
  obtain rs bs ins fs gs where a: "log_accounts localName r rs bs ins fs gs" using assms(1) by (auto simp: log_ok_def)
  have "log_accounts localName r' rs bs ins fs gs" by (rule log_accounts_same [OF a assms(2-8)])
  then show ?thesis using assms(1,9-11) by (intro log_okI) (simp_all add: log_ok_def)
qed

lemma log_ok_push: "log_ok localName r \<Longrightarrow> log_ok localName (r\<lparr>lr_service := Push now e (lr_service r),
    lr_accepted := lr_accepted r @ drop (length (ls_events (lr_service r))) (ls_events (Push now e (lr_service r)))\<rparr>)"
proof -
  assume ok: "log_ok localName r"
  then have l: "length (ls_events (lr_service r)) \<le> log_capacity" "lr_accepted r = lr_taken r @ ls_events (lr_service r)" by (simp_all add: log_ok_def)
  note p = Push_events [OF l(1), of now e]
  have e: "lr_accepted r @ drop (length (ls_events (lr_service r))) (ls_events (Push now e (lr_service r))) =
      lr_taken r @ ls_events (Push now e (lr_service r))" using conjunct2 [OF p] l(2) by (metis append.assoc)
  show ?thesis by (rule log_ok_same [OF ok]) (simp_all add: conjunct1 [OF p] e)
qed

lemma group_lines_ok: "es \<noteq> [] \<Longrightarrow> length (group_lines es) = 1"
  using formatActorsList_ok [of "uniqueStrings (map le_Actor es)"] by (auto simp: group_lines_def)

lemma filter_key_mset: "mset (filter (\<lambda>e. verbose_key e = key) gs) + mset (filter (\<lambda>e. verbose_key e \<noteq> key) gs) = mset gs"
  by (metis mset_filter multiset_partition)

lemma log_ok_taken:
  assumes "log_ok localName r" and "\<not> lr_stopped r" and "ls_events (lr_service r) = e # rest"
    and p: "process_event e ((lr_service r)\<lparr>ls_events := rest\<rparr>) = (ls', out)"
  shows "log_ok localName (r\<lparr>lr_service := ls', lr_taken := lr_taken r @ [e], lr_out := lr_out r @ out\<rparr>)"
proof -
  obtain rs bs ins fs gs where a: "log_accounts localName r rs bs ins fs gs" using assms(1) by (auto simp: log_ok_def)
  have s: "ls_localName ls' = localName" "ls_events ls' = rest"
    using p assms(1) by (auto simp: log_ok_def process_event_def logVerbose_def logInstant_def addToBatch_def Let_def split: if_splits)
  let ?r = "r\<lparr>lr_service := ls', lr_taken := lr_taken r @ [e], lr_out := lr_out r @ out\<rparr>"
  have "\<exists>rs bs ins fs gs. log_accounts localName ?r rs bs ins fs gs"
  proof (cases "ls_verbose (lr_service r)")
    case True
    note v = this
    show ?thesis
    proof (cases "le_Instant e \<or> le_Actor e = []")
      case True
      then have "log_accounts localName ?r (rs @ [SingleReport e]) bs ins fs gs"
        using a p v by (auto simp: log_accounts_def process_event_def logVerbose_def)
      then show ?thesis by blast
    next
      case False
      have "ls_verboseBuffer ls' key = open_group (filter (\<lambda>x. verbose_key x = key) (gs @ [e]))" for key
        using a p v False joined_open_group [of e "filter (\<lambda>x. verbose_key x = verbose_key e) gs"]
        by (auto simp: log_accounts_def process_event_def logVerbose_def Let_def)
      then have "log_accounts localName ?r rs bs ins fs (gs @ [e])"
        using a p v False by (auto simp: log_accounts_def process_event_def logVerbose_def Let_def)
      then show ?thesis by blast
    qed
  next
    case False
    show ?thesis
    proof (cases "le_Instant e")
      case True
      then have "log_accounts localName ?r rs bs (ins @ [e]) fs gs"
        using a p False assms(2) by (auto simp: log_accounts_def process_event_def logInstant_def)
      then show ?thesis by blast
    next
      case n: False
      then have "log_accounts localName ?r rs (bs @ [e]) ins fs gs"
        using a p False assms(2) by (auto simp: log_accounts_def process_event_def addToBatch_def group_by_snoc)
      then show ?thesis by blast
    qed
  qed
  then show ?thesis using s assms(1,3) by (auto simp: log_ok_def)
qed

lemma log_ok_timer:
  assumes "log_ok localName r"
  shows "\<exists>ls' out. flushVerboseGroup key (lr_service r) = Inr (ls', out) \<and> log_ok localName (r\<lparr>lr_service := ls', lr_out := lr_out r @ out\<rparr>)"
proof -
  obtain rs bs ins fs gs where a: "log_accounts localName r rs bs ins fs gs" using assms by (auto simp: log_ok_def)
  let ?es = "filter (\<lambda>e. verbose_key e = key) gs" and ?ls = "(lr_service r)\<lparr>ls_verboseBuffer := (ls_verboseBuffer (lr_service r))(key := None)\<rparr>"
  have b: "ls_verboseBuffer (lr_service r) key = open_group ?es" using a by (simp add: log_accounts_def)
  show ?thesis
  proof (cases "?es = []")
    case True
    then have "flushVerboseGroup key (lr_service r) = Inr (lr_service r, [])" using b by (simp add: flushVerboseGroup_def open_group_def)
    then show ?thesis using assms by simp
  next
    case False
    obtain actors where actors: "formatActorsList (uniqueStrings (map le_Actor ?es)) = Inr actors"
      using formatActorsList_ok [of "uniqueStrings (map le_Actor ?es)"] False by (metis map_is_Nil_conv uniqueStrings_eq_Nil)
    have g: "vg_actors (gathered ?es) \<noteq> []" using False by (simp add: gathered_def)
    have f: "flushVerboseGroup key (lr_service r) = Inr (?ls, group_lines ?es)"
      using b False g actors by (simp add: flushVerboseGroup_def open_group_def group_lines_def Let_def) (simp add: gathered_def split: option.split)
    have "filter (\<lambda>e. verbose_key e = k) (filter (\<lambda>e. verbose_key e \<noteq> key) gs) =
        (if k = key then [] else filter (\<lambda>e. verbose_key e = k) gs)" for k
      by (induction gs) auto
    then have "open_group (filter (\<lambda>e. verbose_key e = k) (filter (\<lambda>e. verbose_key e \<noteq> key) gs)) =
        (if k = key then None else open_group (filter (\<lambda>e. verbose_key e = k) gs))" for k
      by (simp add: open_group_def del: filter_filter)
    then have a': "log_accounts localName (r\<lparr>lr_service := ?ls, lr_out := lr_out r @ group_lines ?es\<rparr>) (rs @ [GroupReport ?es]) bs ins fs
        (filter (\<lambda>e. verbose_key e \<noteq> key) gs)"
      using a False group_lines_ok [OF False] filter_key_mset [of key gs] by (auto simp: log_accounts_def)
    have "log_ok localName (r\<lparr>lr_service := ?ls, lr_out := lr_out r @ group_lines ?es\<rparr>)"
      by (rule log_okI [OF _ _ _ a']) (use assms in \<open>simp_all add: log_ok_def\<close>)
    then show ?thesis using f by blast
  qed
qed

lemma log_step_ok:
  assumes "log_ok localName r" and "log_step r res"
  shows "\<exists>r' out. res = Inr (r', out) \<and> log_ok localName (r'\<lparr>lr_out := lr_out r @ out\<rparr>)"
  using assms(2)
proof cases
  case (push now e)
  then show ?thesis using log_ok_push [OF assms(1), of now e] by simp
next
  case (ledger event now)
  then show ?thesis using ledger_listener_cases [OF ledger(2), of now "lr_service r"] log_ok_push [OF assms(1)] assms(1) by auto
next
  case (take_event e rest ls' out)
  then show ?thesis using log_ok_taken [OF assms(1)] by simp
next
  case (tick ls' batch)
  obtain rs bs ins fs gs where a: "log_accounts localName r rs bs ins fs gs" using assms(1) by (auto simp: log_ok_def)
  have a': "log_accounts localName (r\<lparr>lr_service := ls', lr_flush := Some batch\<rparr>) rs [] ins bs gs"
    using a tick by (auto simp: log_accounts_def take_batch_def)
  have "log_ok localName (r\<lparr>lr_service := ls', lr_flush := Some batch\<rparr>)"
    by (rule log_okI [OF _ _ _ a']) (use tick assms(1) in \<open>auto simp: log_ok_def take_batch_def\<close>)
  then show ?thesis using tick by simp
next
  case (flush batch visit ls' out)
  obtain rs bs ins fs gs where a: "log_accounts localName r rs bs ins fs gs" using assms(1) by (auto simp: log_ok_def)
  have a': "log_accounts localName (r\<lparr>lr_service := ls', lr_flush := None, lr_out := lr_out r @ out\<rparr>) (rs @ [FlushReport visit ins fs]) bs [] [] gs"
    using a flush assms(1) by (auto simp: log_accounts_def log_ok_def flush_rest_def take_instants_def)
  have "log_ok localName (r\<lparr>lr_service := ls', lr_flush := None, lr_out := lr_out r @ out\<rparr>)"
    by (rule log_okI [OF _ _ _ a']) (use flush assms(1) in \<open>auto simp: log_ok_def flush_rest_def take_instants_def\<close>)
  then show ?thesis using flush by simp
next
  case (timer key)
  obtain ls' out where "flushVerboseGroup key (lr_service r) = Inr (ls', out)" "log_ok localName (r\<lparr>lr_service := ls', lr_out := lr_out r @ out\<rparr>)"
    using log_ok_timer [OF assms(1)] by blast
  then show ?thesis using timer by simp
next
  case (verbose b)
  have "log_ok localName (r\<lparr>lr_service := SetVerbose b (lr_service r)\<rparr>)"
    using assms(1) by (rule log_ok_same) (use assms(1) in \<open>simp_all add: SetVerbose_def log_ok_def\<close>)
  then show ?thesis using verbose by simp
next
  case (suppress b)
  have "log_ok localName (r\<lparr>lr_service := SetSuppressLedgerEvents b (lr_service r)\<rparr>)"
    using assms(1) by (rule log_ok_same) (use assms(1) in \<open>simp_all add: SetSuppressLedgerEvents_def log_ok_def\<close>)
  then show ?thesis using suppress by simp
next
  case (stop visit ls' out)
  obtain rs bs ins fs gs where a: "log_accounts localName r rs bs ins fs gs" using assms(1) by (auto simp: log_ok_def)
  have a': "log_accounts localName (r\<lparr>lr_service := ls', lr_stopped := True, lr_out := lr_out r @ out\<rparr>) (rs @ [FlushReport visit ins bs]) [] [] [] gs"
    using a stop assms(1) by (auto simp: log_accounts_def log_ok_def log_Stop_def flushBatch_def flush_rest_def take_batch_def take_instants_def)
  have "log_ok localName (r\<lparr>lr_service := ls', lr_stopped := True, lr_out := lr_out r @ out\<rparr>)"
    by (rule log_okI [OF _ _ _ a'])
      (use stop assms(1) in \<open>auto simp: log_ok_def log_Stop_def flushBatch_def flush_rest_def take_batch_def take_instants_def\<close>)
  then show ?thesis using stop by simp
qed

lemma log_reaches_ok: "log_reaches localName r \<Longrightarrow> log_ok localName r"
proof (induction rule: log_reaches.induct)
  case start
  have a: "log_accounts localName (log_start localName) [] [] [] [] []"
    by (simp add: log_accounts_def log_start_def NewLogService_def open_group_def)
  show ?case by (rule log_okI [OF _ _ _ a]) (simp_all add: log_start_def NewLogService_def)
next
  case (turn r r' out)
  then show ?case using log_step_ok by fastforce
qed

text \<open>
  C36: Nothing the log has accepted gets lost before it is reported, until it is stopped. However callers, the ledger, the loops,
  the timers and the switches interleave, the channel holds at most a hundred events, and those accepted are those taken and those
  still in the channel, in the order in which they came. All that is printed is a sequence of reports, and every event taken is in
  one report exactly, or still held: in the batch or the instant messages, in a flush that runs, or, in verbose mode, in the group
  of its key, of which the timer prints one line that names every actor once. No next step panics. Once the service is stopped,
  nothing is taken any more, so that what is still in the channel is never reported, and only groups are held.
\<close>

theorem log_reports_everything:
  assumes "log_reaches localName r"
  shows "lr_accepted r = lr_taken r @ ls_events (lr_service r) \<and> length (ls_events (lr_service r)) \<le> 100 \<and>
    (\<exists>rs bs ins fs gs.
       lr_out r = concat (map (report_lines localName) rs) \<and> list_all report_ok rs \<and>
       mset (lr_taken r) = mset (concat (map report_events rs)) + mset bs + mset ins + mset fs + mset gs \<and>
       ls_batch (lr_service r) = group_by le_Type (\<lambda>e. e) bs \<and>
       ls_instantLogs (lr_service r) = map instant_message ins \<and>
       (case lr_flush r of None \<Rightarrow> fs = [] | Some batch \<Rightarrow> batch = group_by le_Type (\<lambda>e. e) fs) \<and>
       (\<forall>key. ls_verboseBuffer (lr_service r) key = open_group (filter (\<lambda>e. verbose_key e = key) gs)) \<and>
       (lr_stopped r \<longrightarrow> bs = [] \<and> ins = [] \<and> fs = [])) \<and>
    (\<forall>res. log_step r res \<longrightarrow> (\<exists>r' out. res = Inr (r', out) \<and> (lr_stopped r \<longrightarrow> lr_taken r' = lr_taken r)))"
proof -
  note ok = log_reaches_ok [OF assms]
  have "\<exists>r' out. res = Inr (r', out) \<and> (lr_stopped r \<longrightarrow> lr_taken r' = lr_taken r)" if s: "log_step r res" for res
  proof -
    obtain r' out where r': "res = Inr (r', out)" using log_step_ok [OF ok s] by blast
    have "lr_stopped r \<Longrightarrow> lr_taken r' = lr_taken r"
      using s unfolding r' by cases (auto simp: go_bind_def split: sum.splits prod.splits)
    then show ?thesis using r' by blast
  qed
  moreover obtain rs bs ins fs gs where "log_accounts localName r rs bs ins fs gs" using ok by (auto simp: log_ok_def)
  then have "\<exists>rs bs ins fs gs.
       lr_out r = concat (map (report_lines localName) rs) \<and> list_all report_ok rs \<and>
       mset (lr_taken r) = mset (concat (map report_events rs)) + mset bs + mset ins + mset fs + mset gs \<and>
       ls_batch (lr_service r) = group_by le_Type (\<lambda>e. e) bs \<and>
       ls_instantLogs (lr_service r) = map instant_message ins \<and>
       (case lr_flush r of None \<Rightarrow> fs = [] | Some batch \<Rightarrow> batch = group_by le_Type (\<lambda>e. e) fs) \<and>
       (\<forall>key. ls_verboseBuffer (lr_service r) key = open_group (filter (\<lambda>e. verbose_key e = key) gs)) \<and>
       (lr_stopped r \<longrightarrow> bs = [] \<and> ins = [] \<and> fs = [])"
    unfolding log_accounts_def by blast
  moreover have "lr_accepted r = lr_taken r @ ls_events (lr_service r)" "length (ls_events (lr_service r)) \<le> 100"
    using ok by (simp_all add: log_ok_def log_capacity_def)
  ultimately show ?thesis by blast
qed

section \<open>What the log does not tell\<close>

text \<open>The event of a hey-there states its sender as the one who came and as the one who waved.\<close>

lemma welcome_waves_at_itself:
  assumes "Service e = ServiceHeyThere" and "HeyThere e = Some h" and "ht_From h \<noteq> ls_localName ls" and "ht_From h \<noteq> []"
  shows "\<exists>x. transformEvent ls e = Inr (Some x) \<and>
    formatWelcomes (\<lambda>ks. ks) (ls_localName ls) [x] = [icon_wave @ '' '' @ ht_From h @ '' popped in ('' @ ht_From h @ '' waved)'']"
proof -
  have "transformEvent ls e = Inr (Some (heythere_ToLogEvent h))"
    using assms by (simp add: transformEvent_def Payload_def)
  moreover have "formatWelcomes (\<lambda>ks. ks) (ls_localName ls) [heythere_ToLogEvent h] =
      [icon_wave @ '' '' @ ht_From h @ '' popped in ('' @ ht_From h @ '' waved)'']"
    using assms(3,4)
    by (simp add: formatWelcomes_def heythere_ToLogEvent_def log_event_def group_by_def visited_def uniqueStrings_def Let_def)
  ultimately show ?thesis by blast
qed

text \<open>When the service stops, events may still be in the channel; nothing prints them.\<close>

lemma stop_leaves_queue: "ls_events (fst (log_Stop visit ls)) = ls_events ls"
  by (simp add: log_Stop_def flushBatch_def flush_rest_def take_batch_def take_instants_def)

section \<open>Examples\<close>

definition demo_log_event :: LogEvent where
  "demo_log_event = log_event CategoryMesh ''discovery'' ''lisa''"

lemma summary_order_free_witness:
  "mset (formatBatchedEvents rev ''bart'' (group_by le_Type (\<lambda>e. e) [demo_log_event, demo_log_event\<lparr>le_Type := ''consensus''\<rparr>])) =
   mset (formatBatchedEvents (\<lambda>ks. ks) ''bart'' (group_by le_Type (\<lambda>e. e) [demo_log_event, demo_log_event\<lparr>le_Type := ''consensus''\<rparr>]))"
  by (rule summary_order_free) (simp_all add: fair_def)

text \<open>A run that accepts an event, takes it, and flushes.\<close>

lemma demo_log_run: "\<exists>r. log_reaches ''bart'' r \<and> lr_taken r = [demo_log_event\<lparr>le_Timestamp := 1\<rparr>] \<and> lr_flush r =
    Some [(''discovery'', [demo_log_event\<lparr>le_Timestamp := 1\<rparr>])]"
proof -
  let ?e = "demo_log_event\<lparr>le_Timestamp := 1\<rparr>"
  have p: "Push 1 demo_log_event (NewLogService ''bart'') = (NewLogService ''bart'')\<lparr>ls_events := [?e]\<rparr>"
    by (simp add: Push_def NewLogService_def demo_log_event_def log_event_def log_capacity_def)
  let ?r = "(log_start ''bart'')\<lparr>lr_service := Push 1 demo_log_event (lr_service (log_start ''bart'')), lr_accepted := lr_accepted (log_start ''bart'') @
    drop (length (ls_events (lr_service (log_start ''bart'')))) (ls_events (Push 1 demo_log_event (lr_service (log_start ''bart''))))\<rparr>"
  let ?r1 = "?r\<lparr>lr_out := lr_out (log_start ''bart'') @ []\<rparr>"
  have r: "log_reaches ''bart'' ?r1" by (rule log_reaches.turn [OF log_reaches.start log_step.push])
  have e: "ls_events (lr_service ?r1) = ?e # []" "\<not> lr_stopped ?r1" by (simp_all add: log_start_def p)
  obtain ls' out where q: "process_event ?e ((lr_service ?r1)\<lparr>ls_events := []\<rparr>) = (ls', out)" by fastforce
  have ls': "ls' = (NewLogService ''bart'')\<lparr>ls_batch := [(''discovery'', [?e])]\<rparr>"
    using q by (simp add: log_start_def p) (simp add: process_event_def addToBatch_def NewLogService_def demo_log_event_def log_event_def)
  let ?r2 = "(?r1\<lparr>lr_service := ls', lr_taken := lr_taken ?r1 @ [?e]\<rparr>)\<lparr>lr_out := lr_out ?r1 @ out\<rparr>"
  have r2: "log_reaches ''bart'' ?r2" by (rule log_reaches.turn [OF r log_step.take_event [OF e(2,1) q]])
  have "take_batch (lr_service ?r2) = (NewLogService ''bart'', [(''discovery'', [?e])])"
    by (simp add: ls' take_batch_def) (simp add: NewLogService_def)
  then show ?thesis using log_reaches.turn [OF r2 log_step.tick] by (auto simp: log_start_def)
qed

lemma log_reports_everything_witness:
  "\<exists>r. log_reaches ''bart'' r \<and> lr_taken r = [demo_log_event\<lparr>le_Timestamp := 1\<rparr>] \<and>
    lr_accepted r = lr_taken r @ ls_events (lr_service r) \<and>
    (\<exists>rs bs ins fs gs. mset (lr_taken r) = mset (concat (map report_events rs)) + mset bs + mset ins + mset fs + mset gs \<and>
       lr_flush r = Some (group_by le_Type (\<lambda>e. e) fs))"
proof -
  obtain r where r: "log_reaches ''bart'' r" "lr_taken r = [demo_log_event\<lparr>le_Timestamp := 1\<rparr>]" "lr_flush r =
    Some [(''discovery'', [demo_log_event\<lparr>le_Timestamp := 1\<rparr>])]" using demo_log_run by blast
  obtain rs bs ins fs gs where "mset (lr_taken r) = mset (concat (map report_events rs)) + mset bs + mset ins + mset fs + mset gs"
    "case lr_flush r of None \<Rightarrow> fs = [] | Some batch \<Rightarrow> batch = group_by le_Type (\<lambda>e. e) fs"
    "lr_accepted r = lr_taken r @ ls_events (lr_service r)"
    using log_reports_everything [OF r(1)] by blast
  moreover from this(2) have "lr_flush r = Some (group_by le_Type (\<lambda>e. e) fs)" using r(3) by simp
  ultimately show ?thesis using r(1,2) by (intro exI [of _ r] conjI exI [of _ rs] exI [of _ bs] exI [of _ ins] exI [of _ fs] exI [of _ gs])
qed

end
