(* ===== verification/Inspector.thy ===== *)
theory Inspector
  imports Log_Events Plaza Clout
begin

text \<open>
  The inspector (\<open>http_inspector.go\<close>), which shows the events, checkpoints and projections of a nara on a web page. JSON
  bodies are the values they encode. The network, the checkpoint service and the projections exist from
  \<open>NewLocalNara\<close> and \<open>NewNetwork\<close> on, so the checks for nil never hold. A handler that panics gives no answer.
\<close>

section \<open>Requests\<close>

definition inspector_json :: "'c \<Rightarrow> 'c option http_response" where
  "inspector_json c = \<lparr>hp_Status = 0, hp_Header = [''Content-Type'' \<mapsto> ''application/json''], hp_Body = Some c\<rparr>"

definition trim_prefix :: "string \<Rightarrow> string \<Rightarrow> string" where
  "trim_prefix s p = (if has_prefix s p then drop (length p) s else s)"

text \<open>
  The value that \<open>ParseInt\<close> returns beside its error: zero for a wrong syntax, the bound for a number out of range. It stops
  at the digit at which the number leaves the range of 64 bits, before it sees what follows.
\<close>

fun parse_digits_clamped :: "nat \<Rightarrow> string \<Rightarrow> nat" where
  "parse_digits_clamped acc [] = acc"
| "parse_digits_clamped acc (c # cs) =
     (case char_digit c of
        None \<Rightarrow> 0
      | Some d \<Rightarrow> if acc * 10 + d \<ge> 2 ^ 64 then 2 ^ 64 - 1 else parse_digits_clamped (acc * 10 + d) cs)"

definition parse_int_value :: "string \<Rightarrow> int" where
  "parse_int_value s =
     (let (neg, ds) = (case s of
          [] \<Rightarrow> (False, [])
        | c # cs \<Rightarrow> if c = CHR ''-'' then (True, cs) else if c = CHR ''+'' then (False, cs) else (False, s));
          n = int (parse_digits_clamped 0 ds)
      in if neg then - min n (2 ^ 63) else min n (2 ^ 63 - 1))"

section \<open>Events\<close>

record EventResponse =
  er_ID :: string
  er_Timestamp :: int
  er_Service :: string
  er_Emitter :: NaraName
  er_EmitterID :: NaraID
  er_Signed :: bool
  er_UIFormat :: "ui_format option"

definition event_response :: "SyncEvent \<Rightarrow> EventResponse" where
  "event_response e =
     \<lparr>er_ID = ID e, er_Timestamp = Timestamp e, er_Service = Service e, er_Emitter = Emitter e, er_EmitterID = EmitterID e,
      er_Signed = IsSigned e, er_UIFormat = getEventUIFormat e\<rparr>"

definition inspected :: "string \<Rightarrow> NaraName \<Rightarrow> int \<Rightarrow> int \<Rightarrow> SyncEvent \<Rightarrow> bool go" where
  "inspected service subject after before e =
     (let in_time = \<not> (after > 0 \<and> Timestamp e < after) \<and> \<not> (before > 0 \<and> Timestamp e > before)
      in if service \<noteq> [] \<and> Service e \<noteq> service then Inr False
         else if subject \<noteq> []
         then go_bind (GetActor e) (\<lambda>actor. go_bind (GetTarget e) (\<lambda>target.
                Inr ((Emitter e = subject \<or> actor = subject \<or> target = subject) \<and> in_time)))
         else Inr in_time)"

text \<open>The slice from \<open>offset\<close> on of at most \<open>limit\<close> elements, and where it ends.\<close>

definition page_of :: "int \<Rightarrow> int \<Rightarrow> 'a list \<Rightarrow> 'a list \<times> int" where
  "page_of offset limit xs =
     (let total = int (length xs); end0 = i64 (offset + limit);
          (start, stop) = (if offset \<ge> total then (total, total) else if end0 > total then (offset, total) else (offset, end0))
      in (take (nat (stop - start)) (drop (nat start) xs), stop))"

record events_page =
  ep_events :: "EventResponse list"
  ep_total :: int
  ep_has_more :: bool

definition inspectorEventsHandler :: "go_env \<Rightarrow> (string \<Rightarrow> string) \<Rightarrow> nara_net \<Rightarrow> events_page option http_response go" where
  "inspectorEventsHandler G query net =
     (let limit = (case page_param (query ''limit'') of Some l \<Rightarrow> if l > 0 \<and> l \<le> 1000 then l else 100 | None \<Rightarrow> 100);
          offset = (case page_param (query ''offset'') of Some n \<Rightarrow> if n \<ge> 0 then n else 0 | None \<Rightarrow> 0);
          after = (if query ''after'' \<noteq> [] then parse_int_value (query ''after'') else 0);
          before = (if query ''before'' \<noteq> [] then parse_int_value (query ''before'') else 0)
      in go_bind (go_filter (inspected (query ''service'') (query ''subject'') after before) (Events (nw_SyncLedger net))) (\<lambda>filtered.
           let newest_first = sort_slice (sort_perm G) newer filtered;
               total = int (length newest_first);
               (page, stop) = page_of offset limit newest_first
           in Inr (inspector_json \<lparr>ep_events = map event_response page, ep_total = total, ep_has_more = (stop < total)\<rparr>)))"

section \<open>Checkpoints\<close>

record CheckpointSummary =
  cs_Subject :: NaraName
  cs_SubjectID :: NaraID
  cs_AsOfTime :: int
  cs_Round :: int
  cs_Restarts :: int
  cs_TotalUptime :: int
  cs_StartTime :: int
  cs_VoterCount :: int
  cs_VerifiedCount :: int
  cs_KnownCount :: int
  cs_Verified :: bool
  cs_Version :: int
  cs_PreviousCheckpointID :: string

definition key_by_id :: "nara_net \<Rightarrow> PublicKeyLookup" where
  "key_by_id net = (\<lambda>i name. Neighbourhood.getPublicKeyForNaraID net i)"

definition checkpoint_summary :: "go_env \<Rightarrow> nara_net \<Rightarrow> CheckpointEventPayload \<Rightarrow> CheckpointSummary" where
  "checkpoint_summary G net c =
     (let res = VerifySignatureWithCounts G (Some (key_by_id net)) c
      in \<lparr>cs_Subject = cp_Subject c, cs_SubjectID = cp_SubjectID c, cs_AsOfTime = cp_AsOfTime c, cs_Round = cp_Round c,
          cs_Restarts = no_Restarts (cp_Observation c), cs_TotalUptime = no_TotalUptime (cp_Observation c),
          cs_StartTime = no_StartTime (cp_Observation c), cs_VoterCount = int (length (cp_VoterIDs c)),
          cs_VerifiedCount = vr_ValidCount res, cs_KnownCount = vr_KnownCount res, cs_Verified = vr_Valid res,
          cs_Version = cp_Version c, cs_PreviousCheckpointID = cp_PreviousCheckpointID c\<rparr>)"

text \<open>The first checkpoint of every subject, walking from the last event to the first.\<close>

fun latest_per_subject :: "NaraName set \<Rightarrow> SyncEvent list \<Rightarrow> CheckpointEventPayload list" where
  "latest_per_subject seen [] = []"
| "latest_per_subject seen (e # es) =
     (case Checkpoint e of
        None \<Rightarrow> latest_per_subject seen es
      | Some c \<Rightarrow> if cp_Subject c \<in> seen then latest_per_subject seen es
                  else c # latest_per_subject (insert (cp_Subject c) seen) es)"

definition inspectorCheckpointsHandler :: "go_env \<Rightarrow> nara_net \<Rightarrow> CheckpointSummary list option http_response" where
  "inspectorCheckpointsHandler G net =
     inspector_json (map (checkpoint_summary G net)
       (latest_per_subject {} (rev (GetEventsByService (nw_SyncLedger net) ServiceCheckpoint))))"

record VoterInfo =
  vi_VoterID :: NaraID
  vi_VoterName :: NaraName
  vi_Signature :: string
  vi_Verified :: bool
  vi_VerificationError :: "string option"

definition voter_name :: "nara_net \<Rightarrow> CheckpointEventPayload \<Rightarrow> NaraID \<Rightarrow> NaraName" where
  "voter_name net c voterID =
     (if voterID = cp_SubjectID c then cp_Subject c
      else case find (\<lambda>(name, r). st_ID (na_Status (nara_at net r)) = voterID) (nw_Neighbourhood net) of
             None \<Rightarrow> [] | Some (name, r) \<Rightarrow> name)"

definition voter_info :: "go_env \<Rightarrow> nara_net \<Rightarrow> CheckpointEventPayload \<Rightarrow> nat \<Rightarrow> VoterInfo" where
  "voter_info G net c i =
     (let voterID = cp_VoterIDs c ! i;
          signature = (if i < length (cp_Signatures c) then cp_Signatures c ! i else []);
          name = voter_name net c voterID;
          (verified, err) =
            (case Neighbourhood.getPublicKeyForNaraID net voterID of
               None \<Rightarrow> (False, Some ''public key not found'')
             | Some pubKey \<Rightarrow>
                 let version = (if cp_Version c = 0 then 1 else cp_Version c);
                     attestation = \<lparr>at_Version = version, at_Subject = cp_Subject c, at_SubjectID = cp_SubjectID c,
                       at_Observation = cp_Observation c, at_Attester = name, at_AttesterID = voterID,
                       at_LastSeenCheckpointID = (if version \<ge> 2 then cp_PreviousCheckpointID c else []),
                       at_AsOfTime = cp_AsOfTime c, at_Signature = []\<rparr>
                 in if VerifySignatureBase64 G pubKey (attestation_SignableContent attestation) signature then (True, None)
                    else (False, Some ''signature verification failed''))
      in \<lparr>vi_VoterID = voterID, vi_VoterName = name, vi_Signature = signature, vi_Verified = verified, vi_VerificationError = err\<rparr>)"

record checkpoint_detail =
  cd_event :: SyncEvent
  cd_voters :: "VoterInfo list"
  cd_total_voters :: int
  cd_verified_voters :: int
  cd_is_self_attestation :: bool

definition inspectorCheckpointDetailHandler ::
  "go_env \<Rightarrow> string \<Rightarrow> nara_net \<Rightarrow> checkpoint_detail option http_response go" where
  "inspectorCheckpointDetailHandler G path net =
     (let subject = trim_prefix path ''/api/inspector/checkpoint/''
      in if subject = [] then Inr (http_error 400)
         else case GetCheckpointEvent (nw_SyncLedger net) subject of
                None \<Rightarrow> Inr (http_error 404)
              | Some event \<Rightarrow>
                  go_bind (deref (Checkpoint event)) (\<lambda>c.
                    let voters = map (voter_info G net c) [0..<length (cp_VoterIDs c)]
                    in Inr (inspector_json
                         \<lparr>cd_event = event, cd_voters = voters, cd_total_voters = int (length (cp_VoterIDs c)),
                          cd_verified_voters = int (length (filter vi_Verified voters)),
                          cd_is_self_attestation = (cp_SubjectID c \<in> set (cp_VoterIDs c))\<rparr>)))"

section \<open>Projections\<close>

record online_row =
  ow_status :: string
  ow_last_event_time :: int
  ow_last_event_type :: string
  ow_observer :: string
  ow_total_uptime :: int

record opinion_row =
  ow_start_time :: int
  ow_restart_num :: int
  ow_last_restart :: int
  ow_observation_count :: int
  ow_consensus :: string

definition consensus_label :: "'a list \<Rightarrow> string" where
  "consensus_label observations =
     (let n = length observations in
      if n > 5 then ''strong'' else if n > 2 then ''moderate'' else if n > 0 then ''weak'' else ''none'')"

definition online_table :: "go_env \<Rightarrow> clock \<Rightarrow> nara_net \<Rightarrow> NaraName \<rightharpoonup> online_row" where
  "online_table G T net =
     (\<lambda>name. case pj_state (nn_online net) name of
        None \<Rightarrow> None
      | Some state \<Rightarrow>
          Some \<lparr>ow_status = aged_status (missing_threshold net) (ck_nano T) name state, ow_last_event_time = os_LastEventTime state,
            ow_last_event_type = os_LastEventType state, ow_observer = os_Observer state,
            ow_total_uptime = DeriveTotalUptime G (ck_sec T) (nw_SyncLedger net) name\<rparr>)"

definition opinion_table :: "go_env \<Rightarrow> clock \<Rightarrow> nara_net \<Rightarrow> (NaraName \<times> opinion_row) list" where
  "opinion_table G T net =
     map (\<lambda>subject.
       let opinion = DeriveOpinion G (ck_sec T) (nw_SyncLedger net) (pj_state (nn_opinion net)) subject;
           observations = GetObservationsFor (pj_state (nn_opinion net)) subject
       in (subject, \<lparr>ow_start_time = od_StartTime opinion, ow_restart_num = od_Restarts opinion, ow_last_restart = od_LastRestart opinion,
             ow_observation_count = int (length observations), ow_consensus = consensus_label observations\<rparr>))
     (map fst (nw_Neighbourhood net) @ [meName net])"

definition clout_scores :: "go_env \<Rightarrow> clock \<Rightarrow> nara_net \<Rightarrow> clout" where
  "clout_scores G T net =
     DeriveClout G (ck_sec T) (pj_state (nn_clout net)) (nn_Soul net) (st_Personality (me_status net))"

definition inspectorProjectionsHandler ::
  "go_env \<Rightarrow> clock \<Rightarrow> nara_net \<Rightarrow> ((NaraName \<rightharpoonup> online_row) \<times> clout \<times> (NaraName \<times> opinion_row) list) option http_response" where
  "inspectorProjectionsHandler G T net =
     inspector_json (online_table G T net, clout_scores G T net, opinion_table G T net)"

datatype projection_detail =
    OnlineDetail string OnlineState "(string \<times> int \<times> string \<times> NaraName \<times> string) list"
  | CloutDetail float64 "SyncEvent list"
  | OpinionDetail OpinionData "ObservationRecord list" int

definition online_detail :: "clock \<Rightarrow> NaraName \<Rightarrow> nara_net \<Rightarrow> projection_detail go" where
  \<comment> \<open>the derived state and the last five events about the subject, newest first\<close>
  "online_detail T subject net =
     go_bind (deref (pj_state (nn_online net) subject)) (\<lambda>state.
       Inr (OnlineDetail (derived_status T net subject) state
         (map (\<lambda>e. (ID e, Timestamp e, Service e, Emitter e, os_LastEventType state))
            (take 5 (rev (GetObservationEventsAbout (nw_SyncLedger net) subject))))))"

definition clout_detail :: "go_env \<Rightarrow> clock \<Rightarrow> NaraName \<Rightarrow> nara_net \<Rightarrow> projection_detail" where
  "clout_detail G T subject net =
     CloutDetail (score (clout_scores G T net) subject)
       (filter (\<lambda>e. case Social e of None \<Rightarrow> False | Some s \<Rightarrow> sp_Target s = subject \<or> sp_Actor s = subject)
          (GetEventsByService (nw_SyncLedger net) ServiceSocial))"

text \<open>\<open>min\<close> and \<open>max\<close> of the restart numbers, which start at the first.\<close>

definition spread_restarts :: "ObservationRecord list \<Rightarrow> int" where
  "spread_restarts observations =
     (if length observations > 3
      then let nums = map or_RestartNum observations;
               minRestart = foldl (\<lambda>m n. if n < m then n else m) (hd nums) nums;
               maxRestart = foldl (\<lambda>m n. if n > m then n else m) (hd nums) nums
           in if i64 (maxRestart - minRestart) > 5 then 1 else 0
      else 0)"

definition opinion_detail :: "go_env \<Rightarrow> clock \<Rightarrow> NaraName \<Rightarrow> nara_net \<Rightarrow> projection_detail" where
  "opinion_detail G T subject net =
     (let observations = GetObservationsFor (pj_state (nn_opinion net)) subject
      in OpinionDetail (DeriveOpinion G (ck_sec T) (nw_SyncLedger net) (pj_state (nn_opinion net)) subject) observations
           (spread_restarts observations))"

definition inspectorProjectionDetailHandler ::
  "go_env \<Rightarrow> clock \<Rightarrow> string \<Rightarrow> nara_net \<Rightarrow> projection_detail option http_response go" where
  "inspectorProjectionDetailHandler G T url net =
     (let path = trim_prefix url ''/api/inspector/projection/''
      in case string_index path ''/'' of
           None \<Rightarrow> Inr (http_error 400)
         | Some i \<Rightarrow>
             let projectionType = take i path; subject = drop (i + 1) path
             in if projectionType = ''online_status'' then go_bind (online_detail T subject net) (\<lambda>d. Inr (inspector_json d))
                else if projectionType = ''clout'' then Inr (inspector_json (clout_detail G T subject net))
                else if projectionType = ''opinion'' then Inr (inspector_json (opinion_detail G T subject net))
                else Inr (http_error 400))"

section \<open>One event\<close>

record event_detail =
  ed_event :: SyncEvent
  ed_is_signed :: bool
  ed_signature_valid :: bool
  ed_public_key_known :: bool
  ed_verification_error :: "string option"
  ed_event_index :: int
  ed_total_events :: int
  ed_age_seconds :: int

definition detail_lookup :: "go_env \<Rightarrow> peers \<Rightarrow> NaraID \<Rightarrow> NaraName \<Rightarrow> nara_net \<Rightarrow> (string option \<times> nara_net) go" where
  "detail_lookup G P i name net =
     (case (if i \<noteq> [] then Neighbourhood.getPublicKeyForNaraID net i else None) of
        Some key \<Rightarrow> Inr (Some key, net)
      | None \<Rightarrow> if name \<noteq> [] then resolvePublicKeyForNara G P name net else Inr (None, net))"

text \<open>Whether the key is known, and what the lookup during the verification gives; it asks peers for an unknown emitter.\<close>

definition parses :: "go_env \<Rightarrow> string \<Rightarrow> bool" where
  "parses G key \<longleftrightarrow> key \<noteq> [] \<and> ParsePublicKey G key \<noteq> None"

definition verify_event_detail :: "go_env \<Rightarrow> peers \<Rightarrow> SyncEvent \<Rightarrow> nara_net \<Rightarrow> (bool \<times> bool \<times> nara_net) go" where
  \<comment> \<open>the signature is valid, the key is known\<close>
  "verify_event_detail G P e net =
     (case Payload e of
        Some (PHeyThere (Some h)) \<Rightarrow>
          go_bind (event_Verify G e (Some (key_by_id net))) (\<lambda>valid. Inr (valid, parses G (ht_PublicKey h), net))
      | Some (PChau (Some c)) \<Rightarrow>
          go_bind (event_Verify G e (Some (key_by_id net))) (\<lambda>valid. Inr (valid, parses G (ch_PublicKey c), net))
      | Some (PCheckpoint (Some c)) \<Rightarrow>
          go_bind (event_Verify G e (Some (key_by_id net))) (\<lambda>valid.
            Inr (valid, list_ex (\<lambda>voterID. key_by_id net voterID [] \<noteq> None) (cp_VoterIDs c), net))
      | Some (PHeyThere None) \<Rightarrow> Inl NilDereference
      | Some (PChau None) \<Rightarrow> Inl NilDereference
      | Some (PCheckpoint None) \<Rightarrow> Inl NilDereference
      | _ \<Rightarrow>
          go_bind (detail_lookup G P (EmitterID e) (Emitter e) net) (\<lambda>(key, net1).
          if Payload e = None then Inr (False, key \<noteq> None, net1)
          else go_bind (detail_lookup G P (EmitterID e) (Emitter e) net1) (\<lambda>(key2, net2).
               go_bind (event_Verify G e (Some (\<lambda>i name. key2))) (\<lambda>valid. Inr (valid, key \<noteq> None, net2)))))"

fun index_of :: "('a \<Rightarrow> bool) \<Rightarrow> 'a list \<Rightarrow> nat option" where
  "index_of P [] = None"
| "index_of P (x # xs) = (if P x then Some 0 else map_option Suc (index_of P xs))"

definition inspectorEventDetailHandler ::
  "go_env \<Rightarrow> peers \<Rightarrow> clock \<Rightarrow> string \<Rightarrow> nara_net \<Rightarrow> (event_detail option http_response \<times> nara_net) go" where
  "inspectorEventDetailHandler G P T path net =
     (let eventID = trim_prefix path ''/api/inspector/event/''; evs = Events (nw_SyncLedger net)
      in if eventID = [] then Inr (http_error 400, net)
         else case index_of (\<lambda>e. ID e = eventID) evs of
                None \<Rightarrow> Inr (http_error 404, net)
              | Some i \<Rightarrow>
                  let e = evs ! i
                  in go_bind (if IsSigned e then verify_event_detail G P e net else Inr (False, False, net)) (\<lambda>(valid, known, net1).
                       Inr (inspector_json
                         \<lparr>ed_event = e, ed_is_signed = IsSigned e, ed_signature_valid = valid, ed_public_key_known = known,
                          ed_verification_error =
                            (if \<not> IsSigned e \<or> valid then None
                             else Some (if known then ''signature verification failed'' else ''public key not found for emitter'')),
                          ed_event_index = int i, ed_total_events = int (length evs),
                          ed_age_seconds = i64 (ck_nano T - Timestamp e) sdiv 1000000000\<rparr>, net1)))"

section \<open>Uptime\<close>

record UptimePeriod =
  up_Type :: string
  up_StartTime :: int
  up_EndTime :: int
  up_Duration :: int
  up_Ongoing :: bool

record statusEvent =
  su_timestamp :: int
  su_status :: string
  su_source :: string

definition latest_checkpoint_about :: "NaraName \<Rightarrow> SyncEvent list \<Rightarrow> CheckpointEventPayload option" where
  "latest_checkpoint_about subject evs =
     foldl (\<lambda>best e. case (if Service e = ServiceCheckpoint then Checkpoint e else None) of
         None \<Rightarrow> best
       | Some c \<Rightarrow> if cp_Subject c = subject \<and> (case best of None \<Rightarrow> True | Some b \<Rightarrow> cp_AsOfTime c > cp_AsOfTime b) then Some c else best)
       None evs"

definition last_backfill_about :: "NaraName \<Rightarrow> SyncEvent list \<Rightarrow> ObservationEventPayload option" where
  "last_backfill_about subject evs =
     foldl (\<lambda>found e. case (if Service e = ServiceObservation then Observation e else None) of
         None \<Rightarrow> found
       | Some q \<Rightarrow> if ob_Subject q = subject \<and> ob_IsBackfill q then Some q else found) None evs"

definition status_of_event :: "NaraName \<Rightarrow> SyncEvent \<Rightarrow> statusEvent option" where
  "status_of_event subject e =
     (let status_event = (\<lambda>status source. Some \<lparr>su_timestamp = Timestamp e, su_status = status, su_source = source\<rparr>) in
      if Service e = ServiceHeyThere
      then (case HeyThere e of None \<Rightarrow> None | Some h \<Rightarrow> if ht_From h = subject then status_event ''online'' ''hey_there'' else None)
      else if Service e = ServiceChau
      then (case Chau e of None \<Rightarrow> None | Some c \<Rightarrow> if ch_From c = subject then status_event ''offline'' ''chau'' else None)
      else if Service e = ServiceObservation
      then (case Observation e of
              None \<Rightarrow> None
            | Some q \<Rightarrow>
                if ob_Subject q \<noteq> subject then None
                else if ob_Type q = ''status-change''
                then status_event (if ob_OnlineState q = ''ONLINE'' then ''online'' else ''offline'') (''observation:'' @ ob_Type q)
                else if ob_Type q = ''restart'' \<or> ob_Type q = ''first-seen'' then status_event ''online'' (''observation:'' @ ob_Type q)
                else None)
      else None)"

definition event_sec :: "statusEvent \<Rightarrow> int" where
  "event_sec e = su_timestamp e sdiv 1000000000"

definition closed_period :: "string \<Rightarrow> int \<Rightarrow> int \<Rightarrow> UptimePeriod" where
  "closed_period status start end1 =
     \<lparr>up_Type = status, up_StartTime = start, up_EndTime = end1, up_Duration = i64 (end1 - start), up_Ongoing = False\<rparr>"

text \<open>The periods that events close, from a status and its start on, and the status and start that are left.\<close>

fun close_periods :: "string \<Rightarrow> int \<Rightarrow> statusEvent list \<Rightarrow> UptimePeriod list \<times> string \<times> int" where
  "close_periods status start [] = ([], status, start)"
| "close_periods status start (e # es) =
     (if start = 0 then close_periods (su_status e) (event_sec e) es
      else if su_status e \<noteq> status
      then (case close_periods (su_status e) (event_sec e) es of (ps, s) \<Rightarrow> (closed_period status start (event_sec e) # ps, s))
      else close_periods status start es)"

definition ongoing_period :: "int \<Rightarrow> string \<Rightarrow> int \<Rightarrow> UptimePeriod list" where
  "ongoing_period now status start =
     (if start > 0
      then [\<lparr>up_Type = status, up_StartTime = start, up_EndTime = 0, up_Duration = i64 (now - start), up_Ongoing = True\<rparr>] else [])"

definition uptime_timeline :: "int \<Rightarrow> string \<Rightarrow> int \<Rightarrow> statusEvent list \<Rightarrow> UptimePeriod list" where
  "uptime_timeline now status start es =
     (case close_periods status start es of (ps, status1, start1) \<Rightarrow> ps @ ongoing_period now status1 start1)"

record uptime_answer =
  ua_subject :: NaraName
  ua_periods :: "UptimePeriod list"
  ua_total_uptime :: int
  ua_baseline_source :: string

definition historical_period :: "CheckpointEventPayload option \<Rightarrow> UptimePeriod list" where
  "historical_period checkpoint =
     (case checkpoint of
        None \<Rightarrow> []
      | Some c \<Rightarrow>
          if no_TotalUptime (cp_Observation c) > 0
          then [\<lparr>up_Type = ''historical'', up_StartTime = no_StartTime (cp_Observation c), up_EndTime = cp_AsOfTime c,
                up_Duration = no_TotalUptime (cp_Observation c), up_Ongoing = False\<rparr>]
          else [])"

definition inspectorUptimeHandler :: "go_env \<Rightarrow> clock \<Rightarrow> string \<Rightarrow> nara_net \<Rightarrow> uptime_answer option http_response" where
  "inspectorUptimeHandler G T path net =
     (let subject = trim_prefix path ''/api/inspector/uptime/''; evs = Events (nw_SyncLedger net);
          checkpoint = latest_checkpoint_about subject evs; backfill = last_backfill_about subject evs;
          ses = sort_slice (sort_perm G) (\<lambda>x y. su_timestamp x < su_timestamp y) (List.map_filter (status_of_event subject) evs);
          filtered = (case checkpoint of None \<Rightarrow> ses | Some c \<Rightarrow> filter (\<lambda>e. event_sec e > cp_AsOfTime c) ses);
          (baseline, status, start) =
            (case checkpoint of
               Some c \<Rightarrow> (''checkpoint'', ''online'', cp_AsOfTime c)
             | None \<Rightarrow> (case backfill of Some b \<Rightarrow> (''backfill'', ''online'', ob_StartTime b) | None \<Rightarrow> ([], [], 0)))
      in if subject = [] then http_error 400
         else inspector_json
           \<lparr>ua_subject = subject,
            ua_periods = rev (historical_period checkpoint @ uptime_timeline (ck_sec T) status start filtered),
            ua_total_uptime = DeriveTotalUptime G (ck_sec T) (nw_SyncLedger net) subject, ua_baseline_source = baseline\<rparr>)"

end
