(* ===== verification/Inspector_Properties.thy ===== *)
theory Inspector_Properties
  imports Inspector Presence_Properties
begin

text \<open>
  Properties of the inspector: the two pages about checkpoints agree on the votes that verify, and the timeline of a nara
  covers the time since its baseline without gaps.
\<close>

lemma trim_prefix_append: "trim_prefix (p @ s) p = s"
  by (simp add: trim_prefix_def has_prefix_def)

lemma inspector_json_eq [simp]: "inspector_json a = inspector_json b \<longleftrightarrow> a = b"
  by (simp add: inspector_json_def)

section \<open>Votes\<close>

text \<open>The name of the attester, which only the detail page fills in, is not part of the signed content.\<close>

lemma voter_info_verified:
  assumes "i < length (cp_VoterIDs c)" and "length (cp_VoterIDs c) = length (cp_Signatures c)"
  shows "vi_Verified (voter_info G net c i) \<longleftrightarrow> voter_valid G (key_by_id net) c (cp_VoterIDs c ! i, cp_Signatures c ! i)"
proof -
  have s: "attestation_SignableContent \<lparr>at_Version = v, at_Subject = s, at_SubjectID = si, at_Observation = ob, at_Attester = name,
      at_AttesterID = ai, at_LastSeenCheckpointID = lc, at_AsOfTime = at0, at_Signature = sg\<rparr> =
    attestation_SignableContent \<lparr>at_Version = v, at_Subject = s, at_SubjectID = si, at_Observation = ob, at_Attester = [],
      at_AttesterID = ai, at_LastSeenCheckpointID = lc, at_AsOfTime = at0, at_Signature = sg\<rparr>" for v s si ob name ai lc at0 sg
    by (simp add: attestation_SignableContent_def Let_def)
  show ?thesis
  proof (cases "Neighbourhood.getPublicKeyForNaraID net (cp_VoterIDs c ! i)")
    case None
    then show ?thesis by (simp add: voter_info_def voter_valid_def key_by_id_def Let_def)
  next
    case (Some k)
    then show ?thesis
      using assms s [of _ _ _ _ "voter_name net c (cp_VoterIDs c ! i)"]
      by (simp add: voter_info_def voter_valid_def key_by_id_def voter_verifies_def voter_attestation_def Let_def)
  qed
qed

lemma zip_nth: "length xs = length ys \<Longrightarrow> map (\<lambda>i. (xs ! i, ys ! i)) [0..<length xs] = zip xs ys"
  by (rule nth_equalityI) simp_all

lemma verified_voters:
  assumes "length (cp_VoterIDs c) = length (cp_Signatures c)"
  shows "length (filter vi_Verified (map (voter_info G net c) [0..<length (cp_VoterIDs c)])) =
    length (filter (voter_valid G (key_by_id net) c) (zip (cp_VoterIDs c) (cp_Signatures c)))"
proof -
  have "filter (\<lambda>i. vi_Verified (voter_info G net c i)) [0..<length (cp_VoterIDs c)] =
      filter (\<lambda>i. voter_valid G (key_by_id net) c (cp_VoterIDs c ! i, cp_Signatures c ! i)) [0..<length (cp_VoterIDs c)]"
    by (rule filter_cong) (simp_all add: voter_info_verified assms)
  then show ?thesis
    using arg_cong [OF zip_nth [OF assms], of "\<lambda>zs. length (filter (voter_valid G (key_by_id net) c) zs)"]
    by (simp add: filter_map comp_def)
qed

text \<open>
  C39: The two pages of the inspector agree about a checkpoint. For a checkpoint with as many signatures as voters, the number of
  verified voters that the detail page counts, vote by vote, is the one that the verification of the checkpoint
  gives and the list shows.
\<close>

theorem inspector_pages_agree:
  assumes "subject \<noteq> []" and "GetCheckpointEvent (nw_SyncLedger net) subject = Some e" and "Checkpoint e = Some c"
    and "length (cp_VoterIDs c) = length (cp_Signatures c)"
  shows "\<exists>d. inspectorCheckpointDetailHandler G (''/api/inspector/checkpoint/'' @ subject) net = Inr (inspector_json d) \<and>
    cd_event d = e \<and> cd_total_voters d = cs_VoterCount (checkpoint_summary G net c) \<and>
    cd_verified_voters d = cs_VerifiedCount (checkpoint_summary G net c) \<and>
    (cs_Verified (checkpoint_summary G net c) \<longleftrightarrow> cd_verified_voters d \<ge> MinCheckpointSignatures)"
  unfolding inspectorCheckpointDetailHandler_def trim_prefix_append
  using assms verified_voters [OF assms(4), of G net]
  by (simp add: checkpoint_summary_def VerifySignatureWithCounts_def count_voters_eq Let_def)

section \<open>Timelines\<close>

fun consecutive :: "UptimePeriod list \<Rightarrow> bool" where
  "consecutive [] = True"
| "consecutive [p] = True"
| "consecutive (p # q # ps) \<longleftrightarrow>
     \<not> up_Ongoing p \<and> up_EndTime p = up_StartTime q \<and> up_Type p \<noteq> up_Type q \<and> consecutive (q # ps)"

definition covers :: "int \<Rightarrow> int \<Rightarrow> UptimePeriod list \<Rightarrow> bool" where
  "covers start now ps \<longleftrightarrow>
     ps \<noteq> [] \<and> up_StartTime (hd ps) = start \<and> up_Ongoing (List.last ps) \<and> consecutive ps \<and>
     (\<forall>p \<in> set (butlast ps). 0 \<le> up_Duration p) \<and> up_Duration (List.last ps) = now - up_StartTime (List.last ps) \<and>
     sum_list (map up_Duration ps) = now - start"

lemma i64_diff: "0 \<le> a \<Longrightarrow> in_i64 a \<Longrightarrow> 0 \<le> b \<Longrightarrow> in_i64 b \<Longrightarrow> i64 (b - a) = b - a"
  by (rule i64_id) (auto simp: in_i64_def)

lemma uptime_timeline_covers:
  assumes "0 < start" and "in_i64 start" and "0 \<le> now" and "in_i64 now" and "sorted (map event_sec es)"
    and "\<forall>e \<in> set es. start \<le> event_sec e \<and> in_i64 (event_sec e)"
  shows "covers start now (uptime_timeline now status start es) \<and> up_Type (hd (uptime_timeline now status start es)) = status \<and>
    up_StartTime (List.last (uptime_timeline now status start es)) \<in> insert start (event_sec ` set es)"
  using assms
proof (induction es arbitrary: status start)
  case Nil
  then show ?case by (simp add: covers_def uptime_timeline_def ongoing_period_def i64_diff)
next
  case (Cons e es)
  show ?case
  proof (cases "su_status e = status")
    case True
    then show ?thesis using Cons.IH [of start status] Cons.prems by (auto simp: uptime_timeline_def)
  next
    case False
    let ?t = "event_sec e" and ?ps = "uptime_timeline now (su_status e) (event_sec e) es"
    have t: "0 < ?t" "start \<le> ?t" "in_i64 ?t" using Cons.prems by auto
    have ps: "covers ?t now ?ps" "up_Type (hd ?ps) = su_status e" "up_StartTime (List.last ?ps) \<in> insert ?t (event_sec ` set es)"
      using Cons.IH [of ?t "su_status e"] Cons.prems t by auto
    have eq: "uptime_timeline now status start (e # es) = closed_period status start ?t # ?ps"
      using False Cons.prems(1) by (simp add: uptime_timeline_def split: prod.split)
    obtain q qs where q: "?ps = q # qs" using ps(1) by (cases ?ps) (auto simp: covers_def)
    have d: "i64 (?t - start) = ?t - start" using i64_diff [of start ?t] Cons.prems(1,2) t by simp
    show ?thesis unfolding eq using ps q False t(2) d
      by (auto simp: covers_def closed_period_def)
  qed
qed

lemma sdiv_giga: "x sdiv 1000000000 = (if 0 \<le> x then x div 1000000000 else - (- x div (1000000000 :: int)))"
  by (cases x rule: linorder_cases [of _ 0]) (simp_all add: signed_divide_int_def)

lemma sdiv_mono: "a \<le> b \<Longrightarrow> a sdiv 1000000000 \<le> b sdiv (1000000000 :: int)"
proof -
  assume ab: "a \<le> b"
  have "x \<le> y \<Longrightarrow> x div 1000000000 \<le> y div 1000000000" for x y :: int by (rule zdiv_mono1) simp_all
  moreover have "0 \<le> x \<Longrightarrow> 0 \<le> x div 1000000000" for x :: int by simp
  ultimately show ?thesis using ab unfolding sdiv_giga by (smt (verit) neg_le_iff_le)
qed

lemma sorted_event_sec: "sorted (map su_timestamp es) \<Longrightarrow> sorted (map event_sec es)"
  by (induction es) (auto simp: event_sec_def sdiv_mono)

lemma sorted_filter_key: "sorted (map f xs) \<Longrightarrow> sorted (map f (filter P xs))"
  by (induction xs) auto

lemma map_filter_member: "x \<in> set (List.map_filter f xs) \<Longrightarrow> \<exists>e \<in> set xs. f e = Some x"
  by (auto simp: map_filter_def)

lemma status_of_event_time: "status_of_event subject e = Some x \<Longrightarrow> su_timestamp x = Timestamp e"
  by (auto simp: status_of_event_def Let_def split: if_splits option.splits)

lemma event_sec_range: "in_i64 (su_timestamp e) \<Longrightarrow> in_i64 (event_sec e)"
proof -
  have "0 \<le> x \<Longrightarrow> 0 \<le> x div 1000000000 \<and> x div 1000000000 \<le> x" for x :: int
  proof -
    assume "0 \<le> x"
    then have "0 \<le> x div 1000000000" by simp
    then show ?thesis using div_mult_mod_eq [of x 1000000000] pos_mod_sign [of 1000000000 x] by linarith
  qed
  from this [of "su_timestamp e"] this [of "- su_timestamp e"] show "in_i64 (su_timestamp e) \<Longrightarrow> ?thesis"
    by (auto simp: event_sec_def in_i64_def sdiv_giga)
qed

text \<open>
  C38: The timeline of a nara with a checkpoint has no gaps. After the checkpoint, whatever events the ledger holds, in whatever
  order, the periods follow one another, the first is online, each begins where the one before ends and differs from it, and
  together they last from the checkpoint until now. The closed ones last no negative time. The last one is open and lasts from the
  time of the checkpoint or of an event about the nara until now: that is negative exactly if this time is ahead of the clock.
\<close>

theorem timeline_without_gaps:
  assumes "subject \<noteq> []" and "latest_checkpoint_about subject (Events (nw_SyncLedger net)) = Some c"
    and "0 < cp_AsOfTime c" and "in_i64 (cp_AsOfTime c)" and "0 \<le> ck_sec T" and "in_i64 (ck_sec T)"
    and "\<forall>e \<in> set (Events (nw_SyncLedger net)). in_i64 (Timestamp e)" and "sort_algorithm (sort_perm G)"
  shows "\<exists>a ps. inspectorUptimeHandler G T (''/api/inspector/uptime/'' @ subject) net = inspector_json a \<and>
    ua_periods a = rev (historical_period (Some c) @ ps) \<and> covers (cp_AsOfTime c) (ck_sec T) ps \<and> up_Type (hd ps) = ''online'' \<and>
    (up_StartTime (List.last ps) = cp_AsOfTime c \<or>
     (\<exists>e \<in> set (Events (nw_SyncLedger net)). status_of_event subject e \<noteq> None \<and> up_StartTime (List.last ps) = Timestamp e sdiv 1000000000))"
proof -
  let ?evs = "Events (nw_SyncLedger net)" and ?now = "ck_sec T"
  let ?ses = "sort_slice (sort_perm G) (\<lambda>x y. su_timestamp x < su_timestamp y) (List.map_filter (status_of_event subject) ?evs)"
  let ?fs = "filter (\<lambda>e. event_sec e > cp_AsOfTime c) ?ses" and ?ps = "uptime_timeline (ck_sec T) ''online'' (cp_AsOfTime c)"
  have "set ?ses = set (List.map_filter (status_of_event subject) ?evs)"
    by (rule sort_algorithm.set_sort_slice [OF assms(8)])
  then have from_ledger: "\<exists>e \<in> set ?evs. status_of_event subject e \<noteq> None \<and> su_timestamp x = Timestamp e" if "x \<in> set ?ses" for x
    using that map_filter_member [of x "status_of_event subject" ?evs] status_of_event_time by fastforce
  then have range: "\<forall>x \<in> set ?ses. in_i64 (event_sec x)" using assms(7) event_sec_range by metis
  have "sorted (map su_timestamp ?ses)" by (rule sort_algorithm.sorted_sort_slice_key [OF assms(8)])
  then have "sorted (map event_sec ?fs)" by (intro sorted_event_sec sorted_filter_key)
  then have "covers (cp_AsOfTime c) ?now (?ps ?fs) \<and> up_Type (hd (?ps ?fs)) = ''online'' \<and>
      up_StartTime (List.last (?ps ?fs)) \<in> insert (cp_AsOfTime c) (event_sec ` set ?fs)"
    using range by (intro uptime_timeline_covers assms(3-6)) auto
  moreover have "\<exists>e \<in> set ?evs. status_of_event subject e \<noteq> None \<and> t = Timestamp e sdiv 1000000000" if "t \<in> event_sec ` set ?fs" for t
    using that from_ledger by (auto simp: event_sec_def) (metis option.distinct(1))
  ultimately show ?thesis unfolding inspectorUptimeHandler_def trim_prefix_append using assms(1,2) by (auto simp: Let_def)
qed

section \<open>Examples\<close>

text \<open>Lisa holds a checkpoint about bart with two votes, one of them hers, and has seen bart leave and come back.\<close>

definition demo_voted :: CheckpointEventPayload where
  "demo_voted = \<lparr>cp_Version = 2, cp_Subject = ''bart'', cp_SubjectID = ''b'', cp_PreviousCheckpointID = [],
     cp_Observation = zero_observation, cp_AsOfTime = 1000, cp_Round = 0, cp_VoterIDs = [''x'', ''y''], cp_Signatures = [[], []]\<rparr>"

definition demo_checkpoint_event :: SyncEvent where
  "demo_checkpoint_event = zero_event\<lparr>ID := ''c'', Timestamp := 1, Service := ServiceCheckpoint, Checkpoint := Some demo_voted\<rparr>"

definition demo_seen_offline :: SyncEvent where
  "demo_seen_offline = zero_event\<lparr>ID := ''o'', Timestamp := 2000 * 1000000000, Service := ServiceChau,
     Chau := Some \<lparr>ch_From = ''bart'', ch_PublicKey = [], ch_ID = [], ch_Signature = []\<rparr>\<rparr>"

definition demo_inspected :: nara_net where
  "demo_inspected = Presence_Properties.demo_net
     \<lparr>nw_SyncLedger := (nw_SyncLedger Presence_Properties.demo_net)\<lparr>Events := [demo_checkpoint_event, demo_seen_offline]\<rparr>\<rparr>"

lemma demo_inspected_events [simp]: "Events (nw_SyncLedger demo_inspected) = [demo_checkpoint_event, demo_seen_offline]"
  by (simp add: demo_inspected_def)

lemma demo_inspected_checkpoint:
  "GetCheckpointEvent (nw_SyncLedger demo_inspected) ''bart'' = Some demo_checkpoint_event"
  "latest_checkpoint_about ''bart'' (Events (nw_SyncLedger demo_inspected)) = Some demo_voted"
  by (simp_all add: GetCheckpointEvent_def latest_by_def latest_step_def is_checkpoint_for_def checkpoint_time_def
      latest_checkpoint_about_def demo_checkpoint_event_def demo_seen_offline_def demo_voted_def zero_event_def)

theorem inspector_pages_agree_witness:
  "\<exists>d. inspectorCheckpointDetailHandler demo_env (''/api/inspector/checkpoint/'' @ ''bart'') demo_inspected = Inr (inspector_json d) \<and>
    cd_verified_voters d = cs_VerifiedCount (checkpoint_summary demo_env demo_inspected demo_voted)"
  using inspector_pages_agree [of "''bart''" demo_inspected demo_checkpoint_event demo_voted demo_env] demo_inspected_checkpoint(1)
  by (auto simp: demo_checkpoint_event_def demo_voted_def)

theorem timeline_without_gaps_witness:
  "\<exists>a ps. inspectorUptimeHandler demo_env demo_clock (''/api/inspector/uptime/'' @ ''bart'') demo_inspected = inspector_json a \<and>
    ua_periods a = rev (historical_period (Some demo_voted) @ ps) \<and> covers 1000 3000000 ps"
proof -
  have "\<exists>a ps. inspectorUptimeHandler demo_env demo_clock (''/api/inspector/uptime/'' @ ''bart'') demo_inspected = inspector_json a \<and>
    ua_periods a = rev (historical_period (Some demo_voted) @ ps) \<and>
    covers (cp_AsOfTime demo_voted) (ck_sec demo_clock) ps \<and> up_Type (hd ps) = ''online'' \<and>
    (up_StartTime (List.last ps) = cp_AsOfTime demo_voted \<or>
     (\<exists>e \<in> set (Events (nw_SyncLedger demo_inspected)). status_of_event ''bart'' e \<noteq> None \<and>
        up_StartTime (List.last ps) = Timestamp e sdiv 1000000000))"
    by (rule timeline_without_gaps [OF _ demo_inspected_checkpoint(2)])
      (simp_all add: demo_voted_def demo_time in_i64_def demo_checkpoint_event_def demo_seen_offline_def zero_event_def
        sort_algorithm_insertion)
  then show ?thesis by (auto simp: demo_voted_def demo_time)
qed

text \<open>
  An event that is ahead of the clock, which the ledger accepts, gives a period of negative length: five hundred seconds before
  bart goes by the time of his chau, he has been offline for minus five hundred seconds.
\<close>

theorem future_event_negative_period:
  assumes "ck_sec T = 1500"
  shows "\<exists>a p. inspectorUptimeHandler demo_env T (''/api/inspector/uptime/'' @ ''bart'') demo_inspected = inspector_json a \<and>
    p \<in> set (ua_periods a) \<and> up_Type p = ''offline'' \<and> up_Duration p = - 500"
proof -
  have s: "List.map_filter (status_of_event ''bart'') [demo_checkpoint_event, demo_seen_offline] =
      [\<lparr>su_timestamp = 2000 * 1000000000, su_status = ''offline'', su_source = ''chau''\<rparr>]"
    by (simp add: List.map_filter_def status_of_event_def demo_checkpoint_event_def demo_seen_offline_def zero_event_def)
  let ?x = "\<lparr>su_timestamp = 2000 * 1000000000, su_status = ''offline'', su_source = ''chau''\<rparr>"
  have o: "sort_slice (sort_perm demo_env) (\<lambda>x y. su_timestamp x < su_timestamp y) [?x] = [?x]"
    by (rule mset_single_iff [THEN iffD1]) (simp only: sort_algorithm.mset_sort_slice [OF sort_algorithm_demo] mset.simps)
  have t: "event_sec ?x = 2000" by (simp add: event_sec_def signed_divide_int_def)
  have p: "\<lparr>up_Type = ''offline'', up_StartTime = 2000, up_EndTime = 0, up_Duration = - 500, up_Ongoing = True\<rparr> \<in>
      set (uptime_timeline (ck_sec T) ''online'' 1000 [?x])"
    using t i64_id [of "- 500"] by (simp add: uptime_timeline_def ongoing_period_def assms in_i64_def)
  have c: "latest_checkpoint_about ''bart'' [demo_checkpoint_event, demo_seen_offline] = Some demo_voted" "cp_AsOfTime demo_voted = 1000"
    using demo_inspected_checkpoint(2) by (simp_all add: demo_voted_def)
  show ?thesis
    unfolding inspectorUptimeHandler_def Let_def trim_prefix_append demo_inspected_events s o
    using p t c by (auto simp: Let_def intro!: bexI)
qed

end
