(* ===== verification/Spec2Isabelle.thy ===== *)
theory Spec2Isabelle
  imports Query_Properties Checkpoint_Rounds Projection_Properties World_Network Stash_Properties Presence_Properties
    Backup_Properties Runtime_Network_Properties Plaza_Properties Stash_Http Log_Properties Inspector_Properties
begin

text \<open>
  Nara is a network of autonomous agents ("naras") that remember by gossip: every nara keeps a ledger
  of signed events, exchanges it with its peers, derives opinions about them from it, and agrees
  with them on checkpoints of what it would otherwise forget. This development models that program,
  a Go repository, definition by definition. Paths below are relative to \<open>src/\<close>.

  \<^bold>\<open>Conventions.\<close> Structs are records and the state of a component is a record passed through its
  operations; enums and tagged payloads are datatypes. Byte slices and Go strings are HOL strings.
  Machine integers are \<open>int\<close> with the wrap-around of \<open>int64\<close> written out where arithmetic can
  overflow (\<open>Prelude\<close>); \<open>float64\<close> is the IEEE format with its rounding (\<open>Go_Float\<close>). A panic is a
  value of the type \<open>go\<close>; errors are options or sums. Maps are partial functions, or association
  lists where their size counts; the order in which Go visits a map is a parameter. What comes from
  outside \<open>src/\<close> is a parameter too, with the laws the code relies on as named hypotheses: SHA-256,
  base64, ed25519 and the algorithm of \<open>sort.Slice\<close> (\<open>go_env\<close>, \<open>crypto_ok\<close>, \<open>sort_algorithm\<close>),
  base58, HKDF and \<open>math/rand\<close> (\<open>soul_env\<close>), \<open>json.Marshal\<close> of payloads (\<open>codec\<close>), XChaCha20-Poly1305
  (\<open>aead\<close>), the transcendental functions of \<open>math\<close> (\<open>math_env\<close>, \<open>colour_env\<close>), clocks, random draws, what the
  host and the peers answer, the broker and the mesh. Witnesses instantiate all of them with concrete functions.

  \<^bold>\<open>The parts.\<close>

  \<^item> \<open>Prelude\<close>, \<open>Go_Sort\<close>, \<open>Go_Json\<close>, \<open>Crypto\<close>: Go's control flow, integers, sorting and JSON text, and
    \<open>identity/crypto.go\<close>. The locale \<open>sort_algorithm\<close> is the contract of \<open>sort.Slice\<close>, interpreted on
    insertion sort.
  \<^item> \<open>Payloads\<close>, \<open>Sync_Event\<close>, \<open>Event_Typing\<close>: the payloads of an event, its ID, signature and
    constructors (\<open>sync_event.go\<close>, \<open>social.go\<close>, \<open>presence_heythere.go\<close>, \<open>presence_chau.go\<close>,
    \<open>identity_attestation.go\<close>), with typing and round-trip properties.
  \<^item> \<open>Rate_Limit\<close>, \<open>Sync_Ledger\<close>: the ledger of \<open>sync_ledger.go\<close>, a record of events, their ID index,
    observation limits and versions; every way to add an event, compaction, pruning and removal.
    \<open>Ledger_Invariants\<close> and \<open>Ledger_Safety\<close> hold the invariant and what each operation keeps
    (the locale \<open>ledger_adder\<close> is the contract of the operations that add, interpreted on five of
    them); \<open>Ledger_Properties\<close> the step relation of a ledger and its reachable states.
  \<^item> \<open>Ledger_Queries\<close>, \<open>Query_Properties\<close>: queries, pages, slices and samples of the ledger and the
    sync handler (\<open>sync_sampling.go\<close>, \<open>sync_request.go\<close>, \<open>http_mesh.go\<close>).
  \<^item> \<open>Consensus_Math\<close>, \<open>Checkpoint_Derive\<close>, \<open>Checkpoint_Consensus\<close>, \<open>Checkpoint_Service\<close>,
    \<open>Checkpoint_Voting\<close>, \<open>Checkpoint_Properties\<close>, \<open>Checkpoint_Rounds\<close>: the numbers a checkpoint
    states (\<open>checkpoint_types.go\<close>, \<open>consensus.go\<close>, \<open>math_helpers.go\<close>) and the protocol that agrees on
    them (\<open>checkpoint_service.go\<close>): proposals, votes, grouping, finalization, and the step relation
    of their interleavings with expiry timers.
  \<^item> \<open>Projections\<close>, \<open>Read_Models\<close>, \<open>Opinions\<close>, \<open>Projection_Properties\<close>: the incremental projections
    of \<open>projections.go\<close>, \<open>presence_projection.go\<close>, \<open>neighbourhood_opinion.go\<close> and
    \<open>projection_clout.go\<close>. The locale \<open>read_model\<close> is the contract of an event handler that explains
    its state by the events it has read; it is interpreted on the three handlers, and gives the
    refinement of the maintained state by the one computed from the ledger, as long as every pruning that starts
    removes an event (\<open>ledger_move\<close>; \<open>prune_reorder_replays\<close> shows one that does not).
  \<^item> \<open>World\<close>, \<open>World_Properties\<close>, \<open>World_Network\<close>: world journeys (\<open>world.go\<close>, \<open>world_network.go\<close>) and
    the buzz they feed. A journey is delivered with fuel; the number of naras that can be reached is
    enough, since no nara is visited twice.
  \<^item> \<open>Runtime_Messages\<close>, \<open>Runtime\<close>, \<open>Runtime_Properties\<close>: the message runtime (\<open>runtime/\<close>): stages,
    pipelines, behaviors, emitting, receiving, calls and their registry.
  \<^item> \<open>Stash\<close>, \<open>Stash_Choice\<close>, \<open>Stash_Network\<close>, \<open>Stash_Properties\<close>: encrypted storage with peers
    (\<open>services/stash/\<close>, \<open>messages/stash.go\<close>): the service and its handlers on top of an interface to
    the runtime, the choice of confidants, and two naras composed over the runtime model, so that
    a call runs through both pipelines and both handlers. A handler of a request to store checks the limit and changes the
    state under the lock twice; \<open>stash_step\<close> interleaves the two steps of any number of them.

  \<^item> \<open>Souls\<close>: who a nara is (\<open>identity/soul.go\<close>, \<open>names.go\<close>, \<open>detection.go\<close>): souls, bonds, generated names, IDs and
    the choice of the identity at start-up. \<open>Keyring\<close>: \<open>utilities/keyring/keyring.go\<close>, with the locale
    \<open>key_directory\<close>.
  \<^item> \<open>Neighbourhood\<close>, \<open>Neighbourhood_Safety\<close>: the naras a nara knows (\<open>neighbourhood_tracking.go\<close>,
    \<open>neighbourhood_queries.go\<close>, \<open>nara.go\<close>). The code reaches them through pointers that several maps share, so they
    live in a store and the maps hold indices into it.
  \<^item> \<open>Presence_State\<close>, \<open>Peer_Resolution\<close>, \<open>Social_Network\<close>, \<open>Teasing\<close>, \<open>Buzz\<close>, \<open>Presence\<close>, \<open>Ingestion\<close>,
    \<open>Observation_Status\<close>: the record of the whole network (\<open>network.go\<close>) and what changes it: the handlers of howdy,
    hey-there, newspaper, chau and social messages (\<open>presence_*.go\<close>, \<open>social_network.go\<close>), batches of events from
    peers, verification by ping, maintenance, opinion passes, ghosts and pruning (\<open>observations.go\<close>,
    \<open>neighbourhood_pruning.go\<close>, \<open>boot_backfill.go\<close>), barrios and the search for unknown peers.
  \<^item> \<open>Aura_Colours\<close>, \<open>Appearance\<close>: colours (\<open>aura.go\<close>), flair, personality and trends (\<open>flair.go\<close>,
    \<open>social_trend.go\<close>). \<open>Vivaldi\<close>, \<open>Clout\<close>: network coordinates and their maintenance (\<open>vivaldi.go\<close>,
    \<open>coordinate_maintenance.go\<close>), and the weighting of social events (\<open>projection_clout.go\<close>).
  \<^item> \<open>Local_Nara\<close>: the creation of a nara (\<open>nara.go\<close>, \<open>memory.go\<close>, \<open>sensors.go\<close>).
  \<^item> \<open>Presence_Safety\<close>, \<open>Presence_Runs\<close>, \<open>Presence_Steps\<close>, \<open>Nara_Machine\<close>, \<open>Presence_Properties\<close>: the invariant of the
    network and that every handler and every tick keeps it without a panic; the step relation of a nara over all of
    them (\<open>net_step\<close> on its network, \<open>nara_step\<close> with the journeys that pass through it, end at it and time out), its runs,
    and the properties that rest on it. A step has the condition on its message that the code does not check; the proposals and
    votes of checkpoints, the message runtime and the log have a state and runs of their own.
  \<^item> \<open>Mesh_Auth\<close>, \<open>Mesh_Client\<close>: requests between naras: their signed headers, the middleware that checks them and asks
    unknown senders who they are (\<open>transport_mesh_auth.go\<close>), and the client (\<open>mesh_client.go\<close>). The locale
    \<open>key_source\<close> is the contract of a search for a key, interpreted on \<open>resolvePublicKeyForNara\<close>.
  \<^item> \<open>Gossip\<close>, \<open>Gossip_Safety\<close>, \<open>Gossip_Properties\<close>: zines, direct messages and discovery (\<open>gossip_zine.go\<close>,
    \<open>gossip_exchange.go\<close>, \<open>gossip_discovery.go\<close>, the handlers of \<open>http_mesh.go\<close>).
  \<^item> \<open>Boot\<close>, \<open>Boot_Safety\<close>: how a nara catches up (\<open>boot_recovery.go\<close>, \<open>boot_checkpoint.go\<close>, \<open>boot_sync.go\<close>,
    \<open>boot_ledger.go\<close>, \<open>presence_starttime.go\<close>). \<open>Mesh_Properties\<close> puts a client and a server together over the mesh, with the
    paths of the mesh server and what answers on them without the middleware (\<open>http_server.go\<close>).
  \<^item> \<open>Runtime_Network\<close>, \<open>Runtime_Network_Properties\<close>: the runtime of a nara on its network (\<open>runtime_adapters.go\<close>,
    \<open>runtime_integration.go\<close>, \<open>http_mesh_message.go\<close>): the adapters that instantiate the interfaces of the runtime with the
    record of the network, and the endpoint that messages come in by, behind the middleware of the mesh. The properties
    follow a message from the emitter to the handler of another nara, and say what can change a nara, and a stash, and what
    cannot be told apart from a new message. \<open>Stash_Http\<close>: the handlers of \<open>http_stash.go\<close> and \<open>network_context.go\<close>.
  \<^item> \<open>Plaza\<close>, \<open>Plaza_Properties\<close>: what comes in over MQTT (\<open>transport_mqtt.go\<close>): the handlers of the topics, the
    bounded inboxes, and the step relation of arrivals, the loops that empty the inboxes and everything else.
  \<^item> \<open>Log_Events\<close>, \<open>Log_Service\<close>, \<open>Log_Properties\<close>: the texts of events (\<open>UIFormat\<close>, \<open>LogFormat\<close>, \<open>ToLogEvent\<close>) and the
    log service (\<open>logservice.go\<close>) with its channel, batches and verbose groups, and the step relation of its runs, until it
    is stopped and after.
    \<open>Inspector\<close>, \<open>Inspector_Properties\<close>: the handlers of \<open>http_inspector.go\<close>.
  \<^item> \<open>Backup\<close>, \<open>Backup_Properties\<close>: the import handler (\<open>http_import.go\<close>) and the tool that dumps and restores events
    (\<open>cmd/nara-backup/\<close>).

  \<^bold>\<open>What the lemmas show.\<close> For each component an invariant that every operation keeps; the result of
  an operation on each branch; where an incremental or optimised routine exists, that it refines or
  equals the plain one; that loops end; that what is encoded, signed or stored comes back; and,
  where the code does something its comments do not say, a theorem that states what it does.

  \<^bold>\<open>Bounds.\<close> The only fuel is that of the delivery of a journey, see above, that of the loops of a
  client over pages, which the number of events bounds if the server is honest (\<open>endless_cursor\<close> if it is
  not), and that of trimming white space, bounded by the length of the string. All other recursions are on lists or
  have a measure.

  \<^bold>\<open>Not modelled.\<close> Locks and goroutines, except where an interleaving is a step relation (checkpoint
  rounds, the handlers of requests to store, the loop and the flush of the log, inboxes and the steps of a nara, each of them atomic) or an arbitrary order of answers (gossip, boot);
  the waits and timers between steps; network, HTTP, MQTT and file I/O, whose results are parameters; the text of JSON
  bodies, which travel as the values they encode; the pages other than the inspector and the
  stash; the runtime's reflection,
  whose result is a parameter; the flags and workers of the command-line tools. Reading the
  clock twice within one handler gives one value.
\<close>

end
